(* ===== verification/Go_Prelude.thy ===== *)
theory Go_Prelude
  imports Complex_Main "HOL-Library.Word" "HOL-Library.AList" "HOL-Library.List_Lexorder" "HOL-Library.Char_ord"
begin

text \<open>
  The part of Go that the components share: 64-bit integers, \<open>time\<close>, errors, byte strings
  and finite maps.

  \<^item> A Go \<open>string\<close> is a list of bytes, so it is a HOL \<^typ>\<open>string\<close>; \<open><\<close> on strings is
    the bytewise lexicographic order, as \<open>strings.Compare\<close> is.
  \<^item> \<open>time.Time\<close> is the number of nanoseconds since Go's zero time, so \<open>IsZero\<close> is \<open>= 0\<close>,
    \<open>a.After(b)\<close> is \<open>b < a\<close> and \<open>t.Add(d)\<close> is \<open>t + d\<close>. \<open>time.Duration\<close> is a signed
    64-bit number of nanoseconds, kept as an \<^typ>\<open>int\<close>; where the code multiplies durations the
    wrap-around is written out with \<open>wrap64\<close>, and \<open>Sub\<close> saturates as in Go.
  \<^item> A Go error is a value of \<open>error\<close>; \<open>nil\<close> is \<^const>\<open>None\<close>.
  \<^item> A Go map that is iterated over is an association list with distinct keys whose order is
    the iteration order, which Go leaves open.
\<close>

named_theorems go_simps \<open>evaluation rules of the Go library functions\<close>
named_theorems pool_simps \<open>unfolding rules of the account pool\<close>
named_theorems keyed_simps \<open>lookup and key rules of association lists\<close>

section \<open>Integers and time\<close>

type_synonym time = int
type_synonym duration = int

definition wrap64 :: "int \<Rightarrow> int" where
  "wrap64 x = (x + 2 ^ 63) mod 2 ^ 64 - 2 ^ 63"

lemma wrap64_id [go_simps]: "- (2 ^ 63) \<le> x \<Longrightarrow> x < 2 ^ 63 \<Longrightarrow> wrap64 x = x"
  by (simp add: wrap64_def)

lemma wrap64_bounds: "- (2 ^ 63) \<le> wrap64 x \<and> wrap64 x < 2 ^ 63"
proof -
  have "0 \<le> (x + 2 ^ 63) mod 2 ^ 64" and "(x + 2 ^ 63) mod 2 ^ 64 < (2 ^ 64 :: int)"
    by simp_all
  then show ?thesis by (simp add: wrap64_def)
qed

definition time_sub :: "time \<Rightarrow> time \<Rightarrow> duration" where
  "time_sub a b = max (- (2 ^ 63)) (min (2 ^ 63 - 1) (a - b))"

abbreviation Second :: duration where "Second \<equiv> 1000000000"
abbreviation Minute :: duration where "Minute \<equiv> 60000000000"
abbreviation Hour :: duration where "Hour \<equiv> 3600000000000"

text \<open>Seconds between Go's zero time and the Unix epoch.\<close>

definition unix_to_internal :: int where
  "unix_to_internal = 62135596800"

definition time_unix :: "int \<Rightarrow> time" where
  "time_unix sec = wrap64 (sec + unix_to_internal) * Second"

definition unix_seconds :: "time \<Rightarrow> int" where
  "unix_seconds t = t div Second - unix_to_internal"

definition unix_nano :: "time \<Rightarrow> int" where
  "unix_nano t = wrap64 (t - unix_to_internal * Second)"

definition time_of_nano :: "int \<Rightarrow> time" where
  "time_of_nano n = n + unix_to_internal * Second"

definition unix_milli :: "time \<Rightarrow> int" where
  "unix_milli t = t div 1000000 - unix_to_internal * 1000"

lemma time_of_unix_nano:
  assumes "- (2 ^ 63) \<le> t - unix_to_internal * Second" "t - unix_to_internal * Second < 2 ^ 63"
  shows "time_of_nano (unix_nano t) = t"
  using assms by (simp add: time_of_nano_def unix_nano_def wrap64_id)

lemma time_sub_pos [simp]: "0 < time_sub a b \<longleftrightarrow> b < a"
  by (auto simp: time_sub_def max_def min_def)

section \<open>Errors\<close>

datatype error =
    ErrNoAccount
  | ErrAccountBusy
  | ErrCacheMiss
  | ErrRedisDisabled
  | ErrInvalidCredentials
  | DeadlineExceeded
  | Canceled
  | ErrText string
  | Wrapped string error
  | Joined "error list"

text \<open>\<open>errors.Is\<close>: the error itself, or one it wraps.\<close>

fun errors_is :: "error \<Rightarrow> error \<Rightarrow> bool" where
  "errors_is (Wrapped s e) target = (Wrapped s e = target \<or> errors_is e target)"
| "errors_is (Joined es) target = (Joined es = target \<or> (\<exists>e \<in> set es. errors_is e target))"
| "errors_is e target = (e = target)"

text \<open>\<open>err.Error()\<close>.\<close>

fun error_text :: "error \<Rightarrow> string" where
  "error_text (ErrText s) = s"
| "error_text (Wrapped s e) = s @ '': '' @ error_text e"
| "error_text (Joined []) = ''''"
| "error_text (Joined (e # es)) = error_text e @ (if es = [] then '''' else [CHR 0x0A] @ error_text (Joined es))"
| "error_text ErrNoAccount = ''no eligible upstream account''"
| "error_text ErrAccountBusy = ''account concurrency limit is currently full''"
| "error_text ErrCacheMiss = ''cache miss''"
| "error_text ErrRedisDisabled = ''Redis is disabled''"
| "error_text ErrInvalidCredentials = ''invalid administrator credentials''"
| "error_text DeadlineExceeded = ''context deadline exceeded''"
| "error_text Canceled = ''context canceled''"

text \<open>\<open>errors.Join\<close> of two errors: \<open>nil\<close> when both are.\<close>

definition errors_join :: "error option \<Rightarrow> error option \<Rightarrow> error option" where
  "errors_join a b =
     (case (a, b) of
        (None, None) \<Rightarrow> None
      | (Some x, None) \<Rightarrow> Some (Joined [x])
      | (None, Some y) \<Rightarrow> Some (Joined [y])
      | (Some x, Some y) \<Rightarrow> Some (Joined [x, y]))"

lemma errors_join_None [simp]: "errors_join a b = None \<longleftrightarrow> a = None \<and> b = None"
  by (auto simp: errors_join_def split: option.splits)

lemma errors_join_is:
  "errors_join a b = Some e \<Longrightarrow> errors_is e target \<longleftrightarrow>
     Joined (case_option [] (\<lambda>x. [x]) a @ case_option [] (\<lambda>x. [x]) b) = target
     \<or> (\<exists>x. (a = Some x \<or> b = Some x) \<and> errors_is x target)"
  by (auto simp: errors_join_def split: option.splits)

section \<open>Early returns\<close>

text \<open>\<open>if err != nil { return err }\<close>: go on with the value and the state of a call that succeeded.\<close>

definition try_do :: "('e + 'a) \<times> 'w \<Rightarrow> ('a \<Rightarrow> 'w \<Rightarrow> ('e + 'b) \<times> 'w) \<Rightarrow> ('e + 'b) \<times> 'w" where
  "try_do r f = (case r of (Inl e, w) \<Rightarrow> (Inl e, w) | (Inr x, w) \<Rightarrow> f x w)"

definition on_err :: "('e \<Rightarrow> 'f) \<Rightarrow> ('e + 'a) \<times> 'w \<Rightarrow> ('f + 'a) \<times> 'w" where
  "on_err g r = (case r of (Inl e, w) \<Rightarrow> (Inl (g e), w) | (Inr x, w) \<Rightarrow> (Inr x, w))"

lemma try_do_simps [simp]: "try_do (Inl e, w) f = (Inl e, w)" "try_do (Inr x, w) f = f x w"
  by (simp_all add: try_do_def)

lemma on_err_simps [simp]: "on_err g (Inl e, w) = (Inl (g e), w)" "on_err g (Inr x, w) = (Inr x, w)"
  by (simp_all add: on_err_def)

lemma try_do_Inr: "try_do r f = (Inr y, w') \<longleftrightarrow> (\<exists>x w. r = (Inr x, w) \<and> f x w = (Inr y, w'))"
  by (auto simp: try_do_def split: prod.splits sum.splits)

lemma on_err_Inr: "on_err g r = (Inr y, w') \<longleftrightarrow> r = (Inr y, w')"
  by (auto simp: on_err_def split: prod.splits sum.splits)

lemma snd_on_err [simp]: "snd (on_err g r) = snd r"
  by (simp add: on_err_def split: prod.splits sum.splits)

section \<open>Byte strings\<close>

text \<open>The UTF-8 encodings of the runes for which \<open>unicode.IsSpace\<close> holds.\<close>

definition space_encodings :: "string list" where
  "space_encodings =
     [[CHR 0x09], [CHR 0x0A], [CHR 0x0B], [CHR 0x0C], [CHR 0x0D], [CHR 0x20],
      [CHR 0xC2, CHR 0x85], [CHR 0xC2, CHR 0xA0], [CHR 0xE1, CHR 0x9A, CHR 0x80],
      [CHR 0xE2, CHR 0x80, CHR 0x80], [CHR 0xE2, CHR 0x80, CHR 0x81], [CHR 0xE2, CHR 0x80, CHR 0x82],
      [CHR 0xE2, CHR 0x80, CHR 0x83], [CHR 0xE2, CHR 0x80, CHR 0x84], [CHR 0xE2, CHR 0x80, CHR 0x85],
      [CHR 0xE2, CHR 0x80, CHR 0x86], [CHR 0xE2, CHR 0x80, CHR 0x87], [CHR 0xE2, CHR 0x80, CHR 0x88],
      [CHR 0xE2, CHR 0x80, CHR 0x89], [CHR 0xE2, CHR 0x80, CHR 0x8A], [CHR 0xE2, CHR 0x80, CHR 0xA8],
      [CHR 0xE2, CHR 0x80, CHR 0xA9], [CHR 0xE2, CHR 0x80, CHR 0xAF], [CHR 0xE2, CHR 0x81, CHR 0x9F],
      [CHR 0xE3, CHR 0x80, CHR 0x80]]"

text \<open>Remove leading occurrences of the given encodings, as often as one matches.\<close>

function strip_lead :: "string list \<Rightarrow> string \<Rightarrow> string" where
  "strip_lead encs s =
     (case find (\<lambda>e. e \<noteq> [] \<and> take (length e) s = e) encs of
        None \<Rightarrow> s
      | Some e \<Rightarrow> strip_lead encs (drop (length e) s))"
  by pat_completeness auto
termination
proof (relation "measure (\<lambda>(encs, s). length s)")
  fix encs s e
  assume "find (\<lambda>e. e \<noteq> [] \<and> take (length e) s = e) encs = Some e"
  then have "e \<noteq> []" and "take (length e) s = e"
    by (auto simp: find_Some_iff)
  then have "s \<noteq> []" by auto
  with \<open>e \<noteq> []\<close> show "((encs, drop (length e) s), (encs, s)) \<in> measure (\<lambda>(encs, s). length s)"
    by simp
qed simp

declare strip_lead.simps [simp del]
lemmas [go_simps] = strip_lead.simps

definition TrimSpace :: "string \<Rightarrow> string" where
  "TrimSpace s = rev (strip_lead (map rev space_encodings) (rev (strip_lead space_encodings s)))"

definition TrimRight :: "string \<Rightarrow> char \<Rightarrow> string" where
  "TrimRight s c = rev (dropWhile (\<lambda>d. d = c) (rev s))"

definition TrimLeft :: "string \<Rightarrow> char \<Rightarrow> string" where
  "TrimLeft s c = dropWhile (\<lambda>d. d = c) s"

definition HasPrefix :: "string \<Rightarrow> string \<Rightarrow> bool" where
  "HasPrefix s p \<longleftrightarrow> take (length p) s = p"

definition HasSuffix :: "string \<Rightarrow> string \<Rightarrow> bool" where
  "HasSuffix s p \<longleftrightarrow> HasPrefix (rev s) (rev p)"

definition TrimPrefix :: "string \<Rightarrow> string \<Rightarrow> string" where
  "TrimPrefix s p = (if HasPrefix s p then drop (length p) s else s)"

definition TrimSuffix :: "string \<Rightarrow> string \<Rightarrow> string" where
  "TrimSuffix s p = (if HasSuffix s p then take (length s - length p) s else s)"

fun Contains :: "string \<Rightarrow> string \<Rightarrow> bool" where
  "Contains [] p = (p = [])"
| "Contains (c # s) p = (HasPrefix (c # s) p \<or> Contains s p)"

text \<open>
  \<open>strings.ToLower\<close>. Besides the ASCII capitals, the only runes whose lower case is ASCII are
  U+0130 (to \<open>i\<close>) and U+212A (to \<open>k\<close>); the other letters are left alone. The code
  compares the result with ASCII literals only, for which this is exact.
\<close>

definition lower_char :: "char \<Rightarrow> char" where
  "lower_char c = (if CHR ''A'' \<le> c \<and> c \<le> CHR ''Z'' then char_of (of_char c + (32::nat)) else c)"

fun ToLower :: "string \<Rightarrow> string" where
  "ToLower [] = []"
| "ToLower (c # s) =
     (if c = CHR 0xC4 \<and> take 1 s = [CHR 0xB0] then CHR ''i'' # ToLower (drop 1 s)
      else if c = CHR 0xE2 \<and> take 2 s = [CHR 0x84, CHR 0xAA] then CHR ''k'' # ToLower (drop 2 s)
      else lower_char c # ToLower s)"

fun Split :: "string \<Rightarrow> char \<Rightarrow> string list" where
  "Split [] c = [[]]"
| "Split (d # s) c =
     (if d = c then [] # Split s c
      else (case Split s c of [] \<Rightarrow> [[d]] | w # ws \<Rightarrow> (d # w) # ws))"

fun Join :: "string list \<Rightarrow> string \<Rightarrow> string" where
  "Join [] sep = []"
| "Join [w] sep = w"
| "Join (w # ws) sep = w @ sep @ Join ws sep"

lemma Split_nonempty [simp]: "Split s c \<noteq> []"
  by (induction s) (auto split: list.splits)

text \<open>\<open>strings.Fields\<close>: the parts between runs of white space.\<close>

function fields_from :: "string \<Rightarrow> string \<Rightarrow> string list" where
  "fields_from cur [] = (if cur = [] then [] else [rev cur])"
| "fields_from cur (c # s) =
     (case find (\<lambda>e. e \<noteq> [] \<and> take (length e) (c # s) = e) space_encodings of
        None \<Rightarrow> fields_from (c # cur) s
      | Some e \<Rightarrow> (if cur = [] then [] else [rev cur]) @ fields_from [] (drop (length e) (c # s)))"
  by pat_completeness auto
termination
proof (relation "measure (\<lambda>(cur, s). length s)")
  fix cur c s e
  assume "find (\<lambda>e. e \<noteq> [] \<and> take (length e) (c # s) = e) space_encodings = Some e"
  then have "e \<noteq> []" by (auto simp: find_Some_iff)
  then show "(([], drop (length e) (c # s)), (cur, c # s)) \<in> measure (\<lambda>(cur, s). length s)" by (cases e) auto
qed simp_all

definition Fields :: "string \<Rightarrow> string list" where
  "Fields s = fields_from [] s"

section \<open>Decimal numbers\<close>

definition digit :: "nat \<Rightarrow> char" where
  "digit d = char_of (48 + d)"

fun dec_nat :: "nat \<Rightarrow> string" where
  "dec_nat n = (if n < 10 then [digit n] else dec_nat (n div 10) @ [digit (n mod 10)])"

declare dec_nat.simps [simp del]
lemmas [go_simps] = dec_nat.simps

text \<open>\<open>strconv.FormatInt(v, 10)\<close> and the verb \<open>%d\<close>.\<close>

definition FormatInt :: "int \<Rightarrow> string" where
  "FormatInt v = (if v < 0 then CHR ''-'' # dec_nat (nat (- v)) else dec_nat (nat v))"

definition digit_value :: "char \<Rightarrow> nat option" where
  "digit_value c = (if CHR ''0'' \<le> c \<and> c \<le> CHR ''9'' then Some (of_char c - 48) else None)"

fun parse_digits :: "nat \<Rightarrow> string \<Rightarrow> nat option" where
  "parse_digits acc [] = Some acc"
| "parse_digits acc (c # s) =
     (case digit_value c of None \<Rightarrow> None | Some d \<Rightarrow> parse_digits (10 * acc + d) s)"

text \<open>\<open>strconv.ParseInt(s, 10, 64)\<close>: \<^const>\<open>None\<close> for a syntax or a range error.\<close>

definition ParseInt :: "string \<Rightarrow> int option" where
  "ParseInt s =
     (let neg = (take 1 s = ''-'');
          body = (if take 1 s = ''-'' \<or> take 1 s = ''+'' then drop 1 s else s)
      in if body = [] then None
         else (case parse_digits 0 body of
                 None \<Rightarrow> None
               | Some n \<Rightarrow>
                   (if neg then (if int n \<le> 2 ^ 63 then Some (- int n) else None)
                    else (if int n < 2 ^ 63 then Some (int n) else None))))"

lemma digit_0 [simp]: "digit 0 = CHR ''0''"
  by code_simp

lemma digit_value_digit [simp]: "d < 10 \<Longrightarrow> digit_value (digit d) = Some d"
  by (auto simp: digit_value_def digit_def less_eq_char_def)

lemma parse_digits_append:
  "parse_digits acc (s @ t) = (case parse_digits acc s of None \<Rightarrow> None | Some a \<Rightarrow> parse_digits a t)"
  by (induction s arbitrary: acc) (auto split: option.splits)

lemma parse_dec_nat [simp]: "parse_digits 0 (dec_nat n) = Some n"
proof (induction n rule: dec_nat.induct)
  case (1 n)
  show ?case
  proof (cases "n < 10")
    case True
    then show ?thesis by (simp add: dec_nat.simps [of n])
  next
    case False
    with 1 show ?thesis by (simp add: dec_nat.simps [of n] parse_digits_append)
  qed
qed

lemma dec_nat_nonempty [simp]: "dec_nat n \<noteq> []"
  by (simp add: dec_nat.simps [of n])

lemma digit_not_sign: "d < 10 \<Longrightarrow> digit d \<noteq> CHR ''-'' \<and> digit d \<noteq> CHR ''+''"
  by (auto simp: digit_def char_of_eq_iff take_bit_eq_mod)

lemma hd_dec_nat: "hd (dec_nat n) \<noteq> CHR ''-'' \<and> hd (dec_nat n) \<noteq> CHR ''+''"
proof (induction n rule: dec_nat.induct)
  case (1 n)
  then show ?case
    by (cases "n < 10") (auto simp: dec_nat.simps [of n] digit_not_sign hd_append)
qed

lemma ParseInt_FormatInt:
  assumes "- (2 ^ 63) \<le> v" "v < 2 ^ 63"
  shows "ParseInt (FormatInt v) = Some v"
proof (cases "v < 0")
  case True
  with assms show ?thesis by (simp add: ParseInt_def FormatInt_def)
next
  case False
  obtain c s where cs: "dec_nat (nat v) = c # s" using dec_nat_nonempty by (cases "dec_nat (nat v)") auto
  with hd_dec_nat [of "nat v"] have "c \<noteq> CHR ''-''" "c \<noteq> CHR ''+''" by auto
  with False assms cs parse_dec_nat [of "nat v"] show ?thesis
    by (simp add: ParseInt_def FormatInt_def)
qed

text \<open>
  \<open>strconv.Quote\<close> and the verb \<open>%q\<close>. Bytes of non-ASCII runes are kept: the code quotes model
  names and setting values, whose other runes are printable.
\<close>

definition hex_low :: "nat \<Rightarrow> char" where
  "hex_low d = (if d < 10 then char_of (48 + d) else char_of (87 + d))"

definition quote_char :: "char \<Rightarrow> string" where
  "quote_char c =
     (if c = CHR 0x22 then [CHR 0x5C, CHR 0x22]
      else if c = CHR 0x5C then [CHR 0x5C, CHR 0x5C]
      else if c = CHR 0x07 then [CHR 0x5C, CHR ''a''] else if c = CHR 0x08 then [CHR 0x5C, CHR ''b'']
      else if c = CHR 0x0C then [CHR 0x5C, CHR ''f''] else if c = CHR 0x0A then [CHR 0x5C, CHR ''n'']
      else if c = CHR 0x0D then [CHR 0x5C, CHR ''r''] else if c = CHR 0x09 then [CHR 0x5C, CHR ''t'']
      else if c = CHR 0x0B then [CHR 0x5C, CHR ''v'']
      else if c < CHR 0x20 \<or> c = CHR 0x7F
      then [CHR 0x5C, CHR ''x'', hex_low (of_char c div 16), hex_low (of_char c mod 16)]
      else [c])"

definition Quote :: "string \<Rightarrow> string" where
  "Quote s = CHR 0x22 # concat (map quote_char s) @ [CHR 0x22]"

section \<open>Association lists as finite maps\<close>

lemmas [keyed_simps] = update_conv' delete_conv' distinct_update distinct_delete

text \<open>\<open>m[k] = f(m[k])\<close> for a key that is present.\<close>

definition amodify :: "'k \<Rightarrow> ('v \<Rightarrow> 'v) \<Rightarrow> ('k \<times> 'v) list \<Rightarrow> ('k \<times> 'v) list" where
  "amodify k f m = map (\<lambda>(k', v). if k' = k then (k', f v) else (k', v)) m"

lemma fst_amodify [simp]: "map fst (amodify k f m) = map fst m"
  by (induction m) (auto simp: amodify_def)

lemma map_of_amodify [keyed_simps]:
  "map_of (amodify k f m) k' = (if k' = k then map_option f (map_of m k') else map_of m k')"
  by (induction m) (auto simp: amodify_def)

lemma length_amodify [simp]: "length (amodify k f m) = length m"
  by (simp add: amodify_def)

lemma amodify_compose: "amodify k f (amodify k g m) = amodify k (f \<circ> g) m"
  by (simp add: amodify_def comp_def case_prod_unfold)

lemma amodify_id: "(\<And>v. (k, v) \<in> set m \<Longrightarrow> f v = v) \<Longrightarrow> amodify k f m = m"
  by (induction m) (auto simp: amodify_def)

lemma map_of_filter_keyed [keyed_simps]:
  "distinct (map fst m) \<Longrightarrow>
   map_of (filter P m) k = (case map_of m k of None \<Rightarrow> None | Some v \<Rightarrow> if P (k, v) then Some v else None)"
proof (induction m)
  case Nil
  then show ?case by simp
next
  case (Cons x m)
  obtain k' v where x: "x = (k', v)" by (cases x)
  have "k' = k \<Longrightarrow> map_of m k = None" using Cons.prems x by (auto simp: map_of_eq_None_iff)
  with Cons x show ?case by (auto split: option.splits)
qed

lemma distinct_filter_keyed [simp]: "distinct (map fst m) \<Longrightarrow> distinct (map fst (filter P m))"
  by (induction m) auto

end
