(* ===== verification/Domain.thy ===== *)
theory Domain
  imports Go_Prelude
begin

text \<open>
  The data model of \<open>internal/domain/types.go\<close>. The string enumerations are datatypes: the
  database admits only the listed values (the \<open>CHECK\<close> constraints of
  \<open>001_initial.sql\<close> and \<open>005_grok_model_catalog.sql\<close>). A pointer to a time is an option. A
  \<open>float64\<close> is a rational number: rounding is not modelled. Byte slices are strings.
\<close>

datatype CredentialKind = CredentialCLIOAuth | CredentialConsoleSSO | CredentialGrokSSO

datatype AccountStatus = AccountActive | AccountCooldown | AccountExpired | AccountDisabled | AccountError

datatype Capability =
    CapabilityChat | CapabilityResponses | CapabilityMessages
  | CapabilityImage | CapabilityImageEdit | CapabilityVideo

record Credentials =
  AccessToken :: string
  RefreshToken :: string
  IDToken :: string
  TokenType :: string
  cred_ExpiresAt :: time
  ClientID :: string
  Scope :: string
  SSO :: string
  SSORW :: string
  UserID :: string
  CFClearance :: string
  UserAgent :: string
  BaseURL :: string
  cred_Email :: string
  Subscription :: string
  Entitlement :: string

record QuotaSnapshot =
  RequestsLimit :: int
  RequestsRemaining :: int
  RequestsUnlimited :: bool
  TokensLimit :: int
  TokensRemaining :: int
  TokensUnlimited :: bool
  ResetAt :: "time option"
  ObservedAt :: time

record Account =
  ID :: string
  Name :: string
  Kind :: CredentialKind
  Tier :: string
  Status :: AccountStatus
  Email :: string
  CredentialExpiresAt :: "time option"
  CredentialCipher :: string
  CredentialFingerprint :: string
  ProxyID :: string
  Models :: "string list"
  Tags :: "string list"
  Priority :: int
  ConcurrencyLimit :: int
  HealthScore :: rat
  FailureCount :: int
  Quota :: QuotaSnapshot
  CooldownUntil :: "time option"
  LastUsedAt :: "time option"
  LastError :: string
  CreatedAt :: time
  UpdatedAt :: time

record ModelSpec =
  model_ID :: string
  UpstreamModel :: string
  DisplayName :: string
  model_Capability :: Capability
  CredentialKinds :: "CredentialKind list"
  MinimumTier :: string
  Aliases :: "string list"
  PreferBest :: bool
  CatalogManaged :: bool
  Enabled :: bool
  model_CreatedAt :: time
  model_UpdatedAt :: time

record ClientKey =
  key_ID :: string
  key_Name :: string
  Prefix :: string
  Digest :: string
  SecretCipher :: string
  SecretAvailable :: bool
  key_Enabled :: bool
  RPM :: int
  key_ConcurrencyLimit :: int
  DailyRequestLimit :: int
  MonthlyTokenLimit :: int
  key_LastUsedAt :: "time option"
  key_ExpiresAt :: "time option"
  key_CreatedAt :: time
  key_UpdatedAt :: time

text \<open>The zero values Go gives to declared but unset variables.\<close>

definition zero_credentials :: Credentials where
  "zero_credentials =
     \<lparr>AccessToken = [], RefreshToken = [], IDToken = [], TokenType = [], cred_ExpiresAt = 0,
      ClientID = [], Scope = [], SSO = [], SSORW = [], UserID = [], CFClearance = [],
      UserAgent = [], BaseURL = [], cred_Email = [], Subscription = [], Entitlement = []\<rparr>"

definition zero_quota :: QuotaSnapshot where
  "zero_quota =
     \<lparr>RequestsLimit = 0, RequestsRemaining = 0, RequestsUnlimited = False, TokensLimit = 0,
      TokensRemaining = 0, TokensUnlimited = False, ResetAt = None, ObservedAt = 0\<rparr>"

end
