(* ===== verification/Account_Policy.thy ===== *)
theory Account_Policy
  imports Domain
begin

text \<open>
  The stateless part of \<open>internal/accounts/pool.go\<close>: scheduling strategies, the pool policy
  and its normalisation by the constructor, quota windows, the transient back-off, tiers and
  the feedback an upstream call leaves behind.
\<close>

section \<open>Strategies and policies\<close>

type_synonym Strategy = string

definition StrategyAffinity :: Strategy where "StrategyAffinity = ''affinity''"
definition StrategyPriority :: Strategy where "StrategyPriority = ''priority''"
definition StrategyRoundRobin :: Strategy where "StrategyRoundRobin = ''round_robin''"

lemmas strategy_defs = StrategyAffinity_def StrategyPriority_def StrategyRoundRobin_def

definition ParseStrategy :: "string \<Rightarrow> error + Strategy" where
  "ParseStrategy value =
     (let strategy = ToLower (TrimSpace value)
      in if strategy = StrategyAffinity \<or> strategy = StrategyPriority \<or> strategy = StrategyRoundRobin
         then Inr strategy
         else Inl (ErrText (''unsupported account scheduling strategy '' @ Quote value)))"

record Policy =
  policy_Strategy :: Strategy
  DefaultConcurrency :: int
  ForbiddenCooldown :: duration
  RateLimitCooldown :: "(CredentialKind \<rightharpoonup> duration) option"
  TransientBaseDelay :: duration
  TransientMaxDelay :: duration
  AffinityTTL :: duration
  LeaseTTL :: duration
  MaxAffinities :: int

definition default_rate_limits :: "CredentialKind \<rightharpoonup> duration" where
  "default_rate_limits =
     [CredentialCLIOAuth \<mapsto> Hour, CredentialConsoleSSO \<mapsto> 4 * Hour, CredentialGrokSSO \<mapsto> 15 * Minute]"

definition DefaultPolicy :: Policy where
  "DefaultPolicy =
     \<lparr>policy_Strategy = StrategyAffinity,
      DefaultConcurrency = 2,
      ForbiddenCooldown = 30 * Minute,
      RateLimitCooldown = Some default_rate_limits,
      TransientBaseDelay = 5 * Second,
      TransientMaxDelay = 5 * Minute,
      AffinityTTL = 24 * Hour,
      LeaseTTL = 30 * Minute,
      MaxAffinities = 10000\<rparr>"

text \<open>Reading a Go map: the zero duration for a missing key and for a \<open>nil\<close> map.\<close>

definition rate_limit_cooldown :: "Policy \<Rightarrow> CredentialKind \<Rightarrow> duration" where
  "rate_limit_cooldown p k =
     (case RateLimitCooldown p of
        None \<Rightarrow> 0
      | Some m \<Rightarrow> (case m k of None \<Rightarrow> 0 | Some d \<Rightarrow> d))"

text \<open>
  The normalisation of the policy at the start of \<open>NewPoolWithCoordinator\<close>, field by
  field. The strategy is only checked: it is kept as it was given, not in the form
  \<open>ParseStrategy\<close> returned.
\<close>

definition normalize_policy :: "Policy \<Rightarrow> Policy" where
  "normalize_policy policy =
     (let defaults = DefaultPolicy;
          baseDelay = (if TransientBaseDelay policy \<le> 0
                       then TransientBaseDelay defaults else TransientBaseDelay policy)
      in \<lparr>policy_Strategy = (case ParseStrategy (policy_Strategy policy) of
                               Inl e \<Rightarrow> policy_Strategy defaults
                             | Inr s \<Rightarrow> policy_Strategy policy),
          DefaultConcurrency = (if DefaultConcurrency policy \<le> 0
                                then DefaultConcurrency defaults else DefaultConcurrency policy),
          ForbiddenCooldown = (if ForbiddenCooldown policy \<le> 0
                               then ForbiddenCooldown defaults else ForbiddenCooldown policy),
          RateLimitCooldown = (if RateLimitCooldown policy = None
                               then RateLimitCooldown defaults else RateLimitCooldown policy),
          TransientBaseDelay = baseDelay,
          TransientMaxDelay = (if TransientMaxDelay policy < baseDelay
                               then TransientMaxDelay defaults else TransientMaxDelay policy),
          AffinityTTL = (if AffinityTTL policy \<le> 0 then AffinityTTL defaults else AffinityTTL policy),
          LeaseTTL = (if LeaseTTL policy \<le> 0 then LeaseTTL defaults else LeaseTTL policy),
          MaxAffinities = (if MaxAffinities policy \<le> 0
                           then MaxAffinities defaults else MaxAffinities policy)\<rparr>)"

text \<open>What every constructed pool can rely on.\<close>

definition policy_ok :: "Policy \<Rightarrow> bool" where
  "policy_ok p \<longleftrightarrow>
     0 < DefaultConcurrency p \<and> 0 < ForbiddenCooldown p \<and> RateLimitCooldown p \<noteq> None \<and>
     0 < TransientBaseDelay p \<and> 0 < TransientMaxDelay p \<and> 0 < AffinityTTL p \<and>
     0 < LeaseTTL p \<and> 0 < MaxAffinities p"

section \<open>Feedback\<close>

record Feedback =
  StatusCode :: int
  RetryAfter :: duration
  fb_Quota :: "QuotaSnapshot option"
  fb_Err :: "error option"

text \<open>
  The decimal printer \<open>itoa\<close>, written out in the source: digits are put into a buffer from
  its end while \<open>v > 0\<close>, so a negative argument prints as the empty string.
\<close>

function itoa_loop :: "int \<Rightarrow> string \<Rightarrow> string" where
  "itoa_loop v buf = (if 0 < v then itoa_loop (v div 10) (digit (nat (v mod 10)) # buf) else buf)"
  by pat_completeness auto
termination
  by (relation "measure (\<lambda>(v, buf). nat v)") auto

declare itoa_loop.simps [simp del]

definition itoa :: "int \<Rightarrow> string" where
  "itoa v = (if v = 0 then ''0'' else itoa_loop v [])"

definition feedbackMessage :: "Feedback \<Rightarrow> string" where
  "feedbackMessage feedback =
     (if 0 < StatusCode feedback then ''upstream status '' @ itoa (StatusCode feedback)
      else (case fb_Err feedback of
              None \<Rightarrow> ''''
            | Some e \<Rightarrow>
                if errors_is e DeadlineExceeded then ''upstream request timed out''
                else if errors_is e Canceled then ''upstream request was canceled''
                else ''upstream transport failed''))"

definition isPermanentCredentialFailure :: "int \<Rightarrow> bool" where
  "isPermanentCredentialFailure status \<longleftrightarrow> status = 401 \<or> status = 403 \<or> status = 423"

definition isTerminalAccountStatus :: "AccountStatus \<Rightarrow> bool" where
  "isTerminalAccountStatus status =
     (case status of
        AccountDisabled \<Rightarrow> True
      | AccountExpired \<Rightarrow> True
      | AccountError \<Rightarrow> True
      | _ \<Rightarrow> False)"

section \<open>Quota windows\<close>

definition quotaExhausted :: "QuotaSnapshot \<Rightarrow> bool" where
  "quotaExhausted quota =
     (let requests = \<not> RequestsUnlimited quota \<and> 0 < RequestsLimit quota \<and> RequestsRemaining quota \<le> 0;
          tokens = \<not> TokensUnlimited quota \<and> 0 < TokensLimit quota \<and> TokensRemaining quota \<le> 0
      in requests \<or> tokens)"

definition quotaUnavailableUntil :: "QuotaSnapshot \<Rightarrow> time \<Rightarrow> duration \<Rightarrow> time" where
  "quotaUnavailableUntil quota now fallback =
     (if \<not> quotaExhausted quota then 0
      else (case ResetAt quota of
              Some reset \<Rightarrow> (if now < reset then reset else 0)
            | None \<Rightarrow>
                (if 0 < fallback \<and> ObservedAt quota \<noteq> 0
                 then (let until = ObservedAt quota + fallback in if now < until then until else 0)
                 else 0)))"

definition QuotaUnavailableUntil :: "QuotaSnapshot \<Rightarrow> CredentialKind \<Rightarrow> time \<Rightarrow> time" where
  "QuotaUnavailableUntil quota kind now =
     quotaUnavailableUntil quota now (rate_limit_cooldown DefaultPolicy kind)"

text \<open>The pair \<open>(reset, exhausted)\<close>.\<close>

definition exhaustedQuotaReset ::
  "QuotaSnapshot \<Rightarrow> CredentialKind \<Rightarrow> Policy \<Rightarrow> time \<Rightarrow> bool \<Rightarrow> time \<times> bool" where
  "exhaustedQuotaReset quota kind policy now freshlyObserved =
     (if \<not> quotaExhausted quota then (0, False)
      else (let fallback = rate_limit_cooldown policy kind;
                fallback = (if fallback \<le> 0 then 15 * Minute else fallback);
                until = quotaUnavailableUntil quota now fallback
            in if \<not> now < until
               then (if \<not> freshlyObserved then (0, False) else (now + fallback, True))
               else (until, True)))"

definition quotaFraction :: "int \<Rightarrow> int \<Rightarrow> rat" where
  "quotaFraction remaining limit = max 0 (min 1 (of_int remaining / of_int limit))"

section \<open>Transient back-off and tiers\<close>

text \<open>The loop of \<open>transientBackoff\<close>; the first argument is \<open>failures - attempt\<close>.\<close>

fun backoff_loop :: "nat \<Rightarrow> duration \<Rightarrow> duration \<Rightarrow> duration" where
  "backoff_loop 0 limit delay = delay"
| "backoff_loop (Suc k) limit delay =
     (if delay < limit
      then (let delay = wrap64 (delay * 2)
            in if limit \<le> delay then limit else backoff_loop k limit delay)
      else delay)"

definition transientBackoff :: "Policy \<Rightarrow> int \<Rightarrow> duration" where
  "transientBackoff policy failures =
     backoff_loop (nat (failures - 1)) (TransientMaxDelay policy) (TransientBaseDelay policy)"

definition tierRank :: "string \<Rightarrow> int" where
  "tierRank tier =
     (let t = ToLower tier
      in if t = ''heavy'' \<or> t = ''enterprise'' then 2
         else if t = ''super'' \<or> t = ''pro'' \<or> t = ''premium'' then 1
         else 0)"

section \<open>Lemmas\<close>

lemma ParseStrategy_Inr:
  "ParseStrategy v = Inr s \<Longrightarrow> s = StrategyAffinity \<or> s = StrategyPriority \<or> s = StrategyRoundRobin"
  by (auto simp: ParseStrategy_def Let_def split: if_splits)

lemma ParseStrategy_known:
  "ParseStrategy StrategyAffinity = Inr StrategyAffinity"
  "ParseStrategy StrategyPriority = Inr StrategyPriority"
  "ParseStrategy StrategyRoundRobin = Inr StrategyRoundRobin"
  unfolding strategy_defs by code_simp+

lemma normalize_policy_fields [simp]:
  "DefaultConcurrency (normalize_policy p) = (if DefaultConcurrency p \<le> 0 then 2 else DefaultConcurrency p)"
  "policy_Strategy (normalize_policy p) =
     (case ParseStrategy (policy_Strategy p) of Inl _ \<Rightarrow> StrategyAffinity | Inr _ \<Rightarrow> policy_Strategy p)"
  "ForbiddenCooldown (normalize_policy p) = (if ForbiddenCooldown p \<le> 0 then 30 * Minute else ForbiddenCooldown p)"
  "RateLimitCooldown (normalize_policy p) =
     (if RateLimitCooldown p = None then Some default_rate_limits else RateLimitCooldown p)"
  "TransientBaseDelay (normalize_policy p) = (if TransientBaseDelay p \<le> 0 then 5 * Second else TransientBaseDelay p)"
  "TransientMaxDelay (normalize_policy p) =
     (if TransientMaxDelay p < (if TransientBaseDelay p \<le> 0 then 5 * Second else TransientBaseDelay p)
      then 5 * Minute else TransientMaxDelay p)"
  "AffinityTTL (normalize_policy p) = (if AffinityTTL p \<le> 0 then 24 * Hour else AffinityTTL p)"
  "LeaseTTL (normalize_policy p) = (if LeaseTTL p \<le> 0 then 30 * Minute else LeaseTTL p)"
  "MaxAffinities (normalize_policy p) = (if MaxAffinities p \<le> 0 then 10000 else MaxAffinities p)"
  by (simp_all add: normalize_policy_def DefaultPolicy_def Let_def split: sum.splits)

lemma policy_ok_normalize: "policy_ok (normalize_policy p)"
  by (auto simp: policy_ok_def)

lemma policy_ok_Default: "policy_ok DefaultPolicy"
  by (simp add: policy_ok_def DefaultPolicy_def)

lemma quotaUnavailableUntil_cases:
  "quotaUnavailableUntil q now f = 0 \<or> now < quotaUnavailableUntil q now f"
  by (auto simp: quotaUnavailableUntil_def Let_def split: option.splits)

lemma quotaUnavailableUntil_exhausted:
  "0 \<le> now \<Longrightarrow> now < quotaUnavailableUntil q now f \<Longrightarrow> quotaExhausted q"
  by (auto simp: quotaUnavailableUntil_def split: if_splits)

lemma exhaustedQuotaReset_after:
  "exhaustedQuotaReset q k p now fresh = (r, True) \<Longrightarrow> now < r \<and> quotaExhausted q"
  by (auto simp: exhaustedQuotaReset_def Let_def split: if_splits)

lemma exhaustedQuotaReset_False:
  "exhaustedQuotaReset q k p now fresh = (r, False) \<Longrightarrow> r = 0"
  by (auto simp: exhaustedQuotaReset_def Let_def split: if_splits)

lemma exhaustedQuotaReset_fresh:
  "quotaExhausted q \<Longrightarrow> snd (exhaustedQuotaReset q k p now True)"
  by (auto simp: exhaustedQuotaReset_def Let_def)

lemma quotaFraction_bounds: "0 \<le> quotaFraction r l \<and> quotaFraction r l \<le> 1"
  by (simp add: quotaFraction_def)

lemma backoff_loop_eq:
  assumes "0 < d" "d \<le> m" "m < 2 ^ 62"
  shows "backoff_loop k m d = min m (d * 2 ^ k)"
  using assms
proof (induction k arbitrary: d)
  case 0
  then show ?case by simp
next
  case (Suc k)
  show ?case
  proof (cases "d < m")
    case False
    with Suc.prems have "d = m" by simp
    moreover have "(1::int) \<le> 2 ^ Suc k" by (rule one_le_power) simp
    then have "m * 1 \<le> m * 2 ^ Suc k" using Suc.prems by (intro mult_left_mono) auto
    ultimately show ?thesis by simp
  next
    case True
    with Suc.prems have w: "wrap64 (d * 2) = d * 2" by (intro wrap64_id) auto
    show ?thesis
    proof (cases "m \<le> d * 2")
      case True
      have "d * 2 \<le> d * 2 * 2 ^ k" using Suc.prems by simp
      with True have "m \<le> d * 2 ^ Suc k" by (simp add: algebra_simps)
      with \<open>d < m\<close> True w show ?thesis by simp
    next
      case False
      with Suc.prems Suc.IH [of "d * 2"] \<open>d < m\<close> w show ?thesis
        by (simp add: algebra_simps)
    qed
  qed
qed

lemma itoa_loop_eq: "0 < v \<Longrightarrow> itoa_loop v buf = dec_nat (nat v) @ buf"
proof (induction v buf rule: itoa_loop.induct)
  case (1 v buf)
  show ?case
  proof (cases "v < 10")
    case True
    then have "v div 10 = 0" "v mod 10 = v" using 1 by auto
    with True 1 show ?thesis
      by (simp add: itoa_loop.simps [of v] itoa_loop.simps [of 0] dec_nat.simps [of "nat v"])
  next
    case False
    then have "nat v div 10 = nat (v div 10)" "nat v mod 10 = nat (v mod 10)" "0 < v div 10" "\<not> nat v < 10"
      by (simp_all add: nat_div_distrib nat_mod_distrib pos_imp_zdiv_pos_iff)
    with False 1 show ?thesis
      by (simp add: itoa_loop.simps [of v] dec_nat.simps [of "nat v"])
  qed
qed

lemma itoa_eq_FormatInt: "0 \<le> v \<Longrightarrow> itoa v = FormatInt v"
  by (cases "v = 0") (auto simp: itoa_def FormatInt_def itoa_loop_eq dec_nat.simps [of 0])

lemma itoa_negative: "v < 0 \<Longrightarrow> itoa v = []"
  by (simp add: itoa_def itoa_loop.simps)

end
