(* ===== verification/Account_Select.thy ===== *)
theory Account_Select
  imports Account_Policy "HOL-Library.Multiset"
begin

text \<open>
  Selection of an account under the pool's mutex: the pool's state, eligibility, the score, the
  three strategies of \<open>selectLocked\<close> and the bounded table of session affinities
  (\<open>internal/accounts/pool.go\<close>).

  Go iterates over \<open>p.states\<close> and \<open>p.affinities\<close> in an unspecified order. Here the order
  is that of the association list; that the selected account does not depend on it is a theorem
  of the root theory. \<open>eligibleLocked\<close> writes the state it tests (an elapsed cooldown becomes
  active again), so the tests return the updated state.
\<close>

section \<open>State\<close>

record runtimeState =
  account :: Account
  inflight :: int
  health :: rat
  failures :: int
  cooldownTill :: time
  lastUsedPersisted :: time

record affinityEntry =
  accountID :: string
  expiresAt :: time
  usedAt :: time

type_synonym states = "(string \<times> runtimeState) list"
type_synonym affinities = "(string \<times> affinityEntry) list"

text \<open>The fields of \<open>Pool\<close> that its operations change.\<close>

record Pool =
  policy :: Policy
  loaded :: bool
  states :: states
  affinities :: affinities
  roundRobin :: "string \<Rightarrow> 64 word"

record Selection =
  sel_Model :: ModelSpec
  AffinityKey :: string
  ExcludeIDs :: "string list"

section \<open>Eligibility\<close>

definition concurrency_limit :: "Policy \<Rightarrow> Account \<Rightarrow> int" where
  "concurrency_limit p a = (if ConcurrencyLimit a \<le> 0 then DefaultConcurrency p else ConcurrencyLimit a)"

text \<open>The write of \<open>durablyEligibleLocked\<close>: an elapsed cooldown makes the account active again.\<close>

definition thaw :: "runtimeState \<Rightarrow> time \<Rightarrow> runtimeState" where
  "thaw state now =
     (if Status (account state) = AccountCooldown \<and> \<not> now < cooldownTill state
      then state\<lparr>account := (account state)\<lparr>Status := AccountActive, CooldownUntil := None\<rparr>\<rparr>
      else state)"

definition durablyEligibleLocked ::
  "Policy \<Rightarrow> runtimeState \<Rightarrow> ModelSpec \<Rightarrow> time \<Rightarrow> bool \<times> runtimeState" where
  "durablyEligibleLocked p state0 model now =
     (let state = thaw state0 now; acc = account state
      in (if Status acc \<noteq> AccountActive \<or> now < cooldownTill state then False
          else if Kind acc \<notin> set (CredentialKinds model) then False
          else if Models acc \<noteq> [] \<and> model_ID model \<notin> set (Models acc)
                  \<and> UpstreamModel model \<notin> set (Models acc) then False
          else if MinimumTier model \<noteq> '''' \<and> tierRank (Tier acc) < tierRank (MinimumTier model) then False
          else if now < quotaUnavailableUntil (Quota acc) now (rate_limit_cooldown p (Kind acc)) then False
          else True, state))"

definition eligibleLocked ::
  "Policy \<Rightarrow> runtimeState \<Rightarrow> ModelSpec \<Rightarrow> time \<Rightarrow> bool \<times> runtimeState" where
  "eligibleLocked p state0 model now =
     (let (durable, state) = durablyEligibleLocked p state0 model now
      in (durable \<and> inflight state < concurrency_limit p (account state), state))"

section \<open>Score\<close>

definition score :: "runtimeState \<Rightarrow> time \<Rightarrow> rat" where
  "score state now =
     (let quota = Quota (account state);
          quotaScore = (1::rat);
          quotaScore = (if \<not> RequestsUnlimited quota \<and> 0 < RequestsLimit quota
                        then min quotaScore (quotaFraction (RequestsRemaining quota) (RequestsLimit quota))
                        else quotaScore);
          quotaScore = (if \<not> TokensUnlimited quota \<and> 0 < TokensLimit quota
                        then min quotaScore (quotaFraction (TokensRemaining quota) (TokensLimit quota))
                        else quotaScore);
          recentPenalty = (case LastUsedAt (account state) of
                             None \<Rightarrow> 0
                           | Some t \<Rightarrow>
                               (let age = time_sub now t
                                in if age < Minute
                                   then 15 * (1 - (of_int age / of_int Second) / 60) else 0))
      in of_int (Priority (account state)) * 1000 + health state * 100 + quotaScore * 25
         - of_int (inflight state) * 20 - of_int (min (failures state) 10) * 4 - recentPenalty)"

section \<open>selectLocked\<close>

text \<open>The first loop: the states after the tests and the candidates, in iteration order.\<close>

fun scan_candidates ::
  "Policy \<Rightarrow> ModelSpec \<Rightarrow> time \<Rightarrow> string list \<Rightarrow> states \<Rightarrow> states \<times> states" where
  "scan_candidates p model now excluded [] = ([], [])"
| "scan_candidates p model now excluded ((aid, state) # rest) =
     (let (rest', cands) = scan_candidates p model now excluded rest
      in if aid \<in> set excluded then ((aid, state) # rest', cands)
         else (let (ok, state') = eligibleLocked p state model now
               in ((aid, state') # rest', if ok then (aid, state') # cands else cands)))"

abbreviation tier_of :: "string \<times> runtimeState \<Rightarrow> int" where
  "tier_of c \<equiv> tierRank (Tier (account (snd c)))"

abbreviation cand_id :: "string \<times> runtimeState \<Rightarrow> string" where
  "cand_id c \<equiv> ID (account (snd c))"

definition prefer_best :: "states \<Rightarrow> states" where
  "prefer_best cands =
     (case cands of
        [] \<Rightarrow> []
      | c # cs \<Rightarrow>
          (let bestTier = foldl (\<lambda>t x. max t (tier_of x)) (tier_of c) cs
           in filter (\<lambda>x. tier_of x = bestTier) cands))"

text \<open>The last loop: the best score so far, ties broken by the smaller account ID.\<close>

fun best_loop :: "time \<Rightarrow> string \<times> runtimeState \<Rightarrow> rat \<Rightarrow> states \<Rightarrow> string \<times> runtimeState" where
  "best_loop now best bestScore [] = best"
| "best_loop now best bestScore (c # cs) =
     (let candidateScore = score (snd c) now
      in if bestScore < candidateScore \<or> (candidateScore = bestScore \<and> cand_id c < cand_id best)
         then best_loop now c candidateScore cs
         else best_loop now best bestScore cs)"

definition affinityKey :: "string \<Rightarrow> string \<Rightarrow> string" where
  "affinityKey model key = model @ [CHR 0x00] @ key"

text \<open>The account a live affinity entry names, when it is a candidate.\<close>

definition sticky_candidate :: "Pool \<Rightarrow> Selection \<Rightarrow> time \<Rightarrow> states \<Rightarrow> (string \<times> runtimeState) option" where
  "sticky_candidate p sel now cands =
     (if policy_Strategy (policy p) = StrategyAffinity \<and> AffinityKey sel \<noteq> ''''
      then (case map_of (affinities p) (affinityKey (model_ID (sel_Model sel)) (AffinityKey sel)) of
              None \<Rightarrow> None
            | Some entry \<Rightarrow>
                if now < expiresAt entry then find (\<lambda>c. cand_id c = accountID entry) cands else None)
      else None)"

definition round_robin_candidate :: "Pool \<Rightarrow> string \<Rightarrow> states \<Rightarrow> string \<times> runtimeState" where
  "round_robin_candidate p modelId cands =
     (let sorted = sort_key cand_id cands
      in sorted ! (unat (roundRobin p modelId) mod length sorted))"

definition best_candidate :: "time \<Rightarrow> states \<Rightarrow> string \<times> runtimeState" where
  "best_candidate now cands = best_loop now (hd cands) (score (snd (hd cands)) now) (tl cands)"

text \<open>The result is the key of the selected state in \<open>p.states\<close>.\<close>

definition selectLocked :: "Pool \<Rightarrow> Selection \<Rightarrow> time \<Rightarrow> string option \<times> Pool" where
  "selectLocked p0 sel now =
     (let model = sel_Model sel;
          (states', cands0) = scan_candidates (policy p0) model now (ExcludeIDs sel) (states p0);
          p = p0\<lparr>states := states'\<rparr>
      in if cands0 = [] then (None, p)
         else
           (let cands = (if PreferBest model then prefer_best cands0 else cands0)
            in case sticky_candidate p sel now cands of
                 Some c \<Rightarrow> (Some (fst c), p)
               | None \<Rightarrow>
                   (if policy_Strategy (policy p) = StrategyRoundRobin
                    then (Some (fst (round_robin_candidate p (model_ID model) cands)),
                          p\<lparr>roundRobin := (roundRobin p)(model_ID model := roundRobin p (model_ID model) + 1)\<rparr>)
                    else (Some (fst (best_candidate now cands)), p))))"

section \<open>Affinities\<close>

definition setAffinityLocked :: "Pool \<Rightarrow> string \<Rightarrow> string \<Rightarrow> string \<Rightarrow> time \<Rightarrow> Pool" where
  "setAffinityLocked p model key accountId now =
     p\<lparr>affinities := AList.update (affinityKey model key)
         \<lparr>accountID = accountId, expiresAt = now + AffinityTTL (policy p), usedAt = now\<rparr>
         (affinities p)\<rparr>"

definition clearLocalAffinityLocked :: "Pool \<Rightarrow> string \<Rightarrow> string \<Rightarrow> string \<Rightarrow> Pool" where
  "clearLocalAffinityLocked p model key accountId =
     (if model = '''' \<or> key = '''' \<or> accountId = '''' then p
      else (case map_of (affinities p) (affinityKey model key) of
              None \<Rightarrow> p
            | Some entry \<Rightarrow>
                if accountID entry = accountId
                then p\<lparr>affinities := AList.delete (affinityKey model key) (affinities p)\<rparr>
                else p))"

text \<open>The search for the entry used longest ago; the empty key stands for \<open>none yet\<close>.\<close>

fun oldest_loop :: "affinities \<Rightarrow> string \<Rightarrow> time \<Rightarrow> string" where
  "oldest_loop [] oldestKey oldest = oldestKey"
| "oldest_loop ((key, entry) # rest) oldestKey oldest =
     (if oldestKey = '''' \<or> usedAt entry < oldest
      then oldest_loop rest key (usedAt entry)
      else oldest_loop rest oldestKey oldest)"

text \<open>
  The eviction loop. Each round deletes one entry, so as many rounds as there are entries are
  enough whenever \<open>MaxAffinities\<close> is positive, which the constructor guarantees.
\<close>

fun evict_loop :: "nat \<Rightarrow> int \<Rightarrow> affinities \<Rightarrow> affinities" where
  "evict_loop 0 limit affs = affs"
| "evict_loop (Suc k) limit affs =
     (if limit \<le> int (length affs)
      then evict_loop k limit (AList.delete (oldest_loop affs '''' 0) affs)
      else affs)"

definition pruneAffinitiesLocked :: "Pool \<Rightarrow> time \<Rightarrow> Pool" where
  "pruneAffinitiesLocked p now =
     (let live = filter (\<lambda>(key, entry). now < expiresAt entry) (affinities p)
      in p\<lparr>affinities := evict_loop (length live) (MaxAffinities (policy p)) live\<rparr>)"

definition recordAffinity :: "Pool \<Rightarrow> string \<Rightarrow> string \<Rightarrow> string \<Rightarrow> time \<Rightarrow> Pool" where
  "recordAffinity p model key accountId now =
     setAffinityLocked (pruneAffinitiesLocked p now) model key accountId now"

section \<open>Well-formed pools\<close>

text \<open>Keys are account IDs, keys are distinct, and no counter is negative.\<close>

definition wf_states :: "states \<Rightarrow> bool" where
  "wf_states ss \<longleftrightarrow>
     distinct (map fst ss) \<and> (\<forall>(k, s) \<in> set ss. ID (account s) = k \<and> 0 \<le> inflight s)"

definition wf_pool :: "Pool \<Rightarrow> bool" where
  "wf_pool p \<longleftrightarrow> policy_ok (policy p) \<and> wf_states (states p) \<and> distinct (map fst (affinities p))"

text \<open>What \<open>selectLocked\<close> chooses from, and the pool it leaves behind.\<close>

definition candidates :: "Pool \<Rightarrow> Selection \<Rightarrow> time \<Rightarrow> states" where
  "candidates p sel now =
     (let cs = snd (scan_candidates (policy p) (sel_Model sel) now (ExcludeIDs sel) (states p))
      in if PreferBest (sel_Model sel) then prefer_best cs else cs)"

definition scanned :: "Pool \<Rightarrow> Selection \<Rightarrow> time \<Rightarrow> Pool" where
  "scanned p sel now =
     p\<lparr>states := fst (scan_candidates (policy p) (sel_Model sel) now (ExcludeIDs sel) (states p))\<rparr>"

text \<open>The order in which candidates are preferred.\<close>

definition preferred :: "time \<Rightarrow> string \<times> runtimeState \<Rightarrow> string \<times> runtimeState \<Rightarrow> bool" where
  "preferred now a b \<longleftrightarrow>
     score (snd b) now < score (snd a) now \<or>
     (score (snd b) now = score (snd a) now \<and> cand_id a \<le> cand_id b)"

text \<open>Repeated selection at one instant: the accounts selected, in order.\<close>

fun select_times :: "nat \<Rightarrow> Pool \<Rightarrow> Selection \<Rightarrow> time \<Rightarrow> string option list" where
  "select_times 0 p sel now = []"
| "select_times (Suc n) p sel now =
     (let (r, q) = selectLocked p sel now in r # select_times n q sel now)"

section \<open>Lemmas on eligibility\<close>

lemma thaw_frame [simp]:
  "inflight (thaw s now) = inflight s" "health (thaw s now) = health s"
  "failures (thaw s now) = failures s" "cooldownTill (thaw s now) = cooldownTill s"
  "lastUsedPersisted (thaw s now) = lastUsedPersisted s"
  "ID (account (thaw s now)) = ID (account s)" "Kind (account (thaw s now)) = Kind (account s)"
  "Tier (account (thaw s now)) = Tier (account s)" "Quota (account (thaw s now)) = Quota (account s)"
  "Models (account (thaw s now)) = Models (account s)"
  "ConcurrencyLimit (account (thaw s now)) = ConcurrencyLimit (account s)"
  "Priority (account (thaw s now)) = Priority (account s)"
  "LastUsedAt (account (thaw s now)) = LastUsedAt (account s)"
  "CredentialCipher (account (thaw s now)) = CredentialCipher (account s)"
  "CredentialFingerprint (account (thaw s now)) = CredentialFingerprint (account s)"
  by (simp_all add: thaw_def)

lemma thaw_idem [simp]: "thaw (thaw s now) now = thaw s now"
  by (simp add: thaw_def)

lemma snd_durablyEligible [simp]: "snd (durablyEligibleLocked p s m now) = thaw s now"
  by (simp add: durablyEligibleLocked_def Let_def)

lemma snd_eligible [simp]: "snd (eligibleLocked p s m now) = thaw s now"
  by (simp add: eligibleLocked_def case_prod_unfold Let_def)

lemma eligible_iff:
  "fst (eligibleLocked p s m now) \<longleftrightarrow>
     fst (durablyEligibleLocked p s m now) \<and> inflight s < concurrency_limit p (account s)"
  by (simp add: eligibleLocked_def case_prod_unfold Let_def concurrency_limit_def)

lemma durable_iff:
  "fst (durablyEligibleLocked p s m now) \<longleftrightarrow>
     Status (account (thaw s now)) = AccountActive \<and> \<not> now < cooldownTill s \<and>
     Kind (account s) \<in> set (CredentialKinds m) \<and>
     (Models (account s) = [] \<or> model_ID m \<in> set (Models (account s)) \<or> UpstreamModel m \<in> set (Models (account s))) \<and>
     (MinimumTier m = '''' \<or> tierRank (MinimumTier m) \<le> tierRank (Tier (account s))) \<and>
     \<not> now < quotaUnavailableUntil (Quota (account s)) now (rate_limit_cooldown p (Kind (account s)))"
  by (auto simp: durablyEligibleLocked_def Let_def)

lemma eligible_thaw [simp]: "fst (eligibleLocked p (thaw s now) m now) = fst (eligibleLocked p s m now)"
  by (simp add: eligible_iff durable_iff concurrency_limit_def)

section \<open>Lemmas on selection\<close>

text \<open>What the first loop computes, in closed form.\<close>

lemma scan_states [simp]:
  "fst (scan_candidates p m now ex ss) =
     map (\<lambda>(k, s). (k, if k \<in> set ex then s else thaw s now)) ss"
  by (induction ss) (auto simp: Let_def case_prod_unfold)

lemma scan_cands [simp]:
  "snd (scan_candidates p m now ex ss) =
     map (\<lambda>(k, s). (k, thaw s now))
       (filter (\<lambda>(k, s). k \<notin> set ex \<and> fst (eligibleLocked p s m now)) ss)"
  by (induction ss) (auto simp: Let_def case_prod_unfold)

lemma scanned_frame [simp]:
  "policy (scanned p sel now) = policy p" "affinities (scanned p sel now) = affinities p"
  "roundRobin (scanned p sel now) = roundRobin p" "loaded (scanned p sel now) = loaded p"
  "map fst (states (scanned p sel now)) = map fst (states p)"
  by (simp_all add: scanned_def case_prod_unfold comp_def)

lemma sticky_scanned [simp]: "sticky_candidate (scanned p sel' now') sel now cs = sticky_candidate p sel now cs"
  by (simp add: sticky_candidate_def)

lemma round_robin_scanned [simp]: "round_robin_candidate (scanned p sel now) m cs = round_robin_candidate p m cs"
  by (simp add: round_robin_candidate_def)

lemma foldl_max:
  "foldl (\<lambda>t x. max t (f x)) (a::'a::linorder) xs = Max (insert a (f ` set xs))"
proof (induction xs arbitrary: a)
  case (Cons x xs)
  have "Max (insert (max a (f x)) (f ` set xs)) = max a (Max (insert (f x) (f ` set xs)))"
    by (cases "xs = []") (simp_all add: max.assoc)
  with Cons [of "max a (f x)"] show ?case by simp
qed simp

lemma prefer_best_eq:
  "prefer_best cs = filter (\<lambda>x. tier_of x = Max (tier_of ` set cs)) cs"
proof (cases cs)
  case (Cons c rest)
  have "foldl (\<lambda>t x. max t (tier_of x)) (tier_of c) rest = Max (tier_of ` set cs)"
    unfolding foldl_max Cons by simp
  then show ?thesis unfolding prefer_best_def Let_def Cons list.case by (simp only:)
qed (simp add: prefer_best_def)

lemma prefer_best_nonempty:
  assumes "cs \<noteq> []"
  shows "prefer_best cs \<noteq> []"
proof -
  from assms have "Max (tier_of ` set cs) \<in> tier_of ` set cs" by (intro Max_in) auto
  then obtain c where c: "Max (tier_of ` set cs) = tier_of c" "c \<in> set cs" by (rule imageE)
  from c(2) c(1) [symmetric] have "c \<in> set (prefer_best cs)"
    unfolding prefer_best_eq set_filter by simp
  then show ?thesis by auto
qed

lemma prefer_best_empty [simp]: "prefer_best cs = [] \<longleftrightarrow> cs = []"
  using prefer_best_nonempty [of cs] by (cases cs) (auto simp: prefer_best_def)

lemma candidates_empty:
  "candidates p sel now = [] \<longleftrightarrow>
     (\<forall>(k, s) \<in> set (states p). k \<in> set (ExcludeIDs sel) \<or>
        \<not> fst (eligibleLocked (policy p) s (sel_Model sel) now))"
  by (auto simp: candidates_def Let_def filter_empty_conv)

lemma candidates_mem:
  assumes "c \<in> set (candidates p sel now)"
  obtains s where "(fst c, s) \<in> set (states p)" "snd c = thaw s now" "fst c \<notin> set (ExcludeIDs sel)"
    "fst (eligibleLocked (policy p) s (sel_Model sel) now)"
  using assms by (auto simp: candidates_def Let_def prefer_best_eq split: if_splits)

lemma selectLocked_eq:
  "selectLocked p sel now =
     (let cs = candidates p sel now; q = scanned p sel now; m = model_ID (sel_Model sel)
      in if cs = [] then (None, q)
         else case sticky_candidate p sel now cs of
                Some c \<Rightarrow> (Some (fst c), q)
              | None \<Rightarrow>
                  if policy_Strategy (policy p) = StrategyRoundRobin
                  then (Some (fst (round_robin_candidate p m cs)),
                        q\<lparr>roundRobin := (roundRobin p)(m := roundRobin p m + 1)\<rparr>)
                  else (Some (fst (best_candidate now cs)), q))"
proof -
  let ?sc = "scan_candidates (policy p) (sel_Model sel) now (ExcludeIDs sel) (states p)"
  have empty: "snd ?sc = [] \<longleftrightarrow> candidates p sel now = []"
    by (simp add: candidates_def Let_def del: scan_cands)
  have q: "p\<lparr>states := fst ?sc\<rparr> = scanned p sel now" by (simp add: scanned_def)
  have c: "(if PreferBest (sel_Model sel) then prefer_best (snd ?sc) else snd ?sc) = candidates p sel now"
    by (simp add: candidates_def Let_def del: scan_cands)
  show ?thesis
    unfolding selectLocked_def Let_def case_prod_unfold q c empty by (simp split: option.split)
qed

lemma best_loop_cases: "best_loop now b sc cs = b \<or> best_loop now b sc cs \<in> set cs"
proof (induction cs arbitrary: b sc)
  case (Cons c cs)
  show ?case using Cons.IH [of c "score (snd c) now"] Cons.IH [of b sc] by (auto simp: Let_def)
qed simp

lemma preferred_refl [simp]: "preferred now a a"
  by (simp add: preferred_def)

lemma preferred_trans: "preferred now a b \<Longrightarrow> preferred now b c \<Longrightarrow> preferred now a c"
  by (auto simp: preferred_def)

lemma preferred_antisym: "preferred now a b \<Longrightarrow> preferred now b a \<Longrightarrow> cand_id a = cand_id b"
  by (auto simp: preferred_def)

lemma best_loop_preferred:
  assumes "x \<in> insert b (set cs)"
  shows "preferred now (best_loop now b (score (snd b) now) cs) x"
  using assms
proof (induction cs arbitrary: b x)
  case Nil
  then show ?case by simp
next
  case (Cons c cs)
  define b' where "b' = (if score (snd b) now < score (snd c) now \<or>
      (score (snd c) now = score (snd b) now \<and> cand_id c < cand_id b) then c else b)"
  have step: "best_loop now b (score (snd b) now) (c # cs) = best_loop now b' (score (snd b') now) cs"
    by (simp add: b'_def Let_def)
  have b': "preferred now b' b" "preferred now b' c"
    by (auto simp: b'_def preferred_def not_less)
  have best: "preferred now (best_loop now b' (score (snd b') now) cs) b'"
    by (rule Cons.IH) simp
  consider "x = b" | "x = c" | "x \<in> set cs" using Cons.prems by auto
  then show ?case
    unfolding step using b' best Cons.IH [of x b'] by cases (auto intro: preferred_trans)
qed

lemma best_candidate_in: "cs \<noteq> [] \<Longrightarrow> best_candidate now cs \<in> set cs"
  using best_loop_cases [of now "hd cs" "score (snd (hd cs)) now" "tl cs"]
  by (cases cs) (auto simp: best_candidate_def)

lemma best_candidate_preferred: "x \<in> set cs \<Longrightarrow> preferred now (best_candidate now cs) x"
  unfolding best_candidate_def by (cases cs) (auto intro: best_loop_preferred)

lemma round_robin_in: "cs \<noteq> [] \<Longrightarrow> round_robin_candidate p m cs \<in> set cs"
proof -
  assume "cs \<noteq> []"
  then have "unat (roundRobin p m) mod length (sort_key cand_id cs) < length (sort_key cand_id cs)"
    by simp
  then have "round_robin_candidate p m cs \<in> set (sort_key cand_id cs)"
    unfolding round_robin_candidate_def Let_def by (rule nth_mem)
  then show ?thesis by simp
qed

lemma sticky_in: "sticky_candidate p sel now cs = Some c \<Longrightarrow> c \<in> set cs"
  by (auto simp: sticky_candidate_def find_Some_iff split: if_splits option.splits)

text \<open>A selected account is an eligible one that the caller did not exclude.\<close>

lemma selectLocked_Some:
  assumes "selectLocked p sel now = (Some k, q)"
  shows "k \<in> fst ` set (candidates p sel now)"
  using assms
  by (auto simp: selectLocked_eq Let_def intro!: imageI sticky_in best_candidate_in round_robin_in
      split: if_splits option.splits)

lemma selectLocked_None_iff:
  "fst (selectLocked p sel now) = None \<longleftrightarrow> candidates p sel now = []"
  by (auto simp: selectLocked_eq Let_def split: option.splits)

lemma selectLocked_frame:
  assumes "selectLocked p sel now = (r, q)"
  shows "policy q = policy p" "affinities q = affinities p" "loaded q = loaded p"
    "states q = states (scanned p sel now)"
  using assms by (auto simp: selectLocked_eq Let_def split: if_splits option.splits)

section \<open>Lemmas on affinities\<close>

lemma affinityKey_nonempty [simp]: "affinityKey m k \<noteq> ''''"
  by (simp add: affinityKey_def)

text \<open>The NUL separator keeps the keys of different pairs apart as long as model IDs have none.\<close>

lemma affinityKey_inject:
  assumes "CHR 0x00 \<notin> set m" "CHR 0x00 \<notin> set m'" "affinityKey m k = affinityKey m' k'"
  shows "m = m' \<and> k = k'"
proof -
  let ?ne = "\<lambda>c. c \<noteq> CHR 0x00"
  have "takeWhile ?ne (affinityKey m k) = m" "takeWhile ?ne (affinityKey m' k') = m'"
    using assms(1,2) unfolding affinityKey_def by (subst takeWhile_append2; auto)+
  with assms(3) have "m = m'" by simp
  with assms(3) show ?thesis by (simp add: affinityKey_def)
qed

lemma oldest_loop_in: "oldest_loop affs k t \<in> insert k (fst ` set affs)"
  by (induction affs k t rule: oldest_loop.induct) auto

lemma oldest_in:
  assumes "affs \<noteq> []"
  shows "oldest_loop affs '''' t \<in> fst ` set affs"
proof -
  obtain k e rest where affs: "affs = (k, e) # rest" using assms by (cases affs) auto
  then show ?thesis using oldest_loop_in [of rest k "usedAt e"] by auto
qed

lemma oldest_loop_le:
  assumes "\<forall>(k, e) \<in> set affs. k \<noteq> ''''" "k \<noteq> ''''" "(k, e0) \<in> E" "usedAt e0 = t" "set affs \<subseteq> E"
  shows "\<exists>e. (oldest_loop affs k t, e) \<in> E \<and> usedAt e \<le> t \<and> (\<forall>(k', e') \<in> set affs. usedAt e \<le> usedAt e')"
  using assms
proof (induction affs k t arbitrary: e0 rule: oldest_loop.induct)
  case (1 k t)
  then show ?case by auto
next
  case (2 key entry rest k t)
  show ?case
  proof (cases "usedAt entry < t")
    case True
    with 2 show ?thesis by fastforce
  next
    case False
    with 2 show ?thesis by fastforce
  qed
qed

lemma length_delete_less: "k \<in> fst ` set al \<Longrightarrow> length (AList.delete k al) < length al"
proof (induction al)
  case (Cons x al)
  then show ?case by (cases "fst x = k") (auto simp: less_Suc_eq_le length_delete_le)
qed simp

lemma evict_loop_length:
  assumes "0 < m" "length affs \<le> n"
  shows "int (length (evict_loop n m affs)) < m"
  using assms
proof (induction n arbitrary: affs)
  case (Suc n)
  show ?case
  proof (cases "m \<le> int (length affs)")
    case True
    with Suc.prems have "affs \<noteq> []" by auto
    then have "length (AList.delete (oldest_loop affs '''' 0) affs) < length affs"
      by (intro length_delete_less oldest_in)
    with Suc True show ?thesis by simp
  qed simp
qed simp

lemma set_delete_subset: "set (AList.delete k al) \<subseteq> set al"
  by (auto simp: AList.delete_eq)

lemma evict_loop_subset: "set (evict_loop n m affs) \<subseteq> set affs"
proof (induction n arbitrary: affs)
  case (Suc n)
  then show ?case by (auto intro: subsetD [OF set_delete_subset])
qed simp

lemma evict_loop_distinct: "distinct (map fst affs) \<Longrightarrow> distinct (map fst (evict_loop n m affs))"
  by (induction n arbitrary: affs) (auto simp: distinct_delete)

lemma evict_loop_id: "int (length affs) < m \<Longrightarrow> evict_loop n m affs = affs"
  by (cases n) auto

lemma prune_frame [simp]:
  "policy (pruneAffinitiesLocked p now) = policy p" "states (pruneAffinitiesLocked p now) = states p"
  "roundRobin (pruneAffinitiesLocked p now) = roundRobin p" "loaded (pruneAffinitiesLocked p now) = loaded p"
  by (simp_all add: pruneAffinitiesLocked_def Let_def)

lemma prune_length:
  "0 < MaxAffinities (policy p) \<Longrightarrow>
   int (length (affinities (pruneAffinitiesLocked p now))) < MaxAffinities (policy p)"
  by (simp add: pruneAffinitiesLocked_def Let_def evict_loop_length)

lemma prune_live: "(k, e) \<in> set (affinities (pruneAffinitiesLocked p now)) \<Longrightarrow> (k, e) \<in> set (affinities p) \<and> now < expiresAt e"
  using evict_loop_subset by (fastforce simp: pruneAffinitiesLocked_def Let_def)

lemma prune_distinct [simp]:
  "distinct (map fst (affinities p)) \<Longrightarrow> distinct (map fst (affinities (pruneAffinitiesLocked p now)))"
  by (simp add: pruneAffinitiesLocked_def Let_def evict_loop_distinct)

lemma setAffinity_frame [simp]:
  "policy (setAffinityLocked p m k a now) = policy p" "states (setAffinityLocked p m k a now) = states p"
  "roundRobin (setAffinityLocked p m k a now) = roundRobin p" "loaded (setAffinityLocked p m k a now) = loaded p"
  by (simp_all add: setAffinityLocked_def)

lemma length_update_le: "length (AList.update k v al) \<le> Suc (length al)"
  by (induction al) auto

lemma setAffinity_length:
  "length (affinities (setAffinityLocked p m k a now)) \<le> Suc (length (affinities p))"
  by (simp add: setAffinityLocked_def length_update_le)

lemma setAffinity_distinct [simp]:
  "distinct (map fst (affinities p)) \<Longrightarrow> distinct (map fst (affinities (setAffinityLocked p m k a now)))"
  by (simp add: setAffinityLocked_def distinct_update)

lemma clearLocalAffinity_frame [simp]:
  "policy (clearLocalAffinityLocked p m k a) = policy p" "states (clearLocalAffinityLocked p m k a) = states p"
  "roundRobin (clearLocalAffinityLocked p m k a) = roundRobin p"
  "loaded (clearLocalAffinityLocked p m k a) = loaded p"
  by (simp_all add: clearLocalAffinityLocked_def split: option.split)

lemma clearLocalAffinity_distinct [simp]:
  "distinct (map fst (affinities p)) \<Longrightarrow> distinct (map fst (affinities (clearLocalAffinityLocked p m k a)))"
  by (simp add: clearLocalAffinityLocked_def distinct_delete split: option.split)

section \<open>Lemmas on well-formed pools\<close>

lemma wf_pool_prune [intro]: "wf_pool p \<Longrightarrow> wf_pool (pruneAffinitiesLocked p now)"
  and wf_pool_setAffinity [intro]: "wf_pool p \<Longrightarrow> wf_pool (setAffinityLocked p m k a now)"
  and wf_pool_clearLocalAffinity [intro]: "wf_pool p \<Longrightarrow> wf_pool (clearLocalAffinityLocked p m k a)"
  by (simp_all add: wf_pool_def)

lemma wf_pool_recordAffinity [intro]: "wf_pool p \<Longrightarrow> wf_pool (recordAffinity p m k a now)"
  by (auto simp: recordAffinity_def)

lemma wf_states_map:
  assumes "wf_states ss" "\<And>k s. (k, s) \<in> set ss \<Longrightarrow> ID (account (f k s)) = ID (account s) \<and> 0 \<le> inflight (f k s)"
  shows "wf_states (map (\<lambda>(k, s). (k, f k s)) ss)"
  using assms by (auto simp: wf_states_def case_prod_unfold comp_def)

lemma wf_states_scan: "wf_states (states p) \<Longrightarrow> wf_states (states (scanned p sel now))"
  unfolding scanned_def scan_states by (simp, rule wf_states_map) (auto simp: wf_states_def)

lemma wf_pool_select:
  "wf_pool p \<Longrightarrow> selectLocked p sel now = (r, q) \<Longrightarrow> wf_pool q"
  using selectLocked_frame [of p sel now r q] by (simp add: wf_pool_def wf_states_scan)

lemma wf_states_lookup: "wf_states ss \<Longrightarrow> map_of ss k = Some s \<Longrightarrow> ID (account s) = k \<and> 0 \<le> inflight s"
  by (auto simp: wf_states_def dest: map_of_SomeD)

lemma candidates_key:
  assumes "wf_states (states p)" "c \<in> set (candidates p sel now)"
  shows "cand_id c = fst c"
proof -
  obtain s where "(fst c, s) \<in> set (states p)" "snd c = thaw s now" using assms(2) by (rule candidates_mem)
  with assms(1) show ?thesis by (auto simp: wf_states_def)
qed

lemma candidates_inj:
  assumes "wf_states (states p)"
  shows "inj_on cand_id (set (candidates p sel now))"
proof (rule inj_onI)
  fix c d
  assume c: "c \<in> set (candidates p sel now)" and d: "d \<in> set (candidates p sel now)" and eq: "cand_id c = cand_id d"
  then have "fst c = fst d" using candidates_key [OF assms] by metis
  moreover obtain s where s: "(fst c, s) \<in> set (states p)" "snd c = thaw s now" using c by (rule candidates_mem)
  moreover obtain t where t: "(fst d, t) \<in> set (states p)" "snd d = thaw t now" using d by (rule candidates_mem)
  ultimately have "s = t" using assms by (auto simp: wf_states_def dest: eq_key_imp_eq_value)
  with s t \<open>fst c = fst d\<close> show "c = d" by (simp add: prod_eq_iff)
qed

lemma candidates_distinct:
  assumes "distinct (map fst (states p))"
  shows "distinct (candidates p sel now)"
proof -
  have "distinct (map fst (snd (scan_candidates (policy p) (sel_Model sel) now (ExcludeIDs sel) (states p))))"
    using assms by (simp add: case_prod_unfold comp_def distinct_map_filter)
  then have "distinct (snd (scan_candidates (policy p) (sel_Model sel) now (ExcludeIDs sel) (states p)))"
    by (rule distinct_map [THEN iffD1, THEN conjunct1])
  then show ?thesis by (simp add: candidates_def Let_def prefer_best_eq del: scan_cands)
qed

section \<open>Independence of the iteration order\<close>

lemma find_inj_set:
  assumes "inj_on f (set xs)" "set xs = set ys"
  shows "find (\<lambda>c. f c = a) xs = find (\<lambda>c. f c = a) ys"
proof (cases "\<exists>c \<in> set xs. f c = a")
  case True
  then obtain c where c: "c \<in> set xs" "f c = a" by blast
  have unique: "find (\<lambda>c. f c = a) zs = Some c" if "set zs = set xs" for zs
  proof -
    have "find (\<lambda>c. f c = a) zs \<noteq> None" using c that by (auto simp: find_None_iff)
    then obtain d where d: "find (\<lambda>c. f c = a) zs = Some d" by auto
    then have "d \<in> set xs" "f d = a" using that by (auto simp: find_Some_iff)
    with assms(1) c have "d = c" by (auto dest: inj_onD)
    with d show ?thesis by simp
  qed
  show ?thesis using unique [of xs] unique [of ys] assms(2) by simp
next
  case False
  then have "find (\<lambda>c. f c = a) xs = None" "find (\<lambda>c. f c = a) ys = None"
    using assms(2) by (auto simp: find_None_iff)
  then show ?thesis by simp
qed

lemma set_candidates_cong:
  assumes "set (states p) = set (states q)" "policy p = policy q"
  shows "set (candidates p sel now) = set (candidates q sel now)"
proof -
  have "set (snd (scan_candidates (policy p) (sel_Model sel) now (ExcludeIDs sel) (states p))) =
        set (snd (scan_candidates (policy q) (sel_Model sel) now (ExcludeIDs sel) (states q)))"
    using assms by simp
  then show ?thesis by (simp add: candidates_def Let_def prefer_best_eq del: scan_cands)
qed

lemma choice_order_independent:
  assumes inj: "inj_on cand_id (set cs)" and set: "set cs = set ds"
    and dist: "distinct cs" "distinct ds" and ne: "cs \<noteq> []"
  shows "sticky_candidate p sel now cs = sticky_candidate p sel now ds"
    and "round_robin_candidate p m cs = round_robin_candidate p m ds"
    and "best_candidate now cs = best_candidate now ds"
proof -
  show "sticky_candidate p sel now cs = sticky_candidate p sel now ds"
    unfolding sticky_candidate_def find_inj_set [OF inj set] ..
  have "mset cs = mset ds" using dist set by (simp add: set_eq_iff_mset_eq_distinct)
  then have "mset (sort_key cand_id ds) = mset cs" by simp
  then have "sort_key cand_id cs = sort_key cand_id ds"
    using inj by (intro sort_key_inj_key_eq) auto
  then show "round_robin_candidate p m cs = round_robin_candidate p m ds"
    by (simp add: round_robin_candidate_def)
  have "ds \<noteq> []" using set ne by auto
  then have mem: "best_candidate now cs \<in> set cs" "best_candidate now ds \<in> set cs"
    using best_candidate_in [of cs now] best_candidate_in [of ds now] ne set by auto
  then have "preferred now (best_candidate now cs) (best_candidate now ds)"
    "preferred now (best_candidate now ds) (best_candidate now cs)"
    using set by (auto intro!: best_candidate_preferred)
  then show "best_candidate now cs = best_candidate now ds"
    using mem by (auto intro!: inj_onD [OF inj] preferred_antisym)
qed

lemma select_result_cong:
  assumes "wf_states (states p)" "wf_states (states q)" "set (states p) = set (states q)"
    and same: "policy p = policy q" "affinities p = affinities q" "roundRobin p = roundRobin q"
  shows "fst (selectLocked p sel now) = fst (selectLocked q sel now)"
proof -
  let ?cs = "candidates p sel now" and ?ds = "candidates q sel now"
  have set: "set ?cs = set ?ds" using assms(3) same by (intro set_candidates_cong)
  have dist: "distinct ?cs" "distinct ?ds"
    using assms by (auto intro: candidates_distinct simp: wf_states_def)
  have inj: "inj_on cand_id (set ?cs)" using assms(1) by (rule candidates_inj)
  have env: "sticky_candidate q = sticky_candidate p" "round_robin_candidate q = round_robin_candidate p"
    using same by (auto simp: fun_eq_iff sticky_candidate_def round_robin_candidate_def)
  show ?thesis
  proof (cases "?cs = []")
    case True
    with set have "?ds = []" by auto
    with True show ?thesis by (simp add: selectLocked_eq)
  next
    case False
    with set have "?ds \<noteq> []" by auto
    with False choice_order_independent [OF inj set dist False] show ?thesis
      by (simp add: selectLocked_eq Let_def env same split: option.split)
  qed
qed

section \<open>Round robin\<close>

lemma scan_again:
  "snd (scan_candidates p m now ex (fst (scan_candidates p m now ex ss))) = snd (scan_candidates p m now ex ss)"
  unfolding scan_cands scan_states by (induction ss) auto

lemma candidates_scanned [simp]: "candidates (scanned p sel now) sel now = candidates p sel now"
  unfolding candidates_def scanned_def by (simp add: scan_again del: scan_cands scan_states)

lemma candidates_roundRobin [simp]: "candidates (p\<lparr>roundRobin := r\<rparr>) sel now = candidates p sel now"
  by (simp add: candidates_def)

lemma select_times_round_robin:
  assumes "policy_Strategy (policy p) = StrategyRoundRobin" "candidates p sel now = cs" "cs \<noteq> []"
    and "unat (roundRobin p (model_ID (sel_Model sel))) = c" "c + n \<le> 2 ^ 64"
  shows "select_times n p sel now =
    map (\<lambda>j. Some (fst (sort_key cand_id cs ! ((c + j) mod length cs)))) [0..<n]"
  using assms
proof (induction n arbitrary: p c)
  case (Suc n)
  let ?m = "model_ID (sel_Model sel)"
  let ?q = "scanned p sel now\<lparr>roundRobin := (roundRobin p)(?m := roundRobin p ?m + 1)\<rparr>"
  have ns: "sticky_candidate p sel now cs = None"
    using Suc.prems by (simp add: sticky_candidate_def strategy_defs)
  have step: "selectLocked p sel now = (Some (fst (sort_key cand_id cs ! (c mod length cs))), ?q)"
    using Suc.prems ns by (simp add: selectLocked_eq Let_def round_robin_candidate_def)
  show ?case
  proof (cases n)
    case 0
    with step show ?thesis by simp
  next
    case (Suc k)
    have "unat (roundRobin ?q ?m) = Suc c"
      using Suc.prems Suc by (simp add: unat_word_ariths)
    with Suc.IH [of ?q "Suc c"] Suc.prems have
      "select_times n ?q sel now =
         map (\<lambda>j. Some (fst (sort_key cand_id cs ! ((Suc c + j) mod length cs)))) [0..<n]"
      by simp
    with step show ?thesis
      by (simp add: upt_conv_Cons map_Suc_upt [symmetric] comp_def del: upt_Suc)
  qed
qed simp

lemma map_rotate: "map (\<lambda>j. xs ! ((c + j) mod length xs)) [0..<length xs] = rotate c xs"
  by (rule nth_equalityI) (auto simp: nth_rotate)

lemma mset_rotate: "mset (rotate n xs) = mset xs"
proof (induction n)
  case (Suc n)
  have "mset (rotate1 ys) = mset ys" for ys :: "'a list" by (cases ys) auto
  with Suc show ?case by simp
qed simp

lemma round_robin_permutation:
  assumes "policy_Strategy (policy p) = StrategyRoundRobin"
    and "unat (roundRobin p (model_ID (sel_Model sel))) + length (candidates p sel now) \<le> 2 ^ 64"
  shows "mset (select_times (length (candidates p sel now)) p sel now) =
    mset (map (\<lambda>c. Some (fst c)) (candidates p sel now))"
proof (cases "candidates p sel now = []")
  case False
  let ?cs = "candidates p sel now" and ?c = "unat (roundRobin p (model_ID (sel_Model sel)))"
  have "select_times (length ?cs) p sel now =
      map (\<lambda>c. Some (fst c)) (map (\<lambda>j. sort_key cand_id ?cs ! ((?c + j) mod length ?cs)) [0..<length ?cs])"
    using select_times_round_robin [OF assms(1) refl False refl assms(2)] by (simp add: comp_def)
  also have "\<dots> = map (\<lambda>c. Some (fst c)) (rotate ?c (sort_key cand_id ?cs))"
    using map_rotate [of "sort_key cand_id ?cs" ?c] by simp
  finally show ?thesis by (simp add: mset_rotate)
qed simp

end
