(* ===== verification/Account_Pool.thy ===== *)
theory Account_Pool
  imports Account_Select
begin

text \<open>
  The operations of the account pool: construction, reload, removal, acquisition, release and
  the administrative probe (\<open>internal/accounts/pool.go\<close>, \<open>probe.go\<close>).

  The pool calls a store, an optional coordinator, a clock and an optional notifier. They are
  records of functions over a world \<open>'w\<close>, one field per method of the Go interface; each call
  takes the world and returns the next one, so any implementation (and whatever other processes
  do between two calls) is covered. A call with results \<open>(x, ok, err)\<close> returns \<^const>\<open>Inl\<close> of
  the error or \<^const>\<open>Inr\<close> of an option.

  An operation runs as one sequence of the code's critical sections; the interleavings of the
  critical sections of several goroutines are the step relation of the theory \<open>Pool_Steps\<close>.
\<close>

section \<open>Collaborators\<close>

record 'w Store =
  ListAccounts :: "'w \<Rightarrow> (error + Account list) \<times> 'w"
  store_Credentials :: "string \<Rightarrow> 'w \<Rightarrow> (error + Credentials) \<times> 'w"
  UpdateAccount :: "Account \<Rightarrow> 'w \<Rightarrow> error option \<times> 'w"

record CoordinationLease =
  cl_AccountID :: string
  Slot :: int
  Owner :: string

record 'w Coordinator =
  AcquireLease :: "string \<Rightarrow> int \<Rightarrow> duration \<Rightarrow> 'w \<Rightarrow> (error + CoordinationLease option) \<times> 'w"
  ReleaseLease :: "CoordinationLease \<Rightarrow> 'w \<Rightarrow> error option \<times> 'w"
  GetAffinity :: "string \<Rightarrow> string \<Rightarrow> 'w \<Rightarrow> (error + string option) \<times> 'w"
  BindAffinity :: "string \<Rightarrow> string \<Rightarrow> string \<Rightarrow> duration \<Rightarrow> 'w \<Rightarrow> (error + string \<times> bool) \<times> 'w"
  ClearAffinity :: "string \<Rightarrow> string \<Rightarrow> string \<Rightarrow> 'w \<Rightarrow> error option \<times> 'w"
  coord_CooldownUntil :: "string \<Rightarrow> 'w \<Rightarrow> (error + time option) \<times> 'w"
  SetCooldown :: "string \<Rightarrow> time \<Rightarrow> 'w \<Rightarrow> error option \<times> 'w"
  coord_ClearCooldown :: "string \<Rightarrow> 'w \<Rightarrow> error option \<times> 'w"

record 'w Deps =
  dep_store :: "'w Store"
  coordinator :: "'w Coordinator option"
  now_fn :: "'w \<Rightarrow> time \<times> 'w"
  notifier :: "('w \<Rightarrow> error option \<times> 'w) option"

record Lease =
  lease_Account :: Account
  lease_Credentials :: Credentials
  CacheIdentityApplied :: bool
  AffinityReused :: bool
  CacheAffinityEstablished :: bool
  coordination :: "CoordinationLease option"
  affinityModel :: string
  lease_affinityKey :: string
  once_done :: bool
  releaseErr :: "error option"

section \<open>Construction and settings\<close>

definition NewPoolWithCoordinator ::
  "'w Store \<Rightarrow> Policy \<Rightarrow> 'w Coordinator option \<Rightarrow> ('w \<Rightarrow> time \<times> 'w) \<Rightarrow> Pool \<times> 'w Deps" where
  "NewPoolWithCoordinator st pol coord clock =
     (\<lparr>policy = normalize_policy pol, loaded = False, states = [], affinities = [], roundRobin = (\<lambda>_. 0)\<rparr>,
      \<lparr>dep_store = st, coordinator = coord, now_fn = clock, notifier = None\<rparr>)"

definition NewPool :: "'w Store \<Rightarrow> Policy \<Rightarrow> ('w \<Rightarrow> time \<times> 'w) \<Rightarrow> Pool \<times> 'w Deps" where
  "NewPool st pol clock = NewPoolWithCoordinator st pol None clock"

definition SetChangeNotifier :: "'w Deps \<Rightarrow> ('w \<Rightarrow> error option \<times> 'w) option \<Rightarrow> 'w Deps" where
  "SetChangeNotifier d n = d\<lparr>notifier := n\<rparr>"

definition Strategy_of :: "Pool \<Rightarrow> Strategy" where
  "Strategy_of p = policy_Strategy (policy p)"

definition SetStrategy :: "Pool \<Rightarrow> Strategy \<Rightarrow> error option \<times> Pool" where
  "SetStrategy p strategy =
     (case ParseStrategy strategy of
        Inl e \<Rightarrow> (Some e, p)
      | Inr parsed \<Rightarrow>
          if policy_Strategy (policy p) = parsed then (None, p)
          else (None, p\<lparr>policy := (policy p)\<lparr>policy_Strategy := parsed\<rparr>, affinities := [],
                        roundRobin := (\<lambda>_. 0)\<rparr>))"

section \<open>Reload and removal\<close>

text \<open>One round of the loop over the persisted accounts.\<close>

definition reload_item :: "Account \<Rightarrow> states \<Rightarrow> states" where
  "reload_item item0 ss =
     (let item = (if HealthScore item0 \<le> 0 then item0\<lparr>HealthScore := 1\<rparr> else item0);
          state = (case map_of ss (ID item) of
                     None \<Rightarrow> \<lparr>account = item, inflight = 0, health = 0, failures = 0,
                              cooldownTill = 0, lastUsedPersisted = 0\<rparr>
                   | Some s \<Rightarrow> s)
      in AList.update (ID item)
           (state\<lparr>account := item, health := HealthScore item, failures := FailureCount item,
                  lastUsedPersisted :=
                    (case LastUsedAt item of
                       None \<Rightarrow> lastUsedPersisted state
                     | Some t \<Rightarrow> if lastUsedPersisted state < t then t else lastUsedPersisted state),
                  cooldownTill :=
                    (case CooldownUntil item of
                       None \<Rightarrow> 0
                     | Some t \<Rightarrow> if cooldownTill state < t then t else cooldownTill state)\<rparr>)
           ss)"

text \<open>The critical section of \<open>Reload\<close>.\<close>

definition reload_apply :: "Account list \<Rightarrow> Pool \<Rightarrow> Pool" where
  "reload_apply items p =
     (let seen = set (map ID items);
          states1 = fold reload_item items (states p);
          states2 = filter (\<lambda>(aid, s). aid \<in> seen) states1
      in p\<lparr>states := states2,
           affinities := filter (\<lambda>(key, entry).
               case map_of states2 (accountID entry) of
                 None \<Rightarrow> False
               | Some s \<Rightarrow> Status (account s) = AccountActive) (affinities p),
           loaded := True\<rparr>)"

text \<open>
  \<open>ctxErr\<close> is the outcome of the wait for the reload token: \<^const>\<open>None\<close> when the token was
  taken, the context's error when the context ended first.
\<close>

definition Reload :: "'w Deps \<Rightarrow> error option \<Rightarrow> Pool \<Rightarrow> 'w \<Rightarrow> error option \<times> Pool \<times> 'w" where
  "Reload d ctxErr p w =
     (case ctxErr of
        Some e \<Rightarrow> (Some e, p, w)
      | None \<Rightarrow>
          (let (r, w) = ListAccounts (dep_store d) w
           in case r of
                Inl e \<Rightarrow> (Some e, p, w)
              | Inr items \<Rightarrow> (None, reload_apply items p, w)))"

definition ensureLoaded :: "'w Deps \<Rightarrow> error option \<Rightarrow> Pool \<Rightarrow> 'w \<Rightarrow> error option \<times> Pool \<times> 'w" where
  "ensureLoaded d ctxErr p w = (if loaded p then (None, p, w) else Reload d ctxErr p w)"

definition RemoveAccounts :: "string list \<Rightarrow> Pool \<Rightarrow> Pool" where
  "RemoveAccounts accountIDs p =
     (let removed = filter (\<lambda>i. i \<noteq> '''') (map TrimSpace accountIDs)
      in if removed = [] then p
         else p\<lparr>states := filter (\<lambda>(aid, s). aid \<notin> set removed) (states p),
                affinities := filter (\<lambda>(key, entry). accountID entry \<notin> set removed) (affinities p)\<rparr>)"

definition ClearCooldown :: "'w Deps \<Rightarrow> string \<Rightarrow> 'w \<Rightarrow> error option \<times> 'w" where
  "ClearCooldown d aid w =
     (case coordinator d of None \<Rightarrow> (None, w) | Some c \<Rightarrow> coord_ClearCooldown c aid w)"

section \<open>Acquire\<close>

definition rollbackReservation :: "Pool \<Rightarrow> string \<Rightarrow> time \<Rightarrow> Pool" where
  "rollbackReservation p aid until =
     p\<lparr>states := amodify aid
         (\<lambda>s. s\<lparr>inflight := (if 0 < inflight s then inflight s - 1 else inflight s),
                cooldownTill := (if cooldownTill s < until then until else cooldownTill s)\<rparr>)
         (states p)\<rparr>"

text \<open>The variables that live across the rounds of the acquisition loop.\<close>

record 'w acq =
  acq_pool :: Pool
  excluded :: "string list"
  capacityExcluded :: "string list"
  coordinatedAffinity :: string
  acq_world :: 'w

datatype 'w round = Again "'w acq" | Return "error + Lease" Pool 'w

text \<open>The start of a round: prune, then mirror the coordinated affinity in the local table.\<close>

definition acquire_prepare :: "'w Deps \<Rightarrow> Selection \<Rightarrow> bool \<Rightarrow> string \<Rightarrow> time \<Rightarrow> Pool \<Rightarrow> Pool" where
  "acquire_prepare d sel useAffinity coordinated now p0 =
     (let p = pruneAffinitiesLocked p0 now; m = model_ID (sel_Model sel)
      in if coordinator d \<noteq> None \<and> useAffinity
         then (if coordinated \<noteq> '''' then setAffinityLocked p m (AffinityKey sel) coordinated now
               else p\<lparr>affinities := AList.delete (affinityKey m (AffinityKey sel)) (affinities p)\<rparr>)
         else p)"

text \<open>
  The affinity lookup of a round: the preferred account, whether it is at capacity, the stale
  account, and the pool (the eligibility test writes the preferred state, a stale entry is
  deleted).
\<close>

definition acquire_affinity ::
  "Selection \<Rightarrow> bool \<Rightarrow> string list \<Rightarrow> time \<Rightarrow> Pool \<Rightarrow> string \<times> bool \<times> string \<times> Pool" where
  "acquire_affinity sel useAffinity capacity now p =
     (if \<not> useAffinity then ('''', False, '''', p)
      else
        (let key = affinityKey (model_ID (sel_Model sel)) (AffinityKey sel)
         in case map_of (affinities p) key of
              None \<Rightarrow> ('''', False, '''', p)
            | Some entry \<Rightarrow>
                if \<not> now < expiresAt entry then ('''', False, '''', p)
                else
                  (case map_of (states p) (accountID entry) of
                     None \<Rightarrow> ('''', False, accountID entry,
                             p\<lparr>affinities := AList.delete key (affinities p)\<rparr>)
                   | Some s \<Rightarrow>
                       (let (ok, s') = durablyEligibleLocked (policy p) s (sel_Model sel) now;
                            p = p\<lparr>states := amodify (accountID entry) (\<lambda>_. s') (states p)\<rparr>
                        in if \<not> ok
                           then ('''', False, accountID entry,
                                 p\<lparr>affinities := AList.delete key (affinities p)\<rparr>)
                           else (accountID entry,
                                 concurrency_limit (policy p) (account s') \<le> inflight s'
                                   \<or> accountID entry \<in> set capacity,
                                 '''', p)))))"

text \<open>The reservation: select, count the request, stamp the account.\<close>

definition acquire_reserve ::
  "Selection \<Rightarrow> string list \<Rightarrow> time \<Rightarrow> Pool \<Rightarrow> Account option \<times> Pool" where
  "acquire_reserve sel ex now p0 =
     (let (r, p) = selectLocked p0 (sel\<lparr>ExcludeIDs := ex\<rparr>) now
      in case r of
           None \<Rightarrow> (None, p)
         | Some k \<Rightarrow>
             (let p = p\<lparr>states := amodify k
                        (\<lambda>s. s\<lparr>inflight := inflight s + 1,
                               account := (account s)\<lparr>LastUsedAt := Some now\<rparr>\<rparr>) (states p)\<rparr>
              in (map_option account (map_of (states p) k), p)))"

datatype 'w coordinated =
    CoordAgain "'w acq"
  | CoordFail error Pool 'w
  | CoordOk "CoordinationLease option" 'w

text \<open>The coordinated cooldown and the coordinated lease.\<close>

definition acquire_coordinate ::
  "'w Deps \<Rightarrow> Selection \<Rightarrow> 'w acq \<Rightarrow> Account \<Rightarrow> Pool \<Rightarrow> 'w \<Rightarrow> 'w coordinated" where
  "acquire_coordinate d sel st acc p w =
     (case coordinator d of
        None \<Rightarrow> CoordOk None w
      | Some c \<Rightarrow>
          (let (r, w) = coord_CooldownUntil c (ID acc) w
           in case r of
                Inl e \<Rightarrow> CoordFail (Wrapped ''read coordinated account cooldown'' e)
                                  (rollbackReservation p (ID acc) 0) w
              | Inr (Some until) \<Rightarrow>
                  (let p = rollbackReservation p (ID acc) until;
                       ex = ID acc # excluded st;
                       aff = coordinatedAffinity st;
                       m = model_ID (sel_Model sel)
                   in if aff \<noteq> '''' \<and> ID acc = aff
                      then
                        (let p = clearLocalAffinityLocked p m (AffinityKey sel) aff;
                             (e, w) = ClearAffinity c m (AffinityKey sel) aff w
                         in case e of
                              Some e \<Rightarrow> CoordFail (Wrapped ''clear cooling account affinity'' e) p w
                            | None \<Rightarrow> CoordAgain (st\<lparr>acq_pool := p, excluded := ex,
                                                   coordinatedAffinity := '''', acq_world := w\<rparr>))
                      else CoordAgain (st\<lparr>acq_pool := p, excluded := ex, acq_world := w\<rparr>))
              | Inr None \<Rightarrow>
                  (let (r, w) = AcquireLease c (ID acc) (concurrency_limit (policy p) acc)
                                  (LeaseTTL (policy p)) w
                   in case r of
                        Inl e \<Rightarrow> CoordFail (Wrapped ''acquire coordinated account lease'' e)
                                          (rollbackReservation p (ID acc) 0) w
                      | Inr None \<Rightarrow>
                          CoordAgain (st\<lparr>acq_pool := rollbackReservation p (ID acc) 0,
                                         excluded := ID acc # excluded st,
                                         capacityExcluded := ID acc # capacityExcluded st,
                                         acq_world := w\<rparr>)
                      | Inr (Some l) \<Rightarrow> CoordOk (Some l) w)))"

text \<open>Give the coordinated lease back on a late error, joining the two errors.\<close>

definition release_joined ::
  "'w Deps \<Rightarrow> CoordinationLease option \<Rightarrow> error \<Rightarrow> 'w \<Rightarrow> error \<times> 'w" where
  "release_joined d l err w =
     (case (coordinator d, l) of
        (Some c, Some l) \<Rightarrow>
          (let (re, w) = ReleaseLease c l w
           in (case errors_join (Some err) re of None \<Rightarrow> err | Some j \<Rightarrow> j, w))
      | _ \<Rightarrow> (err, w))"

text \<open>Bind and record the affinity: the resolved account and whether this request established it.\<close>

definition acquire_bind ::
  "'w Deps \<Rightarrow> Selection \<Rightarrow> Account \<Rightarrow> bool \<Rightarrow> string \<Rightarrow> bool \<Rightarrow> Pool \<Rightarrow> 'w
    \<Rightarrow> (error + string \<times> bool) \<times> 'w" where
  "acquire_bind d sel acc preserve preferredAff reused p w =
     (case coordinator d of
        Some c \<Rightarrow>
          (let (r, w) = BindAffinity c (model_ID (sel_Model sel)) (AffinityKey sel) (ID acc)
                          (AffinityTTL (policy p)) w
           in (case r of
                 Inl e \<Rightarrow> Inl e
               | Inr (resolved, established) \<Rightarrow> Inr (resolved, established \<and> resolved = ID acc), w))
      | None \<Rightarrow>
          (let target = (if preserve then preferredAff else ID acc)
           in (Inr (target, target = ID acc \<and> \<not> reused), w)))"

text \<open>The end of a round: credentials, affinity, and the lease.\<close>

definition acquire_commit ::
  "'w Deps \<Rightarrow> Selection \<Rightarrow> bool \<Rightarrow> string \<Rightarrow> time \<Rightarrow> Account \<Rightarrow> string \<Rightarrow> bool
    \<Rightarrow> CoordinationLease option \<Rightarrow> Pool \<Rightarrow> 'w \<Rightarrow> (error + Lease) \<times> Pool \<times> 'w" where
  "acquire_commit d sel useAffinity coordinated now acc preferredAff preferredAtCapacity cl p w =
     (let m = model_ID (sel_Model sel); key = AffinityKey sel;
          reused = (preferredAff \<noteq> '''' \<and> preferredAff = ID acc);
          preserve = (preferredAff \<noteq> '''' \<and> ID acc \<noteq> preferredAff \<and> preferredAtCapacity);
          undone = rollbackReservation p (ID acc) 0;
          (cr, w) = store_Credentials (dep_store d) (ID acc) w
      in case cr of
           Inl err \<Rightarrow> (let (e, w) = release_joined d cl err w in (Inl e, undone, w))
         | Inr creds \<Rightarrow>
             (let (ce, w) = (case coordinator d of
                               Some c \<Rightarrow>
                                 if coordinated \<noteq> '''' \<and> ID acc \<noteq> coordinated \<and> \<not> preserve
                                 then ClearAffinity c m key coordinated w else (None, w)
                             | None \<Rightarrow> (None, w))
              in case ce of
                   Some err \<Rightarrow>
                     (let (e, w) = release_joined d cl err w
                      in (Inl (Wrapped ''clear stale account affinity'' e), undone, w))
                 | None \<Rightarrow>
                     (let lease = \<lparr>lease_Account = acc, lease_Credentials = creds,
                                   CacheIdentityApplied = useAffinity, AffinityReused = reused,
                                   CacheAffinityEstablished = False, coordination = cl,
                                   affinityModel = (if useAffinity then m else ''''),
                                   lease_affinityKey = (if useAffinity then key else ''''),
                                   once_done = False, releaseErr = None\<rparr>
                      in if \<not> useAffinity then (Inr lease, p, w)
                         else
                           (let (br, w) = acquire_bind d sel acc preserve preferredAff reused p w
                            in case br of
                                 Inl err \<Rightarrow>
                                   (let (e, w) = release_joined d cl
                                          (Wrapped ''bind coordinated account affinity'' err) w
                                    in (Inl e, undone, w))
                               | Inr (target, established) \<Rightarrow>
                                   (Inr (lease\<lparr>CacheAffinityEstablished := established\<rparr>),
                                    recordAffinity p m key target now, w)))))"

text \<open>A stale affinity is cleared, in the coordinator too when it came from there.\<close>

definition acquire_stale :: "'w Deps \<Rightarrow> Selection \<Rightarrow> 'w acq \<Rightarrow> string \<Rightarrow> Pool \<Rightarrow> 'w \<Rightarrow> 'w round" where
  "acquire_stale d sel st staleAffinity p w =
     (case coordinator d of
        Some c \<Rightarrow>
          (if coordinatedAffinity st = staleAffinity
           then
             (let (e, w) = ClearAffinity c (model_ID (sel_Model sel)) (AffinityKey sel) staleAffinity w
              in case e of
                   Some e \<Rightarrow> Return (Inl (Wrapped ''clear unavailable account affinity'' e)) p w
                 | None \<Rightarrow> Again (st\<lparr>acq_pool := p, coordinatedAffinity := '''', acq_world := w\<rparr>))
           else Again (st\<lparr>acq_pool := p, acq_world := w\<rparr>))
      | None \<Rightarrow> Again (st\<lparr>acq_pool := p, acq_world := w\<rparr>))"

text \<open>Otherwise an account is reserved and the round goes through the coordinator and the store.\<close>

definition acquire_try ::
  "'w Deps \<Rightarrow> Selection \<Rightarrow> bool \<Rightarrow> 'w acq \<Rightarrow> time \<Rightarrow> string \<Rightarrow> bool \<Rightarrow> Pool \<Rightarrow> 'w \<Rightarrow> 'w round" where
  "acquire_try d sel useAffinity st now preferredAff preferredAtCapacity p w =
     (let (acc, p) = acquire_reserve sel (excluded st) now p
      in case acc of
           None \<Rightarrow> Return (Inl ErrNoAccount) p w
         | Some acc \<Rightarrow>
             (case acquire_coordinate d sel st acc p w of
                CoordAgain st' \<Rightarrow> Again st'
              | CoordFail e p w \<Rightarrow> Return (Inl e) p w
              | CoordOk cl w \<Rightarrow>
                  (let (r, p, w) = acquire_commit d sel useAffinity (coordinatedAffinity st) now acc
                                     preferredAff preferredAtCapacity cl p w
                   in Return r p w)))"

definition acquire_step :: "'w Deps \<Rightarrow> Selection \<Rightarrow> bool \<Rightarrow> 'w acq \<Rightarrow> 'w round" where
  "acquire_step d sel useAffinity st =
     (let (now, w) = now_fn d (acq_world st);
          p = acquire_prepare d sel useAffinity (coordinatedAffinity st) now (acq_pool st);
          (preferredAff, preferredAtCapacity, staleAffinity, p) =
            acquire_affinity sel useAffinity (capacityExcluded st) now p
      in if staleAffinity \<noteq> '''' then acquire_stale d sel st staleAffinity p w
         else acquire_try d sel useAffinity st now preferredAff preferredAtCapacity p w)"

fun acquire_loop ::
  "nat \<Rightarrow> 'w Deps \<Rightarrow> Selection \<Rightarrow> bool \<Rightarrow> 'w acq \<Rightarrow> ((error + Lease) \<times> Pool \<times> 'w) option" where
  "acquire_loop 0 d sel useAffinity st = None"
| "acquire_loop (Suc n) d sel useAffinity st =
     (case acquire_step d sel useAffinity st of
        Return r p w \<Rightarrow> Some (r, p, w)
      | Again st' \<Rightarrow> acquire_loop n d sel useAffinity st')"

text \<open>
  Every round that does not return excludes an account that was not excluded or drops a stale
  affinity, which happens once: one round per state and two more are enough.
\<close>

definition Acquire ::
  "'w Deps \<Rightarrow> error option \<Rightarrow> Selection \<Rightarrow> Pool \<Rightarrow> 'w \<Rightarrow> ((error + Lease) \<times> Pool \<times> 'w) option" where
  "Acquire d ctxErr sel p w =
     (let (e, p, w) = ensureLoaded d ctxErr p w
      in case e of
           Some e \<Rightarrow> Some (Inl e, p, w)
         | None \<Rightarrow>
             (let useAffinity = (policy_Strategy (policy p) = StrategyAffinity \<and> AffinityKey sel \<noteq> '''');
                  (ga, w) = (case coordinator d of
                               Some c \<Rightarrow>
                                 if useAffinity then GetAffinity c (model_ID (sel_Model sel)) (AffinityKey sel) w
                                 else (Inr None, w)
                             | None \<Rightarrow> (Inr None, w))
              in case ga of
                   Inl e \<Rightarrow> Some (Inl (Wrapped ''read coordinated account affinity'' e), p, w)
                 | Inr found \<Rightarrow>
                     acquire_loop (length (states p) + 2) d sel useAffinity
                       \<lparr>acq_pool = p, excluded = ExcludeIDs sel, capacityExcluded = [],
                        coordinatedAffinity = (case found of None \<Rightarrow> '''' | Some a \<Rightarrow> a),
                        acq_world = w\<rparr>))"

section \<open>Release\<close>

text \<open>The arms of the switch in \<open>release\<close>, in order.\<close>

datatype verdict =
    TerminalChanged | RateLimited | PermanentFailure | QuotaSpent | LateSuccess | Success
  | ClientGone | TransientFailure | NoChange

definition classify ::
  "AccountStatus \<Rightarrow> AccountStatus \<Rightarrow> bool \<Rightarrow> bool \<Rightarrow> Feedback \<Rightarrow> verdict" where
  "classify status leased concurrentCooldown exhausted fb =
     (let ok = (200 \<le> StatusCode fb \<and> StatusCode fb < 400 \<and> fb_Err fb = None)
      in if status \<noteq> leased \<and> isTerminalAccountStatus status then TerminalChanged
         else if StatusCode fb = 429 then RateLimited
         else if isPermanentCredentialFailure (StatusCode fb) then PermanentFailure
         else if exhausted then QuotaSpent
         else if ok \<and> concurrentCooldown then LateSuccess
         else if ok then Success
         else if StatusCode fb = 499 then ClientGone
         else if fb_Err fb \<noteq> None \<or> 500 \<le> StatusCode fb then TransientFailure
         else NoChange)"

text \<open>What an arm leaves behind: the state, the coordinated cooldown and three flags.\<close>

record effect =
  eff_state :: runtimeState
  eff_cooldownUntil :: time
  eff_persist :: bool
  eff_publish :: bool
  eff_invalidate :: bool

definition retry_cooldown :: "Policy \<Rightarrow> CredentialKind \<Rightarrow> Feedback \<Rightarrow> duration" where
  "retry_cooldown pol kind fb =
     (let cooldown = RetryAfter fb;
          cooldown = (if cooldown \<le> 0 then rate_limit_cooldown pol kind else cooldown)
      in if cooldown \<le> 0 then 15 * Minute else cooldown)"

definition apply_verdict ::
  "Policy \<Rightarrow> Feedback \<Rightarrow> time \<Rightarrow> time \<Rightarrow> bool \<Rightarrow> verdict \<Rightarrow> runtimeState \<Rightarrow> bool \<Rightarrow> bool \<Rightarrow> effect" where
  "apply_verdict pol fb now quotaReset exhausted v s persist publish =
     (let acc = account s
      in case v of
        TerminalChanged \<Rightarrow>
          \<lparr>eff_state = s, eff_cooldownUntil = now + ForbiddenCooldown pol,
           eff_persist = persist, eff_publish = publish, eff_invalidate = True\<rparr>
      | RateLimited \<Rightarrow>
          (let candidate = now + retry_cooldown pol (Kind acc) fb;
               candidate = (if exhausted \<and> candidate < quotaReset then quotaReset else candidate);
               candidate = (if candidate < cooldownTill s then cooldownTill s else candidate)
           in \<lparr>eff_state = s\<lparr>health := max (1/20) (health s * (9/20)), failures := failures s + 1,
                             cooldownTill := candidate,
                             account := acc\<lparr>Status := AccountCooldown, CooldownUntil := Some candidate,
                                            LastError := feedbackMessage fb\<rparr>\<rparr>,
               eff_cooldownUntil = candidate,
               eff_persist = True, eff_publish = True, eff_invalidate = True\<rparr>)
      | PermanentFailure \<Rightarrow>
          \<lparr>eff_state = s\<lparr>health := max (1/20) (health s * (1/4)), failures := failures s + 1,
                         cooldownTill := 0,
                         account := acc\<lparr>Status := AccountDisabled, CooldownUntil := None,
                                        LastError := feedbackMessage fb\<rparr>\<rparr>,
           eff_cooldownUntil = now + ForbiddenCooldown pol,
           eff_persist = True, eff_publish = True, eff_invalidate = True\<rparr>
      | QuotaSpent \<Rightarrow>
          (let reset = (if quotaReset < cooldownTill s then cooldownTill s else quotaReset)
           in \<lparr>eff_state = s\<lparr>health := max (1/20) (health s * (9/10)), failures := failures s + 1,
                             cooldownTill := reset,
                             account := acc\<lparr>Status := AccountCooldown, CooldownUntil := Some reset,
                                            LastError := ''upstream quota exhausted''\<rparr>\<rparr>,
               eff_cooldownUntil = reset,
               eff_persist = True, eff_publish = True, eff_invalidate = True\<rparr>)
      | LateSuccess \<Rightarrow>
          \<lparr>eff_state = s, eff_cooldownUntil = cooldownTill s,
           eff_persist = persist, eff_publish = publish, eff_invalidate = True\<rparr>
      | Success \<Rightarrow>
          (let recovering = (health s < 1 \<or> failures s \<noteq> 0 \<or> Status acc \<noteq> AccountActive
                             \<or> CooldownUntil acc \<noteq> None \<or> LastError acc \<noteq> '''')
           in \<lparr>eff_state = s\<lparr>health := min 1 (health s + 3/25), failures := 0, cooldownTill := 0,
                             account := acc\<lparr>Status := AccountActive, CooldownUntil := None,
                                            LastError := ''''\<rparr>\<rparr>,
               eff_cooldownUntil = 0,
               eff_persist = persist \<or> recovering, eff_publish = publish \<or> recovering,
               eff_invalidate = False\<rparr>)
      | TransientFailure \<Rightarrow>
          (let f = failures s + 1; till = now + transientBackoff pol f
           in \<lparr>eff_state = s\<lparr>health := max (1/20) (health s * (3/4)), failures := f,
                             cooldownTill := till,
                             account := acc\<lparr>Status := AccountCooldown, CooldownUntil := Some till,
                                            LastError := feedbackMessage fb\<rparr>\<rparr>,
               eff_cooldownUntil = till,
               eff_persist = True, eff_publish = True, eff_invalidate = True\<rparr>)
      | _ \<Rightarrow>
          \<lparr>eff_state = s, eff_cooldownUntil = 0,
           eff_persist = persist, eff_publish = publish, eff_invalidate = False\<rparr>)"

text \<open>
  The branch of \<open>release\<close> for feedback that belongs to the current credential: the use is
  stamped at most every thirty seconds, a fresh quota is taken over, the switch is applied, and
  health and failures are mirrored in the account.
\<close>

definition needs_stamp :: "time \<Rightarrow> runtimeState \<Rightarrow> bool" where
  "needs_stamp now s \<longleftrightarrow> lastUsedPersisted s = 0 \<or> 30 * Second \<le> time_sub now (lastUsedPersisted s)"

definition observed :: "Feedback \<Rightarrow> time \<Rightarrow> runtimeState \<Rightarrow> runtimeState" where
  "observed fb now s0 =
     s0\<lparr>lastUsedPersisted := (if needs_stamp now s0 then now else lastUsedPersisted s0),
        account := (case fb_Quota fb of None \<Rightarrow> account s0 | Some q \<Rightarrow> (account s0)\<lparr>Quota := q\<rparr>)\<rparr>"

definition mirror_health :: "runtimeState \<Rightarrow> runtimeState" where
  "mirror_health s = s\<lparr>account := (account s)\<lparr>HealthScore := health s, FailureCount := failures s\<rparr>\<rparr>"

definition release_current ::
  "Policy \<Rightarrow> Lease \<Rightarrow> Feedback \<Rightarrow> time \<Rightarrow> runtimeState \<Rightarrow> effect" where
  "release_current pol lease fb now s0 =
     (let s = observed fb now s0;
          fresh = (fb_Quota fb \<noteq> None);
          (quotaReset, exhausted) =
             exhaustedQuotaReset (Quota (account s)) (Kind (account s)) pol now fresh;
          v = classify (Status (account s)) (Status (lease_Account lease))
                (now < cooldownTill s \<and> Status (account s) = AccountCooldown) exhausted fb;
          e = apply_verdict pol fb now quotaReset exhausted v s (needs_stamp now s0 \<or> fresh) fresh
      in e\<lparr>eff_state := mirror_health (eff_state e)\<rparr>)"

definition lease_matches :: "Account \<Rightarrow> Account \<Rightarrow> bool" where
  "lease_matches a b \<longleftrightarrow>
     CredentialCipher a = CredentialCipher b \<and> CredentialFingerprint a = CredentialFingerprint b"

definition decrement :: "runtimeState \<Rightarrow> runtimeState" where
  "decrement s = s\<lparr>inflight := (if 0 < inflight s then inflight s - 1 else inflight s)\<rparr>"

text \<open>Publish to the coordinator; without one nothing happens.\<close>

definition publish_unavailable ::
  "'w Deps \<Rightarrow> Lease \<Rightarrow> time option \<Rightarrow> bool \<Rightarrow> 'w \<Rightarrow> error option \<times> 'w" where
  "publish_unavailable d lease until clear w =
     (case coordinator d of
        None \<Rightarrow> (None, w)
      | Some c \<Rightarrow>
          (let aid = ID (lease_Account lease);
               (r1, w) = (case until of
                            None \<Rightarrow> (None, w)
                          | Some t \<Rightarrow> (let (e, w) = SetCooldown c aid t w in (errors_join None e, w)))
           in if clear \<and> affinityModel lease \<noteq> '''' \<and> lease_affinityKey lease \<noteq> ''''
              then (let (e, w) = ClearAffinity c (affinityModel lease) (lease_affinityKey lease) aid w
                    in (errors_join r1 e, w))
              else (r1, w)))"

definition release_coordination ::
  "'w Deps \<Rightarrow> Lease \<Rightarrow> error option \<Rightarrow> 'w \<Rightarrow> error option \<times> 'w" where
  "release_coordination d lease result w =
     (case (coordinator d, coordination lease) of
        (Some c, Some l) \<Rightarrow> (let (e, w) = ReleaseLease c l w in (errors_join result e, w))
      | _ \<Rightarrow> (result, w))"

text \<open>Persist the account, and after a change that matters to peers reload and notify.\<close>

definition persist_account ::
  "'w Deps \<Rightarrow> error option \<Rightarrow> Account \<Rightarrow> bool \<Rightarrow> error option \<Rightarrow> Pool \<Rightarrow> 'w
    \<Rightarrow> error option \<times> Pool \<times> 'w" where
  "persist_account d ctxErr acc publish result p w =
     (let (ue, w) = UpdateAccount (dep_store d) acc w
      in case ue of
           Some e \<Rightarrow> (errors_join result (Some e), p, w)
         | None \<Rightarrow>
             if \<not> publish then (result, p, w)
             else
               (let (re, p, w) = Reload d ctxErr p w
                in case re of
                     Some e \<Rightarrow> (errors_join result (Some e), p, w)
                   | None \<Rightarrow>
                       (case notifier d of
                          None \<Rightarrow> (result, p, w)
                        | Some notify \<Rightarrow>
                            (let (ne, w) = notify w in (errors_join result ne, p, w)))))"

text \<open>The branch for feedback from a credential that was replaced in the meantime.\<close>

definition release_stale ::
  "'w Deps \<Rightarrow> Lease \<Rightarrow> time \<Rightarrow> runtimeState \<Rightarrow> Pool \<Rightarrow> 'w \<Rightarrow> error option \<times> Pool \<times> 'w" where
  "release_stale d lease now s p w =
     (let acc = account s; pol = policy p;
          quotaUntil = quotaUnavailableUntil (Quota acc) now (rate_limit_cooldown pol (Kind acc));
          unavailable = (Status acc \<noteq> AccountActive \<or> now < cooldownTill s \<or> now < quotaUntil);
          p = (if unavailable
               then clearLocalAffinityLocked p (affinityModel lease) (lease_affinityKey lease) (ID (lease_Account lease))
               else p);
          until = (if cooldownTill s < quotaUntil then quotaUntil else cooldownTill s);
          until = (if isTerminalAccountStatus (Status acc) \<and> \<not> now < until
                   then now + ForbiddenCooldown pol else until);
          (r, w) = (if unavailable
                    then publish_unavailable d lease (if now < until then Some until else None) True w
                    else (None, w));
          (r, w) = release_coordination d lease r w
      in (r, p, w))"

text \<open>The end of the branch for the current credential: publish, persist, give the lease back.\<close>

definition release_finish ::
  "'w Deps \<Rightarrow> error option \<Rightarrow> Lease \<Rightarrow> effect \<Rightarrow> Pool \<Rightarrow> 'w \<Rightarrow> error option \<times> Pool \<times> 'w" where
  "release_finish d ctxErr lease e p w =
     (let (r, w) = publish_unavailable d lease
                     (if eff_cooldownUntil e = 0 then None else Some (eff_cooldownUntil e))
                     (eff_invalidate e) w;
          (r, p, w) = (if eff_persist e
                       then persist_account d ctxErr (account (eff_state e)) (eff_publish e) r p w
                       else (r, p, w));
          (r, w) = release_coordination d lease r w
      in (r, p, w))"

definition release ::
  "'w Deps \<Rightarrow> error option \<Rightarrow> Lease \<Rightarrow> Feedback \<Rightarrow> Pool \<Rightarrow> 'w \<Rightarrow> error option \<times> Pool \<times> 'w" where
  "release d ctxErr lease fb p w =
     (let (now, w) = now_fn d w; aid = ID (lease_Account lease);
          clear = (\<lambda>p. clearLocalAffinityLocked p (affinityModel lease) (lease_affinityKey lease) aid)
      in case map_of (states p) aid of
           None \<Rightarrow>
             (let p = clear p;
                  (r, w) = publish_unavailable d lease None True w;
                  (r, w) = release_coordination d lease r w
              in (r, p, w))
         | Some s0 \<Rightarrow>
             (let s = decrement s0;
                  p = p\<lparr>states := amodify aid (\<lambda>_. s) (states p)\<rparr>
              in if \<not> lease_matches (account s) (lease_Account lease)
                 then release_stale d lease now s p w
                 else
                   (let e = release_current (policy p) lease fb now s;
                        p = p\<lparr>states := amodify aid (\<lambda>_. eff_state e) (states p)\<rparr>
                    in release_finish d ctxErr lease e (if eff_invalidate e then clear p else p) w)))"

text \<open>\<open>Lease.Release\<close>: the first call releases, later calls return its error.\<close>

definition Release ::
  "'w Deps \<Rightarrow> error option \<Rightarrow> Lease \<Rightarrow> Feedback \<Rightarrow> Pool \<Rightarrow> 'w \<Rightarrow> error option \<times> Lease \<times> Pool \<times> 'w" where
  "Release d ctxErr lease fb p w =
     (if once_done lease then (releaseErr lease, lease, p, w)
      else (let (r, p, w) = release d ctxErr lease fb p w
            in (r, lease\<lparr>once_done := True, releaseErr := r\<rparr>, p, w)))"

section \<open>Probes\<close>

text \<open>The critical section of \<open>AcquireForProbe\<close>.\<close>

definition probe_reserve :: "string \<Rightarrow> time \<Rightarrow> Pool \<Rightarrow> (error + Account) \<times> Pool" where
  "probe_reserve aid now p =
     (case map_of (states p) aid of
        None \<Rightarrow> (Inl ErrNoAccount, p)
      | Some s \<Rightarrow>
          if concurrency_limit (policy p) (account s) \<le> inflight s then (Inl ErrAccountBusy, p)
          else (let acc = (account s)\<lparr>LastUsedAt := Some now\<rparr>
                in (Inr acc, p\<lparr>states := amodify aid (\<lambda>s. s\<lparr>inflight := inflight s + 1, account := acc\<rparr>) (states p)\<rparr>)))"

text \<open>The coordinated lease of a probe.\<close>

definition probe_coordinate :: "'w Deps \<Rightarrow> Policy \<Rightarrow> Account \<Rightarrow> 'w \<Rightarrow> (error + CoordinationLease option) \<times> 'w" where
  "probe_coordinate d pol acc w =
     (case coordinator d of
        None \<Rightarrow> (Inr None, w)
      | Some c \<Rightarrow>
          (case AcquireLease c (ID acc) (concurrency_limit pol acc) (LeaseTTL pol) w of
             (Inl e, w) \<Rightarrow> (Inl e, w)
           | (Inr None, w) \<Rightarrow> (Inl ErrAccountBusy, w)
           | (Inr (Some l), w) \<Rightarrow> (Inr (Some l), w)))"

definition AcquireForProbe ::
  "'w Deps \<Rightarrow> error option \<Rightarrow> string \<Rightarrow> Pool \<Rightarrow> 'w \<Rightarrow> (error + Lease) \<times> Pool \<times> 'w" where
  "AcquireForProbe d ctxErr rawID p w =
     (let aid = TrimSpace rawID
      in if aid = [] then (Inl ErrNoAccount, p, w)
         else
           (let (e, p, w) = ensureLoaded d ctxErr p w
            in case e of
                 Some e \<Rightarrow> (Inl e, p, w)
               | None \<Rightarrow>
                   (let (now, w) = now_fn d w; (r, p) = probe_reserve aid now p
                    in case r of
                         Inl e \<Rightarrow> (Inl e, p, w)
                       | Inr acc \<Rightarrow>
                           (let undone = rollbackReservation p (ID acc) 0;
                                (lr, w) = probe_coordinate d (policy p) acc w
                            in case lr of
                                 Inl e \<Rightarrow> (Inl e, undone, w)
                               | Inr cl \<Rightarrow>
                                   (let (cr, w) = store_Credentials (dep_store d) (ID acc) w
                                    in case cr of
                                         Inl err \<Rightarrow>
                                           (let (e, w) = release_joined d cl err w in (Inl e, undone, w))
                                       | Inr creds \<Rightarrow>
                                           (Inr \<lparr>lease_Account = acc, lease_Credentials = creds,
                                                 CacheIdentityApplied = False, AffinityReused = False,
                                                 CacheAffinityEstablished = False, coordination = cl,
                                                 affinityModel = [], lease_affinityKey = [],
                                                 once_done = False, releaseErr = None\<rparr>, p, w))))))"

end
