(* ===== verification/Pool_Reload.thy ===== *)
theory Pool_Reload
  imports Account_Pool
begin

text \<open>
  Counters of a pool, and what reload and removal do to the pool's state: the persisted
  accounts replace the table, requests in flight are kept, affinities to accounts that are gone
  or not active are dropped.
\<close>

section \<open>Counters\<close>

definition inflight_of :: "Pool \<Rightarrow> string \<Rightarrow> int" where
  "inflight_of p k = (case map_of (states p) k of None \<Rightarrow> 0 | Some s \<Rightarrow> inflight s)"

text \<open>Two pools with the same accounts and the same counters.\<close>

definition same_counts :: "Pool \<Rightarrow> Pool \<Rightarrow> bool" where
  "same_counts p q \<longleftrightarrow> policy p = policy q \<and> map fst (states p) = map fst (states q) \<and> inflight_of p = inflight_of q"

lemma same_counts_refl [simp]: "same_counts p p"
  by (simp add: same_counts_def)

lemma same_counts_trans: "same_counts p q \<Longrightarrow> same_counts q r \<Longrightarrow> same_counts p r"
  by (simp add: same_counts_def)

lemma same_counts_states: "policy p = policy q \<Longrightarrow> states p = states q \<Longrightarrow> same_counts p q"
  by (simp add: same_counts_def inflight_of_def fun_eq_iff)

lemma inflight_of_map:
  assumes "states q = map (\<lambda>(k, s). (k, f k s)) (states p)" "\<And>k s. inflight (f k s) = inflight s"
  shows "inflight_of q = inflight_of p"
proof
  fix k
  have "map_of (map (\<lambda>(k, s). (k, f k s)) ss) k = map_option (f k) (map_of ss k)" for ss :: states
    by (induction ss) auto
  with assms show "inflight_of q k = inflight_of p k"
    by (simp add: inflight_of_def split: option.split)
qed

lemma inflight_of_amodify:
  assumes "states q = amodify k f (states p)" "map_of (states p) k = Some s"
  shows "inflight_of q = (inflight_of p)(k := inflight (f s))"
  using assms by (auto simp: inflight_of_def map_of_amodify fun_eq_iff split: option.split)

lemma inflight_of_nonneg: "wf_states (states p) \<Longrightarrow> 0 \<le> inflight_of p k"
  by (auto simp: inflight_of_def dest: wf_states_lookup split: option.split)

lemma wf_states_mem: "wf_states ss \<Longrightarrow> (k, s) \<in> set ss \<Longrightarrow> ID (account s) = k \<and> 0 \<le> inflight s"
  by (auto simp: wf_states_def)

lemma wf_states_amodify:
  assumes "wf_states ss"
    and "\<And>s. ID (account s) = k \<Longrightarrow> 0 \<le> inflight s \<Longrightarrow> ID (account (f s)) = k \<and> 0 \<le> inflight (f s)"
  shows "wf_states (amodify k f ss)"
proof -
  have "amodify k f ss = map (\<lambda>(k', s). (k', if k' = k then f s else s)) ss"
    by (auto simp: amodify_def)
  moreover have "wf_states (map (\<lambda>(k', s). (k', if k' = k then f s else s)) ss)"
    using assms(1) by (rule wf_states_map) (use assms wf_states_mem in force)
  ultimately show ?thesis by simp
qed

lemma wf_pool_amodify:
  assumes "wf_pool p"
    and "\<And>s. ID (account s) = k \<Longrightarrow> 0 \<le> inflight s \<Longrightarrow> ID (account (f s)) = k \<and> 0 \<le> inflight (f s)"
  shows "wf_pool (p\<lparr>states := amodify k f (states p)\<rparr>)"
  using assms(1) wf_states_amodify [OF _ assms(2), of "states p"] by (simp add: wf_pool_def)

section \<open>Reload\<close>

text \<open>The state a reload leaves for a persisted account, from the state it had.\<close>

definition reloaded :: "Account \<Rightarrow> runtimeState option \<Rightarrow> runtimeState" where
  "reloaded item0 old =
     (let item = (if HealthScore item0 \<le> 0 then item0\<lparr>HealthScore := 1\<rparr> else item0);
          state = (case old of
                     None \<Rightarrow> \<lparr>account = item, inflight = 0, health = 0, failures = 0,
                              cooldownTill = 0, lastUsedPersisted = 0\<rparr>
                   | Some s \<Rightarrow> s)
      in state\<lparr>account := item, health := HealthScore item, failures := FailureCount item,
               lastUsedPersisted := (case LastUsedAt item of None \<Rightarrow> lastUsedPersisted state
                                     | Some t \<Rightarrow> max (lastUsedPersisted state) t),
               cooldownTill := (case CooldownUntil item of None \<Rightarrow> 0
                                | Some t \<Rightarrow> max (cooldownTill state) t)\<rparr>)"

lemma reloaded_frame [simp]:
  "inflight (reloaded item old) = (case old of None \<Rightarrow> 0 | Some s \<Rightarrow> inflight s)"
  "ID (account (reloaded item old)) = ID item"
  "Status (account (reloaded item old)) = Status item"
  by (simp_all add: reloaded_def Let_def split: option.split)

lemma reload_item_eq: "reload_item item ss = AList.update (ID item) (reloaded item (map_of ss (ID item))) ss"
  by (simp add: reload_item_def reloaded_def Let_def max_def split: option.split)

lemma fst_set_reload_item [simp]: "fst ` set (reload_item item ss) = insert (ID item) (fst ` set ss)"
  by (simp add: reload_item_eq dom_update)

lemma wf_states_update:
  assumes "wf_states ss" "ID (account s) = k" "0 \<le> inflight s"
  shows "wf_states (AList.update k s ss)"
proof -
  have "set (AList.update k s ss) \<subseteq> insert (k, s) (set ss)"
    by (induction ss) auto
  with assms show ?thesis by (auto simp: wf_states_def distinct_update)
qed

lemma wf_states_reload_item: "wf_states ss \<Longrightarrow> wf_states (reload_item item ss)"
  unfolding reload_item_eq
  by (rule wf_states_update) (auto split: option.split dest: wf_states_lookup)

lemma wf_states_filter: "wf_states ss \<Longrightarrow> wf_states (filter P ss)"
  by (auto simp: wf_states_def distinct_map_filter)

lemma wf_states_reload: "wf_states ss \<Longrightarrow> wf_states (fold reload_item items ss)"
  by (induction items arbitrary: ss) (auto simp: wf_states_reload_item)

lemma wf_pool_reload: "wf_pool p \<Longrightarrow> wf_pool (reload_apply items p)"
  by (simp add: wf_pool_def reload_apply_def Let_def wf_states_filter wf_states_reload distinct_map_filter)

lemma wf_pool_remove: "wf_pool p \<Longrightarrow> wf_pool (RemoveAccounts ids p)"
  by (simp add: wf_pool_def RemoveAccounts_def Let_def wf_states_filter distinct_map_filter)

lemma wf_pool_Reload: "Reload d ctxErr p w = (e, q, w') \<Longrightarrow> wf_pool p \<Longrightarrow> wf_pool q"
  by (auto simp: Reload_def Let_def case_prod_unfold wf_pool_reload split: option.splits sum.splits)

lemma wf_pool_ensureLoaded: "ensureLoaded d ctxErr p w = (e, q, w') \<Longrightarrow> wf_pool p \<Longrightarrow> wf_pool q"
  by (auto simp: ensureLoaded_def wf_pool_Reload split: if_splits)

lemma map_of_filter_key: "map_of (filter (\<lambda>(k, v). P k) m) k = (if P k then map_of m k else None)"
  by (induction m) auto

lemma find_ID_None: "find (\<lambda>a. ID a = k) items = None \<longleftrightarrow> k \<notin> set (map ID items)"
  by (auto simp: find_None_iff intro: rev_image_eqI)

lemma map_of_fold_reload:
  assumes "distinct (map ID items)"
  shows "map_of (fold reload_item items ss) k =
    (case find (\<lambda>a. ID a = k) items of
       None \<Rightarrow> map_of ss k
     | Some item \<Rightarrow> Some (reloaded item (map_of ss k)))"
  using assms
proof (induction items arbitrary: ss)
  case (Cons item items)
  have "find (\<lambda>a. ID a = ID item) items = None"
    using Cons.prems by (simp add: find_ID_None)
  with Cons show ?case by (auto simp: reload_item_eq update_conv' split: option.split)
qed simp

lemma reload_lookup:
  assumes "distinct (map ID items)"
  shows "map_of (states (reload_apply items p)) k =
    map_option (\<lambda>item. reloaded item (map_of (states p) k)) (find (\<lambda>a. ID a = k) items)"
  using find_ID_None [of k items] map_of_fold_reload [OF assms, of "states p" k]
  by (cases "find (\<lambda>a. ID a = k) items") (auto simp: reload_apply_def Let_def map_of_filter_key)

end
