(* ===== verification/Memory_Store.thy ===== *)
theory Memory_Store
  imports Pool_Reload
begin

text \<open>
  The contract of the account store the pool relies on, and the store of
  \<open>internal/accounts/memory_store.go\<close> that meets it.

  \<open>account_store\<close> states what a store promises when a call succeeds: the listing has one entry
  per stored account, an update stores the account under its ID and nothing else. The lemmas of
  the locale say what a reload sees after an update; they hold for every store that meets the
  contract.
\<close>

section \<open>The in-memory store\<close>

record MemoryStore =
  Accounts :: "(string \<times> Account) list"
  CredentialsByAccount :: "(string \<times> Credentials) list"

definition NewMemoryStore :: "Account list \<Rightarrow> (string \<times> Credentials) list \<Rightarrow> MemoryStore" where
  "NewMemoryStore items creds =
     \<lparr>Accounts = fold (\<lambda>item m. AList.update (ID item) item m) items [],
      CredentialsByAccount = fold (\<lambda>(k, v) m. AList.update k v m) creds []\<rparr>"

text \<open>The methods work on any world that extends the store's record.\<close>

definition ms_ListAccounts :: "'a MemoryStore_scheme \<Rightarrow> (error + Account list) \<times> 'a MemoryStore_scheme" where
  "ms_ListAccounts s = (Inr (map snd (Accounts s)), s)"

definition ms_Credentials ::
  "string \<Rightarrow> 'a MemoryStore_scheme \<Rightarrow> (error + Credentials) \<times> 'a MemoryStore_scheme" where
  "ms_Credentials aid s =
     (case map_of (CredentialsByAccount s) aid of
        None \<Rightarrow> (Inl (ErrText ''credentials not found''), s)
      | Some v \<Rightarrow> (Inr v, s))"

definition ms_SetCredentials :: "string \<Rightarrow> Credentials \<Rightarrow> 'a MemoryStore_scheme \<Rightarrow> 'a MemoryStore_scheme" where
  "ms_SetCredentials aid c s = s\<lparr>CredentialsByAccount := AList.update aid c (CredentialsByAccount s)\<rparr>"

definition ms_GetAccount ::
  "string \<Rightarrow> 'a MemoryStore_scheme \<Rightarrow> (error + Account) \<times> 'a MemoryStore_scheme" where
  "ms_GetAccount aid s =
     (case map_of (Accounts s) aid of
        None \<Rightarrow> (Inl (ErrText ''account not found''), s)
      | Some v \<Rightarrow> (Inr v, s))"

definition ms_UpdateAccount :: "Account \<Rightarrow> 'a MemoryStore_scheme \<Rightarrow> error option \<times> 'a MemoryStore_scheme" where
  "ms_UpdateAccount acc s = (None, s\<lparr>Accounts := AList.update (ID acc) acc (Accounts s)\<rparr>)"

definition memory_store :: "'a MemoryStore_scheme Store" where
  "memory_store = \<lparr>ListAccounts = ms_ListAccounts, store_Credentials = ms_Credentials,
                   UpdateAccount = ms_UpdateAccount\<rparr>"

definition wf_memory :: "'a MemoryStore_scheme \<Rightarrow> bool" where
  "wf_memory s \<longleftrightarrow> distinct (map fst (Accounts s)) \<and> (\<forall>(k, a) \<in> set (Accounts s). ID a = k)"

section \<open>The contract\<close>

locale account_store =
  fixes st :: "'w Store" and accts :: "'w \<Rightarrow> string \<rightharpoonup> Account" and inv :: "'w \<Rightarrow> bool"
  assumes list_ok: "\<lbrakk>inv w; ListAccounts st w = (Inr items, w')\<rbrakk> \<Longrightarrow>
      inv w' \<and> accts w' = accts w \<and> distinct (map ID items)
      \<and> (\<forall>k. accts w k = find (\<lambda>a. ID a = k) items)"
    and update_ok: "\<lbrakk>inv w; UpdateAccount st a w = (None, w')\<rbrakk> \<Longrightarrow>
      inv w' \<and> accts w' = (accts w)(ID a \<mapsto> a)"
begin

text \<open>A successful reload mirrors the store and keeps what only the process knows.\<close>

lemma reload_mirrors:
  assumes "dep_store d = st" "inv w" "Reload d c p w = (None, q, w')"
  shows "map_of (states q) k = map_option (\<lambda>a. reloaded a (map_of (states p) k)) (accts w k)"
    and "inv w'" "accts w' = accts w"
proof -
  obtain items where l: "ListAccounts st w = (Inr items, w')" and q: "q = reload_apply items p"
    using assms(1,3) by (auto simp: Reload_def case_prod_unfold Let_def prod_eq_iff
        split: option.splits sum.splits)
  note o = list_ok [OF assms(2) l]
  show "map_of (states q) k = map_option (\<lambda>a. reloaded a (map_of (states p) k)) (accts w k)"
    using o reload_lookup [of items p k] q by simp
  show "inv w'" "accts w' = accts w" using o by auto
qed

text \<open>Persisting an account and reloading gives that account back to the pool.\<close>

lemma persist_reload:
  assumes "dep_store d = st" "inv w" "UpdateAccount st a w = (None, w1)"
    and "Reload d c p w1 = (None, q, w2)" and "0 < HealthScore a"
  shows "\<exists>s. map_of (states q) (ID a) = Some s \<and> account s = a"
proof -
  note u = update_ok [OF assms(2,3)]
  have "map_of (states q) (ID a) = Some (reloaded a (map_of (states p) (ID a)))"
    using reload_mirrors(1) [OF assms(1) _ assms(4), of "ID a"] u by simp
  with assms(5) show ?thesis by (simp add: reloaded_def Let_def)
qed

end

section \<open>The in-memory store meets the contract\<close>

lemma find_ID_values:
  assumes "\<forall>(k, a) \<in> set m. ID a = k"
  shows "find (\<lambda>a. ID a = k) (map snd m) = map_of m k"
  using assms by (induction m) auto

lemma wf_memory_update: "wf_memory s \<Longrightarrow> wf_memory (s\<lparr>Accounts := AList.update (ID a) a (Accounts s)\<rparr>)"
proof -
  have "set (AList.update (ID a) a m) \<subseteq> insert (ID a, a) (set m)" for m :: "(string \<times> Account) list"
    by (induction m) auto
  then show "wf_memory s \<Longrightarrow> wf_memory (s\<lparr>Accounts := AList.update (ID a) a (Accounts s)\<rparr>)"
    by (fastforce simp: wf_memory_def distinct_update)
qed

lemma wf_memory_ids:
  assumes "wf_memory s"
  shows "distinct (map (ID \<circ> snd) (Accounts s))"
proof -
  have "map (ID \<circ> snd) (Accounts s) = map fst (Accounts s)"
    using assms by (auto simp: wf_memory_def)
  moreover have "distinct (map fst (Accounts s))" using assms by (simp add: wf_memory_def)
  ultimately show ?thesis by (simp only:)
qed

interpretation mem: account_store memory_store "\<lambda>s. map_of (Accounts s)" wf_memory
proof
  show "wf_memory w' \<and> map_of (Accounts w') = map_of (Accounts w) \<and> distinct (map ID items)
      \<and> (\<forall>k. map_of (Accounts w) k = find (\<lambda>a. ID a = k) items)"
    if "wf_memory w" "ListAccounts memory_store w = (Inr items, w')" for w w' :: "'a MemoryStore_scheme" and items
    using that wf_memory_ids [OF that(1)] find_ID_values [of "Accounts w"]
    by (auto simp: memory_store_def ms_ListAccounts_def wf_memory_def)
  show "wf_memory w' \<and> map_of (Accounts w') = (map_of (Accounts w))(ID a \<mapsto> a)"
    if "wf_memory w" "UpdateAccount memory_store a w = (None, w')" for w w' :: "'a MemoryStore_scheme" and a
    using that by (auto simp: memory_store_def ms_UpdateAccount_def wf_memory_update update_conv')
qed

section \<open>A deployment\<close>

text \<open>
  A concrete deployment: two accounts in the in-memory store, a clock that stands still, no
  coordinator. The theorems with hypotheses are applied to it.
\<close>

record sample_world = MemoryStore +
  clock :: time

definition sample_account :: "string \<Rightarrow> Account" where
  "sample_account aid =
     \<lparr>ID = aid, Name = aid, Kind = CredentialCLIOAuth, Tier = ''super'', Status = AccountActive,
      Email = '''', CredentialExpiresAt = None, CredentialCipher = ''c'', CredentialFingerprint = ''f'',
      ProxyID = '''', Models = [], Tags = [], Priority = 0, ConcurrencyLimit = 1, HealthScore = 1,
      FailureCount = 0, Quota = zero_quota, CooldownUntil = None, LastUsedAt = None,
      LastError = '''', CreatedAt = 0, UpdatedAt = 0\<rparr>"

definition sample_world0 :: sample_world where
  "sample_world0 =
     \<lparr>Accounts = [(''a'', sample_account ''a''), (''b'', sample_account ''b'')],
      CredentialsByAccount = [(''a'', zero_credentials), (''b'', zero_credentials)],
      clock = 1000 * Second\<rparr>"

definition sample_deps :: "sample_world Deps" where
  "sample_deps = \<lparr>dep_store = memory_store, coordinator = None,
                  now_fn = (\<lambda>w. (clock w, w)), notifier = None\<rparr>"

definition sample_pool :: Pool where
  "sample_pool = fst (NewPool memory_store DefaultPolicy (\<lambda>w::sample_world. (clock w, w)))"

text \<open>The pool after its first reload, one request in flight on the first account.\<close>

definition sample_loaded :: Pool where
  "sample_loaded = reload_apply [sample_account ''a'', sample_account ''b''] sample_pool"

definition sample_busy :: Pool where
  "sample_busy = sample_loaded\<lparr>states := amodify ''a'' (\<lambda>s. s\<lparr>inflight := 1\<rparr>) (states sample_loaded)\<rparr>"

definition sample_priority :: Pool where
  "sample_priority = sample_loaded\<lparr>policy := (policy sample_loaded)\<lparr>policy_Strategy := StrategyPriority\<rparr>\<rparr>"

definition sample_rr :: Pool where
  "sample_rr = sample_loaded\<lparr>policy := (policy sample_loaded)\<lparr>policy_Strategy := StrategyRoundRobin\<rparr>,
                              roundRobin := (\<lambda>_. 7)\<rparr>"

definition sample_state :: runtimeState where
  "sample_state = \<lparr>account = sample_account ''a'', inflight = 1, health = 1, failures = 0,
                   cooldownTill = 0, lastUsedPersisted = 0\<rparr>"

definition sample_model :: ModelSpec where
  "sample_model =
     \<lparr>model_ID = ''grok-4'', UpstreamModel = ''grok-4'', DisplayName = '''', model_Capability = CapabilityChat,
      CredentialKinds = [CredentialCLIOAuth], MinimumTier = '''', Aliases = [], PreferBest = False,
      CatalogManaged = False, Enabled = True, model_CreatedAt = 0, model_UpdatedAt = 0\<rparr>"

definition sample_selection :: Selection where
  "sample_selection = \<lparr>sel_Model = sample_model, AffinityKey = ''session'', ExcludeIDs = []\<rparr>"

definition sample_lease :: "string \<Rightarrow> Lease" where
  "sample_lease aid =
     \<lparr>lease_Account = sample_account aid, lease_Credentials = zero_credentials,
      CacheIdentityApplied = True, AffinityReused = False, CacheAffinityEstablished = True,
      coordination = None, affinityModel = ''grok-4'', lease_affinityKey = ''session'',
      once_done = False, releaseErr = None\<rparr>"

definition sample_feedback :: "int \<Rightarrow> Feedback" where
  "sample_feedback code = \<lparr>StatusCode = code, RetryAfter = 0, fb_Quota = None, fb_Err = None\<rparr>"

text \<open>A coordinator that grants every lease and remembers nothing.\<close>

definition sample_coordinator :: "'w Coordinator" where
  "sample_coordinator =
     \<lparr>AcquireLease = (\<lambda>aid limit ttl w. (Inr (Some \<lparr>cl_AccountID = aid, Slot = 0, Owner = ''o''\<rparr>), w)),
      ReleaseLease = (\<lambda>l w. (None, w)), GetAffinity = (\<lambda>m k w. (Inr None, w)),
      BindAffinity = (\<lambda>m k a ttl w. (Inr (a, True), w)), ClearAffinity = (\<lambda>m k a w. (None, w)),
      coord_CooldownUntil = (\<lambda>a w. (Inr None, w)), SetCooldown = (\<lambda>a t w. (None, w)),
      coord_ClearCooldown = (\<lambda>a w. (None, w))\<rparr>"

lemmas sample_defs = sample_account_def sample_world0_def sample_deps_def sample_pool_def sample_loaded_def
  sample_busy_def sample_model_def sample_selection_def sample_lease_def NewPool_def NewPoolWithCoordinator_def

lemma sample_state_busy: "map_of (states sample_busy) ''a'' = Some sample_state"
  by code_simp

lemma sample_pool_wf: "wf_pool sample_pool"
  using policy_ok_normalize [of DefaultPolicy]
  by (simp add: sample_pool_def NewPool_def NewPoolWithCoordinator_def wf_pool_def wf_states_def)

lemma sample_loaded_wf: "wf_pool sample_loaded"
  unfolding sample_loaded_def using sample_pool_wf by (rule wf_pool_reload)

lemma sample_busy_wf: "wf_pool sample_busy"
  unfolding sample_busy_def using sample_loaded_wf by (rule wf_pool_amodify) simp

end
