(* ===== verification/Selection_Properties.thy ===== *)
theory Selection_Properties
  imports Memory_Store
begin

text \<open>
  What the selection of an account promises: it finds an account exactly when one is eligible,
  the choice follows the strategy, does not depend on the iteration order of Go's maps, round
  robin is fair, and the table of affinities stays bounded.
\<close>

section \<open>Helpers\<close>

text \<open>An account the selection may return: known, not excluded and eligible.\<close>

definition selectable :: "Pool \<Rightarrow> Selection \<Rightarrow> time \<Rightarrow> string \<Rightarrow> bool" where
  "selectable p sel now k \<longleftrightarrow>
     k \<notin> set (ExcludeIDs sel) \<and>
     (case map_of (states p) k of
        None \<Rightarrow> False
      | Some s \<Rightarrow> fst (eligibleLocked (policy p) s (sel_Model sel) now))"

definition score_of :: "Pool \<Rightarrow> time \<Rightarrow> string \<Rightarrow> rat" where
  "score_of p now k = (case map_of (states p) k of None \<Rightarrow> 0 | Some s \<Rightarrow> score (thaw s now) now)"

lemma selectable_candidate:
  assumes "wf_states (states p)" "\<not> PreferBest (sel_Model sel)"
  shows "selectable p sel now k \<longleftrightarrow> k \<in> fst ` set (candidates p sel now)"
proof
  assume "k \<in> fst ` set (candidates p sel now)"
  then obtain c where c: "c \<in> set (candidates p sel now)" "k = fst c" by auto
  from c(1) obtain s where s: "(fst c, s) \<in> set (states p)" "fst c \<notin> set (ExcludeIDs sel)"
    "fst (eligibleLocked (policy p) s (sel_Model sel) now)" by (rule candidates_mem)
  then have "map_of (states p) k = Some s" using assms(1) c(2) by (simp add: wf_states_def)
  with s c show "selectable p sel now k" by (simp add: selectable_def)
next
  assume "selectable p sel now k"
  then obtain s where s: "map_of (states p) k = Some s" "k \<notin> set (ExcludeIDs sel)"
    "fst (eligibleLocked (policy p) s (sel_Model sel) now)"
    by (auto simp: selectable_def split: option.splits)
  then have "(k, thaw s now) \<in> set (candidates p sel now)"
    using assms(2) by (auto simp: candidates_def Let_def dest!: map_of_SomeD intro!: rev_image_eqI)
  then show "k \<in> fst ` set (candidates p sel now)" by (auto intro: rev_image_eqI)
qed

lemma candidate_state:
  assumes "wf_states (states p)" "c \<in> set (candidates p sel now)"
  shows "map_of (states p) (fst c) = Some s \<Longrightarrow> snd c = thaw s now"
    and "score (snd c) now = score_of p now (fst c)" "cand_id c = fst c"
    and "selectable p sel now (fst c)"
proof -
  obtain t where t: "(fst c, t) \<in> set (states p)" "snd c = thaw t now" "fst c \<notin> set (ExcludeIDs sel)"
    "fst (eligibleLocked (policy p) t (sel_Model sel) now)" using assms(2) by (rule candidates_mem)
  then have m: "map_of (states p) (fst c) = Some t" using assms(1) by (simp add: wf_states_def)
  with t show "map_of (states p) (fst c) = Some s \<Longrightarrow> snd c = thaw s now"
    "score (snd c) now = score_of p now (fst c)" "selectable p sel now (fst c)"
    by (simp_all add: score_of_def selectable_def)
  show "cand_id c = fst c" using assms by (rule candidates_key)
qed

section \<open>Properties\<close>

text \<open>C15: selection is sound and complete. On a well-formed pool \<open>selectLocked\<close> finds no account
  exactly when no known account is both eligible and not excluded, and an account it returns is
  known, not excluded and eligible. Whatever the strategy, selecting changes no in-flight counter.\<close>

theorem select_sound_complete:
  assumes "wf_pool p" "selectLocked p sel now = (r, q)"
  shows "(r = None \<longleftrightarrow> (\<forall>k. \<not> selectable p sel now k)) \<and> (\<forall>k. r = Some k \<longrightarrow> selectable p sel now k)
    \<and> map (\<lambda>(k, s). (k, inflight s)) (states q) = map (\<lambda>(k, s). (k, inflight s)) (states p)"
proof -
  have wf: "wf_states (states p)" using assms(1) by (simp add: wf_pool_def)
  have "selectable p sel now k" if "r = Some k" for k
    using selectLocked_Some [of p sel now k q] assms(2) that candidate_state(4) [OF wf] by auto
  moreover have "\<forall>k. \<not> selectable p sel now k" if "r = None"
    using that assms(2) selectLocked_None_iff [of p sel now]
    by (auto simp: candidates_empty selectable_def split: option.splits dest!: map_of_SomeD)
  moreover have "map (\<lambda>(k, s). (k, inflight s)) (states q) = map (\<lambda>(k, s). (k, inflight s)) (states p)"
    unfolding selectLocked_frame(4) [OF assms(2)] by (auto simp: scanned_def)
  ultimately show ?thesis by (cases r) auto
qed

theorem select_sound_complete_witness:
  "\<exists>r q. selectLocked sample_busy sample_selection 5 = (r, q) \<and> r \<noteq> None \<and> selectable sample_busy sample_selection 5 ''b''"
proof -
  obtain r q where r: "selectLocked sample_busy sample_selection 5 = (r, q)" by (rule prod.exhaust)
  have "selectable sample_busy sample_selection 5 ''b''" by code_simp
  with r select_sound_complete [OF sample_busy_wf r] show ?thesis by blast
qed

text \<open>The priority strategy picks the best score. Under it (no affinity applies, the model does not
  prefer the best tier) the selected account has the highest score of all selectable accounts, and
  among equal scores the smallest ID.\<close>

theorem select_best_score:
  assumes "wf_pool p" "policy_Strategy (policy p) = StrategyPriority" "\<not> PreferBest (sel_Model sel)"
    and "selectLocked p sel now = (Some k, q)" "selectable p sel now j"
  shows "score_of p now j < score_of p now k \<or> (score_of p now j = score_of p now k \<and> k \<le> j)"
proof -
  have wf: "wf_states (states p)" using assms(1) by (simp add: wf_pool_def)
  let ?cs = "candidates p sel now"
  obtain c where c: "c \<in> set ?cs" "fst c = j"
    using assms(5) selectable_candidate [OF wf assms(3)] by auto
  then have ne: "?cs \<noteq> []" by auto
  have k: "k = fst (best_candidate now ?cs)"
    using assms(2,4) ne by (auto simp: selectLocked_eq Let_def sticky_candidate_def strategy_defs split: if_splits)
  have b: "best_candidate now ?cs \<in> set ?cs" using ne by (rule best_candidate_in)
  have "preferred now (best_candidate now ?cs) c" using c(1) by (rule best_candidate_preferred)
  then show ?thesis
    using c(2) by (simp add: preferred_def candidate_state(2,3) [OF wf b] candidate_state(2,3) [OF wf c(1)] k)
qed

lemma sample_priority_wf: "wf_pool sample_priority"
  using sample_loaded_wf by (simp add: sample_priority_def wf_pool_def policy_ok_def)

theorem select_best_score_witness:
  "score_of sample_priority 5 ''b'' < score_of sample_priority 5 ''a''
   \<or> (score_of sample_priority 5 ''b'' = score_of sample_priority 5 ''a'' \<and> ''a'' \<le> ''b'')"
proof -
  obtain r q where r0: "selectLocked sample_priority sample_selection 5 = (r, q)" by (rule prod.exhaust)
  have "fst (selectLocked sample_priority sample_selection 5) = Some ''a''" by code_simp
  with r0 have r: "selectLocked sample_priority sample_selection 5 = (Some ''a'', q)" by simp
  have "policy_Strategy (policy sample_priority) = StrategyPriority" "\<not> PreferBest (sel_Model sample_selection)"
    "selectable sample_priority sample_selection 5 ''b''" by code_simp+
  from select_best_score [OF sample_priority_wf this(1,2) r this(3)] show ?thesis .
qed

text \<open>A session keeps its account. Under the affinity strategy, when the session has a live affinity to
  a selectable account and the model does not prefer the best tier, that account is selected,
  whatever the scores of the others.\<close>

theorem select_sticky:
  assumes "wf_pool p" "policy_Strategy (policy p) = StrategyAffinity" "AffinityKey sel \<noteq> ''''"
    and "\<not> PreferBest (sel_Model sel)"
    and "map_of (affinities p) (affinityKey (model_ID (sel_Model sel)) (AffinityKey sel)) = Some entry"
    and "now < expiresAt entry" "selectable p sel now (accountID entry)"
  shows "fst (selectLocked p sel now) = Some (accountID entry)"
proof -
  have wf: "wf_states (states p)" using assms(1) by (simp add: wf_pool_def)
  let ?cs = "candidates p sel now"
  obtain c where c: "c \<in> set ?cs" "fst c = accountID entry"
    using assms(7) selectable_candidate [OF wf assms(4)] by auto
  have "find (\<lambda>c. cand_id c = accountID entry) ?cs \<noteq> None"
    using c candidate_state(3) [OF wf c(1)] unfolding find_None_iff by metis
  then obtain c' where c': "find (\<lambda>c. cand_id c = accountID entry) ?cs = Some c'" by blast
  then have m: "c' \<in> set ?cs" "cand_id c' = accountID entry" by (auto simp: find_Some_iff)
  then have "fst c' = accountID entry" using candidate_state(3) [OF wf m(1)] by simp
  moreover have "sticky_candidate p sel now ?cs = Some c'"
    using assms(2,3,5,6) c' by (simp add: sticky_candidate_def)
  moreover have "?cs \<noteq> []" using c(1) by auto
  ultimately show ?thesis by (simp add: selectLocked_eq Let_def)
qed

theorem select_sticky_witness:
  "fst (selectLocked (recordAffinity sample_loaded ''grok-4'' ''session'' ''b'' 5) sample_selection 6) = Some ''b''"
proof -
  let ?p = "recordAffinity sample_loaded ''grok-4'' ''session'' ''b'' 5"
  let ?e = "\<lparr>accountID = ''b'', expiresAt = 5 + 24 * Hour, usedAt = 5\<rparr>"
  have h: "policy_Strategy (policy ?p) = StrategyAffinity" "AffinityKey sample_selection \<noteq> ''''"
    "\<not> PreferBest (sel_Model sample_selection)"
    "map_of (affinities ?p) (affinityKey (model_ID (sel_Model sample_selection)) (AffinityKey sample_selection)) = Some ?e"
    "6 < expiresAt ?e" "selectable ?p sample_selection 6 (accountID ?e)"
    by code_simp+
  from select_sticky [OF wf_pool_recordAffinity [OF sample_loaded_wf] h] show ?thesis by simp
qed

text \<open>The choice does not depend on Go's map order. Two pools that agree on everything but the order
  in which the accounts are enumerated select the same account.\<close>

theorem select_order_independent:
  assumes "wf_pool p" "wf_pool q" "mset (states p) = mset (states q)"
    and "policy p = policy q" "affinities p = affinities q" "roundRobin p = roundRobin q"
  shows "fst (selectLocked p sel now) = fst (selectLocked q sel now)"
  using assms mset_eq_setD [OF assms(3)] by (intro select_result_cong) (auto simp: wf_pool_def)

theorem select_order_independent_witness:
  "fst (selectLocked sample_loaded sample_selection 5)
     = fst (selectLocked (sample_loaded\<lparr>states := rev (states sample_loaded)\<rparr>) sample_selection 5)"
proof -
  have "wf_pool (sample_loaded\<lparr>states := rev (states sample_loaded)\<rparr>)"
    using sample_loaded_wf by (simp add: wf_pool_def wf_states_def rev_map [symmetric])
  from select_order_independent [OF sample_loaded_wf this] show ?thesis by simp
qed

text \<open>Round robin is fair. Under the round-robin strategy, as many consecutive selections as there
  are candidates return every candidate exactly once, wherever the 64-bit counter stands, as long
  as it does not wrap around in between.\<close>

theorem round_robin_fair:
  assumes "policy_Strategy (policy p) = StrategyRoundRobin"
    and "unat (roundRobin p (model_ID (sel_Model sel))) + length (candidates p sel now) \<le> 2 ^ 64"
  shows "mset (select_times (length (candidates p sel now)) p sel now) =
    mset (map (\<lambda>c. Some (fst c)) (candidates p sel now))"
  using assms by (rule round_robin_permutation)

theorem round_robin_fair_witness:
  "mset (select_times 2 sample_rr sample_selection 5) = {#Some ''a'', Some ''b''#}"
proof -
  have l: "map fst (candidates sample_rr sample_selection 5) = [''a'', ''b'']" by code_simp
  then have n: "length (candidates sample_rr sample_selection 5) = 2" by (metis length_map length_Cons list.size(3) numeral_2_eq_2)
  have "map (\<lambda>c. Some (fst c)) (candidates sample_rr sample_selection 5) = map Some (map fst (candidates sample_rr sample_selection 5))"
    by simp
  moreover have "policy_Strategy (policy sample_rr) = StrategyRoundRobin"
    "unat (roundRobin sample_rr (model_ID (sel_Model sample_selection))) = 7"
    by (simp_all add: sample_rr_def)
  ultimately show ?thesis using round_robin_fair [of sample_rr sample_selection 5] l n by simp
qed

text \<open>The affinity table is bounded. Recording an affinity drops expired entries, evicts the ones used
  longest ago, and leaves at most \<open>MaxAffinities\<close> entries, none of them expired; the recorded session
  is among them.\<close>

theorem affinities_bounded:
  assumes "wf_pool p"
  shows "int (length (affinities (recordAffinity p m k a now))) \<le> MaxAffinities (policy p)
    \<and> (\<forall>(key, entry) \<in> set (affinities (recordAffinity p m k a now)). now < expiresAt entry)
    \<and> map_of (affinities (recordAffinity p m k a now)) (affinityKey m k)
        = Some \<lparr>accountID = a, expiresAt = now + AffinityTTL (policy p), usedAt = now\<rparr>"
proof -
  let ?q = "pruneAffinitiesLocked p now"
  have ok: "0 < MaxAffinities (policy p)" "0 < AffinityTTL (policy p)"
    using assms by (auto simp: wf_pool_def policy_ok_def)
  have "set (AList.update key e al) \<subseteq> insert (key, e) (set al)" for key and e :: affinityEntry and al
    by (induction al) auto
  then have "now < expiresAt entry" if "(key, entry) \<in> set (affinities (setAffinityLocked ?q m k a now))" for key entry
    using that ok(2) by (fastforce simp: setAffinityLocked_def dest: prune_live)
  moreover have "int (length (affinities (setAffinityLocked ?q m k a now))) \<le> MaxAffinities (policy p)"
    using prune_length [OF ok(1), of now] setAffinity_length [of ?q m k a now] by linarith
  ultimately show ?thesis
    by (auto simp: recordAffinity_def setAffinityLocked_def update_conv')
qed

theorem affinities_bounded_witness:
  "int (length (affinities (recordAffinity sample_loaded ''m'' ''k'' ''a'' 5))) \<le> MaxAffinities (policy sample_loaded)"
  using affinities_bounded [OF sample_loaded_wf] by blast

end
