(* ===== verification/Pool_Acquire.thy ===== *)
theory Pool_Acquire
  imports Memory_Store
begin

text \<open>
  The acquisition loop: it ends, it counts every reservation exactly once, it gives back what it
  reserved when it fails, and it hands out only accounts that are eligible and not excluded.
\<close>

section \<open>The parts of a round\<close>

lemma prepare_frame [simp]:
  "states (acquire_prepare d sel ua co now p) = states p"
  "policy (acquire_prepare d sel ua co now p) = policy p"
  by (simp_all add: acquire_prepare_def Let_def)

lemma wf_pool_prepare [intro]: "wf_pool p \<Longrightarrow> wf_pool (acquire_prepare d sel ua co now p)"
  using wf_pool_prune [of p now]
  by (auto simp: acquire_prepare_def Let_def wf_pool_def distinct_delete)

abbreviation sel_key :: "Selection \<Rightarrow> string" where
  "sel_key sel \<equiv> affinityKey (model_ID (sel_Model sel)) (AffinityKey sel)"

abbreviation drop_affinity :: "string \<Rightarrow> Pool \<Rightarrow> Pool" where
  "drop_affinity key p \<equiv> p\<lparr>affinities := AList.delete key (affinities p)\<rparr>"

abbreviation thaw_at :: "string \<Rightarrow> runtimeState \<Rightarrow> time \<Rightarrow> Pool \<Rightarrow> Pool" where
  "thaw_at k s now p \<equiv> p\<lparr>states := amodify k (\<lambda>_. thaw s now) (states p)\<rparr>"

lemma acquire_affinity_cases:
  assumes "acquire_affinity sel ua cap now p = (pa, pc, sa, q)"
  obtains (no_entry) "q = p" "pa = ''''" "sa = ''''"
  | (gone) e where "ua" "map_of (affinities p) (sel_key sel) = Some e" "sa = accountID e" "pa = ''''"
      "q = drop_affinity (sel_key sel) p"
  | (stale) e s where "ua" "map_of (affinities p) (sel_key sel) = Some e" "sa = accountID e" "pa = ''''"
      "map_of (states p) (accountID e) = Some s"
      "q = drop_affinity (sel_key sel) (thaw_at (accountID e) s now p)"
  | (kept) e s where "ua" "map_of (affinities p) (sel_key sel) = Some e" "sa = ''''" "pa = accountID e"
      "map_of (states p) (accountID e) = Some s"
      "fst (durablyEligibleLocked (policy p) s (sel_Model sel) now)"
      "q = thaw_at (accountID e) s now p"
proof (cases "ua \<and> (\<exists>e. map_of (affinities p) (sel_key sel) = Some e \<and> now < expiresAt e)")
  case False
  then have "q = p \<and> pa = '''' \<and> sa = ''''"
    using assms by (auto simp: acquire_affinity_def Let_def split: option.splits if_splits)
  then show ?thesis using no_entry by blast
next
  case True
  then obtain e where e: "ua" "map_of (affinities p) (sel_key sel) = Some e" "now < expiresAt e" by blast
  show ?thesis
  proof (cases "map_of (states p) (accountID e)")
    case None
    with e assms show ?thesis by (intro gone [of e]) (auto simp: acquire_affinity_def Let_def)
  next
    case (Some s)
    show ?thesis
    proof (cases "fst (durablyEligibleLocked (policy p) s (sel_Model sel) now)")
      case True
      with e Some assms show ?thesis
        by (intro kept [of e s]) (auto simp: acquire_affinity_def Let_def case_prod_unfold)
    next
      case False
      with e Some assms show ?thesis
        by (intro stale [of e s]) (auto simp: acquire_affinity_def Let_def case_prod_unfold)
    qed
  qed
qed

lemma thaw_at_counts:
  assumes "map_of (states p) k = Some s"
  shows "same_counts p (thaw_at k s now p)"
  using assms by (auto simp: same_counts_def inflight_of_def map_of_amodify fun_eq_iff split: option.split)

lemma wf_pool_thaw_at:
  assumes "wf_pool p" "map_of (states p) k = Some s"
  shows "wf_pool (thaw_at k s now p)"
proof -
  have "ID (account s) = k \<and> 0 \<le> inflight s"
    using assms by (auto simp: wf_pool_def dest: wf_states_lookup)
  with assms(1) show ?thesis by (intro wf_pool_amodify) simp_all
qed

lemma drop_affinity_counts: "same_counts p (drop_affinity k p)"
  by (rule same_counts_states) simp_all

lemma wf_pool_drop_affinity: "wf_pool p \<Longrightarrow> wf_pool (drop_affinity k p)"
  by (simp add: wf_pool_def distinct_delete)

lemma affinity_same_counts:
  assumes "acquire_affinity sel ua cap now p = (pa, pc, sa, q)" "wf_pool p"
  shows "same_counts p q \<and> wf_pool q"
  using assms(1)
proof (cases rule: acquire_affinity_cases)
  case (stale e s)
  have "same_counts p (thaw_at (accountID e) s now p)" using stale(5) by (rule thaw_at_counts)
  moreover have "same_counts (thaw_at (accountID e) s now p) q" unfolding stale(6) by (rule drop_affinity_counts)
  moreover have "wf_pool q"
    unfolding stale(6) by (intro wf_pool_drop_affinity wf_pool_thaw_at assms(2) stale(5))
  ultimately show ?thesis by (blast intro: same_counts_trans)
next
  case (kept e s)
  then show ?thesis using thaw_at_counts [OF kept(5)] wf_pool_thaw_at [OF assms(2) kept(5)] by simp
next
  case (gone e)
  then show ?thesis using drop_affinity_counts wf_pool_drop_affinity [OF assms(2)] by simp
qed (simp add: assms(2))

lemma scanned_same_counts: "same_counts p (scanned p sel now)"
  using inflight_of_map [of "scanned p sel now" "\<lambda>k s. if k \<in> set (ExcludeIDs sel) then s else thaw s now" p]
  by (simp add: same_counts_def) (simp add: scanned_def)

lemma select_same_counts:
  assumes "selectLocked p sel now = (r, q)"
  shows "same_counts p q"
proof -
  have "same_counts (scanned p sel now) q"
    using selectLocked_frame [OF assms] by (intro same_counts_states) simp_all
  then show ?thesis using scanned_same_counts same_counts_trans by blast
qed

lemma reserve_None:
  assumes "acquire_reserve sel ex now p = (None, q)" "wf_pool p"
  shows "same_counts p q" "wf_pool q" "candidates p (sel\<lparr>ExcludeIDs := ex\<rparr>) now = []"
proof -
  obtain r p1 where sl: "selectLocked p (sel\<lparr>ExcludeIDs := ex\<rparr>) now = (r, p1)"
    by (cases "selectLocked p (sel\<lparr>ExcludeIDs := ex\<rparr>) now") auto
  have "r = None"
  proof (rule ccontr)
    assume "r \<noteq> None"
    then obtain k where k: "r = Some k" by auto
    with sl have "k \<in> fst ` set (candidates p (sel\<lparr>ExcludeIDs := ex\<rparr>) now)" by (auto dest: selectLocked_Some)
    then have "k \<in> fst ` set (states p)" by (auto elim!: candidates_mem intro: rev_image_eqI)
    moreover have "map fst (states p1) = map fst (states p)"
      using select_same_counts [OF sl] by (simp add: same_counts_def)
    ultimately have "k \<in> fst ` set (states p1)" by (metis list.set_map)
    then have "map_of (states p1) k \<noteq> None" by (simp add: map_of_eq_None_iff)
    with assms(1) sl k show False by (auto simp: acquire_reserve_def Let_def map_of_amodify split: option.splits)
  qed
  with assms sl select_same_counts [OF sl] wf_pool_select [OF assms(2) sl]
    selectLocked_None_iff [of p "sel\<lparr>ExcludeIDs := ex\<rparr>" now]
  show "same_counts p q" "wf_pool q" "candidates p (sel\<lparr>ExcludeIDs := ex\<rparr>) now = []"
    by (auto simp: acquire_reserve_def Let_def)
qed

text \<open>What a reservation guarantees about the account it hands out.\<close>

lemma reserve_Some:
  assumes "acquire_reserve sel ex now p = (Some acc, q)" "wf_pool p"
  shows "inflight_of q = (inflight_of p)(ID acc := inflight_of p (ID acc) + 1)"
    and "policy q = policy p" "map fst (states q) = map fst (states p)" "wf_pool q"
    and "ID acc \<notin> set ex" "map_option account (map_of (states q) (ID acc)) = Some acc"
    and "\<exists>s. map_of (states p) (ID acc) = Some s
            \<and> fst (eligibleLocked (policy p) s (sel_Model sel) now)
            \<and> acc = (account (thaw s now))\<lparr>LastUsedAt := Some now\<rparr>"
proof -
  let ?sel = "sel\<lparr>ExcludeIDs := ex\<rparr>"
  obtain r p1 where sr: "selectLocked p ?sel now = (r, p1)" by (cases "selectLocked p ?sel now")
  with assms(1) obtain k where r: "r = Some k" by (cases r) (auto simp: acquire_reserve_def)
  have sl: "selectLocked p ?sel now = (Some k, p1)" using sr r by simp
  have q: "q = p1\<lparr>states := amodify k (\<lambda>s. s\<lparr>inflight := inflight s + 1,
               account := (account s)\<lparr>LastUsedAt := Some now\<rparr>\<rparr>) (states p1)\<rparr>"
    and acc: "map_option account (map_of (states q) k) = Some acc"
    using assms(1) sl by (auto simp: acquire_reserve_def Let_def)
  have sc: "same_counts p p1" using sl by (rule select_same_counts)
  have wf1: "wf_pool p1" using assms(2) sl by (rule wf_pool_select)
  obtain s1 where s1: "map_of (states p1) k = Some s1"
    using acc q by (auto simp: map_of_amodify split: option.splits if_splits)
  have acc_eq: "acc = (account s1)\<lparr>LastUsedAt := Some now\<rparr>"
    using acc q s1 by (simp add: map_of_amodify)
  have id1: "ID (account s1) = k" "0 \<le> inflight s1"
    using wf1 s1 by (auto simp: wf_pool_def dest: wf_states_lookup)
  then have k: "ID acc = k" by (simp add: acc_eq)
  have infl: "inflight_of p k = inflight s1"
    using sc s1 by (simp add: same_counts_def inflight_of_def fun_eq_iff)
  show "inflight_of q = (inflight_of p)(ID acc := inflight_of p (ID acc) + 1)"
    using inflight_of_amodify [of q k _ p1 s1] q s1 sc k infl by (simp add: same_counts_def)
  show "policy q = policy p" "map fst (states q) = map fst (states p)"
    using sc q by (simp_all add: same_counts_def)
  show "wf_pool q" unfolding q using wf1 by (rule wf_pool_amodify) simp
  show "map_option account (map_of (states q) (ID acc)) = Some acc" using acc k by simp
  from sl have "k \<in> fst ` set (candidates p ?sel now)" by (rule selectLocked_Some)
  then obtain c where c: "c \<in> set (candidates p ?sel now)" "fst c = k" by auto
  then obtain s where s: "(k, s) \<in> set (states p)" "k \<notin> set ex"
    "fst (eligibleLocked (policy p) s (sel_Model sel) now)"
    by (auto elim: candidates_mem)
  then show "ID acc \<notin> set ex" using k by simp
  have ms: "map_of (states p) k = Some s"
    using s(1) assms(2) by (simp add: wf_pool_def wf_states_def)
  have "map_of (map (\<lambda>(k, s). (k, if k \<in> set ex then s else thaw s now)) ss) k =
      map_option (\<lambda>s. if k \<in> set ex then s else thaw s now) (map_of ss k)" for ss :: states
    by (induction ss) auto
  then have "map_of (states p1) k = Some (thaw s now)"
    using selectLocked_frame(4) [OF sl] ms s(2) by (simp add: scanned_def)
  with s1 have "s1 = thaw s now" by simp
  with ms s(3) acc_eq k show "\<exists>s. map_of (states p) (ID acc) = Some s
            \<and> fst (eligibleLocked (policy p) s (sel_Model sel) now)
            \<and> acc = (account (thaw s now))\<lparr>LastUsedAt := Some now\<rparr>" by blast
qed

text \<open>Rolling a reservation back undoes it.\<close>

lemma rollback_frame [simp]:
  "policy (rollbackReservation p k t) = policy p" "affinities (rollbackReservation p k t) = affinities p"
  "map fst (states (rollbackReservation p k t)) = map fst (states p)"
  by (simp_all add: rollbackReservation_def)

lemma wf_pool_rollback [intro]: "wf_pool p \<Longrightarrow> wf_pool (rollbackReservation p k t)"
  unfolding rollbackReservation_def by (rule wf_pool_amodify) auto

lemma rollback_undoes:
  assumes "inflight_of q = (inflight_of p)(k := inflight_of p k + 1)" "0 \<le> inflight_of p k"
  shows "inflight_of (rollbackReservation q k t) = inflight_of p"
proof -
  from assms have "inflight_of q k = inflight_of p k + 1" by simp
  with assms(2) obtain s where s: "map_of (states q) k = Some s" "inflight s = inflight_of p k + 1"
    by (auto simp: inflight_of_def split: option.splits)
  then have "inflight_of (rollbackReservation q k t) = (inflight_of q)(k := inflight s - 1)"
    using assms(2) by (subst inflight_of_amodify [OF _ s(1)]) (auto simp: rollbackReservation_def)
  with s assms show ?thesis by (simp add: fun_eq_iff)
qed

section \<open>Coordination and commit\<close>

lemma same_counts_rollback:
  assumes "wf_pool p" "inflight_of q = (inflight_of p)(k := inflight_of p k + 1)"
    "policy q = policy p" "map fst (states q) = map fst (states p)"
  shows "same_counts p (rollbackReservation q k t)"
  using assms rollback_undoes [OF assms(2) inflight_of_nonneg]
  by (simp add: same_counts_def wf_pool_def)

lemma same_counts_clear: "same_counts p q \<Longrightarrow> same_counts p (clearLocalAffinityLocked q m k a)"
  by (erule same_counts_trans) (simp add: same_counts_states)

lemma coordinate_again:
  assumes "acquire_coordinate d sel st acc q w = CoordAgain st'" "wf_pool q"
  shows "coordinator d \<noteq> None" "excluded st' = ID acc # excluded st"
    "coordinatedAffinity st' \<in> {'''', coordinatedAffinity st}" "wf_pool (acq_pool st')"
    "(\<forall>t. same_counts p (rollbackReservation q (ID acc) t)) \<Longrightarrow> same_counts p (acq_pool st')"
  using assms
  by (auto simp: acquire_coordinate_def Let_def case_prod_unfold same_counts_clear wf_pool_clearLocalAffinity wf_pool_rollback
      split: option.splits sum.splits if_splits)

lemma coordinate_fail:
  assumes "acquire_coordinate d sel st acc q w = CoordFail e p' w'" "wf_pool q"
  shows "wf_pool p' \<and> ((\<forall>t. same_counts p (rollbackReservation q (ID acc) t)) \<longrightarrow> same_counts p p')"
  using assms
  by (auto simp: acquire_coordinate_def Let_def case_prod_unfold same_counts_clear wf_pool_clearLocalAffinity wf_pool_rollback
      split: option.splits sum.splits if_splits)

lemma commit_cases:
  assumes "acquire_commit d sel ua co now acc pa pc cl q w = (r, p', w')"
  obtains (failed) e where "r = Inl e" "p' = rollbackReservation q (ID acc) 0"
  | (leased) l where "r = Inr l" "lease_Account l = acc" "coordination l = cl" "once_done l = False"
      "affinityModel l = (if ua then model_ID (sel_Model sel) else '''')"
      "p' = q \<or> (\<exists>t. p' = recordAffinity q (model_ID (sel_Model sel)) (AffinityKey sel) t now)"
proof (cases r)
  case (Inl e)
  with assms have "p' = rollbackReservation q (ID acc) 0"
    by (auto simp: acquire_commit_def Let_def case_prod_unfold
        split: option.splits sum.splits if_splits)
  with Inl show ?thesis by (rule failed)
next
  case (Inr l)
  with assms have "lease_Account l = acc \<and> coordination l = cl \<and> once_done l = False
      \<and> affinityModel l = (if ua then model_ID (sel_Model sel) else '''')
      \<and> (p' = q \<or> (\<exists>t. p' = recordAffinity q (model_ID (sel_Model sel)) (AffinityKey sel) t now))"
    by (auto simp: acquire_commit_def Let_def case_prod_unfold
        split: option.splits sum.splits if_splits)
  with Inr show ?thesis by (intro leased [of l]) auto
qed

lemma recordAffinity_frame [simp]:
  "states (recordAffinity p m k a now) = states p" "policy (recordAffinity p m k a now) = policy p"
  by (simp_all add: recordAffinity_def)

section \<open>A round\<close>

text \<open>The three ways a round ends, in terms of the pool it started from.\<close>

lemma try_again:
  assumes "acquire_try d sel ua st now pa pc p w = Again st'" "wf_pool p"
  shows "\<exists>k. coordinator d \<noteq> None \<and> k \<in> fst ` set (states p) \<and> k \<notin> set (excluded st)
      \<and> excluded st' = k # excluded st \<and> coordinatedAffinity st' \<in> {'''', coordinatedAffinity st}
      \<and> wf_pool (acq_pool st') \<and> same_counts p (acq_pool st')"
proof -
  obtain ao q where res: "acquire_reserve sel (excluded st) now p = (ao, q)"
    by (cases "acquire_reserve sel (excluded st) now p")
  with assms(1) obtain acc where ao: "ao = Some acc"
    by (cases ao) (auto simp: acquire_try_def)
  with assms(1) res have co: "acquire_coordinate d sel st acc q w = CoordAgain st'"
    by (auto simp: acquire_try_def Let_def case_prod_unfold split: coordinated.splits)
  note r = reserve_Some [OF res [unfolded ao] assms(2)]
  have "\<forall>t. same_counts p (rollbackReservation q (ID acc) t)"
    using same_counts_rollback [OF assms(2) r(1-3)] by blast
  note c = coordinate_again [OF co r(4)] coordinate_again(5) [OF co r(4) this]
  have "ID acc \<in> fst ` set (states p)"
    using r(7) by (auto dest!: map_of_SomeD intro: rev_image_eqI)
  with c r(5) show ?thesis by blast
qed

lemma try_fails:
  assumes "acquire_try d sel ua st now pa pc p w = Return (Inl e) p' w'" "wf_pool p"
  shows "wf_pool p' \<and> same_counts p p'"
proof -
  obtain ao q where res: "acquire_reserve sel (excluded st) now p = (ao, q)"
    by (cases "acquire_reserve sel (excluded st) now p")
  show ?thesis
  proof (cases ao)
    case None
    with assms res reserve_None [of sel "excluded st" now p q] show ?thesis
      by (auto simp: acquire_try_def)
  next
    case (Some acc)
    note r = reserve_Some [OF res [unfolded Some] assms(2)]
    have undo: "\<forall>t. same_counts p (rollbackReservation q (ID acc) t)"
      using same_counts_rollback [OF assms(2) r(1-3)] by blast
    show ?thesis
    proof (cases "acquire_coordinate d sel st acc q w")
      case (CoordFail e2 p2 w2)
      with assms(1) res Some coordinate_fail [OF CoordFail r(4), of p] undo show ?thesis
        by (auto simp: acquire_try_def)
    next
      case (CoordOk cl w2)
      obtain r3 p3 w3 where com: "acquire_commit d sel ua (coordinatedAffinity st) now acc pa pc cl q w2 = (r3, p3, w3)"
        by (rule prod_cases3)
      with assms(1) res Some CoordOk have "r3 = Inl e" "p3 = p'" by (auto simp: acquire_try_def)
      with com undo r(4) show ?thesis by (auto elim!: commit_cases)
    qed (use assms(1) res Some in \<open>auto simp: acquire_try_def\<close>)
  qed
qed

lemma try_leases:
  assumes "acquire_try d sel ua st now pa pc p w = Return (Inr l) p' w'" "wf_pool p"
  shows "wf_pool p'" "policy p' = policy p"
    "inflight_of p' = (inflight_of p)(ID (lease_Account l) := inflight_of p (ID (lease_Account l)) + 1)"
    "ID (lease_Account l) \<notin> set (excluded st)" "once_done l = False"
    "\<exists>s. map_of (states p) (ID (lease_Account l)) = Some s
        \<and> fst (eligibleLocked (policy p) s (sel_Model sel) now)
        \<and> lease_Account l = (account (thaw s now))\<lparr>LastUsedAt := Some now\<rparr>"
proof -
  obtain ao q where res: "acquire_reserve sel (excluded st) now p = (ao, q)"
    by (cases "acquire_reserve sel (excluded st) now p")
  with assms(1) obtain acc where ao: "ao = Some acc"
    by (cases ao) (auto simp: acquire_try_def)
  note r = reserve_Some [OF res [unfolded ao] assms(2)]
  obtain cl w2 where co: "acquire_coordinate d sel st acc q w = CoordOk cl w2"
    using assms(1) res ao by (cases "acquire_coordinate d sel st acc q w") (auto simp: acquire_try_def)
  obtain r3 p3 w3 where com: "acquire_commit d sel ua (coordinatedAffinity st) now acc pa pc cl q w2 = (r3, p3, w3)"
    by (rule prod_cases3)
  with assms(1) res ao co have "r3 = Inr l" "p3 = p'" by (auto simp: acquire_try_def)
  with com have l: "lease_Account l = acc" "once_done l = False"
    and p': "p' = q \<or> (\<exists>t. p' = recordAffinity q (model_ID (sel_Model sel)) (AffinityKey sel) t now)"
    by (auto elim!: commit_cases)
  have st: "states p' = states q" "policy p' = policy q" using p' by auto
  have "inflight_of p' = inflight_of q" using st by (simp add: inflight_of_def fun_eq_iff)
  then show "inflight_of p' = (inflight_of p)(ID (lease_Account l) := inflight_of p (ID (lease_Account l)) + 1)"
    using r(1) l by simp
  show "wf_pool p'" using p' r(4) by auto
  show "policy p' = policy p" using st r(2) by simp
  show "ID (lease_Account l) \<notin> set (excluded st)" "once_done l = False"
    "\<exists>s. map_of (states p) (ID (lease_Account l)) = Some s
        \<and> fst (eligibleLocked (policy p) s (sel_Model sel) now)
        \<and> lease_Account l = (account (thaw s now))\<lparr>LastUsedAt := Some now\<rparr>"
    using r l by auto
qed

text \<open>
  What is left to try: accounts not excluded yet, and one more round while an affinity can turn
  out to be stale.
\<close>

definition pending :: "'w Deps \<Rightarrow> Selection \<Rightarrow> 'w acq \<Rightarrow> nat" where
  "pending d sel st =
     card (fst ` set (states (acq_pool st)) - set (excluded st))
     + (if coordinator d = None
        then (if map_of (affinities (acq_pool st)) (sel_key sel) = None then 0 else 1)
        else (if coordinatedAffinity st = '''' then 0 else 1))"

lemma step_decompose:
  obtains now w pa pc sa p where
    "now_fn d (acq_world st) = (now, w)"
    "acquire_affinity sel ua (capacityExcluded st) now
       (acquire_prepare d sel ua (coordinatedAffinity st) now (acq_pool st)) = (pa, pc, sa, p)"
    "acquire_step d sel ua st =
       (if sa \<noteq> '''' then acquire_stale d sel st sa p w else acquire_try d sel ua st now pa pc p w)"
proof -
  obtain now w where n: "now_fn d (acq_world st) = (now, w)" by (cases "now_fn d (acq_world st)")
  obtain pa pc sa p where a: "acquire_affinity sel ua (capacityExcluded st) now
      (acquire_prepare d sel ua (coordinatedAffinity st) now (acq_pool st)) = (pa, pc, sa, p)"
    by (rule prod_cases4)
  show ?thesis by (rule that [OF n a]) (simp add: acquire_step_def Let_def n a)
qed

lemma prepared:
  assumes "wf_pool p0"
    "acquire_affinity sel ua cap now (acquire_prepare d sel ua co now p0) = (pa, pc, sa, p)"
  shows "same_counts p0 p" "wf_pool p"
proof -
  have "same_counts p0 (acquire_prepare d sel ua co now p0)" by (rule same_counts_states) simp_all
  moreover have "same_counts (acquire_prepare d sel ua co now p0) p \<and> wf_pool p"
    using assms by (intro affinity_same_counts) auto
  ultimately show "same_counts p0 p" "wf_pool p" by (blast intro: same_counts_trans)+
qed

lemma stale_entry:
  assumes "acquire_affinity sel ua cap now (acquire_prepare d sel ua co now p0) = (pa, pc, sa, p)" "sa \<noteq> ''''"
  shows "coordinator d = None \<Longrightarrow> map_of (affinities p0) (sel_key sel) \<noteq> None \<and> map_of (affinities p) (sel_key sel) = None"
    and "coordinator d \<noteq> None \<Longrightarrow> co = sa"
proof -
  let ?p1 = "acquire_prepare d sel ua co now p0"
  obtain e where ua: "ua" and e: "map_of (affinities ?p1) (sel_key sel) = Some e" "accountID e = sa"
    and p: "affinities p = AList.delete (sel_key sel) (affinities ?p1)"
    using assms by (auto elim!: acquire_affinity_cases)
  show "coordinator d \<noteq> None \<Longrightarrow> co = sa"
    using e ua by (auto simp: acquire_prepare_def Let_def setAffinityLocked_def update_conv' delete_conv'
        split: if_splits)
  assume none: "coordinator d = None"
  then have "(sel_key sel, e) \<in> set (affinities (pruneAffinitiesLocked p0 now))"
    using e(1) by (auto simp: acquire_prepare_def Let_def dest: map_of_SomeD)
  then have "sel_key sel \<in> fst ` set (affinities p0)" by (auto dest: prune_live intro: rev_image_eqI)
  with p show "map_of (affinities p0) (sel_key sel) \<noteq> None \<and> map_of (affinities p) (sel_key sel) = None"
    by (simp add: map_of_eq_None_iff delete_conv')
qed

lemma step_again:
  assumes "acquire_step d sel ua st = Again st'" "wf_pool (acq_pool st)"
  shows "same_counts (acq_pool st) (acq_pool st')" "wf_pool (acq_pool st')"
    "set (excluded st) \<subseteq> set (excluded st')" "pending d sel st' < pending d sel st"
proof -
  obtain now w pa pc sa p where
    a: "acquire_affinity sel ua (capacityExcluded st) now
       (acquire_prepare d sel ua (coordinatedAffinity st) now (acq_pool st)) = (pa, pc, sa, p)"
    and s: "acquire_step d sel ua st =
       (if sa \<noteq> '''' then acquire_stale d sel st sa p w else acquire_try d sel ua st now pa pc p w)"
    by (rule step_decompose)
  note pr = prepared [OF assms(2) a]
  have "same_counts (acq_pool st) (acq_pool st') \<and> wf_pool (acq_pool st')
    \<and> set (excluded st) \<subseteq> set (excluded st') \<and> pending d sel st' < pending d sel st"
  proof (cases "sa = ''''")
    case True
    with s assms(1) have "acquire_try d sel ua st now pa pc p w = Again st'" by simp
    from try_again [OF this pr(2)] obtain k where k: "coordinator d \<noteq> None" "k \<in> fst ` set (states p)"
      "k \<notin> set (excluded st)" "excluded st' = k # excluded st"
      "coordinatedAffinity st' \<in> {'''', coordinatedAffinity st}" "wf_pool (acq_pool st')"
      "same_counts p (acq_pool st')" by blast
    have keys: "fst ` set (states p) = fst ` set (states (acq_pool st))"
      "fst ` set (states (acq_pool st')) = fst ` set (states (acq_pool st))"
      using pr(1) k(7) unfolding same_counts_def by (metis list.set_map)+
    have "card (fst ` set (states (acq_pool st')) - set (excluded st'))
        < card (fst ` set (states (acq_pool st)) - set (excluded st))"
      using k(2-4) unfolding keys by (intro psubset_card_mono) (auto simp: keys)
    with k pr(1) show ?thesis by (auto simp: pending_def intro: same_counts_trans)
  next
    case False
    with s assms(1) have stale: "acquire_stale d sel st sa p w = Again st'" by simp
    then have st': "acq_pool st' = p" "excluded st' = excluded st"
      by (auto simp: acquire_stale_def case_prod_unfold Let_def split: option.splits if_splits)
    have keys: "fst ` set (states p) = fst ` set (states (acq_pool st))"
      using pr(1) unfolding same_counts_def by (metis list.set_map)
    have "pending d sel st' < pending d sel st"
    proof (cases "coordinator d = None")
      case True
      with stale_entry(1) [OF a False] st' keys show ?thesis by (simp add: pending_def)
    next
      case coord: False
      then have co: "coordinatedAffinity st = sa" using stale_entry(2) [OF a False] by simp
      with stale coord have "coordinatedAffinity st' = ''''"
        by (auto simp: acquire_stale_def case_prod_unfold Let_def split: option.splits)
      with coord co False st' keys show ?thesis by (simp add: pending_def)
    qed
    with st' pr show ?thesis by simp
  qed
  then show "same_counts (acq_pool st) (acq_pool st')" "wf_pool (acq_pool st')"
    "set (excluded st) \<subseteq> set (excluded st')" "pending d sel st' < pending d sel st" by blast+
qed

lemma step_fails:
  assumes "acquire_step d sel ua st = Return (Inl e) p' w'" "wf_pool (acq_pool st)"
  shows "same_counts (acq_pool st) p' \<and> wf_pool p'"
proof -
  obtain now w pa pc sa p where
    a: "acquire_affinity sel ua (capacityExcluded st) now
       (acquire_prepare d sel ua (coordinatedAffinity st) now (acq_pool st)) = (pa, pc, sa, p)"
    and s: "acquire_step d sel ua st =
       (if sa \<noteq> '''' then acquire_stale d sel st sa p w else acquire_try d sel ua st now pa pc p w)"
    by (rule step_decompose)
  note pr = prepared [OF assms(2) a]
  have "wf_pool p' \<and> same_counts p p'"
  proof (cases "sa = ''''")
    case True
    with s assms(1) have "acquire_try d sel ua st now pa pc p w = Return (Inl e) p' w'" by simp
    from this pr(2) show ?thesis by (rule try_fails)
  next
    case False
    with s assms(1) have "acquire_stale d sel st sa p w = Return (Inl e) p' w'" by simp
    then have "p' = p"
      by (auto simp: acquire_stale_def case_prod_unfold Let_def split: option.splits if_splits)
    with pr show ?thesis by simp
  qed
  with pr(1) show ?thesis by (blast intro: same_counts_trans)
qed

lemma step_leases:
  assumes "acquire_step d sel ua st = Return (Inr l) p' w'" "wf_pool (acq_pool st)"
  shows "wf_pool p' \<and> policy p' = policy (acq_pool st)
    \<and> inflight_of p' = (inflight_of (acq_pool st))
        (ID (lease_Account l) := inflight_of (acq_pool st) (ID (lease_Account l)) + 1)
    \<and> inflight_of p' (ID (lease_Account l)) \<le> concurrency_limit (policy p') (lease_Account l)
    \<and> ID (lease_Account l) \<notin> set (excluded st) \<and> once_done l = False
    \<and> Status (lease_Account l) = AccountActive \<and> Kind (lease_Account l) \<in> set (CredentialKinds (sel_Model sel))"
proof -
  obtain now w pa pc sa p where
    a: "acquire_affinity sel ua (capacityExcluded st) now
       (acquire_prepare d sel ua (coordinatedAffinity st) now (acq_pool st)) = (pa, pc, sa, p)"
    and s: "acquire_step d sel ua st =
       (if sa \<noteq> '''' then acquire_stale d sel st sa p w else acquire_try d sel ua st now pa pc p w)"
    by (rule step_decompose)
  note pr = prepared [OF assms(2) a]
  have "sa = ''''"
    using s assms(1)
    by (auto simp: acquire_stale_def case_prod_unfold Let_def split: option.splits if_splits)
  with s assms(1) have "acquire_try d sel ua st now pa pc p w = Return (Inr l) p' w'" by simp
  note t = try_leases [OF this pr(2)]
  obtain s where s: "map_of (states p) (ID (lease_Account l)) = Some s"
    "fst (eligibleLocked (policy p) s (sel_Model sel) now)"
    "lease_Account l = (account (thaw s now))\<lparr>LastUsedAt := Some now\<rparr>"
    using t(6) by blast
  have lim: "inflight_of p (ID (lease_Account l)) < concurrency_limit (policy p) (lease_Account l)"
    using s by (auto simp: inflight_of_def eligible_iff concurrency_limit_def)
  have "Status (lease_Account l) = AccountActive" "Kind (lease_Account l) \<in> set (CredentialKinds (sel_Model sel))"
    using s(2,3) by (simp_all add: eligible_iff durable_iff)
  with t lim pr(1) show ?thesis by (simp add: same_counts_def)
qed

section \<open>The loop\<close>

lemma loop_ends:
  assumes "wf_pool (acq_pool st)" "pending d sel st < n"
  shows "\<exists>r p w. acquire_loop n d sel ua st = Some (r, p, w)"
  using assms
proof (induction n arbitrary: st)
  case (Suc n)
  show ?case
  proof (cases "acquire_step d sel ua st")
    case (Again st')
    with Suc.IH [of st'] step_again [OF Again Suc.prems(1)] Suc.prems(2) show ?thesis by simp
  qed auto
qed simp

lemma loop_fails:
  assumes "acquire_loop n d sel ua st = Some (Inl e, p', w')" "wf_pool (acq_pool st)"
  shows "same_counts (acq_pool st) p' \<and> wf_pool p'"
  using assms
proof (induction n arbitrary: st)
  case (Suc n)
  show ?case
  proof (cases "acquire_step d sel ua st")
    case (Again st')
    with Suc step_again(1,2) [OF Again Suc.prems(2)] show ?thesis
      using same_counts_trans by (fastforce dest: Suc.IH)
  next
    case (Return r q w)
    with Suc.prems have "acquire_step d sel ua st = Return (Inl e) p' w'" by simp
    from this Suc.prems(2) show ?thesis by (rule step_fails)
  qed
qed simp

lemma loop_leases:
  assumes "acquire_loop n d sel ua st = Some (Inr l, p', w')" "wf_pool (acq_pool st)"
  shows "wf_pool p' \<and> policy p' = policy (acq_pool st)
    \<and> inflight_of p' = (inflight_of (acq_pool st))
        (ID (lease_Account l) := inflight_of (acq_pool st) (ID (lease_Account l)) + 1)
    \<and> inflight_of p' (ID (lease_Account l)) \<le> concurrency_limit (policy p') (lease_Account l)
    \<and> ID (lease_Account l) \<notin> set (excluded st) \<and> once_done l = False
    \<and> Status (lease_Account l) = AccountActive \<and> Kind (lease_Account l) \<in> set (CredentialKinds (sel_Model sel))"
  using assms
proof (induction n arbitrary: st)
  case (Suc n)
  show ?case
  proof (cases "acquire_step d sel ua st")
    case (Again st')
    note a = step_again(1,2,3) [OF Again Suc.prems(2)]
    from Again Suc.prems have "acquire_loop n d sel ua st' = Some (Inr l, p', w')" by simp
    from Suc.IH [OF this a(2)] a(1,3) show ?thesis by (auto simp: same_counts_def)
  next
    case (Return r q w)
    with Suc.prems have "acquire_step d sel ua st = Return (Inr l) p' w'" by simp
    from this Suc.prems(2) show ?thesis by (rule step_leases)
  qed
qed simp

section \<open>Properties of Acquire\<close>

lemma pending_bound: "pending d sel st < length (states (acq_pool st)) + 2"
proof -
  have "card (fst ` set (states (acq_pool st)) - set (excluded st)) \<le> card (fst ` set (states (acq_pool st)))"
    by (intro card_mono) auto
  also have "\<dots> \<le> length (states (acq_pool st))"
    by (metis card_length length_map list.set_map)
  finally show ?thesis by (simp add: pending_def)
qed

text \<open>An acquisition either fails before the loop or is a run of the loop.\<close>

lemma Acquire_cases:
  assumes "Acquire d c sel p w = r"
  obtains (early) e q w' e0 w1 where "r = Some (Inl e, q, w')" "ensureLoaded d c p w = (e0, q, w1)"
  | (loop) q w1 ua aff w2 where "ensureLoaded d c p w = (None, q, w1)"
      "r = acquire_loop (length (states q) + 2) d sel ua
             \<lparr>acq_pool = q, excluded = ExcludeIDs sel, capacityExcluded = [],
              coordinatedAffinity = aff, acq_world = w2\<rparr>"
proof -
  obtain e q w1 where l: "ensureLoaded d c p w = (e, q, w1)" by (rule prod_cases3)
  show ?thesis
  proof (cases e)
    case (Some x)
    with l assms show ?thesis by (intro early [of x q w1 e w1]) (simp_all add: Acquire_def)
  next
    case None
    let ?ua = "policy_Strategy (policy q) = StrategyAffinity \<and> AffinityKey sel \<noteq> ''''"
    obtain ga w2 where g: "(case coordinator d of
                               Some c \<Rightarrow>
                                 if ?ua then GetAffinity c (model_ID (sel_Model sel)) (AffinityKey sel) w1
                                 else (Inr None, w1)
                             | None \<Rightarrow> (Inr None, w1)) = (ga, w2)" by (rule prod.exhaust)
    show ?thesis
    proof (cases ga)
      case (Inl x)
      with l None g assms show ?thesis
        by (intro early [of "Wrapped ''read coordinated account affinity'' x" q w2 e w1]) (simp_all add: Acquire_def)
    next
      case (Inr f)
      with l None g assms show ?thesis by (intro loop [of q w1 ?ua "case f of None \<Rightarrow> '''' | Some a \<Rightarrow> a" w2]) (simp_all add: Acquire_def Let_def del: acquire_loop.simps)
    qed
  qed
qed

lemma sample_is_loaded: "loaded sample_loaded"
  by (simp add: sample_loaded_def reload_apply_def Let_def)

lemma sample_acquire:
  "case Acquire sample_deps None sample_selection sample_loaded sample_world0 of
     Some (Inr l, q, w') \<Rightarrow> True | _ \<Rightarrow> False"
  by code_simp

lemma sample_acquire_fails:
  "case Acquire sample_deps None (sample_selection\<lparr>ExcludeIDs := [''a'', ''b'']\<rparr>) sample_loaded sample_world0 of
     Some (Inl e, q, w') \<Rightarrow> True | _ \<Rightarrow> False"
  by code_simp

text \<open>C12: acquiring an account always ends. Whatever the store and the coordinator answer, the
  loop of \<open>Acquire\<close> runs at most once per known account and two times more, and the call returns
  a lease or an error.\<close>

theorem acquire_terminates:
  assumes "wf_pool p"
  shows "\<exists>r q w'. Acquire d ctxErr sel p w = Some (r, q, w')"
  using refl [of "Acquire d ctxErr sel p w"]
proof (cases rule: Acquire_cases)
  case (loop q w1 ua aff w2)
  have "wf_pool q" using loop(1) assms by (rule wf_pool_ensureLoaded)
  then show ?thesis
    using loop(2) loop_ends [OF _ pending_bound, of "\<lparr>acq_pool = q, excluded = ExcludeIDs sel,
      capacityExcluded = [], coordinatedAffinity = aff, acq_world = w2\<rparr>" d sel ua]
    by (simp del: acquire_loop.simps)
qed auto

theorem acquire_terminates_witness:
  "\<exists>r q w'. Acquire sample_deps None sample_selection sample_pool sample_world0 = Some (r, q, w')"
  by (rule acquire_terminates [OF sample_pool_wf])

text \<open>C1: a lease is a reservation. When \<open>Acquire\<close> returns a lease on a loaded pool, the leased
  account was not excluded by the caller, is active and of a credential kind the model accepts;
  its in-flight counter rose by exactly one, stays within its concurrency limit, and no other
  counter changed.\<close>

theorem acquire_reserves:
  assumes "wf_pool p" "loaded p" "Acquire d ctxErr sel p w = Some (Inr l, q, w')"
  shows "inflight_of q = (inflight_of p)(ID (lease_Account l) := inflight_of p (ID (lease_Account l)) + 1)
    \<and> inflight_of q (ID (lease_Account l)) \<le> concurrency_limit (policy p) (lease_Account l)
    \<and> ID (lease_Account l) \<notin> set (ExcludeIDs sel) \<and> Status (lease_Account l) = AccountActive
    \<and> Kind (lease_Account l) \<in> set (CredentialKinds (sel_Model sel)) \<and> wf_pool q"
  using assms(3)
proof (cases rule: Acquire_cases)
  case (loop q1 w1 ua aff w2)
  have q1: "q1 = p" using loop(1) assms(2) by (simp add: ensureLoaded_def)
  from loop_leases [OF loop(2) [symmetric]] assms(1) show ?thesis by (auto simp: q1)
qed simp

theorem acquire_reserves_witness:
  "\<exists>l q w'. Acquire sample_deps None sample_selection sample_loaded sample_world0 = Some (Inr l, q, w')
     \<and> inflight_of q = (inflight_of sample_loaded)
          (ID (lease_Account l) := inflight_of sample_loaded (ID (lease_Account l)) + 1)"
proof -
  obtain l q w' where "Acquire sample_deps None sample_selection sample_loaded sample_world0 = Some (Inr l, q, w')"
    using sample_acquire by (auto split: option.splits prod.splits sum.splits)
  with acquire_reserves [OF sample_loaded_wf sample_is_loaded this] show ?thesis by blast
qed

text \<open>C13: a failed acquisition leaks nothing. When \<open>Acquire\<close> returns an error on a loaded pool,
  for whatever reason and after however many rounds, every in-flight counter is what it was.\<close>

theorem acquire_failure_restores:
  assumes "wf_pool p" "loaded p" "Acquire d ctxErr sel p w = Some (Inl e, q, w')"
  shows "inflight_of q = inflight_of p \<and> map fst (states q) = map fst (states p) \<and> wf_pool q"
  using assms(3)
proof (cases rule: Acquire_cases)
  case (early e' q' w'' e0 w1)
  then have "q = p" using assms(2,3) by (auto simp: ensureLoaded_def)
  with assms(1) show ?thesis by simp
next
  case (loop q1 w1 ua aff w2)
  have q1: "q1 = p" using loop(1) assms(2) by (simp add: ensureLoaded_def)
  from loop_fails [OF loop(2) [symmetric]] assms(1) show ?thesis by (simp add: q1 same_counts_def)
qed

theorem acquire_failure_restores_witness:
  "\<exists>e q w'. Acquire sample_deps None (sample_selection\<lparr>ExcludeIDs := [''a'', ''b'']\<rparr>) sample_loaded sample_world0
       = Some (Inl e, q, w') \<and> inflight_of q = inflight_of sample_loaded"
proof -
  obtain e q w' where "Acquire sample_deps None (sample_selection\<lparr>ExcludeIDs := [''a'', ''b'']\<rparr>) sample_loaded sample_world0
      = Some (Inl e, q, w')"
    using sample_acquire_fails by (auto split: option.splits prod.splits sum.splits)
  with acquire_failure_restores [OF sample_loaded_wf sample_is_loaded this] show ?thesis by blast
qed

end
