(* ===== verification/Pool_Release.thy ===== *)
theory Pool_Release
  imports Pool_Acquire
begin

text \<open>
  Release of a lease: how feedback changes the account's state, what happens to the counters,
  and what a store that meets its contract sees.
\<close>

section \<open>Reference definitions\<close>

text \<open>An account that no model can use before \<open>t\<close>.\<close>

definition blocked_until :: "Policy \<Rightarrow> runtimeState \<Rightarrow> time \<Rightarrow> bool" where
  "blocked_until pol s t \<longleftrightarrow> (\<forall>m now. now < t \<longrightarrow> \<not> fst (durablyEligibleLocked pol s m now))"

definition health_ok :: "runtimeState \<Rightarrow> bool" where
  "health_ok s \<longleftrightarrow> 1/20 \<le> health s \<and> health s \<le> 1 \<and> 0 \<le> failures s"

section \<open>One state\<close>

lemma blocked_by_cooldown: "t \<le> cooldownTill s \<Longrightarrow> blocked_until pol s t"
  by (auto simp: blocked_until_def durable_iff)

lemma retry_cooldown_pos: "0 < retry_cooldown pol k fb"
  by (simp add: retry_cooldown_def Let_def)

lemma retry_cooldown_honours: "0 < RetryAfter fb \<Longrightarrow> retry_cooldown pol k fb = RetryAfter fb"
  by (simp add: retry_cooldown_def)

lemma observed_frame [simp]:
  "inflight (observed fb now s) = inflight s" "health (observed fb now s) = health s"
  "failures (observed fb now s) = failures s" "cooldownTill (observed fb now s) = cooldownTill s"
  "ID (account (observed fb now s)) = ID (account s)" "Kind (account (observed fb now s)) = Kind (account s)"
  "Status (account (observed fb now s)) = Status (account s)"
  by (simp_all add: observed_def split: option.split)

abbreviation reset_of :: "Policy \<Rightarrow> Feedback \<Rightarrow> time \<Rightarrow> runtimeState \<Rightarrow> time \<times> bool" where
  "reset_of pol fb now s \<equiv>
     exhaustedQuotaReset (Quota (account (observed fb now s))) (Kind (account s)) pol now (fb_Quota fb \<noteq> None)"

abbreviation verdict_of :: "Policy \<Rightarrow> Lease \<Rightarrow> Feedback \<Rightarrow> time \<Rightarrow> runtimeState \<Rightarrow> verdict" where
  "verdict_of pol lease fb now s \<equiv>
     classify (Status (account s)) (Status (lease_Account lease))
       (now < cooldownTill s \<and> Status (account s) = AccountCooldown) (snd (reset_of pol fb now s)) fb"

abbreviation applied :: "Policy \<Rightarrow> Lease \<Rightarrow> Feedback \<Rightarrow> time \<Rightarrow> runtimeState \<Rightarrow> effect" where
  "applied pol lease fb now s \<equiv>
     apply_verdict pol fb now (fst (reset_of pol fb now s)) (snd (reset_of pol fb now s))
       (verdict_of pol lease fb now s) (observed fb now s)
       (needs_stamp now s \<or> fb_Quota fb \<noteq> None) (fb_Quota fb \<noteq> None)"

lemma release_current_eq:
  "release_current pol lease fb now s =
     (applied pol lease fb now s)\<lparr>eff_state := mirror_health (eff_state (applied pol lease fb now s))\<rparr>"
  unfolding release_current_def Let_def case_prod_unfold observed_frame ..

lemma mirror_health_frame [simp]:
  "inflight (mirror_health s) = inflight s" "health (mirror_health s) = health s"
  "failures (mirror_health s) = failures s" "cooldownTill (mirror_health s) = cooldownTill s"
  "ID (account (mirror_health s)) = ID (account s)" "Status (account (mirror_health s)) = Status (account s)"
  "Kind (account (mirror_health s)) = Kind (account s)"
  "CooldownUntil (account (mirror_health s)) = CooldownUntil (account s)"
  "Quota (account (mirror_health s)) = Quota (account s)"
  "HealthScore (account (mirror_health s)) = health s"
  by (simp_all add: mirror_health_def)

lemma apply_verdict_frame:
  "inflight (eff_state (apply_verdict pol fb now qr ex v s ps pb)) = inflight s"
  "ID (account (eff_state (apply_verdict pol fb now qr ex v s ps pb))) = ID (account s)"
  "CredentialCipher (account (eff_state (apply_verdict pol fb now qr ex v s ps pb))) = CredentialCipher (account s)"
  by (simp_all add: apply_verdict_def Let_def split: verdict.split)

lemma release_current_frame [simp]:
  "inflight (eff_state (release_current pol lease fb now s)) = inflight s"
  "ID (account (eff_state (release_current pol lease fb now s))) = ID (account s)"
  by (simp_all add: release_current_eq apply_verdict_frame)

lemma health_scale:
  "health_ok s \<Longrightarrow> 0 \<le> c \<Longrightarrow> c \<le> 1 \<Longrightarrow> max (1/20) (health s * c) \<le> (1::rat)"
  using mult_left_le [of c "health s"] order_trans [of "health s * c" "health s" 1]
  by (auto simp: health_ok_def)

lemma apply_verdict_health:
  assumes "health_ok s"
  shows "health_ok (eff_state (apply_verdict pol fb now qr ex v s ps pb))"
  using assms health_scale [OF assms, of "9/20"] health_scale [OF assms, of "1/4"]
    health_scale [OF assms, of "9/10"] health_scale [OF assms, of "3/4"]
  by (cases v) (auto simp: apply_verdict_def Let_def health_ok_def)

section \<open>Counters\<close>

abbreviation count_in :: "states \<Rightarrow> string \<Rightarrow> int" where
  "count_in ss k \<equiv> (case map_of ss k of None \<Rightarrow> 0 | Some s \<Rightarrow> inflight s)"

lemma count_reload_item: "count_in (reload_item item ss) k = count_in ss k"
  by (simp add: reload_item_eq update_conv' split: option.split)

lemma count_fold_reload: "count_in (fold reload_item items ss) k = count_in ss k"
  by (induction items arbitrary: ss) (simp_all only: fold_simps id_apply comp_apply count_reload_item)

lemma inflight_of_reload:
  assumes "k \<in> fst ` set (states (reload_apply items p))"
  shows "inflight_of (reload_apply items p) k = inflight_of p k"
proof -
  have "k \<in> set (map ID items)" using assms by (auto simp: reload_apply_def Let_def)
  then have "map_of (states (reload_apply items p)) k = map_of (fold reload_item items (states p)) k"
    by (simp add: reload_apply_def Let_def map_of_filter_key)
  with count_fold_reload [of items "states p" k] show ?thesis by (simp add: inflight_of_def)
qed

lemma Reload_pool: "Reload d c p w = (e, q, w') \<Longrightarrow> q = p \<or> (\<exists>items. q = reload_apply items p)"
  by (auto simp: Reload_def Let_def case_prod_unfold split: option.splits sum.splits)

lemma persist_pool:
  assumes "persist_account d c acc pb r p w = (r', q, w')"
  shows "q = p \<or> (\<exists>items. q = reload_apply items p)"
proof -
  obtain ue w1 where u: "UpdateAccount (dep_store d) acc w = (ue, w1)" by (rule prod.exhaust)
  obtain re p2 w2 where rl: "Reload d c p w1 = (re, p2, w2)" by (rule prod_cases3)
  have "q = p \<or> q = p2"
    using assms u rl by (auto simp: persist_account_def case_prod_unfold Let_def split: option.splits if_splits)
  with Reload_pool [OF rl] show ?thesis by blast
qed

lemma inflight_of_persist:
  assumes "persist_account d c acc pb r p w = (r', q, w')" "k \<in> fst ` set (states q)"
  shows "inflight_of q k = inflight_of p k"
  using persist_pool [OF assms(1)] assms(2) inflight_of_reload by auto

text \<open>The counters of a pool in which the leased account's request has ended.\<close>

definition counted_down :: "Pool \<Rightarrow> string \<Rightarrow> string \<Rightarrow> int" where
  "counted_down p aid k = (if k = aid \<and> 0 < inflight_of p k then inflight_of p k - 1 else inflight_of p k)"

lemma counted_down_amodify:
  assumes "map_of (states p) aid = Some s0" "inflight s = inflight (decrement s0)"
  shows "inflight_of (p\<lparr>states := amodify aid (\<lambda>_. s) (states p)\<rparr>) = counted_down p aid"
proof -
  have "inflight_of (p\<lparr>states := amodify aid (\<lambda>_. s) (states p)\<rparr>) = (inflight_of p)(aid := inflight s)"
    by (rule inflight_of_amodify [OF _ assms(1)]) simp
  moreover have "inflight_of p aid = inflight s0" using assms(1) by (simp add: inflight_of_def)
  ultimately show ?thesis using assms(2) by (auto simp: counted_down_def decrement_def fun_eq_iff)
qed

lemma inflight_of_clear [simp]: "inflight_of (clearLocalAffinityLocked p m k a) = inflight_of p"
  by (simp add: inflight_of_def fun_eq_iff)

lemma amodify_const_twice: "amodify k (\<lambda>_. b) (amodify k (\<lambda>_. a) m) = amodify k (\<lambda>_. b) m"
  by (auto simp: amodify_def)

section \<open>The paths of release\<close>

abbreviation lease_clear :: "Lease \<Rightarrow> Pool \<Rightarrow> Pool" where
  "lease_clear lease p \<equiv>
     clearLocalAffinityLocked p (affinityModel lease) (lease_affinityKey lease) (ID (lease_Account lease))"

abbreviation put_state :: "string \<Rightarrow> runtimeState \<Rightarrow> Pool \<Rightarrow> Pool" where
  "put_state k s p \<equiv> p\<lparr>states := amodify k (\<lambda>_. s) (states p)\<rparr>"

abbreviation lease_id :: "Lease \<Rightarrow> string" where
  "lease_id lease \<equiv> ID (lease_Account lease)"

lemma release_stale_pool:
  assumes "release_stale d lease now s p w = (r, q, w')"
  shows "q \<in> {p, lease_clear lease p}"
  using assms by (auto simp: release_stale_def Let_def case_prod_unfold)

text \<open>The pool and the world of the path with feedback for the current credential.\<close>

lemma release_current_path:
  assumes "now_fn d w = (now, w1)" "map_of (states p) (lease_id lease) = Some s0"
    and "lease_matches (account s0) (lease_Account lease)"
    and "release d c lease fb p w = (r, q, w')"
  shows "\<exists>e p2. e = release_current (policy p) lease fb now (decrement s0)
    \<and> p2 \<in> {put_state (lease_id lease) (eff_state e) p, lease_clear lease (put_state (lease_id lease) (eff_state e) p)}
    \<and> release_finish d c lease e p2 w1 = (r, q, w')"
proof -
  have "lease_matches (account (decrement s0)) (lease_Account lease)"
    using assms(3) by (simp add: decrement_def)
  then have "release d c lease fb p w =
      (let e = release_current (policy p) lease fb now (decrement s0);
           p1 = put_state (lease_id lease) (eff_state e) p
       in release_finish d c lease e (if eff_invalidate e then lease_clear lease p1 else p1) w1)"
    using assms(1-3)
    by (cases "eff_invalidate (release_current (policy p) lease fb now (decrement s0))")
      (simp_all add: release_def Let_def amodify_const_twice)
  with assms(4) show ?thesis by (auto simp: Let_def split: if_splits)
qed

lemma release_finish_pool:
  assumes "release_finish d c lease e p w = (r, q, w')"
  shows "q = p \<or> (\<exists>items. q = reload_apply items p)"
proof -
  obtain r2 w2 where pu: "publish_unavailable d lease
      (if eff_cooldownUntil e = 0 then None else Some (eff_cooldownUntil e)) (eff_invalidate e) w = (r2, w2)"
    by (rule prod.exhaust)
  obtain r3 p3 w3 where pe: "persist_account d c (account (eff_state e)) (eff_publish e) r2 p w2 = (r3, p3, w3)"
    by (rule prod_cases3)
  have "q = p \<or> q = p3"
    using assms pu pe by (auto simp: release_finish_def Let_def case_prod_unfold split: if_splits)
  with persist_pool [OF pe] show ?thesis by blast
qed

lemma release_stale_path:
  assumes "now_fn d w = (now, w1)" "map_of (states p) (lease_id lease) = Some s0"
    and "\<not> lease_matches (account s0) (lease_Account lease)"
  shows "release d c lease fb p w =
    release_stale d lease now (decrement s0) (put_state (lease_id lease) (decrement s0) p) w1"
proof -
  have "\<not> lease_matches (account (decrement s0)) (lease_Account lease)"
    using assms(3) by (simp add: decrement_def)
  with assms show ?thesis by (simp add: release_def Let_def)
qed

lemma release_other_paths:
  assumes "release d c lease fb p w = (r, q, w')"
  shows "map_of (states p) (lease_id lease) = None \<Longrightarrow> q = lease_clear lease p"
    and "map_of (states p) (lease_id lease) = Some s0 \<Longrightarrow> \<not> lease_matches (account s0) (lease_Account lease) \<Longrightarrow>
      q \<in> {put_state (lease_id lease) (decrement s0) p, lease_clear lease (put_state (lease_id lease) (decrement s0) p)}"
proof -
  obtain now w1 where n: "now_fn d w = (now, w1)" by (rule prod.exhaust)
  show "map_of (states p) (lease_id lease) = None \<Longrightarrow> q = lease_clear lease p"
    using assms n by (auto simp: release_def Let_def case_prod_unfold)
  assume "map_of (states p) (lease_id lease) = Some s0" "\<not> lease_matches (account s0) (lease_Account lease)"
  from release_stale_path [OF n this, of c fb] assms
  have "release_stale d lease now (decrement s0) (put_state (lease_id lease) (decrement s0) p) w1 = (r, q, w')"
    by simp
  then show "q \<in> {put_state (lease_id lease) (decrement s0) p, lease_clear lease (put_state (lease_id lease) (decrement s0) p)}"
    by (rule release_stale_pool)
qed

lemma release_counts:
  assumes "release d c lease fb p w = (r, q, w')" "k \<in> fst ` set (states q)"
  shows "inflight_of q k = counted_down p (lease_id lease) k"
proof (cases "map_of (states p) (lease_id lease)")
  case None
  then have "inflight_of p (lease_id lease) = 0" by (simp add: inflight_of_def)
  with release_other_paths(1) [OF assms(1) None] show ?thesis by (auto simp: counted_down_def)
next
  case (Some s0)
  show ?thesis
  proof (cases "lease_matches (account s0) (lease_Account lease)")
    case False
    from release_other_paths(2) [OF assms(1) Some False] counted_down_amodify [OF Some, of "decrement s0"]
    show ?thesis by auto
  next
    case True
    obtain now w1 where n: "now_fn d w = (now, w1)" by (rule prod.exhaust)
    obtain e p2 where e: "e = release_current (policy p) lease fb now (decrement s0)"
      and p2: "p2 \<in> {put_state (lease_id lease) (eff_state e) p, lease_clear lease (put_state (lease_id lease) (eff_state e) p)}"
      and f: "release_finish d c lease e p2 w1 = (r, q, w')"
      using release_current_path [OF n Some True assms(1)] by blast
    have "inflight_of p2 = counted_down p (lease_id lease)"
      using p2 counted_down_amodify [OF Some, of "eff_state e"] by (auto simp: e)
    moreover have "inflight_of q k = inflight_of p2 k"
      using release_finish_pool [OF f] assms(2) inflight_of_reload by auto
    ultimately show ?thesis by simp
  qed
qed

lemma wf_pool_put:
  assumes "wf_pool p" "map_of (states p) k = Some s0" "ID (account s) = k" "0 \<le> inflight s"
  shows "wf_pool (put_state k s p)"
  using assms(1) by (rule wf_pool_amodify) (use assms in auto)

lemma decrement_frame [simp]: "account (decrement s) = account s" "0 \<le> inflight s \<Longrightarrow> 0 \<le> inflight (decrement s)"
  "health (decrement s) = health s" "failures (decrement s) = failures s" "cooldownTill (decrement s) = cooldownTill s"
  by (simp_all add: decrement_def)

lemma wf_pool_release:
  assumes "release d c lease fb p w = (r, q, w')" "wf_pool p"
  shows "wf_pool q"
proof (cases "map_of (states p) (lease_id lease)")
  case None
  with release_other_paths(1) [OF assms(1)] assms(2) show ?thesis by auto
next
  case (Some s0)
  have s0: "ID (account s0) = lease_id lease" "0 \<le> inflight s0"
    using assms(2) Some by (auto simp: wf_pool_def dest: wf_states_lookup)
  show ?thesis
  proof (cases "lease_matches (account s0) (lease_Account lease)")
    case False
    have "wf_pool (put_state (lease_id lease) (decrement s0) p)"
      using assms(2) Some by (rule wf_pool_put) (simp_all add: s0)
    with release_other_paths(2) [OF assms(1) Some False] show ?thesis by auto
  next
    case True
    obtain now w1 where n: "now_fn d w = (now, w1)" by (rule prod.exhaust)
    obtain e p2 where e: "e = release_current (policy p) lease fb now (decrement s0)"
      and p2: "p2 \<in> {put_state (lease_id lease) (eff_state e) p, lease_clear lease (put_state (lease_id lease) (eff_state e) p)}"
      and f: "release_finish d c lease e p2 w1 = (r, q, w')"
      using release_current_path [OF n Some True assms(1)] by blast
    have "wf_pool (put_state (lease_id lease) (eff_state e) p)"
      using assms(2) Some by (rule wf_pool_put) (simp_all add: s0 e)
    with p2 have "wf_pool p2" by auto
    with release_finish_pool [OF f] show ?thesis by (auto intro: wf_pool_reload)
  qed
qed

section \<open>Properties of release\<close>

text \<open>Releasing a lease ends exactly one request. For every account the pool knows afterwards,
  the in-flight counter of the leased account is one less (never below zero), and every other
  counter is what it was, whichever path the release took, including the reload it may trigger;
  the pool stays well formed.\<close>

theorem release_counts_down:
  assumes "wf_pool p" "release d ctxErr lease fb p w = (r, q, w')" "k \<in> fst ` set (states q)"
  shows "inflight_of q k =
    (if k = ID (lease_Account lease) \<and> 0 < inflight_of p k then inflight_of p k - 1 else inflight_of p k)
    \<and> wf_pool q"
  using release_counts [OF assms(2,3)] wf_pool_release [OF assms(2,1)] by (simp add: counted_down_def)

lemma sample_release_keeps:
  "case release sample_deps None (sample_lease ''a'') (sample_feedback 200) sample_busy sample_world0 of
     (r, q, w') \<Rightarrow> ''a'' \<in> fst ` set (states q)"
  by code_simp

theorem release_counts_down_witness:
  "\<exists>r q w'. release sample_deps None (sample_lease ''a'') (sample_feedback 200) sample_busy sample_world0 = (r, q, w')
     \<and> inflight_of q ''a'' = 0"
proof -
  obtain r q w' where r: "release sample_deps None (sample_lease ''a'') (sample_feedback 200) sample_busy sample_world0
      = (r, q, w')" by (rule prod_cases3)
  have "''a'' \<in> fst ` set (states q)" using sample_release_keeps r by simp
  moreover have "inflight_of sample_busy ''a'' = 1" by code_simp
  moreover have "ID (lease_Account (sample_lease ''a'')) = ''a''" by code_simp
  ultimately show ?thesis using release_counts_down [OF sample_busy_wf r] r by auto
qed

text \<open>Acquire and release balance. On a loaded pool, a lease that \<open>Acquire\<close> returned and that
  is released with any feedback leaves every in-flight counter of every account the pool still
  knows where it was before the acquisition.\<close>

theorem acquire_release_balance:
  assumes "wf_pool p" "loaded p" "Acquire d c1 sel p w = Some (Inr l, p1, w1)"
    and "release d c2 l fb p1 w1 = (r, q, w2)" "k \<in> fst ` set (states q)"
  shows "inflight_of q k = inflight_of p k"
  using assms(3)
proof (cases rule: Acquire_cases)
  case (loop q1 wa ua aff wb)
  have q1: "q1 = p" using loop(1) assms(2) by (simp add: ensureLoaded_def)
  have "inflight_of p1 = (inflight_of p)(lease_id l := inflight_of p (lease_id l) + 1)"
    using loop_leases [OF loop(2) [symmetric]] assms(1) q1 by simp
  moreover have "0 \<le> inflight_of p (lease_id l)"
    using assms(1) by (intro inflight_of_nonneg) (simp add: wf_pool_def)
  ultimately show ?thesis using release_counts [OF assms(4,5)] by (simp add: counted_down_def)
qed simp

text \<open>A lease is released once. After a first \<open>Lease.Release\<close>, a second call with any feedback
  changes neither the pool nor the store nor the coordinator and returns the error of the first.\<close>

theorem release_once:
  "let (r, l1, p1, w1) = Release d c1 lease fb1 p w
   in Release d c2 l1 fb2 p2 w2 = (if once_done lease then releaseErr lease else r, l1, p2, w2)"
  by (auto simp: Release_def case_prod_unfold Let_def)

lemma stale_coordination:
  "release_stale d lease now s p w = (r, q, w') \<Longrightarrow> \<exists>r0 w0. (r, w') = release_coordination d lease r0 w0"
  by (auto simp: release_stale_def Let_def case_prod_unfold prod_eq_iff)

lemma finish_coordination:
  "release_finish d c lease e p w = (r, q, w') \<Longrightarrow> \<exists>r0 w0. (r, w') = release_coordination d lease r0 w0"
  unfolding release_finish_def Let_def case_prod_unfold prod_eq_iff by auto

text \<open>A coordinated lease is always given back. Whatever the feedback and whatever failed on
  the way, the last thing \<open>release\<close> does to the outside is to return the coordinated lease, and a
  failure to do so is part of the error it returns.\<close>

theorem release_returns_coordination:
  assumes "coordinator d = Some c" "coordination lease = Some cl" "release d ctxErr lease fb p w = (r, q, w')"
  shows "\<exists>r0 w0. r = errors_join r0 (fst (ReleaseLease c cl w0)) \<and> w' = snd (ReleaseLease c cl w0)"
proof -
  have rc: "release_coordination d lease r0 w0 =
      (errors_join r0 (fst (ReleaseLease c cl w0)), snd (ReleaseLease c cl w0))" for r0 w0
    using assms(1,2) by (simp add: release_coordination_def case_prod_unfold Let_def)
  have "\<exists>r0 w0. (r, w') = release_coordination d lease r0 w0"
  proof (cases "map_of (states p) (lease_id lease)")
    case None
    with assms(3) show ?thesis by (auto simp: release_def Let_def case_prod_unfold prod_eq_iff)
  next
    case (Some s0)
    obtain now w1 where n: "now_fn d w = (now, w1)" by (rule prod.exhaust)
    show ?thesis
    proof (cases "lease_matches (account s0) (lease_Account lease)")
      case True
      then show ?thesis using release_current_path [OF n Some True assms(3)] by (auto dest!: finish_coordination)
    next
      case False
      then show ?thesis using release_stale_path [OF n Some False] assms(3) stale_coordination by metis
    qed
  qed
  then show ?thesis by (auto simp: rc)
qed

theorem release_returns_coordination_witness:
  "\<exists>r q w' r0 w0. release (sample_deps\<lparr>coordinator := Some sample_coordinator\<rparr>) None
       ((sample_lease ''a'')\<lparr>coordination := Some \<lparr>cl_AccountID = ''a'', Slot = 0, Owner = ''o''\<rparr>\<rparr>)
       (sample_feedback 429) sample_busy sample_world0 = (r, q, w')
     \<and> r = errors_join r0 (fst (ReleaseLease sample_coordinator \<lparr>cl_AccountID = ''a'', Slot = 0, Owner = ''o''\<rparr> w0))
     \<and> w' = snd (ReleaseLease sample_coordinator \<lparr>cl_AccountID = ''a'', Slot = 0, Owner = ''o''\<rparr> w0)"
proof -
  let ?cl = "\<lparr>cl_AccountID = ''a'', Slot = 0, Owner = ''o''\<rparr>"
  obtain r q w' where r: "release (sample_deps\<lparr>coordinator := Some sample_coordinator\<rparr>) None
      ((sample_lease ''a'')\<lparr>coordination := Some ?cl\<rparr>) (sample_feedback 429) sample_busy sample_world0 = (r, q, w')"
    by (rule prod_cases3)
  show ?thesis using release_returns_coordination [OF _ _ r, of sample_coordinator ?cl] r by auto
qed

lemma sample_balance:
  "case Acquire sample_deps None sample_selection sample_loaded sample_world0 of
     Some (Inr l, p1, w1) \<Rightarrow>
       (case release sample_deps None l (sample_feedback 200) p1 w1 of (r, q, w2) \<Rightarrow> ''a'' \<in> fst ` set (states q))
   | _ \<Rightarrow> False"
  by code_simp

theorem acquire_release_balance_witness:
  "\<exists>l p1 w1 r q w2. Acquire sample_deps None sample_selection sample_loaded sample_world0 = Some (Inr l, p1, w1)
     \<and> release sample_deps None l (sample_feedback 200) p1 w1 = (r, q, w2)
     \<and> inflight_of q ''a'' = inflight_of sample_loaded ''a''"
proof -
  obtain l p1 w1 where a: "Acquire sample_deps None sample_selection sample_loaded sample_world0 = Some (Inr l, p1, w1)"
    using sample_acquire by (auto split: option.splits prod.splits sum.splits)
  obtain r q w2 where r: "release sample_deps None l (sample_feedback 200) p1 w1 = (r, q, w2)" by (rule prod_cases3)
  have k: "''a'' \<in> fst ` set (states q)" using sample_balance a r by simp
  show ?thesis
    using acquire_release_balance [OF sample_loaded_wf sample_is_loaded a r k] a r by blast
qed



end
