(* ===== verification/Pool_Feedback.thy ===== *)
theory Pool_Feedback
  imports Pool_Release
begin

text \<open>
  How feedback moves an account between its states: administrative transitions win over late
  feedback, feedback of a replaced credential is ignored, success heals, failures back off, and
  through a store that keeps its contract a rate limit survives the reload.
\<close>

section \<open>Through the store\<close>

lemma publish_without_coordinator [simp]:
  "coordinator d = None \<Longrightarrow> publish_unavailable d lease u cl w = (None, w)"
  "coordinator d = None \<Longrightarrow> release_coordination d lease r w = (r, w)"
  by (simp_all add: publish_unavailable_def release_coordination_def)

lemma persist_published:
  assumes "persist_account d c acc True None p w = (None, q, w')"
  obtains w1 w2 where "UpdateAccount (dep_store d) acc w = (None, w1)" "Reload d c p w1 = (None, q, w2)"
proof -
  obtain ue w1 where u: "UpdateAccount (dep_store d) acc w = (ue, w1)" by (rule prod.exhaust)
  obtain re p2 w2 where rl: "Reload d c p w1 = (re, p2, w2)" by (rule prod_cases3)
  have "ue = None" "re = None \<and> p2 = q"
    using assms u rl
    by (auto simp: persist_account_def case_prod_unfold Let_def
        split: option.splits if_splits)
  with u rl that show ?thesis by simp
qed

context account_store
begin

text \<open>After a release that was persisted, the pool holds the account as the store has it.\<close>

lemma release_through_store:
  assumes d: "dep_store d = st" "coordinator d = None"
    and n: "now_fn d w = (now, w1)" "inv w1"
    and s: "map_of (states p) (lease_id lease) = Some s0" "ID (account s0) = lease_id lease"
      "lease_matches (account s0) (lease_Account lease)"
    and e: "e = release_current (policy p) lease fb now (decrement s0)" "eff_persist e" "eff_publish e"
    and r: "release d c lease fb p w = (None, q, w')"
  shows "map_of (states q) (lease_id lease) = Some (reloaded (account (eff_state e)) (Some (eff_state e)))"
proof -
  obtain p2 where p2: "p2 \<in> {put_state (lease_id lease) (eff_state e) p,
      lease_clear lease (put_state (lease_id lease) (eff_state e) p)}"
    and f: "release_finish d c lease e p2 w1 = (None, q, w')"
    using release_current_path [OF n(1) s(1,3) r] e(1) by auto
  from f d(2) e(2,3) have "persist_account d c (account (eff_state e)) True None p2 w1 = (None, q, w')"
    by (auto simp: release_finish_def Let_def case_prod_unfold prod_eq_iff)
  then obtain wa wb where u: "UpdateAccount (dep_store d) (account (eff_state e)) w1 = (None, wa)"
    and rl: "Reload d c p2 wa = (None, q, wb)" by (rule persist_published)
  note ok = update_ok [OF n(2) u [unfolded d(1)]]
  have k: "ID (account (eff_state e)) = lease_id lease" using e(1) s(2) by simp
  have "map_of (states p2) (lease_id lease) = Some (eff_state e)"
    using p2 s(1) by (auto simp: map_of_amodify)
  with reload_mirrors(1) [OF d(1) _ rl, of "lease_id lease"] ok k show ?thesis by simp
qed

end

lemma quota_available:
  "\<not> snd (exhaustedQuotaReset q k p now fresh) \<Longrightarrow> 0 \<le> now \<Longrightarrow>
   \<not> now < quotaUnavailableUntil q now (rate_limit_cooldown p k)"
  by (auto simp: exhaustedQuotaReset_def quotaUnavailableUntil_def Let_def split: if_splits option.splits)

section \<open>Properties\<close>


lemma sample_release_429:
  "case release sample_deps None (sample_lease ''a'') (sample_feedback 429) sample_busy sample_world0 of
     (r, q, w') \<Rightarrow> r = None"
  by code_simp

lemma sample_facts:
  "dep_store sample_deps = memory_store" "coordinator sample_deps = None"
  "now_fn sample_deps sample_world0 = (1000 * Second, sample_world0)" "wf_memory sample_world0"
  "ID (lease_Account (sample_lease ''a'')) = ''a''"
  "lease_matches (account sample_state) (lease_Account (sample_lease ''a''))"
  "Status (account sample_state) = AccountActive" "Status (lease_Account (sample_lease ''a'')) = AccountActive"
  "StatusCode (sample_feedback n) = n"
  by (simp_all add: sample_deps_def sample_world0_def wf_memory_def sample_account_def sample_lease_def
      lease_matches_def sample_state_def sample_feedback_def)


text \<open>An administrative transition wins. When the account became disabled, expired or erroneous
  after the lease was taken, no feedback (not even a success) changes its status, its cooldown, its
  health or its failure count, and its affinity is dropped.\<close>

theorem terminal_status_stays:
  assumes "isTerminalAccountStatus (Status (account s))" "Status (account s) \<noteq> Status (lease_Account lease)"
    and "e = release_current pol lease fb now s"
  shows "Status (account (eff_state e)) = Status (account s) \<and> cooldownTill (eff_state e) = cooldownTill s
    \<and> health (eff_state e) = health s \<and> failures (eff_state e) = failures s
    \<and> eff_invalidate e \<and> eff_cooldownUntil e = now + ForbiddenCooldown pol"
proof -
  have v: "verdict_of pol lease fb now s = TerminalChanged"
    using assms(1,2) by (auto simp: classify_def Let_def)
  show ?thesis unfolding assms(3) release_current_eq v by (simp add: apply_verdict_def Let_def)
qed

theorem terminal_status_stays_witness:
  "Status (account (eff_state (release_current DefaultPolicy (sample_lease ''a'') (sample_feedback 200) 5
     (sample_state\<lparr>account := (sample_account ''a'')\<lparr>Status := AccountDisabled\<rparr>\<rparr>)))) = AccountDisabled"
proof -
  have "isTerminalAccountStatus (Status (account (sample_state\<lparr>account := (sample_account ''a'')\<lparr>Status := AccountDisabled\<rparr>\<rparr>)))"
    "Status (account (sample_state\<lparr>account := (sample_account ''a'')\<lparr>Status := AccountDisabled\<rparr>\<rparr>))
       \<noteq> Status (lease_Account (sample_lease ''a''))"
    by (simp_all add: isTerminalAccountStatus_def sample_facts)
  with terminal_status_stays [OF this refl, of DefaultPolicy "sample_feedback 200" 5] show ?thesis by simp
qed

text \<open>Feedback of a replaced credential is ignored. When the account's credential changed after
  the lease was taken, a release with any feedback only ends the request: the account's state keeps
  its status, quota, health and cooldown, and the pool's other accounts are untouched.\<close>

theorem stale_credential_ignored:
  assumes "map_of (states p) (ID (lease_Account lease)) = Some s0"
    and "\<not> lease_matches (account s0) (lease_Account lease)"
    and "release d ctxErr lease fb p w = (r, q, w')"
  shows "map_of (states q) = (map_of (states p))(ID (lease_Account lease) \<mapsto>
    s0\<lparr>inflight := (if 0 < inflight s0 then inflight s0 - 1 else inflight s0)\<rparr>)"
proof -
  have "states q = states (put_state (lease_id lease) (decrement s0) p)"
    using release_other_paths(2) [OF assms(3,1,2)] by auto
  with assms(1) show ?thesis by (auto simp: map_of_amodify fun_eq_iff decrement_def)
qed

theorem stale_credential_ignored_witness:
  "\<exists>r q w'. release sample_deps None
       ((sample_lease ''a'')\<lparr>lease_Account := (sample_account ''a'')\<lparr>CredentialCipher := ''old''\<rparr>\<rparr>)
       (sample_feedback 403) sample_busy sample_world0 = (r, q, w')
     \<and> map_of (states q) ''a'' = Some (sample_state\<lparr>inflight := 0\<rparr>)"
proof -
  let ?l = "(sample_lease ''a'')\<lparr>lease_Account := (sample_account ''a'')\<lparr>CredentialCipher := ''old''\<rparr>\<rparr>"
  obtain r q w' where r: "release sample_deps None ?l (sample_feedback 403) sample_busy sample_world0 = (r, q, w')"
    by (rule prod_cases3)
  have i: "ID (lease_Account ?l) = ''a''" by (simp add: sample_account_def)
  have m: "\<not> lease_matches (account sample_state) (lease_Account ?l)"
    by (simp add: lease_matches_def sample_state_def sample_account_def)
  have "map_of (states sample_busy) (ID (lease_Account ?l)) = Some sample_state"
    unfolding i by (rule sample_state_busy)
  moreover have "ID (sample_account ''a'') = ''a''" by (simp add: sample_account_def)
  ultimately show ?thesis using stale_credential_ignored [OF _ m r] r by (simp add: sample_state_def)
qed

text \<open>Health stays in range. From a health between 0.05 and 1 and a non-negative failure count,
  every feedback leads to such a state again, and the account that will be persisted carries the
  same numbers.\<close>

theorem feedback_health_bounds:
  assumes "health_ok s"
  shows "health_ok (eff_state (release_current pol lease fb now s))
    \<and> HealthScore (account (eff_state (release_current pol lease fb now s)))
      = health (eff_state (release_current pol lease fb now s))
    \<and> FailureCount (account (eff_state (release_current pol lease fb now s)))
      = failures (eff_state (release_current pol lease fb now s))"
proof -
  have "health_ok (observed fb now s)" using assms by (simp add: health_ok_def)
  then have "health_ok (eff_state (applied pol lease fb now s))" by (rule apply_verdict_health)
  then show ?thesis by (simp add: release_current_eq health_ok_def) (simp add: mirror_health_def)
qed

theorem feedback_health_bounds_witness:
  "health_ok (eff_state (release_current DefaultPolicy (sample_lease ''a'') (sample_feedback 500) 5 sample_state))"
proof -
  have "health_ok sample_state" by (simp add: health_ok_def sample_state_def)
  from feedback_health_bounds [OF this] show ?thesis by blast
qed

text \<open>An exhausted quota parks the account. A fresh quota with nothing left, on a response that is
  neither a rate limit nor a credential failure, puts the account into cooldown until after now, at
  least as long as before, so that no model can use it until then, even when the request itself
  succeeded.\<close>

theorem exhausted_quota_parks:
  assumes "fb_Quota fb = Some quota" "quotaExhausted quota"
    and "StatusCode fb \<noteq> 429" "\<not> isPermanentCredentialFailure (StatusCode fb)"
    and "\<not> (Status (account s) \<noteq> Status (lease_Account lease) \<and> isTerminalAccountStatus (Status (account s)))"
    and "e = release_current pol lease fb now s"
  shows "now < cooldownTill (eff_state e) \<and> cooldownTill s \<le> cooldownTill (eff_state e)
    \<and> (\<forall>t. ResetAt quota = Some t \<and> now < t \<longrightarrow> t \<le> cooldownTill (eff_state e))
    \<and> blocked_until pol (eff_state e) (cooldownTill (eff_state e))
    \<and> Status (account (eff_state e)) = AccountCooldown \<and> Quota (account (eff_state e)) = quota \<and> eff_persist e"
proof -
  have q: "Quota (account (observed fb now s)) = quota" using assms(1) by (simp add: observed_def)
  obtain t where t: "reset_of pol fb now s = (t, True)"
    using exhaustedQuotaReset_fresh [OF assms(2), of "Kind (account s)" pol now] assms(1) q
    by (metis option.simps(3) prod.collapse)
  then have "now < t" using q exhaustedQuotaReset_after by blast
  moreover have "t' \<le> t" if "ResetAt quota = Some t'" "now < t'" for t'
    using t that assms(1,2) q
    by (auto simp: exhaustedQuotaReset_def quotaUnavailableUntil_def Let_def split: if_splits)
  moreover have v: "verdict_of pol lease fb now s = QuotaSpent"
    using assms t by (auto simp: classify_def Let_def)
  ultimately show ?thesis
    using q unfolding assms(6) release_current_eq v t
    by (auto simp: apply_verdict_def Let_def intro!: blocked_by_cooldown)
qed

theorem exhausted_quota_parks_witness:
  "Status (account (eff_state (release_current DefaultPolicy (sample_lease ''a'')
     ((sample_feedback 200)\<lparr>fb_Quota := Some (zero_quota\<lparr>RequestsLimit := 10\<rparr>)\<rparr>) 5 sample_state))) = AccountCooldown"
proof -
  let ?q = "zero_quota\<lparr>RequestsLimit := 10\<rparr>" and ?fb = "(sample_feedback 200)\<lparr>fb_Quota := Some (zero_quota\<lparr>RequestsLimit := 10\<rparr>)\<rparr>"
  have h: "fb_Quota ?fb = Some ?q" "quotaExhausted ?q" "StatusCode ?fb \<noteq> 429"
    "\<not> isPermanentCredentialFailure (StatusCode ?fb)"
    "\<not> (Status (account sample_state) \<noteq> Status (lease_Account (sample_lease ''a''))
        \<and> isTerminalAccountStatus (Status (account sample_state)))"
    by (simp_all add: sample_facts quotaExhausted_def zero_quota_def isPermanentCredentialFailure_def sample_feedback_def)
  from exhausted_quota_parks [OF h refl, of 5 DefaultPolicy] show ?thesis by blast
qed

text \<open>Success heals. A successful response for an account that is not terminal, not in a cooldown
  set by another request and whose quota is not exhausted makes it active with no failures and no
  cooldown; every model of its kind without further restrictions can use it again at once.\<close>

theorem success_heals:
  assumes "200 \<le> StatusCode fb" "StatusCode fb < 400" "fb_Err fb = None"
    and "\<not> isTerminalAccountStatus (Status (account s))"
    and "\<not> (now < cooldownTill s \<and> Status (account s) = AccountCooldown)"
    and "\<not> snd (reset_of pol fb now s)" "0 \<le> now"
    and "e = release_current pol lease fb now s"
  shows "Status (account (eff_state e)) = AccountActive \<and> failures (eff_state e) = 0
    \<and> cooldownTill (eff_state e) = 0 \<and> CooldownUntil (account (eff_state e)) = None
    \<and> health (eff_state e) = min 1 (health s + 3/25) \<and> eff_cooldownUntil e = 0
    \<and> (\<forall>m. Kind (account s) \<in> set (CredentialKinds m) \<and> Models (account s) = [] \<and> MinimumTier m = []
         \<longrightarrow> fst (durablyEligibleLocked pol (eff_state e) m now))"
proof -
  have v: "verdict_of pol lease fb now s = Success"
    using assms(1-6) by (auto simp: classify_def Let_def isPermanentCredentialFailure_def)
  have "\<not> now < quotaUnavailableUntil (Quota (account (observed fb now s))) now (rate_limit_cooldown pol (Kind (account s)))"
    using assms(6,7) by (rule quota_available)
  moreover have "Models (account (observed fb now s)) = Models (account s)"
    by (simp add: observed_def split: option.split)
  ultimately show ?thesis unfolding assms(8) release_current_eq v
    using assms(7) by (simp add: apply_verdict_def Let_def durable_iff thaw_def)
      (simp add: mirror_health_def)
qed

theorem success_heals_witness:
  "Status (account (eff_state (release_current DefaultPolicy (sample_lease ''a'') (sample_feedback 200) 5 sample_state)))
     = AccountActive"
proof -
  have h: "200 \<le> StatusCode (sample_feedback 200)" "StatusCode (sample_feedback 200) < 400"
    "fb_Err (sample_feedback 200) = None" "\<not> isTerminalAccountStatus (Status (account sample_state))"
    "\<not> (5 < cooldownTill sample_state \<and> Status (account sample_state) = AccountCooldown)"
    "\<not> snd (reset_of DefaultPolicy (sample_feedback 200) 5 sample_state)"
    by code_simp+
  have "(0::time) \<le> 5" by simp
  from success_heals [OF h this refl, of "sample_lease ''a''"] show ?thesis by blast
qed

text \<open>A late success cannot lift a cooldown. While another request's cooldown is running, a
  successful response keeps status and cooldown (its quota may even extend them), and the coordinator is
  told the running deadline again.\<close>

theorem late_success_keeps_cooldown:
  assumes "200 \<le> StatusCode fb" "StatusCode fb < 400"
    and "Status (account s) = AccountCooldown" "now < cooldownTill s"
    and "e = release_current pol lease fb now s" "fb_Err fb = None"
  shows "cooldownTill s \<le> cooldownTill (eff_state e) \<and> Status (account (eff_state e)) = AccountCooldown
    \<and> eff_cooldownUntil e = cooldownTill (eff_state e) \<and> blocked_until pol (eff_state e) (cooldownTill s)"
proof -
  have v: "verdict_of pol lease fb now s \<in> {QuotaSpent, LateSuccess}"
    using assms by (auto simp: classify_def Let_def isPermanentCredentialFailure_def isTerminalAccountStatus_def)
  then show ?thesis
  proof (cases "verdict_of pol lease fb now s = LateSuccess")
    case True
    show ?thesis unfolding assms(5) release_current_eq True
      using assms(3) by (auto simp: apply_verdict_def Let_def intro!: blocked_by_cooldown)
  next
    case False
    with v have q: "verdict_of pol lease fb now s = QuotaSpent" by simp
    show ?thesis unfolding assms(5) release_current_eq q
      by (auto simp: apply_verdict_def Let_def intro!: blocked_by_cooldown)
  qed
qed

theorem late_success_keeps_cooldown_witness:
  "blocked_until DefaultPolicy (eff_state (release_current DefaultPolicy (sample_lease ''a'') (sample_feedback 200) 5
     (sample_state\<lparr>account := (sample_account ''a'')\<lparr>Status := AccountCooldown\<rparr>, cooldownTill := 9\<rparr>))) 9"
proof -
  let ?s = "sample_state\<lparr>account := (sample_account ''a'')\<lparr>Status := AccountCooldown\<rparr>, cooldownTill := 9\<rparr>"
  have h: "200 \<le> StatusCode (sample_feedback 200)" "StatusCode (sample_feedback 200) < 400"
    "Status (account ?s) = AccountCooldown" "5 < cooldownTill ?s" "fb_Err (sample_feedback 200) = None"
    by (simp_all add: sample_feedback_def)
  from late_success_keeps_cooldown [OF h(1-4) refl h(5), of DefaultPolicy "sample_lease ''a''"] show ?thesis by simp
qed

text \<open>Transient failures back off exponentially and boundedly. A transport error or a 5xx response
  on an account with \<open>n\<close> consecutive failures blocks it for exactly the smaller of the maximal delay
  and the base delay times \<open>2 ^ n\<close>, and counts one more failure; no 64-bit wrap-around occurs for
  any number of failures.\<close>

theorem transient_failure_backs_off:
  assumes "fb_Err fb \<noteq> None \<or> 500 \<le> StatusCode fb"
    and "StatusCode fb \<noteq> 429" "StatusCode fb \<noteq> 499" "\<not> isPermanentCredentialFailure (StatusCode fb)"
    and "\<not> (Status (account s) \<noteq> Status (lease_Account lease) \<and> isTerminalAccountStatus (Status (account s)))"
    and "\<not> snd (reset_of pol fb now s)"
    and "0 < TransientBaseDelay pol" "TransientBaseDelay pol \<le> TransientMaxDelay pol" "TransientMaxDelay pol < 2 ^ 62"
    and "failures s = int n" "e = release_current pol lease fb now s"
  shows "cooldownTill (eff_state e) = now + min (TransientMaxDelay pol) (TransientBaseDelay pol * 2 ^ n)
    \<and> failures (eff_state e) = int n + 1 \<and> Status (account (eff_state e)) = AccountCooldown
    \<and> blocked_until pol (eff_state e) (cooldownTill (eff_state e)) \<and> eff_persist e"
proof -
  have v: "verdict_of pol lease fb now s = TransientFailure"
    using assms(1-6) by (auto simp: classify_def Let_def)
  have "transientBackoff pol (int n + 1) = min (TransientMaxDelay pol) (TransientBaseDelay pol * 2 ^ n)"
    using backoff_loop_eq [OF assms(7-9), of n] by (simp add: transientBackoff_def)
  then show ?thesis unfolding assms(11) release_current_eq v
    using assms(10) by (auto simp: apply_verdict_def Let_def intro!: blocked_by_cooldown)
qed

theorem transient_failure_backs_off_witness:
  "cooldownTill (eff_state (release_current DefaultPolicy (sample_lease ''a'') (sample_feedback 503) 5
     (sample_state\<lparr>failures := 3\<rparr>))) = 5 + 40 * Second"
proof -
  have h: "fb_Err (sample_feedback 503) \<noteq> None \<or> 500 \<le> StatusCode (sample_feedback 503)"
    "StatusCode (sample_feedback 503) \<noteq> 429" "StatusCode (sample_feedback 503) \<noteq> 499"
    "\<not> isPermanentCredentialFailure (StatusCode (sample_feedback 503))"
    "\<not> (Status (account (sample_state\<lparr>failures := 3\<rparr>)) \<noteq> Status (lease_Account (sample_lease ''a''))
        \<and> isTerminalAccountStatus (Status (account (sample_state\<lparr>failures := 3\<rparr>))))"
    "\<not> snd (reset_of DefaultPolicy (sample_feedback 503) 5 (sample_state\<lparr>failures := 3\<rparr>))"
    "0 < TransientBaseDelay DefaultPolicy" "TransientBaseDelay DefaultPolicy \<le> TransientMaxDelay DefaultPolicy"
    "TransientMaxDelay DefaultPolicy < 2 ^ 62"
    by code_simp+
  have "failures (sample_state\<lparr>failures := 3\<rparr>) = int 3" by simp
  from transient_failure_backs_off [OF h this refl] show ?thesis
    by (simp add: DefaultPolicy_def)
qed

text \<open>The cooldown of a permanent credential failure. A 401, 403 or 423 for the current credential
  disables the account: no model can use it, at any later time, until its status is changed from
  outside, and the coordinator blocks it for the configured time.\<close>

theorem permanent_failure_disables:
  assumes "isPermanentCredentialFailure (StatusCode fb)"
    and "\<not> (Status (account s) \<noteq> Status (lease_Account lease) \<and> isTerminalAccountStatus (Status (account s)))"
    and "e = release_current pol lease fb now s"
  shows "Status (account (eff_state e)) = AccountDisabled
    \<and> (\<forall>m t. \<not> fst (durablyEligibleLocked pol (eff_state e) m t))
    \<and> eff_cooldownUntil e = now + ForbiddenCooldown pol \<and> eff_persist e \<and> eff_publish e \<and> eff_invalidate e"
proof -
  have v: "verdict_of pol lease fb now s = PermanentFailure"
    using assms(1,2) by (auto simp: classify_def Let_def isPermanentCredentialFailure_def)
  show ?thesis unfolding assms(3) release_current_eq v
    by (simp add: apply_verdict_def Let_def durable_iff thaw_def)
qed

theorem permanent_failure_disables_witness:
  "\<not> fst (durablyEligibleLocked DefaultPolicy (eff_state (release_current DefaultPolicy (sample_lease ''a'')
      (sample_feedback 403) 5 sample_state)) sample_model 1000000)"
proof -
  have "isPermanentCredentialFailure (StatusCode (sample_feedback 403))"
    "\<not> (Status (account sample_state) \<noteq> Status (lease_Account (sample_lease ''a''))
        \<and> isTerminalAccountStatus (Status (account sample_state)))"
    by (simp_all add: sample_facts isPermanentCredentialFailure_def)
  from permanent_failure_disables [OF this refl, of DefaultPolicy 5] show ?thesis by blast
qed

end
