(* ===== verification/Pool_Steps.thy ===== *)
theory Pool_Steps
  imports Pool_Release
begin

text \<open>
  Concurrent use of one pool. Goroutines interleave at the granularity of the pool's mutex: each
  step below is one critical section of \<open>internal/accounts/pool.go\<close> and \<open>probe.go\<close>. Beside the
  pool the state carries two ghost components: how many requests hold a reservation on an account
  ID, and the IDs that were evicted (by \<open>RemoveAccounts\<close> or by a reload) while requests held a
  reservation on them.
\<close>

section \<open>The step relation\<close>

record sys =
  sys_pool :: Pool
  outstanding :: "string \<Rightarrow> nat"
  evicted :: "string set"

abbreviation keys_of :: "Pool \<Rightarrow> string set" where
  "keys_of p \<equiv> fst ` set (states p)"

text \<open>The IDs that lose their entry while requests are outstanding.\<close>

definition lost :: "Pool \<Rightarrow> Pool \<Rightarrow> (string \<Rightarrow> nat) \<Rightarrow> string set" where
  "lost p q out = {k. k \<in> keys_of p \<and> k \<notin> keys_of q \<and> 0 < out k}"

text \<open>The critical section of \<open>release\<close>: the counter, the switch, and the affinity.\<close>

definition release_section :: "Lease \<Rightarrow> Feedback \<Rightarrow> time \<Rightarrow> Pool \<Rightarrow> Pool" where
  "release_section lease fb now p =
     (let aid = ID (lease_Account lease);
          clear = (\<lambda>p. clearLocalAffinityLocked p (affinityModel lease) (lease_affinityKey lease) aid)
      in case map_of (states p) aid of
           None \<Rightarrow> clear p
         | Some s0 \<Rightarrow>
             (let s = decrement s0
              in if \<not> lease_matches (account s) (lease_Account lease)
                 then (let acc = account s;
                           quotaUntil = quotaUnavailableUntil (Quota acc) now (rate_limit_cooldown (policy p) (Kind acc));
                           q = put_state aid s p
                       in if Status acc \<noteq> AccountActive \<or> now < cooldownTill s \<or> now < quotaUntil then clear q else q)
                 else (let e = release_current (policy p) lease fb now s;
                           q = put_state aid (eff_state e) p
                       in if eff_invalidate e then clear q else q)))"

inductive pool_step :: "sys \<Rightarrow> sys \<Rightarrow> bool" where
  prepare: "pool_step x (x\<lparr>sys_pool := acquire_prepare (d :: unit Deps) sel ua co now (sys_pool x)\<rparr>)"
| affinity: "acquire_affinity sel ua cap now (sys_pool x) = (pa, pc, sa, q) \<Longrightarrow>
    pool_step x (x\<lparr>sys_pool := q\<rparr>)"
| no_account: "acquire_reserve sel ex now (sys_pool x) = (None, q) \<Longrightarrow> pool_step x (x\<lparr>sys_pool := q\<rparr>)"
| reserve: "acquire_reserve sel ex now (sys_pool x) = (Some acc, q) \<Longrightarrow>
    pool_step x (x\<lparr>sys_pool := q, outstanding := (outstanding x)(ID acc := outstanding x (ID acc) + 1)\<rparr>)"
| probe: "probe_reserve aid now (sys_pool x) = (Inr acc, q) \<Longrightarrow>
    pool_step x (x\<lparr>sys_pool := q, outstanding := (outstanding x)(aid := outstanding x aid + 1)\<rparr>)"
| rollback: "outstanding x aid = Suc n \<Longrightarrow>
    pool_step x (x\<lparr>sys_pool := rollbackReservation (sys_pool x) aid until, outstanding := (outstanding x)(aid := n)\<rparr>)"
| record_affinity: "pool_step x (x\<lparr>sys_pool := recordAffinity (sys_pool x) m k aid now\<rparr>)"
| clear_affinity: "pool_step x (x\<lparr>sys_pool := clearLocalAffinityLocked (sys_pool x) m k aid\<rparr>)"
| release: "outstanding x (ID (lease_Account lease)) = Suc n \<Longrightarrow>
    pool_step x (x\<lparr>sys_pool := release_section lease fb now (sys_pool x),
                   outstanding := (outstanding x)(ID (lease_Account lease) := n)\<rparr>)"
| reload: "q = reload_apply items (sys_pool x) \<Longrightarrow>
    pool_step x (x\<lparr>sys_pool := q, evicted := evicted x \<union> lost (sys_pool x) q (outstanding x)\<rparr>)"
| remove: "q = RemoveAccounts ids (sys_pool x) \<Longrightarrow>
    pool_step x (x\<lparr>sys_pool := q, evicted := evicted x \<union> lost (sys_pool x) q (outstanding x)\<rparr>)"
| set_strategy: "SetStrategy (sys_pool x) strategy = (e, q) \<Longrightarrow> pool_step x (x\<lparr>sys_pool := q\<rparr>)"

definition initial :: "Policy \<Rightarrow> sys" where
  "initial pol = \<lparr>sys_pool = \<lparr>policy = normalize_policy pol, loaded = False, states = [], affinities = [],
                              roundRobin = (\<lambda>_. 0)\<rparr>, outstanding = (\<lambda>_. 0), evicted = {}\<rparr>"

definition reachable :: "Policy \<Rightarrow> sys \<Rightarrow> bool" where
  "reachable pol x \<longleftrightarrow> pool_step\<^sup>*\<^sup>* (initial pol) x"

text \<open>
  The invariant: the pool is well formed, a counter never exceeds the number of requests that hold
  a reservation, and for an ID that was never evicted under a running request both agree.
\<close>

definition pool_inv :: "sys \<Rightarrow> bool" where
  "pool_inv x \<longleftrightarrow> wf_pool (sys_pool x)
     \<and> (\<forall>k. inflight_of (sys_pool x) k \<le> int (outstanding x k))
     \<and> (\<forall>k. k \<notin> evicted x \<longrightarrow> inflight_of (sys_pool x) k = int (outstanding x k))"

section \<open>The steps keep the invariant\<close>

lemma inflight_of_prepare [simp]: "inflight_of (acquire_prepare d sel ua co now p) = inflight_of p"
  by (simp add: inflight_of_def fun_eq_iff)

lemma inv_count_up:
  assumes "pool_inv x" "inflight_of q = (inflight_of (sys_pool x))(k := inflight_of (sys_pool x) k + 1)" "wf_pool q"
  shows "pool_inv (x\<lparr>sys_pool := q, outstanding := (outstanding x)(k := outstanding x k + 1)\<rparr>)"
  using assms by (auto simp: pool_inv_def)

lemma inv_count_down:
  assumes "pool_inv x" "outstanding x k = Suc n" "inflight_of q = counted_down (sys_pool x) k" "wf_pool q"
  shows "pool_inv (x\<lparr>sys_pool := q, outstanding := (outstanding x)(k := n)\<rparr>)"
  using assms by (auto simp: pool_inv_def counted_down_def dest!: spec [of _ k])

lemma inv_drop:
  assumes "pool_inv x" "wf_pool q"
    and kept: "\<And>k. k \<in> keys_of q \<Longrightarrow> inflight_of q k = inflight_of (sys_pool x) k"
  shows "pool_inv (x\<lparr>sys_pool := q, evicted := evicted x \<union> lost (sys_pool x) q (outstanding x)\<rparr>)"
proof -
  have gone: "inflight_of q k = 0" if "k \<notin> keys_of q" for k
    using that by (auto simp: inflight_of_def split: option.splits dest: map_of_SomeD intro: rev_image_eqI)
  have absent: "inflight_of (sys_pool x) k = 0" if "k \<notin> keys_of (sys_pool x)" for k
    using that by (auto simp: inflight_of_def split: option.splits dest: map_of_SomeD intro: rev_image_eqI)
  have le: "inflight_of q k \<le> int (outstanding x k)" for k
    using assms(1) kept [of k] gone [of k] by (cases "k \<in> keys_of q") (auto simp: pool_inv_def)
  have eq: "inflight_of q k = int (outstanding x k)" if "k \<notin> evicted x" "k \<notin> lost (sys_pool x) q (outstanding x)" for k
    using assms(1) kept [of k] gone [of k] absent [of k] that
    by (cases "k \<in> keys_of q") (auto simp: pool_inv_def lost_def)
  show ?thesis using assms(2) le eq by (auto simp: pool_inv_def)
qed

lemma inflight_of_remove:
  "k \<in> keys_of (RemoveAccounts ids p) \<Longrightarrow> inflight_of (RemoveAccounts ids p) k = inflight_of p k"
  by (auto simp: RemoveAccounts_def Let_def inflight_of_def map_of_filter_key split: if_splits)

lemma probe_reserve_counts:
  assumes "probe_reserve aid now p = (Inr acc, q)" "wf_pool p"
  shows "inflight_of q = (inflight_of p)(aid := inflight_of p aid + 1)" "wf_pool q"
    "inflight_of q aid \<le> concurrency_limit (policy p) acc"
proof -
  obtain s where s: "map_of (states p) aid = Some s" "inflight s < concurrency_limit (policy p) (account s)"
    and acc: "acc = (account s)\<lparr>LastUsedAt := Some now\<rparr>"
    and q: "q = p\<lparr>states := amodify aid (\<lambda>s. s\<lparr>inflight := inflight s + 1, account := acc\<rparr>) (states p)\<rparr>"
    using assms(1) by (auto simp: probe_reserve_def Let_def split: option.splits if_splits)
  have i: "inflight_of p aid = inflight s" using s(1) by (simp add: inflight_of_def)
  show c: "inflight_of q = (inflight_of p)(aid := inflight_of p aid + 1)"
    using inflight_of_amodify [of q aid _ p s] q s(1) i by simp
  show "inflight_of q aid \<le> concurrency_limit (policy p) acc"
    unfolding c using s(2) i acc by (auto simp: concurrency_limit_def)
  have "ID acc = aid" using assms(2) s(1) acc by (auto simp: wf_pool_def dest: wf_states_lookup)
  then show "wf_pool q" unfolding q using assms(2) by (intro wf_pool_amodify) auto
qed

lemma rollback_counts: "inflight_of (rollbackReservation p aid t) = counted_down p aid"
proof (cases "map_of (states p) aid")
  case None
  then have "inflight_of p aid = 0" by (simp add: inflight_of_def)
  moreover have "inflight_of (rollbackReservation p aid t) = inflight_of p"
    using None by (auto simp: inflight_of_def rollbackReservation_def map_of_amodify fun_eq_iff)
  ultimately show ?thesis by (auto simp: counted_down_def fun_eq_iff)
next
  case (Some s)
  have "inflight_of (rollbackReservation p aid t) =
      (inflight_of p)(aid := (if 0 < inflight s then inflight s - 1 else inflight s))"
    by (subst inflight_of_amodify [OF _ Some]) (auto simp: rollbackReservation_def)
  moreover have "inflight_of p aid = inflight s" using Some by (simp add: inflight_of_def)
  ultimately show ?thesis by (auto simp: counted_down_def fun_eq_iff)
qed

lemma release_section_counts:
  assumes "wf_pool p"
  shows "inflight_of (release_section lease fb now p) = counted_down p (lease_id lease)
    \<and> wf_pool (release_section lease fb now p)"
proof (cases "map_of (states p) (lease_id lease)")
  case None
  then have "inflight_of p (lease_id lease) = 0" by (simp add: inflight_of_def)
  with None assms show ?thesis by (auto simp: release_section_def Let_def counted_down_def fun_eq_iff)
next
  case (Some s0)
  have s0: "ID (account s0) = lease_id lease" "0 \<le> inflight s0"
    using assms Some by (auto simp: wf_pool_def dest: wf_states_lookup)
  have "\<exists>s. inflight s = inflight (decrement s0) \<and> ID (account s) = lease_id lease
      \<and> release_section lease fb now p \<in> {put_state (lease_id lease) s p, lease_clear lease (put_state (lease_id lease) s p)}"
  proof (cases "lease_matches (account s0) (lease_Account lease)")
    case True
    let ?s = "eff_state (release_current (policy p) lease fb now (decrement s0))"
    have "inflight ?s = inflight (decrement s0) \<and> ID (account ?s) = lease_id lease" by (simp add: s0)
    with Some True show ?thesis by (intro exI [of _ ?s]) (simp add: release_section_def Let_def)
  next
    case False
    with Some s0 show ?thesis by (intro exI [of _ "decrement s0"]) (simp add: release_section_def Let_def)
  qed
  then obtain s where s: "inflight s = inflight (decrement s0)" "ID (account s) = lease_id lease"
    "release_section lease fb now p \<in> {put_state (lease_id lease) s p, lease_clear lease (put_state (lease_id lease) s p)}"
    by blast
  have "wf_pool (put_state (lease_id lease) s p)"
    using assms Some s(2) by (rule wf_pool_put) (simp add: s0 s(1))
  with s(3) counted_down_amodify [OF Some s(1)] show ?thesis by auto
qed

lemma inv_step:
  assumes "pool_step x y" "pool_inv x"
  shows "pool_inv y"
  using assms
proof cases
  case (prepare d sel ua co now)
  with assms(2) show ?thesis by (auto simp: pool_inv_def)
next
  case (affinity sel ua cap now pa pc sa q)
  with assms(2) affinity_same_counts [OF affinity(2)] show ?thesis
    by (auto simp: pool_inv_def same_counts_def)
next
  case (no_account sel ex now q)
  with assms(2) reserve_None(1,2) [OF no_account(2)] show ?thesis
    by (auto simp: pool_inv_def same_counts_def)
next
  case (reserve sel ex now acc q)
  with assms(2) reserve_Some(1,4) [OF reserve(2)] show ?thesis
    unfolding reserve(1) by (intro inv_count_up) (auto simp: pool_inv_def)
next
  case (probe aid now acc q)
  with assms(2) probe_reserve_counts(1,2) [OF probe(2)] show ?thesis
    unfolding probe(1) by (intro inv_count_up) (auto simp: pool_inv_def)
next
  case (rollback aid n until)
  then show ?thesis
    using assms(2) rollback_counts unfolding rollback(1) by (intro inv_count_down) (auto simp: pool_inv_def)
next
  case (record_affinity m k aid now)
  with assms(2) show ?thesis by (auto simp: pool_inv_def inflight_of_def)
next
  case (clear_affinity m k aid)
  with assms(2) show ?thesis by (auto simp: pool_inv_def inflight_of_def)
next
  case (release lease n fb now)
  then show ?thesis
    using assms(2) release_section_counts unfolding release(1) by (intro inv_count_down) (auto simp: pool_inv_def)
next
  case (reload q items)
  then show ?thesis
    using assms(2) inflight_of_reload wf_pool_reload unfolding reload(1) by (intro inv_drop) (auto simp: pool_inv_def)
next
  case (remove q ids)
  then show ?thesis
    using assms(2) inflight_of_remove wf_pool_remove unfolding remove(1) by (intro inv_drop) (auto simp: pool_inv_def)
next
  case (set_strategy strategy e q)
  have "same_counts (sys_pool x) q \<or> (policy q = (policy (sys_pool x))\<lparr>policy_Strategy := policy_Strategy (policy q)\<rparr>
      \<and> states q = states (sys_pool x) \<and> affinities q = [])"
    using set_strategy(2) by (auto simp: SetStrategy_def split: sum.splits if_splits)
  with set_strategy assms(2) show ?thesis
    by (auto simp: SetStrategy_def pool_inv_def wf_pool_def policy_ok_def inflight_of_def split: sum.splits if_splits)
qed

lemma inv_initial: "pool_inv (initial pol)"
  using policy_ok_normalize [of pol]
  by (simp add: pool_inv_def initial_def wf_pool_def wf_states_def inflight_of_def)

lemma inv_reachable: "reachable pol x \<Longrightarrow> pool_inv x"
  unfolding reachable_def by (induction rule: rtranclp_induct) (auto intro: inv_initial inv_step)

section \<open>Properties\<close>

text \<open>C2: concurrent requests are counted right. In every state that any interleaving of the pool's
  critical sections can reach from a new pool, the pool is well formed, no counter is negative or
  larger than the number of requests that hold a reservation, and for every account that was
  never evicted under a running request the counter equals that number.\<close>

theorem concurrent_counts:
  assumes "reachable pol x"
  shows "wf_pool (sys_pool x)
    \<and> (\<forall>k. 0 \<le> inflight_of (sys_pool x) k \<and> inflight_of (sys_pool x) k \<le> int (outstanding x k))
    \<and> (\<forall>k. k \<notin> evicted x \<longrightarrow> inflight_of (sys_pool x) k = int (outstanding x k))"
  using inv_reachable [OF assms] inflight_of_nonneg [of "sys_pool x"] by (auto simp: pool_inv_def wf_pool_def)

text \<open>A run that loads two accounts and reserves one of them.\<close>

lemma sample_run:
  "\<exists>x. reachable DefaultPolicy x \<and> outstanding x ''a'' = 1 \<and> evicted x = {}"
proof -
  let ?x0 = "initial DefaultPolicy"
  let ?p1 = "reload_apply [sample_account ''a'', sample_account ''b''] (sys_pool ?x0)"
  let ?x1 = "?x0\<lparr>sys_pool := ?p1, evicted := evicted ?x0 \<union> lost (sys_pool ?x0) ?p1 (outstanding ?x0)\<rparr>"
  have s1: "pool_step ?x0 ?x1" by (rule pool_step.reload) simp
  have "map_option ID (fst (acquire_reserve sample_selection [] 5 ?p1)) = Some ''a''" by code_simp
  then obtain acc q where r: "acquire_reserve sample_selection [] 5 (sys_pool ?x1) = (Some acc, q)" "ID acc = ''a''"
    by (cases "acquire_reserve sample_selection [] 5 ?p1") auto
  from pool_step.reserve [OF r(1)] s1 have
    "pool_step\<^sup>*\<^sup>* ?x0 (?x1\<lparr>sys_pool := q, outstanding := (outstanding ?x1)(ID acc := outstanding ?x1 (ID acc) + 1)\<rparr>)"
    by (meson rtranclp.rtrancl_into_rtrancl rtranclp.rtrancl_refl)
  then show ?thesis
    by (intro exI [of _ "?x1\<lparr>sys_pool := q, outstanding := (outstanding ?x1)(ID acc := outstanding ?x1 (ID acc) + 1)\<rparr>"])
      (simp add: reachable_def r(2) initial_def lost_def)
qed

theorem concurrent_counts_witness:
  "\<exists>x. reachable DefaultPolicy x \<and> inflight_of (sys_pool x) ''a'' = 1"
proof -
  obtain x where x: "reachable DefaultPolicy x" "outstanding x ''a'' = 1" "evicted x = {}"
    using sample_run by blast
  from concurrent_counts [OF x(1)] x show ?thesis by auto
qed

text \<open>Concurrent requests never overbook an account. Whenever a request or a probe takes a reservation in a
  reachable state, the number of requests in flight on the account after the step is at most its
  concurrency limit, whatever the other goroutines did before.\<close>

theorem reservation_within_limit:
  assumes "reachable pol x"
    and "acquire_reserve sel ex now (sys_pool x) = (Some acc, q) \<or> probe_reserve (ID acc) now (sys_pool x) = (Inr acc, q)"
  shows "inflight_of q (ID acc) \<le> concurrency_limit (policy q) acc
    \<and> (ID acc \<notin> evicted x \<longrightarrow> int (outstanding x (ID acc)) < concurrency_limit (policy q) acc)"
proof -
  have inv: "pool_inv x" using assms(1) by (rule inv_reachable)
  then have wf: "wf_pool (sys_pool x)" by (simp add: pool_inv_def)
  have "inflight_of (sys_pool x) (ID acc) < concurrency_limit (policy q) acc
      \<and> inflight_of q (ID acc) = inflight_of (sys_pool x) (ID acc) + 1"
    using assms(2)
  proof
    assume r: "acquire_reserve sel ex now (sys_pool x) = (Some acc, q)"
    note s = reserve_Some [OF r wf]
    from s(7) obtain s where "map_of (states (sys_pool x)) (ID acc) = Some s"
      "fst (eligibleLocked (policy (sys_pool x)) s (sel_Model sel) now)"
      "acc = (account (thaw s now))\<lparr>LastUsedAt := Some now\<rparr>" by blast
    then have "inflight_of (sys_pool x) (ID acc) < concurrency_limit (policy (sys_pool x)) acc"
      by (auto simp: inflight_of_def eligible_iff concurrency_limit_def)
    with s(1,2) show ?thesis by simp
  next
    assume r: "probe_reserve (ID acc) now (sys_pool x) = (Inr acc, q)"
    then have "policy q = policy (sys_pool x)"
      by (auto simp: probe_reserve_def Let_def split: option.splits if_splits)
    with probe_reserve_counts [OF r wf] show ?thesis by simp
  qed
  with inv show ?thesis by (auto simp: pool_inv_def)
qed

theorem reservation_within_limit_witness:
  "\<exists>x acc q. reachable DefaultPolicy x \<and> acquire_reserve sample_selection [] 5 (sys_pool x) = (Some acc, q)
     \<and> inflight_of q (ID acc) \<le> concurrency_limit (policy q) acc"
proof -
  let ?x0 = "initial DefaultPolicy"
  let ?p1 = "reload_apply [sample_account ''a'', sample_account ''b''] (sys_pool ?x0)"
  let ?x1 = "?x0\<lparr>sys_pool := ?p1, evicted := evicted ?x0 \<union> lost (sys_pool ?x0) ?p1 (outstanding ?x0)\<rparr>"
  have "pool_step ?x0 ?x1" by (rule pool_step.reload) simp
  then have re: "reachable DefaultPolicy ?x1" by (simp add: reachable_def)
  have "map_option ID (fst (acquire_reserve sample_selection [] 5 ?p1)) = Some ''a''" by code_simp
  then obtain acc q where r: "acquire_reserve sample_selection [] 5 (sys_pool ?x1) = (Some acc, q)"
    by (cases "acquire_reserve sample_selection [] 5 ?p1") auto
  from reservation_within_limit [OF re disjI1 [OF r]] re r show ?thesis by blast
qed

text \<open>The sequential operations are made of the concurrent steps. The pool that \<open>release\<close> leaves behind
  is the result of its critical section, followed by a reload when the change was persisted and
  published; so the steps above cover everything \<open>release\<close> does to the shared state.\<close>

theorem release_refines_steps:
  assumes "release d ctxErr lease fb p w = (r, q, w')" "now_fn d w = (now, w1)"
  shows "q = release_section lease fb now p \<or> (\<exists>items. q = reload_apply items (release_section lease fb now p))"
proof (cases "map_of (states p) (lease_id lease)")
  case None
  with release_other_paths(1) [OF assms(1)] show ?thesis by (simp add: release_section_def Let_def)
next
  case (Some s0)
  show ?thesis
  proof (cases "lease_matches (account s0) (lease_Account lease)")
    case False
    from release_stale_path [OF assms(2) Some False, of ctxErr fb] assms(1)
    have "release_stale d lease now (decrement s0) (put_state (lease_id lease) (decrement s0) p) w1 = (r, q, w')" by simp
    then have "q = release_section lease fb now p"
      using Some False by (simp add: release_stale_def release_section_def Let_def case_prod_unfold)
    then show ?thesis by simp
  next
    case True
    define e where "e = release_current (policy p) lease fb now (decrement s0)"
    have "release d ctxErr lease fb p w = release_finish d ctxErr lease e (release_section lease fb now p) w1"
      using Some True assms(2)
      by (cases "eff_invalidate (release_current (policy p) lease fb now (decrement s0))")
        (simp_all add: e_def release_section_def release_def Let_def amodify_const_twice)
    with assms(1) release_finish_pool [of d ctxErr lease e] show ?thesis by simp
  qed
qed

theorem release_refines_steps_witness:
  "\<exists>r q w'. release sample_deps None (sample_lease ''a'') (sample_feedback 429) sample_busy sample_world0 = (r, q, w')
     \<and> (q = release_section (sample_lease ''a'') (sample_feedback 429) (1000 * Second) sample_busy
        \<or> (\<exists>items. q = reload_apply items (release_section (sample_lease ''a'') (sample_feedback 429) (1000 * Second) sample_busy)))"
proof -
  obtain r q w' where r: "release sample_deps None (sample_lease ''a'') (sample_feedback 429) sample_busy sample_world0 = (r, q, w')"
    by (rule prod_cases3)
  have "now_fn sample_deps sample_world0 = (1000 * Second, sample_world0)"
    by (simp add: sample_deps_def sample_world0_def)
  from release_refines_steps [OF r this] r show ?thesis by blast
qed

end
