(* ===== verification/Upstream_Types.thy ===== *)
theory Upstream_Types
  imports Account_Policy
begin

text \<open>
  The data the gateway exchanges with the upstream client (\<open>internal/upstream/types.go\<close>), HTTP
  headers and decoded JSON.

  \<^item> An \<open>http.Header\<close> is read through \<open>Get\<close> only, which returns the empty string for a header that
    is absent: it is the function from header names to values.
  \<^item> A Go \<open>any\<close> that comes from a request body is one of the values the decoder and the multipart
    reader produce: with \<open>UseNumber\<close> a number is its text (\<open>JNumber\<close>), without it a
    \<open>float64\<close> (\<open>JFloat\<close>); a multipart form adds \<open>[]string\<close> and \<open>[]map[string]any\<close>, which
    are not \<open>[]any\<close>. A missing key of a map reads as \<open>nil\<close>.
\<close>

datatype Operation =
    OperationChat | OperationResponses | OperationMessages | OperationImage | OperationImageEdit
  | OperationVideo | OperationVideoStatus | OperationNone

datatype EventKind =
    EventTextDelta | EventReasoningDelta | EventToolCall | EventImage | EventVideo | EventUsage
  | EventDone | EventError

record Usage =
  InputTokens :: int
  OutputTokens :: int
  CachedTokens :: int

record Event =
  ev_Kind :: EventKind
  ev_Text :: string
  ev_ID :: string
  ItemID :: string
  ev_Name :: string
  Arguments :: string
  Index :: int
  ev_URL :: string
  ev_Usage :: Usage
  ev_Error :: string
  Raw :: string

type_synonym header = "string \<Rightarrow> string"

record Request =
  req_Operation :: Operation
  req_Model :: string
  req_UpstreamModel :: string
  PromptCacheKey :: string
  req_CredentialKind :: CredentialKind
  req_Credentials :: Credentials
  ProxyURL :: string
  req_Body :: string
  req_Headers :: header
  req_Stream :: bool
  VideoID :: string
  StatusURL :: string

record Response =
  resp_StatusCode :: int
  resp_Header :: header
  resp_Body :: string
  resp_Events :: "Event list option"

datatype json =
    JNull
  | JBool bool
  | JNumber string
  | JFloat rat
  | JStr string
  | JArr "json list"
  | JObj "(string \<times> json) list"
  | JStrings "string list"
  | JFiles "json list"

definition jget :: "(string \<times> json) list \<Rightarrow> string \<Rightarrow> json" where
  "jget m k = (case map_of m k of None \<Rightarrow> JNull | Some v \<Rightarrow> v)"

text \<open>The type assertion \<open>value, _ := x.(string)\<close>.\<close>

definition as_string :: "json \<Rightarrow> string" where
  "as_string v = (case v of JStr s \<Rightarrow> s | _ \<Rightarrow> '''')"

text \<open>The type assertion \<open>value, ok := x.(map[string]any)\<close>.\<close>

definition as_object :: "json \<Rightarrow> (string \<times> json) list option" where
  "as_object value = (case value of JObj m \<Rightarrow> Some m | _ \<Rightarrow> None)"

text \<open>The conversion \<open>int(value)\<close> of a float truncates towards zero.\<close>

definition truncate_rat :: "rat \<Rightarrow> int" where
  "truncate_rat r = (if 0 \<le> r then \<lfloor>r\<rfloor> else \<lceil>r\<rceil>)"

text \<open>\<open>HTTPError.Error\<close>; the status text of \<open>net/http\<close> is a parameter.\<close>

definition HTTPError_Error :: "(int \<Rightarrow> string) \<Rightarrow> int \<Rightarrow> string \<Rightarrow> string" where
  "HTTPError_Error statusText code body = (if body \<noteq> '''' then body else statusText code)"

end
