(* ===== verification/Quota_Headers.thy ===== *)
theory Quota_Headers
  imports Upstream_Types
begin

text \<open>
  Feedback from HTTP responses: \<open>internal/accounts/http_feedback.go\<close> for probes and the second
  implementation of the same parsing in \<open>internal/gateway/handler.go\<close> for requests.

  The parsers of calendar dates and of durations of Go's standard library are arguments
  (\<open>TimeParsers\<close>): nothing below depends on the formats they accept. \<open>time.Now\<close> is an
  argument as well.
\<close>

record TimeParsers =
  ParseDuration :: "string \<Rightarrow> duration option"
  ParseTime :: "string \<Rightarrow> time option"
  ParseRFC3339 :: "string \<Rightarrow> time option"

section \<open>Probes: http\_feedback.go\<close>

definition retryAfterHeader :: "TimeParsers \<Rightarrow> header \<Rightarrow> time \<Rightarrow> duration" where
  "retryAfterHeader tp h now =
     (let value = TrimSpace (h ''Retry-After'')
      in if value = '''' then 0
         else (case ParseInt value of
                 Some seconds \<Rightarrow>
                   if 0 < seconds then wrap64 (seconds * Second)
                   else (case ParseTime tp value of
                           Some deadline \<Rightarrow> if now < deadline then time_sub deadline now else 0
                         | None \<Rightarrow> 0)
               | None \<Rightarrow>
                   (case ParseTime tp value of
                      Some deadline \<Rightarrow> if now < deadline then time_sub deadline now else 0
                    | None \<Rightarrow> 0)))"

definition is_unlimited :: "string \<Rightarrow> bool" where
  "is_unlimited value \<longleftrightarrow> ToLower value \<in> {''unlimited'', ''infinite'', ''inf''}"

text \<open>
  The result is the returned bool and the two destinations; \<open>unlimited\<close> is \<^const>\<open>None\<close> for a
  \<open>nil\<close> pointer.
\<close>

fun readHTTPQuotaMetric ::
  "header \<Rightarrow> string list \<Rightarrow> int \<Rightarrow> bool option \<Rightarrow> bool \<times> int \<times> bool option" where
  "readHTTPQuotaMetric h [] dest unlimited = (False, dest, unlimited)"
| "readHTTPQuotaMetric h (name # names) dest unlimited =
     (let value = TrimSpace (h name)
      in if value = '''' then readHTTPQuotaMetric h names dest unlimited
         else if unlimited \<noteq> None \<and> is_unlimited value then (True, dest, Some True)
         else (case ParseInt value of
                 Some parsed \<Rightarrow> (True, max 0 parsed, unlimited)
               | None \<Rightarrow> (True, dest, unlimited)))"

definition parseHTTPQuotaReset :: "TimeParsers \<Rightarrow> string \<Rightarrow> time \<Rightarrow> time option" where
  "parseHTTPQuotaReset tp value now =
     (case ParseDuration tp value of
        Some d \<Rightarrow> Some (now + d)
      | None \<Rightarrow>
          (case ParseInt value of
             Some number \<Rightarrow>
               if 1000000000 < number then Some (time_unix number)
               else Some (now + wrap64 (number * Second))
           | None \<Rightarrow>
               (case ParseTime tp value of
                  Some reset \<Rightarrow> Some reset
                | None \<Rightarrow> ParseRFC3339 tp value)))"

text \<open>The loop over the reset headers: whether one was seen and the latest reset.\<close>

fun scan_resets :: "(string \<Rightarrow> time option) \<Rightarrow> header \<Rightarrow> string list \<Rightarrow> bool \<Rightarrow> time option \<Rightarrow> bool \<times> time option" where
  "scan_resets parse h [] seen result = (seen, result)"
| "scan_resets parse h (name # names) seen result =
     (let value = TrimSpace (h name)
      in if value = '''' then scan_resets parse h names seen result
         else (case parse value of
                 Some reset \<Rightarrow>
                   (if result = None \<or> the result < reset
                    then scan_resets parse h names True (Some reset)
                    else scan_resets parse h names True result)
               | None \<Rightarrow> scan_resets parse h names True result))"

definition quotaFromHTTPHeaders :: "TimeParsers \<Rightarrow> header \<Rightarrow> time \<Rightarrow> QuotaSnapshot option" where
  "quotaFromHTTPHeaders tp h observedAt =
     (let (s1, rl, ru) = readHTTPQuotaMetric h [''X-RateLimit-Limit-Requests'', ''RateLimit-Limit''] 0 (Some False);
          (s2, rr, _) = readHTTPQuotaMetric h [''X-RateLimit-Remaining-Requests'', ''RateLimit-Remaining''] 0 None;
          (s3, tl, tu) = readHTTPQuotaMetric h [''X-RateLimit-Limit-Tokens''] 0 (Some False);
          (s4, tr, _) = readHTTPQuotaMetric h [''X-RateLimit-Remaining-Tokens''] 0 None;
          (seen, reset) = scan_resets (\<lambda>v. parseHTTPQuotaReset tp v observedAt) h
            [''X-RateLimit-Reset-Requests'', ''X-RateLimit-Reset-Tokens'', ''X-RateLimit-Reset'', ''RateLimit-Reset'']
            (s4 \<or> s3 \<or> s2 \<or> s1) None
      in if \<not> seen then None
         else Some \<lparr>RequestsLimit = rl, RequestsRemaining = rr, RequestsUnlimited = (ru = Some True),
                    TokensLimit = tl, TokensRemaining = tr, TokensUnlimited = (tu = Some True),
                    ResetAt = reset, ObservedAt = observedAt\<rparr>)"

definition HTTPFeedback :: "TimeParsers \<Rightarrow> time \<Rightarrow> int \<Rightarrow> header \<Rightarrow> error option \<Rightarrow> time \<Rightarrow> Feedback" where
  "HTTPFeedback tp wallclock statusCode h err observedAt0 =
     (let observedAt = (if observedAt0 = 0 then wallclock else observedAt0)
      in \<lparr>StatusCode = statusCode, RetryAfter = retryAfterHeader tp h observedAt,
          fb_Quota = quotaFromHTTPHeaders tp h observedAt, fb_Err = err\<rparr>)"

section \<open>Requests: handler.go\<close>

definition retryAfter :: "TimeParsers \<Rightarrow> header \<Rightarrow> time \<Rightarrow> duration" where
  "retryAfter tp h wallclock =
     (let value = TrimSpace (h ''Retry-After'')
      in if value = '''' then 0
         else (case ParseDuration tp (value @ ''s'') of
                 Some d \<Rightarrow> d
               | None \<Rightarrow> (case ParseTime tp value of
                           Some deadline \<Rightarrow> time_sub deadline wallclock
                         | None \<Rightarrow> 0)))"

fun readQuotaMetric ::
  "header \<Rightarrow> string list \<Rightarrow> int \<Rightarrow> bool option \<Rightarrow> bool \<times> int \<times> bool option" where
  "readQuotaMetric h [] dest unlimited = (False, dest, unlimited)"
| "readQuotaMetric h (name # names) dest unlimited =
     (let value = TrimSpace (h name)
      in if value = '''' then readQuotaMetric h names dest unlimited
         else if unlimited \<noteq> None \<and> is_unlimited value then (True, dest, Some True)
         else (case ParseInt value of
                 Some parsed \<Rightarrow> (True, max 0 parsed, unlimited)
               | None \<Rightarrow> (True, dest, unlimited)))"

definition parseQuotaReset :: "TimeParsers \<Rightarrow> string \<Rightarrow> time \<Rightarrow> time option" where
  "parseQuotaReset tp value now =
     (case ParseDuration tp value of
        Some d \<Rightarrow> Some (now + d)
      | None \<Rightarrow>
          (case ParseInt value of
             Some number \<Rightarrow>
               if 1000000000 < number then Some (time_unix number)
               else Some (now + wrap64 (number * Second))
           | None \<Rightarrow>
               (case ParseTime tp value of
                  Some reset \<Rightarrow> Some reset
                | None \<Rightarrow> ParseRFC3339 tp value)))"

definition quotaResetFromHeaders :: "TimeParsers \<Rightarrow> header \<Rightarrow> string list \<Rightarrow> time \<Rightarrow> time option \<times> bool" where
  "quotaResetFromHeaders tp h names observedAt =
     (let (seen, result) = scan_resets (\<lambda>v. parseQuotaReset tp v observedAt) h names False None
      in (result, seen))"

definition firstReset :: "time option \<Rightarrow> time option \<Rightarrow> time option" where
  "firstReset primary fallback = (if primary \<noteq> None then primary else fallback)"

definition laterReset :: "time option \<Rightarrow> time option \<Rightarrow> time option" where
  "laterReset left right =
     (case left of
        None \<Rightarrow> right
      | Some l \<Rightarrow> (case right of None \<Rightarrow> left | Some r \<Rightarrow> if r < l then left else right))"

definition quotaFromHeaders :: "TimeParsers \<Rightarrow> header \<Rightarrow> time \<Rightarrow> QuotaSnapshot option" where
  "quotaFromHeaders tp h observedAt =
     (let (s1, rl, ru) = readQuotaMetric h [''X-RateLimit-Limit-Requests'', ''RateLimit-Limit''] 0 (Some False);
          (s2, rr, _) = readQuotaMetric h [''X-RateLimit-Remaining-Requests'', ''RateLimit-Remaining''] 0 None;
          (s3, tl, tu) = readQuotaMetric h [''X-RateLimit-Limit-Tokens''] 0 (Some False);
          (s4, tr, _) = readQuotaMetric h [''X-RateLimit-Remaining-Tokens''] 0 None;
          (requestReset, requestResetSeen) = quotaResetFromHeaders tp h [''X-RateLimit-Reset-Requests''] observedAt;
          (tokenReset, tokenResetSeen) = quotaResetFromHeaders tp h [''X-RateLimit-Reset-Tokens''] observedAt;
          (commonReset, commonResetSeen) = quotaResetFromHeaders tp h [''X-RateLimit-Reset'', ''RateLimit-Reset''] observedAt;
          seen = (s4 \<or> s3 \<or> s2 \<or> s1 \<or> requestResetSeen \<or> tokenResetSeen \<or> commonResetSeen);
          requestExhausted = (\<not> ru = Some True \<and> 0 < rl \<and> rr \<le> 0);
          tokenExhausted = (\<not> tu = Some True \<and> 0 < tl \<and> tr \<le> 0);
          reset = (if requestExhausted \<and> tokenExhausted
                   then laterReset (firstReset requestReset commonReset) (firstReset tokenReset commonReset)
                   else if requestExhausted then firstReset requestReset commonReset
                   else if tokenExhausted then firstReset tokenReset commonReset
                   else laterReset (laterReset requestReset tokenReset) commonReset)
      in if \<not> seen then None
         else Some \<lparr>RequestsLimit = rl, RequestsRemaining = rr, RequestsUnlimited = (ru = Some True),
                    TokensLimit = tl, TokensRemaining = tr, TokensUnlimited = (tu = Some True),
                    ResetAt = reset, ObservedAt = observedAt\<rparr>)"

section \<open>The two implementations\<close>

lemma readQuotaMetric_eq: "readQuotaMetric h names dest u = readHTTPQuotaMetric h names dest u"
  by (induction h names dest u rule: readQuotaMetric.induct) (auto simp: Let_def split: option.split)

lemma parseQuotaReset_eq: "parseQuotaReset = parseHTTPQuotaReset"
  by (simp add: fun_eq_iff parseQuotaReset_def parseHTTPQuotaReset_def)

lemma metric_nonneg:
  "0 \<le> dest \<Longrightarrow> readHTTPQuotaMetric h names dest u = (s, d, v) \<Longrightarrow> 0 \<le> d"
  by (induction h names dest u rule: readHTTPQuotaMetric.induct)
    (auto simp: Let_def split: option.splits if_splits)

lemma laterReset_assoc: "laterReset (laterReset a b) c = laterReset a (laterReset b c)"
  by (auto simp: laterReset_def split: option.splits)

lemma laterReset_None [simp]: "laterReset None a = a" "laterReset a None = a"
  by (auto simp: laterReset_def split: option.splits)

text \<open>The reset a single header announces.\<close>

definition announced :: "(string \<Rightarrow> time option) \<Rightarrow> header \<Rightarrow> string \<Rightarrow> time option" where
  "announced parse h name =
     (let value = TrimSpace (h name) in if value = '''' then None else parse value)"

definition present :: "header \<Rightarrow> string \<Rightarrow> bool" where
  "present h name \<longleftrightarrow> TrimSpace (h name) \<noteq> ''''"

lemma scan_resets_eq:
  "scan_resets parse h names seen result =
     (seen \<or> (\<exists>n \<in> set names. present h n), foldl (\<lambda>r n. laterReset r (announced parse h n)) result names)"
proof (induction names arbitrary: seen result)
  case (Cons name names)
  show ?case
  proof (cases "TrimSpace (h name) = ''''")
    case True
    with Cons show ?thesis by (simp add: announced_def present_def)
  next
    case False
    then show ?thesis
    proof (cases "parse (TrimSpace (h name))")
      case None
      with Cons False show ?thesis by (simp add: announced_def present_def)
    next
      case (Some reset)
      have "laterReset result (Some reset) = (if result = None \<or> the result < reset then Some reset else result)"
        by (cases result) (auto simp: laterReset_def)
      with Cons False Some show ?thesis by (simp add: announced_def present_def Let_def)
    qed
  qed
qed simp

lemma quotaResetFromHeaders_eq:
  "quotaResetFromHeaders tp h names t =
     (foldl (\<lambda>r n. laterReset r (announced (\<lambda>v. parseHTTPQuotaReset tp v t) h n)) None names,
      \<exists>n \<in> set names. present h n)"
  by (simp add: quotaResetFromHeaders_def scan_resets_eq parseQuotaReset_eq)

definition reset_le :: "time option \<Rightarrow> time option \<Rightarrow> bool" where
  "reset_le a b \<longleftrightarrow> (case a of None \<Rightarrow> True | Some s \<Rightarrow> (case b of None \<Rightarrow> False | Some t \<Rightarrow> s \<le> t))"

lemma reset_le_laws [simp, intro]: "reset_le a a" "reset_le a (laterReset a b)" "reset_le b (laterReset a b)"
  "reset_le a c \<Longrightarrow> reset_le b c \<Longrightarrow> reset_le (laterReset a b) c"
  "reset_le a c \<Longrightarrow> reset_le b c \<Longrightarrow> reset_le (firstReset a b) c"
  by (auto simp: reset_le_def laterReset_def firstReset_def split: option.splits)

lemma reset_le_trans: "reset_le a b \<Longrightarrow> reset_le b c \<Longrightarrow> reset_le a c"
  by (auto simp: reset_le_def split: option.splits)

section \<open>Properties\<close>

text \<open>The two header parsers agree. The probe's \<open>quotaFromHTTPHeaders\<close> and the gateway's
  \<open>quotaFromHeaders\<close> see a quota for the same responses and read the same limits, remainders and
  unlimited flags, none negative. The gateway's reset is never later than the probe's, and the
  same when neither requests nor tokens are exhausted (then both wait for every announced window; an
  exhausted window makes the gateway wait for that window only).\<close>

theorem quota_parsers_agree:
  "case (quotaFromHTTPHeaders tp h t, quotaFromHeaders tp h t) of
     (None, None) \<Rightarrow> True
   | (Some p, Some g) \<Rightarrow>
       g = p\<lparr>ResetAt := ResetAt g\<rparr> \<and> reset_le (ResetAt g) (ResetAt p)
       \<and> (quotaExhausted p \<or> ResetAt g = ResetAt p)
       \<and> 0 \<le> RequestsLimit p \<and> 0 \<le> RequestsRemaining p \<and> 0 \<le> TokensLimit p \<and> 0 \<le> TokensRemaining p
   | _ \<Rightarrow> False"
proof -
  obtain s1 rl ru where r1: "readHTTPQuotaMetric h [''X-RateLimit-Limit-Requests'', ''RateLimit-Limit''] 0 (Some False) = (s1, rl, ru)"
    by (rule prod_cases3)
  obtain s2 rr x2 where r2: "readHTTPQuotaMetric h [''X-RateLimit-Remaining-Requests'', ''RateLimit-Remaining''] 0 None = (s2, rr, x2)"
    by (rule prod_cases3)
  obtain s3 tl tu where r3: "readHTTPQuotaMetric h [''X-RateLimit-Limit-Tokens''] 0 (Some False) = (s3, tl, tu)"
    by (rule prod_cases3)
  obtain s4 tr x4 where r4: "readHTTPQuotaMetric h [''X-RateLimit-Remaining-Tokens''] 0 None = (s4, tr, x4)"
    by (rule prod_cases3)
  have nn: "0 \<le> rl" "0 \<le> rr" "0 \<le> tl" "0 \<le> tr"
    using metric_nonneg [OF order.refl r1] metric_nonneg [OF order.refl r2]
      metric_nonneg [OF order.refl r3] metric_nonneg [OF order.refl r4] by simp_all
  define a b c d where abcd: "a = announced (\<lambda>v. parseHTTPQuotaReset tp v t) h ''X-RateLimit-Reset-Requests''"
    "b = announced (\<lambda>v. parseHTTPQuotaReset tp v t) h ''X-RateLimit-Reset-Tokens''"
    "c = announced (\<lambda>v. parseHTTPQuotaReset tp v t) h ''X-RateLimit-Reset''"
    "d = announced (\<lambda>v. parseHTTPQuotaReset tp v t) h ''RateLimit-Reset''"
  let ?cd = "laterReset c d"
  have le: "reset_le a (laterReset (laterReset a b) ?cd)" "reset_le b (laterReset (laterReset a b) ?cd)"
    "reset_le ?cd (laterReset (laterReset a b) ?cd)"
    by (auto intro: reset_le_trans)
  show ?thesis
    unfolding quotaFromHTTPHeaders_def quotaFromHeaders_def readQuotaMetric_eq quotaResetFromHeaders_eq scan_resets_eq r1 r2 r3 r4
    using nn le by (auto simp: Let_def abcd [symmetric] laterReset_assoc quotaExhausted_def)
qed

text \<open>Numeric \<open>Retry-After\<close> headers. The probe's parser turns a positive number of seconds that fits a
  64-bit duration into exactly that duration, and never returns a negative duration for a date; larger
  numbers wrap around (below).\<close>

theorem retry_after_seconds:
  assumes "ParseInt (TrimSpace (h ''Retry-After'')) = r" "r = Some s \<and> 0 < s \<and> s \<le> 9223372036 \<or> r = None"
  shows "(r = Some s \<longrightarrow> retryAfterHeader tp h now = s * Second) \<and> 0 \<le> retryAfterHeader tp h now"
proof -
  have "wrap64 (s * Second) = s * Second" if "0 < s" "s \<le> 9223372036"
    using that by (intro wrap64_id) auto
  moreover have "TrimSpace (h ''Retry-After'') \<noteq> ''''" if "r \<noteq> None"
    using assms(1) that by (auto simp: ParseInt_def)
  ultimately show ?thesis
    using assms by (auto simp: retryAfterHeader_def Let_def time_sub_def split: option.splits)
qed

theorem retry_after_seconds_witness:
  "retryAfterHeader \<lparr>ParseDuration = (\<lambda>_. None), ParseTime = (\<lambda>_. None), ParseRFC3339 = (\<lambda>_. None)\<rparr>
     (\<lambda>_. '' 120 '') 5 = 120 * Second"
proof -
  have "ParseInt (TrimSpace ('' 120 '')) = Some 120" by code_simp
  from retry_after_seconds [of "\<lambda>_. '' 120 ''", OF this] show ?thesis by simp
qed

lemma retry_after_overflow: "retryAfterHeader tp (\<lambda>_. ''9223372037'') now < 0"
proof -
  have "TrimSpace ''9223372037'' = ''9223372037''" by code_simp
  moreover have "ParseInt ''9223372037'' = Some 9223372037"
    by (simp add: ParseInt_def digit_value_def less_eq_char_def)
  moreover have "wrap64 (9223372037 * Second) < 0" by (simp add: wrap64_def)
  ultimately show ?thesis by (simp add: retryAfterHeader_def)
qed

end
