(* ===== verification/Gateway_Validation.thy ===== *)
theory Gateway_Validation
  imports Upstream_Types
begin

text \<open>
  Validation of request payloads (\<open>internal/gateway/validation.go\<close>) and the static model
  catalogue (\<open>internal/gateway/models.go\<close>).
\<close>

section \<open>Payload values\<close>

record validationIssue =
  iss_message :: string
  iss_code :: string
  iss_param :: string

definition invalidParameter :: "string \<Rightarrow> string \<Rightarrow> validationIssue" where
  "invalidParameter param message =
     \<lparr>iss_message = message, iss_code = ''invalid_value'', iss_param = param\<rparr>"

definition containsString :: "string list \<Rightarrow> string \<Rightarrow> bool" where
  "containsString values target \<longleftrightarrow> target \<in> set values"

definition textValue :: "json \<Rightarrow> string" where
  "textValue value = as_string value"

definition hasValues :: "json \<Rightarrow> bool" where
  "hasValues value =
     (case value of
        JNull \<Rightarrow> False
      | JStr s \<Rightarrow> TrimSpace s \<noteq> ''''
      | JArr xs \<Rightarrow> 0 < length xs
      | _ \<Rightarrow> True)"

definition emptyInput :: "json \<Rightarrow> bool" where
  "emptyInput value =
     (case value of
        JNull \<Rightarrow> True
      | JStr s \<Rightarrow> TrimSpace s = ''''
      | JArr xs \<Rightarrow> length xs = 0
      | _ \<Rightarrow> False)"

text \<open>
  \<open>strings.TrimSpace(fmt.Sprint(value)) == ""\<close>: strings and numbers print as their text, the other
  values print with a bracket, a letter or a digit.
\<close>

definition prints_blank :: "json \<Rightarrow> bool" where
  "prints_blank value =
     (case value of JStr s \<Rightarrow> TrimSpace s = '''' | JNumber s \<Rightarrow> TrimSpace s = '''' | _ \<Rightarrow> False)"

definition hasScalar :: "json \<Rightarrow> bool" where
  "hasScalar value \<longleftrightarrow> value \<noteq> JNull \<and> \<not> prints_blank value"

definition integerValue :: "json \<Rightarrow> int \<times> bool" where
  "integerValue value =
     (if value = JNull \<or> prints_blank value then (0, False)
      else (case value of
              JNumber s \<Rightarrow> (case ParseInt s of Some n \<Rightarrow> (n, True) | None \<Rightarrow> (0, False))
            | JFloat r \<Rightarrow> (truncate_rat r, r = of_int (truncate_rat r))
            | JStr s \<Rightarrow> (case ParseInt (TrimSpace s) of Some n \<Rightarrow> (n, True) | None \<Rightarrow> (0, False))
            | _ \<Rightarrow> (0, False)))"

definition validateResponseFormat :: "json \<Rightarrow> validationIssue option" where
  "validateResponseFormat value =
     (let format = ToLower (TrimSpace (textValue value))
      in if format \<noteq> '''' \<and> format \<noteq> ''url'' \<and> format \<noteq> ''b64_json''
         then Some (invalidParameter ''response_format'' ''response_format must be url or b64_json'')
         else None)"

definition validateCount :: "json \<Rightarrow> int \<Rightarrow> string \<Rightarrow> validationIssue option" where
  "validateCount value maximum param =
     (if \<not> hasScalar value then None
      else (let (n, valid) = integerValue value
            in if \<not> valid \<or> n < 1 \<or> maximum < n
               then Some (invalidParameter param (param @ '' must be between 1 and '' @ FormatInt maximum))
               else None))"

section \<open>validateOperationPayload\<close>

text \<open>Issues are reported in order: the first one that applies.\<close>

fun first_issue :: "validationIssue option list \<Rightarrow> validationIssue option" where
  "first_issue [] = None"
| "first_issue (None # xs) = first_issue xs"
| "first_issue (Some i # xs) = Some i"

definition issue_if :: "bool \<Rightarrow> string \<Rightarrow> string \<Rightarrow> validationIssue option" where
  "issue_if b param message = (if b then Some (invalidParameter param message) else None)"

definition validate_image :: "(string \<times> json) list \<Rightarrow> validationIssue option" where
  "validate_image payload =
     first_issue
       [issue_if (TrimSpace (textValue (jget payload ''prompt'')) = '''') ''prompt'' ''prompt cannot be empty'',
        validateCount (jget payload ''n'') 4 ''n'',
        validateResponseFormat (jget payload ''response_format'')]"

definition validate_image_edit :: "(string \<times> json) list \<Rightarrow> validationIssue option" where
  "validate_image_edit payload =
     (let size = TrimSpace (textValue (jget payload ''size''))
      in first_issue
       [issue_if (TrimSpace (textValue (jget payload ''prompt'')) = '''') ''prompt'' ''prompt cannot be empty'',
        issue_if (\<not> hasValues (jget payload ''image'') \<and> \<not> hasValues (jget payload ''images''))
          ''image'' ''at least one image is required'',
        issue_if (hasValues (jget payload ''mask'')) ''mask'' ''mask is not supported'',
        validateCount (jget payload ''n'') 2 ''n'',
        issue_if (size \<noteq> '''' \<and> size \<noteq> ''1024x1024'') ''size'' ''image edit currently supports only 1024x1024'',
        validateResponseFormat (jget payload ''response_format'')])"

definition validate_video :: "(string \<times> json) list \<Rightarrow> validationIssue option" where
  "validate_video payload =
     (let (seconds, valid) = integerValue (jget payload ''seconds'');
          size = TrimSpace (textValue (jget payload ''size''));
          resolution = ToLower (TrimSpace (textValue (jget payload ''resolution_name'')));
          preset = ToLower (TrimSpace (textValue (jget payload ''preset'')))
      in first_issue
       [issue_if (TrimSpace (textValue (jget payload ''prompt'')) = '''') ''prompt'' ''prompt cannot be empty'',
        issue_if (hasScalar (jget payload ''seconds'') \<and> (\<not> valid \<or> seconds \<notin> {6, 10, 12, 16, 20}))
          ''seconds'' ''seconds must be one of 6, 10, 12, 16, or 20'',
        issue_if (size \<noteq> '''' \<and> \<not> containsString
            [''720x1280'', ''1280x720'', ''1024x1024'', ''1024x1792'', ''1792x1024''] size)
          ''size'' ''size is not supported'',
        issue_if (resolution \<noteq> '''' \<and> resolution \<noteq> ''480p'' \<and> resolution \<noteq> ''720p'')
          ''resolution_name'' ''resolution_name must be 480p or 720p'',
        issue_if (preset \<noteq> '''' \<and> \<not> containsString [''fun'', ''normal'', ''spicy'', ''custom''] preset)
          ''preset'' ''preset must be fun, normal, spicy, or custom''])"

definition validateOperationPayload :: "Operation \<Rightarrow> (string \<times> json) list \<Rightarrow> validationIssue option" where
  "validateOperationPayload op payload =
     (case op of
        OperationResponses \<Rightarrow> issue_if (emptyInput (jget payload ''input'')) ''input'' ''input cannot be empty''
      | OperationImage \<Rightarrow> validate_image payload
      | OperationImageEdit \<Rightarrow> validate_image_edit payload
      | OperationVideo \<Rightarrow> validate_video payload
      | _ \<Rightarrow> None)"

section \<open>The model catalogue\<close>

record StaticModelSource =
  ms_models :: "ModelSpec list"
  byName :: "(string \<times> ModelSpec) list"

definition model_names :: "ModelSpec \<Rightarrow> string list" where
  "model_names m = ToLower (model_ID m) # map ToLower (Aliases m)"

definition Replace :: "ModelSpec list \<Rightarrow> StaticModelSource" where
  "Replace models =
     \<lparr>ms_models = models,
      byName = fold (\<lambda>m names. fold (\<lambda>n names. AList.update n m names) (model_names m) names) models []\<rparr>"

definition NewStaticModelSource :: "ModelSpec list \<Rightarrow> StaticModelSource" where
  "NewStaticModelSource models = Replace models"

definition ListModels :: "StaticModelSource \<Rightarrow> ModelSpec list" where
  "ListModels s = filter Enabled (ms_models s)"

definition ResolveModel :: "StaticModelSource \<Rightarrow> string \<Rightarrow> error + ModelSpec" where
  "ResolveModel s name =
     (case map_of (byName s) (ToLower (TrimSpace name)) of
        None \<Rightarrow> Inl (ErrText ''model not found'')
      | Some m \<Rightarrow> if Enabled m then Inr m else Inl (ErrText ''model not found''))"

section \<open>Lemmas\<close>

lemma first_issue_None: "first_issue xs = None \<longleftrightarrow> (\<forall>x \<in> set xs. x = None)"
  by (induction xs rule: first_issue.induct) auto

lemma issue_if_None [simp]: "issue_if b p m = None \<longleftrightarrow> \<not> b"
  by (simp add: issue_if_def)

lemma validateCount_None:
  "validateCount v n p = None \<longleftrightarrow> hasScalar v \<longrightarrow> (\<exists>k. integerValue v = (k, True) \<and> 1 \<le> k \<and> k \<le> n)"
  by (auto simp: validateCount_def case_prod_unfold prod_eq_iff Let_def split: if_splits)

lemma map_of_update_names:
  "map_of (fold (\<lambda>n names. AList.update n m names) ns names) k = (if k \<in> set ns then Some m else map_of names k)"
  by (induction ns arbitrary: names) (auto simp: update_conv')

lemma map_of_replace:
  "map_of (fold (\<lambda>m names. fold (\<lambda>n names. AList.update n m names) (model_names m) names) models names) k =
     (case find (\<lambda>m. k \<in> set (model_names m)) (rev models) of Some m \<Rightarrow> Some m | None \<Rightarrow> map_of names k)"
proof (induction models arbitrary: names)
  case (Cons m models)
  have app: "find P (xs @ [x]) = (case find P xs of Some y \<Rightarrow> Some y | None \<Rightarrow> if P x then Some x else None)"
    for P :: "ModelSpec \<Rightarrow> bool" and xs x
    by (induction xs) auto
  show ?case by (simp add: Cons app map_of_update_names split: option.split)
qed simp

section \<open>The interface of a model source\<close>

text \<open>What the gateway relies on: a resolved model is one of the listed, enabled models.\<close>

locale model_source =
  fixes listed :: "'s \<Rightarrow> ModelSpec list" and resolve :: "'s \<Rightarrow> string \<Rightarrow> error + ModelSpec" and inv :: "'s \<Rightarrow> bool"
  assumes resolve_listed: "inv s \<Longrightarrow> resolve s name = Inr m \<Longrightarrow> m \<in> set (listed s)"
    and listed_enabled: "inv s \<Longrightarrow> m \<in> set (listed s) \<Longrightarrow> Enabled m"
begin

lemma resolve_enabled: "inv s \<Longrightarrow> resolve s name = Inr m \<Longrightarrow> Enabled m"
  using resolve_listed listed_enabled by blast

end

definition model_inv :: "StaticModelSource \<Rightarrow> bool" where
  "model_inv s \<longleftrightarrow> (\<forall>(n, m) \<in> set (byName s). m \<in> set (ms_models s) \<and> n \<in> set (model_names m))"

interpretation static: model_source ListModels ResolveModel model_inv
  by unfold_locales
    (auto simp: ResolveModel_def ListModels_def model_inv_def split: option.splits if_splits dest: map_of_SomeD)

lemma byName_Replace:
  "map_of (byName (Replace models)) k = find (\<lambda>m. k \<in> set (model_names m)) (rev models)"
  by (simp add: Replace_def map_of_replace split: option.split)

lemma distinct_fold_update:
  "distinct (map fst names) \<Longrightarrow> distinct (map fst (fold (\<lambda>n names. AList.update n m names) ns names))"
  by (induction ns arbitrary: names) (auto simp: distinct_update)

lemma distinct_byName: "distinct (map fst (byName (Replace models)))"
proof -
  have "distinct (map fst names) \<Longrightarrow>
    distinct (map fst (fold (\<lambda>m names. fold (\<lambda>n names. AList.update n m names) (model_names m) names) models names))" for names
    by (induction models arbitrary: names) (auto simp: distinct_fold_update)
  then show ?thesis by (simp add: Replace_def)
qed

lemma model_inv_Replace: "model_inv (Replace models)"
proof -
  have "m \<in> set models \<and> n \<in> set (model_names m)" if "(n, m) \<in> set (byName (Replace models))" for n m
  proof -
    have "map_of (byName (Replace models)) n = Some m"
      using that distinct_byName by simp
    then show ?thesis using nth_mem [of _ "rev models"] by (fastforce simp: byName_Replace find_Some_iff)
  qed
  then show ?thesis by (auto simp: model_inv_def) (auto simp: Replace_def)
qed

section \<open>Properties\<close>

text \<open>Model names resolve to the last model that claims them. Whatever the case of the name and the
  spaces around it, \<open>ResolveModel\<close> returns the last model of the catalogue whose ID or alias it is, provided
  that model is enabled, and an error otherwise; a resolved model is one that \<open>ListModels\<close> shows.\<close>

theorem resolve_model_spec:
  "ResolveModel (NewStaticModelSource models) name =
     (case find (\<lambda>m. ToLower (TrimSpace name) \<in> set (model_names m)) (rev models) of
        None \<Rightarrow> Inl (ErrText ''model not found'')
      | Some m \<Rightarrow> if Enabled m then Inr m else Inl (ErrText ''model not found''))
   \<and> (\<forall>m. ResolveModel (NewStaticModelSource models) name = Inr m \<longrightarrow> m \<in> set (ListModels (NewStaticModelSource models)))"
  using static.resolve_listed [OF model_inv_Replace, of models name]
  by (simp add: NewStaticModelSource_def) (simp add: ResolveModel_def byName_Replace)

theorem resolve_model_spec_witness:
  "\<exists>m. ResolveModel (NewStaticModelSource [\<lparr>model_ID = ''Grok-4'', UpstreamModel = ''grok-4'', DisplayName = '''',
       model_Capability = CapabilityChat, CredentialKinds = [], MinimumTier = '''', Aliases = [''g4''], PreferBest = False,
       CatalogManaged = False, Enabled = True, model_CreatedAt = 0, model_UpdatedAt = 0\<rparr>]) '' G4'' = Inr m \<and> model_ID m = ''Grok-4''"
proof -
  let ?m = "\<lparr>model_ID = ''Grok-4'', UpstreamModel = ''grok-4'', DisplayName = '''',
       model_Capability = CapabilityChat, CredentialKinds = [], MinimumTier = '''', Aliases = [''g4''], PreferBest = False,
       CatalogManaged = False, Enabled = True, model_CreatedAt = 0, model_UpdatedAt = 0\<rparr>"
  have "find (\<lambda>m. ToLower (TrimSpace '' G4'') \<in> set (model_names m)) (rev [?m]) = Some ?m" by code_simp
  with resolve_model_spec [of "[?m]" "'' G4''"] show ?thesis by simp
qed

text \<open>Accepted video requests are well formed. A video payload passes validation exactly when it has a
  prompt that is not blank, its duration (if any) is one of the five supported ones, and its size, resolution
  and preset (if any) are supported.\<close>

theorem video_validation_exact:
  "validateOperationPayload OperationVideo payload = None \<longleftrightarrow>
     TrimSpace (as_string (jget payload ''prompt'')) \<noteq> ''''
     \<and> (hasScalar (jget payload ''seconds'') \<longrightarrow>
          (\<exists>k \<in> {6, 10, 12, 16, 20}. integerValue (jget payload ''seconds'') = (k, True)))
     \<and> TrimSpace (as_string (jget payload ''size'')) \<in>
          {'''', ''720x1280'', ''1280x720'', ''1024x1024'', ''1024x1792'', ''1792x1024''}
     \<and> ToLower (TrimSpace (as_string (jget payload ''resolution_name''))) \<in> {'''', ''480p'', ''720p''}
     \<and> ToLower (TrimSpace (as_string (jget payload ''preset''))) \<in> {'''', ''fun'', ''normal'', ''spicy'', ''custom''}"
proof -
  obtain k v where i: "integerValue (jget payload ''seconds'') = (k, v)" by (rule prod.exhaust)
  show ?thesis
    unfolding validateOperationPayload_def validate_video_def i
    by (auto simp: Let_def first_issue_None textValue_def containsString_def)
qed

theorem video_validation_exact_witness:
  "validateOperationPayload OperationVideo [(''prompt'', JStr ''a cat''), (''seconds'', JNumber ''10'')] = None"
proof -
  let ?p = "[(''prompt'', JStr ''a cat''), (''seconds'', JNumber ''10'')]"
  have "TrimSpace (as_string (jget ?p ''prompt'')) \<noteq> ''''" "integerValue (jget ?p ''seconds'') = (10, True)"
    "TrimSpace (as_string (jget ?p ''size'')) = ''''" "ToLower (TrimSpace (as_string (jget ?p ''resolution_name''))) = ''''"
    "ToLower (TrimSpace (as_string (jget ?p ''preset''))) = ''''"
    by code_simp+
  with video_validation_exact [of ?p] show ?thesis by simp
qed

end
