(* ===== verification/Cache_Identity.thy ===== *)
theory Cache_Identity
  imports Upstream_Types
begin

text \<open>
  Session affinity and prompt-cache keys of a request (\<open>internal/gateway/cache_identity.go\<close>).

  The SHA-256 function, the JSON encoder and the JSON decoder are arguments (\<open>CacheLib\<close>): the
  properties use of them only that a digest has 32 bytes.
\<close>

unbundle bit_operations_syntax

record CacheLib =
  Sum256 :: "string \<Rightarrow> string"
  Marshal :: "json \<Rightarrow> string option"
  UnmarshalObject :: "string \<Rightarrow> (string \<times> json) list option"

record cacheIdentities =
  SessionAffinityKey :: string
  ci_PromptCacheKey :: string

section \<open>Values\<close>

definition canonicalJSON :: "CacheLib \<Rightarrow> json \<Rightarrow> string" where
  "canonicalJSON lib value = (case Marshal lib value of None \<Rightarrow> ''null'' | Some s \<Rightarrow> s)"

definition valueSlice :: "json \<Rightarrow> json list" where
  "valueSlice value = (case value of JArr xs \<Rightarrow> xs | _ \<Rightarrow> [])"

text \<open>The assertion \<open>x.(map[string]any)\<close>: \<^const>\<open>None\<close> for a \<open>nil\<close> map.\<close>

definition stringField :: "(string \<times> json) list \<Rightarrow> string \<Rightarrow> string" where
  "stringField m key = as_string (jget m key)"

definition role_of :: "(string \<times> json) list \<Rightarrow> string" where
  "role_of m = ToLower (TrimSpace (stringField m ''role''))"

definition meaningfulCacheValue :: "json \<Rightarrow> bool" where
  "meaningfulCacheValue value =
     (case value of
        JNull \<Rightarrow> False
      | JStr s \<Rightarrow> TrimSpace s \<noteq> ''''
      | JArr xs \<Rightarrow> 0 < length xs
      | JObj m \<Rightarrow> 0 < length m
      | _ \<Rightarrow> True)"

section \<open>Identities\<close>

definition hex_digit :: "nat \<Rightarrow> char" where
  "hex_digit d = (if d < 10 then char_of (48 + d) else char_of (87 + d))"

definition hex_byte :: "char \<Rightarrow> string" where
  "hex_byte c = [hex_digit (of_char c div 16), hex_digit (of_char c mod 16)]"

definition EncodeToString :: "string \<Rightarrow> string" where
  "EncodeToString bs = concat (map hex_byte bs)"

definition scopedCacheIdentity :: "CacheLib \<Rightarrow> string \<Rightarrow> string \<Rightarrow> string \<Rightarrow> string \<Rightarrow> string" where
  "scopedCacheIdentity lib namespace scope model seed =
     (let digest = Sum256 lib (namespace @ '':'' @ scope @ '':'' @ ToLower (TrimSpace model) @ '':'' @ seed);
          value = take 16 digest;
          value = value[6 := char_of ((of_char (value ! 6) AND 0x0f) OR (0x50 :: nat))];
          value = value[8 := char_of ((of_char (value ! 8) AND 0x3f) OR (0x80 :: nat))];
          encoded = EncodeToString value
      in take 8 encoded @ ''-'' @ take 4 (drop 8 encoded) @ ''-'' @ take 4 (drop 12 encoded) @ ''-''
         @ take 4 (drop 16 encoded) @ ''-'' @ drop 20 encoded)"

definition globalCacheIdentity :: "CacheLib \<Rightarrow> string \<Rightarrow> string \<Rightarrow> string \<Rightarrow> string" where
  "globalCacheIdentity lib namespace model seed = scopedCacheIdentity lib namespace ''global'' model seed"

definition tenant_scope :: "CacheLib \<Rightarrow> string \<Rightarrow> string" where
  "tenant_scope lib tenantID0 =
     (let tenantID = TrimSpace tenantID0
      in if tenantID = '''' then ''public''
         else EncodeToString (take 12 (Sum256 lib (''grok-go:client-key:'' @ tenantID))))"

definition tenantCacheIdentity :: "CacheLib \<Rightarrow> string \<Rightarrow> string \<Rightarrow> string \<Rightarrow> string \<Rightarrow> string" where
  "tenantCacheIdentity lib namespace tenantID model seed =
     scopedCacheIdentity lib namespace (tenant_scope lib tenantID) model seed"

section \<open>Sessions named by the client\<close>

fun first_nonblank :: "header \<Rightarrow> string list \<Rightarrow> string" where
  "first_nonblank h [] = ''''"
| "first_nonblank h (n # ns) = (let v = TrimSpace (h n) in if v \<noteq> '''' then v else first_nonblank h ns)"

definition requestSession :: "header \<Rightarrow> string" where
  "requestSession h = first_nonblank h
     [''Session-Id'', ''X-Session-Id'', ''Conversation-Id'', ''X-Conversation-Id'', ''X-Grok-Conv-Id'',
      ''X-Claude-Code-Session-Id'']"

text \<open>
  The regular expression \<open>(?i)_session_([a-f0-9-]+)$\<close>. Case folding lets \<open>s\<close> match the long s,
  U+017F, too.
\<close>

fun match_fold :: "string \<Rightarrow> string \<Rightarrow> string option" where
  "match_fold [] s = Some s"
| "match_fold (p # ps) [] = None"
| "match_fold (p # ps) (c # cs) =
     (if lower_char c = p then match_fold ps cs
      else if p = CHR ''s'' \<and> c = CHR 0xC5 \<and> take 1 cs = [CHR 0xBF] then match_fold ps (drop 1 cs)
      else None)"

definition session_char :: "char \<Rightarrow> bool" where
  "session_char c \<longleftrightarrow> (CHR ''a'' \<le> lower_char c \<and> lower_char c \<le> CHR ''f'') \<or> (CHR ''0'' \<le> c \<and> c \<le> CHR ''9'') \<or> c = CHR ''-''"

fun claudeSessionSuffix :: "string \<Rightarrow> string option" where
  "claudeSessionSuffix [] = None"
| "claudeSessionSuffix (c # cs) =
     (case match_fold ''_session_'' (c # cs) of
        Some rest \<Rightarrow> if rest \<noteq> [] \<and> list_all session_char rest then Some rest else claudeSessionSuffix cs
      | None \<Rightarrow> claudeSessionSuffix cs)"

definition metadataSession :: "CacheLib \<Rightarrow> json \<Rightarrow> string" where
  "metadataSession lib value =
     (case as_object value of
        None \<Rightarrow> ''''
      | Some metadata \<Rightarrow>
          if TrimSpace (stringField metadata ''session_id'') \<noteq> '''' then TrimSpace (stringField metadata ''session_id'')
          else (let userID = TrimSpace (stringField metadata ''user_id'')
                in case claudeSessionSuffix userID of
                     Some m \<Rightarrow> m
                   | None \<Rightarrow>
                       if HasPrefix userID ''{''
                       then (case UnmarshalObject lib userID of
                               None \<Rightarrow> ''''
                             | Some decoded \<Rightarrow> TrimSpace (stringField decoded ''session_id''))
                       else ''''))"

section \<open>Anchors from the conversation\<close>

definition cached_text :: "json \<Rightarrow> string list" where
  "cached_text raw =
     (case as_object raw of
        None \<Rightarrow> []
      | Some block \<Rightarrow>
          (case as_object (jget block ''cache_control'') of
             None \<Rightarrow> []
           | Some control \<Rightarrow>
               if jget block ''type'' \<noteq> JStr ''text'' \<or> jget control ''type'' \<noteq> JStr ''ephemeral'' then []
               else (let text = TrimSpace (stringField block ''text'') in if text \<noteq> '''' then [text] else [])))"

definition cachedTextBlocks :: "json \<Rightarrow> string list" where
  "cachedTextBlocks value = concat (map cached_text (valueSlice value))"

text \<open>The loop over the messages carries the parts and the first cached user text.\<close>

fun anchor_loop :: "json list \<Rightarrow> string list \<Rightarrow> string \<Rightarrow> string list \<times> string" where
  "anchor_loop [] parts firstUser = (parts, firstUser)"
| "anchor_loop (raw # rest) parts firstUser =
     (case as_object raw of
        None \<Rightarrow> anchor_loop rest parts firstUser
      | Some message \<Rightarrow>
          (let role = stringField message ''role''; cached = cachedTextBlocks (jget message ''content'')
           in if role = ''user'' \<and> firstUser = '''' \<and> 0 < length cached
              then anchor_loop rest parts (hd cached)
              else if role = ''assistant''
                   then anchor_loop rest (parts @ map (\<lambda>t. ''assistant:'' @ t) cached) firstUser
                   else anchor_loop rest parts firstUser))"

definition anthropicCacheAnchor :: "json \<Rightarrow> json list \<Rightarrow> string" where
  "anthropicCacheAnchor system messages =
     (let (parts, firstUser) = anchor_loop messages (map (\<lambda>t. ''system:'' @ t) (cachedTextBlocks system)) ''''
      in Join (if firstUser \<noteq> '''' then parts @ [''user_anchor:'' @ firstUser] else parts) [CHR 0x0A])"

text \<open>The loop of \<open>appendMessagePrefix\<close>.\<close>

fun message_prefix :: "CacheLib \<Rightarrow> json list \<Rightarrow> bool \<Rightarrow> string list" where
  "message_prefix lib [] firstUser = []"
| "message_prefix lib (raw # rest) firstUser =
     (case as_object raw of
        None \<Rightarrow> message_prefix lib rest firstUser
      | Some m \<Rightarrow>
          if role_of m = ''system'' \<or> role_of m = ''developer''
          then (''system='' @ canonicalJSON lib (jget m ''content'')) # message_prefix lib rest firstUser
          else if role_of m = ''user'' \<and> \<not> firstUser
          then (''first_user='' @ canonicalJSON lib (jget m ''content'')) # message_prefix lib rest True
          else message_prefix lib rest firstUser)"

definition appendMessagePrefix :: "CacheLib \<Rightarrow> string list \<Rightarrow> json list \<Rightarrow> string list" where
  "appendMessagePrefix lib parts messages = parts @ message_prefix lib messages False"

fun responses_prefix :: "CacheLib \<Rightarrow> json list \<Rightarrow> bool \<Rightarrow> string list" where
  "responses_prefix lib [] firstUser = []"
| "responses_prefix lib (raw # rest) firstUser =
     (case as_object raw of
        None \<Rightarrow> responses_prefix lib rest firstUser
      | Some m \<Rightarrow>
          if role_of m = ''system'' \<or> role_of m = ''developer''
          then (''system='' @ canonicalJSON lib (jget m ''content'')) # responses_prefix lib rest firstUser
          else if role_of m = ''user'' \<and> \<not> firstUser
          then (''first_user='' @ canonicalJSON lib (jget m ''content'')) # responses_prefix lib rest True
          else if \<not> firstUser \<and> jget m ''type'' = JStr ''input_text''
          then (''first_user='' @ canonicalJSON lib (jget m ''text'')) # responses_prefix lib rest True
          else responses_prefix lib rest firstUser)"

definition appendResponsesPrefix :: "CacheLib \<Rightarrow> string list \<Rightarrow> json \<Rightarrow> string list" where
  "appendResponsesPrefix lib parts input =
     (case input of
        JStr text \<Rightarrow> parts @ [''first_user='' @ canonicalJSON lib (JStr text)]
      | _ \<Rightarrow> parts @ responses_prefix lib (valueSlice input) False)"

definition cachePrefix :: "CacheLib \<Rightarrow> string \<Rightarrow> (string \<times> json) list \<Rightarrow> string" where
  "cachePrefix lib model payload =
     (let parts = [''model='' @ ToLower (TrimSpace model)];
          parts = parts @ concat (map (\<lambda>key. if jget payload key \<noteq> JNull
                                             then [key @ ''='' @ canonicalJSON lib (jget payload key)] else [])
                                      [''tools'', ''instructions'', ''system'']);
          messages = valueSlice (jget payload ''messages'')
      in Join (if 0 < length messages then appendMessagePrefix lib parts messages
               else if map_of payload ''input'' \<noteq> None then appendResponsesPrefix lib parts (jget payload ''input'')
               else parts) ''|'')"

definition sessionAffinitySeed :: "CacheLib \<Rightarrow> header \<Rightarrow> string \<Rightarrow> (string \<times> json) list \<Rightarrow> string" where
  "sessionAffinitySeed lib h model payload =
     (let seed = requestSession h;
          seed = (if seed = '''' then TrimSpace (stringField payload ''prompt_cache_key'') else seed);
          seed = (if seed = '''' then metadataSession lib (jget payload ''metadata'') else seed);
          seed = (if seed = '''' then anthropicCacheAnchor (jget payload ''system'') (valueSlice (jget payload ''messages''))
                  else seed)
      in if seed = '''' then cachePrefix lib model payload else seed)"

section \<open>The prompt prefix\<close>

text \<open>The texts of a block list, or \<^const>\<open>None\<close> when a block is not a text block.\<close>

fun block_texts :: "json list \<Rightarrow> string list option" where
  "block_texts [] = Some []"
| "block_texts (raw # rest) =
     (case as_object raw of
        None \<Rightarrow> None
      | Some block \<Rightarrow>
          if ToLower (TrimSpace (stringField block ''type'')) \<notin> {''text'', ''input_text'', ''output_text''} then None
          else (case block_texts rest of
                  None \<Rightarrow> None
                | Some ts \<Rightarrow> Some (if TrimSpace (stringField block ''text'') = '''' then ts
                                   else stringField block ''text'' # ts)))"

definition normalizedPromptContent :: "CacheLib \<Rightarrow> json \<Rightarrow> string option" where
  "normalizedPromptContent lib value =
     (if \<not> meaningfulCacheValue value then None
      else (case value of
              JArr blocks \<Rightarrow>
                (case block_texts blocks of
                   None \<Rightarrow> Some (canonicalJSON lib value)
                 | Some [] \<Rightarrow> None
                 | Some ts \<Rightarrow> Some (canonicalJSON lib (JStr (Join ts [CHR 0x0A]))))
            | _ \<Rightarrow> Some (canonicalJSON lib value)))"

definition instruction :: "CacheLib \<Rightarrow> json \<Rightarrow> string list" where
  "instruction lib value =
     (case normalizedPromptContent lib value of None \<Rightarrow> [] | Some e \<Rightarrow> [''instruction='' @ e])"

definition message_instructions :: "CacheLib \<Rightarrow> json \<Rightarrow> string list" where
  "message_instructions lib raw =
     (case as_object raw of
        None \<Rightarrow> []
      | Some m \<Rightarrow>
          if role_of m \<noteq> ''system'' \<and> role_of m \<noteq> ''developer'' then []
          else instruction lib (jget m ''content''))"

text \<open>The part the first user item contributes, \<^const>\<open>None\<close> when no item does.\<close>

fun appendFirstUserFromItems :: "CacheLib \<Rightarrow> json list \<Rightarrow> string option" where
  "appendFirstUserFromItems lib [] = None"
| "appendFirstUserFromItems lib (raw # rest) =
     (case as_object raw of
        None \<Rightarrow> appendFirstUserFromItems lib rest
      | Some m \<Rightarrow>
          (case (if role_of m = ''user'' then normalizedPromptContent lib (jget m ''content'') else None) of
             Some e \<Rightarrow> Some (''first_user='' @ e)
           | None \<Rightarrow>
               if role_of m = '''' \<and> match_fold ''input_text'' (stringField m ''type'') = Some ''''
                  \<and> meaningfulCacheValue (jget m ''text'')
               then Some (''first_user='' @ canonicalJSON lib (jget m ''text''))
               else appendFirstUserFromItems lib rest))"

definition appendFirstUserPrefix :: "CacheLib \<Rightarrow> string list \<Rightarrow> (string \<times> json) list \<Rightarrow> string list" where
  "appendFirstUserPrefix lib parts payload =
     (case appendFirstUserFromItems lib (valueSlice (jget payload ''messages'')) of
        Some p \<Rightarrow> parts @ [p]
      | None \<Rightarrow>
          (case jget payload ''input'' of
             JStr text \<Rightarrow> (if TrimSpace text \<noteq> '''' then parts @ [''first_user='' @ canonicalJSON lib (JStr text)] else parts)
           | v \<Rightarrow> (case appendFirstUserFromItems lib (valueSlice v) of Some p \<Rightarrow> parts @ [p] | None \<Rightarrow> parts)))"

definition static_prefix :: "CacheLib \<Rightarrow> (string \<times> json) list \<Rightarrow> string list" where
  "static_prefix lib payload =
     concat (map (\<lambda>key. instruction lib (jget payload key)) [''instructions'', ''system'', ''developer''])
     @ concat (map (message_instructions lib) (valueSlice (jget payload ''messages'')))
     @ concat (map (message_instructions lib) (valueSlice (jget payload ''input'')))
     @ (if meaningfulCacheValue (jget payload ''tools'') then [''tools='' @ canonicalJSON lib (jget payload ''tools'')] else [])"

definition promptCachePrefix :: "CacheLib \<Rightarrow> string \<Rightarrow> (string \<times> json) list \<Rightarrow> string" where
  "promptCachePrefix lib model payload =
     (let static = static_prefix lib payload;
          parts = (''model='' @ ToLower (TrimSpace model)) # static
      in Join (if static = [] then appendFirstUserPrefix lib parts payload else parts) ''|'')"

definition resolveCacheIdentities ::
  "CacheLib \<Rightarrow> string \<Rightarrow> header \<Rightarrow> string \<Rightarrow> (string \<times> json) list \<Rightarrow> cacheIdentities" where
  "resolveCacheIdentities lib tenantID h model payload =
     \<lparr>SessionAffinityKey = tenantCacheIdentity lib ''grok-session-affinity:v2'' tenantID model (sessionAffinitySeed lib h model payload),
      ci_PromptCacheKey = globalCacheIdentity lib ''grok-prompt-cache:v3'' model (promptCachePrefix lib model payload)\<rparr>"

text \<open>The tenant is the client key the request was authenticated with, if any.\<close>

definition requestCacheIdentities ::
  "CacheLib \<Rightarrow> ClientKey option \<Rightarrow> header \<Rightarrow> string \<Rightarrow> (string \<times> json) list \<Rightarrow> cacheIdentities" where
  "requestCacheIdentities lib key h model payload =
     resolveCacheIdentities lib (case key of None \<Rightarrow> '''' | Some k \<Rightarrow> key_ID k) h model payload"

section \<open>Lemmas\<close>

lemma hex_byte_length [simp]: "length (hex_byte c) = 2"
  by (simp add: hex_byte_def)

lemma EncodeToString_length: "length (EncodeToString bs) = 2 * length bs"
  by (induction bs) (auto simp: EncodeToString_def)

lemma EncodeToString_nth:
  "i < length bs \<Longrightarrow> EncodeToString bs ! (2 * i) = hex_digit (of_char (bs ! i) div 16)"
proof (induction bs arbitrary: i)
  case (Cons b bs)
  show ?case
  proof (cases i)
    case 0
    then show ?thesis by (simp add: EncodeToString_def hex_byte_def)
  next
    case (Suc j)
    with Cons show ?thesis by (simp add: EncodeToString_def hex_byte_def)
  qed
qed simp

lemma high_nibble: "of_char (char_of (m OR k)) div 16 = (m div 16 OR k div 16) mod (16 :: nat)"
proof -
  have "x mod 256 div 16 = x div 16 mod 16" for x :: nat
    using mod_mult2_eq [of x 16 16] by simp
  moreover have "(m OR k) div 16 = m div 16 OR k div 16"
    using drop_bit_or [of 4 m k] by (simp add: drop_bit_eq_div)
  ultimately show ?thesis by simp
qed

lemma version_nibble: "of_char (char_of ((n AND 0x0f) OR (0x50 :: nat))) div 16 = (5 :: nat)"
proof -
  have "n AND 0x0f = n mod 16" using take_bit_eq_mask [of 4 n] by (simp add: take_bit_eq_mod mask_eq_exp_minus_1)
  then have "(n AND 0x0f) div 16 = 0" by simp
  then show ?thesis unfolding high_nibble by simp
qed

lemma variant_nibble: "of_char (char_of ((n AND 0x3f) OR (0x80 :: nat))) div 16 \<in> {8, 9, 10, 11 :: nat}"
proof -
  have "n AND 0x3f = n mod 64" using take_bit_eq_mask [of 6 n] by (simp add: take_bit_eq_mod mask_eq_exp_minus_1)
  then have "(n AND 0x3f) div 16 < 4" by (simp add: less_mult_imp_div_less)
  then have "(n AND 0x3f) div 16 = 0 \<or> (n AND 0x3f) div 16 = 1 \<or> (n AND 0x3f) div 16 = 2 \<or> (n AND 0x3f) div 16 = 3" by linarith
  then show ?thesis unfolding high_nibble by auto
qed

lemma hex_digit_values:
  "hex_digit 5 = CHR ''5''" "hex_digit 8 = CHR ''8''" "hex_digit 9 = CHR ''9''" "hex_digit 10 = CHR ''a''"
  "hex_digit 11 = CHR ''b''"
  by code_simp+

definition is_user :: "json \<Rightarrow> bool" where
  "is_user r \<longleftrightarrow> (case as_object r of None \<Rightarrow> False | Some m \<Rightarrow> role_of m = ''user'')"

text \<open>A message of a later turn: no instruction, no block marked for caching.\<close>

definition later_turn :: "json \<Rightarrow> bool" where
  "later_turn r \<longleftrightarrow>
     (case as_object r of
        None \<Rightarrow> True
      | Some m \<Rightarrow> role_of m \<noteq> ''system'' \<and> role_of m \<noteq> ''developer'' \<and> cachedTextBlocks (jget m ''content'') = [])"

lemma message_prefix_append:
  "message_prefix lib (ms @ later) f = message_prefix lib ms f @ message_prefix lib later (f \<or> (\<exists>r \<in> set ms. is_user r))"
  by (induction ms arbitrary: f) (auto simp: is_user_def split: option.split)

lemma message_prefix_later: "\<forall>r \<in> set later. later_turn r \<Longrightarrow> message_prefix lib later True = []"
  by (induction later) (auto simp: later_turn_def split: option.splits)

lemma anchor_loop_append:
  "anchor_loop (ms @ later) parts f = (let (parts, f) = anchor_loop ms parts f in anchor_loop later parts f)"
  by (induction ms arbitrary: parts f) (auto simp: Let_def split: option.split)

lemma anchor_loop_later: "\<forall>r \<in> set later. later_turn r \<Longrightarrow> anchor_loop later parts f = (parts, f)"
  by (induction later) (auto simp: later_turn_def Let_def split: option.splits)

lemma seed_later:
  assumes "\<exists>r \<in> set ms. is_user r" "\<forall>r \<in> set later. later_turn r"
  shows "sessionAffinitySeed lib h model ((''messages'', JArr (ms @ later)) # rest) =
    sessionAffinitySeed lib h model ((''messages'', JArr ms) # rest)"
proof -
  have ne: "ms \<noteq> []" using assms(1) by auto
  have other: "jget ((''messages'', JArr xs) # rest) key = jget rest key" if "key \<noteq> ''messages''" for xs key
    using that by (simp add: jget_def)
  have msgs: "valueSlice (jget ((''messages'', JArr xs) # rest) ''messages'') = xs" for xs
    by (simp add: jget_def valueSlice_def)
  have "message_prefix lib (ms @ later) False = message_prefix lib ms False"
    using assms by (simp add: message_prefix_append message_prefix_later)
  then have "cachePrefix lib model ((''messages'', JArr (ms @ later)) # rest) = cachePrefix lib model ((''messages'', JArr ms) # rest)"
    using ne by (simp add: cachePrefix_def Let_def other msgs appendMessagePrefix_def)
  moreover have "anthropicCacheAnchor sys (ms @ later) = anthropicCacheAnchor sys ms" for sys
    using anchor_loop_later [OF assms(2)] by (simp add: anthropicCacheAnchor_def anchor_loop_append case_prod_unfold Let_def)
  ultimately show ?thesis by (simp add: sessionAffinitySeed_def Let_def other msgs stringField_def)
qed

section \<open>Properties\<close>

text \<open>A conversation keeps its session key. When a chat request already contains a user message, adding further
  messages at its end that are neither instructions nor marked for caching (the later turns of the conversation)
  changes nothing in the session affinity key, so later turns go to the account of the first one.\<close>

theorem session_key_stable:
  assumes "\<exists>r \<in> set ms. is_user r" "\<forall>r \<in> set later. later_turn r"
  shows "SessionAffinityKey (resolveCacheIdentities lib tenant h model ((''messages'', JArr (ms @ later)) # rest)) =
    SessionAffinityKey (resolveCacheIdentities lib tenant h model ((''messages'', JArr ms) # rest))"
  using seed_later [OF assms] by (simp add: resolveCacheIdentities_def)

definition sample_lib :: CacheLib where
  "sample_lib = \<lparr>Sum256 = (\<lambda>s. take 32 (s @ replicate 32 (CHR ''x''))), Marshal = (\<lambda>v. Some (as_string v)),
                 UnmarshalObject = (\<lambda>_. None)\<rparr>"

theorem session_key_stable_witness:
  "SessionAffinityKey (resolveCacheIdentities sample_lib ''t'' (\<lambda>_. '''') ''grok'' [(''messages'',
       JArr [JObj [(''role'', JStr ''user''), (''content'', JStr ''hi'')],
             JObj [(''role'', JStr ''assistant''), (''content'', JStr ''hello'')]])]) =
   SessionAffinityKey (resolveCacheIdentities sample_lib ''t'' (\<lambda>_. '''') ''grok'' [(''messages'',
       JArr [JObj [(''role'', JStr ''user''), (''content'', JStr ''hi'')]])])"
proof -
  let ?u = "JObj [(''role'', JStr ''user''), (''content'', JStr ''hi'')]"
  let ?a = "JObj [(''role'', JStr ''assistant''), (''content'', JStr ''hello'')]"
  have "\<exists>r \<in> set [?u]. is_user r" "\<forall>r \<in> set [?a]. later_turn r" by code_simp+
  from session_key_stable [OF this, of sample_lib "''t''" "\<lambda>_. ''''" "''grok''" "[]"] show ?thesis by simp
qed

text \<open>Identities are UUIDs. Given that a SHA-256 digest has 32 bytes, every identity is 36 characters long,
  in the 8-4-4-4-12 layout, with version 5 and the RFC 4122 variant.\<close>

theorem identity_is_uuid:
  assumes "\<forall>x. length (Sum256 lib x) = 32"
  shows "let u = scopedCacheIdentity lib ns scope model seed
    in length u = 36 \<and> (\<forall>i \<in> {8, 13, 18, 23}. u ! i = CHR ''-'') \<and> u ! 14 = CHR ''5''
       \<and> u ! 19 \<in> {CHR ''8'', CHR ''9'', CHR ''a'', CHR ''b''}"
proof -
  define dg where "dg = take 16 (Sum256 lib (ns @ '':'' @ scope @ '':'' @ ToLower (TrimSpace model) @ '':'' @ seed))"
  define v where "v = (dg[6 := char_of ((of_char (dg ! 6) AND 0x0f) OR (0x50 :: nat))])
      [8 := char_of ((of_char (dg ! 8) AND 0x3f) OR (0x80 :: nat))]"
  define en where "en = EncodeToString v"
  have dg: "length dg = 16" using assms by (simp add: dg_def)
  then have v: "length v = 16" "v ! 6 = char_of ((of_char (dg ! 6) AND 0x0f) OR (0x50 :: nat))"
    "v ! 8 = char_of ((of_char (dg ! 8) AND 0x3f) OR (0x80 :: nat))" by (simp_all add: v_def)
  have len: "length en = 32" by (simp add: en_def EncodeToString_length v(1))
  have n12: "en ! 12 = CHR ''5''"
    using EncodeToString_nth [of 6 v] v(1) version_nibble [of "of_char (dg ! 6)", folded v(2)]
    by (simp add: en_def hex_digit_values)
  have n16: "en ! 16 \<in> {CHR ''8'', CHR ''9'', CHR ''a'', CHR ''b''}"
  proof -
    define k where "k = (of_char (v ! 8) div 16 :: nat)"
    have "k \<in> {8, 9, 10, 11}" using variant_nibble unfolding k_def v(3) .
    moreover have "en ! 16 = hex_digit k" using EncodeToString_nth [of 8 v] v(1) by (simp add: en_def k_def)
    ultimately show ?thesis by (auto simp: hex_digit_values)
  qed
  have u: "scopedCacheIdentity lib ns scope model seed = take 8 en @ ''-'' @ take 4 (drop 8 en) @ ''-'' @ take 4 (drop 12 en)
      @ ''-'' @ take 4 (drop 16 en) @ ''-'' @ drop 20 en"
    by (simp add: scopedCacheIdentity_def Let_def dg_def v_def en_def)
  show ?thesis
    unfolding u Let_def using len n12 n16 by (simp add: nth_append)
qed

theorem identity_is_uuid_witness:
  "length (scopedCacheIdentity sample_lib ''n'' ''s'' ''m'' ''x'') = 36"
proof -
  have "\<forall>x. length (Sum256 sample_lib x) = 32" by (auto simp: sample_lib_def)
  from identity_is_uuid [OF this, of "''n''" "''s''" "''m''" "''x''"] show ?thesis by (simp add: Let_def)
qed

end
