(* ===== verification/Gateway_Handler.thy ===== *)
theory Gateway_Handler
  imports Pool_Release Quota_Headers Gateway_Validation Cache_Identity
begin

text \<open>
  The request path of the gateway (\<open>internal/gateway/handler.go\<close>): routing, the checks of a
  request, the loop that tries accounts, and the error replies.

  The upstream client, the proxy lookup and the credential refresh are functions over the same world
  as the pool's collaborators. Reading the request body is not modelled: a handler gets the
  decoded payload or the error of reading it. A successful upstream response ends in the outcome that names
  what follows (\<open>stream\<close>, \<open>nonStream\<close>); the theory \<open>Gateway_Serve\<close> continues from there.
\<close>

section \<open>Configuration\<close>

record HandlerConfig =
  HeartbeatInterval :: duration
  MaxBodyBytes :: int
  MaxAttempts :: int
  VideoPollInterval :: duration
  VideoPollTimeout :: duration

definition normalize_config :: "HandlerConfig \<Rightarrow> HandlerConfig" where
  "normalize_config c =
     \<lparr>HeartbeatInterval = (if HeartbeatInterval c \<le> 0 then 15 * Second else HeartbeatInterval c),
      MaxBodyBytes = (if MaxBodyBytes c \<le> 0 then 16777216 else MaxBodyBytes c),
      MaxAttempts = (if MaxAttempts c \<le> 0 then 3 else MaxAttempts c),
      VideoPollInterval = (if VideoPollInterval c \<le> 0 then 2 * Second else VideoPollInterval c),
      VideoPollTimeout = (if VideoPollTimeout c \<le> 0 then 10 * Minute else VideoPollTimeout c)\<rparr>"

text \<open>\<open>configured\<close> tells whether the model source, the pool and the client are all configured.\<close>

definition NewHandler :: "bool \<Rightarrow> HandlerConfig \<Rightarrow> error + HandlerConfig" where
  "NewHandler configured c =
     (if \<not> configured then Inl (ErrText ''gateway requires model source, account pool, and upstream client'')
      else Inr (normalize_config c))"

definition maxBodyBytes :: "HandlerConfig \<Rightarrow> int option \<Rightarrow> int" where
  "maxBodyBytes c dynamic =
     (case dynamic of Some v \<Rightarrow> if 0 < v then v else MaxBodyBytes c | None \<Rightarrow> MaxBodyBytes c)"

record GatewayCompletion =
  gc_AccountID :: string
  gc_Usage :: Usage
  gc_UsageParsed :: bool
  gc_CacheIdentityApplied :: bool
  gc_CacheAffinityReused :: bool
  gc_CacheAffinityEstablished :: bool

record 'w Gateway =
  gw_deps :: "'w Deps"
  gw_config :: HandlerConfig
  gw_Do :: "Request \<Rightarrow> 'w \<Rightarrow> (error + Response) \<times> 'w"
  gw_ProxyURL :: "(string \<Rightarrow> 'w \<Rightarrow> (error + string) \<times> 'w) option"
  gw_RefreshAccount :: "(string \<Rightarrow> 'w \<Rightarrow> error option \<times> 'w) option"
  gw_OnCompletion :: "(GatewayCompletion \<Rightarrow> 'w \<Rightarrow> 'w) option"
  gw_parsers :: TimeParsers
  gw_lib :: CacheLib

section \<open>Classification of responses\<close>

definition retryable :: "int \<Rightarrow> bool" where
  "retryable status \<longleftrightarrow> status = 401 \<or> status = 403 \<or> status = 423 \<or> status = 429 \<or> 500 \<le> status"

definition isUpstreamProtectionChallenge :: "Response \<Rightarrow> bool" where
  "isUpstreamProtectionChallenge r =
     (if resp_StatusCode r \<noteq> 403 then False
      else if match_fold ''challenge'' (TrimSpace (resp_Header r ''CF-Mitigated'')) = Some '''' then True
      else (let lowerBody = ToLower (resp_Body r)
            in if Contains lowerBody ''challenges.cloudflare.com'' \<or> Contains lowerBody ''cf-chl-''
                  \<or> Contains lowerBody ''<title>just a moment...</title>'' then True
               else if \<not> Contains (ToLower (resp_Header r ''Server'')) ''cloudflare'' then False
               else (let contentType = ToLower (resp_Header r ''Content-Type''); trimmed = TrimSpace (resp_Body r)
                     in Contains contentType ''text/html'' \<or> HasPrefix (ToLower trimmed) ''<!doctype html''
                        \<or> HasPrefix (ToLower trimmed) ''<html'')))"

definition upstreamProtectionChallengeMessage :: "int \<Rightarrow> string" where
  "upstreamProtectionChallengeMessage code =
     ''upstream protection challenge returned HTTP '' @ FormatInt code @ ''; check the account proxy and retry''"

definition upstreamErrorMessage :: "CacheLib \<Rightarrow> Response \<Rightarrow> string" where
  "upstreamErrorMessage lib r =
     (if isUpstreamProtectionChallenge r then upstreamProtectionChallengeMessage (resp_StatusCode r)
      else if 0 < length (resp_Body r)
      then (case UnmarshalObject lib (resp_Body r) of
              None \<Rightarrow> TrimSpace (resp_Body r)
            | Some payload \<Rightarrow>
                if as_string (jget payload ''message'') \<noteq> '''' then as_string (jget payload ''message'')
                else (case as_object (jget payload ''error'') of
                        None \<Rightarrow> TrimSpace (resp_Body r)
                      | Some nested \<Rightarrow>
                          if as_string (jget nested ''message'') \<noteq> '''' then as_string (jget nested ''message'')
                          else TrimSpace (resp_Body r)))
      else ''upstream returned status '' @ FormatInt (resp_StatusCode r))"

text \<open>A \<open>nil\<close> response is \<^const>\<open>None\<close>; \<open>wall\<close> is the wall clock.\<close>

definition feedbackFromResponse :: "TimeParsers \<Rightarrow> time \<Rightarrow> Response option \<Rightarrow> error option \<Rightarrow> Feedback" where
  "feedbackFromResponse tp wall response err =
     (case response of
        None \<Rightarrow> \<lparr>StatusCode = 502, RetryAfter = 0, fb_Quota = None, fb_Err = err\<rparr>
      | Some r \<Rightarrow>
          if isUpstreamProtectionChallenge r
          then \<lparr>StatusCode = 0, RetryAfter = retryAfter tp (resp_Header r) wall,
                fb_Quota = quotaFromHeaders tp (resp_Header r) wall,
                fb_Err = Some (ErrText (upstreamProtectionChallengeMessage (resp_StatusCode r)))\<rparr>
          else \<lparr>StatusCode = resp_StatusCode r, RetryAfter = retryAfter tp (resp_Header r) wall,
                fb_Quota = quotaFromHeaders tp (resp_Header r) wall, fb_Err = err\<rparr>)"

definition mapStatus :: "int \<Rightarrow> int" where
  "mapStatus status =
     (if status = 400 \<or> status = 401 \<or> status = 403 \<or> status = 404 \<or> status = 429 then status else 502)"

definition errorType :: "int \<Rightarrow> string" where
  "errorType status =
     (if status = 429 then ''rate_limit_error''
      else if 400 \<le> status \<and> status < 500 then ''invalid_request_error''
      else ''server_error'')"

definition forwardedHeaders :: "header \<Rightarrow> header" where
  "forwardedHeaders source =
     (\<lambda>key. if key \<in> {''X-Grok-Conv-Id'', ''X-Claude-Code-Session-Id'', ''X-Request-Id''} then source key else '''')"

definition scalar :: "string \<Rightarrow> json" where
  "scalar value =
     (if ToLower value = ''true'' then JBool True
      else if ToLower value = ''false'' then JBool False
      else JStr value)"

section \<open>Routing and replies\<close>

definition operationForPath :: "string \<Rightarrow> Operation" where
  "operationForPath path =
     (let p = TrimSuffix path ''/''
      in if p = ''/v1/chat/completions'' then OperationChat
         else if p = ''/v1/responses'' then OperationResponses
         else if p = ''/v1/messages'' then OperationMessages
         else if p = ''/v1/images/generations'' then OperationImage
         else if p = ''/v1/images/edits'' then OperationImageEdit
         else if p = ''/v1/videos'' \<or> p = ''/v1/videos/generations'' then OperationVideo
         else OperationNone)"

definition isConversational :: "Operation \<Rightarrow> bool" where
  "isConversational op \<longleftrightarrow> op = OperationChat \<or> op = OperationResponses \<or> op = OperationMessages"

definition allowsOperation :: "ModelSpec \<Rightarrow> Operation \<Rightarrow> bool" where
  "allowsOperation model op =
     (let c = model_Capability model
      in case op of
           OperationChat \<Rightarrow> c = CapabilityChat \<or> c = CapabilityImage \<or> c = CapabilityImageEdit \<or> c = CapabilityVideo
         | OperationResponses \<Rightarrow> c = CapabilityResponses \<or> c = CapabilityChat
         | OperationMessages \<Rightarrow> c = CapabilityMessages \<or> c = CapabilityChat
         | OperationImage \<Rightarrow> c = CapabilityImage
         | OperationImageEdit \<Rightarrow> c = CapabilityImageEdit
         | OperationVideo \<Rightarrow> c = CapabilityVideo
         | _ \<Rightarrow> False)"

record Reply =
  reply_status :: int
  reply_body :: json

definition writeError :: "int \<Rightarrow> string \<Rightarrow> string \<Rightarrow> string \<Rightarrow> string \<Rightarrow> Reply" where
  "writeError status message kind code parameter =
     \<lparr>reply_status = status,
      reply_body = JObj [(''error'', JObj ([(''message'', JStr message), (''type'', JStr kind), (''code'', JStr code)]
                     @ (if parameter \<noteq> '''' then [(''param'', JStr parameter)] else [])))]\<rparr>"

definition anthropic_kind :: "int \<Rightarrow> string" where
  "anthropic_kind status =
     (if status = 400 then ''invalid_request_error'' else if status = 401 then ''authentication_error''
      else if status = 403 then ''permission_error'' else if status = 404 then ''not_found_error''
      else if status = 413 then ''request_too_large'' else if status = 429 then ''rate_limit_error''
      else if status = 503 then ''overloaded_error'' else ''api_error'')"

definition writeOperationError :: "Operation \<Rightarrow> int \<Rightarrow> string \<Rightarrow> string \<Rightarrow> string \<Rightarrow> string \<Rightarrow> Reply" where
  "writeOperationError op status message kind code parameter =
     (if op \<noteq> OperationMessages then writeError status message kind code parameter
      else \<lparr>reply_status = status,
            reply_body = JObj [(''type'', JStr ''error''),
              (''error'', JObj [(''type'', JStr (anthropic_kind status)), (''message'', JStr message)])]\<rparr>)"

section \<open>invoke\<close>

definition plain_feedback :: "int \<Rightarrow> error option \<Rightarrow> Feedback" where
  "plain_feedback code err = \<lparr>StatusCode = code, RetryAfter = 0, fb_Quota = None, fb_Err = err\<rparr>"

text \<open>\<open>_ = lease.Release(context.Background(), feedback)\<close>: the error is dropped.\<close>

definition give_back :: "'w Deps \<Rightarrow> Lease \<Rightarrow> Feedback \<Rightarrow> Pool \<Rightarrow> 'w \<Rightarrow> Pool \<times> 'w" where
  "give_back d l fb p w = (let (r, l, p, w) = Release d None l fb p w in (p, w))"

record call =
  call_op :: Operation
  call_model :: ModelSpec
  call_body :: string
  call_headers :: header
  call_stream :: bool
  call_affinity :: string
  call_cacheKey :: string

definition upstream_request :: "call \<Rightarrow> Lease \<Rightarrow> string \<Rightarrow> Request" where
  "upstream_request c l proxy =
     \<lparr>req_Operation = call_op c, req_Model = model_ID (call_model c), req_UpstreamModel = UpstreamModel (call_model c),
      PromptCacheKey = call_cacheKey c, req_CredentialKind = Kind (lease_Account l),
      req_Credentials = lease_Credentials l, ProxyURL = proxy, req_Body = call_body c,
      req_Headers = forwardedHeaders (call_headers c), req_Stream = call_stream c, VideoID = '''', StatusURL = ''''\<rparr>"

definition resolve_proxy :: "'w Gateway \<Rightarrow> Lease \<Rightarrow> 'w \<Rightarrow> (error + string) \<times> 'w" where
  "resolve_proxy g l w =
     (case gw_ProxyURL g of
        Some f \<Rightarrow> if ProxyID (lease_Account l) \<noteq> '''' then f (ProxyID (lease_Account l)) w else (Inr '''', w)
      | None \<Rightarrow> (Inr '''', w))"

text \<open>What an attempt with a lease ends in: the response, or another round.\<close>

datatype 'w attempt = Done Response 'w | Retry "error option" bool bool Feedback 'w

text \<open>
  \<open>Retry err exclude refreshed fb\<close>: the new last error (if it changed), whether the account is
  excluded, whether its credential was refreshed, and the feedback the lease is released with.
\<close>

definition attempt_with :: "'w Gateway \<Rightarrow> call \<Rightarrow> bool \<Rightarrow> string list \<Rightarrow> Lease \<Rightarrow> 'w \<Rightarrow> 'w attempt" where
  "attempt_with g c again refreshed l w =
     (let (pr, w) = resolve_proxy g l w
      in case pr of
           Inl e \<Rightarrow> Retry (Some e) True False (plain_feedback 502 (Some e)) w
         | Inr proxy \<Rightarrow>
             (let (ur, w) = gw_Do g (upstream_request c l proxy) w
              in case ur of
                   Inl e \<Rightarrow> Retry (Some e) True False (plain_feedback 502 (Some e)) w
                 | Inr r \<Rightarrow>
                     (let aid = ID (lease_Account l);
                          refresh = resp_StatusCode r = 401 \<and> Kind (lease_Account l) = CredentialCLIOAuth
                                    \<and> gw_RefreshAccount g \<noteq> None \<and> again \<and> aid \<notin> set refreshed
                      in if refresh
                         then (let (re, w) = the (gw_RefreshAccount g) aid w
                               in Retry re (re \<noteq> None) True (plain_feedback 499 None) w)
                         else if retryable (resp_StatusCode r) \<and> again
                         then (let err = ErrText (upstreamErrorMessage (gw_lib g) r);
                                   (wall, w) = now_fn (gw_deps g) w
                               in Retry (Some err) True False
                                    (feedbackFromResponse (gw_parsers g) wall (Some r) (Some err)) w)
                         else Done r w)))"

text \<open>The loop over the attempts; the first argument counts the attempts left.\<close>

fun invoke_loop ::
  "nat \<Rightarrow> 'w Gateway \<Rightarrow> call \<Rightarrow> error option \<Rightarrow> string list \<Rightarrow> string list \<Rightarrow> error option \<Rightarrow> Pool \<Rightarrow> 'w
    \<Rightarrow> ((error + Response \<times> Lease) \<times> Pool \<times> 'w) option" where
  "invoke_loop 0 g c ctxErr excl refreshed lastErr p w =
     Some (Inl (case lastErr of None \<Rightarrow> ErrNoAccount | Some e \<Rightarrow> e), p, w)"
| "invoke_loop (Suc n) g c ctxErr excl refreshed lastErr p w =
     (case Acquire (gw_deps g) ctxErr
             \<lparr>sel_Model = call_model c, AffinityKey = call_affinity c, ExcludeIDs = excl\<rparr> p w of
        None \<Rightarrow> None
      | Some (Inl e, p, w) \<Rightarrow> Some (Inl (case lastErr of None \<Rightarrow> e | Some e \<Rightarrow> e), p, w)
      | Some (Inr l, p, w) \<Rightarrow>
          (case attempt_with g c (0 < n) refreshed l w of
             Done r w \<Rightarrow> Some (Inr (r, l), p, w)
           | Retry err exclude refresh fb w \<Rightarrow>
               (let (p, w) = give_back (gw_deps g) l fb p w
                in invoke_loop n g c ctxErr
                     (if exclude then ID (lease_Account l) # excl else excl)
                     (if refresh then ID (lease_Account l) # refreshed else refreshed)
                     (case err of None \<Rightarrow> lastErr | Some e \<Rightarrow> Some e) p w)))"

definition invoke ::
  "'w Gateway \<Rightarrow> call \<Rightarrow> error option \<Rightarrow> Pool \<Rightarrow> 'w \<Rightarrow> ((error + Response \<times> Lease) \<times> Pool \<times> 'w) option" where
  "invoke g c ctxErr p w = invoke_loop (nat (MaxAttempts (gw_config g))) g c ctxErr [] [] None p w"

section \<open>handleOperation and ServeHTTP\<close>

text \<open>The lease is never \<open>nil\<close> where the handler reports.\<close>

definition reportCompletion :: "'w Gateway \<Rightarrow> Lease \<Rightarrow> Usage \<Rightarrow> bool \<Rightarrow> 'w \<Rightarrow> 'w" where
  "reportCompletion g l value parsed w =
     (case gw_OnCompletion g of
        None \<Rightarrow> w
      | Some f \<Rightarrow> f \<lparr>gc_AccountID = ID (lease_Account l), gc_Usage = value, gc_UsageParsed = parsed,
                      gc_CacheIdentityApplied = CacheIdentityApplied l, gc_CacheAffinityReused = AffinityReused l,
                      gc_CacheAffinityEstablished = CacheAffinityEstablished l\<rparr> w)"

datatype outcome =
    Replied Reply
  | Streaming Response Lease
  | NonStreaming Response Lease

text \<open>The checks before the upstream call: a reply, or the resolved model.\<close>

definition check_request ::
  "(string \<Rightarrow> error + ModelSpec) \<Rightarrow> Operation \<Rightarrow> string + (string \<times> (string \<times> json) list) \<Rightarrow> Reply + ModelSpec" where
  "check_request resolve op body =
     (case body of
        Inl msg \<Rightarrow> Inl (writeOperationError op 400 msg ''invalid_request_error'' ''invalid_json'' ''body'')
      | Inr (raw, payload) \<Rightarrow>
          (let modelName = as_string (jget payload ''model'')
           in if TrimSpace modelName = ''''
              then Inl (writeOperationError op 400 ''model is required'' ''invalid_request_error'' ''missing_parameter'' ''model'')
              else
                (let missing = writeOperationError op 404
                       (''Model '' @ Quote modelName @ '' does not exist or is unavailable for this endpoint'')
                       ''invalid_request_error'' ''model_not_found'' ''model''
                 in case resolve modelName of
                      Inl e \<Rightarrow> Inl missing
                    | Inr model \<Rightarrow>
                        if \<not> allowsOperation model op then Inl missing
                        else (case validateOperationPayload op payload of
                                Some i \<Rightarrow> Inl (writeOperationError op 400 (iss_message i) ''invalid_request_error''
                                                (iss_code i) (iss_param i))
                              | None \<Rightarrow> Inr model))))"

text \<open>The error text is an argument: it is what \<open>err.Error()\<close> prints.\<close>

definition invoke_error_reply :: "(error \<Rightarrow> string) \<Rightarrow> Operation \<Rightarrow> error \<Rightarrow> Reply" where
  "invoke_error_reply show op e =
     (if errors_is e ErrNoAccount
      then writeOperationError op 429 (show e) (errorType 429) ''rate_limit_exceeded'' ''''
      else writeOperationError op 502 (show e) (errorType 502) ''upstream_error'' '''')"

definition handleOperation ::
  "'w Gateway \<Rightarrow> (error \<Rightarrow> string) \<Rightarrow> (string \<Rightarrow> error + ModelSpec) \<Rightarrow> ClientKey option \<Rightarrow> header \<Rightarrow> Operation
    \<Rightarrow> string + (string \<times> (string \<times> json) list) \<Rightarrow> error option \<Rightarrow> Pool \<Rightarrow> 'w \<Rightarrow> (outcome \<times> Pool \<times> 'w) option" where
  "handleOperation g show resolve key h op body ctxErr p w =
     (case check_request resolve op body of
        Inl reply \<Rightarrow> Some (Replied reply, p, w)
      | Inr model \<Rightarrow>
          (let raw = (case body of Inl _ \<Rightarrow> '''' | Inr (raw, payload) \<Rightarrow> raw);
               payload = (case body of Inl _ \<Rightarrow> [] | Inr (raw, payload) \<Rightarrow> payload);
               stream = (jget payload ''stream'' = JBool True);
               ids = requestCacheIdentities (gw_lib g) key h (model_ID model) payload
           in case invoke g \<lparr>call_op = op, call_model = model, call_body = raw, call_headers = h, call_stream = stream,
                             call_affinity = SessionAffinityKey ids, call_cacheKey = ci_PromptCacheKey ids\<rparr> ctxErr p w of
                None \<Rightarrow> None
              | Some (Inl e, p, w) \<Rightarrow> Some (Replied (invoke_error_reply show op e), p, w)
              | Some (Inr (r, l), p, w) \<Rightarrow>
                  if resp_StatusCode r < 200 \<or> 300 \<le> resp_StatusCode r
                  then (let message = upstreamErrorMessage (gw_lib g) r;
                            w = reportCompletion g l \<lparr>InputTokens = 0, OutputTokens = 0, CachedTokens = 0\<rparr> False w;
                            (wall, w) = now_fn (gw_deps g) w;
                            (p, w) = give_back (gw_deps g) l
                                       (feedbackFromResponse (gw_parsers g) wall (Some r) (Some (ErrText message))) p w
                        in Some (Replied (writeOperationError op (mapStatus (resp_StatusCode r)) message
                                   (errorType (mapStatus (resp_StatusCode r))) ''upstream_error'' ''''), p, w))
                  else if stream \<and> isConversational op then Some (Streaming r l, p, w)
                  else Some (NonStreaming r l, p, w)))"

datatype route =
    RouteError Reply | RouteModels | RouteModel string | RouteVideo string | RouteOperation Operation

definition ServeHTTP :: "string option \<Rightarrow> string \<Rightarrow> string \<Rightarrow> route" where
  "ServeHTTP initErr meth urlPath =
     (let path = TrimSuffix urlPath ''/''; pathOperation = operationForPath path
      in case initErr of
           Some e \<Rightarrow> RouteError (writeOperationError pathOperation 500 e ''server_error'' ''gateway_not_configured'' '''')
         | None \<Rightarrow>
             if meth = ''GET'' \<and> path = ''/v1/models'' then RouteModels
             else if meth = ''GET'' \<and> HasPrefix path ''/v1/models/'' then RouteModel (TrimPrefix path ''/v1/models/'')
             else if meth = ''GET'' \<and> HasPrefix path ''/v1/videos/'' then RouteVideo (TrimPrefix path ''/v1/videos/'')
             else if meth \<noteq> ''POST''
             then RouteError (writeOperationError pathOperation 404 ''Route not found'' ''invalid_request_error'' ''not_found'' '''')
             else if path = ''/v1/chat/completions'' then RouteOperation OperationChat
             else if path = ''/v1/responses'' then RouteOperation OperationResponses
             else if path = ''/v1/messages'' then RouteOperation OperationMessages
             else if path = ''/v1/images/generations'' then RouteOperation OperationImage
             else if path = ''/v1/images/edits'' then RouteOperation OperationImageEdit
             else if path = ''/v1/videos'' \<or> path = ''/v1/videos/generations'' then RouteOperation OperationVideo
             else RouteError (writeError 404 ''Route not found'' ''invalid_request_error'' ''not_found'' ''''))"

definition model_json :: "ModelSpec \<Rightarrow> json" where
  "model_json m =
     JObj [(''id'', JStr (model_ID m)), (''object'', JStr ''model''),
           (''created'', JNumber (FormatInt (unix_seconds (model_CreatedAt m)))), (''owned_by'', JStr ''xai''),
           (''name'', JStr (DisplayName m))]"

definition models_reply :: "error + ModelSpec list \<Rightarrow> Reply" where
  "models_reply listing =
     (case listing of
        Inl e \<Rightarrow> writeError 500 ''Failed to load models'' ''server_error'' ''model_list_failed'' ''''
      | Inr ms \<Rightarrow> \<lparr>reply_status = 200, reply_body = JObj [(''object'', JStr ''list''), (''data'', JArr (map model_json ms))]\<rparr>)"

definition model_reply :: "(string \<Rightarrow> error + ModelSpec) \<Rightarrow> string \<Rightarrow> Reply" where
  "model_reply resolve modelID =
     (case resolve modelID of
        Inl e \<Rightarrow> writeError 404 (''Model '' @ Quote modelID @ '' does not exist'') ''invalid_request_error'' ''model_not_found'' ''model''
      | Inr m \<Rightarrow> \<lparr>reply_status = 200, reply_body = model_json m\<rparr>)"

end
