(* ===== verification/Gateway_Properties.thy ===== *)
theory Gateway_Properties
  imports Gateway_Handler
begin

text \<open>
  What a request does to the pool: the attempts end, every reservation but the one that is returned
  is given back, and feedback reaches the account in the right form.
\<close>

section \<open>Counters across acquire and release\<close>

text \<open>No counter is higher than before, except by one on the account a lease is held on.\<close>

definition no_leak :: "Pool \<Rightarrow> Pool \<Rightarrow> Lease option \<Rightarrow> bool" where
  "no_leak p q held \<longleftrightarrow> wf_pool q \<and>
     (\<forall>k. inflight_of q k \<le> inflight_of p k + (case held of None \<Rightarrow> 0 | Some l \<Rightarrow> if lease_id l = k then 1 else 0))"

lemma no_leak_trans: "no_leak p q None \<Longrightarrow> no_leak q r held \<Longrightarrow> no_leak p r held"
  by (simp add: no_leak_def) (meson add_right_mono order_trans)

lemma inflight_of_gone: "k \<notin> fst ` set (states p) \<Longrightarrow> inflight_of p k = 0"
  by (auto simp: inflight_of_def split: option.splits dest: map_of_SomeD intro: rev_image_eqI)

lemma ensureLoaded_no_leak:
  assumes "ensureLoaded d c p w = (e, q, w')" "wf_pool p"
  shows "no_leak p q None"
proof -
  have "q = p \<or> (\<exists>items. q = reload_apply items p)"
    using assms(1) by (auto simp: ensureLoaded_def dest: Reload_pool split: if_splits)
  then have kept: "inflight_of q k = inflight_of p k" if "k \<in> fst ` set (states q)" for k
    using inflight_of_reload that by metis
  have "inflight_of q k \<le> inflight_of p k" for k
    using kept [of k] inflight_of_gone [of k q] inflight_of_nonneg [of p k] assms(2)
    by (cases "k \<in> fst ` set (states q)") (simp_all add: wf_pool_def)
  moreover have "wf_pool q" using assms by (rule wf_pool_ensureLoaded)
  ultimately show ?thesis by (simp add: no_leak_def)
qed

lemma Acquire_no_leak:
  assumes "Acquire d c sel p w = Some (r, q, w')" "wf_pool p"
  shows "no_leak p q (case r of Inl _ \<Rightarrow> None | Inr l \<Rightarrow> Some l)"
    and "r = Inr l \<Longrightarrow> lease_id l \<notin> set (ExcludeIDs sel) \<and> \<not> once_done l"
proof -
  from assms(1) have "no_leak p q (case r of Inl _ \<Rightarrow> None | Inr l \<Rightarrow> Some l)
      \<and> (\<forall>l. r = Inr l \<longrightarrow> lease_id l \<notin> set (ExcludeIDs sel) \<and> \<not> once_done l)"
  proof (cases rule: Acquire_cases)
    case (early e q' w'' e0 w1)
    with ensureLoaded_no_leak [OF early(2) assms(2)] show ?thesis by simp
  next
    case (loop q1 w1 ua aff w2)
    have n1: "no_leak p q1 None" using loop(1) assms(2) by (rule ensureLoaded_no_leak)
    then have wf: "wf_pool q1" by (simp add: no_leak_def)
    show ?thesis
    proof (cases r)
      case (Inl e)
      have "no_leak q1 q None"
        using loop_fails [OF loop(2) [symmetric, unfolded Inl]] wf by (simp add: same_counts_def no_leak_def)
      with Inl n1 show ?thesis by (auto intro: no_leak_trans)
    next
      case (Inr l)
      note f = loop_leases [OF loop(2) [symmetric, unfolded Inr]]
      have "no_leak q1 q (Some l)" using f wf by (simp add: no_leak_def)
      with Inr n1 f wf show ?thesis by (auto intro: no_leak_trans)
    qed
  qed
  then show "no_leak p q (case r of Inl _ \<Rightarrow> None | Inr l \<Rightarrow> Some l)"
    and "r = Inr l \<Longrightarrow> lease_id l \<notin> set (ExcludeIDs sel) \<and> \<not> once_done l" by auto
qed

lemma Release_no_leak:
  assumes "no_leak p q (Some l)" "\<not> once_done l" "Release d c l fb q w = (r, l', q', w')" "wf_pool p"
  shows "no_leak p q' None"
proof -
  have rel: "release d c l fb q w = (r, q', w')"
    using assms(2,3) by (auto simp: Release_def case_prod_unfold Let_def prod_eq_iff)
  have wf: "wf_pool q" using assms(1) by (simp add: no_leak_def)
  have "inflight_of q' k \<le> inflight_of p k" for k
  proof (cases "k \<in> fst ` set (states q')")
    case True
    have p: "0 \<le> inflight_of p k" using assms(4) by (intro inflight_of_nonneg) (simp add: wf_pool_def)
    have "inflight_of q k \<le> inflight_of p k + (if lease_id l = k then 1 else 0)"
      using assms(1) by (simp add: no_leak_def)
    with p release_counts [OF rel True] show ?thesis by (auto simp: counted_down_def split: if_splits)
  next
    case False
    have "0 \<le> inflight_of p k" using assms(4) by (intro inflight_of_nonneg) (simp add: wf_pool_def)
    with False show ?thesis by (simp add: inflight_of_gone)
  qed
  moreover have "wf_pool q'" using rel wf by (rule wf_pool_release)
  ultimately show ?thesis by (simp add: no_leak_def)
qed

lemma give_back_no_leak:
  "no_leak p q (Some l) \<Longrightarrow> \<not> once_done l \<Longrightarrow> give_back d l fb q w = (q', w') \<Longrightarrow> wf_pool p \<Longrightarrow> no_leak p q' None"
  by (auto simp: give_back_def Let_def split: prod.splits dest: Release_no_leak)

lemma Acquire_total: "wf_pool p \<Longrightarrow> \<exists>r q w'. Acquire d c sel p w = Some (r, q, w')"
  using refl [of "Acquire d c sel p w"]
proof (cases rule: Acquire_cases)
  case (loop q w1 ua aff w2)
  assume "wf_pool p"
  with loop(1) have "wf_pool q" by (rule wf_pool_ensureLoaded)
  then show ?thesis
    using loop(2) loop_ends [OF _ pending_bound, of "\<lparr>acq_pool = q, excluded = ExcludeIDs sel,
      capacityExcluded = [], coordinatedAffinity = aff, acq_world = w2\<rparr>" d sel ua]
    by (simp del: acquire_loop.simps)
qed auto

section \<open>The loop over the attempts\<close>

lemma invoke_loop_safe:
  assumes "wf_pool p"
  shows "\<exists>r q w'. invoke_loop n g c ctxErr excl refr le p w = Some (r, q, w')
    \<and> no_leak p q (case r of Inl _ \<Rightarrow> None | Inr (resp, l) \<Rightarrow> Some l)
    \<and> (\<forall>resp l. r = Inr (resp, l) \<longrightarrow> lease_id l \<notin> set excl \<and> \<not> once_done l)"
  using assms
proof (induction n arbitrary: excl refr le p w)
  case 0
  then show ?case by (simp add: no_leak_def)
next
  case (Suc n)
  let ?sel = "\<lparr>sel_Model = call_model c, AffinityKey = call_affinity c, ExcludeIDs = excl\<rparr>"
  obtain r p1 w1 where a: "Acquire (gw_deps g) ctxErr ?sel p w = Some (r, p1, w1)"
    using Acquire_total [OF Suc.prems, of "gw_deps g" ctxErr ?sel w] by auto
  note nl = Acquire_no_leak [OF a Suc.prems]
  show ?case
  proof (cases r)
    case (Inl e)
    with a nl show ?thesis by simp
  next
    case (Inr l)
    have l: "lease_id l \<notin> set excl" "\<not> once_done l" "no_leak p p1 (Some l)" using nl Inr by auto
    show ?thesis
    proof (cases "attempt_with g c (0 < n) refr l w1")
      case (Done resp w2)
      with a Inr l show ?thesis by simp
    next
      case (Retry err ex re fb w2)
      obtain p3 w3 where gb: "give_back (gw_deps g) l fb p1 w2 = (p3, w3)" by (rule prod.exhaust)
      have n3: "no_leak p p3 None" using l(3,2) gb Suc.prems by (rule give_back_no_leak)
      then have "wf_pool p3" by (simp add: no_leak_def)
      from Suc.IH [OF this, of "if ex then lease_id l # excl else excl"
          "if re then lease_id l # refr else refr" "case err of None \<Rightarrow> le | Some e \<Rightarrow> Some e" w3]
      show ?thesis using a Inr Retry gb n3 by (auto intro: no_leak_trans split: if_splits)
    qed
  qed
qed

section \<open>Properties\<close>

text \<open>C16: a request gives back every account it tried. The attempts of \<open>invoke\<close> end for every upstream, store and
  coordinator; when it fails, no in-flight counter is higher than before; when it returns a
  response, only the counter of the account of the returned lease is, by one, and that lease has not been
  released yet.\<close>

theorem invoke_no_leak:
  assumes "wf_pool p"
  shows "\<exists>r q w'. invoke g c ctxErr p w = Some (r, q, w') \<and> wf_pool q
    \<and> (\<forall>k. inflight_of q k \<le> inflight_of p k
         + (case r of Inl _ \<Rightarrow> 0 | Inr (resp, l) \<Rightarrow> if ID (lease_Account l) = k then 1 else 0))
    \<and> (\<forall>resp l. r = Inr (resp, l) \<longrightarrow> \<not> once_done l)"
proof -
  obtain r q w' where "invoke g c ctxErr p w = Some (r, q, w')"
    "no_leak p q (case r of Inl _ \<Rightarrow> None | Inr (resp, l) \<Rightarrow> Some l)"
    "\<forall>resp l. r = Inr (resp, l) \<longrightarrow> lease_id l \<notin> set [] \<and> \<not> once_done l"
    using invoke_loop_safe [OF assms, of "nat (MaxAttempts (gw_config g))" g c ctxErr "[]" "[]" None w]
    unfolding invoke_def by auto
  then show ?thesis
    by (intro exI [of _ r] exI [of _ q] exI [of _ w'])
      (cases r; simp add: no_leak_def split_beta)
qed

definition sample_gateway :: "sample_world Gateway" where
  "sample_gateway =
     \<lparr>gw_deps = sample_deps,
      gw_config = normalize_config \<lparr>HeartbeatInterval = 0, MaxBodyBytes = 0, MaxAttempts = 0, VideoPollInterval = 0, VideoPollTimeout = 0\<rparr>,
      gw_Do = (\<lambda>r w. (Inr \<lparr>resp_StatusCode = 503, resp_Header = (\<lambda>_. ''''), resp_Body = '''', resp_Events = None\<rparr>, w)),
      gw_ProxyURL = None, gw_RefreshAccount = None, gw_OnCompletion = None,
      gw_parsers = \<lparr>ParseDuration = (\<lambda>_. None), ParseTime = (\<lambda>_. None), ParseRFC3339 = (\<lambda>_. None)\<rparr>,
      gw_lib = sample_lib\<rparr>"

definition sample_call :: call where
  "sample_call = \<lparr>call_op = OperationChat, call_model = sample_model, call_body = ''{}'', call_headers = (\<lambda>_. ''''),
                  call_stream = False, call_affinity = ''session'', call_cacheKey = ''''\<rparr>"

theorem invoke_no_leak_witness:
  "\<exists>r q w'. invoke sample_gateway sample_call None sample_loaded sample_world0 = Some (r, q, w') \<and> wf_pool q"
  using invoke_no_leak [OF sample_loaded_wf, of sample_gateway sample_call None sample_world0] by auto

text \<open>A protection challenge does not cost the account. When the upstream answers 403 with an interstitial
  challenge of its protection layer, the feedback the gateway gives carries no status, so the release never
  disables the account: unless the quota is exhausted it backs off like a transient failure; a plain 403 of the
  same account disables it.\<close>

theorem challenge_keeps_account:
  assumes "isUpstreamProtectionChallenge r" "fb = feedbackFromResponse tp wall (Some r) err"
    and "\<not> isTerminalAccountStatus (Status (account s))" "e = release_current pol lease fb now s"
  shows "Status (account (eff_state e)) = AccountCooldown \<and> resp_StatusCode r = 403
    \<and> Status (account (eff_state (release_current pol lease (plain_feedback 403 err) now s))) = AccountDisabled"
proof -
  have f: "StatusCode fb = 0" "fb_Err fb \<noteq> None" using assms(1,2) by (simp_all add: feedbackFromResponse_def)
  have c: "resp_StatusCode r = 403" using assms(1) by (auto simp: isUpstreamProtectionChallenge_def split: if_splits)
  have "verdict_of pol lease fb now s \<in> {QuotaSpent, TransientFailure}"
    using f assms(3) by (auto simp: classify_def Let_def isPermanentCredentialFailure_def)
  then have "Status (account (eff_state e)) = AccountCooldown"
    unfolding assms(4) release_current_eq by (auto simp: apply_verdict_def Let_def)
  moreover have v: "verdict_of pol lease (plain_feedback 403 err) now s = PermanentFailure"
    using assms(3) by (auto simp: classify_def Let_def isPermanentCredentialFailure_def plain_feedback_def)
  have "Status (account (eff_state (release_current pol lease (plain_feedback 403 err) now s))) = AccountDisabled"
    unfolding release_current_eq v by (simp add: apply_verdict_def Let_def)
  ultimately show ?thesis using c by simp
qed

definition sample_challenge :: Response where
  "sample_challenge = \<lparr>resp_StatusCode = 403, resp_Header = (\<lambda>n. if n = ''CF-Mitigated'' then ''Challenge'' else ''''),
                       resp_Body = '''', resp_Events = None\<rparr>"

theorem challenge_keeps_account_witness:
  "Status (account (eff_state (release_current DefaultPolicy (sample_lease ''a'')
     (feedbackFromResponse (gw_parsers sample_gateway) 5 (Some sample_challenge) None) 5 sample_state))) = AccountCooldown"
proof -
  have "isUpstreamProtectionChallenge sample_challenge" "\<not> isTerminalAccountStatus (Status (account sample_state))"
    by code_simp+
  from challenge_keeps_account [OF this(1) refl this(2) refl] show ?thesis by blast
qed

lemma handleOperation_safe:
  assumes "wf_pool p"
  shows "\<exists>out q w'. handleOperation g show_err resolve key h op body ctxErr p w = Some (out, q, w')
    \<and> (case out of
         Replied reply \<Rightarrow> no_leak p q None \<and> reply_status reply \<in> {400, 401, 403, 404, 429, 502}
       | Streaming r l \<Rightarrow> no_leak p q (Some l) \<and> isConversational op \<and> 200 \<le> resp_StatusCode r \<and> resp_StatusCode r < 300 \<and> \<not> once_done l
       | NonStreaming r l \<Rightarrow> no_leak p q (Some l) \<and> 200 \<le> resp_StatusCode r \<and> resp_StatusCode r < 300 \<and> \<not> once_done l)"
proof -
  have st: "reply_status (writeOperationError op s m kd c pa) = s" for s m kd c pa
    by (simp add: writeOperationError_def writeError_def)
  show ?thesis
  proof (cases "check_request resolve op body")
    case (Inl reply)
    then have "reply_status reply \<in> {400, 404}"
      by (auto simp: check_request_def Let_def st split: sum.splits if_splits option.splits prod.splits)
    with Inl assms show ?thesis by (auto simp: handleOperation_def no_leak_def)
  next
    case (Inr model)
    let ?payload = "case body of Inl _ \<Rightarrow> [] | Inr (raw, payload) \<Rightarrow> payload"
    let ?ids = "requestCacheIdentities (gw_lib g) key h (model_ID model) ?payload"
    let ?call = "\<lparr>call_op = op, call_model = model, call_body = (case body of Inl _ \<Rightarrow> '''' | Inr (raw, payload) \<Rightarrow> raw),
       call_headers = h, call_stream = (jget ?payload ''stream'' = JBool True),
       call_affinity = SessionAffinityKey ?ids, call_cacheKey = ci_PromptCacheKey ?ids\<rparr>"
    obtain r q w' where i: "invoke g ?call ctxErr p w = Some (r, q, w')"
      and nl: "no_leak p q (case r of Inl _ \<Rightarrow> None | Inr (resp, l) \<Rightarrow> Some l)"
      and od: "\<forall>resp l. r = Inr (resp, l) \<longrightarrow> \<not> once_done l"
      using invoke_loop_safe [OF assms, of "nat (MaxAttempts (gw_config g))" g ?call ctxErr "[]" "[]" None w]
      unfolding invoke_def by auto
    show ?thesis
    proof (cases r)
      case (Inl e)
      have "reply_status (invoke_error_reply show_err op e) \<in> {429, 502}" by (simp add: invoke_error_reply_def st)
      with Inl Inr i nl show ?thesis by (auto simp: handleOperation_def Let_def)
    next
      case (Inr rl)
      obtain resp l where rl: "rl = (resp, l)" by (rule prod.exhaust)
      have nl': "no_leak p q (Some l)" "\<not> once_done l" using nl od Inr rl by auto
      show ?thesis
      proof (cases "resp_StatusCode resp < 200 \<or> 300 \<le> resp_StatusCode resp")
        case True
        obtain wall w2 where n: "now_fn (gw_deps g) (reportCompletion g l \<lparr>InputTokens = 0, OutputTokens = 0, CachedTokens = 0\<rparr> False w') = (wall, w2)"
          by (rule prod.exhaust)
        obtain p3 w3 where gb: "give_back (gw_deps g) l (feedbackFromResponse (gw_parsers g) wall (Some resp)
            (Some (ErrText (upstreamErrorMessage (gw_lib g) resp)))) q w2 = (p3, w3)" by (rule prod.exhaust)
        have "no_leak p p3 None" using nl' gb assms by (rule give_back_no_leak)
        then show ?thesis
          using \<open>check_request resolve op body = Inr model\<close> i Inr rl True n gb
          by (simp add: handleOperation_def Let_def st mapStatus_def)
      next
        case False
        then show ?thesis
          using \<open>check_request resolve op body = Inr model\<close> i Inr rl nl'
          by (auto simp: handleOperation_def Let_def)
      qed
    qed
  qed
qed

text \<open>Every request is answered and accounted for. \<open>handleOperation\<close> ends; when it answers by itself (a rejected
  request, no account, a failed upstream call, an upstream error) no in-flight counter is higher than before
  and the status is one of 400, 401, 403, 404, 429 and 502; otherwise exactly one unreleased lease is handed to the
  code that writes the response.\<close>

theorem handle_operation_accounts:
  assumes "wf_pool p"
  shows "\<exists>out q w'. handleOperation g show_err resolve key h op body ctxErr p w = Some (out, q, w') \<and> wf_pool q
    \<and> (case out of
         Replied reply \<Rightarrow> (\<forall>k. inflight_of q k \<le> inflight_of p k) \<and> reply_status reply \<in> {400, 401, 403, 404, 429, 502}
       | Streaming r l \<Rightarrow> isConversational op \<and> 200 \<le> resp_StatusCode r \<and> resp_StatusCode r < 300 \<and> \<not> once_done l
           \<and> (\<forall>k. inflight_of q k \<le> inflight_of p k + (if ID (lease_Account l) = k then 1 else 0))
       | NonStreaming r l \<Rightarrow> 200 \<le> resp_StatusCode r \<and> resp_StatusCode r < 300 \<and> \<not> once_done l
           \<and> (\<forall>k. inflight_of q k \<le> inflight_of p k + (if ID (lease_Account l) = k then 1 else 0)))"
proof -
  obtain out q w' where "handleOperation g show_err resolve key h op body ctxErr p w = Some (out, q, w')"
    and "case out of
         Replied reply \<Rightarrow> no_leak p q None \<and> reply_status reply \<in> {400, 401, 403, 404, 429, 502}
       | Streaming r l \<Rightarrow> no_leak p q (Some l) \<and> isConversational op \<and> 200 \<le> resp_StatusCode r \<and> resp_StatusCode r < 300 \<and> \<not> once_done l
       | NonStreaming r l \<Rightarrow> no_leak p q (Some l) \<and> 200 \<le> resp_StatusCode r \<and> resp_StatusCode r < 300 \<and> \<not> once_done l"
    using handleOperation_safe [OF assms, of g show_err resolve key h op body ctxErr w] by blast
  then show ?thesis
    by (intro exI [of _ out] exI [of _ q] exI [of _ w']) (cases out; simp add: no_leak_def)
qed

theorem handle_operation_accounts_witness:
  "\<exists>out q w'. handleOperation sample_gateway (\<lambda>_. '''') (\<lambda>_. Inr sample_model) None (\<lambda>_. '''') OperationChat
     (Inr (''{}'', [(''model'', JStr ''grok-4'')])) None sample_loaded sample_world0 = Some (out, q, w') \<and> wf_pool q"
  using handle_operation_accounts [OF sample_loaded_wf, of sample_gateway "\<lambda>_. ''''" "\<lambda>_. Inr sample_model" None "\<lambda>_. ''''"
      OperationChat "Inr (''{}'', [(''model'', JStr ''grok-4'')])" None sample_world0] by auto

end
