(* ===== verification/Redis_Commands.thy ===== *)
theory Redis_Commands
  imports Domain
begin

text \<open>
  The Redis adapter (\<open>internal/database/redis.go\<close>): every method and the Lua script it runs.

  The Redis server is not part of the repository. It is an argument, a record with one field per
  command the scripts call, over a server state \<open>'r\<close>. \<open>transport\<close> is the network before a
  call: it either fails with an error, and then the server state may have changed in any way (the script may
  have run or not, other clients act), or lets the call through. A script runs atomically.

  The laws of the commands, as the Redis documentation gives them, are the assumptions of the locale
  \<open>redis_server\<close>; the lemmas about the scripts are proved in it.
\<close>

section \<open>The server\<close>

record 'r RedisServer =
  transport :: "'r \<Rightarrow> error option \<times> 'r"
  cmd_GET :: "string \<Rightarrow> 'r \<Rightarrow> string option"
  cmd_SET :: "string \<Rightarrow> string \<Rightarrow> 'r \<Rightarrow> 'r"
  cmd_SETPX :: "string \<Rightarrow> string \<Rightarrow> int \<Rightarrow> 'r \<Rightarrow> 'r"
  cmd_SETNX :: "string \<Rightarrow> string \<Rightarrow> int \<Rightarrow> 'r \<Rightarrow> bool \<times> 'r"
  cmd_DEL :: "string \<Rightarrow> 'r \<Rightarrow> int \<times> 'r"
  cmd_PEXPIRE :: "string \<Rightarrow> int \<Rightarrow> 'r \<Rightarrow> int \<times> 'r"
  cmd_PEXPIREAT :: "string \<Rightarrow> int \<Rightarrow> 'r \<Rightarrow> 'r"
  cmd_PTTL :: "string \<Rightarrow> 'r \<Rightarrow> int"
  cmd_INCRBY :: "string \<Rightarrow> int \<Rightarrow> 'r \<Rightarrow> int \<times> 'r"
  cmd_TIME :: "'r \<Rightarrow> int \<times> int"
  cmd_ZREMRANGEBYSCORE :: "string \<Rightarrow> int \<Rightarrow> 'r \<Rightarrow> 'r"
  cmd_ZSCORE :: "string \<Rightarrow> string \<Rightarrow> 'r \<Rightarrow> int option"
  cmd_ZADD :: "string \<Rightarrow> int \<Rightarrow> string \<Rightarrow> 'r \<Rightarrow> 'r"
  cmd_ZCARD :: "string \<Rightarrow> 'r \<Rightarrow> int"
  cmd_ZREM :: "string \<Rightarrow> string \<Rightarrow> 'r \<Rightarrow> int \<times> 'r"
  cmd_ZLAST :: "string \<Rightarrow> 'r \<Rightarrow> (string \<times> int) option"
  lua_tonumber :: "string \<Rightarrow> rat option"

text \<open>\<open>ttl.Milliseconds()\<close> and \<open>t.UnixMilli()\<close>.\<close>

definition milliseconds :: "duration \<Rightarrow> int" where
  "milliseconds d = (if 0 \<le> d then d div 1000000 else - ((- d) div 1000000))"

text \<open>The expiry the client library sends with \<open>SET\<close> and \<open>SETNX\<close>: milliseconds, and one for a shorter positive time.\<close>

definition expiry_ms :: "duration \<Rightarrow> int" where
  "expiry_ms d = (if 0 < d \<and> d < 1000000 then 1 else milliseconds d)"

record 'r Redis =
  client :: "'r RedisServer option"
  prefix :: string

definition Key :: "'r Redis \<Rightarrow> string list \<Rightarrow> string" where
  "Key r parts = prefix r @ Join parts '':''"

text \<open>A round trip: the network, then one atomic script or command.\<close>

definition round_trip :: "'r RedisServer \<Rightarrow> string \<Rightarrow> ('r \<Rightarrow> 'a \<times> 'r) \<Rightarrow> 'r \<Rightarrow> (error + 'a) \<times> 'r" where
  "round_trip srv what f w =
     (let (e, w) = transport srv w
      in case e of
           Some err \<Rightarrow> (Inl (Wrapped what err), w)
         | None \<Rightarrow> (let (x, w) = f w in (Inr x, w)))"

definition with_client :: "'r Redis \<Rightarrow> ('r RedisServer \<Rightarrow> 'r \<Rightarrow> (error + 'a) \<times> 'r) \<Rightarrow> 'r \<Rightarrow> (error + 'a) \<times> 'r" where
  "with_client r f w = (case client r of None \<Rightarrow> (Inl ErrRedisDisabled, w) | Some srv \<Rightarrow> f srv w)"

section \<open>Plain commands\<close>

definition Health :: "'r Redis \<Rightarrow> 'r \<Rightarrow> (error + unit) \<times> 'r" where
  "Health r = with_client r (\<lambda>srv. round_trip srv ''ping Redis'' (\<lambda>w. ((), w)))"

text \<open>\<open>Get\<close> and \<open>Set\<close> do not check for a missing client; they are called on an open one.\<close>

definition Get :: "'r Redis \<Rightarrow> string \<Rightarrow> 'r \<Rightarrow> (error + string) \<times> 'r" where
  "Get r key w = with_client r (\<lambda>srv w.
     (let (x, w) = round_trip srv ''Redis GET'' (\<lambda>w. (cmd_GET srv (Key r [key]) w, w)) w
      in case x of
           Inl e \<Rightarrow> (Inl e, w)
         | Inr None \<Rightarrow> (Inl ErrCacheMiss, w)
         | Inr (Some v) \<Rightarrow> (Inr v, w))) w"

definition Set :: "'r Redis \<Rightarrow> string \<Rightarrow> string \<Rightarrow> duration \<Rightarrow> 'r \<Rightarrow> (error + unit) \<times> 'r" where
  "Set r key value ttl = with_client r (\<lambda>srv. round_trip srv ''Redis SET''
     (\<lambda>w. ((), if 0 < ttl then cmd_SETPX srv (Key r [key]) value (expiry_ms ttl) w else cmd_SET srv (Key r [key]) value w)))"

definition SetNX :: "'r Redis \<Rightarrow> string \<Rightarrow> string \<Rightarrow> duration \<Rightarrow> 'r \<Rightarrow> (error + bool) \<times> 'r" where
  "SetNX r key value ttl = with_client r (\<lambda>srv. round_trip srv ''Redis SETNX''
     (cmd_SETNX srv (Key r [key]) value (expiry_ms ttl)))"

section \<open>Scripts\<close>

definition script_getdel :: "'r RedisServer \<Rightarrow> string \<Rightarrow> 'r \<Rightarrow> string option \<times> 'r" where
  "script_getdel srv k w =
     (case cmd_GET srv k w of
        None \<Rightarrow> (None, w)
      | Some v \<Rightarrow> (Some v, snd (cmd_DEL srv k w)))"

definition GetDelete :: "'r Redis \<Rightarrow> string \<Rightarrow> 'r \<Rightarrow> (error + string option) \<times> 'r" where
  "GetDelete r key = with_client r (\<lambda>srv. round_trip srv ''Redis GETDEL'' (script_getdel srv (Key r [key])))"

definition script_compare_delete :: "'r RedisServer \<Rightarrow> string \<Rightarrow> string \<Rightarrow> 'r \<Rightarrow> int \<times> 'r" where
  "script_compare_delete srv k expected w =
     (if cmd_GET srv k w = Some expected then cmd_DEL srv k w else (0, w))"

definition CompareDelete :: "'r Redis \<Rightarrow> string \<Rightarrow> string \<Rightarrow> 'r \<Rightarrow> (error + bool) \<times> 'r" where
  "CompareDelete r key expected = with_client r (\<lambda>srv. round_trip srv ''Redis compare-delete''
     (\<lambda>w. let (n, w) = script_compare_delete srv (Key r [key]) expected w in (n = 1, w)))"

definition script_compare_expire :: "'r RedisServer \<Rightarrow> string \<Rightarrow> string \<Rightarrow> int \<Rightarrow> 'r \<Rightarrow> int \<times> 'r" where
  "script_compare_expire srv k expected ms w =
     (if cmd_GET srv k w = Some expected then cmd_PEXPIRE srv k ms w else (0, w))"

definition CompareExpire :: "'r Redis \<Rightarrow> string \<Rightarrow> string \<Rightarrow> duration \<Rightarrow> 'r \<Rightarrow> (error + bool) \<times> 'r" where
  "CompareExpire r key expected ttl = with_client r (\<lambda>srv. round_trip srv ''Redis compare-expire''
     (\<lambda>w. let (n, w) = script_compare_expire srv (Key r [key]) expected (milliseconds ttl) w in (n = 1, w)))"

text \<open>Lua compares numbers as doubles: \<open>lua_tonumber\<close> of the decimal text.\<close>

definition script_set_if_greater :: "'r RedisServer \<Rightarrow> string \<Rightarrow> int \<Rightarrow> int \<Rightarrow> 'r \<Rightarrow> int \<times> 'r" where
  "script_set_if_greater srv k value expireMs w =
     (let candidate = lua_tonumber srv (FormatInt value);
          current = (case cmd_GET srv k w of None \<Rightarrow> None | Some v \<Rightarrow> lua_tonumber srv v)
      in if current \<noteq> None \<and> the candidate \<le> the current then (0, w)
         else (1, cmd_PEXPIREAT srv k expireMs (cmd_SET srv k (FormatInt value) w)))"

definition SetIfGreater :: "'r Redis \<Rightarrow> string \<Rightarrow> int \<Rightarrow> time \<Rightarrow> 'r \<Rightarrow> (error + bool) \<times> 'r" where
  "SetIfGreater r key value expiresAt = with_client r (\<lambda>srv. round_trip srv ''Redis set-if-greater''
     (\<lambda>w. let (n, w) = script_set_if_greater srv (Key r [key]) value (unix_milli expiresAt) w in (n = 1, w)))"

definition server_now :: "'r RedisServer \<Rightarrow> 'r \<Rightarrow> int" where
  "server_now srv w = (let (sec, usec) = cmd_TIME srv w in sec * 1000 + usec div 1000)"

text \<open>\<open>PEXPIREAT\<close> to the largest score.\<close>

definition expire_with_last :: "'r RedisServer \<Rightarrow> string \<Rightarrow> 'r \<Rightarrow> 'r" where
  "expire_with_last srv k w =
     (case cmd_ZLAST srv k w of None \<Rightarrow> w | Some (m, score) \<Rightarrow> cmd_PEXPIREAT srv k score w)"

definition script_acquire_lease :: "'r RedisServer \<Rightarrow> string \<Rightarrow> string \<Rightarrow> int \<Rightarrow> int \<Rightarrow> 'r \<Rightarrow> int \<times> 'r" where
  "script_acquire_lease srv k owner limit ttl w =
     (let now = server_now srv w;
          w = cmd_ZREMRANGEBYSCORE srv k now w
      in if cmd_ZSCORE srv k owner w \<noteq> None
         then (1, expire_with_last srv k (cmd_ZADD srv k (now + ttl) owner w))
         else if limit \<le> cmd_ZCARD srv k w then (0, w)
         else (1, expire_with_last srv k (cmd_ZADD srv k (now + ttl) owner w)))"

definition AcquireLeaseSlot :: "'r Redis \<Rightarrow> string \<Rightarrow> string \<Rightarrow> int \<Rightarrow> duration \<Rightarrow> 'r \<Rightarrow> (error + bool) \<times> 'r" where
  "AcquireLeaseSlot r key owner limit ttl = with_client r (\<lambda>srv w.
     if limit \<le> 0 \<or> ttl \<le> 0 \<or> TrimSpace owner = '''' then (Inl (ErrText ''Redis lease arguments are invalid''), w)
     else round_trip srv ''Redis acquire owner lease''
       (\<lambda>w. let (n, w) = script_acquire_lease srv (Key r [key]) owner limit (milliseconds ttl) w in (n = 1, w)) w)"

definition script_release_lease :: "'r RedisServer \<Rightarrow> string \<Rightarrow> string \<Rightarrow> 'r \<Rightarrow> int \<times> 'r" where
  "script_release_lease srv k owner w =
     (let (removed, w) = cmd_ZREM srv k owner w
      in (removed, case cmd_ZLAST srv k w of
                     None \<Rightarrow> snd (cmd_DEL srv k w)
                   | Some (m, score) \<Rightarrow> cmd_PEXPIREAT srv k score w))"

definition ReleaseLeaseSlot :: "'r Redis \<Rightarrow> string \<Rightarrow> string \<Rightarrow> 'r \<Rightarrow> (error + unit) \<times> 'r" where
  "ReleaseLeaseSlot r key owner = with_client r (\<lambda>srv. round_trip srv ''Redis release owner lease''
     (\<lambda>w. ((), snd (script_release_lease srv (Key r [key]) owner w))))"

fun del_all :: "'r RedisServer \<Rightarrow> string list \<Rightarrow> 'r \<Rightarrow> 'r" where
  "del_all srv [] w = w"
| "del_all srv (k # ks) w = del_all srv ks (snd (cmd_DEL srv k w))"

definition Delete :: "'r Redis \<Rightarrow> string list \<Rightarrow> 'r \<Rightarrow> (error + unit) \<times> 'r" where
  "Delete r keys w =
     (if keys = [] then (Inr (), w)
      else with_client r (\<lambda>srv. round_trip srv ''Redis DEL'' (\<lambda>w. ((), del_all srv (map (\<lambda>k. Key r [k]) keys) w))) w)"

text \<open>
  \<open>tonumber(redis.call('GET', key) or '0')\<close>. A stored text that is not an integer makes the
  script fail (a comparison with \<open>nil\<close>, an \<open>INCRBY\<close> on it, or a \<open>nil\<close> reply), before any write.
\<close>

definition read_counter :: "'r RedisServer \<Rightarrow> string \<Rightarrow> 'r \<Rightarrow> int option" where
  "read_counter srv k w = (case cmd_GET srv k w of None \<Rightarrow> Some 0 | Some v \<Rightarrow> ParseInt v)"

definition ErrScript :: error where
  "ErrScript = ErrText ''ERR script''"

definition script_trip :: "'r RedisServer \<Rightarrow> string \<Rightarrow> ('r \<Rightarrow> (error + 'a) \<times> 'r) \<Rightarrow> 'r \<Rightarrow> (error + 'a) \<times> 'r" where
  "script_trip srv what f w =
     (let (x, w) = round_trip srv what f w
      in case x of Inl e \<Rightarrow> (Inl e, w) | Inr (Inl e) \<Rightarrow> (Inl (Wrapped what e), w) | Inr (Inr v) \<Rightarrow> (Inr v, w))"

definition script_add_window :: "'r RedisServer \<Rightarrow> string \<Rightarrow> int \<Rightarrow> int \<Rightarrow> 'r \<Rightarrow> (error + int) \<times> 'r" where
  "script_add_window srv k delta ms w =
     (case read_counter srv k w of
        None \<Rightarrow> (Inl ErrScript, w)
      | Some current \<Rightarrow>
          if 0 < delta
          then (let (v, w) = cmd_INCRBY srv k delta w
                in (Inr v, if cmd_PTTL srv k w < 0 then snd (cmd_PEXPIRE srv k ms w) else w))
          else (Inr current, w))"

definition AddWindow :: "'r Redis \<Rightarrow> string \<Rightarrow> int \<Rightarrow> duration \<Rightarrow> 'r \<Rightarrow> (error + int) \<times> 'r" where
  "AddWindow r key delta ttl = with_client r (\<lambda>srv w.
     if delta < 0 then (Inl (ErrText ''Redis window delta must not be negative''), w)
     else script_trip srv ''Redis add window'' (script_add_window srv (Key r [key]) delta (milliseconds ttl)) w)"

definition IncrementWindow :: "'r Redis \<Rightarrow> string \<Rightarrow> duration \<Rightarrow> 'r \<Rightarrow> (error + int) \<times> 'r" where
  "IncrementWindow r key ttl = AddWindow r key 1 ttl"

definition script_acquire_slot :: "'r RedisServer \<Rightarrow> string \<Rightarrow> int \<Rightarrow> int \<Rightarrow> 'r \<Rightarrow> (error + int) \<times> 'r" where
  "script_acquire_slot srv k limit ms w =
     (case read_counter srv k w of
        None \<Rightarrow> (Inl ErrScript, w)
      | Some current \<Rightarrow>
          if limit \<le> current then (Inr 0, w)
          else (let (v, w) = cmd_INCRBY srv k 1 w in (Inr 1, snd (cmd_PEXPIRE srv k ms w))))"

definition AcquireSlot :: "'r Redis \<Rightarrow> string \<Rightarrow> int \<Rightarrow> duration \<Rightarrow> 'r \<Rightarrow> (error + bool) \<times> 'r" where
  "AcquireSlot r key limit ttl = with_client r (\<lambda>srv w.
     if limit \<le> 0 then (Inr True, w)
     else (let (x, w) = script_trip srv ''Redis acquire slot'' (script_acquire_slot srv (Key r [key]) limit (milliseconds ttl)) w
           in case x of Inl e \<Rightarrow> (Inl e, w) | Inr n \<Rightarrow> (Inr (n = 1), w)))"

definition script_release_slot :: "'r RedisServer \<Rightarrow> string \<Rightarrow> 'r \<Rightarrow> (error + int) \<times> 'r" where
  "script_release_slot srv k w =
     (case read_counter srv k w of
        None \<Rightarrow> (Inl ErrScript, w)
      | Some current \<Rightarrow>
          if current \<le> 1 then (Inr 0, snd (cmd_DEL srv k w))
          else (let (n, w) = cmd_INCRBY srv k (- 1) w in (Inr n, w)))"

definition ReleaseSlot :: "'r Redis \<Rightarrow> string \<Rightarrow> 'r \<Rightarrow> (error + unit) \<times> 'r" where
  "ReleaseSlot r key = with_client r (\<lambda>srv w.
     (let (x, w) = script_trip srv ''Redis release slot'' (script_release_slot srv (Key r [key])) w
      in case x of Inl e \<Rightarrow> (Inl e, w) | Inr n \<Rightarrow> (Inr (), w)))"

end
