(* ===== verification/Redis_Laws.thy ===== *)
theory Redis_Laws
  imports Redis_Commands
begin

text \<open>
  What the scripts guarantee on a server that follows the Redis documentation, and a small server that does.

  The state of a server is seen through its clock in milliseconds, the string values of the keys that have not
  expired, and the sorted sets (a partial map from members to scores per key). The laws are those of a key that is
  used with one type of value only, as the program uses its keys: a command on a key of the other type is an error.
\<close>

section \<open>Laws\<close>

text \<open>The live_owners clk zs whose lease has not expired.\<close>

definition live_owners :: "('r \<Rightarrow> int) \<Rightarrow> ('r \<Rightarrow> string \<Rightarrow> (string \<rightharpoonup> int)) \<Rightarrow> 'r \<Rightarrow> string \<Rightarrow> string set" where
  "live_owners clk zs w k = {m. \<exists>s. zs w k m = Some s \<and> clk w < s}"

locale redis_server =
  fixes srv :: "'r RedisServer" and clk :: "'r \<Rightarrow> int" and str :: "'r \<Rightarrow> string \<rightharpoonup> string"
    and zs :: "'r \<Rightarrow> string \<Rightarrow> (string \<rightharpoonup> int)"
  assumes get: "cmd_GET srv k w = str w k"
    and set: "str (cmd_SET srv k v w) = (str w)(k \<mapsto> v)" "clk (cmd_SET srv k v w) = clk w"
    and setpx: "0 < ms \<Longrightarrow> str (cmd_SETPX srv k v ms w) = (str w)(k \<mapsto> v)" "clk (cmd_SETPX srv k v ms w) = clk w"
    and setnx: "0 \<le> ms \<Longrightarrow> cmd_SETNX srv k v ms w = (b, w') \<Longrightarrow>
      b = (str w k = None) \<and> str w' = (if b then (str w)(k \<mapsto> v) else str w) \<and> clk w' = clk w"
    and del: "str (snd (cmd_DEL srv k w)) = (str w)(k := None)" "zs (snd (cmd_DEL srv k w)) = (zs w)(k := Map.empty)"
      "str w k \<noteq> None \<Longrightarrow> fst (cmd_DEL srv k w) = 1" "clk (snd (cmd_DEL srv k w)) = clk w"
    and pexpire: "0 < ms \<Longrightarrow> str (snd (cmd_PEXPIRE srv k ms w)) = str w" "clk (snd (cmd_PEXPIRE srv k ms w)) = clk w"
      "str w k \<noteq> None \<Longrightarrow> fst (cmd_PEXPIRE srv k ms w) = 1"
    and pexpireat: "clk w < t \<Longrightarrow> str (cmd_PEXPIREAT srv k t w) = str w" "clk w < t \<Longrightarrow> zs (cmd_PEXPIREAT srv k t w) = zs w"
      "t \<le> clk w \<Longrightarrow> zs (cmd_PEXPIREAT srv k t w) = (zs w)(k := Map.empty)" "clk (cmd_PEXPIREAT srv k t w) = clk w"
    and incrby: "read_counter srv k w = Some c \<Longrightarrow> c + n = r \<Longrightarrow> - (2 ^ 63) \<le> r \<Longrightarrow> r < 2 ^ 63 \<Longrightarrow>
      fst (cmd_INCRBY srv k n w) = r \<and> str (snd (cmd_INCRBY srv k n w)) = (str w)(k \<mapsto> FormatInt r)
      \<and> clk (snd (cmd_INCRBY srv k n w)) = clk w"
    and time_now: "cmd_TIME srv w = (sec, usec) \<Longrightarrow> sec * 1000 + usec div 1000 = clk w"
    and zremrange: "zs (cmd_ZREMRANGEBYSCORE srv k t w) k = (zs w k) |` {m. \<exists>s. zs w k m = Some s \<and> t < s}"
      "clk (cmd_ZREMRANGEBYSCORE srv k t w) = clk w"
    and zscore: "cmd_ZSCORE srv k m w = zs w k m"
    and zadd: "zs (cmd_ZADD srv k s m w) k = (zs w k)(m \<mapsto> s)" "clk (cmd_ZADD srv k s m w) = clk w"
    and zcard: "cmd_ZCARD srv k w = int (card (dom (zs w k)))" "finite (dom (zs w k))"
    and zrem: "zs (snd (cmd_ZREM srv k m w)) k = (zs w k)(m := None)" "clk (snd (cmd_ZREM srv k m w)) = clk w"
    and zlast: "cmd_ZLAST srv k w = Some (m, s) \<Longrightarrow> zs w k m = Some s \<and> (\<forall>m' s'. zs w k m' = Some s' \<longrightarrow> s' \<le> s)"
      "cmd_ZLAST srv k w = None \<Longrightarrow> zs w k = Map.empty"
    and tonumber: "ParseInt t1 = Some x \<Longrightarrow> ParseInt t2 = Some y \<Longrightarrow> x \<le> y \<Longrightarrow>
      \<exists>p q. lua_tonumber srv t1 = Some p \<and> lua_tonumber srv t2 = Some q \<and> p \<le> q"
begin

lemma finite_owners: "finite (live_owners clk zs w k)"
  using zcard(2) [of w k] by (rule rev_finite_subset) (auto simp: live_owners_def)

lemma server_now_clk: "server_now srv w = clk w"
  using time_now by (auto simp: server_now_def Let_def split: prod.splits)

lemma expire_with_last_zs:
  assumes "zs w k m = Some s" "clk w < s"
  shows "zs (expire_with_last srv k w) = zs w \<and> clk (expire_with_last srv k w) = clk w"
proof (cases "cmd_ZLAST srv k w")
  case None
  then show ?thesis using zlast(2) assms by fastforce
next
  case (Some x)
  obtain m' s' where x: "x = (m', s')" by (rule prod.exhaust)
  with Some assms zlast(1) have "clk w < s'" by fastforce
  with Some x show ?thesis by (simp add: expire_with_last_def pexpireat)
qed

text \<open>The lease script: who holds a lease afterwards.\<close>

lemma acquire_lease_owners:
  assumes "0 < ttl" "script_acquire_lease srv k owner limit ttl w = (n, w')"
  shows "n = 1 \<longleftrightarrow> owner \<in> live_owners clk zs w k \<or> int (card (live_owners clk zs w k)) < limit"
    and "live_owners clk zs w' k = (if n = 1 then insert owner (live_owners clk zs w k) else live_owners clk zs w k)" and "n \<in> {0, 1}"
proof -
  let ?w1 = "cmd_ZREMRANGEBYSCORE srv k (clk w) w"
  let ?w2 = "cmd_ZADD srv k (clk w + ttl) owner ?w1"
  have z1: "zs ?w1 k = (zs w k) |` live_owners clk zs w k" by (simp add: zremrange live_owners_def)
  have d1: "dom (zs ?w1 k) = live_owners clk zs w k" by (auto simp: z1 live_owners_def)
  have z2: "zs ?w2 k = (zs ?w1 k)(owner \<mapsto> clk w + ttl)" "clk ?w2 = clk w" by (simp_all add: zadd zremrange)
  have e: "zs (expire_with_last srv k ?w2) = zs ?w2" "clk (expire_with_last srv k ?w2) = clk w"
    using expire_with_last_zs [of ?w2 k owner "clk w + ttl"] z2 assms(1) by simp_all
  have o1: "live_owners clk zs ?w1 k = live_owners clk zs w k" by (auto simp: live_owners_def z1 zremrange restrict_map_def)
  have o2: "live_owners clk zs (expire_with_last srv k ?w2) k = insert owner (live_owners clk zs w k)"
    using assms(1) by (auto simp: live_owners_def e z2 z1 zremrange restrict_map_def split: if_splits)
  have sc: "cmd_ZSCORE srv k owner ?w1 \<noteq> None \<longleftrightarrow> owner \<in> live_owners clk zs w k"
    unfolding zscore using d1 by (simp add: domIff [symmetric]) blast
  have cd: "cmd_ZCARD srv k ?w1 = int (card (live_owners clk zs w k))" by (simp add: zcard d1)
  have s: "script_acquire_lease srv k owner limit ttl w =
      (if owner \<in> live_owners clk zs w k \<or> int (card (live_owners clk zs w k)) < limit then (1, expire_with_last srv k ?w2) else (0, ?w1))"
    unfolding script_acquire_lease_def server_now_clk Let_def sc cd by (simp add: not_le)
  show "n = 1 \<longleftrightarrow> owner \<in> live_owners clk zs w k \<or> int (card (live_owners clk zs w k)) < limit" "n \<in> {0, 1}"
    using s assms(2) by (auto split: if_splits)
  show "live_owners clk zs w' k = (if n = 1 then insert owner (live_owners clk zs w k) else live_owners clk zs w k)"
    using s assms(2) o1 o2 by (auto split: if_splits)
qed

lemma release_lease_owners:
  assumes "script_release_lease srv k owner w = (n, w')"
  shows "live_owners clk zs w' k = live_owners clk zs w k - {owner}"
proof -
  let ?w1 = "snd (cmd_ZREM srv k owner w)"
  have z1: "zs ?w1 k = (zs w k)(owner := None)" "clk ?w1 = clk w" by (simp_all add: zrem)
  have o1: "live_owners clk zs ?w1 k = live_owners clk zs w k - {owner}" by (auto simp: live_owners_def z1 split: if_splits)
  show ?thesis
  proof (cases "cmd_ZLAST srv k ?w1")
    case None
    then have "zs ?w1 k = Map.empty" by (rule zlast(2))
    then have "live_owners clk zs w k - {owner} = {}" using o1 by (auto simp: live_owners_def)
    moreover have "w' = snd (cmd_DEL srv k ?w1)"
      using assms None by (auto simp: script_release_lease_def case_prod_unfold Let_def)
    ultimately show ?thesis by (auto simp: live_owners_def del)
  next
    case (Some x)
    obtain m s where x: "x = (m, s)" by (rule prod.exhaust)
    have w': "w' = cmd_PEXPIREAT srv k s ?w1"
      using assms Some x by (auto simp: script_release_lease_def case_prod_unfold Let_def)
    have max: "zs ?w1 k m' = Some s' \<Longrightarrow> s' \<le> s" for m' s' using zlast(1) Some x by blast
    show ?thesis
    proof (cases "clk ?w1 < s")
      case True
      then show ?thesis using o1 by (auto simp: w' live_owners_def pexpireat)
    next
      case False
      have "live_owners clk zs ?w1 k = {}" using max False by (fastforce simp: live_owners_def)
      moreover have "live_owners clk zs w' k = {}" using False by (simp add: w' live_owners_def pexpireat)
      ultimately show ?thesis using o1 by simp
    qed
  qed
qed

lemma read_counter_str: "read_counter srv k w = (case str w k of None \<Rightarrow> Some 0 | Some v \<Rightarrow> ParseInt v)"
  by (simp add: read_counter_def get)

text \<open>The counting semaphore: granted exactly below the limit, and then the counter is one higher.\<close>

lemma acquire_slot_counts:
  assumes "0 < ms" "read_counter srv k w = Some c" "- (2 ^ 63) \<le> c" "c < limit" "limit < 2 ^ 63"
  shows "fst (script_acquire_slot srv k limit ms w) = Inr 1"
    and "read_counter srv k (snd (script_acquire_slot srv k limit ms w)) = Some (c + 1)"
proof -
  have i: "str (snd (cmd_INCRBY srv k 1 w)) = (str w)(k \<mapsto> FormatInt (c + 1))"
    using incrby [OF assms(2) refl, of 1] assms(3-5) by simp
  have p: "str (snd (cmd_PEXPIRE srv k ms w1)) = str w1" for w1 by (rule pexpire(1) [OF assms(1)])
  show "fst (script_acquire_slot srv k limit ms w) = Inr 1"
    using assms by (simp add: script_acquire_slot_def case_prod_unfold)
  show "read_counter srv k (snd (script_acquire_slot srv k limit ms w)) = Some (c + 1)"
    using assms by (simp add: script_acquire_slot_def case_prod_unfold read_counter_str p i ParseInt_FormatInt
        split del: option.split)
qed

text \<open>A window counts every request, one higher each time.\<close>

lemma add_window_counts:
  assumes "0 < ms" "read_counter srv k w = Some c" "0 \<le> c" "c + 1 < 2 ^ 63"
  shows "fst (script_add_window srv k 1 ms w) = Inr (c + 1)"
    and "read_counter srv k (snd (script_add_window srv k 1 ms w)) = Some (c + 1)"
proof -
  have i: "fst (cmd_INCRBY srv k 1 w) = c + 1" "str (snd (cmd_INCRBY srv k 1 w)) = (str w)(k \<mapsto> FormatInt (c + 1))"
    using incrby [OF assms(2) refl, of 1] assms(3,4) by simp_all
  have p: "str (snd (cmd_PEXPIRE srv k ms w1)) = str w1" for w1 by (rule pexpire(1) [OF assms(1)])
  show "fst (script_add_window srv k 1 ms w) = Inr (c + 1)"
    using assms i by (simp add: script_add_window_def case_prod_unfold Let_def)
  show "read_counter srv k (snd (script_add_window srv k 1 ms w)) = Some (c + 1)"
    using assms by (simp add: script_add_window_def case_prod_unfold Let_def read_counter_str p i ParseInt_FormatInt split del: option.split)
qed

lemma acquire_slot_refuses:
  assumes "read_counter srv k w = Some c" "limit \<le> c"
  shows "script_acquire_slot srv k limit ms w = (Inr 0, w)"
  using assms by (simp add: script_acquire_slot_def)

lemma release_slot_counts:
  assumes "read_counter srv k w = Some c" "c < 2 ^ 63"
  shows "read_counter srv k (snd (script_release_slot srv k w)) = Some (max 0 (c - 1))"
proof (cases "c \<le> 1")
  case True
  then show ?thesis using assms by (simp add: script_release_slot_def read_counter_str del)
next
  case False
  have i: "str (snd (cmd_INCRBY srv k (- 1) w)) = (str w)(k \<mapsto> FormatInt (c - 1))"
    using incrby [OF assms(1) refl, of "- 1"] False assms(2) by simp
  show ?thesis
    using False assms by (simp add: script_release_slot_def case_prod_unfold Let_def read_counter_str i ParseInt_FormatInt)
qed

text \<open>The stored deadline never moves down.\<close>

lemma set_if_greater_monotone:
  assumes "cmd_GET srv k w = Some v" "ParseInt v = Some old" "- (2 ^ 63) \<le> value" "value < 2 ^ 63"
    and "script_set_if_greater srv k value ms w = (n, w')" "clk w < ms"
  shows "\<exists>v' x. str w' k = Some v' \<and> ParseInt v' = Some x \<and> old \<le> x"
proof -
  have v: "str w k = Some v" using assms(1) by (simp add: get)
  have f: "ParseInt (FormatInt value) = Some value" using assms(3,4) by (simp add: ParseInt_FormatInt)
  show ?thesis
  proof (cases "value < old")
    case True
    obtain p q where t: "lua_tonumber srv (FormatInt value) = Some p" "lua_tonumber srv v = Some q" "p \<le> q"
      using tonumber [OF f assms(2)] True by auto
    then have "w' = w" using assms(1,5) by (auto simp: script_set_if_greater_def Let_def)
    then show ?thesis using v assms(2) by auto
  next
    case False
    have "str w' k = Some v \<or> str w' k = Some (FormatInt value)"
      using assms(5,6) v
      by (auto simp: script_set_if_greater_def Let_def pexpireat set split: if_splits)
    then show ?thesis using False f assms(2) by auto
  qed
qed

end

section \<open>A small server\<close>

text \<open>
  A small Redis: strings and sorted sets with expiry times in milliseconds, on one clock. It follows the
  laws of \<open>redis_server\<close>, so that what is proved of the scripts holds of it; the witnesses run on it.
\<close>

record mem_redis =
  mem_clock :: int
  mem_strings :: "string \<rightharpoonup> string \<times> int option"
  mem_sets :: "string \<Rightarrow> (string \<times> int) list \<times> int option"

definition mem_alive :: "int \<Rightarrow> int option \<Rightarrow> bool" where
  "mem_alive c e = (case e of None \<Rightarrow> True | Some t \<Rightarrow> c < t)"

definition mem_str :: "mem_redis \<Rightarrow> string \<rightharpoonup> string" where
  "mem_str w k = (case mem_strings w k of None \<Rightarrow> None | Some (v, e) \<Rightarrow> if mem_alive (mem_clock w) e then Some v else None)"

definition mem_set :: "mem_redis \<Rightarrow> string \<Rightarrow> (string \<times> int) list" where
  "mem_set w k = (if mem_alive (mem_clock w) (snd (mem_sets w k)) then fst (mem_sets w k) else [])"

definition mem_zs :: "mem_redis \<Rightarrow> string \<Rightarrow> (string \<rightharpoonup> int)" where
  "mem_zs w k = map_of (mem_set w k)"

definition put_str :: "string \<Rightarrow> string \<Rightarrow> int option \<Rightarrow> mem_redis \<Rightarrow> mem_redis" where
  "put_str k v e w = w\<lparr>mem_strings := (mem_strings w)(k \<mapsto> (v, e))\<rparr>"

definition mem_expiry :: "mem_redis \<Rightarrow> string \<Rightarrow> int option" where
  "mem_expiry w k = (case mem_strings w k of Some (v, e) \<Rightarrow> if mem_alive (mem_clock w) e then e else None | None \<Rightarrow> None)"

definition put_set :: "string \<Rightarrow> (string \<times> int) list \<Rightarrow> mem_redis \<Rightarrow> mem_redis" where
  "put_set k m w = w\<lparr>mem_sets := (mem_sets w)(k := (m, if mem_alive (mem_clock w) (snd (mem_sets w k)) then snd (mem_sets w k) else None))\<rparr>"

definition drop_key :: "string \<Rightarrow> mem_redis \<Rightarrow> mem_redis" where
  "drop_key k w = w\<lparr>mem_strings := (mem_strings w)(k := None), mem_sets := (mem_sets w)(k := ([], None))\<rparr>"

definition mem_present :: "mem_redis \<Rightarrow> string \<Rightarrow> bool" where
  "mem_present w k = (mem_str w k \<noteq> None \<or> mem_set w k \<noteq> [])"

text \<open>Give a key an expiry time; a time that is not in the future removes it.\<close>

definition expire_at :: "string \<Rightarrow> int \<Rightarrow> mem_redis \<Rightarrow> mem_redis" where
  "expire_at k t w =
     (if t \<le> mem_clock w then drop_key k w
      else w\<lparr>mem_strings := (mem_strings w)(k := (case mem_str w k of None \<Rightarrow> None | Some v \<Rightarrow> Some (v, Some t))),
             mem_sets := (mem_sets w)(k := (mem_set w k, Some t))\<rparr>)"

fun best_score :: "(string \<times> int) list \<Rightarrow> (string \<times> int) option" where
  "best_score [] = None"
| "best_score ((m, s) # xs) = (case best_score xs of None \<Rightarrow> Some (m, s) | Some (m', s') \<Rightarrow> if s' < s then Some (m, s) else Some (m', s'))"

definition mem_server :: "mem_redis RedisServer" where
  "mem_server = \<lparr>
     transport = (\<lambda>w. (None, w)),
     cmd_GET = (\<lambda>k w. mem_str w k),
     cmd_SET = (\<lambda>k v. put_str k v None),
     cmd_SETPX = (\<lambda>k v ms w. put_str k v (Some (mem_clock w + ms)) w),
     cmd_SETNX = (\<lambda>k v ms w. if mem_str w k = None then (True, put_str k v (if ms = 0 then None else Some (mem_clock w + ms)) w) else (False, w)),
     cmd_DEL = (\<lambda>k w. (if mem_present w k then 1 else 0, drop_key k w)),
     cmd_PEXPIRE = (\<lambda>k ms w. (if mem_present w k then 1 else 0, expire_at k (mem_clock w + ms) w)),
     cmd_PEXPIREAT = expire_at,
     cmd_PTTL = (\<lambda>k w. case mem_expiry w k of None \<Rightarrow> - 1 | Some t \<Rightarrow> t - mem_clock w),
     cmd_INCRBY = (\<lambda>k n w.
        let r = (case mem_str w k of None \<Rightarrow> 0 | Some v \<Rightarrow> (case ParseInt v of None \<Rightarrow> 0 | Some c \<Rightarrow> c)) + n
        in (r, put_str k (FormatInt r) (mem_expiry w k) w)),
     cmd_TIME = (\<lambda>w. (mem_clock w div 1000, mem_clock w mod 1000 * 1000)),
     cmd_ZREMRANGEBYSCORE = (\<lambda>k t w. put_set k (filter (\<lambda>(m, s). t < the (mem_zs w k m)) (mem_set w k)) w),
     cmd_ZSCORE = (\<lambda>k m w. mem_zs w k m),
     cmd_ZADD = (\<lambda>k s m w. put_set k (AList.update m s (mem_set w k)) w),
     cmd_ZCARD = (\<lambda>k w. int (length (remdups (map fst (mem_set w k))))),
     cmd_ZREM = (\<lambda>k m w. (if mem_zs w k m = None then 0 else 1, put_set k (AList.delete m (mem_set w k)) w)),
     cmd_ZLAST = (\<lambda>k w. best_score (AList.clearjunk (mem_set w k))),
     lua_tonumber = (\<lambda>s. map_option of_int (ParseInt s))\<rparr>"

section \<open>It obeys the laws\<close>

lemma mem_clock_put [simp]:
  "mem_clock (put_str k v e w) = mem_clock w" "mem_clock (put_set k m w) = mem_clock w"
  "mem_clock (drop_key k w) = mem_clock w" "mem_clock (expire_at k t w) = mem_clock w"
  by (simp_all add: put_str_def put_set_def drop_key_def expire_at_def)

lemma mem_str_put [simp]:
  "mem_alive (mem_clock w) e \<Longrightarrow> mem_str (put_str k v e w) = (mem_str w)(k \<mapsto> v)" "mem_str (put_set k m w) = mem_str w"
  "mem_str (drop_key k w) = (mem_str w)(k := None)"
  by (auto simp: fun_eq_iff mem_str_def put_str_def put_set_def drop_key_def split: option.splits)

lemma mem_set_put [simp]:
  "mem_set (put_str k v e w) = mem_set w" "mem_set (put_set k m w) = (mem_set w)(k := m)"
  "mem_set (drop_key k w) = (mem_set w)(k := [])"
  by (auto simp: fun_eq_iff mem_set_def put_str_def put_set_def drop_key_def mem_alive_def [of _ None])

lemma mem_zs_put [simp]:
  "mem_zs (put_str k v e w) = mem_zs w" "mem_zs (put_set k m w) = (mem_zs w)(k := map_of m)"
  "mem_zs (drop_key k w) = (mem_zs w)(k := Map.empty)"
  by (auto simp: fun_eq_iff mem_zs_def)

lemma expire_at_future:
  assumes "mem_clock w < t"
  shows "mem_str (expire_at k t w) = mem_str w" "mem_zs (expire_at k t w) = mem_zs w"
  using assms by (auto simp: fun_eq_iff expire_at_def mem_str_def mem_zs_def mem_set_def mem_alive_def [of _ "Some t"]
      split: option.splits)

lemma expire_at_past: "t \<le> mem_clock w \<Longrightarrow> expire_at k t w = drop_key k w"
  by (simp add: expire_at_def)

lemma mem_expiry_alive [simp]: "mem_alive (mem_clock w) (mem_expiry w k)"
  by (auto simp: mem_expiry_def mem_alive_def split: option.splits)

lemma best_score_None [simp]: "best_score xs = None \<longleftrightarrow> xs = []"
  by (induction xs) (auto split: option.splits)

lemma best_score_sound: "best_score xs = Some (m, s) \<Longrightarrow> (m, s) \<in> set xs \<and> (\<forall>(m', s') \<in> set xs. s' \<le> s)"
proof (induction xs arbitrary: m s)
  case Nil
  then show ?case by simp
next
  case (Cons x xs)
  obtain m0 s0 where x: "x = (m0, s0)" by (rule prod.exhaust)
  show ?case
  proof (cases "best_score xs")
    case None
    then show ?thesis using Cons.prems x by (auto simp: best_score_None)
  next
    case (Some y)
    obtain m1 s1 where y: "y = (m1, s1)" by (rule prod.exhaust)
    with Some Cons.IH have "(m1, s1) \<in> set xs" "\<forall>(m', s') \<in> set xs. s' \<le> s1" by auto
    then show ?thesis using Cons.prems x y Some by (auto split: if_splits)
  qed
qed

lemma mem_last:
  assumes "best_score (AList.clearjunk xs) = Some (m, s)"
  shows "map_of xs m = Some s \<and> (\<forall>m' s'. map_of xs m' = Some s' \<longrightarrow> s' \<le> s)"
proof -
  have d: "distinct (map fst (AList.clearjunk xs))" by (rule distinct_clearjunk)
  have e: "map_of xs m' = Some s' \<longleftrightarrow> (m', s') \<in> set (AList.clearjunk xs)" for m' s'
    using map_of_eq_Some_iff [OF d] by (simp add: map_of_clearjunk)
  from best_score_sound [OF assms] show ?thesis unfolding e by fast
qed

lemma mem_restrict: "map_of (filter (\<lambda>(m, s). P (f m)) xs) = map_of xs |` {m. P (f m)}"
  by (induction xs) (auto simp: fun_eq_iff restrict_map_def)

lemma mem_alive_simps [simp]: "mem_alive c None" "mem_alive c (Some t) \<longleftrightarrow> c < t"
  by (simp_all add: mem_alive_def)

lemma mem_setpx:
  "0 < ms \<Longrightarrow> mem_str (cmd_SETPX mem_server k v ms w) = (mem_str w)(k \<mapsto> v)" "mem_clock (cmd_SETPX mem_server k v ms w) = mem_clock w"
  by (simp_all add: mem_server_def)

lemma mem_setnx:
  assumes "0 \<le> ms" "cmd_SETNX mem_server k v ms w = (b, w')"
  shows "b = (mem_str w k = None) \<and> mem_str w' = (if b then (mem_str w)(k \<mapsto> v) else mem_str w) \<and> mem_clock w' = mem_clock w"
  using assms by (auto simp: mem_server_def split: if_splits)

lemma mem_incrby:
  assumes "read_counter mem_server k w = Some c" "c + n = r"
  shows "fst (cmd_INCRBY mem_server k n w) = r \<and> mem_str (snd (cmd_INCRBY mem_server k n w)) = (mem_str w)(k \<mapsto> FormatInt r)
    \<and> mem_clock (snd (cmd_INCRBY mem_server k n w)) = mem_clock w"
  using assms by (auto simp: mem_server_def read_counter_def Let_def split: option.splits)

lemma mem_time: "cmd_TIME mem_server w = (sec, usec) \<Longrightarrow> sec * 1000 + usec div 1000 = mem_clock w"
  by (auto simp: mem_server_def)

lemma mem_zremrange:
  "mem_zs (cmd_ZREMRANGEBYSCORE mem_server k t w) k = mem_zs w k |` {m. \<exists>s. mem_zs w k m = Some s \<and> t < s}"
proof -
  have "map_of (filter (\<lambda>(m, s). t < the (mem_zs w k m)) (mem_set w k)) = mem_zs w k |` {m. t < the (mem_zs w k m)}"
    unfolding mem_zs_def by (rule mem_restrict)
  moreover have "mem_zs w k |` {m. t < the (mem_zs w k m)} = mem_zs w k |` {m. \<exists>s. mem_zs w k m = Some s \<and> t < s}"
    by (rule ext, case_tac "mem_zs w k x") (auto simp: restrict_map_def)
  ultimately show ?thesis by (simp add: mem_server_def)
qed

lemma mem_zcard: "cmd_ZCARD mem_server k w = int (card (dom (mem_zs w k)))" "finite (dom (mem_zs w k))"
  by (simp_all add: mem_server_def mem_zs_def dom_map_of_conv_image_fst length_remdups_card_conv)

lemma mem_zlast:
  "cmd_ZLAST mem_server k w = Some (m, s) \<Longrightarrow> mem_zs w k m = Some s \<and> (\<forall>m' s'. mem_zs w k m' = Some s' \<longrightarrow> s' \<le> s)"
  "cmd_ZLAST mem_server k w = None \<Longrightarrow> mem_zs w k = Map.empty"
  using mem_last [of "mem_set w k" m s] map_of_clearjunk [of "mem_set w k"] by (simp_all add: mem_server_def mem_zs_def)

lemma mem_tonumber:
  "ParseInt t1 = Some x \<Longrightarrow> ParseInt t2 = Some y \<Longrightarrow> x \<le> y \<Longrightarrow>
    \<exists>p q. lua_tonumber mem_server t1 = Some p \<and> lua_tonumber mem_server t2 = Some q \<and> p \<le> q"
  by (simp add: mem_server_def)

lemma mem_pexpire:
  "0 < ms \<Longrightarrow> mem_str (snd (cmd_PEXPIRE mem_server k ms w)) = mem_str w"
  "mem_str w k \<noteq> None \<Longrightarrow> fst (cmd_PEXPIRE mem_server k ms w) = 1"
  "mem_clock w < t \<Longrightarrow> mem_str (cmd_PEXPIREAT mem_server k t w) = mem_str w"
  "mem_clock w < t \<Longrightarrow> mem_zs (cmd_PEXPIREAT mem_server k t w) = mem_zs w"
  "t \<le> mem_clock w \<Longrightarrow> mem_zs (cmd_PEXPIREAT mem_server k t w) = (mem_zs w)(k := Map.empty)"
  by (simp_all add: mem_server_def expire_at_future expire_at_past mem_present_def)

lemma mem_updates:
  "cmd_GET mem_server k w = mem_str w k" "mem_str (cmd_SET mem_server k v w) = (mem_str w)(k \<mapsto> v)"
  "mem_str (snd (cmd_DEL mem_server k w)) = (mem_str w)(k := None)"
  "mem_zs (snd (cmd_DEL mem_server k w)) = (mem_zs w)(k := Map.empty)"
  "mem_str w k \<noteq> None \<Longrightarrow> fst (cmd_DEL mem_server k w) = 1" "cmd_ZSCORE mem_server k m w = mem_zs w k m"
  "mem_zs (cmd_ZADD mem_server k s m w) k = (mem_zs w k)(m \<mapsto> s)"
  "mem_zs (snd (cmd_ZREM mem_server k m w)) k = (mem_zs w k)(m := None)"
  by (simp_all add: mem_server_def mem_present_def mem_zs_def [of w k] update_conv' delete_conv')

lemma mem_clocks:
  "mem_clock (cmd_SET mem_server k v w) = mem_clock w" "mem_clock (snd (cmd_DEL mem_server k w)) = mem_clock w"
  "mem_clock (snd (cmd_PEXPIRE mem_server k ms w)) = mem_clock w" "mem_clock (cmd_PEXPIREAT mem_server k t w) = mem_clock w"
  "mem_clock (cmd_ZREMRANGEBYSCORE mem_server k t w) = mem_clock w" "mem_clock (cmd_ZADD mem_server k t m w) = mem_clock w"
  "mem_clock (snd (cmd_ZREM mem_server k m w)) = mem_clock w"
  by (simp_all add: mem_server_def)

interpretation memr: redis_server mem_server mem_clock mem_str mem_zs
  by (unfold_locales; (rule mem_updates mem_clocks mem_pexpire mem_setpx mem_setnx mem_incrby mem_time mem_zremrange mem_zcard mem_zlast
        mem_tonumber; assumption))

end
