(* ===== verification/Redis_Coordinator.thy ===== *)
theory Redis_Coordinator
  imports Account_Pool Redis_Laws
begin

text \<open>
  The Redis coordinator of the account pool (\<open>internal/accounts/redis_coordinator.go\<close>): concurrency leases,
  affinities and cooldowns that several processes share.

  \<open>RedisCommands\<close> is the interface the coordinator is written against, \<open>database_commands\<close> the adapter of
  \<open>internal/database\<close> as an instance of it, and \<open>redis_coordinator\<close> the coordinator as the pool sees it.
  SHA-256, the clock and the random source are fields of the coordinator.
\<close>

section \<open>The command interface\<close>

record 'w RedisCommands =
  rc_Get :: "string \<Rightarrow> 'w \<Rightarrow> (error + string) \<times> 'w"
  rc_Set :: "string \<Rightarrow> string \<Rightarrow> duration \<Rightarrow> 'w \<Rightarrow> (error + unit) \<times> 'w"
  rc_SetNX :: "string \<Rightarrow> string \<Rightarrow> duration \<Rightarrow> 'w \<Rightarrow> (error + bool) \<times> 'w"
  rc_GetDelete :: "string \<Rightarrow> 'w \<Rightarrow> (error + string option) \<times> 'w"
  rc_AcquireSlot :: "string \<Rightarrow> int \<Rightarrow> duration \<Rightarrow> 'w \<Rightarrow> (error + bool) \<times> 'w"
  rc_ReleaseSlot :: "string \<Rightarrow> 'w \<Rightarrow> (error + unit) \<times> 'w"
  rc_CompareDelete :: "string \<Rightarrow> string \<Rightarrow> 'w \<Rightarrow> (error + bool) \<times> 'w"
  rc_CompareExpire :: "string \<Rightarrow> string \<Rightarrow> duration \<Rightarrow> 'w \<Rightarrow> (error + bool) \<times> 'w"
  rc_SetIfGreater :: "string \<Rightarrow> int \<Rightarrow> time \<Rightarrow> 'w \<Rightarrow> (error + bool) \<times> 'w"
  rc_AcquireLeaseSlot :: "string \<Rightarrow> string \<Rightarrow> int \<Rightarrow> duration \<Rightarrow> 'w \<Rightarrow> (error + bool) \<times> 'w"
  rc_ReleaseLeaseSlot :: "string \<Rightarrow> string \<Rightarrow> 'w \<Rightarrow> (error + unit) \<times> 'w"

definition database_commands :: "'w Redis \<Rightarrow> 'w RedisCommands" where
  "database_commands r = \<lparr>rc_Get = Get r, rc_Set = Set r, rc_SetNX = SetNX r, rc_GetDelete = GetDelete r,
     rc_AcquireSlot = AcquireSlot r, rc_ReleaseSlot = ReleaseSlot r, rc_CompareDelete = CompareDelete r,
     rc_CompareExpire = CompareExpire r, rc_SetIfGreater = SetIfGreater r, rc_AcquireLeaseSlot = AcquireLeaseSlot r,
     rc_ReleaseLeaseSlot = ReleaseLeaseSlot r\<rparr>"

section \<open>The coordinator\<close>

record 'w RedisCoordinator =
  redis :: "'w RedisCommands option"
  namespace :: string
  rc_now :: "'w \<Rightarrow> time \<times> 'w"
  rc_random :: "'w \<Rightarrow> (error + nat list) \<times> 'w"
  sha256 :: "string \<Rightarrow> nat list"

definition defaultCoordinatorNamespace :: string where
  "defaultCoordinatorNamespace = ''account-pool''"

definition NewRedisCoordinatorWithNamespace ::
  "'w RedisCommands option \<Rightarrow> string \<Rightarrow> ('w \<Rightarrow> time \<times> 'w) \<Rightarrow> ('w \<Rightarrow> (error + nat list) \<times> 'w)
    \<Rightarrow> (string \<Rightarrow> nat list) \<Rightarrow> 'w RedisCoordinator" where
  "NewRedisCoordinatorWithNamespace cmds ns clock random sha =
     (let ns = TrimRight (TrimLeft ns (CHR '':'')) (CHR '':'')
      in \<lparr>redis = cmds, namespace = (if ns = '''' then defaultCoordinatorNamespace else ns),
          rc_now = clock, rc_random = random, sha256 = sha\<rparr>)"

definition NewRedisCoordinator ::
  "'w RedisCommands option \<Rightarrow> ('w \<Rightarrow> time \<times> 'w) \<Rightarrow> ('w \<Rightarrow> (error + nat list) \<times> 'w)
    \<Rightarrow> (string \<Rightarrow> nat list) \<Rightarrow> 'w RedisCoordinator" where
  "NewRedisCoordinator cmds = NewRedisCoordinatorWithNamespace cmds defaultCoordinatorNamespace"

text \<open>\<open>hex.EncodeToString\<close>.\<close>

definition hex_encode :: "nat list \<Rightarrow> string" where
  "hex_encode bs = concat (map (\<lambda>b. [hex_low (b div 16 mod 16), hex_low (b mod 16)]) bs)"

definition digest :: "'w RedisCoordinator \<Rightarrow> string \<Rightarrow> string" where
  "digest c value = hex_encode (sha256 c value)"

definition leaseKey :: "'w RedisCoordinator \<Rightarrow> string \<Rightarrow> string" where
  "leaseKey c acct = namespace c @ '':leases:'' @ digest c acct"

definition rc_affinityKey :: "'w RedisCoordinator \<Rightarrow> string \<Rightarrow> string \<Rightarrow> string" where
  "rc_affinityKey c m affinity = namespace c @ '':affinity:'' @ digest c (m @ [CHR 0x00] @ affinity)"

definition cooldownKey :: "'w RedisCoordinator \<Rightarrow> string \<Rightarrow> string" where
  "cooldownKey c acct = namespace c @ '':cooldown:'' @ digest c acct"

text \<open>A failed command, with the text that names the operation.\<close>

definition wrap_err :: "string \<Rightarrow> (error + 'a) \<Rightarrow> error + 'a" where
  "wrap_err what x = (case x of Inl e \<Rightarrow> Inl (Wrapped what e) | Inr v \<Rightarrow> Inr v)"

definition not_configured :: error where
  "not_configured = ErrText ''account coordinator is not configured''"

definition rc_AcquireLease ::
  "'w RedisCoordinator \<Rightarrow> string \<Rightarrow> int \<Rightarrow> duration \<Rightarrow> 'w \<Rightarrow> (error + CoordinationLease option) \<times> 'w" where
  "rc_AcquireLease c acct limit ttl w =
     (case redis c of
        None \<Rightarrow> (Inl not_configured, w)
      | Some cmds \<Rightarrow>
          if acct = '''' then (Inl (ErrText ''account lease requires an account ID''), w)
          else if limit \<le> 0 then (Inl (ErrText ''account lease limit must be positive''), w)
          else if ttl \<le> 0 then (Inl (ErrText ''account lease TTL must be positive''), w)
          else (let (bytes, w) = rc_random c w
                in case bytes of
                     Inl e \<Rightarrow> (Inl (Wrapped ''create account lease owner'' e), w)
                   | Inr bs \<Rightarrow>
                       (let owner = hex_encode bs;
                            (acquired, w) = rc_AcquireLeaseSlot cmds (leaseKey c acct) owner limit ttl w
                        in case acquired of
                             Inl e \<Rightarrow> (Inl (Wrapped ''acquire account lease'' e), w)
                           | Inr False \<Rightarrow> (Inr None, w)
                           | Inr True \<Rightarrow> (Inr (Some \<lparr>cl_AccountID = acct, Slot = 0, Owner = owner\<rparr>), w))))"

definition as_error :: "error + 'a \<Rightarrow> error option" where
  "as_error x = (case x of Inl e \<Rightarrow> Some e | Inr _ \<Rightarrow> None)"

definition rc_ReleaseLease :: "'w RedisCoordinator \<Rightarrow> CoordinationLease \<Rightarrow> 'w \<Rightarrow> error option \<times> 'w" where
  "rc_ReleaseLease c l w =
     (case redis c of
        None \<Rightarrow> (Some not_configured, w)
      | Some cmds \<Rightarrow>
          if cl_AccountID l = '''' \<or> Slot l < 0 \<or> Owner l = '''' then (Some (ErrText ''invalid account coordination lease''), w)
          else (let (x, w) = rc_ReleaseLeaseSlot cmds (leaseKey c (cl_AccountID l)) (Owner l) w
                in (as_error (wrap_err ''release account lease'' x), w)))"

definition rc_GetAffinity :: "'w RedisCoordinator \<Rightarrow> string \<Rightarrow> string \<Rightarrow> 'w \<Rightarrow> (error + string option) \<times> 'w" where
  "rc_GetAffinity c m affinity w =
     (case redis c of
        None \<Rightarrow> (Inl not_configured, w)
      | Some cmds \<Rightarrow>
          (let (x, w) = rc_Get cmds (rc_affinityKey c m affinity) w
           in (case x of
                 Inl e \<Rightarrow> if errors_is e ErrCacheMiss then Inr None else Inl (Wrapped ''read account affinity'' e)
               | Inr v \<Rightarrow> if v = '''' then Inl (ErrText ''account affinity is empty'') else Inr (Some v), w)))"

fun bind_loop ::
  "'w RedisCommands \<Rightarrow> string \<Rightarrow> string \<Rightarrow> duration \<Rightarrow> nat \<Rightarrow> 'w \<Rightarrow> (error + string \<times> bool) \<times> 'w" where
  "bind_loop cmds key acct ttl 0 w = (Inl (ErrText ''account affinity changed while binding''), w)"
| "bind_loop cmds key acct ttl (Suc attempts) w =
     (let (created, w) = rc_SetNX cmds key acct ttl w
      in case created of
           Inl e \<Rightarrow> (Inl (Wrapped ''bind account affinity'' e), w)
         | Inr True \<Rightarrow> (Inr (acct, True), w)
         | Inr False \<Rightarrow>
             (let (value, w) = rc_Get cmds key w
              in case value of
                   Inl e \<Rightarrow> if errors_is e ErrCacheMiss then bind_loop cmds key acct ttl attempts w
                            else (Inl (Wrapped ''read bound account affinity'' e), w)
                 | Inr v \<Rightarrow>
                     if v = '''' then (Inl (ErrText ''bound account affinity is empty''), w)
                     else (let (refreshed, w) = rc_CompareExpire cmds key v ttl w
                           in case refreshed of
                                Inl e \<Rightarrow> (Inl (Wrapped ''refresh bound account affinity'' e), w)
                              | Inr False \<Rightarrow> bind_loop cmds key acct ttl attempts w
                              | Inr True \<Rightarrow> (Inr (v, False), w))))"

definition rc_BindAffinity ::
  "'w RedisCoordinator \<Rightarrow> string \<Rightarrow> string \<Rightarrow> string \<Rightarrow> duration \<Rightarrow> 'w \<Rightarrow> (error + string \<times> bool) \<times> 'w" where
  "rc_BindAffinity c m affinity acct ttl w =
     (case redis c of
        None \<Rightarrow> (Inl not_configured, w)
      | Some cmds \<Rightarrow>
          if acct = '''' then (Inl (ErrText ''account affinity requires an account ID''), w)
          else if ttl \<le> 0 then (Inl (ErrText ''account affinity TTL must be positive''), w)
          else bind_loop cmds (rc_affinityKey c m affinity) acct ttl 3 w)"

definition rc_ClearAffinity :: "'w RedisCoordinator \<Rightarrow> string \<Rightarrow> string \<Rightarrow> string \<Rightarrow> 'w \<Rightarrow> error option \<times> 'w" where
  "rc_ClearAffinity c m affinity acct w =
     (case redis c of
        None \<Rightarrow> (Some not_configured, w)
      | Some cmds \<Rightarrow>
          if acct = '''' then (Some (ErrText ''account affinity requires an account ID''), w)
          else (let (x, w) = rc_CompareDelete cmds (rc_affinityKey c m affinity) acct w
                in (as_error (wrap_err ''clear account affinity'' x), w)))"

definition rc_CooldownUntil :: "'w RedisCoordinator \<Rightarrow> string \<Rightarrow> 'w \<Rightarrow> (error + time option) \<times> 'w" where
  "rc_CooldownUntil c acct w =
     (case redis c of
        None \<Rightarrow> (Inl not_configured, w)
      | Some cmds \<Rightarrow>
          (let (x, w) = rc_Get cmds (cooldownKey c acct) w
           in case x of
                Inl e \<Rightarrow> (if errors_is e ErrCacheMiss then Inr None else Inl (Wrapped ''read account cooldown'' e), w)
              | Inr v \<Rightarrow>
                  (case ParseInt v of
                     None \<Rightarrow> (Inl (Wrapped ''parse account cooldown'' (ErrText v)), w)
                   | Some nanos \<Rightarrow>
                       (let (now, w) = rc_now c w
                        in (Inr (if now < time_of_nano nanos then Some (time_of_nano nanos) else None), w)))))"

definition rc_SetCooldown :: "'w RedisCoordinator \<Rightarrow> string \<Rightarrow> time \<Rightarrow> 'w \<Rightarrow> error option \<times> 'w" where
  "rc_SetCooldown c acct until w =
     (case redis c of
        None \<Rightarrow> (Some not_configured, w)
      | Some cmds \<Rightarrow>
          if acct = '''' then (Some (ErrText ''account cooldown requires an account ID''), w)
          else (let (now, w) = rc_now c w
                in if time_sub until now \<le> 0 then (None, w)
                   else (let (x, w) = rc_SetIfGreater cmds (cooldownKey c acct) (unix_nano until) until w
                         in (as_error (wrap_err ''set account cooldown'' x), w))))"

definition rc_ClearCooldown :: "'w RedisCoordinator \<Rightarrow> string \<Rightarrow> 'w \<Rightarrow> error option \<times> 'w" where
  "rc_ClearCooldown c acct w =
     (case redis c of
        None \<Rightarrow> (Some not_configured, w)
      | Some cmds \<Rightarrow>
          if acct = '''' then (Some (ErrText ''account cooldown requires an account ID''), w)
          else (let (x, w) = rc_GetDelete cmds (cooldownKey c acct) w
                in (as_error (wrap_err ''clear account cooldown'' x), w)))"

text \<open>The coordinator as the pool's interface.\<close>

definition redis_coordinator :: "'w RedisCoordinator \<Rightarrow> 'w Coordinator" where
  "redis_coordinator c = \<lparr>AcquireLease = rc_AcquireLease c, ReleaseLease = rc_ReleaseLease c,
     GetAffinity = rc_GetAffinity c, BindAffinity = rc_BindAffinity c, ClearAffinity = rc_ClearAffinity c,
     coord_CooldownUntil = rc_CooldownUntil c, SetCooldown = rc_SetCooldown c, coord_ClearCooldown = rc_ClearCooldown c\<rparr>"

end
