(* ===== verification/Coordinator_Properties.thy ===== *)
theory Coordinator_Properties
  imports Redis_Coordinator
begin

text \<open>
  What the coordinator guarantees, first over any command implementation that keeps the two laws of
  \<open>redis_commands\<close>, then over the adapter of \<open>internal/database\<close> on any Redis server that keeps the laws of
  \<open>redis_server\<close>. The network and other clients may change the server before every command.
\<close>

section \<open>The command interface\<close>

locale redis_commands =
  fixes cmds :: "'w RedisCommands" and stored :: "'w \<Rightarrow> string \<Rightarrow> string option"
  assumes setnx_won: "rc_SetNX cmds key v ttl w = (Inr True, w') \<Longrightarrow> 1000000 \<le> ttl \<Longrightarrow> stored w' key = Some v"
    and refreshed: "rc_CompareExpire cmds key v ttl w = (Inr True, w') \<Longrightarrow> 1000000 \<le> ttl \<Longrightarrow> stored w' key = Some v"
begin

lemma bind_loop_stored:
  assumes "bind_loop cmds key acct ttl n w = (Inr (winner, created), w')" "1000000 \<le> ttl"
  shows "stored w' key = Some winner \<and> (created \<longrightarrow> winner = acct)"
  using assms
proof (induction n arbitrary: w)
  case 0
  then show ?case by simp
next
  case (Suc n)
  obtain x1 w1 where s: "rc_SetNX cmds key acct ttl w = (x1, w1)" by (rule prod.exhaust)
  obtain x2 w2 where g: "rc_Get cmds key w1 = (x2, w2)" by (rule prod.exhaust)
  show ?case
  proof (cases x1)
    case (Inl e)
    then show ?thesis using Suc.prems s by simp
  next
    case (Inr b)
    show ?thesis
    proof (cases b)
      case True
      then show ?thesis using Suc.prems s Inr setnx_won [of key acct ttl w w1] by simp
    next
      case nb: False
      show ?thesis
      proof (cases x2)
        case Inl': (Inl e)
        then have "bind_loop cmds key acct ttl n w2 = (Inr (winner, created), w')"
          using Suc.prems s g Inr nb by (auto split: if_splits)
        then show ?thesis using Suc.IH Suc.prems(2) by blast
      next
        case Inr': (Inr v)
        obtain x3 w3 where r: "rc_CompareExpire cmds key v ttl w2 = (x3, w3)" by (rule prod.exhaust)
        show ?thesis
        proof (cases "x3 = Inr True")
          case True
          then show ?thesis using Suc.prems s g r Inr Inr' nb refreshed [of key v ttl w2 w3] by (auto split: if_splits)
        next
          case False
          then have "bind_loop cmds key acct ttl n w3 = (Inr (winner, created), w')"
            using Suc.prems s g r Inr Inr' nb by (auto split: if_splits sum.splits bool.splits)
          then show ?thesis using Suc.IH Suc.prems(2) by blast
        qed
      qed
    qed
  qed
qed

end

section \<open>The database adapter\<close>

lemma Key_one [simp]: "Key r [key] = prefix r @ key"
  by (simp add: Key_def)

lemma expiry_ms_id: "1000000 \<le> ttl \<Longrightarrow> expiry_ms ttl = milliseconds ttl"
  by (simp add: expiry_ms_def)

lemma milliseconds_pos: "1000000 \<le> ttl \<Longrightarrow> 0 < milliseconds ttl"
  using zdiv_mono1 [of 1000000 ttl 1000000] by (simp add: milliseconds_def)

locale redis_database = redis_server +
  fixes pfx :: string
begin

lemma database_setnx:
  assumes "SetNX \<lparr>client = Some srv, prefix = pfx\<rparr> key v ttl w = (Inr True, w')" "1000000 \<le> ttl"
  shows "str w' (pfx @ key) = Some v"
  using assms setnx [of "expiry_ms ttl" "pfx @ key" v _ True w'] milliseconds_pos [of ttl] expiry_ms_id [of ttl]
  by (auto simp: SetNX_def with_client_def round_trip_def Let_def split: prod.splits option.splits)

lemma database_compare_expire:
  assumes "CompareExpire \<lparr>client = Some srv, prefix = pfx\<rparr> key v ttl w = (Inr True, w')" "1000000 \<le> ttl"
  shows "str w' (pfx @ key) = Some v"
proof -
  obtain w1 where t: "script_compare_expire srv (pfx @ key) v (milliseconds ttl) w1 = (1, w')"
    using assms by (auto simp: CompareExpire_def with_client_def round_trip_def Let_def split: prod.splits option.splits)
  then have "cmd_GET srv (pfx @ key) w1 = Some v" "w' = snd (cmd_PEXPIRE srv (pfx @ key) (milliseconds ttl) w1)"
    by (auto simp: script_compare_expire_def split: if_splits)
  then show ?thesis using pexpire(1) [OF milliseconds_pos [OF assms(2)]] by (simp add: get)
qed

end

sublocale redis_database \<subseteq> dbc: redis_commands "database_commands \<lparr>client = Some srv, prefix = pfx\<rparr>" "\<lambda>w key. str w (pfx @ key)"
  by unfold_locales (simp_all add: database_commands_def database_setnx database_compare_expire)

interpretation memdb: redis_database mem_server mem_clock mem_str mem_zs "''grok:''"
  by unfold_locales

section \<open>Hexadecimal owners\<close>

lemma strip_lead_id:
  assumes "\<And>e. e \<in> set encs \<Longrightarrow> hd e \<notin> set s"
  shows "strip_lead encs s = s"
proof -
  have "find (\<lambda>e. e \<noteq> [] \<and> take (length e) s = e) encs = None"
  proof (rule ccontr)
    assume "\<not> ?thesis"
    then obtain e where e: "e \<in> set encs" "e \<noteq> []" "take (length e) s = e" by (auto simp: find_None_iff)
    then have "hd e \<in> set (take (length e) s)" by simp
    with e assms show False by (metis in_set_takeD)
  qed
  then show ?thesis by (simp add: strip_lead.simps [of encs s])
qed

lemma TrimSpace_id:
  assumes "\<And>e. e \<in> set space_encodings \<Longrightarrow> hd e \<notin> set s \<and> last e \<notin> set s"
  shows "TrimSpace s = s"
proof -
  have "strip_lead space_encodings s = s" using assms by (intro strip_lead_id) simp
  moreover have "strip_lead (map rev space_encodings) (rev s) = rev s"
    using assms by (intro strip_lead_id) (auto simp: hd_rev)
  ultimately show ?thesis by (simp add: TrimSpace_def)
qed

lemma hex_low_not_space:
  assumes "n < 16" "e \<in> set space_encodings"
  shows "hd e \<noteq> hex_low n \<and> last e \<noteq> hex_low n"
proof -
  have "\<forall>n \<in> set [0..<16]. \<forall>e \<in> set space_encodings. hd e \<noteq> hex_low n \<and> last e \<noteq> hex_low n" by code_simp
  with assms show ?thesis by simp
qed

lemma TrimSpace_hex [simp]: "TrimSpace (hex_encode bs) = hex_encode bs"
proof (rule TrimSpace_id)
  fix e assume e: "e \<in> set space_encodings"
  have "c \<in> set (hex_encode bs) \<Longrightarrow> \<exists>n<16. c = hex_low n" for c
    unfolding hex_encode_def by (auto intro: exI [of _ "_ mod 16"])
  then show "hd e \<notin> set (hex_encode bs) \<and> last e \<notin> set (hex_encode bs)"
    using hex_low_not_space [OF _ e] by metis
qed

lemma hex_encode_empty [simp]: "hex_encode bs = [] \<longleftrightarrow> bs = []"
  by (cases bs) (simp_all add: hex_encode_def)


section \<open>The coordinator on a Redis server\<close>

context redis_database
begin

lemma bind_stored:
  assumes "bind_loop (database_commands \<lparr>client = Some srv, prefix = pfx\<rparr>) key acct ttl n w = (Inr (winner, created), w')"
    and "1000000 \<le> ttl"
  shows "str w' (pfx @ key) = Some winner \<and> (created \<longrightarrow> winner = acct)"
  using assms by (rule dbc.bind_loop_stored)

lemma lease_slot:
  assumes "transport srv w = (None, w2)" "0 < limit" "1000000 \<le> ttl" "bs \<noteq> []"
    and "AcquireLeaseSlot \<lparr>client = Some srv, prefix = pfx\<rparr> key (hex_encode bs) limit ttl w = (x, w')"
  shows "x = Inr (hex_encode bs \<in> live_owners clk zs w2 (pfx @ key) \<or> int (card (live_owners clk zs w2 (pfx @ key))) < limit)"
    and "live_owners clk zs w' (pfx @ key) =
      (if x = Inr True then insert (hex_encode bs) (live_owners clk zs w2 (pfx @ key)) else live_owners clk zs w2 (pfx @ key))"
proof -
  obtain n where n: "script_acquire_lease srv (pfx @ key) (hex_encode bs) limit (milliseconds ttl) w2 = (n, w')" "x = Inr (n = 1)"
    using assms by (auto simp: AcquireLeaseSlot_def with_client_def round_trip_def Let_def split: prod.splits)
  note l = acquire_lease_owners [OF milliseconds_pos [OF assms(3)] n(1)]
  show "x = Inr (hex_encode bs \<in> live_owners clk zs w2 (pfx @ key) \<or> int (card (live_owners clk zs w2 (pfx @ key))) < limit)"
    using l(1) n(2) by simp
  show "live_owners clk zs w' (pfx @ key) =
      (if x = Inr True then insert (hex_encode bs) (live_owners clk zs w2 (pfx @ key)) else live_owners clk zs w2 (pfx @ key))"
    using l(2) n(2) by simp
qed

lemma lease_slot_released:
  assumes "transport srv w = (None, w2)" "ReleaseLeaseSlot \<lparr>client = Some srv, prefix = pfx\<rparr> key owner w = (x, w')"
  shows "x = Inr () \<and> live_owners clk zs w' (pfx @ key) = live_owners clk zs w2 (pfx @ key) - {owner}"
  using assms release_lease_owners [of "pfx @ key" owner w2, OF prod.collapse [symmetric]]
  by (auto simp: ReleaseLeaseSlot_def with_client_def round_trip_def)

end

text \<open>Whenever \<open>BindAffinity\<close> returns an account, that account is the one stored for the affinity when the
  call returns, whatever other processes did meanwhile, and it is the caller's own account if the call reports
  that it created the binding.\<close>

theorem bind_affinity_stored:
  assumes "redis_server srv clk str zs" "redis c = Some (database_commands \<lparr>client = Some srv, prefix = pfx\<rparr>)"
    and "1000000 \<le> ttl" "rc_BindAffinity c m affinity acct ttl w = (Inr (winner, created), w')"
  shows "str w' (pfx @ rc_affinityKey c m affinity) = Some winner \<and> (created \<longrightarrow> winner = acct)"
proof -
  have db: "redis_database srv clk str zs" using assms(1) by (simp add: redis_database_def)
  show ?thesis
    using assms(2-4) redis_database.bind_stored [OF db] by (auto simp: rc_BindAffinity_def split: if_splits)
qed

text \<open>The sample coordinator: the small server, a clock at the server's time, a fixed random source.\<close>

definition sample_rc :: "mem_redis RedisCoordinator" where
  "sample_rc = NewRedisCoordinator (Some (database_commands \<lparr>client = Some mem_server, prefix = ''grok:''\<rparr>))
     (\<lambda>w. (mem_clock w * 1000000, w)) (\<lambda>w. (Inr [1, 2, 3], w)) (map of_char)"

definition sample_redis :: mem_redis where
  "sample_redis = \<lparr>mem_clock = 1000, mem_strings = Map.empty, mem_sets = (\<lambda>_. ([], None))\<rparr>"

definition sample_held :: mem_redis where
  "sample_held = sample_redis\<lparr>mem_sets := (\<lambda>_. ([(''0a'', 5000), (''010203'', 4000)], None))\<rparr>"

theorem bind_affinity_stored_witness:
  "\<exists>w'. rc_BindAffinity sample_rc ''grok-4'' ''session'' ''acct-1'' 60000000000 sample_redis = (Inr (''acct-1'', True), w')
     \<and> mem_str w' (''grok:'' @ rc_affinityKey sample_rc ''grok-4'' ''session'') = Some ''acct-1''"
proof -
  let ?r = "rc_BindAffinity sample_rc ''grok-4'' ''session'' ''acct-1'' 60000000000 sample_redis"
  have "fst ?r = Inr (''acct-1'', True)" by code_simp
  then obtain w' where r: "?r = (Inr (''acct-1'', True), w')" by (metis prod.collapse)
  then show ?thesis
    using bind_affinity_stored [OF memr.redis_server_axioms _ _ r, of "''grok:''"]
    by (simp add: sample_rc_def NewRedisCoordinator_def NewRedisCoordinatorWithNamespace_def Let_def)
qed

text \<open>C32: Acquiring a coordinated lease never lets an account have more live lease owners than the limit, it grants the
  lease exactly when the caller's owner already holds one or fewer than the limit are live, and it changes the set of live
  owners by the new owner only. The server state is the one the command meets, after the network and other clients.\<close>

theorem lease_within_limit:
  assumes "redis_server srv clk str zs" "redis c = Some (database_commands \<lparr>client = Some srv, prefix = pfx\<rparr>)"
    and "rc_random c w = (Inr bs, w1)" "bs \<noteq> []" "transport srv w1 = (None, w2)"
    and "acct \<noteq> ''''" "0 < limit" "1000000 \<le> ttl" "rc_AcquireLease c acct limit ttl w = (x, w')"
  shows "\<exists>before after. before = live_owners clk zs w2 (pfx @ leaseKey c acct) \<and> after = live_owners clk zs w' (pfx @ leaseKey c acct)
    \<and> (if hex_encode bs \<in> before \<or> int (card before) < limit
       then x = Inr (Some \<lparr>cl_AccountID = acct, Slot = 0, Owner = hex_encode bs\<rparr>) \<and> after = insert (hex_encode bs) before
       else x = Inr None \<and> after = before)
    \<and> (int (card before) \<le> limit \<longrightarrow> int (card after) \<le> limit)"
proof -
  have db: "redis_database srv clk str zs" using assms(1) by (simp add: redis_database_def)
  let ?before = "live_owners clk zs w2 (pfx @ leaseKey c acct)"
  let ?after = "live_owners clk zs w' (pfx @ leaseKey c acct)"
  let ?granted = "hex_encode bs \<in> ?before \<or> int (card ?before) < limit"
  obtain y w3 where y: "AcquireLeaseSlot \<lparr>client = Some srv, prefix = pfx\<rparr> (leaseKey c acct) (hex_encode bs) limit ttl w1 = (y, w3)"
    by (rule prod.exhaust)
  note l = redis_database.lease_slot [OF db assms(5,7,8,4) y]
  have cmd: "rc_AcquireLeaseSlot (database_commands \<lparr>client = Some srv, prefix = pfx\<rparr>) (leaseKey c acct) (hex_encode bs) limit ttl w1
      = (y, w3)" using y by (simp add: database_commands_def)
  have eval: "rc_AcquireLease c acct limit ttl w =
      (case y of Inl e \<Rightarrow> Inl (Wrapped ''acquire account lease'' e)
       | Inr g \<Rightarrow> Inr (if g then Some \<lparr>cl_AccountID = acct, Slot = 0, Owner = hex_encode bs\<rparr> else None), w3)"
    using assms(2,3,6,7,8) by (simp add: rc_AcquireLease_def cmd split: sum.splits bool.splits)
  have w3: "w' = w3" and x: "x = Inr (if ?granted then Some \<lparr>cl_AccountID = acct, Slot = 0, Owner = hex_encode bs\<rparr> else None)"
    using eval assms(9) unfolding l(1) by simp_all
  have a: "?after = (if ?granted then insert (hex_encode bs) ?before else ?before)" using l w3 by simp
  have "finite ?before" by (rule redis_server.finite_owners [OF assms(1)])
  then have "int (card ?before) \<le> limit \<longrightarrow> int (card ?after) \<le> limit"
    unfolding a by (auto simp: card_insert_if insert_absorb)
  with x a show ?thesis by auto
qed

theorem lease_within_limit_witness:
  "\<exists>before after x w'. rc_AcquireLease sample_rc ''acct-1'' 2 60000000000 sample_redis = (x, w')
     \<and> before = live_owners mem_clock mem_zs sample_redis (''grok:'' @ leaseKey sample_rc ''acct-1'')
     \<and> after = live_owners mem_clock mem_zs w' (''grok:'' @ leaseKey sample_rc ''acct-1'')
     \<and> before = {} \<and> after = {''010203''}"
proof -
  obtain x w' where r: "rc_AcquireLease sample_rc ''acct-1'' 2 60000000000 sample_redis = (x, w')" by (rule prod.exhaust)
  have e: "live_owners mem_clock mem_zs sample_redis k = {}" for k
    by (simp add: live_owners_def sample_redis_def mem_zs_def mem_set_def)
  have h: "hex_encode [1, 2, 3] = ''010203''" by code_simp
  show ?thesis
    using lease_within_limit [OF memr.redis_server_axioms _ _ _ _ _ _ _ r, of "''grok:''" "[1, 2, 3]" sample_redis sample_redis] r e h
    by (simp add: sample_rc_def NewRedisCoordinator_def NewRedisCoordinatorWithNamespace_def Let_def mem_server_def)
qed

text \<open>A lease the coordinator granted is given back by \<open>ReleaseLease\<close>: afterwards its owner holds no lease on the
  account and all other owners keep theirs.\<close>

theorem lease_release_frees:
  assumes "redis_server srv clk str zs" "redis c = Some (database_commands \<lparr>client = Some srv, prefix = pfx\<rparr>)"
    and "cl_AccountID l \<noteq> ''''" "0 \<le> Slot l" "Owner l \<noteq> ''''" "transport srv w = (None, w2)"
    and "rc_ReleaseLease c l w = (e, w')"
  shows "e = None \<and> live_owners clk zs w' (pfx @ leaseKey c (cl_AccountID l))
      = live_owners clk zs w2 (pfx @ leaseKey c (cl_AccountID l)) - {Owner l}"
proof -
  have db: "redis_database srv clk str zs" using assms(1) by (simp add: redis_database_def)
  obtain y w3 where y: "ReleaseLeaseSlot \<lparr>client = Some srv, prefix = pfx\<rparr> (leaseKey c (cl_AccountID l)) (Owner l) w = (y, w3)"
    by (rule prod.exhaust)
  from redis_database.lease_slot_released [OF db assms(6) y] assms y show ?thesis
    by (auto simp: rc_ReleaseLease_def database_commands_def as_error_def wrap_err_def)
qed

theorem lease_release_frees_witness:
  "\<exists>w'. rc_ReleaseLease sample_rc \<lparr>cl_AccountID = ''acct-1'', Slot = 0, Owner = ''010203''\<rparr> sample_held = (None, w')
     \<and> live_owners mem_clock mem_zs w' (''grok:'' @ leaseKey sample_rc ''acct-1'') = {''0a''}"
proof -
  let ?l = "\<lparr>cl_AccountID = ''acct-1'', Slot = 0, Owner = ''010203''\<rparr>"
  obtain e w' where r: "rc_ReleaseLease sample_rc ?l sample_held = (e, w')" by (rule prod.exhaust)
  have "live_owners mem_clock mem_zs sample_held k = {''0a'', ''010203''}" for k
    by (auto simp: live_owners_def sample_held_def sample_redis_def mem_zs_def mem_set_def split: if_splits)
  then show ?thesis
    using lease_release_frees [OF memr.redis_server_axioms _ _ _ _ _ r, of "''grok:''" sample_held] r
    by (simp add: sample_rc_def NewRedisCoordinator_def NewRedisCoordinatorWithNamespace_def Let_def mem_server_def insert_Diff_if)
qed

end
