(* ===== verification/Api_Key.thy ===== *)
theory Api_Key
  imports Domain Upstream_Types
begin

text \<open>
  The client-key middleware (\<open>internal/apikey/middleware.go\<close>): authentication, the request, token and
  concurrency limits of a key, and the settlement of the token usage the handler reported.

  \<^item> \<open>CounterStore\<close> and \<open>Authenticator\<close> are the interfaces the middleware is written against, with the world as
    their state. \<open>Now\<close> is \<open>time.Now\<close> or its replacement.
  \<^item> The wrapped handler is a function that gives the completions it reported in order
    (\<open>ReportCompletion\<close>) and whether it panicked.
  \<^item> The outcome keeps the status, the code and the message of the refusal and the headers that were set.
\<close>

section \<open>Completions\<close>

record Completion =
  cmp_AccountID :: string
  InputTokens :: int
  OutputTokens :: int
  CachedTokens :: int
  UsageParsed :: bool
  CacheIdentityApplied :: bool
  CacheAffinityReused :: bool
  cmp_CacheAffinityEstablished :: bool

definition no_completion :: Completion where
  "no_completion = \<lparr>cmp_AccountID = '''', InputTokens = 0, OutputTokens = 0, CachedTokens = 0, UsageParsed = False,
     CacheIdentityApplied = False, CacheAffinityReused = False, cmp_CacheAffinityEstablished = False\<rparr>"

text \<open>\<open>completionTracker.record\<close>: the tracked completion after a report.\<close>

definition tracker_record :: "Completion \<Rightarrow> Completion \<Rightarrow> Completion" where
  "tracker_record value t =
     (let t = (if cmp_AccountID value \<noteq> '''' then t\<lparr>cmp_AccountID := cmp_AccountID value\<rparr> else t);
          t = (if CacheIdentityApplied value
               then t\<lparr>CacheIdentityApplied := True, CacheAffinityReused := CacheAffinityReused value,
                      cmp_CacheAffinityEstablished := cmp_CacheAffinityEstablished value\<rparr>
               else t)
      in if UsageParsed value
         then value\<lparr>InputTokens := max 0 (InputTokens value), OutputTokens := max 0 (OutputTokens value),
                    CachedTokens := max 0 (CachedTokens value), cmp_AccountID := cmp_AccountID t,
                    CacheIdentityApplied := CacheIdentityApplied t, CacheAffinityReused := CacheAffinityReused t,
                    cmp_CacheAffinityEstablished := cmp_CacheAffinityEstablished t\<rparr>
         else t)"

text \<open>The tracker after all reports of a request; \<open>snapshot\<close> reads it.\<close>

definition ReportCompletion :: "Completion list \<Rightarrow> Completion" where
  "ReportCompletion values = fold tracker_record values no_completion"

section \<open>Calendar\<close>

text \<open>\<open>Truncate\<close> rounds down to a multiple of the duration since the zero time; \<open>Second\<close> of the minute.\<close>

definition Truncate :: "time \<Rightarrow> duration \<Rightarrow> time" where
  "Truncate t d = t - t mod d"

definition second_of :: "time \<Rightarrow> int" where
  "second_of t = (t div Second) mod 60"

definition leap :: "int \<Rightarrow> bool" where
  "leap y = (y mod 4 = 0 \<and> (y mod 100 \<noteq> 0 \<or> y mod 400 = 0))"

definition days_before_year :: "int \<Rightarrow> int" where
  "days_before_year y = 365 * (y - 1) + (y - 1) div 4 - (y - 1) div 100 + (y - 1) div 400"

definition month_lengths :: "int \<Rightarrow> int list" where
  "month_lengths y = [31, if leap y then 29 else 28, 31, 30, 31, 30, 31, 31, 30, 31, 30, 31]"

text \<open>The year of a day counted from the zero time, by cycles of 400, 100, 4 and 1 years.\<close>

definition year_of :: "int \<Rightarrow> int" where
  "year_of d =
     (let a = d div 146097; d = d mod 146097;
          b = min 3 (d div 36524); d = d - 36524 * b;
          c = d div 1461; d = d mod 1461;
          e = min 3 (d div 365)
      in 400 * a + 100 * b + 4 * c + e + 1)"

text \<open>The first day of the month that contains a day, and the length of the month.\<close>

fun month_of :: "int \<Rightarrow> int list \<Rightarrow> int \<Rightarrow> int \<times> int" where
  "month_of start [] d = (start, 0)"
| "month_of start (n # ns) d = (if d < start + n \<or> ns = [] then (start, n) else month_of (start + n) ns d)"

definition day_length :: duration where
  "day_length = 24 * Hour"

definition month_start :: "time \<Rightarrow> time" where
  "month_start t = (let d = t div day_length; y = year_of d in fst (month_of (days_before_year y) (month_lengths y) d) * day_length)"

definition next_month :: "time \<Rightarrow> time" where
  "next_month t =
     (let d = t div day_length; y = year_of d; (s, n) = month_of (days_before_year y) (month_lengths y) d
      in (s + n) * day_length)"

definition monthlyTokenWindow :: "string \<Rightarrow> time \<Rightarrow> string \<times> duration" where
  "monthlyTokenWindow keyID now =
     (''key:'' @ keyID @ '':tokens:month:'' @ FormatInt (unix_seconds (month_start now)),
      wrap64 (time_sub (next_month now) now + Hour))"

section \<open>The middleware\<close>

record 'w CounterStore =
  cs_AddWindow :: "string \<Rightarrow> int \<Rightarrow> duration \<Rightarrow> 'w \<Rightarrow> (error + int) \<times> 'w"
  cs_AcquireSlot :: "string \<Rightarrow> int \<Rightarrow> duration \<Rightarrow> 'w \<Rightarrow> (error + bool) \<times> 'w"
  cs_ReleaseSlot :: "string \<Rightarrow> 'w \<Rightarrow> error option \<times> 'w"

record 'w Middleware =
  Auth :: "string \<Rightarrow> 'w \<Rightarrow> (error + ClientKey) \<times> 'w"
  Counters :: "'w CounterStore option"
  Now :: "'w \<Rightarrow> time"
  RequestTimeoutFunc :: "('w \<Rightarrow> duration) option"

datatype gate_verdict =
    Refused int string string "(string \<times> string) list"
  | Served Completion "(string \<times> string) list"
  | Panicked "(string \<times> string) list"

type_synonym 'w next_handler = "ClientKey \<Rightarrow> 'w \<Rightarrow> (Completion list \<times> bool) \<times> 'w"

definition bearer_scheme :: "string \<Rightarrow> bool" where
  "bearer_scheme s = (ToLower s = ''bearer '')"

definition credential :: "header \<Rightarrow> string" where
  "credential h =
     (let value = TrimSpace (h ''X-API-Key'')
      in if value \<noteq> '''' then value
         else (let value = TrimSpace (h ''Authorization'')
               in if 7 < length value \<and> bearer_scheme (take 7 value) then TrimSpace (drop 7 value) else ''''))"

definition defaultMaximumRequestDuration :: duration where
  "defaultMaximumRequestDuration = Hour"

definition concurrencySlotTTLGrace :: duration where
  "concurrencySlotTTLGrace = 5 * Minute"

definition concurrencySlotTTL :: "'w Middleware \<Rightarrow> 'w \<Rightarrow> duration" where
  "concurrencySlotTTL m w =
     (let requestDuration = (case RequestTimeoutFunc m of
            None \<Rightarrow> defaultMaximumRequestDuration
          | Some f \<Rightarrow> if defaultMaximumRequestDuration < f w then f w else defaultMaximumRequestDuration)
      in if 2 ^ 63 - 1 - concurrencySlotTTLGrace < requestDuration then requestDuration
         else wrap64 (requestDuration + concurrencySlotTTLGrace))"

definition limiting_unavailable :: "(string \<times> string) list \<Rightarrow> gate_verdict" where
  "limiting_unavailable hs = Refused 503 ''rate_limit_unavailable'' ''Rate limiting is unavailable.'' hs"

definition rpm_key :: "ClientKey \<Rightarrow> time \<Rightarrow> string" where
  "rpm_key key now = ''key:'' @ key_ID key @ '':rpm:'' @ FormatInt (unix_seconds (Truncate now Minute))"

definition day_key :: "ClientKey \<Rightarrow> time \<Rightarrow> string" where
  "day_key key now = ''key:'' @ key_ID key @ '':day:'' @ FormatInt (unix_seconds (Truncate now (24 * Hour)))"

definition slot_key :: "ClientKey \<Rightarrow> string" where
  "slot_key key = ''key:'' @ key_ID key @ '':concurrency''"

text \<open>The three windows: a refusal or the headers that have been set so far.\<close>

definition check_rpm :: "'w CounterStore \<Rightarrow> ClientKey \<Rightarrow> time \<Rightarrow> 'w \<Rightarrow> (gate_verdict + (string \<times> string) list) \<times> 'w" where
  "check_rpm cs key now w =
     (if RPM key \<le> 0 then (Inr [], w)
      else (let (r, w) = cs_AddWindow cs (rpm_key key now) 1 (2 * Minute) w
            in case r of
                 Inl _ \<Rightarrow> (Inl (limiting_unavailable []), w)
               | Inr count \<Rightarrow>
                   (let hs = [(''X-RateLimit-Limit-Requests'', FormatInt (RPM key)),
                              (''X-RateLimit-Remaining-Requests'', FormatInt (max 0 (wrap64 (RPM key - count))))]
                    in if RPM key < count
                       then (Inl (Refused 429 ''rate_limit_exceeded'' ''The API key request rate was exceeded.''
                               (hs @ [(''Retry-After'', FormatInt (60 - second_of now))])), w)
                       else (Inr hs, w))))"

definition check_day ::
  "'w CounterStore \<Rightarrow> ClientKey \<Rightarrow> time \<Rightarrow> (string \<times> string) list \<Rightarrow> 'w \<Rightarrow> (gate_verdict + (string \<times> string) list) \<times> 'w" where
  "check_day cs key now hs w =
     (if DailyRequestLimit key \<le> 0 then (Inr hs, w)
      else (let (r, w) = cs_AddWindow cs (day_key key now) 1 (26 * Hour) w
            in case r of
                 Inl _ \<Rightarrow> (Inl (limiting_unavailable hs), w)
               | Inr count \<Rightarrow>
                   if DailyRequestLimit key < count
                   then (Inl (Refused 429 ''daily_limit_exceeded'' ''The API key daily request limit was exceeded.'' hs), w)
                   else (Inr hs, w)))"

definition check_month ::
  "'w CounterStore \<Rightarrow> ClientKey \<Rightarrow> time \<Rightarrow> (string \<times> string) list \<Rightarrow> 'w \<Rightarrow> (gate_verdict + (string \<times> string) list) \<times> 'w" where
  "check_month cs key now hs w =
     (if MonthlyTokenLimit key \<le> 0 then (Inr hs, w)
      else (let (monthKey, monthTTL) = monthlyTokenWindow (key_ID key) now;
                (r, w) = cs_AddWindow cs monthKey 0 monthTTL w
            in case r of
                 Inl _ \<Rightarrow> (Inl (limiting_unavailable hs), w)
               | Inr used \<Rightarrow>
                   (let hs = hs @ [(''X-RateLimit-Limit-Tokens'', FormatInt (MonthlyTokenLimit key)),
                                   (''X-RateLimit-Remaining-Tokens'', FormatInt (max 0 (wrap64 (MonthlyTokenLimit key - used))))]
                    in if MonthlyTokenLimit key \<le> used
                       then (Inl (Refused 429 ''monthly_token_limit_exceeded'' ''The API key monthly token limit was exceeded.'' hs), w)
                       else (Inr hs, w))))"

text \<open>The concurrency slot: a refusal, or whether a slot is held that has to be released.\<close>

definition check_slot ::
  "'w Middleware \<Rightarrow> 'w CounterStore \<Rightarrow> ClientKey \<Rightarrow> (string \<times> string) list \<Rightarrow> 'w \<Rightarrow> (gate_verdict + bool) \<times> 'w" where
  "check_slot m cs key hs w =
     (if key_ConcurrencyLimit key \<le> 0 then (Inr False, w)
      else (let (r, w) = cs_AcquireSlot cs (slot_key key) (key_ConcurrencyLimit key) (concurrencySlotTTL m w) w
            in case r of
                 Inl _ \<Rightarrow> (Inl (Refused 503 ''rate_limit_unavailable'' ''Concurrency limiting is unavailable.'' hs), w)
               | Inr False \<Rightarrow> (Inl (Refused 429 ''concurrency_limit_exceeded'' ''The API key concurrency limit was exceeded.'' hs), w)
               | Inr True \<Rightarrow> (Inr True, w)))"

text \<open>
  The wrapped handler, the settlement of the tokens it used, and the deferred release of the slot. A panic skips the
  settlement and not the release.
\<close>

definition serve_request ::
  "'w CounterStore \<Rightarrow> 'w next_handler \<Rightarrow> ClientKey \<Rightarrow> time \<Rightarrow> bool \<Rightarrow> (string \<times> string) list \<Rightarrow> 'w \<Rightarrow> gate_verdict \<times> 'w" where
  "serve_request cs nxt key now held hs w =
     (let ((reports, panicked), w) = nxt key w;
          completion = ReportCompletion reports;
          (monthKey, monthTTL) = monthlyTokenWindow (key_ID key) now;
          w = (if \<not> panicked \<and> UsageParsed completion
               then snd (cs_AddWindow cs monthKey (wrap64 (InputTokens completion + OutputTokens completion)) monthTTL w) else w);
          w = (if held then snd (cs_ReleaseSlot cs (slot_key key) w) else w)
      in (if panicked then Panicked hs else Served completion hs, w))"

definition admit_request ::
  "'w Middleware \<Rightarrow> 'w CounterStore \<Rightarrow> 'w next_handler \<Rightarrow> ClientKey \<Rightarrow> time \<Rightarrow> 'w \<Rightarrow> gate_verdict \<times> 'w" where
  "admit_request m cs nxt key now w =
     (let (r, w) = check_rpm cs key now w
      in case r of
           Inl v \<Rightarrow> (v, w)
         | Inr hs \<Rightarrow>
             (let (r, w) = check_day cs key now hs w
              in case r of
                   Inl v \<Rightarrow> (v, w)
                 | Inr hs \<Rightarrow>
                     (let (r, w) = check_month cs key now hs w
                      in case r of
                           Inl v \<Rightarrow> (v, w)
                         | Inr hs \<Rightarrow>
                             (let (r, w) = check_slot m cs key hs w
                              in case r of
                                   Inl v \<Rightarrow> (v, w)
                                 | Inr held \<Rightarrow> serve_request cs nxt key now held hs w))))"

definition Handler :: "'w Middleware \<Rightarrow> 'w next_handler \<Rightarrow> header \<Rightarrow> 'w \<Rightarrow> gate_verdict \<times> 'w" where
  "Handler m nxt h w =
     (let plaintext = credential h
      in if plaintext = '''' then (Refused 401 ''invalid_api_key'' ''A valid API key is required.'' [], w)
         else (let (r, w) = Auth m plaintext w
               in case r of
                    Inl err \<Rightarrow>
                      (Refused (if errors_is err ErrInvalidCredentials then 401 else 503) ''invalid_api_key''
                         ''The API key is invalid or inactive.'' [], w)
                  | Inr key \<Rightarrow>
                      (case Counters m of
                         None \<Rightarrow> (limiting_unavailable [], w)
                       | Some cs \<Rightarrow> admit_request m cs nxt key (Now m w) w)))"

end
