(* ===== verification/Api_Key_Properties.thy ===== *)
theory Api_Key_Properties
  imports Api_Key
begin

text \<open>
  What the client-key middleware enforces, for every counter store: the calls it makes are recorded
  beside the world, with the answers it got, and the theorems speak of that record. The bounds of the slot
  lifetime and of the month window follow.
\<close>

section \<open>Recording the calls\<close>

datatype counter_event =
    EvAdd string int "error + int"
  | EvSlot string "error + bool"
  | EvRelease string
  | EvNext ClientKey

type_synonym 'w recorded = "'w \<times> counter_event list"

definition lift_world :: "('w \<Rightarrow> 'a \<times> 'w) \<Rightarrow> ('a \<Rightarrow> counter_event list) \<Rightarrow> 'w recorded \<Rightarrow> 'a \<times> 'w recorded" where
  "lift_world f ev s = (let (x, w) = f (fst s) in (x, (w, snd s @ ev x)))"

definition recorded_store :: "'w CounterStore \<Rightarrow> 'w recorded CounterStore" where
  "recorded_store cs = \<lparr>cs_AddWindow = (\<lambda>k n ttl. lift_world (cs_AddWindow cs k n ttl) (\<lambda>r. [EvAdd k n r])),
     cs_AcquireSlot = (\<lambda>k n ttl. lift_world (cs_AcquireSlot cs k n ttl) (\<lambda>r. [EvSlot k r])),
     cs_ReleaseSlot = (\<lambda>k. lift_world (cs_ReleaseSlot cs k) (\<lambda>_. [EvRelease k]))\<rparr>"

definition recorded_next :: "'w next_handler \<Rightarrow> 'w recorded next_handler" where
  "recorded_next nxt key = lift_world (nxt key) (\<lambda>_. [EvNext key])"

definition recorded_middleware :: "'w Middleware \<Rightarrow> 'w recorded Middleware" where
  "recorded_middleware m = \<lparr>Auth = (\<lambda>s. lift_world (Auth m s) (\<lambda>_. [])), Counters = map_option recorded_store (Counters m),
     Now = (\<lambda>s. Now m (fst s)), RequestTimeoutFunc = map_option (\<lambda>f s. f (fst s)) (RequestTimeoutFunc m)\<rparr>"

text \<open>The calls of one request.\<close>

definition calls :: "'w Middleware \<Rightarrow> 'w next_handler \<Rightarrow> header \<Rightarrow> 'w \<Rightarrow> counter_event list" where
  "calls m nxt h w = snd (snd (Handler (recorded_middleware m) (recorded_next nxt) h (w, [])))"

lemma recorded_slot_ttl [simp]: "concurrencySlotTTL (recorded_middleware m) s = concurrencySlotTTL m (fst s)"
  by (simp add: concurrencySlotTTL_def recorded_middleware_def split: option.splits)

section \<open>Stages\<close>

definition acquired_slots :: "string \<Rightarrow> counter_event list \<Rightarrow> nat" where
  "acquired_slots k evs = length (filter (\<lambda>e. e = EvSlot k (Inr True)) evs)"

definition released_slots :: "string \<Rightarrow> counter_event list \<Rightarrow> nat" where
  "released_slots k evs = length (filter (\<lambda>e. e = EvRelease k) evs)"

lemma slots_append [simp]:
  "acquired_slots k (a @ b) = acquired_slots k a + acquired_slots k b"
  "released_slots k (a @ b) = released_slots k a + released_slots k b"
  by (simp_all add: acquired_slots_def released_slots_def)

lemma slots_simps [simp]:
  "acquired_slots k [] = 0" "acquired_slots k (e # es) = (if e = EvSlot k (Inr True) then 1 else 0) + acquired_slots k es"
  "released_slots k [] = 0" "released_slots k (e # es) = (if e = EvRelease k then 1 else 0) + released_slots k es"
  by (simp_all add: acquired_slots_def released_slots_def)

text \<open>The record of a stage that only reads or counts windows.\<close>

definition window_calls :: "counter_event list \<Rightarrow> bool" where
  "window_calls ev = (\<forall>e \<in> set ev. \<exists>k n r. e = EvAdd k n r)"

lemma window_calls_simps [simp]:
  "window_calls []" "window_calls [EvAdd k n r]" "window_calls (a @ b) \<longleftrightarrow> window_calls a \<and> window_calls b"
  by (auto simp: window_calls_def)

lemma window_calls_slots:
  assumes "window_calls ev"
  shows "acquired_slots k ev = 0" "released_slots k ev = 0" "EvNext c \<notin> set ev"
  using assms by (auto simp: window_calls_def acquired_slots_def released_slots_def filter_empty_conv)

lemmas recorded = recorded_store_def lift_world_def

lemma check_rpm_events:
  assumes "check_rpm (recorded_store cs) key now s = (r, s')"
  shows "\<exists>ev. snd s' = snd s @ ev \<and> window_calls ev \<and>
    (\<forall>hs. r = Inr hs \<longrightarrow> 0 < RPM key \<longrightarrow> (\<exists>n \<le> RPM key. EvAdd (rpm_key key now) 1 (Inr n) \<in> set ev))"
proof (cases "RPM key \<le> 0")
  case True
  then show ?thesis using assms by (intro exI [of _ "[]"]) (auto simp: check_rpm_def)
next
  case False
  obtain x w where x: "cs_AddWindow cs (rpm_key key now) 1 (2 * Minute) (fst s) = (x, w)" by (rule prod.exhaust)
  show ?thesis
    using assms False x
    by (intro exI [of _ "[EvAdd (rpm_key key now) 1 x]"])
      (auto simp: check_rpm_def recorded Let_def split: sum.splits if_splits)
qed

lemma check_day_events:
  assumes "check_day (recorded_store cs) key now hs0 s = (r, s')"
  shows "\<exists>ev. snd s' = snd s @ ev \<and> window_calls ev \<and>
    (\<forall>hs. r = Inr hs \<longrightarrow> 0 < DailyRequestLimit key \<longrightarrow> (\<exists>n \<le> DailyRequestLimit key. EvAdd (day_key key now) 1 (Inr n) \<in> set ev))"
proof (cases "DailyRequestLimit key \<le> 0")
  case True
  then show ?thesis using assms by (intro exI [of _ "[]"]) (auto simp: check_day_def)
next
  case False
  obtain x w where x: "cs_AddWindow cs (day_key key now) 1 (26 * Hour) (fst s) = (x, w)" by (rule prod.exhaust)
  show ?thesis
    using assms False x
    by (intro exI [of _ "[EvAdd (day_key key now) 1 x]"])
      (auto simp: check_day_def recorded Let_def split: sum.splits if_splits)
qed

abbreviation month_key :: "ClientKey \<Rightarrow> time \<Rightarrow> string" where
  "month_key key now \<equiv> fst (monthlyTokenWindow (key_ID key) now)"

lemma check_month_events:
  assumes "check_month (recorded_store cs) key now hs0 s = (r, s')"
  shows "\<exists>ev. snd s' = snd s @ ev \<and> window_calls ev \<and>
    (\<forall>hs. r = Inr hs \<longrightarrow> 0 < MonthlyTokenLimit key \<longrightarrow> (\<exists>n < MonthlyTokenLimit key. EvAdd (month_key key now) 0 (Inr n) \<in> set ev))"
proof (cases "MonthlyTokenLimit key \<le> 0")
  case True
  then show ?thesis using assms by (intro exI [of _ "[]"]) (auto simp: check_month_def)
next
  case False
  obtain mk ttl where t: "monthlyTokenWindow (key_ID key) now = (mk, ttl)" by (rule prod.exhaust)
  obtain x w where x: "cs_AddWindow cs mk 0 ttl (fst s) = (x, w)" by (rule prod.exhaust)
  show ?thesis
    using assms False x t
    by (intro exI [of _ "[EvAdd mk 0 x]"])
      (auto simp: check_month_def recorded Let_def split: sum.splits if_splits)
qed

lemma check_slot_events:
  assumes "check_slot (recorded_middleware m) (recorded_store cs) key hs0 s = (r, s')"
  shows "\<exists>ev. snd s' = snd s @ ev \<and> (\<forall>c. EvNext c \<notin> set ev) \<and> (\<forall>k. released_slots k ev = 0)
    \<and> (\<forall>k. acquired_slots k ev = (if r = Inr True \<and> k = slot_key key then 1 else 0))
    \<and> (\<forall>held. r = Inr held \<longrightarrow> 0 < key_ConcurrencyLimit key \<longrightarrow> held \<and> EvSlot (slot_key key) (Inr True) \<in> set ev)"
proof (cases "key_ConcurrencyLimit key \<le> 0")
  case True
  then show ?thesis using assms by (intro exI [of _ "[]"]) (auto simp: check_slot_def)
next
  case False
  obtain x w where x: "cs_AcquireSlot cs (slot_key key) (key_ConcurrencyLimit key) (concurrencySlotTTL m (fst s)) (fst s) = (x, w)"
    by (rule prod.exhaust)
  show ?thesis
    using assms False x
    by (intro exI [of _ "[EvSlot (slot_key key) x]"])
      (auto simp: check_slot_def recorded Let_def split: sum.splits bool.splits)
qed

lemma serve_request_events:
  assumes "serve_request (recorded_store cs) (recorded_next nxt) key now held hs s = (v, s')"
  shows "\<exists>ev. snd s' = snd s @ ev \<and> (\<forall>c. EvNext c \<in> set ev \<longrightarrow> c = key) \<and> (\<forall>k. acquired_slots k ev = 0)
    \<and> (\<forall>k. released_slots k ev = (if held \<and> k = slot_key key then 1 else 0))"
proof -
  obtain mk ttl where t: "monthlyTokenWindow (key_ID key) now = (mk, ttl)" by (rule prod.exhaust)
  obtain reports p w1 where n: "nxt key (fst s) = ((reports, p), w1)" by (metis prod.exhaust)
  let ?c = "ReportCompletion reports"
  let ?n = "wrap64 (InputTokens ?c + OutputTokens ?c)"
  obtain x w2 where x: "cs_AddWindow cs mk ?n ttl w1 = (x, w2)" by (rule prod.exhaust)
  let ?settle = "if \<not> p \<and> UsageParsed ?c then [EvAdd mk ?n x] else []"
  show ?thesis
    using assms t n x
    by (intro exI [of _ "[EvNext key] @ ?settle @ (if held then [EvRelease (slot_key key)] else [])"])
      (auto simp: serve_request_def recorded recorded_next_def Let_def case_prod_unfold split: if_splits)
qed

section \<open>Limits\<close>

text \<open>The calls of a request that reached the handler show that every limit of its key was met.\<close>

definition limits_met :: "ClientKey \<Rightarrow> time \<Rightarrow> counter_event list \<Rightarrow> bool" where
  "limits_met key now evs \<longleftrightarrow>
     (0 < RPM key \<longrightarrow> (\<exists>n \<le> RPM key. EvAdd (rpm_key key now) 1 (Inr n) \<in> set evs)) \<and>
     (0 < DailyRequestLimit key \<longrightarrow> (\<exists>n \<le> DailyRequestLimit key. EvAdd (day_key key now) 1 (Inr n) \<in> set evs)) \<and>
     (0 < MonthlyTokenLimit key \<longrightarrow> (\<exists>n < MonthlyTokenLimit key. EvAdd (month_key key now) 0 (Inr n) \<in> set evs)) \<and>
     (0 < key_ConcurrencyLimit key \<longrightarrow> EvSlot (slot_key key) (Inr True) \<in> set evs)"

lemma admit_request_events:
  assumes "admit_request (recorded_middleware m) (recorded_store cs) (recorded_next nxt) key now s = (v, s')"
  shows "\<exists>ev. snd s' = snd s @ ev \<and> (\<forall>k. acquired_slots k ev = released_slots k ev)
    \<and> (\<forall>c. EvNext c \<in> set ev \<longrightarrow> c = key \<and> limits_met key now ev)"
proof -
  obtain r1 s1 where r1: "check_rpm (recorded_store cs) key now s = (r1, s1)" by (rule prod.exhaust)
  from check_rpm_events [OF this] obtain e1 where e1: "snd s1 = snd s @ e1" "window_calls e1"
    "\<And>hs. r1 = Inr hs \<Longrightarrow> 0 < RPM key \<Longrightarrow> \<exists>n \<le> RPM key. EvAdd (rpm_key key now) 1 (Inr n) \<in> set e1" by blast
  show ?thesis
  proof (cases r1)
    case (Inl x)
    then show ?thesis using assms r1 e1(1) window_calls_slots [OF e1(2)] by (intro exI [of _ e1]) (auto simp: admit_request_def)
  next
    case i1: (Inr h1)
    obtain r2 s2 where r2: "check_day (recorded_store cs) key now h1 s1 = (r2, s2)" by (rule prod.exhaust)
    from check_day_events [OF this] obtain e2 where e2: "snd s2 = snd s1 @ e2" "window_calls e2"
      "\<And>hs. r2 = Inr hs \<Longrightarrow> 0 < DailyRequestLimit key \<Longrightarrow> \<exists>n \<le> DailyRequestLimit key. EvAdd (day_key key now) 1 (Inr n) \<in> set e2"
      by blast
    show ?thesis
    proof (cases r2)
      case (Inl x)
      then show ?thesis using assms r1 r2 i1 e1(1) e2(1) window_calls_slots [OF e1(2)] window_calls_slots [OF e2(2)]
        by (intro exI [of _ "e1 @ e2"]) (auto simp: admit_request_def)
    next
      case i2: (Inr h2)
      obtain r3 s3 where r3: "check_month (recorded_store cs) key now h2 s2 = (r3, s3)" by (rule prod.exhaust)
      from check_month_events [OF this] obtain e3 where e3: "snd s3 = snd s2 @ e3" "window_calls e3"
        "\<And>hs. r3 = Inr hs \<Longrightarrow> 0 < MonthlyTokenLimit key \<Longrightarrow> \<exists>n < MonthlyTokenLimit key. EvAdd (month_key key now) 0 (Inr n) \<in> set e3"
        by blast
      note w = window_calls_slots [OF e1(2)] window_calls_slots [OF e2(2)] window_calls_slots [OF e3(2)]
      show ?thesis
      proof (cases r3)
        case (Inl x)
        then show ?thesis using assms r1 r2 r3 i1 i2 e1(1) e2(1) e3(1) w
          by (intro exI [of _ "e1 @ e2 @ e3"]) (auto simp: admit_request_def)
      next
        case i3: (Inr h3)
        obtain r4 s4 where r4: "check_slot (recorded_middleware m) (recorded_store cs) key h3 s3 = (r4, s4)" by (rule prod.exhaust)
        from check_slot_events [OF this] obtain e4 where e4: "snd s4 = snd s3 @ e4" "\<forall>c. EvNext c \<notin> set e4"
          "\<forall>k. released_slots k e4 = 0" "\<forall>k. acquired_slots k e4 = (if r4 = Inr True \<and> k = slot_key key then 1 else 0)"
          "\<And>held. r4 = Inr held \<Longrightarrow> 0 < key_ConcurrencyLimit key \<Longrightarrow> held \<and> EvSlot (slot_key key) (Inr True) \<in> set e4" by blast
        show ?thesis
        proof (cases r4)
          case (Inl x)
          then show ?thesis using assms r1 r2 r3 r4 i1 i2 i3 e1(1) e2(1) e3(1) e4 w
            by (intro exI [of _ "e1 @ e2 @ e3 @ e4"]) (auto simp: admit_request_def)
        next
          case i4: (Inr held)
          then have "serve_request (recorded_store cs) (recorded_next nxt) key now held h3 s4 = (v, s')"
            using assms r1 r2 r3 r4 i1 i2 i3 by (simp add: admit_request_def)
          from serve_request_events [OF this] obtain e5 where e5: "snd s' = snd s4 @ e5" "\<forall>c. EvNext c \<in> set e5 \<longrightarrow> c = key"
            "\<forall>k. acquired_slots k e5 = 0" "\<forall>k. released_slots k e5 = (if held \<and> k = slot_key key then 1 else 0)" by blast
          have "limits_met key now (e1 @ e2 @ e3 @ e4 @ e5)"
            using e1(3) [OF i1] e2(3) [OF i2] e3(3) [OF i3] e4(5) [OF i4] by (auto simp: limits_met_def)
          then show ?thesis using e1(1) e2(1) e3(1) e4 e5 w i4
            by (intro exI [of _ "e1 @ e2 @ e3 @ e4 @ e5"]) auto
        qed
      qed
    qed
  qed
qed

text \<open>C33: A request reaches the gateway only when its client key passed every configured limit: the request count of the minute and
  of the day that the counters answered is at most the limit, the tokens of the month are below theirs, and a concurrency slot
  was granted; and on every path, refusals, errors and panics of the wrapped handler included, the middleware releases a key's
  slot exactly as often as it acquired it.\<close>

theorem api_key_limits:
  assumes "evs = calls m nxt h w"
  shows "acquired_slots k evs = released_slots k evs
    \<and> (\<forall>key. EvNext key \<in> set evs \<longrightarrow>
          (\<exists>w1. Auth m (credential h) w = (Inr key, w1) \<and> limits_met key (Now m w1) evs))"
proof -
  obtain r w1 where a: "Auth m (credential h) w = (r, w1)" by (rule prod.exhaust)
  show ?thesis
  proof (cases "credential h = '''' \<or> Counters m = None \<or> (\<exists>e. r = Inl e)")
    case True
    then have "calls m nxt h w = []"
      using a by (auto simp: calls_def Handler_def recorded_middleware_def lift_world_def Let_def split: sum.splits)
    then show ?thesis using assms by simp
  next
    case False
    then obtain key cs where k: "r = Inr key" "Counters m = Some cs" "credential h \<noteq> ''''" by (cases r) auto
    have e: "Handler (recorded_middleware m) (recorded_next nxt) h (w, []) =
        admit_request (recorded_middleware m) (recorded_store cs) (recorded_next nxt) key (Now m w1) (w1, [])"
      using a k by (simp add: Handler_def recorded_middleware_def lift_world_def Let_def)
    from admit_request_events [of m cs nxt key "Now m w1" "(w1, [])", OF prod.collapse [symmetric]]
    show ?thesis using a k assms by (auto simp: calls_def e)
  qed
qed

definition sample_key :: ClientKey where
  "sample_key = \<lparr>key_ID = ''k1'', key_Name = ''n'', Prefix = ''sk'', Digest = '''', SecretCipher = '''', SecretAvailable = False,
     key_Enabled = True, RPM = 5, key_ConcurrencyLimit = 2, DailyRequestLimit = 10, MonthlyTokenLimit = 100,
     key_LastUsedAt = None, key_ExpiresAt = None, key_CreatedAt = 0, key_UpdatedAt = 0\<rparr>"

definition sample_middleware :: "unit Middleware" where
  "sample_middleware = \<lparr>Auth = (\<lambda>s w. (if s = ''secret'' then Inr sample_key else Inl ErrInvalidCredentials, w)),
     Counters = Some \<lparr>cs_AddWindow = (\<lambda>k n ttl w. (Inr 3, w)), cs_AcquireSlot = (\<lambda>k n ttl w. (Inr True, w)),
                      cs_ReleaseSlot = (\<lambda>k w. (None, w))\<rparr>,
     Now = (\<lambda>w. 0), RequestTimeoutFunc = None\<rparr>"

theorem api_key_limits_witness:
  "EvNext sample_key \<in> set (calls sample_middleware (\<lambda>key w. (([], False), w)) (\<lambda>s. if s = ''X-API-Key'' then ''secret'' else '''') ())
   \<and> limits_met sample_key 0 (calls sample_middleware (\<lambda>key w. (([], False), w)) (\<lambda>s. if s = ''X-API-Key'' then ''secret'' else '''') ())"
proof -
  let ?h = "\<lambda>s. if s = ''X-API-Key'' then ''secret'' else ''''"
  have n: "EvNext sample_key \<in> set (calls sample_middleware (\<lambda>key w. (([], False), w)) ?h ())"
  proof -
    have c: "credential ?h = ''secret''" by code_simp
    show ?thesis
      unfolding calls_def Handler_def c
      by (simp add: recorded_middleware_def recorded_next_def recorded sample_middleware_def sample_key_def admit_request_def check_rpm_def
          check_day_def check_month_def check_slot_def serve_request_def ReportCompletion_def no_completion_def case_prod_unfold Let_def)
  qed
  then show ?thesis using api_key_limits [OF refl, of "''''" sample_middleware "\<lambda>key w. (([], False), w)" ?h "()"]
    by (auto simp: sample_middleware_def)
qed

section \<open>Lifetimes\<close>

text \<open>The slot outlives the longest request by the grace period, or by as much as the duration type allows.\<close>

lemma slot_ttl_bounds:
  assumes "\<And>f. RequestTimeoutFunc m = Some f \<Longrightarrow> f w < 2 ^ 63"
  shows "Hour \<le> concurrencySlotTTL m w" and "concurrencySlotTTL m w < 2 ^ 63"
    and "RequestTimeoutFunc m = Some f \<Longrightarrow> f w \<le> concurrencySlotTTL m w"
  using assms
  by (auto simp: concurrencySlotTTL_def defaultMaximumRequestDuration_def concurrencySlotTTLGrace_def Let_def wrap64_id split: option.splits)

end
