(* ===== verification/Runtime_Config.thy ===== *)
theory Runtime_Config
  imports Go_Prelude "HOL-Library.List_Lexorder"
begin

text \<open>
  The runtime settings (\<open>internal/runtimecfg/settings.go\<close>): validation, the overlay of persisted values, strict
  patches, and the settings that take effect while the process runs.

  \<^item> A raw JSON message is \<open>raw_json\<close>: a decoded string, the text of a number, a boolean, null, or another value.
    A persisted value is what \<open>json.Marshal\<close> makes of it (\<^const>\<open>None\<close> when that fails).
  \<^item> \<open>url.Parse\<close> is the argument \<open>parse_url\<close>.
  \<^item> Go visits the keys of a map in an unspecified order: the overlay takes the order as an argument, a patch is the
    association list of its keys in the order of the visit.
\<close>

section \<open>Values\<close>

record URL =
  Scheme :: string
  Host :: string
  User :: "string option"
  RawQuery :: string
  Fragment :: string
  Path :: string

type_synonym url_parser = "string \<Rightarrow> URL option"

record Values =
  PublicBaseURL :: string
  RequestTimeoutSeconds :: int
  MaxRequestBytes :: int
  MaxConcurrency :: int
  LogRetentionDays :: int
  CORSOrigins :: string
  TrustProxyHeaders :: bool

definition Defaults :: Values where
  "Defaults = \<lparr>PublicBaseURL = ''http://127.0.0.1:8080'', RequestTimeoutSeconds = 120, MaxRequestBytes = 32 * 2 ^ 20,
     MaxConcurrency = 32, LogRetentionDays = 30, CORSOrigins = '''', TrustProxyHeaders = False\<rparr>"

datatype setting = SString string | SInt int | SBool bool

definition Values_Map :: "Values \<Rightarrow> (string \<times> setting) list" where
  "Values_Map v =
     [(''public_base_url'', SString (PublicBaseURL v)),
      (''request_timeout_seconds'', SInt (RequestTimeoutSeconds v)),
      (''max_request_bytes'', SInt (MaxRequestBytes v)),
      (''max_concurrency'', SInt (MaxConcurrency v)),
      (''log_retention_days'', SInt (LogRetentionDays v)),
      (''cors_origins'', SString (CORSOrigins v)),
      (''trust_proxy_headers'', SBool (TrustProxyHeaders v))]"

definition fieldError :: "string \<Rightarrow> error \<Rightarrow> error" where
  "fieldError field err = Wrapped field err"

definition fieldTypeError :: "string \<Rightarrow> string \<Rightarrow> error" where
  "fieldTypeError field expected = fieldError field (ErrText (''must be a JSON '' @ expected))"

section \<open>URLs and origins\<close>

definition web_scheme :: "URL \<Rightarrow> bool" where
  "web_scheme u = (Scheme u = ''http'' \<or> Scheme u = ''https'')"

definition validateBaseURL :: "url_parser \<Rightarrow> string \<Rightarrow> error option" where
  "validateBaseURL parse_url raw =
     (if raw = '''' then Some (ErrText ''is required'')
      else if 2048 < length raw then Some (ErrText ''is too long'')
      else (case parse_url raw of
              Some u \<Rightarrow>
                if web_scheme u \<and> Host u \<noteq> '''' \<and> User u = None \<and> RawQuery u = '''' \<and> Fragment u = '''' then None
                else Some (ErrText ''must be an absolute HTTP or HTTPS URL without credentials, query, or fragment'')
            | None \<Rightarrow> Some (ErrText ''must be an absolute HTTP or HTTPS URL without credentials, query, or fragment'')))"

text \<open>One item of the list: the origin it stands for.\<close>

definition normalize_origin :: "url_parser \<Rightarrow> string \<Rightarrow> error + string" where
  "normalize_origin parse_url item =
     (let item = TrimRight (TrimSpace item) (CHR ''/'')
      in if item = '''' then Inl (ErrText ''contains an empty origin'')
         else if item = ''*'' then Inr item
         else (case parse_url item of
                 Some u \<Rightarrow>
                   if web_scheme u \<and> Host u \<noteq> '''' \<and> User u = None \<and> RawQuery u = '''' \<and> Fragment u = ''''
                      \<and> (Path u = '''' \<or> Path u = ''/'')
                   then Inr (Scheme u @ ''://'' @ Host u)
                   else Inl (ErrText (''contains invalid origin '' @ Quote item))
               | None \<Rightarrow> Inl (ErrText (''contains invalid origin '' @ Quote item))))"

text \<open>The loop over the items, with the origins seen so far in order.\<close>

fun collect_origins :: "url_parser \<Rightarrow> string list \<Rightarrow> string list \<Rightarrow> error + string list" where
  "collect_origins parse_url origins [] = Inr origins"
| "collect_origins parse_url origins (item # items) =
     (case normalize_origin parse_url item of
        Inl e \<Rightarrow> Inl e
      | Inr o' \<Rightarrow> collect_origins parse_url (if o' \<in> set origins then origins else origins @ [o']) items)"

definition NormalizeCORSOrigins :: "url_parser \<Rightarrow> string \<Rightarrow> error + string" where
  "NormalizeCORSOrigins parse_url raw =
     (let raw = TrimSpace raw
      in if raw = '''' then Inr ''''
         else if 8192 < length raw then Inl (ErrText ''is too long'')
         else (case collect_origins parse_url [] (Split raw (CHR '','')) of
                 Inl e \<Rightarrow> Inl e
               | Inr origins \<Rightarrow>
                   if 64 < length origins then Inl (ErrText ''contains more than 64 origins'')
                   else if ''*'' \<in> set origins \<and> length origins \<noteq> 1 then Inl (ErrText ''cannot combine * with explicit origins'')
                   else Inr (Join (sort origins) '', '')))"

section \<open>Validation\<close>

definition minRequestBytes :: int where
  "minRequestBytes = 2 ^ 20"

definition maxRequestBytes :: int where
  "maxRequestBytes = 2 ^ 30"

definition maxGlobalConcurrency :: int where
  "maxGlobalConcurrency = 1000000"

definition Validate :: "url_parser \<Rightarrow> Values \<Rightarrow> error option" where
  "Validate parse_url v =
     (case validateBaseURL parse_url (PublicBaseURL v) of
        Some e \<Rightarrow> Some (fieldError ''public_base_url'' e)
      | None \<Rightarrow>
          if RequestTimeoutSeconds v < 1 \<or> 3600 < RequestTimeoutSeconds v
          then Some (fieldError ''request_timeout_seconds'' (ErrText ''must be between 1 and 3600''))
          else if MaxRequestBytes v < minRequestBytes \<or> maxRequestBytes < MaxRequestBytes v
          then Some (fieldError ''max_request_bytes''
                 (ErrText (''must be between '' @ FormatInt minRequestBytes @ '' and '' @ FormatInt maxRequestBytes)))
          else if MaxConcurrency v < 1 \<or> maxGlobalConcurrency < MaxConcurrency v
          then Some (fieldError ''max_concurrency'' (ErrText (''must be between 1 and '' @ FormatInt maxGlobalConcurrency)))
          else if LogRetentionDays v < 1 \<or> 3650 < LogRetentionDays v
          then Some (fieldError ''log_retention_days'' (ErrText ''must be between 1 and 3650''))
          else (case NormalizeCORSOrigins parse_url (CORSOrigins v) of
                  Inl e \<Rightarrow> Some (fieldError ''cors_origins'' e)
                | Inr _ \<Rightarrow> None))"

section \<open>Assignment\<close>

datatype raw_json = RawString string | RawNumber string | RawBool bool | RawNull | RawOther

text \<open>\<open>json.Unmarshal\<close> into a string or a boolean: null leaves the zero value.\<close>

fun unmarshal_string :: "raw_json \<Rightarrow> string option" where
  "unmarshal_string (RawString s) = Some s"
| "unmarshal_string RawNull = Some ''''"
| "unmarshal_string _ = None"

fun unmarshal_bool :: "raw_json \<Rightarrow> bool option" where
  "unmarshal_bool (RawBool b) = Some b"
| "unmarshal_bool RawNull = Some False"
| "unmarshal_bool _ = None"

fun strictInteger :: "raw_json \<Rightarrow> int option" where
  "strictInteger (RawNumber text) =
     (let text = TrimSpace text
      in if text = '''' \<or> (\<exists>c \<in> set text. c \<in> set ''.eE'') then None else ParseInt text)"
| "strictInteger _ = None"

definition assignString :: "string \<Rightarrow> string \<Rightarrow> Values \<Rightarrow> Values" where
  "assignString key value d =
     (if key = ''public_base_url'' then d\<lparr>PublicBaseURL := TrimRight (TrimSpace value) (CHR ''/'')\<rparr>
      else if key = ''cors_origins'' then d\<lparr>CORSOrigins := value\<rparr> else d)"

definition assignInteger :: "string \<Rightarrow> int \<Rightarrow> Values \<Rightarrow> Values" where
  "assignInteger key value d =
     (if key = ''request_timeout_seconds'' then d\<lparr>RequestTimeoutSeconds := value\<rparr>
      else if key = ''max_concurrency'' then d\<lparr>MaxConcurrency := value\<rparr>
      else if key = ''log_retention_days'' then d\<lparr>LogRetentionDays := value\<rparr> else d)"

definition assignJSON :: "string \<Rightarrow> raw_json \<Rightarrow> Values \<Rightarrow> error + Values" where
  "assignJSON key raw d =
     (if key = ''public_base_url'' \<or> key = ''cors_origins''
      then (case unmarshal_string raw of None \<Rightarrow> Inl (fieldTypeError key ''string'') | Some v \<Rightarrow> Inr (assignString key v d))
      else if key = ''request_timeout_seconds'' \<or> key = ''max_concurrency'' \<or> key = ''log_retention_days''
      then (case strictInteger raw of
              None \<Rightarrow> Inl (fieldTypeError key ''integer'')
            | Some v \<Rightarrow> if wrap64 v \<noteq> v then Inl (fieldTypeError key ''integer'') else Inr (assignInteger key v d))
      else if key = ''max_request_bytes''
      then (case strictInteger raw of None \<Rightarrow> Inl (fieldTypeError key ''integer'') | Some v \<Rightarrow> Inr (d\<lparr>MaxRequestBytes := v\<rparr>))
      else if key = ''trust_proxy_headers''
      then (case unmarshal_bool raw of None \<Rightarrow> Inl (fieldTypeError key ''boolean'') | Some v \<Rightarrow> Inr (d\<lparr>TrustProxyHeaders := v\<rparr>))
      else Inr d)"

definition assignPersisted :: "string \<Rightarrow> raw_json option \<Rightarrow> Values \<Rightarrow> error + Values" where
  "assignPersisted key value d =
     (case value of
        None \<Rightarrow> Inl (fieldError key (ErrText ''could not be decoded''))
      | Some encoded \<Rightarrow>
          (case assignJSON key encoded d of
             Inl e \<Rightarrow> Inl (Wrapped ''invalid persisted setting'' e)
           | Inr d \<Rightarrow> Inr d))"

section \<open>Overlay and patch\<close>

text \<open>The end of both operations: normalise the origins, then validate.\<close>

definition normalize_and_validate :: "url_parser \<Rightarrow> Values \<Rightarrow> error + Values" where
  "normalize_and_validate parse_url result =
     (case NormalizeCORSOrigins parse_url (CORSOrigins result) of
        Inl e \<Rightarrow> Inl (fieldError ''cors_origins'' e)
      | Inr normalized \<Rightarrow>
          (let result = result\<lparr>CORSOrigins := normalized\<rparr>
           in case Validate parse_url result of Some e \<Rightarrow> Inl e | None \<Rightarrow> Inr result))"

fun blank_string :: "raw_json option \<Rightarrow> bool" where
  "blank_string (Some (RawString text)) = (TrimSpace text = '''')"
| "blank_string _ = False"

fun overlay :: "string list \<Rightarrow> (string \<rightharpoonup> raw_json option) \<Rightarrow> Values \<Rightarrow> error + Values" where
  "overlay [] persisted result = Inr result"
| "overlay (key # keys) persisted result =
     (case persisted key of
        None \<Rightarrow> overlay keys persisted result
      | Some value \<Rightarrow>
          if key = ''public_base_url'' \<and> blank_string value
          then overlay keys persisted result
          else (case assignPersisted key value result of
                  Inl e \<Rightarrow> Inl e
                | Inr result \<Rightarrow> overlay keys persisted result))"

definition Resolve :: "url_parser \<Rightarrow> string list \<Rightarrow> Values \<Rightarrow> (string \<rightharpoonup> raw_json option) \<Rightarrow> error + Values" where
  "Resolve parse_url order defaults persisted =
     (case Validate parse_url defaults of
        Some e \<Rightarrow> Inl (Wrapped ''invalid setting defaults'' e)
      | None \<Rightarrow>
          (case overlay order persisted defaults of
             Inl e \<Rightarrow> Inl e
           | Inr result \<Rightarrow> normalize_and_validate parse_url result))"

fun assign_patch :: "Values \<Rightarrow> (string \<times> raw_json) list \<Rightarrow> Values \<Rightarrow> error + Values" where
  "assign_patch current [] result = Inr result"
| "assign_patch current ((key, raw) # patch) result =
     (if map_of (Values_Map current) key = None then Inl (fieldError key (ErrText ''is not a recognized setting''))
      else (case assignJSON key raw result of
              Inl e \<Rightarrow> Inl e
            | Inr result \<Rightarrow> assign_patch current patch result))"

definition ApplyPatch :: "url_parser \<Rightarrow> Values \<Rightarrow> (string \<times> raw_json) list \<Rightarrow> error + Values \<times> (string \<times> setting option) list" where
  "ApplyPatch parse_url current patch =
     (if patch = [] then Inl (ErrText ''settings patch must not be empty'')
      else (case assign_patch current patch current of
              Inl e \<Rightarrow> Inl e
            | Inr result \<Rightarrow>
                (case normalize_and_validate parse_url result of
                   Inl e \<Rightarrow> Inl e
                 | Inr result \<Rightarrow> Inr (result, map (\<lambda>(key, _). (key, map_of (Values_Map result) key)) patch))))"

section \<open>The running process\<close>

definition restartFields :: "string list" where
  "restartFields = [''public_base_url'', ''trust_proxy_headers'']"

definition RestartRequired :: "Values \<Rightarrow> Values \<Rightarrow> string list" where
  "RestartRequired configured active =
     filter (\<lambda>key. map_of (Values_Map configured) key \<noteq> map_of (Values_Map active) key) restartFields"

text \<open>\<open>changed\<close> is the channel with one place: it holds a token or not.\<close>

record Runtime =
  rt_defaults :: Values
  rt_active :: "Values option"
  changed :: bool

definition NewRuntime :: "url_parser \<Rightarrow> Values \<Rightarrow> Values \<Rightarrow> error + Runtime" where
  "NewRuntime parse_url defaults active =
     (case Validate parse_url defaults of
        Some e \<Rightarrow> Inl (Wrapped ''invalid setting defaults'' e)
      | None \<Rightarrow>
          (case Validate parse_url active of
             Some e \<Rightarrow> Inl (Wrapped ''invalid active settings'' e)
           | None \<Rightarrow> Inr \<lparr>rt_defaults = defaults, rt_active = Some active, changed = False\<rparr>))"

definition Runtime_Defaults :: "Runtime option \<Rightarrow> Values" where
  "Runtime_Defaults r = (case r of None \<Rightarrow> Defaults | Some r \<Rightarrow> rt_defaults r)"

definition Active :: "Runtime option \<Rightarrow> Values" where
  "Active r = (case r of None \<Rightarrow> Defaults | Some r \<Rightarrow> (case rt_active r of None \<Rightarrow> Defaults | Some v \<Rightarrow> v))"

definition Apply :: "Values \<Rightarrow> Runtime \<Rightarrow> Runtime" where
  "Apply configured r =
     (let current = Active (Some r);
          next' = current\<lparr>RequestTimeoutSeconds := RequestTimeoutSeconds configured, MaxRequestBytes := MaxRequestBytes configured,
            MaxConcurrency := MaxConcurrency configured, LogRetentionDays := LogRetentionDays configured,
            CORSOrigins := CORSOrigins configured\<rparr>
      in r\<lparr>rt_active := Some next', changed := True\<rparr>)"

definition Changes :: "Runtime option \<Rightarrow> bool option" where
  "Changes r = map_option changed r"

definition Envelope :: "Values \<Rightarrow> Values \<Rightarrow> Values \<Rightarrow>
    (string \<times> setting) list \<times> (string \<times> setting) list \<times> (string \<times> setting) list \<times> string list" where
  "Envelope configured defaults active = (Values_Map configured, Values_Map defaults, Values_Map active, RestartRequired configured active)"

end
