(* ===== verification/Config_Properties.thy ===== *)
theory Config_Properties
  imports Runtime_Config
begin

text \<open>
  What the runtime settings guarantee: a patch is accepted only as a whole and gives valid settings that differ
  from the current ones in the patched fields, origins are kept as a sorted list without duplicates, and the running
  process takes over only the fields that may change while requests are in flight.
\<close>

section \<open>Origins\<close>

lemma collect_origins_distinct:
  assumes "collect_origins parse_url os items = Inr origins" "distinct os"
  shows "distinct origins \<and> set os \<subseteq> set origins"
  using assms
proof (induction items arbitrary: os)
  case Nil
  then show ?case by simp
next
  case (Cons item items)
  then obtain o' where o: "normalize_origin parse_url item = Inr o'" by (auto split: sum.splits)
  let ?os = "if o' \<in> set os then os else os @ [o']"
  have "collect_origins parse_url ?os items = Inr origins" "distinct ?os" using Cons.prems o by auto
  from Cons.IH [OF this] show ?case by (cases "o' \<in> set os") auto
qed

lemma normalize_cors_sorted:
  assumes "NormalizeCORSOrigins parse_url raw = Inr text"
  shows "\<exists>origins. text = Join origins '', '' \<and> sorted origins \<and> distinct origins \<and> length origins \<le> 64
    \<and> (''*'' \<in> set origins \<longrightarrow> origins = [''*''])"
proof (cases "TrimSpace raw = ''''")
  case True
  then show ?thesis using assms by (intro exI [of _ "[]"]) (simp add: NormalizeCORSOrigins_def Let_def)
next
  case False
  then obtain os where os: "collect_origins parse_url [] (Split (TrimSpace raw) (CHR '','')) = Inr os"
    "text = Join (sort os) '', ''" "length os \<le> 64" "''*'' \<in> set os \<Longrightarrow> length os = 1"
    using assms by (auto simp: NormalizeCORSOrigins_def Let_def split: if_splits sum.splits)
  have "''*'' \<in> set os \<longrightarrow> sort os = [''*'']"
    using os(4) by (auto simp: length_Suc_conv)
  then show ?thesis using os collect_origins_distinct [OF os(1)] by (intro exI [of _ "sort os"]) simp
qed

section \<open>Patches\<close>

abbreviation setting_of :: "Values \<Rightarrow> string \<Rightarrow> setting option" where
  "setting_of v \<equiv> map_of (Values_Map v)"

lemma setting_update:
  "setting_of (d\<lparr>PublicBaseURL := s\<rparr>) = (setting_of d)(''public_base_url'' \<mapsto> SString s)"
  "setting_of (d\<lparr>RequestTimeoutSeconds := n\<rparr>) = (setting_of d)(''request_timeout_seconds'' \<mapsto> SInt n)"
  "setting_of (d\<lparr>MaxRequestBytes := n\<rparr>) = (setting_of d)(''max_request_bytes'' \<mapsto> SInt n)"
  "setting_of (d\<lparr>MaxConcurrency := n\<rparr>) = (setting_of d)(''max_concurrency'' \<mapsto> SInt n)"
  "setting_of (d\<lparr>LogRetentionDays := n\<rparr>) = (setting_of d)(''log_retention_days'' \<mapsto> SInt n)"
  "setting_of (d\<lparr>CORSOrigins := s\<rparr>) = (setting_of d)(''cors_origins'' \<mapsto> SString s)"
  "setting_of (d\<lparr>TrustProxyHeaders := b\<rparr>) = (setting_of d)(''trust_proxy_headers'' \<mapsto> SBool b)"
  by (simp_all add: Values_Map_def fun_upd_twist)

lemma assignString_setting: "\<exists>x. setting_of (assignString key value d) = (setting_of d)(key := x)"
  unfolding assignString_def by (cases "key = ''public_base_url''"; cases "key = ''cors_origins''") (auto simp: setting_update intro: exI [of _ "setting_of d key"])

lemma assignInteger_setting: "\<exists>x. setting_of (assignInteger key value d) = (setting_of d)(key := x)"
  unfolding assignInteger_def
  by (cases "key = ''request_timeout_seconds''"; cases "key = ''max_concurrency''"; cases "key = ''log_retention_days''")
    (auto simp: setting_update intro: exI [of _ "setting_of d key"])

text \<open>An assignment changes the setting it names and no other.\<close>

lemma assignJSON_other:
  assumes "assignJSON key raw d = Inr d'" "key' \<noteq> key"
  shows "setting_of d' key' = setting_of d key'"
proof -
  let ?text = "key = ''public_base_url'' \<or> key = ''cors_origins''"
  let ?number = "key = ''request_timeout_seconds'' \<or> key = ''max_concurrency'' \<or> key = ''log_retention_days''"
  consider v where "d' = assignString key v d" | v where "d' = assignInteger key v d" | "d' = d"
    | v where "key = ''max_request_bytes''" "d' = d\<lparr>MaxRequestBytes := v\<rparr>"
    | v where "key = ''trust_proxy_headers''" "d' = d\<lparr>TrustProxyHeaders := v\<rparr>"
  proof (cases ?text)
    case True
    show ?thesis using assms(1) unfolding assignJSON_def if_P [OF True] by (cases "unmarshal_string raw") (auto intro: that(1))
  next
    case t: False
    show ?thesis
    proof (cases ?number)
      case True
      show ?thesis using assms(1) unfolding assignJSON_def if_not_P [OF t] if_P [OF True]
        by (cases "strictInteger raw") (auto intro: that(2) split: if_split_asm)
    next
      case n: False
      show ?thesis
        using assms(1) unfolding assignJSON_def if_not_P [OF t] if_not_P [OF n]
        by (cases "strictInteger raw"; cases "unmarshal_bool raw") (auto intro: that(3-5) split: if_split_asm)
    qed
  qed
  then show ?thesis
    using assms(2) assignString_setting [of key _ d] assignInteger_setting [of key _ d]
    by cases (metis fun_upd_apply, metis fun_upd_apply, simp_all add: setting_update)
qed

lemma assign_patch_other:
  assumes "assign_patch current patch d = Inr d'" "key \<notin> fst ` set patch"
  shows "setting_of d' key = setting_of d key"
  using assms
proof (induction patch arbitrary: d)
  case Nil
  then show ?case by simp
next
  case (Cons x patch)
  obtain k raw where x: "x = (k, raw)" by (rule prod.exhaust)
  with Cons.prems obtain d1 where d1: "assignJSON k raw d = Inr d1" "assign_patch current patch d1 = Inr d'"
    by (auto split: if_splits sum.splits)
  from Cons.IH [OF d1(2)] Cons.prems(2) x assignJSON_other [OF d1(1)] show ?case by auto
qed

lemma assign_patch_known:
  assumes "assign_patch current patch d = Inr d'"
  shows "\<forall>key \<in> fst ` set patch. setting_of current key \<noteq> None"
  using assms
proof (induction patch arbitrary: d)
  case Nil
  then show ?case by simp
next
  case (Cons x patch)
  obtain k raw where x: "x = (k, raw)" by (rule prod.exhaust)
  with Cons.prems obtain d1 where d1: "setting_of current k \<noteq> None" "assign_patch current patch d1 = Inr d'"
    by (auto split: if_splits sum.splits)
  from Cons.IH [OF d1(2)] d1(1) x show ?case by auto
qed

lemma setting_known: "setting_of v key \<noteq> None \<longleftrightarrow> setting_of v' key \<noteq> None"
  by (simp add: Values_Map_def)

lemma normalize_and_validate_ok:
  assumes "normalize_and_validate parse_url v = Inr v'"
  shows "Validate parse_url v' = None" and "key \<noteq> ''cors_origins'' \<Longrightarrow> setting_of v' key = setting_of v key"
    and "\<exists>text. NormalizeCORSOrigins parse_url (CORSOrigins v) = Inr text \<and> CORSOrigins v' = text"
  using assms by (auto simp: normalize_and_validate_def Let_def setting_update split: sum.splits option.splits)

text \<open>A settings patch is accepted only if it is not empty, names recognised settings only and leads to settings that
  pass validation; then every setting outside the patch keeps its value (the origins up to normalisation), and the
  fields to be persisted are exactly the patched ones with their new values.\<close>

theorem apply_patch_sound:
  assumes "ApplyPatch parse_url current patch = Inr (result, persist)"
  shows "patch \<noteq> [] \<and> Validate parse_url result = None
    \<and> (\<forall>key \<in> fst ` set patch. setting_of current key \<noteq> None)
    \<and> (\<forall>key. key \<notin> fst ` set patch \<longrightarrow> key \<noteq> ''cors_origins'' \<longrightarrow> setting_of result key = setting_of current key)
    \<and> (\<exists>origins. CORSOrigins result = Join origins '', '' \<and> sorted origins \<and> distinct origins)
    \<and> map fst persist = map fst patch \<and> (\<forall>(key, value) \<in> set persist. value = setting_of result key \<and> value \<noteq> None)"
proof -
  obtain v where v: "patch \<noteq> []" "assign_patch current patch current = Inr v" "normalize_and_validate parse_url v = Inr result"
    "persist = map (\<lambda>(key, _). (key, setting_of result key)) patch"
    using assms by (auto simp: ApplyPatch_def split: if_splits sum.splits)
  note n = normalize_and_validate_ok [OF v(3)] and known = assign_patch_known [OF v(2)]
  have "setting_of result key = setting_of current key" if "key \<notin> fst ` set patch" "key \<noteq> ''cors_origins''" for key
    using n(2) [OF that(2)] assign_patch_other [OF v(2) that(1)] by simp
  moreover have "\<exists>origins. CORSOrigins result = Join origins '', '' \<and> sorted origins \<and> distinct origins"
    using n(3) normalize_cors_sorted by metis
  moreover have "map fst persist = map fst patch" by (simp add: v(4) case_prod_unfold)
  moreover have "\<forall>(key, value) \<in> set persist. value = setting_of result key \<and> value \<noteq> None"
    using known setting_known [of result _ current] by (auto simp: v(4))
  ultimately show ?thesis using v(1) n(1) known by simp
qed

definition sample_url :: url_parser where
  "sample_url s = Some \<lparr>Scheme = ''http'', Host = drop 7 s, User = None, RawQuery = '''', Fragment = '''', Path = ''''\<rparr>"

theorem apply_patch_sound_witness:
  "\<exists>result persist. ApplyPatch sample_url Defaults [(''max_concurrency'', RawNumber ''64'')] = Inr (result, persist)
     \<and> MaxConcurrency result = 64 \<and> Validate sample_url result = None"
proof -
  let ?r = "Defaults\<lparr>MaxConcurrency := 64\<rparr>"
  have r: "ApplyPatch sample_url Defaults [(''max_concurrency'', RawNumber ''64'')] = Inr (?r, [(''max_concurrency'', Some (SInt 64))])"
    by code_simp
  then show ?thesis using apply_patch_sound [OF r] by simp
qed

section \<open>Overlay\<close>

lemma resolve_valid:
  assumes "Resolve parse_url order defaults persisted = Inr v"
  shows "Validate parse_url v = None \<and> Validate parse_url defaults = None"
  using assms normalize_and_validate_ok(1) by (auto simp: Resolve_def split: option.splits sum.splits)

lemma overlay_absent:
  assumes "overlay keys persisted d = Inr d'" "persisted key = None"
  shows "setting_of d' key = setting_of d key"
  using assms
proof (induction keys arbitrary: d)
  case Nil
  then show ?case by simp
next
  case (Cons k keys)
  show ?case
  proof (cases "persisted k = None \<or> k = ''public_base_url'' \<and> blank_string (the (persisted k))")
    case True
    then show ?thesis using Cons by (auto split: option.splits)
  next
    case False
    then obtain raw d1 where a: "persisted k = Some (Some raw)" "assignJSON k raw d = Inr d1" "overlay keys persisted d1 = Inr d'"
      using Cons.prems by (auto simp: assignPersisted_def split: option.splits sum.splits if_splits)
    moreover have "k \<noteq> key" using a(1) Cons.prems(2) by auto
    ultimately show ?thesis using Cons.IH [OF a(3) Cons.prems(2)] assignJSON_other [OF a(2)] by simp
  qed
qed

section \<open>The running process\<close>

lemma apply_active:
  "PublicBaseURL (Active (Some (Apply v r))) = PublicBaseURL (Active (Some r))"
  "TrustProxyHeaders (Active (Some (Apply v r))) = TrustProxyHeaders (Active (Some r))"
  "changed (Apply v r)" "rt_defaults (Apply v r) = rt_defaults r"
  by (simp_all add: Apply_def Active_def Let_def)

lemma apply_keeps_valid:
  assumes "Validate parse_url v = None" "Validate parse_url (Active (Some r)) = None"
  shows "Validate parse_url (Active (Some (Apply v r))) = None"
  using assms by (auto simp: Validate_def Apply_def Active_def Let_def split: option.splits sum.splits if_splits)

text \<open>After \<open>Apply\<close> the active settings differ from the configured ones only in the fields that need a restart.\<close>

lemma apply_restart_required:
  "RestartRequired v (Active (Some (Apply v r))) = [] \<longleftrightarrow> Values_Map (Active (Some (Apply v r))) = Values_Map v"
  by (auto simp: RestartRequired_def restartFields_def Values_Map_def Apply_def Active_def Let_def)

end
