(* ===== verification/Upstream_Json.thy ===== *)
theory Upstream_Json
  imports Upstream_Types
begin

text \<open>
  Reading decoded JSON in the upstream client (the helpers at the end of \<open>internal/upstream/http_client.go\<close>
  and of \<open>payload.go\<close>) and the events that need no parser state.

  A JSON object is the association list of its members in the order in which Go visits them. What the standard library does
  with text is an argument, the record \<open>UpstreamLib\<close>: decoding an object, encoding a value, the default formatting
  \<open>fmt.Sprint\<close> of a value and SHA-256.
\<close>

record UpstreamLib =
  Unmarshal :: "string \<Rightarrow> (string \<times> json) list option"
  Marshal_json :: "json \<Rightarrow> string"
  Sprint :: "json \<Rightarrow> string"
  Sha256 :: "string \<Rightarrow> string"

type_synonym object = "(string \<times> json) list"

definition no_event :: Event where
  "no_event = \<lparr>ev_Kind = EventDone, ev_Text = '''', ev_ID = '''', ItemID = '''', ev_Name = '''', Arguments = '''', Index = 0,
     ev_URL = '''', ev_Usage = \<lparr>InputTokens = 0, OutputTokens = 0, CachedTokens = 0\<rparr>, ev_Error = '''', Raw = ''''\<rparr>"

section \<open>Members\<close>

text \<open>The first of the keys that holds a string.\<close>

fun stringValue :: "object \<Rightarrow> string list \<Rightarrow> string" where
  "stringValue payload [] = ''''"
| "stringValue payload (key # keys) = (case jget payload key of JStr s \<Rightarrow> s | _ \<Rightarrow> stringValue payload keys)"

definition valueArray :: "json \<Rightarrow> json list" where
  "valueArray v = (case v of JArr xs \<Rightarrow> xs | _ \<Rightarrow> [])"

text \<open>The type assertion \<open>value, _ := x.(map[string]any)\<close>: a nil map reads as an empty one.\<close>

definition as_map :: "json \<Rightarrow> object" where
  "as_map v = (case v of JObj m \<Rightarrow> m | _ \<Rightarrow> [])"

definition is_true :: "json \<Rightarrow> bool" where
  "is_true v = (v = JBool True)"

text \<open>\<open>strconv.Atoi\<close> with the error ignored: a value out of range is the nearest bound, other text is zero.\<close>

definition atoi_lax :: "string \<Rightarrow> int" where
  "atoi_lax s =
     (let body = (if take 1 s = ''-'' \<or> take 1 s = ''+'' then drop 1 s else s)
      in if body = [] then 0
         else (case parse_digits 0 body of
                 None \<Rightarrow> 0
               | Some n \<Rightarrow> if take 1 s = ''-'' then max (- (2 ^ 63)) (- int n) else min (2 ^ 63 - 1) (int n)))"

definition intValue :: "json \<Rightarrow> int" where
  "intValue v =
     (case v of
        JFloat r \<Rightarrow> wrap64 (truncate_rat r)
      | JNumber s \<Rightarrow> atoi_lax s
      | JStr s \<Rightarrow> atoi_lax (TrimSpace s)
      | _ \<Rightarrow> 0)"

fun int64Value :: "object \<Rightarrow> string list \<Rightarrow> int" where
  "int64Value payload [] = 0"
| "int64Value payload (key # keys) = (case map_of payload key of Some v \<Rightarrow> intValue v | None \<Rightarrow> int64Value payload keys)"

fun nestedString :: "json \<Rightarrow> string list \<Rightarrow> string" where
  "nestedString current [] = as_string current"
| "nestedString current (key # keys) = (case as_object current of None \<Rightarrow> '''' | Some m \<Rightarrow> nestedString (jget m key) keys)"

definition errorText :: "object \<Rightarrow> string" where
  "errorText payload =
     (let value = stringValue payload [''message'', ''error'']
      in if value \<noteq> '''' then value
         else (case as_object (jget payload ''error'') of
                 Some nested \<Rightarrow> stringValue nested [''message'', ''error'']
               | None \<Rightarrow> ''upstream stream error''))"

section \<open>Text\<close>

text \<open>Texts of a response object: the text of every object and of its content.\<close>

fun collectTypedText :: "json \<Rightarrow> string list" and typed_texts :: "json list \<Rightarrow> string list" and typed_content :: "object \<Rightarrow> string list" where
  "collectTypedText (JArr xs) = typed_texts xs"
| "collectTypedText (JObj m) =
     (let text = stringValue m [''text''] in (if text \<noteq> '''' then [text] else []) @ typed_content m)"
| "collectTypedText _ = []"
| "typed_texts [] = []"
| "typed_texts (x # xs) = collectTypedText x @ typed_texts xs"
| "typed_content [] = []"
| "typed_content ((k, v) # m) = (if k = ''content'' then collectTypedText v else typed_content m)"

definition nonStreamText :: "object \<Rightarrow> string" where
  "nonStreamText payload =
     (let value = stringValue payload [''output_text'', ''text'']
      in if value \<noteq> '''' then value
         else (case jget payload ''choices'' of
                 JArr (c # cs) \<Rightarrow>
                   (case as_object c of
                      Some choice \<Rightarrow>
                        (case as_object (jget choice ''message'') of
                           Some message \<Rightarrow> stringValue message [''content'']
                         | None \<Rightarrow> concat (collectTypedText (jget payload ''output'')))
                    | None \<Rightarrow> concat (collectTypedText (jget payload ''output'')))
               | _ \<Rightarrow> concat (collectTypedText (jget payload ''output''))))"

definition chatDelta :: "object \<Rightarrow> string" where
  "chatDelta payload =
     (case jget payload ''choices'' of
        JArr (c # cs) \<Rightarrow> stringValue (as_map (jget (as_map c) ''delta'')) [''content'', ''reasoning_content'']
      | _ \<Rightarrow> '''')"

section \<open>Usage and media\<close>

definition usage_object :: "object \<Rightarrow> object option" where
  "usage_object payload =
     (case as_object (jget payload ''usage'') of
        Some u \<Rightarrow> Some u
      | None \<Rightarrow> (case as_object (jget payload ''response'') of Some r \<Rightarrow> as_object (jget r ''usage'') | None \<Rightarrow> None))"

definition usageEvents :: "object \<Rightarrow> Event list" where
  "usageEvents payload =
     (case usage_object payload of
        None \<Rightarrow> []
      | Some usage \<Rightarrow>
          (let details = (case as_object (jget usage ''input_tokens_details'') of
                            Some d \<Rightarrow> Some d | None \<Rightarrow> as_object (jget usage ''prompt_tokens_details''));
               cached = (case details of None \<Rightarrow> 0 | Some d \<Rightarrow> int64Value d [''cached_tokens'', ''cache_read_tokens'']);
               cached = (if cached = 0 then int64Value usage [''cache_read_input_tokens'', ''cached_tokens''] else cached)
           in [no_event\<lparr>ev_Kind := EventUsage,
                 ev_Usage := \<lparr>InputTokens = int64Value usage [''input_tokens'', ''prompt_tokens''],
                              OutputTokens = int64Value usage [''output_tokens'', ''completion_tokens''], CachedTokens = cached\<rparr>\<rparr>]))"

text \<open>The members of all nested objects, in the order of the walk.\<close>

fun walkJSON :: "json \<Rightarrow> (string \<times> json) list" and walk_members :: "object \<Rightarrow> (string \<times> json) list"
  and walk_items :: "json list \<Rightarrow> (string \<times> json) list" where
  "walkJSON (JObj m) = walk_members m"
| "walkJSON (JArr xs) = walk_items xs"
| "walkJSON _ = []"
| "walk_members [] = []"
| "walk_members ((k, v) # m) = (k, v) # walkJSON v @ walk_members m"
| "walk_items [] = []"
| "walk_items (x # xs) = walkJSON x @ walk_items xs"

definition media_event :: "string \<Rightarrow> string \<times> json \<Rightarrow> Event list" where
  "media_event raw kv =
     (case snd kv of
        JStr text \<Rightarrow>
          if \<not> HasPrefix text ''http'' then []
          else (let lower = ToLower (fst kv @ '' '' @ text); path = hd (Split text (CHR ''?''))
                in if Contains lower ''video'' \<or> HasSuffix path ''.mp4''
                   then [no_event\<lparr>ev_Kind := EventVideo, ev_URL := text, Raw := raw\<rparr>]
                   else if Contains lower ''image'' \<or> Contains lower ''thumbnail'' \<or> HasSuffix path ''.png'' \<or> HasSuffix path ''.jpg''
                   then [no_event\<lparr>ev_Kind := EventImage, ev_URL := text, Raw := raw\<rparr>]
                   else [])
      | _ \<Rightarrow> [])"

definition mediaEvents :: "object \<Rightarrow> string \<Rightarrow> Event list" where
  "mediaEvents payload raw = concat (map (media_event raw) (walkJSON (JObj payload)))"

fun dedup_media :: "(EventKind \<times> string) list \<Rightarrow> Event list \<Rightarrow> Event list" where
  "dedup_media seen [] = []"
| "dedup_media seen (e # es) =
     (if ev_Kind e = EventImage \<or> ev_Kind e = EventVideo
      then if (ev_Kind e, ev_URL e) \<in> set seen then dedup_media seen es
           else e # dedup_media ((ev_Kind e, ev_URL e) # seen) es
      else e # dedup_media seen es)"

definition deduplicateMedia :: "Event list \<Rightarrow> Event list" where
  "deduplicateMedia events = dedup_media [] events"

definition absoluteAssetURL :: "string \<Rightarrow> string" where
  "absoluteAssetURL value =
     (let value = TrimSpace value
      in if value = '''' \<or> HasPrefix value ''http://'' \<or> HasPrefix value ''https://'' then value
         else ''https://assets.grok.com/'' @ TrimLeft value (CHR ''/''))"

text \<open>Media types are ASCII, for which \<open>ToLower\<close> is exact.\<close>

definition imageMIME :: "string \<Rightarrow> string" where
  "imageMIME format =
     (let value = ToLower (TrimSpace format)
      in if Contains value ''/'' then value
         else if value = ''jpg'' \<or> value = ''jpeg'' then ''image/jpeg''
         else if value = ''webp'' then ''image/webp''
         else if value = ''gif'' then ''image/gif''
         else ''image/png'')"

definition textEvent :: "EventKind \<Rightarrow> string \<Rightarrow> string \<Rightarrow> Event list" where
  "textEvent kind text raw = (if text = '''' then [] else [no_event\<lparr>ev_Kind := kind, ev_Text := text, Raw := raw\<rparr>])"

end
