(* ===== verification/Event_Parser.thy ===== *)
theory Event_Parser
  imports Upstream_Json
begin

text \<open>
  The parser of upstream server-sent events (\<open>internal/upstream/event_parser.go\<close>) and the line reader
  that feeds it (\<open>streamEventsWithToolNames\<close> in \<open>http_client.go\<close>).

  The parser keeps one object per tool call and finds it under several keys, so objects are shared: \<open>heap\<close> is the
  list of the objects in the order of their creation and \<open>p_tools\<close> maps a key to the address of the object.
\<close>

section \<open>State\<close>

record sseToolState =
  t_id :: string
  t_itemID :: string
  t_name :: string
  t_index :: int
  announced :: bool
  argumentsSeen :: bool

record sseParser =
  p_tools :: "string \<rightharpoonup> nat"
  heap :: "sseToolState list"
  nextTool :: int
  imageHashes :: "string \<rightharpoonup> string"
  p_done :: bool
  reverseToolNames :: "string \<rightharpoonup> string"

definition newSSEParserWithToolNames :: "(string \<rightharpoonup> string) \<Rightarrow> sseParser" where
  "newSSEParserWithToolNames rnames =
     \<lparr>p_tools = Map.empty, heap = [], nextTool = 0, imageHashes = Map.empty, p_done = False, reverseToolNames = rnames\<rparr>"

definition newSSEParser :: sseParser where
  "newSSEParser = newSSEParserWithToolNames Map.empty"

section \<open>Tool calls\<close>

definition tool_key :: "string \<Rightarrow> string \<Rightarrow> string list" where
  "tool_key kind value = (if value \<noteq> '''' then [kind @ '':'' @ value] else [])"

definition toolKeys :: "UpstreamLib \<Rightarrow> object \<Rightarrow> object option \<Rightarrow> string list" where
  "toolKeys lib event item =
     tool_key ''item'' (stringValue event [''item_id'']) @
     tool_key ''call'' (stringValue event [''call_id'']) @
     (case item of
        None \<Rightarrow> []
      | Some i \<Rightarrow> tool_key ''item'' (stringValue i [''id'']) @ tool_key ''call'' (stringValue i [''call_id''])) @
     (case map_of event ''output_index'' of None \<Rightarrow> [] | Some v \<Rightarrow> tool_key ''output'' (Sprint lib v))"

definition restoreToolName :: "sseParser \<Rightarrow> string \<Rightarrow> string" where
  "restoreToolName p name =
     (case reverseToolNames p name of None \<Rightarrow> name | Some original \<Rightarrow> if original \<noteq> '''' then original else name)"

definition bindToolKeys :: "nat \<Rightarrow> string list \<Rightarrow> sseParser \<Rightarrow> sseParser" where
  "bindToolKeys a keys p =
     p\<lparr>p_tools := (\<lambda>k. if k \<in> set keys \<or> k = ''call:'' @ t_id (heap p ! a) then Some a else p_tools p k)\<rparr>"

text \<open>An existing object takes over what the item says about it.\<close>

definition refresh_tool :: "sseParser \<Rightarrow> object option \<Rightarrow> sseToolState \<Rightarrow> sseToolState" where
  "refresh_tool p item s =
     (case item of
        None \<Rightarrow> s
      | Some i \<Rightarrow>
          (let s = (let v = stringValue i [''call_id'', ''id''] in if v \<noteq> '''' then s\<lparr>t_id := v\<rparr> else s);
               s = (let v = stringValue i [''id''] in if v \<noteq> '''' then s\<lparr>t_itemID := v\<rparr> else s)
           in (let v = stringValue i [''name''] in if v \<noteq> '''' then s\<lparr>t_name := restoreToolName p v\<rparr> else s)))"

definition fresh_tool :: "sseParser \<Rightarrow> object \<Rightarrow> object option \<Rightarrow> int \<Rightarrow> sseToolState" where
  "fresh_tool p event item index =
     (let s = \<lparr>t_id = '''', t_itemID = '''', t_name = '''', t_index = index, announced = False, argumentsSeen = False\<rparr>;
          s = (case item of
                 None \<Rightarrow> s
               | Some i \<Rightarrow> s\<lparr>t_id := stringValue i [''call_id'', ''id''], t_itemID := stringValue i [''id''],
                              t_name := restoreToolName p (stringValue i [''name''])\<rparr>);
          s = (if t_id s = '''' then s\<lparr>t_id := stringValue event [''call_id'', ''item_id'', ''id'']\<rparr> else s);
          s = (if t_itemID s = '''' then s\<lparr>t_itemID := stringValue event [''item_id'']\<rparr> else s);
          s = (if t_itemID s = '''' then s\<lparr>t_itemID := ''fc_'' @ TrimPrefix (t_id s) ''call_''\<rparr> else s)
      in if t_id s = '''' then s\<lparr>t_id := ''call_'' @ FormatInt index\<rparr> else s)"

text \<open>The address of the object that the first known key names, or of a new object.\<close>

definition toolState :: "UpstreamLib \<Rightarrow> object \<Rightarrow> object option \<Rightarrow> bool \<Rightarrow> sseParser \<Rightarrow> nat \<times> sseParser" where
  "toolState lib event item create p =
     (let keys = toolKeys lib event item
      in case find (\<lambda>k. p_tools p k \<noteq> None) keys of
           Some k \<Rightarrow>
             (let a = the (p_tools p k);
                  p = bindToolKeys a keys p
              in (a, p\<lparr>heap := (heap p)[a := refresh_tool p item (heap p ! a)]\<rparr>))
         | None \<Rightarrow>
             (let reuse = (\<not> create \<and> 0 < nextTool p);
                  index = (if reuse then nextTool p - 1 else nextTool p);
                  a = length (heap p);
                  p = p\<lparr>nextTool := (if reuse then nextTool p else nextTool p + 1),
                        heap := heap p @ [fresh_tool p event item index]\<rparr>
              in (a, bindToolKeys a keys p)))"

definition tool_event :: "sseToolState \<Rightarrow> string \<Rightarrow> string \<Rightarrow> Event" where
  "tool_event s arguments raw =
     no_event\<lparr>ev_Kind := EventToolCall, ev_ID := t_id s, ItemID := t_itemID s, ev_Name := t_name s, Arguments := arguments,
       Index := t_index s, Raw := raw\<rparr>"

definition functionItem :: "UpstreamLib \<Rightarrow> object \<Rightarrow> object \<Rightarrow> bool \<Rightarrow> string \<Rightarrow> sseParser \<Rightarrow> Event list \<times> sseParser" where
  "functionItem lib event item done raw p =
     (let (a, p) = toolState lib event (Some item) True p; s = heap p ! a; arguments = stringValue item [''arguments'']
      in if announced s
         then if done \<and> arguments \<noteq> '''' \<and> \<not> argumentsSeen s
              then ([tool_event s arguments raw], p\<lparr>heap := (heap p)[a := s\<lparr>argumentsSeen := True\<rparr>]\<rparr>)
              else ([], p)
         else ([tool_event s arguments raw],
               p\<lparr>heap := (heap p)[a := s\<lparr>announced := True, argumentsSeen := arguments \<noteq> ''''\<rparr>]\<rparr>))"

text \<open>The two argument events: a piece of the arguments, and the whole of them.\<close>

definition arguments_delta :: "UpstreamLib \<Rightarrow> object \<Rightarrow> string \<Rightarrow> sseParser \<Rightarrow> Event list \<times> sseParser" where
  "arguments_delta lib payload raw p =
     (let (a, p) = toolState lib payload None True p; s = heap p ! a
      in ([tool_event s (stringValue payload [''delta'']) raw], p\<lparr>heap := (heap p)[a := s\<lparr>argumentsSeen := True\<rparr>]\<rparr>))"

definition arguments_done :: "UpstreamLib \<Rightarrow> object \<Rightarrow> string \<Rightarrow> sseParser \<Rightarrow> Event list \<times> sseParser" where
  "arguments_done lib payload raw p =
     (let (a, p) = toolState lib payload None True p; s = heap p ! a
      in if argumentsSeen s then ([], p)
         else ([tool_event s (stringValue payload [''arguments'']) raw], p\<lparr>heap := (heap p)[a := s\<lparr>argumentsSeen := True\<rparr>]\<rparr>))"

section \<open>Images\<close>

text \<open>A missing entry of \<open>imageHashes\<close> reads as the array of zeros.\<close>

definition imageItem :: "UpstreamLib \<Rightarrow> object \<Rightarrow> object option \<Rightarrow> string \<Rightarrow> sseParser \<Rightarrow> Event list \<times> sseParser" where
  "imageItem lib event item raw p =
     (let pick = (\<lambda>v key. if v = '''' then (case item of None \<Rightarrow> v | Some i \<Rightarrow> stringValue i [key]) else v);
          value = pick (stringValue event [''partial_image_b64'']) ''result'';
          itemID = pick (stringValue event [''item_id'']) ''id'';
          format = pick (stringValue event [''output_format'']) ''output_format''
      in if value = '''' then ([], p)
         else (let digest = Sha256 lib value;
                   old = (case imageHashes p itemID of None \<Rightarrow> replicate 32 (CHR 0x00) | Some d \<Rightarrow> d)
               in if itemID \<noteq> '''' \<and> old = digest then ([], p)
                  else ([no_event\<lparr>ev_Kind := EventImage, ev_URL := ''data:'' @ imageMIME format @ '';base64,'' @ value, Raw := raw\<rparr>],
                        if itemID \<noteq> '''' then p\<lparr>imageHashes := (imageHashes p)(itemID \<mapsto> digest)\<rparr> else p)))"

definition generatedImageCard :: "UpstreamLib \<Rightarrow> object \<Rightarrow> string \<Rightarrow> Event list" where
  "generatedImageCard lib attachment raw =
     (let decoded = (case jget attachment ''jsonData'' of JStr s \<Rightarrow> Unmarshal lib s | JObj m \<Rightarrow> Some m | _ \<Rightarrow> None)
      in case decoded of
           None \<Rightarrow> []
         | Some d \<Rightarrow>
             (case as_object (jget d ''image_chunk'') of
                None \<Rightarrow> []
              | Some chunk \<Rightarrow>
                  if intValue (jget chunk ''progress'') \<noteq> 100 \<or> is_true (jget chunk ''moderated'') then []
                  else (let value = stringValue chunk [''imageUrl'', ''image_url'', ''url'']
                        in if value = '''' then []
                           else [no_event\<lparr>ev_Kind := EventImage,
                                   ev_URL := (if \<not> HasPrefix value ''http://'' \<and> \<not> HasPrefix value ''https://''
                                              then ''https://assets.grok.com/'' @ TrimLeft value (CHR ''/'') else value),
                                   Raw := raw\<rparr>])))"

section \<open>Grok web events\<close>

definition asset_event :: "EventKind \<Rightarrow> object \<Rightarrow> string \<Rightarrow> string \<Rightarrow> Event list" where
  "asset_event kind strm key raw =
     (let value = stringValue strm [key]
      in if value = '''' then [] else [no_event\<lparr>ev_Kind := kind, ev_URL := absoluteAssetURL value, Raw := raw\<rparr>])"

definition web_media :: "UpstreamLib \<Rightarrow> object \<Rightarrow> string \<Rightarrow> Event list" where
  "web_media lib response raw =
     (case as_object (jget response ''cardAttachment'') of None \<Rightarrow> [] | Some attachment \<Rightarrow> generatedImageCard lib attachment raw) @
     (case as_object (jget response ''streamingVideoGenerationResponse'') of
        None \<Rightarrow> []
      | Some s \<Rightarrow> asset_event EventVideo s ''videoUrl'' raw @ asset_event EventImage s ''thumbnailImageUrl'' raw) @
     (case as_object (jget response ''streamingImageGenerationResponse'') of
        None \<Rightarrow> []
      | Some s \<Rightarrow> asset_event EventImage s ''imageUrl'' raw) @
     textEvent (if is_true (jget response ''isThinking'') then EventReasoningDelta else EventTextDelta)
       (as_string (jget response ''token'')) raw"

definition grokWebEvents :: "UpstreamLib \<Rightarrow> object \<Rightarrow> string \<Rightarrow> sseParser \<Rightarrow> (Event list \<times> sseParser) option" where
  "grokWebEvents lib payload raw p =
     (case as_object (jget (as_map (jget payload ''result'')) ''response'') of
        None \<Rightarrow> None
      | Some response \<Rightarrow>
          (case as_object (jget response ''error'') of
             Some nested \<Rightarrow> Some ([no_event\<lparr>ev_Kind := EventError, ev_Error := errorText nested, Raw := raw\<rparr>], p)
           | None \<Rightarrow>
               (let events = deduplicateMedia (web_media lib response raw @ mediaEvents response raw);
                    events = events @ (case as_object (jget response ''finalMetadata'') of None \<Rightarrow> [] | Some m \<Rightarrow> usageEvents m)
                in if is_true (jget response ''isSoftStop'') \<or> jget response ''finalMetadata'' \<noteq> JNull
                   then Some (events @ [no_event\<lparr>ev_Kind := EventDone, Raw := raw\<rparr>], p\<lparr>p_done := True\<rparr>)
                   else Some (events, p))))"

section \<open>The parser\<close>

text \<open>The end of \<open>parse\<close>, for a type name that no case of the switch returned for.\<close>

definition parse_other :: "UpstreamLib \<Rightarrow> object \<Rightarrow> string \<Rightarrow> sseParser \<Rightarrow> Event list \<times> sseParser" where
  "parse_other lib payload raw p =
     (case grokWebEvents lib payload raw p of
        Some r \<Rightarrow> r
      | None \<Rightarrow>
          (let delta = chatDelta payload
           in if delta \<noteq> '''' then ([no_event\<lparr>ev_Kind := EventTextDelta, ev_Text := delta, Raw := raw\<rparr>], p)
              else (mediaEvents payload raw, p)))"

definition output_item :: "UpstreamLib \<Rightarrow> object \<Rightarrow> bool \<Rightarrow> string \<Rightarrow> sseParser \<Rightarrow> Event list \<times> sseParser" where
  "output_item lib payload done raw p =
     (case as_object (jget payload ''item'') of
        None \<Rightarrow> parse_other lib payload raw p
      | Some item \<Rightarrow>
          if stringValue item [''type''] = ''function_call'' then functionItem lib payload item done raw p
          else if stringValue item [''type''] = ''image_generation_call'' then imageItem lib payload (Some item) raw p
          else parse_other lib payload raw p)"

definition parse_typed :: "UpstreamLib \<Rightarrow> string \<Rightarrow> object \<Rightarrow> string \<Rightarrow> sseParser \<Rightarrow> Event list \<times> sseParser" where
  "parse_typed lib typeName payload raw p =
     (if typeName = ''response.output_item.added'' then output_item lib payload False raw p
      else if typeName = ''response.output_item.done'' then output_item lib payload True raw p
      else if typeName = ''response.function_call_arguments.delta'' then arguments_delta lib payload raw p
      else if typeName = ''response.function_call_arguments.done'' then arguments_done lib payload raw p
      else if typeName = ''response.image_generation_call.partial_image'' then imageItem lib payload None raw p
      else if typeName = ''response.reasoning_summary_text.delta'' \<or> typeName = ''response.reasoning_text.delta''
      then (textEvent EventReasoningDelta (stringValue payload [''delta'', ''text'']) raw, p)
      else if typeName = ''response.output_text.delta'' \<or> typeName = ''response.content.delta''
      then (textEvent EventTextDelta (stringValue payload [''delta'', ''text'']) raw, p)
      else if typeName = ''response.completed''
      then (usageEvents payload @ [no_event\<lparr>ev_Kind := EventDone, Raw := raw\<rparr>], p\<lparr>p_done := True\<rparr>)
      else if typeName = ''response.failed'' \<or> typeName = ''response.incomplete''
      then ([no_event\<lparr>ev_Kind := EventError, ev_Error := errorText payload, Raw := raw\<rparr>], p\<lparr>p_done := True\<rparr>)
      else parse_other lib payload raw p)"

definition parse :: "UpstreamLib \<Rightarrow> string \<Rightarrow> string \<Rightarrow> sseParser \<Rightarrow> Event list \<times> sseParser" where
  "parse lib eventName data p =
     (if p_done p then ([], p)
      else if TrimSpace data = ''[DONE]'' then ([no_event\<lparr>ev_Kind := EventDone\<rparr>], p\<lparr>p_done := True\<rparr>)
      else (case Unmarshal lib data of
              None \<Rightarrow> ([], p)
            | Some payload \<Rightarrow>
                (let t = stringValue payload [''type''];
                     typeName = (if t = '''' then TrimSpace eventName else t)
                 in if Contains typeName ''error'' \<or> jget payload ''error'' \<noteq> JNull
                    then ([no_event\<lparr>ev_Kind := EventError, ev_Error := errorText payload, Raw := data\<rparr>], p)
                    else parse_typed lib typeName payload data p)))"

section \<open>Whole responses\<close>

definition output_events :: "(string \<rightharpoonup> string) \<Rightarrow> nat \<Rightarrow> object \<Rightarrow> Event list" where
  "output_events rnames n item =
     (let type = stringValue item [''type'']
      in if type = ''reasoning''
         then concat (map (\<lambda>part. textEvent EventReasoningDelta (stringValue (as_map part) [''text'']) '''') (valueArray (jget item ''summary'')))
         else if type = ''message''
         then concat (map (\<lambda>part. textEvent EventTextDelta (stringValue (as_map part) [''text'']) '''') (valueArray (jget item ''content'')))
         else if type = ''function_call''
         then (let name = stringValue item [''name''];
                   name = (case rnames name of None \<Rightarrow> name | Some original \<Rightarrow> if original \<noteq> '''' then original else name)
               in [no_event\<lparr>ev_Kind := EventToolCall, ev_ID := stringValue item [''call_id'', ''id''], ItemID := stringValue item [''id''],
                     ev_Name := name, Arguments := stringValue item [''arguments''], Index := int n\<rparr>])
         else if type = ''image_generation_call''
         then (let value = stringValue item [''result'']
               in if value = '''' then []
                  else [no_event\<lparr>ev_Kind := EventImage,
                          ev_URL := ''data:'' @ imageMIME (stringValue item [''output_format'']) @ '';base64,'' @ value\<rparr>])
         else [])"

fun output_loop :: "(string \<rightharpoonup> string) \<Rightarrow> Event list \<Rightarrow> json list \<Rightarrow> Event list" where
  "output_loop rnames events [] = events"
| "output_loop rnames events (raw # rest) =
     (case as_object raw of
        None \<Rightarrow> output_loop rnames events rest
      | Some item \<Rightarrow> output_loop rnames (events @ output_events rnames (length events) item) rest)"

definition responseObjectEvents :: "object \<Rightarrow> string \<Rightarrow> (string \<rightharpoonup> string) \<Rightarrow> Event list" where
  "responseObjectEvents payload raw rnames =
     (let output = valueArray (jget payload ''output'');
          events = output_loop rnames [] output;
          events = events @ (if output = [] then textEvent EventTextDelta (nonStreamText payload) '''' else [])
      in deduplicateMedia (events @ mediaEvents payload raw))"

definition parseNonStreamWithToolNames :: "UpstreamLib \<Rightarrow> string \<Rightarrow> (string \<rightharpoonup> string) \<Rightarrow> Event list" where
  "parseNonStreamWithToolNames lib body rnames =
     (case Unmarshal lib body of
        None \<Rightarrow> [no_event\<lparr>ev_Kind := EventError, ev_Error := ''invalid JSON response''\<rparr>]
      | Some payload \<Rightarrow> responseObjectEvents payload body rnames @ usageEvents payload @ [no_event\<lparr>ev_Kind := EventDone\<rparr>])"

section \<open>Lines\<close>

text \<open>
  The state of the line reader: the parser, the pending event name and the pending data lines. \<open>dispatch\<close>
  hands the pending lines to the parser.
\<close>

record reader =
  rd_parser :: sseParser
  rd_event :: string
  rd_data :: "string list"

definition dispatch :: "UpstreamLib \<Rightarrow> reader \<Rightarrow> Event list \<times> reader" where
  "dispatch lib r =
     (if rd_data r = [] then ([], r\<lparr>rd_event := ''''\<rparr>)
      else (let (es, p) = parse lib (rd_event r) (Join (rd_data r) [CHR 0x0A]) (rd_parser r)
            in (es, \<lparr>rd_parser = p, rd_event = '''', rd_data = []\<rparr>)))"

definition read_line :: "UpstreamLib \<Rightarrow> string \<Rightarrow> reader \<Rightarrow> Event list \<times> reader" where
  "read_line lib line r =
     (if HasPrefix line ''event:'' then ([], r\<lparr>rd_event := TrimSpace (TrimPrefix line ''event:'')\<rparr>)
      else if HasPrefix line ''data:'' then ([], r\<lparr>rd_data := rd_data r @ [TrimSpace (TrimPrefix line ''data:'')]\<rparr>)
      else if HasPrefix (TrimSpace line) ''{''
      then (let (es1, r) = dispatch lib r; (es2, p) = parse lib (rd_event r) (TrimSpace line) (rd_parser r)
            in (es1 @ es2, r\<lparr>rd_parser := p\<rparr>))
      else if line = '''' then dispatch lib r
      else ([], r))"

fun read_lines :: "UpstreamLib \<Rightarrow> string list \<Rightarrow> reader \<Rightarrow> Event list \<times> reader" where
  "read_lines lib [] r = dispatch lib r"
| "read_lines lib (line # rest) r =
     (let (es1, r) = read_line lib line r; (es2, r) = read_lines lib rest r in (es1 @ es2, r))"

text \<open>The events of a body, and the error of the scanner when it failed.\<close>

definition streamEventsWithToolNames :: "UpstreamLib \<Rightarrow> (string \<rightharpoonup> string) \<Rightarrow> string list \<Rightarrow> string option \<Rightarrow> Event list" where
  "streamEventsWithToolNames lib rnames lines scanErr =
     fst (read_lines lib lines \<lparr>rd_parser = newSSEParserWithToolNames rnames, rd_event = '''', rd_data = []\<rparr>) @
     (case scanErr of None \<Rightarrow> [] | Some e \<Rightarrow> [no_event\<lparr>ev_Kind := EventError, ev_Error := e\<rparr>])"

end
