(* ===== verification/Parser_Properties.thy ===== *)
theory Parser_Properties
  imports Event_Parser
begin

text \<open>
  What the event parser guarantees: the tool-call objects it shares between keys are well formed, a stream has at
  most one final event and nothing after it, and the pieces of a function call arrive under one identity with its
  arguments exactly once.
\<close>

section \<open>Kinds of events\<close>

definition kinds :: "Event list \<Rightarrow> EventKind set" where
  "kinds es = ev_Kind ` set es"

lemma kinds_simps [simp]: "kinds [] = {}" "kinds (e # es) = insert (ev_Kind e) (kinds es)" "kinds (a @ b) = kinds a \<union> kinds b"
  by (auto simp: kinds_def)

lemma kinds_text: "kinds (textEvent k t raw) \<subseteq> {k}"
  by (simp add: textEvent_def)

lemma kinds_usage: "kinds (usageEvents m) \<subseteq> {EventUsage}"
  by (simp add: usageEvents_def Let_def split: option.splits)

lemma kinds_media_event: "kinds (media_event raw kv) \<subseteq> {EventImage, EventVideo}"
  by (auto simp: media_event_def Let_def split: json.splits)

lemma kinds_concat: "kinds (concat xss) = \<Union> (kinds ` set xss)"
  by (auto simp: kinds_def)

lemma kinds_media: "kinds (mediaEvents m raw) \<subseteq> {EventImage, EventVideo}"
  using kinds_media_event by (fastforce simp: mediaEvents_def kinds_concat)

lemma kinds_dedup: "kinds (dedup_media seen es) \<subseteq> kinds es"
  by (induction seen es rule: dedup_media.induct) auto

lemma kinds_card: "kinds (generatedImageCard lib m raw) \<subseteq> {EventImage}"
  by (auto simp: generatedImageCard_def Let_def split: option.splits json.splits)

lemma kinds_asset: "kinds (asset_event k m key raw) \<subseteq> {k}"
  by (simp add: asset_event_def Let_def)

lemmas kindsD = subsetD [OF kinds_text] subsetD [OF kinds_card] subsetD [OF kinds_asset]

lemma kinds_web: "kinds (web_media lib m raw) \<subseteq> {EventImage, EventVideo, EventTextDelta, EventReasoningDelta}"
  by (auto simp: web_media_def split: option.splits dest!: kindsD)

section \<open>The final event\<close>

text \<open>A step of the parser: a final event is the last one and closes the parser.\<close>

definition ends_with_done :: "Event list \<Rightarrow> bool" where
  "ends_with_done es = (\<exists>a d. es = a @ [d] \<and> EventDone \<notin> kinds a \<and> ev_Kind d = EventDone)"

definition closes :: "Event list \<times> sseParser \<Rightarrow> bool" where
  "closes r = (EventDone \<in> kinds (fst r) \<longrightarrow> p_done (snd r) \<and> ends_with_done (fst r))"

lemma closesI: "EventDone \<notin> kinds es \<Longrightarrow> closes (es, p)"
  by (simp add: closes_def)

lemma closes_done:
  assumes "EventDone \<notin> kinds es" "p_done p"
  shows "closes (es @ [no_event\<lparr>ev_Kind := EventDone, Raw := raw\<rparr>], p)"
  using assms by (auto simp: closes_def ends_with_done_def)

lemma no_done_usage: "EventDone \<notin> kinds (usageEvents m)"
  using kinds_usage [of m] by auto

lemma no_done_media: "EventDone \<notin> kinds (mediaEvents m raw)"
  using kinds_media [of m raw] by auto

lemma no_done_web: "EventDone \<notin> kinds (deduplicateMedia (web_media lib m raw @ mediaEvents m raw))"
  using kinds_dedup [of "[]" "web_media lib m raw @ mediaEvents m raw"] kinds_web [of lib m raw] kinds_media [of m raw]
  by (auto simp: deduplicateMedia_def)

lemma closes_web: "grokWebEvents lib m raw p = Some r \<Longrightarrow> closes r"
  using no_done_web [of lib _ raw] no_done_usage
  by (auto simp: grokWebEvents_def Let_def closesI closes_done simp flip: append_assoc split: option.splits if_splits)

lemma closes_other: "closes (parse_other lib m raw p)"
  using closes_web [of lib m raw p] no_done_media [of m raw]
  by (auto simp: parse_other_def Let_def intro: closesI split: option.splits)

lemma kind_tool_event [simp]: "ev_Kind (tool_event s a raw) = EventToolCall"
  by (simp add: tool_event_def)

lemma closes_item: "closes (output_item lib m d raw p)"
proof -
  have "closes (functionItem lib m i d raw p)" for i
    by (auto simp: functionItem_def Let_def case_prod_unfold intro!: closesI)
  moreover have "closes (imageItem lib m i raw p)" for i
    by (auto simp: imageItem_def Let_def intro!: closesI)
  ultimately show ?thesis using closes_other by (simp add: output_item_def split: option.splits)
qed

lemma closes_typed: "closes (parse_typed lib t m raw p)"
proof -
  have "closes (imageItem lib m None raw p)" by (auto simp: imageItem_def Let_def intro!: closesI)
  moreover have "closes (arguments_delta lib m raw p)" "closes (arguments_done lib m raw p)"
    by (auto simp: arguments_delta_def arguments_done_def Let_def case_prod_unfold intro!: closesI)
  moreover have "closes (textEvent EventReasoningDelta s raw, p)" "closes (textEvent EventTextDelta s raw, p)" for s
    using kinds_text by (fastforce intro: closesI)+
  ultimately show ?thesis
    using closes_item closes_other closes_done [OF no_done_usage]
    by (simp add: parse_typed_def closesI)
qed

lemma closes_parse: "closes (parse lib n d p)"
  using closes_typed [of lib _ _ d p]
  by (auto simp: parse_def Let_def closes_def ends_with_done_def split: option.splits)

lemma parse_closed: "p_done p \<Longrightarrow> parse lib n d p = ([], p)"
  by (simp add: parse_def)

section \<open>Runs\<close>

text \<open>The events of a sequence of messages.\<close>

fun parse_all :: "UpstreamLib \<Rightarrow> (string \<times> string) list \<Rightarrow> sseParser \<Rightarrow> Event list \<times> sseParser" where
  "parse_all lib [] p = ([], p)"
| "parse_all lib ((n, d) # rest) p =
     (let (es1, p) = parse lib n d p; (es2, p) = parse_all lib rest p in (es1 @ es2, p))"

lemma parse_all_closed: "p_done p \<Longrightarrow> parse_all lib ms p = ([], p)"
  by (induction ms) (auto simp: parse_closed)

lemma parse_all_append:
  "parse_all lib (a @ b) p = (let (es1, q) = parse_all lib a p; (es2, q) = parse_all lib b q in (es1 @ es2, q))"
  by (induction a arbitrary: p) (auto simp: case_prod_unfold Let_def)

lemma closes_all: "closes (parse_all lib ms p)"
proof (induction ms arbitrary: p)
  case Nil
  then show ?case by (simp add: closes_def)
next
  case (Cons m ms)
  obtain n d where m: "m = (n, d)" by (rule prod.exhaust)
  obtain es1 q where 1: "parse lib n d p = (es1, q)" by (rule prod.exhaust)
  obtain es2 q2 where 2: "parse_all lib ms q = (es2, q2)" by (rule prod.exhaust)
  have c1: "closes (es1, q)" using closes_parse [of lib n d p] 1 by simp
  have c2: "closes (es2, q2)" using Cons.IH [of q] 2 by simp
  show ?case
  proof (cases "EventDone \<in> kinds es1")
    case True
    then have "p_done q" using c1 by (simp add: closes_def)
    then have "es2 = []" "q2 = q" using parse_all_closed [of q lib ms] 2 by auto
    then show ?thesis using m 1 2 c1 by simp
  next
    case False
    have "ends_with_done (es1 @ es2)" if "ends_with_done es2"
    proof -
      from that obtain a e where "es2 = a @ [e]" "EventDone \<notin> kinds a" "ev_Kind e = EventDone"
        by (auto simp: ends_with_done_def)
      then show ?thesis using False by (auto simp: ends_with_done_def intro!: exI [of _ "es1 @ a"])
    qed
    then show ?thesis using m 1 2 c2 False by (auto simp: closes_def)
  qed
qed

text \<open>The line reader only groups lines into messages.\<close>

lemma dispatch_messages: "\<exists>ms. dispatch lib r = (fst (parse_all lib ms (rd_parser r)), snd (dispatch lib r))
    \<and> rd_parser (snd (dispatch lib r)) = snd (parse_all lib ms (rd_parser r))"
proof (cases "rd_data r = []")
  case True
  then show ?thesis by (intro exI [of _ "[]"]) (simp add: dispatch_def)
next
  case False
  then show ?thesis
    by (intro exI [of _ "[(rd_event r, Join (rd_data r) [CHR 0x0A])]"]) (simp add: dispatch_def case_prod_unfold Let_def)
qed

lemma read_line_messages: "\<exists>ms. fst (read_line lib line r) = fst (parse_all lib ms (rd_parser r))
    \<and> rd_parser (snd (read_line lib line r)) = snd (parse_all lib ms (rd_parser r))"
proof -
  obtain es1 r1 where d: "dispatch lib r = (es1, r1)" by (rule prod.exhaust)
  from dispatch_messages [of lib r] d obtain ms where
    ms: "es1 = fst (parse_all lib ms (rd_parser r))" "rd_parser r1 = snd (parse_all lib ms (rd_parser r))" by auto
  show ?thesis
  proof (cases "HasPrefix line ''event:'' \<or> HasPrefix line ''data:'' \<or> (\<not> HasPrefix (TrimSpace line) ''{'' \<and> line \<noteq> '''')")
    case True
    then show ?thesis by (intro exI [of _ "[]"]) (auto simp: read_line_def)
  next
    case no: False
    show ?thesis
    proof (cases "HasPrefix (TrimSpace line) ''{''")
      case True
      then show ?thesis using no d ms
        by (intro exI [of _ "ms @ [(rd_event r1, TrimSpace line)]"])
          (auto simp: read_line_def parse_all_append case_prod_unfold Let_def)
    next
      case False
      then show ?thesis using no d ms by (intro exI [of _ ms]) (auto simp: read_line_def)
    qed
  qed
qed

lemma read_lines_messages: "\<exists>ms. fst (read_lines lib ls r) = fst (parse_all lib ms (rd_parser r))
    \<and> rd_parser (snd (read_lines lib ls r)) = snd (parse_all lib ms (rd_parser r))"
proof (induction ls arbitrary: r)
  case Nil
  then show ?case using dispatch_messages [of lib r] by (metis fst_conv read_lines.simps(1))
next
  case (Cons l ls)
  obtain es1 r1 where 1: "read_line lib l r = (es1, r1)" by (rule prod.exhaust)
  from read_line_messages [of lib l r] 1 obtain ms1 where
    ms1: "es1 = fst (parse_all lib ms1 (rd_parser r))" "rd_parser r1 = snd (parse_all lib ms1 (rd_parser r))" by auto
  from Cons.IH [of r1] obtain ms2 where
    ms2: "fst (read_lines lib ls r1) = fst (parse_all lib ms2 (rd_parser r1))"
    "rd_parser (snd (read_lines lib ls r1)) = snd (parse_all lib ms2 (rd_parser r1))" by blast
  show ?case using 1 ms1 ms2
    by (intro exI [of _ "ms1 @ ms2"]) (simp add: parse_all_append case_prod_unfold Let_def)
qed

lemma last_done: "closes r \<Longrightarrow> EventDone \<notin> kinds (butlast (fst r))"
proof (cases "EventDone \<in> kinds (fst r)")
  case True
  moreover assume "closes r"
  ultimately show ?thesis by (auto simp: closes_def ends_with_done_def)
next
  case False
  then show ?thesis by (auto simp: kinds_def dest: in_set_butlastD)
qed

text \<open>However the upstream frames its server-sent events, the client of the parser sees at most one final event and
  no event of the body after it; an error of the scanner is the only thing that can still follow.\<close>

theorem sse_done_last:
  "\<exists>body. streamEventsWithToolNames lib names ls scanErr = body @ (case scanErr of None \<Rightarrow> [] | Some e \<Rightarrow> [no_event\<lparr>ev_Kind := EventError, ev_Error := e\<rparr>])
     \<and> EventDone \<notin> kinds (butlast body)"
proof -
  let ?r = "\<lparr>rd_parser = newSSEParserWithToolNames names, rd_event = '''', rd_data = []\<rparr>"
  obtain ms where "fst (read_lines lib ls ?r) = fst (parse_all lib ms (rd_parser ?r))" using read_lines_messages by blast
  then have "EventDone \<notin> kinds (butlast (fst (read_lines lib ls ?r)))"
    using last_done [OF closes_all [of lib ms "rd_parser ?r"]] by simp
  then show ?thesis
    by (intro exI [of _ "fst (read_lines lib ls ?r)"]) (simp add: streamEventsWithToolNames_def)
qed

section \<open>Tool-call objects\<close>

text \<open>Every key leads to an object, an object's index is its address, and every object has an identifier.\<close>

definition wf_parser :: "sseParser \<Rightarrow> bool" where
  "wf_parser p \<longleftrightarrow> nextTool p = int (length (heap p)) \<and> (\<forall>k a. p_tools p k = Some a \<longrightarrow> a < length (heap p))
     \<and> (\<forall>a < length (heap p). t_index (heap p ! a) = int a \<and> t_id (heap p ! a) \<noteq> '''')"

lemma wf_new: "wf_parser (newSSEParserWithToolNames names)"
  by (simp add: wf_parser_def newSSEParserWithToolNames_def)

lemma bindToolKeys_simps [simp]:
  "heap (bindToolKeys a keys p) = heap p" "nextTool (bindToolKeys a keys p) = nextTool p"
  "p_done (bindToolKeys a keys p) = p_done p" "reverseToolNames (bindToolKeys a keys p) = reverseToolNames p"
  by (simp_all add: bindToolKeys_def)

lemma bindToolKeys_range: "p_tools (bindToolKeys a keys p) k = Some b \<Longrightarrow> b = a \<or> p_tools p k = Some b"
  by (auto simp: bindToolKeys_def split: if_splits)

lemma refresh_tool_keeps:
  "t_index (refresh_tool p i s) = t_index s" "t_id s \<noteq> '''' \<Longrightarrow> t_id (refresh_tool p i s) \<noteq> ''''"
  by (auto simp: refresh_tool_def Let_def split: option.splits)

lemma fresh_tool_index: "t_index (fresh_tool p e i n) = n"
  by (simp add: fresh_tool_def Let_def split: option.splits)

lemma fresh_tool_id: "t_id (fresh_tool p e i n) \<noteq> ''''"
  by (simp add: fresh_tool_def Let_def)

lemma wf_update:
  assumes "wf_parser p" "a < length (heap p)" "t_index s = int a" "t_id s \<noteq> ''''"
  shows "wf_parser (p\<lparr>heap := (heap p)[a := s]\<rparr>)"
  using assms by (auto simp: wf_parser_def nth_list_update)

lemma toolState_wf:
  assumes "wf_parser p" "toolState lib ev item True p = (a, q)"
  shows "wf_parser q" "a < length (heap q)" "nextTool p \<le> nextTool q"
proof -
  let ?keys = "toolKeys lib ev item"
  show "wf_parser q" and "a < length (heap q)" and "nextTool p \<le> nextTool q"
  proof (atomize (full), cases "find (\<lambda>k. p_tools p k \<noteq> None) ?keys")
    case (Some k)
    then obtain b where b: "p_tools p k = Some b" by (auto simp: find_Some_iff)
    then have lt: "b < length (heap p)" using assms(1) by (auto simp: wf_parser_def)
    have "wf_parser (bindToolKeys b ?keys p)"
      using assms(1) lt by (auto simp: wf_parser_def dest!: bindToolKeys_range)
    from wf_update [OF this, of b "refresh_tool (bindToolKeys b ?keys p) item (heap p ! b)"] lt
    show "wf_parser q \<and> a < length (heap q) \<and> nextTool p \<le> nextTool q"
      using assms Some b by (auto simp: toolState_def Let_def refresh_tool_keeps wf_parser_def)
  next
    case None
    then show "wf_parser q \<and> a < length (heap q) \<and> nextTool p \<le> nextTool q"
      using assms
      by (auto simp: toolState_def Let_def wf_parser_def nth_append fresh_tool_index fresh_tool_id less_Suc_eq
          dest!: bindToolKeys_range)
  qed
qed

text \<open>What one message may do.\<close>

definition tool_ok :: "sseParser \<Rightarrow> Event list \<times> sseParser \<Rightarrow> bool" where
  "tool_ok p r \<longleftrightarrow> wf_parser (snd r) \<and> nextTool p \<le> nextTool (snd r)
     \<and> (\<forall>e \<in> set (fst r). ev_Kind e = EventToolCall \<longrightarrow> ev_ID e \<noteq> '''' \<and> 0 \<le> Index e \<and> Index e < nextTool (snd r))"

lemma tool_ok_other:
  assumes "wf_parser p" "EventToolCall \<notin> kinds es" "p_tools q = p_tools p" "heap q = heap p" "nextTool q = nextTool p"
  shows "tool_ok p (es, q)"
  using assms by (force simp: tool_ok_def wf_parser_def kinds_def)

lemma tool_ok_none: "wf_parser q \<Longrightarrow> nextTool p \<le> nextTool q \<Longrightarrow> tool_ok p ([], q)"
  by (simp add: tool_ok_def)

lemma tool_ok_call:
  assumes "wf_parser q" "a < length (heap q)" "nextTool p \<le> nextTool q"
    and "t_index s = t_index (heap q ! a)" "t_id s = t_id (heap q ! a)"
  shows "tool_ok p ([tool_event (heap q ! a) args raw], q\<lparr>heap := (heap q)[a := s]\<rparr>)"
proof -
  have i: "t_index (heap q ! a) = int a" "t_id (heap q ! a) \<noteq> ''''" "nextTool q = int (length (heap q))"
    using assms(1,2) by (auto simp: wf_parser_def)
  then show ?thesis using assms wf_update [of q a s] by (auto simp: tool_ok_def tool_event_def)
qed

lemma tool_ok_function:
  assumes "wf_parser p"
  shows "tool_ok p (functionItem lib m i d raw p)"
proof -
  obtain a q where t: "toolState lib m (Some i) True p = (a, q)" by (rule prod.exhaust)
  note w = toolState_wf [OF assms t]
  show ?thesis unfolding functionItem_def t Let_def by (simp add: tool_ok_call [OF w] tool_ok_none [OF w(1,3)])
qed

lemma tool_ok_arguments:
  assumes "wf_parser p"
  shows "tool_ok p (arguments_delta lib m raw p)" "tool_ok p (arguments_done lib m raw p)"
proof -
  obtain a q where t: "toolState lib m None True p = (a, q)" by (rule prod.exhaust)
  note w = toolState_wf [OF assms t]
  show "tool_ok p (arguments_delta lib m raw p)" "tool_ok p (arguments_done lib m raw p)"
    unfolding arguments_delta_def arguments_done_def t Let_def by (simp_all add: tool_ok_call [OF w] tool_ok_none [OF w(1,3)])
qed

lemma tool_ok_image:
  assumes "wf_parser p"
  shows "tool_ok p (imageItem lib m i raw p)"
  using assms by (auto simp: imageItem_def Let_def intro!: tool_ok_other)

lemma tool_ok_rest:
  assumes "wf_parser p"
  shows "tool_ok p (parse_other lib m raw p)"
proof -
  have w: "EventToolCall \<notin> kinds (deduplicateMedia (web_media lib r raw @ mediaEvents r raw))" for r
    using kinds_dedup [of "[]" "web_media lib r raw @ mediaEvents r raw"] kinds_web [of lib r raw] kinds_media [of r raw]
    by (auto simp: deduplicateMedia_def)
  have u: "EventToolCall \<notin> kinds (usageEvents r)" "EventToolCall \<notin> kinds (mediaEvents r raw)" for r
    using kinds_usage [of r] kinds_media [of r raw] by auto
  have "tool_ok p x" if "grokWebEvents lib m raw p = Some x" for x
    using that w u assms
    by (auto simp: grokWebEvents_def Let_def intro!: tool_ok_other split: option.splits if_splits)
  then show ?thesis using u assms by (auto simp: parse_other_def Let_def intro!: tool_ok_other split: option.splits)
qed

lemma tool_ok_typed:
  assumes "wf_parser p"
  shows "tool_ok p (parse_typed lib t m raw p)"
proof -
  have "tool_ok p (output_item lib m d raw p)" for d
    using tool_ok_function [OF assms] tool_ok_image [OF assms] tool_ok_rest [OF assms]
    by (simp add: output_item_def split: option.splits)
  moreover have "tool_ok p (textEvent EventReasoningDelta s raw, p)" "tool_ok p (textEvent EventTextDelta s raw, p)" for s
    using assms kindsD(1) by (fastforce intro!: tool_ok_other)+
  moreover have "tool_ok p (usageEvents m @ [no_event\<lparr>ev_Kind := EventDone, Raw := raw\<rparr>], p\<lparr>p_done := True\<rparr>)"
    using assms kinds_usage [of m] by (auto intro!: tool_ok_other)
  moreover have "tool_ok p ([no_event\<lparr>ev_Kind := EventError, ev_Error := errorText m, Raw := raw\<rparr>], p\<lparr>p_done := True\<rparr>)"
    using assms by (auto intro!: tool_ok_other)
  ultimately show ?thesis
    using tool_ok_arguments [OF assms] tool_ok_image [OF assms] tool_ok_rest [OF assms] by (simp add: parse_typed_def)
qed

lemma tool_ok_parse: "wf_parser p \<Longrightarrow> tool_ok p (parse lib n d p)"
  using tool_ok_typed [of p lib] by (auto simp: parse_def Let_def intro!: tool_ok_other split: option.splits)

lemma tool_ok_all: "wf_parser p \<Longrightarrow> tool_ok p (parse_all lib ms p)"
proof (induction ms arbitrary: p)
  case Nil
  then show ?case by (simp add: tool_ok_def)
next
  case (Cons m ms)
  obtain n d where m: "m = (n, d)" by (rule prod.exhaust)
  obtain es1 q where 1: "parse lib n d p = (es1, q)" by (rule prod.exhaust)
  have o1: "tool_ok p (es1, q)" using tool_ok_parse [OF Cons.prems, of lib n d] 1 by simp
  then have "wf_parser q" by (simp add: tool_ok_def)
  then have "tool_ok q (parse_all lib ms q)" by (rule Cons.IH)
  with o1 m 1 show ?case by (fastforce simp: tool_ok_def case_prod_unfold Let_def)
qed

text \<open>Over any sequence of upstream messages the shared tool-call objects stay well formed (every key leads to an object,
  indices are the order of creation), and every tool-call event carries a non-empty identifier and the index of an
  existing object.\<close>

theorem sse_tool_calls:
  assumes "parse_all lib ms (newSSEParserWithToolNames names) = (es, p)"
  shows "wf_parser p \<and> (\<forall>e \<in> set es. ev_Kind e = EventToolCall \<longrightarrow> ev_ID e \<noteq> '''' \<and> 0 \<le> Index e \<and> Index e < nextTool p)"
  using tool_ok_all [OF wf_new, of names lib ms] assms by (simp add: tool_ok_def)

section \<open>A function call\<close>

text \<open>The messages of one function call: its announcement, pieces of the arguments, the whole arguments, its end.\<close>

definition item_added :: "string \<Rightarrow> string \<Rightarrow> string \<Rightarrow> string \<Rightarrow> object" where
  "item_added X C N args =
     [(''item'', JObj [(''type'', JStr ''function_call''), (''id'', JStr X), (''call_id'', JStr C), (''name'', JStr N), (''arguments'', JStr args)])]"

definition args_message :: "string \<Rightarrow> string \<Rightarrow> string \<Rightarrow> object" where
  "args_message X field text = [(''item_id'', JStr X), (field, JStr text)]"

fun typed_all :: "UpstreamLib \<Rightarrow> (string \<times> object) list \<Rightarrow> sseParser \<Rightarrow> Event list \<times> sseParser" where
  "typed_all lib [] p = ([], p)"
| "typed_all lib ((t, m) # rest) p =
     (let (es1, p) = parse_typed lib t m '''' p; (es2, p) = typed_all lib rest p in (es1 @ es2, p))"

definition call_messages :: "string \<Rightarrow> string \<Rightarrow> string \<Rightarrow> string list \<Rightarrow> string \<Rightarrow> (string \<times> object) list" where
  "call_messages X C N pieces whole =
     (''response.output_item.added'', item_added X C N '''') #
     map (\<lambda>d. (''response.function_call_arguments.delta'', args_message X ''delta'' d)) pieces @
     [(''response.function_call_arguments.done'', args_message X ''arguments'' whole),
      (''response.output_item.done'', item_added X C N whole)]"

text \<open>The object of the call is known under its item identifier.\<close>

definition known :: "sseParser \<Rightarrow> string \<Rightarrow> nat \<Rightarrow> sseToolState \<Rightarrow> bool" where
  "known p X a s \<longleftrightarrow> p_tools p (''item:'' @ X) = Some a \<and> a < length (heap p) \<and> heap p ! a = s"

lemma args_state:
  assumes "known p X a s" "X \<noteq> ''''" "field \<noteq> ''item_id''" "field \<noteq> ''call_id''" "field \<noteq> ''output_index''"
  shows "\<exists>q. toolState lib (args_message X field t) None True p = (a, q) \<and> known q X a s"
proof -
  have k: "toolKeys lib (args_message X field t) None = [''item:'' @ X]"
    using assms(2-5) by (simp add: toolKeys_def args_message_def tool_key_def jget_def)
  show ?thesis
    using assms(1) by (auto simp: toolState_def k known_def bindToolKeys_def refresh_tool_def)
qed

lemma typed_delta:
  assumes "known p X a s" "X \<noteq> ''''"
  shows "\<exists>q. parse_typed lib ''response.function_call_arguments.delta'' (args_message X ''delta'' d) raw p = ([tool_event s d raw], q)
    \<and> known q X a (s\<lparr>argumentsSeen := True\<rparr>)"
proof -
  obtain q where q: "toolState lib (args_message X ''delta'' d) None True p = (a, q)" "known q X a s"
    using args_state [OF assms, of "''delta''"] by auto
  then show ?thesis
    by (auto simp: parse_typed_def arguments_delta_def known_def args_message_def jget_def Let_def)
qed

lemma typed_deltas:
  assumes "known p X a s" "X \<noteq> ''''"
  shows "\<exists>q. typed_all lib (map (\<lambda>d. (''response.function_call_arguments.delta'', args_message X ''delta'' d)) ds) p =
      (map (\<lambda>d. tool_event s d '''') ds, q) \<and> known q X a (s\<lparr>argumentsSeen := argumentsSeen s \<or> ds \<noteq> []\<rparr>)"
  using assms
proof (induction ds arbitrary: p s)
  case Nil
  then show ?case by simp
next
  case (Cons d ds)
  obtain q where q: "parse_typed lib ''response.function_call_arguments.delta'' (args_message X ''delta'' d) '''' p = ([tool_event s d ''''], q)"
    "known q X a (s\<lparr>argumentsSeen := True\<rparr>)" using typed_delta [OF Cons.prems] by blast
  have e: "tool_event (s\<lparr>argumentsSeen := True\<rparr>) d' '''' = tool_event s d' ''''" for d' by (simp add: tool_event_def)
  from Cons.IH [OF q(2) Cons.prems(2)] q(1) show ?case by (auto simp: e case_prod_unfold Let_def)
qed

lemma typed_done:
  assumes "known p X a s" "X \<noteq> ''''"
  shows "\<exists>q. parse_typed lib ''response.function_call_arguments.done'' (args_message X ''arguments'' d) raw p =
      (if argumentsSeen s then [] else [tool_event s d raw], q) \<and> known q X a (s\<lparr>argumentsSeen := True\<rparr>)"
proof -
  obtain q where q: "toolState lib (args_message X ''arguments'' d) None True p = (a, q)" "known q X a s"
    using args_state [OF assms, of "''arguments''"] by auto
  have s: "argumentsSeen s \<Longrightarrow> s\<lparr>argumentsSeen := True\<rparr> = s" by (cases s) simp
  show ?thesis using q s
    by (cases "argumentsSeen s") (auto simp: parse_typed_def arguments_done_def known_def args_message_def jget_def Let_def)
qed

lemma item_keys:
  assumes "X \<noteq> ''''" "C \<noteq> ''''"
  shows "toolKeys lib (item_added X C N args) (as_object (jget (item_added X C N args) ''item'')) = [''item:'' @ X, ''call:'' @ C]"
  using assms by (simp add: toolKeys_def item_added_def tool_key_def jget_def as_object_def)

lemma typed_added:
  assumes "X \<noteq> ''''" "C \<noteq> ''''" "p_tools p (''item:'' @ X) = None" "p_tools p (''call:'' @ C) = None"
    and "s = \<lparr>t_id = C, t_itemID = X, t_name = restoreToolName p N, t_index = nextTool p, announced = False, argumentsSeen = False\<rparr>"
  shows "\<exists>q a. parse_typed lib ''response.output_item.added'' (item_added X C N '''') raw p = ([tool_event s '''' raw], q)
    \<and> known q X a (s\<lparr>announced := True\<rparr>)"
proof -
  let ?m = "item_added X C N ''''"
  obtain i where i: "as_object (jget ?m ''item'') = Some i" "stringValue i [''type''] = ''function_call''"
    "stringValue i [''call_id'', ''id''] = C" "stringValue i [''id''] = X" "stringValue i [''name''] = N" "stringValue i [''arguments''] = ''''"
    by (simp add: item_added_def jget_def as_object_def)
  have k: "toolKeys lib ?m (Some i) = [''item:'' @ X, ''call:'' @ C]" using item_keys [OF assms(1,2), of lib N "''''"] i(1) by simp
  have f: "fresh_tool p ?m (Some i) (nextTool p) = s"
    using assms(1,2,5) i by (simp add: fresh_tool_def Let_def)
  obtain a q where t: "toolState lib ?m (Some i) True p = (a, q)" by (rule prod.exhaust)
  have q: "known q X a s"
    using t assms(3,4) by (auto simp: toolState_def k Let_def f known_def bindToolKeys_def)
  have "announced s = False" "s\<lparr>announced := True, argumentsSeen := False\<rparr> = s\<lparr>announced := True\<rparr>" using assms(5) by auto
  with q show ?thesis
    by (auto simp: parse_typed_def output_item_def i functionItem_def t known_def Let_def simp del: stringValue.simps)
qed

lemma typed_end:
  assumes "known p X a s" "X \<noteq> ''''" "C \<noteq> ''''" "announced s" "argumentsSeen s" "t_id s = C"
  shows "\<exists>q. parse_typed lib ''response.output_item.done'' (item_added X C N args) raw p = ([], q)"
proof -
  let ?m = "item_added X C N args"
  obtain i where i: "as_object (jget ?m ''item'') = Some i" "stringValue i [''type''] = ''function_call''"
    by (simp add: item_added_def jget_def as_object_def)
  have k: "toolKeys lib ?m (Some i) = [''item:'' @ X, ''call:'' @ C]" using item_keys [OF assms(2,3), of lib N args] i(1) by simp
  obtain b q where t: "toolState lib ?m (Some i) True p = (b, q)" by (rule prod.exhaust)
  have keep: "announced (refresh_tool r j x) = announced x" "argumentsSeen (refresh_tool r j x) = argumentsSeen x" for r j x
    by (auto simp: refresh_tool_def Let_def split: option.splits)
  have "announced (heap q ! b)" "argumentsSeen (heap q ! b)"
    using t assms by (auto simp: toolState_def k known_def Let_def keep)
  then show ?thesis by (auto simp: parse_typed_def output_item_def i functionItem_def t Let_def simp del: stringValue.simps)
qed

lemma typed_all_append:
  "typed_all lib (a @ b) p = (let (es1, q) = typed_all lib a p; (es2, q) = typed_all lib b q in (es1 @ es2, q))"
  by (induction a arbitrary: p) (auto simp: case_prod_unfold Let_def)

text \<open>A function call that the upstream announces, sends in any number of pieces, repeats as a whole and closes reaches the
  client under one call identifier, item identifier, index and its original name, and its arguments arrive exactly once: as the
  pieces, or as the whole when there were none.\<close>

theorem function_call_once:
  assumes "X \<noteq> ''''" "C \<noteq> ''''" "p_tools p (''item:'' @ X) = None" "p_tools p (''call:'' @ C) = None"
    and "typed_all lib (call_messages X C N pieces whole) p = (es, q)"
  shows "(\<forall>e \<in> set es. ev_Kind e = EventToolCall \<and> ev_ID e = C \<and> ItemID e = X \<and> ev_Name e = restoreToolName p N \<and> Index e = nextTool p)
    \<and> concat (map Arguments es) = (if pieces = [] then whole else concat pieces)"
proof -
  define s where "s = \<lparr>t_id = C, t_itemID = X, t_name = restoreToolName p N, t_index = nextTool p, announced = False, argumentsSeen = False\<rparr>"
  obtain q1 a where 1: "parse_typed lib ''response.output_item.added'' (item_added X C N '''') '''' p = ([tool_event s '''' ''''], q1)"
    "known q1 X a (s\<lparr>announced := True\<rparr>)" using typed_added [OF assms(1-4) s_def] by blast
  obtain q2 where 2: "typed_all lib (map (\<lambda>d. (''response.function_call_arguments.delta'', args_message X ''delta'' d)) pieces) q1 =
      (map (\<lambda>d. tool_event (s\<lparr>announced := True\<rparr>) d '''') pieces, q2)"
    "known q2 X a (s\<lparr>announced := True, argumentsSeen := pieces \<noteq> []\<rparr>)" using typed_deltas [OF 1(2) assms(1)] by (auto simp: s_def)
  let ?whole = "if pieces \<noteq> [] then [] else [tool_event (s\<lparr>announced := True, argumentsSeen := False\<rparr>) whole '''']"
  obtain q3 where 3: "parse_typed lib ''response.function_call_arguments.done'' (args_message X ''arguments'' whole) '''' q2 = (?whole, q3)"
    "known q3 X a (s\<lparr>announced := True, argumentsSeen := True\<rparr>)" using typed_done [OF 2(2) assms(1), of lib whole "''''"] by auto
  obtain q4 where 4: "parse_typed lib ''response.output_item.done'' (item_added X C N whole) '''' q3 = ([], q4)"
    using typed_end [OF 3(2) assms(1,2), of lib N whole "''''"] by (auto simp: s_def)
  have es: "es = tool_event s '''' '''' # map (\<lambda>d. tool_event (s\<lparr>announced := True\<rparr>) d '''') pieces @ ?whole"
    using assms(5) 1(1) 2(1) 3(1) 4 by (simp add: call_messages_def typed_all_append)
  have "concat (map Arguments es) = concat pieces @ (if pieces = [] then whole else '''')"
    unfolding es by (simp add: tool_event_def o_def)
  then show ?thesis unfolding es by (auto simp: tool_event_def s_def)
qed

text \<open>The announcement has to come first: after pieces of the arguments, an announcement makes the whole repeat them.\<close>

definition sample_ulib :: UpstreamLib where
  "sample_ulib = \<lparr>Unmarshal = (\<lambda>_. None), Marshal_json = (\<lambda>_. ''''), Sprint = (\<lambda>_. ''''), Sha256 = (\<lambda>_. '''')\<rparr>"

lemma late_announcement_repeats:
  "concat (map Arguments (fst (typed_all sample_ulib
     [(''response.function_call_arguments.delta'', args_message ''i'' ''delta'' ''x''),
      (''response.output_item.done'', item_added ''i'' ''c'' ''f'' ''x'')] newSSEParser))) = ''xx''"
  by code_simp

theorem function_call_once_witness:
  "concat (map Arguments (fst (typed_all sample_ulib (call_messages ''i'' ''c'' ''f'' [''a'', ''b''] ''ab'') newSSEParser))) = ''ab''"
  using function_call_once [of "''i''" "''c''" newSSEParser sample_ulib "''f''" "[''a'', ''b'']" "''ab''", OF _ _ _ _ prod.collapse [symmetric]]
  by (simp add: newSSEParser_def newSSEParserWithToolNames_def)

theorem sse_tool_calls_witness:
  "wf_parser (snd (parse_all sample_ulib [('''', ''[DONE]'')] (newSSEParserWithToolNames Map.empty)))"
  using sse_tool_calls [OF prod.collapse [symmetric]] by blast

end
