(* ===== verification/Gateway_Response.thy ===== *)
theory Gateway_Response
  imports Upstream_Types
begin

text \<open>
  Collecting upstream events into one response (\<open>internal/gateway/response.go\<close>): the accumulator and the bodies of
  the three conversational protocols.

  A \<open>strings.Builder\<close> is the string built so far. Random identifiers and the clock are the \<open>Draws\<close>: the
  text of the \<open>n\<close>th random draw and the seconds of the \<open>n\<close>th reading, with the counters of both threaded through.
  Decoding the arguments of a tool call is the argument \<open>decode\<close>.
\<close>

record Draws =
  draw_hex :: "nat \<Rightarrow> string"
  draw_clock :: "nat \<Rightarrow> int"

definition newID :: "Draws \<Rightarrow> string \<Rightarrow> nat \<Rightarrow> string" where
  "newID d pfx n = pfx @ ''_'' @ draw_hex d n"

definition jint :: "int \<Rightarrow> json" where
  "jint n = JNumber (FormatInt n)"

section \<open>The accumulator\<close>

record toolCall =
  tc_ID :: string
  tc_Name :: string
  tc_Arguments :: string
  tc_Index :: int

record accumulated =
  a_text :: string
  a_reasoning :: string
  a_tools :: "toolCall list"
  images :: "string list"
  imageB64 :: "string list"
  videos :: "string list"
  a_usage :: Usage
  a_usageSeen :: bool
  a_err :: "string option"

definition no_usage :: Usage where
  "no_usage = \<lparr>InputTokens = 0, OutputTokens = 0, CachedTokens = 0\<rparr>"

definition empty_accumulated :: accumulated where
  "empty_accumulated = \<lparr>a_text = '''', a_reasoning = '''', a_tools = [], images = [], imageB64 = [], videos = [], a_usage = no_usage,
     a_usageSeen = False, a_err = None\<rparr>"

definition appendUnique :: "string list \<Rightarrow> string \<Rightarrow> string list" where
  "appendUnique values value = (if value \<in> set values then values else values @ [value])"

fun merge_tool :: "string \<Rightarrow> Event \<Rightarrow> toolCall list \<Rightarrow> toolCall list option" where
  "merge_tool i event [] = None"
| "merge_tool i event (t # ts) =
     (if tc_ID t = i \<or> (ev_ID event = '''' \<and> tc_Index t = Index event)
      then Some (t\<lparr>tc_Name := (if ev_Name event \<noteq> '''' then ev_Name event else tc_Name t),
                   tc_Arguments := tc_Arguments t @ Arguments event\<rparr> # ts)
      else map_option (\<lambda>ts. t # ts) (merge_tool i event ts))"

definition addTool :: "Event \<Rightarrow> accumulated \<Rightarrow> accumulated" where
  "addTool event a =
     (let i = (if ev_ID event = '''' then ''call_'' @ FormatInt (max 0 (Index event)) else ev_ID event)
      in case merge_tool i event (a_tools a) of
           Some ts \<Rightarrow> a\<lparr>a_tools := ts\<rparr>
         | None \<Rightarrow> a\<lparr>a_tools := a_tools a @ [\<lparr>tc_ID = i, tc_Name = ev_Name event, tc_Arguments = Arguments event, tc_Index = Index event\<rparr>]\<rparr>)"

definition accumulated_add :: "Event \<Rightarrow> accumulated \<Rightarrow> accumulated" where
  "accumulated_add event a =
     (case ev_Kind event of
        EventTextDelta \<Rightarrow> a\<lparr>a_text := a_text a @ ev_Text event\<rparr>
      | EventReasoningDelta \<Rightarrow> a\<lparr>a_reasoning := a_reasoning a @ ev_Text event\<rparr>
      | EventToolCall \<Rightarrow> addTool event a
      | EventImage \<Rightarrow> if ev_URL event \<noteq> '''' then a\<lparr>images := appendUnique (images a) (ev_URL event)\<rparr> else a
      | EventVideo \<Rightarrow> if ev_URL event \<noteq> '''' then a\<lparr>videos := appendUnique (videos a) (ev_URL event)\<rparr> else a
      | EventUsage \<Rightarrow> a\<lparr>a_usage := ev_Usage event, a_usageSeen := True\<rparr>
      | EventError \<Rightarrow> a\<lparr>a_err := Some (ev_Error event)\<rparr>
      | EventDone \<Rightarrow> a)"

section \<open>Bodies\<close>

definition defaultArguments :: "string \<Rightarrow> string" where
  "defaultArguments value = (if TrimSpace value = '''' then ''{}'' else value)"

definition image_markdown :: "string \<Rightarrow> string" where
  "image_markdown url = [CHR 0x0A, CHR 0x0A] @ ''![generated image]('' @ url @ '')''"

definition video_markdown :: "string \<Rightarrow> string" where
  "video_markdown url = [CHR 0x0A, CHR 0x0A] @ url"

definition mediaMarkdown :: "accumulated \<Rightarrow> string" where
  "mediaMarkdown a = concat (map image_markdown (images a)) @ concat (map video_markdown (videos a))"

definition chatUsage :: "Usage \<Rightarrow> json" where
  "chatUsage u = JObj [(''prompt_tokens'', jint (InputTokens u)), (''completion_tokens'', jint (OutputTokens u)),
     (''total_tokens'', jint (wrap64 (InputTokens u + OutputTokens u))),
     (''prompt_tokens_details'', JObj [(''cached_tokens'', jint (CachedTokens u))])]"

definition responsesUsage :: "Usage \<Rightarrow> json" where
  "responsesUsage u = JObj [(''input_tokens'', jint (InputTokens u)), (''output_tokens'', jint (OutputTokens u)),
     (''total_tokens'', jint (wrap64 (InputTokens u + OutputTokens u))),
     (''input_tokens_details'', JObj [(''cached_tokens'', jint (CachedTokens u))])]"

definition openAITools :: "toolCall list \<Rightarrow> json list" where
  "openAITools ts = map (\<lambda>t. JObj [(''id'', JStr (tc_ID t)), (''type'', JStr ''function''),
     (''function'', JObj [(''name'', JStr (tc_Name t)), (''arguments'', JStr (defaultArguments (tc_Arguments t)))])]) ts"

definition chatResponse :: "Draws \<Rightarrow> string \<Rightarrow> accumulated \<Rightarrow> json" where
  "chatResponse d m a =
     (let message = [(''role'', JStr ''assistant''), (''content'', JStr (a_text a @ mediaMarkdown a))] @
            (if a_reasoning a \<noteq> '''' then [(''reasoning_content'', JStr (a_reasoning a))] else []) @
            (if a_tools a \<noteq> [] then [(''tool_calls'', JArr (openAITools (a_tools a)))] else [])
      in JObj [(''id'', JStr (newID d ''chatcmpl'' 0)), (''object'', JStr ''chat.completion''), (''created'', jint (draw_clock d 0)),
           (''model'', JStr m),
           (''choices'', JArr [JObj [(''index'', jint 0), (''message'', JObj message),
              (''finish_reason'', JStr (if a_tools a \<noteq> [] then ''tool_calls'' else ''stop''))]]),
           (''usage'', chatUsage (a_usage a))])"

definition has_message :: "accumulated \<Rightarrow> bool" where
  "has_message a = (a_text a \<noteq> '''' \<or> 0 < length (images a) + length (videos a))"

definition responsesResponse :: "Draws \<Rightarrow> string \<Rightarrow> accumulated \<Rightarrow> json" where
  "responsesResponse d m a =
     (let reasoning = (if a_reasoning a \<noteq> ''''
            then [\<lambda>n. JObj [(''id'', JStr (newID d ''rs'' n)), (''type'', JStr ''reasoning''),
                    (''summary'', JArr [JObj [(''type'', JStr ''summary_text''), (''text'', JStr (a_reasoning a))]])]] else []);
          message = (if has_message a
            then [\<lambda>n. JObj [(''id'', JStr (newID d ''msg'' n)), (''type'', JStr ''message''), (''role'', JStr ''assistant''),
                    (''status'', JStr ''completed''),
                    (''content'', JArr [JObj [(''type'', JStr ''output_text''), (''text'', JStr (a_text a @ mediaMarkdown a)), (''annotations'', JArr [])]])]]
            else []);
          calls = map (\<lambda>t n. JObj [(''id'', JStr (newID d ''fc'' n)), (''type'', JStr ''function_call''), (''call_id'', JStr (tc_ID t)),
                    (''name'', JStr (tc_Name t)), (''arguments'', JStr (defaultArguments (tc_Arguments t))), (''status'', JStr ''completed'')]) (a_tools a);
          items = reasoning @ message @ calls;
          output = map (\<lambda>(n, f). f n) (List.enumerate 0 items)
      in JObj [(''id'', JStr (newID d ''resp'' (length items))), (''object'', JStr ''response''), (''created_at'', jint (draw_clock d 0)),
           (''status'', JStr ''completed''), (''model'', JStr m), (''output'', if items = [] then JNull else JArr output),
           (''usage'', responsesUsage (a_usage a))])"

definition messagesResponse :: "Draws \<Rightarrow> (string \<Rightarrow> json option) \<Rightarrow> string \<Rightarrow> accumulated \<Rightarrow> json" where
  "messagesResponse d decode m a =
     (let thinking = (if a_reasoning a \<noteq> '''' then [JObj [(''type'', JStr ''thinking''), (''thinking'', JStr (a_reasoning a))]] else []);
          texts = (if has_message a then [JObj [(''type'', JStr ''text''), (''text'', JStr (a_text a @ mediaMarkdown a))]] else []);
          calls = map (\<lambda>t. JObj [(''type'', JStr ''tool_use''), (''id'', JStr (tc_ID t)), (''name'', JStr (tc_Name t)),
                    (''input'', case decode (defaultArguments (tc_Arguments t)) of None \<Rightarrow> JObj [] | Some v \<Rightarrow> v)]) (a_tools a);
          content = thinking @ texts @ calls
      in JObj [(''id'', JStr (newID d ''msg'' 0)), (''type'', JStr ''message''), (''role'', JStr ''assistant''), (''model'', JStr m),
           (''content'', if content = [] then JNull else JArr content),
           (''stop_reason'', JStr (if a_tools a \<noteq> [] then ''tool_use'' else ''end_turn'')), (''stop_sequence'', JNull),
           (''usage'', JObj [(''input_tokens'', jint (InputTokens (a_usage a))), (''output_tokens'', jint (OutputTokens (a_usage a))),
              (''cache_read_input_tokens'', jint (CachedTokens (a_usage a)))])])"

end
