(* ===== verification/Gateway_Stream.thy ===== *)
theory Gateway_Stream
  imports Gateway_Response
begin

text \<open>
  Streaming upstream events to the client (\<open>internal/gateway/stream.go\<close>): the state of a stream, the frames of the
  three conversational protocols, and the loop that serves the stream.

  \<^item> What is written to the client is a list of \<open>chunk\<close>s: a named server-sent event, a data line, or raw text.
  \<^item> The tool calls of a stream are shared objects: \<open>s_tools\<close> is the list of the objects in the order of their
    creation and \<open>toolByKey\<close> leads to their positions.
  \<^item> \<open>draws\<close> and \<open>reads\<close> count the random identifiers and the readings of the clock.
  \<^item> Storing an item at an output index out of range panics: \<^const>\<open>None\<close>.
\<close>

datatype chunk = WEvent string json | WData json | WRaw string

definition done_marker :: chunk where
  "done_marker = WRaw (''data: [DONE]'' @ [CHR 0x0A, CHR 0x0A])"

definition heartbeat :: chunk where
  "heartbeat = WRaw ('': heartbeat'' @ [CHR 0x0A, CHR 0x0A])"

record streamToolCall =
  st_id :: string
  st_itemID :: string
  st_name :: string
  st_index :: int
  outputIndex :: int
  st_arguments :: string

record streamState =
  s_operation :: Operation
  s_model :: string
  responseID :: string
  s_usage :: Usage
  usageSeen :: bool
  s_text :: string
  s_reasoning :: string
  s_tools :: "streamToolCall list"
  toolByKey :: "string \<rightharpoonup> nat"
  blockOpen :: bool
  blockKind :: EventKind
  blockIndex :: int
  blockToolID :: string
  responseNextOutput :: int
  responseTextStarted :: bool
  responseTextIndex :: int
  responseMessageID :: string
  responseReasoningStart :: bool
  responseReasoningIndex :: int
  responseReasoningID :: string
  draws :: nat
  reads :: nat

section \<open>Start\<close>

definition streamResponseID :: "Draws \<Rightarrow> Operation \<Rightarrow> nat \<Rightarrow> string" where
  "streamResponseID d operation n =
     (case operation of
        OperationChat \<Rightarrow> newID d ''chatcmpl'' n
      | OperationResponses \<Rightarrow> newID d ''resp'' n
      | _ \<Rightarrow> newID d ''msg'' n)"

definition new_stream :: "Draws \<Rightarrow> Operation \<Rightarrow> string \<Rightarrow> streamState" where
  "new_stream d operation m = \<lparr>s_operation = operation, s_model = m, responseID = streamResponseID d operation 0, s_usage = no_usage,
     usageSeen = False, s_text = '''', s_reasoning = '''', s_tools = [], toolByKey = Map.empty, blockOpen = False,
     blockKind = EventDone, blockIndex = 0, blockToolID = '''', responseNextOutput = 0, responseTextStarted = False,
     responseTextIndex = 0, responseMessageID = '''', responseReasoningStart = False, responseReasoningIndex = 0,
     responseReasoningID = '''', draws = 1, reads = 0\<rparr>"

text \<open>A chunk of a chat completion.\<close>

definition chat_chunk :: "Draws \<Rightarrow> (string \<times> json) list \<Rightarrow> json \<Rightarrow> (string \<times> json) list \<Rightarrow> streamState \<Rightarrow> chunk list \<times> streamState" where
  "chat_chunk d delta finish extra s =
     ([WData (JObj ([(''id'', JStr (responseID s)), (''object'', JStr ''chat.completion.chunk''), (''created'', jint (draw_clock d (reads s))),
         (''model'', JStr (s_model s)),
         (''choices'', JArr [JObj [(''index'', jint 0), (''delta'', JObj delta), (''finish_reason'', finish)]])] @ extra))],
      s\<lparr>reads := reads s + 1\<rparr>)"

definition stream_start :: "Draws \<Rightarrow> streamState \<Rightarrow> chunk list \<times> streamState" where
  "stream_start d s =
     (case s_operation s of
        OperationChat \<Rightarrow> chat_chunk d [(''role'', JStr ''assistant'')] JNull [] s
      | OperationResponses \<Rightarrow>
          ([WEvent ''response.created'' (JObj [(''type'', JStr ''response.created''),
              (''response'', JObj [(''id'', JStr (responseID s)), (''object'', JStr ''response''), (''status'', JStr ''in_progress''),
                 (''model'', JStr (s_model s)), (''output'', JArr [])])])], s)
      | OperationMessages \<Rightarrow>
          ([WEvent ''message_start'' (JObj [(''type'', JStr ''message_start''),
              (''message'', JObj [(''id'', JStr (responseID s)), (''type'', JStr ''message''), (''role'', JStr ''assistant''),
                 (''model'', JStr (s_model s)), (''content'', JArr []), (''stop_reason'', JNull),
                 (''usage'', JObj [(''input_tokens'', jint 0), (''output_tokens'', jint 0)])])]),
            WEvent ''ping'' (JObj [(''type'', JStr ''ping'')])], s)
      | _ \<Rightarrow> ([], s))"

section \<open>Recording events\<close>

definition record_tool :: "Draws \<Rightarrow> Event \<Rightarrow> streamState \<Rightarrow> (nat \<times> bool) \<times> streamState" where
  "record_tool d event s =
     (let key = (if ev_ID event = '''' then ''index:'' @ FormatInt (Index event) else ev_ID event);
          fresh = (toolByKey s key = None);
          n = length (s_tools s);
          i = (if ev_ID event = '''' then ''call_'' @ FormatInt (int n) else ev_ID event);
          item = (if ItemID event = '''' then newID d ''fc'' (draws s) else ItemID event);
          s1 = (if fresh
                then s\<lparr>s_tools := s_tools s @ [\<lparr>st_id = i, st_itemID = item, st_name = ev_Name event, st_index = int n, outputIndex = - 1, st_arguments = ''''\<rparr>],
                       toolByKey := (toolByKey s)(key \<mapsto> n, i \<mapsto> n),
                       draws := (if ItemID event = '''' then draws s + 1 else draws s)\<rparr>
                else s);
          a = the (toolByKey s1 key);
          t = s_tools s1 ! a;
          s2 = (if ItemID event \<noteq> '''' then s1\<lparr>toolByKey := (toolByKey s1)(ItemID event \<mapsto> a)\<rparr> else s1);
          t = (if ItemID event \<noteq> '''' then t\<lparr>st_itemID := ItemID event\<rparr> else t);
          t = (if ev_Name event \<noteq> '''' then t\<lparr>st_name := ev_Name event\<rparr> else t);
          t = t\<lparr>st_arguments := st_arguments t @ Arguments event\<rparr>
      in ((a, fresh), s2\<lparr>s_tools := (s_tools s2)[a := t]\<rparr>))"

definition stream_record :: "Draws \<Rightarrow> Event \<Rightarrow> streamState \<Rightarrow> (nat \<times> bool) option \<times> streamState" where
  "stream_record d event s =
     (case ev_Kind event of
        EventTextDelta \<Rightarrow> (None, s\<lparr>s_text := s_text s @ ev_Text event\<rparr>)
      | EventReasoningDelta \<Rightarrow> (None, s\<lparr>s_reasoning := s_reasoning s @ ev_Text event\<rparr>)
      | EventImage \<Rightarrow> (None, s\<lparr>s_text := s_text s @ image_markdown (ev_URL event)\<rparr>)
      | EventVideo \<Rightarrow> (None, s\<lparr>s_text := s_text s @ video_markdown (ev_URL event)\<rparr>)
      | EventToolCall \<Rightarrow> (let (r, s) = record_tool d event s in (Some r, s))
      | _ \<Rightarrow> (None, s))"

text \<open>The text an event adds to the answer of the assistant.\<close>

definition event_text :: "Event \<Rightarrow> string" where
  "event_text event =
     (case ev_Kind event of
        EventImage \<Rightarrow> image_markdown (ev_URL event)
      | EventVideo \<Rightarrow> video_markdown (ev_URL event)
      | _ \<Rightarrow> ev_Text event)"

section \<open>Chat completions\<close>

definition chat_delta :: "Event \<Rightarrow> (nat \<times> bool) option \<Rightarrow> streamState \<Rightarrow> (string \<times> json) list option" where
  "chat_delta event tool s =
     (case ev_Kind event of
        EventTextDelta \<Rightarrow> Some [(''content'', JStr (ev_Text event))]
      | EventReasoningDelta \<Rightarrow> Some [(''reasoning_content'', JStr (ev_Text event))]
      | EventToolCall \<Rightarrow>
          (case tool of
             None \<Rightarrow> None
           | Some (a, fresh) \<Rightarrow>
               (let t = s_tools s ! a;
                    function = [(''arguments'', JStr (Arguments event))] @ (if fresh then [(''name'', JStr (st_name t))] else []);
                    call = [(''index'', jint (st_index t)), (''function'', JObj function)] @
                           (if fresh then [(''id'', JStr (st_id t)), (''type'', JStr ''function'')] else [])
                in Some [(''tool_calls'', JArr [JObj call])]))
      | EventImage \<Rightarrow> Some [(''content'', JStr (image_markdown (ev_URL event)))]
      | EventVideo \<Rightarrow> Some [(''content'', JStr (video_markdown (ev_URL event)))]
      | _ \<Rightarrow> None)"

definition chatEvent :: "Draws \<Rightarrow> Event \<Rightarrow> (nat \<times> bool) option \<Rightarrow> streamState \<Rightarrow> chunk list \<times> streamState" where
  "chatEvent d event tool s =
     (case chat_delta event tool s of None \<Rightarrow> ([], s) | Some delta \<Rightarrow> chat_chunk d delta JNull [] s)"

section \<open>Responses\<close>

definition named :: "string \<Rightarrow> (string \<times> json) list \<Rightarrow> chunk" where
  "named t m = WEvent t (JObj ((''type'', JStr t) # m))"

definition ensureResponseText :: "Draws \<Rightarrow> streamState \<Rightarrow> chunk list \<times> streamState" where
  "ensureResponseText d s =
     (if responseTextStarted s then ([], s)
      else (let index = responseNextOutput s; msg = newID d ''msg'' (draws s)
            in ([named ''response.output_item.added'' [(''response_id'', JStr (responseID s)), (''output_index'', jint index),
                   (''item'', JObj [(''id'', JStr msg), (''type'', JStr ''message''), (''role'', JStr ''assistant''), (''status'', JStr ''in_progress''), (''content'', JArr [])])],
                 named ''response.content_part.added'' [(''response_id'', JStr (responseID s)), (''item_id'', JStr msg), (''output_index'', jint index),
                   (''content_index'', jint 0), (''part'', JObj [(''type'', JStr ''output_text''), (''text'', JStr ''''), (''annotations'', JArr [])])]],
                s\<lparr>responseTextStarted := True, responseTextIndex := index, responseNextOutput := responseNextOutput s + 1,
                  responseMessageID := msg, draws := draws s + 1\<rparr>)))"

definition ensureResponseReasoning :: "Draws \<Rightarrow> streamState \<Rightarrow> chunk list \<times> streamState" where
  "ensureResponseReasoning d s =
     (if responseReasoningStart s then ([], s)
      else (let index = responseNextOutput s; rs = newID d ''rs'' (draws s)
            in ([named ''response.output_item.added'' [(''response_id'', JStr (responseID s)), (''output_index'', jint index),
                   (''item'', JObj [(''id'', JStr rs), (''type'', JStr ''reasoning''), (''status'', JStr ''in_progress''), (''summary'', JArr [])])],
                 named ''response.reasoning_summary_part.added'' [(''response_id'', JStr (responseID s)), (''item_id'', JStr rs), (''output_index'', jint index),
                   (''summary_index'', jint 0), (''part'', JObj [(''type'', JStr ''summary_text''), (''text'', JStr '''')])]],
                s\<lparr>responseReasoningStart := True, responseReasoningIndex := index, responseNextOutput := responseNextOutput s + 1,
                  responseReasoningID := rs, draws := draws s + 1\<rparr>)))"

definition text_delta :: "Draws \<Rightarrow> string \<Rightarrow> streamState \<Rightarrow> chunk list \<times> streamState" where
  "text_delta d text s =
     (let (ws, s) = ensureResponseText d s
      in (ws @ [named ''response.output_text.delta'' [(''response_id'', JStr (responseID s)), (''item_id'', JStr (responseMessageID s)),
                  (''output_index'', jint (responseTextIndex s)), (''content_index'', jint 0), (''delta'', JStr text)]], s))"

definition reasoning_delta :: "Draws \<Rightarrow> string \<Rightarrow> streamState \<Rightarrow> chunk list \<times> streamState" where
  "reasoning_delta d text s =
     (let (ws, s) = ensureResponseReasoning d s
      in (ws @ [named ''response.reasoning_summary_text.delta'' [(''response_id'', JStr (responseID s)), (''item_id'', JStr (responseReasoningID s)),
                  (''output_index'', jint (responseReasoningIndex s)), (''summary_index'', jint 0), (''delta'', JStr text)]], s))"

definition tool_delta :: "Event \<Rightarrow> nat \<Rightarrow> bool \<Rightarrow> streamState \<Rightarrow> chunk list \<times> streamState" where
  "tool_delta event a fresh s =
     (let t = s_tools s ! a;
          (ws, s) = (if fresh \<or> outputIndex t < 0
             then (let index = responseNextOutput s
                   in ([named ''response.output_item.added'' [(''response_id'', JStr (responseID s)), (''output_index'', jint index),
                          (''item'', JObj [(''id'', JStr (st_itemID t)), (''type'', JStr ''function_call''), (''call_id'', JStr (st_id t)),
                             (''name'', JStr (st_name t)), (''arguments'', JStr ''''), (''status'', JStr ''in_progress'')])]],
                       s\<lparr>responseNextOutput := index + 1, s_tools := (s_tools s)[a := t\<lparr>outputIndex := index\<rparr>]\<rparr>))
             else ([], s));
          t = s_tools s ! a
      in (ws @ (if Arguments event \<noteq> ''''
                then [named ''response.function_call_arguments.delta'' [(''response_id'', JStr (responseID s)), (''item_id'', JStr (st_itemID t)),
                        (''output_index'', jint (outputIndex t)), (''delta'', JStr (Arguments event))]] else []), s))"

definition responsesEvent :: "Draws \<Rightarrow> Event \<Rightarrow> (nat \<times> bool) option \<Rightarrow> streamState \<Rightarrow> chunk list \<times> streamState" where
  "responsesEvent d event tool s =
     (case ev_Kind event of
        EventTextDelta \<Rightarrow> text_delta d (ev_Text event) s
      | EventReasoningDelta \<Rightarrow> reasoning_delta d (ev_Text event) s
      | EventToolCall \<Rightarrow> (case tool of None \<Rightarrow> ([], s) | Some (a, fresh) \<Rightarrow> tool_delta event a fresh s)
      | EventImage \<Rightarrow> text_delta d (image_markdown (ev_URL event)) s
      | EventVideo \<Rightarrow> text_delta d (video_markdown (ev_URL event)) s
      | _ \<Rightarrow> ([], s))"

section \<open>Messages\<close>

definition closeBlock :: "streamState \<Rightarrow> chunk list \<times> streamState" where
  "closeBlock s =
     (if \<not> blockOpen s then ([], s)
      else ([named ''content_block_stop'' [(''index'', jint (blockIndex s))]],
            s\<lparr>blockOpen := False, blockToolID := '''', blockIndex := blockIndex s + 1\<rparr>))"

definition open_block :: "EventKind \<Rightarrow> string \<Rightarrow> (string \<times> json) list \<Rightarrow> streamState \<Rightarrow> chunk list \<times> streamState" where
  "open_block kind toolID block s =
     (let (ws, s) = closeBlock s
      in (ws @ [named ''content_block_start'' [(''index'', jint (blockIndex s)), (''content_block'', JObj block)]],
          s\<lparr>blockOpen := True, blockKind := kind, blockToolID := toolID\<rparr>))"

definition block_delta :: "(string \<times> json) list \<Rightarrow> streamState \<Rightarrow> chunk list" where
  "block_delta delta s = [named ''content_block_delta'' [(''index'', jint (blockIndex s)), (''delta'', JObj delta)]]"

definition messages_tool :: "Event \<Rightarrow> nat \<Rightarrow> streamState \<Rightarrow> chunk list \<times> streamState" where
  "messages_tool event a s =
     (let t = s_tools s ! a;
          (ws, s) = (if \<not> blockOpen s \<or> blockKind s \<noteq> EventToolCall \<or> blockToolID s \<noteq> st_id t
                     then open_block EventToolCall (st_id t)
                            [(''type'', JStr ''tool_use''), (''id'', JStr (st_id t)), (''name'', JStr (st_name t)), (''input'', JObj [])] s
                     else ([], s))
      in (ws @ (if Arguments event \<noteq> ''''
                then block_delta [(''type'', JStr ''input_json_delta''), (''partial_json'', JStr (Arguments event))] s else []), s))"

definition messages_text :: "Event \<Rightarrow> streamState \<Rightarrow> chunk list \<times> streamState" where
  "messages_text event s =
     (let kind = (if ev_Kind event = EventImage \<or> ev_Kind event = EventVideo then EventTextDelta else ev_Kind event);
          blockType = (if kind = EventReasoningDelta then ''thinking'' else ''text'');
          (ws, s) = (if \<not> blockOpen s \<or> blockKind s \<noteq> kind
                     then (let (ws, s') = open_block kind '''' [(''type'', JStr blockType), (blockType, JStr '''')] s
                           in (ws, s'\<lparr>blockToolID := (if blockOpen s then '''' else blockToolID s)\<rparr>))
                     else ([], s));
          (deltaType, field) = (if kind = EventReasoningDelta then (''thinking_delta'', ''thinking'') else (''text_delta'', ''text''))
      in (ws @ block_delta [(''type'', JStr deltaType), (field, JStr (event_text event))] s, s))"

definition messagesEvent :: "Event \<Rightarrow> (nat \<times> bool) option \<Rightarrow> streamState \<Rightarrow> chunk list \<times> streamState" where
  "messagesEvent event tool s =
     (case ev_Kind event of
        EventToolCall \<Rightarrow> (case tool of None \<Rightarrow> ([], s) | Some (a, fresh) \<Rightarrow> messages_tool event a s)
      | EventTextDelta \<Rightarrow> messages_text event s
      | EventReasoningDelta \<Rightarrow> messages_text event s
      | EventImage \<Rightarrow> messages_text event s
      | EventVideo \<Rightarrow> messages_text event s
      | _ \<Rightarrow> ([], s))"

section \<open>Events\<close>

definition stream_event :: "Draws \<Rightarrow> Event \<Rightarrow> streamState \<Rightarrow> chunk list \<times> streamState" where
  "stream_event d event s =
     (if ev_Kind event = EventUsage then ([], s\<lparr>s_usage := ev_Usage event, usageSeen := True\<rparr>)
      else (let (tool, s) = stream_record d event s
            in case s_operation s of
                 OperationChat \<Rightarrow> chatEvent d event tool s
               | OperationResponses \<Rightarrow> responsesEvent d event tool s
               | OperationMessages \<Rightarrow> messagesEvent event tool s
               | _ \<Rightarrow> ([], s)))"

section \<open>The end of a stream\<close>

text \<open>\<open>output[index] = item\<close>.\<close>

definition put_output :: "int \<Rightarrow> json \<Rightarrow> json list \<Rightarrow> json list option" where
  "put_output i item out = (if 0 \<le> i \<and> i < int (length out) then Some (out[nat i := item]) else None)"

definition reasoning_item :: "streamState \<Rightarrow> json" where
  "reasoning_item s = JObj [(''id'', JStr (responseReasoningID s)), (''type'', JStr ''reasoning''), (''status'', JStr ''completed''),
     (''summary'', JArr [JObj [(''type'', JStr ''summary_text''), (''text'', JStr (s_reasoning s))]])]"

definition finish_reasoning :: "streamState \<Rightarrow> json list \<Rightarrow> (chunk list \<times> json list) option" where
  "finish_reasoning s out =
     (if responseReasoningStart s
      then (let place = [(''response_id'', JStr (responseID s)), (''item_id'', JStr (responseReasoningID s)),
                  (''output_index'', jint (responseReasoningIndex s)), (''summary_index'', jint 0)]
            in map_option (\<lambda>out.
                 ([named ''response.reasoning_summary_text.done'' (place @ [(''text'', JStr (s_reasoning s))]),
                   named ''response.reasoning_summary_part.done''
                     (place @ [(''part'', JObj [(''type'', JStr ''summary_text''), (''text'', JStr (s_reasoning s))])]),
                   named ''response.output_item.done'' [(''response_id'', JStr (responseID s)),
                     (''output_index'', jint (responseReasoningIndex s)), (''item'', reasoning_item s)]], out))
                 (put_output (responseReasoningIndex s) (reasoning_item s) out))
      else Some ([], out))"

definition text_part :: "streamState \<Rightarrow> json" where
  "text_part s = JObj [(''type'', JStr ''output_text''), (''text'', JStr (s_text s)), (''annotations'', JArr [])]"

definition message_item :: "streamState \<Rightarrow> json" where
  "message_item s = JObj [(''id'', JStr (responseMessageID s)), (''type'', JStr ''message''), (''role'', JStr ''assistant''),
     (''status'', JStr ''completed''), (''content'', JArr [text_part s])]"

definition finish_text :: "streamState \<Rightarrow> json list \<Rightarrow> (chunk list \<times> json list) option" where
  "finish_text s out =
     (if responseTextStarted s
      then (let place = [(''response_id'', JStr (responseID s)), (''item_id'', JStr (responseMessageID s)),
                  (''output_index'', jint (responseTextIndex s)), (''content_index'', jint 0)]
            in map_option (\<lambda>out.
                 ([named ''response.output_text.done'' (place @ [(''text'', JStr (s_text s))]),
                   named ''response.content_part.done'' (place @ [(''part'', text_part s)]),
                   named ''response.output_item.done'' [(''response_id'', JStr (responseID s)),
                     (''output_index'', jint (responseTextIndex s)), (''item'', message_item s)]], out))
                 (put_output (responseTextIndex s) (message_item s) out))
      else Some ([], out))"

definition tool_item :: "streamToolCall \<Rightarrow> json" where
  "tool_item t = JObj [(''id'', JStr (st_itemID t)), (''type'', JStr ''function_call''), (''call_id'', JStr (st_id t)),
     (''name'', JStr (st_name t)), (''arguments'', JStr (defaultArguments (st_arguments t))), (''status'', JStr ''completed'')]"

fun finish_tools :: "string \<Rightarrow> streamToolCall list \<Rightarrow> json list \<Rightarrow> (chunk list \<times> json list) option" where
  "finish_tools rid [] out = Some ([], out)"
| "finish_tools rid (t # ts) out =
     (if outputIndex t < 0 then finish_tools rid ts out
      else (case put_output (outputIndex t) (tool_item t) out of
              None \<Rightarrow> None
            | Some out \<Rightarrow>
                map_option (\<lambda>(ws, out).
                  ([named ''response.function_call_arguments.done'' [(''response_id'', JStr rid), (''item_id'', JStr (st_itemID t)),
                      (''output_index'', jint (outputIndex t)), (''arguments'', JStr (defaultArguments (st_arguments t)))],
                    named ''response.output_item.done'' [(''response_id'', JStr rid), (''output_index'', jint (outputIndex t)),
                      (''item'', tool_item t)]] @ ws, out))
                  (finish_tools rid ts out)))"

text \<open>The output is made with \<open>responseNextOutput\<close> empty slots; a negative length would panic.\<close>

definition finishResponses :: "streamState \<Rightarrow> (chunk list \<times> json list) option" where
  "finishResponses s =
     (if responseNextOutput s < 0 then None
      else (case finish_reasoning s (replicate (nat (responseNextOutput s)) JNull) of
              None \<Rightarrow> None
            | Some (w1, out) \<Rightarrow>
                (case finish_text s out of
                   None \<Rightarrow> None
                 | Some (w2, out) \<Rightarrow>
                     (case finish_tools (responseID s) (s_tools s) out of
                        None \<Rightarrow> None
                      | Some (w3, out) \<Rightarrow>
                          Some (w1 @ w2 @ w3 @
                            [named ''response.completed'' [(''response'', JObj [(''id'', JStr (responseID s)), (''object'', JStr ''response''),
                               (''status'', JStr ''completed''), (''model'', JStr (s_model s)), (''output'', JArr out),
                               (''usage'', responsesUsage (s_usage s))])]], out)))))"

definition stream_finish :: "Draws \<Rightarrow> streamState \<Rightarrow> (chunk list \<times> streamState) option" where
  "stream_finish d s =
     (case s_operation s of
        OperationChat \<Rightarrow>
          (let (ws, s) = chat_chunk d [] (JStr (if s_tools s \<noteq> [] then ''tool_calls'' else ''stop'')) [(''usage'', chatUsage (s_usage s))] s
           in Some (ws @ [done_marker], s))
      | OperationResponses \<Rightarrow> map_option (\<lambda>(ws, out). (ws @ [done_marker], s)) (finishResponses s)
      | OperationMessages \<Rightarrow>
          (let (ws, s) = closeBlock s
           in Some (ws @
                [named ''message_delta'' [(''delta'', JObj [(''stop_reason'', JStr (if s_tools s \<noteq> [] then ''tool_use'' else ''end_turn'')),
                   (''stop_sequence'', JNull)]), (''usage'', JObj [(''output_tokens'', jint (OutputTokens (s_usage s)))])],
                 named ''message_stop'' []], s))
      | _ \<Rightarrow> Some ([], s))"

definition stream_error :: "Operation \<Rightarrow> string \<Rightarrow> chunk list" where
  "stream_error operation message =
     (let messages = (operation = OperationMessages);
          value = [(''message'', JStr message), (''type'', JStr (if messages then ''api_error'' else ''server_error''))] @
                  (if messages then [] else [(''code'', JStr ''upstream_stream_error'')])
      in named ''error'' [(''error'', JObj value)] # (if messages then [] else [done_marker]))"

end
