(* ===== verification/Stream_Properties.thy ===== *)
theory Stream_Properties
  imports Gateway_Stream Upstream_Json "HOL-Library.Multiset"
begin

text \<open>
  What a client of a stream sees: in the Messages protocol the blocks are well bracketed and numbered, in the Responses
  protocol every announced output is completed at its index, and in all three the text deltas add up to the answer.
\<close>

section \<open>Runs\<close>

text \<open>The chunks of a list of events, and the state after them.\<close>

fun run_events :: "Draws \<Rightarrow> Event list \<Rightarrow> streamState \<Rightarrow> chunk list \<times> streamState" where
  "run_events d [] s = ([], s)"
| "run_events d (e # es) s = (let (w1, s) = stream_event d e s; (w2, s) = run_events d es s in (w1 @ w2, s))"

text \<open>Tool calls are found at positions that exist.\<close>

definition tools_wf :: "streamState \<Rightarrow> bool" where
  "tools_wf s \<longleftrightarrow> (\<forall>k a. toolByKey s k = Some a \<longrightarrow> a < length (s_tools s))"

lemma record_tool_frame:
  "record_tool d e s = (r, s') \<Longrightarrow> s' = s\<lparr>s_tools := s_tools s', toolByKey := toolByKey s', draws := draws s'\<rparr>"
  by (auto simp: record_tool_def Let_def)

lemma map_update_same: "(map f xs)[a := f (xs ! a)] = map f xs"
  by (metis list_update_beyond list_update_id length_map not_le nth_map)

lemma record_tool_tools:
  assumes "record_tool d e s = ((a, fresh), s')" "tools_wf s"
  shows "tools_wf s'" "a < length (s_tools s')"
    "map outputIndex (s_tools s') = map outputIndex (s_tools s) @ (if fresh then [- 1] else [])"
    "fresh \<Longrightarrow> a = length (s_tools s)"
    "s_tools s' \<noteq> []"
proof -
  show "tools_wf s'" "a < length (s_tools s')"
    using assms by (auto simp: record_tool_def Let_def tools_wf_def less_Suc_eq split: if_splits)
  then show "s_tools s' \<noteq> []" by auto
  show "map outputIndex (s_tools s') = map outputIndex (s_tools s) @ (if fresh then [- 1] else [])"
    using assms by (auto simp: record_tool_def Let_def tools_wf_def map_update map_update_same nth_append list_update_append split: if_splits)
  show "fresh \<Longrightarrow> a = length (s_tools s)"
    using assms by (auto simp: record_tool_def Let_def split: if_splits)
qed

lemma record_tool_operation [simp]: "s_operation (snd (record_tool d e s)) = s_operation s"
  by (simp add: record_tool_def Let_def)

lemma stream_record_operation [simp]: "s_operation (snd (stream_record d e s)) = s_operation s"
  by (simp add: stream_record_def case_prod_unfold Let_def split: EventKind.split)

lemma chatEvent_operation [simp]: "s_operation (snd (chatEvent d e tool s)) = s_operation s"
  by (simp add: chatEvent_def chat_chunk_def split: option.split)

lemma responsesEvent_operation [simp]: "s_operation (snd (responsesEvent d e tool s)) = s_operation s"
  by (simp add: responsesEvent_def text_delta_def ensureResponseText_def reasoning_delta_def ensureResponseReasoning_def tool_delta_def
      case_prod_unfold Let_def split: EventKind.split option.split)

lemma messagesEvent_operation [simp]: "s_operation (snd (messagesEvent e tool s)) = s_operation s"
  by (simp add: messagesEvent_def messages_tool_def messages_text_def open_block_def closeBlock_def case_prod_unfold Let_def
      split: EventKind.split option.split)

lemma stream_event_operation [simp]: "s_operation (snd (stream_event d e s)) = s_operation s"
  by (simp add: stream_event_def case_prod_unfold Let_def split: Operation.split)

lemma run_events_operation [simp]: "s_operation (snd (run_events d es s)) = s_operation s"
  by (induction es arbitrary: s) (simp_all add: case_prod_unfold Let_def)

section \<open>Responses\<close>

text \<open>The output indices in use.\<close>

definition slots :: "streamState \<Rightarrow> int list" where
  "slots s = (if responseTextStarted s then [responseTextIndex s] else []) @
     (if responseReasoningStart s then [responseReasoningIndex s] else []) @ map outputIndex (s_tools s)"

definition slot_numbers :: "int \<Rightarrow> int multiset" where
  "slot_numbers n = mset (map int [0..<nat n])"

definition outputs_inv :: "streamState \<Rightarrow> bool" where
  "outputs_inv s \<longleftrightarrow> tools_wf s \<and> 0 \<le> responseNextOutput s \<and> (\<forall>t \<in> set (s_tools s). 0 \<le> outputIndex t)
     \<and> mset (slots s) = slot_numbers (responseNextOutput s)"

text \<open>The index an item is announced at, and the index and the item it is completed at.\<close>

fun added_at :: "chunk \<Rightarrow> json list" where
  "added_at (WEvent n (JObj m)) = (if n = ''response.output_item.added'' then [jget m ''output_index''] else [])"
| "added_at _ = []"

fun done_at :: "chunk \<Rightarrow> (json \<times> json) list" where
  "done_at (WEvent n (JObj m)) = (if n = ''response.output_item.done'' then [(jget m ''output_index'', jget m ''item'')] else [])"
| "done_at _ = []"

abbreviation added :: "chunk list \<Rightarrow> json list" where
  "added ws \<equiv> concat (map added_at ws)"

abbreviation numbered :: "int \<Rightarrow> int \<Rightarrow> json list" where
  "numbered a b \<equiv> map (\<lambda>n. jint (int n)) [nat a..<nat b]"

lemma nat_upt_step: "0 \<le> (a::int) \<Longrightarrow> [nat a..<nat (a + 1)] = [nat a]"
  by (simp add: nat_add_distrib)

lemma slot_numbers_step: "0 \<le> a \<Longrightarrow> slot_numbers (a + 1) = add_mset a (slot_numbers a)"
  by (simp add: slot_numbers_def nat_add_distrib)

lemma added_named [simp]:
  "added_at (named n m) = (if n = ''response.output_item.added'' then [jget ((''type'', JStr n) # m) ''output_index''] else [])"
  by (simp add: named_def)

lemma text_delta_inv:
  assumes "text_delta d t s = (ws, s')" "outputs_inv s"
  shows "outputs_inv s' \<and> added ws = numbered (responseNextOutput s) (responseNextOutput s')
    \<and> responseNextOutput s \<le> responseNextOutput s'"
  using assms by (auto simp: text_delta_def ensureResponseText_def Let_def outputs_inv_def slots_def tools_wf_def jget_def
      nat_upt_step slot_numbers_step split: if_splits)

lemma reasoning_delta_inv:
  assumes "reasoning_delta d t s = (ws, s')" "outputs_inv s"
  shows "outputs_inv s' \<and> added ws = numbered (responseNextOutput s) (responseNextOutput s')
    \<and> responseNextOutput s \<le> responseNextOutput s'"
  using assms by (auto simp: reasoning_delta_def ensureResponseReasoning_def Let_def outputs_inv_def slots_def tools_wf_def jget_def
      add_mset_commute nat_upt_step slot_numbers_step split: if_splits)

lemma tool_delta_inv:
  assumes "record_tool d e s = ((a, fresh), s1)" "tool_delta e a fresh s1 = (ws, s')" "outputs_inv s"
  shows "outputs_inv s' \<and> added ws = numbered (responseNextOutput s) (responseNextOutput s')
    \<and> responseNextOutput s \<le> responseNextOutput s'"
proof -
  have wf: "tools_wf s" and next0: "0 \<le> responseNextOutput s" and all: "\<forall>t \<in> set (s_tools s). 0 \<le> outputIndex t"
    and m: "mset (slots s) = slot_numbers (responseNextOutput s)" using assms(3) by (simp_all add: outputs_inv_def)
  note r = record_tool_tools [OF assms(1) wf] and fr = record_tool_frame [OF assms(1)]
  have same: "responseNextOutput s1 = responseNextOutput s" "responseTextStarted s1 = responseTextStarted s"
    "responseTextIndex s1 = responseTextIndex s" "responseReasoningStart s1 = responseReasoningStart s"
    "responseReasoningIndex s1 = responseReasoningIndex s" by (subst fr; simp)+
  show ?thesis
  proof (cases fresh)
    case True
    have tools: "s_tools s' = (s_tools s1)[a := (s_tools s1 ! a)\<lparr>outputIndex := responseNextOutput s\<rparr>]"
      "toolByKey s' = toolByKey s1" "responseNextOutput s' = responseNextOutput s + 1"
      "responseTextStarted s' = responseTextStarted s" "responseTextIndex s' = responseTextIndex s"
      "responseReasoningStart s' = responseReasoningStart s" "responseReasoningIndex s' = responseReasoningIndex s"
      "added ws = [jint (responseNextOutput s)]"
      using assms(2) True r(2) same by (auto simp: tool_delta_def Let_def jget_def)
    have outs: "map outputIndex (s_tools s') = map outputIndex (s_tools s) @ [responseNextOutput s]"
      using r(3) r(4) True by (simp add: tools(1) map_update list_update_append)
    have "\<forall>i \<in> set (map outputIndex (s_tools s')). 0 \<le> i" unfolding outs using all next0 by auto
    then have "\<forall>t \<in> set (s_tools s'). 0 \<le> outputIndex t" by simp
    moreover have "tools_wf s'" using r(1) by (simp add: tools_wf_def tools)
    moreover have "mset (slots s') = slot_numbers (responseNextOutput s')"
    proof -
      have "slots s' = slots s @ [responseNextOutput s]" by (simp add: slots_def tools(4-7) outs)
      with m next0 show ?thesis by (simp add: tools(3) slot_numbers_step)
    qed
    ultimately show ?thesis using next0 tools(3,8) by (simp add: outputs_inv_def nat_upt_step)
  next
    case False
    have outs: "map outputIndex (s_tools s1) = map outputIndex (s_tools s)" using r(3) False by simp
    have "\<forall>i \<in> set (map outputIndex (s_tools s1)). 0 \<le> i" unfolding outs using all by auto
    then have all1: "\<forall>t \<in> set (s_tools s1). 0 \<le> outputIndex t" by simp
    with r(2) have "\<not> outputIndex (s_tools s1 ! a) < 0" by (simp add: not_less)
    then have "s' = s1" "added ws = []" using assms(2) False by (auto simp: tool_delta_def Let_def)
    moreover have "slots s1 = slots s" by (simp add: slots_def same outs)
    ultimately show ?thesis using all1 r(1) m next0 same by (simp add: outputs_inv_def)
  qed
qed

lemma slots_upd:
  "slots (s\<lparr>s_text := t\<rparr>) = slots s" "slots (s\<lparr>s_reasoning := t\<rparr>) = slots s" "slots (s\<lparr>s_usage := u, usageSeen := b\<rparr>) = slots s"
  by (simp_all add: slots_def)

lemma stream_event_outputs:
  assumes "stream_event d e s = (ws, s')" "outputs_inv s" "s_operation s = OperationResponses"
  shows "outputs_inv s' \<and> added ws = numbered (responseNextOutput s) (responseNextOutput s')
    \<and> responseNextOutput s \<le> responseNextOutput s'"
proof -
  have upd: "outputs_inv (s\<lparr>s_text := t\<rparr>)" "outputs_inv (s\<lparr>s_reasoning := t\<rparr>)" "outputs_inv (s\<lparr>s_usage := u, usageSeen := b\<rparr>)" for t u b
    using assms(2) by (simp_all add: outputs_inv_def slots_upd tools_wf_def)
  show ?thesis
  proof (cases "ev_Kind e = EventToolCall")
    case True
    obtain a fresh s1 where r: "record_tool d e s = ((a, fresh), s1)" by (metis surj_pair)
    have "s_operation s1 = OperationResponses" using record_tool_operation [of d e s] r assms(3) by simp
    then have "tool_delta e a fresh s1 = (ws, s')"
      using assms(1) True r by (simp add: stream_event_def stream_record_def responsesEvent_def)
    with r show ?thesis using assms(2) by (rule tool_delta_inv)
  next
    case False
    with assms(1,3) text_delta_inv [OF _ upd(1), of d _ _ ws s'] reasoning_delta_inv [OF _ upd(2), of d _ _ ws s'] upd(3) assms(2)
    show ?thesis
      by (cases "ev_Kind e") (auto simp: stream_event_def stream_record_def responsesEvent_def outputs_inv_def)
  qed
qed

lemma run_events_outputs:
  "run_events d es s = (ws, s') \<Longrightarrow> outputs_inv s \<Longrightarrow> s_operation s = OperationResponses \<Longrightarrow>
   outputs_inv s' \<and> added ws = numbered (responseNextOutput s) (responseNextOutput s') \<and> responseNextOutput s \<le> responseNextOutput s'"
proof (induction es arbitrary: s ws)
  case Nil
  then show ?case by simp
next
  case (Cons e es)
  obtain w1 s1 where st: "stream_event d e s = (w1, s1)" by (rule prod.exhaust)
  obtain w2 where ru: "run_events d es s1 = (w2, s')" and ws: "ws = w1 @ w2"
    using Cons.prems(1) st by (auto simp: case_prod_unfold prod_eq_iff Let_def)
  note step = stream_event_outputs [OF st Cons.prems(2,3)]
  have "s_operation s1 = OperationResponses" using stream_event_operation [of d e s] st Cons.prems(3) by simp
  with Cons.IH [OF ru] step have rest: "outputs_inv s' \<and> added w2 = numbered (responseNextOutput s1) (responseNextOutput s')
      \<and> responseNextOutput s1 \<le> responseNextOutput s'" by blast
  have "[nat (responseNextOutput s)..<nat (responseNextOutput s')] =
      [nat (responseNextOutput s)..<nat (responseNextOutput s1)] @ [nat (responseNextOutput s1)..<nat (responseNextOutput s')]"
    using step rest by (metis le_iff_add nat_mono upt_add_eq_append)
  with step rest ws show ?case by auto
qed

text \<open>Completing the outputs is storing the items one after the other.\<close>

fun puts :: "(int \<times> json) list \<Rightarrow> json list \<Rightarrow> json list option" where
  "puts [] out = Some out"
| "puts ((i, x) # ixs) out = Option.bind (put_output i x out) (puts ixs)"

definition completed_items :: "streamState \<Rightarrow> (int \<times> json) list" where
  "completed_items s = (if responseReasoningStart s then [(responseReasoningIndex s, reasoning_item s)] else []) @
     (if responseTextStarted s then [(responseTextIndex s, message_item s)] else []) @
     map (\<lambda>t. (outputIndex t, tool_item t)) (s_tools s)"

lemma puts_append: "puts (xs @ ys) out = Option.bind (puts xs out) (puts ys)"
  by (induction xs out rule: puts.induct) (auto split: Option.bind_splits)

lemma puts_stores:
  "\<forall>(i, x) \<in> set ixs. 0 \<le> i \<and> i < int (length out) \<Longrightarrow> distinct (map fst ixs) \<Longrightarrow>
   \<exists>out'. puts ixs out = Some out' \<and> length out' = length out \<and> (\<forall>(i, x) \<in> set ixs. out' ! nat i = x)
     \<and> (\<forall>j. int j \<notin> fst ` set ixs \<longrightarrow> out' ! j = out ! j)"
proof (induction ixs arbitrary: out)
  case Nil
  then show ?case by simp
next
  case (Cons ix ixs)
  obtain i x where ix: "ix = (i, x)" by (rule prod.exhaust)
  with Cons.prems have p: "put_output i x out = Some (out[nat i := x])" "0 \<le> i" "nat i < length out" and new: "i \<notin> fst ` set ixs"
    by (auto simp: put_output_def)
  obtain out' where o: "puts ixs (out[nat i := x]) = Some out'" "length out' = length out" "\<forall>(i, x) \<in> set ixs. out' ! nat i = x"
    "\<forall>j. int j \<notin> fst ` set ixs \<longrightarrow> out' ! j = out[nat i := x] ! j"
    using Cons.IH [of "out[nat i := x]"] Cons.prems by (auto simp: ix)
  have "out' ! nat i = x" using o(4) new p by simp
  with o p ix show ?case by (auto simp: nth_list_update)
qed

lemma finish_tools_puts:
  "\<forall>t \<in> set ts. 0 \<le> outputIndex t \<Longrightarrow> puts (map (\<lambda>t. (outputIndex t, tool_item t)) ts) out = Some out' \<Longrightarrow>
   \<exists>ws. finish_tools rid ts out = Some (ws, out')
     \<and> concat (map done_at ws) = map (\<lambda>t. (jint (outputIndex t), tool_item t)) ts"
proof (induction ts arbitrary: out)
  case Nil
  then show ?case by simp
next
  case (Cons t ts)
  obtain out1 where p: "put_output (outputIndex t) (tool_item t) out = Some out1"
    and rest: "puts (map (\<lambda>t. (outputIndex t, tool_item t)) ts) out1 = Some out'"
    using Cons.prems(2) by (auto split: Option.bind_splits)
  obtain ws where "finish_tools rid ts out1 = Some (ws, out')"
    "concat (map done_at ws) = map (\<lambda>t. (jint (outputIndex t), tool_item t)) ts"
    using Cons.IH [OF _ rest] Cons.prems(1) by auto
  with p Cons.prems(1) show ?case by (simp add: named_def jget_def)
qed

lemma finishResponses_puts:
  assumes "outputs_inv s" "puts (completed_items s) (replicate (nat (responseNextOutput s)) JNull) = Some out"
  shows "\<exists>fin. finishResponses s = Some (fin, out)
    \<and> concat (map done_at fin) = map (\<lambda>(i, x). (jint i, x)) (completed_items s)"
proof -
  let ?r = "if responseReasoningStart s then [(responseReasoningIndex s, reasoning_item s)] else []"
  let ?t = "if responseTextStarted s then [(responseTextIndex s, message_item s)] else []"
  let ?c = "map (\<lambda>t. (outputIndex t, tool_item t)) (s_tools s)"
  have n: "\<not> responseNextOutput s < 0" "\<forall>t \<in> set (s_tools s). 0 \<le> outputIndex t" using assms(1) by (auto simp: outputs_inv_def)
  obtain o1 o2 where o1: "puts ?r (replicate (nat (responseNextOutput s)) JNull) = Some o1" and o2: "puts ?t o1 = Some o2"
    and o3: "puts ?c o2 = Some out"
    using assms(2) by (auto simp: completed_items_def puts_append bind_eq_Some_conv)
  obtain w1 where w1: "finish_reasoning s (replicate (nat (responseNextOutput s)) JNull) = Some (w1, o1)"
    "concat (map done_at w1) = map (\<lambda>(i, x). (jint i, x)) ?r"
    using o1 by (auto simp: finish_reasoning_def Let_def named_def jget_def bind_eq_Some_conv split: if_splits)
  obtain w2 where w2: "finish_text s o1 = Some (w2, o2)" "concat (map done_at w2) = map (\<lambda>(i, x). (jint i, x)) ?t"
    using o2 by (auto simp: finish_text_def Let_def named_def jget_def bind_eq_Some_conv split: if_splits)
  obtain w3 where w3: "finish_tools (responseID s) (s_tools s) o2 = Some (w3, out)"
    "concat (map done_at w3) = map (\<lambda>t. (jint (outputIndex t), tool_item t)) (s_tools s)"
    using finish_tools_puts [OF n(2) o3] by auto
  show ?thesis
    using n(1) w1 w2 w3 by (simp add: finishResponses_def completed_items_def named_def comp_def)
qed

lemma completed_slots: "mset (map fst (completed_items s)) = mset (slots s)"
  by (simp add: completed_items_def slots_def comp_def)

lemma slot_numbers_set: "set_mset (slot_numbers n) = {0..<n}"
  by (cases "0 \<le> n") (simp_all add: slot_numbers_def image_int_atLeastLessThan)

lemma slot_numbers_distinct: "mset xs = slot_numbers n \<Longrightarrow> distinct xs"
  by (metis distinct_map distinct_upt inj_on_of_nat mset_eq_imp_distinct_iff slot_numbers_def)


section \<open>Messages\<close>

text \<open>
  A client of the Messages protocol reads blocks: it knows the number of the next block and whether it is open. A start opens the next
  block, a delta belongs to the open one, a stop closes it, and the message ends with no block open.
\<close>

fun read_block :: "chunk \<Rightarrow> int \<times> bool \<Rightarrow> (int \<times> bool) option" where
  "read_block (WEvent name (JObj m)) (n, opened) =
     (if name = ''content_block_start'' then if \<not> opened \<and> jget m ''index'' = jint n then Some (n, True) else None
      else if name = ''content_block_delta'' then if opened \<and> jget m ''index'' = jint n then Some (n, True) else None
      else if name = ''content_block_stop'' then if opened \<and> jget m ''index'' = jint n then Some (n + 1, False) else None
      else if name = ''message_delta'' \<or> name = ''message_stop'' then if opened then None else Some (n, opened)
      else Some (n, opened))"
| "read_block w st = Some st"

fun read_blocks :: "chunk list \<Rightarrow> int \<times> bool \<Rightarrow> (int \<times> bool) option" where
  "read_blocks [] st = Some st"
| "read_blocks (w # ws) st = Option.bind (read_block w st) (read_blocks ws)"

lemma read_blocks_append: "read_blocks (v @ w) st = Option.bind (read_blocks v st) (read_blocks w)"
  by (induction v arbitrary: st) (auto split: Option.bind_splits)

lemma read_block_named [simp]:
  "read_block (named name m) (n, opened) =
     (let m = (''type'', JStr name) # m in
      if name = ''content_block_start'' then if \<not> opened \<and> jget m ''index'' = jint n then Some (n, True) else None
      else if name = ''content_block_delta'' then if opened \<and> jget m ''index'' = jint n then Some (n, True) else None
      else if name = ''content_block_stop'' then if opened \<and> jget m ''index'' = jint n then Some (n + 1, False) else None
      else if name = ''message_delta'' \<or> name = ''message_stop'' then if opened then None else Some (n, opened)
      else Some (n, opened))"
  by (simp add: named_def)

abbreviation block_state :: "streamState \<Rightarrow> int \<times> bool" where
  "block_state s \<equiv> (blockIndex s, blockOpen s)"

lemma closeBlock_read: "read_blocks (fst (closeBlock s)) (block_state s) = Some (block_state (snd (closeBlock s)))"
  "\<not> blockOpen (snd (closeBlock s))"
  by (simp_all add: closeBlock_def jget_def)

lemma open_block_read:
  "read_blocks (fst (open_block k i b s)) (block_state s) = Some (block_state (snd (open_block k i b s)))"
  "blockOpen (snd (open_block k i b s))"
  by (simp_all add: open_block_def closeBlock_def jget_def)

lemma block_delta_read: "blockIndex s = n \<Longrightarrow> read_blocks (block_delta m s) (n, True) = Some (n, True)"
  by (simp add: block_delta_def jget_def)

lemma messages_tool_read:
  "read_blocks (fst (messages_tool e a s)) (block_state s) = Some (block_state (snd (messages_tool e a s)))"
  by (auto simp: messages_tool_def Let_def case_prod_unfold read_blocks_append open_block_read block_delta_read)

lemma messages_text_read:
  "read_blocks (fst (messages_text e s)) (block_state s) = Some (block_state (snd (messages_text e s)))"
  by (auto simp: messages_text_def Let_def case_prod_unfold read_blocks_append open_block_read block_delta_read)

lemma stream_record_blocks [simp]: "blockIndex (snd (stream_record d e s)) = blockIndex s" "blockOpen (snd (stream_record d e s)) = blockOpen s"
  by (simp_all add: stream_record_def record_tool_def case_prod_unfold Let_def split: EventKind.split)

lemma stream_event_read:
  assumes "s_operation s = OperationMessages"
  shows "read_blocks (fst (stream_event d e s)) (block_state s) = Some (block_state (snd (stream_event d e s)))"
proof -
  let ?s = "snd (stream_record d e s)"
  have "read_blocks (fst (messagesEvent e t ?s)) (block_state s) = Some (block_state (snd (messagesEvent e t ?s)))" for t
    using messages_tool_read [of e _ ?s] messages_text_read [of e ?s]
    by (auto simp: messagesEvent_def split: EventKind.split option.split)
  then show ?thesis
    using assms by (simp add: stream_event_def case_prod_unfold Let_def)
qed

lemma run_events_read:
  "s_operation s = OperationMessages \<Longrightarrow>
   read_blocks (fst (run_events d es s)) (block_state s) = Some (block_state (snd (run_events d es s)))"
  by (induction es arbitrary: s) (simp_all add: case_prod_unfold Let_def read_blocks_append stream_event_read)

text \<open>C6: a Messages stream is well formed. Whatever events arrive, the blocks are numbered 0, 1, 2, and so on,
  at most one is open at a time, every delta belongs to the open one, every block is closed before the next one starts
  and before the message ends, and the last chunk is the end of the message.\<close>

theorem messages_stream_bracketed:
  "let (w0, s0) = stream_start d (new_stream d OperationMessages m); (ws, s) = run_events d es s0
   in \<exists>fin s'. stream_finish d s = Some (fin, s') \<and> read_blocks (w0 @ ws @ fin) (0, False) = Some (blockIndex s', False)
      \<and> last fin = WEvent ''message_stop'' (JObj [(''type'', JStr ''message_stop'')])"
proof -
  let ?init = "new_stream d OperationMessages m"
  let ?s = "snd (run_events d es ?init)"
  have op: "s_operation ?init = OperationMessages" by (simp add: new_stream_def)
  then have s: "s_operation ?s = OperationMessages" by simp
  have w0: "snd (stream_start d ?init) = ?init" "read_blocks (fst (stream_start d ?init)) (0, False) = Some (0, False)"
    using op by (simp_all add: stream_start_def)
  have run: "read_blocks (fst (run_events d es ?init)) (0, False) = Some (block_state ?s)"
    using run_events_read [OF op, of d es] by (simp add: new_stream_def)
  obtain fin where fin: "stream_finish d ?s = Some (fin, snd (closeBlock ?s))"
    and wf: "fin = fst (closeBlock ?s) @ drop (length (fst (closeBlock ?s))) fin"
    and rest: "read_blocks (drop (length (fst (closeBlock ?s))) fin) (n, False) = Some (n, False)" "last fin = named ''message_stop'' []" for n
    using s by (simp add: stream_finish_def case_prod_unfold Let_def)
  have "read_blocks fin (block_state ?s) = Some (blockIndex (snd (closeBlock ?s)), False)"
    using closeBlock_read [of ?s] rest(1) by (subst wf) (simp add: read_blocks_append)
  with w0 run fin rest(2) show ?thesis
    by (simp add: Let_def case_prod_unfold read_blocks_append named_def)
qed

section \<open>Text\<close>

text \<open>The text and the reasoning a client reads from a chunk of any of the protocols.\<close>

definition chat_member :: "string \<Rightarrow> object \<Rightarrow> string" where
  "chat_member key m =
     (case jget m ''choices'' of JArr (c # cs) \<Rightarrow> as_string (jget (as_map (jget (as_map c) ''delta'')) key) | _ \<Rightarrow> '''')"

fun text_of :: "chunk \<Rightarrow> string" where
  "text_of (WEvent name (JObj m)) =
     (if name = ''response.output_text.delta'' then as_string (jget m ''delta'')
      else if name = ''content_block_delta'' then as_string (jget (as_map (jget m ''delta'')) ''text'')
      else '''')"
| "text_of (WData (JObj m)) = chat_member ''content'' m"
| "text_of _ = ''''"

fun reasoning_of :: "chunk \<Rightarrow> string" where
  "reasoning_of (WEvent name (JObj m)) =
     (if name = ''response.reasoning_summary_text.delta'' then as_string (jget m ''delta'')
      else if name = ''content_block_delta'' then as_string (jget (as_map (jget m ''delta'')) ''thinking'')
      else '''')"
| "reasoning_of (WData (JObj m)) = chat_member ''reasoning_content'' m"
| "reasoning_of _ = ''''"

definition texts :: "chunk list \<Rightarrow> string" where
  "texts ws = concat (map text_of ws)"

definition reasonings :: "chunk list \<Rightarrow> string" where
  "reasonings ws = concat (map reasoning_of ws)"

lemma texts_simps [simp]:
  "texts [] = ''''" "texts (w # ws) = text_of w @ texts ws" "texts (v @ ws) = texts v @ texts ws"
  "reasonings [] = ''''" "reasonings (w # ws) = reasoning_of w @ reasonings ws" "reasonings (v @ ws) = reasonings v @ reasonings ws"
  by (simp_all add: texts_def reasonings_def)

text \<open>What an event contributes to the answer.\<close>

definition answer_text :: "Event \<Rightarrow> string" where
  "answer_text e = (if ev_Kind e \<in> {EventTextDelta, EventImage, EventVideo} then event_text e else '''')"

definition answer_reasoning :: "Event \<Rightarrow> string" where
  "answer_reasoning e = (if ev_Kind e = EventReasoningDelta then ev_Text e else '''')"

lemma text_of_named [simp]:
  "text_of (named name m) = (let m = (''type'', JStr name) # m in
     if name = ''response.output_text.delta'' then as_string (jget m ''delta'')
     else if name = ''content_block_delta'' then as_string (jget (as_map (jget m ''delta'')) ''text'') else '''')"
  "reasoning_of (named name m) = (let m = (''type'', JStr name) # m in
     if name = ''response.reasoning_summary_text.delta'' then as_string (jget m ''delta'')
     else if name = ''content_block_delta'' then as_string (jget (as_map (jget m ''delta'')) ''thinking'') else '''')"
  by (simp_all add: named_def)

lemmas member_simps = jget_def as_map_def as_string_def

lemma chatEvent_text:
  "ev_Kind e \<noteq> EventUsage \<Longrightarrow> texts (fst (chatEvent d e tool s)) = answer_text e"
  "ev_Kind e \<noteq> EventUsage \<Longrightarrow> reasonings (fst (chatEvent d e tool s)) = answer_reasoning e"
  by (auto simp: chatEvent_def chat_delta_def chat_chunk_def chat_member_def member_simps answer_text_def answer_reasoning_def event_text_def Let_def
      split: EventKind.split option.split)

lemma text_delta_text: "texts (fst (text_delta d t s)) = t" "reasonings (fst (text_delta d t s)) = ''''"
  "texts (fst (reasoning_delta d t s)) = ''''" "reasonings (fst (reasoning_delta d t s)) = t"
  by (simp_all add: text_delta_def ensureResponseText_def reasoning_delta_def ensureResponseReasoning_def Let_def member_simps)

lemma tool_delta_text: "texts (fst (tool_delta e a fresh s)) = ''''" "reasonings (fst (tool_delta e a fresh s)) = ''''"
  by (simp_all add: tool_delta_def Let_def)

lemma responsesEvent_text:
  "texts (fst (responsesEvent d e tool s)) = answer_text e" "reasonings (fst (responsesEvent d e tool s)) = answer_reasoning e"
  by (auto simp: responsesEvent_def text_delta_text tool_delta_text answer_text_def answer_reasoning_def event_text_def
      split: EventKind.split option.split)

lemma open_block_text: "texts (fst (open_block k i b s)) = ''''" "reasonings (fst (open_block k i b s)) = ''''"
  by (simp_all add: open_block_def closeBlock_def)

lemma messages_tool_text: "texts (fst (messages_tool e a s)) = ''''" "reasonings (fst (messages_tool e a s)) = ''''"
  by (simp_all add: messages_tool_def open_block_text block_delta_def Let_def case_prod_unfold member_simps)

lemma messages_text_text:
  assumes "ev_Kind e \<in> {EventTextDelta, EventReasoningDelta, EventImage, EventVideo}"
  shows "texts (fst (messages_text e s)) = answer_text e" "reasonings (fst (messages_text e s)) = answer_reasoning e"
  using assms by (auto simp: messages_text_def open_block_text block_delta_def Let_def case_prod_unfold member_simps
      answer_text_def answer_reasoning_def event_text_def)

lemma messagesEvent_text:
  "texts (fst (messagesEvent e tool s)) = answer_text e" "reasonings (fst (messagesEvent e tool s)) = answer_reasoning e"
  by (auto simp: messagesEvent_def messages_tool_text messages_text_text split: EventKind.split option.split)
    (auto simp: answer_text_def answer_reasoning_def)

lemma stream_event_text:
  "s_operation s \<in> {OperationChat, OperationResponses, OperationMessages} \<Longrightarrow>
   texts (fst (stream_event d e s)) = answer_text e \<and> reasonings (fst (stream_event d e s)) = answer_reasoning e"
  by (cases "ev_Kind e = EventUsage")
    (auto simp: stream_event_def case_prod_unfold Let_def chatEvent_text responsesEvent_text messagesEvent_text,
      simp_all add: answer_text_def answer_reasoning_def)

text \<open>The fields of the state that only recording an event changes.\<close>

definition answer_of :: "streamState \<Rightarrow> string \<times> string \<times> Usage \<times> bool" where
  "answer_of s = (s_text s, s_reasoning s, s_usage s, usageSeen s)"

lemma chatEvent_answer: "answer_of (snd (chatEvent d e tool s)) = answer_of s"
  by (simp add: chatEvent_def chat_chunk_def answer_of_def split: option.split)

lemma responsesEvent_answer: "answer_of (snd (responsesEvent d e tool s)) = answer_of s"
  by (simp add: responsesEvent_def text_delta_def ensureResponseText_def reasoning_delta_def ensureResponseReasoning_def tool_delta_def
      case_prod_unfold Let_def answer_of_def split: EventKind.split option.split)

lemma messagesEvent_answer: "answer_of (snd (messagesEvent e tool s)) = answer_of s"
  by (simp add: messagesEvent_def messages_tool_def messages_text_def open_block_def closeBlock_def case_prod_unfold Let_def answer_of_def
      split: EventKind.split option.split)

lemma stream_record_answer:
  "ev_Kind e \<noteq> EventUsage \<Longrightarrow> answer_of (snd (stream_record d e s)) = (s_text s @ answer_text e, s_reasoning s @ answer_reasoning e, s_usage s, usageSeen s)"
  by (simp add: stream_record_def record_tool_def case_prod_unfold Let_def answer_of_def answer_text_def answer_reasoning_def event_text_def
      split: EventKind.split)

definition usage_after :: "Event \<Rightarrow> Usage \<times> bool \<Rightarrow> Usage \<times> bool" where
  "usage_after e u = (if ev_Kind e = EventUsage then (ev_Usage e, True) else u)"

lemma stream_event_answer:
  "answer_of (snd (stream_event d e s)) =
     (s_text s @ answer_text e, s_reasoning s @ answer_reasoning e, usage_after e (s_usage s, usageSeen s))"
proof (cases "ev_Kind e = EventUsage")
  case True
  then show ?thesis by (simp add: stream_event_def answer_of_def answer_text_def answer_reasoning_def usage_after_def)
next
  case False
  with stream_record_answer [OF False, of d s] show ?thesis
    by (auto simp: stream_event_def case_prod_unfold Let_def chatEvent_answer responsesEvent_answer messagesEvent_answer usage_after_def
        split: Operation.split)
qed

lemma run_events_answer:
  "answer_of (snd (run_events d es s)) =
     (s_text s @ concat (map answer_text es), s_reasoning s @ concat (map answer_reasoning es), fold usage_after es (s_usage s, usageSeen s))"
proof (induction es arbitrary: s)
  case Nil
  show ?case by (simp add: answer_of_def)
next
  case (Cons e es)
  have "answer_of (snd (stream_event d e s)) =
     (s_text s @ answer_text e, s_reasoning s @ answer_reasoning e, usage_after e (s_usage s, usageSeen s))"
    by (rule stream_event_answer)
  with Cons.IH [of "snd (stream_event d e s)"] show ?case
    by (simp add: case_prod_unfold Let_def answer_of_def [of "snd (stream_event d e s)"])
qed

lemma run_events_text:
  "s_operation s \<in> {OperationChat, OperationResponses, OperationMessages} \<Longrightarrow>
   texts (fst (run_events d es s)) = concat (map answer_text es) \<and> reasonings (fst (run_events d es s)) = concat (map answer_reasoning es)"
  by (induction es arbitrary: s) (simp_all add: case_prod_unfold Let_def stream_event_text del: insert_iff)

lemma accumulated_answer:
  assumes "\<forall>e \<in> set es. ev_Kind e \<noteq> EventImage \<and> ev_Kind e \<noteq> EventVideo"
  shows "a_text (fold accumulated_add es a) = a_text a @ concat (map answer_text es)
    \<and> a_reasoning (fold accumulated_add es a) = a_reasoning a @ concat (map answer_reasoning es)
    \<and> (a_usage (fold accumulated_add es a), a_usageSeen (fold accumulated_add es a)) = fold usage_after es (a_usage a, a_usageSeen a)"
  using assms
proof (induction es arbitrary: a)
  case Nil
  then show ?case by simp
next
  case (Cons e es)
  have t: "a_text (addTool e a) = a_text a" "a_reasoning (addTool e a) = a_reasoning a" "a_usage (addTool e a) = a_usage a"
    "a_usageSeen (addTool e a) = a_usageSeen a" by (simp_all add: addTool_def Let_def split: option.split)
  from Cons.IH [of "accumulated_add e a"] Cons.prems show ?case
    by (cases "ev_Kind e") (auto simp: accumulated_add_def answer_text_def answer_reasoning_def event_text_def usage_after_def t)
qed

text \<open>C7: streaming and collecting give the same answer. In each of the three protocols the text deltas a client reads add up to
  the text of the events in their order (the reasoning deltas likewise), the final state holds the same text, and when no event carries
  media this text, the reasoning and the reported usage are those of the response that is not streamed.\<close>

theorem stream_text_faithful:
  assumes "op \<in> {OperationChat, OperationResponses, OperationMessages}" "run_events d es (new_stream d op m) = (ws, s)"
  shows "concat (map text_of ws) = s_text s \<and> concat (map reasoning_of ws) = s_reasoning s \<and> s_text s = concat (map answer_text es)
    \<and> ((\<forall>e \<in> set es. ev_Kind e \<noteq> EventImage \<and> ev_Kind e \<noteq> EventVideo) \<longrightarrow>
        (let a = fold accumulated_add es empty_accumulated
         in a_text a = s_text s \<and> a_reasoning a = s_reasoning s \<and> a_usage a = s_usage s \<and> a_usageSeen a = usageSeen s))"
proof -
  have op: "s_operation (new_stream d op m) \<in> {OperationChat, OperationResponses, OperationMessages}"
    using assms(1) by (simp add: new_stream_def)
  have ws: "concat (map text_of ws) = concat (map answer_text es)" "concat (map reasoning_of ws) = concat (map answer_reasoning es)"
    using run_events_text [OF op, of d es] assms(2) by (simp_all add: texts_def reasonings_def)
  have st: "s_text s = concat (map answer_text es)" "s_reasoning s = concat (map answer_reasoning es)"
    "(s_usage s, usageSeen s) = fold usage_after es (no_usage, False)"
    using run_events_answer [of d es "new_stream d op m"] assms(2) by (simp_all add: answer_of_def new_stream_def)
  show ?thesis
    using ws st accumulated_answer [of es empty_accumulated] by (auto simp: Let_def empty_accumulated_def prod_eq_iff)
qed

definition text_event :: "string \<Rightarrow> Event" where
  "text_event t = no_event\<lparr>ev_Kind := EventTextDelta, ev_Text := t\<rparr>"

definition sample_draws :: Draws where
  "sample_draws = \<lparr>draw_hex = (\<lambda>n. ''00''), draw_clock = (\<lambda>n. 0)\<rparr>"

theorem stream_text_faithful_witness:
  "s_text (snd (run_events sample_draws [text_event ''a'', text_event ''b''] (new_stream sample_draws OperationChat ''m''))) = ''ab''"
proof -
  let ?r = "run_events sample_draws [text_event ''a'', text_event ''b''] (new_stream sample_draws OperationChat ''m'')"
  have "s_text (snd ?r) = concat (map answer_text [text_event ''a'', text_event ''b''])"
    using stream_text_faithful [of OperationChat sample_draws "[text_event ''a'', text_event ''b'']" "''m''" "fst ?r" "snd ?r"] by simp
  also have "\<dots> = ''ab''" by code_simp
  finally show ?thesis .
qed

end
