(* ===== verification/Gateway_Video.thy ===== *)
theory Gateway_Video
  imports Gateway_Handler
begin

text \<open>
  Media in responses and video jobs: localizing the URLs of events and bodies (\<open>internal/gateway/media.go\<close>),
  the job of a video answer and the in-memory video store (\<open>internal/gateway/video.go\<close>).

  The media cache and the video store are records of functions over the world, one field per method. The JSON and
  base64 codecs and the text of an error are the record \<open>MediaLib\<close>. A \<open>nil\<close> service is
  \<^const>\<open>None\<close>. The members of an object are visited in the order of its list: Go leaves the order open.
\<close>

record MediaLib =
  DecodeAny :: "string \<Rightarrow> json option"
  EncodeAny :: "json \<Rightarrow> string"
  Base64Valid :: "string \<Rightarrow> bool"
  ErrorText :: "error \<Rightarrow> string"

text \<open>\<open>json.Unmarshal\<close> into a map: an object, or \<open>null\<close>, which leaves the map \<open>nil\<close>.\<close>

definition decode_object :: "MediaLib \<Rightarrow> string \<Rightarrow> (string \<times> json) list option" where
  "decode_object lib s = (case DecodeAny lib s of Some (JObj m) \<Rightarrow> Some m | Some JNull \<Rightarrow> Some [] | _ \<Rightarrow> None)"

definition json_valid :: "MediaLib \<Rightarrow> string \<Rightarrow> bool" where
  "json_valid lib s \<longleftrightarrow> DecodeAny lib s \<noteq> None"

record 'w Media =
  Localize :: "string \<Rightarrow> string \<Rightarrow> 'w \<Rightarrow> (error + string) \<times> 'w"
  LocalizeBase64 :: "(string \<Rightarrow> string \<Rightarrow> 'w \<Rightarrow> (error + string \<times> string) \<times> 'w) option"

section \<open>Images and events\<close>

definition imageDataPayload :: "MediaLib \<Rightarrow> string \<Rightarrow> string option" where
  "imageDataPayload lib value =
     (if \<not> HasPrefix (ToLower value) ''data:image/'' then None
      else if CHR '','' \<notin> set value then None
      else (let hdr = takeWhile (\<lambda>c. c \<noteq> CHR '','') value; encoded = tl (dropWhile (\<lambda>c. c \<noteq> CHR '','') value)
            in if \<not> HasSuffix (ToLower hdr) '';base64'' \<or> encoded = '''' then None
               else if \<not> Base64Valid lib encoded then None else Some encoded))"

definition localizeImageBase64 :: "MediaLib \<Rightarrow> 'w Media option \<Rightarrow> string \<Rightarrow> 'w \<Rightarrow> (error + string) \<times> 'w" where
  "localizeImageBase64 lib media rawURL w =
     (case Option.bind media LocalizeBase64 of
        Some f \<Rightarrow> (let (r, w) = f ''image'' rawURL w in (case r of Inl e \<Rightarrow> (Inl e, w) | Inr (u, encoded) \<Rightarrow> (Inr encoded, w)))
      | None \<Rightarrow>
          (case imageDataPayload lib rawURL of
             None \<Rightarrow> (Inl (ErrText ''media cache cannot encode the upstream image URL''), w)
           | Some encoded \<Rightarrow>
               (case media of
                  None \<Rightarrow> (Inr encoded, w)
                | Some m \<Rightarrow> (let (r, w) = Localize m ''image'' rawURL w
                             in case r of Inl e \<Rightarrow> (Inl e, w) | Inr u \<Rightarrow> (Inr encoded, w)))))"

definition error_event :: "string \<Rightarrow> Event" where
  "error_event message = \<lparr>ev_Kind = EventError, ev_Text = '''', ev_ID = '''', ItemID = '''', ev_Name = '''', Arguments = '''', Index = 0,
     ev_URL = '''', ev_Usage = \<lparr>InputTokens = 0, OutputTokens = 0, CachedTokens = 0\<rparr>, ev_Error = message, Raw = ''''\<rparr>"

definition event_media_kind :: "Event \<Rightarrow> string" where
  "event_media_kind event =
     (if ev_Kind event = EventImage then ''image'' else if ev_Kind event = EventVideo then ''video'' else '''')"

definition localizeEvent :: "MediaLib \<Rightarrow> 'w Media option \<Rightarrow> Event \<Rightarrow> 'w \<Rightarrow> Event \<times> 'w" where
  "localizeEvent lib media event w =
     (case media of
        None \<Rightarrow> (event, w)
      | Some m \<Rightarrow>
          (let kind = event_media_kind event
           in if ev_URL event = '''' \<or> kind = '''' then (event, w)
              else (let (r, w) = Localize m kind (ev_URL event) w
                    in case r of
                         Inl e \<Rightarrow> (error_event (''cache upstream '' @ kind @ '': '' @ ErrorText lib e), w)
                       | Inr localized \<Rightarrow> (event\<lparr>ev_URL := localized\<rparr>, w))))"

section \<open>Bodies\<close>

definition mediaKind :: "string \<Rightarrow> string \<Rightarrow> string \<Rightarrow> string" where
  "mediaKind key rawURL fallback =
     (let lowerKey = ToLower key
      in if Contains lowerKey ''status'' \<or> Contains lowerKey ''poll'' \<or> Contains lowerKey ''callback'' then ''''
         else (let value = lowerKey @ '' '' @ ToLower (hd (Split rawURL (CHR ''?'')))
               in if Contains value ''video'' \<or> HasSuffix value ''.mp4'' \<or> HasSuffix value ''.webm'' then ''video''
                  else if Contains value ''image'' \<or> Contains value ''thumbnail'' \<or> HasSuffix value ''.png'' \<or> HasSuffix value ''.jpg''
                       \<or> HasSuffix value ''.jpeg'' \<or> HasSuffix value ''.webp'' then ''image''
                  else fallback))"

definition localize_string :: "'w Media \<Rightarrow> string \<Rightarrow> string \<Rightarrow> string \<Rightarrow> 'w \<Rightarrow> (error + json) \<times> 'w" where
  "localize_string m key defaultKind value w =
     (if \<not> HasPrefix value ''https://'' \<and> \<not> HasPrefix value ''http://'' then (Inr (JStr value), w)
      else if mediaKind key value defaultKind = '''' then (Inr (JStr value), w)
      else (let (r, w) = Localize m (mediaKind key value defaultKind) value w
            in (case r of Inl e \<Rightarrow> Inl e | Inr u \<Rightarrow> Inr (JStr u), w)))"

fun localizeValue :: "'w Media \<Rightarrow> string \<Rightarrow> string \<Rightarrow> json \<Rightarrow> 'w \<Rightarrow> (error + json) \<times> 'w"
  and localize_members :: "'w Media \<Rightarrow> string \<Rightarrow> (string \<times> json) list \<Rightarrow> 'w \<Rightarrow> (error + (string \<times> json) list) \<times> 'w"
  and localize_items :: "'w Media \<Rightarrow> string \<Rightarrow> string \<Rightarrow> json list \<Rightarrow> 'w \<Rightarrow> (error + json list) \<times> 'w" where
  "localizeValue m key kind (JObj members) w =
     (let (r, w) = localize_members m kind members w in (case r of Inl e \<Rightarrow> Inl e | Inr ms \<Rightarrow> Inr (JObj ms), w))"
| "localizeValue m key kind (JArr items) w =
     (let (r, w) = localize_items m key kind items w in (case r of Inl e \<Rightarrow> Inl e | Inr xs \<Rightarrow> Inr (JArr xs), w))"
| "localizeValue m key kind (JStr s) w = localize_string m key kind s w"
| "localizeValue m key kind v w = (Inr v, w)"
| "localize_members m kind [] w = (Inr [], w)"
| "localize_members m kind ((k, v) # ms) w =
     (let (r, w) = localizeValue m k kind v w
      in case r of
           Inl e \<Rightarrow> (Inl e, w)
         | Inr v \<Rightarrow> (let (r, w) = localize_members m kind ms w
                    in (case r of Inl e \<Rightarrow> Inl e | Inr ms \<Rightarrow> Inr ((k, v) # ms), w)))"
| "localize_items m key kind [] w = (Inr [], w)"
| "localize_items m key kind (x # xs) w =
     (let (r, w) = localizeValue m key kind x w
      in case r of
           Inl e \<Rightarrow> (Inl e, w)
         | Inr x \<Rightarrow> (let (r, w) = localize_items m key kind xs w
                    in (case r of Inl e \<Rightarrow> Inl e | Inr xs \<Rightarrow> Inr (x # xs), w)))"

definition default_kind :: "Operation \<Rightarrow> string" where
  "default_kind op =
     (if op = OperationImage \<or> op = OperationImageEdit then ''image''
      else if op = OperationVideo \<or> op = OperationVideoStatus then ''video'' else '''')"

definition localizeBody :: "MediaLib \<Rightarrow> 'w Media option \<Rightarrow> Operation \<Rightarrow> string \<Rightarrow> 'w \<Rightarrow> (error + string) \<times> 'w" where
  "localizeBody lib media op body w =
     (case media of
        None \<Rightarrow> (Inr body, w)
      | Some m \<Rightarrow>
          if body = '''' then (Inr body, w)
          else (case DecodeAny lib body of
                  None \<Rightarrow> (Inl (ErrText ''invalid JSON''), w)
                | Some payload \<Rightarrow>
                    (let (r, w) = localizeValue m '''' (default_kind op) payload w
                     in (case r of Inl e \<Rightarrow> Inl e | Inr v \<Rightarrow> Inr (EncodeAny lib v), w))))"

section \<open>Video jobs\<close>

text \<open>
  Video jobs (\<open>internal/gateway/video.go\<close>): the store of the jobs, reading a job from an upstream answer, the reply to a
  status request, and the background poll that follows a job until it ends.

  The poll waits on its timer and on its context; \<open>poll_wait\<close> is the outcome of that \<open>select\<close>:
  \<^const>\<open>None\<close> when the timer fired, the error of the context when it ended. Its argument is the delay the timer was armed
  with, \<^const>\<open>None\<close> when the timer is not running. \<open>poll_ctxErr\<close> is \<open>ctx.Err()\<close>. The loop has fuel; running
  out of it is \<^const>\<open>None\<close>.
\<close>

record VideoJob =
  vj_ID :: string
  vj_AccountID :: string
  vj_Status :: string
  vj_StatusURL :: string
  vj_Payload :: string

record MediaObject =
  mo_ID :: string
  mo_Kind :: string
  mo_Path :: string
  ContentType :: string
  mo_Size :: int
  mo_ExpiresAt :: time
  mo_CreatedAt :: time

record 'w VideoStore =
  SaveVideo :: "VideoJob \<Rightarrow> 'w \<Rightarrow> error option \<times> 'w"
  GetVideo :: "string \<Rightarrow> 'w \<Rightarrow> (error + VideoJob) \<times> 'w"
  OpenVideoContent :: "string \<Rightarrow> 'w \<Rightarrow> (error + MediaObject \<times> string) \<times> 'w"

definition ErrVideoNotFound :: error where
  "ErrVideoNotFound = ErrText ''video job not found''"

section \<open>The in-memory store\<close>

record memoryVideoContent =
  mc_object :: MediaObject
  mc_data :: string

record MemoryVideoStore =
  jobs :: "string \<rightharpoonup> VideoJob"
  content :: "string \<rightharpoonup> memoryVideoContent"

definition NewMemoryVideoStore :: MemoryVideoStore where
  "NewMemoryVideoStore = \<lparr>jobs = Map.empty, content = Map.empty\<rparr>"

definition mv_SaveVideo :: "VideoJob \<Rightarrow> MemoryVideoStore \<Rightarrow> error option \<times> MemoryVideoStore" where
  "mv_SaveVideo job s =
     (if TrimSpace (vj_ID job) = '''' then (Some (ErrText ''video job ID is required''), s)
      else (None, s\<lparr>jobs := (jobs s)(vj_ID job \<mapsto> job)\<rparr>))"

definition mv_GetVideo :: "string \<Rightarrow> MemoryVideoStore \<Rightarrow> (error + VideoJob) \<times> MemoryVideoStore" where
  "mv_GetVideo i s = (case jobs s i of None \<Rightarrow> (Inl ErrVideoNotFound, s) | Some job \<Rightarrow> (Inr job, s))"

definition mv_OpenVideoContent :: "string \<Rightarrow> MemoryVideoStore \<Rightarrow> (error + MediaObject \<times> string) \<times> MemoryVideoStore" where
  "mv_OpenVideoContent i s =
     (case content s i of None \<Rightarrow> (Inl ErrVideoNotFound, s) | Some item \<Rightarrow> (Inr (mc_object item, mc_data item), s))"

definition mv_SetVideoContent :: "string \<Rightarrow> MediaObject \<Rightarrow> string \<Rightarrow> MemoryVideoStore \<Rightarrow> MemoryVideoStore" where
  "mv_SetVideoContent i object data s = s\<lparr>content := (content s)(i \<mapsto> \<lparr>mc_object = object, mc_data = data\<rparr>)\<rparr>"

section \<open>Reading a job\<close>

fun videoString :: "(string \<times> json) list \<Rightarrow> string list \<Rightarrow> string" where
  "videoString payload [] = ''''"
| "videoString payload (key # keys) =
     (let value = TrimSpace (as_string (jget payload key)) in if value \<noteq> '''' then value else videoString payload keys)"

definition nested_objects :: "(string \<times> json) list \<Rightarrow> (string \<times> json) list list" where
  "nested_objects m = List.map_filter (\<lambda>key. as_object (jget m key)) [''data'', ''video'', ''result'']"

fun json_nodes :: "json \<Rightarrow> nat" and member_nodes :: "(string \<times> json) list \<Rightarrow> nat" where
  "json_nodes (JObj m) = Suc (member_nodes m)"
| "json_nodes _ = 0"
| "member_nodes [] = 0"
| "member_nodes ((k, v) # m) = json_nodes v + member_nodes m"

fun nodes_of :: "string list \<Rightarrow> (string \<times> json) list \<Rightarrow> nat" where
  "nodes_of [] m = 0"
| "nodes_of (k # ks) m = json_nodes (jget m k) + nodes_of ks m"

lemma nodes_of_skip: "k \<notin> set ks \<Longrightarrow> nodes_of ks ((k, v) # m) = nodes_of ks m"
  by (induction ks) (auto simp: jget_def)

lemma nodes_of_Cons: "distinct ks \<Longrightarrow> nodes_of ks ((k, v) # m) \<le> json_nodes v + nodes_of ks m"
proof (induction ks)
  case Nil
  then show ?case by simp
next
  case (Cons x ks)
  then show ?case by (cases "x = k") (auto simp: jget_def nodes_of_skip)
qed

lemma nodes_of_bound: "distinct ks \<Longrightarrow> nodes_of ks m \<le> member_nodes m"
proof (induction m)
  case Nil
  show ?case by (induction ks) (auto simp: jget_def)
next
  case (Cons kv m)
  obtain k v where kv: "kv = (k, v)" by (rule prod.exhaust)
  with nodes_of_Cons [OF Cons.prems, of k v m] Cons show ?case by simp
qed

lemma nested_objects_nodes:
  "sum_list (map (\<lambda>m. Suc (member_nodes m)) (List.map_filter (\<lambda>key. as_object (jget m key)) ks)) = nodes_of ks m"
  by (induction ks) (auto simp: map_filter_simps as_object_def split: option.splits json.splits)

text \<open>The candidates in the order of the worklist: an object, and later the objects nested in it.\<close>

function candidates :: "(string \<times> json) list list \<Rightarrow> (string \<times> json) list list" where
  "candidates [] = []"
| "candidates (m # queue) = m # candidates (queue @ nested_objects m)"
  by pat_completeness auto
termination
proof (relation "measure (\<lambda>queue. sum_list (map (\<lambda>m. Suc (member_nodes m)) queue))")
  fix m :: "(string \<times> json) list" and queue
  have "sum_list (map (\<lambda>m. Suc (member_nodes m)) (nested_objects m)) \<le> member_nodes m"
    unfolding nested_objects_def nested_objects_nodes by (rule nodes_of_bound) simp
  then show "(queue @ nested_objects m, m # queue) \<in> measure (\<lambda>queue. sum_list (map (\<lambda>m. Suc (member_nodes m)) queue))"
    by simp
qed simp

text \<open>Statuses are ASCII words, for which \<open>ToLower\<close> is exact.\<close>

definition read_candidate :: "(string \<times> json) list \<Rightarrow> VideoJob \<Rightarrow> VideoJob" where
  "read_candidate candidate job =
     (let job = (if vj_ID job = ''''
                 then job\<lparr>vj_ID := videoString candidate [''request_id'', ''requestId'', ''id'', ''video_id'', ''videoId'']\<rparr> else job);
          status = videoString candidate [''status'', ''state''];
          job = (if status \<noteq> '''' then job\<lparr>vj_Status := ToLower status\<rparr> else job)
      in if vj_StatusURL job = ''''
         then job\<lparr>vj_StatusURL := videoString candidate [''status_url'', ''statusUrl'', ''poll_url'', ''pollUrl'']\<rparr> else job)"

definition videoJobFromPayload :: "MediaLib \<Rightarrow> string \<Rightarrow> string \<Rightarrow> VideoJob option" where
  "videoJobFromPayload lib payload fallbackID =
     (case decode_object lib payload of
        None \<Rightarrow> None
      | Some m \<Rightarrow>
          (let job = fold read_candidate (candidates [m])
                 \<lparr>vj_ID = TrimSpace fallbackID, vj_AccountID = '''', vj_Status = ''queued'', vj_StatusURL = '''', vj_Payload = payload\<rparr>
           in if vj_ID job \<noteq> '''' then Some job else None))"

definition videoStatusTerminal :: "string \<Rightarrow> bool" where
  "videoStatusTerminal status =
     (ToLower (TrimSpace status) \<in> {''completed'', ''succeeded'', ''done'', ''failed'', ''error'', ''cancelled'', ''canceled'', ''expired''})"

definition videoStatusFailed :: "string \<Rightarrow> bool" where
  "videoStatusFailed status =
     (ToLower (TrimSpace status) \<in> {''failed'', ''error'', ''cancelled'', ''canceled'', ''expired''})"

definition upstream_status :: "json \<Rightarrow> int" where
  "upstream_status v =
     (case v of
        JFloat r \<Rightarrow> if 400 \<le> r \<and> r \<le> 599 then truncate_rat r else 502
      | JNumber s \<Rightarrow> (case ParseInt s of Some n \<Rightarrow> if 400 \<le> n \<and> n \<le> 599 then n else 502 | None \<Rightarrow> 502)
      | _ \<Rightarrow> 502)"

definition videoFailureFeedback :: "MediaLib \<Rightarrow> string \<Rightarrow> Feedback" where
  "videoFailureFeedback lib payload =
     (case decode_object lib payload of
        None \<Rightarrow> plain_feedback 502 (Some (ErrText ''video generation failed''))
      | Some m \<Rightarrow>
          (case as_object (jget m ''error'') of
             None \<Rightarrow> plain_feedback 502 (Some (ErrText ''video generation failed''))
           | Some failure \<Rightarrow>
               (let value = TrimSpace (as_string (jget failure ''message''))
                in plain_feedback (upstream_status (jget failure ''upstream_status''))
                     (Some (ErrText (if value \<noteq> '''' then value else ''video generation failed''))))))"

definition videoPollDelay :: "TimeParsers \<Rightarrow> duration \<Rightarrow> header \<Rightarrow> time \<Rightarrow> duration" where
  "videoPollDelay tp fallback h now =
     (let delay = retryAfter tp h now
      in if delay < fallback then fallback else if 30 * Second < delay then 30 * Second else delay)"

section \<open>Saving and serving jobs\<close>

definition saveVideoPayload :: "MediaLib \<Rightarrow> 'w VideoStore option \<Rightarrow> string \<Rightarrow> 'w \<Rightarrow> 'w" where
  "saveVideoPayload lib store payload w =
     (case store of
        None \<Rightarrow> w
      | Some st \<Rightarrow>
          if \<not> json_valid lib payload then w
          else (case videoJobFromPayload lib payload '''' of None \<Rightarrow> w | Some job \<Rightarrow> snd (SaveVideo st job w)))"

text \<open>
  The job a failed poll leaves. A payload that does not decode is replaced by an empty object; the payload \<open>null\<close>
  decodes to a \<open>nil\<close> map, and storing a member in it panics: \<^const>\<open>None\<close>.
\<close>

definition failed_job :: "MediaLib \<Rightarrow> VideoJob \<Rightarrow> string \<Rightarrow> string \<Rightarrow> VideoJob option" where
  "failed_job lib job code message =
     (if DecodeAny lib (vj_Payload job) = Some JNull then None
      else (let payload = (case decode_object lib (vj_Payload job) of None \<Rightarrow> [] | Some m \<Rightarrow> m);
                payload = AList.update ''error'' (JObj [(''code'', JStr code), (''message'', JStr message)])
                            (AList.update ''status'' (JStr ''failed'') (AList.update ''id'' (JStr (vj_ID job)) payload))
            in Some (job\<lparr>vj_Status := ''failed'', vj_Payload := EncodeAny lib (JObj payload)\<rparr>)))"

text \<open>Whether it panicked, and the world. The store is configured whenever a poll runs.\<close>

definition failVideoPolling :: "MediaLib \<Rightarrow> 'w VideoStore \<Rightarrow> VideoJob \<Rightarrow> string \<Rightarrow> string \<Rightarrow> 'w \<Rightarrow> bool \<times> 'w" where
  "failVideoPolling lib st job code message w =
     (case failed_job lib job code message of
        None \<Rightarrow> (True, w)
      | Some job \<Rightarrow> (False, snd (SaveVideo st job w)))"

datatype video_reply =
    VideoError Reply
  | VideoContent string string string
  | VideoBody string
  | VideoJson json

definition videoGet :: "MediaLib \<Rightarrow> 'w VideoStore option \<Rightarrow> string \<Rightarrow> 'w \<Rightarrow> video_reply \<times> 'w" where
  "videoGet lib store suffix w =
     (case store of
        None \<Rightarrow> (VideoError (writeError 404 ''Video job not found'' ''invalid_request_error'' ''video_not_found'' ''video_id''), w)
      | Some st \<Rightarrow>
          (let i = TrimSuffix suffix ''/content''
           in if i = '''' \<or> Contains i ''/''
              then (VideoError (writeError 400 ''Invalid video ID'' ''invalid_request_error'' ''invalid_value'' ''video_id''), w)
              else if HasSuffix suffix ''/content''
              then (let (r, w) = OpenVideoContent st i w
                    in case r of
                         Inl e \<Rightarrow> (VideoError (writeError 404 ''Video content not found'' ''invalid_request_error'' ''video_not_found'' ''video_id''), w)
                       | Inr (object, data) \<Rightarrow>
                           (VideoContent (if ContentType object = '''' then ''video/mp4'' else ContentType object)
                              (''inline; filename='' @ [CHR 0x22] @ i @ ''.mp4'' @ [CHR 0x22]) data, w))
              else (let (r, w) = GetVideo st i w
                    in case r of
                         Inl e \<Rightarrow> (VideoError (writeError 404 ''Video job not found'' ''invalid_request_error'' ''video_not_found'' ''video_id''), w)
                       | Inr job \<Rightarrow>
                           if json_valid lib (vj_Payload job) \<and> vj_Payload job \<noteq> '''' then (VideoBody (vj_Payload job), w)
                           else (VideoJson (JObj [(''id'', JStr (vj_ID job)), (''object'', JStr ''video''), (''status'', JStr (vj_Status job))]), w))))"

section \<open>Polling\<close>

record 'w Services =
  sv_lib :: MediaLib
  sv_media :: "'w Media option"
  sv_videos :: "'w VideoStore option"
  sv_background :: bool
  poll_wait :: "duration option \<Rightarrow> 'w \<Rightarrow> error option \<times> 'w"
  poll_ctxErr :: "'w \<Rightarrow> error option \<times> 'w"

definition status_request :: "Lease \<Rightarrow> string \<Rightarrow> VideoJob \<Rightarrow> Request" where
  "status_request l proxy job =
     \<lparr>req_Operation = OperationVideoStatus, req_Model = '''', req_UpstreamModel = '''', PromptCacheKey = '''',
      req_CredentialKind = Kind (lease_Account l), req_Credentials = lease_Credentials l, ProxyURL = proxy, req_Body = '''',
      req_Headers = (\<lambda>_. ''''), req_Stream = False, VideoID = vj_ID job,
      StatusURL = (if Kind (lease_Account l) = CredentialGrokSSO then vj_StatusURL job else '''')\<rparr>"

text \<open>
  What a round ends in: the feedback of the poll and whether it panicked, or the next round with the job and the timer.
\<close>

datatype poll_next = PollEnd Feedback bool | PollAgain VideoJob "duration option"

definition poll_fails :: "MediaLib \<Rightarrow> 'w VideoStore \<Rightarrow> VideoJob \<Rightarrow> Feedback \<Rightarrow> string \<Rightarrow> string \<Rightarrow> 'w \<Rightarrow> poll_next \<times> 'w" where
  "poll_fails lib st job fb code message w =
     (let (panicked, w) = failVideoPolling lib st job code message w in (PollEnd fb panicked, w))"

definition poll_rejected :: "int \<Rightarrow> bool" where
  "poll_rejected status \<longleftrightarrow> 400 \<le> status \<and> status < 500 \<and> status \<noteq> 404 \<and> status \<noteq> 429"

text \<open>\<open>if ctx.Err() != nil { continue }; timer.Reset(interval); continue\<close>.\<close>

definition poll_retry :: "'w Services \<Rightarrow> duration \<Rightarrow> VideoJob \<Rightarrow> 'w \<Rightarrow> poll_next \<times> 'w" where
  "poll_retry sv interval job w =
     (let (e, w) = poll_ctxErr sv w in (PollAgain job (if e \<noteq> None then None else Some interval), w))"

definition poll_save :: "'w Gateway \<Rightarrow> 'w Services \<Rightarrow> 'w VideoStore \<Rightarrow> Response \<Rightarrow> VideoJob \<Rightarrow> VideoJob \<Rightarrow> 'w \<Rightarrow> poll_next \<times> 'w" where
  "poll_save g sv st r job found w =
     (let interval = VideoPollInterval (gw_config g);
          found = found\<lparr>vj_ID := vj_ID job, vj_AccountID := vj_AccountID job,
                    vj_StatusURL := (if vj_StatusURL found = '''' then vj_StatusURL job else vj_StatusURL found)\<rparr>;
          (e, w) = SaveVideo st found w
      in if e \<noteq> None then (PollAgain job (Some interval), w)
         else if videoStatusTerminal (vj_Status found)
         then (PollEnd (if videoStatusFailed (vj_Status found) then videoFailureFeedback (sv_lib sv) (vj_Payload found)
                        else plain_feedback 200 None) False, w)
         else (let (now, w) = now_fn (gw_deps g) w
               in (PollAgain found (Some (videoPollDelay (gw_parsers g) interval (resp_Header r) now)), w)))"

definition poll_answer :: "'w Gateway \<Rightarrow> 'w Services \<Rightarrow> 'w VideoStore \<Rightarrow> Response \<Rightarrow> VideoJob \<Rightarrow> 'w \<Rightarrow> poll_next \<times> 'w" where
  "poll_answer g sv st r job w =
     (let interval = VideoPollInterval (gw_config g); status = resp_StatusCode r
      in if status < 200 \<or> 300 \<le> status
         then if poll_rejected status
              then poll_fails (sv_lib sv) st job (plain_feedback status (Some (ErrText (''video status query returned '' @ FormatInt status))))
                     ''video_poll_upstream_error'' ''Video status query was rejected by the upstream'' w
              else (let (now, w) = now_fn (gw_deps g) w
                    in (PollAgain job (Some (videoPollDelay (gw_parsers g) interval (resp_Header r) now)), w))
         else if \<not> json_valid (sv_lib sv) (resp_Body r) then (PollAgain job (Some interval), w)
         else (let (b, w) = localizeBody (sv_lib sv) (sv_media sv) OperationVideoStatus (resp_Body r) w
               in case b of
                    Inl e \<Rightarrow> poll_retry sv interval job w
                  | Inr localized \<Rightarrow>
                      (case videoJobFromPayload (sv_lib sv) localized (vj_ID job) of
                         None \<Rightarrow> (PollAgain job (Some interval), w)
                       | Some found \<Rightarrow> poll_save g sv st r job found w)))"

definition poll_round :: "'w Gateway \<Rightarrow> 'w Services \<Rightarrow> 'w VideoStore \<Rightarrow> Lease \<Rightarrow> string \<Rightarrow> VideoJob \<Rightarrow> duration option \<Rightarrow> 'w \<Rightarrow> poll_next \<times> 'w" where
  "poll_round g sv st l proxy job timer w =
     (let (e, w) = poll_wait sv timer w
      in case e of
           Some err \<Rightarrow>
             if errors_is err DeadlineExceeded
             then poll_fails (sv_lib sv) st job (plain_feedback 504 (Some err))
                    ''video_poll_timeout'' ''Video generation status polling timed out'' w
             else (PollEnd (plain_feedback 200 None) False, w)
         | None \<Rightarrow>
             (let (r, w) = gw_Do g (status_request l proxy job) w
              in case r of
                   Inl e \<Rightarrow> poll_retry sv (VideoPollInterval (gw_config g)) job w
                 | Inr r \<Rightarrow> poll_answer g sv st r job w))"

fun poll_loop :: "nat \<Rightarrow> 'w Gateway \<Rightarrow> 'w Services \<Rightarrow> 'w VideoStore \<Rightarrow> Lease \<Rightarrow> string \<Rightarrow> poll_next \<times> 'w \<Rightarrow> ((Feedback \<times> bool) \<times> 'w) option" where
  "poll_loop n g sv st l proxy (PollEnd fb panicked, w) = Some ((fb, panicked), w)"
| "poll_loop 0 g sv st l proxy (PollAgain job timer, w) = None"
| "poll_loop (Suc n) g sv st l proxy (PollAgain job timer, w) =
     poll_loop n g sv st l proxy (poll_round g sv st l proxy job timer w)"

text \<open>The deferred release runs with the last feedback, also when the poll panics.\<close>

definition pollVideo :: "nat \<Rightarrow> 'w Gateway \<Rightarrow> 'w Services \<Rightarrow> 'w VideoStore \<Rightarrow> VideoJob \<Rightarrow> Lease \<Rightarrow> Pool \<Rightarrow> 'w \<Rightarrow> ((Feedback \<times> bool) \<times> Pool \<times> 'w) option" where
  "pollVideo n g sv st job l p w =
     (let (pr, w) = resolve_proxy g l w;
          (proxy, start) = (case pr of
             Inl e \<Rightarrow> ('''', poll_fails (sv_lib sv) st job (plain_feedback 502 (Some e))
                        ''video_poll_proxy_error'' ''Failed to resolve the video account proxy'' w)
           | Inr proxy \<Rightarrow> (proxy, (PollAgain job (Some (VideoPollInterval (gw_config g))), w)))
      in case poll_loop n g sv st l proxy start of
           None \<Rightarrow> None
         | Some ((fb, panicked), w) \<Rightarrow> (let (p, w) = give_back (gw_deps g) l fb p w in Some ((fb, panicked), p, w)))"

text \<open>The job the background poll is started with, if one is started.\<close>

definition saveVideoAndStartPolling :: "'w Services \<Rightarrow> string \<Rightarrow> Lease \<Rightarrow> 'w \<Rightarrow> ('w VideoStore \<times> VideoJob) option \<times> 'w" where
  "saveVideoAndStartPolling sv payload l w =
     (case sv_videos sv of
        None \<Rightarrow> (None, w)
      | Some st \<Rightarrow>
          if \<not> sv_background sv \<or> \<not> json_valid (sv_lib sv) payload then (None, w)
          else (case videoJobFromPayload (sv_lib sv) payload '''' of
                  None \<Rightarrow> (None, w)
                | Some job \<Rightarrow>
                    (let job = job\<lparr>vj_AccountID := ID (lease_Account l)\<rparr>;
                         (e, w) = SaveVideo st job w
                     in (if e \<noteq> None \<or> videoStatusTerminal (vj_Status job) then None else Some (st, job), w))))"

end
