(* ===== verification/Gateway_Serve.thy ===== *)
theory Gateway_Serve
  imports Gateway_Video Gateway_Stream
begin

text \<open>
  Writing the answer of a successful upstream call: \<open>Handler.stream\<close> (\<open>internal/gateway/stream.go\<close>) and
  \<open>Handler.nonStream\<close> (\<open>internal/gateway/response.go\<close>), and the whole operation with them.

  \<^item> The channel of upstream events is the list of the events it delivers before it is closed.
  \<^item> The \<open>select\<close> of a stream is driven by a list of \<open>wake\<close>ups: the client went away, the heartbeat ticked, or the
    channel was read. A list that ends before the stream does leaves it waiting.
  \<^item> Cancelling the request and the order of the wakeups are free, so every interleaving is covered.
\<close>

section \<open>Streams\<close>

datatype wake = WakeCancelled error | WakeTick | WakeEvents

record finished =
  fin_chunks :: "chunk list"
  fin_status :: int
  fin_err :: "error option"
  fin_state :: streamState

datatype 'w streamed = StreamWaiting | StreamPanic | StreamEnd finished 'w

definition end_stream :: "Draws \<Rightarrow> streamState \<Rightarrow> chunk list \<Rightarrow> 'w \<Rightarrow> 'w streamed" where
  "end_stream d s out w =
     (case stream_finish d s of
        None \<Rightarrow> StreamPanic
      | Some (ws, s) \<Rightarrow> StreamEnd \<lparr>fin_chunks = out @ ws, fin_status = 200, fin_err = None, fin_state = s\<rparr> w)"

fun stream_loop :: "Draws \<Rightarrow> MediaLib \<Rightarrow> 'w Media option \<Rightarrow> wake list \<Rightarrow> Event list \<Rightarrow> streamState \<Rightarrow> chunk list \<Rightarrow> 'w \<Rightarrow> 'w streamed" where
  "stream_loop d lib media [] events s out w = StreamWaiting"
| "stream_loop d lib media (WakeCancelled e # wakes) events s out w =
     StreamEnd \<lparr>fin_chunks = out, fin_status = 499, fin_err = Some e, fin_state = s\<rparr> w"
| "stream_loop d lib media (WakeTick # wakes) events s out w = stream_loop d lib media wakes events s (out @ [heartbeat]) w"
| "stream_loop d lib media (WakeEvents # wakes) [] s out w = end_stream d s out w"
| "stream_loop d lib media (WakeEvents # wakes) (e # events) s out w =
     (let (event, w) = localizeEvent lib media e w
      in if ev_Kind event = EventError
         then StreamEnd \<lparr>fin_chunks = out @ stream_error (s_operation s) (ev_Error event), fin_status = 502,
                         fin_err = Some (ErrText (ev_Error event)), fin_state = s\<rparr> w
         else if ev_Kind event = EventDone then end_stream d s out w
         else (let (ws, s) = stream_event d event s in stream_loop d lib media wakes events s (out @ ws) w))"

definition stream_events :: "Response \<Rightarrow> Event list" where
  "stream_events r =
     (case resp_Events r of
        None \<Rightarrow> [(error_event '''')\<lparr>ev_Kind := EventDone\<rparr>]
      | Some es \<Rightarrow> es)"

definition begin_stream :: "Draws \<Rightarrow> Operation \<Rightarrow> string \<Rightarrow> chunk list \<times> streamState" where
  "begin_stream d op m = (let (ws, s) = stream_start d (new_stream d op m) in (heartbeat # ws, s))"

definition run_stream :: "Draws \<Rightarrow> MediaLib \<Rightarrow> 'w Media option \<Rightarrow> Operation \<Rightarrow> string \<Rightarrow> Response \<Rightarrow> wake list \<Rightarrow> 'w \<Rightarrow> 'w streamed" where
  "run_stream d lib media op m r wakes w =
     (let (out, s) = begin_stream d op m in stream_loop d lib media wakes (stream_events r) s out w)"

text \<open>The outcome that is reported for the request log.\<close>

definition stream_outcome :: "int \<Rightarrow> (int \<times> string) option" where
  "stream_outcome status =
     (if 400 \<le> status then Some (status, if status = 499 then ''client_closed_request'' else ''upstream_stream_error'') else None)"

datatype 'w served = Waiting | Panicking | Served finished "(int \<times> string) option" Pool 'w

definition handler_stream :: "'w Gateway \<Rightarrow> 'w Services \<Rightarrow> Draws \<Rightarrow> Operation \<Rightarrow> string \<Rightarrow> Response \<Rightarrow> Lease \<Rightarrow> wake list \<Rightarrow> Pool \<Rightarrow> 'w \<Rightarrow> 'w served" where
  "handler_stream g sv d op m r l wakes p w =
     (case run_stream d (sv_lib sv) (sv_media sv) op m r wakes w of
        StreamWaiting \<Rightarrow> Waiting
      | StreamPanic \<Rightarrow> Panicking
      | StreamEnd fin w \<Rightarrow>
          (let (wall, w) = now_fn (gw_deps g) w;
               fb = (feedbackFromResponse (gw_parsers g) wall (Some r) (fin_err fin))\<lparr>StatusCode := fin_status fin\<rparr>;
               w = reportCompletion g l (s_usage (fin_state fin)) (usageSeen (fin_state fin)) w;
               (p, w) = give_back (gw_deps g) l fb p w
           in Served fin (stream_outcome (fin_status fin)) p w))"

section \<open>Answers that are not streamed\<close>

definition collect_event :: "MediaLib \<Rightarrow> 'w Media option \<Rightarrow> bool \<Rightarrow> Event \<Rightarrow> accumulated \<times> 'w \<Rightarrow> accumulated \<times> 'w" where
  "collect_event lib media b64 event aw =
     (let (a, w) = aw
      in if b64 \<and> ev_Kind event = EventImage
         then (let (r, w) = localizeImageBase64 lib media (ev_URL event) w
               in case r of
                    Inl e \<Rightarrow> (accumulated_add (error_event (''cache upstream image: '' @ ErrorText lib e)) a, w)
                  | Inr encoded \<Rightarrow> (a\<lparr>imageB64 := imageB64 a @ [encoded]\<rparr>, w))
         else (let (event, w) = localizeEvent lib media event w in (accumulated_add event a, w)))"

definition collect_events :: "MediaLib \<Rightarrow> 'w Media option \<Rightarrow> bool \<Rightarrow> Response \<Rightarrow> 'w \<Rightarrow> accumulated \<times> 'w" where
  "collect_events lib media b64 r w =
     (case resp_Events r of None \<Rightarrow> (empty_accumulated, w) | Some es \<Rightarrow> fold (collect_event lib media b64) es (empty_accumulated, w))"

definition responseFormat :: "(string \<times> json) list \<Rightarrow> string" where
  "responseFormat payload = ToLower (TrimSpace (as_string (jget payload ''response_format'')))"

datatype answer = AnswerJson json | AnswerBody string | AnswerError Reply | NoAnswer

definition image_answer :: "Draws \<Rightarrow> string \<Rightarrow> accumulated \<Rightarrow> json" where
  "image_answer d format a =
     JObj [(''created'', jint (draw_clock d 0)),
           (''data'', JArr (if format = ''b64_json'' then map (\<lambda>e. JObj [(''b64_json'', JStr e)]) (imageB64 a)
                            else map (\<lambda>u. JObj [(''url'', JStr u)]) (images a)))]"

definition video_answer :: "Draws \<Rightarrow> accumulated \<Rightarrow> json" where
  "video_answer d a =
     JObj [(''id'', JStr (newID d ''video'' 0)), (''object'', JStr ''video''), (''status'', JStr ''completed''),
           (''url'', JStr (case videos a of [] \<Rightarrow> '''' | u # us \<Rightarrow> u)), (''created_at'', jint (draw_clock d 0))]"

definition write_answer :: "'w Services \<Rightarrow> Draws \<Rightarrow> Operation \<Rightarrow> string \<Rightarrow> string \<Rightarrow> accumulated \<Rightarrow> 'w \<Rightarrow> answer \<times> 'w" where
  "write_answer sv d op m format a w =
     (case op of
        OperationChat \<Rightarrow> (AnswerJson (chatResponse d m a), w)
      | OperationResponses \<Rightarrow> (AnswerJson (responsesResponse d m a), w)
      | OperationMessages \<Rightarrow> (AnswerJson (messagesResponse d (DecodeAny (sv_lib sv)) m a), w)
      | OperationImage \<Rightarrow> (AnswerJson (image_answer d format a), w)
      | OperationImageEdit \<Rightarrow> (AnswerJson (image_answer d format a), w)
      | OperationVideo \<Rightarrow>
          (let payload = EncodeAny (sv_lib sv) (video_answer d a)
           in (AnswerBody payload, saveVideoPayload (sv_lib sv) (sv_videos sv) payload w))
      | _ \<Rightarrow> (NoAnswer, w))"

text \<open>
  The answer, and the job of the background poll when the lease went to it. \<open>give_back\<close> ends every other branch.
\<close>

type_synonym 'w unstreamed = "answer \<times> ('w VideoStore \<times> VideoJob) option \<times> Pool \<times> 'w"

definition video_polling :: "'w Services \<Rightarrow> Operation \<Rightarrow> string \<Rightarrow> Lease \<Rightarrow> 'w \<Rightarrow> ('w VideoStore \<times> VideoJob) option \<times> 'w" where
  "video_polling sv op body l w = (if op = OperationVideo then saveVideoAndStartPolling sv body l w else (None, w))"

definition pass_body :: "'w Gateway \<Rightarrow> 'w Services \<Rightarrow> Operation \<Rightarrow> Response \<Rightarrow> Lease \<Rightarrow> Pool \<Rightarrow> 'w \<Rightarrow> 'w unstreamed" where
  "pass_body g sv op r l p w =
     (let (b, w) = localizeBody (sv_lib sv) (sv_media sv) op (resp_Body r) w
      in case b of
           Inl e \<Rightarrow>
             (let w = reportCompletion g l no_usage False w;
                  (p, w) = give_back (gw_deps g) l (plain_feedback 502 (Some e)) p w
              in (AnswerError (writeOperationError op 502 (ErrorText (sv_lib sv) e) ''server_error'' ''media_cache_error'' ''''), None, p, w))
         | Inr body \<Rightarrow>
             (let (job, w) = video_polling sv op body l w;
                  w = reportCompletion g l no_usage False w
              in case job of
                   Some j \<Rightarrow> (AnswerBody body, Some j, p, w)
                 | None \<Rightarrow>
                     (let w = (if op = OperationVideo then saveVideoPayload (sv_lib sv) (sv_videos sv) body w else w);
                          (wall, w) = now_fn (gw_deps g) w;
                          (p, w) = give_back (gw_deps g) l (feedbackFromResponse (gw_parsers g) wall (Some r) None) p w
                      in (AnswerBody body, None, p, w))))"

definition nonStream :: "'w Gateway \<Rightarrow> 'w Services \<Rightarrow> Draws \<Rightarrow> Operation \<Rightarrow> string \<Rightarrow> (string \<times> json) list \<Rightarrow> Response \<Rightarrow> Lease \<Rightarrow> Pool \<Rightarrow> 'w \<Rightarrow> 'w unstreamed" where
  "nonStream g sv d op m payload r l p w =
     (if \<not> isConversational op \<and> json_valid (sv_lib sv) (resp_Body r) \<and> resp_Body r \<noteq> '''' then pass_body g sv op r l p w
      else (let format = responseFormat payload;
                b64 = ((op = OperationImage \<or> op = OperationImageEdit) \<and> format = ''b64_json'');
                (a, w) = collect_events (sv_lib sv) (sv_media sv) b64 r w;
                w = reportCompletion g l (a_usage a) (a_usageSeen a) w
            in case a_err a of
                 Some message \<Rightarrow>
                   (let (p, w) = give_back (gw_deps g) l (plain_feedback 502 (Some (ErrText message))) p w
                    in (AnswerError (writeOperationError op 502 message ''server_error'' ''upstream_stream_error'' ''''), None, p, w))
               | None \<Rightarrow>
                   (let (wall, w) = now_fn (gw_deps g) w;
                        (p, w) = give_back (gw_deps g) l (feedbackFromResponse (gw_parsers g) wall (Some r) None) p w;
                        (ans, w) = write_answer sv d op m format a w
                    in (ans, None, p, w))))"

section \<open>The whole operation\<close>

datatype 'w reply =
    ReplyError Reply Pool 'w
  | ReplyStream "'w served"
  | ReplyAnswer "'w unstreamed"

definition serve_operation ::
  "'w Gateway \<Rightarrow> 'w Services \<Rightarrow> Draws \<Rightarrow> (string \<Rightarrow> error + ModelSpec) \<Rightarrow> ClientKey option \<Rightarrow> header \<Rightarrow> Operation
    \<Rightarrow> string + (string \<times> (string \<times> json) list) \<Rightarrow> error option \<Rightarrow> wake list \<Rightarrow> Pool \<Rightarrow> 'w \<Rightarrow> 'w reply option" where
  "serve_operation g sv d resolve key h op body ctxErr wakes p w =
     (let payload = (case body of Inl _ \<Rightarrow> [] | Inr (raw, payload) \<Rightarrow> payload);
          m = (case check_request resolve op body of Inl _ \<Rightarrow> '''' | Inr model \<Rightarrow> model_ID model)
      in case handleOperation g (ErrorText (sv_lib sv)) resolve key h op body ctxErr p w of
           None \<Rightarrow> None
         | Some (Replied reply, p, w) \<Rightarrow> Some (ReplyError reply p w)
         | Some (Streaming r l, p, w) \<Rightarrow> Some (ReplyStream (handler_stream g sv d op m r l wakes p w))
         | Some (NonStreaming r l, p, w) \<Rightarrow> Some (ReplyAnswer (nonStream g sv d op m payload r l p w)))"

end
