(* ===== verification/Serve_Properties.thy ===== *)
theory Serve_Properties
  imports Gateway_Serve Stream_Properties Gateway_Properties
begin

text \<open>
  The end of a request: a stream never panics and ends once its channel does, and whatever the answer the lease is given
  back exactly once, by the handler or by the background poll it was handed to.
\<close>

section \<open>Streams end\<close>

text \<open>A state from which finishing does not panic.\<close>

definition stream_ok :: "streamState \<Rightarrow> bool" where
  "stream_ok s \<longleftrightarrow> (s_operation s = OperationResponses \<longrightarrow> outputs_inv s)"

lemma stream_ok_event: "stream_event d e s = (ws, s') \<Longrightarrow> stream_ok s \<Longrightarrow> stream_ok s'"
  using stream_event_outputs [of d e s ws s'] stream_event_operation [of d e s] by (auto simp: stream_ok_def)

lemma finishResponses_total:
  assumes "outputs_inv s"
  shows "finishResponses s \<noteq> None"
proof -
  have items: "mset (map fst (completed_items s)) = slot_numbers (responseNextOutput s)"
    unfolding completed_slots using assms by (simp add: outputs_inv_def)
  have "fst ` set (completed_items s) = {0..<responseNextOutput s}"
    using arg_cong [OF items, of set_mset] by (simp add: slot_numbers_set)
  then have "\<forall>(i, x) \<in> set (completed_items s). 0 \<le> i \<and> i < int (length (replicate (nat (responseNextOutput s)) JNull))"
    by (force simp: image_iff)
  from puts_stores [OF this slot_numbers_distinct [OF items]] finishResponses_puts [OF assms] show ?thesis by fastforce
qed

lemma end_stream_ok: "stream_ok s \<Longrightarrow> \<exists>fin. end_stream d s out w = StreamEnd fin w \<and> fin_status fin = 200"
  using finishResponses_total [of s]
  by (auto simp: end_stream_def stream_finish_def stream_ok_def case_prod_unfold Let_def split: Operation.split option.split)

lemma stream_ok_new: "stream_ok (snd (begin_stream d op m))"
  by (simp add: begin_stream_def stream_start_def chat_chunk_def new_stream_def stream_ok_def outputs_inv_def tools_wf_def slots_def slot_numbers_def
      case_prod_unfold Let_def split: Operation.split)

text \<open>The wakeups that end a stream: the client went away, or the channel was read to its end.\<close>

definition ends :: "wake list \<Rightarrow> nat \<Rightarrow> bool" where
  "ends wakes n \<longleftrightarrow> (\<exists>e. WakeCancelled e \<in> set wakes) \<or> n < length (filter (\<lambda>x. x = WakeEvents) wakes)"

lemma stream_loop_safe:
  assumes "stream_ok s"
  shows "stream_loop d lib media wakes events s out w = StreamWaiting \<and> \<not> ends wakes (length events)
    \<or> (\<exists>fin w'. stream_loop d lib media wakes events s out w = StreamEnd fin w' \<and> fin_status fin \<in> {200, 499, 502}
         \<and> (fin_status fin = 200 \<longleftrightarrow> fin_err fin = None))"
  using assms
proof (induction d lib media wakes events s out w rule: stream_loop.induct)
  case (1 d lib media events s out w)
  then show ?case by (simp add: ends_def)
next
  case (2 d lib media e wakes events s out w)
  then show ?case by simp
next
  case (3 d lib media wakes events s out w)
  then show ?case by (simp add: ends_def)
next
  case (4 d lib media wakes s out w)
  then show ?case by (auto simp: end_stream_def stream_finish_def stream_ok_def case_prod_unfold Let_def finishResponses_total
        split: Operation.split option.split)
next
  case (5 d lib media wakes e events s out w)
  obtain event w1 where l: "localizeEvent lib media e w = (event, w1)" by (rule prod.exhaust)
  obtain ws s1 where st: "stream_event d event s = (ws, s1)" by (rule prod.exhaust)
  have rest: "ends (WakeEvents # wakes) (length (e # events)) \<longleftrightarrow> ends wakes (length events)" by (auto simp: ends_def)
  show ?case
  proof (cases "ev_Kind event = EventError \<or> ev_Kind event = EventDone")
    case True
    with l 5(2) show ?thesis
      by (auto simp: end_stream_def stream_finish_def stream_ok_def case_prod_unfold Let_def finishResponses_total
          split: Operation.split option.split)
  next
    case False
    have "stream_ok s1" using st 5(2) by (rule stream_ok_event)
    with 5(1) [OF l [symmetric] refl _ _ st [symmetric] refl] False l st rest show ?thesis by simp
  qed
qed

section \<open>Leases of a served request\<close>

lemma handler_stream_safe:
  assumes "wf_pool p" "no_leak p q (Some l)" "\<not> once_done l"
  shows "case handler_stream g sv d op m r l wakes q w of
      Panicking \<Rightarrow> False
    | Waiting \<Rightarrow> \<not> ends wakes (length (stream_events r))
    | Served fin oc q' w' \<Rightarrow> no_leak p q' None \<and> fin_status fin \<in> {200, 499, 502} \<and> (fin_status fin = 200 \<longleftrightarrow> oc = None)"
proof -
  define run where "run = run_stream d (sv_lib sv) (sv_media sv) op m r wakes w"
  have safe: "run = StreamWaiting \<and> \<not> ends wakes (length (stream_events r))
    \<or> (\<exists>fin w'. run = StreamEnd fin w' \<and> fin_status fin \<in> {200, 499, 502} \<and> (fin_status fin = 200 \<longleftrightarrow> fin_err fin = None))"
    unfolding run_def run_stream_def case_prod_unfold Let_def by (rule stream_loop_safe [OF stream_ok_new])
  show ?thesis
  proof (cases run)
    case StreamWaiting
    with safe show ?thesis unfolding run_def by (simp add: handler_stream_def ends_def)
  next
    case StreamPanic
    with safe show ?thesis by simp
  next
    case (StreamEnd fin w1)
    then have status: "fin_status fin \<in> {200, 499, 502}" using safe by auto
    have gb: "no_leak p (fst (give_back (gw_deps g) l fb q w2)) None" for fb w2
      using give_back_no_leak [OF assms(2,3) _ assms(1)] by (metis prod.collapse)
    show ?thesis
      using StreamEnd status gb unfolding run_def
      by (auto simp: handler_stream_def case_prod_unfold Let_def stream_outcome_def)
  qed
qed

text \<open>C8: a stream never panics and always gives its lease back. It ends once the client goes away or the channel of
  upstream events has been read to its end, whatever the heartbeat does in between, with status 200, 499 or 502, and then no in-flight
  counter is higher than before the lease was taken.\<close>

theorem stream_serves:
  assumes "wf_pool p" "no_leak p q (Some l)" "\<not> once_done l"
  shows "handler_stream g sv d op m r l wakes q w \<noteq> Panicking
    \<and> ((\<exists>e. WakeCancelled e \<in> set wakes) \<or> length (stream_events r) < length (filter (\<lambda>x. x = WakeEvents) wakes) \<longrightarrow>
         handler_stream g sv d op m r l wakes q w \<noteq> Waiting)
    \<and> (\<forall>fin oc q' w'. handler_stream g sv d op m r l wakes q w = Served fin oc q' w' \<longrightarrow>
         wf_pool q' \<and> (\<forall>k. inflight_of q' k \<le> inflight_of p k) \<and> fin_status fin \<in> {200, 499, 502}
         \<and> (fin_status fin = 200 \<longleftrightarrow> oc = None))"
  using handler_stream_safe [OF assms, where g = g and sv = sv and d = d and op = op and m = m and r = r and wakes = wakes and w = w]
  by (cases "handler_stream g sv d op m r l wakes q w") (auto simp: ends_def no_leak_def)

definition sample_services :: "'w Services" where
  "sample_services = \<lparr>sv_lib = \<lparr>DecodeAny = (\<lambda>_. None), EncodeAny = (\<lambda>_. ''''), Base64Valid = (\<lambda>_. True), ErrorText = (\<lambda>_. '''')\<rparr>,
     sv_media = None, sv_videos = None, sv_background = False, poll_wait = (\<lambda>_ w. (Some DeadlineExceeded, w)), poll_ctxErr = (\<lambda>w. (None, w))\<rparr>"

definition sample_reply :: Response where
  "sample_reply = \<lparr>resp_StatusCode = 200, resp_Header = (\<lambda>_. ''''), resp_Body = '''', resp_Events = None\<rparr>"

theorem stream_serves_witness:
  "handler_stream sample_gateway sample_services sample_draws OperationResponses ''m'' sample_reply (sample_lease ''a'')
     [WakeTick, WakeEvents, WakeEvents] sample_loaded sample_world0 \<notin> {Panicking, Waiting}"
proof -
  have "no_leak sample_loaded sample_loaded (Some (sample_lease ''a''))" using sample_loaded_wf by (simp add: no_leak_def)
  moreover have "\<not> once_done (sample_lease ''a'')" by code_simp
  moreover have "length (stream_events sample_reply) < length (filter (\<lambda>x. x = WakeEvents) [WakeTick, WakeEvents, WakeEvents])" by code_simp
  ultimately show ?thesis
    using stream_serves [OF sample_loaded_wf, of sample_loaded "sample_lease ''a''" sample_gateway sample_services sample_draws
        OperationResponses "''m''" sample_reply "[WakeTick, WakeEvents, WakeEvents]" sample_world0] by auto
qed

text \<open>The lease of an answer that is not streamed is given back, or it is held by the poll of a job of its account.\<close>

lemma nonStream_no_leak:
  assumes "nonStream g sv d op m payload r l q w = (ans, job, q', w')" "no_leak p q (Some l)" "\<not> once_done l" "wf_pool p"
  shows "case job of None \<Rightarrow> no_leak p q' None
    | Some (st, j) \<Rightarrow> q' = q \<and> op = OperationVideo \<and> sv_videos sv = Some st \<and> vj_AccountID j = ID (lease_Account l) \<and> \<not> videoStatusTerminal (vj_Status j)"
proof -
  note gb = give_back_no_leak [OF assms(2,3) _ assms(4)]
  have start: "saveVideoAndStartPolling sv body l w = (Some (st, j), w1) \<Longrightarrow>
      sv_videos sv = Some st \<and> vj_AccountID j = ID (lease_Account l) \<and> \<not> videoStatusTerminal (vj_Status j)" for body w st j w1
    by (auto simp: saveVideoAndStartPolling_def case_prod_unfold Let_def split: option.splits if_splits)
  have pass: "case job of None \<Rightarrow> no_leak p q' None
    | Some (st, j) \<Rightarrow> q' = q \<and> op = OperationVideo \<and> sv_videos sv = Some st \<and> vj_AccountID j = ID (lease_Account l) \<and> \<not> videoStatusTerminal (vj_Status j)"
    if "pass_body g sv op r l q w = (ans, job, q', w')"
  proof -
    obtain b w1 where b: "localizeBody (sv_lib sv) (sv_media sv) op (resp_Body r) w = (b, w1)" by (rule prod.exhaust)
    show ?thesis
    proof (cases b)
      case (Inl e)
      with that b show ?thesis by (auto simp: pass_body_def case_prod_unfold Let_def dest: gb)
    next
      case (Inr body)
      obtain js w2 where js: "video_polling sv op body l w1 = (js, w2)" by (rule prod.exhaust)
      show ?thesis
      proof (cases js)
        case None
        with that b Inr js show ?thesis by (auto simp: pass_body_def case_prod_unfold Let_def dest: gb)
      next
        case (Some sj)
        obtain st j where "sj = (st, j)" by (rule prod.exhaust)
        with that b Inr js Some start [of body w1 st j w2] show ?thesis
          by (auto simp: pass_body_def video_polling_def Let_def split: if_splits)
      qed
    qed
  qed
  show ?thesis
  proof (cases "\<not> isConversational op \<and> json_valid (sv_lib sv) (resp_Body r) \<and> resp_Body r \<noteq> ''''")
    case True
    with assms(1) show ?thesis by (intro pass) (simp add: nonStream_def)
  next
    case False
    with assms(1) show ?thesis
      by (auto simp: nonStream_def Let_def split: prod.splits option.splits dest: gb)
  qed
qed

text \<open>C4: every request gives its account back. \<open>handleOperation\<close> with the writers of the answers returns; an error reply, a finished
  stream and an answer leave every in-flight counter as low as before, and the only lease that outlives the request is the one of a
  video job that is not finished, held by the background poll of that job, which belongs to the account of the lease.\<close>

theorem serve_operation_accounts:
  assumes "wf_pool p"
  shows "case serve_operation g sv d resolve key h op body ctxErr wakes p w of
      None \<Rightarrow> False
    | Some (ReplyError reply q w') \<Rightarrow> wf_pool q \<and> (\<forall>k. inflight_of q k \<le> inflight_of p k)
    | Some (ReplyStream out) \<Rightarrow>
        (case out of
           Panicking \<Rightarrow> False
         | Waiting \<Rightarrow> \<forall>e. WakeCancelled e \<notin> set wakes
         | Served fin oc q w' \<Rightarrow> wf_pool q \<and> (\<forall>k. inflight_of q k \<le> inflight_of p k))
    | Some (ReplyAnswer (ans, job, q, w')) \<Rightarrow>
        wf_pool q \<and> (case job of
           None \<Rightarrow> \<forall>k. inflight_of q k \<le> inflight_of p k
         | Some (st, j) \<Rightarrow> op = OperationVideo \<and> \<not> videoStatusTerminal (vj_Status j)
             \<and> (\<forall>k. inflight_of q k \<le> inflight_of p k + (if vj_AccountID j = k then 1 else 0)))"
proof -
  let ?m = "case check_request resolve op body of Inl _ \<Rightarrow> '''' | Inr model \<Rightarrow> model_ID model"
  let ?payload = "case body of Inl _ \<Rightarrow> [] | Inr (raw, payload) \<Rightarrow> payload"
  obtain out q w1 where h: "handleOperation g (ErrorText (sv_lib sv)) resolve key h op body ctxErr p w = Some (out, q, w1)"
    and o: "case out of
         Replied reply \<Rightarrow> no_leak p q None \<and> reply_status reply \<in> {400, 401, 403, 404, 429, 502}
       | Streaming r l \<Rightarrow> no_leak p q (Some l) \<and> isConversational op \<and> 200 \<le> resp_StatusCode r \<and> resp_StatusCode r < 300 \<and> \<not> once_done l
       | NonStreaming r l \<Rightarrow> no_leak p q (Some l) \<and> 200 \<le> resp_StatusCode r \<and> resp_StatusCode r < 300 \<and> \<not> once_done l"
    using handleOperation_safe [OF assms, of g "ErrorText (sv_lib sv)" resolve key h op body ctxErr w] by auto
  show ?thesis
  proof (cases out)
    case (Replied reply)
    with h o show ?thesis by (simp add: serve_operation_def no_leak_def)
  next
    case (Streaming r l)
    then have "no_leak p q (Some l)" "\<not> once_done l" using o by auto
    from handler_stream_safe [OF assms this, where g = g and sv = sv and d = d and op = op and m = ?m and r = r and wakes = wakes and w = w1] Streaming h show ?thesis
      by (auto simp: serve_operation_def ends_def no_leak_def split: served.split)
  next
    case (NonStreaming r l)
    then have nl: "no_leak p q (Some l)" "\<not> once_done l" using o by auto
    obtain ans job q' w2 where n: "nonStream g sv d op ?m ?payload r l q w1 = (ans, job, q', w2)" by (metis surj_pair)
    from nonStream_no_leak [OF n nl assms] n nl(1) NonStreaming h show ?thesis
      by (cases job) (simp_all add: serve_operation_def no_leak_def case_prod_unfold)
  qed
qed

theorem serve_operation_accounts_witness:
  "serve_operation sample_gateway sample_services sample_draws (\<lambda>_. Inr sample_model) None (\<lambda>_. '''') OperationChat
     (Inr (''{}'', [(''model'', JStr ''grok-4'')])) None [] sample_loaded sample_world0 \<noteq> None"
  using serve_operation_accounts [OF sample_loaded_wf, where g = sample_gateway and sv = sample_services and d = sample_draws
      and resolve = "\<lambda>_. Inr sample_model" and key = None and h = "\<lambda>_. ''''" and op = OperationChat
      and body = "Inr (''{}'', [(''model'', JStr ''grok-4'')])" and ctxErr = None and wakes = "[]" and w = sample_world0]
  by (auto split: option.splits)

end
