(* ===== verification/Video_Properties.thy ===== *)
theory Video_Properties
  imports Serve_Properties
begin

text \<open>
  The background poll of a video job: it ends before its context does, gives its lease back, and leaves the job in a final state;
  the exception is an upstream answer \<open>null\<close>, after which a failing poll panics.
\<close>

section \<open>The store of the jobs\<close>

text \<open>The context of the poll ends by its deadline only, not by a cancellation.\<close>

definition deadline_only :: "'w Services \<Rightarrow> bool" where
  "deadline_only sv \<longleftrightarrow> (\<forall>t w e. fst (poll_wait sv t w) = Some e \<longrightarrow> errors_is e DeadlineExceeded)"

text \<open>What the poll relies on: a job with an identifier is stored under it.\<close>

locale video_jobs =
  fixes save_video :: "VideoJob \<Rightarrow> 'w \<Rightarrow> error option \<times> 'w"
    and stored :: "'w \<Rightarrow> string \<Rightarrow> VideoJob option"
  assumes save_ok: "TrimSpace (vj_ID j) \<noteq> '''' \<Longrightarrow> fst (save_video j w) = None"
    and save_stored: "TrimSpace (vj_ID j) \<noteq> '''' \<Longrightarrow> stored (snd (save_video j w)) = (stored w)(vj_ID j \<mapsto> j)"
begin

text \<open>The job is final, still that of the account, and the feedback tells whether it failed.\<close>

definition settled :: "string \<Rightarrow> string \<Rightarrow> Feedback \<Rightarrow> 'w \<Rightarrow> bool" where
  "settled i acct fb w \<longleftrightarrow> (\<exists>j. stored w i = Some j \<and> vj_ID j = i \<and> vj_AccountID j = acct \<and> videoStatusTerminal (vj_Status j)
     \<and> (StatusCode fb = 200 \<longleftrightarrow> \<not> videoStatusFailed (vj_Status j)))"

fun tracked :: "string \<Rightarrow> string \<Rightarrow> poll_next \<times> 'w \<Rightarrow> bool" where
  "tracked i acct (PollAgain j timer, w) \<longleftrightarrow> vj_ID j = i \<and> vj_AccountID j = acct"
| "tracked i acct (PollEnd fb panicked, w) \<longleftrightarrow> panicked \<or> settled i acct fb w"

lemma failed_is_final: "videoStatusTerminal ''failed''" "videoStatusFailed ''failed''"
  by code_simp+

lemma poll_fails_tracked:
  assumes "SaveVideo st = save_video" "vj_ID job = i" "vj_AccountID job = acct" "TrimSpace i \<noteq> ''''" "StatusCode fb \<noteq> 200"
  shows "tracked i acct (poll_fails lib st job fb code message w)"
proof (cases "failed_job lib job code message")
  case None
  then show ?thesis by (simp add: poll_fails_def failVideoPolling_def)
next
  case (Some j)
  then have "vj_ID j = i" "vj_AccountID j = acct" "vj_Status j = ''failed''"
    using assms(2,3) by (auto simp: failed_job_def Let_def split: if_splits)
  with Some assms show ?thesis
    by (simp add: poll_fails_def failVideoPolling_def settled_def save_stored failed_is_final)
qed

lemma failure_status: "400 \<le> StatusCode (videoFailureFeedback lib payload)"
proof -
  have "400 \<le> upstream_status v" for v
    by (auto simp: upstream_status_def truncate_rat_def le_floor_iff split: json.split option.split)
  then show ?thesis
    by (simp add: videoFailureFeedback_def plain_feedback_def Let_def split: option.split)
qed

lemma poll_save_tracked:
  assumes "SaveVideo st = save_video" "vj_ID job = i" "vj_AccountID job = acct" "TrimSpace i \<noteq> ''''"
  shows "tracked i acct (poll_save g sv st r job found w)"
proof -
  define f where "f = found\<lparr>vj_ID := vj_ID job, vj_AccountID := vj_AccountID job,
    vj_StatusURL := (if vj_StatusURL found = '''' then vj_StatusURL job else vj_StatusURL found)\<rparr>"
  have f: "vj_ID f = i" "vj_AccountID f = acct" using assms by (simp_all add: f_def)
  have "fst (save_video f w) = None" "stored (snd (save_video f w)) i = Some f" using assms(4) f by (simp_all add: save_ok save_stored)
  moreover have "StatusCode (videoFailureFeedback (sv_lib sv) (vj_Payload f)) \<noteq> 200"
    using failure_status [of "sv_lib sv" "vj_Payload f"] by simp
  ultimately show ?thesis
    using f assms(1) unfolding poll_save_def f_def [symmetric] Let_def case_prod_unfold
    by (auto simp: settled_def plain_feedback_def)
qed

lemma poll_round_tracked:
  assumes "SaveVideo st = save_video" "vj_ID job = i" "vj_AccountID job = acct" "TrimSpace i \<noteq> ''''"
    and "deadline_only sv"
  shows "tracked i acct (poll_round g sv st l proxy job timer w)"
proof -
  note tr = poll_fails_tracked [OF assms(1-4)] poll_save_tracked [OF assms(1-4)]
  have answer: "tracked i acct (poll_answer g sv st r job w)" for r w
    using tr assms(2,3) by (auto simp: poll_answer_def poll_retry_def poll_rejected_def plain_feedback_def Let_def case_prod_unfold
        split: sum.split option.split)
  show ?thesis
    using tr answer assms(2,3,5) by (auto simp: poll_round_def poll_retry_def plain_feedback_def deadline_only_def Let_def case_prod_unfold
        split: sum.split option.split)
qed

lemma poll_loop_tracked:
  "SaveVideo st = save_video \<Longrightarrow> TrimSpace i \<noteq> '''' \<Longrightarrow> deadline_only sv \<Longrightarrow> tracked i acct nw \<Longrightarrow>
   poll_loop n g sv st l proxy nw = Some ((fb, False), w') \<Longrightarrow> settled i acct fb w'"
proof (induction n g sv st l proxy nw rule: poll_loop.induct)
  case (1 n g sv st l proxy fb' panicked w)
  then show ?case by simp
next
  case (2 g sv st l proxy job timer w)
  then show ?case by simp
next
  case (3 n g sv st l proxy job timer w)
  have "tracked i acct (poll_round g sv st l proxy job timer w)" using 3(2-5) by (intro poll_round_tracked) auto
  with 3 show ?case by simp
qed

end

section \<open>The in-memory store keeps the contract\<close>

text \<open>The in-memory store beside the rest of the world.\<close>

definition memory_videos :: "(MemoryVideoStore \<times> 'e) VideoStore" where
  "memory_videos = \<lparr>SaveVideo = (\<lambda>j w. (fst (mv_SaveVideo j (fst w)), (snd (mv_SaveVideo j (fst w)), snd w))),
     GetVideo = (\<lambda>i w. (fst (mv_GetVideo i (fst w)), w)), OpenVideoContent = (\<lambda>i w. (fst (mv_OpenVideoContent i (fst w)), w))\<rparr>"

interpretation memory: video_jobs "SaveVideo memory_videos" "\<lambda>w. jobs (fst w)"
  by unfold_locales (simp_all add: memory_videos_def mv_SaveVideo_def)

definition idle_gateway :: "'w Gateway" where
  "idle_gateway =
     \<lparr>gw_deps = \<lparr>dep_store = \<lparr>ListAccounts = (\<lambda>w. (Inr [], w)), store_Credentials = (\<lambda>_ w. (Inr zero_credentials, w)), UpdateAccount = (\<lambda>_ w. (None, w))\<rparr>,
                 coordinator = None, now_fn = (\<lambda>w. (0, w)), notifier = None\<rparr>,
      gw_config = normalize_config \<lparr>HeartbeatInterval = 0, MaxBodyBytes = 0, MaxAttempts = 0, VideoPollInterval = 0, VideoPollTimeout = 0\<rparr>,
      gw_Do = (\<lambda>r w. (Inr \<lparr>resp_StatusCode = 200, resp_Header = (\<lambda>_. ''''), resp_Body = ''null'', resp_Events = None\<rparr>, w)),
      gw_ProxyURL = None, gw_RefreshAccount = None, gw_OnCompletion = None,
      gw_parsers = \<lparr>ParseDuration = (\<lambda>_. None), ParseTime = (\<lambda>_. None), ParseRFC3339 = (\<lambda>_. None)\<rparr>,
      gw_lib = sample_lib\<rparr>"

definition sample_job :: VideoJob where
  "sample_job = \<lparr>vj_ID = ''v1'', vj_AccountID = ''a'', vj_Status = ''queued'', vj_StatusURL = '''', vj_Payload = ''{}''\<rparr>"

definition video_world :: "MemoryVideoStore \<times> nat" where
  "video_world = (NewMemoryVideoStore, 1)"

section \<open>Time\<close>

text \<open>
  The time a context has left, in a unit in which every wait for the timer takes at least one: waiting uses it up, and the
  other calls of the poll do not give any back.
\<close>

definition bounded_context :: "('w \<Rightarrow> nat) \<Rightarrow> 'w Gateway \<Rightarrow> 'w Services \<Rightarrow> 'w VideoStore \<Rightarrow> bool" where
  "bounded_context left g sv st \<longleftrightarrow>
     (\<forall>t w. fst (poll_wait sv t w) = None \<longrightarrow> left (snd (poll_wait sv t w)) < left w)
     \<and> (\<forall>r w. left (snd (gw_Do g r w)) \<le> left w) \<and> (\<forall>w. left (snd (poll_ctxErr sv w)) \<le> left w)
     \<and> (\<forall>j w. left (snd (SaveVideo st j w)) \<le> left w) \<and> (\<forall>w. left (snd (now_fn (gw_deps g) w)) \<le> left w)
     \<and> (\<forall>m k u w. sv_media sv = Some m \<longrightarrow> left (snd (Localize m k u w)) \<le> left w)
     \<and> (\<forall>f i w. gw_ProxyURL g = Some f \<longrightarrow> left (snd (f i w)) \<le> left w)"

lemma localize_left:
  fixes left :: "'w \<Rightarrow> nat"
  shows "(\<And>k u w. left (snd (Localize m k u w)) \<le> left w) \<Longrightarrow> left (snd (localizeValue m key kind v w)) \<le> left w"
    and "(\<And>k u w. left (snd (Localize m k u w)) \<le> left w) \<Longrightarrow> left (snd (localize_members m kind ms w)) \<le> left w"
    and "(\<And>k u w. left (snd (Localize m k u w)) \<le> left w) \<Longrightarrow> left (snd (localize_items m key kind xs w)) \<le> left w"
proof (induction m key kind v w and m kind ms w and m key kind xs w rule: localizeValue_localize_members_localize_items.induct, goal_cases)
  case (11 m kind k v ms w)
  note h = this
  obtain r w1 where v: "localizeValue m k kind v w = (r, w1)" by (rule prod.exhaust)
  from h(1) [OF h(3)] v have w1: "left w1 \<le> left w" by simp
  show ?case
  proof (cases r)
    case (Inr x)
    with h(2) [OF v [symmetric] refl Inr h(3)] w1 v show ?thesis by (simp add: case_prod_unfold Let_def)
  qed (use v w1 in simp)
next
  case (13 m key kind x xs w)
  note h = this
  obtain r w1 where v: "localizeValue m key kind x w = (r, w1)" by (rule prod.exhaust)
  from h(1) [OF h(3)] v have w1: "left w1 \<le> left w" by simp
  show ?case
  proof (cases r)
    case (Inr y)
    with h(2) [OF v [symmetric] refl Inr h(3)] w1 v show ?thesis by (simp add: case_prod_unfold Let_def)
  qed (use v w1 in simp)
qed (auto simp: localize_string_def case_prod_unfold Let_def)

lemma bounded_context_left:
  assumes "bounded_context left g sv st"
  shows "fst (poll_wait sv t w) = None \<Longrightarrow> left (snd (poll_wait sv t w)) < left w"
    and "left (snd (gw_Do g r w)) \<le> left w" and "left (snd (poll_ctxErr sv w)) \<le> left w"
    and "left (snd (SaveVideo st j w)) \<le> left w" and "left (snd (now_fn (gw_deps g) w)) \<le> left w"
    and "left (snd (localizeBody lib (sv_media sv) op b w)) \<le> left w"
    and "left (snd (resolve_proxy g l w)) \<le> left w"
  using assms by (auto simp: bounded_context_def localizeBody_def resolve_proxy_def case_prod_unfold Let_def localize_left split: option.split)

lemma poll_fails_ends: "\<exists>panicked w'. poll_fails lib st job fb code message w = (PollEnd fb panicked, w')"
  by (simp add: poll_fails_def case_prod_unfold Let_def)

lemma poll_save_left:
  "bounded_context left g sv st \<Longrightarrow> left (snd (poll_save g sv st r job found w)) \<le> left w"
  by (auto simp: poll_save_def case_prod_unfold Let_def intro: bounded_context_left order_trans [OF bounded_context_left(5) bounded_context_left(4)])

lemma poll_round_left:
  assumes "bounded_context left g sv st" "poll_round g sv st l proxy job timer w = (PollAgain job' timer', w')"
  shows "left w' < left w"
proof -
  note b = bounded_context_left [OF assms(1)]
  have nofail: "fst (poll_fails lib st job fb code message w1) \<noteq> PollAgain job' timer'" for lib fb code message w1
    using poll_fails_ends [of lib st job fb code message w1] by auto
  have nofail2: "poll_fails lib st job fb code message w1 \<noteq> (PollAgain job' timer', w')" for lib fb code message w1
    using nofail by (metis fst_conv)
  obtain w1 where wait: "poll_wait sv timer w = (None, w1)"
    using assms(2) nofail by (auto simp: poll_round_def case_prod_unfold Let_def prod_eq_iff split: option.splits if_splits)
  obtain r w2 where do: "gw_Do g (status_request l proxy job) w1 = (r, w2)" by (rule prod.exhaust)
  have w2: "left w2 < left w" using b(1) [of timer w] b(2) [of "status_request l proxy job" w1] wait do by simp
  have retry: "left (snd (poll_retry sv i job w3)) \<le> left w3" for i w3 using b(3) by (simp add: poll_retry_def case_prod_unfold Let_def)
  have answer: "poll_answer g sv st x job w2 = (PollAgain job' timer', w') \<Longrightarrow> left w' \<le> left w2" for x
  proof -
    assume a: "poll_answer g sv st x job w2 = (PollAgain job' timer', w')"
    have lb: "left (snd (localizeBody (sv_lib sv) (sv_media sv) OperationVideoStatus (resp_Body x) w2)) \<le> left w2" by (rule b(6))
    show "left w' \<le> left w2"
      using a nofail2 lb b(5) [of w2] retry order_trans [OF _ lb] poll_save_left [OF assms(1)]
      by (auto simp: poll_answer_def case_prod_unfold Let_def split: if_splits sum.splits option.splits) (metis order_trans snd_conv)+
  qed
  show ?thesis
  proof (cases r)
    case (Inl e)
    with assms(2) wait do retry [of "VideoPollInterval (gw_config g)" w2] w2 show ?thesis by (simp add: poll_round_def)
  next
    case (Inr x)
    with assms(2) wait do answer [of x] w2 show ?thesis by (simp add: poll_round_def)
  qed
qed

lemma poll_loop_ends:
  "bounded_context left g sv st \<Longrightarrow> left (snd nw) < n \<Longrightarrow> poll_loop n g sv st l proxy nw \<noteq> None"
proof (induction n g sv st l proxy nw rule: poll_loop.induct)
  case (3 n g sv st l proxy job timer w)
  obtain nxt w' where r: "poll_round g sv st l proxy job timer w = (nxt, w')" by (rule prod.exhaust)
  show ?case
  proof (cases nxt)
    case (PollAgain j t)
    with r 3(2) have "left w' < left w" by (intro poll_round_left) auto
    with 3 r show ?thesis by simp
  qed (simp add: r)
qed auto

text \<open>C9: a poll ends and leaves a final job. When every wait for the timer uses up some of the time its context has left, and the context ends by its deadline
  only, the loop ends within that time; unless it panicked, the in-memory store then holds the job under its identifier with a final status and the
  account it started with, and the feedback for that account is 200 exactly when the job did not fail.\<close>

theorem poll_settles:
  assumes "bounded_context left g sv memory_videos" "left w < n" "deadline_only sv" "TrimSpace (vj_ID job) \<noteq> ''''"
  shows "\<exists>fb panicked w'. poll_loop n g sv memory_videos l proxy (PollAgain job timer, w) = Some ((fb, panicked), w')
    \<and> (panicked \<or> (\<exists>j. jobs (fst w') (vj_ID job) = Some j \<and> vj_ID j = vj_ID job \<and> vj_AccountID j = vj_AccountID job
         \<and> videoStatusTerminal (vj_Status j) \<and> (StatusCode fb = 200 \<longleftrightarrow> \<not> videoStatusFailed (vj_Status j))))"
proof -
  have "poll_loop n g sv memory_videos l proxy (PollAgain job timer, w) \<noteq> None" using assms(2) by (intro poll_loop_ends [OF assms(1)]) simp
  then obtain fb panicked w' where r: "poll_loop n g sv memory_videos l proxy (PollAgain job timer, w) = Some ((fb, panicked), w')" by auto
  have "panicked \<or> memory.settled (vj_ID job) (vj_AccountID job) fb w'"
    using memory.poll_loop_tracked [OF refl assms(4,3), of "vj_AccountID job" "(PollAgain job timer, w)" n g l proxy fb w'] r by (cases panicked) simp_all
  with r show ?thesis by (auto simp: memory.settled_def)
qed

text \<open>The poll of a video job ends and gives its lease back. When every wait for the timer uses up some of the time its context
  has left, the poll ends within that time, with or without a panic, and afterwards no in-flight counter is higher than before the
  lease was taken.\<close>

theorem poll_releases:
  assumes "bounded_context left g sv st" "left w < n" "wf_pool p" "no_leak p q (Some l)" "\<not> once_done l"
  shows "\<exists>fb panicked q' w'. pollVideo n g sv st job l q w = Some ((fb, panicked), q', w')
    \<and> wf_pool q' \<and> (\<forall>k. inflight_of q' k \<le> inflight_of p k)"
proof -
  obtain pr w1 where pr: "resolve_proxy g l w = (pr, w1)" by (rule prod.exhaust)
  define proxy where "proxy = (case pr of Inl e \<Rightarrow> '''' | Inr x \<Rightarrow> x)"
  define start where "start = (case pr of
      Inl e \<Rightarrow> poll_fails (sv_lib sv) st job (plain_feedback 502 (Some e)) ''video_poll_proxy_error'' ''Failed to resolve the video account proxy'' w1
    | Inr x \<Rightarrow> (PollAgain job (Some (VideoPollInterval (gw_config g))), w1))"
  have "poll_loop n g sv st l proxy start \<noteq> None"
  proof (cases pr)
    case (Inl e)
    obtain panicked w2 where "start = (PollEnd (plain_feedback 502 (Some e)) panicked, w2)"
      using poll_fails_ends [of "sv_lib sv" st job "plain_feedback 502 (Some e)" "''video_poll_proxy_error''"
          "''Failed to resolve the video account proxy''" w1] Inl by (auto simp: start_def)
    then show ?thesis by simp
  next
    case (Inr x)
    have "left w1 < n" using bounded_context_left(7) [OF assms(1), of l w] assms(2) pr by simp
    with Inr show ?thesis by (intro poll_loop_ends [OF assms(1)]) (simp add: start_def)
  qed
  then obtain fb panicked w3 where lo: "poll_loop n g sv st l proxy start = Some ((fb, panicked), w3)" by auto
  obtain q' w' where gb: "give_back (gw_deps g) l fb q w3 = (q', w')" by (rule prod.exhaust)
  have "pollVideo n g sv st job l q w = Some ((fb, panicked), q', w')"
    using pr lo gb by (auto simp: pollVideo_def proxy_def start_def split: sum.splits)
  moreover have "no_leak p q' None" using assms(4,5) gb assms(3) by (rule give_back_no_leak)
  ultimately show ?thesis by (simp add: no_leak_def)
qed

text \<open>A world that counts the rounds left until the deadline.\<close>

definition counting_services :: "(MemoryVideoStore \<times> nat) Services" where
  "counting_services = \<lparr>sv_lib = \<lparr>DecodeAny = (\<lambda>s. if s = ''null'' then Some JNull else if s = ''{}'' then Some (JObj []) else None),
       EncodeAny = (\<lambda>_. ''{}''), Base64Valid = (\<lambda>_. True), ErrorText = (\<lambda>_. '''')\<rparr>,
     sv_media = None, sv_videos = Some memory_videos, sv_background = True,
     poll_wait = (\<lambda>t w. if snd w = 0 then (Some DeadlineExceeded, w) else (None, (fst w, snd w - 1))), poll_ctxErr = (\<lambda>w. (None, w))\<rparr>"

theorem poll_releases_witness:
  "\<exists>fb panicked q' w'. pollVideo 2 idle_gateway counting_services memory_videos sample_job (sample_lease ''a'') sample_loaded video_world
     = Some ((fb, panicked), q', w') \<and> wf_pool q'"
proof -
  have "bounded_context snd idle_gateway counting_services memory_videos"
    by (simp add: bounded_context_def idle_gateway_def counting_services_def memory_videos_def)
  moreover have "snd video_world < 2" "\<not> once_done (sample_lease ''a'')" by code_simp+
  moreover have "no_leak sample_loaded sample_loaded (Some (sample_lease ''a''))" using sample_loaded_wf by (simp add: no_leak_def)
  ultimately show ?thesis using poll_releases [of snd idle_gateway counting_services memory_videos video_world 2 sample_loaded sample_loaded
      "sample_lease ''a''" sample_job] sample_loaded_wf by blast
qed

theorem poll_settles_witness:
  "\<exists>fb panicked w'. poll_loop 2 idle_gateway counting_services memory_videos (sample_lease ''a'') '''' (PollAgain sample_job None, video_world) = Some ((fb, panicked), w')
     \<and> (panicked \<or> (\<exists>j. jobs (fst w') ''v1'' = Some j \<and> videoStatusTerminal (vj_Status j)))"
proof -
  have b: "bounded_context snd idle_gateway counting_services memory_videos"
    by (simp add: bounded_context_def idle_gateway_def counting_services_def memory_videos_def)
  have d: "deadline_only counting_services" by (simp add: deadline_only_def counting_services_def)
  have i: "snd video_world < 2" "TrimSpace (vj_ID sample_job) \<noteq> ''''" "vj_ID sample_job = ''v1''" by code_simp+
  from poll_settles [OF b i(1) d i(2), of "sample_lease ''a''" "''''" None] show ?thesis unfolding i(3) by blast
qed

section \<open>A null answer\<close>

lemma null_job:
  assumes "DecodeAny lib body = Some JNull" "TrimSpace i \<noteq> ''''"
  shows "videoJobFromPayload lib body i = Some \<lparr>vj_ID = TrimSpace i, vj_AccountID = '''', vj_Status = ''queued'', vj_StatusURL = '''', vj_Payload = body\<rparr>"
proof -
  have "TrimSpace '''' = ''''" by code_simp
  with assms show ?thesis
    by (simp add: videoJobFromPayload_def decode_object_def nested_objects_def map_filter_simps read_candidate_def jget_def as_object_def
        as_string_def Let_def)
qed

text \<open>An upstream answer \<open>null\<close> makes the poll panic later. A status answer with this body is accepted as the state of the
  job, which stays unfinished, and recording any failure of a job with this payload stores a member in a map that is
  \<open>nil\<close>: the background goroutine panics, which ends the process, and the stored job is left without a final status.\<close>

theorem null_answer_panics:
  assumes "DecodeAny lib body = Some JNull" "TrimSpace (vj_ID job) \<noteq> ''''"
  shows "\<exists>found. videoJobFromPayload lib body (vj_ID job) = Some found \<and> \<not> videoStatusTerminal (vj_Status found)
    \<and> (\<forall>j. vj_Payload j = vj_Payload found \<longrightarrow> failVideoPolling lib st j code message w = (True, w))"
proof -
  have "\<not> videoStatusTerminal ''queued''" by code_simp
  with null_job [OF assms] assms(1) show ?thesis by (simp add: failVideoPolling_def failed_job_def)
qed

theorem null_answer_panics_witness:
  "\<exists>found. videoJobFromPayload (sv_lib counting_services) ''null'' (vj_ID sample_job) = Some found \<and> \<not> videoStatusTerminal (vj_Status found)
    \<and> fst (failVideoPolling (sv_lib counting_services) memory_videos found ''code'' ''message'' video_world)"
proof -
  have "DecodeAny (sv_lib counting_services) ''null'' = Some JNull" by (simp add: counting_services_def)
  moreover have "TrimSpace (vj_ID sample_job) \<noteq> ''''" by code_simp
  ultimately show ?thesis using null_answer_panics [of "sv_lib counting_services" "''null''" sample_job memory_videos "''code''" "''message''" video_world] by fastforce
qed

text \<open>The run: one answer \<open>null\<close>, then the deadline; the poll ends with a panic and the stored job is still queued.\<close>

lemma null_answer_run:
  "\<exists>fb w'. poll_loop 2 idle_gateway counting_services memory_videos (sample_lease ''a'') '''' (PollAgain sample_job None, video_world) = Some ((fb, True), w')
     \<and> map_option vj_Status (jobs (fst w') ''v1'') = Some ''queued''"
proof -
  have t: "TrimSpace '''' = ''''" "TrimSpace ''v1'' = ''v1''" "TrimSpace ''null'' = ''null''" "\<not> videoStatusTerminal ''queued''" by code_simp+
  have job: "videoJobFromPayload (sv_lib counting_services) ''null'' ''v1'' =
      Some \<lparr>vj_ID = ''v1'', vj_AccountID = '''', vj_Status = ''queued'', vj_StatusURL = '''', vj_Payload = ''null''\<rparr>"
    using null_job [of "sv_lib counting_services" "''null''" "''v1''"] t(2) by (simp add: counting_services_def)
  have r1: "\<exists>timer. poll_round idle_gateway counting_services memory_videos (sample_lease ''a'') '''' sample_job None video_world =
      (PollAgain (sample_job\<lparr>vj_Payload := ''null''\<rparr>) timer, (NewMemoryVideoStore\<lparr>jobs := [''v1'' \<mapsto> sample_job\<lparr>vj_Payload := ''null''\<rparr>]\<rparr>, 0))"
    using job t by (simp add: poll_round_def video_world_def poll_answer_def poll_save_def json_valid_def localizeBody_def sample_job_def
        idle_gateway_def memory_videos_def mv_SaveVideo_def NewMemoryVideoStore_def counting_services_def Let_def)
  have "\<exists>fb. poll_round idle_gateway counting_services memory_videos (sample_lease ''a'') '''' (sample_job\<lparr>vj_Payload := ''null''\<rparr>) timer (st, 0) =
      (PollEnd fb True, (st, 0))" for timer st
    by (simp add: poll_round_def poll_fails_def failVideoPolling_def failed_job_def counting_services_def)
  with r1 obtain timer fb where "poll_round idle_gateway counting_services memory_videos (sample_lease ''a'') '''' sample_job None video_world =
      (PollAgain (sample_job\<lparr>vj_Payload := ''null''\<rparr>) timer, (NewMemoryVideoStore\<lparr>jobs := [''v1'' \<mapsto> sample_job\<lparr>vj_Payload := ''null''\<rparr>]\<rparr>, 0))"
    "poll_round idle_gateway counting_services memory_videos (sample_lease ''a'') '''' (sample_job\<lparr>vj_Payload := ''null''\<rparr>) timer
       (NewMemoryVideoStore\<lparr>jobs := [''v1'' \<mapsto> sample_job\<lparr>vj_Payload := ''null''\<rparr>]\<rparr>, 0) =
      (PollEnd fb True, (NewMemoryVideoStore\<lparr>jobs := [''v1'' \<mapsto> sample_job\<lparr>vj_Payload := ''null''\<rparr>]\<rparr>, 0))" by blast
  then show ?thesis by (simp add: numeral_2_eq_2) (simp add: sample_job_def)
qed

end
