(* ===== verification/Tool_Names.thy ===== *)
theory Tool_Names
  imports Upstream_Json "HOL-Library.AList"
begin

text \<open>
  Tool names (\<open>internal/upstream/tool_names.go\<close>): the upstream accepts names of at most 64 characters, so longer names are sent
  under an alias and the names of the calls that come back are restored.

  \<^item> \<open>runes\<close> is the conversion of a string to its runes: a list of the UTF-8 encodings, with the replacement character for every
    byte that starts no valid encoding.
  \<^item> The set \<open>used\<close> is the list of the aliases given so far; it is threaded through the calls that share it.
  \<^item> The aliases of a namespace are visited in the order of a Go map, which may differ from one run to the next: the argument
    \<open>visit\<close> gives the order in which the entries are visited.
\<close>

section \<open>Runes\<close>

definition cont_byte :: "char \<Rightarrow> bool" where
  "cont_byte c \<longleftrightarrow> CHR 0x80 \<le> c \<and> c \<le> CHR 0xBF"

definition between :: "char \<Rightarrow> char \<Rightarrow> char \<Rightarrow> bool" where
  "between a b c \<longleftrightarrow> a \<le> c \<and> c \<le> b"

text \<open>The range of the second byte, and how many bytes follow the first one.\<close>

definition second_byte :: "char \<Rightarrow> char \<Rightarrow> bool" where
  "second_byte c0 c1 =
     (if c0 = CHR 0xE0 then between (CHR 0xA0) (CHR 0xBF) c1
      else if c0 = CHR 0xED then between (CHR 0x80) (CHR 0x9F) c1
      else if c0 = CHR 0xF0 then between (CHR 0x90) (CHR 0xBF) c1
      else if c0 = CHR 0xF4 then between (CHR 0x80) (CHR 0x8F) c1
      else cont_byte c1)"

definition following :: "char \<Rightarrow> nat" where
  "following c0 =
     (if between (CHR 0xC2) (CHR 0xDF) c0 then 1
      else if between (CHR 0xE0) (CHR 0xEF) c0 then 2
      else if between (CHR 0xF0) (CHR 0xF4) c0 then 3 else 0)"

definition replacement :: string where
  "replacement = [CHR 0xEF, CHR 0xBF, CHR 0xBD]"

text \<open>The number of bytes of the first rune.\<close>

definition rune_width :: "char \<Rightarrow> string \<Rightarrow> nat" where
  "rune_width c0 s =
     (if c0 < CHR 0x80 then 1
      else (let n = following c0
            in if 0 < n \<and> n \<le> length s \<and> second_byte c0 (hd s) \<and> list_all cont_byte (take (n - 1) (tl s)) then Suc n else 0))"

function runes :: "string \<Rightarrow> string list" where
  "runes [] = []"
| "runes (c # s) =
     (let n = rune_width c s in if n = 0 then replacement # runes s else take n (c # s) # runes (drop n (c # s)))"
  by pat_completeness auto
termination by (relation "measure length") auto

definition RuneCount :: "string \<Rightarrow> int" where
  "RuneCount s = int (length (runes s))"

definition truncateRunes :: "string \<Rightarrow> int \<Rightarrow> string" where
  "truncateRunes value maximum =
     (if maximum \<le> 0 then ''''
      else if RuneCount value \<le> maximum then value
      else concat (take (nat maximum) (runes value)))"

section \<open>Aliases\<close>

text \<open>\<open>strings.LastIndex\<close> of two underscores: the text after the last one.\<close>

fun after_last_mark :: "string \<Rightarrow> string option" where
  "after_last_mark [] = None"
| "after_last_mark (c # s) =
     (case after_last_mark s of
        Some t \<Rightarrow> Some t
      | None \<Rightarrow> if HasPrefix (c # s) ''__'' then Some (drop 2 (c # s)) else None)"

definition preferredToolAlias :: "string \<Rightarrow> string" where
  "preferredToolAlias name =
     (if RuneCount name \<le> 64 then name
      else if HasPrefix name ''mcp__''
      then (case after_last_mark (drop 5 name) of
              Some t \<Rightarrow> truncateRunes (''mcp__'' @ t) 64
            | None \<Rightarrow> truncateRunes name 64)
      else truncateRunes name 64)"

definition numbered_alias :: "string \<Rightarrow> nat \<Rightarrow> string" where
  "numbered_alias base suffix =
     (let marker = ''_'' @ FormatInt (int suffix) in truncateRunes base (64 - RuneCount marker) @ marker)"

lemma digits_no_mark: "CHR ''_'' \<notin> set (dec_nat n)"
proof (induction n rule: dec_nat.induct)
  case (1 n)
  have d: "digit k \<noteq> CHR ''_''" if "k < 10" for k using that by (auto simp: digit_def char_of_eq_iff take_bit_eq_mod)
  from 1 d [symmetric] show ?case by (cases "n < 10") (simp_all add: dec_nat.simps [of n])
qed

lemma split_at_mark:
  assumes "x @ CHR ''_'' # s = y @ CHR ''_'' # t" "CHR ''_'' \<notin> set s" "CHR ''_'' \<notin> set t"
  shows "s = t"
proof -
  have "takeWhile (\<lambda>c. c \<noteq> CHR ''_'') (rev (u @ CHR ''_'' # v)) = rev v" if "CHR ''_'' \<notin> set v" for u v
    using that by (simp add: takeWhile_append)
  with assms show ?thesis by (metis rev_is_rev_conv)
qed

lemma numbered_alias_inj: "inj (numbered_alias base)"
proof (rule injI)
  fix m n
  assume "numbered_alias base m = numbered_alias base n"
  then have "dec_nat m = dec_nat n"
    by (auto simp: numbered_alias_def Let_def FormatInt_def dest!: split_at_mark simp: digits_no_mark)
  then show "m = n" using parse_dec_nat by (metis option.inject)
qed

text \<open>The loop over the suffixes ends because the numbered aliases are pairwise different and only finitely many are used.\<close>

function alias_from :: "string \<Rightarrow> string list \<Rightarrow> nat \<Rightarrow> string" where
  "alias_from base used suffix =
     (if numbered_alias base suffix \<in> set used then alias_from base used (suffix + 1) else numbered_alias base suffix)"
  by pat_completeness auto
termination
proof (relation "measure (\<lambda>(base, used, suffix). card {k. suffix \<le> k \<and> numbered_alias base k \<in> set used})", goal_cases)
  case (2 base used suffix)
  let ?S = "\<lambda>n. {k. n \<le> k \<and> numbered_alias base k \<in> set used}"
  have "finite (numbered_alias base -` set used)" by (rule finite_vimageI [OF _ numbered_alias_inj]) simp
  then have "finite (?S suffix)" by (rule rev_finite_subset) auto
  moreover have "?S (suffix + 1) \<subset> ?S suffix" using 2 by (auto simp: psubset_eq set_eq_iff intro!: exI [of _ suffix])
  ultimately have "card (?S (suffix + 1)) < card (?S suffix)" by (rule psubset_card_mono)
  then show ?case by simp
qed simp

declare alias_from.simps [simp del]

definition uniqueToolAlias :: "string \<Rightarrow> string list \<Rightarrow> string \<times> string list" where
  "uniqueToolAlias base used = (let a = (if base \<in> set used then alias_from base used 1 else base) in (a, a # used))"

text \<open>The weight of a value counts its nodes; a member weighs less than its object.\<close>

fun weight :: "json \<Rightarrow> nat" and weight_members :: "object \<Rightarrow> nat" and weight_items :: "json list \<Rightarrow> nat" where
  "weight (JObj m) = Suc (weight_members m)"
| "weight (JArr xs) = Suc (weight_items xs)"
| "weight _ = 1"
| "weight_members [] = 0"
| "weight_members ((k, v) # m) = weight v + weight_members m"
| "weight_items [] = 0"
| "weight_items (x # xs) = weight x + weight_items xs"

lemma weight_pos [simp]: "0 < weight v"
  by (cases v) auto

lemma weight_jget: "weight_items (valueArray (jget m k)) \<le> weight_members m"
proof (induction m)
  case Nil
  show ?case by (simp add: jget_def valueArray_def)
next
  case (Cons kv m)
  obtain k' v where kv: "kv = (k', v)" by (rule prod.exhaust)
  have "weight_items (valueArray v) \<le> weight v" by (cases v) (auto simp: valueArray_def)
  with Cons kv show ?case by (auto simp: jget_def)
qed

definition tool_name :: "Operation \<Rightarrow> object \<Rightarrow> string" where
  "tool_name op tool =
     (case as_object (jget tool ''function'') of
        Some f \<Rightarrow> stringValue f [''name'']
      | None \<Rightarrow>
          if op = OperationMessages \<or> jget tool ''type'' = JStr ''function'' \<or> jget tool ''type'' = JStr ''custom''
          then stringValue tool [''name''] else '''')"

text \<open>\<open>aliases[original] = uniqueToolAlias(base, used)\<close>.\<close>

type_synonym aliasing = "(string \<times> string) list \<times> string list"

definition add_alias :: "string \<Rightarrow> string \<Rightarrow> aliasing \<Rightarrow> aliasing" where
  "add_alias original base st =
     (let (aliases, used) = st; (a, used) = uniqueToolAlias base used in (AList.update original a aliases, used))"

function tool_aliases :: "((string \<times> string) list \<Rightarrow> (string \<times> string) list) \<Rightarrow> Operation \<Rightarrow> json list \<Rightarrow> aliasing \<Rightarrow> aliasing" where
  "tool_aliases visit op [] st = st"
| "tool_aliases visit op (raw # tools) st =
     (case as_object raw of
        None \<Rightarrow> tool_aliases visit op tools st
      | Some tool \<Rightarrow>
          if jget tool ''type'' = JStr ''namespace''
          then (let nested = fst (tool_aliases visit op (valueArray (jget tool ''tools'')) ([], []))
                in tool_aliases visit op tools (fold (\<lambda>(original, base). add_alias original base) (visit nested) st))
          else if tool_name op tool = '''' then tool_aliases visit op tools st
          else tool_aliases visit op tools (add_alias (tool_name op tool) (preferredToolAlias (tool_name op tool)) st))"
  by pat_completeness auto
termination
proof (relation "measure (\<lambda>(visit, op, tools, st). weight_items tools)", goal_cases)
  case (3 visit op raw tools st tool)
  then have "raw = JObj tool" by (cases raw) (auto simp: as_object_def)
  then show ?case using weight_jget [of tool "''tools''"] by (simp add: le_imp_less_Suc trans_le_add1)
qed auto

definition buildToolAliases :: "((string \<times> string) list \<Rightarrow> (string \<times> string) list) \<Rightarrow> json list \<Rightarrow> Operation \<Rightarrow> (string \<times> string) list" where
  "buildToolAliases visit tools op = fst (tool_aliases visit op tools ([], []))"

section \<open>Applying and restoring\<close>

text \<open>The alias of a name; the empty string when it has none.\<close>

definition alias_of :: "(string \<times> string) list \<Rightarrow> string \<Rightarrow> string" where
  "alias_of aliases name = (case map_of aliases name of None \<Rightarrow> '''' | Some a \<Rightarrow> a)"

definition rename :: "(string \<times> string) list \<Rightarrow> object \<Rightarrow> object" where
  "rename aliases m =
     (let a = alias_of aliases (stringValue m [''name'']) in if a \<noteq> '''' then AList.update ''name'' (JStr a) m else m)"

definition rename_typed :: "string \<Rightarrow> (string \<times> string) list \<Rightarrow> json \<Rightarrow> json" where
  "rename_typed kind aliases raw =
     (case as_object raw of
        Some m \<Rightarrow> if jget m ''type'' = JStr kind then JObj (rename aliases m) else raw
      | None \<Rightarrow> raw)"

text \<open>\<open>payload[key] = f(payload[key])\<close> for a key that is present.\<close>

definition modify_member :: "string \<Rightarrow> (json \<Rightarrow> json) \<Rightarrow> object \<Rightarrow> object" where
  "modify_member key f payload = (case map_of payload key of None \<Rightarrow> payload | Some v \<Rightarrow> AList.update key (f v) payload)"

definition map_items :: "(json \<Rightarrow> json) \<Rightarrow> json \<Rightarrow> json" where
  "map_items f v = (case v of JArr xs \<Rightarrow> JArr (map f xs) | _ \<Rightarrow> v)"

definition applyToolAliases :: "object \<Rightarrow> (string \<times> string) list \<Rightarrow> object" where
  "applyToolAliases payload aliases =
     (if aliases = [] then payload
      else modify_member ''tool_choice'' (\<lambda>v. case as_object v of Some m \<Rightarrow> JObj (rename aliases m) | None \<Rightarrow> v)
             (modify_member ''input'' (map_items (rename_typed ''function_call'' aliases))
               (modify_member ''tools'' (map_items (rename_typed ''function'' aliases)) payload)))"

text \<open>
  The names by which the calls of the answer are restored. \<open>UseNumber\<close> decoding is the member of the library; a request without a
  credential kind does not reach the client.
\<close>

definition requestToolReverseNames :: "UpstreamLib \<Rightarrow> ((string \<times> string) list \<Rightarrow> (string \<times> string) list) \<Rightarrow> Request \<Rightarrow> (string \<rightharpoonup> string)" where
  "requestToolReverseNames lib visit request =
     (if req_Body request = '''' then Map.empty
      else (case Unmarshal lib (req_Body request) of
              None \<Rightarrow> Map.empty
            | Some source \<Rightarrow>
                map_of (map (\<lambda>(original, a). (a, original)) (buildToolAliases visit (valueArray (jget source ''tools'')) (req_Operation request)))))"

end
