(* ===== verification/Payload.thy ===== *)
theory Payload
  imports Tool_Names
begin

text \<open>
  The request bodies of the upstream (\<open>internal/upstream/payload.go\<close> and the prompt helpers of \<open>http_client.go\<close>).

  A JSON object is an association list: \<open>m[k] = v\<close> is an update, \<open>delete(m, k)\<close> a deletion. \<open>cloneMapValue\<close> is the
  identity: the objects that are changed are copies, so values suffice. A Go \<open>int\<close> placed in a payload is the
  number with its decimal text. Model, role and effort names are ASCII, for which \<open>ToLower\<close> is exact.
\<close>

definition num :: "int \<Rightarrow> json" where
  "num n = JNumber (FormatInt n)"

abbreviation set_to :: "string \<Rightarrow> json \<Rightarrow> object \<Rightarrow> object" where
  "set_to k v m \<equiv> AList.update k v m"

abbreviation drop_key :: "string \<Rightarrow> object \<Rightarrow> object" where
  "drop_key k m \<equiv> AList.delete k m"

text \<open>\<open>if value, ok := source[key]; ok { result[key] = value }\<close> for each of the keys.\<close>

fun copy_keys :: "string list \<Rightarrow> object \<Rightarrow> object \<Rightarrow> object" where
  "copy_keys [] source result = result"
| "copy_keys (k # ks) source result =
     copy_keys ks source (case map_of source k of Some v \<Rightarrow> set_to k v result | None \<Rightarrow> result)"

section \<open>Prompts\<close>

text \<open>The first of the keys that is present.\<close>

fun first_member :: "object \<Rightarrow> string list \<Rightarrow> json option" where
  "first_member m [] = None"
| "first_member m (k # ks) = (case map_of m k of Some v \<Rightarrow> Some v | None \<Rightarrow> first_member m ks)"

lemma weight_map_of: "map_of m k = Some v \<Longrightarrow> weight v \<le> weight_members m"
  by (induction m) (auto split: if_splits)

lemma weight_first_member: "first_member m ks = Some v \<Longrightarrow> weight v \<le> weight_members m"
  by (induction ks) (auto split: option.splits dest: weight_map_of)

function collectText :: "json \<Rightarrow> string list" and collect_items :: "json list \<Rightarrow> string list" where
  "collectText v =
     (case v of
        JStr s \<Rightarrow> if TrimSpace s \<noteq> '''' then [s] else []
      | JArr xs \<Rightarrow> collect_items xs
      | JObj m \<Rightarrow>
          (let role = as_string (jget m ''role'')
           in if role \<noteq> ''''
              then (case map_of m ''content'' of
                      None \<Rightarrow> []
                    | Some content \<Rightarrow>
                        (case collectText content of
                           [] \<Rightarrow> []
                         | p # ps \<Rightarrow> (''['' @ role @ ''] '' @ p) # ps))
              else (case first_member m [''text'', ''input_text'', ''prompt'', ''content''] of
                      None \<Rightarrow> []
                    | Some item \<Rightarrow> collectText item))
      | _ \<Rightarrow> [])"
| "collect_items [] = []"
| "collect_items (x # xs) = collectText x @ collect_items xs"
  by pat_completeness auto
termination
  by (relation "measure (case_sum (\<lambda>v. 2 * weight v) (\<lambda>xs. 2 * weight_items xs + 1))") (auto dest: weight_map_of weight_first_member simp: less_Suc_eq_le Suc_le_eq simp del: first_member.simps)

declare collectText.simps [simp del]

definition systemText :: "json \<Rightarrow> string" where
  "systemText value = Join (collectText value) [CHR 0x0A]"

definition extractPrompt :: "Operation \<Rightarrow> object \<Rightarrow> string" where
  "extractPrompt op payload =
     (let value = (case op of
                     OperationResponses \<Rightarrow> jget payload ''input''
                   | OperationImage \<Rightarrow> jget payload ''prompt''
                   | OperationImageEdit \<Rightarrow> jget payload ''prompt''
                   | OperationVideo \<Rightarrow> jget payload ''prompt''
                   | _ \<Rightarrow> jget payload ''messages'');
          parts = collectText value;
          parts = (case map_of payload ''system'' of Some system \<Rightarrow> systemText system # parts | None \<Rightarrow> parts)
      in TrimSpace (Join parts [CHR 0x0A, CHR 0x0A]))"

definition grokMode :: "string \<Rightarrow> string" where
  "grokMode m =
     (let lower = ToLower m
      in if lower \<in> {''auto'', ''fast'', ''expert'', ''heavy'', ''grok-420-computer-use-sa''} then lower
         else if Contains lower ''heavy'' \<or> Contains lower ''multi-agent'' then ''heavy''
         else if Contains lower ''reasoning'' \<or> Contains lower ''expert'' then ''expert''
         else if Contains lower ''fast'' \<or> Contains lower ''non-reasoning'' then ''fast''
         else ''auto'')"

section \<open>Content\<close>

definition normalizedImage :: "object \<Rightarrow> json option" where
  "normalizedImage item =
     (let value = jget item ''image_url'';
          value = (case as_object value of Some source \<Rightarrow> jget source ''url'' | None \<Rightarrow> value);
          value = (if stringValue item [''type''] = ''image''
                   then (case as_object (jget item ''source'') of
                           Some source \<Rightarrow>
                             if jget source ''type'' = JStr ''base64''
                             then JStr (''data:'' @ stringValue source [''media_type''] @ '';base64,'' @ stringValue source [''data''])
                             else jget source ''url''
                         | None \<Rightarrow> value)
                   else value);
          text = as_string value
      in if TrimSpace text = '''' then None else Some (JObj [(''type'', JStr ''input_image''), (''image_url'', JStr text)]))"

fun file_members :: "string list \<Rightarrow> object \<Rightarrow> object" where
  "file_members [] source = []"
| "file_members (k # ks) source =
     (let v = jget source k in if v \<noteq> JNull \<and> v \<noteq> JStr '''' then (k, v) # file_members ks source else file_members ks source)"

definition normalizedFile :: "object \<Rightarrow> json option" where
  "normalizedFile item =
     (let source = (case as_object (jget item ''file'') of Some m \<Rightarrow> m | None \<Rightarrow> item);
          members = file_members [''file_id'', ''file_data'', ''file_url'', ''filename''] source
      in if members = [] then None else Some (JObj ((''type'', JStr ''input_file'') # members)))"

definition normalizedAudio :: "object \<Rightarrow> json option" where
  "normalizedAudio item =
     (case as_object (jget item ''input_audio'') of
        None \<Rightarrow> None
      | Some source \<Rightarrow>
          if stringValue source [''data''] = '''' then None
          else Some (JObj ([(''type'', JStr ''input_audio''), (''data'', jget source ''data'')] @
                 (if stringValue source [''format''] \<noteq> '''' then [(''format'', JStr (stringValue source [''format'']))] else []))))"

definition input_text :: "string \<Rightarrow> json" where
  "input_text text = JObj [(''type'', JStr ''input_text''), (''text'', JStr text)]"

definition tool_output_item :: "UpstreamLib \<Rightarrow> json \<Rightarrow> json list" where
  "tool_output_item lib raw =
     (case as_object raw of
        None \<Rightarrow> [input_text (Marshal_json lib raw)]
      | Some item \<Rightarrow>
          (let t = stringValue item [''type'']
           in if t = ''text'' then [input_text (stringValue item [''text''])]
              else if t = ''image'' \<or> t = ''image_url'' \<or> t = ''input_image'' then (case normalizedImage item of Some i \<Rightarrow> [i] | None \<Rightarrow> [])
              else if t = ''file'' \<or> t = ''input_file'' then (case normalizedFile item of Some f \<Rightarrow> [f] | None \<Rightarrow> [])
              else [input_text (Marshal_json lib raw)]))"

definition normalizeToolOutput :: "UpstreamLib \<Rightarrow> json \<Rightarrow> json" where
  "normalizeToolOutput lib content =
     (case content of
        JStr text \<Rightarrow> JStr text
      | JArr items \<Rightarrow> JArr (concat (map (tool_output_item lib) items))
      | _ \<Rightarrow> JStr (Marshal_json lib content))"

text \<open>One item of a content list: its parts and its side items.\<close>

definition content_item :: "UpstreamLib \<Rightarrow> string \<Rightarrow> string \<Rightarrow> json \<Rightarrow> json list \<times> json list" where
  "content_item lib role partType raw =
     (case as_object raw of
        None \<Rightarrow> ([], [])
      | Some item \<Rightarrow>
          (let t = ToLower (stringValue item [''type'']); opt = (\<lambda>x. case x of Some p \<Rightarrow> [p] | None \<Rightarrow> [])
           in if t \<in> {''text'', ''input_text'', ''output_text'', ''thinking''}
              then (let text = stringValue item [''text'', ''thinking'']
                    in (if text \<noteq> '''' then [JObj [(''type'', JStr partType), (''text'', JStr text)]] else [], []))
              else if t \<in> {''image_url'', ''input_image'', ''image''}
              then (if role = ''assistant'' then [] else opt (normalizedImage item), [])
              else if t \<in> {''file'', ''input_file''} then (if role = ''assistant'' then [] else opt (normalizedFile item), [])
              else if t = ''input_audio'' then (if role = ''assistant'' then [] else opt (normalizedAudio item), [])
              else if t = ''tool_use''
              then ([], [JObj [(''type'', JStr ''function_call''), (''call_id'', JStr (stringValue item [''id''])),
                          (''name'', JStr (stringValue item [''name''])), (''arguments'', JStr (Marshal_json lib (jget item ''input'')))]])
              else if t = ''tool_result''
              then ([], [JObj [(''type'', JStr ''function_call_output''), (''call_id'', JStr (stringValue item [''tool_use_id'', ''call_id''])),
                          (''output'', normalizeToolOutput lib (jget item ''content''))]])
              else ([], [])))"

definition normalizeContent :: "UpstreamLib \<Rightarrow> string \<Rightarrow> json \<Rightarrow> json list \<times> json list" where
  "normalizeContent lib role content =
     (let partType = (if role = ''assistant'' then ''output_text'' else ''input_text'')
      in case content of
           JStr text \<Rightarrow> (if text = '''' then [] else [JObj [(''type'', JStr partType), (''text'', JStr text)]], [])
         | _ \<Rightarrow> (let ps = map (content_item lib role partType) (valueArray content)
                in (concat (map fst ps), concat (map snd ps))))"

section \<open>Messages and input\<close>

definition assistant_call :: "json \<Rightarrow> json list" where
  "assistant_call raw =
     (case as_object raw of
        None \<Rightarrow> []
      | Some call \<Rightarrow>
          (case as_object (jget call ''function'') of
             None \<Rightarrow> []
           | Some f \<Rightarrow>
               if stringValue call [''type''] \<noteq> ''function'' then []
               else [JObj [(''type'', JStr ''function_call''), (''call_id'', JStr (stringValue call [''id'', ''call_id''])),
                      (''name'', JStr (stringValue f [''name''])), (''arguments'', JStr (stringValue f [''arguments'']))]]))"

definition normalize_message :: "UpstreamLib \<Rightarrow> json \<Rightarrow> json list" where
  "normalize_message lib raw =
     (case as_object raw of
        None \<Rightarrow> []
      | Some message \<Rightarrow>
          (let role = ToLower (TrimSpace (stringValue message [''role'']))
           in if role = ''tool''
              then [JObj [(''type'', JStr ''function_call_output''), (''call_id'', JStr (stringValue message [''tool_call_id'', ''call_id''])),
                      (''output'', normalizeToolOutput lib (jget message ''content''))]]
              else (let (parts, sideItems) = normalizeContent lib role (jget message ''content'');
                        mapped = (if role = ''system'' then ''developer'' else if role = '''' then ''user'' else role)
                    in (if parts \<noteq> [] \<or> (role \<noteq> ''assistant'' \<and> sideItems = [])
                        then [JObj [(''type'', JStr ''message''), (''role'', JStr mapped), (''content'', JArr parts)]] else []) @
                       sideItems @
                       (if role = ''assistant'' then concat (map assistant_call (valueArray (jget message ''tool_calls''))) else []))))"

definition normalizeMessages :: "UpstreamLib \<Rightarrow> json list \<Rightarrow> json list" where
  "normalizeMessages lib messages = concat (map (normalize_message lib) messages)"

definition normalizeResponsesInput :: "json \<Rightarrow> json list" where
  "normalizeResponsesInput input =
     (case input of
        JStr text \<Rightarrow> [JObj [(''type'', JStr ''message''), (''role'', JStr ''user''), (''content'', JArr [input_text text])]]
      | _ \<Rightarrow> concat (map (\<lambda>raw. case as_object raw of
               None \<Rightarrow> []
             | Some item \<Rightarrow> [JObj (if stringValue item [''role''] = ''system'' then set_to ''role'' (JStr ''developer'') item else item)])
             (valueArray input)))"

section \<open>Tools\<close>

definition flatten_tool :: "json \<Rightarrow> json list" where
  "flatten_tool raw =
     (case as_object raw of
        None \<Rightarrow> []
      | Some tool \<Rightarrow> if jget tool ''type'' = JStr ''namespace'' then valueArray (jget tool ''tools'') else [raw])"

text \<open>The rewriting of one tool; \<^const>\<open>None\<close> when it is left out.\<close>

definition reshape_tool :: "Operation \<Rightarrow> object \<Rightarrow> object" where
  "reshape_tool op tool =
     (let typeName = stringValue tool [''type'']
      in case (if typeName = ''function'' then as_object (jget tool ''function'') else None) of
           Some f \<Rightarrow> copy_keys [''description'', ''parameters'', ''strict''] f [(''type'', JStr ''function''), (''name'', JStr (stringValue f [''name'']))]
         | None \<Rightarrow>
             if op = OperationMessages \<and> typeName = '''' \<and> stringValue tool [''name''] \<noteq> ''''
             then (let tool = set_to ''type'' (JStr ''function'') tool
                   in case map_of tool ''input_schema'' of
                        Some schema \<Rightarrow> drop_key ''input_schema'' (set_to ''parameters'' schema tool)
                      | None \<Rightarrow> tool)
             else tool)"

definition default_parameters :: json where
  "default_parameters = JObj [(''type'', JStr ''object''), (''properties'', JObj [])]"

definition finish_tool :: "string \<Rightarrow> object \<Rightarrow> object" where
  "finish_tool typeName tool =
     (let tool = (if typeName = ''web_search'' then drop_key ''external_web_access'' tool else tool)
      in if typeName = ''function'' \<and> as_object (jget tool ''parameters'') = None then set_to ''parameters'' default_parameters tool else tool)"

definition normalize_tool :: "Operation \<Rightarrow> object \<Rightarrow> json option" where
  "normalize_tool op raw =
     (let tool = reshape_tool op raw; typeName = stringValue tool [''type'']
      in if typeName = ''tool_search'' \<or> typeName = ''image_generation'' \<or> (typeName = ''custom'' \<and> stringValue tool [''name''] = ''apply_patch'')
         then None
         else if typeName = ''custom'' then Some (JObj (finish_tool ''function'' (set_to ''type'' (JStr ''function'') tool)))
         else if typeName = ''web_search_preview'' \<or> typeName = ''web_search_preview_2025_03_11''
         then Some (JObj (finish_tool ''web_search'' (set_to ''type'' (JStr ''web_search'') tool)))
         else Some (JObj (finish_tool typeName tool)))"

definition normalizeTools :: "json list \<Rightarrow> Operation \<Rightarrow> json list" where
  "normalizeTools tools op =
     List.map_filter (\<lambda>raw. Option.bind (as_object raw) (normalize_tool op)) (concat (map flatten_tool tools))"

definition containsFunction :: "json list \<Rightarrow> string \<Rightarrow> bool" where
  "containsFunction tools name =
     (\<exists>raw \<in> set tools. case as_object raw of
        Some tool \<Rightarrow> jget tool ''type'' = JStr ''function'' \<and> stringValue tool [''name''] = name
      | None \<Rightarrow> False)"

text \<open>\<^const>\<open>None\<close> is a \<open>nil\<close> choice, which a \<open>null\<close> choice is as well.\<close>

definition normalizeToolChoice :: "json \<Rightarrow> json list \<Rightarrow> json option" where
  "normalizeToolChoice choice tools =
     (case as_object choice of
        None \<Rightarrow> if choice = JNull then None else Some choice
      | Some value \<Rightarrow>
          (let typeName = stringValue value [''type'']
           in if typeName = ''tool'' then Some (JObj [(''type'', JStr ''function''), (''name'', JStr (stringValue value [''name'']))])
              else if typeName = ''function'' \<or> typeName = ''custom''
              then (let name = stringValue value [''name''];
                        name = (case as_object (jget value ''function'') of
                                  Some nested \<Rightarrow> if name = '''' then stringValue nested [''name''] else name
                                | None \<Rightarrow> name)
                    in if name = '''' \<or> \<not> containsFunction tools name then None
                       else Some (JObj [(''type'', JStr ''function''), (''name'', JStr name)]))
              else Some choice))"

section \<open>Options\<close>

definition boolValue :: "object \<Rightarrow> string \<Rightarrow> bool \<Rightarrow> bool" where
  "boolValue source key fallback = (case jget source key of JBool b \<Rightarrow> b | _ \<Rightarrow> fallback)"

definition normalizeEffort :: "string \<Rightarrow> string" where
  "normalizeEffort value =
     (let v = ToLower (TrimSpace value)
      in if v \<in> {''none'', ''low'', ''medium'', ''high'', ''xhigh''} then v
         else if v = ''minimal'' then ''low'' else ''medium'')"

definition copyRequestOptions :: "object \<Rightarrow> object \<Rightarrow> object" where
  "copyRequestOptions source result =
     (let result = copy_keys [''temperature'', ''top_p'', ''metadata'', ''max_output_tokens'', ''service_tier'', ''user''] source result;
          result = (case map_of source ''max_tokens'' of Some m \<Rightarrow> set_to ''max_output_tokens'' m result | None \<Rightarrow> result)
      in copy_keys [''instructions''] source result)"

definition reasoning_of_effort :: "string \<Rightarrow> json" where
  "reasoning_of_effort effort = JObj [(''effort'', JStr effort), (''summary'', JStr ''auto'')]"

definition ensureReasoning :: "object \<Rightarrow> Operation \<Rightarrow> object \<Rightarrow> object" where
  "ensureReasoning source op result =
     (case as_object (jget source ''reasoning'') of
        Some reasoning \<Rightarrow> set_to ''reasoning'' (JObj reasoning) result
      | None \<Rightarrow>
          (let effort = TrimSpace (stringValue source [''reasoning_effort'']);
               effort = (if effort = '''' \<and> op = OperationMessages
                         then (case as_object (jget source ''thinking'') of
                                 Some thinking \<Rightarrow> if jget thinking ''type'' = JStr ''enabled'' then ''medium'' else effort
                               | None \<Rightarrow> effort)
                         else effort);
               effort = (if effort = '''' then ''medium'' else effort)
           in set_to ''reasoning'' (reasoning_of_effort (normalizeEffort effort)) result))"

definition encrypted_content :: json where
  "encrypted_content = JStr ''reasoning.encrypted_content''"

definition ensureInclude :: "object \<Rightarrow> object" where
  "ensureInclude result =
     (let values = valueArray (jget result ''include'')
      in set_to ''include'' (JArr (if encrypted_content \<in> set values then values else values @ [encrypted_content])) result)"

definition fixedConsoleEffort :: "string \<Rightarrow> string" where
  "fixedConsoleEffort m =
     (case find (\<lambda>effort. HasSuffix (ToLower m) (''-'' @ effort)) [''xhigh'', ''medium'', ''high'', ''low''] of Some e \<Rightarrow> e | None \<Rightarrow> '''')"

definition consoleSearchModel :: "string \<Rightarrow> bool" where
  "consoleSearchModel m = (let lower = ToLower m in Contains lower ''grok-4.3'' \<or> Contains lower ''grok-4.20'' \<or> Contains lower ''grok-build'')"

definition applyConsoleDefaults :: "object \<Rightarrow> Request \<Rightarrow> string \<Rightarrow> bool \<Rightarrow> object \<Rightarrow> object" where
  "applyConsoleDefaults source request m toolsPresent result =
     (let lower = ToLower (req_Model request @ '' '' @ m);
          maximum = (if Contains lower ''multi-agent'' then 2000000 else if Contains lower ''grok-build'' then 256000 else 1000000);
          result = (if map_of source ''max_output_tokens'' = None then set_to ''max_output_tokens'' (num maximum) result else result);
          fixed = fixedConsoleEffort (req_Model request);
          result = (if fixed \<noteq> '''' then set_to ''reasoning'' (reasoning_of_effort fixed) result else result);
          result = (if Contains (ToLower m) ''grok-4.20'' \<and> \<not> Contains (ToLower m) ''multi-agent'' then drop_key ''reasoning'' result else result)
      in if \<not> toolsPresent \<and> consoleSearchModel m
         then set_to ''tool_choice'' (JStr ''auto'')
                (set_to ''tools'' (JArr [JObj [(''type'', JStr ''web_search''), (''enable_image_understanding'', JBool True)],
                                        JObj [(''type'', JStr ''x_search''), (''enable_video_understanding'', JBool True)]]) result)
         else result)"

section \<open>The Responses payload\<close>

definition start_payload :: "Request \<Rightarrow> object \<Rightarrow> string \<Rightarrow> object" where
  "start_payload request source m =
     [(''model'', JStr m), (''stream'', JBool (req_Stream request)), (''store'', JBool False),
      (''parallel_tool_calls'', JBool (boolValue source ''parallel_tool_calls'' True))]"

definition operation_payload :: "UpstreamLib \<Rightarrow> Request \<Rightarrow> object \<Rightarrow> string \<Rightarrow> object" where
  "operation_payload lib request source m =
     (let result = start_payload request source m
      in case req_Operation request of
           OperationResponses \<Rightarrow>
             set_to ''store'' (JBool False) (set_to ''stream'' (JBool (req_Stream request)) (set_to ''model'' (JStr m)
               (set_to ''input'' (JArr (normalizeResponsesInput (jget source ''input'')))
                 (fold (\<lambda>(key, value) result. set_to key value result) source result))))
         | OperationChat \<Rightarrow>
             copyRequestOptions source (set_to ''input'' (JArr (normalizeMessages lib (valueArray (jget source ''messages'')))) result)
         | OperationMessages \<Rightarrow>
             (let result = set_to ''input'' (JArr (normalizeMessages lib (valueArray (jget source ''messages'')))) result;
                  instructions = systemText (jget source ''system'');
                  result = (if instructions \<noteq> '''' then set_to ''instructions'' (JStr instructions) result else result);
                  result = copyRequestOptions source result
              in case map_of source ''max_tokens'' of Some v \<Rightarrow> set_to ''max_output_tokens'' v result | None \<Rightarrow> result)
         | _ \<Rightarrow> result)"

definition tool_payload :: "object \<Rightarrow> json list \<Rightarrow> object \<Rightarrow> object" where
  "tool_payload source tools result =
     (let result = (if tools \<noteq> [] then set_to ''tools'' (JArr tools) result else drop_key ''tools'' result)
      in case map_of source ''tool_choice'' of
           None \<Rightarrow> result
         | Some choice \<Rightarrow>
             (case normalizeToolChoice choice tools of
                Some normalized \<Rightarrow> set_to ''tool_choice'' normalized result
              | None \<Rightarrow> drop_key ''tool_choice'' result))"

text \<open>The prompt cache key is the tenant-isolated identity the gateway derived, never the value of the client.\<close>

definition cache_payload :: "Request \<Rightarrow> object \<Rightarrow> object" where
  "cache_payload request result =
     (let cacheKey = TrimSpace (PromptCacheKey request)
      in case req_CredentialKind request of
           CredentialGrokSSO \<Rightarrow> drop_key ''prompt_cache_key'' result
         | _ \<Rightarrow> if cacheKey \<noteq> '''' then set_to ''prompt_cache_key'' (JStr cacheKey) result else drop_key ''prompt_cache_key'' result)"

definition search_payload :: "Request \<Rightarrow> object \<Rightarrow> json list \<Rightarrow> object \<Rightarrow> object" where
  "search_payload request source tools result =
     (if req_CredentialKind request = CredentialCLIOAuth \<and> TrimSpace (PromptCacheKey request) \<noteq> ''''
         \<and> map_of source ''tools'' = None \<and> map_of source ''tool_choice'' = None \<and> tools = []
      then set_to ''tool_choice'' (JStr ''none'')
             (set_to ''tools'' (JArr [JObj [(''type'', JStr ''web_search'')], JObj [(''type'', JStr ''x_search'')]]) result)
      else result)"

definition prepareResponsesPayload :: "UpstreamLib \<Rightarrow> ((string \<times> string) list \<Rightarrow> (string \<times> string) list) \<Rightarrow> Request \<Rightarrow> object \<Rightarrow> string \<Rightarrow> object" where
  "prepareResponsesPayload lib visit request source m =
     (let aliases = buildToolAliases visit (valueArray (jget source ''tools'')) (req_Operation request);
          tools = normalizeTools (valueArray (jget source ''tools'')) (req_Operation request);
          result = tool_payload source tools (operation_payload lib request source m);
          result = ensureInclude (ensureReasoning source (req_Operation request) result);
          result = (if req_CredentialKind request = CredentialConsoleSSO
                    then applyConsoleDefaults source request m (map_of source ''tools'' \<noteq> None) result else result);
          result = search_payload request source tools (cache_payload request result)
      in applyToolAliases result aliases)"

section \<open>The Grok web payload\<close>

definition trimmed_image :: "string \<Rightarrow> json list" where
  "trimmed_image s = (if TrimSpace s \<noteq> '''' then [JStr s] else [])"

definition image_reference :: "json \<Rightarrow> json list" where
  "image_reference v =
     (case v of
        JStr s \<Rightarrow> trimmed_image s
      | JArr xs \<Rightarrow> concat (map (\<lambda>raw. case raw of
            JStr s \<Rightarrow> trimmed_image s
          | JObj item \<Rightarrow> (let data = stringValue item [''data'', ''url'', ''image_url''] in if data \<noteq> '''' then [JStr data] else [])
          | _ \<Rightarrow> []) xs)
      | _ \<Rightarrow> [])"

definition imageReferences :: "object \<Rightarrow> json list" where
  "imageReferences source =
     concat (map (\<lambda>key. image_reference (jget source key)) [''image'', ''images'', ''image_url'', ''image_urls'', ''image_references''])"

definition numberOr :: "UpstreamLib \<Rightarrow> json \<Rightarrow> int \<Rightarrow> json" where
  "numberOr lib value fallback =
     (if value = JNull \<or> TrimSpace (Sprint lib value) = '''' then num fallback
      else if 0 < intValue value then num (intValue value) else value)"

definition flags :: "bool \<Rightarrow> string list \<Rightarrow> object" where
  "flags b keys = map (\<lambda>k. (k, JBool b)) keys"

definition grok_video_payload :: "object \<Rightarrow> object" where
  "grok_video_payload source =
     (let prompt = extractPrompt OperationVideo source;
          result = [(''mediaType'', JStr ''MEDIA_POST_TYPE_VIDEO'')];
          result = (if prompt \<noteq> '''' then set_to ''prompt'' (JStr prompt) result else result)
      in copy_keys [''mediaUrl'', ''media_url'', ''image'', ''image_url'', ''aspect_ratio'', ''duration''] source result)"

definition grok_edit_payload :: "UpstreamLib \<Rightarrow> object \<Rightarrow> object" where
  "grok_edit_payload lib source =
     flags True [''temporary'', ''enableImageGeneration'', ''enableImageStreaming'', ''enableSideBySide'', ''sendFinalMetadata'',
                 ''disableTextFollowUps'', ''disableMemory''] @
     flags False [''returnImageBytes'', ''forceConcise'', ''isReasoning'', ''forceSideBySide''] @
     [(''modelName'', JStr ''imagine-image-edit''), (''message'', JStr (extractPrompt OperationImageEdit source)),
      (''imageGenerationCount'', numberOr lib (jget source ''n'') 2),
      (''responseMetadata'', JObj [(''modelConfigOverride'', JObj [(''modelMap'', JObj [(''imageEditModel'', JStr ''imagine''),
         (''imageEditModelConfig'', JObj [(''imageReferences'', JArr (imageReferences source)),
            (''parentPostId'', JStr (stringValue source [''parent_post_id'', ''parentPostId'']))])])])])]"

definition grok_chat_payload :: "UpstreamLib \<Rightarrow> Operation \<Rightarrow> object \<Rightarrow> string \<Rightarrow> object" where
  "grok_chat_payload lib op source m =
     flags True [''disableMemory'', ''enableImageGeneration'', ''enableImageStreaming'', ''enableSideBySide'', ''sendFinalMetadata'', ''temporary''] @
     flags False [''disableSearch'', ''disableSelfHarmShortCircuit'', ''disableTextFollowUps'', ''forceConcise'', ''forceSideBySide'', ''isAsyncChat'',
                  ''returnImageBytes'', ''returnRawGrokInXaiRequest'', ''searchAllConnectors''] @
     [(''collectionIds'', JArr []), (''connectors'', JArr []), (''fileAttachments'', JArr []), (''responseMetadata'', JObj []),
      (''deviceEnvInfo'', JObj [(''darkModeEnabled'', JBool False), (''devicePixelRatio'', num 2), (''screenHeight'', num 1329),
         (''screenWidth'', num 2056), (''viewportHeight'', num 1083), (''viewportWidth'', num 2056)]),
      (''imageAttachments'', JArr (imageReferences source)), (''imageGenerationCount'', numberOr lib (jget source ''n'') 2),
      (''message'', JStr (extractPrompt op source)), (''modeId'', JStr (grokMode m)),
      (''toolOverrides'', JObj (flags False [''gmailSearch'', ''googleCalendarSearch'', ''outlookSearch'', ''outlookCalendarSearch'', ''googleDriveSearch'']))]"

definition prepareGrokWebPayload :: "UpstreamLib \<Rightarrow> Request \<Rightarrow> object \<Rightarrow> string \<Rightarrow> object" where
  "prepareGrokWebPayload lib request source m =
     (case req_Operation request of
        OperationVideo \<Rightarrow> grok_video_payload source
      | OperationImageEdit \<Rightarrow> grok_edit_payload lib source
      | _ \<Rightarrow> grok_chat_payload lib (req_Operation request) source m)"

text \<open>\<open>preparePayload\<close>. A body \<open>null\<close> does not pass the gateway, which requires a model.\<close>

definition preparePayload :: "UpstreamLib \<Rightarrow> ((string \<times> string) list \<Rightarrow> (string \<times> string) list) \<Rightarrow> Request \<Rightarrow> string option" where
  "preparePayload lib visit request =
     (case (if req_Body request = '''' then Some [] else Unmarshal lib (req_Body request)) of
        None \<Rightarrow> None
      | Some payload \<Rightarrow>
          (let m = (if req_UpstreamModel request = '''' then req_Model request else req_UpstreamModel request)
           in Some (Marshal_json lib (JObj
                (if req_CredentialKind request = CredentialGrokSSO then prepareGrokWebPayload lib request payload m
                 else if req_Operation request \<in> {OperationImage, OperationImageEdit, OperationVideo} then set_to ''model'' (JStr m) payload
                 else prepareResponsesPayload lib visit request payload m)))))"

end
