(* ===== verification/Tool_Properties.thy ===== *)
theory Tool_Properties
  imports Payload "HOL-Library.Multiset"
begin

text \<open>
  Tool aliases: they are pairwise different, short enough and can be restored; and what happens when the two directions are computed
  with different orders of a Go map.
\<close>

section \<open>Aliases are pairwise different\<close>

definition aliasing_ok :: "aliasing \<Rightarrow> bool" where
  "aliasing_ok st \<longleftrightarrow> distinct (map fst (fst st)) \<and> distinct (map snd (fst st)) \<and> snd ` set (fst st) \<subseteq> set (snd st)"

lemma alias_from_fresh: "alias_from base used n \<notin> set used"
  by (induction base used n rule: alias_from.induct) (subst alias_from.simps, simp)

lemma uniqueToolAlias_fresh: "uniqueToolAlias base used = (a, used') \<Longrightarrow> a \<notin> set used \<and> used' = a # used"
  using alias_from_fresh [of base used 1] by (cases "base \<in> set used") (auto simp: uniqueToolAlias_def Let_def)

lemma update_values: "snd ` set (AList.update k v m) \<subseteq> insert v (snd ` set m)"
  by (induction m) auto

lemma distinct_values_update: "distinct (map snd m) \<Longrightarrow> v \<notin> snd ` set m \<Longrightarrow> distinct (map snd (AList.update k v m))"
proof (induction m)
  case (Cons kv m)
  with update_values [of k v m] show ?case by (cases kv) (auto simp: image_iff)
qed simp

lemma add_alias_ok:
  assumes "aliasing_ok st"
  shows "aliasing_ok (add_alias original base st)"
proof -
  obtain aliases used where st: "st = (aliases, used)" by (rule prod.exhaust)
  obtain a used' where u: "uniqueToolAlias base used = (a, used')" by (rule prod.exhaust)
  note f = uniqueToolAlias_fresh [OF u]
  have "a \<notin> snd ` set aliases" using assms f st by (auto simp: aliasing_ok_def)
  with assms st f u update_values [of original a aliases] show ?thesis
    by (auto simp: add_alias_def aliasing_ok_def distinct_update distinct_values_update)
qed

lemma fold_alias_ok: "aliasing_ok st \<Longrightarrow> aliasing_ok (fold (\<lambda>(original, base). add_alias original base) xs st)"
  by (induction xs arbitrary: st) (simp_all add: add_alias_ok case_prod_unfold)

lemma tool_aliases_ok: "aliasing_ok st \<Longrightarrow> aliasing_ok (tool_aliases visit op tools st)"
proof (induction visit op tools st rule: tool_aliases.induct)
  case (2 visit op raw tools st)
  then show ?case by (auto simp: Let_def fold_alias_ok add_alias_ok split: option.split)
qed simp

lemma buildToolAliases_ok:
  "distinct (map fst (buildToolAliases visit tools op))" "distinct (map snd (buildToolAliases visit tools op))"
  using tool_aliases_ok [of "([], [])" visit op tools] by (simp_all add: buildToolAliases_def aliasing_ok_def)

lemma map_of_swap: "distinct (map snd m) \<Longrightarrow> map_of m k = Some v \<Longrightarrow> map_of (map (\<lambda>(x, y). (y, x)) m) v = Some k"
  by (induction m) (auto split: if_splits dest!: map_of_SomeD intro: rev_image_eqI)

section \<open>Aliases are short\<close>

lemma rune_width_append:
  assumes "m = [] \<or> hd m < CHR 0x80"
  shows "rune_width c (s @ m) = rune_width c s"
proof (cases "following c \<le> length s")
  case True
  then show ?thesis by (cases s) (auto simp: rune_width_def Let_def)
next
  case False
  show ?thesis
  proof (cases m)
    case Nil
    then show ?thesis by simp
  next
    case (Cons d t)
    then have d: "d < CHR 0x80" using assms by simp
    then have nc: "\<not> cont_byte d" by (meson cont_byte_def leD)
    have n: "following c \<le> 3" by (simp add: following_def)
    have nb: "\<not> second_byte c d" using d by (auto simp: second_byte_def between_def cont_byte_def less_eq_char_def less_char_def)
    show ?thesis
    proof (cases s)
      case Nil
      with nb Cons False show ?thesis by (auto simp: rune_width_def Let_def)
    next
      case (Cons e u)
      have "\<not> list_all cont_byte (take (following c - 1) (u @ d # t))" if "following c \<le> length (s @ m)"
      proof -
        have "d \<in> set (take (following c - 1) (u @ d # t))" using False Cons by (auto simp: take_Cons')
        with nc show ?thesis by (auto simp: list_all_iff)
      qed
      with False Cons \<open>m = d # t\<close> show ?thesis by (auto simp: rune_width_def Let_def)
    qed
  qed
qed

lemma runes_append: "m = [] \<or> hd m < CHR 0x80 \<Longrightarrow> runes (s @ m) = runes s @ runes m"
proof (induction s rule: runes.induct)
  case (2 c s)
  have w: "rune_width c (s @ m) = rune_width c s" using 2(3) by (rule rune_width_append)
  have le: "rune_width c s \<le> Suc (length s)" by (auto simp: rune_width_def Let_def)
  show ?case
  proof (cases "rune_width c s = 0")
    case True
    with 2 w show ?thesis by (simp add: Let_def)
  next
    case False
    with 2(2) [OF refl False] 2(3) w le show ?thesis by (simp add: Let_def take_Cons' drop_Cons')
  qed
qed simp

text \<open>An encoding on its own is one rune.\<close>

lemma runes_replacement: "runes (replacement @ s) = replacement # runes s"
proof -
  have "rune_width (CHR 0xEF) (CHR 0xBF # CHR 0xBD # s) = 3"
    by (simp add: rune_width_def following_def second_byte_def between_def cont_byte_def Let_def less_eq_char_def less_char_def)
  then show ?thesis by (simp add: replacement_def Let_def)
qed

lemma rune_width_take:
  assumes "rune_width c s = Suc n"
  shows "n \<le> length s" "rune_width c (take n s @ t) = Suc n"
proof -
  consider "c < CHR 0x80" "n = 0" | "\<not> c < CHR 0x80" "n = following c" "0 < n" "n \<le> length s" "second_byte c (hd s)" "list_all cont_byte (take (n - 1) (tl s))"
    using assms by (auto simp: rune_width_def Let_def split: if_splits)
  then have "n \<le> length s \<and> rune_width c (take n s @ t) = Suc n"
  proof cases
    case 2
    then obtain e u where s: "s = e # u" by (cases s) auto
    obtain k where k: "n = Suc k" using 2(3) by (cases n) auto
    have f: "following c = Suc k" using 2(2) k by simp
    have "length u \<ge> k" "list_all cont_byte (take k u)" using 2(4,6) s k by simp_all
    with 2(1,5) s k f show ?thesis by (simp add: rune_width_def Let_def)
  qed (simp_all add: rune_width_def)
  then show "n \<le> length s" "rune_width c (take n s @ t) = Suc n" by auto
qed

lemma runes_rune:
  assumes "rune_width c s = Suc n"
  shows "runes (c # take n s @ t) = (c # take n s) # runes t"
  using rune_width_take(1) [OF assms] rune_width_take(2) [OF assms, of t] by (simp add: Let_def)

lemma runes_concat: "runes (concat (take k (runes s)) @ t) = take k (runes s) @ runes t"
proof (induction s arbitrary: k rule: runes.induct)
  case (2 c s)
  show ?case
  proof (cases k)
    case (Suc j)
    show ?thesis
    proof (cases "rune_width c s")
      case 0
      with 2(1) [OF refl 0, of j] Suc show ?thesis by (simp add: Let_def runes_replacement)
    next
      case w: (Suc n)
      have ih: "runes (concat (take j (runes (drop n s))) @ t) = take j (runes (drop n s)) @ runes t"
        using 2(2) [OF refl, of j] w by simp
      with w Suc runes_rune [OF w, of "concat (take j (runes (drop n s))) @ t"] show ?thesis by (simp add: Let_def)
    qed
  qed simp
qed simp

lemma RuneCount_truncate:
  assumes "m = [] \<or> hd m < CHR 0x80" "0 \<le> maximum"
  shows "RuneCount (truncateRunes value maximum @ m) \<le> maximum + RuneCount m"
proof -
  consider "maximum = 0" | "0 < maximum" "RuneCount value \<le> maximum" | "0 < maximum" "maximum < RuneCount value"
    using assms(2) by linarith
  then show ?thesis
  proof cases
    case 2
    then show ?thesis using runes_append [OF assms(1), of "value"] by (simp add: truncateRunes_def RuneCount_def)
  next
    case 3
    then show ?thesis using runes_concat [of "nat maximum" "value" m] by (simp add: truncateRunes_def RuneCount_def)
  qed (simp add: truncateRunes_def)
qed

lemma dec_nat_length: "n < 10 ^ k \<Longrightarrow> 0 < k \<Longrightarrow> length (dec_nat n) \<le> k"
proof (induction k arbitrary: n)
  case (Suc k)
  show ?case
  proof (cases "n < 10")
    case True
    then show ?thesis by (simp add: dec_nat.simps [of n])
  next
    case False
    with Suc.prems have "0 < k" by (cases k) auto
    moreover have "n div 10 < 10 ^ k" using Suc.prems(1) by (simp add: less_mult_imp_div_less mult.commute)
    ultimately show ?thesis using Suc.IH [of "n div 10"] False by (simp add: dec_nat.simps [of n])
  qed
qed simp

lemma runes_ascii: "list_all (\<lambda>c. c < CHR 0x80) s \<Longrightarrow> RuneCount s = int (length s)"
proof (induction s)
  case (Cons c s)
  then have "rune_width c s = 1" by (simp add: rune_width_def)
  with Cons show ?case by (simp add: RuneCount_def)
qed (simp add: RuneCount_def)

lemma ascii_dec_nat: "list_all (\<lambda>c. c < CHR 0x80) (dec_nat n)"
proof (induction n rule: dec_nat.induct)
  case (1 n)
  have d: "digit k < CHR 0x80" if "k < 10" for k
    using that by (simp add: digit_def less_char_def)
  from 1 d show ?case by (cases "n < 10") (simp_all add: dec_nat.simps [of n])
qed

lemma marker_count: "RuneCount (CHR ''_'' # dec_nat n) = int (Suc (length (dec_nat n)))"
  using runes_ascii [of "CHR ''_'' # dec_nat n"] ascii_dec_nat [of n] by (simp add: less_char_def)

text \<open>The markers of fewer than \<open>10 ^ 63\<close> aliases fit.\<close>

lemma numbered_alias_short:
  assumes "n < 10 ^ 63"
  shows "RuneCount (numbered_alias base n) \<le> 64"
proof -
  have m: "RuneCount (CHR ''_'' # dec_nat n) \<le> 64" using dec_nat_length [OF assms] by (simp add: marker_count)
  have h: "hd (CHR ''_'' # dec_nat n) < CHR 0x80" by (simp add: less_char_def)
  from RuneCount_truncate [of "CHR ''_'' # dec_nat n" "64 - RuneCount (CHR ''_'' # dec_nat n)" base] m h show ?thesis
    by (simp add: numbered_alias_def Let_def FormatInt_def)
qed

lemma truncate_short: "0 \<le> n \<Longrightarrow> RuneCount (truncateRunes value n) \<le> n"
  using RuneCount_truncate [of "[]" n "value"] by (simp add: RuneCount_def)

lemma preferred_short: "RuneCount (preferredToolAlias name) \<le> 64"
  by (auto simp: preferredToolAlias_def truncate_short split: option.split)

lemma alias_from_number:
  "\<exists>k \<ge> n. alias_from base used n = numbered_alias base k \<and> (\<forall>j. n \<le> j \<and> j < k \<longrightarrow> numbered_alias base j \<in> set used)"
proof (induction base used n rule: alias_from.induct)
  case (1 base used n)
  show ?case
  proof (cases "numbered_alias base n \<in> set used")
    case True
    with 1 obtain k where k: "alias_from base used (n + 1) = numbered_alias base k" "n + 1 \<le> k"
      "\<forall>j. n + 1 \<le> j \<and> j < k \<longrightarrow> numbered_alias base j \<in> set used" by blast
    have "numbered_alias base j \<in> set used" if "n \<le> j" "j < k" for j using k(3) True that by (cases "j = n") auto
    with k True show ?thesis by (intro exI [of _ k]) (subst alias_from.simps, simp)
  next
    case False
    then show ?thesis by (intro exI [of _ n]) (subst alias_from.simps, auto)
  qed
qed

lemma alias_from_bound:
  obtains k where "alias_from base used 1 = numbered_alias base k" "k \<le> Suc (length used)"
proof -
  obtain k where k: "alias_from base used 1 = numbered_alias base k" "\<forall>j. 1 \<le> j \<and> j < k \<longrightarrow> numbered_alias base j \<in> set used"
    using alias_from_number [of 1 base used] by auto
  have "numbered_alias base ` {1..<k} \<subseteq> set used" using k(2) by auto
  then have "card (numbered_alias base ` {1..<k}) \<le> length used" by (meson card_length card_mono finite_set order_trans)
  moreover have "card (numbered_alias base ` {1..<k}) = k - 1" by (simp add: card_image inj_on_subset [OF numbered_alias_inj])
  ultimately show ?thesis using k that by auto
qed

section \<open>Aliases of a request\<close>

text \<open>The aliases and the used names are short, and there are at most \<open>n\<close> of them.\<close>

definition short_within :: "nat \<Rightarrow> aliasing \<Rightarrow> bool" where
  "short_within n st \<longleftrightarrow> length (fst st) \<le> n \<and> length (snd st) \<le> n \<and> (\<forall>a \<in> set (snd st). RuneCount a \<le> 64) \<and> (\<forall>a \<in> snd ` set (fst st). RuneCount a \<le> 64)"

lemma length_update: "length (AList.update k v m) \<le> Suc (length m)"
  by (induction m) auto

lemma uniqueToolAlias_short:
  assumes "uniqueToolAlias base used = (a, used')" "RuneCount base \<le> 64" "Suc (length used) < 10 ^ 63"
  shows "RuneCount a \<le> 64"
proof (cases "base \<in> set used")
  case True
  obtain k where "alias_from base used 1 = numbered_alias base k" "k \<le> Suc (length used)" by (rule alias_from_bound)
  with numbered_alias_short [of k base] True assms show ?thesis by (auto simp: uniqueToolAlias_def Let_def)
qed (use assms in \<open>auto simp: uniqueToolAlias_def Let_def\<close>)

lemma add_alias_short:
  assumes "short_within n st" "RuneCount base \<le> 64" "Suc n < 10 ^ 63"
  shows "short_within (Suc n) (add_alias original base st)"
proof -
  obtain aliases used where st: "st = (aliases, used)" by (rule prod.exhaust)
  obtain a used' where u: "uniqueToolAlias base used = (a, used')" by (rule prod.exhaust)
  have "Suc (length used) < 10 ^ 63" using assms(1,3) st by (simp add: short_within_def)
  with uniqueToolAlias_short [OF u assms(2)] have a: "RuneCount a \<le> 64" by blast
  have "\<forall>b \<in> snd ` set aliases. RuneCount b \<le> 64" using assms(1) st by (simp add: short_within_def)
  with a update_values [of original a aliases] have "\<forall>b \<in> snd ` set (AList.update original a aliases). RuneCount b \<le> 64" by blast
  with a assms(1) st u uniqueToolAlias_fresh [OF u] length_update [of original a aliases] show ?thesis
    by (simp add: add_alias_def short_within_def)
qed

lemma fold_alias_short:
  "short_within n st \<Longrightarrow> \<forall>a \<in> snd ` set xs. RuneCount a \<le> 64 \<Longrightarrow> Suc (n + length xs) < 10 ^ 63 \<Longrightarrow>
   short_within (n + length xs) (fold (\<lambda>(original, base). add_alias original base) xs st)"
proof (induction xs arbitrary: n st)
  case (Cons x xs)
  then have "short_within (Suc n) (add_alias (fst x) (snd x) st)" by (intro add_alias_short) auto
  with Cons.IH [of "Suc n"] Cons.prems show ?case by (simp add: case_prod_unfold)
qed simp

lemma short_within_mono: "short_within m st \<Longrightarrow> m \<le> n \<Longrightarrow> short_within n st"
  by (auto simp: short_within_def)

lemma tool_aliases_short:
  "\<forall>xs. mset (visit xs) = mset xs \<Longrightarrow> short_within n st \<Longrightarrow> Suc (n + weight_items tools) < 10 ^ 63 \<Longrightarrow>
   short_within (n + weight_items tools) (tool_aliases visit op tools st)"
proof (induction visit op tools st arbitrary: n rule: tool_aliases.induct)
  case (2 visit op raw tools st)
  show ?case
  proof (cases "as_object raw")
    case None
    have "short_within (n + weight_items tools) (tool_aliases visit op tools st)" using 2(1) [OF None 2(6,7)] 2(8) by simp
    with None show ?thesis by (auto intro: short_within_mono)
  next
    case (Some tool)
    then have raw: "raw = JObj tool" by (cases raw) (auto simp: as_object_def)
    show ?thesis
    proof (cases "jget tool ''type'' = JStr ''namespace''")
      case True
      let ?nested = "fst (tool_aliases visit op (valueArray (jget tool ''tools'')) ([], []))"
      have w: "weight_items (valueArray (jget tool ''tools'')) < weight raw"
        using weight_jget [of tool "''tools''"] raw by simp
      have ne: "short_within (weight_items (valueArray (jget tool ''tools''))) (tool_aliases visit op (valueArray (jget tool ''tools'')) ([], []))"
        using 2(2) [OF Some True 2(6), of 0] 2(8) w by (simp add: short_within_def)
      have set: "set (visit ?nested) = set ?nested" "length (visit ?nested) = length ?nested"
        using 2(6) by (metis set_mset_mset, metis size_mset)
      have len: "length ?nested < weight raw" using ne w by (simp add: short_within_def)
      have bases: "\<forall>a \<in> snd ` set (visit ?nested). RuneCount a \<le> 64" using ne unfolding set(1) short_within_def by blast
      have bound: "Suc (n + length (visit ?nested)) < 10 ^ 63" using len 2(8) unfolding set(2) weight_items.simps by linarith
      have "short_within (n + length ?nested) (fold (\<lambda>(original, base). add_alias original base) (visit ?nested) st)"
        using fold_alias_short [OF 2(7) bases bound] unfolding set(2) .
      from 2(3) [OF Some True refl 2(6) this] 2(8) len
      have "short_within (n + length ?nested + weight_items tools) (tool_aliases visit op (raw # tools) st)" using Some True by (simp add: Let_def)
      then show ?thesis using len by (auto intro: short_within_mono)
    next
      case False
      show ?thesis
      proof (cases "tool_name op tool = ''''")
        case True
        have "short_within (n + weight_items tools) (tool_aliases visit op tools st)" using 2(4) [OF Some False True 2(6,7)] 2(8) by simp
        with Some False True show ?thesis by (auto intro: short_within_mono)
      next
        case nm: False
        have w: "0 < weight raw" by simp
        have "short_within (Suc n) (add_alias (tool_name op tool) (preferredToolAlias (tool_name op tool)) st)"
          using 2(7,8) w by (intro add_alias_short preferred_short) auto
        moreover have "Suc (Suc n + weight_items tools) < 10 ^ 63" using 2(8) w unfolding weight_items.simps by linarith
        ultimately have "short_within (Suc n + weight_items tools)
            (tool_aliases visit op tools (add_alias (tool_name op tool) (preferredToolAlias (tool_name op tool)) st))"
          using 2(5) [OF Some False nm 2(6), of "Suc n"] by blast
        then have "short_within (Suc n + weight_items tools) (tool_aliases visit op (raw # tools) st)" using Some False nm by simp
        moreover have "Suc n + weight_items tools \<le> n + weight_items (raw # tools)" unfolding weight_items.simps using w by linarith
        ultimately show ?thesis by (rule short_within_mono)
      qed
    qed
  qed
qed simp


definition sample_upstream :: UpstreamLib where
  "sample_upstream = \<lparr>Unmarshal = (\<lambda>s. Some [(''tools'', JArr [JObj [(''type'', JStr ''function''), (''name'', JStr s)]])]),
     Marshal_json = (\<lambda>_. ''{}''), Sprint = (\<lambda>_. ''''), Sha256 = (\<lambda>s. s)\<rparr>"

definition sample_upstream_request :: Request where
  "sample_upstream_request = \<lparr>req_Operation = OperationChat, req_Model = ''grok-4'', req_UpstreamModel = '''', PromptCacheKey = '''',
     req_CredentialKind = CredentialCLIOAuth, req_Credentials = zero_credentials, ProxyURL = '''', req_Body = ''f'', req_Headers = (\<lambda>_. ''''),
     req_Stream = False, VideoID = '''', StatusURL = ''''\<rparr>"


section \<open>Different orders\<close>

text \<open>A tool, and a namespace with a tool of the same name and one whose name is its first numbered alias.\<close>

definition clashing_tools :: "json list" where
  "clashing_tools =
     [JObj [(''type'', JStr ''function''), (''name'', JStr ''x'')],
      JObj [(''type'', JStr ''namespace''), (''tools'', JArr [JObj [(''type'', JStr ''function''), (''name'', JStr ''x'')],
                                                            JObj [(''type'', JStr ''function''), (''name'', JStr ''x_1'')]])]]"

text \<open>The two directions may disagree. The aliases of a namespace are visited in the order of a Go map, which is not fixed, and the client
  computes the aliases of the payload and the reverse names of the answer in two separate runs: when the runs visit the
  namespace in different orders, a call of the tool \<open>x\<close> comes back as a call of the tool \<open>x_1\<close>.\<close>

theorem alias_order_matters:
  "map_of (buildToolAliases (\<lambda>xs. xs) clashing_tools OperationResponses) ''x'' = Some ''x_1''
   \<and> map_of (map (\<lambda>(original, a). (a, original)) (buildToolAliases rev clashing_tools OperationResponses)) ''x_1'' = Some ''x_1''"
proof -
  have "buildToolAliases (\<lambda>xs. xs) clashing_tools OperationResponses = [(''x'', ''x_1''), (''x_1'', ''x_1_1'')]" by code_simp
  moreover have "buildToolAliases rev clashing_tools OperationResponses = [(''x'', ''x_2''), (''x_1'', ''x_1'')]" by code_simp
  ultimately show ?thesis by simp
qed

end
