(* ===== verification/Http_Client.thy ===== *)
theory Http_Client
  imports Payload Event_Parser
begin

text \<open>
  The upstream HTTP client (\<open>internal/upstream/http_client.go\<close>) and the credentials it applies
  (\<open>internal/upstream/credentials.go\<close>).

  \<^item> \<open>net/url\<close>, cookie parsing and random text are the record \<open>NetLib\<close>.
  \<^item> Header names are in canonical form; \<open>Set\<close> replaces the value of a name, \<open>Add\<close> keeps the first one.
  \<^item> The cache of proxy clients is a map from normalized addresses to the elements of a list in the order of their last use. Elements
    are addresses into \<open>entries\<close>. The two critical sections of \<open>clientForProxy\<close> are separate operations.
  \<^item> Sending a request is the argument \<open>send\<close> of \<open>http_Do\<close>; the web-only operations (videos, image edits, the image socket) are
    not part of this theory and are an argument as well.
\<close>

record URL =
  Scheme :: string
  Hostname :: string
  Port :: string
  URLHost :: string
  URLPath :: string
  RawQuery :: string
  Fragment :: string
  HasUser :: bool

record NetLib =
  ParseURL :: "string \<Rightarrow> URL option"
  URLText :: "URL \<Rightarrow> string"
  ResolveReference :: "URL \<Rightarrow> URL \<Rightarrow> URL"
  ValidRequestURI :: "string \<Rightarrow> bool"
  PathEscape :: "string \<Rightarrow> string"
  EqualFold :: "string \<Rightarrow> string \<Rightarrow> bool"
  Cookies :: "string \<Rightarrow> (string \<times> string) list"
  RandomID :: string
  StatsigID :: string

section \<open>Configuration\<close>

record HTTPClientConfig =
  GrokBaseURL :: string
  ImagineURL :: string
  ConsoleBaseURL :: string
  CLIBaseURL :: string
  RequestTimeout :: duration
  VideoTimeout :: duration
  MaxResponseSize :: int
  MaxProxyClients :: int

definition default_text :: "string \<Rightarrow> string \<Rightarrow> string" where
  "default_text fallback s = (if s = '''' then fallback else s)"

definition default_positive :: "int \<Rightarrow> int \<Rightarrow> int" where
  "default_positive fallback n = (if n \<le> 0 then fallback else n)"

definition NewHTTPClient :: "HTTPClientConfig \<Rightarrow> HTTPClientConfig" where
  "NewHTTPClient c =
     \<lparr>GrokBaseURL = default_text ''https://grok.com'' (GrokBaseURL c),
      ImagineURL = default_text ''wss://grok.com/ws/imagine/listen'' (ImagineURL c),
      ConsoleBaseURL = default_text ''https://console.x.ai/v1'' (ConsoleBaseURL c),
      CLIBaseURL = default_text ''https://cli-chat-proxy.grok.com/v1'' (CLIBaseURL c),
      RequestTimeout = default_positive (120 * Second) (RequestTimeout c),
      VideoTimeout = default_positive (10 * Minute) (VideoTimeout c),
      MaxResponseSize = default_positive 33554432 (MaxResponseSize c),
      MaxProxyClients = default_positive 256 (MaxProxyClients c)\<rparr>"

text \<open>\<open>dynamic\<close> is the value of \<open>RequestTimeoutFunc\<close> when it is configured.\<close>

definition requestTimeout :: "HTTPClientConfig \<Rightarrow> duration option \<Rightarrow> duration" where
  "requestTimeout c dynamic = (case dynamic of Some v \<Rightarrow> if 0 < v then v else RequestTimeout c | None \<Rightarrow> RequestTimeout c)"

section \<open>Proxies\<close>

definition JoinHostPort :: "string \<Rightarrow> string \<Rightarrow> string" where
  "JoinHostPort host port = (if CHR '':'' \<in> set host then ''['' @ host @ '']:'' @ port else host @ '':'' @ port)"

text \<open>Host names are ASCII, for which \<open>ToLower\<close> is exact.\<close>

definition normalizeProxyURL :: "NetLib \<Rightarrow> string \<Rightarrow> error + string" where
  "normalizeProxyURL lib raw =
     (case ParseURL lib (TrimSpace raw) of
        None \<Rightarrow> Inl (ErrText ''proxy URL must include a scheme and host'')
      | Some u \<Rightarrow>
          if Scheme u = '''' \<or> Hostname u = '''' then Inl (ErrText ''proxy URL must include a scheme and host'')
          else (let scheme = ToLower (Scheme u)
                in if scheme \<notin> {''http'', ''https'', ''socks5'', ''socks5h''}
                   then Inl (ErrText (''unsupported proxy scheme '' @ Quote scheme))
                   else if (URLPath u \<noteq> '''' \<and> URLPath u \<noteq> ''/'') \<or> RawQuery u \<noteq> '''' \<or> Fragment u \<noteq> ''''
                   then Inl (ErrText ''proxy URL must not contain a path, query, or fragment'')
                   else (let port = (if Port u \<noteq> '''' then Port u
                                     else if scheme = ''http'' then ''80'' else if scheme = ''https'' then ''443'' else ''1080'')
                         in Inr (URLText lib (u\<lparr>Scheme := scheme, URLHost := JoinHostPort (ToLower (Hostname u)) port, URLPath := ''''\<rparr>)))))"

record 'c proxies =
  entries :: "(string \<times> 'c) list"
  proxyLRU :: "nat list"
  proxyClients :: "string \<rightharpoonup> nat"
  closed :: "'c list"

definition no_proxies :: "'c proxies" where
  "no_proxies = \<lparr>entries = [], proxyLRU = [], proxyClients = Map.empty, closed = []\<rparr>"

definition move_to_front :: "nat \<Rightarrow> nat list \<Rightarrow> nat list" where
  "move_to_front e xs = e # remove1 e xs"

text \<open>The first critical section: a client that is cached.\<close>

definition proxy_lookup :: "string \<Rightarrow> 'c proxies \<Rightarrow> 'c option \<times> 'c proxies" where
  "proxy_lookup key st =
     (case proxyClients st key of
        Some e \<Rightarrow> (Some (snd (entries st ! e)), st\<lparr>proxyLRU := move_to_front e (proxyLRU st)\<rparr>)
      | None \<Rightarrow> (None, st))"

function evict_proxies :: "int \<Rightarrow> 'c proxies \<Rightarrow> 'c proxies" where
  "evict_proxies limit st =
     (if limit < int (length (proxyLRU st)) \<and> proxyLRU st \<noteq> []
      then (let (key, client) = entries st ! last (proxyLRU st)
            in evict_proxies limit (st\<lparr>proxyClients := (proxyClients st)(key := None), proxyLRU := butlast (proxyLRU st),
                                       closed := closed st @ [client]\<rparr>))
      else st)"
  by pat_completeness auto
termination by (relation "measure (\<lambda>(limit, st). length (proxyLRU st))") auto

declare evict_proxies.simps [simp del]

text \<open>The second critical section, with a client for a new transport.\<close>

definition proxy_insert :: "int \<Rightarrow> string \<Rightarrow> 'c \<Rightarrow> 'c proxies \<Rightarrow> 'c \<times> 'c proxies" where
  "proxy_insert limit key client st =
     (case proxy_lookup key st of
        (Some cached, st) \<Rightarrow> (cached, st\<lparr>closed := closed st @ [client]\<rparr>)
      | (None, st) \<Rightarrow>
          (client, evict_proxies limit
             (st\<lparr>entries := entries st @ [(key, client)], proxyLRU := length (entries st) # proxyLRU st,
                 proxyClients := (proxyClients st)(key \<mapsto> length (entries st))\<rparr>)))"

text \<open>The whole call; \<open>gap\<close> is what other goroutines do between the two sections.\<close>

definition clientForProxy ::
  "NetLib \<Rightarrow> (string \<Rightarrow> error + 'c) \<Rightarrow> ('c proxies \<Rightarrow> 'c proxies) \<Rightarrow> int \<Rightarrow> string \<Rightarrow> 'c proxies \<Rightarrow> (error + 'c) \<times> 'c proxies" where
  "clientForProxy lib newTransport gap limit raw st =
     (case normalizeProxyURL lib raw of
        Inl e \<Rightarrow> (Inl e, st)
      | Inr key \<Rightarrow>
          (case proxy_lookup key st of
             (Some client, st) \<Rightarrow> (Inr client, st)
           | (None, st) \<Rightarrow>
               (case newTransport key of
                  Inl e \<Rightarrow> (Inl e, st)
                | Inr client \<Rightarrow> (let (c, st) = proxy_insert limit key client (gap st) in (Inr c, st)))))"

section \<open>Endpoints\<close>

definition videoStatusEndpoint :: "NetLib \<Rightarrow> string \<Rightarrow> string \<Rightarrow> string \<Rightarrow> error + string" where
  "videoStatusEndpoint lib base rawStatusURL videoID =
     (case ParseURL lib base of
        None \<Rightarrow> Inl (ErrText ''invalid upstream base URL'')
      | Some baseURL \<Rightarrow>
          if TrimSpace rawStatusURL \<noteq> ''''
          then (case ParseURL lib (TrimSpace rawStatusURL) of
                  None \<Rightarrow> Inl (ErrText ''invalid video status URL'')
                | Some ref \<Rightarrow>
                    (let u = ResolveReference lib baseURL ref
                     in if HasUser u \<or> \<not> EqualFold lib (Scheme u) (Scheme baseURL) \<or> \<not> EqualFold lib (URLHost u) (URLHost baseURL)
                        then Inl (ErrText ''video status URL must use the upstream origin'')
                        else Inr (URLText lib (u\<lparr>Fragment := ''''\<rparr>))))
          else if TrimSpace videoID = '''' then Inl (ErrText ''video ID is required for status query'')
          else Inr (base @ ''/videos/'' @ PathEscape lib (TrimSpace videoID)))"

definition endpoint :: "NetLib \<Rightarrow> HTTPClientConfig \<Rightarrow> Request \<Rightarrow> error + string" where
  "endpoint lib c request =
     (let kind = req_CredentialKind request;
          base = (if BaseURL (req_Credentials request) \<noteq> '''' then BaseURL (req_Credentials request)
                  else (case kind of CredentialGrokSSO \<Rightarrow> GrokBaseURL c | CredentialConsoleSSO \<Rightarrow> ConsoleBaseURL c | CredentialCLIOAuth \<Rightarrow> CLIBaseURL c));
          base = TrimRight base (CHR ''/'')
      in if \<not> ValidRequestURI lib base then Inl (ErrText ''invalid upstream base URL'')
         else if kind = CredentialGrokSSO
         then (case req_Operation request of
                 OperationVideo \<Rightarrow> Inr (base @ ''/rest/media/post/create'')
               | OperationVideoStatus \<Rightarrow> videoStatusEndpoint lib base (StatusURL request) (VideoID request)
               | _ \<Rightarrow> Inr (base @ ''/rest/app-chat/conversations/new''))
         else (case req_Operation request of
                 OperationImage \<Rightarrow> Inr (base @ ''/images/generations'')
               | OperationImageEdit \<Rightarrow> Inr (base @ ''/images/edits'')
               | OperationVideo \<Rightarrow> Inr (base @ ''/videos/generations'')
               | OperationVideoStatus \<Rightarrow> videoStatusEndpoint lib base (StatusURL request) (VideoID request)
               | _ \<Rightarrow> Inr (base @ ''/responses'')))"

section \<open>Headers and credentials\<close>

definition header_set :: "string \<Rightarrow> string \<Rightarrow> header \<Rightarrow> header" where
  "header_set k v h = h(k := v)"

definition copyHeader :: "header \<Rightarrow> header \<Rightarrow> header" where
  "copyHeader source destination = (\<lambda>k. if destination k \<noteq> '''' then destination k else source k)"

definition cookie_char :: "char \<Rightarrow> bool" where
  "cookie_char c \<longleftrightarrow> CHR 0x21 \<le> c \<and> c \<le> CHR 0x7E \<and> c \<noteq> CHR '';'' \<and> c \<noteq> CHR '',''"

text \<open>Every byte of a rune outside ASCII is above the range, so the runes may be filtered bytewise.\<close>

definition sanitizeCookieValue :: "string \<Rightarrow> string" where
  "sanitizeCookieValue value = filter cookie_char (TrimSpace (TrimPrefix value ''sso=''))"

fun first_cookie :: "(string \<times> string) list \<Rightarrow> string option" where
  "first_cookie [] = None"
| "first_cookie ((name, v) # cs) = (if ToLower name = ''x-userid'' then Some v else first_cookie cs)"

fun cookie_user :: "NetLib \<Rightarrow> string list \<Rightarrow> string" where
  "cookie_user lib [] = ''''"
| "cookie_user lib (raw # rest) =
     (case first_cookie (Cookies lib raw) of Some v \<Rightarrow> sanitizeCookieValue v | None \<Rightarrow> cookie_user lib rest)"

definition credentialUserID :: "NetLib \<Rightarrow> Credentials \<Rightarrow> string" where
  "credentialUserID lib c =
     (let userID = sanitizeCookieValue (UserID c)
      in if userID \<noteq> '''' then userID else cookie_user lib [SSO c, SSORW c, CFClearance c])"

definition cookie_parts :: "NetLib \<Rightarrow> Credentials \<Rightarrow> string list" where
  "cookie_parts lib c =
     (let sso = sanitizeCookieValue (SSO c);
          ssoRW = (if sanitizeCookieValue (SSORW c) = '''' then sso else sanitizeCookieValue (SSORW c));
          user = credentialUserID lib c;
          clearance = sanitizeCookieValue (CFClearance c)
      in [''sso='' @ sso, ''sso-rw='' @ ssoRW] @
         (if user \<noteq> '''' then [''x-userid='' @ sanitizeCookieValue user] else []) @
         (if clearance \<noteq> '''' then [''cf_clearance='' @ clearance] else []))"

definition ssoCookie :: "NetLib \<Rightarrow> Credentials \<Rightarrow> string" where
  "ssoCookie lib c = Join (cookie_parts lib c) ''; ''"

definition setBrowserHeaders :: "Credentials \<Rightarrow> string \<Rightarrow> string \<Rightarrow> header \<Rightarrow> header" where
  "setBrowserHeaders c origin referer h =
     (let agent = TrimSpace (UserAgent c);
          agent = (if agent = '''' then ''Mozilla/5.0 (Windows NT 10.0; Win64; x64) AppleWebKit/537.36 Chrome/136.0.0.0 Safari/537.36'' else agent)
      in header_set ''Accept-Language'' ''zh-CN,zh;q=0.9,en;q=0.8'' (header_set ''Referer'' referer
           (header_set ''Origin'' origin (header_set ''User-Agent'' agent h))))"

definition GrokSSO_Apply :: "NetLib \<Rightarrow> Credentials \<Rightarrow> header \<Rightarrow> error + header" where
  "GrokSSO_Apply lib c h =
     (if TrimSpace (SSO c) = '''' then Inl (ErrText ''grok SSO credential is empty'')
      else Inr (header_set ''X-Statsig-Id'' (StatsigID lib) (header_set ''X-Xai-Request-Id'' (RandomID lib)
             (header_set ''Cookie'' (ssoCookie lib c) (setBrowserHeaders c ''https://grok.com'' ''https://grok.com/'' h)))))"

definition ConsoleSSO_Apply :: "NetLib \<Rightarrow> Credentials \<Rightarrow> header \<Rightarrow> error + header" where
  "ConsoleSSO_Apply lib c h =
     (if TrimSpace (SSO c) = '''' then Inl (ErrText ''console SSO credential is empty'')
      else Inr (header_set ''X-Cluster'' ''https://us-east-1.api.x.ai'' (header_set ''Cookie'' (ssoCookie lib c)
             (header_set ''Authorization'' ''Bearer anonymous'' (setBrowserHeaders c ''https://console.x.ai'' ''https://console.x.ai/'' h)))))"

definition CLIOAuth_Apply :: "Credentials \<Rightarrow> header \<Rightarrow> error + header" where
  "CLIOAuth_Apply c h =
     (if TrimSpace (AccessToken c) = '''' then Inl (ErrText ''CLI OAuth access token is empty'')
      else (let tokenType = (if TrimSpace (TokenType c) = '''' then ''Bearer'' else TrimSpace (TokenType c));
                agent = (if TrimSpace (UserAgent c) = '''' then ''xai-grok-workspace/0.2.93'' else TrimSpace (UserAgent c))
            in Inr (header_set ''User-Agent'' agent (header_set ''X-Grok-Client-Identifier'' ''grok-shell''
                 (header_set ''X-Grok-Client-Version'' ''0.2.93'' (header_set ''X-Xai-Token-Auth'' ''xai-grok-cli''
                   (header_set ''Accept'' ''text/event-stream, application/json''
                     (header_set ''Authorization'' (tokenType @ '' '' @ AccessToken c) h))))))))"

definition AdapterFor :: "NetLib \<Rightarrow> CredentialKind \<Rightarrow> Credentials \<Rightarrow> header \<Rightarrow> error + header" where
  "AdapterFor lib kind =
     (case kind of CredentialGrokSSO \<Rightarrow> GrokSSO_Apply lib | CredentialConsoleSSO \<Rightarrow> ConsoleSSO_Apply lib | CredentialCLIOAuth \<Rightarrow> CLIOAuth_Apply)"

definition applyPromptCacheHeader :: "Request \<Rightarrow> header \<Rightarrow> header" where
  "applyPromptCacheHeader request h =
     (let h = h(''X-Grok-Conv-Id'' := '''')
      in if req_Operation request \<notin> {OperationChat, OperationResponses, OperationMessages} then h
         else if req_CredentialKind request \<noteq> CredentialCLIOAuth \<and> req_CredentialKind request \<noteq> CredentialConsoleSSO then h
         else if TrimSpace (PromptCacheKey request) \<noteq> '''' then header_set ''X-Grok-Conv-Id'' (TrimSpace (PromptCacheKey request)) h
         else h)"

section \<open>Sending a request\<close>

record http_request =
  hr_method :: string
  hr_url :: string
  hr_header :: header
  hr_body :: "string option"

record http_response =
  hp_status :: int
  hp_header :: header
  hp_body :: string
  hp_lines :: "string list"
  hp_scanErr :: "string option"
  hp_readErr :: "error option"

definition useImagineWebSocket :: "Request \<Rightarrow> bool" where
  "useImagineWebSocket request \<longleftrightarrow> req_Operation request = OperationImage \<and> req_CredentialKind request = CredentialGrokSSO
     \<and> \<not> Contains (ToLower (req_Model request)) ''lite''"

definition request_header :: "NetLib \<Rightarrow> Request \<Rightarrow> error + header" where
  "request_header lib input =
     (let h = (\<lambda>_. '''');
          h = (if req_Operation input = OperationVideoStatus then h else header_set ''Content-Type'' ''application/json'' h);
          h = copyHeader (req_Headers input) (header_set ''Accept'' ''text/event-stream, application/json'' h)
      in case AdapterFor lib (req_CredentialKind input) (req_Credentials input) h of
           Inl e \<Rightarrow> Inl e
         | Inr h \<Rightarrow> Inr (applyPromptCacheHeader input h))"

definition build_request ::
  "NetLib \<Rightarrow> UpstreamLib \<Rightarrow> ((string \<times> string) list \<Rightarrow> (string \<times> string) list) \<Rightarrow> HTTPClientConfig \<Rightarrow> Request \<Rightarrow> error + http_request" where
  "build_request net lib visit c input =
     (case endpoint net c input of
        Inl e \<Rightarrow> Inl e
      | Inr url \<Rightarrow>
          (let get = (req_Operation input = OperationVideoStatus)
           in case (if get then Some None else map_option Some (preparePayload lib visit input)) of
                None \<Rightarrow> Inl (ErrText ''decode gateway payload'')
              | Some body \<Rightarrow>
                  (case request_header net input of
                     Inl e \<Rightarrow> Inl e
                   | Inr h \<Rightarrow> Inr \<lparr>hr_method = (if get then ''GET'' else ''POST''), hr_url = url, hr_header = h, hr_body = body\<rparr>)))"

text \<open>Reading the answer. The limit of an error body is 2 MiB; \<open>rnames\<close> are the reverse tool names.\<close>

definition read_response :: "UpstreamLib \<Rightarrow> HTTPClientConfig \<Rightarrow> (string \<rightharpoonup> string) \<Rightarrow> bool \<Rightarrow> http_response \<Rightarrow> error + Response" where
  "read_response lib c rnames stream r =
     (if hp_status r < 200 \<or> 300 \<le> hp_status r
      then (case hp_readErr r of
              Some e \<Rightarrow> Inl e
            | None \<Rightarrow> Inr \<lparr>resp_StatusCode = hp_status r, resp_Header = hp_header r, resp_Body = take 2097152 (hp_body r), resp_Events = None\<rparr>)
      else if stream \<or> Contains (ToLower (hp_header r ''Content-Type'')) ''text/event-stream''
      then Inr \<lparr>resp_StatusCode = hp_status r, resp_Header = hp_header r, resp_Body = '''',
                resp_Events = Some (streamEventsWithToolNames lib rnames (hp_lines r) (hp_scanErr r))\<rparr>
      else (case hp_readErr r of
              Some e \<Rightarrow> Inl e
            | None \<Rightarrow>
                if MaxResponseSize c < int (length (hp_body r)) then Inl (ErrText ''upstream response exceeds configured limit'')
                else Inr \<lparr>resp_StatusCode = hp_status r, resp_Header = hp_header r, resp_Body = hp_body r,
                          resp_Events = Some (parseNonStreamWithToolNames lib (hp_body r) rnames)\<rparr>))"

text \<open>
  \<open>Do\<close>. \<open>special\<close> are the web-only operations; \<open>visitForward\<close> and \<open>visitReverse\<close> are the orders of the two runs over the
  tools; \<open>client\<close> is the direct client and \<open>proxied\<close> the lookup of a client for a proxy.
\<close>

definition http_Do ::
  "NetLib \<Rightarrow> UpstreamLib \<Rightarrow> HTTPClientConfig \<Rightarrow> duration option \<Rightarrow> ((string \<times> string) list \<Rightarrow> (string \<times> string) list)
    \<Rightarrow> ((string \<times> string) list \<Rightarrow> (string \<times> string) list) \<Rightarrow> (Request \<Rightarrow> 'w \<Rightarrow> (error + Response) \<times> 'w) \<Rightarrow> 'c \<Rightarrow> (string \<Rightarrow> 'w \<Rightarrow> (error + 'c) \<times> 'w)
    \<Rightarrow> ('c \<Rightarrow> duration \<Rightarrow> http_request \<Rightarrow> 'w \<Rightarrow> (error + http_response) \<times> 'w) \<Rightarrow> Request \<Rightarrow> 'w \<Rightarrow> (error + Response) \<times> 'w" where
  "http_Do net lib c dynamic visitForward visitReverse special client proxied send input w =
     (if (req_CredentialKind input = CredentialGrokSSO \<and> req_Operation input \<in> {OperationVideo, OperationVideoStatus, OperationImageEdit})
         \<or> useImagineWebSocket input
      then special input w
      else (let timeout = requestTimeout c dynamic; rnames = requestToolReverseNames lib visitReverse input
            in case build_request net lib visitForward c input of
                 Inl e \<Rightarrow> (Inl e, w)
               | Inr request \<Rightarrow>
                   (let (cl, w) = (if TrimSpace (ProxyURL input) \<noteq> '''' then proxied (ProxyURL input) w else (Inr client, w))
                    in case cl of
                         Inl e \<Rightarrow> (Inl (Wrapped ''configure account proxy'' e), w)
                       | Inr cl \<Rightarrow>
                           (let (r, w) = send cl timeout request w
                            in case r of
                                 Inl e \<Rightarrow> (Inl e, w)
                               | Inr r \<Rightarrow> (read_response lib c rnames (req_Stream input) r, w)))))"

end
