(* ===== verification/Client_Properties.thy ===== *)
theory Client_Properties
  imports Tool_Properties Http_Client
begin

text \<open>
  What the upstream client guarantees: of the bodies it sends, first, and then of its proxy clients, cookies and headers.
\<close>

section \<open>Bodies\<close>

text \<open>
  What a request body sent upstream always contains, whatever the client put into its own body: the fields the gateway decides, and the
  cache key of the tenant.
\<close>

named_theorems payload_simps \<open>members of a payload after a step that does not concern them\<close>

lemma map_of_set_to [payload_simps]: "map_of (set_to k v m) k' = (if k' = k then Some v else map_of m k')"
  by (simp add: update_conv')

lemma map_of_drop_key [payload_simps]: "map_of (drop_key k m) k' = (if k' = k then None else map_of m k')"
  by (simp add: delete_conv')

lemma map_of_modify_member [payload_simps]:
  "map_of (modify_member k f m) k' = (if k' = k then map_option f (map_of m k') else map_of m k')"
  by (auto simp: modify_member_def payload_simps split: option.split)

lemma map_of_copy_keys [payload_simps]: "k \<notin> set ks \<Longrightarrow> map_of (copy_keys ks source result) k = map_of result k"
  by (induction ks source result rule: copy_keys.induct) (auto simp: payload_simps split: option.split)

lemma map_of_applyToolAliases [payload_simps]:
  "k \<notin> {''tools'', ''input'', ''tool_choice''} \<Longrightarrow> map_of (applyToolAliases payload aliases) k = map_of payload k"
  by (simp add: applyToolAliases_def payload_simps)

lemma map_of_tool_payload [payload_simps]:
  "k \<notin> {''tools'', ''tool_choice''} \<Longrightarrow> map_of (tool_payload source tools result) k = map_of result k"
  by (simp add: tool_payload_def payload_simps Let_def split: option.split)

lemma map_of_search_payload [payload_simps]:
  "k \<notin> {''tools'', ''tool_choice''} \<Longrightarrow> map_of (search_payload request source tools result) k = map_of result k"
  by (simp add: search_payload_def payload_simps)

lemma map_of_ensureReasoning [payload_simps]: "k \<noteq> ''reasoning'' \<Longrightarrow> map_of (ensureReasoning source op result) k = map_of result k"
  by (simp add: ensureReasoning_def payload_simps Let_def split: option.split)

lemma map_of_ensureInclude [payload_simps]: "k \<noteq> ''include'' \<Longrightarrow> map_of (ensureInclude result) k = map_of result k"
  by (simp add: ensureInclude_def payload_simps Let_def)

lemma map_of_applyConsoleDefaults [payload_simps]:
  "k \<notin> {''max_output_tokens'', ''reasoning'', ''tools'', ''tool_choice''} \<Longrightarrow>
   map_of (applyConsoleDefaults source request m present result) k = map_of result k"
  by (simp add: applyConsoleDefaults_def payload_simps Let_def)

lemma map_of_cache_payload [payload_simps]:
  "map_of (cache_payload request result) k =
     (if k = ''prompt_cache_key''
      then if req_CredentialKind request \<noteq> CredentialGrokSSO \<and> TrimSpace (PromptCacheKey request) \<noteq> ''''
           then Some (JStr (TrimSpace (PromptCacheKey request))) else None
      else map_of result k)"
  by (auto simp: cache_payload_def payload_simps Let_def split: CredentialKind.split)

lemma map_of_copyRequestOptions [payload_simps]:
  "k \<notin> {''temperature'', ''top_p'', ''metadata'', ''max_output_tokens'', ''service_tier'', ''user'', ''instructions''} \<Longrightarrow>
   map_of (copyRequestOptions source result) k = map_of result k"
  by (simp add: copyRequestOptions_def payload_simps Let_def del: copy_keys.simps split: option.split)

lemma operation_payload_fixed:
  "map_of (operation_payload lib request source m) ''model'' = Some (JStr m)"
  "map_of (operation_payload lib request source m) ''store'' = Some (JBool False)"
  "map_of (operation_payload lib request source m) ''stream'' = Some (JBool (req_Stream request))"
  by (simp_all add: operation_payload_def start_payload_def payload_simps Let_def split: Operation.split option.split)

text \<open>C10: a client cannot set the cache identity or the fixed fields of the upstream request. Whatever its body contains, the payload carries the
  model, the streaming mode and \<open>store = false\<close> as the gateway decides them, and \<open>prompt_cache_key\<close> is the key the gateway derived
  for the tenant; it is absent when there is none and for web credentials.\<close>

theorem payload_isolates_cache_key:
  "map_of (prepareResponsesPayload lib visit request source m) ''prompt_cache_key'' =
     (if req_CredentialKind request \<noteq> CredentialGrokSSO \<and> TrimSpace (PromptCacheKey request) \<noteq> ''''
      then Some (JStr (TrimSpace (PromptCacheKey request))) else None)
   \<and> map_of (prepareResponsesPayload lib visit request source m) ''model'' = Some (JStr m)
   \<and> map_of (prepareResponsesPayload lib visit request source m) ''store'' = Some (JBool False)
   \<and> map_of (prepareResponsesPayload lib visit request source m) ''stream'' = Some (JBool (req_Stream request))"
  by (simp add: prepareResponsesPayload_def Let_def payload_simps operation_payload_fixed)

section \<open>The client\<close>

text \<open>
  The upstream client: the cache of proxy clients stays consistent and bounded under every interleaving of its critical sections, cookies
  cannot smuggle in other cookies or headers, and the conversation header is the one of the tenant.
\<close>

section \<open>The cache of proxy clients\<close>

definition proxies_ok :: "'c proxies \<Rightarrow> bool" where
  "proxies_ok st \<longleftrightarrow> distinct (proxyLRU st)
     \<and> (\<forall>e \<in> set (proxyLRU st). e < length (entries st) \<and> proxyClients st (fst (entries st ! e)) = Some e)
     \<and> (\<forall>k e. proxyClients st k = Some e \<longrightarrow> e \<in> set (proxyLRU st) \<and> fst (entries st ! e) = k)"

lemma proxies_okD:
  assumes "proxies_ok st"
  shows "distinct (proxyLRU st)" and "e \<in> set (proxyLRU st) \<Longrightarrow> e < length (entries st)"
    and "e \<in> set (proxyLRU st) \<Longrightarrow> proxyClients st (fst (entries st ! e)) = Some e"
    and "proxyClients st k = Some e \<Longrightarrow> e \<in> set (proxyLRU st)" and "proxyClients st k = Some e \<Longrightarrow> fst (entries st ! e) = k"
  using assms by (auto simp: proxies_ok_def)

lemma move_to_front_facts:
  assumes "e \<in> set xs" "distinct xs"
  shows "set (move_to_front e xs) = set xs" "distinct (move_to_front e xs)" "length (move_to_front e xs) = length xs"
  using assms length_pos_if_in_set [OF assms(1)] by (auto simp: move_to_front_def length_remove1)

lemma proxy_lookup_ok:
  assumes "proxies_ok st" "proxy_lookup key st = (r, st')"
  shows "proxies_ok st'" "length (proxyLRU st') = length (proxyLRU st)" "entries st' = entries st" "proxyClients st' = proxyClients st"
    "r = map_option (\<lambda>e. snd (entries st ! e)) (proxyClients st key)"
proof -
  have "proxies_ok st' \<and> length (proxyLRU st') = length (proxyLRU st) \<and> entries st' = entries st \<and> proxyClients st' = proxyClients st
      \<and> r = map_option (\<lambda>e. snd (entries st ! e)) (proxyClients st key)"
  proof (cases "proxyClients st key")
    case None
    with assms show ?thesis by (simp add: proxy_lookup_def)
  next
    case (Some e)
    note m = move_to_front_facts [OF proxies_okD(4) [OF assms(1) Some] proxies_okD(1) [OF assms(1)]]
    from Some assms m show ?thesis by (auto simp: proxy_lookup_def proxies_ok_def)
  qed
  then show "proxies_ok st'" "length (proxyLRU st') = length (proxyLRU st)" "entries st' = entries st" "proxyClients st' = proxyClients st"
    "r = map_option (\<lambda>e. snd (entries st ! e)) (proxyClients st key)" by auto
qed

lemma last_not_butlast: "distinct xs \<Longrightarrow> xs \<noteq> [] \<Longrightarrow> last xs \<notin> set (butlast xs)"
  by (metis append_butlast_last_id distinct_butlast not_distinct_conv_prefix)

lemma evict_step_ok:
  assumes "proxies_ok st" "proxyLRU st \<noteq> []" "entries st ! last (proxyLRU st) = (key, client)"
  shows "proxies_ok (st\<lparr>proxyClients := (proxyClients st)(key := None), proxyLRU := butlast (proxyLRU st), closed := cl\<rparr>)"
proof -
  let ?e = "last (proxyLRU st)"
  have e: "?e \<in> set (proxyLRU st)" using assms(2) by simp
  have key: "proxyClients st key = Some ?e" using proxies_okD(3) [OF assms(1) e] assms(3) by simp
  have split: "set (proxyLRU st) = insert ?e (set (butlast (proxyLRU st)))"
    using assms(2) by (metis append_butlast_last_id insert_is_Un list.set(1) list.set(2) set_append sup_commute)
  have other: "fst (entries st ! x) \<noteq> key" if "x \<in> set (butlast (proxyLRU st))" for x
  proof
    assume "fst (entries st ! x) = key"
    with key proxies_okD(3) [OF assms(1) in_set_butlastD [OF that]] have "x = ?e" by simp
    with that last_not_butlast [OF proxies_okD(1) [OF assms(1)] assms(2)] show False by simp
  qed
  have stays: "x \<in> set (butlast (proxyLRU st))" if "proxyClients st k = Some x" "k \<noteq> key" for k x
    using that proxies_okD(4,5) [OF assms(1) that(1)] assms(3) split by auto
  show ?thesis
    using other stays proxies_okD [OF assms(1)] by (auto simp: proxies_ok_def distinct_butlast dest: in_set_butlastD)
qed

lemma evict_proxies_ok:
  "proxies_ok st \<Longrightarrow> 0 \<le> limit \<Longrightarrow> proxies_ok (evict_proxies limit st) \<and> int (length (proxyLRU (evict_proxies limit st))) \<le> limit"
proof (induction limit st rule: evict_proxies.induct)
  case (1 limit st)
  show ?case
  proof (cases "limit < int (length (proxyLRU st)) \<and> proxyLRU st \<noteq> []")
    case True
    obtain key client where kc: "entries st ! last (proxyLRU st) = (key, client)" by (rule prod.exhaust)
    from 1(1) [OF True kc [symmetric] refl evict_step_ok [OF 1(2) _ kc] 1(3)] True kc show ?thesis
      by (subst evict_proxies.simps, subst (2) evict_proxies.simps) simp
  next
    case False
    with 1(2,3) show ?thesis by (subst evict_proxies.simps, subst (2) evict_proxies.simps) auto
  qed
qed

text \<open>Eviction keeps the front of the list.\<close>

lemma evict_keeps_front:
  "proxyLRU st = e # xs \<Longrightarrow> proxies_ok st \<Longrightarrow> 1 \<le> limit \<Longrightarrow>
   entries (evict_proxies limit st) = entries st \<and> proxyClients (evict_proxies limit st) (fst (entries st ! e)) = Some e"
proof (induction limit st arbitrary: xs rule: evict_proxies.induct)
  case (1 limit st)
  show ?case
  proof (cases "limit < int (length (proxyLRU st)) \<and> proxyLRU st \<noteq> []")
    case True
    obtain key client where kc: "entries st ! last (proxyLRU st) = (key, client)" by (rule prod.exhaust)
    have xs: "xs \<noteq> []" using True 1(2,4) by auto
    let ?st = "st\<lparr>proxyClients := (proxyClients st)(key := None), proxyLRU := butlast (proxyLRU st), closed := closed st @ [client]\<rparr>"
    have f: "proxyLRU ?st = e # butlast xs" using 1(2) xs by simp
    from 1(1) [OF True kc [symmetric] refl f evict_step_ok [OF 1(3) _ kc] 1(4)] True kc show ?thesis
      by (subst evict_proxies.simps, subst (2) evict_proxies.simps) simp
  next
    case False
    with 1(2,3) show ?thesis by (subst evict_proxies.simps, subst (2) evict_proxies.simps) (auto simp: proxies_ok_def)
  qed
qed

lemma cache_new_ok:
  assumes "proxies_ok st" "proxyClients st key = None"
  shows "proxies_ok (st\<lparr>entries := entries st @ [(key, client)], proxyLRU := length (entries st) # proxyLRU st,
    proxyClients := (proxyClients st)(key \<mapsto> length (entries st))\<rparr>)" (is "proxies_ok ?st")
proof -
  note d = proxies_okD [OF assms(1)]
  have old: "fst (entries st ! e) \<noteq> key" if "e \<in> set (proxyLRU st)" for e using d(3) [OF that] assms(2) by auto
  have front: "e \<in> set (proxyLRU ?st) \<longleftrightarrow> e = length (entries st) \<or> e \<in> set (proxyLRU st)" for e by auto
  have entry: "fst (entries ?st ! e) = (if e = length (entries st) then key else fst (entries st ! e))"
    if "e \<in> set (proxyLRU ?st)" for e using that d(2) [of e] by (auto simp: nth_append)
  have "distinct (proxyLRU ?st)" using d(1,2) by auto
  moreover have "e < length (entries ?st) \<and> proxyClients ?st (fst (entries ?st ! e)) = Some e" if "e \<in> set (proxyLRU ?st)" for e
    using that old d(2,3) [of e] unfolding entry [OF that] front by auto
  moreover have "e \<in> set (proxyLRU ?st) \<and> fst (entries ?st ! e) = k" if "proxyClients ?st k = Some e" for k e
  proof (cases "k = key")
    case False
    with that have "proxyClients st k = Some e" by simp
    with d(4,5) d(2) [of e] show ?thesis by (simp add: nth_append)
  qed (use that in \<open>auto simp: nth_append\<close>)
  ultimately show ?thesis unfolding proxies_ok_def by blast
qed

lemma proxy_insert_ok:
  assumes "proxies_ok st" "1 \<le> limit" "int (length (proxyLRU st)) \<le> limit" "proxy_insert limit key client st = (c, st')"
  shows "proxies_ok st' \<and> int (length (proxyLRU st')) \<le> limit \<and> fst (proxy_lookup key st') = Some c"
proof -
  obtain r st1 where lk: "proxy_lookup key st = (r, st1)" by (rule prod.exhaust)
  note l = proxy_lookup_ok [OF assms(1) lk]
  show ?thesis
  proof (cases r)
    case (Some cached)
    with assms(4) lk have st': "c = cached" "st' = st1\<lparr>closed := closed st1 @ [client]\<rparr>" by (auto simp: proxy_insert_def)
    have "proxies_ok st'" using l(1) st'(2) by (simp add: proxies_ok_def)
    moreover have "fst (proxy_lookup key st') = Some c"
      using l(3,4,5) Some st' by (auto simp: proxy_lookup_def split: option.splits)
    ultimately show ?thesis using l(2) assms(3) st'(2) by simp
  next
    case None
    let ?n = "length (entries st1)"
    let ?st = "st1\<lparr>entries := entries st1 @ [(key, client)], proxyLRU := ?n # proxyLRU st1, proxyClients := (proxyClients st1)(key \<mapsto> ?n)\<rparr>"
    have st': "c = client" "st' = evict_proxies limit ?st" using assms(4) lk None by (auto simp: proxy_insert_def)
    have new: "proxyClients st1 key = None" using l(4,5) None by simp
    have ok: "proxies_ok ?st" by (rule cache_new_ok [OF l(1) new])
    have "fst (entries ?st ! ?n) = key" "snd (entries ?st ! ?n) = client" by simp_all
    with evict_keeps_front [of ?st ?n "proxyLRU st1" limit] ok assms(2) evict_proxies_ok [OF ok] show ?thesis
      unfolding st' by (simp add: proxy_lookup_def)
  qed
qed

text \<open>The critical sections of any number of calls, in any order.\<close>

inductive proxy_step :: "int \<Rightarrow> 'c proxies \<Rightarrow> 'c proxies \<Rightarrow> bool" for limit where
  lookup: "proxy_lookup key st = (r, st') \<Longrightarrow> proxy_step limit st st'"
| insert: "proxy_insert limit key client st = (c, st') \<Longrightarrow> proxy_step limit st st'"

inductive_cases proxy_stepE: "proxy_step limit st st'"

lemma proxy_steps_ok:
  assumes "(proxy_step limit)\<^sup>*\<^sup>* no_proxies st" "1 \<le> limit"
  shows "proxies_ok st \<and> int (length (proxyLRU st)) \<le> limit"
  using assms(1)
proof (induction rule: rtranclp_induct)
  case base
  show ?case using assms(2) by (simp add: no_proxies_def proxies_ok_def)
next
  case (step st st')
  from step(2) show ?case
  proof (cases rule: proxy_step.cases)
    case (lookup key r)
    then show ?thesis using proxy_lookup_ok(1,2) [of st key r st'] step.IH by auto
  next
    case (insert key client c)
    then show ?thesis using proxy_insert_ok [of st limit key client c st'] step.IH assms(2) by auto
  qed
qed

text \<open>The cache of proxy clients is consistent and bounded. After any interleaving of the critical sections of concurrent calls, the list of
  clients in use has no duplicates and at most the configured length, the map knows exactly the addresses of its clients, and the client a call
  returns is the one the next lookup of the same address finds.\<close>

theorem proxy_cache_bounded:
  assumes "(proxy_step limit)\<^sup>*\<^sup>* no_proxies st" "1 \<le> limit"
  shows "distinct (proxyLRU st) \<and> int (length (proxyLRU st)) \<le> limit
    \<and> dom (proxyClients st) = (\<lambda>e. fst (entries st ! e)) ` set (proxyLRU st)
    \<and> fst (proxy_lookup key (snd (proxy_insert limit key client st))) = Some (fst (proxy_insert limit key client st))"
proof -
  have ok: "proxies_ok st" "int (length (proxyLRU st)) \<le> limit" using proxy_steps_ok [OF assms] by auto
  have "dom (proxyClients st) = (\<lambda>e. fst (entries st ! e)) ` set (proxyLRU st)"
  proof (intro equalityI subsetI)
    fix k
    assume "k \<in> dom (proxyClients st)"
    then obtain e where "proxyClients st k = Some e" by auto
    with proxies_okD(4,5) [OF ok(1)] show "k \<in> (\<lambda>e. fst (entries st ! e)) ` set (proxyLRU st)" by (metis image_eqI)
  qed (use proxies_okD(3) [OF ok(1)] in auto)
  with ok proxies_okD(1) [OF ok(1)] proxy_insert_ok [OF ok(1) assms(2) ok(2), of key client "fst (proxy_insert limit key client st)"
      "snd (proxy_insert limit key client st)"] show ?thesis by simp
qed

theorem proxy_cache_bounded_witness:
  "length (proxyLRU (snd (proxy_insert 1 ''b'' (2::nat) (snd (proxy_insert 1 ''a'' 1 no_proxies))))) \<le> 1"
proof -
  let ?a = "snd (proxy_insert 1 ''a'' (1::nat) no_proxies)" and ?b = "snd (proxy_insert 1 ''b'' (2::nat) (snd (proxy_insert 1 ''a'' 1 no_proxies)))"
  have "(proxy_step 1)\<^sup>*\<^sup>* no_proxies ?b"
    by (rule rtranclp.rtrancl_into_rtrancl [OF r_into_rtranclp]) (rule proxy_step.insert, rule prod.collapse [symmetric])+
  from proxy_cache_bounded [OF this, of "''b''" 2] show ?thesis by simp
qed

section \<open>Headers\<close>

lemma sanitized [simp]: "list_all cookie_char (sanitizeCookieValue v)"
  by (simp add: sanitizeCookieValue_def list_all_iff)

text \<open>What one cookie of the header looks like.\<close>

definition cookie_names :: "string list" where
  "cookie_names = [''sso='', ''sso-rw='', ''x-userid='', ''cf_clearance='']"

definition cookie_pair :: "string \<Rightarrow> bool" where
  "cookie_pair part \<longleftrightarrow> list_ex (\<lambda>name. take (length name) part = name \<and> list_all cookie_char (drop (length name) part)) cookie_names"

lemma cookie_pairs: "list_all cookie_pair (cookie_parts lib c)"
  by (simp add: cookie_parts_def Let_def cookie_pair_def cookie_names_def)

lemma cookie_names_chars: "name \<in> set cookie_names \<Longrightarrow> list_all cookie_char name"
  by (auto simp: cookie_names_def cookie_char_def less_eq_char_def)

lemma cookie_pair_chars: "cookie_pair part \<Longrightarrow> list_all cookie_char part"
  unfolding cookie_pair_def list_ex_iff by (metis append_take_drop_id cookie_names_chars list_all_append)

lemma join_separators:
  "list_all (list_all cookie_char) parts \<Longrightarrow>
   count_list (Join parts ''; '') CHR '';'' = length parts - 1 \<and> list_all (\<lambda>ch. cookie_char ch \<or> ch = CHR '';'' \<or> ch = CHR '' '') (Join parts ''; '')"
proof (induction parts rule: induct_list012)
  case (2 x)
  then show ?case by (auto simp: list_all_iff cookie_char_def count_list_0_iff)
next
  case (3 x y zs)
  then have "count_list x CHR '';'' = 0" by (auto simp: list_all_iff cookie_char_def count_list_0_iff)
  with 3 show ?case by (auto simp: list_all_iff)
qed simp

text \<open>Credentials cannot inject cookies or headers. The cookie header consists of pairs of a fixed name and a value of printable characters
  without blanks, semicolons and commas, whatever the stored credential contains; it has one semicolon between two pairs and no other, and no line
  break or other control character.\<close>

theorem cookie_not_injected:
  "list_all cookie_pair (cookie_parts lib c)
   \<and> count_list (ssoCookie lib c) CHR '';'' = length (cookie_parts lib c) - 1
   \<and> list_all (\<lambda>ch. CHR 0x20 \<le> ch \<and> ch \<le> CHR 0x7E \<and> ch \<noteq> CHR '','') (ssoCookie lib c)"
proof -
  have "list_all (list_all cookie_char) (cookie_parts lib c)" 
    by (rule list.pred_mono_strong [OF cookie_pairs]) (rule cookie_pair_chars)
  from join_separators [OF this] have j: "count_list (ssoCookie lib c) CHR '';'' = length (cookie_parts lib c) - 1"
    "list_all (\<lambda>ch. cookie_char ch \<or> ch = CHR '';'' \<or> ch = CHR '' '') (ssoCookie lib c)" by (simp_all add: ssoCookie_def)
  have "CHR 0x20 \<le> ch \<and> ch \<le> CHR 0x7E \<and> ch \<noteq> CHR '',''" if "cookie_char ch \<or> ch = CHR '';'' \<or> ch = CHR '' ''" for ch
    using that by (auto simp: cookie_char_def less_eq_char_def)
  with j cookie_pairs show ?thesis by (auto simp: list_all_iff)
qed

lemma conversation_header:
  "applyPromptCacheHeader input h ''X-Grok-Conv-Id'' =
     (if req_Operation input \<in> {OperationChat, OperationResponses, OperationMessages} \<and> req_CredentialKind input \<noteq> CredentialGrokSSO
      then TrimSpace (PromptCacheKey input) else '''')"
  by (cases "req_CredentialKind input") (simp_all add: applyPromptCacheHeader_def header_set_def Let_def)

lemma build_request_header:
  "build_request net lib visit c input = Inr request \<Longrightarrow> \<exists>h. hr_header request = applyPromptCacheHeader input h"
  by (auto simp: build_request_def request_header_def Let_def split: sum.splits option.splits if_splits)

text \<open>The conversation header belongs to the tenant. Whatever headers the client sent, the request sent upstream for a conversation carries as
  \<open>X-Grok-Conv-Id\<close> exactly the cache key the gateway derived, and none when there is no key, for another operation or for a web
  session.\<close>

theorem conversation_header_isolated:
  assumes "build_request net lib visit c input = Inr request"
  shows "hr_header request ''X-Grok-Conv-Id'' =
    (if req_Operation input \<in> {OperationChat, OperationResponses, OperationMessages} \<and> req_CredentialKind input \<noteq> CredentialGrokSSO
     then TrimSpace (PromptCacheKey input) else '''')"
  using build_request_header [OF assms] conversation_header by auto

definition sample_net :: NetLib where
  "sample_net = \<lparr>ParseURL = (\<lambda>_. None), URLText = (\<lambda>_. ''''), ResolveReference = (\<lambda>_ u. u), ValidRequestURI = (\<lambda>_. True),
     PathEscape = (\<lambda>s. s), EqualFold = (\<lambda>a b. ToLower a = ToLower b), Cookies = (\<lambda>_. []), RandomID = ''r'', StatsigID = ''s''\<rparr>"

definition sample_config :: HTTPClientConfig where
  "sample_config = NewHTTPClient \<lparr>GrokBaseURL = '''', ImagineURL = '''', ConsoleBaseURL = '''', CLIBaseURL = '''', RequestTimeout = 0,
     VideoTimeout = 0, MaxResponseSize = 0, MaxProxyClients = 0\<rparr>"

definition sample_client :: UpstreamLib where
  "sample_client = \<lparr>Unmarshal = (\<lambda>_. Some []), Marshal_json = (\<lambda>_. ''{}''), Sprint = (\<lambda>_. ''''), Sha256 = (\<lambda>s. s)\<rparr>"

definition sample_conversation :: Request where
  "sample_conversation = \<lparr>req_Operation = OperationChat, req_Model = ''grok-4'', req_UpstreamModel = '''', PromptCacheKey = ''tenant'',
     req_CredentialKind = CredentialCLIOAuth, req_Credentials = zero_credentials\<lparr>AccessToken := ''t''\<rparr>, ProxyURL = '''', req_Body = ''{}'',
     req_Headers = (\<lambda>k. if k = ''X-Grok-Conv-Id'' then ''other'' else ''''), req_Stream = False, VideoID = '''', StatusURL = ''''\<rparr>"

lemma sample_conversation_sent: "isl (build_request sample_net sample_client (\<lambda>xs. xs) sample_config sample_conversation) = False"
  by code_simp

theorem conversation_header_isolated_witness:
  "hr_header (projr (build_request sample_net sample_client (\<lambda>xs. xs) sample_config sample_conversation)) ''X-Grok-Conv-Id'' = ''tenant''"
proof -
  obtain r where r: "build_request sample_net sample_client (\<lambda>xs. xs) sample_config sample_conversation = Inr r"
    using sample_conversation_sent by (metis isl_def sum.exhaust_disc sum.collapse(2))
  have "TrimSpace ''tenant'' = ''tenant''" by code_simp
  with conversation_header_isolated [OF r] r show ?thesis by (simp add: sample_conversation_def)
qed

end
