(* ===== verification/Security.thy ===== *)
theory Security
  imports Cache_Identity
begin

text \<open>
  The security primitives (\<open>internal/security\<close>): tokens and identifiers (\<open>token.go\<close>), one-time codes
  (\<open>totp.go\<close>), password hashes (\<open>password.go\<close>) and sealed secrets (\<open>cipher.go\<close>).

  Byte slices are character lists. The algorithms of the standard library (HMAC, base64, base32, Argon2, AES-GCM, URL escaping)
  are the record \<open>SecLib\<close>; \<open>random\<close> is \<open>io.ReadFull\<close> from the random source, for a number of bytes. The counter, the truncation and
  the modulus of one-time codes are 64-bit and 32-bit words as in the code.
\<close>

record SecLib =
  HmacSHA256 :: "string \<Rightarrow> string \<Rightarrow> string"
  HmacSHA1 :: "string \<Rightarrow> string \<Rightarrow> string"
  RawURLEncoding :: "string \<Rightarrow> string"
  RawStdEncode :: "string \<Rightarrow> string"
  RawStdDecode :: "string \<Rightarrow> string option"
  Base32Encode :: "string \<Rightarrow> string"
  Base32Decode :: "string \<Rightarrow> string option"
  url_PathEscape :: "string \<Rightarrow> string"
  QueryEscape :: "string \<Rightarrow> string"
  Upper :: "string \<Rightarrow> string"
  Argon2IDKey :: "string \<Rightarrow> string \<Rightarrow> int \<Rightarrow> int \<Rightarrow> int \<Rightarrow> int \<Rightarrow> string"
  ScanParams :: "string \<Rightarrow> (int \<times> int \<times> int) option"

type_synonym 'w random = "nat \<Rightarrow> 'w \<Rightarrow> (error + string) \<times> 'w"

section \<open>Tokens\<close>

record TokenMaterial =
  Plaintext :: string
  tok_Prefix :: string
  tok_Digest :: string

text \<open>A \<open>TokenManager\<close> is its pepper; the random source is an argument of \<open>Generate\<close>.\<close>

definition NewTokenManager :: "string \<Rightarrow> error + string" where
  "NewTokenManager pepper = (if length pepper < 32 then Inl (ErrText ''token pepper must be at least 32 bytes'') else Inr pepper)"

definition tok_digest :: "SecLib \<Rightarrow> string \<Rightarrow> string \<Rightarrow> string" where
  "tok_digest lib pepper token = HmacSHA256 lib pepper token"

definition Generate :: "SecLib \<Rightarrow> 'w random \<Rightarrow> string option \<Rightarrow> string \<Rightarrow> nat \<Rightarrow> 'w \<Rightarrow> (error + TokenMaterial) \<times> 'w" where
  "Generate lib random m pfx randomBytes w =
     (case m of
        None \<Rightarrow> (Inl (ErrText ''token manager is not configured''), w)
      | Some pepper \<Rightarrow>
          if randomBytes < 24 then (Inl (ErrText ''token entropy must be at least 24 bytes''), w)
          else if pfx = '''' \<or> list_ex (\<lambda>c. c \<in> {CHR '' '', CHR 0x09, CHR 0x0D, CHR 0x0A}) pfx then (Inl (ErrText ''token prefix is invalid''), w)
          else (let (r, w) = random randomBytes w
                in case r of
                     Inl e \<Rightarrow> (Inl (Wrapped ''generate token'' e), w)
                   | Inr raw \<Rightarrow>
                       (let plaintext = pfx @ RawURLEncoding lib raw;
                            safePrefix = (if length pfx + 10 < length plaintext then take (length pfx + 10) plaintext else plaintext)
                        in (Inr \<lparr>Plaintext = plaintext, tok_Prefix = safePrefix, tok_Digest = tok_digest lib pepper plaintext\<rparr>, w))))"

text \<open>\<open>TokenManager.Verify\<close>; \<open>hmac.Equal\<close> is equality.\<close>

definition tok_verify :: "SecLib \<Rightarrow> string option \<Rightarrow> string \<Rightarrow> string \<Rightarrow> bool" where
  "tok_verify lib m token expected =
     (case m of None \<Rightarrow> False | Some pepper \<Rightarrow> token \<noteq> '''' \<and> expected \<noteq> '''' \<and> tok_digest lib pepper token = expected)"

text \<open>The layout of a version 4 UUID.\<close>

definition uuid_text :: "string \<Rightarrow> string" where
  "uuid_text bs =
     (let v = bs[6 := char_of ((of_char (bs ! 6) AND 0x0f) OR (0x40 :: nat))];
          v = v[8 := char_of ((of_char (v ! 8) AND 0x3f) OR (0x80 :: nat))];
          e = EncodeToString v
      in take 8 e @ ''-'' @ take 4 (drop 8 e) @ ''-'' @ take 4 (drop 12 e) @ ''-'' @ take 4 (drop 16 e) @ ''-'' @ drop 20 e)"

definition GenerateID :: "'w random \<Rightarrow> 'w \<Rightarrow> (error + string) \<times> 'w" where
  "GenerateID random w =
     (let (r, w) = random 16 w
      in case r of Inl e \<Rightarrow> (Inl (Wrapped ''generate ID'' e), w) | Inr bs \<Rightarrow> (Inr (uuid_text bs), w))"

definition GenerateClientAPIKey :: "SecLib \<Rightarrow> 'w random \<Rightarrow> string option \<Rightarrow> 'w \<Rightarrow> (error + TokenMaterial) \<times> 'w" where
  "GenerateClientAPIKey lib random m = Generate lib random m ''grok_'' 32"

section \<open>One-time codes\<close>

record TOTP =
  issuer :: string
  period :: duration
  digits :: nat
  skew :: int

definition NewTOTP :: "string \<Rightarrow> error + TOTP" where
  "NewTOTP name =
     (if TrimSpace name = '''' then Inl (ErrText ''TOTP issuer is required'')
      else Inr \<lparr>issuer = TrimSpace name, period = 30 * Second, digits = 6, skew = 1\<rparr>)"

definition GenerateSecret :: "SecLib \<Rightarrow> 'w random \<Rightarrow> TOTP option \<Rightarrow> 'w \<Rightarrow> (error + string) \<times> 'w" where
  "GenerateSecret lib random t w =
     (case t of
        None \<Rightarrow> (Inl (ErrText ''TOTP is not configured''), w)
      | Some _ \<Rightarrow> (let (r, w) = random 20 w
                   in case r of Inl e \<Rightarrow> (Inl (Wrapped ''generate TOTP secret'' e), w) | Inr bs \<Rightarrow> (Inr (Base32Encode lib bs), w)))"

definition normalizeTOTPSecret :: "SecLib \<Rightarrow> string \<Rightarrow> string" where
  "normalizeTOTPSecret lib secret = Upper lib (filter (\<lambda>c. c \<noteq> CHR '' '') (TrimSpace secret))"

definition decodeTOTPSecret :: "SecLib \<Rightarrow> string \<Rightarrow> error + string" where
  "decodeTOTPSecret lib secret =
     (case Base32Decode lib (normalizeTOTPSecret lib secret) of
        None \<Rightarrow> Inl (ErrText ''invalid TOTP secret'')
      | Some d \<Rightarrow> if length d < 16 then Inl (ErrText ''invalid TOTP secret'') else Inr d)"

text \<open>\<open>url.Values.Encode\<close> orders the keys.\<close>

definition ProvisioningURI :: "SecLib \<Rightarrow> TOTP \<Rightarrow> string \<Rightarrow> string \<Rightarrow> error + string" where
  "ProvisioningURI lib t account0 secret =
     (case decodeTOTPSecret lib secret of
        Inl e \<Rightarrow> Inl e
      | Inr _ \<Rightarrow>
          (let acct = TrimSpace account0
           in if acct = '''' then Inl (ErrText ''TOTP account label is required'')
              else Inr (''otpauth://totp/'' @ url_PathEscape lib (issuer t @ '':'' @ acct) @ ''?'' @
                   Join [''algorithm='' @ QueryEscape lib ''SHA1'', ''digits='' @ QueryEscape lib (FormatInt (int (digits t))),
                         ''issuer='' @ QueryEscape lib (issuer t), ''period='' @ QueryEscape lib (FormatInt (period t div Second)),
                         ''secret='' @ QueryEscape lib (normalizeTOTPSecret lib secret)] ''&'')))"

text \<open>\<open>binary.BigEndian.PutUint64\<close> and the four bytes read back.\<close>

definition big_endian :: "64 word \<Rightarrow> string" where
  "big_endian v = map (\<lambda>i. char_of (unat (drop_bit (8 * i) v AND 0xff))) [7, 6, 5, 4, 3, 2, 1, 0]"

definition byte_word :: "char \<Rightarrow> 32 word" where
  "byte_word c = word_of_nat (of_char c)"

definition truncated :: "string \<Rightarrow> 32 word" where
  "truncated bs =
     (let offset = of_char (last bs) AND (0x0f :: nat)
      in push_bit 24 (byte_word (bs ! offset) AND 0x7f) OR push_bit 16 (byte_word (bs ! (offset + 1)))
         OR push_bit 8 (byte_word (bs ! (offset + 2))) OR byte_word (bs ! (offset + 3)))"

fun modulus :: "nat \<Rightarrow> 32 word" where
  "modulus 0 = 1"
| "modulus (Suc n) = modulus n * 10"

text \<open>The verb \<open>%0*d\<close>.\<close>

definition zero_padded :: "nat \<Rightarrow> nat \<Rightarrow> string" where
  "zero_padded width n = replicate (width - length (dec_nat n)) (CHR ''0'') @ dec_nat n"

definition totpCode :: "SecLib \<Rightarrow> string \<Rightarrow> 64 word \<Rightarrow> nat \<Rightarrow> string" where
  "totpCode lib key counter n = zero_padded n (unat (truncated (HmacSHA1 lib key (big_endian counter)) mod modulus n))"

text \<open>Go divides towards zero.\<close>

definition go_quot :: "int \<Rightarrow> int \<Rightarrow> int" where
  "go_quot a b = sgn a * sgn b * (\<bar>a\<bar> div \<bar>b\<bar>)"

definition totp_step :: "TOTP \<Rightarrow> time \<Rightarrow> int" where
  "totp_step t now = go_quot (unix_seconds now) (go_quot (period t) Second)"

definition Validate_code :: "SecLib \<Rightarrow> TOTP option \<Rightarrow> string \<Rightarrow> string \<Rightarrow> time \<Rightarrow> bool" where
  "Validate_code lib t code secret now =
     (case t of
        None \<Rightarrow> False
      | Some t \<Rightarrow>
          length code = digits t \<and> list_all (\<lambda>c. CHR ''0'' \<le> c \<and> c \<le> CHR ''9'') code \<and>
          (case decodeTOTPSecret lib secret of
             Inl _ \<Rightarrow> False
           | Inr key \<Rightarrow> list_ex (\<lambda>offset. code = totpCode lib key (word_of_int (totp_step t now + offset)) (digits t)) [- skew t..skew t]))"

section \<open>Passwords\<close>

record Argon2Params =
  Memory :: int
  Iterations :: int
  Parallelism :: int
  SaltLength :: int
  KeyLength :: int

text \<open>\<open>DefaultArgon2Params\<close> for a number of processors.\<close>

definition DefaultArgon2Params :: "int \<Rightarrow> Argon2Params" where
  "DefaultArgon2Params cpus =
     \<lparr>Memory = 65536, Iterations = 3, Parallelism = max 1 (min 4 cpus), SaltLength = 16, KeyLength = 32\<rparr>"

definition validateArgon2Params :: "Argon2Params \<Rightarrow> error option" where
  "validateArgon2Params p =
     (if Memory p < 8192 \<or> 1048576 < Memory p then Some (ErrText ''Argon2 memory must be between 8192 KiB and 1048576 KiB'')
      else if Iterations p < 1 \<or> 10 < Iterations p then Some (ErrText ''Argon2 iterations must be between 1 and 10'')
      else if Parallelism p < 1 \<or> 16 < Parallelism p then Some (ErrText ''Argon2 parallelism must be between 1 and 16'')
      else if SaltLength p < 16 \<or> 64 < SaltLength p then Some (ErrText ''Argon2 salt length must be between 16 and 64'')
      else if KeyLength p < 16 \<or> 64 < KeyLength p then Some (ErrText ''Argon2 key length must be between 16 and 64'')
      else None)"

definition NewPasswordHasher :: "Argon2Params \<Rightarrow> error + Argon2Params" where
  "NewPasswordHasher p = (case validateArgon2Params p of Some e \<Rightarrow> Inl e | None \<Rightarrow> Inr p)"

definition ErrInvalidPasswordHash :: error where
  "ErrInvalidPasswordHash = ErrText ''invalid password hash''"

definition password_params :: "int \<Rightarrow> int \<Rightarrow> int \<Rightarrow> string" where
  "password_params m t p = ''m='' @ FormatInt m @ '',t='' @ FormatInt t @ '',p='' @ FormatInt p"

definition Hash :: "SecLib \<Rightarrow> 'w random \<Rightarrow> Argon2Params option \<Rightarrow> string \<Rightarrow> 'w \<Rightarrow> (error + string) \<times> 'w" where
  "Hash lib random h password w =
     (case h of
        None \<Rightarrow> (Inl (ErrText ''password hasher is not configured''), w)
      | Some h \<Rightarrow>
          if length password < 12 then (Inl (ErrText ''password must contain at least 12 characters''), w)
          else (let (r, w) = random (nat (SaltLength h)) w
                in case r of
                     Inl e \<Rightarrow> (Inl (Wrapped ''generate password salt'' e), w)
                   | Inr salt \<Rightarrow>
                       (Inr (''$argon2id$v=19$'' @ password_params (Memory h) (Iterations h) (Parallelism h) @ ''$'' @ RawStdEncode lib salt
                             @ ''$'' @ RawStdEncode lib (Argon2IDKey lib password salt (Iterations h) (Memory h) (Parallelism h) (KeyLength h))), w)))"

definition parseArgon2Hash :: "SecLib \<Rightarrow> string \<Rightarrow> error + Argon2Params \<times> string \<times> string" where
  "parseArgon2Hash lib encoded =
     (case Split encoded (CHR ''$'') of
        [p0, p1, p2, p3, p4, p5] \<Rightarrow>
          if p1 \<noteq> ''argon2id'' \<or> p2 \<noteq> ''v=19'' then Inl ErrInvalidPasswordHash
          else (case ScanParams lib p3 of
                  None \<Rightarrow> Inl ErrInvalidPasswordHash
                | Some (m, t, p) \<Rightarrow>
                    (case (RawStdDecode lib p4, RawStdDecode lib p5) of
                       (Some salt, Some key) \<Rightarrow>
                         (let params = \<lparr>Memory = m, Iterations = t, Parallelism = p, SaltLength = int (length salt), KeyLength = int (length key)\<rparr>
                          in if validateArgon2Params params \<noteq> None then Inl ErrInvalidPasswordHash else Inr (params, salt, key))
                     | _ \<Rightarrow> Inl ErrInvalidPasswordHash))
      | _ \<Rightarrow> Inl ErrInvalidPasswordHash)"

text \<open>\<open>PasswordHasher.Verify\<close>.\<close>

definition verify_password :: "SecLib \<Rightarrow> string \<Rightarrow> string \<Rightarrow> error + bool" where
  "verify_password lib password encoded =
     (case parseArgon2Hash lib encoded of
        Inl e \<Rightarrow> Inl e
      | Inr (params, salt, key) \<Rightarrow>
          Inr (Argon2IDKey lib password salt (Iterations params) (Memory params) (Parallelism params) (int (length key)) = key))"

section \<open>Sealed secrets\<close>

text \<open>An AEAD: the sizes of its nonce and its tag, sealing and opening.\<close>

record AEAD =
  NonceSize :: nat
  Overhead :: nat
  aead_Seal :: "string \<Rightarrow> string \<Rightarrow> string \<Rightarrow> string"
  aead_Open :: "string \<Rightarrow> string \<Rightarrow> string \<Rightarrow> string option"

definition ErrInvalidCiphertext :: error where
  "ErrInvalidCiphertext = ErrText ''invalid ciphertext''"

definition Seal :: "'w random \<Rightarrow> AEAD option \<Rightarrow> string \<Rightarrow> string \<Rightarrow> 'w \<Rightarrow> (error + string) \<times> 'w" where
  "Seal random c plaintext ad w =
     (case c of
        None \<Rightarrow> (Inl (ErrText ''cipher is not configured''), w)
      | Some a \<Rightarrow>
          (let (r, w) = random (NonceSize a) w
           in case r of
                Inl e \<Rightarrow> (Inl (Wrapped ''generate AES-GCM nonce'' e), w)
              | Inr nonce \<Rightarrow> (Inr (CHR 0x01 # nonce @ aead_Seal a nonce plaintext ad), w)))"

definition Open :: "AEAD option \<Rightarrow> string \<Rightarrow> string \<Rightarrow> error + string" where
  "Open c ciphertext ad =
     (case c of
        None \<Rightarrow> Inl (ErrText ''cipher is not configured'')
      | Some a \<Rightarrow>
          if length ciphertext < 1 + NonceSize a + Overhead a \<or> hd ciphertext \<noteq> CHR 0x01 then Inl ErrInvalidCiphertext
          else (case aead_Open a (take (NonceSize a) (drop 1 ciphertext)) (drop (1 + NonceSize a) ciphertext) ad of
                  None \<Rightarrow> Inl ErrInvalidCiphertext
                | Some p \<Rightarrow> Inr p))"

end
