(* ===== verification/Admin_Store.thy ===== *)
theory Admin_Store
  imports Security Redis_Laws
begin

text \<open>
  Administrators and their sessions in the database (\<open>internal/store/admin.go\<close>, the table definitions of
  \<open>internal/database/migrations/001_initial.sql\<close>, \<open>translateError\<close> and \<open>newID\<close> of \<open>internal/store/store.go\<close>).

  The two tables are lists of rows, the statement of each method is the corresponding operation on the rows, with the constraints of the
  table definitions. The connection is the argument \<open>Postgres\<close>: \<open>pg_fault\<close> is the driver before a statement, which fails or lets it through;
  \<open>tb_now\<close> is the clock of the database. The tables are an extensible record, so that a program state may hold more.
\<close>

section \<open>Rows\<close>

record AdminRecord =
  adm_ID :: string
  Email :: string
  PasswordHash :: string
  TOTPSecretCipher :: string
  TOTPEnabled :: bool
  PendingTOTPSecretCipher :: string
  PendingTOTPExpiresAt :: "time option"
  adm_Disabled :: bool
  LastLoginAt :: "time option"
  adm_CreatedAt :: time
  adm_UpdatedAt :: time

record AdminSession =
  ses_ID :: string
  AdminID :: string
  TokenDigest :: string
  CSRFDigest :: string
  IPAddress :: string
  ses_UserAgent :: string
  ses_ExpiresAt :: time
  LastSeenAt :: time
  ses_CreatedAt :: time

record AdminTables =
  tb_admins :: "AdminRecord list"
  tb_sessions :: "AdminSession list"
  tb_now :: time

record 'z Postgres =
  pg_fault :: "'z AdminTables_scheme \<Rightarrow> error option \<times> 'z AdminTables_scheme"
  pg_random :: "'z AdminTables_scheme random"
  pg_lower :: "string \<Rightarrow> string"
  pg_timeNow :: "'z AdminTables_scheme \<Rightarrow> time"

definition ErrNotFound :: error where "ErrNotFound = ErrText ''record not found''"
definition ErrConflict :: error where "ErrConflict = ErrText ''record conflicts with existing data''"

text \<open>A violated constraint, as \<open>translateError\<close> returns it.\<close>

definition conflict :: "string \<Rightarrow> error" where "conflict constraint = Wrapped constraint ErrConflict"

definition db_trip :: "'z Postgres \<Rightarrow> ('z AdminTables_scheme \<Rightarrow> (error + 'a) \<times> 'z AdminTables_scheme) \<Rightarrow> 'z AdminTables_scheme
    \<Rightarrow> (error + 'a) \<times> 'z AdminTables_scheme" where
  "db_trip pg f w = (case pg_fault pg w of (Some e, w) \<Rightarrow> (Inl e, w) | (None, w) \<Rightarrow> f w)"

definition newID :: "'w random \<Rightarrow> string \<Rightarrow> 'w \<Rightarrow> (error + string) \<times> 'w" where
  "newID random existing w = (if TrimSpace existing \<noteq> '''' then (Inr (TrimSpace existing), w) else GenerateID random w)"

definition btrim :: "string \<Rightarrow> string" where "btrim s = TrimRight (TrimLeft s (CHR '' '')) (CHR '' '')"

text \<open>\<open>ensureTime\<close>.\<close>

definition ensureTime :: "'z Postgres \<Rightarrow> time \<Rightarrow> 'z AdminTables_scheme \<Rightarrow> time" where
  "ensureTime pg value w = (if value = 0 then pg_timeNow pg w else value)"

section \<open>Administrators\<close>

definition CountAdmins :: "'z Postgres \<Rightarrow> 'z AdminTables_scheme \<Rightarrow> (error + int) \<times> 'z AdminTables_scheme" where
  "CountAdmins pg w = on_err (Wrapped ''count admins'') (db_trip pg (\<lambda>w. (Inr (int (length (tb_admins w))), w)) w)"

text \<open>The check and the unique index on addresses.\<close>

definition email_conflict :: "'z Postgres \<Rightarrow> string \<Rightarrow> string \<Rightarrow> 'z AdminTables_scheme \<Rightarrow> error option" where
  "email_conflict pg uid email w =
     (if email \<noteq> pg_lower pg (btrim email) then Some (conflict ''admins_email_normalized'')
      else if list_ex (\<lambda>a. adm_ID a \<noteq> uid \<and> pg_lower pg (Email a) = pg_lower pg email) (tb_admins w) then Some (conflict ''admins_email_unique'')
      else None)"

definition CreateAdmin :: "'z Postgres \<Rightarrow> AdminRecord \<Rightarrow> 'z AdminTables_scheme \<Rightarrow> (error + AdminRecord) \<times> 'z AdminTables_scheme" where
  "CreateAdmin pg admin w =
     try_do (newID (pg_random pg) (adm_ID admin) w) (\<lambda>uid w.
       let email = ToLower (TrimSpace (Email admin))
       in db_trip pg (\<lambda>w.
            if list_ex (\<lambda>a. adm_ID a = uid) (tb_admins w) then (Inl (conflict ''admins_pkey''), w)
            else (case email_conflict pg uid email w of
                    Some e \<Rightarrow> (Inl e, w)
                  | None \<Rightarrow>
                      (let row = \<lparr>adm_ID = uid, Email = email, PasswordHash = PasswordHash admin, TOTPSecretCipher = '''', TOTPEnabled = False,
                                  PendingTOTPSecretCipher = '''', PendingTOTPExpiresAt = None, adm_Disabled = adm_Disabled admin, LastLoginAt = None,
                                  adm_CreatedAt = tb_now w, adm_UpdatedAt = tb_now w\<rparr>
                       in (Inr (admin\<lparr>adm_ID := uid, Email := email, adm_CreatedAt := tb_now w, adm_UpdatedAt := tb_now w\<rparr>),
                           w\<lparr>tb_admins := tb_admins w @ [row]\<rparr>)))) w)"

definition find_row :: "('r \<Rightarrow> bool) \<Rightarrow> 'r list \<Rightarrow> error + 'r" where
  "find_row P rows = (case find P rows of None \<Rightarrow> Inl ErrNotFound | Some r \<Rightarrow> Inr r)"

definition GetAdminByID :: "'z Postgres \<Rightarrow> string \<Rightarrow> 'z AdminTables_scheme \<Rightarrow> (error + AdminRecord) \<times> 'z AdminTables_scheme" where
  "GetAdminByID pg uid = db_trip pg (\<lambda>w. (find_row (\<lambda>a. adm_ID a = uid) (tb_admins w), w))"

definition GetAdminByEmail :: "'z Postgres \<Rightarrow> string \<Rightarrow> 'z AdminTables_scheme \<Rightarrow> (error + AdminRecord) \<times> 'z AdminTables_scheme" where
  "GetAdminByEmail pg email = db_trip pg (\<lambda>w. (find_row (\<lambda>a. Email a = pg_lower pg (btrim email)) (tb_admins w), w))"

text \<open>\<open>UPDATE admins SET ... WHERE id = $1\<close>, with the number of affected rows.\<close>

definition update_admin :: "'z Postgres \<Rightarrow> string \<Rightarrow> (AdminRecord \<Rightarrow> AdminRecord) \<Rightarrow> 'z AdminTables_scheme \<Rightarrow> (error + unit) \<times> 'z AdminTables_scheme" where
  "update_admin pg uid f = db_trip pg (\<lambda>w.
     if list_ex (\<lambda>a. adm_ID a = uid) (tb_admins w)
     then (Inr (), w\<lparr>tb_admins := map (\<lambda>a. if adm_ID a = uid then (f a)\<lparr>adm_UpdatedAt := tb_now w\<rparr> else a) (tb_admins w)\<rparr>)
     else (Inl ErrNotFound, w))"

definition UpdateAdminEmail :: "'z Postgres \<Rightarrow> string \<Rightarrow> string \<Rightarrow> 'z AdminTables_scheme \<Rightarrow> (error + unit) \<times> 'z AdminTables_scheme" where
  "UpdateAdminEmail pg uid email = db_trip pg (\<lambda>w.
     let email = pg_lower pg (btrim email)
     in if \<not> list_ex (\<lambda>a. adm_ID a = uid) (tb_admins w) then (Inl ErrNotFound, w)
        else (case email_conflict pg uid email w of
                Some e \<Rightarrow> (Inl e, w)
              | None \<Rightarrow> (Inr (), w\<lparr>tb_admins := map (\<lambda>a. if adm_ID a = uid then a\<lparr>Email := email, adm_UpdatedAt := tb_now w\<rparr> else a) (tb_admins w)\<rparr>)))"

definition UpdateAdminPassword :: "'z Postgres \<Rightarrow> string \<Rightarrow> string \<Rightarrow> 'z AdminTables_scheme \<Rightarrow> (error + unit) \<times> 'z AdminTables_scheme" where
  "UpdateAdminPassword pg uid hash = update_admin pg uid (\<lambda>a. a\<lparr>PasswordHash := hash\<rparr>)"

definition SetPendingTOTP :: "'z Postgres \<Rightarrow> string \<Rightarrow> string \<Rightarrow> time \<Rightarrow> 'z AdminTables_scheme \<Rightarrow> (error + unit) \<times> 'z AdminTables_scheme" where
  "SetPendingTOTP pg uid sealed expiresAt = update_admin pg uid (\<lambda>a. a\<lparr>PendingTOTPSecretCipher := sealed, PendingTOTPExpiresAt := Some expiresAt\<rparr>)"

definition EnableTOTP :: "'z Postgres \<Rightarrow> string \<Rightarrow> string \<Rightarrow> 'z AdminTables_scheme \<Rightarrow> (error + unit) \<times> 'z AdminTables_scheme" where
  "EnableTOTP pg uid sealed = update_admin pg uid
     (\<lambda>a. a\<lparr>TOTPSecretCipher := sealed, TOTPEnabled := True, PendingTOTPSecretCipher := '''', PendingTOTPExpiresAt := None\<rparr>)"

definition store_DisableTOTP :: "'z Postgres \<Rightarrow> string \<Rightarrow> 'z AdminTables_scheme \<Rightarrow> (error + unit) \<times> 'z AdminTables_scheme" where
  "store_DisableTOTP pg uid = update_admin pg uid
     (\<lambda>a. a\<lparr>TOTPSecretCipher := '''', TOTPEnabled := False, PendingTOTPSecretCipher := '''', PendingTOTPExpiresAt := None\<rparr>)"

definition RecordAdminLogin :: "'z Postgres \<Rightarrow> string \<Rightarrow> time \<Rightarrow> 'z AdminTables_scheme \<Rightarrow> (error + unit) \<times> 'z AdminTables_scheme" where
  "RecordAdminLogin pg uid moment w = update_admin pg uid (\<lambda>a. a\<lparr>LastLoginAt := Some (ensureTime pg moment w)\<rparr>) w"

section \<open>Sessions\<close>

definition CreateAdminSession :: "'z Postgres \<Rightarrow> AdminSession \<Rightarrow> 'z AdminTables_scheme \<Rightarrow> (error + AdminSession) \<times> 'z AdminTables_scheme" where
  "CreateAdminSession pg session w =
     (if TokenDigest session = '''' \<or> CSRFDigest session = '''' then (Inl (ErrText ''store: admin session and token digests are required''), w)
      else try_do (newID (pg_random pg) (ses_ID session) w) (\<lambda>uid. db_trip pg (\<lambda>w.
        if list_ex (\<lambda>s. ses_ID s = uid) (tb_sessions w) then (Inl (conflict ''admin_sessions_pkey''), w)
        else if list_ex (\<lambda>s. TokenDigest s = TokenDigest session) (tb_sessions w) then (Inl (conflict ''admin_sessions_token_digest_key''), w)
        else if \<not> list_ex (\<lambda>a. adm_ID a = AdminID session) (tb_admins w) then (Inl (conflict ''admin_sessions_admin_id_fkey''), w)
        else (let row = session\<lparr>ses_ID := uid, ses_CreatedAt := tb_now w, LastSeenAt := tb_now w\<rparr>
              in (Inr row, w\<lparr>tb_sessions := tb_sessions w @ [row]\<rparr>)))))"

definition GetAdminSessionByDigest :: "'z Postgres \<Rightarrow> string \<Rightarrow> 'z AdminTables_scheme \<Rightarrow> (error + AdminSession) \<times> 'z AdminTables_scheme" where
  "GetAdminSessionByDigest pg d = db_trip pg (\<lambda>w. (find_row (\<lambda>s. TokenDigest s = d) (tb_sessions w), w))"

definition TouchAdminSession :: "'z Postgres \<Rightarrow> string \<Rightarrow> time \<Rightarrow> 'z AdminTables_scheme \<Rightarrow> (error + unit) \<times> 'z AdminTables_scheme" where
  "TouchAdminSession pg uid moment w0 = db_trip pg (\<lambda>w.
     if list_ex (\<lambda>s. ses_ID s = uid) (tb_sessions w)
     then (Inr (), w\<lparr>tb_sessions := map (\<lambda>s. if ses_ID s = uid then s\<lparr>LastSeenAt := ensureTime pg moment w0\<rparr> else s) (tb_sessions w)\<rparr>)
     else (Inl ErrNotFound, w)) w0"

definition delete_sessions :: "'z Postgres \<Rightarrow> (AdminSession \<Rightarrow> bool) \<Rightarrow> 'z AdminTables_scheme \<Rightarrow> (error + int) \<times> 'z AdminTables_scheme" where
  "delete_sessions pg P = db_trip pg (\<lambda>w.
     (Inr (int (length (filter P (tb_sessions w)))), w\<lparr>tb_sessions := filter (\<lambda>s. \<not> P s) (tb_sessions w)\<rparr>))"

definition DeleteAdminSessionByDigest :: "'z Postgres \<Rightarrow> string \<Rightarrow> 'z AdminTables_scheme \<Rightarrow> (error + unit) \<times> 'z AdminTables_scheme" where
  "DeleteAdminSessionByDigest pg d w = try_do (delete_sessions pg (\<lambda>s. TokenDigest s = d) w) (\<lambda>_ w. (Inr (), w))"

definition DeleteAdminSessionsForAdmin :: "'z Postgres \<Rightarrow> string \<Rightarrow> 'z AdminTables_scheme \<Rightarrow> (error + unit) \<times> 'z AdminTables_scheme" where
  "DeleteAdminSessionsForAdmin pg uid w = try_do (delete_sessions pg (\<lambda>s. AdminID s = uid) w) (\<lambda>_ w. (Inr (), w))"

definition DeleteExpiredAdminSessions :: "'z Postgres \<Rightarrow> time \<Rightarrow> 'z AdminTables_scheme \<Rightarrow> (error + int) \<times> 'z AdminTables_scheme" where
  "DeleteExpiredAdminSessions pg before = delete_sessions pg (\<lambda>s. ses_ExpiresAt s \<le> before)"

section \<open>The repository interface\<close>

record 'w AdminRepository =
  ar_CountAdmins :: "'w \<Rightarrow> (error + int) \<times> 'w"
  ar_CreateAdmin :: "AdminRecord \<Rightarrow> 'w \<Rightarrow> (error + AdminRecord) \<times> 'w"
  ar_GetAdminByID :: "string \<Rightarrow> 'w \<Rightarrow> (error + AdminRecord) \<times> 'w"
  ar_GetAdminByEmail :: "string \<Rightarrow> 'w \<Rightarrow> (error + AdminRecord) \<times> 'w"
  ar_UpdateAdminEmail :: "string \<Rightarrow> string \<Rightarrow> 'w \<Rightarrow> (error + unit) \<times> 'w"
  ar_UpdateAdminPassword :: "string \<Rightarrow> string \<Rightarrow> 'w \<Rightarrow> (error + unit) \<times> 'w"
  ar_SetPendingTOTP :: "string \<Rightarrow> string \<Rightarrow> time \<Rightarrow> 'w \<Rightarrow> (error + unit) \<times> 'w"
  ar_EnableTOTP :: "string \<Rightarrow> string \<Rightarrow> 'w \<Rightarrow> (error + unit) \<times> 'w"
  ar_DisableTOTP :: "string \<Rightarrow> 'w \<Rightarrow> (error + unit) \<times> 'w"
  ar_RecordAdminLogin :: "string \<Rightarrow> time \<Rightarrow> 'w \<Rightarrow> (error + unit) \<times> 'w"
  ar_CreateAdminSession :: "AdminSession \<Rightarrow> 'w \<Rightarrow> (error + AdminSession) \<times> 'w"
  ar_GetAdminSessionByDigest :: "string \<Rightarrow> 'w \<Rightarrow> (error + AdminSession) \<times> 'w"
  ar_TouchAdminSession :: "string \<Rightarrow> time \<Rightarrow> 'w \<Rightarrow> (error + unit) \<times> 'w"
  ar_DeleteAdminSessionByDigest :: "string \<Rightarrow> 'w \<Rightarrow> (error + unit) \<times> 'w"
  ar_DeleteAdminSessionsForAdmin :: "string \<Rightarrow> 'w \<Rightarrow> (error + unit) \<times> 'w"
  ar_DeleteExpiredAdminSessions :: "time \<Rightarrow> 'w \<Rightarrow> (error + int) \<times> 'w"

definition postgres_repository :: "'z Postgres \<Rightarrow> 'z AdminTables_scheme AdminRepository" where
  "postgres_repository pg =
     \<lparr>ar_CountAdmins = CountAdmins pg, ar_CreateAdmin = CreateAdmin pg, ar_GetAdminByID = GetAdminByID pg, ar_GetAdminByEmail = GetAdminByEmail pg,
      ar_UpdateAdminEmail = UpdateAdminEmail pg, ar_UpdateAdminPassword = UpdateAdminPassword pg, ar_SetPendingTOTP = SetPendingTOTP pg,
      ar_EnableTOTP = EnableTOTP pg, ar_DisableTOTP = store_DisableTOTP pg, ar_RecordAdminLogin = RecordAdminLogin pg,
      ar_CreateAdminSession = CreateAdminSession pg, ar_GetAdminSessionByDigest = GetAdminSessionByDigest pg,
      ar_TouchAdminSession = TouchAdminSession pg, ar_DeleteAdminSessionByDigest = DeleteAdminSessionByDigest pg,
      ar_DeleteAdminSessionsForAdmin = DeleteAdminSessionsForAdmin pg, ar_DeleteExpiredAdminSessions = DeleteExpiredAdminSessions pg\<rparr>"

end
