(* ===== verification/Admin_State.thy ===== *)
theory Admin_State
  imports Admin_Store
begin

text \<open>
  The shared state of administrator sessions (\<open>internal/admin/redis_auth.go\<close>): cached sessions, tombstones of revoked ones, a revision per
  administrator and the counters of login attempts.

  \<open>AuthClient\<close> is the interface to Redis, \<open>database_client\<close> the adapter of \<open>internal/database\<close> as an instance of it. The JSON text of sessions
  and revisions is the record \<open>SessionCodec\<close>. \<open>AuthStateStore\<close> is the interface the authentication service uses, \<open>redis_state\<close> its instance.
\<close>

definition ErrSessionCacheMiss :: error where "ErrSessionCacheMiss = ErrText ''administrator session is not cached''"
definition ErrSessionRevoked :: error where "ErrSessionRevoked = ErrText ''administrator session has been revoked''"

record SessionRevision =
  rev_Value :: string
  NotBefore :: time

record CachedSession =
  cs_Session :: "AdminSession option"
  cs_Revision :: SessionRevision

record 'w AuthStateStore =
  st_LoadSession :: "string \<Rightarrow> 'w \<Rightarrow> (error + CachedSession) \<times> 'w"
  st_SaveSession :: "AdminSession \<Rightarrow> SessionRevision \<Rightarrow> 'w \<Rightarrow> (error + unit) \<times> 'w"
  st_RevokeSession :: "string \<Rightarrow> 'w \<Rightarrow> (error + unit) \<times> 'w"
  st_CurrentSessionRevision :: "string \<Rightarrow> 'w \<Rightarrow> (error + SessionRevision) \<times> 'w"
  st_RotateSessionRevision :: "string \<Rightarrow> time \<Rightarrow> 'w \<Rightarrow> (error + unit) \<times> 'w"
  st_RegisterLoginAttempt :: "string \<Rightarrow> string \<Rightarrow> 'w \<Rightarrow> (error + bool \<times> duration) \<times> 'w"
  st_ClearLoginAttempts :: "string \<Rightarrow> string \<Rightarrow> 'w \<Rightarrow> (error + unit) \<times> 'w"

record LoginRateLimit =
  MaxAttempts :: int
  Window :: duration

definition DefaultLoginRateLimit :: LoginRateLimit where
  "DefaultLoginRateLimit = \<lparr>MaxAttempts = 5, Window = 5 * Minute\<rparr>"

record 'w AuthClient =
  ac_Get :: "string \<Rightarrow> 'w \<Rightarrow> (error + string) \<times> 'w"
  ac_Set :: "string \<Rightarrow> string \<Rightarrow> duration \<Rightarrow> 'w \<Rightarrow> (error + unit) \<times> 'w"
  ac_SetNX :: "string \<Rightarrow> string \<Rightarrow> duration \<Rightarrow> 'w \<Rightarrow> (error + bool) \<times> 'w"
  ac_Delete :: "string list \<Rightarrow> 'w \<Rightarrow> (error + unit) \<times> 'w"
  ac_IncrementWindow :: "string \<Rightarrow> duration \<Rightarrow> 'w \<Rightarrow> (error + int) \<times> 'w"

text \<open>The adapter as the client of a state that holds more than the server: \<open>get\<close> and \<open>put\<close> are the place of the server in it.\<close>

definition lift_state :: "('w \<Rightarrow> 'r) \<Rightarrow> ('r \<Rightarrow> 'w \<Rightarrow> 'w) \<Rightarrow> ('r \<Rightarrow> 'a \<times> 'r) \<Rightarrow> 'w \<Rightarrow> 'a \<times> 'w" where
  "lift_state get put f w = (case f (get w) of (x, r) \<Rightarrow> (x, put r w))"

definition database_client :: "('w \<Rightarrow> 'r) \<Rightarrow> ('r \<Rightarrow> 'w \<Rightarrow> 'w) \<Rightarrow> 'r Redis \<Rightarrow> 'w AuthClient" where
  "database_client get put r =
     \<lparr>ac_Get = (\<lambda>k. lift_state get put (Get r k)), ac_Set = (\<lambda>k v ttl. lift_state get put (Set r k v ttl)),
      ac_SetNX = (\<lambda>k v ttl. lift_state get put (SetNX r k v ttl)), ac_Delete = (\<lambda>ks. lift_state get put (Delete r ks)),
      ac_IncrementWindow = (\<lambda>k ttl. lift_state get put (IncrementWindow r k ttl))\<rparr>"

record SessionCodec =
  EncodeCached :: "CachedSession \<Rightarrow> string"
  DecodeCached :: "string \<Rightarrow> CachedSession option"
  EncodeRevision :: "SessionRevision \<Rightarrow> string"
  DecodeRevision :: "string \<Rightarrow> SessionRevision option"

text \<open>A state store with a client and a token manager; \<open>ready\<close> is left with the check of the lifetime.\<close>

record 'w RedisAuthState =
  ras_redis :: "'w AuthClient"
  ras_lib :: SecLib
  ras_codec :: SessionCodec
  ras_pepper :: string
  ras_random :: "'w random"
  ras_sessionTTL :: duration
  ras_limit :: LoginRateLimit
  ras_now :: "'w \<Rightarrow> time \<times> 'w"

definition newRedisAuthState ::
  "'w AuthClient \<Rightarrow> SecLib \<Rightarrow> SessionCodec \<Rightarrow> string \<Rightarrow> 'w random \<Rightarrow> duration \<Rightarrow> ('w \<Rightarrow> time \<times> 'w) \<Rightarrow> LoginRateLimit list \<Rightarrow> 'w RedisAuthState" where
  "newRedisAuthState cli lib codec pepper random ttl clock limits =
     \<lparr>ras_redis = cli, ras_lib = lib, ras_codec = codec, ras_pepper = pepper, ras_random = random, ras_sessionTTL = ttl,
      ras_limit = (case limits of [] \<Rightarrow> DefaultLoginRateLimit | l # _ \<Rightarrow> l), ras_now = clock\<rparr>"

definition state_ready :: "'w RedisAuthState \<Rightarrow> 'w \<Rightarrow> (error + unit) \<times> 'w" where
  "state_ready s w =
     (if ras_sessionTTL s < 5 * Minute then (Inl (ErrText ''Redis administrator session TTL must be at least 5 minutes''), w) else (Inr (), w))"

section \<open>Keys\<close>

definition sessionKey :: "string \<Rightarrow> string" where "sessionKey d = ''admin:session:'' @ EncodeToString d"

definition revokedSessionKey :: "string \<Rightarrow> string" where "revokedSessionKey d = ''admin:session-revoked:'' @ EncodeToString d"

definition revisionKey :: "'w RedisAuthState \<Rightarrow> string \<Rightarrow> string" where
  "revisionKey s adminID =
     ''admin:session-revision:'' @ EncodeToString (tok_digest (ras_lib s) (ras_pepper s) (''admin-session-revision'' @ [CHR 0x00] @ TrimSpace adminID))"

definition normalizeEmail :: "string \<Rightarrow> string" where "normalizeEmail email = ToLower (TrimSpace email)"

definition loginKey :: "'w RedisAuthState \<Rightarrow> string \<Rightarrow> string \<Rightarrow> string" where
  "loginKey s ipAddress identity =
     ''admin:login:'' @ EncodeToString (tok_digest (ras_lib s) (ras_pepper s)
        (''admin-login'' @ [CHR 0x00] @ ToLower (TrimSpace ipAddress) @ [CHR 0x00] @ normalizeEmail identity))"

section \<open>Sessions\<close>

text \<open>What a decoded entry must hold.\<close>

definition check_cached :: "string \<Rightarrow> CachedSession option \<Rightarrow> error + CachedSession" where
  "check_cached d c =
     (case c of
        None \<Rightarrow> Inl (ErrText ''decode cached administrator session'')
      | Some cached \<Rightarrow>
          (case cs_Session cached of
             None \<Rightarrow> Inl (ErrText ''cached administrator session is incomplete'')
           | Some ses \<Rightarrow>
               if ses_ID ses = '''' \<or> AdminID ses = '''' \<or> CSRFDigest ses = '''' \<or> rev_Value (cs_Revision cached) = ''''
               then Inl (ErrText ''cached administrator session is incomplete'')
               else if TokenDigest ses \<noteq> '''' \<and> TokenDigest ses \<noteq> d
               then Inl (ErrText ''cached administrator session digest does not match'')
               else Inr (cached\<lparr>cs_Session := Some (ses\<lparr>TokenDigest := d\<rparr>)\<rparr>)))"

definition LoadSession :: "'w RedisAuthState \<Rightarrow> string \<Rightarrow> 'w \<Rightarrow> (error + CachedSession) \<times> 'w" where
  "LoadSession s d w =
     try_do (state_ready s w) (\<lambda>_ w.
       if d = '''' then (Inl ErrSessionCacheMiss, w)
       else (case ac_Get (ras_redis s) (revokedSessionKey d) w of
               (Inr _, w) \<Rightarrow> (Inl ErrSessionRevoked, w)
             | (Inl e, w) \<Rightarrow>
                 if \<not> errors_is e ErrCacheMiss then (Inl e, w)
                 else (case ac_Get (ras_redis s) (sessionKey d) w of
                         (Inl e, w) \<Rightarrow> (Inl (if errors_is e ErrCacheMiss then ErrSessionCacheMiss else e), w)
                       | (Inr encoded, w) \<Rightarrow> (check_cached d (DecodeCached (ras_codec s) encoded), w))))"

definition SaveSession :: "'w RedisAuthState \<Rightarrow> AdminSession \<Rightarrow> SessionRevision \<Rightarrow> 'w \<Rightarrow> (error + unit) \<times> 'w" where
  "SaveSession s session revision w =
     try_do (state_ready s w) (\<lambda>_ w.
       if TokenDigest session = '''' \<or> AdminID session = '''' \<or> rev_Value revision = ''''
       then (Inl (ErrText ''administrator session and revision are required''), w)
       else (case ras_now s w of (t, w) \<Rightarrow>
               let ttl = time_sub (ses_ExpiresAt session) t
               in if ttl \<le> 0 then (Inl (ErrText ''administrator session has already expired''), w)
                  else ac_Set (ras_redis s) (sessionKey (TokenDigest session))
                         (EncodeCached (ras_codec s) \<lparr>cs_Session = Some session, cs_Revision = revision\<rparr>) ttl w))"

definition RevokeSession :: "'w RedisAuthState \<Rightarrow> string \<Rightarrow> 'w \<Rightarrow> (error + unit) \<times> 'w" where
  "RevokeSession s d w =
     try_do (state_ready s w) (\<lambda>_ w.
       if d = '''' then (Inr (), w)
       else try_do (ac_Set (ras_redis s) (revokedSessionKey d) ''1'' (ras_sessionTTL s) w)
              (\<lambda>_ w. (Inr (), snd (ac_Delete (ras_redis s) [sessionKey d] w))))"

section \<open>Revisions\<close>

definition newRevision :: "'w RedisAuthState \<Rightarrow> time \<Rightarrow> 'w \<Rightarrow> (error + SessionRevision \<times> string) \<times> 'w" where
  "newRevision s notBefore w =
     try_do (Generate (ras_lib s) (ras_random s) (Some (ras_pepper s)) ''rev_'' 24 w) (\<lambda>material w.
       let revision = \<lparr>rev_Value = Plaintext material, NotBefore = notBefore\<rparr>
       in (Inr (revision, EncodeRevision (ras_codec s) revision), w))"

definition decodeSessionRevision :: "SessionCodec \<Rightarrow> string \<Rightarrow> error + SessionRevision" where
  "decodeSessionRevision codec encoded =
     (case DecodeRevision codec encoded of
        None \<Rightarrow> Inl (ErrText ''decode administrator session revision'')
      | Some revision \<Rightarrow> if rev_Value revision = '''' then Inl (ErrText ''administrator session revision is empty'') else Inr revision)"

definition CurrentSessionRevision :: "'w RedisAuthState \<Rightarrow> string \<Rightarrow> 'w \<Rightarrow> (error + SessionRevision) \<times> 'w" where
  "CurrentSessionRevision s adminID w =
     try_do (state_ready s w) (\<lambda>_ w.
       case ac_Get (ras_redis s) (revisionKey s adminID) w of
         (Inr encoded, w) \<Rightarrow> (decodeSessionRevision (ras_codec s) encoded, w)
       | (Inl e, w) \<Rightarrow>
           if \<not> errors_is e ErrCacheMiss then (Inl e, w)
           else try_do (newRevision s 0 w) (\<lambda>(revision, encoded) w.
                  try_do (ac_SetNX (ras_redis s) (revisionKey s adminID) encoded 0 w) (\<lambda>created w.
                    if created then (Inr revision, w)
                    else try_do (ac_Get (ras_redis s) (revisionKey s adminID) w)
                           (\<lambda>encoded w. (decodeSessionRevision (ras_codec s) encoded, w)))))"

definition RotateSessionRevision :: "'w RedisAuthState \<Rightarrow> string \<Rightarrow> time \<Rightarrow> 'w \<Rightarrow> (error + unit) \<times> 'w" where
  "RotateSessionRevision s adminID notBefore w =
     try_do (state_ready s w) (\<lambda>_ w.
       try_do (newRevision s notBefore w) (\<lambda>(_, encoded) w. ac_Set (ras_redis s) (revisionKey s adminID) encoded 0 w))"

section \<open>Login attempts\<close>

definition RegisterLoginAttempt :: "'w RedisAuthState \<Rightarrow> string \<Rightarrow> string \<Rightarrow> 'w \<Rightarrow> (error + bool \<times> duration) \<times> 'w" where
  "RegisterLoginAttempt s ipAddress identity w =
     try_do (state_ready s w) (\<lambda>_ w.
       if MaxAttempts (ras_limit s) \<le> 0 \<or> Window (ras_limit s) \<le> 0 then (Inl (ErrText ''administrator login rate limit is invalid''), w)
       else try_do (ac_IncrementWindow (ras_redis s) (loginKey s ipAddress identity) (Window (ras_limit s)) w) (\<lambda>count w.
              (Inr (if MaxAttempts (ras_limit s) < count then (False, Window (ras_limit s)) else (True, 0)), w)))"

definition ClearLoginAttempts :: "'w RedisAuthState \<Rightarrow> string \<Rightarrow> string \<Rightarrow> 'w \<Rightarrow> (error + unit) \<times> 'w" where
  "ClearLoginAttempts s ipAddress identity w =
     try_do (state_ready s w) (\<lambda>_. ac_Delete (ras_redis s) [loginKey s ipAddress identity])"

definition redis_state :: "'w RedisAuthState \<Rightarrow> 'w AuthStateStore" where
  "redis_state s =
     \<lparr>st_LoadSession = LoadSession s, st_SaveSession = SaveSession s, st_RevokeSession = RevokeSession s,
      st_CurrentSessionRevision = CurrentSessionRevision s, st_RotateSessionRevision = RotateSessionRevision s,
      st_RegisterLoginAttempt = RegisterLoginAttempt s, st_ClearLoginAttempts = ClearLoginAttempts s\<rparr>"

end
