(* ===== verification/Admin_Auth.thy ===== *)
theory Admin_Auth
  imports Admin_State Tool_Names
begin

text \<open>
  The authentication of administrators (\<open>internal/admin/auth.go\<close>): bootstrap, login, sessions, second factors, and changes of the address and
  the password.

  The service is a record of the parts its constructor gets; the shared state is optional as in the code. A call that changes the state threads it,
  also where the code ignores the error. In the three operations that revoke all sessions of an administrator, \<open>gap\<close> is what other requests do
  between the rotation of the revision and the update in the database.
\<close>

definition ErrAlreadyBootstrapped :: error where "ErrAlreadyBootstrapped = ErrText ''an administrator already exists''"
definition ErrBadLogin :: error where "ErrBadLogin = ErrText ''invalid administrator credentials''"
definition ErrLoginRateLimited :: error where "ErrLoginRateLimited = ErrText ''administrator login rate limit exceeded''"
definition ErrAuthStateUnavailable :: error where "ErrAuthStateUnavailable = ErrText ''administrator authentication state is unavailable''"
definition ErrTOTPRequired :: error where "ErrTOTPRequired = ErrText ''TOTP code is required''"
definition ErrInvalidTOTP :: error where "ErrInvalidTOTP = ErrText ''invalid TOTP code''"
definition ErrInvalidSession :: error where "ErrInvalidSession = ErrText ''invalid or expired administrator session''"
definition ErrInvalidCSRF :: error where "ErrInvalidCSRF = ErrText ''invalid CSRF token''"
definition ErrTOTPNotPending :: error where "ErrTOTPNotPending = ErrText ''TOTP enrollment is not pending or has expired''"
definition ErrInvalidEmail :: error where "ErrInvalidEmail = ErrText ''valid administrator email is required''"
definition ErrEmailInUse :: error where "ErrEmailInUse = ErrText ''administrator email is already in use''"
definition ErrEmailUnchanged :: error where "ErrEmailUnchanged = ErrText ''new administrator email must differ from the current email''"
definition ErrPasswordConfirmation :: error where "ErrPasswordConfirmation = ErrText ''new password and confirmation do not match''"
definition ErrPasswordUnchanged :: error where "ErrPasswordUnchanged = ErrText ''new password must differ from the current password''"
definition ErrPasswordTooLong :: error where "ErrPasswordTooLong = ErrText ''new password cannot exceed 4096 characters''"

definition dummyPasswordHash :: string where
  "dummyPasswordHash = ''$argon2id$v=19$m=8192,t=1,p=1$AAAAAAAAAAAAAAAAAAAAAA$AAAAAAAAAAAAAAAAAAAAAAAAAAAAAAAAAAAAAAAAAAA''"

text \<open>The address parser of \<open>net/mail\<close> gives a name and an address; \<open>ToValidUTF8\<close> drops what is not text.\<close>

record 'w AuthService =
  as_repo :: "'w AdminRepository"
  as_lib :: SecLib
  as_cipher :: AEAD
  as_passwords :: Argon2Params
  as_pepper :: string
  as_random :: "'w random"
  as_totp :: TOTP
  as_state :: "'w AuthStateStore option"
  as_sessionTTL :: duration
  as_now :: "'w \<Rightarrow> time \<times> 'w"
  as_ParseAddress :: "string \<Rightarrow> (string \<times> string) option"
  as_ToValidUTF8 :: "string \<Rightarrow> string"

text \<open>\<open>LoginRateLimitError\<close> carries the time to wait.\<close>

datatype login_error = LoginRateLimitError duration | LoginError error

record Principal =
  pr_ID :: string
  pr_Email :: string
  pr_TOTPEnabled :: bool
  pr_LastLoginAt :: "time option"

record LoginInput =
  in_Email :: string
  in_Password :: string
  in_TOTPCode :: string
  in_IPAddress :: string
  in_UserAgent :: string

record LoginResult =
  lr_Principal :: Principal
  SessionToken :: string
  CSRFToken :: string
  lr_ExpiresAt :: time

record TOTPEnrollment =
  Secret :: string
  enr_URI :: string
  enr_ExpiresAt :: time

section \<open>Helpers\<close>

definition auth_ready :: "'w AuthService \<Rightarrow> 'w \<Rightarrow> (error + unit) \<times> 'w" where
  "auth_ready s w =
     (if as_sessionTTL s < 5 * Minute then (Inl (ErrText ''administrator session TTL must be at least 5 minutes''), w) else (Inr (), w))"

definition principalFromRecord :: "AdminRecord \<Rightarrow> Principal" where
  "principalFromRecord a = \<lparr>pr_ID = adm_ID a, pr_Email = Email a, pr_TOTPEnabled = TOTPEnabled a, pr_LastLoginAt = LastLoginAt a\<rparr>"

definition validEmail :: "'w AuthService \<Rightarrow> string \<Rightarrow> bool" where
  "validEmail s email \<longleftrightarrow>
     \<not> (email = '''' \<or> 254 < length email \<or> CHR 0x0D \<in> set email \<or> CHR 0x0A \<in> set email) \<and>
     as_ParseAddress s email = Some ('''', email) \<and>
     (case Split email (CHR ''@'') of
        [p0, p1] \<Rightarrow> p0 \<noteq> '''' \<and> Contains p1 ''.'' \<and> \<not> HasPrefix p1 ''.'' \<and> \<not> HasSuffix p1 ''.''
      | _ \<Rightarrow> False)"

definition totpAAD :: "string \<Rightarrow> bool \<Rightarrow> string" where
  "totpAAD adminID pending = ''admin-totp:'' @ (if pending then ''pending'' else ''active'') @ '':'' @ adminID"

definition auth_truncate :: "'w AuthService \<Rightarrow> string \<Rightarrow> nat \<Rightarrow> string" where
  "auth_truncate s v0 maximum =
     (let v = as_ToValidUTF8 s (TrimSpace v0); rs = runes v in if length rs \<le> maximum then v else concat (take maximum rs))"

definition authStateUnavailable :: "string \<Rightarrow> error \<Rightarrow> error" where
  "authStateUnavailable operation err = Wrapped operation ErrAuthStateUnavailable"

definition openTOTPSecret :: "'w AuthService \<Rightarrow> string \<Rightarrow> string \<Rightarrow> bool \<Rightarrow> error + string" where
  "openTOTPSecret s adminID ciphertext pending = Open (Some (as_cipher s)) ciphertext (totpAAD adminID pending)"

text \<open>\<open>opened, err := openTOTPSecret(...); err != nil || !Validate(code, opened, now)\<close>; the clock is read only when the secret opened.\<close>

definition totp_accepted :: "'w AuthService \<Rightarrow> AdminRecord \<Rightarrow> string \<Rightarrow> 'w \<Rightarrow> bool \<times> 'w" where
  "totp_accepted s admin code w =
     (case openTOTPSecret s (adm_ID admin) (TOTPSecretCipher admin) False of
        Inl _ \<Rightarrow> (False, w)
      | Inr secret \<Rightarrow> (case as_now s w of (t, w) \<Rightarrow> (Validate_code (as_lib s) (Some (as_totp s)) code secret t, w)))"

definition password_accepted :: "'w AuthService \<Rightarrow> string \<Rightarrow> AdminRecord \<Rightarrow> bool" where
  "password_accepted s password admin \<longleftrightarrow> verify_password (as_lib s) password (PasswordHash admin) = Inr True"

section \<open>Bootstrap\<close>

definition Bootstrap :: "'w AuthService \<Rightarrow> string \<Rightarrow> string \<Rightarrow> 'w \<Rightarrow> (error + Principal) \<times> 'w" where
  "Bootstrap s email password w =
     try_do (auth_ready s w) (\<lambda>_ w.
     try_do (on_err (Wrapped ''count administrators'') (ar_CountAdmins (as_repo s) w)) (\<lambda>count w.
     if count \<noteq> 0 then (Inl ErrAlreadyBootstrapped, w)
     else try_do (Hash (as_lib s) (as_random s) (Some (as_passwords s)) password w) (\<lambda>hash w.
     if \<not> validEmail s (normalizeEmail email) then (Inl ErrInvalidEmail, w)
     else try_do (on_err (\<lambda>e. if errors_is e ErrConflict then ErrAlreadyBootstrapped else Wrapped ''create administrator'' e)
            (ar_CreateAdmin (as_repo s)
               \<lparr>adm_ID = '''', Email = normalizeEmail email, PasswordHash = hash, TOTPSecretCipher = '''', TOTPEnabled = False,
                PendingTOTPSecretCipher = '''', PendingTOTPExpiresAt = None, adm_Disabled = False, LastLoginAt = None, adm_CreatedAt = 0, adm_UpdatedAt = 0\<rparr> w))
          (\<lambda>admin w. (Inr (principalFromRecord admin), w)))))"

section \<open>Sessions\<close>

definition no_revision :: SessionRevision where "no_revision = \<lparr>rev_Value = '''', NotBefore = 0\<rparr>"

definition issue_revision :: "'w AuthService \<Rightarrow> AdminRecord \<Rightarrow> 'w \<Rightarrow> (error + SessionRevision) \<times> 'w" where
  "issue_revision s admin w =
     (case as_state s of
        None \<Rightarrow> (Inr no_revision, w)
      | Some st \<Rightarrow> on_err (authStateUnavailable ''load administrator session revision'') (st_CurrentSessionRevision st (adm_ID admin) w))"

text \<open>A session that cannot be cached is taken back.\<close>

definition cache_issued :: "'w AuthService \<Rightarrow> AdminSession \<Rightarrow> SessionRevision \<Rightarrow> 'w \<Rightarrow> (error + unit) \<times> 'w" where
  "cache_issued s session revision w =
     (case as_state s of
        None \<Rightarrow> (Inr (), w)
      | Some st \<Rightarrow>
          (case st_SaveSession st session revision w of
             (Inl e, w) \<Rightarrow> (Inl (authStateUnavailable ''cache administrator session'' e), snd (ar_DeleteAdminSessionByDigest (as_repo s) (TokenDigest session) w))
           | (Inr _, w) \<Rightarrow> (Inr (), w)))"

definition issueSession :: "'w AuthService \<Rightarrow> AdminRecord \<Rightarrow> string \<Rightarrow> string \<Rightarrow> 'w \<Rightarrow> (error + LoginResult) \<times> 'w" where
  "issueSession s admin ipAddress agent w =
     try_do (Generate (as_lib s) (as_random s) (Some (as_pepper s)) ''adm_'' 32 w) (\<lambda>sessionToken w.
     try_do (Generate (as_lib s) (as_random s) (Some (as_pepper s)) ''csrf_'' 32 w) (\<lambda>csrfToken w.
     case as_now s w of (t, w) \<Rightarrow>
     try_do (issue_revision s admin w) (\<lambda>revision w.
     try_do (on_err (Wrapped ''create administrator session'') (ar_CreateAdminSession (as_repo s)
        \<lparr>ses_ID = '''', AdminID = adm_ID admin, TokenDigest = tok_Digest sessionToken, CSRFDigest = tok_Digest csrfToken,
         IPAddress = auth_truncate s ipAddress 128, ses_UserAgent = auth_truncate s agent 512, ses_ExpiresAt = t + as_sessionTTL s,
         LastSeenAt = 0, ses_CreatedAt = 0\<rparr> w)) (\<lambda>session w.
     try_do (cache_issued s session revision w) (\<lambda>_ w.
     (Inr \<lparr>lr_Principal = principalFromRecord admin, SessionToken = Plaintext sessionToken, CSRFToken = Plaintext csrfToken,
           lr_ExpiresAt = t + as_sessionTTL s\<rparr>, w))))))"

definition restoreDatabaseSession :: "'w AuthService \<Rightarrow> 'w AuthStateStore \<Rightarrow> AdminSession \<Rightarrow> SessionRevision \<Rightarrow> 'w \<Rightarrow> (error + AdminSession) \<times> 'w" where
  "restoreDatabaseSession s st session revision w =
     (if NotBefore revision \<noteq> 0 \<and> ses_CreatedAt session \<le> NotBefore revision
      then (Inl ErrInvalidSession, snd (ar_DeleteAdminSessionByDigest (as_repo s) (TokenDigest session) w))
      else (case as_now s w of (t, w) \<Rightarrow>
              if ses_ExpiresAt session \<le> t
              then (Inl ErrInvalidSession, snd (ar_DeleteAdminSessionByDigest (as_repo s) (TokenDigest session) w))
              else try_do (on_err (authStateUnavailable ''restore administrator session cache'') (st_SaveSession st session revision w))
                     (\<lambda>_ w. (Inr session, w))))"

definition database_session :: "'w AuthService \<Rightarrow> string \<Rightarrow> string \<Rightarrow> 'w \<Rightarrow> (error + AdminSession) \<times> 'w" where
  "database_session s what d w =
     on_err (\<lambda>e. if errors_is e ErrNotFound then ErrInvalidSession else Wrapped what e) (ar_GetAdminSessionByDigest (as_repo s) d w)"

definition loadDatabaseSession :: "'w AuthService \<Rightarrow> 'w AuthStateStore \<Rightarrow> string \<Rightarrow> SessionRevision \<Rightarrow> 'w \<Rightarrow> (error + AdminSession) \<times> 'w" where
  "loadDatabaseSession s st d revision w =
     try_do (database_session s ''load administrator session fallback'' d w) (\<lambda>session. restoreDatabaseSession s st session revision)"

definition loadDatabaseSessionWithRevision :: "'w AuthService \<Rightarrow> 'w AuthStateStore \<Rightarrow> string \<Rightarrow> 'w \<Rightarrow> (error + AdminSession) \<times> 'w" where
  "loadDatabaseSessionWithRevision s st d w =
     try_do (database_session s ''load administrator session fallback'' d w) (\<lambda>session w.
     try_do (on_err (authStateUnavailable ''load administrator session revision'') (st_CurrentSessionRevision st (AdminID session) w))
       (\<lambda>revision. restoreDatabaseSession s st session revision))"

text \<open>A cached session counts as long as its revision is the current one. \<open>LoadSession\<close> returns an entry only with a session.\<close>

definition cached_session :: "'w AuthService \<Rightarrow> 'w AuthStateStore \<Rightarrow> string \<Rightarrow> 'w \<Rightarrow> (error + AdminSession) \<times> 'w" where
  "cached_session s st d w =
     (case st_LoadSession st d w of
        (Inr cached, w) \<Rightarrow>
          (case cs_Session cached of
             None \<Rightarrow> (Inl ErrInvalidSession, w)
           | Some session \<Rightarrow>
               try_do (on_err (authStateUnavailable ''load administrator session revision'') (st_CurrentSessionRevision st (AdminID session) w)) (\<lambda>revision w.
               if rev_Value (cs_Revision cached) = rev_Value revision then (Inr session, w)
               else loadDatabaseSession s st d revision w))
      | (Inl e, w) \<Rightarrow>
          if errors_is e ErrSessionRevoked then (Inl ErrInvalidSession, w)
          else if errors_is e ErrSessionCacheMiss then loadDatabaseSessionWithRevision s st d w
          else (Inl (authStateUnavailable ''load administrator session'' e), w))"

definition find_session :: "'w AuthService \<Rightarrow> string \<Rightarrow> 'w \<Rightarrow> (error + AdminSession) \<times> 'w" where
  "find_session s d w =
     (case as_state s of
        Some st \<Rightarrow> cached_session s st d w
      | None \<Rightarrow> database_session s ''load administrator session'' d w)"

text \<open>An expired session is removed everywhere.\<close>

definition drop_session :: "'w AuthService \<Rightarrow> string \<Rightarrow> 'w \<Rightarrow> 'w" where
  "drop_session s d w =
     (let w = (case as_state s of Some st \<Rightarrow> snd (st_RevokeSession st d w) | None \<Rightarrow> w)
      in snd (ar_DeleteAdminSessionByDigest (as_repo s) d w))"

definition auth_loadSession :: "'w AuthService \<Rightarrow> string \<Rightarrow> 'w \<Rightarrow> (error + AdminRecord \<times> AdminSession) \<times> 'w" where
  "auth_loadSession s token w =
     (if TrimSpace token = '''' then (Inl ErrInvalidSession, w)
      else (let d = tok_digest (as_lib s) (as_pepper s) token
            in try_do (find_session s d w) (\<lambda>session w.
               case as_now s w of (t, w) \<Rightarrow>
               if ses_ExpiresAt session \<le> t then (Inl ErrInvalidSession, drop_session s d w)
               else (case ar_GetAdminByID (as_repo s) (AdminID session) w of
                       (Inl _, w) \<Rightarrow> (Inl ErrInvalidSession, w)
                     | (Inr admin, w) \<Rightarrow> if adm_Disabled admin then (Inl ErrInvalidSession, w) else (Inr (admin, session), w)))))"

definition AuthenticateSession :: "'w AuthService \<Rightarrow> string \<Rightarrow> 'w \<Rightarrow> (error + Principal) \<times> 'w" where
  "AuthenticateSession s token w =
     try_do (auth_loadSession s token w) (\<lambda>(admin, session) w.
     case as_now s w of (t, w) \<Rightarrow>
     let w = (if 5 * Minute \<le> time_sub t (LastSeenAt session)
              then (case as_now s w of (t, w) \<Rightarrow> snd (ar_TouchAdminSession (as_repo s) (ses_ID session) t w)) else w)
     in (Inr (principalFromRecord admin), w))"

definition VerifyCSRF :: "'w AuthService \<Rightarrow> string \<Rightarrow> string \<Rightarrow> 'w \<Rightarrow> (error + unit) \<times> 'w" where
  "VerifyCSRF s sessionToken csrfToken w =
     try_do (auth_loadSession s sessionToken w) (\<lambda>(_, session) w.
     (if tok_verify (as_lib s) (Some (as_pepper s)) csrfToken (CSRFDigest session) then Inr () else Inl ErrInvalidCSRF, w))"

definition Logout :: "'w AuthService \<Rightarrow> string \<Rightarrow> 'w \<Rightarrow> (error + unit) \<times> 'w" where
  "Logout s sessionToken w =
     (if TrimSpace sessionToken = '''' then (Inr (), w)
      else (let d = tok_digest (as_lib s) (as_pepper s) sessionToken
            in try_do (case as_state s of
                         None \<Rightarrow> (Inr (), w)
                       | Some st \<Rightarrow> on_err (authStateUnavailable ''revoke administrator session'') (st_RevokeSession st d w)) (\<lambda>_ w.
               on_err (Wrapped ''delete administrator session'') (ar_DeleteAdminSessionByDigest (as_repo s) d w))))"

definition CleanupExpiredSessions :: "'w AuthService \<Rightarrow> 'w \<Rightarrow> (error + int) \<times> 'w" where
  "CleanupExpiredSessions s w = (case as_now s w of (t, w) \<Rightarrow> ar_DeleteExpiredAdminSessions (as_repo s) t w)"

section \<open>Login\<close>

definition register_attempt :: "'w AuthService \<Rightarrow> LoginInput \<Rightarrow> string \<Rightarrow> 'w \<Rightarrow> (login_error + unit) \<times> 'w" where
  "register_attempt s input identity w =
     (case as_state s of
        None \<Rightarrow> (Inr (), w)
      | Some st \<Rightarrow>
          try_do (on_err (\<lambda>e. LoginError (authStateUnavailable ''apply login rate limit'' e)) (st_RegisterLoginAttempt st (in_IPAddress input) identity w))
            (\<lambda>(allowed, retry) w. if allowed then (Inr (), w) else (Inl (LoginRateLimitError retry), w)))"

definition login_totp :: "'w AuthService \<Rightarrow> AdminRecord \<Rightarrow> string \<Rightarrow> 'w \<Rightarrow> (login_error + unit) \<times> 'w" where
  "login_totp s admin code w =
     (if \<not> TOTPEnabled admin then (Inr (), w)
      else if TrimSpace code = '''' then (Inl (LoginError ErrTOTPRequired), w)
      else (case openTOTPSecret s (adm_ID admin) (TOTPSecretCipher admin) False of
              Inl e \<Rightarrow> (Inl (LoginError (Wrapped ''read TOTP secret'' e)), w)
            | Inr secret \<Rightarrow>
                (case as_now s w of (t, w) \<Rightarrow>
                   if Validate_code (as_lib s) (Some (as_totp s)) code secret t then (Inr (), w) else (Inl (LoginError ErrInvalidTOTP), w))))"

definition Login :: "'w AuthService \<Rightarrow> LoginInput \<Rightarrow> 'w \<Rightarrow> (login_error + LoginResult) \<times> 'w" where
  "Login s input w =
     try_do (on_err LoginError (auth_ready s w)) (\<lambda>_ w.
     let identity = normalizeEmail (in_Email input)
     in try_do (register_attempt s input identity w) (\<lambda>_ w.
     if 4096 < length (in_Password input) then (Inl (LoginError ErrBadLogin), w)
     else try_do (on_err (\<lambda>e. LoginError (if errors_is e ErrNotFound then ErrBadLogin else Wrapped ''load administrator'' e))
                    (ar_GetAdminByEmail (as_repo s) identity w)) (\<lambda>admin w.
     if \<not> password_accepted s (in_Password input) admin \<or> adm_Disabled admin then (Inl (LoginError ErrBadLogin), w)
     else try_do (login_totp s admin (in_TOTPCode input) w) (\<lambda>_ w.
     try_do (on_err LoginError (issueSession s admin (in_IPAddress input) (in_UserAgent input) w)) (\<lambda>result w.
     case as_now s w of (t, w) \<Rightarrow>
     let w = snd (ar_RecordAdminLogin (as_repo s) (adm_ID admin) t w);
         w = (case as_state s of None \<Rightarrow> w | Some st \<Rightarrow> snd (st_ClearLoginAttempts st (in_IPAddress input) identity w))
     in (Inr (result\<lparr>lr_Principal := (lr_Principal result)\<lparr>pr_LastLoginAt := Some t\<rparr>\<rparr>), w))))))"

section \<open>Second factors\<close>

definition BeginTOTP :: "'w AuthService \<Rightarrow> string \<Rightarrow> 'w \<Rightarrow> (error + TOTPEnrollment) \<times> 'w" where
  "BeginTOTP s adminID w =
     try_do (ar_GetAdminByID (as_repo s) adminID w) (\<lambda>admin w.
     if adm_Disabled admin then (Inl ErrBadLogin, w)
     else try_do (GenerateSecret (as_lib s) (as_random s) (Some (as_totp s)) w) (\<lambda>secret w.
     try_do (ProvisioningURI (as_lib s) (as_totp s) (Email admin) secret, w) (\<lambda>uri w.
     try_do (Seal (as_random s) (Some (as_cipher s)) secret (totpAAD (adm_ID admin) True) w) (\<lambda>sealed w.
     case as_now s w of (t, w) \<Rightarrow>
     try_do (on_err (Wrapped ''save pending TOTP'') (ar_SetPendingTOTP (as_repo s) (adm_ID admin) sealed (t + 10 * Minute) w)) (\<lambda>_ w.
     (Inr \<lparr>Secret = secret, enr_URI = uri, enr_ExpiresAt = t + 10 * Minute\<rparr>, w))))))"

definition ConfirmTOTP :: "'w AuthService \<Rightarrow> string \<Rightarrow> string \<Rightarrow> 'w \<Rightarrow> (error + unit) \<times> 'w" where
  "ConfirmTOTP s adminID code w =
     try_do (ar_GetAdminByID (as_repo s) adminID w) (\<lambda>admin w.
     case PendingTOTPExpiresAt admin of
       None \<Rightarrow> (Inl ErrTOTPNotPending, w)
     | Some expires \<Rightarrow>
         if PendingTOTPSecretCipher admin = '''' then (Inl ErrTOTPNotPending, w)
         else (case as_now s w of (t, w) \<Rightarrow>
           if expires \<le> t then (Inl ErrTOTPNotPending, w)
           else (case openTOTPSecret s (adm_ID admin) (PendingTOTPSecretCipher admin) True of
                   Inl _ \<Rightarrow> (Inl ErrTOTPNotPending, w)
                 | Inr secret \<Rightarrow>
                     (case as_now s w of (t, w) \<Rightarrow>
                        if \<not> Validate_code (as_lib s) (Some (as_totp s)) code secret t then (Inl ErrInvalidTOTP, w)
                        else try_do (Seal (as_random s) (Some (as_cipher s)) secret (totpAAD (adm_ID admin) False) w) (\<lambda>sealed w.
                             on_err (Wrapped ''enable TOTP'') (ar_EnableTOTP (as_repo s) (adm_ID admin) sealed w))))))"

definition revokeAdminSessions :: "'w AuthService \<Rightarrow> string \<Rightarrow> 'w \<Rightarrow> (error + unit) \<times> 'w" where
  "revokeAdminSessions s adminID w =
     (case as_state s of
        None \<Rightarrow> (Inr (), w)
      | Some st \<Rightarrow> (case as_now s w of (t, w) \<Rightarrow>
          on_err (authStateUnavailable ''revoke administrator sessions'') (st_RotateSessionRevision st adminID t w)))"

definition require_totp :: "'w AuthService \<Rightarrow> AdminRecord \<Rightarrow> string \<Rightarrow> 'w \<Rightarrow> (error + unit) \<times> 'w" where
  "require_totp s admin code w =
     (if TOTPEnabled admin
      then (case totp_accepted s admin code w of (ok, w) \<Rightarrow> (if ok then Inr () else Inl ErrInvalidTOTP, w))
      else (Inr (), w))"

definition DisableTOTP :: "'w AuthService \<Rightarrow> ('w \<Rightarrow> 'w) \<Rightarrow> string \<Rightarrow> string \<Rightarrow> string \<Rightarrow> 'w \<Rightarrow> (error + unit) \<times> 'w" where
  "DisableTOTP s gap adminID password code w =
     try_do (ar_GetAdminByID (as_repo s) adminID w) (\<lambda>admin w.
     if \<not> password_accepted s password admin then (Inl ErrBadLogin, w)
     else try_do (require_totp s admin code w) (\<lambda>_ w.
     try_do (revokeAdminSessions s (adm_ID admin) w) (\<lambda>_ w.
     try_do (ar_DisableTOTP (as_repo s) (adm_ID admin) (gap w)) (\<lambda>_ w.
     ar_DeleteAdminSessionsForAdmin (as_repo s) (adm_ID admin) w))))"

section \<open>Changing the address and the password\<close>

definition verifyAdminCredentials :: "'w AuthService \<Rightarrow> AdminRecord \<Rightarrow> string \<Rightarrow> string \<Rightarrow> 'w \<Rightarrow> (error + unit) \<times> 'w" where
  "verifyAdminCredentials s admin password code w =
     (if 4096 < length password then (Inl ErrBadLogin, w)
      else if \<not> password_accepted s password admin \<or> adm_Disabled admin then (Inl ErrBadLogin, w)
      else require_totp s admin code w)"

definition VerifyCredentials :: "'w AuthService \<Rightarrow> string \<Rightarrow> string \<Rightarrow> string \<Rightarrow> 'w \<Rightarrow> (error + unit) \<times> 'w" where
  "VerifyCredentials s adminID password code w =
     try_do (ar_GetAdminByID (as_repo s) (TrimSpace adminID) w) (\<lambda>admin. verifyAdminCredentials s admin password code)"

text \<open>The address is free when nobody has it, or the administrator itself.\<close>

definition email_free :: "'w AuthService \<Rightarrow> AdminRecord \<Rightarrow> string \<Rightarrow> 'w \<Rightarrow> (error + unit) \<times> 'w" where
  "email_free s admin email w =
     (case ar_GetAdminByEmail (as_repo s) email w of
        (Inr existing, w) \<Rightarrow> (if adm_ID existing \<noteq> adm_ID admin then Inl ErrEmailInUse else Inr (), w)
      | (Inl e, w) \<Rightarrow> (if errors_is e ErrNotFound then Inr () else Inl (Wrapped ''check administrator email'' e), w))"

definition ChangeEmail :: "'w AuthService \<Rightarrow> ('w \<Rightarrow> 'w) \<Rightarrow> string \<Rightarrow> string \<Rightarrow> string \<Rightarrow> string \<Rightarrow> 'w \<Rightarrow> (error + Principal) \<times> 'w" where
  "ChangeEmail s gap adminID email currentPassword code w =
     try_do (ar_GetAdminByID (as_repo s) adminID w) (\<lambda>admin w.
     let normalized = normalizeEmail email
     in if \<not> validEmail s normalized then (Inl ErrInvalidEmail, w)
        else if normalized = Email admin then (Inl ErrEmailUnchanged, w)
        else try_do (verifyAdminCredentials s admin currentPassword code w) (\<lambda>_ w.
             try_do (email_free s admin normalized w) (\<lambda>_ w.
             try_do (revokeAdminSessions s (adm_ID admin) w) (\<lambda>_ w.
             try_do (on_err (\<lambda>e. if errors_is e ErrConflict then ErrEmailInUse else e) (ar_UpdateAdminEmail (as_repo s) (adm_ID admin) normalized (gap w))) (\<lambda>_ w.
             try_do (ar_DeleteAdminSessionsForAdmin (as_repo s) (adm_ID admin) w) (\<lambda>_ w.
             (Inr (principalFromRecord (admin\<lparr>Email := normalized\<rparr>)), w)))))))"

definition ChangePassword :: "'w AuthService \<Rightarrow> ('w \<Rightarrow> 'w) \<Rightarrow> string \<Rightarrow> string \<Rightarrow> string \<Rightarrow> string \<Rightarrow> string \<Rightarrow> 'w \<Rightarrow> (error + unit) \<times> 'w" where
  "ChangePassword s gap adminID currentPassword newPassword confirmation code w =
     try_do (ar_GetAdminByID (as_repo s) adminID w) (\<lambda>admin w.
     try_do (verifyAdminCredentials s admin currentPassword code w) (\<lambda>_ w.
     if newPassword \<noteq> confirmation then (Inl ErrPasswordConfirmation, w)
     else if 4096 < length newPassword then (Inl ErrPasswordTooLong, w)
     else if newPassword = currentPassword then (Inl ErrPasswordUnchanged, w)
     else try_do (Hash (as_lib s) (as_random s) (Some (as_passwords s)) newPassword w) (\<lambda>hash w.
          try_do (revokeAdminSessions s (adm_ID admin) w) (\<lambda>_ w.
          try_do (ar_UpdateAdminPassword (as_repo s) (adm_ID admin) hash (gap w)) (\<lambda>_ w.
          ar_DeleteAdminSessionsForAdmin (as_repo s) (adm_ID admin) w)))))"

end
