(* ===== verification/Admin_Sessions.thy ===== *)
theory Admin_Sessions
  imports Admin_Auth
begin

text \<open>
  When the sessions of an administrator are revoked, and what keeps them so.

  The interface \<open>session_view\<close> sees a backend (a repository and a shared state) through four observations: the sessions in the database (digest,
  owner and time of creation), the cached entry of a token digest, the revision of an administrator, and a lower bound of the clock. Its laws say what
  each operation may change.
\<close>

section \<open>The interface\<close>

text \<open>What may happen at any time: sessions disappear, revisions that exist stay, time passes.\<close>

definition later :: "('w \<Rightarrow> (string \<times> string \<times> time) set) \<Rightarrow> ('w \<Rightarrow> string \<Rightarrow> CachedSession option) \<Rightarrow> ('w \<Rightarrow> string \<Rightarrow> SessionRevision option)
    \<Rightarrow> ('w \<Rightarrow> time) \<Rightarrow> 'w \<Rightarrow> 'w \<Rightarrow> bool" where
  "later rows cache revs moment w w' \<longleftrightarrow> rows w' \<subseteq> rows w \<and> cache w' \<subseteq>\<^sub>m cache w \<and> revs w \<subseteq>\<^sub>m revs w' \<and> moment w \<le> moment w'"

text \<open>Requests in any order: with any tokens, new sessions of other administrators than \<open>a\<close>, and what else may pass in between.\<close>

inductive session_step :: "'w AuthService \<Rightarrow> string \<Rightarrow> ('w \<Rightarrow> 'w \<Rightarrow> bool) \<Rightarrow> 'w \<Rightarrow> 'w \<Rightarrow> bool" for s a passing where
  authenticate: "AuthenticateSession s token w = (x, w') \<Longrightarrow> session_step s a passing w w'"
| csrf: "VerifyCSRF s token csrf_token w = (y, w') \<Longrightarrow> session_step s a passing w w'"
| logout: "Logout s token w = (y, w') \<Longrightarrow> session_step s a passing w w'"
| issue: "issueSession s admin ip agent w = (z, w') \<Longrightarrow> adm_ID admin \<noteq> a \<Longrightarrow> session_step s a passing w w'"
| pass: "passing w w' \<Longrightarrow> session_step s a passing w w'"

locale session_view =
  fixes repo :: "'w AdminRepository" and st :: "'w AuthStateStore" and rows :: "'w \<Rightarrow> (string \<times> string \<times> time) set"
    and cache :: "'w \<Rightarrow> string \<Rightarrow> CachedSession option" and revs :: "'w \<Rightarrow> string \<Rightarrow> SessionRevision option" and moment :: "'w \<Rightarrow> time"
  assumes load: "st_LoadSession st d w = (x, w') \<Longrightarrow> later rows cache revs moment w w' \<and> (\<forall>c. x = Inr c \<longrightarrow> cache w d = Some c)"
    and current: "st_CurrentSessionRevision st a w = (y, w') \<Longrightarrow>
      later rows cache revs moment w w' \<and> (\<forall>r r'. y = Inr r \<longrightarrow> revs w a = Some r' \<longrightarrow> r = r')"
    and save: "st_SaveSession st ses r w = (z, w') \<Longrightarrow>
      rows w' \<subseteq> rows w \<and> revs w \<subseteq>\<^sub>m revs w' \<and>
      (cache w' \<subseteq>\<^sub>m cache w \<or> cache w' \<subseteq>\<^sub>m (cache w)(TokenDigest ses \<mapsto> \<lparr>cs_Session = Some ses, cs_Revision = r\<rparr>))"
    and revoke: "st_RevokeSession st d w = (u, w') \<Longrightarrow> later rows cache revs moment w w'"
    and rotate: "st_RotateSessionRevision st a t w = (Inr (), w') \<Longrightarrow>
      rows w' \<subseteq> rows w \<and> cache w' \<subseteq>\<^sub>m cache w \<and> (\<exists>r. revs w' a = Some r \<and> NotBefore r = t)"
    and get_session: "ar_GetAdminSessionByDigest repo d w = (v, w') \<Longrightarrow>
      later rows cache revs moment w w' \<and> (\<forall>ses. v = Inr ses \<longrightarrow> TokenDigest ses = d \<and> (d, AdminID ses, ses_CreatedAt ses) \<in> rows w)"
    and get_admin: "ar_GetAdminByID repo uid w = (q, w') \<Longrightarrow> later rows cache revs moment w w' \<and> (\<forall>adm. q = Inr adm \<longrightarrow> adm_ID adm = uid)"
    and touch: "later rows cache revs moment w (snd (ar_TouchAdminSession repo uid t w))"
    and create: "ar_CreateAdminSession repo ses w = (v, w') \<Longrightarrow>
      (case v of
         Inl _ \<Rightarrow> later rows cache revs moment w w'
       | Inr made \<Rightarrow> cache w' \<subseteq>\<^sub>m cache w \<and> revs w \<subseteq>\<^sub>m revs w' \<and> (\<forall>b u. (TokenDigest ses, b, u) \<notin> rows w) \<and>
           rows w' \<subseteq> insert (TokenDigest ses, AdminID ses, ses_CreatedAt made) (rows w) \<and> TokenDigest made = TokenDigest ses \<and> AdminID made = AdminID ses)"
    and delete: "later rows cache revs moment w (snd (ar_DeleteAdminSessionByDigest repo d w))"
    and delete_all: "ar_DeleteAdminSessionsForAdmin repo uid w = (Inr (), w') \<Longrightarrow> later rows cache revs moment w w' \<and> (\<forall>d u. (d, uid, u) \<notin> rows w')"
    and set_password: "ar_UpdateAdminPassword repo uid h w = (Inr (), w') \<Longrightarrow> later rows cache revs moment w w'"
    and set_email: "ar_UpdateAdminEmail repo uid e w = (Inr (), w') \<Longrightarrow> later rows cache revs moment w w'"
    and set_totp: "ar_DisableTOTP repo uid w = (Inr (), w') \<Longrightarrow> later rows cache revs moment w w'"
    and by_email: "later rows cache revs moment w (snd (ar_GetAdminByEmail repo e w))"
begin

abbreviation "evolves \<equiv> later rows cache revs moment"

lemma evolves_trans: "evolves u v \<Longrightarrow> evolves v w \<Longrightarrow> evolves u w"
  by (auto simp: later_def intro: map_le_trans)

text \<open>The session stored under a digest of \<open>a\<close> and the cached one have the same owner.\<close>

definition own_digest :: "string \<Rightarrow> string \<Rightarrow> 'w \<Rightarrow> bool" where
  "own_digest a d w \<longleftrightarrow> (\<forall>b u. (d, b, u) \<in> rows w \<longrightarrow> b = a) \<and> (\<forall>c x. cache w d = Some c \<longrightarrow> cs_Session c = Some x \<longrightarrow> AdminID x = a)"

text \<open>The current revision of \<open>a\<close> excludes every stored session of \<open>a\<close>; with \<open>strict\<close> no cached session of \<open>a\<close> carries it either.\<close>

definition barred :: "bool \<Rightarrow> string \<Rightarrow> SessionRevision \<Rightarrow> 'w \<Rightarrow> bool" where
  "barred strict a r w \<longleftrightarrow> revs w a = Some r \<and> NotBefore r \<noteq> 0 \<and>
     (\<forall>d u. (d, a, u) \<in> rows w \<longrightarrow> u \<le> NotBefore r \<and> own_digest a d w) \<and>
     (strict \<longrightarrow> (\<forall>d c x. cache w d = Some c \<longrightarrow> cs_Session c = Some x \<longrightarrow> AdminID x = a \<longrightarrow> rev_Value (cs_Revision c) \<noteq> rev_Value r))"

lemma own_digest_less: "own_digest a d w \<Longrightarrow> rows w' \<subseteq> rows w \<Longrightarrow> cache w' \<subseteq>\<^sub>m cache w \<Longrightarrow> own_digest a d w'"
  unfolding own_digest_def map_le_def by (metis domI subsetD)

lemma barred_less: "barred strict a r w \<Longrightarrow> rows w' \<subseteq> rows w \<Longrightarrow> cache w' \<subseteq>\<^sub>m cache w \<Longrightarrow> revs w \<subseteq>\<^sub>m revs w' \<Longrightarrow> barred strict a r w'"
  using own_digest_less unfolding barred_def map_le_def by (smt (verit, ccfv_threshold) domI own_digest_less map_le_def subsetD)

lemma barred_later: "barred strict a r w \<Longrightarrow> evolves w w' \<Longrightarrow> barred strict a r w'"
  by (auto simp: later_def intro: barred_less)

lemma later_refl [simp]: "evolves w w"
  by (simp add: later_def)

lemma barred_insert:
  assumes "barred strict a r w" "rows w' \<subseteq> insert (d, b, u) (rows w)" "b \<noteq> a" "\<And>v. (d, a, v) \<notin> rows w" "cache w' \<subseteq>\<^sub>m cache w" "revs w \<subseteq>\<^sub>m revs w'"
  shows "barred strict a r w'"
proof -
  have c: "cache w e = Some c" if "cache w' e = Some c" for e c using assms(5) that unfolding map_le_def by (metis domI)
  have "revs w' a = Some r" using assms(1,6) unfolding barred_def map_le_def by (metis domI)
  moreover have "v \<le> NotBefore r \<and> own_digest a e w'" if "(e, a, v) \<in> rows w'" for e v
  proof -
    have e: "(e, a, v) \<in> rows w" "e \<noteq> d" using that assms(2-4) by auto
    then show ?thesis using assms(1,2) c unfolding barred_def own_digest_def by blast
  qed
  ultimately show ?thesis using assms(1) c unfolding barred_def by blast
qed

lemma barred_save:
  assumes "barred strict a r w" "st_SaveSession st ses q w = (z, w')" "AdminID ses \<noteq> a" "\<And>u. (TokenDigest ses, a, u) \<notin> rows w"
  shows "barred strict a r w'"
proof -
  let ?c = "\<lparr>cs_Session = Some ses, cs_Revision = q\<rparr>"
  from save [OF assms(2)] have s: "rows w' \<subseteq> rows w" "revs w \<subseteq>\<^sub>m revs w'" "cache w' \<subseteq>\<^sub>m cache w \<or> cache w' \<subseteq>\<^sub>m (cache w)(TokenDigest ses \<mapsto> ?c)" by auto
  have c: "cache w d = Some c" if "cache w' d = Some c" "cs_Session c = Some x" "d \<noteq> TokenDigest ses \<or> AdminID x = a" for d c x
  proof -
    have "cache w d = Some c \<or> ((cache w)(TokenDigest ses \<mapsto> ?c)) d = Some c" using s(3) that(1) unfolding map_le_def by (metis domI)
    with that(2,3) assms(3) show ?thesis by (auto split: if_splits)
  qed
  have "own_digest a d w'" if "(d, a, u) \<in> rows w'" for d u
  proof -
    have d: "d \<noteq> TokenDigest ses" "own_digest a d w" using assms(1,4) s(1) that by (auto simp: barred_def)
    show ?thesis using d(2) s(1) c [OF _ _ disjI1 [OF d(1)]] unfolding own_digest_def by blast
  qed
  moreover have "revs w' a = Some r" using assms(1) s(2) unfolding barred_def map_le_def by (metis domI)
  ultimately show ?thesis using assms(1) s(1) c unfolding barred_def by blast
qed

end

section \<open>Revoked sessions are dead\<close>

text \<open>A service on this backend whose clock and random source leave the sessions alone, and whose clock does not run behind.\<close>

locale session_service = session_view repo st rows cache revs moment
  for repo :: "'w AdminRepository" and st :: "'w AuthStateStore" and rows cache revs moment +
  fixes s :: "'w AuthService"
  assumes parts: "as_repo s = repo" "as_state s = Some st"
    and clock: "as_now s w = (t, w') \<Longrightarrow> later rows cache revs moment w w' \<and> moment w \<le> t"
    and random: "as_random s n w = (x, w') \<Longrightarrow> later rows cache revs moment w w'"
begin

lemma database_session_row:
  assumes "barred strict a r w" "database_session s what d w = (x, w')"
  shows "barred strict a r w'" "evolves w w'" "x = Inr ses \<Longrightarrow> TokenDigest ses = d \<and> (d, AdminID ses, ses_CreatedAt ses) \<in> rows w"
proof -
  obtain v where v: "ar_GetAdminSessionByDigest repo d w = (v, w')" "x = Inr ses \<longrightarrow> v = Inr ses"
    using assms(2) by (cases "ar_GetAdminSessionByDigest repo d w") (auto simp: database_session_def parts on_err_def split: sum.splits)
  show "barred strict a r w'" "evolves w w'" using barred_later [OF assms(1)] get_session [OF v(1)] by blast+
  show "x = Inr ses \<Longrightarrow> TokenDigest ses = d \<and> (d, AdminID ses, ses_CreatedAt ses) \<in> rows w" using v get_session [OF v(1)] by auto
qed

text \<open>Restoring: a session of \<open>a\<close> is older than its revision and refused, another one does not touch those of \<open>a\<close>.\<close>

lemma restore_barred:
  assumes "barred strict a r w" "restoreDatabaseSession s st ses q w = (x, w')"
    and "AdminID ses = a \<Longrightarrow> q = r \<and> ses_CreatedAt ses \<le> NotBefore r"
    and "AdminID ses \<noteq> a \<Longrightarrow> \<forall>u. (TokenDigest ses, a, u) \<notin> rows w"
  shows "barred strict a r w' \<and> (\<forall>y. x = Inr y \<longrightarrow> y = ses \<and> AdminID ses \<noteq> a)"
proof (cases "NotBefore q \<noteq> 0 \<and> ses_CreatedAt ses \<le> NotBefore q")
  case True
  with assms(2) have "w' = snd (ar_DeleteAdminSessionByDigest repo (TokenDigest ses) w)" "x = Inl ErrInvalidSession"
    by (auto simp: restoreDatabaseSession_def parts)
  then show ?thesis using barred_later [OF assms(1) delete] by simp
next
  case False
  then have other: "AdminID ses \<noteq> a" using assms(1,3) by (auto simp: barred_def)
  obtain t w1 where n: "as_now s w = (t, w1)" by (rule prod.exhaust)
  note c = conjunct1 [OF clock [OF n]]
  note b1 = barred_later [OF assms(1) c]
  show ?thesis
  proof (cases "ses_ExpiresAt ses \<le> t")
    case True
    with assms(2) False n have "w' = snd (ar_DeleteAdminSessionByDigest repo (TokenDigest ses) w1)" "x = Inl ErrInvalidSession"
      by (auto simp: restoreDatabaseSession_def parts)
    then show ?thesis using barred_later [OF b1 delete] by simp
  next
    case alive: False
    obtain z w2 where sv: "st_SaveSession st ses q w1 = (z, w2)" by (rule prod.exhaust)
    have free: "(TokenDigest ses, a, u) \<notin> rows w1" for u using assms(4) [OF other] c by (auto simp: later_def)
    from assms(2) False n alive sv have "w' = w2" "\<forall>y. x = Inr y \<longrightarrow> y = ses"
      by (auto simp: restoreDatabaseSession_def try_do_def on_err_def split: sum.splits)
    then show ?thesis using barred_save [OF b1 sv other free] other by auto
  qed
qed

lemma barred_owner: "barred strict a r w \<Longrightarrow> (d, b, v) \<in> rows w \<Longrightarrow> b \<noteq> a \<Longrightarrow> (d, a, u) \<notin> rows w"
  by (auto simp: barred_def own_digest_def)

lemma load_database_barred:
  assumes "barred strict a r w" "loadDatabaseSession s st d q w = (x, w')" "\<And>u. (d, a, u) \<in> rows w \<Longrightarrow> q = r"
  shows "barred strict a r w' \<and> (\<forall>y. x = Inr y \<longrightarrow> AdminID y \<noteq> a)"
proof -
  obtain v w1 where v: "database_session s ''load administrator session fallback'' d w = (v, w1)" by (rule prod.exhaust)
  note o = database_session_row [OF assms(1) v]
  show ?thesis
  proof (cases v)
    case (Inl e)
    with v o(1) assms(2) show ?thesis by (auto simp: loadDatabaseSession_def)
  next
    case (Inr ses)
    note row = o(3) [OF Inr]
    from v Inr assms(2) have "restoreDatabaseSession s st ses q w1 = (x, w')" by (simp add: loadDatabaseSession_def)
    from restore_barred [OF o(1) this] have "barred strict a r w' \<and> (\<forall>y. x = Inr y \<longrightarrow> y = ses \<and> AdminID ses \<noteq> a)"
      using row assms(1,3) barred_owner [OF assms(1)] o(2) by (fastforce simp: barred_def later_def)
    then show ?thesis by blast
  qed
qed

lemma load_with_revision_barred:
  assumes "barred strict a r w" "loadDatabaseSessionWithRevision s st d w = (x, w')"
  shows "barred strict a r w' \<and> (\<forall>y. x = Inr y \<longrightarrow> AdminID y \<noteq> a)"
proof -
  obtain v w1 where v: "database_session s ''load administrator session fallback'' d w = (v, w1)" by (rule prod.exhaust)
  note o = database_session_row [OF assms(1) v]
  show ?thesis
  proof (cases v)
    case (Inl e)
    with v o(1) assms(2) show ?thesis by (auto simp: loadDatabaseSessionWithRevision_def)
  next
    case (Inr ses)
    note row = o(3) [OF Inr]
    obtain y w2 where y: "st_CurrentSessionRevision st (AdminID ses) w1 = (y, w2)" by (rule prod.exhaust)
    have e2: "evolves w w2" and b2: "barred strict a r w2" using current [OF y] evolves_trans [OF o(2)] barred_later [OF o(1)] by blast+
    show ?thesis
    proof (cases y)
      case Inl
      with v y \<open>v = Inr ses\<close> b2 assms(2) show ?thesis by (auto simp: loadDatabaseSessionWithRevision_def)
    next
      case (Inr q)
      with v y \<open>v = Inr ses\<close> assms(2) have re: "restoreDatabaseSession s st ses q w2 = (x, w')" by (simp add: loadDatabaseSessionWithRevision_def)
      have q: "AdminID ses = a \<Longrightarrow> q = r" using current [OF y] Inr o(1) by (auto simp: barred_def)
      from restore_barred [OF b2 re] have "barred strict a r w' \<and> (\<forall>y. x = Inr y \<longrightarrow> y = ses \<and> AdminID ses \<noteq> a)"
        using row q assms(1) barred_owner [OF assms(1)] e2 by (fastforce simp: barred_def later_def)
      then show ?thesis by blast
    qed
  qed
qed

lemma find_session_barred:
  assumes "barred strict a r w" "find_session s d w = (x, w')"
  shows "barred strict a r w' \<and> (strict \<longrightarrow> (\<forall>y. x = Inr y \<longrightarrow> AdminID y \<noteq> a))"
proof -
  obtain l w1 where l: "st_LoadSession st d w = (l, w1)" by (rule prod.exhaust)
  have f: "cached_session s st d w = (x, w')" using assms(2) by (simp add: find_session_def parts)
  have e1: "evolves w w1" using load [OF l] by blast
  note b1 = barred_later [OF assms(1) e1]
  show ?thesis
  proof (cases l)
    case (Inl e)
    with l f b1 load_with_revision_barred [OF b1, of d x w'] show ?thesis by (auto simp: cached_session_def split: if_splits)
  next
    case (Inr c)
    show ?thesis
    proof (cases "cs_Session c")
      case None
      with l f b1 Inr show ?thesis by (auto simp: cached_session_def)
    next
      case (Some ses)
      have hit: "cache w d = Some c" using load [OF l] \<open>l = Inr c\<close> by blast
      obtain y w2 where y: "st_CurrentSessionRevision st (AdminID ses) w1 = (y, w2)" by (rule prod.exhaust)
      have e2: "evolves w w2" and b2: "barred strict a r w2" using current [OF y] evolves_trans [OF e1] barred_later [OF b1] by blast+
      show ?thesis
      proof (cases y)
        case Inl
        with l f b2 \<open>l = Inr c\<close> Some y show ?thesis by (auto simp: cached_session_def)
      next
        case (Inr q)
        have q: "AdminID ses = a \<Longrightarrow> q = r" using current [OF y] Inr b1 by (auto simp: barred_def)
        show ?thesis
        proof (cases "rev_Value (cs_Revision c) = rev_Value q")
          case False
          with l f \<open>l = Inr c\<close> Some y Inr have ld: "loadDatabaseSession s st d q w2 = (x, w')" by (simp add: cached_session_def)
          have "q = r" if "(d, a, u) \<in> rows w2" for u
            using that e2 assms(1) hit Some q by (fastforce simp: barred_def own_digest_def later_def)
          with load_database_barred [OF b2 ld] show ?thesis by blast
        next
          case True
          with l f \<open>l = Inr c\<close> Some y Inr have x: "x = Inr ses" "w' = w2" by (auto simp: cached_session_def)
          have "AdminID ses \<noteq> a" if strict using assms(1) that hit Some True q by (auto simp: barred_def)
          with x b2 show ?thesis by simp
        qed
      qed
    qed
  qed
qed

lemma drop_session_barred: "barred strict a r w \<Longrightarrow> barred strict a r (drop_session s d w)"
proof -
  assume "barred strict a r w"
  moreover obtain u w1 where "st_RevokeSession st d w = (u, w1)" by (rule prod.exhaust)
  ultimately show ?thesis using barred_later [OF _ revoke] barred_later [OF _ delete] by (auto simp: drop_session_def parts Let_def)
qed

lemma loadSession_barred:
  assumes "barred strict a r w" "auth_loadSession s token w = (x, w')"
  shows "barred strict a r w' \<and> (strict \<longrightarrow> (\<forall>adm ses. x = Inr (adm, ses) \<longrightarrow> adm_ID adm \<noteq> a))"
proof (cases "TrimSpace token = ''''")
  case True
  with assms show ?thesis by (auto simp: auth_loadSession_def)
next
  case False
  let ?d = "tok_digest (as_lib s) (as_pepper s) token"
  obtain v w1 where v: "find_session s ?d w = (v, w1)" by (rule prod.exhaust)
  note f = find_session_barred [OF assms(1) v]
  show ?thesis
  proof (cases v)
    case (Inl e)
    with v f False assms(2) show ?thesis by (auto simp: auth_loadSession_def)
  next
    case (Inr ses)
    obtain t w2 where n: "as_now s w1 = (t, w2)" by (rule prod.exhaust)
    have b2: "barred strict a r w2" using f barred_later clock [OF n] by blast
    show ?thesis
    proof (cases "ses_ExpiresAt ses \<le> t")
      case True
      with v Inr n False assms(2) drop_session_barred [OF b2] show ?thesis by (auto simp: auth_loadSession_def)
    next
      case alive: False
      obtain q w3 where q: "ar_GetAdminByID repo (AdminID ses) w2 = (q, w3)" by (rule prod.exhaust)
      have "barred strict a r w3" using barred_later [OF b2] get_admin [OF q] by blast
      moreover have "strict \<longrightarrow> (\<forall>adm. q = Inr adm \<longrightarrow> adm_ID adm \<noteq> a)" using get_admin [OF q] f Inr by auto
      ultimately show ?thesis using v Inr n False alive q assms(2) by (auto simp: auth_loadSession_def parts split: sum.splits if_splits)
    qed
  qed
qed

lemma authenticate_barred:
  assumes "barred strict a r w" "AuthenticateSession s token w = (x, w')"
  shows "barred strict a r w' \<and> (strict \<longrightarrow> (\<forall>p. x = Inr p \<longrightarrow> pr_ID p \<noteq> a))"
proof -
  obtain v w1 where v: "auth_loadSession s token w = (v, w1)" by (rule prod.exhaust)
  note l = loadSession_barred [OF assms(1) v]
  show ?thesis
  proof (cases v)
    case (Inl e)
    with v l assms(2) show ?thesis by (auto simp: AuthenticateSession_def)
  next
    case (Inr y)
    obtain adm ses where y: "y = (adm, ses)" by (rule prod.exhaust)
    obtain t w2 where n: "as_now s w1 = (t, w2)" by (rule prod.exhaust)
    obtain t' w3 where n': "as_now s w2 = (t', w3)" by (rule prod.exhaust)
    have b2: "barred strict a r w2" and b3: "barred strict a r w3" using l barred_later clock [OF n] clock [OF n'] by blast+
    then have "barred strict a r w'" "x = Inr (principalFromRecord adm)"
      using v Inr y n n' assms(2) barred_later [OF b3 touch] by (auto simp: AuthenticateSession_def parts Let_def split: if_splits)
    with l Inr y show ?thesis by (auto simp: principalFromRecord_def)
  qed
qed

lemma csrf_barred: "barred strict a r w \<Longrightarrow> VerifyCSRF s token csrf w = (x, w') \<Longrightarrow> barred strict a r w'"
  using loadSession_barred [of strict a r w token] by (cases "auth_loadSession s token w") (fastforce simp: VerifyCSRF_def try_do_def split: sum.splits)

lemma logout_barred:
  assumes "barred strict a r w" "Logout s token w = (x, w')"
  shows "barred strict a r w'"
proof (cases "TrimSpace token = ''''")
  case False
  let ?d = "tok_digest (as_lib s) (as_pepper s) token"
  obtain u w1 where u: "st_RevokeSession st ?d w = (u, w1)" by (rule prod.exhaust)
  note b1 = barred_later [OF assms(1) revoke [OF u]]
  have "w' = w1 \<or> w' = snd (ar_DeleteAdminSessionByDigest repo ?d w1)"
    using assms(2) False u by (cases u) (auto simp: Logout_def parts, metis snd_conv snd_on_err)
  with b1 barred_later [OF b1 delete] show ?thesis by auto
qed (use assms in \<open>simp add: Logout_def\<close>)

text \<open>A new session of another administrator has a digest of its own.\<close>

lemma generate_later: "Generate lib (as_random s) (Some pepper) pfx n w = (x, w') \<Longrightarrow> evolves w w'"
  using random later_refl by (auto simp: Generate_def Let_def try_do_def split: if_splits sum.splits prod.splits)

lemma issue_barred:
  assumes "barred strict a r w" "issueSession s adm ip agent w = (x, w')" "adm_ID adm \<noteq> a"
  shows "barred strict a r w'"
proof -
  obtain g1 w1 where g1: "Generate (as_lib s) (as_random s) (Some (as_pepper s)) ''adm_'' 32 w = (g1, w1)" by (rule prod.exhaust)
  obtain g2 w2 where g2: "Generate (as_lib s) (as_random s) (Some (as_pepper s)) ''csrf_'' 32 w1 = (g2, w2)" by (rule prod.exhaust)
  obtain t w3 where n: "as_now s w2 = (t, w3)" by (rule prod.exhaust)
  obtain y w4 where y: "st_CurrentSessionRevision st (adm_ID adm) w3 = (y, w4)" by (rule prod.exhaust)
  note b1 = barred_later [OF assms(1) generate_later [OF g1]]
  note b2 = barred_later [OF b1 generate_later [OF g2]]
  note b3 = barred_later [OF b2 conjunct1 [OF clock [OF n]]]
  note b4 = barred_later [OF b3 conjunct1 [OF current [OF y]]]
  consider "\<exists>e. g1 = Inl e" | "\<exists>x e. g1 = Inr x \<and> g2 = Inl e" | "\<exists>x z e. g1 = Inr x \<and> g2 = Inr z \<and> y = Inl e"
    | (ok) st' ct' q where "g1 = Inr st'" "g2 = Inr ct'" "y = Inr q"
    by (cases g1; cases g2; cases y) blast+
  then show ?thesis
  proof cases
    case 1
    with assms(2) g1 have "w' = w1" by (auto simp: issueSession_def)
    with b1 show ?thesis by simp
  next
    case 2
    with assms(2) g1 g2 have "w' = w2" by (auto simp: issueSession_def)
    with b2 show ?thesis by simp
  next
    case 3
    with assms(2) g1 g2 n y have "w' = w4" by (auto simp: issueSession_def issue_revision_def parts)
    with b4 show ?thesis by simp
  next
    case ok
    let ?new = "\<lparr>ses_ID = '''', AdminID = adm_ID adm, TokenDigest = tok_Digest st', CSRFDigest = tok_Digest ct',
         IPAddress = auth_truncate s ip 128, ses_UserAgent = auth_truncate s agent 512, ses_ExpiresAt = t + as_sessionTTL s,
         LastSeenAt = 0, ses_CreatedAt = 0\<rparr>"
    obtain m w5 where m: "ar_CreateAdminSession repo ?new w4 = (m, w5)" by (rule prod.exhaust)
    show ?thesis
    proof (cases m)
      case (Inl e)
      with assms(2) g1 g2 n y ok m have "w' = w5" by (auto simp: issueSession_def issue_revision_def parts)
      with barred_later [OF b4] create [OF m] Inl show ?thesis by auto
    next
      case (Inr ses)
      note c = create [OF m, unfolded Inr, simplified]
      obtain z w6 where z: "st_SaveSession st ses q w5 = (z, w6)" by (rule prod.exhaust)
      have b5: "barred strict a r w5" by (rule barred_insert [OF b4]) (use c assms(3) in auto)
      have free: "(TokenDigest ses, a, u) \<notin> rows w5" for u using c assms(3) by auto
      have b6: "barred strict a r w6" by (rule barred_save [OF b5 z _ free]) (use c assms(3) in simp)
      have "w' = w6 \<or> w' = snd (ar_DeleteAdminSessionByDigest repo (TokenDigest ses) w6)"
        using assms(2) g1 g2 n y ok m Inr z by (cases z) (auto simp: issueSession_def issue_revision_def cache_issued_def parts)
      with b6 barred_later [OF b6 delete] show ?thesis by auto
    qed
  qed
qed

lemma step_barred:
  assumes "session_step s a evolves w w'" "barred strict a r w"
  shows "barred strict a r w'"
  using assms(1)
proof cases
  case authenticate
  from authenticate_barred [OF assms(2) this] show ?thesis by blast
next
  case csrf
  from csrf_barred [OF assms(2) this] show ?thesis .
next
  case logout
  from logout_barred [OF assms(2) this] show ?thesis .
next
  case issue
  from issue_barred [OF assms(2) this] show ?thesis .
next
  case pass
  from barred_later [OF assms(2) this] show ?thesis .
qed

lemma steps_barred: "(session_step s a evolves)\<^sup>*\<^sup>* w w' \<Longrightarrow> barred strict a r w \<Longrightarrow> barred strict a r w'"
  by (induction rule: rtranclp_induct) (simp_all add: step_barred)

text \<open>What holds of the stored sessions of an administrator at any time: they are not from the future and their digests are their own.\<close>

definition kept :: "string \<Rightarrow> 'w \<Rightarrow> bool" where
  "kept a w \<longleftrightarrow> 0 < moment w \<and> (\<forall>d u. (d, a, u) \<in> rows w \<longrightarrow> u \<le> moment w \<and> own_digest a d w)"

lemma kept_later: "kept a w \<Longrightarrow> evolves w w' \<Longrightarrow> kept a w'"
  unfolding kept_def later_def using own_digest_less by fastforce

text \<open>The revision drawn is not that of a cached session of the administrator.\<close>

definition fresh_revision :: "string \<Rightarrow> 'w \<Rightarrow> 'w \<Rightarrow> bool" where
  "fresh_revision a w w' \<longleftrightarrow> (\<forall>d c ses r. cache w d = Some c \<longrightarrow> cs_Session c = Some ses \<longrightarrow> AdminID ses = a \<longrightarrow> revs w' a = Some r \<longrightarrow>
     rev_Value (cs_Revision c) \<noteq> rev_Value r)"

lemma rotation_bars:
  assumes "kept a w" "evolves w v" "revokeAdminSessions s a v = (Inr (), v1)"
  obtains r where "barred False a r v1" "fresh_revision a w w' \<Longrightarrow> revs w' a = Some r \<Longrightarrow> barred True a r v1"
proof -
  obtain t v0 where n: "as_now s v = (t, v0)" by (rule prod.exhaust)
  note cl = clock [OF n]
  have e: "evolves w v0" using evolves_trans [OF assms(2)] cl by blast
  have k: "kept a v" by (rule kept_later [OF assms(1,2)])
  have ro: "st_RotateSessionRevision st a t v0 = (Inr (), v1)"
    using assms(3) n by (simp add: revokeAdminSessions_def parts on_err_Inr)
  from rotate [OF ro] obtain r where r: "revs v1 a = Some r" "NotBefore r = t" and less: "rows v1 \<subseteq> rows v0" "cache v1 \<subseteq>\<^sub>m cache v0" by blast
  have v: "rows v1 \<subseteq> rows v" "cache v1 \<subseteq>\<^sub>m cache v" "cache v1 \<subseteq>\<^sub>m cache w"
    using less cl e by (auto simp: later_def intro: map_le_trans)
  have "u \<le> t \<and> own_digest a d v1" if "(d, a, u) \<in> rows v1" for d u
    using k that v cl own_digest_less [OF _ v(1,2)] unfolding kept_def by fastforce
  moreover have "t \<noteq> 0" using k cl by (auto simp: kept_def)
  ultimately have b: "barred False a r v1" using r by (auto simp: barred_def)
  moreover have "barred True a r v1" if "fresh_revision a w w'" "revs w' a = Some r"
    using b that v(3) unfolding barred_def fresh_revision_def map_le_def by (metis domI)
  ultimately show thesis by (rule that)
qed

text \<open>The three operations: rotation, other requests, the change, and the sessions removed.\<close>

lemma revocation:
  assumes "kept a w" "evolves w v" "revokeAdminSessions s a v = (Inr (), v1)" "(session_step s a evolves)\<^sup>*\<^sup>* v1 (gap v1)" "evolves (gap v1) v2"
    and "ar_DeleteAdminSessionsForAdmin repo a v2 = (Inr (), w')" "fresh_revision a w w'"
  shows "\<exists>r. barred True a r w' \<and> (\<forall>d u. (d, a, u) \<notin> rows w')"
proof -
  from rotation_bars [OF assms(1-3)] obtain r where b: "barred False a r v1" "fresh_revision a w w' \<Longrightarrow> revs w' a = Some r \<Longrightarrow> barred True a r v1"
    by blast
  note d = delete_all [OF assms(6)]
  have go: "barred strict a r v1 \<Longrightarrow> barred strict a r w'" for strict
    using steps_barred [OF assms(4)] barred_later assms(5) d by blast
  have "revs w' a = Some r" using go [OF b(1)] by (simp add: barred_def)
  from go [OF b(2) [OF assms(7) this]] d show ?thesis by blast
qed

lemma require_totp_later: "require_totp s adm code w = (x, w') \<Longrightarrow> evolves w w'"
  using clock by (auto simp: require_totp_def totp_accepted_def split: if_splits sum.splits prod.splits)

lemma verify_later: "verifyAdminCredentials s adm pw code w = (x, w') \<Longrightarrow> evolves w w'"
  using require_totp_later by (auto simp: verifyAdminCredentials_def split: if_splits)

lemma hash_later: "Hash lib (as_random s) (Some h) pw w = (x, w') \<Longrightarrow> evolves w w'"
  using random by (auto simp: Hash_def Let_def split: if_splits sum.splits prod.splits)

lemma change_password_revokes:
  assumes "ChangePassword s gap uid cur new conf code w = (Inr (), w')" "\<And>v. (session_step s uid evolves)\<^sup>*\<^sup>* v (gap v)" "kept uid w" "fresh_revision uid w w'"
  shows "\<exists>r. barred True uid r w' \<and> (\<forall>d u. (d, uid, u) \<notin> rows w')"
proof -
  obtain adm w1 w2 hash w3 w4 w5 where p: "ar_GetAdminByID repo uid w = (Inr adm, w1)" "verifyAdminCredentials s adm cur code w1 = (Inr (), w2)"
    "Hash (as_lib s) (as_random s) (Some (as_passwords s)) new w2 = (Inr hash, w3)" "revokeAdminSessions s (adm_ID adm) w3 = (Inr (), w4)"
    "ar_UpdateAdminPassword repo (adm_ID adm) hash (gap w4) = (Inr (), w5)" "ar_DeleteAdminSessionsForAdmin repo (adm_ID adm) w5 = (Inr (), w')"
    using assms(1) by (auto simp: ChangePassword_def try_do_Inr parts split: if_splits)
  have uid: "adm_ID adm = uid" using get_admin [OF p(1)] by blast
  have "evolves w w3" using hash_later [OF p(3)] verify_later [OF p(2)] get_admin [OF p(1)] evolves_trans by blast
  from revocation [OF assms(3) this] p(4,6) set_password [OF p(5)] assms(2,4) show ?thesis unfolding uid by blast
qed

lemma change_email_revokes:
  assumes "ChangeEmail s gap uid email cur code w = (Inr pr, w')" "\<And>v. (session_step s uid evolves)\<^sup>*\<^sup>* v (gap v)" "kept uid w" "fresh_revision uid w w'"
  shows "\<exists>r. barred True uid r w' \<and> (\<forall>d u. (d, uid, u) \<notin> rows w')"
proof -
  obtain adm w1 w2 w3 w4 w5 where p: "ar_GetAdminByID repo uid w = (Inr adm, w1)" "verifyAdminCredentials s adm cur code w1 = (Inr (), w2)"
    "email_free s adm (normalizeEmail email) w2 = (Inr (), w3)" "revokeAdminSessions s (adm_ID adm) w3 = (Inr (), w4)"
    "ar_UpdateAdminEmail repo (adm_ID adm) (normalizeEmail email) (gap w4) = (Inr (), w5)" "ar_DeleteAdminSessionsForAdmin repo (adm_ID adm) w5 = (Inr (), w')"
    using assms(1) by (auto simp: ChangeEmail_def try_do_Inr on_err_Inr parts Let_def split: if_splits)
  have uid: "adm_ID adm = uid" using get_admin [OF p(1)] by blast
  have "w3 = snd (ar_GetAdminByEmail repo (normalizeEmail email) w2)"
    using p(3) by (auto simp: email_free_def parts split: prod.splits sum.splits)
  then have "evolves w w3" using by_email verify_later [OF p(2)] get_admin [OF p(1)] evolves_trans by blast
  from revocation [OF assms(3) this] p(4,6) set_email [OF p(5)] assms(2,4) show ?thesis unfolding uid by blast
qed

lemma disable_totp_revokes:
  assumes "DisableTOTP s gap uid pw code w = (Inr (), w')" "\<And>v. (session_step s uid evolves)\<^sup>*\<^sup>* v (gap v)" "kept uid w" "fresh_revision uid w w'"
  shows "\<exists>r. barred True uid r w' \<and> (\<forall>d u. (d, uid, u) \<notin> rows w')"
proof -
  obtain adm w1 w2 w4 w5 where p: "ar_GetAdminByID repo uid w = (Inr adm, w1)" "require_totp s adm code w1 = (Inr (), w2)"
    "revokeAdminSessions s (adm_ID adm) w2 = (Inr (), w4)"
    "ar_DisableTOTP repo (adm_ID adm) (gap w4) = (Inr (), w5)" "ar_DeleteAdminSessionsForAdmin repo (adm_ID adm) w5 = (Inr (), w')"
    using assms(1) by (auto simp: DisableTOTP_def try_do_Inr parts split: if_splits)
  have uid: "adm_ID adm = uid" using get_admin [OF p(1)] by blast
  have "evolves w w2" using require_totp_later [OF p(2)] get_admin [OF p(1)] evolves_trans by blast
  from revocation [OF assms(3) this] p(3,5) set_totp [OF p(4)] assms(2,4) show ?thesis unfolding uid by blast
qed

end

end
