(* ===== verification/Security_Properties.thy ===== *)
theory Security_Properties
  imports Security
begin

text \<open>
  What the security primitives guarantee, over the documented behaviour of the algorithms they use: the shape of one-time codes and the time
  in which they are accepted, passwords that verify against their own hash, sealed secrets that open, and tokens that verify.
\<close>

section \<open>One-time codes\<close>

definition decimal :: "string \<Rightarrow> bool" where
  "decimal s \<longleftrightarrow> list_all (\<lambda>c. CHR ''0'' \<le> c \<and> c \<le> CHR ''9'') s"

lemma decimal_append [simp]: "decimal (a @ b) \<longleftrightarrow> decimal a \<and> decimal b"
  by (simp add: decimal_def)

lemma decimal_digit: "d < 10 \<Longrightarrow> decimal [digit d]"
  by (auto simp: decimal_def digit_def less_eq_char_def)

lemma decimal_dec_nat [simp]: "decimal (dec_nat n)"
proof (induction n rule: dec_nat.induct)
  case (1 n)
  then show ?case by (cases "n < 10") (simp_all add: dec_nat.simps [of n] decimal_digit)
qed

lemma length_dec_nat: "n < 10 ^ k \<Longrightarrow> 0 < k \<Longrightarrow> length (dec_nat n) \<le> k"
proof (induction n arbitrary: k rule: dec_nat.induct)
  case (1 n)
  show ?case
  proof (cases "n < 10")
    case True
    then show ?thesis using 1(3) by (simp add: dec_nat.simps [of n])
  next
    case False
    obtain j where j: "k = Suc j" using 1(3) by (cases k) auto
    have "n div 10 < 10 ^ j" using 1(2) j by (simp add: less_mult_imp_div_less mult.commute)
    moreover have "0 < j" using False 1(2) j by (cases j) auto
    ultimately have "length (dec_nat (n div 10)) \<le> j" using 1(1) False by blast
    with False j show ?thesis by (simp add: dec_nat.simps [of n])
  qed
qed

lemma unat_modulus: "n \<le> 9 \<Longrightarrow> unat (modulus n) = 10 ^ n"
proof (induction n)
  case (Suc n)
  then have "(10::nat) ^ Suc n \<le> 10 ^ 9" by (intro power_increasing) auto
  with Suc show ?case by (simp add: unat_word_ariths mult.commute)
qed simp

lemma decimal_zeros: "decimal (replicate k (CHR ''0''))"
  by (simp add: decimal_def list_all_iff less_eq_char_def)

lemma totp_code_shaped:
  assumes "1 \<le> n" "n \<le> 9"
  shows "length (totpCode lib key counter n) = n" "decimal (totpCode lib key counter n)"
proof -
  let ?v = "unat (truncated (HmacSHA1 lib key (big_endian counter)) mod modulus n)"
  have "?v < 10 ^ n" using unat_modulus [OF assms(2)] by (simp add: unat_mod)
  then have "length (dec_nat ?v) \<le> n" using assms(1) by (intro length_dec_nat) auto
  then show "length (totpCode lib key counter n) = n" "decimal (totpCode lib key counter n)"
    by (simp_all add: totpCode_def zero_padded_def decimal_zeros)
qed

text \<open>A one-time code is a text of exactly the configured number of decimal digits, whatever the key and the counter: the 32-bit
  truncation is reduced by a power of ten that does not wrap for up to nine digits, and short numbers are padded.\<close>

theorem totp_code_shape:
  assumes "1 \<le> n" "n \<le> 9"
  shows "length (totpCode lib key counter n) = n \<and> list_all (\<lambda>c. CHR ''0'' \<le> c \<and> c \<le> CHR ''9'') (totpCode lib key counter n)"
  using totp_code_shaped [OF assms] by (simp add: decimal_def)

definition sample_sec :: SecLib where
  "sample_sec = \<lparr>HmacSHA256 = (\<lambda>k m. k @ m), HmacSHA1 = (\<lambda>k m. replicate 16 (CHR 0x7F) @ drop 4 m), RawURLEncoding = (\<lambda>s. s),
     RawStdEncode = (\<lambda>s. s), RawStdDecode = Some, Base32Encode = (\<lambda>s. s), Base32Decode = Some, url_PathEscape = (\<lambda>s. s), QueryEscape = (\<lambda>s. s),
     Upper = (\<lambda>s. s), Argon2IDKey = (\<lambda>pw salt t m p n. take (nat n) (pw @ salt @ replicate (nat n) (CHR ''k''))),
     ScanParams = (\<lambda>s. if s = ''m=65536,t=3,p=4'' then Some (65536, 3, 4) else None)\<rparr>"

theorem totp_code_shape_witness: "length (totpCode sample_sec ''key'' 7 6) = 6"
  using totp_code_shape [of 6 sample_sec "''key''" 7] by simp

section \<open>The time in which a code is accepted\<close>

definition standard_totp :: "TOTP \<Rightarrow> bool" where
  "standard_totp t \<longleftrightarrow> period t = 30 * Second \<and> digits t = 6 \<and> skew t = 1"

lemma NewTOTP_standard: "NewTOTP name = Inr t \<Longrightarrow> standard_totp t"
  by (auto simp: NewTOTP_def standard_totp_def split: if_splits)

lemma totp_step_standard: "standard_totp t \<Longrightarrow> 0 \<le> unix_seconds g \<Longrightarrow> totp_step t g = unix_seconds g div 30"
  by (auto simp: totp_step_def standard_totp_def go_quot_def sgn_if)

lemma Validate_steps:
  assumes "standard_totp t" "decodeTOTPSecret lib secret = Inr key"
  shows "Validate_code lib (Some t) code secret now \<longleftrightarrow>
    (\<exists>k \<in> {-1, 0, 1}. code = totpCode lib key (word_of_int (totp_step t now + k)) (digits t))"
proof -
  have u: "[- 1..1] = [- 1, 0, 1::int]" by (simp add: upto.simps)
  from assms u totp_code_shaped [of 6 lib key] show ?thesis by (auto simp: Validate_code_def standard_totp_def decimal_def)
qed

text \<open>The code an authenticator shows at a time.\<close>

definition code_at :: "SecLib \<Rightarrow> TOTP \<Rightarrow> string \<Rightarrow> time \<Rightarrow> string" where
  "code_at lib t key g = totpCode lib key (word_of_int (totp_step t g)) (digits t)"

lemma unix_seconds_shift: "unix_seconds (g + k * Second) = unix_seconds g + k"
  by (simp add: unix_seconds_def)

lemma unix_seconds_mono: "g \<le> h \<Longrightarrow> unix_seconds g \<le> unix_seconds h"
  by (simp add: unix_seconds_def zdiv_mono1)

text \<open>C30: clocks may be half a minute apart. For an authenticator set up by this server, the codes accepted at a time are exactly
  the codes such an authenticator shows at some time at most 30 seconds away from it.\<close>

theorem totp_window:
  assumes "NewTOTP name = Inr t" "decodeTOTPSecret lib secret = Inr key" "30 \<le> unix_seconds now"
  shows "Validate_code lib (Some t) code secret now \<longleftrightarrow> (\<exists>g. \<bar>now - g\<bar> \<le> 30 * Second \<and> code = code_at lib t key g)"
proof -
  note s = NewTOTP_standard [OF assms(1)]
  note v = Validate_steps [OF s assms(2)]
  have near: "\<exists>k \<in> {-1, 0, 1}. totp_step t g = totp_step t now + k" if "\<bar>now - g\<bar> \<le> 30 * Second" for g
  proof -
    have "unix_seconds g \<le> unix_seconds (now + 30 * Second)" "unix_seconds (now + (- 30) * Second) \<le> unix_seconds g"
      using that by (auto intro!: unix_seconds_mono)
    then have b: "unix_seconds g \<le> unix_seconds now + 30" "unix_seconds now - 30 \<le> unix_seconds g"
      using unix_seconds_shift [of now 30] unix_seconds_shift [of now "- 30"] by simp_all
    have "totp_step t g = unix_seconds g div 30" "totp_step t now = unix_seconds now div 30"
      using s assms(3) b by (auto intro!: totp_step_standard)
    moreover have "unix_seconds g div 30 \<le> unix_seconds now div 30 + 1" "unix_seconds now div 30 - 1 \<le> unix_seconds g div 30"
      using b by linarith+
    ultimately have "totp_step t g - totp_step t now \<in> {-1, 0, 1}" by auto
    then show ?thesis by (intro bexI [of _ "totp_step t g - totp_step t now"]) auto
  qed
  have other: "\<exists>h. \<bar>now - h\<bar> \<le> 30 * Second \<and> totp_step t h = totp_step t now + k" if "k \<in> {-1, 0, 1}" for k
  proof -
    let ?h = "now + (30 * k) * Second"
    have u: "unix_seconds ?h = unix_seconds now + 30 * k" by (rule unix_seconds_shift)
    have "0 \<le> unix_seconds ?h" "0 \<le> unix_seconds now" unfolding u using that assms(3) by auto
    note this [THEN totp_step_standard [OF s]]
    then have "totp_step t ?h = totp_step t now + k" unfolding u by simp
    moreover have "\<bar>now - ?h\<bar> \<le> 30 * Second" using that by auto
    ultimately show ?thesis by blast
  qed
  show ?thesis using near other unfolding v code_at_def by fastforce
qed

theorem totp_window_witness:
  "Validate_code sample_sec (Some \<lparr>issuer = ''g'', period = 30 * Second, digits = 6, skew = 1\<rparr>)
     (code_at sample_sec \<lparr>issuer = ''g'', period = 30 * Second, digits = 6, skew = 1\<rparr> ''secretsecretsecret'' (time_unix 1000)) ''secretsecretsecret'' (time_unix 1029)"
proof -
  have 1: "NewTOTP ''g'' = Inr \<lparr>issuer = ''g'', period = 30 * Second, digits = 6, skew = 1\<rparr>" by code_simp
  have 2: "decodeTOTPSecret sample_sec ''secretsecretsecret'' = Inr ''secretsecretsecret''" by code_simp
  have 3: "30 \<le> unix_seconds (time_unix 1029)" by code_simp
  have 4: "\<bar>time_unix 1029 - time_unix 1000\<bar> \<le> 30 * Second" by code_simp
  from totp_window [OF 1 2 3] 4 show ?thesis by blast
qed

section \<open>Passwords\<close>

text \<open>
  What the standard library documents: the base64 alphabet has no dollar sign and decoding inverts encoding, \<open>Sscanf\<close> reads back what
  the same format printed, and Argon2 returns as many bytes as asked for.
\<close>

definition password_lib :: "SecLib \<Rightarrow> bool" where
  "password_lib lib \<longleftrightarrow> (\<forall>s. RawStdDecode lib (RawStdEncode lib s) = Some s) \<and> (\<forall>s. CHR ''$'' \<notin> set (RawStdEncode lib s))
     \<and> (\<forall>m t p. 0 \<le> m \<and> m < 2 ^ 32 \<and> 0 \<le> t \<and> t < 2 ^ 32 \<and> 0 \<le> p \<and> p < 2 ^ 8 \<longrightarrow> ScanParams lib (password_params m t p) = Some (m, t, p))
     \<and> (\<forall>pw s t m p n. 0 \<le> n \<longrightarrow> int (length (Argon2IDKey lib pw s t m p n)) = n)"

definition reads_fully :: "'w random \<Rightarrow> bool" where
  "reads_fully random \<longleftrightarrow> (\<forall>n w. case fst (random n w) of Inl e \<Rightarrow> True | Inr bs \<Rightarrow> length bs = n)"

lemma reads_fullyD: "reads_fully random \<Longrightarrow> random n w = (Inr bs, w') \<Longrightarrow> length bs = n"
  unfolding reads_fully_def by (drule spec [of _ n], drule spec [of _ w]) simp

lemma Split_sep: "c \<notin> set s \<Longrightarrow> Split (s @ c # r) c = s # Split r c"
  by (induction s) auto

lemma Split_last: "c \<notin> set s \<Longrightarrow> Split s c = [s]"
  by (induction s) auto

lemma no_dollar_dec: "CHR ''$'' \<notin> set (dec_nat n)"
proof
  assume "CHR ''$'' \<in> set (dec_nat n)"
  with decimal_dec_nat [of n] have "CHR ''0'' \<le> CHR ''$''" unfolding decimal_def list_all_iff by blast
  then show False by (simp add: less_eq_char_def)
qed

lemma no_dollar_params: "0 \<le> m \<Longrightarrow> 0 \<le> t \<Longrightarrow> 0 \<le> p \<Longrightarrow> CHR ''$'' \<notin> set (password_params m t p)"
  by (simp add: password_params_def FormatInt_def no_dollar_dec)

lemma parse_printed:
  assumes "password_lib lib" "0 \<le> m" "0 \<le> t" "0 \<le> p" "m < 2 ^ 32" "t < 2 ^ 32" "p < 2 ^ 8"
    and "validateArgon2Params \<lparr>Memory = m, Iterations = t, Parallelism = p, SaltLength = int (length salt), KeyLength = int (length key)\<rparr> = None"
  shows "parseArgon2Hash lib (''$argon2id$v=19$'' @ password_params m t p @ ''$'' @ RawStdEncode lib salt @ ''$'' @ RawStdEncode lib key)
    = Inr (\<lparr>Memory = m, Iterations = t, Parallelism = p, SaltLength = int (length salt), KeyLength = int (length key)\<rparr>, salt, key)"
proof -
  have enc: "CHR ''$'' \<notin> set (RawStdEncode lib x)" for x using assms(1) by (simp add: password_lib_def)
  have "Split (''$argon2id$v=19$'' @ password_params m t p @ ''$'' @ RawStdEncode lib salt @ ''$'' @ RawStdEncode lib key) (CHR ''$'')
      = ['''', ''argon2id'', ''v=19'', password_params m t p, RawStdEncode lib salt, RawStdEncode lib key]"
    using Split_sep [OF no_dollar_params [OF assms(2-4)]] Split_sep [OF enc [of salt]] Split_last [OF enc [of key]] by simp
  then show ?thesis using assms by (simp add: parseArgon2Hash_def password_lib_def)
qed

text \<open>C31: a password verifies against its own hash. With a hasher whose parameters the constructor accepted, whatever salt is drawn, the stored
  text parses back into the parameters, the salt and the key that were used, and the same password is accepted.\<close>

theorem password_roundtrip:
  assumes "password_lib lib" "reads_fully random" "NewPasswordHasher params = Inr h" "Hash lib random (Some h) password w = (Inr encoded, w')"
  shows "verify_password lib password encoded = Inr True
    \<and> (\<exists>salt key. parseArgon2Hash lib encoded = Inr (h, salt, key) \<and> int (length salt) = SaltLength h \<and> int (length key) = KeyLength h)"
proof -
  have h: "validateArgon2Params h = None" using assms(3) by (auto simp: NewPasswordHasher_def split: option.splits)
  then have b: "0 \<le> Memory h" "0 \<le> Iterations h" "0 \<le> Parallelism h" "Memory h < 2 ^ 32" "Iterations h < 2 ^ 32" "Parallelism h < 2 ^ 8"
    "0 \<le> SaltLength h" "0 \<le> KeyLength h"
    by (auto simp: validateArgon2Params_def split: if_splits)
  obtain salt where salt: "random (nat (SaltLength h)) w = (Inr salt, w')"
    and enc: "encoded = ''$argon2id$v=19$'' @ password_params (Memory h) (Iterations h) (Parallelism h) @ ''$'' @ RawStdEncode lib salt
      @ ''$'' @ RawStdEncode lib (Argon2IDKey lib password salt (Iterations h) (Memory h) (Parallelism h) (KeyLength h))"
    using assms(4) by (auto simp: Hash_def Let_def split: if_splits prod.splits sum.splits)
  let ?key = "Argon2IDKey lib password salt (Iterations h) (Memory h) (Parallelism h) (KeyLength h)"
  have len: "int (length salt) = SaltLength h" "int (length ?key) = KeyLength h"
    using reads_fullyD [OF assms(2) salt] assms(1) b by (simp_all add: password_lib_def)
  have "\<lparr>Memory = Memory h, Iterations = Iterations h, Parallelism = Parallelism h, SaltLength = int (length salt), KeyLength = int (length ?key)\<rparr> = h"
    unfolding len by simp
  with parse_printed [OF assms(1) b(1-6), of salt ?key] h have "parseArgon2Hash lib encoded = Inr (h, salt, ?key)"
    unfolding enc by metis
  with len show ?thesis by (simp add: verify_password_def)
qed

text \<open>Codecs that follow the documentation, for a concrete run.\<close>

definition hex_value :: "char \<Rightarrow> nat" where
  "hex_value c = (if c \<le> CHR ''9'' then of_char c - 48 else of_char c - 87)"

fun unhex :: "string \<Rightarrow> string option" where
  "unhex [] = Some []"
| "unhex [c] = None"
| "unhex (a # b # s) = map_option (\<lambda>r. char_of (16 * hex_value a + hex_value b) # r) (unhex s)"

lemma hex_digits: "d < 16 \<Longrightarrow> hex_value (hex_digit d) = d \<and> hex_digit d \<noteq> CHR ''$''"
proof -
  assume "d < 16"
  moreover have "\<forall>d \<in> set [0..<16]. hex_value (hex_digit d) = d \<and> hex_digit d \<noteq> CHR ''$''" by code_simp
  ultimately show ?thesis by simp
qed

lemma unhex_encode: "unhex (EncodeToString s) = Some s" "CHR ''$'' \<notin> set (EncodeToString s)"
proof (induction s)
  case (Cons c s)
  have c: "of_char c div (16::nat) < 16" by (simp add: less_mult_imp_div_less)
  { case 1
    then show ?case using Cons(1) hex_digits [OF c] hex_digits [of "of_char c mod 16"] by (simp add: EncodeToString_def hex_byte_def)
  next
    case 2
    then show ?case using Cons(2) hex_digits [OF c] hex_digits [of "of_char c mod 16"] by (auto simp: EncodeToString_def hex_byte_def)
  }
qed (simp_all add: EncodeToString_def)

definition hex_sec :: SecLib where
  "hex_sec = sample_sec\<lparr>RawStdEncode := EncodeToString, RawStdDecode := unhex,
     Argon2IDKey := (\<lambda>pw salt t m p n. replicate (nat n) (CHR ''k'')),
     ScanParams := (\<lambda>s. case Split s (CHR '','') of
        [m, t, p] \<Rightarrow> (case (ParseInt (drop 2 m), ParseInt (drop 2 t), ParseInt (drop 2 p)) of
                       (Some m, Some t, Some p) \<Rightarrow> Some (m, t, p) | _ \<Rightarrow> None)
      | _ \<Rightarrow> None)\<rparr>"

lemma decimal_no_comma: "0 \<le> v \<Longrightarrow> CHR '','' \<notin> set (FormatInt v)"
  using decimal_dec_nat [of "nat v"] by (auto simp: FormatInt_def decimal_def list_all_iff less_eq_char_def)

lemma hex_sec_ok: "password_lib hex_sec"
proof -
  have "ScanParams hex_sec (password_params m t p) = Some (m, t, p)"
    if "0 \<le> m" "m < 2 ^ 32" "0 \<le> t" "t < 2 ^ 32" "0 \<le> p" "p < 2 ^ 8" for m t p
    using that Split_sep [OF decimal_no_comma [OF that(1)]] Split_sep [OF decimal_no_comma [OF that(3)]] Split_last [OF decimal_no_comma [OF that(5)]]
    by (simp add: hex_sec_def password_params_def ParseInt_FormatInt)
  then show ?thesis by (simp add: password_lib_def) (simp add: hex_sec_def unhex_encode)
qed

theorem password_roundtrip_witness:
  "verify_password hex_sec ''correct horse'' (projr (fst (Hash hex_sec (\<lambda>n w. (Inr (replicate n (CHR ''s'')), w))
     (Some (DefaultArgon2Params 8)) ''correct horse'' ()))) = Inr True"
proof -
  let ?random = "\<lambda>n w. (Inr (replicate n (CHR ''s'')), w) :: (error + string) \<times> unit"
  have 1: "reads_fully ?random" by (simp add: reads_fully_def)
  have 2: "NewPasswordHasher (DefaultArgon2Params 8) = Inr (DefaultArgon2Params 8)" by code_simp
  obtain encoded where 3: "Hash hex_sec ?random (Some (DefaultArgon2Params 8)) ''correct horse'' () = (Inr encoded, ())" by (simp add: Hash_def)
  from password_roundtrip [OF hex_sec_ok 1 2 3] 3 show ?thesis by simp
qed

section \<open>Tokens and sealed secrets\<close>

text \<open>A generated token verifies against its own digest, and only ten characters of its random part are ever shown.\<close>

lemma token_verifies:
  assumes "Generate lib random (Some pepper) pfx n w = (Inr t, w')" "HmacSHA256 lib pepper (Plaintext t) \<noteq> ''''"
  shows "tok_verify lib (Some pepper) (Plaintext t) (tok_Digest t) \<and> length (tok_Prefix t) \<le> length pfx + 10
    \<and> tok_Prefix t = take (length pfx + 10) (Plaintext t)"
  using assms by (auto simp: Generate_def tok_verify_def tok_digest_def Let_def split: if_splits prod.splits sum.splits)

text \<open>What was sealed opens again under the same additional data.\<close>

lemma seal_open:
  assumes "\<And>nonce p ad. length nonce = NonceSize a \<Longrightarrow> aead_Open a nonce (aead_Seal a nonce p ad) ad = Some p"
    and "\<And>nonce p ad. length (aead_Seal a nonce p ad) = length p + Overhead a" and "reads_fully random"
    and "Seal random (Some a) p ad w = (Inr c, w')"
  shows "Open (Some a) c ad = Inr p"
proof -
  obtain nonce where "random (NonceSize a) w = (Inr nonce, w')" "c = CHR 0x01 # nonce @ aead_Seal a nonce p ad"
    using assms(4) by (auto simp: Seal_def Let_def split: prod.splits sum.splits)
  with assms(1,2) reads_fullyD [OF assms(3)] show ?thesis by (simp add: Open_def)
qed

end
