(* ===== verification/Admin_Backend.thy ===== *)
theory Admin_Backend
  imports Admin_Sessions Security_Properties
begin

text \<open>
  The backend of the deployed service: the repository on PostgreSQL and the shared state on Redis, in one program state, as an instance of the
  interface \<open>session_view\<close>. The Redis server is any that follows the documentation (\<open>redis_server\<close>); the small Redis is one.
\<close>

record 'r auth_world = AdminTables +
  aw_redis :: 'r
  aw_draws :: nat

definition session_rows :: "'z AdminTables_scheme \<Rightarrow> (string \<times> string \<times> time) set" where
  "session_rows w = (\<lambda>x. (TokenDigest x, AdminID x, ses_CreatedAt x)) ` set (tb_sessions w)"

text \<open>What reading a clock, drawing bytes or waiting for the network does: at most time passes.\<close>

definition untouched :: "'r auth_world \<Rightarrow> 'r auth_world \<Rightarrow> bool" where
  "untouched w w' \<longleftrightarrow> tb_admins w' = tb_admins w \<and> tb_sessions w' = tb_sessions w \<and> aw_redis w' = aw_redis w \<and> tb_now w \<le> tb_now w'"

lemma untouched_refl [simp]: "untouched w w"
  by (simp add: untouched_def)

text \<open>The client of the program state.\<close>

definition auth_client :: "'r RedisServer \<Rightarrow> string \<Rightarrow> 'r auth_world AuthClient" where
  "auth_client srv pfx = database_client aw_redis (\<lambda>r w. w\<lparr>aw_redis := r\<rparr>) \<lparr>client = Some srv, prefix = pfx\<rparr>"

text \<open>What is stored for a token digest and for an administrator.\<close>

definition stored_session :: "('r \<Rightarrow> string \<rightharpoonup> string) \<Rightarrow> SessionCodec \<Rightarrow> string \<Rightarrow> 'r auth_world \<Rightarrow> string \<Rightarrow> CachedSession option" where
  "stored_session str codec pfx w d =
     (case str (aw_redis w) (pfx @ sessionKey d) of
        None \<Rightarrow> None
      | Some encoded \<Rightarrow> (case check_cached d (DecodeCached codec encoded) of Inl _ \<Rightarrow> None | Inr c \<Rightarrow> Some c))"

definition stored_revision :: "('r \<Rightarrow> string \<rightharpoonup> string) \<Rightarrow> 'r auth_world RedisAuthState \<Rightarrow> string \<Rightarrow> 'r auth_world \<Rightarrow> string \<Rightarrow> SessionRevision option" where
  "stored_revision str ra pfx w a =
     (case str (aw_redis w) (pfx @ revisionKey ra a) of
        None \<Rightarrow> None
      | Some encoded \<Rightarrow> (case decodeSessionRevision (ras_codec ra) encoded of Inl _ \<Rightarrow> None | Inr r \<Rightarrow> Some r))"

lemma session_key_neq [simp]:
  "sessionKey d \<noteq> revisionKey ra a" "revisionKey ra a \<noteq> sessionKey d" "sessionKey d \<noteq> revokedSessionKey e" "revokedSessionKey e \<noteq> sessionKey d"
  "revisionKey ra a \<noteq> revokedSessionKey e" "revokedSessionKey e \<noteq> revisionKey ra a"
  by (simp_all add: sessionKey_def revisionKey_def revokedSessionKey_def)

lemma EncodeToString_inj: "EncodeToString a = EncodeToString b \<Longrightarrow> a = b"
  by (metis option.inject unhex_encode(1))

lemma sessionKey_inj [simp]: "sessionKey d = sessionKey e \<longleftrightarrow> d = e"
  by (auto simp: sessionKey_def dest: EncodeToString_inj)

section \<open>The Redis state\<close>

locale redis_sessions = redis_server srv clk str zs
  for srv :: "'r RedisServer" and clk str zs +
  fixes pfx :: string and ra :: "'r auth_world RedisAuthState"
  assumes client: "ras_redis ra = auth_client srv pfx"
    and quiet: "transport srv r = (e, r') \<Longrightarrow> r' = r"
    and codec: "DecodeCached (ras_codec ra) (EncodeCached (ras_codec ra) c) = Some c"
      "DecodeRevision (ras_codec ra) (EncodeRevision (ras_codec ra) rv) = Some rv"
    and reads_clock: "ras_now ra w = (t, w') \<Longrightarrow> untouched w w'"
    and draws_random: "ras_random ra n w = (x, w') \<Longrightarrow> untouched w w'"
begin

abbreviation "cached_at \<equiv> stored_session str (ras_codec ra) pfx"
abbreviation "revision_at \<equiv> stored_revision str ra pfx"

text \<open>A later state with the same sessions and the same strings.\<close>

definition same :: "'r auth_world \<Rightarrow> 'r auth_world \<Rightarrow> bool" where
  "same w w' \<longleftrightarrow> tb_sessions w' = tb_sessions w \<and> str (aw_redis w') = str (aw_redis w) \<and> tb_now w \<le> tb_now w'"

lemma same_views: "same w w' \<Longrightarrow> cached_at w' = cached_at w \<and> revision_at w' = revision_at w \<and> session_rows w' = session_rows w"
  by (auto simp: same_def stored_session_def stored_revision_def session_rows_def fun_eq_iff)

lemma same_later: "same w w' \<Longrightarrow> later session_rows cached_at revision_at tb_now w w'"
  using same_views by (simp add: later_def) (simp add: same_def)

lemma same_trans: "same w w' \<Longrightarrow> same w' w'' \<Longrightarrow> same w w''" and same_refl [simp]: "same w w"
  by (auto simp: same_def)

lemma get_string:
  assumes "ac_Get (ras_redis ra) k w = (x, w')"
  shows "same w w'" "x = Inr v \<Longrightarrow> str (aw_redis w) (pfx @ k) = Some v"
proof -
  obtain e r where t: "transport srv (aw_redis w) = (e, r)" by (rule prod.exhaust)
  then have r: "r = aw_redis w" by (rule quiet)
  show "same w w'" "x = Inr v \<Longrightarrow> str (aw_redis w) (pfx @ k) = Some v"
    using assms t r
    by (auto simp: client auth_client_def database_client_def lift_state_def Get_def with_client_def round_trip_def Key_def get Let_def same_def
        split: prod.splits option.splits)
qed

lemma set_string:
  assumes "ac_Set (ras_redis ra) k v ttl w = (x, w')"
  shows "tb_sessions w' = tb_sessions w \<and> tb_now w' = tb_now w"
    "str (aw_redis w') = str (aw_redis w) \<and> x \<noteq> Inr () \<or> str (aw_redis w') = (str (aw_redis w))(pfx @ k \<mapsto> v) \<and> x = Inr ()"
proof -
  have pos: "0 < expiry_ms ttl" if "0 < ttl"
  proof (cases "ttl < 1000000")
    case False
    then show ?thesis using that zdiv_mono1 [of 1000000 ttl 1000000] by (simp add: expiry_ms_def milliseconds_def)
  qed (use that in \<open>simp add: expiry_ms_def\<close>)
  obtain e r where t: "transport srv (aw_redis w) = (e, r)" by (rule prod.exhaust)
  then have r: "r = aw_redis w" by (rule quiet)
  show "tb_sessions w' = tb_sessions w \<and> tb_now w' = tb_now w"
    using assms by (auto simp: client auth_client_def database_client_def lift_state_def split: prod.splits)
  show "str (aw_redis w') = str (aw_redis w) \<and> x \<noteq> Inr () \<or> str (aw_redis w') = (str (aw_redis w))(pfx @ k \<mapsto> v) \<and> x = Inr ()"
    using assms t r set setpx pos
    by (auto simp: client auth_client_def database_client_def lift_state_def Set_def with_client_def round_trip_def Key_def Let_def
        split: prod.splits option.splits if_splits)
qed

lemma setnx_string:
  assumes "ac_SetNX (ras_redis ra) k v 0 w = (x, w')"
  shows "tb_sessions w' = tb_sessions w \<and> tb_now w' = tb_now w" "str (aw_redis w) (pfx @ k) = Some v' \<Longrightarrow> str (aw_redis w') = str (aw_redis w) \<and> x \<noteq> Inr True"
    "str (aw_redis w') = str (aw_redis w) \<or> str (aw_redis w') = (str (aw_redis w))(pfx @ k \<mapsto> v)"
proof -
  obtain e r where t: "transport srv (aw_redis w) = (e, r)" by (rule prod.exhaust)
  then have r: "r = aw_redis w" by (rule quiet)
  obtain b r1 where n: "cmd_SETNX srv (pfx @ k) v 0 (aw_redis w) = (b, r1)" by (rule prod.exhaust)
  have z: "expiry_ms 0 = 0" by (simp add: expiry_ms_def milliseconds_def)
  have "(tb_sessions w' = tb_sessions w \<and> tb_now w' = tb_now w) \<and> (str (aw_redis w) (pfx @ k) = Some v' \<longrightarrow> str (aw_redis w') = str (aw_redis w) \<and> x \<noteq> Inr True)
      \<and> (str (aw_redis w') = str (aw_redis w) \<or> str (aw_redis w') = (str (aw_redis w))(pfx @ k \<mapsto> v))"
    using assms t r n z setnx [OF _ n]
    by (auto simp: client auth_client_def database_client_def lift_state_def SetNX_def with_client_def round_trip_def Key_def Let_def
        split: prod.splits option.splits if_splits)
  then show "tb_sessions w' = tb_sessions w \<and> tb_now w' = tb_now w" "str (aw_redis w) (pfx @ k) = Some v' \<Longrightarrow> str (aw_redis w') = str (aw_redis w) \<and> x \<noteq> Inr True"
    "str (aw_redis w') = str (aw_redis w) \<or> str (aw_redis w') = (str (aw_redis w))(pfx @ k \<mapsto> v)" by auto
qed

lemma delete_string:
  assumes "ac_Delete (ras_redis ra) [k] w = (x, w')"
  shows "tb_sessions w' = tb_sessions w \<and> tb_now w' = tb_now w"
    "str (aw_redis w') = str (aw_redis w) \<or> str (aw_redis w') = (str (aw_redis w))(pfx @ k := None)"
proof -
  obtain e r where t: "transport srv (aw_redis w) = (e, r)" by (rule prod.exhaust)
  then have r: "r = aw_redis w" by (rule quiet)
  show "tb_sessions w' = tb_sessions w \<and> tb_now w' = tb_now w"
    using assms by (auto simp: client auth_client_def database_client_def lift_state_def split: prod.splits)
  show "str (aw_redis w') = str (aw_redis w) \<or> str (aw_redis w') = (str (aw_redis w))(pfx @ k := None)"
    using assms t r
    by (auto simp: client auth_client_def database_client_def lift_state_def Delete_def with_client_def round_trip_def Key_def Let_def del(1)
        split: prod.splits option.splits)
qed

lemma ready_state: "state_ready ra w = (x, w') \<Longrightarrow> w' = w"
  by (auto simp: state_ready_def split: if_splits)

lemma new_revision:
  assumes "newRevision ra t w = (x, w')"
  shows "same w w'" "x = Inr (r, encoded) \<Longrightarrow> encoded = EncodeRevision (ras_codec ra) r \<and> rev_Value r \<noteq> ''''"
  using assms draws_random
  by (auto simp: newRevision_def Generate_def Let_def same_def untouched_def try_do_def split: if_splits sum.splits prod.splits)

lemma decode_encoded: "rev_Value r \<noteq> '''' \<Longrightarrow> decodeSessionRevision (ras_codec ra) (EncodeRevision (ras_codec ra) r) = Inr r"
  by (simp add: decodeSessionRevision_def codec)

lemma later_I:
  "tb_sessions w' = tb_sessions w \<Longrightarrow> tb_now w \<le> tb_now w' \<Longrightarrow> (\<And>d. str (aw_redis w') (pfx @ sessionKey d) = str (aw_redis w) (pfx @ sessionKey d)
      \<or> str (aw_redis w') (pfx @ sessionKey d) = None) \<Longrightarrow>
    (\<And>a. str (aw_redis w) (pfx @ revisionKey ra a) = None \<or> str (aw_redis w') (pfx @ revisionKey ra a) = str (aw_redis w) (pfx @ revisionKey ra a)) \<Longrightarrow>
    later session_rows cached_at revision_at tb_now w w'"
  unfolding later_def session_rows_def stored_session_def stored_revision_def map_le_def
  by (auto, (metis (mono_tags, lifting) option.simps(4) option.distinct(1))+)

abbreviation "state_later \<equiv> later session_rows cached_at revision_at tb_now"

lemma state_later_trans: "state_later w w' \<Longrightarrow> state_later w' w'' \<Longrightarrow> state_later w w''"
  by (auto simp: later_def intro: map_le_trans)

lemma load_session:
  assumes "LoadSession ra d w = (x, w')"
  shows "state_later w w' \<and> (\<forall>c. x = Inr c \<longrightarrow> cached_at w d = Some c)"
proof -
  obtain g w1 where g: "ac_Get (ras_redis ra) (revokedSessionKey d) w = (g, w1)" by (rule prod.exhaust)
  obtain h w2 where h: "ac_Get (ras_redis ra) (sessionKey d) w1 = (h, w2)" by (rule prod.exhaust)
  note s1 = get_string(1) [OF g] and s2 = get_string(1) [OF h]
  have l1: "state_later w w1" and l2: "state_later w w2" using same_later [OF s1] same_later [OF same_trans [OF s1 s2]] by auto
  have "\<forall>v. h = Inr v \<longrightarrow> str (aw_redis w) (pfx @ sessionKey d) = Some v" using get_string(2) [OF h] s1 by (auto simp: same_def)
  with assms g h l1 l2 same_later [OF same_refl, of w] show ?thesis
    by (auto simp: LoadSession_def try_do_def state_ready_def stored_session_def split: if_splits sum.splits)
qed

lemma save_session:
  assumes "SaveSession ra ses r w = (x, w')"
  shows "session_rows w' \<subseteq> session_rows w \<and> revision_at w \<subseteq>\<^sub>m revision_at w' \<and>
    (cached_at w' \<subseteq>\<^sub>m cached_at w \<or> cached_at w' \<subseteq>\<^sub>m (cached_at w)(TokenDigest ses \<mapsto> \<lparr>cs_Session = Some ses, cs_Revision = r\<rparr>))"
proof -
  let ?c = "\<lparr>cs_Session = Some ses, cs_Revision = r\<rparr>"
  have keep: ?thesis if "same w w'" using same_views [OF that] by simp
  obtain t w1 where n: "ras_now ra w = (t, w1)" by (rule prod.exhaust)
  have s1: "same w w1" using reads_clock [OF n] by (simp add: same_def untouched_def)
  show ?thesis
  proof (cases "w' = w \<or> w' = w1")
    case True
    with keep s1 show ?thesis by auto
  next
    case False
    let ?ttl = "time_sub (ses_ExpiresAt ses) t"
    from False assms n have set: "ac_Set (ras_redis ra) (sessionKey (TokenDigest ses)) (EncodeCached (ras_codec ra) ?c) ?ttl w1 = (x, w')"
      and ne: "TokenDigest ses \<noteq> ''''"
      by (auto simp: SaveSession_def try_do_def state_ready_def Let_def split: if_splits)
    note st = set_string [OF set]
    show ?thesis
    proof (cases "str (aw_redis w') = str (aw_redis w1)")
      case True
      with keep s1 st(1) show ?thesis by (simp add: same_def)
    next
      case False
      with st s1 have upd: "str (aw_redis w') = (str (aw_redis w))(pfx @ sessionKey (TokenDigest ses) \<mapsto> EncodeCached (ras_codec ra) ?c)"
        and tb: "tb_sessions w' = tb_sessions w" by (auto simp: same_def)
      have cc: "c = ?c" if "check_cached (TokenDigest ses) (Some ?c) = Inr c" for c
        using that by (auto simp: check_cached_def split: if_splits)
      have "cached_at w' \<subseteq>\<^sub>m (cached_at w)(TokenDigest ses \<mapsto> ?c)"
        by (auto simp: map_le_def stored_session_def upd codec(1) dest!: cc split: sum.splits if_splits)
      with upd tb show ?thesis by (simp add: session_rows_def map_le_def stored_revision_def)
    qed
  qed
qed

lemma revoke_session:
  assumes "RevokeSession ra d w = (x, w')"
  shows "state_later w w'"
proof -
  obtain u w1 where u: "ac_Set (ras_redis ra) (revokedSessionKey d) ''1'' (ras_sessionTTL ra) w = (u, w1)" by (rule prod.exhaust)
  obtain v w2 where v: "ac_Delete (ras_redis ra) [sessionKey d] w1 = (v, w2)" by (rule prod.exhaust)
  have l1: "state_later w w1" by (rule later_I) (use set_string [OF u] in auto)
  have l2: "state_later w1 w2" by (rule later_I) (use delete_string [OF v] in \<open>auto split: if_splits\<close>)
  from assms u v l1 state_later_trans [OF l1 l2] same_later [OF same_refl, of w] show ?thesis
    by (auto simp: RevokeSession_def try_do_def state_ready_def split: if_splits sum.splits)
qed

lemma revision_string: "revision_at w a = (case str (aw_redis w) (pfx @ revisionKey ra a) of None \<Rightarrow> None
    | Some v \<Rightarrow> (case decodeSessionRevision (ras_codec ra) v of Inl _ \<Rightarrow> None | Inr r \<Rightarrow> Some r))"
  by (rule stored_revision_def)

lemma read_revision:
  assumes "ac_Get (ras_redis ra) (revisionKey ra a) w = (Inr v, w')" "decodeSessionRevision (ras_codec ra) v = Inr r"
  shows "revision_at w a = Some r"
  using get_string(2) [OF assms(1) refl] assms(2) by (simp add: revision_string)

lemma create_revision:
  assumes "newRevision ra t w = (Inr (r, encoded), w1)" "ac_SetNX (ras_redis ra) (revisionKey ra a) encoded 0 w1 = (x, w2)"
  shows "state_later w w2 \<and> (x = Inr True \<longrightarrow> revision_at w a = None)"
proof -
  note s1 = new_revision(1) [OF assms(1)]
  note st = setnx_string [OF assms(2)]
  have "str (aw_redis w2) = str (aw_redis w1) \<or>
      str (aw_redis w1) (pfx @ revisionKey ra a) = None \<and> str (aw_redis w2) = (str (aw_redis w1))(pfx @ revisionKey ra a \<mapsto> encoded)"
    using st(2,3) by (cases "str (aw_redis w1) (pfx @ revisionKey ra a)") auto
  then have "state_later w1 w2" by (intro later_I) (use st(1) in \<open>auto split: if_splits\<close>)
  with state_later_trans [OF same_later [OF s1]] have "state_later w w2" by blast
  moreover have "x = Inr True \<longrightarrow> str (aw_redis w1) (pfx @ revisionKey ra a) = None"
    using st(2) by (cases "str (aw_redis w1) (pfx @ revisionKey ra a)") auto
  ultimately show ?thesis using s1 by (simp add: same_def revision_string)
qed

text \<open>The tombstone of a revoked session.\<close>

lemma revoke_tombstone:
  assumes "RevokeSession ra d w = (Inr (), w')" "d \<noteq> ''''"
  shows "str (aw_redis w') (pfx @ revokedSessionKey d) = Some ''1''"
proof -
  obtain w1 where u: "ac_Set (ras_redis ra) (revokedSessionKey d) ''1'' (ras_sessionTTL ra) w = (Inr (), w1)"
    and v: "w' = snd (ac_Delete (ras_redis ra) [sessionKey d] w1)"
    using assms by (auto simp: RevokeSession_def try_do_Inr state_ready_def split: if_splits)
  obtain y where "ac_Delete (ras_redis ra) [sessionKey d] w1 = (y, w')" using v by (cases "ac_Delete (ras_redis ra) [sessionKey d] w1") auto
  from delete_string(2) [OF this] set_string(2) [OF u] show ?thesis by auto
qed

lemma tombstone_read:
  assumes "str (aw_redis w) (pfx @ revokedSessionKey d) = Some v" "d \<noteq> ''''"
    and "\<And>r e r'. transport srv r = (Some e, r') \<Longrightarrow> \<not> errors_is e ErrCacheMiss \<and> \<not> errors_is e ErrSessionCacheMiss"
    and "LoadSession ra d w = (x, w')"
  shows "\<exists>e. x = Inl e \<and> \<not> errors_is e ErrSessionCacheMiss"
proof -
  obtain e r where t: "transport srv (aw_redis w) = (e, r)" by (rule prod.exhaust)
  then have r: "r = aw_redis w" by (rule quiet)
  have "\<exists>y. ac_Get (ras_redis ra) (revokedSessionKey d) w = (y, w\<lparr>aw_redis := r\<rparr>) \<and>
      (y = Inr v \<or> (\<exists>e. y = Inl e \<and> \<not> errors_is e ErrCacheMiss \<and> \<not> errors_is e ErrSessionCacheMiss))"
    using t r assms(1,3)
    by (cases e) (auto simp: client auth_client_def database_client_def lift_state_def Get_def with_client_def round_trip_def Key_def get Let_def ErrSessionCacheMiss_def)
  with assms(2,4) show ?thesis
    by (auto simp: LoadSession_def try_do_def state_ready_def ErrSessionRevoked_def ErrSessionCacheMiss_def split: if_splits)
qed

lemma current_revision:
  assumes "CurrentSessionRevision ra a w = (y, w')"
  shows "state_later w w' \<and> (\<forall>r r'. y = Inr r \<longrightarrow> revision_at w a = Some r' \<longrightarrow> r = r')"
proof -
  obtain g w1 where g: "ac_Get (ras_redis ra) (revisionKey ra a) w = (g, w1)" by (rule prod.exhaust)
  obtain nr w2 where nr: "newRevision ra 0 w1 = (nr, w2)" by (rule prod.exhaust)
  note s1 = get_string(1) [OF g] and s2 = new_revision(1) [OF nr]
  note l1 = same_later [OF s1] and l2 = same_later [OF same_trans [OF s1 s2]]
  note l0 = same_later [OF same_refl, of w]
  show ?thesis
  proof (cases g)
    case (Inr v)
    with assms g l0 l1 read_revision [of a w v w1] show ?thesis
      by (auto simp: CurrentSessionRevision_def try_do_def state_ready_def split: if_splits sum.splits)
  next
    case (Inl e)
    show ?thesis
    proof (cases nr)
      case (Inl f)
      with assms g \<open>g = Inl e\<close> nr l0 l1 l2 show ?thesis
        by (auto simp: CurrentSessionRevision_def try_do_def state_ready_def split: if_splits)
    next
      case (Inr q)
      obtain r0 encoded where q: "q = (r0, encoded)" by (rule prod.exhaust)
      obtain x w3 where x: "ac_SetNX (ras_redis ra) (revisionKey ra a) encoded 0 w2 = (x, w3)" by (rule prod.exhaust)
      note c = create_revision [OF nr [unfolded Inr q] x]
      note l3 = state_later_trans [OF l1 conjunct1 [OF c]]
      obtain h w4 where h: "ac_Get (ras_redis ra) (revisionKey ra a) w3 = (h, w4)" by (rule prod.exhaust)
      note l4 = state_later_trans [OF l3 same_later [OF get_string(1) [OF h]]]
      have r1: "revision_at w1 a = revision_at w a" using same_views [OF s1] by simp
      have final: "revision_at w3 a = Some r'" if "revision_at w a = Some r'" for r'
        using l3 that unfolding later_def map_le_def by (metis domI)
      have "y = Inr r \<Longrightarrow> revision_at w a = Some r' \<Longrightarrow> r = r'" for r r'
        using assms g \<open>g = Inl e\<close> nr Inr q x h c r1 final [of r'] read_revision [of a w3 _ w4]
        by (fastforce simp: CurrentSessionRevision_def try_do_def state_ready_def split: if_splits sum.splits)
      moreover have "state_later w w'"
        using assms g \<open>g = Inl e\<close> nr Inr q x h l0 l1 l2 l3 l4
        by (auto simp: CurrentSessionRevision_def try_do_def state_ready_def split: if_splits sum.splits)
      ultimately show ?thesis by blast
    qed
  qed
qed

lemma rotate_revision:
  assumes "RotateSessionRevision ra a t w = (Inr (), w')"
  shows "session_rows w' \<subseteq> session_rows w \<and> cached_at w' \<subseteq>\<^sub>m cached_at w \<and> (\<exists>r. revision_at w' a = Some r \<and> NotBefore r = t)"
proof -
  obtain r encoded w1 where n: "newRevision ra t w = (Inr (r, encoded), w1)"
    and set: "ac_Set (ras_redis ra) (revisionKey ra a) encoded 0 w1 = (Inr (), w')"
    using assms by (auto simp: RotateSessionRevision_def try_do_Inr state_ready_def split: if_splits)
  note s1 = new_revision [OF n]
  have e: "encoded = EncodeRevision (ras_codec ra) r" "rev_Value r \<noteq> ''''" using s1(2) by auto
  have t: "NotBefore r = t" using n by (auto simp: newRevision_def try_do_Inr Let_def)
  have st: "tb_sessions w' = tb_sessions w1" "str (aw_redis w') = (str (aw_redis w1))(pfx @ revisionKey ra a \<mapsto> encoded)"
    using set_string [OF set] by auto
  show ?thesis
    using s1(1) st decode_encoded [OF e(2)] t by (auto simp: same_def session_rows_def stored_session_def revision_string e(1) map_le_def)
qed

end

section \<open>The repository\<close>

text \<open>A connection that fails leaves the tables alone; the statement was not run.\<close>

locale admin_backend = redis_sessions srv clk str zs pfx ra
  for srv :: "'r RedisServer" and clk str zs pfx ra +
  fixes pg :: "('r, unit) auth_world_ext Postgres"
  assumes quiet_db: "pg_fault pg w = (e, w') \<Longrightarrow> untouched w w'"
    and db_random: "pg_random pg n w = (x, w') \<Longrightarrow> untouched w w'"
begin

lemma trip:
  assumes "db_trip pg f w = (x, w')"
  obtains e where "same w w'" "x = Inl e" | v where "same w v" "f v = (x, w')"
proof -
  obtain e v where e: "pg_fault pg w = (e, v)" by (rule prod.exhaust)
  have "same w v" using quiet_db [OF e] by (simp add: same_def untouched_def)
  then show thesis using assms e that by (cases e) (auto simp: db_trip_def)
qed

lemma find_row_Inr: "find_row P rows = Inr r \<Longrightarrow> r \<in> set rows \<and> P r"
  by (auto simp: find_row_def find_Some_iff split: option.splits)

lemma untouched_same: "untouched w w' \<Longrightarrow> same w w'"
  by (simp add: same_def untouched_def)

lemma update_same: "update_admin pg uid f w = (x, w') \<Longrightarrow> same w w'"
  unfolding update_admin_def by (erule trip) (auto simp: same_def split: if_splits)

lemma filtered_later: "same w v \<Longrightarrow> tb_sessions w' = filter P (tb_sessions v) \<Longrightarrow> aw_redis w' = aw_redis v \<Longrightarrow> tb_now w' = tb_now v \<Longrightarrow> state_later w w'"
  by (auto simp: same_def session_rows_def later_def stored_session_def stored_revision_def map_le_def)

lemma delete_later: "delete_sessions pg P w = (x, w') \<Longrightarrow> state_later w w' \<and> (\<forall>n. x = Inr n \<longrightarrow> (\<forall>s \<in> set (tb_sessions w'). \<not> P s))"
  unfolding delete_sessions_def by (erule trip) (auto intro: filtered_later same_later)

lemma delete_strings: "delete_sessions pg P w = (x, w') \<Longrightarrow> str (aw_redis w') = str (aw_redis w)"
  unfolding delete_sessions_def by (erule trip) (auto simp: same_def)

lemma touch_later: "TouchAdminSession pg uid t w = (x, w') \<Longrightarrow> state_later w w'"
  unfolding TouchAdminSession_def
  by (erule trip) (auto simp: same_def session_rows_def later_def stored_session_def stored_revision_def map_le_def split: if_splits)

lemma get_admin_same: "GetAdminByID pg uid w = (x, w') \<Longrightarrow> same w w' \<and> (\<forall>a. x = Inr a \<longrightarrow> adm_ID a = uid)"
  unfolding GetAdminByID_def by (erule trip) (auto dest: find_row_Inr)

lemma get_session_same: "GetAdminSessionByDigest pg d w = (x, w') \<Longrightarrow> same w w' \<and> (\<forall>s. x = Inr s \<longrightarrow> TokenDigest s = d \<and> (d, AdminID s, ses_CreatedAt s) \<in> session_rows w)"
  unfolding GetAdminSessionByDigest_def by (erule trip) (auto dest!: find_row_Inr simp: same_def session_rows_def)

lemma new_id_same: "newID (pg_random pg) uid w = (x, w') \<Longrightarrow> same w w'"
  using db_random [THEN untouched_same] by (auto simp: newID_def GenerateID_def Let_def split: if_splits sum.splits prod.splits)

lemma create_session:
  assumes "CreateAdminSession pg ses w = (v, w')"
  shows "case v of
      Inl _ \<Rightarrow> state_later w w'
    | Inr made \<Rightarrow> cached_at w' \<subseteq>\<^sub>m cached_at w \<and> revision_at w \<subseteq>\<^sub>m revision_at w' \<and> (\<forall>b u. (TokenDigest ses, b, u) \<notin> session_rows w) \<and>
        session_rows w' \<subseteq> insert (TokenDigest ses, AdminID ses, ses_CreatedAt made) (session_rows w) \<and>
        TokenDigest made = TokenDigest ses \<and> AdminID made = AdminID ses"
proof -
  obtain n w1 where n: "newID (pg_random pg) (ses_ID ses) w = (n, w1)" by (rule prod.exhaust)
  note s1 = new_id_same [OF n]
  consider "v = Inl (ErrText ''store: admin session and token digests are required'')" "w' = w"
    | e where "v = Inl e" "w' = w1" | uid where "n = Inr uid" "\<not> (TokenDigest ses = '''' \<or> CSRFDigest ses = '''')"
    using assms n by (cases n) (auto simp: CreateAdminSession_def split: if_splits)
  then show ?thesis
  proof cases
    case (3 uid)
    from assms n 3 have st: "db_trip pg (\<lambda>w.
        if list_ex (\<lambda>s. ses_ID s = uid) (tb_sessions w) then (Inl (conflict ''admin_sessions_pkey''), w)
        else if list_ex (\<lambda>s. TokenDigest s = TokenDigest ses) (tb_sessions w) then (Inl (conflict ''admin_sessions_token_digest_key''), w)
        else if \<not> list_ex (\<lambda>a. adm_ID a = AdminID ses) (tb_admins w) then (Inl (conflict ''admin_sessions_admin_id_fkey''), w)
        else (let row = ses\<lparr>ses_ID := uid, ses_CreatedAt := tb_now w, LastSeenAt := tb_now w\<rparr>
              in (Inr row, w\<lparr>tb_sessions := tb_sessions w @ [row]\<rparr>))) w1 = (v, w')"
      by (simp add: CreateAdminSession_def try_do_def)
    from st show ?thesis
    proof (rule trip)
      fix e
      assume "same w1 w'" "v = Inl e"
      with same_later [OF same_trans [OF s1]] show ?thesis by simp
    next
      fix u
      assume u: "same w1 u" and f: "(if list_ex (\<lambda>s. ses_ID s = uid) (tb_sessions u) then (Inl (conflict ''admin_sessions_pkey''), u)
        else if list_ex (\<lambda>s. TokenDigest s = TokenDigest ses) (tb_sessions u) then (Inl (conflict ''admin_sessions_token_digest_key''), u)
        else if \<not> list_ex (\<lambda>a. adm_ID a = AdminID ses) (tb_admins u) then (Inl (conflict ''admin_sessions_admin_id_fkey''), u)
        else (let row = ses\<lparr>ses_ID := uid, ses_CreatedAt := tb_now u, LastSeenAt := tb_now u\<rparr>
              in (Inr row, u\<lparr>tb_sessions := tb_sessions u @ [row]\<rparr>))) = (v, w')"
      have wu: "same w u" by (rule same_trans [OF s1 u])
      let ?row = "ses\<lparr>ses_ID := uid, ses_CreatedAt := tb_now u, LastSeenAt := tb_now u\<rparr>"
      let ?dup = "list_ex (\<lambda>s. TokenDigest s = TokenDigest ses) (tb_sessions u)"
      show ?thesis
      proof (cases "list_ex (\<lambda>s. ses_ID s = uid) (tb_sessions u) \<or> ?dup \<or> \<not> list_ex (\<lambda>a. adm_ID a = AdminID ses) (tb_admins u)")
        case True
        then obtain e where "v = Inl e" "w' = u" using f by (metis prod.inject)
        with same_later [OF wu] show ?thesis by simp
      next
        case False
        then have new: "v = Inr ?row" "w' = u\<lparr>tb_sessions := tb_sessions u @ [?row]\<rparr>" "\<not> ?dup" using f by (simp_all add: Let_def)
        have eq: "tb_sessions u = tb_sessions w" "str (aw_redis u) = str (aw_redis w)" using wu by (simp_all add: same_def)
        have "(TokenDigest ses, b, t) \<notin> session_rows w" for b t using new(3) by (auto simp: eq(1) session_rows_def list_ex_iff)
        moreover have "session_rows w' \<subseteq> insert (TokenDigest ses, AdminID ses, tb_now u) (session_rows w)"
          by (auto simp: new(2) session_rows_def eq(1))
        moreover have "cached_at w' = cached_at w" "revision_at w' = revision_at w"
          by (simp_all add: new(2) fun_eq_iff stored_session_def stored_revision_def eq(2))
        ultimately show ?thesis by (simp add: new(1))
      qed
    qed
  qed (use s1 in \<open>auto intro: same_later\<close>)
qed

lemma by_email_same: "GetAdminByEmail pg email w = (x, w') \<Longrightarrow> same w w'"
  unfolding GetAdminByEmail_def by (erule trip) auto

lemma email_same: "UpdateAdminEmail pg uid email w = (x, w') \<Longrightarrow> same w w'"
  unfolding UpdateAdminEmail_def by (erule trip) (auto simp: same_def Let_def split: if_splits option.splits)

end

sublocale admin_backend \<subseteq> session_view "postgres_repository pg" "redis_state ra" session_rows cached_at revision_at tb_now
proof
  fix w uid h e d
  show "state_later w (snd (ar_TouchAdminSession (postgres_repository pg) uid t w))" for t
    using touch_later [of uid t w] by (cases "TouchAdminSession pg uid t w") (simp add: postgres_repository_def)
  show "state_later w (snd (ar_DeleteAdminSessionByDigest (postgres_repository pg) d w))"
    using delete_later [of "\<lambda>s. TokenDigest s = d" w] by (cases "delete_sessions pg (\<lambda>s. TokenDigest s = d) w", cases "fst (delete_sessions pg (\<lambda>s. TokenDigest s = d) w)")
      (auto simp: postgres_repository_def DeleteAdminSessionByDigest_def)
  show "state_later w (snd (ar_GetAdminByEmail (postgres_repository pg) e w))"
    using by_email_same [of e w] same_later by (cases "GetAdminByEmail pg e w") (simp add: postgres_repository_def)
  fix w'
  show "ar_DeleteAdminSessionsForAdmin (postgres_repository pg) uid w = (Inr (), w') \<Longrightarrow>
      state_later w w' \<and> (\<forall>d u. (d, uid, u) \<notin> session_rows w')"
    by (auto simp: postgres_repository_def DeleteAdminSessionsForAdmin_def try_do_Inr session_rows_def dest!: delete_later)
  show "ar_UpdateAdminPassword (postgres_repository pg) uid h w = (Inr (), w') \<Longrightarrow> state_later w w'"
    "ar_DisableTOTP (postgres_repository pg) uid w = (Inr (), w') \<Longrightarrow> state_later w w'"
    by (simp_all add: postgres_repository_def UpdateAdminPassword_def store_DisableTOTP_def update_same [THEN same_later])
  show "ar_UpdateAdminEmail (postgres_repository pg) uid e w = (Inr (), w') \<Longrightarrow> state_later w w'"
    by (simp add: postgres_repository_def email_same [THEN same_later])
  show "ar_GetAdminByID (postgres_repository pg) uid w = (q, w') \<Longrightarrow> state_later w w' \<and> (\<forall>adm. q = Inr adm \<longrightarrow> adm_ID adm = uid)" for q
    using get_admin_same same_later by (simp add: postgres_repository_def)
  show "ar_GetAdminSessionByDigest (postgres_repository pg) d w = (v, w') \<Longrightarrow>
      state_later w w' \<and> (\<forall>ses. v = Inr ses \<longrightarrow> TokenDigest ses = d \<and> (d, AdminID ses, ses_CreatedAt ses) \<in> session_rows w)" for v
    using get_session_same same_later by (simp add: postgres_repository_def)
  show "ar_CreateAdminSession (postgres_repository pg) ses w = (v, w') \<Longrightarrow>
      (case v of
         Inl _ \<Rightarrow> state_later w w'
       | Inr made \<Rightarrow> cached_at w' \<subseteq>\<^sub>m cached_at w \<and> revision_at w \<subseteq>\<^sub>m revision_at w' \<and> (\<forall>b u. (TokenDigest ses, b, u) \<notin> session_rows w) \<and>
           session_rows w' \<subseteq> insert (TokenDigest ses, AdminID ses, ses_CreatedAt made) (session_rows w) \<and>
           TokenDigest made = TokenDigest ses \<and> AdminID made = AdminID ses)" for ses v
    using create_session [of ses w v w'] by (simp add: postgres_repository_def)
qed (simp_all add: redis_state_def load_session save_session revoke_session current_revision rotate_revision)

text \<open>The service on this backend.\<close>

locale admin_service = admin_backend srv clk str zs pfx ra pg
  for srv :: "'r RedisServer" and clk str zs pfx ra pg +
  fixes s :: "'r auth_world AuthService"
  assumes on_backend: "as_repo s = postgres_repository pg" "as_state s = Some (redis_state ra)"
    and service_clock: "as_now s w = (t, w') \<Longrightarrow> untouched w w' \<and> tb_now w \<le> t"
    and service_random: "as_random s n w = (x, w') \<Longrightarrow> untouched w w'"

sublocale admin_service \<subseteq> session_service "postgres_repository pg" "redis_state ra" session_rows cached_at revision_at tb_now s
  by unfold_locales (use on_backend in \<open>auto intro!: same_later untouched_same dest: service_clock service_random\<close>)

end
