(* ===== verification/Admin_Properties.thy ===== *)
theory Admin_Properties
  imports Admin_Backend Redis_Laws
begin

text \<open>
  What the administration service guarantees, on any Redis and database that follow the laws of \<open>Admin_Backend\<close>: who may log in and how often,
  and when sessions end. It begins with the service on the small Redis and a database that does not fail, an instance of \<open>admin_service\<close> for concrete
  runs.
\<close>

section \<open>A text format for sessions and revisions\<close>

function bits_of :: "int \<Rightarrow> string" where
  "bits_of n = (if n \<le> 0 then [] else (if n mod 2 = 0 then CHR ''0'' else CHR ''1'') # bits_of (n div 2))"
  by pat_completeness auto
termination by (relation "measure nat") auto

declare bits_of.simps [simp del]

fun of_bits :: "string \<Rightarrow> int" where
  "of_bits [] = 0"
| "of_bits (c # s) = (if c = CHR ''1'' then 1 else 0) + 2 * of_bits s"

lemma of_bits_of: "0 \<le> n \<Longrightarrow> of_bits (bits_of n) = n"
proof (induction n rule: bits_of.induct)
  case (1 n)
  then show ?case by (cases "n = 0") (auto simp: bits_of.simps [of n] bits_of.simps [of 0], presburger)
qed

definition put_int :: "int \<Rightarrow> string" where
  "put_int i = (if i < 0 then CHR ''-'' # bits_of (- i) else bits_of i)"

definition get_int :: "string \<Rightarrow> int" where
  "get_int s = (case s of [] \<Rightarrow> 0 | c # r \<Rightarrow> if c = CHR ''-'' then - of_bits r else of_bits s)"

lemma bits_of_digit: "bits_of n = c # r \<Longrightarrow> c \<noteq> CHR ''-''"
  by (auto simp: bits_of.simps [of n] split: if_splits)

lemma get_put_int [simp]: "get_int (put_int i) = i"
  using of_bits_of [of i] of_bits_of [of "- i"] bits_of_digit [of i] by (auto simp: put_int_def get_int_def split: list.split)

definition put_fields :: "string list \<Rightarrow> string" where
  "put_fields fs = concat (map (\<lambda>f. concat (map (\<lambda>c. [CHR ''.'', c]) f) @ ''$'') fs)"

fun read_fields :: "string \<Rightarrow> string \<Rightarrow> string list" where
  "read_fields acc (m # c # r) = (if m = CHR ''.'' then read_fields (acc @ [c]) r else acc # read_fields [] (c # r))"
| "read_fields acc [m] = [acc]"
| "read_fields acc [] = []"

definition get_fields :: "string \<Rightarrow> string list option" where
  "get_fields s = Some (read_fields [] s)"

lemma read_put: "read_fields acc (concat (map (\<lambda>c. [CHR ''.'', c]) f) @ CHR ''$'' # r) = (acc @ f) # read_fields [] r"
  by (induction f arbitrary: acc) (cases r; simp)+

lemma get_put_fields [simp]: "get_fields (put_fields fs) = Some fs"
  using read_put [of "[]"] by (induction fs) (simp_all add: get_fields_def put_fields_def)

definition plain_codec :: SessionCodec where
  "plain_codec = \<lparr>
     EncodeCached = (\<lambda>c. put_fields ([rev_Value (cs_Revision c), put_int (NotBefore (cs_Revision c))] @
       (case cs_Session c of None \<Rightarrow> [] | Some s \<Rightarrow>
          [ses_ID s, AdminID s, TokenDigest s, CSRFDigest s, IPAddress s, ses_UserAgent s, put_int (ses_ExpiresAt s), put_int (LastSeenAt s),
           put_int (ses_CreatedAt s)]))),
     DecodeCached = (\<lambda>t. case get_fields t of
          Some [v, n] \<Rightarrow> Some \<lparr>cs_Session = None, cs_Revision = \<lparr>rev_Value = v, NotBefore = get_int n\<rparr>\<rparr>
        | Some [v, n, i, a, d, c, ip, ua, e, l, cr] \<Rightarrow>
            Some \<lparr>cs_Session = Some \<lparr>ses_ID = i, AdminID = a, TokenDigest = d, CSRFDigest = c, IPAddress = ip, ses_UserAgent = ua,
                    ses_ExpiresAt = get_int e, LastSeenAt = get_int l, ses_CreatedAt = get_int cr\<rparr>,
                  cs_Revision = \<lparr>rev_Value = v, NotBefore = get_int n\<rparr>\<rparr>
        | _ \<Rightarrow> None),
     EncodeRevision = (\<lambda>r. put_fields [rev_Value r, put_int (NotBefore r)]),
     DecodeRevision = (\<lambda>t. case get_fields t of Some [v, n] \<Rightarrow> Some \<lparr>rev_Value = v, NotBefore = get_int n\<rparr> | _ \<Rightarrow> None)\<rparr>"

lemma plain_codec_ok:
  "DecodeCached plain_codec (EncodeCached plain_codec c) = Some c" "DecodeRevision plain_codec (EncodeRevision plain_codec r) = Some r"
  by (cases c; simp add: plain_codec_def split: option.split) (simp add: plain_codec_def)

section \<open>The service\<close>

type_synonym mem_world = "mem_redis auth_world"

definition mem_draws :: "mem_world random" where
  "mem_draws n w = (Inr (replicate n (char_of (aw_draws w))), w\<lparr>aw_draws := Suc (aw_draws w)\<rparr>)"

definition mem_time :: "mem_world \<Rightarrow> time \<times> mem_world" where "mem_time w = (tb_now w, w)"

definition mem_pg :: "(mem_redis, unit) auth_world_ext Postgres" where
  "mem_pg = \<lparr>pg_fault = (\<lambda>w. (None, w)), pg_random = mem_draws, pg_lower = ToLower, pg_timeNow = tb_now\<rparr>"

definition mem_pepper :: string where "mem_pepper = replicate 32 (CHR ''p'')"

definition mem_state :: "mem_world RedisAuthState" where
  "mem_state = newRedisAuthState (auth_client mem_server ''grok:'') sample_sec plain_codec mem_pepper mem_draws (12 * Hour) mem_time []"

definition mem_service :: "mem_world AuthService" where
  "mem_service = \<lparr>as_repo = postgres_repository mem_pg, as_lib = sample_sec,
     as_cipher = \<lparr>NonceSize = 12, Overhead = 0, aead_Seal = (\<lambda>n p a. p), aead_Open = (\<lambda>n c a. Some c)\<rparr>,
     as_passwords = DefaultArgon2Params 8, as_pepper = mem_pepper, as_random = mem_draws,
     as_totp = \<lparr>issuer = ''grok'', period = 30 * Second, digits = 6, skew = 1\<rparr>, as_state = Some (redis_state mem_state), as_sessionTTL = 12 * Hour,
     as_now = mem_time, as_ParseAddress = (\<lambda>s. Some ('''', s)), as_ToValidUTF8 = (\<lambda>s. s)\<rparr>"

interpretation mem_admin: admin_service mem_server mem_clock mem_str mem_zs "''grok:''" mem_state mem_pg mem_service
  by unfold_locales
    (auto simp: mem_state_def newRedisAuthState_def mem_server_def [THEN arg_cong [of _ _ transport]] plain_codec_ok mem_time_def mem_draws_def
      mem_pg_def mem_service_def untouched_def)

section \<open>A concrete world\<close>

definition run_admin :: "string \<Rightarrow> string \<Rightarrow> string \<Rightarrow> AdminRecord" where
  "run_admin uid email password = \<lparr>adm_ID = uid, Email = email,
     PasswordHash = ''$argon2id$v=19$m=65536,t=3,p=4$saltsaltsaltsalt$'' @ take 32 (password @ ''saltsaltsaltsalt'' @ replicate 32 (CHR ''k'')),
     TOTPSecretCipher = '''', TOTPEnabled = False, PendingTOTPSecretCipher = '''', PendingTOTPExpiresAt = None, adm_Disabled = False,
     LastLoginAt = None, adm_CreatedAt = 0, adm_UpdatedAt = 0\<rparr>"

definition run_world :: mem_world where
  "run_world = \<lparr>tb_admins = [run_admin ''a1'' ''one@x.io'' ''old password'', run_admin ''a2'' ''two@x.io'' ''password two''],
     tb_sessions = [\<lparr>ses_ID = ''s2'', AdminID = ''a2'', TokenDigest = mem_pepper @ ''token'', CSRFDigest = ''c'', IPAddress = '''', ses_UserAgent = '''',
       ses_ExpiresAt = 2 * Hour, LastSeenAt = 0, ses_CreatedAt = 0\<rparr>],
     tb_now = Hour, aw_redis = \<lparr>mem_clock = 0, mem_strings = Map.empty, mem_sets = (\<lambda>k. ([], None))\<rparr>, aw_draws = 0\<rparr>"

definition run_login :: "string \<Rightarrow> LoginInput" where
  "run_login password = \<lparr>in_Email = ''One@x.io '', in_Password = password, in_TOTPCode = '''', in_IPAddress = ''::1'', in_UserAgent = ''''\<rparr>"

lemma run_login_bad: "fst (Login mem_service (run_login ''other'') run_world) = Inl (LoginError ErrBadLogin)"
  by code_simp

text \<open>Requests with tokens leave the administrators alone.\<close>

text \<open>What a sequence leaves alone when its parts do.\<close>

lemma try_keeps_view: "h (snd p) = h w \<Longrightarrow> (\<And>x v. h (snd (f x v)) = h v) \<Longrightarrow> h (snd (try_do p f)) = h w"
  by (cases p, cases "fst p") auto

lemmas try_keeps = try_keeps_view [of tb_admins]

context admin_service begin

lemma client_admins [simp]:
  "tb_admins (snd (ac_Get (ras_redis ra) k w)) = tb_admins w" "tb_admins (snd (ac_Set (ras_redis ra) k v ttl w)) = tb_admins w"
  "tb_admins (snd (ac_SetNX (ras_redis ra) k v ttl w)) = tb_admins w" "tb_admins (snd (ac_Delete (ras_redis ra) ks w)) = tb_admins w"
  "tb_admins (snd (ac_IncrementWindow (ras_redis ra) k ttl w)) = tb_admins w"
  by (simp_all add: client auth_client_def database_client_def lift_state_def case_prod_unfold)

lemma clock_admins [simp]:
  "tb_admins (snd (as_now s w)) = tb_admins w" "tb_admins (snd (ras_now ra w)) = tb_admins w" "tb_admins (snd (ras_random ra n w)) = tb_admins w"
  "tb_admins (snd (pg_fault pg w)) = tb_admins w" "tb_admins (snd (state_ready ra w)) = tb_admins w"
  using service_clock [of w "fst (as_now s w)" "snd (as_now s w)"] reads_clock [of w "fst (ras_now ra w)" "snd (ras_now ra w)"]
    draws_random [of n w "fst (ras_random ra n w)" "snd (ras_random ra n w)"] quiet_db [of w "fst (pg_fault pg w)" "snd (pg_fault pg w)"]
  by (simp_all add: untouched_def state_ready_def)

lemma trip_admins: "(\<And>v. tb_admins (snd (f v)) = tb_admins v) \<Longrightarrow> tb_admins (snd (db_trip pg f w)) = tb_admins w"
  using clock_admins(4) [of w] by (cases "pg_fault pg w", cases "fst (pg_fault pg w)") (auto simp: db_trip_def)

lemma state_admins [simp]:
  "tb_admins (snd (LoadSession ra d w)) = tb_admins w" "tb_admins (snd (SaveSession ra ses r w)) = tb_admins w"
  "tb_admins (snd (RevokeSession ra d w)) = tb_admins w" "tb_admins (snd (newRevision ra t w)) = tb_admins w"
  "tb_admins (snd (CurrentSessionRevision ra a w)) = tb_admins w" "tb_admins (snd (RegisterLoginAttempt ra ip identity w)) = tb_admins w"
proof -
  show n: "tb_admins (snd (newRevision ra t w)) = tb_admins w" for t w
    by (auto simp: newRevision_def Generate_def Let_def case_prod_unfold split: sum.split intro!: try_keeps)
  show "tb_admins (snd (LoadSession ra d w)) = tb_admins w"
    by (auto simp: LoadSession_def case_prod_unfold split: sum.split intro!: try_keeps)
  show "tb_admins (snd (SaveSession ra ses r w)) = tb_admins w"
    by (auto simp: SaveSession_def Let_def case_prod_unfold intro!: try_keeps)
  show "tb_admins (snd (RevokeSession ra d w)) = tb_admins w"
    by (auto simp: RevokeSession_def intro!: try_keeps)
  show "tb_admins (snd (RegisterLoginAttempt ra ip identity w)) = tb_admins w"
    by (auto simp: RegisterLoginAttempt_def intro!: try_keeps)
  show "tb_admins (snd (CurrentSessionRevision ra a w)) = tb_admins w"
    by (auto simp: CurrentSessionRevision_def case_prod_unfold n split: sum.split intro!: try_keeps)
qed

lemma repository_admins [simp]:
  "tb_admins (snd (GetAdminByID pg uid w)) = tb_admins w" "tb_admins (snd (GetAdminByEmail pg email w)) = tb_admins w"
  "tb_admins (snd (GetAdminSessionByDigest pg d w)) = tb_admins w" "tb_admins (snd (DeleteAdminSessionByDigest pg d w)) = tb_admins w"
  "tb_admins (snd (TouchAdminSession pg uid t w)) = tb_admins w"
  by (simp_all add: GetAdminByID_def GetAdminByEmail_def GetAdminSessionByDigest_def TouchAdminSession_def trip_admins)
    (auto simp: DeleteAdminSessionByDigest_def delete_sessions_def intro!: try_keeps trip_admins)

lemma authenticate_admins: "tb_admins (snd (AuthenticateSession s token w)) = tb_admins w"
proof -
  have d: "tb_admins (snd (database_session s what d w)) = tb_admins w" for what d w
    by (simp add: database_session_def on_backend postgres_repository_def)
  have r: "tb_admins (snd (restoreDatabaseSession s (redis_state ra) ses q w)) = tb_admins w" for ses q w
    by (auto simp: restoreDatabaseSession_def on_backend postgres_repository_def redis_state_def case_prod_unfold intro!: try_keeps)
  have "tb_admins (snd (find_session s d w)) = tb_admins w" for d w
    by (auto simp: find_session_def on_backend redis_state_def cached_session_def loadDatabaseSession_def loadDatabaseSessionWithRevision_def d
        r [unfolded redis_state_def] case_prod_unfold split: sum.split option.split intro!: try_keeps)
  moreover have "tb_admins (drop_session s d w) = tb_admins w" for d w
    by (simp add: drop_session_def on_backend redis_state_def postgres_repository_def Let_def)
  ultimately have "tb_admins (snd (auth_loadSession s token w)) = tb_admins w" for w
    by (auto simp: auth_loadSession_def on_backend postgres_repository_def Let_def case_prod_unfold split: sum.split intro!: try_keeps)
  then show ?thesis
    by (auto simp: AuthenticateSession_def on_backend postgres_repository_def Let_def case_prod_unfold intro!: try_keeps)
qed

end

section \<open>Who gets a session\<close>

text \<open>The checks of a login that succeeds, in their order.\<close>

lemma login_checks:
  assumes "Login s input w = (Inr r, w')" "as_state s = Some st"
  obtains d w1 admin w2 w3 where "st_RegisterLoginAttempt st (in_IPAddress input) (normalizeEmail (in_Email input)) w = (Inr (True, d), w1)"
    "length (in_Password input) \<le> 4096" "ar_GetAdminByEmail (as_repo s) (normalizeEmail (in_Email input)) w1 = (Inr admin, w2)"
    "password_accepted s (in_Password input) admin" "\<not> adm_Disabled admin" "login_totp s admin (in_TOTPCode input) w2 = (Inr (), w3)"
    "pr_ID (lr_Principal r) = adm_ID admin"
proof -
  let ?identity = "normalizeEmail (in_Email input)"
  from assms(1) obtain w1 admin w2 w3 res w4 where l: "register_attempt s input ?identity w = (Inr (), w1)" "length (in_Password input) \<le> 4096"
    "ar_GetAdminByEmail (as_repo s) ?identity w1 = (Inr admin, w2)" "password_accepted s (in_Password input) admin" "\<not> adm_Disabled admin"
    "login_totp s admin (in_TOTPCode input) w2 = (Inr (), w3)" "issueSession s admin (in_IPAddress input) (in_UserAgent input) w3 = (Inr res, w4)"
    "lr_Principal r = (lr_Principal res)\<lparr>pr_LastLoginAt := pr_LastLoginAt (lr_Principal r)\<rparr>"
    by (auto simp: Login_def try_do_Inr on_err_Inr auth_ready_def Let_def case_prod_unfold split: if_splits)
  from l(7) have "lr_Principal res = principalFromRecord admin"
    by (auto simp: issueSession_def try_do_Inr on_err_Inr case_prod_unfold)
  then have "pr_ID (lr_Principal r) = adm_ID admin" by (subst l(8)) (simp add: principalFromRecord_def)
  moreover obtain d where "st_RegisterLoginAttempt st (in_IPAddress input) ?identity w = (Inr (True, d), w1)"
    using l(1) assms(2) by (auto simp: register_attempt_def try_do_Inr on_err_Inr split: if_splits)
  ultimately show thesis using that l(2-6) by blast
qed

context admin_service begin

lemma login_by_row:
  assumes "Login s input w = (Inr r, w')"
  shows "\<exists>d w1 admin w2. RegisterLoginAttempt ra (in_IPAddress input) (normalizeEmail (in_Email input)) w = (Inr (True, d), w1)
    \<and> length (in_Password input) \<le> 4096 \<and> GetAdminByEmail pg (normalizeEmail (in_Email input)) w1 = (Inr admin, w2)
    \<and> admin \<in> set (tb_admins w) \<and> Email admin = pg_lower pg (btrim (normalizeEmail (in_Email input))) \<and> \<not> adm_Disabled admin
    \<and> verify_password (as_lib s) (in_Password input) (PasswordHash admin) = Inr True \<and> pr_ID (lr_Principal r) = adm_ID admin
    \<and> (TOTPEnabled admin \<longrightarrow> (\<exists>secret. Open (Some (as_cipher s)) (TOTPSecretCipher admin) (totpAAD (adm_ID admin) False) = Inr secret
         \<and> Validate_code (as_lib s) (Some (as_totp s)) (in_TOTPCode input) secret (fst (as_now s w2))))"
proof -
  obtain d w1 admin w2 w3 where raw: "st_RegisterLoginAttempt (redis_state ra) (in_IPAddress input) (normalizeEmail (in_Email input)) w = (Inr (True, d), w1)"
    "length (in_Password input) \<le> 4096" "ar_GetAdminByEmail (as_repo s) (normalizeEmail (in_Email input)) w1 = (Inr admin, w2)"
    "password_accepted s (in_Password input) admin" "\<not> adm_Disabled admin" "login_totp s admin (in_TOTPCode input) w2 = (Inr (), w3)"
    "pr_ID (lr_Principal r) = adm_ID admin"
    by (rule login_checks [OF assms on_backend(2)])
  have l: "RegisterLoginAttempt ra (in_IPAddress input) (normalizeEmail (in_Email input)) w = (Inr (True, d), w1)"
    "GetAdminByEmail pg (normalizeEmail (in_Email input)) w1 = (Inr admin, w2)"
    using raw(1,3) by (simp_all add: redis_state_def on_backend(1) postgres_repository_def)
  have "admin \<in> set (tb_admins w1) \<and> Email admin = pg_lower pg (btrim (normalizeEmail (in_Email input)))"
    using l(2) clock_admins(4) [of w1] by (cases "pg_fault pg w1", cases "fst (pg_fault pg w1)") (auto simp: GetAdminByEmail_def db_trip_def dest: find_row_Inr)
  moreover have "tb_admins w1 = tb_admins w" using state_admins(6) [of "in_IPAddress input" "normalizeEmail (in_Email input)" w] l(1) by simp
  moreover have "TOTPEnabled admin \<Longrightarrow> \<exists>secret. Open (Some (as_cipher s)) (TOTPSecretCipher admin) (totpAAD (adm_ID admin) False) = Inr secret
         \<and> Validate_code (as_lib s) (Some (as_totp s)) (in_TOTPCode input) secret (fst (as_now s w2))"
    using raw(6) by (auto simp: login_totp_def openTOTPSecret_def case_prod_unfold split: if_splits sum.splits)
  ultimately show ?thesis using l raw(2,4,5,7) unfolding password_accepted_def by metis
qed

end

text \<open>C18: a login succeeds only when the limiter let this attempt through, before anything else was looked up, and the database then holds an
  administrator with the normalized address who is not disabled, whose password (of at most 4096 bytes) the input holds and whose one-time code,
  when the second factor is on, is valid at the time read after the row was; the session is that administrator's.\<close>

theorem login_sound:
  assumes "admin_service srv clk str zs pfx ra pg s" "Login s input w = (Inr r, w')"
  shows "\<exists>d w1 admin w2. RegisterLoginAttempt ra (in_IPAddress input) (normalizeEmail (in_Email input)) w = (Inr (True, d), w1)
    \<and> length (in_Password input) \<le> 4096 \<and> GetAdminByEmail pg (normalizeEmail (in_Email input)) w1 = (Inr admin, w2)
    \<and> admin \<in> set (tb_admins w) \<and> Email admin = pg_lower pg (btrim (normalizeEmail (in_Email input))) \<and> \<not> adm_Disabled admin
    \<and> verify_password (as_lib s) (in_Password input) (PasswordHash admin) = Inr True \<and> pr_ID (lr_Principal r) = adm_ID admin
    \<and> (TOTPEnabled admin \<longrightarrow> (\<exists>secret. Open (Some (as_cipher s)) (TOTPSecretCipher admin) (totpAAD (adm_ID admin) False) = Inr secret
         \<and> Validate_code (as_lib s) (Some (as_totp s)) (in_TOTPCode input) secret (fst (as_now s w2))))"
  by (rule admin_service.login_by_row [OF assms])

text \<open>A login that succeeds, with the state of attempts and sessions in the small Redis.\<close>

lemma mem_generate: "pfx \<in> {''adm_'', ''csrf_'', ''rev_''} \<Longrightarrow> 24 \<le> n \<Longrightarrow>
  \<exists>t. Generate sample_sec mem_draws (Some mem_pepper) pfx n w = (Inr t, w\<lparr>aw_draws := Suc (aw_draws w)\<rparr>) \<and> tok_Digest t \<noteq> '''' \<and> Plaintext t \<noteq> ''''"
  by (auto simp: Generate_def mem_draws_def Let_def tok_digest_def sample_sec_def)

lemmas mem_redis_simps = mem_state_def newRedisAuthState_def auth_client_def database_client_def lift_state_def with_client_def round_trip_def
  mem_server_def Key_def Let_def

lemma mem_clients:
  "\<exists>r. snd (ac_Get (ras_redis mem_state) k w) = w\<lparr>aw_redis := r\<rparr>" "\<exists>r. snd (ac_SetNX (ras_redis mem_state) k v ttl w) = w\<lparr>aw_redis := r\<rparr>"
  "\<exists>r. snd (ac_IncrementWindow (ras_redis mem_state) k ttl w) = w\<lparr>aw_redis := r\<rparr>"
  by (auto simp: mem_state_def newRedisAuthState_def auth_client_def database_client_def lift_state_def case_prod_unfold)

text \<open>The world of the run, up to the server and the draws.\<close>

definition run_like :: "mem_world \<Rightarrow> bool" where
  "run_like w \<longleftrightarrow> tb_admins w = tb_admins run_world \<and> tb_sessions w = [] \<and> tb_now w = Hour"

lemma run_like_update [simp]: "run_like (w\<lparr>aw_redis := r\<rparr>) = run_like w" "run_like (w\<lparr>aw_draws := n\<rparr>) = run_like w"
  by (simp_all add: run_like_def)

lemma mem_revision:
  assumes "fst (ac_Get (ras_redis mem_state) (revisionKey mem_state a) w) = Inl ErrCacheMiss"
  shows "\<exists>r w'. CurrentSessionRevision mem_state a w = (Inr r, w') \<and> rev_Value r \<noteq> '''' \<and> run_like w' = run_like w"
proof -
  have g: "ac_Get (ras_redis mem_state) k w = (fst (ac_Get (ras_redis mem_state) k w), w)" for k w
    by (simp add: mem_redis_simps Get_def split: option.split)
  have n: "mem_str (aw_redis w) (''grok:'' @ revisionKey mem_state a) = None"
    using assms by (simp add: mem_redis_simps Get_def revisionKey_def split: option.splits)
  obtain m where m: "Generate sample_sec mem_draws (Some mem_pepper) ''rev_'' 24 w = (Inr m, w\<lparr>aw_draws := Suc (aw_draws w)\<rparr>)" "Plaintext m \<noteq> ''''"
    using mem_generate [of "''rev_''" 24 w] by auto
  let ?w = "w\<lparr>aw_draws := Suc (aw_draws w)\<rparr>"
  have nr: "newRevision mem_state 0 w = (Inr (\<lparr>rev_Value = Plaintext m, NotBefore = 0\<rparr>, EncodeRevision (ras_codec mem_state) \<lparr>rev_Value = Plaintext m, NotBefore = 0\<rparr>), ?w)"
    using m by (simp add: newRevision_def) (simp add: mem_state_def newRedisAuthState_def Let_def)
  let ?e = "EncodeRevision (ras_codec mem_state) \<lparr>rev_Value = Plaintext m, NotBefore = 0\<rparr>"
  obtain b w' where w': "ac_SetNX (ras_redis mem_state) (revisionKey mem_state a) ?e 0 ?w = (b, w')" by (rule prod.exhaust)
  have "fst (ac_SetNX (ras_redis mem_state) (revisionKey mem_state a) v 0 ?w) = Inr True" for v
    using n by (simp add: mem_redis_simps SetNX_def revisionKey_def expiry_ms_def milliseconds_def)
  from this [of ?e] w' have b: "b = Inr True" by simp
  obtain q where "w' = ?w\<lparr>aw_redis := q\<rparr>" using mem_clients(2) [of "revisionKey mem_state a" ?e 0 ?w] w' by auto
  then have like: "run_like w' = run_like w" by simp
  have "state_ready mem_state w = (Inr (), w)" by (simp add: state_ready_def mem_state_def newRedisAuthState_def)
  then show ?thesis using g [of "revisionKey mem_state a" w] assms nr w' b like m(2)
    by (cases "ac_Get (ras_redis mem_state) (revisionKey mem_state a) w") (simp add: CurrentSessionRevision_def)
qed

lemma mem_save:
  assumes "TokenDigest ses \<noteq> ''''" "AdminID ses \<noteq> ''''" "rev_Value r \<noteq> ''''" "tb_now w < ses_ExpiresAt ses"
  shows "\<exists>w'. SaveSession mem_state ses r w = (Inr (), w')"
proof -
  have "\<exists>w'. ac_Set (ras_redis mem_state) k v ttl w = (Inr (), w')" for k v ttl
    by (simp add: mem_redis_simps Set_def)
  moreover have "state_ready mem_state w = (Inr (), w)" "ras_now mem_state = mem_time"
    by (simp_all add: state_ready_def mem_state_def newRedisAuthState_def)
  ultimately show ?thesis using assms by (simp add: SaveSession_def mem_time_def Let_def time_sub_def)
qed

definition empty_world :: mem_world where "empty_world = run_world\<lparr>tb_sessions := []\<rparr>"

lemma mem_create:
  assumes "run_like w" "TokenDigest ses \<noteq> ''''" "CSRFDigest ses \<noteq> ''''" "AdminID ses = ''a1''" "ses_ID ses = ''''"
  shows "\<exists>y v. CreateAdminSession mem_pg ses w = (Inr y, v) \<and> TokenDigest y = TokenDigest ses \<and> AdminID y = ''a1'' \<and> ses_ExpiresAt y = ses_ExpiresAt ses
    \<and> tb_now v = Hour"
  using assms by (simp add: CreateAdminSession_def newID_def TrimSpace_def GenerateID_def mem_pg_def mem_draws_def db_trip_def run_like_def run_world_def
      run_admin_def Let_def)

lemma mem_by_email:
  assumes "tb_admins w = tb_admins run_world"
  shows "ar_GetAdminByEmail (as_repo mem_service) ''one@x.io'' w = (Inr (run_admin ''a1'' ''one@x.io'' ''old password''), w)"
proof -
  have "GetAdminByEmail mem_pg ''one@x.io'' w = (find_row (\<lambda>a. Email a = pg_lower mem_pg (btrim ''one@x.io'')) (tb_admins run_world), w)"
    using assms by (simp add: GetAdminByEmail_def db_trip_def) (simp add: mem_pg_def)
  also have "\<dots> = (Inr (run_admin ''a1'' ''one@x.io'' ''old password''), w)" by (simp add: find_row_def mem_pg_def run_world_def run_admin_def) code_simp
  finally show ?thesis by (simp add: mem_service_def postgres_repository_def)
qed

lemma run_login_ok: "\<exists>r w. Login mem_service (run_login ''old password'') empty_world = (Inr r, w)"
proof -
  let ?a = "run_admin ''a1'' ''one@x.io'' ''old password''" and ?s = mem_service
  have i: "normalizeEmail (in_Email (run_login ''old password'')) = ''one@x.io''" by code_simp
  have p: "password_accepted ?s ''old password'' ?a" by code_simp
  have l: "length ''old password'' \<le> 4096" by code_simp
  have a: "adm_ID ?a = ''a1''" "TOTPEnabled ?a = False" "\<not> adm_Disabled ?a" by (simp_all add: run_admin_def)
  have f: "as_lib ?s = sample_sec" "as_random ?s = mem_draws" "as_pepper ?s = mem_pepper" "as_now ?s = mem_time" "as_state ?s = Some (redis_state mem_state)"
    "as_sessionTTL ?s = 12 * Hour" "auth_ready ?s empty_world = (Inr (), empty_world)" "as_repo ?s = postgres_repository mem_pg"
    by (simp_all add: mem_service_def auth_ready_def)
  have q: "in_Password (run_login ''old password'') = ''old password''" "in_IPAddress (run_login ''old password'') = ''::1''"
    "in_UserAgent (run_login ''old password'') = ''''" by (simp_all add: run_login_def)
  obtain x w1 where ra: "RegisterLoginAttempt mem_state ''::1'' ''one@x.io'' empty_world = (x, w1)" by (rule prod.exhaust)
  have "fst (RegisterLoginAttempt mem_state ''::1'' ''one@x.io'' empty_world) = Inr (True, 0)" by code_simp
  with ra have x: "x = Inr (True, 0)" by simp
  have "fst (ac_Get (ras_redis mem_state) (revisionKey mem_state ''a1'') (snd (RegisterLoginAttempt mem_state ''::1'' ''one@x.io'' empty_world))) = Inl ErrCacheMiss"
    by code_simp
  with ra have k: "fst (ac_Get (ras_redis mem_state) (revisionKey mem_state ''a1'') w1) = Inl ErrCacheMiss" by simp
  have w1: "run_like w1"
  proof -
    have "\<exists>r. snd (RegisterLoginAttempt mem_state ''::1'' ''one@x.io'' empty_world) = empty_world\<lparr>aw_redis := r\<rparr>"
      by (simp add: RegisterLoginAttempt_def state_ready_def mem_redis_simps IncrementWindow_def AddWindow_def DefaultLoginRateLimit_def case_prod_unfold try_do_def split: sum.split) blast?
    then show ?thesis using ra by (auto simp: empty_world_def run_like_def run_world_def)
  qed
  have g: "ar_GetAdminByEmail (as_repo ?s) ''one@x.io'' w1 = (Inr ?a, w1)" using w1 mem_by_email by (simp add: run_like_def)
  let ?w2 = "w1\<lparr>aw_draws := Suc (aw_draws w1)\<rparr>" and ?w3 = "w1\<lparr>aw_draws := Suc (Suc (aw_draws w1))\<rparr>"
  obtain t where t: "Generate sample_sec mem_draws (Some mem_pepper) ''adm_'' 32 w1 = (Inr t, ?w2)" "tok_Digest t \<noteq> ''''"
    using mem_generate [of "''adm_''" 32 w1] by auto
  obtain c where c: "Generate sample_sec mem_draws (Some mem_pepper) ''csrf_'' 32 ?w2 = (Inr c, ?w3)" "tok_Digest c \<noteq> ''''"
    using mem_generate [of "''csrf_''" 32 ?w2] by auto
  have k3: "fst (ac_Get (ras_redis mem_state) (revisionKey mem_state ''a1'') ?w3) = Inl ErrCacheMiss"
    using k by (simp add: mem_redis_simps Get_def revisionKey_def split: option.splits)
  obtain r w4 where r: "CurrentSessionRevision mem_state ''a1'' ?w3 = (Inr r, w4)" "rev_Value r \<noteq> ''''" "run_like w4"
    using mem_revision [OF k3] w1 by auto
  let ?ses = "\<lparr>ses_ID = '''', AdminID = ''a1'', TokenDigest = tok_Digest t, CSRFDigest = tok_Digest c, IPAddress = auth_truncate ?s ''::1'' 128,
      ses_UserAgent = auth_truncate ?s '''' 512, ses_ExpiresAt = Hour + 12 * Hour, LastSeenAt = 0, ses_CreatedAt = 0\<rparr>"
  obtain y w5 where y: "CreateAdminSession mem_pg ?ses w4 = (Inr y, w5)" "TokenDigest y = tok_Digest t" "AdminID y = ''a1''"
    "ses_ExpiresAt y = Hour + 12 * Hour" "tb_now w5 = Hour"
    using mem_create [OF r(3), of ?ses] t c by auto
  obtain w6 where z: "SaveSession mem_state y r w5 = (Inr (), w6)" using mem_save [of y r w5] y t(2) r(2) by auto
  have "mem_time ?w3 = (Hour, ?w3)" using w1 by (simp add: mem_time_def run_like_def)
  then obtain res where "issueSession ?s ?a ''::1'' '''' w1 = (Inr res, w6)"
    using t c r(1) y(1) z by (simp add: issueSession_def f issue_revision_def cache_issued_def redis_state_def postgres_repository_def a)
  then show ?thesis
    using g p l a ra x by (simp add: Login_def f i q register_attempt_def login_totp_def Let_def redis_state_def) (simp add: mem_time_def)
qed

theorem login_sound_witness:
  "\<exists>admin w1 w2. admin \<in> set (tb_admins empty_world) \<and> GetAdminByEmail mem_pg (normalizeEmail (in_Email (run_login ''old password''))) w1 = (Inr admin, w2)
     \<and> verify_password sample_sec ''old password'' (PasswordHash admin) = Inr True \<and> \<not> adm_Disabled admin"
proof -
  obtain r w where "Login mem_service (run_login ''old password'') empty_world = (Inr r, w)"
    using run_login_ok by blast
  from login_sound [OF mem_admin.admin_service_axioms this] show ?thesis by (auto simp: mem_service_def run_login_def)
qed

section \<open>How often\<close>

text \<open>Logins one after the other.\<close>

fun logins :: "'w AuthService \<Rightarrow> LoginInput list \<Rightarrow> 'w \<Rightarrow> (login_error + LoginResult) list \<times> 'w" where
  "logins s [] w = ([], w)"
| "logins s (input # inputs) w = (let (x, w) = Login s input w; (xs, w) = logins s inputs w in (x # xs, w))"

definition refused_by_limit :: "login_error + LoginResult \<Rightarrow> bool" where
  "refused_by_limit x = (case x of Inl (LoginRateLimitError d) \<Rightarrow> True | _ \<Rightarrow> False)"

text \<open>The attempts since the last success, or since the window began.\<close>

definition since_success :: "(login_error + LoginResult) list \<Rightarrow> nat" where
  "since_success xs = length (takeWhile isl (rev xs))"

lemma since_success_simps [simp]:
  "since_success [] = 0" "since_success (xs @ [Inl e]) = Suc (since_success xs)" "since_success (xs @ [Inr r]) = 0"
  by (simp_all add: since_success_def)

lemma attempt_counts:
  assumes "redis_server srv clk str zs" "\<And>r. transport srv r = (None, r)" "ras_redis ra = auth_client srv pfx" "5 * Minute \<le> ras_sessionTTL ra"
    and "0 < MaxAttempts (ras_limit ra)" "1000000 \<le> Window (ras_limit ra)"
    and "read_counter srv (pfx @ loginKey ra ip identity) (aw_redis w) = Some c" "0 \<le> c" "c + 1 < 2 ^ 63"
    and "RegisterLoginAttempt ra ip identity w = (x, w')"
  shows "\<exists>d. x = Inr (c < MaxAttempts (ras_limit ra), d)" "read_counter srv (pfx @ loginKey ra ip identity) (aw_redis w') = Some (c + 1)"
proof -
  let ?k = "pfx @ loginKey ra ip identity" and ?ms = "milliseconds (Window (ras_limit ra))"
  have ms: "0 < ?ms" using assms(6) zdiv_mono1 [of 1000000 "Window (ras_limit ra)" 1000000] by (simp add: milliseconds_def)
  obtain y r where y: "script_add_window srv ?k 1 ?ms (aw_redis w) = (y, r)" by (rule prod.exhaust)
  with redis_server.add_window_counts [OF assms(1) ms assms(7-9)] have c: "y = Inr (c + 1)" "read_counter srv ?k r = Some (c + 1)" by simp_all
  have s: "RegisterLoginAttempt ra ip identity w = (Inr (if MaxAttempts (ras_limit ra) < c + 1 then (False, Window (ras_limit ra)) else (True, 0)), w\<lparr>aw_redis := r\<rparr>)"
    using y c assms(2-6)
    by (simp add: RegisterLoginAttempt_def state_ready_def auth_client_def database_client_def lift_state_def IncrementWindow_def AddWindow_def with_client_def
        script_trip_def round_trip_def Key_def)
  with assms(10) have "x = Inr (if MaxAttempts (ras_limit ra) < c + 1 then (False, Window (ras_limit ra)) else (True, 0))" "w' = w\<lparr>aw_redis := r\<rparr>" by auto
  with c show "\<exists>d. x = Inr (c < MaxAttempts (ras_limit ra), d)" "read_counter srv ?k (aw_redis w') = Some (c + 1)" by auto
qed

text \<open>\<open>Login\<close> after the limiter.\<close>

definition after_limit :: "'w AuthService \<Rightarrow> LoginInput \<Rightarrow> string \<Rightarrow> 'w \<Rightarrow> (login_error + LoginResult) \<times> 'w" where
  "after_limit s input identity w =
     (if 4096 < length (in_Password input) then (Inl (LoginError ErrBadLogin), w)
     else try_do (on_err (\<lambda>e. LoginError (if errors_is e ErrNotFound then ErrBadLogin else Wrapped ''load administrator'' e))
                    (ar_GetAdminByEmail (as_repo s) identity w)) (\<lambda>admin w.
     if \<not> password_accepted s (in_Password input) admin \<or> adm_Disabled admin then (Inl (LoginError ErrBadLogin), w)
     else try_do (login_totp s admin (in_TOTPCode input) w) (\<lambda>_ w.
     try_do (on_err LoginError (issueSession s admin (in_IPAddress input) (in_UserAgent input) w)) (\<lambda>result w.
     case as_now s w of (t, w) \<Rightarrow>
     let w = snd (ar_RecordAdminLogin (as_repo s) (adm_ID admin) t w);
         w = (case as_state s of None \<Rightarrow> w | Some st \<Rightarrow> snd (st_ClearLoginAttempts st (in_IPAddress input) identity w))
     in (Inr (result\<lparr>lr_Principal := (lr_Principal result)\<lparr>pr_LastLoginAt := Some t\<rparr>\<rparr>), w)))))"

lemma Login_split:
  "Login s input w = try_do (on_err LoginError (auth_ready s w)) (\<lambda>_ w.
     try_do (register_attempt s input (normalizeEmail (in_Email input)) w) (\<lambda>_. after_limit s input (normalizeEmail (in_Email input))))"
  by (simp add: Login_def after_limit_def [abs_def] Let_def)

context admin_service begin

text \<open>What is stored under the key of a login counter; issuing a session leaves it alone.\<close>

definition counter_at :: "string \<Rightarrow> string \<Rightarrow> 'r auth_world \<Rightarrow> string option" where
  "counter_at ip identity w = str (aw_redis w) (pfx @ loginKey ra ip identity)"

lemma login_key_neq [simp]: "loginKey ra ip identity \<noteq> sessionKey d" "loginKey ra ip identity \<noteq> revisionKey ra a" "sessionKey d \<noteq> loginKey ra ip identity"
  "revisionKey ra a \<noteq> loginKey ra ip identity"
  by (simp_all add: loginKey_def sessionKey_def revisionKey_def)

lemma same_counter: "same w w' \<Longrightarrow> counter_at ip identity w' = counter_at ip identity w"
  by (simp add: same_def counter_at_def)

lemma client_counter:
  "counter_at ip identity (snd (ac_Get (ras_redis ra) k w)) = counter_at ip identity w"
  "k \<noteq> loginKey ra ip identity \<Longrightarrow> counter_at ip identity (snd (ac_Set (ras_redis ra) k v ttl w)) = counter_at ip identity w"
  "k \<noteq> loginKey ra ip identity \<Longrightarrow> counter_at ip identity (snd (ac_SetNX (ras_redis ra) k v 0 w)) = counter_at ip identity w"
  using same_counter [OF get_string(1) [OF prod.collapse [symmetric]]] set_string(2) [OF prod.collapse [symmetric], of k v ttl w]
    setnx_string(3) [OF prod.collapse [symmetric], of k v w] by (auto simp: counter_at_def)

lemma clock_counter:
  "counter_at ip identity (snd (as_now s w)) = counter_at ip identity w" "counter_at ip identity (snd (ras_now ra w)) = counter_at ip identity w"
  "counter_at ip identity (snd (as_random s n w)) = counter_at ip identity w" "counter_at ip identity (snd (newRevision ra t w)) = counter_at ip identity w"
  "counter_at ip identity (snd (state_ready ra w)) = counter_at ip identity w"
proof -
  have c: "untouched w w' \<Longrightarrow> counter_at ip identity w' = counter_at ip identity w" for w'
    by (rule same_counter [OF untouched_same])
  show "counter_at ip identity (snd (as_now s w)) = counter_at ip identity w"
    by (rule c) (use service_clock [OF prod.collapse [symmetric]] in blast)
  show "counter_at ip identity (snd (ras_now ra w)) = counter_at ip identity w"
    by (rule c) (rule reads_clock [OF prod.collapse [symmetric]])
  show "counter_at ip identity (snd (as_random s n w)) = counter_at ip identity w"
    by (rule c) (rule service_random [OF prod.collapse [symmetric]])
  show "counter_at ip identity (snd (newRevision ra t w)) = counter_at ip identity w"
    by (rule same_counter) (rule new_revision(1) [OF prod.collapse [symmetric]])
  show "counter_at ip identity (snd (state_ready ra w)) = counter_at ip identity w" by (simp add: state_ready_def)
qed

lemma generate_counter: "counter_at ip identity (snd (Generate lib (as_random s) (Some pepper) tag n w)) = counter_at ip identity w"
  by (auto simp: Generate_def Let_def case_prod_unfold clock_counter split: sum.split)

lemma store_counter:
  "counter_at ip identity (snd (CurrentSessionRevision ra a w)) = counter_at ip identity w"
  "counter_at ip identity (snd (SaveSession ra ses q w)) = counter_at ip identity w"
  by (auto simp: CurrentSessionRevision_def SaveSession_def Let_def case_prod_unfold client_counter clock_counter
      intro!: try_keeps_view [of "counter_at ip identity"] split: sum.split)

lemma trip_counter:
  "(\<And>v. counter_at ip identity (snd (f v)) = counter_at ip identity v) \<Longrightarrow> counter_at ip identity (snd (db_trip pg f w)) = counter_at ip identity w"
  using quiet_db [of w "fst (pg_fault pg w)" "snd (pg_fault pg w)"]
  by (cases "pg_fault pg w", cases "fst (pg_fault pg w)") (auto simp: db_trip_def untouched_def counter_at_def)

lemma counter_at_tables [simp]:
  "counter_at ip identity (w\<lparr>tb_sessions := x\<rparr>) = counter_at ip identity w" "counter_at ip identity (w\<lparr>tb_admins := y\<rparr>) = counter_at ip identity w"
  by (simp_all add: counter_at_def)

lemma repository_counter:
  "counter_at ip identity (snd (GetAdminByEmail pg email w)) = counter_at ip identity w"
  "counter_at ip identity (snd (CreateAdminSession pg ses w)) = counter_at ip identity w"
  "counter_at ip identity (snd (DeleteAdminSessionByDigest pg d w)) = counter_at ip identity w"
  "counter_at ip identity (snd (RecordAdminLogin pg uid t w)) = counter_at ip identity w"
proof -
  show "counter_at ip identity (snd (GetAdminByEmail pg email w)) = counter_at ip identity w"
    by (simp add: GetAdminByEmail_def trip_counter)
  show "counter_at ip identity (snd (DeleteAdminSessionByDigest pg d w)) = counter_at ip identity w"
    by (auto simp: DeleteAdminSessionByDigest_def delete_sessions_def intro!: try_keeps_view [of "counter_at ip identity"] trip_counter)
  show "counter_at ip identity (snd (RecordAdminLogin pg uid t w)) = counter_at ip identity w"
    unfolding RecordAdminLogin_def update_admin_def by (rule trip_counter) simp
  have new: "counter_at ip identity (snd (newID (pg_random pg) uid w)) = counter_at ip identity w" for uid w
    by (rule same_counter [OF new_id_same [OF prod.collapse [symmetric]]])
  show "counter_at ip identity (snd (CreateAdminSession pg ses w)) = counter_at ip identity w"
    by (auto simp: CreateAdminSession_def Let_def new intro!: try_keeps_view [of "counter_at ip identity"] trip_counter)
qed

lemma issue_counter: "counter_at ip identity (snd (issueSession s adm i a w)) = counter_at ip identity w"
proof -
  have "counter_at ip identity (snd (issue_revision s adm w)) = counter_at ip identity w" for w
    by (simp add: issue_revision_def on_backend redis_state_def store_counter)
  moreover have "counter_at ip identity (snd (cache_issued s ses q w)) = counter_at ip identity w" for ses q w
    using store_counter(2) [of ip identity ses q w] repository_counter(3)
    by (auto simp: cache_issued_def on_backend redis_state_def postgres_repository_def split: prod.split sum.split)
  ultimately show ?thesis
    by (auto simp: issueSession_def on_backend(1) postgres_repository_def case_prod_unfold generate_counter clock_counter repository_counter
        intro!: try_keeps_view [of "counter_at ip identity"])
qed

lemma login_totp_counter: "counter_at ip identity (snd (login_totp s admin code w)) = counter_at ip identity w"
  by (auto simp: login_totp_def case_prod_unfold clock_counter split: sum.split)

text \<open>What follows the limiter: an error keeps the counter, a success removes it.\<close>

definition settled_login :: "string \<Rightarrow> string \<Rightarrow> string option \<Rightarrow> (login_error + LoginResult) \<times> 'r auth_world \<Rightarrow> bool" where
  "settled_login ip identity n p \<longleftrightarrow>
     (case p of (Inl e, w) \<Rightarrow> (\<exists>f. e = LoginError f) \<and> counter_at ip identity w = n | (Inr _, w) \<Rightarrow> counter_at ip identity w = None)"

lemma settled_try:
  "(\<And>e. fst p = Inl e \<Longrightarrow> \<exists>f. e = LoginError f) \<Longrightarrow> counter_at ip identity (snd p) = n \<Longrightarrow>
    (\<And>y v. counter_at ip identity v = n \<Longrightarrow> settled_login ip identity n (f y v)) \<Longrightarrow> settled_login ip identity n (try_do p f)"
  by (cases p, cases "fst p") (auto simp: settled_login_def)

lemma on_err_Inl: "fst (on_err g p) = Inl e \<Longrightarrow> \<exists>e'. e = g e'"
  by (cases p, cases "fst p") (auto simp: on_err_def)

lemma totp_error: "fst (login_totp s admin code w) = Inl e \<Longrightarrow> \<exists>f. e = LoginError f"
  by (auto simp: login_totp_def case_prod_unfold split: if_splits sum.splits)

lemma cleared_counter:
  assumes "\<And>r. transport srv r = (None, r)" "5 * Minute \<le> ras_sessionTTL ra"
  shows "counter_at ip identity (snd (ClearLoginAttempts ra ip identity w)) = None"
  using assms by (simp add: ClearLoginAttempts_def state_ready_def client auth_client_def database_client_def lift_state_def Delete_def
      with_client_def round_trip_def Key_def Let_def counter_at_def del(1))

lemma after_limit_settles:
  assumes "\<And>r. transport srv r = (None, r)" "5 * Minute \<le> ras_sessionTTL ra" "in_IPAddress input = ip" "counter_at ip identity v = n"
  shows "settled_login ip identity n (after_limit s input identity v)"
  unfolding after_limit_def on_backend option.case
proof (cases "4096 < length (in_Password input)")
  case False
  have "settled_login ip identity n (try_do (login_totp s admin (in_TOTPCode input) w) (\<lambda>_ w.
     try_do (on_err LoginError (issueSession s admin (in_IPAddress input) (in_UserAgent input) w)) (\<lambda>result w.
     case as_now s w of (t, w) \<Rightarrow>
     let w = snd (ar_RecordAdminLogin (postgres_repository pg) (adm_ID admin) t w);
         w = snd (st_ClearLoginAttempts (redis_state ra) (in_IPAddress input) identity w)
     in (Inr (result\<lparr>lr_Principal := (lr_Principal result)\<lparr>pr_LastLoginAt := Some t\<rparr>\<rparr>), w))))"
    if "counter_at ip identity w = n" for admin w
    by (intro settled_try)
      (auto simp: login_totp_counter issue_counter that settled_login_def case_prod_unfold Let_def redis_state_def cleared_counter [OF assms(1,2)] assms(3)
        dest: totp_error on_err_Inl)
  with False show "settled_login ip identity n (if 4096 < length (in_Password input) then (Inl (LoginError ErrBadLogin), v)
     else try_do (on_err (\<lambda>e. LoginError (if errors_is e ErrNotFound then ErrBadLogin else Wrapped ''load administrator'' e))
                    (ar_GetAdminByEmail (postgres_repository pg) identity v)) (\<lambda>admin w.
     if \<not> password_accepted s (in_Password input) admin \<or> adm_Disabled admin then (Inl (LoginError ErrBadLogin), w)
     else try_do (login_totp s admin (in_TOTPCode input) w) (\<lambda>_ w.
     try_do (on_err LoginError (issueSession s admin (in_IPAddress input) (in_UserAgent input) w)) (\<lambda>result w.
     case as_now s w of (t, w) \<Rightarrow>
     let w = snd (ar_RecordAdminLogin (postgres_repository pg) (adm_ID admin) t w);
         w = snd (st_ClearLoginAttempts (redis_state ra) (in_IPAddress input) identity w)
     in (Inr (result\<lparr>lr_Principal := (lr_Principal result)\<lparr>pr_LastLoginAt := Some t\<rparr>\<rparr>), w)))))"
    by (auto intro!: settled_try simp: assms(4) postgres_repository_def repository_counter settled_login_def [of _ _ _ "(Inl _, _)"] dest: on_err_Inl)
qed (simp add: settled_login_def assms(4))

text \<open>One login: the limiter refuses exactly from \<open>MaxAttempts\<close> on.\<close>

lemma login_counts:
  assumes "\<And>r. transport srv r = (None, r)" "5 * Minute \<le> ras_sessionTTL ra" "5 * Minute \<le> as_sessionTTL s" "0 < MaxAttempts (ras_limit ra)"
    and "1000000 \<le> Window (ras_limit ra)" "read_counter srv (pfx @ loginKey ra ip identity) (aw_redis w) = Some c" "0 \<le> c" "c + 1 < 2 ^ 63"
    and "in_IPAddress input = ip" "normalizeEmail (in_Email input) = identity" "Login s input w = (x, w')"
  shows "refused_by_limit x \<longleftrightarrow> MaxAttempts (ras_limit ra) \<le> c"
    "read_counter srv (pfx @ loginKey ra ip identity) (aw_redis w') = Some (if isl x then c + 1 else 0)"
proof -
  let ?max = "MaxAttempts (ras_limit ra)" and ?K = "pfx @ loginKey ra ip identity"
  have rc: "read_counter srv ?K (aw_redis v) = (case counter_at ip identity v of None \<Rightarrow> Some 0 | Some t \<Rightarrow> ParseInt t)" for v
    by (simp add: counter_at_def read_counter_str)
  obtain y v where y: "RegisterLoginAttempt ra ip identity w = (y, v)" by (rule prod.exhaust)
  from attempt_counts [OF redis_server_axioms assms(1) client assms(2,4,5-8) y] obtain d where
    d: "y = Inr (c < ?max, d)" and v: "read_counter srv ?K (aw_redis v) = Some (c + 1)" by blast
  have ready: "auth_ready s w = (Inr (), w)" using assms(3) by (simp add: auth_ready_def)
  have L: "(x, w') = (if c < ?max then after_limit s input identity v else (Inl (LoginRateLimitError d), v))"
    using y d assms(9-11) by (cases "c < ?max") (simp_all add: Login_split ready register_attempt_def on_backend redis_state_def)
  have "(refused_by_limit x \<longleftrightarrow> ?max \<le> c) \<and> read_counter srv ?K (aw_redis w') = Some (if isl x then c + 1 else 0)"
  proof (cases "c < ?max")
    case False
    with L v show ?thesis by (simp add: refused_by_limit_def)
  next
    case True
    with L after_limit_settles [OF assms(1,2,9) refl, of identity v] have "settled_login ip identity (counter_at ip identity v) (x, w')" by simp
    with True v show ?thesis by (cases x) (auto simp: settled_login_def refused_by_limit_def rc)
  qed
  then show "refused_by_limit x \<longleftrightarrow> ?max \<le> c" "read_counter srv ?K (aw_redis w') = Some (if isl x then c + 1 else 0)" by auto
qed

lemma logins_count:
  assumes "\<And>r. transport srv r = (None, r)" "5 * Minute \<le> ras_sessionTTL ra" "5 * Minute \<le> as_sessionTTL s" "0 < MaxAttempts (ras_limit ra)"
    and "1000000 \<le> Window (ras_limit ra)" "\<And>input. input \<in> set inputs \<Longrightarrow> in_IPAddress input = ip \<and> normalizeEmail (in_Email input) = identity"
    and "read_counter srv (pfx @ loginKey ra ip identity) (aw_redis w) = Some (int (since_success ys))" "int (since_success ys + length inputs) < 2 ^ 63"
    and "i < length inputs"
  shows "refused_by_limit (fst (logins s inputs w) ! i) \<longleftrightarrow> MaxAttempts (ras_limit ra) \<le> int (since_success (ys @ take i (fst (logins s inputs w))))"
  using assms(6-9)
proof (induction inputs arbitrary: w ys i)
  case (Cons input inputs)
  obtain x v where x: "Login s input w = (x, v)" by (rule prod.exhaust)
  obtain xs v' where xs: "logins s inputs v = (xs, v')" by (rule prod.exhaust)
  have small: "int (since_success ys) + 1 < 2 ^ 63" using Cons.prems(3) by simp
  have inp: "in_IPAddress input = ip" "normalizeEmail (in_Email input) = identity" using Cons.prems(1) by simp_all
  note c = login_counts [OF assms(1-5) Cons.prems(2) _ small inp x, simplified]
  have s: "since_success (ys @ [x]) = (if isl x then Suc (since_success ys) else 0)" by (cases x) simp_all
  show ?case
  proof (cases i)
    case 0
    with c(1) x xs show ?thesis by simp
  next
    case (Suc j)
    have "refused_by_limit (xs ! j) \<longleftrightarrow> MaxAttempts (ras_limit ra) \<le> int (since_success ((ys @ [x]) @ take j xs))"
      using Cons.IH [of v "ys @ [x]" j] Cons.prems c(2) s xs Suc by (auto split: if_splits)
    with Suc x xs show ?thesis by simp
  qed
qed simp

end


text \<open>Six logins with a wrong password.\<close>

lemma wrong_password:
  assumes "tb_admins w = tb_admins run_world" "Login mem_service (run_login ''other'') w = (x, w')"
  shows "isl x" "tb_admins w' = tb_admins run_world"
proof -
  have i: "normalizeEmail (in_Email (run_login ''other'')) = ''one@x.io''" by code_simp
  have p: "\<not> password_accepted mem_service ''other'' (run_admin ''a1'' ''one@x.io'' ''old password'')" by code_simp
  have q: "in_Password (run_login ''other'') = ''other''" by (simp add: run_login_def)
  have rest: "after_limit mem_service (run_login ''other'') ''one@x.io'' v = (Inl (LoginError ErrBadLogin), v)" if "tb_admins v = tb_admins run_world" for v
    by (simp add: after_limit_def mem_by_email [OF that] p q)
  have ready: "auth_ready mem_service w = (Inr (), w)" by (simp add: auth_ready_def mem_service_def)
  obtain y v where y: "RegisterLoginAttempt mem_state (in_IPAddress (run_login ''other'')) ''one@x.io'' w = (y, v)" by (rule prod.exhaust)
  have v: "tb_admins v = tb_admins run_world"
    using mem_admin.state_admins(6) [of "in_IPAddress (run_login ''other'')" "''one@x.io''" w] y assms(1) by simp
  have s: "as_state mem_service = Some (redis_state mem_state)" by (simp add: mem_service_def)
  have "isl x \<and> w' = v"
    using assms(2) y rest [OF v] by (cases y) (auto simp: Login_split i ready register_attempt_def s redis_state_def split: if_splits)
  with v show "isl x" "tb_admins w' = tb_admins run_world" by simp_all
qed

lemma wrong_passwords:
  "tb_admins w = tb_admins run_world \<Longrightarrow> map isl (fst (logins mem_service (replicate n (run_login ''other'')) w)) = replicate n True"
proof (induction n arbitrary: w)
  case (Suc n)
  obtain x v where x: "Login mem_service (run_login ''other'') w = (x, v)" by (rule prod.exhaust)
  obtain xs v' where xs: "logins mem_service (replicate n (run_login ''other'')) v = (xs, v')" by (rule prod.exhaust)
  from Suc.IH [OF wrong_password(2) [OF Suc.prems x]] wrong_password(1) [OF Suc.prems x] x xs show ?case by simp
qed simp


section \<open>When sessions end\<close>

text \<open>The three operations that end all sessions of an administrator.\<close>

datatype credential_change =
  NewPassword string string string string
| NewEmail string string string
| NoTOTP string string

definition changed :: "'w AuthService \<Rightarrow> ('w \<Rightarrow> 'w) \<Rightarrow> string \<Rightarrow> credential_change \<Rightarrow> 'w \<Rightarrow> 'w \<Rightarrow> bool" where
  "changed s gap uid c w w' \<longleftrightarrow>
     (case c of
        NewPassword old new confirmation code \<Rightarrow> ChangePassword s gap uid old new confirmation code w = (Inr (), w')
      | NewEmail email password code \<Rightarrow> \<exists>p. ChangeEmail s gap uid email password code w = (Inr p, w')
      | NoTOTP password code \<Rightarrow> DisableTOTP s gap uid password code w = (Inr (), w'))"

text \<open>What the store holds of an administrator: digests are unique, a cached session belongs to the owner of the row of its digest, and no
  session was created after the time of the database.\<close>

definition sessions_in_order :: "('r \<Rightarrow> string \<rightharpoonup> string) \<Rightarrow> SessionCodec \<Rightarrow> string \<Rightarrow> string \<Rightarrow> 'r auth_world \<Rightarrow> bool" where
  "sessions_in_order str codec pfx uid w \<longleftrightarrow>
     0 < tb_now w \<and> distinct (map TokenDigest (tb_sessions w)) \<and>
     (\<forall>row \<in> set (tb_sessions w). AdminID row = uid \<longrightarrow> ses_CreatedAt row \<le> tb_now w \<and>
        (\<forall>c x. stored_session str codec pfx w (TokenDigest row) = Some c \<longrightarrow> cs_Session c = Some x \<longrightarrow> AdminID x = uid))"

context admin_service begin

lemma in_order_kept:
  assumes "sessions_in_order str (ras_codec ra) pfx uid w"
  shows "kept uid w"
proof -
  have "u \<le> tb_now w \<and> own_digest uid d w" if r: "(d, uid, u) \<in> session_rows w" for d u
  proof -
    obtain row where row: "row \<in> set (tb_sessions w)" "d = TokenDigest row" "AdminID row = uid" "u = ses_CreatedAt row"
      using r by (auto simp: session_rows_def)
    have inj: "inj_on TokenDigest (set (tb_sessions w))" using assms by (simp add: sessions_in_order_def distinct_map)
    have "b = uid" if b: "(d, b, t) \<in> session_rows w" for b t
    proof -
      obtain other where o: "other \<in> set (tb_sessions w)" "TokenDigest other = TokenDigest row" "AdminID other = b"
        using b row(2) by (auto simp: session_rows_def)
      from inj_onD [OF inj o(2,1) row(1)] o(3) row(3) show ?thesis by simp
    qed
    moreover from assms row(1,3) have "u \<le> tb_now w" "\<forall>c x. cached_at w d = Some c \<longrightarrow> cs_Session c = Some x \<longrightarrow> AdminID x = uid"
      unfolding sessions_in_order_def row(2,4) by blast+
    ultimately show ?thesis unfolding own_digest_def by blast
  qed
  with assms show ?thesis by (simp add: kept_def sessions_in_order_def)
qed

lemma change_revokes:
  assumes "changed s gap uid c w w'" "\<And>v. (session_step s uid state_later)\<^sup>*\<^sup>* v (gap v)" "kept uid w" "fresh_revision uid w w'"
  shows "\<exists>r. barred True uid r w' \<and> (\<forall>d u. (d, uid, u) \<notin> session_rows w')"
proof (cases c)
  case NewPassword
  with assms(1) change_password_revokes [OF _ assms(2-4)] show ?thesis by (simp add: changed_def)
next
  case NewEmail
  with assms(1) change_email_revokes [OF _ assms(2-4)] show ?thesis by (auto simp: changed_def)
next
  case NoTOTP
  with assms(1) disable_totp_revokes [OF _ assms(2-4)] show ?thesis by (simp add: changed_def)
qed

lemma change_ends_sessions:
  assumes "changed s gap uid c w w1" "sessions_in_order str (ras_codec ra) pfx uid w" "\<And>v. (session_step s uid state_later)\<^sup>*\<^sup>* v (gap v)"
    and "\<And>d cs ses r. cached_at w d = Some cs \<Longrightarrow> cs_Session cs = Some ses \<Longrightarrow> AdminID ses = uid \<Longrightarrow> revision_at w1 uid = Some r \<Longrightarrow>
      rev_Value (cs_Revision cs) \<noteq> rev_Value r"
    and "(session_step s uid state_later)\<^sup>*\<^sup>* w1 w2"
  shows "uid \<notin> AdminID ` set (tb_sessions w1) \<and> map_sum id pr_ID (fst (AuthenticateSession s token w2)) \<noteq> Inr uid"
proof -
  have "fresh_revision uid w w1" using assms(4) by (auto simp: fresh_revision_def)
  from change_revokes [OF assms(1,3) in_order_kept [OF assms(2)] this] obtain r where
    r: "barred True uid r w1" "\<And>d u. (d, uid, u) \<notin> session_rows w1" by blast
  obtain x w3 where a: "AuthenticateSession s token w2 = (x, w3)" by (rule prod.exhaust)
  from authenticate_barred [OF steps_barred [OF assms(5) r(1)] a] a r(2) show ?thesis
    by (cases x) (auto simp: session_rows_def)
qed

end


lemma mem_rotate: "\<exists>w1. RotateSessionRevision mem_state uid t w = (Inr (), w1) \<and> tb_admins w1 = tb_admins w"
proof -
  obtain m where m: "Generate sample_sec mem_draws (Some mem_pepper) ''rev_'' 24 w = (Inr m, w\<lparr>aw_draws := Suc (aw_draws w)\<rparr>)"
    using mem_generate [of "''rev_''" 24 w] by auto
  then show ?thesis
    by (simp add: RotateSessionRevision_def newRevision_def state_ready_def mem_state_def newRedisAuthState_def auth_client_def database_client_def lift_state_def
        Set_def with_client_def round_trip_def mem_server_def Key_def Let_def)
qed

text \<open>In the witness a request presents the old token just after the revision was rotated.\<close>

definition present_token :: "mem_world \<Rightarrow> mem_world" where
  "present_token w = snd (AuthenticateSession mem_service ''token'' w)"

lemma run_disable: "\<exists>w1. DisableTOTP mem_service present_token ''a2'' ''password two'' '''' run_world = (Inr (), w1)"
proof -
  let ?a = "run_admin ''a2'' ''two@x.io'' ''password two''"
  have g: "ar_GetAdminByID (as_repo mem_service) ''a2'' run_world = (Inr ?a, run_world)"
    by (simp add: mem_service_def postgres_repository_def GetAdminByID_def db_trip_def mem_pg_def find_row_def run_world_def run_admin_def)
  have p: "password_accepted mem_service ''password two'' ?a" by code_simp
  have a: "adm_ID ?a = ''a2''" "TOTPEnabled ?a = False" by (simp_all add: run_admin_def)
  obtain w1 where r: "RotateSessionRevision mem_state ''a2'' (tb_now run_world) run_world = (Inr (), w1)" "tb_admins w1 = tb_admins run_world"
    using mem_rotate by blast
  have "revokeAdminSessions mem_service ''a2'' run_world = (Inr (), w1)"
    using r(1) by (simp add: revokeAdminSessions_def mem_service_def mem_time_def redis_state_def)
  moreover have "tb_admins (present_token w1) = tb_admins run_world"
    using mem_admin.authenticate_admins r(2) by (simp add: present_token_def)
  moreover have "\<exists>w2. ar_DisableTOTP (as_repo mem_service) ''a2'' v = (Inr (), w2)" if "tb_admins v = tb_admins run_world" for v
    by (simp add: mem_service_def postgres_repository_def store_DisableTOTP_def update_admin_def db_trip_def mem_pg_def that)
      (simp add: run_world_def run_admin_def)
  moreover have "\<exists>w2. ar_DeleteAdminSessionsForAdmin (as_repo mem_service) ''a2'' v = (Inr (), w2)" for v
    by (simp add: mem_service_def postgres_repository_def db_trip_def mem_pg_def DeleteAdminSessionsForAdmin_def delete_sessions_def)
  ultimately show ?thesis
    using g p a by (fastforce simp: DisableTOTP_def require_totp_def)
qed


context admin_service begin

lemma logout_tombstone:
  assumes "Logout s token w = (Inr (), w')" "TrimSpace token \<noteq> ''''" "tok_digest (as_lib s) (as_pepper s) token \<noteq> ''''"
  shows "str (aw_redis w') (pfx @ revokedSessionKey (tok_digest (as_lib s) (as_pepper s) token)) = Some ''1''"
proof -
  let ?d = "tok_digest (as_lib s) (as_pepper s) token"
  obtain w1 where r: "RevokeSession ra ?d w = (Inr (), w1)" and d: "DeleteAdminSessionByDigest pg ?d w1 = (Inr (), w')"
    using assms(1,2) by (auto simp: Logout_def try_do_Inr on_err_Inr on_backend redis_state_def postgres_repository_def Let_def)
  from d have "str (aw_redis w') = str (aw_redis w1)" by (auto simp: DeleteAdminSessionByDigest_def try_do_Inr dest: delete_strings)
  with revoke_tombstone [OF r assms(3)] show ?thesis by simp
qed

lemma tombstone_refuses:
  assumes "str (aw_redis w) (pfx @ revokedSessionKey (tok_digest (as_lib s) (as_pepper s) token)) = Some v" "tok_digest (as_lib s) (as_pepper s) token \<noteq> ''''"
    and "\<And>r e r'. transport srv r = (Some e, r') \<Longrightarrow> \<not> errors_is e ErrCacheMiss \<and> \<not> errors_is e ErrSessionCacheMiss"
  shows "\<exists>e. fst (auth_loadSession s token w) = Inl e"
proof -
  let ?d = "tok_digest (as_lib s) (as_pepper s) token"
  obtain x w1 where l: "LoadSession ra ?d w = (x, w1)" by (rule prod.exhaust)
  have "\<exists>e. x = Inl e \<and> \<not> errors_is e ErrSessionCacheMiss"
    by (rule tombstone_read [OF assms(1,2) _ l]) (rule assms(3))
  with l show ?thesis by (auto simp: auth_loadSession_def find_session_def on_backend cached_session_def redis_state_def Let_def)
qed

lemma logout_refuses:
  assumes "Logout s token w = (Inr (), w1)" "tok_digest (as_lib s) (as_pepper s) token \<noteq> ''''"
    and "\<And>r e r'. transport srv r = (Some e, r') \<Longrightarrow> \<not> errors_is e ErrCacheMiss \<and> \<not> errors_is e ErrSessionCacheMiss"
    and "str (aw_redis w2) (pfx @ revokedSessionKey (tok_digest (as_lib s) (as_pepper s) token))
      = str (aw_redis w1) (pfx @ revokedSessionKey (tok_digest (as_lib s) (as_pepper s) token))"
  shows "\<exists>e. fst (AuthenticateSession s token w2) = Inl e"
proof -
  have "\<exists>e. fst (auth_loadSession s token w2) = Inl e"
  proof (cases "TrimSpace token = ''''")
    case False
    from logout_tombstone [OF assms(1) False assms(2)] assms(4)
    have "str (aw_redis w2) (pfx @ revokedSessionKey (tok_digest (as_lib s) (as_pepper s) token)) = Some ''1''" by simp
    then show ?thesis by (rule tombstone_refuses [OF _ assms(2)]) (rule assms(3))
  qed (simp add: auth_loadSession_def)
  then show ?thesis by (cases "auth_loadSession s token w2") (auto simp: AuthenticateSession_def)
qed

end

text \<open>A token that logged out is dead. Whatever happened in between, also a new entry in the cache or in the database for the same token, it is
  refused as long as the tombstone that the logout wrote is there, which is the lifetime of a session.\<close>

theorem logout_final:
  assumes "admin_service srv clk str zs pfx ra pg s" "Logout s token w = (Inr (), w1)" "tok_digest (as_lib s) (as_pepper s) token \<noteq> ''''"
    and "\<And>r e r'. transport srv r = (Some e, r') \<Longrightarrow> \<not> errors_is e ErrCacheMiss \<and> \<not> errors_is e ErrSessionCacheMiss"
    and "str (aw_redis w2) (pfx @ revokedSessionKey (tok_digest (as_lib s) (as_pepper s) token))
      = str (aw_redis w1) (pfx @ revokedSessionKey (tok_digest (as_lib s) (as_pepper s) token))"
  shows "\<exists>e. fst (AuthenticateSession s token w2) = Inl e"
  by (rule admin_service.logout_refuses [OF assms])

theorem logout_final_witness:
  "\<exists>e. fst (AuthenticateSession mem_service ''token'' ((snd (Logout mem_service ''token'' run_world))\<lparr>tb_sessions := tb_sessions run_world\<rparr>)) = Inl e"
proof -
  let ?l = "Logout mem_service ''token'' run_world"
  have "fst ?l = Inr ()" by code_simp
  then have l: "?l = (Inr (), snd ?l)" by (cases ?l) auto
  have d: "tok_digest (as_lib mem_service) (as_pepper mem_service) ''token'' \<noteq> ''''" by code_simp
  show ?thesis
    by (rule logout_final [OF mem_admin.admin_service_axioms l d]) (simp_all add: mem_server_def)
qed

end
