(* ===== verification/Grok_Client.thy ===== *)
theory Grok_Client
  imports Http_Client
begin

text \<open>
  The conversations of the client with the Grok web site (\<open>internal/upstream/image_edit.go\<close>): requests with a JSON body, uploads of
  reference images, and image edits.

  \<open>GrokEnv\<close> holds what the client is configured with and what it calls: the HTTP client, the clients of proxies, the network, and the
  library functions for media types. The uploads of one call run in goroutines that share nothing but the network; each writes the result at its
  own index. \<open>UploadOrder\<close> is the order in which they get to run and which of them see a cancelled context before they start.
\<close>

record MimeLib =
  ParseMediaType :: "string \<Rightarrow> string option"
  ExtensionsByType :: "string \<Rightarrow> string list"
  StdDecodeString :: "string \<Rightarrow> string option"

record ('c, 'w) GrokEnv =
  ge_net :: NetLib
  ge_lib :: UpstreamLib
  ge_mime :: MimeLib
  ge_config :: HTTPClientConfig
  ge_dynamic :: "duration option"
  ge_client :: 'c
  ge_proxied :: "string \<Rightarrow> 'w \<Rightarrow> (error + 'c) \<times> 'w"
  ge_send :: "'c \<Rightarrow> duration \<Rightarrow> http_request \<Rightarrow> 'w \<Rightarrow> (error + http_response) \<times> 'w"

section \<open>One request\<close>

definition grok_response :: "UpstreamLib \<Rightarrow> int \<Rightarrow> http_response \<Rightarrow> error + Response" where
  "grok_response lib maximum0 r =
     (if hp_status r < 200 \<or> 300 \<le> hp_status r
      then (case hp_readErr r of
              Some e \<Rightarrow> Inl e
            | None \<Rightarrow> Inr \<lparr>resp_StatusCode = hp_status r, resp_Header = hp_header r, resp_Body = take 2097152 (hp_body r), resp_Events = None\<rparr>)
      else if Contains (ToLower (hp_header r ''Content-Type'')) ''text/event-stream''
      then Inr \<lparr>resp_StatusCode = hp_status r, resp_Header = hp_header r, resp_Body = '''',
                resp_Events = Some (streamEventsWithToolNames lib Map.empty (hp_lines r) (hp_scanErr r))\<rparr>
      else (let maximum = (if maximum0 \<le> 0 then 33554432 else maximum0)
            in case hp_readErr r of
                 Some e \<Rightarrow> Inl e
               | None \<Rightarrow>
                   if maximum < int (length (hp_body r)) then Inl (ErrText ''upstream response exceeds configured limit'')
                   else Inr \<lparr>resp_StatusCode = hp_status r, resp_Header = hp_header r, resp_Body = hp_body r,
                             resp_Events = Some (parseNonStreamWithToolNames lib (hp_body r) Map.empty)\<rparr>))"

definition doGrokJSON :: "('c, 'w) GrokEnv \<Rightarrow> Request \<Rightarrow> string \<Rightarrow> string \<Rightarrow> json \<Rightarrow> int \<Rightarrow> 'w \<Rightarrow> (error + Response) \<times> 'w" where
  "doGrokJSON env input method url payload maximum w =
     (if ParseURL (ge_net env) url = None then (Inl (ErrText ''invalid request URL''), w)
      else (case GrokSSO_Apply (ge_net env) (req_Credentials input)
                   (copyHeader (req_Headers input)
                      (header_set ''Accept'' ''text/event-stream, application/json'' (header_set ''Content-Type'' ''application/json'' (\<lambda>_. '''')))) of
              Inl e \<Rightarrow> (Inl e, w)
            | Inr h \<Rightarrow>
                try_do (if TrimSpace (ProxyURL input) \<noteq> '''' then on_err (Wrapped ''configure account proxy'') (ge_proxied env (ProxyURL input) w)
                        else (Inr (ge_client env), w)) (\<lambda>cl w.
                let timeout = requestTimeout (ge_config env) (ge_dynamic env);
                    timeout = (if req_Operation input = OperationVideo \<and> timeout < VideoTimeout (ge_config env) then VideoTimeout (ge_config env) else timeout)
                in try_do (ge_send env cl timeout
                     \<lparr>hr_method = method, hr_url = url, hr_header = h, hr_body = Some (Marshal_json (ge_lib env) payload)\<rparr> w) (\<lambda>r w.
                   (grok_response (ge_lib env) maximum r, w)))))"

definition grok_failed :: "Response \<Rightarrow> bool" where
  "grok_failed r \<longleftrightarrow> resp_StatusCode r < 200 \<or> 300 \<le> resp_StatusCode r"

definition grokBase :: "NetLib \<Rightarrow> HTTPClientConfig \<Rightarrow> Request \<Rightarrow> error + string" where
  "grokBase lib c input =
     (let base = TrimSpace (BaseURL (req_Credentials input));
          base = (if base = '''' then GrokBaseURL c else base)
      in case ParseURL lib base of
           None \<Rightarrow> Inl (ErrText ''invalid Grok upstream base URL'')
         | Some u \<Rightarrow>
             if (Scheme u \<noteq> ''http'' \<and> Scheme u \<noteq> ''https'') \<or> URLHost u = '''' \<or> HasUser u \<or> RawQuery u \<noteq> '''' \<or> Fragment u \<noteq> ''''
             then Inl (ErrText ''invalid Grok upstream base URL'')
             else Inr (TrimRight base (CHR ''/'')))"

section \<open>Reference images\<close>

definition isHTTPURL :: "NetLib \<Rightarrow> string \<Rightarrow> bool" where
  "isHTTPURL lib s =
     (case ParseURL lib (TrimSpace s) of
        None \<Rightarrow> False
      | Some u \<Rightarrow> (Scheme u = ''http'' \<or> Scheme u = ''https'') \<and> URLHost u \<noteq> '''')"

text \<open>\<open>strings.Cut\<close>.\<close>

fun Cut :: "string \<Rightarrow> char \<Rightarrow> (string \<times> string) option" where
  "Cut [] c = None"
| "Cut (x # s) c = (if x = c then Some ('''', s) else map_option (\<lambda>(a, b). (x # a, b)) (Cut s c))"

text \<open>A file name, a media type and the encoded bytes. Media types are ASCII, for which \<open>ToLower\<close> is exact.\<close>

definition parseImageDataURI :: "MimeLib \<Rightarrow> string \<Rightarrow> error + string \<times> string \<times> string" where
  "parseImageDataURI lib s =
     (if \<not> HasPrefix (ToLower (TrimSpace s)) ''data:image/''
      then Inl (ErrText ''image edit references must be HTTP URLs or base64 image data URLs'')
      else (case Cut (drop 5 (TrimSpace s)) (CHR '','') of
              None \<Rightarrow> Inl (ErrText ''invalid image data URL'')
            | Some (head, encoded) \<Rightarrow>
                if \<not> HasSuffix (ToLower head) '';base64'' \<or> encoded = '''' then Inl (ErrText ''invalid image data URL'')
                else (let t = TrimSpace (TrimSuffix head '';base64'');
                          t = (case ParseMediaType lib t of Some b \<Rightarrow> b | None \<Rightarrow> t)
                      in if \<not> HasPrefix (ToLower t) ''image/'' then Inl (ErrText ''image edit reference has an invalid content type'')
                         else (case StdDecodeString lib encoded of
                                 None \<Rightarrow> Inl (ErrText ''image edit reference has invalid base64 data'')
                               | Some d \<Rightarrow>
                                   if d = '''' then Inl (ErrText ''image edit reference has invalid base64 data'')
                                   else if 26214400 < int (length d) then Inl (ErrText ''image edit reference exceeds 25 MiB'')
                                   else Inr (''image'' @ (case ExtensionsByType lib t of [] \<Rightarrow> ''.bin'' | x # _ \<Rightarrow> x), t, encoded)))))"

definition resolveUploadedReference :: "NetLib \<Rightarrow> string \<Rightarrow> string \<Rightarrow> string \<Rightarrow> string" where
  "resolveUploadedReference lib fileID fileURI userID =
     (if TrimSpace fileURI \<noteq> ''''
      then (case ParseURL lib fileURI of
              Some u \<Rightarrow> if Scheme u = ''http'' \<or> Scheme u = ''https'' then URLText lib u
                        else ''https://assets.grok.com/'' @ TrimLeft fileURI (CHR ''/'')
            | None \<Rightarrow> ''https://assets.grok.com/'' @ TrimLeft fileURI (CHR ''/''))
      else if TrimSpace fileID \<noteq> '''' \<and> TrimSpace userID \<noteq> ''''
      then ''https://assets.grok.com/users/'' @ PathEscape lib (TrimSpace userID) @ ''/'' @ PathEscape lib (TrimSpace fileID) @ ''/content''
      else '''')"

text \<open>An \<open>HTTPError\<close> is told from the other errors.\<close>

datatype upload_error = UploadHTTP int string | UploadFailed error

type_synonym uploadedReference = "upload_error + string"

record UploadOrder =
  up_order :: "nat list"
  up_cancelled :: "nat \<Rightarrow> error option"

definition upload_reply :: "('c, 'w) GrokEnv \<Rightarrow> string \<Rightarrow> Response \<Rightarrow> uploadedReference" where
  "upload_reply env assetUserID r =
     (if grok_failed r then Inl (UploadHTTP (resp_StatusCode r) (resp_Body r))
      else (case Unmarshal (ge_lib env) (resp_Body r) of
              None \<Rightarrow> Inl (UploadFailed (ErrText ''decode image upload response''))
            | Some payload \<Rightarrow>
                (let userID = stringValue payload [''userId'', ''userID''];
                     url = resolveUploadedReference (ge_net env) (stringValue payload [''fileMetadataId'', ''fileId'']) (stringValue payload [''fileUri''])
                             (if userID = '''' then assetUserID else userID)
                 in if url = '''' then Inl (UploadFailed (ErrText ''image upload returned no resolvable asset reference'')) else Inr url)))"

definition upload_one :: "('c, 'w) GrokEnv \<Rightarrow> UploadOrder \<Rightarrow> Request \<Rightarrow> string \<Rightarrow> string \<Rightarrow> nat \<Rightarrow> 'w \<Rightarrow> uploadedReference \<times> 'w" where
  "upload_one env sched input base raw i w =
     (case up_cancelled sched i of
        Some e \<Rightarrow> (Inl (UploadFailed e), w)
      | None \<Rightarrow>
          if isHTTPURL (ge_net env) raw then (Inr raw, w)
          else (case parseImageDataURI (ge_mime env) raw of
                  Inl e \<Rightarrow> (Inl (UploadFailed e), w)
                | Inr (filename, contentType, encoded) \<Rightarrow>
                    (case doGrokJSON env input ''POST'' (base @ ''/rest/app-chat/upload-file'')
                            (JObj [(''fileName'', JStr filename), (''fileMimeType'', JStr contentType), (''content'', JStr encoded)]) 2097152 w of
                       (Inl e, w) \<Rightarrow> (Inl (UploadFailed e), w)
                     | (Inr r, w) \<Rightarrow> (upload_reply env (credentialUserID (ge_net env) (req_Credentials input)) r, w))))"

text \<open>The goroutines in their order, each with its own place in the results; \<open>raw\<close> is the text of a reference.\<close>

fun upload_all :: "('c, 'w) GrokEnv \<Rightarrow> UploadOrder \<Rightarrow> Request \<Rightarrow> string \<Rightarrow> string list \<Rightarrow> nat list \<Rightarrow> uploadedReference list \<Rightarrow> 'w
    \<Rightarrow> uploadedReference list \<times> 'w" where
  "upload_all env sched input base raws [] results w = (results, w)"
| "upload_all env sched input base raws (i # order) results w =
     (case upload_one env sched input base (raws ! i) i w of
        (r, w) \<Rightarrow> upload_all env sched input base raws order (results[i := r]) w)"

text \<open>The results in the order of the references, or the first failure.\<close>

fun collect_uploads :: "uploadedReference list \<Rightarrow> error + Response + json list" where
  "collect_uploads [] = Inr (Inr [])"
| "collect_uploads (Inl (UploadHTTP code body) # rest) =
     Inr (Inl \<lparr>resp_StatusCode = code, resp_Header = (\<lambda>_. ''''), resp_Body = body, resp_Events = None\<rparr>)"
| "collect_uploads (Inl (UploadFailed e) # rest) = Inl e"
| "collect_uploads (Inr url # rest) =
     (case collect_uploads rest of Inr (Inr urls) \<Rightarrow> Inr (Inr (JStr url # urls)) | other \<Rightarrow> other)"

definition uploadEditReferences ::
  "('c, 'w) GrokEnv \<Rightarrow> UploadOrder \<Rightarrow> Request \<Rightarrow> string \<Rightarrow> json list \<Rightarrow> 'w \<Rightarrow> (error + Response + json list) \<times> 'w" where
  "uploadEditReferences env sched input base references w =
     (case upload_all env sched input base (map (Sprint (ge_lib env)) references) (up_order sched) (map (\<lambda>_. Inr '''') references) w of
        (results, w) \<Rightarrow> (collect_uploads results, w))"

section \<open>Image edits\<close>

definition maxImageEditReferences :: nat where "maxImageEditReferences = 7"

definition edit_references :: "json list \<Rightarrow> json list" where
  "edit_references references = drop (length references - maxImageEditReferences) references"

definition edit_source :: "object \<Rightarrow> string \<Rightarrow> json list \<Rightarrow> string \<Rightarrow> object" where
  "edit_source source prompt resolved parentID =
     (let s = fold drop_key [''image'', ''images'', ''image_url'', ''image_urls''] source
      in set_to ''parentPostId'' (JStr parentID) (set_to ''image_references'' (JArr resolved) (set_to ''prompt'' (JStr prompt) s)))"

definition doGrokImageEdit :: "('c, 'w) GrokEnv \<Rightarrow> UploadOrder \<Rightarrow> Request \<Rightarrow> 'w \<Rightarrow> (error + Response) \<times> 'w" where
  "doGrokImageEdit env sched input w =
     (case Unmarshal (ge_lib env) (req_Body input) of
        None \<Rightarrow> (Inl (ErrText ''decode image edit request''), w)
      | Some source \<Rightarrow>
          (let prompt = TrimSpace (stringValue source [''prompt'']);
               references = imageReferences source
           in if prompt = '''' then (Inl (ErrText ''image edit prompt is required''), w)
              else if references = [] then (Inl (ErrText ''image edit requires at least one image''), w)
              else (case grokBase (ge_net env) (ge_config env) input of
                      Inl e \<Rightarrow> (Inl e, w)
                    | Inr base \<Rightarrow>
                        try_do (uploadEditReferences env sched input base (edit_references references) w) (\<lambda>up w.
                        case up of
                          Inl response \<Rightarrow> (Inr response, w)
                        | Inr resolved \<Rightarrow>
                            try_do (doGrokJSON env input ''POST'' (base @ ''/rest/media/post/create'')
                                      (JObj [(''mediaType'', JStr ''MEDIA_POST_TYPE_IMAGE''), (''prompt'', JStr prompt)]) 2097152 w) (\<lambda>post w.
                            if grok_failed post then (Inr post, w)
                            else (case Unmarshal (ge_lib env) (resp_Body post) of
                                    None \<Rightarrow> (Inl (ErrText ''decode image edit media post response''), w)
                                  | Some payload \<Rightarrow>
                                      (let p = as_map (jget payload ''post'');
                                           parentID = stringValue p [''id''];
                                           improved = TrimSpace (stringValue p [''originalPrompt'', ''prompt'']);
                                           prompt = (if improved \<noteq> '''' then improved else prompt)
                                       in if parentID = '''' then (Inl (ErrText ''image edit media post returned no id''), w)
                                          else doGrokJSON env input ''POST'' (base @ ''/rest/app-chat/conversations/new'')
                                                 (JObj (prepareGrokWebPayload (ge_lib env) input (edit_source source prompt resolved parentID) (req_UpstreamModel input)))
                                                 (MaxResponseSize (ge_config env)) w)))))))"

end
