(* ===== verification/Grok_Video.thy ===== *)
theory Grok_Video
  imports Grok_Client
begin

text \<open>
  Videos of the Grok web site (\<open>internal/upstream/grok_video.go\<close>): jobs that run in the background, their status, and the requests they make.

  The state is the table of jobs and the network. A job runs in one goroutine; others read the table and change entries of other identifiers, so its
  steps may be run one after the other. \<open>VideoEnv\<close> adds to the client the clock, the context of the job (asked after every event) and the text of
  HTTP status codes. Go's \<open>float64\<close> appears in two places and is written out with its rounding.
\<close>

section \<open>Doubles\<close>

definition round_even :: "rat \<Rightarrow> int" where
  "round_even r =
     (let f = \<lfloor>r\<rfloor>; d = r - of_int f
      in if d < 1 / 2 then f else if 1 / 2 < d then f + 1 else if even f then f else f + 1)"

text \<open>The exponent that leaves 53 bits, for numbers of at least \<open>2 ^ (- 12)\<close>; smaller ones do not appear, except zero.\<close>

fun binade :: "nat \<Rightarrow> rat \<Rightarrow> nat" where
  "binade 0 r = 0"
| "binade (Suc n) r = (if 2 ^ 53 \<le> r * 2 ^ Suc n then binade n r else Suc n)"

definition double :: "rat \<Rightarrow> rat" where
  "double r = (let e = binade 64 r in of_int (round_even (r * 2 ^ e)) / 2 ^ e)"

section \<open>Jobs\<close>

record grokVideoJob =
  vj_ID :: string
  vj_Model :: string
  vj_Prompt :: string
  vj_Seconds :: int
  vj_Size :: string
  vj_Status :: string
  vj_Progress :: int
  vj_URL :: string
  vj_Thumbnail :: string
  vj_Error :: string
  vj_ErrorStatus :: int
  vj_CreatedAt :: time
  vj_CompletedAt :: "time option"

record grokVideoInput =
  vi_prompt :: string
  vi_seconds :: int
  vi_size :: string
  vi_ratio :: string
  vi_resolution :: string
  vi_preset :: string
  vi_references :: "json list"

record grokVideoArtifact =
  va_url :: string
  va_thumbnail :: string
  va_videoPostID :: string
  va_assetID :: string

definition no_artifact :: grokVideoArtifact where
  "no_artifact = \<lparr>va_url = '''', va_thumbnail = '''', va_videoPostID = '''', va_assetID = ''''\<rparr>"

record 'w VideoState =
  vs_jobs :: "string \<rightharpoonup> grokVideoJob"
  vs_net :: 'w

record ('c, 'w) VideoEnv =
  ve_grok :: "('c, 'w) GrokEnv"
  ve_now :: "'w \<Rightarrow> time \<times> 'w"
  ve_done :: "'w \<Rightarrow> error option \<times> 'w"
  ve_status :: "int \<Rightarrow> string"

definition on_net :: "('w \<Rightarrow> 'a \<times> 'w) \<Rightarrow> 'w VideoState \<Rightarrow> 'a \<times> 'w VideoState" where
  "on_net f st = (case f (vs_net st) of (x, w) \<Rightarrow> (x, st\<lparr>vs_net := w\<rparr>))"

definition updateVideoJob :: "string \<Rightarrow> (grokVideoJob \<Rightarrow> grokVideoJob) \<Rightarrow> 'w VideoState \<Rightarrow> 'w VideoState" where
  "updateVideoJob i f st = (case vs_jobs st i of None \<Rightarrow> st | Some job \<Rightarrow> st\<lparr>vs_jobs := (vs_jobs st)(i \<mapsto> f job)\<rparr>)"

definition job_public :: "grokVideoJob \<Rightarrow> object" where
  "job_public j =
     [(''id'', JStr (vj_ID j)), (''object'', JStr ''video''), (''created_at'', num (unix_seconds (vj_CreatedAt j))), (''status'', JStr (vj_Status j)),
      (''model'', JStr (vj_Model j)), (''progress'', num (vj_Progress j)), (''prompt'', JStr (vj_Prompt j)), (''seconds'', JStr (FormatInt (vj_Seconds j))),
      (''size'', JStr (vj_Size j)), (''quality'', JStr ''standard'')] @
     (case vj_CompletedAt j of None \<Rightarrow> [] | Some t \<Rightarrow> [(''completed_at'', num (unix_seconds t))]) @
     (if vj_URL j \<noteq> '''' then [(''url'', JStr (vj_URL j))] else []) @
     (if vj_Thumbnail j \<noteq> '''' then [(''thumbnail_url'', JStr (vj_Thumbnail j))] else []) @
     (if vj_Error j \<noteq> ''''
      then [(''error'', JObj [(''code'', JStr ''video_generation_failed''), (''message'', JStr (vj_Error j)), (''upstream_status'', num (vj_ErrorStatus j))])]
      else [])"

text \<open>Why a job failed: the status of the upstream, or zero, and a message.\<close>

type_synonym video_fault = "int \<times> string"

definition fail_error :: "error \<Rightarrow> video_fault" where "fail_error e = (0, error_text e)"

definition fail_response :: "('c, 'w) VideoEnv \<Rightarrow> Response \<Rightarrow> video_fault" where
  "fail_response env r = (resp_StatusCode r, HTTPError_Error (ve_status env) (resp_StatusCode r) (resp_Body r))"

definition failVideoJob :: "('c, 'w) VideoEnv \<Rightarrow> string \<Rightarrow> video_fault \<Rightarrow> 'w VideoState \<Rightarrow> 'w VideoState" where
  "failVideoJob env i fault st =
     (case on_net (ve_now env) st of (t, st) \<Rightarrow>
        updateVideoJob i (\<lambda>j. j\<lparr>vj_Status := ''failed'', vj_Error := snd fault, vj_ErrorStatus := fst fault, vj_CompletedAt := Some t\<rparr>) st)"

section \<open>Parameters\<close>

definition videoSegments :: "int \<Rightarrow> int list" where
  "videoSegments seconds =
     (if seconds = 6 \<or> seconds = 10 then [seconds] else if seconds = 12 then [6, 6] else if seconds = 16 then [10, 6]
      else if seconds = 20 then [10, 10] else [])"

definition videoSize :: "string \<Rightarrow> string \<times> string" where
  "videoSize dims =
     (if dims \<in> {''720x1280'', ''1024x1792''} then (''9:16'', ''720p'')
      else if dims \<in> {''1280x720'', ''1792x1024''} then (''16:9'', ''720p'')
      else if dims = ''1024x1024'' then (''1:1'', ''720p'')
      else ('''', ''''))"

definition preset_flag :: "string \<Rightarrow> string" where
  "preset_flag preset =
     (if preset = ''fun'' then ''--mode=extremely-crazy'' else if preset = ''normal'' then ''--mode=normal''
      else if preset = ''spicy'' then ''--mode=extremely-spicy-or-crazy'' else if preset = ''custom'' then ''--mode=custom'' else '''')"

definition videoPrompt :: "string \<Rightarrow> string \<Rightarrow> string" where
  "videoPrompt prompt preset = TrimSpace (prompt @ '' '' @ preset_flag preset)"

definition videoReferences :: "object \<Rightarrow> json list" where
  "videoReferences payload =
     (case first_member payload [''input_reference[]'', ''input_reference'', ''input_references'', ''image_references''] of
        None \<Rightarrow> []
      | Some v \<Rightarrow> imageReferences [(''image_references'', v)])"

definition parseGrokVideoInput :: "UpstreamLib \<Rightarrow> string \<Rightarrow> error + grokVideoInput" where
  "parseGrokVideoInput lib body =
     (case Unmarshal lib body of
        None \<Rightarrow> Inl (ErrText ''decode video request'')
      | Some payload \<Rightarrow>
          (let prompt = TrimSpace (stringValue payload [''prompt'']);
               seconds = intValue (jget payload ''seconds'');
               seconds = (if seconds = 0 then 6 else seconds);
               dims = TrimSpace (stringValue payload [''size'']);
               dims = (if dims = '''' then ''720x1280'' else dims);
               preset = ToLower (TrimSpace (stringValue payload [''preset'']));
               preset = (if preset = '''' then ''custom'' else preset);
               override = ToLower (TrimSpace (stringValue payload [''resolution_name'']))
           in if prompt = '''' then Inl (ErrText ''video prompt is required'')
              else if seconds \<notin> {6, 10, 12, 16, 20} then Inl (ErrText ''video seconds must be one of 6, 10, 12, 16, or 20'')
              else if fst (videoSize dims) = '''' then Inl (ErrText ''unsupported video size'')
              else if override \<noteq> '''' \<and> override \<notin> {''480p'', ''720p''} then Inl (ErrText ''video resolution_name must be 480p or 720p'')
              else if preset \<notin> {''fun'', ''normal'', ''spicy'', ''custom''} then Inl (ErrText ''video preset must be fun, normal, spicy, or custom'')
              else Inr \<lparr>vi_prompt = prompt, vi_seconds = seconds, vi_size = dims, vi_ratio = fst (videoSize dims),
                        vi_resolution = (if override \<noteq> '''' then override else snd (videoSize dims)), vi_preset = preset,
                        vi_references = videoReferences payload\<rparr>))"

definition video_config :: "grokVideoInput \<Rightarrow> string \<Rightarrow> string \<Rightarrow> int \<Rightarrow> int \<Rightarrow> bool \<Rightarrow> json list \<Rightarrow> object" where
  "video_config request parentID extendID seconds elapsed continues references =
     [(''parentPostId'', JStr parentID), (''aspectRatio'', JStr (vi_ratio request)), (''videoLength'', num seconds),
      (''resolutionName'', JStr (vi_resolution request))] @
     (if continues
      then [(''isVideoExtension'', JBool True), (''videoExtensionStartTime'', JFloat (double (of_int elapsed + double (1 / 24)))),
            (''extendPostId'', JStr extendID), (''stitchWithExtendPostId'', JBool True), (''originalPrompt'', JStr (vi_prompt request)),
            (''originalPostId'', JStr parentID), (''originalRefType'', JStr ''ORIGINAL_REF_TYPE_VIDEO_EXTENSION''), (''mode'', JStr (vi_preset request)),
            (''isVideoEdit'', JBool False)]
      else if references \<noteq> [] then [(''isVideoEdit'', JBool False), (''isReferenceToVideo'', JBool True), (''imageReferences'', JArr references)]
      else [])"

definition grokVideoPayload :: "grokVideoInput \<Rightarrow> string \<Rightarrow> string \<Rightarrow> int \<Rightarrow> int \<Rightarrow> bool \<Rightarrow> json list \<Rightarrow> object" where
  "grokVideoPayload request parentID extendID seconds elapsed continues references =
     [(''temporary'', JBool True), (''modelName'', JStr ''imagine-video-gen''), (''message'', JStr (videoPrompt (vi_prompt request) (vi_preset request))),
      (''enableSideBySide'', JBool True),
      (''responseMetadata'', JObj [(''experiments'', JArr []), (''modelConfigOverride'', JObj [(''modelMap'', JObj [(''videoGenModelConfig'',
         JObj (video_config request parentID extendID seconds elapsed continues references))])])])]"

section \<open>Running a job\<close>

fun nestedObject :: "json \<Rightarrow> string list \<Rightarrow> object option" where
  "nestedObject current [] = as_object current"
| "nestedObject current (key # keys) = (case as_object current of None \<Rightarrow> None | Some m \<Rightarrow> nestedObject (jget m key) keys)"

definition mediaPostID :: "UpstreamLib \<Rightarrow> string \<Rightarrow> error + string" where
  "mediaPostID lib body =
     (case Unmarshal lib body of
        None \<Rightarrow> Inl (ErrText ''decode media post response'')
      | Some payload \<Rightarrow>
          (let i = stringValue (as_map (jget payload ''post'')) [''id'']
           in if i = '''' then Inl (ErrText ''media post returned no id'') else Inr i))"

definition scaled_progress :: "int \<Rightarrow> int \<Rightarrow> int \<Rightarrow> int" where
  "scaled_progress segment count progress =
     truncate_rat (double (double (double (of_int segment + double (of_int progress / 100)) / of_int count) * 100))"

definition post_or_fail :: "('c, 'w) VideoEnv \<Rightarrow> Request \<Rightarrow> string \<Rightarrow> json \<Rightarrow> int \<Rightarrow> 'w VideoState \<Rightarrow> (video_fault + Response) \<times> 'w VideoState" where
  "post_or_fail env input url payload maximum st =
     (case on_net (doGrokJSON (ve_grok env) input ''POST'' url payload maximum) st of
        (Inl e, st) \<Rightarrow> (Inl (fail_error e), st)
      | (Inr r, st) \<Rightarrow> (if grok_failed r then Inl (fail_response env r) else Inr r, st))"

text \<open>The post a video belongs to: of the first reference, or of the prompt.\<close>

definition parent_payload ::
  "('c, 'w) VideoEnv \<Rightarrow> UploadOrder \<Rightarrow> Request \<Rightarrow> string \<Rightarrow> grokVideoInput \<Rightarrow> 'w VideoState \<Rightarrow> (video_fault + json) \<times> 'w VideoState" where
  "parent_payload env sched input base request st =
     (if vi_references request \<noteq> []
      then (case on_net (uploadEditReferences (ve_grok env) sched input base (vi_references request)) st of
              (Inl e, st) \<Rightarrow> (Inl (fail_error e), st)
            | (Inr (Inl response), st) \<Rightarrow> (Inl (fail_response env response), st)
            | (Inr (Inr resolved), st) \<Rightarrow> (Inr (JObj [(''mediaType'', JStr ''MEDIA_POST_TYPE_IMAGE''), (''mediaUrl'', hd resolved)]), st))
      else (Inr (JObj [(''mediaType'', JStr ''MEDIA_POST_TYPE_VIDEO''), (''prompt'', JStr (vi_prompt request))]), st))"

definition parent_post ::
  "('c, 'w) VideoEnv \<Rightarrow> UploadOrder \<Rightarrow> Request \<Rightarrow> string \<Rightarrow> grokVideoInput \<Rightarrow> 'w VideoState \<Rightarrow> (video_fault + string) \<times> 'w VideoState" where
  "parent_post env sched input base request st =
     try_do (parent_payload env sched input base request st) (\<lambda>payload st.
     try_do (post_or_fail env input (base @ ''/rest/media/post/create'') payload 2097152 st) (\<lambda>r st.
       (case mediaPostID (ge_lib (ve_grok env)) (resp_Body r) of Inl e \<Rightarrow> Inl (fail_error e) | Inr i \<Rightarrow> Inr i, st)))"

text \<open>What an event with a raw frame tells.\<close>

definition stream_artifact :: "object \<Rightarrow> grokVideoArtifact \<Rightarrow> grokVideoArtifact" where
  "stream_artifact s a =
     (let u = stringValue s [''videoUrl'']
      in \<lparr>va_url = (if u \<noteq> '''' then absoluteAssetURL u else va_url a), va_thumbnail = absoluteAssetURL (stringValue s [''thumbnailImageUrl'']),
          va_videoPostID = stringValue s [''videoPostId'', ''videoId''], va_assetID = stringValue s [''assetId'']\<rparr>)"

definition video_frame :: "('c, 'w) VideoEnv \<Rightarrow> string \<Rightarrow> int \<Rightarrow> int \<Rightarrow> string \<Rightarrow> grokVideoArtifact \<Rightarrow> 'w VideoState \<Rightarrow> grokVideoArtifact \<times> 'w VideoState" where
  "video_frame env i segment count raw a st =
     (if raw = '''' then (a, st)
      else (case Unmarshal (ge_lib (ve_grok env)) raw of
              None \<Rightarrow> (a, st)
            | Some payload \<Rightarrow>
                (case nestedObject (JObj payload) [''result'', ''response'', ''streamingVideoGenerationResponse''] of
                   None \<Rightarrow> (a, st)
                 | Some s \<Rightarrow>
                     (let progress = min 100 (max 0 (intValue (jget s ''progress'')));
                          scaled = scaled_progress segment count progress
                      in (stream_artifact s a, updateVideoJob i (\<lambda>j. j\<lparr>vj_Progress := max (vj_Progress j) scaled\<rparr>) st)))))"

fun collect_video ::
  "('c, 'w) VideoEnv \<Rightarrow> string \<Rightarrow> int \<Rightarrow> int \<Rightarrow> Event list \<Rightarrow> grokVideoArtifact \<Rightarrow> 'w VideoState \<Rightarrow> (error + grokVideoArtifact) \<times> 'w VideoState" where
  "collect_video env i segment count [] a st =
     (if va_url a = '''' then Inl (ErrText ''video segment returned no final URL'') else Inr a, st)"
| "collect_video env i segment count (ev # evs) a st =
     (if ev_Kind ev = EventError then (Inl (ErrText (ev_Error ev)), st)
      else (case video_frame env i segment count (Raw ev)
                   (if ev_Kind ev = EventVideo \<and> ev_URL ev \<noteq> '''' then a\<lparr>va_url := ev_URL ev\<rparr> else a) st of
              (a, st) \<Rightarrow>
                (case on_net (ve_done env) st of
                   (Some e, st) \<Rightarrow> (Inl e, st)
                 | (None, st) \<Rightarrow> collect_video env i segment count evs a st)))"

definition collectGrokVideoSegment ::
  "('c, 'w) VideoEnv \<Rightarrow> Response \<Rightarrow> string \<Rightarrow> int \<Rightarrow> int \<Rightarrow> 'w VideoState \<Rightarrow> (error + grokVideoArtifact) \<times> 'w VideoState" where
  "collectGrokVideoSegment env response i segment count st =
     (case resp_Events response of
        None \<Rightarrow> (Inl (ErrText ''video upstream did not stream events''), st)
      | Some events \<Rightarrow> collect_video env i segment count events no_artifact st)"

text \<open>
  The segments one after the other; \<open>resolvedReferences\<close> of the loop is the outer variable, which still holds the references of the request: the
  one with the uploaded addresses is declared in the block before and is gone.
\<close>

fun run_segments ::
  "('c, 'w) VideoEnv \<Rightarrow> Request \<Rightarrow> string \<Rightarrow> grokVideoInput \<Rightarrow> string \<Rightarrow> string \<Rightarrow> int \<Rightarrow> int list \<Rightarrow> int \<Rightarrow> string \<Rightarrow> int \<Rightarrow> grokVideoArtifact
    \<Rightarrow> 'w VideoState \<Rightarrow> (video_fault + grokVideoArtifact) \<times> 'w VideoState" where
  "run_segments env input base request i parentID count [] index extendID elapsed a st = (Inr a, st)"
| "run_segments env input base request i parentID count (seconds # rest) index extendID elapsed a st =
     try_do (post_or_fail env input (base @ ''/rest/app-chat/conversations/new'')
               (JObj (grokVideoPayload request parentID extendID seconds elapsed (0 < index) (vi_references request)))
               (MaxResponseSize (ge_config (ve_grok env))) st) (\<lambda>response st.
     try_do (on_err fail_error (collectGrokVideoSegment env response i index count st)) (\<lambda>a st.
       run_segments env input base request i parentID count rest (index + 1)
         (if va_videoPostID a \<noteq> '''' then va_videoPostID a else if va_assetID a \<noteq> '''' then va_assetID a else extendID) (elapsed + seconds) a st))"

definition generate_video ::
  "('c, 'w) VideoEnv \<Rightarrow> UploadOrder \<Rightarrow> Request \<Rightarrow> grokVideoInput \<Rightarrow> string \<Rightarrow> 'w VideoState \<Rightarrow> (video_fault + grokVideoArtifact) \<times> 'w VideoState" where
  "generate_video env sched input request i st =
     (case grokBase (ge_net (ve_grok env)) (ge_config (ve_grok env)) input of
        Inl e \<Rightarrow> (Inl (fail_error e), st)
      | Inr base \<Rightarrow>
          try_do (parent_post env sched input base request st) (\<lambda>parentID st.
          try_do (run_segments env input base request i parentID (int (length (videoSegments (vi_seconds request)))) (videoSegments (vi_seconds request))
                    0 parentID 0 no_artifact st) (\<lambda>a st.
            (if va_url a = '''' then Inl (0, ''video generation returned no final URL'') else Inr a, st))))"

definition runGrokVideo ::
  "('c, 'w) VideoEnv \<Rightarrow> UploadOrder \<Rightarrow> Request \<Rightarrow> grokVideoInput \<Rightarrow> string \<Rightarrow> 'w VideoState \<Rightarrow> 'w VideoState" where
  "runGrokVideo env sched input request i st =
     (case generate_video env sched input request i (updateVideoJob i (\<lambda>j. j\<lparr>vj_Status := ''in_progress'', vj_Progress := 1\<rparr>) st) of
        (Inl fault, st) \<Rightarrow> failVideoJob env i fault st
      | (Inr a, st) \<Rightarrow>
          (case on_net (ve_now env) st of (t, st) \<Rightarrow>
             updateVideoJob i (\<lambda>j. j\<lparr>vj_Status := ''completed'', vj_Progress := 100, vj_URL := va_url a, vj_Thumbnail := va_thumbnail a,
               vj_CompletedAt := Some t\<rparr>) st))"

section \<open>Starting a job and asking for it\<close>

definition json_response :: "int \<Rightarrow> string \<Rightarrow> Response" where
  "json_response code body =
     \<lparr>resp_StatusCode = code, resp_Header = (\<lambda>_. '''')(''Content-Type'' := ''application/json''), resp_Body = body, resp_Events = None\<rparr>"

text \<open>The answer and the job that was started; the goroutine runs \<open>runGrokVideo\<close> and removes the job an hour later.\<close>

definition startGrokVideo :: "('c, 'w) VideoEnv \<Rightarrow> Request \<Rightarrow> 'w VideoState \<Rightarrow> (error + Response \<times> grokVideoInput \<times> string) \<times> 'w VideoState" where
  "startGrokVideo env input st =
     (case parseGrokVideoInput (ge_lib (ve_grok env)) (req_Body input) of
        Inl e \<Rightarrow> (Inl e, st)
      | Inr request \<Rightarrow>
          (case on_net (ve_now env) st of (t, st) \<Rightarrow>
             let i = ''video_'' @ filter (\<lambda>c. c \<noteq> CHR ''-'') (RandomID (ge_net (ve_grok env)));
                 job = \<lparr>vj_ID = i, vj_Model = req_Model input, vj_Prompt = vi_prompt request, vj_Seconds = vi_seconds request, vj_Size = vi_size request,
                        vj_Status = ''queued'', vj_Progress = 0, vj_URL = '''', vj_Thumbnail = '''', vj_Error = '''', vj_ErrorStatus = 0,
                        vj_CreatedAt = t, vj_CompletedAt = None\<rparr>
             in (Inr (json_response 200 (Marshal_json (ge_lib (ve_grok env)) (JObj (job_public job))), request, i), st\<lparr>vs_jobs := (vs_jobs st)(i \<mapsto> job)\<rparr>)))"

definition remove_video :: "string \<Rightarrow> 'w VideoState \<Rightarrow> 'w VideoState" where
  "remove_video i st = st\<lparr>vs_jobs := (vs_jobs st)(i := None)\<rparr>"

definition grokVideoStatus :: "('c, 'w) VideoEnv \<Rightarrow> string \<Rightarrow> 'w VideoState \<Rightarrow> Response" where
  "grokVideoStatus env i st =
     (case vs_jobs st (TrimSpace i) of
        None \<Rightarrow> \<lparr>resp_StatusCode = 404, resp_Header = (\<lambda>_. ''''), resp_Body = ''{\"error\":{\"message\":\"video job not found\"}}'', resp_Events = None\<rparr>
      | Some job \<Rightarrow> json_response 200 (Marshal_json (ge_lib (ve_grok env)) (JObj (job_public job))))"

end
