(* ===== verification/Imagine.thy ===== *)
theory Imagine
  imports Grok_Client
begin

text \<open>
  Images over the web socket of Grok Imagine (\<open>internal/upstream/imagine.go\<close>).

  What the socket delivers is a list of messages and the error that ends it: the reader has a timeout, so some read fails when the messages are used
  up. \<open>ws_dial\<close> opens the connection and \<open>ws_write\<close> sends a text message. Image addresses are ASCII, for which the case-insensitive
  expression is exact.
\<close>

datatype ws_message = WsText string | WsOther

text \<open>The error of the last read: closed by the other side with a status, or another error; with its text.\<close>

record ws_end =
  we_closed :: bool
  we_text :: string

record ('s, 'w) ImagineEnv =
  ws_dial :: "string \<Rightarrow> header \<Rightarrow> 'w \<Rightarrow> (Response option \<times> error + 's) \<times> 'w"
  ws_write :: "'s \<Rightarrow> json \<Rightarrow> 'w \<Rightarrow> (string + unit) \<times> 'w"
  ws_read :: "'s \<Rightarrow> 'w \<Rightarrow> (ws_message list \<times> ws_end) \<times> 'w"
  ws_now :: "'w \<Rightarrow> time \<times> 'w"

record imagineSlot =
  slot_url :: string
  slot_blob :: string
  slot_format :: string
  slot_completed :: bool

definition no_slot :: imagineSlot where
  "no_slot = \<lparr>slot_url = '''', slot_blob = '''', slot_format = '''', slot_completed = False\<rparr>"

section \<open>The request\<close>

definition imagineAspectRatio :: "string \<Rightarrow> string" where
  "imagineAspectRatio s =
     (let v = ToLower (TrimSpace s)
      in if v \<in> {''1280x720'', ''16:9''} then ''16:9''
         else if v \<in> {''720x1280'', ''9:16''} then ''9:16''
         else if v \<in> {''1792x1024'', ''3:2''} then ''3:2''
         else if v \<in> {''1024x1792'', ''2:3'', ''''} then ''2:3''
         else if v \<in> {''1024x1024'', ''1:1''} then ''1:1''
         else ''2:3'')"

definition imagineInput :: "UpstreamLib \<Rightarrow> Request \<Rightarrow> error + string \<times> int \<times> string \<times> bool" where
  "imagineInput lib input =
     (case Unmarshal lib (req_Body input) of
        None \<Rightarrow> Inl (ErrText ''decode image request'')
      | Some payload \<Rightarrow>
          (let prompt = TrimSpace (stringValue payload [''prompt'']);
               count = intValue (jget payload ''n'');
               count = (if count = 0 then 1 else count)
           in if prompt = '''' then Inl (ErrText ''image prompt is required'')
              else if count < 1 \<or> 4 < count then Inl (ErrText ''image count must be between 1 and 4'')
              else Inr (prompt, count, imagineAspectRatio (stringValue payload [''size'', ''aspect_ratio'']),
                        Contains (ToLower (req_Model input @ '' '' @ req_UpstreamModel input)) ''pro'')))"

definition imagine_messages :: "string \<Rightarrow> time \<Rightarrow> time \<Rightarrow> string \<Rightarrow> string \<Rightarrow> bool \<Rightarrow> json list" where
  "imagine_messages requestID t1 t2 prompt ratio pro =
     [JObj [(''type'', JStr ''conversation.item.create''), (''timestamp'', num (unix_milli t1)),
            (''item'', JObj [(''type'', JStr ''message''), (''content'', JArr [JObj [(''type'', JStr ''reset'')]])])],
      JObj [(''type'', JStr ''conversation.item.create''), (''timestamp'', num (unix_milli t2)),
            (''item'', JObj [(''type'', JStr ''message''), (''content'', JArr [JObj
               [(''requestId'', JStr requestID), (''text'', JStr prompt), (''type'', JStr ''input_text''),
                (''properties'', JObj [(''section_count'', num 0), (''is_kids_mode'', JBool False), (''enable_nsfw'', JBool True),
                   (''skip_upsampler'', JBool False), (''enable_side_by_side'', JBool True), (''is_initial'', JBool False),
                   (''aspect_ratio'', JStr ratio), (''enable_pro'', JBool pro)])]])])]]"

fun write_all :: "('s, 'w) ImagineEnv \<Rightarrow> 's \<Rightarrow> json list \<Rightarrow> 'w \<Rightarrow> (string + unit) \<times> 'w" where
  "write_all env c [] w = (Inr (), w)"
| "write_all env c (m # ms) w =
     (case ws_write env c m w of (Inl e, w) \<Rightarrow> (Inl (''write imagine request: '' @ e), w) | (Inr _, w) \<Rightarrow> write_all env c ms w)"

definition writeImagineRequest :: "('s, 'w) ImagineEnv \<Rightarrow> string \<Rightarrow> 's \<Rightarrow> string \<Rightarrow> string \<Rightarrow> bool \<Rightarrow> 'w \<Rightarrow> (string + unit) \<times> 'w" where
  "writeImagineRequest env requestID c prompt ratio pro w =
     (case ws_now env w of (t1, w) \<Rightarrow> case ws_now env w of (t2, w) \<Rightarrow>
        write_all env c (imagine_messages requestID t1 t2 prompt ratio pro) w)"

section \<open>The answer\<close>

definition hex_dash :: "char \<Rightarrow> bool" where
  "hex_dash c \<longleftrightarrow> (CHR ''0'' \<le> c \<and> c \<le> CHR ''9'') \<or> (CHR ''a'' \<le> lower_char c \<and> lower_char c \<le> CHR ''f'') \<or> c = CHR ''-''"

text \<open>The identifier and the extension at this place; the classes do not overlap, so no backtracking is needed.\<close>

definition match_image :: "string \<Rightarrow> (string \<times> string) option" where
  "match_image s =
     (if ToLower (take 8 s) \<noteq> ''/images/'' then None
      else (let rest = drop 8 s; i = takeWhile hex_dash rest; rest = dropWhile hex_dash rest
            in if i = '''' \<or> \<not> HasPrefix rest ''.'' then None
               else (case find (\<lambda>x. ToLower (take (length x) (drop 1 rest)) = x) [''png'', ''jpeg'', ''jpg'', ''webp''] of
                       None \<Rightarrow> None
                     | Some x \<Rightarrow> Some (i, take (length x) (drop 1 rest)))))"

fun find_image :: "string \<Rightarrow> (string \<times> string) option" where
  "find_image [] = None"
| "find_image (c # s) = (case match_image (c # s) of Some m \<Rightarrow> Some m | None \<Rightarrow> find_image s)"

definition parseImagineImageURL :: "string \<Rightarrow> string \<times> string" where
  "parseImagineImageURL s = (case find_image s of None \<Rightarrow> ('''', ''png'') | Some m \<Rightarrow> m)"

definition imagineSlotURL :: "imagineSlot \<Rightarrow> string" where
  "imagineSlotURL slot =
     (if slot_blob slot \<noteq> '''' then ''data:'' @ imageMIME (slot_format slot) @ '';base64,'' @ slot_blob slot
      else (let v = TrimSpace (slot_url slot)
            in if v = '''' then '''' else if HasPrefix v ''http://'' \<or> HasPrefix v ''https://'' then v
               else ''https://assets.grok.com/'' @ TrimLeft v (CHR ''/'')))"

fun firstNonEmpty :: "string list \<Rightarrow> string" where
  "firstNonEmpty [] = ''''"
| "firstNonEmpty (v # vs) = (if TrimSpace v \<noteq> '''' then v else firstNonEmpty vs)"

type_synonym slots = "string \<rightharpoonup> imagineSlot"

definition slot_at :: "slots \<Rightarrow> string \<Rightarrow> imagineSlot" where
  "slot_at m i = (case m i of Some s \<Rightarrow> s | None \<Rightarrow> no_slot)"

text \<open>A frame of status: the slots, and the event of a finished image.\<close>

definition json_frame :: "object \<Rightarrow> string \<Rightarrow> slots \<Rightarrow> slots \<times> Event list" where
  "json_frame frame data m =
     (let i = stringValue frame [''image_id'', ''job_id'']
      in if i = '''' then (m, [])
         else (let slot = slot_at m i
               in if stringValue frame [''current_status''] \<noteq> ''completed'' \<or> slot_completed slot then (m(i \<mapsto> slot), [])
                  else (let m = m(i \<mapsto> slot\<lparr>slot_completed := True\<rparr>)
                        in if is_true (jget frame ''moderated'') \<or> imagineSlotURL slot = '''' then (m, [])
                           else (m, [no_event\<lparr>ev_Kind := EventImage, ev_URL := imagineSlotURL slot, Raw := data\<rparr>]))))"

definition image_frame :: "object \<Rightarrow> slots \<Rightarrow> slots" where
  "image_frame frame m =
     (let (i, format) = parseImagineImageURL (stringValue frame [''url'']);
          i = (if i = '''' then stringValue frame [''image_id''] else i)
      in if i = '''' then m
         else m(i \<mapsto> (slot_at m i)\<lparr>slot_url := stringValue frame [''url''], slot_blob := stringValue frame [''blob''], slot_format := format\<rparr>))"

definition error_frame :: "object \<Rightarrow> string \<Rightarrow> Event" where
  "error_frame frame data =
     no_event\<lparr>ev_Kind := EventError, ev_Error := firstNonEmpty [stringValue frame [''err_msg'', ''message'', ''error''], ''imagine upstream error''],
       Raw := data\<rparr>"

definition done_event :: Event where "done_event = no_event\<lparr>ev_Kind := EventDone\<rparr>"

text \<open>The loop with the number of images collected; it ends when all are there, at an error frame, or when a read fails.\<close>

fun read_imagine :: "UpstreamLib \<Rightarrow> int \<Rightarrow> ws_end \<Rightarrow> ws_message list \<Rightarrow> slots \<Rightarrow> int \<Rightarrow> Event list" where
  "read_imagine lib requested e [] m collected =
     (if requested \<le> collected then [done_event]
      else if 0 < collected \<and> we_closed e then [done_event]
      else [no_event\<lparr>ev_Kind := EventError, ev_Error := ''read imagine websocket: '' @ we_text e\<rparr>])"
| "read_imagine lib requested e (msg # msgs) m collected =
     (if requested \<le> collected then [done_event]
      else (case msg of
              WsOther \<Rightarrow> read_imagine lib requested e msgs m collected
            | WsText data \<Rightarrow>
                (case Unmarshal lib data of
                   None \<Rightarrow> read_imagine lib requested e msgs m collected
                 | Some frame \<Rightarrow>
                     (let kind = stringValue frame [''type'']
                      in if kind = ''json''
                         then (case json_frame frame data m of
                                 (m, es) \<Rightarrow> es @ read_imagine lib requested e msgs m (collected + int (length es)))
                         else if kind = ''image'' then read_imagine lib requested e msgs (image_frame frame m) collected
                         else if kind = ''error'' then [error_frame frame data]
                         else read_imagine lib requested e msgs m collected))))"

definition readImagineEvents :: "UpstreamLib \<Rightarrow> int \<Rightarrow> ws_message list \<Rightarrow> ws_end \<Rightarrow> Event list" where
  "readImagineEvents lib requested msgs e = read_imagine lib requested e msgs Map.empty 0"

text \<open>\<open>doImagine\<close>; the client of a proxy is looked up before the connection is opened.\<close>

definition doImagine :: "('c, 'w) GrokEnv \<Rightarrow> ('s, 'w) ImagineEnv \<Rightarrow> Request \<Rightarrow> 'w \<Rightarrow> (error + Response) \<times> 'w" where
  "doImagine env ws input w =
     (case imagineInput (ge_lib env) input of
        Inl e \<Rightarrow> (Inl e, w)
      | Inr (prompt, count, ratio, pro) \<Rightarrow>
          try_do (if TrimSpace (ProxyURL input) \<noteq> '''' then on_err (Wrapped ''configure account proxy'') (ge_proxied env (ProxyURL input) w)
                  else (Inr (ge_client env), w)) (\<lambda>_ w.
          if ParseURL (ge_net env) (ImagineURL (ge_config env)) = None then (Inl (ErrText ''invalid request URL''), w)
          else (case GrokSSO_Apply (ge_net env) (req_Credentials input) (\<lambda>_. '''') of
                  Inl e \<Rightarrow> (Inl e, w)
                | Inr h \<Rightarrow>
                    (case ws_dial ws (ImagineURL (ge_config env)) h w of
                       (Inl (Some r, _), w) \<Rightarrow> (Inr \<lparr>resp_StatusCode = resp_StatusCode r, resp_Header = resp_Header r, resp_Body = '''', resp_Events = None\<rparr>, w)
                     | (Inl (None, e), w) \<Rightarrow> (Inl (Wrapped ''connect imagine websocket'' e), w)
                     | (Inr c, w) \<Rightarrow>
                         (case writeImagineRequest ws (RandomID (ge_net env)) c prompt ratio pro w of
                            (Inl e, w) \<Rightarrow>
                              (Inr \<lparr>resp_StatusCode = 200, resp_Header = (\<lambda>_. '''')(''Content-Type'' := ''application/json''), resp_Body = '''',
                                    resp_Events = Some [no_event\<lparr>ev_Kind := EventError, ev_Error := e\<rparr>]\<rparr>, w)
                          | (Inr _, w) \<Rightarrow>
                              (case ws_read ws c w of
                                 ((msgs, e), w) \<Rightarrow>
                                   (Inr \<lparr>resp_StatusCode = 200, resp_Header = (\<lambda>_. '''')(''Content-Type'' := ''application/json''), resp_Body = '''',
                                         resp_Events = Some (readImagineEvents (ge_lib env) count msgs e)\<rparr>, w)))))))"

end
