(* ===== verification/Grok_Properties.thy ===== *)
theory Grok_Properties
  imports Grok_Video Imagine
begin

text \<open>
  What the conversations with the Grok web site guarantee: reference images keep their order whatever the order of the uploads, a video job settles
  and asks for exactly its segments, and an image request ends with one final event.
\<close>

section \<open>Uploads\<close>

lemma length_upload_all: "upload_all env sched input base raws order results w = (rs, w') \<Longrightarrow> length rs = length results"
  by (induction order arbitrary: results w) (auto split: prod.splits)

lemma upload_all_nth:
  assumes "upload_all env sched input base raws order results w = (rs, w')" "distinct order" "i < length results"
  shows "if i \<in> set order then \<exists>v. rs ! i = fst (upload_one env sched input base (raws ! i) i v) else rs ! i = results ! i"
  using assms
proof (induction order arbitrary: results w)
  case (Cons k order)
  obtain r v where u: "upload_one env sched input base (raws ! k) k w = (r, v)" by (rule prod.exhaust)
  with Cons.prems(1) have rest: "upload_all env sched input base raws order (results[k := r]) v = (rs, w')" by simp
  from Cons.IH [OF rest] Cons.prems(2,3) have
    ih: "if i \<in> set order then \<exists>v. rs ! i = fst (upload_one env sched input base (raws ! i) i v) else rs ! i = results[k := r] ! i" by simp
  show ?case
  proof (cases "i = k")
    case True
    with Cons.prems(2,3) ih u have "rs ! i = fst (upload_one env sched input base (raws ! i) i w)" by auto
    with True show ?thesis by auto
  qed (use ih in auto)
qed simp

lemma collect_urls: "collect_uploads rs = Inr (Inr urls) \<Longrightarrow> \<exists>us. rs = map Inr us \<and> urls = map JStr us"
proof (induction rs arbitrary: urls rule: collect_uploads.induct)
  case (4 url rest)
  then obtain tail where t: "collect_uploads rest = Inr (Inr tail)" "urls = JStr url # tail" by (auto split: sum.splits)
  with 4(1) obtain us where us: "rest = map Inr us" "tail = map JStr us" by blast
  show ?case by (rule exI [of _ "url # us"]) (simp add: us t(2))
qed auto

text \<open>Uploads run at the same time and finish in any order, and the addresses still stand in the order of the references: there is one for each,
  a reference that is a web address stays what it is, and the address at any other place is the answer to the upload of that very reference.\<close>

theorem uploads_in_order:
  assumes "distinct (up_order sched)" "set (up_order sched) = {..<length references}"
    and "uploadEditReferences env sched input base references w = (Inr (Inr urls), w')"
  shows "length urls = length references \<and>
    list_all (\<lambda>i. if isHTTPURL (ge_net env) (Sprint (ge_lib env) (references ! i)) then urls ! i = JStr (Sprint (ge_lib env) (references ! i))
      else (\<exists>u v. urls ! i = JStr u \<and> fst (upload_one env sched input base (Sprint (ge_lib env) (references ! i)) i v) = Inr u)) [0..<length references]"
proof -
  let ?raws = "map (Sprint (ge_lib env)) references"
  obtain rs where rs: "upload_all env sched input base ?raws (up_order sched) (map (\<lambda>_. Inr '''') references) w = (rs, w')" "collect_uploads rs = Inr (Inr urls)"
    using assms(3) by (auto simp: uploadEditReferences_def split: prod.splits)
  obtain us where us: "rs = map Inr us" "urls = map JStr us" using collect_urls [OF rs(2)] by blast
  have len: "length us = length references" using length_upload_all [OF rs(1)] us by simp
  have one: "\<exists>v. Inr (us ! i) = fst (upload_one env sched input base (Sprint (ge_lib env) (references ! i)) i v)" if "i < length references" for i
    using upload_all_nth [OF rs(1) assms(1), of i] that us len assms(2) by simp
  have "us ! i = Sprint (ge_lib env) (references ! i)"
    if "i < length references" "isHTTPURL (ge_net env) (Sprint (ge_lib env) (references ! i))" for i
    using one [OF that(1)] that(2) by (auto simp: upload_one_def split: option.splits)
  with one len us show ?thesis by (fastforce simp: list_all_iff)
qed

section \<open>Video jobs\<close>

text \<open>What the work on a job changes before it settles: the progress of this job, upwards.\<close>

definition progressed :: "string \<Rightarrow> 'w VideoState \<Rightarrow> 'w VideoState \<Rightarrow> bool" where
  "progressed i st st' \<longleftrightarrow> (\<forall>k. k \<noteq> i \<longrightarrow> vs_jobs st' k = vs_jobs st k)
     \<and> (case vs_jobs st i of None \<Rightarrow> vs_jobs st' i = None | Some j \<Rightarrow> \<exists>p. vj_Progress j \<le> p \<and> vs_jobs st' i = Some (j\<lparr>vj_Progress := p\<rparr>))"

lemma same_progress: "\<exists>p\<ge>vj_Progress j. (j :: grokVideoJob) = j\<lparr>vj_Progress := p\<rparr>"
  by (rule exI [of _ "vj_Progress j"]) simp

lemma max_progress: "\<exists>p\<ge>vj_Progress j. (j :: grokVideoJob)\<lparr>vj_Progress := max (vj_Progress j) q\<rparr> = j\<lparr>vj_Progress := p\<rparr>"
  by (rule exI [of _ "max (vj_Progress j) q"]) simp

lemma progressed_same: "vs_jobs st' = vs_jobs st \<Longrightarrow> progressed i st st'"
  using same_progress by (cases "vs_jobs st i") (auto simp: progressed_def)

lemma progressed_refl [simp]: "progressed i st st"
  by (rule progressed_same) simp

lemma progressed_trans:
  assumes "progressed i st st'" "progressed i st' st''"
  shows "progressed i st st''"
proof (cases "vs_jobs st i")
  case (Some j)
  with assms(1) obtain p where p: "vj_Progress j \<le> p" "vs_jobs st' i = Some (j\<lparr>vj_Progress := p\<rparr>)" by (auto simp: progressed_def)
  with assms(2) obtain q where "p \<le> q" "vs_jobs st'' i = Some (j\<lparr>vj_Progress := q\<rparr>)" by (auto simp: progressed_def)
  with p Some assms show ?thesis by (auto simp: progressed_def intro!: exI [of _ q])
qed (use assms in \<open>auto simp: progressed_def\<close>)

lemma on_net_jobs: "on_net f st = (x, st') \<Longrightarrow> vs_jobs st' = vs_jobs st"
  by (auto simp: on_net_def split: prod.splits)

lemmas on_net_progressed = on_net_jobs [THEN progressed_same]

lemma frame_progressed: "video_frame env i seg n raw a st = (a', st') \<Longrightarrow> progressed i st st'"
  using same_progress max_progress by (auto simp: video_frame_def updateVideoJob_def progressed_def Let_def split: if_splits option.splits)

lemma collect_progressed: "collect_video env i seg n evs a st = (x, st') \<Longrightarrow> progressed i st st'"
proof (induction evs arbitrary: a st)
  case (Cons ev evs)
  obtain a1 st1 where f: "video_frame env i seg n (Raw ev) (if ev_Kind ev = EventVideo \<and> ev_URL ev \<noteq> '''' then a\<lparr>va_url := ev_URL ev\<rparr> else a) st = (a1, st1)"
    by (rule prod.exhaust)
  obtain d st2 where d: "on_net (ve_done env) st1 = (d, st2)" by (rule prod.exhaust)
  note p = progressed_trans [OF frame_progressed [OF f] on_net_progressed [OF d]]
  show ?case
  proof (cases "ev_Kind ev = EventError")
    case False
    show ?thesis
    proof (cases d)
      case None
      with Cons.prems False f d have "collect_video env i seg n evs a1 st2 = (x, st')" by simp
      from progressed_trans [OF p Cons.IH [OF this]] show ?thesis .
    qed (use Cons.prems False f d p in auto)
  qed (use Cons.prems in auto)
qed auto

lemma segment_progressed: "collectGrokVideoSegment env r i seg n st = (x, st') \<Longrightarrow> progressed i st st'"
  using collect_progressed by (auto simp: collectGrokVideoSegment_def split: option.splits)

lemma post_progressed: "post_or_fail env input url payload m st = (x, st') \<Longrightarrow> progressed i st st'"
  using on_net_progressed by (fastforce simp: post_or_fail_def split: prod.splits sum.splits)

lemma parent_progressed: "parent_post env sched input base request st = (x, st') \<Longrightarrow> progressed i st st'"
proof -
  assume r: "parent_post env sched input base request st = (x, st')"
  obtain y st1 where y: "parent_payload env sched input base request st = (y, st1)" by (rule prod.exhaust)
  have p1: "progressed i st st1"
    using y on_net_progressed by (fastforce simp: parent_payload_def split: prod.splits sum.splits if_splits)
  show "progressed i st st'"
  proof (cases y)
    case (Inr payload)
    obtain z st2 where z: "post_or_fail env input (base @ ''/rest/media/post/create'') payload 2097152 st1 = (z, st2)" by (rule prod.exhaust)
    with r y Inr have "st' = st2" by (cases z) (auto simp: parent_post_def)
    with progressed_trans [OF p1 post_progressed [OF z]] show ?thesis by simp
  qed (use r y p1 in \<open>auto simp: parent_post_def\<close>)
qed

lemma segments_progressed:
  "run_segments env input base request i parentID n segs index ext elapsed a st = (x, st') \<Longrightarrow> progressed i st st'"
proof (induction segs arbitrary: index ext elapsed a st)
  case (Cons s segs)
  obtain y st1 where y: "post_or_fail env input (base @ ''/rest/app-chat/conversations/new'')
      (JObj (grokVideoPayload request parentID ext s elapsed (0 < index) (vi_references request))) (MaxResponseSize (ge_config (ve_grok env))) st = (y, st1)"
    by (rule prod.exhaust)
  note p1 = post_progressed [OF y, of i]
  show ?case
  proof (cases y)
    case (Inr r)
    obtain z st2 where z: "collectGrokVideoSegment env r i index n st1 = (z, st2)" by (rule prod.exhaust)
    note p2 = progressed_trans [OF p1 segment_progressed [OF z]]
    show ?thesis
    proof (cases z)
      case (Inr a')
      with Cons.prems y z \<open>y = Inr r\<close> have "\<exists>ext'. run_segments env input base request i parentID n segs (index + 1) ext' (elapsed + s) a' st2 = (x, st')"
        by auto
      with Cons.IH progressed_trans [OF p2] show ?thesis by blast
    qed (use Cons.prems y z Inr p2 in auto)
  qed (use Cons.prems y p1 in auto)
qed simp

lemma generate_progressed: "generate_video env sched input request i st = (x, st') \<Longrightarrow> progressed i st st'"
proof -
  assume g: "generate_video env sched input request i st = (x, st')"
  show "progressed i st st'"
  proof (cases "grokBase (ge_net (ve_grok env)) (ge_config (ve_grok env)) input")
    case (Inr base)
    obtain y st1 where y: "parent_post env sched input base request st = (y, st1)" by (rule prod.exhaust)
    note p1 = parent_progressed [OF y, of i]
    show ?thesis
    proof (cases y)
      case (Inr parentID)
      obtain z st2 where z: "run_segments env input base request i parentID (int (length (videoSegments (vi_seconds request)))) (videoSegments (vi_seconds request))
          0 parentID 0 no_artifact st1 = (z, st2)" by (rule prod.exhaust)
      with g y Inr \<open>grokBase _ _ _ = Inr base\<close> have "st' = st2" by (cases z) (auto simp: generate_video_def split: if_splits)
      with progressed_trans [OF p1 segments_progressed [OF z]] show ?thesis by simp
    qed (use g y Inr p1 in \<open>auto simp: generate_video_def\<close>)
  qed (use g in \<open>auto simp: generate_video_def\<close>)
qed

text \<open>C35: a video job that is run always settles, whatever the web site answers and whenever the job is cancelled: it ends as completed, with an
  address and a progress of 100, or as failed, in both cases with the time of its end; what the client asked for is unchanged, and no other job is
  touched.\<close>

theorem video_job_settles:
  assumes "vs_jobs st i = Some job"
  shows "\<exists>job'. vs_jobs (runGrokVideo env sched input request i st) = (vs_jobs st)(i \<mapsto> job') \<and> vj_CompletedAt job' \<noteq> None
    \<and> (vj_Status job' = ''failed'' \<or> vj_Status job' = ''completed'' \<and> vj_URL job' \<noteq> '''' \<and> vj_Progress job' = 100)
    \<and> vj_ID job' = vj_ID job \<and> vj_Prompt job' = vj_Prompt job \<and> vj_Seconds job' = vj_Seconds job \<and> vj_CreatedAt job' = vj_CreatedAt job"
proof -
  let ?start = "updateVideoJob i (\<lambda>j. j\<lparr>vj_Status := ''in_progress'', vj_Progress := 1\<rparr>) st"
  let ?job1 = "job\<lparr>vj_Status := ''in_progress'', vj_Progress := 1\<rparr>"
  obtain x st1 where g: "generate_video env sched input request i ?start = (x, st1)" by (rule prod.exhaust)
  obtain t st2 where t: "on_net (ve_now env) st1 = (t, st2)" by (rule prod.exhaust)
  have start: "vs_jobs ?start = (vs_jobs st)(i \<mapsto> ?job1)" using assms by (simp add: updateVideoJob_def)
  with generate_progressed [OF g] obtain p where p: "vs_jobs st1 i = Some (?job1\<lparr>vj_Progress := p\<rparr>)" "\<And>k. k \<noteq> i \<Longrightarrow> vs_jobs st1 k = vs_jobs st k"
    by (auto simp: progressed_def)
  have j2: "vs_jobs st2 = (vs_jobs st)(i \<mapsto> ?job1\<lparr>vj_Progress := p\<rparr>)" using p on_net_jobs [OF t] by (auto simp: fun_eq_iff)
  show ?thesis
  proof (cases x)
    case (Inl f)
    then have "vs_jobs (runGrokVideo env sched input request i st) = (vs_jobs st)(i \<mapsto> ?job1\<lparr>vj_Progress := p, vj_Status := ''failed'', vj_Error := snd f,
        vj_ErrorStatus := fst f, vj_CompletedAt := Some t\<rparr>)"
      using g t j2 by (simp add: runGrokVideo_def failVideoJob_def updateVideoJob_def)
    then show ?thesis by (intro exI conjI) (assumption, simp_all)
  next
    case (Inr a)
    have "va_url a \<noteq> ''''" using Inr g by (auto simp: generate_video_def try_do_Inr split: sum.splits if_splits)
    moreover have "vs_jobs (runGrokVideo env sched input request i st) = (vs_jobs st)(i \<mapsto> ?job1\<lparr>vj_Status := ''completed'', vj_Progress := 100,
        vj_URL := va_url a, vj_Thumbnail := va_thumbnail a, vj_CompletedAt := Some t\<rparr>)"
      using g t j2 Inr by (simp add: runGrokVideo_def updateVideoJob_def)
    ultimately show ?thesis by (intro exI conjI) (assumption, simp_all)
  qed
qed

section \<open>The requests of a video\<close>

text \<open>A network that keeps a log of the addresses and bodies sent.\<close>

definition keeps_log :: "('c, 'w) VideoEnv \<Rightarrow> ('w \<Rightarrow> (string \<times> string) list) \<Rightarrow> bool" where
  "keeps_log env sent \<longleftrightarrow>
     (\<forall>cl t rq w. sent (snd (ge_send (ve_grok env) cl t rq w)) = sent w @ [(hr_url rq, the (hr_body rq))])
     \<and> (\<forall>u w. sent (snd (ge_proxied (ve_grok env) u w)) = sent w)
     \<and> (\<forall>w. sent (snd (ve_now env w)) = sent w) \<and> (\<forall>w. sent (snd (ve_done env w)) = sent w)"

lemma keeps_logD:
  assumes "keeps_log env sent"
  shows "ge_send (ve_grok env) cl t rq w = (x, w') \<Longrightarrow> sent w' = sent w @ [(hr_url rq, the (hr_body rq))]"
    "ge_proxied (ve_grok env) u w = (y, w') \<Longrightarrow> sent w' = sent w" "ve_done env w = (z, w') \<Longrightarrow> sent w' = sent w"
  using assms unfolding keeps_log_def by (metis snd_conv)+

lemma doGrokJSON_log:
  assumes "keeps_log env sent" "doGrokJSON (ve_grok env) input m url payload maximum w = (Inr r, w')"
  shows "sent w' = sent w @ [(url, Marshal_json (ge_lib (ve_grok env)) payload)]"
  using assms(2)
  by (auto simp: doGrokJSON_def try_do_Inr on_err_Inr Let_def split: if_splits sum.splits dest!: keeps_logD [OF assms(1)])

lemma post_log:
  assumes "keeps_log env sent" "post_or_fail env input url payload maximum st = (Inr r, st')"
  shows "sent (vs_net st') = sent (vs_net st) @ [(url, Marshal_json (ge_lib (ve_grok env)) payload)]"
  using assms(2) by (auto simp: post_or_fail_def on_net_def split: prod.splits sum.splits if_splits dest: doGrokJSON_log [OF assms(1)])

lemma frame_net: "video_frame env i seg n raw a st = (a', st') \<Longrightarrow> vs_net st' = vs_net st"
  by (auto simp: video_frame_def updateVideoJob_def Let_def split: if_splits option.splits)

lemma collect_log:
  assumes "keeps_log env sent"
  shows "collect_video env i seg n evs a st = (x, st') \<Longrightarrow> sent (vs_net st') = sent (vs_net st)"
proof (induction evs arbitrary: a st)
  case (Cons ev evs)
  obtain a1 st1 where f: "video_frame env i seg n (Raw ev) (if ev_Kind ev = EventVideo \<and> ev_URL ev \<noteq> '''' then a\<lparr>va_url := ev_URL ev\<rparr> else a) st = (a1, st1)"
    by (rule prod.exhaust)
  obtain d st2 where d: "on_net (ve_done env) st1 = (d, st2)" by (rule prod.exhaust)
  have s: "sent (vs_net st2) = sent (vs_net st)"
    using d frame_net [OF f] keeps_logD(3) [OF assms] by (auto simp: on_net_def split: prod.splits)
  show ?case
    using Cons.prems f d s Cons.IH [of a1 st2] by (auto split: if_splits option.splits)
qed auto

lemma segments_log:
  assumes "keeps_log env sent"
  shows "run_segments env input base request i parentID n segs index ext elapsed a st = (Inr b, st') \<Longrightarrow> 0 \<le> index \<Longrightarrow>
    \<exists>exts. sent (vs_net st') = sent (vs_net st) @ map (\<lambda>k. (base @ ''/rest/app-chat/conversations/new'', Marshal_json (ge_lib (ve_grok env))
      (JObj (grokVideoPayload request parentID (exts k) (segs ! k) (elapsed + sum_list (take k segs)) (0 < index + int k) (vi_references request)))))
      [0..<length segs]"
proof (induction segs arbitrary: index ext elapsed a st)
  case (Cons s segs)
  let ?url = "base @ ''/rest/app-chat/conversations/new''" and ?m = "Marshal_json (ge_lib (ve_grok env))"
  obtain r st1 where r: "post_or_fail env input ?url (JObj (grokVideoPayload request parentID ext s elapsed (0 < index) (vi_references request)))
      (MaxResponseSize (ge_config (ve_grok env))) st = (Inr r, st1)"
    using Cons.prems(1) by (auto simp: try_do_Inr)
  with Cons.prems(1) obtain a' st2 where c: "collectGrokVideoSegment env r i index n st1 = (Inr a', st2)" by (auto simp: try_do_Inr on_err_Inr)
  have l: "sent (vs_net st2) = sent (vs_net st) @ [(?url, ?m (JObj (grokVideoPayload request parentID ext s elapsed (0 < index) (vi_references request))))]"
    using post_log [OF assms r] c collect_log [OF assms] by (auto simp: collectGrokVideoSegment_def split: option.splits)
  from Cons.prems(1) r c obtain ext' where "run_segments env input base request i parentID n segs (index + 1) ext' (elapsed + s) a' st2 = (Inr b, st')"
    by auto
  from Cons.IH [OF this] Cons.prems(2) obtain exts where e: "sent (vs_net st') = sent (vs_net st2) @ map (\<lambda>k. (?url, ?m
      (JObj (grokVideoPayload request parentID (exts k) (segs ! k) (elapsed + s + sum_list (take k segs)) (0 < index + 1 + int k) (vi_references request)))))
      [0..<length segs]" by auto
  show ?case
    by (rule exI [of _ "case_nat ext exts"]) (simp add: e l map_upt_Suc add.assoc add.left_commute del: upt_Suc)
qed simp

lemma videoSegments_sum: "parseGrokVideoInput lib body = Inr request \<Longrightarrow> sum_list (videoSegments (vi_seconds request)) = vi_seconds request"
  by (auto simp: parseGrokVideoInput_def videoSegments_def Let_def split: option.splits if_splits)


section \<open>Images\<close>

lemma json_frame_events: "json_frame frame data m = (m', es) \<Longrightarrow> length es \<le> 1 \<and> list_all (\<lambda>ev. ev_Kind ev = EventImage \<and> ev_URL ev \<noteq> '''') es"
  by (auto simp: json_frame_def Let_def split: if_splits)

definition image_answer :: "int \<Rightarrow> ws_end \<Rightarrow> int \<Rightarrow> Event list \<Rightarrow> bool" where
  "image_answer requested e collected evs \<longleftrightarrow> (\<exists>images final. evs = images @ [final]
     \<and> list_all (\<lambda>ev. ev_Kind ev = EventImage \<and> ev_URL ev \<noteq> '''') images \<and> collected + int (length images) \<le> requested
     \<and> (ev_Kind final = EventDone \<and> (collected + int (length images) = requested \<or> 0 < collected + int (length images) \<and> we_closed e)
        \<or> ev_Kind final = EventError))"

lemma image_answer_final:
  "collected \<le> requested \<Longrightarrow> ev_Kind final = EventDone \<and> (requested \<le> collected \<or> 0 < collected \<and> we_closed e) \<or> ev_Kind final = EventError \<Longrightarrow>
    image_answer requested e collected [final]"
  unfolding image_answer_def by (intro exI [of _ "[]"] exI [of _ final]) auto

lemma image_answer_append:
  assumes "image_answer requested e (collected + int (length es)) evs" "list_all (\<lambda>ev. ev_Kind ev = EventImage \<and> ev_URL ev \<noteq> '''') es"
  shows "image_answer requested e collected (es @ evs)"
proof -
  obtain images final where "evs = images @ [final]" "list_all (\<lambda>ev. ev_Kind ev = EventImage \<and> ev_URL ev \<noteq> '''') images"
    "collected + int (length es) + int (length images) \<le> requested"
    "ev_Kind final = EventDone \<and> (collected + int (length es) + int (length images) = requested \<or> 0 < collected + int (length es) + int (length images) \<and> we_closed e)
        \<or> ev_Kind final = EventError"
    using assms(1) unfolding image_answer_def by blast
  then show ?thesis using assms(2) unfolding image_answer_def by (intro exI [of _ "es @ images"] exI [of _ final]) (auto simp: add.assoc)
qed

lemma read_imagine_answer: "collected \<le> requested \<Longrightarrow> image_answer requested e collected (read_imagine lib requested e msgs m collected)"
proof (induction msgs arbitrary: m collected)
  case Nil
  then show ?case by (auto simp: done_event_def intro!: image_answer_final)
next
  case (Cons msg msgs)
  show ?case
  proof (cases "requested \<le> collected")
    case True
    with Cons.prems show ?thesis by (auto simp: done_event_def intro!: image_answer_final)
  next
    case False
    show ?thesis
    proof (cases msg)
      case (WsText data)
      show ?thesis
      proof (cases "Unmarshal lib data")
        case (Some frame)
        obtain m' es where j: "json_frame frame data m = (m', es)" by (rule prod.exhaust)
        from json_frame_events [OF j] False have "collected + int (length es) \<le> requested" "list_all (\<lambda>ev. ev_Kind ev = EventImage \<and> ev_URL ev \<noteq> '''') es" by auto
        with Cons.IH image_answer_append have "image_answer requested e collected (es @ read_imagine lib requested e msgs m' (collected + int (length es)))"
          by blast
        with False WsText Some j Cons show ?thesis by (auto simp: Let_def error_frame_def intro!: image_answer_final)
      qed (use False WsText Cons in simp)
    qed (use False Cons in simp)
  qed
qed

text \<open>Whatever the socket delivers and however it ends, the answer to an accepted image request is at most as many images as were asked for, each
  with an address, followed by exactly one final event: done, when all are there or the other side closed after some image, or an error.\<close>

theorem imagine_answer:
  assumes "imagineInput lib input = Inr (prompt, n, ratio, pro)"
  shows "1 \<le> n \<and> n \<le> 4 \<and> (\<exists>images final. readImagineEvents lib n msgs e = images @ [final]
     \<and> list_all (\<lambda>ev. ev_Kind ev = EventImage \<and> ev_URL ev \<noteq> '''') images \<and> int (length images) \<le> n
     \<and> (ev_Kind final = EventDone \<and> (int (length images) = n \<or> images \<noteq> [] \<and> we_closed e) \<or> ev_Kind final = EventError))"
proof -
  have n: "1 \<le> n" "n \<le> 4" using assms by (auto simp: imagineInput_def Let_def split: option.splits if_splits)
  with read_imagine_answer [of 0 n e lib msgs Map.empty] show ?thesis by (auto simp: readImagineEvents_def image_answer_def)
qed

section \<open>A concrete run\<close>

type_synonym grok_log = "(string \<times> string) list"

definition run_reply :: "string \<Rightarrow> string" where
  "run_reply url = (if HasSuffix url ''/upload-file'' then ''up'' else if HasSuffix url ''/create'' then ''post'' else ''chat'')"

text \<open>The bodies are named by what they decode to; the encoder writes the names of the members.\<close>

definition run_lib :: UpstreamLib where
  "run_lib = \<lparr>Unmarshal = (\<lambda>s. if s = ''up'' then Some [(''fileUri'', JStr ''/up.png'')]
       else if s = ''post'' then Some [(''post'', JObj [(''id'', JStr ''p1'')])]
       else if s = ''chat'' then Some [(''videoUrl'', JStr ''https://assets.grok.com/v.mp4'')]
       else if s = ''video'' then Some [(''prompt'', JStr ''a cat''), (''seconds'', JNumber ''12'')]
       else if s = ''image'' then Some [(''prompt'', JStr ''a cat''), (''n'', JNumber ''2'')] else None),
     Marshal_json = (\<lambda>j. Join (map fst (as_map j)) '',''), Sprint = as_string, Sha256 = (\<lambda>s. s)\<rparr>"

definition run_url :: URL where
  "run_url = \<lparr>Scheme = ''https'', Hostname = ''grok.com'', Port = '''', URLHost = ''grok.com'', URLPath = '''', RawQuery = '''', Fragment = '''', HasUser = False\<rparr>"

definition run_net :: NetLib where
  "run_net = \<lparr>ParseURL = (\<lambda>s. if HasPrefix s ''https://'' then Some run_url else if HasPrefix s ''/'' then Some (run_url\<lparr>Scheme := ''''\<rparr>) else None), URLText = (\<lambda>u. Scheme u @ ''://'' @ URLHost u),
     ResolveReference = (\<lambda>b u. u), ValidRequestURI = (\<lambda>s. True), PathEscape = (\<lambda>s. s), EqualFold = (=), Cookies = (\<lambda>s. []),
     RandomID = ''r-1'', StatsigID = ''s''\<rparr>"

definition run_env :: "(unit, grok_log) VideoEnv" where
  "run_env = \<lparr>ve_grok = \<lparr>ge_net = run_net, ge_lib = run_lib,
       ge_mime = \<lparr>ParseMediaType = Some, ExtensionsByType = (\<lambda>t. [''.png'']), StdDecodeString = Some\<rparr>,
       ge_config = NewHTTPClient \<lparr>GrokBaseURL = '''', ImagineURL = '''', ConsoleBaseURL = '''', CLIBaseURL = '''', RequestTimeout = 0, VideoTimeout = 0,
         MaxResponseSize = 0, MaxProxyClients = 0\<rparr>,
       ge_dynamic = None, ge_client = (), ge_proxied = (\<lambda>u w. (Inr (), w)),
       ge_send = (\<lambda>c t rq w. (Inr \<lparr>hp_status = 200, hp_header = (\<lambda>_. ''''), hp_body = run_reply (hr_url rq), hp_lines = [], hp_scanErr = None, hp_readErr = None\<rparr>,
         w @ [(hr_url rq, the (hr_body rq))]))\<rparr>,
     ve_now = (\<lambda>w. (Hour, w)), ve_done = (\<lambda>w. (None, w)), ve_status = (\<lambda>c. ''status'')\<rparr>"

definition run_request :: "string \<Rightarrow> Operation \<Rightarrow> Request" where
  "run_request body op = \<lparr>req_Operation = op, req_Model = ''imagine'', req_UpstreamModel = ''imagine'', PromptCacheKey = '''', req_CredentialKind = CredentialGrokSSO,
     req_Credentials = zero_credentials\<lparr>SSO := ''token''\<rparr>, ProxyURL = '''', req_Body = body, req_Headers = (\<lambda>_. ''''), req_Stream = False,
     VideoID = '''', StatusURL = ''''\<rparr>"

lemma run_keeps_log: "keeps_log run_env (\<lambda>w. w)"
  by (simp add: keeps_log_def run_env_def)

theorem uploads_in_order_witness:
  "let urls = projr (projr (fst (uploadEditReferences (ve_grok run_env) \<lparr>up_order = [2, 0, 1], up_cancelled = (\<lambda>_. None)\<rparr> (run_request '''' OperationImageEdit)
       ''https://grok.com'' [JStr ''https://a/1.png'', JStr ''data:image/png;base64,AA'', JStr ''https://b/3.png''] [])))
   in length urls = 3 \<and> urls ! 0 = JStr ''https://a/1.png''"
proof -
  let ?sched = "\<lparr>up_order = [2, 0, 1], up_cancelled = (\<lambda>_. None)\<rparr>" and ?refs = "[JStr ''https://a/1.png'', JStr ''data:image/png;base64,AA'', JStr ''https://b/3.png'']"
  let ?r = "uploadEditReferences (ve_grok run_env) ?sched (run_request '''' OperationImageEdit) ''https://grok.com'' ?refs []"
  have "map_sum id (map_sum (\<lambda>_. ()) id) (fst ?r) = Inr (Inr [JStr ''https://a/1.png'', JStr ''https://assets.grok.com/up.png'', JStr ''https://b/3.png''])"
    by code_simp
  then obtain w where r: "?r = (Inr (Inr [JStr ''https://a/1.png'', JStr ''https://assets.grok.com/up.png'', JStr ''https://b/3.png'']), w)"
    by (cases ?r, cases "fst ?r", simp, cases "projr (fst ?r)") auto
  have o: "set (up_order ?sched) = {..<length ?refs}" by auto
  have "distinct (up_order ?sched)" by simp
  from conjunct1 [OF uploads_in_order [OF this o r]] show ?thesis unfolding r Let_def by simp
qed

theorem video_job_settles_witness:
  "vj_Status (the (vs_jobs (runGrokVideo run_env \<lparr>up_order = [], up_cancelled = (\<lambda>_. None)\<rparr> (run_request ''video'' OperationVideo)
     (projr (parseGrokVideoInput run_lib ''video'')) ''v'' \<lparr>vs_jobs = [''v'' \<mapsto> \<lparr>vj_ID = ''v'', vj_Model = '''', vj_Prompt = ''a cat'', vj_Seconds = 12,
       vj_Size = '''', vj_Status = ''queued'', vj_Progress = 0, vj_URL = '''', vj_Thumbnail = '''', vj_Error = '''', vj_ErrorStatus = 0, vj_CreatedAt = 0,
       vj_CompletedAt = None\<rparr>], vs_net = []\<rparr>) ''v'')) \<in> {''completed'', ''failed''}"
proof -
  let ?job = "\<lparr>vj_ID = ''v'', vj_Model = '''', vj_Prompt = ''a cat'', vj_Seconds = 12,
       vj_Size = '''', vj_Status = ''queued'', vj_Progress = 0, vj_URL = '''', vj_Thumbnail = '''', vj_Error = '''', vj_ErrorStatus = 0, vj_CreatedAt = 0,
       vj_CompletedAt = None\<rparr>"
  have j: "vs_jobs \<lparr>vs_jobs = [''v'' \<mapsto> ?job], vs_net = []\<rparr> ''v'' = Some ?job" by simp
  from video_job_settles [OF j, of run_env "\<lparr>up_order = [], up_cancelled = (\<lambda>_. None)\<rparr>" "run_request ''video'' OperationVideo"
      "projr (parseGrokVideoInput run_lib ''video'')"] show ?thesis by auto
qed


theorem imagine_answer_witness:
  "length (readImagineEvents run_lib 2 [WsOther, WsText ''up''] \<lparr>we_closed = True, we_text = ''EOF''\<rparr>) \<le> 3"
proof -
  have "imagineInput run_lib (run_request ''image'' OperationImage) = Inr (''a cat'', 2, ''2:3'', False)" by code_simp
  from imagine_answer [OF this, of "[WsOther, WsText ''up'']" "\<lparr>we_closed = True, we_text = ''EOF''\<rparr>"] show ?thesis by auto
qed

end
