(* ===== verification/Httpx.thy ===== *)
theory Httpx
  imports Upstream_Types
begin

text \<open>
  The HTTP middleware of the server (\<open>internal/httpx/\<close>): request identifiers, panics, security headers, the access log, cross-origin
  requests, the limit on requests in flight, the outcome of a stream and the health endpoints.

  \<^item> A handler is a function of the request, the response writer and the world \<open>'w\<close> that gives the value it panicked with, if it
    panicked, the writer and the world.
  \<^item> A \<open>Writer\<close> has the header map, what went out with the first \<open>WriteHeader\<close> (or the first \<open>Write\<close>, which sends
    200), all calls of \<open>WriteHeader\<close> in order, and the body. Calls after the first are recorded and change nothing that was sent.
  \<^item> \<open>HttpEnv\<close> is what the middleware uses of the standard library and of the logger.
\<close>

section \<open>Requests and responses\<close>

record HttpRequest =
  Method :: string
  Path :: string
  rq_Header :: header
  rq_RequestID :: string

type_synonym header_map = "string \<Rightarrow> string list"

record Writer =
  wr_header :: header_map
  wr_sent :: "(int \<times> header_map) option"
  wr_calls :: "int list"
  wr_body :: string

definition new_writer :: Writer where
  "new_writer = \<lparr>wr_header = (\<lambda>_. []), wr_sent = None, wr_calls = [], wr_body = ''''\<rparr>"

definition header_set :: "string \<Rightarrow> string \<Rightarrow> Writer \<Rightarrow> Writer" where
  "header_set name v wr = wr\<lparr>wr_header := (wr_header wr)(name := [v])\<rparr>"

definition header_add :: "string \<Rightarrow> string \<Rightarrow> Writer \<Rightarrow> Writer" where
  "header_add name v wr = wr\<lparr>wr_header := (wr_header wr)(name := wr_header wr name @ [v])\<rparr>"

definition send_head :: "int \<Rightarrow> Writer \<Rightarrow> Writer" where
  "send_head code wr = (if wr_sent wr = None then wr\<lparr>wr_sent := Some (code, wr_header wr)\<rparr> else wr)"

definition WriteHeader :: "int \<Rightarrow> Writer \<Rightarrow> Writer" where
  "WriteHeader code wr = send_head code (wr\<lparr>wr_calls := wr_calls wr @ [code]\<rparr>)"

definition write_bytes :: "string \<Rightarrow> Writer \<Rightarrow> Writer" where
  "write_bytes bytes wr = (let wr = send_head 200 wr in wr\<lparr>wr_body := wr_body wr @ bytes\<rparr>)"

record access_entry =
  ae_RequestID :: string
  ae_Method :: string
  ae_Path :: string
  ae_Status :: int
  ae_Bytes :: int
  ae_DurationMS :: int

record 'w HttpEnv =
  Encode :: "json \<Rightarrow> string"
  Random16 :: "'w \<Rightarrow> nat list option \<times> 'w"
  Wall :: "'w \<Rightarrow> time \<times> 'w"
  FormatNano :: "time \<Rightarrow> nat list"
  LogPanic :: "string \<Rightarrow> string \<Rightarrow> 'w \<Rightarrow> 'w"
  LogAccess :: "access_entry \<Rightarrow> 'w \<Rightarrow> 'w"

type_synonym 'w http_handler = "HttpRequest \<Rightarrow> Writer \<Rightarrow> 'w \<Rightarrow> string option \<times> Writer \<times> 'w"

section \<open>Status texts\<close>

text \<open>\<open>http.StatusText\<close>: the empty string for a code it does not know.\<close>

definition status_texts :: "(int \<times> string) list" where
  "status_texts =
     [
      (100, ''Continue''), (101, ''Switching Protocols''), (102, ''Processing''), (103, ''Early Hints''), (200, ''OK''), (201, ''Created''), 
      (202, ''Accepted''), (203, ''Non-Authoritative Information''), (204, ''No Content''), (205, ''Reset Content''), (206, ''Partial Content''), 
      (207, ''Multi-Status''), (208, ''Already Reported''), (226, ''IM Used''), (300, ''Multiple Choices''), (301, ''Moved Permanently''), 
      (302, ''Found''), (303, ''See Other''), (304, ''Not Modified''), (305, ''Use Proxy''), (307, ''Temporary Redirect''), 
      (308, ''Permanent Redirect''), (400, ''Bad Request''), (401, ''Unauthorized''), (402, ''Payment Required''), (403, ''Forbidden''), 
      (404, ''Not Found''), (405, ''Method Not Allowed''), (406, ''Not Acceptable''), (407, ''Proxy Authentication Required''), 
      (408, ''Request Timeout''), (409, ''Conflict''), (410, ''Gone''), (411, ''Length Required''), (412, ''Precondition Failed''), 
      (413, ''Request Entity Too Large''), (414, ''Request URI Too Long''), (415, ''Unsupported Media Type''), 
      (416, ''Requested Range Not Satisfiable''), (417, ''Expectation Failed''), (418, ''I'' @ [CHR 0x27] @ ''m a teapot''), 
      (421, ''Misdirected Request''), (422, ''Unprocessable Entity''), (423, ''Locked''), (424, ''Failed Dependency''), (425, ''Too Early''), 
      (426, ''Upgrade Required''), (428, ''Precondition Required''), (429, ''Too Many Requests''), (431, ''Request Header Fields Too Large''), 
      (451, ''Unavailable For Legal Reasons''), (500, ''Internal Server Error''), (501, ''Not Implemented''), (502, ''Bad Gateway''), 
      (503, ''Service Unavailable''), (504, ''Gateway Timeout''), (505, ''HTTP Version Not Supported''), (506, ''Variant Also Negotiates''), 
      (507, ''Insufficient Storage''), (508, ''Loop Detected''), (510, ''Not Extended''), (511, ''Network Authentication Required'')]"

definition StatusText :: "int \<Rightarrow> string" where
  "StatusText code = (case map_of status_texts code of None \<Rightarrow> '''' | Some s \<Rightarrow> s)"

section \<open>Writing JSON and errors\<close>

definition WriteJSON :: "'w HttpEnv \<Rightarrow> int \<Rightarrow> json \<Rightarrow> Writer \<Rightarrow> Writer" where
  "WriteJSON env status v wr =
     write_bytes (Encode env v) (WriteHeader status (header_set ''Content-Type'' ''application/json; charset=utf-8'' wr))"

definition WriteError :: "'w HttpEnv \<Rightarrow> int \<Rightarrow> string \<Rightarrow> string \<Rightarrow> Writer \<Rightarrow> Writer" where
  "WriteError env status code message wr =
     WriteJSON env status (JObj [(''error'', JObj [(''message'', JStr message), (''type'', JStr ''api_error''), (''code'', JStr code)])]) wr"

definition IsAnthropicRequest :: "HttpRequest \<Rightarrow> bool" where
  "IsAnthropicRequest r \<longleftrightarrow> TrimSuffix (Path r) ''/'' = ''/v1/messages''"

definition anthropicErrorType :: "int \<Rightarrow> string" where
  "anthropicErrorType status =
     (if status = 400 then ''invalid_request_error''
      else if status = 401 then ''authentication_error''
      else if status = 403 then ''permission_error''
      else if status = 404 then ''not_found_error''
      else if status = 413 then ''request_too_large''
      else if status = 429 then ''rate_limit_error''
      else if status = 503 then ''overloaded_error''
      else ''api_error'')"

definition WriteErrorForRequest :: "'w HttpEnv \<Rightarrow> HttpRequest \<Rightarrow> int \<Rightarrow> string \<Rightarrow> string \<Rightarrow> Writer \<Rightarrow> Writer" where
  "WriteErrorForRequest env r status code message wr =
     (if IsAnthropicRequest r
      then WriteJSON env status (JObj [(''type'', JStr ''error''),
             (''error'', JObj [(''type'', JStr (anthropicErrorType status)), (''message'', JStr message)])]) wr
      else WriteError env status code message wr)"

section \<open>The chain\<close>

text \<open>The loop from the last middleware to the first.\<close>

definition Chain :: "'w http_handler \<Rightarrow> ('w http_handler \<Rightarrow> 'w http_handler) list \<Rightarrow> 'w http_handler" where
  "Chain handler middleware = foldr (\<lambda>m h. m h) middleware handler"

definition hex_bytes :: "nat list \<Rightarrow> string" where
  "hex_bytes bs = concat (map (\<lambda>b. [hex_low (b div 16 mod 16), hex_low (b mod 16)]) bs)"

definition randomID :: "'w HttpEnv \<Rightarrow> 'w \<Rightarrow> string \<times> 'w" where
  "randomID env w =
     (case Random16 env w of
        (None, w) \<Rightarrow> (let (t, w) = Wall env w in (hex_bytes (FormatNano env t), w))
      | (Some bs, w) \<Rightarrow> (hex_bytes bs, w))"

definition RequestID :: "'w HttpEnv \<Rightarrow> 'w http_handler \<Rightarrow> 'w http_handler" where
  "RequestID env nxt r wr w =
     (let requestID = TrimSpace (rq_Header r ''X-Request-ID'');
          (requestID, w) = (if requestID = '''' \<or> 128 < length requestID then randomID env w else (requestID, w))
      in nxt (r\<lparr>rq_RequestID := requestID\<rparr>) (header_set ''X-Request-ID'' requestID wr) w)"

definition Recover :: "'w HttpEnv \<Rightarrow> 'w http_handler \<Rightarrow> 'w http_handler" where
  "Recover env nxt r wr w =
     (case nxt r wr w of
        (None, wr, w) \<Rightarrow> (None, wr, w)
      | (Some v, wr, w) \<Rightarrow>
          (None, WriteErrorForRequest env r 500 ''internal_error'' ''The server encountered an internal error.'' wr,
           LogPanic env (rq_RequestID r) v w))"

definition security_header_list :: "(string \<times> string) list" where
  "security_header_list =
     [(''X-Content-Type-Options'', ''nosniff''), (''X-Frame-Options'', ''DENY''), (''Referrer-Policy'', ''same-origin''),
      (''Permissions-Policy'', ''camera=(), microphone=(), geolocation=()''), (''Cross-Origin-Opener-Policy'', ''same-origin'')]"

definition SecurityHeaders :: "'w http_handler \<Rightarrow> 'w http_handler" where
  "SecurityHeaders nxt r wr w = nxt r (fold (\<lambda>(name, v). header_set name v) security_header_list wr) w"

text \<open>\<open>statusWriter\<close> keeps the last status its \<open>WriteHeader\<close> was called with, and counts the bytes that went through it.\<close>

definition last_status :: "int list \<Rightarrow> int" where
  "last_status calls = (if calls = [] then 200 else last calls)"

definition AccessLog :: "'w HttpEnv \<Rightarrow> 'w http_handler \<Rightarrow> 'w http_handler" where
  "AccessLog env nxt r wr w =
     (let (started, w) = Wall env w
      in case nxt r wr w of
           (Some v, wr', w) \<Rightarrow> (Some v, wr', w)
         | (None, wr', w) \<Rightarrow>
             (let (ended, w) = Wall env w;
                  entry = \<lparr>ae_RequestID = rq_RequestID r, ae_Method = Method r, ae_Path = Path r,
                           ae_Status = last_status (drop (length (wr_calls wr)) (wr_calls wr')),
                           ae_Bytes = int (length (wr_body wr')) - int (length (wr_body wr)),
                           ae_DurationMS = time_sub ended started div 1000000\<rparr>
              in (None, wr', LogAccess env entry w)))"

section \<open>Cross-origin requests\<close>

text \<open>The loop over the configured origins: whether the origin is allowed, and whether by the wildcard.\<close>

definition trim_origin :: "string \<Rightarrow> string" where
  "trim_origin s = TrimRight (TrimSpace s) (CHR ''/'')"

fun match_origin :: "string \<Rightarrow> string list \<Rightarrow> bool \<times> bool" where
  "match_origin origin [] = (False, False)"
| "match_origin origin (candidate # rest) =
     (if trim_origin candidate = ''*'' then (True, True)
      else if trim_origin candidate = origin then (True, False)
      else match_origin origin rest)"

definition originAllowed :: "string \<Rightarrow> string \<Rightarrow> bool \<times> bool" where
  "originAllowed origin configured = match_origin origin (Split configured (CHR '',''))"

definition isPreflight :: "HttpRequest \<Rightarrow> bool" where
  "isPreflight r \<longleftrightarrow> Method r = ''OPTIONS'' \<and> TrimSpace (rq_Header r ''Access-Control-Request-Method'') \<noteq> ''''"

definition cors_headers :: "string \<Rightarrow> bool \<Rightarrow> Writer \<Rightarrow> Writer" where
  "cors_headers origin wildcard wr =
     header_set ''Access-Control-Expose-Headers'' ''X-Request-ID, Retry-After, X-RateLimit-Limit-Requests, X-RateLimit-Remaining-Requests''
       (header_set ''Access-Control-Allow-Origin'' (if wildcard then ''*'' else origin) wr)"

definition DynamicCORS :: "'w HttpEnv \<Rightarrow> ('w \<Rightarrow> string) option \<Rightarrow> 'w http_handler \<Rightarrow> 'w http_handler" where
  "DynamicCORS env origins nxt r wr w =
     (let origin = trim_origin (rq_Header r ''Origin'')
      in case (if origin = '''' then None else origins) of
           None \<Rightarrow> nxt r wr w
         | Some configured \<Rightarrow>
             (let (allowed, wildcard) = originAllowed origin (configured w);
                  wr = header_add ''Vary'' ''Origin'' wr
              in if \<not> allowed
                 then (if isPreflight r
                       then (None, WriteErrorForRequest env r 403 ''cors_origin_denied'' ''The request origin is not allowed.'' wr, w)
                       else nxt r wr w)
                 else
                   (let wr = cors_headers origin wildcard wr
                    in if isPreflight r
                       then (None, WriteHeader 204
                              (header_set ''Access-Control-Max-Age'' ''600''
                                (header_set ''Access-Control-Allow-Headers''
                                   ''Authorization, Content-Type, X-API-Key, Anthropic-Version, Anthropic-Beta''
                                   (header_set ''Access-Control-Allow-Methods'' ''GET, POST, OPTIONS'' wr))), w)
                       else nxt r wr w)))"

text \<open>The chain around the router of the server (\<open>internal/app/run.go\<close>).\<close>

definition server_handler :: "'w HttpEnv \<Rightarrow> ('w \<Rightarrow> string) \<Rightarrow> 'w http_handler \<Rightarrow> 'w http_handler" where
  "server_handler env origins router =
     Chain router [RequestID env, SecurityHeaders, Recover env, AccessLog env, DynamicCORS env (Some origins)]"

section \<open>The limit on requests in flight\<close>

text \<open>
  The phases of a request in \<open>DynamicConcurrency\<close>. The counter is atomic, so a request adds itself in one step and compares the
  result in another; the limit is read anew by every request. \<open>Counted m c\<close>: added, under the limit \<open>m\<close>, as number \<open>c\<close>.
\<close>

datatype phase = Arriving | Unlimited | Counted int int | Serving int int | Refused | Left

record concurrency =
  active :: int
  phase_of :: "nat \<Rightarrow> phase"

definition concurrency_start :: concurrency where
  "concurrency_start = \<lparr>active = 0, phase_of = (\<lambda>_. Arriving)\<rparr>"

definition set_phase :: "nat \<Rightarrow> phase \<Rightarrow> concurrency \<Rightarrow> concurrency" where
  "set_phase i ph c = c\<lparr>phase_of := (phase_of c)(i := ph)\<rparr>"

definition concurrency_enter :: "nat \<Rightarrow> int option \<Rightarrow> concurrency \<Rightarrow> concurrency" where
  "concurrency_enter i limit c =
     (let maximum = (case limit of None \<Rightarrow> 0 | Some m \<Rightarrow> m)
      in if maximum \<le> 0 then set_phase i Unlimited c
         else set_phase i (Counted maximum (active c + 1)) (c\<lparr>active := active c + 1\<rparr>))"

definition concurrency_compare :: "nat \<Rightarrow> int \<Rightarrow> int \<Rightarrow> concurrency \<Rightarrow> concurrency" where
  "concurrency_compare i maximum current c =
     (if maximum < current then set_phase i Refused (c\<lparr>active := active c - 1\<rparr>)
      else set_phase i (Serving maximum current) c)"

text \<open>The deferred decrement runs when the wrapped handler returns and when it panics.\<close>

definition concurrency_leave :: "nat \<Rightarrow> bool \<Rightarrow> concurrency \<Rightarrow> concurrency" where
  "concurrency_leave i counted c = set_phase i Left (if counted then c\<lparr>active := active c - 1\<rparr> else c)"

inductive concurrency_step :: "concurrency \<Rightarrow> concurrency \<Rightarrow> bool" where
  enter: "phase_of c i = Arriving \<Longrightarrow> concurrency_step c (concurrency_enter i limit c)"
| compare: "phase_of c i = Counted m k \<Longrightarrow> concurrency_step c (concurrency_compare i m k c)"
| leave: "phase_of c i = Serving m k \<Longrightarrow> concurrency_step c (concurrency_leave i True c)"
| leave_unlimited: "phase_of c i = Unlimited \<Longrightarrow> concurrency_step c (concurrency_leave i False c)"

text \<open>The answer to a refused request.\<close>

definition concurrency_refusal :: "'w HttpEnv \<Rightarrow> HttpRequest \<Rightarrow> Writer \<Rightarrow> Writer" where
  "concurrency_refusal env r wr =
     WriteErrorForRequest env r 429 ''global_concurrency_exceeded'' ''The gateway concurrency limit has been reached.''
       (header_set ''Retry-After'' ''1'' wr)"

section \<open>The outcome of a stream\<close>

record Outcome =
  out_StatusCode :: int
  out_ErrorCode :: string

definition no_outcome :: Outcome where
  "no_outcome = \<lparr>out_StatusCode = 0, out_ErrorCode = ''''\<rparr>"

text \<open>The tracker of a context: \<^const>\<open>None\<close> where no tracker was attached.\<close>

definition WithOutcome :: "Outcome option" where
  "WithOutcome = Some no_outcome"

definition ReportOutcome :: "int \<Rightarrow> string \<Rightarrow> Outcome option \<Rightarrow> Outcome option" where
  "ReportOutcome statusCode errorCode tracker =
     (case tracker of None \<Rightarrow> None | Some _ \<Rightarrow> Some \<lparr>out_StatusCode = statusCode, out_ErrorCode = errorCode\<rparr>)"

definition Snapshot :: "Outcome option \<Rightarrow> Outcome" where
  "Snapshot tracker = (case tracker of None \<Rightarrow> no_outcome | Some v \<Rightarrow> v)"

section \<open>Health\<close>

definition Liveness :: "'w HttpEnv \<Rightarrow> Writer \<Rightarrow> Writer" where
  "Liveness env wr = WriteJSON env 200 (JObj [(''status'', JStr ''ok'')]) wr"

text \<open>The checks run concurrently: their names and results come in the order in which they end.\<close>

definition readiness_results :: "(string \<times> error option) list \<Rightarrow> (string \<times> string) list" where
  "readiness_results ended =
     fold (\<lambda>(name, err) results. AList.update name (if err = None then ''ok'' else ''error'') results) ended []"

definition Readiness :: "'w HttpEnv \<Rightarrow> (string \<times> error option) list \<Rightarrow> Writer \<Rightarrow> Writer" where
  "Readiness env ended wr =
     (let results = readiness_results ended;
          status = (if list_all (\<lambda>(name, v). v = ''ok'') results then 200 else 503)
      in WriteJSON env status
           (JObj [(''status'', JStr (if status = 200 then ''ready'' else ''not_ready'')),
                  (''checks'', JObj (map (\<lambda>(name, v). (name, JStr v)) results))]) wr)"

end
