(* ===== verification/Request_Log.thy ===== *)
theory Request_Log
  imports Api_Key Httpx
begin

text \<open>
  The request log (\<open>internal/requestlog/\<close>): the middleware that writes one entry per request, and the queue between it and the table.

  \<^item> \<open>AsyncSink\<close> is the state of the queue. \<open>begun\<close>, \<open>working\<close> and \<open>delivered\<close> are the entries the workers have taken from the
    channel, are writing, and have written; \<open>exited\<close> counts the workers whose loop has ended. \<open>accepted\<close> is the ghost list of the entries for which
    \<open>CreateRequestLog\<close> returned \<open>nil\<close>.
  \<^item> The lock makes \<open>CreateRequestLog\<close> and \<open>Close\<close> atomic to each other; a worker receives, writes and ends in steps of its own.
  \<^item> The wrapped handler is a function of the request body that gives the calls of \<open>WriteHeader\<close>, the outcomes and completions it
    reported, and whether it panicked.
\<close>

section \<open>The queue\<close>

datatype sink_error = SinkNotConfigured | EntryRequired | ErrSinkClosed | ErrSinkFull | SinkContext error

record 'e AsyncSink =
  capacity :: nat
  workers :: nat
  queue :: "'e list"
  closed :: bool
  dropped :: "64 word"
  begun :: "'e list"
  working :: "'e list"
  delivered :: "'e list"
  exited :: nat
  accepted :: "'e list"

definition NewAsyncSink :: "int \<Rightarrow> int \<Rightarrow> 'e AsyncSink" where
  "NewAsyncSink room count =
     \<lparr>capacity = nat (if room \<le> 0 then 4096 else room), workers = nat (if count \<le> 0 then 4 else count), queue = [], closed = False,
      dropped = 0, begun = [], working = [], delivered = [], exited = 0, accepted = []\<rparr>"

text \<open>
  The select has three arms: the send is ready when there is room, the second one when the context has ended, and the default runs when neither is.
  \<open>prefer_done\<close> is the choice between the first two.
\<close>

definition CreateRequestLog ::
  "bool \<Rightarrow> error option \<Rightarrow> bool \<Rightarrow> 'e option \<Rightarrow> 'e AsyncSink \<Rightarrow> sink_error option \<times> 'e AsyncSink" where
  "CreateRequestLog configured ctxErr prefer_done entry s =
     (if \<not> configured then (Some SinkNotConfigured, s)
      else case entry of
             None \<Rightarrow> (Some EntryRequired, s)
           | Some e \<Rightarrow>
               if closed s then (Some ErrSinkClosed, s)
               else if length (queue s) < capacity s \<and> \<not> (prefer_done \<and> ctxErr \<noteq> None)
               then (None, s\<lparr>queue := queue s @ [e], accepted := accepted s @ [e]\<rparr>)
               else (case ctxErr of
                       Some err \<Rightarrow> (Some (SinkContext err), s)
                     | None \<Rightarrow> (Some ErrSinkFull, s\<lparr>dropped := dropped s + 1\<rparr>)))"

definition sink_Dropped :: "'e AsyncSink option \<Rightarrow> 64 word" where
  "sink_Dropped s = (case s of None \<Rightarrow> 0 | Some s \<Rightarrow> dropped s)"

text \<open>The part of \<open>Close\<close> under \<open>closeOnce\<close>; afterwards it waits for \<open>done\<close> or for its context.\<close>

definition sink_Close :: "'e AsyncSink \<Rightarrow> 'e AsyncSink" where
  "sink_Close s = s\<lparr>closed := True\<rparr>"

definition flushed :: "'e AsyncSink \<Rightarrow> bool" where
  "flushed s \<longleftrightarrow> exited s = workers s"

text \<open>The loop of a worker (\<open>run\<close>).\<close>

definition idle_worker :: "'e AsyncSink \<Rightarrow> bool" where
  "idle_worker s \<longleftrightarrow> length (working s) + exited s < workers s"

inductive worker_step :: "'e AsyncSink \<Rightarrow> 'e AsyncSink \<Rightarrow> bool" where
  take: "idle_worker s \<Longrightarrow> queue s = e # rest \<Longrightarrow>
    worker_step s (s\<lparr>queue := rest, begun := begun s @ [e], working := e # working s\<rparr>)"
| written: "working s = before @ e # after \<Longrightarrow>
    worker_step s (s\<lparr>working := before @ after, delivered := delivered s @ [e]\<rparr>)"
| leave: "idle_worker s \<Longrightarrow> queue s = [] \<Longrightarrow> closed s \<Longrightarrow> worker_step s (s\<lparr>exited := exited s + 1\<rparr>)"

inductive sink_step :: "'e AsyncSink \<Rightarrow> 'e AsyncSink \<Rightarrow> bool" where
  create: "CreateRequestLog configured ctxErr prefer_done entry s = (r, s') \<Longrightarrow> sink_step s s'"
| close: "sink_step s (sink_Close s)"
| worker: "worker_step s s' \<Longrightarrow> sink_step s s'"

section \<open>Entries\<close>

record RequestLog =
  rl_ID :: string
  rl_RequestID :: string
  rl_ClientKeyID :: string
  rl_AccountID :: string
  rl_Model :: string
  rl_Endpoint :: string
  rl_StatusCode :: int
  rl_DurationMS :: int
  rl_InputTokens :: int
  rl_OutputTokens :: int
  rl_CachedTokens :: int
  rl_UsageParsed :: bool
  rl_ErrorCode :: string
  rl_ErrorSummary :: string
  rl_Metadata :: string
  rl_CreatedAt :: time

text \<open>A request body: its bytes, and after how many of them reading fails, if it does.\<close>

record Body =
  body_text :: string
  body_fails :: "nat option"

record 'w LogMiddleware =
  lm_Sink :: "(RequestLog \<Rightarrow> 'w \<Rightarrow> 'w) option"
  lm_Now :: "('w \<Rightarrow> time) option"
  lm_Clock :: "'w \<Rightarrow> time"
  GenerateID :: "'w \<Rightarrow> (error + string) \<times> 'w"
  DecodeModel :: "string \<Rightarrow> string"
  EncodeMap :: "json \<Rightarrow> string"

record served =
  sv_calls :: "int list"
  sv_outcomes :: "(int \<times> string) list"
  sv_reports :: "Completion list"
  sv_panicked :: bool

section \<open>The middleware\<close>

definition inspect_limit :: nat where
  "inspect_limit = 1048576"

text \<open>\<open>io.ReadAll\<close> of a reader limited to one byte more than the limit. A failed read is not put back.\<close>

definition inspectModel :: "(string \<Rightarrow> string) \<Rightarrow> header \<Rightarrow> Body option \<Rightarrow> string \<times> Body option" where
  "inspectModel decode h body =
     (case body of
        None \<Rightarrow> ('''', body)
      | Some b \<Rightarrow>
          if \<not> Contains (ToLower (h ''Content-Type'')) ''application/json'' then ('''', body)
          else
            (case body_fails b of
               Some n \<Rightarrow>
                 (if n \<le> inspect_limit then ('''', Some \<lparr>body_text = drop n (body_text b), body_fails = Some 0\<rparr>) else ('''', body))
             | None \<Rightarrow>
                 (if inspect_limit < length (body_text b) then ('''', body) else (decode (body_text b), body))))"

definition cache_metadata :: "'w LogMiddleware \<Rightarrow> Completion \<Rightarrow> string" where
  "cache_metadata m completion =
     (if CacheIdentityApplied completion
      then EncodeMap m (JObj [(''cache_affinity_established'', JBool (cmp_CacheAffinityEstablished completion)),
                              (''cache_affinity_reused'', JBool (CacheAffinityReused completion)),
                              (''cache_identity_applied'', JBool True)])
      else '''')"

text \<open>The error code and the summary of an answer of at least 400.\<close>

definition error_fields :: "int \<Rightarrow> string \<Rightarrow> string \<times> string" where
  "error_fields statusCode errorCode =
     (if 400 \<le> statusCode
      then (if errorCode = '''' then ''http_'' @ FormatInt statusCode else errorCode,
            if statusCode = 499 then ''Client Closed Request'' else StatusText statusCode)
      else ('''', ''''))"

definition reported_outcome :: "(int \<times> string) list \<Rightarrow> Outcome" where
  "reported_outcome reports = Snapshot (fold (\<lambda>(code, err) t. ReportOutcome code err t) reports WithOutcome)"

definition log_entry ::
  "'w LogMiddleware \<Rightarrow> HttpRequest \<Rightarrow> ClientKey option \<Rightarrow> string \<Rightarrow> string \<Rightarrow> served \<Rightarrow> time \<Rightarrow> time \<Rightarrow> RequestLog" where
  "log_entry m r key model entryID v started ended =
     (let completion = ReportCompletion (sv_reports v);
          outcome = reported_outcome (sv_outcomes v);
          (statusCode, errorCode) = (if 0 < out_StatusCode outcome then (out_StatusCode outcome, out_ErrorCode outcome)
                                     else (last_status (sv_calls v), ''''));
          (code, summary) = error_fields statusCode errorCode
      in \<lparr>rl_ID = entryID, rl_RequestID = rq_RequestID r, rl_ClientKeyID = (case key of None \<Rightarrow> '''' | Some k \<Rightarrow> key_ID k),
          rl_AccountID = cmp_AccountID completion, rl_Model = model, rl_Endpoint = Path r, rl_StatusCode = statusCode,
          rl_DurationMS = time_sub ended started div 1000000, rl_InputTokens = Completion.InputTokens completion,
          rl_OutputTokens = Completion.OutputTokens completion, rl_CachedTokens = Completion.CachedTokens completion,
          rl_UsageParsed = UsageParsed completion, rl_ErrorCode = code, rl_ErrorSummary = summary,
          rl_Metadata = cache_metadata m completion, rl_CreatedAt = started\<rparr>)"

text \<open>What the client gets is what the wrapped handler wrote; a panic passes through, and then nothing is logged.\<close>

definition log_handler ::
  "'w LogMiddleware \<Rightarrow> (Body option \<Rightarrow> 'w \<Rightarrow> served \<times> 'w) \<Rightarrow> ClientKey option \<Rightarrow> HttpRequest \<Rightarrow> Body option \<Rightarrow> 'w \<Rightarrow> served \<times> 'w" where
  "log_handler m nxt key r body w =
     (let started = (case lm_Now m of None \<Rightarrow> lm_Clock m w | Some f \<Rightarrow> f w);
          (model, body) = inspectModel (DecodeModel m) (rq_Header r) body;
          (v, w) = nxt body w
      in if sv_panicked v then (v, w)
         else (case lm_Sink m of
                 None \<Rightarrow> (v, w)
               | Some sink \<Rightarrow>
                   (case GenerateID m w of
                      (Inl err, w) \<Rightarrow> (v, w)
                    | (Inr entryID, w) \<Rightarrow> (v, sink (log_entry m r key model entryID v started (lm_Clock m w)) w))))"

end
