(* ===== verification/Server_Properties.thy ===== *)
theory Server_Properties
  imports Request_Log "HOL-Library.Multiset"
begin

text \<open>
  What the middleware guarantees: the limit on requests in flight holds in every interleaving, an accepted log entry is written once
  and the queue empties after it is closed, a panic is answered, and a foreign origin never reaches a handler through a preflight.
\<close>

section \<open>Requests in flight\<close>

inductive_simps concurrency_step_iff: "concurrency_step c c'"

definition held :: "concurrency \<Rightarrow> nat set" where
  "held c = {i. \<exists>m k. phase_of c i = Counted m k \<or> phase_of c i = Serving m k}"

text \<open>The requests that entered under a limit of at most \<open>M\<close> and that the limit lets through.\<close>

definition admitted_below :: "int \<Rightarrow> concurrency \<Rightarrow> nat set" where
  "admitted_below M c = {i. \<exists>m k. (phase_of c i = Counted m k \<or> phase_of c i = Serving m k) \<and> k \<le> m \<and> m \<le> M}"

definition concurrency_inv :: "concurrency \<Rightarrow> bool" where
  "concurrency_inv c \<longleftrightarrow> finite (held c) \<and> active c = int (card (held c))
     \<and> (\<forall>i m k. phase_of c i = Serving m k \<longrightarrow> k \<le> m)
     \<and> (\<forall>M. 0 \<le> M \<longrightarrow> int (card (admitted_below M c)) \<le> M)"

lemma admitted_subset: "admitted_below M c \<subseteq> held c"
  by (auto simp: admitted_below_def held_def)

lemma finite_admitted: "finite (held c) \<Longrightarrow> finite (admitted_below M c)"
  using admitted_subset by (rule finite_subset)

lemma held_set_phase:
  "held (set_phase i ph c) = (case ph of Counted m k \<Rightarrow> insert i (held c) | Serving m k \<Rightarrow> insert i (held c) | _ \<Rightarrow> held c - {i})"
  by (auto simp: held_def set_phase_def split: phase.split)

lemma admitted_set_phase:
  "admitted_below M (set_phase i ph c) =
     (case ph of Counted m k \<Rightarrow> if k \<le> m \<and> m \<le> M then insert i (admitted_below M c) else admitted_below M c - {i}
      | Serving m k \<Rightarrow> if k \<le> m \<and> m \<le> M then insert i (admitted_below M c) else admitted_below M c - {i}
      | _ \<Rightarrow> admitted_below M c - {i})"
  by (auto simp: admitted_below_def set_phase_def split: phase.split)

lemma with_active [simp]: "held (c\<lparr>active := n\<rparr>) = held c" "admitted_below M (c\<lparr>active := n\<rparr>) = admitted_below M c"
  by (simp_all add: held_def admitted_below_def)

lemma active_set_phase [simp]: "active (set_phase i ph c) = active c"
  by (simp add: set_phase_def)

lemma phase_of_set_phase [simp]: "phase_of (set_phase i ph c) j = (if j = i then ph else phase_of c j)"
  by (simp add: set_phase_def)

lemma not_held: "phase_of c i \<in> {Arriving, Unlimited, Refused, Left} \<Longrightarrow> i \<notin> held c"
  by (auto simp: held_def)

lemma card_drop: "finite S \<Longrightarrow> int (card (S - {i})) \<le> int (card S)"
  by (simp add: card_Diff1_le)

lemma enter_inv:
  assumes "concurrency_inv c" "phase_of c i = Arriving"
  shows "concurrency_inv (concurrency_enter i limit c)"
proof -
  have i: "i \<notin> held c" using assms(2) by (intro not_held) simp
  then have a: "i \<notin> admitted_below M c" for M using admitted_subset by auto
  have f: "finite (held c)" "active c = int (card (held c))" "\<And>M. 0 \<le> M \<Longrightarrow> int (card (admitted_below M c)) \<le> M"
    using assms(1) by (auto simp: concurrency_inv_def)
  define m where "m = (case limit of None \<Rightarrow> 0 | Some m \<Rightarrow> m)"
  show ?thesis
  proof (cases "m \<le> 0")
    case True
    then have "concurrency_enter i limit c = set_phase i Unlimited c" by (simp add: concurrency_enter_def m_def)
    with assms(1) i a show ?thesis by (simp add: concurrency_inv_def held_set_phase admitted_set_phase)
  next
    case False
    then have e: "concurrency_enter i limit c = set_phase i (Counted m (active c + 1)) (c\<lparr>active := active c + 1\<rparr>)"
      by (simp add: concurrency_enter_def m_def)
    have "int (card (admitted_below M (concurrency_enter i limit c))) \<le> M" if "0 \<le> M" for M
    proof (cases "active c + 1 \<le> m \<and> m \<le> M")
      case True
      have "card (admitted_below M c) \<le> card (held c)" using f(1) admitted_subset by (rule card_mono)
      with True f a [of M] finite_admitted [OF f(1), of M] show ?thesis unfolding e by (simp add: admitted_set_phase)
    qed (use a f(3) [OF that] in \<open>auto simp: e admitted_set_phase\<close>)
    then show ?thesis using assms(1) i f unfolding e by (simp add: concurrency_inv_def held_set_phase)
  qed
qed

lemma compare_inv:
  assumes "concurrency_inv c" "phase_of c i = Counted m k"
  shows "concurrency_inv (concurrency_compare i m k c)"
proof -
  have i: "i \<in> held c" using assms(2) by (auto simp: held_def)
  have f: "finite (held c)" "active c = int (card (held c))" "\<And>M. 0 \<le> M \<Longrightarrow> int (card (admitted_below M c)) \<le> M"
    using assms(1) by (auto simp: concurrency_inv_def)
  have c: "0 < card (held c)" using f(1) i by (auto simp: card_gt_0_iff)
  show ?thesis
  proof (cases "m < k")
    case True
    have "int (card (admitted_below M c - {i})) \<le> M" if "0 \<le> M" for M
      using f(3) [OF that] card_drop [OF finite_admitted [OF f(1)]] by (rule order_trans [rotated])
    with True assms i f(1,2) c show ?thesis
      by (simp add: concurrency_inv_def concurrency_compare_def held_set_phase admitted_set_phase)
  next
    case False
    have "admitted_below M (set_phase i (Serving m k) c) = admitted_below M c" for M
      using assms(2) by (auto simp: admitted_set_phase admitted_below_def)
    with False assms i show ?thesis
      by (simp add: concurrency_inv_def concurrency_compare_def held_set_phase insert_absorb)
  qed
qed

lemma leave_inv:
  assumes "concurrency_inv c" "phase_of c i = (if counted then Serving m k else Unlimited)"
  shows "concurrency_inv (concurrency_leave i counted c)"
proof -
  have f: "finite (held c)" "active c = int (card (held c))" "\<And>M. 0 \<le> M \<Longrightarrow> int (card (admitted_below M c)) \<le> M"
    using assms(1) by (auto simp: concurrency_inv_def)
  have d: "int (card (admitted_below M c - {i})) \<le> M" if "0 \<le> M" for M
    using f(3) [OF that] card_drop [OF finite_admitted [OF f(1)]] by (rule order_trans [rotated])
  show ?thesis
  proof (cases counted)
    case True
    then have i: "i \<in> held c" using assms(2) by (auto simp: held_def)
    then have "0 < card (held c)" using f(1) by (auto simp: card_gt_0_iff)
    with True i d f(1,2) assms show ?thesis
      by (simp add: concurrency_inv_def concurrency_leave_def held_set_phase admitted_set_phase)
  next
    case False
    then have "i \<notin> held c" using assms(2) by (intro not_held) simp
    with False d f(1,2) assms show ?thesis
      by (simp add: concurrency_inv_def concurrency_leave_def held_set_phase admitted_set_phase)
  qed
qed

lemma concurrency_invariant: "concurrency_step\<^sup>*\<^sup>* concurrency_start c \<Longrightarrow> concurrency_inv c"
proof (induction rule: rtranclp_induct)
  case base
  show ?case by (simp add: concurrency_inv_def held_def admitted_below_def concurrency_start_def)
next
  case (step c c')
  from step.hyps(2) show ?case
  proof cases
    case (leave i m k)
    then show ?thesis using leave_inv [OF step.IH, of i True m k] by simp
  next
    case (leave_unlimited i)
    then show ?thesis using leave_inv [OF step.IH, of i False] by simp
  qed (use step.IH enter_inv compare_inv in auto)
qed

text \<open>C36: the limit on requests in flight. However requests interleave and however the configured limit changes between them, the number of
  requests that are served after they passed under a limit of at most \<open>M\<close> never exceeds \<open>M\<close>, and the counter is exactly the number of requests that
  added themselves and have not taken themselves off: it is zero again when they have all left.\<close>

theorem concurrency_limited:
  assumes "concurrency_step\<^sup>*\<^sup>* concurrency_start c" "0 \<le> M"
  shows "int (card {i. \<exists>m k. phase_of c i = Serving m k \<and> m \<le> M}) \<le> M
    \<and> active c = int (card {i. \<exists>m k. phase_of c i = Counted m k \<or> phase_of c i = Serving m k})"
proof -
  have inv: "concurrency_inv c" using assms(1) by (rule concurrency_invariant)
  then have f: "finite (admitted_below M c)" by (auto simp: concurrency_inv_def intro: finite_admitted)
  have "{i. \<exists>m k. phase_of c i = Serving m k \<and> m \<le> M} \<subseteq> admitted_below M c"
    using inv by (auto simp: concurrency_inv_def admitted_below_def)
  then have "card {i. \<exists>m k. phase_of c i = Serving m k \<and> m \<le> M} \<le> card (admitted_below M c)" using f by (simp add: card_mono)
  moreover have "int (card (admitted_below M c)) \<le> M" using inv assms(2) by (simp add: concurrency_inv_def)
  moreover have "active c = int (card (held c))" using inv by (simp add: concurrency_inv_def)
  ultimately show ?thesis unfolding held_def by linarith
qed

text \<open>Two requests under the limit one: the first is served.\<close>

definition one_served :: concurrency where
  "one_served = concurrency_compare 0 1 1 (concurrency_enter 1 (Some 1) (concurrency_enter 0 (Some 1) concurrency_start))"

lemma one_served_reachable: "concurrency_step\<^sup>*\<^sup>* concurrency_start one_served"
proof -
  let ?a = "concurrency_enter 0 (Some 1) concurrency_start" and ?b = "concurrency_enter 1 (Some 1) (concurrency_enter 0 (Some 1) concurrency_start)"
  have "concurrency_step concurrency_start ?a" by (rule concurrency_step.enter) (simp add: concurrency_start_def)
  moreover have "concurrency_step ?a ?b"
    by (rule concurrency_step.enter) (simp add: concurrency_start_def concurrency_enter_def)
  moreover have "concurrency_step ?b one_served" unfolding one_served_def
    by (rule concurrency_step.compare) (simp add: concurrency_start_def concurrency_enter_def)
  ultimately show ?thesis by (meson converse_rtranclp_into_rtranclp rtranclp.rtrancl_refl)
qed

theorem concurrency_limited_witness:
  "int (card {i. \<exists>m k. phase_of one_served i = Serving m k \<and> m \<le> 1}) \<le> 1 \<and> phase_of one_served 0 = Serving 1 1"
proof -
  have "phase_of one_served 0 = Serving 1 1" by code_simp
  with concurrency_limited [OF one_served_reachable, of 1] show ?thesis by simp
qed

section \<open>The queue of the request log\<close>

definition sink_inv :: "nat \<Rightarrow> 'e AsyncSink \<Rightarrow> bool" where
  "sink_inv cap s \<longleftrightarrow> capacity s = cap \<and> length (queue s) \<le> cap \<and> accepted s = begun s @ queue s
     \<and> mset (begun s) = mset (working s) + mset (delivered s) \<and> length (working s) + exited s \<le> workers s
     \<and> (0 < exited s \<longrightarrow> closed s \<and> queue s = [])"

inductive_cases worker_stepE: "worker_step s s'"

lemma create_frame:
  assumes "CreateRequestLog configured ctxErr prefer_done entry s = (r, s')"
  shows "capacity s' = capacity s" "workers s' = workers s" "begun s' = begun s" "working s' = working s" "delivered s' = delivered s"
    "exited s' = exited s" "closed s' = closed s"
    "s' = s \<or> r = Some ErrSinkFull \<and> s' = s\<lparr>dropped := dropped s + 1\<rparr>
      \<or> (\<exists>e. entry = Some e \<and> r = None \<and> \<not> closed s \<and> length (queue s) < capacity s
           \<and> s' = s\<lparr>queue := queue s @ [e], accepted := accepted s @ [e]\<rparr>)"
  using assms by (auto simp: CreateRequestLog_def split: if_splits option.splits)

lemma create_sink_inv:
  assumes "CreateRequestLog configured ctxErr prefer_done entry s = (r, s')" "sink_inv cap s"
  shows "sink_inv cap s'"
  using create_frame(8) [OF assms(1)] assms(2) by (auto simp: sink_inv_def)

lemma worker_sink_inv: "worker_step s s' \<Longrightarrow> sink_inv cap s \<Longrightarrow> sink_inv cap s'"
  by (erule worker_stepE) (auto simp: sink_inv_def idle_worker_def)

lemma sink_step_inv: "sink_step s s' \<Longrightarrow> sink_inv cap s \<Longrightarrow> sink_inv cap s'"
  by (induction rule: sink_step.induct) (auto simp: create_sink_inv worker_sink_inv, auto simp: sink_inv_def sink_Close_def)

lemma sink_run_inv: "sink_step\<^sup>*\<^sup>* (NewAsyncSink room crew) s \<Longrightarrow> sink_inv (capacity (NewAsyncSink room crew :: 'e AsyncSink)) (s :: 'e AsyncSink)"
  by (induction rule: rtranclp_induct) (auto simp: sink_step_inv, simp add: sink_inv_def NewAsyncSink_def)

lemma sink_run_workers: "sink_step\<^sup>*\<^sup>* s s' \<Longrightarrow> workers s' = workers s"
  by (induction rule: rtranclp_induct)
    (auto elim!: sink_step.cases worker_stepE simp: sink_Close_def dest: create_frame(2))

lemma flushed_idle: "sink_inv cap s \<Longrightarrow> flushed s \<Longrightarrow> 0 < workers s \<Longrightarrow> working s = [] \<and> queue s = []"
  by (auto simp: sink_inv_def flushed_def)

text \<open>C37: no entry of the request log is lost or written twice. In every interleaving of requests, workers and the shutdown the queue holds at most
  its capacity, the entries are taken in the order in which they were accepted, and every entry that was accepted is queued, being written, or
  written exactly once. When \<open>Close\<close> has seen all workers end, everything that was ever accepted has been handed to the table.\<close>

theorem request_log_delivers:
  assumes "sink_step\<^sup>*\<^sup>* (NewAsyncSink room crew) s"
  shows "int (length (queue s)) \<le> (if room \<le> 0 then 4096 else room)
    \<and> accepted s = begun s @ queue s \<and> mset (accepted s) = mset (queue s) + mset (working s) + mset (delivered s)
    \<and> (if flushed s then mset (delivered s) = mset (accepted s) else True)"
proof -
  note inv = sink_run_inv [OF assms]
  have w: "0 < workers s" using sink_run_workers [OF assms] by (simp add: NewAsyncSink_def)
  have "int (length (queue s)) \<le> (if room \<le> 0 then 4096 else room)"
    using inv by (auto simp: sink_inv_def NewAsyncSink_def split: if_splits)
  moreover have "mset (accepted s) = mset (queue s) + mset (working s) + mset (delivered s)" using inv by (auto simp: sink_inv_def)
  moreover have "mset (delivered s) = mset (accepted s)" if "flushed s"
    using flushed_idle [OF inv that w] inv by (simp add: sink_inv_def)
  moreover have "accepted s = begun s @ queue s" using inv by (simp add: sink_inv_def)
  ultimately show ?thesis by simp
qed

definition sink_work :: "'e AsyncSink \<Rightarrow> nat" where
  "sink_work s = 2 * length (queue s) + length (working s) + (workers s - exited s)"

lemma worker_progress: "worker_step s s' \<Longrightarrow> sink_work s' < sink_work s \<and> workers s' = workers s \<and> closed s' = closed s"
  by (erule worker_stepE) (auto simp: sink_work_def idle_worker_def)

lemma worker_enabled:
  assumes "closed s" "sink_inv cap s" "\<not> flushed s"
  obtains s' where "worker_step s s'"
proof (cases "working s")
  case (Cons e rest)
  then show ?thesis using worker_step.written [of s "[]" e rest] that by simp
next
  case Nil
  with assms(2,3) have "idle_worker s" by (simp add: idle_worker_def sink_inv_def flushed_def)
  show ?thesis
  proof (cases "queue s")
    case Nil
    from that [OF worker_step.leave [OF \<open>idle_worker s\<close> Nil assms(1)]] show ?thesis .
  next
    case (Cons e rest)
    from that [OF worker_step.take [OF \<open>idle_worker s\<close> Cons]] show ?thesis .
  qed
qed

lemma workers_finish: "closed s \<Longrightarrow> sink_inv cap s \<Longrightarrow> \<exists>s'. worker_step\<^sup>*\<^sup>* s s' \<and> flushed s'"
proof (induction "sink_work s" arbitrary: s rule: less_induct)
  case less
  show ?case
  proof (cases "flushed s")
    case False
    then obtain s1 where s1: "worker_step s s1" using worker_enabled less.prems by blast
    with less.hyps [of s1] less.prems worker_progress [OF s1] worker_sink_inv [OF s1] obtain s'
      where "worker_step\<^sup>*\<^sup>* s1 s'" "flushed s'" by auto
    with s1 show ?thesis by (meson converse_rtranclp_into_rtranclp)
  qed blast
qed

lemma worker_accepted: "worker_step s s' \<Longrightarrow> accepted s' = accepted s"
  by (erule worker_stepE) auto

lemma create_closed: "CreateRequestLog configured ctxErr prefer_done entry s = (r, s') \<Longrightarrow> closed s \<Longrightarrow> s' = s"
  by (auto simp: CreateRequestLog_def split: if_splits option.splits)

lemma closed_stays: "closed s \<Longrightarrow> sink_step s s' \<Longrightarrow> closed s' \<and> accepted s' = accepted s"
  by (erule sink_step.cases) (auto dest: create_closed worker_accepted worker_progress simp: sink_Close_def)

lemma closed_forever: "sink_step\<^sup>*\<^sup>* s s' \<Longrightarrow> closed s \<Longrightarrow> closed s' \<and> accepted s' = accepted s"
  by (induction rule: rtranclp_induct) (auto dest: closed_stays)

text \<open>C38: the shutdown flushes the log. After \<open>Close\<close> no further entry is accepted, whatever happens; the workers always can go on, every step
  of a worker reduces the work that is left, and from every state after \<open>Close\<close> they reach the end: all have left and everything that was accepted has
  been written.\<close>

theorem request_log_flushes:
  assumes "sink_step\<^sup>*\<^sup>* (NewAsyncSink room crew) s" "closed s" "sink_step\<^sup>*\<^sup>* s s'"
  shows "accepted s' = accepted s \<and> (\<exists>t. worker_step\<^sup>*\<^sup>* s' t \<and> flushed t \<and> mset (delivered t) = mset (accepted s))
    \<and> {t. worker_step s' t \<and> sink_work s' \<le> sink_work t} = {} \<and> ((\<exists>t. worker_step s' t) \<or> flushed s')"
proof -
  have c: "closed s'" "accepted s' = accepted s" using closed_forever [OF assms(3,2)] by auto
  have run: "sink_step\<^sup>*\<^sup>* (NewAsyncSink room crew) s'" using assms(1,3) by simp
  note inv = sink_run_inv [OF run]
  from workers_finish [OF c(1) inv] obtain t where t: "worker_step\<^sup>*\<^sup>* s' t" "flushed t" by blast
  have st: "sink_step\<^sup>*\<^sup>* s' t" using t(1) by (rule rtranclp_mono [THEN predicate2D, rotated]) (auto intro: sink_step.worker)
  have w: "0 < workers t" using sink_run_workers [OF rtranclp_trans [OF run st]] by (simp add: NewAsyncSink_def)
  have tinv: "sink_inv (capacity (NewAsyncSink room crew :: 'a AsyncSink)) t" using run st by (intro sink_run_inv) (rule rtranclp_trans)
  have "mset (delivered t) = mset (accepted t)" using flushed_idle [OF tinv t(2) w] tinv by (simp add: sink_inv_def)
  with closed_forever [OF st c(1)] c(2) t have fin: "\<exists>t. worker_step\<^sup>*\<^sup>* s' t \<and> flushed t \<and> mset (delivered t) = mset (accepted s)" by auto
  have "{t. worker_step s' t \<and> sink_work s' \<le> sink_work t} = {}" using worker_progress by fastforce
  moreover have "(\<exists>t. worker_step s' t) \<or> flushed s'" using worker_enabled [OF c(1) inv] by blast
  ultimately show ?thesis using c(2) fin by simp
qed

definition two_logged :: "string AsyncSink" where
  "two_logged = sink_Close (snd (CreateRequestLog True None False (Some ''b'') (snd (CreateRequestLog True None False (Some ''a'') (NewAsyncSink 2 1)))))"

lemma two_logged_run: "sink_step\<^sup>*\<^sup>* (NewAsyncSink 2 1) two_logged"
proof -
  have s: "sink_step s (snd (CreateRequestLog True None False x s))" for x and s :: "string AsyncSink"
    by (rule sink_step.create) (rule prod.collapse [symmetric])
  show ?thesis unfolding two_logged_def
    by (meson s sink_step.close rtranclp.rtrancl_refl rtranclp.rtrancl_into_rtrancl)
qed

theorem request_log_delivers_witness: "accepted two_logged = begun two_logged @ queue two_logged \<and> length (queue two_logged) = 2"
proof -
  have "length (queue two_logged) = 2" by code_simp
  with request_log_delivers [OF two_logged_run] show ?thesis by simp
qed

theorem request_log_flushes_witness: "\<exists>t. worker_step\<^sup>*\<^sup>* two_logged t \<and> flushed t \<and> mset (delivered t) = {#''a'', ''b''#}"
proof -
  have "closed two_logged" "accepted two_logged = [''a'', ''b'']" by code_simp+
  with request_log_flushes [OF two_logged_run _ rtranclp.rtrancl_refl] show ?thesis by (auto simp: add_mset_commute)
qed

section \<open>Cross-origin requests\<close>

abbreviation allow_origin :: string where "allow_origin \<equiv> ''Access-Control-Allow-Origin''"

definition configured_origins :: "string \<Rightarrow> string set" where
  "configured_origins configured = trim_origin ` set (Split configured (CHR '',''))"

lemma match_origin_sound:
  "match_origin origin cs = (allowed, wildcard) \<Longrightarrow>
    allowed = (\<exists>c \<in> set cs. trim_origin c = ''*'' \<or> trim_origin c = origin) \<and> (wildcard \<longrightarrow> ''*'' \<in> trim_origin ` set cs)
    \<and> (allowed \<and> \<not> wildcard \<longrightarrow> origin \<in> trim_origin ` set cs)"
  by (induction cs) (auto split: if_splits)

text \<open>Handlers that leave the header of allowed origins alone.\<close>

definition origin_kept :: "Writer \<Rightarrow> Writer \<Rightarrow> bool" where
  "origin_kept wr wr' \<longleftrightarrow> wr_header wr' allow_origin = wr_header wr allow_origin
     \<and> (\<forall>code h. wr_sent wr' = Some (code, h) \<longrightarrow> h allow_origin = wr_header wr allow_origin \<or> wr_sent wr = Some (code, h))"

definition keeps_origin :: "'w http_handler \<Rightarrow> bool" where
  "keeps_origin h \<longleftrightarrow> (\<forall>r wr w. origin_kept wr (fst (snd (h r wr w))))"

lemma origin_kept_refl [simp]: "origin_kept wr wr"
  by (simp add: origin_kept_def)

lemma origin_kept_trans: "origin_kept a b \<Longrightarrow> origin_kept b c \<Longrightarrow> origin_kept a c"
  by (fastforce simp: origin_kept_def)

lemma origin_kept_set: "name \<noteq> allow_origin \<Longrightarrow> origin_kept wr (header_set name v wr)"
  by (auto simp: origin_kept_def header_set_def)

lemma origin_kept_json: "origin_kept wr (WriteJSON env status v wr)"
  by (auto simp: origin_kept_def WriteJSON_def write_bytes_def WriteHeader_def send_head_def header_set_def Let_def)

lemma origin_kept_error: "origin_kept wr (WriteErrorForRequest env r status code message wr)"
  by (simp add: WriteErrorForRequest_def WriteError_def origin_kept_json)

text \<open>The writer with which the chain reaches the cross-origin check.\<close>

definition entry_writer :: "string \<Rightarrow> Writer" where
  "entry_writer requestID =
     fold (\<lambda>(name, v). header_set name v) security_header_list (header_set ''X-Request-ID'' requestID new_writer)"

lemma entry_writer_frame: "wr_sent (entry_writer i) = None" "wr_header (entry_writer i) allow_origin = []"
  by (simp_all add: entry_writer_def security_header_list_def header_set_def new_writer_def)

lemma server_handler_unfold:
  "\<exists>i w1. \<forall>router. server_handler env origins router r new_writer w =
     Recover env (AccessLog env (DynamicCORS env (Some origins) router)) (r\<lparr>rq_RequestID := i\<rparr>) (entry_writer i) w1"
  by (auto simp: server_handler_def Chain_def RequestID_def SecurityHeaders_def entry_writer_def Let_def case_prod_unfold)

text \<open>What the check leaves in the header.\<close>

definition origin_sound :: "string \<Rightarrow> HttpRequest \<Rightarrow> string list \<Rightarrow> bool" where
  "origin_sound configured r vs \<longleftrightarrow> vs = [] \<or> vs = [''*''] \<and> ''*'' \<in> configured_origins configured
     \<or> vs = [trim_origin (rq_Header r ''Origin'')] \<and> trim_origin (rq_Header r ''Origin'') \<in> configured_origins configured"

definition answer_sound :: "string \<Rightarrow> HttpRequest \<Rightarrow> Writer \<Rightarrow> bool" where
  "answer_sound configured r wr \<longleftrightarrow> origin_sound configured r (wr_header wr allow_origin)
     \<and> (\<forall>code h. wr_sent wr = Some (code, h) \<longrightarrow> origin_sound configured r (h allow_origin))"

lemma answer_sound_kept: "origin_kept wr wr' \<Longrightarrow> answer_sound configured r wr \<Longrightarrow> answer_sound configured r wr'"
  by (fastforce simp: origin_kept_def answer_sound_def)

lemma answer_sound_fresh: "wr_sent wr = None \<Longrightarrow> origin_sound configured r (wr_header wr allow_origin) \<Longrightarrow> answer_sound configured r wr"
  by (simp add: answer_sound_def)

lemma cors_headers_frame:
  "wr_sent (cors_headers o' wild wr) = wr_sent wr" "wr_header (cors_headers o' wild wr) allow_origin = [if wild then ''*'' else o']"
  by (simp_all add: cors_headers_def header_set_def)

lemma header_add_frame: "wr_sent (header_add n v wr) = wr_sent wr" "n \<noteq> m \<Longrightarrow> wr_header (header_add n v wr) m = wr_header wr m"
  by (simp_all add: header_add_def)

lemma cors_sound:
  assumes "keeps_origin router" "wr_sent wr = None" "wr_header wr allow_origin = []"
  shows "answer_sound configured r (fst (snd (DynamicCORS env (Some (\<lambda>_. configured)) router r wr w)))"
proof -
  let ?o = "trim_origin (rq_Header r ''Origin'')" and ?wr = "header_add ''Vary'' ''Origin'' wr"
  have base: "answer_sound configured r wr" "answer_sound configured r ?wr"
    using assms(2,3) by (simp_all add: answer_sound_def origin_sound_def header_add_frame)
  have run: "answer_sound configured r x \<Longrightarrow> answer_sound configured r (fst (snd (router r x w)))" for x
    using assms(1) answer_sound_kept unfolding keeps_origin_def by blast
  obtain allowed wildcard where m: "originAllowed ?o configured = (allowed, wildcard)" by (rule prod.exhaust)
  have ms: "allowed \<and> wildcard \<Longrightarrow> ''*'' \<in> configured_origins configured" "allowed \<and> \<not> wildcard \<Longrightarrow> ?o \<in> configured_origins configured"
    using match_origin_sound [OF m [unfolded originAllowed_def]] by (auto simp: configured_origins_def)
  have c: "answer_sound configured r (cors_headers ?o wildcard ?wr)" if allowed
    using that ms assms(2) by (intro answer_sound_fresh) (auto simp: cors_headers_frame header_add_frame origin_sound_def)
  have k: "origin_kept x (WriteHeader 204 x)" for x by (auto simp: origin_kept_def WriteHeader_def send_head_def)
  have p: "answer_sound configured r x \<Longrightarrow> answer_sound configured r (WriteHeader 204 (header_set ''Access-Control-Max-Age'' a
      (header_set ''Access-Control-Allow-Headers'' b (header_set ''Access-Control-Allow-Methods'' d x))))" for x a b d
    by (intro answer_sound_kept [OF k] answer_sound_kept [OF origin_kept_set]) simp_all
  have e: "answer_sound configured r (WriteErrorForRequest env r a b d ?wr)" for a b d
    by (rule answer_sound_kept [OF origin_kept_error base(2)])
  show ?thesis using base run c p e by (simp add: DynamicCORS_def Let_def m)
qed

lemma AccessLog_writer: "fst (snd (AccessLog env h r wr w)) = fst (snd (h r wr (snd (Wall env w))))"
  by (auto simp: AccessLog_def Let_def split: prod.split option.split)

lemma Recover_sound:
  assumes "answer_sound configured r (fst (snd (h r' wr w)))" "Recover env h r' wr w = (panicked, wr', w')"
  shows "panicked = None \<and> answer_sound configured r wr'"
  using assms answer_sound_kept [OF origin_kept_error] by (cases "h r' wr w") (auto simp: Recover_def split: option.splits)

text \<open>The answer to a preflight from an origin that is not configured.\<close>

lemma cors_denies:
  assumes "isPreflight r" "trim_origin (rq_Header r ''Origin'') \<notin> insert '''' (configured_origins configured)" "''*'' \<notin> configured_origins configured"
  shows "DynamicCORS env (Some (\<lambda>_. configured)) h r wr w =
    (None, WriteErrorForRequest env r 403 ''cors_origin_denied'' ''The request origin is not allowed.'' (header_add ''Vary'' ''Origin'' wr), w)"
proof -
  let ?o = "trim_origin (rq_Header r ''Origin'')"
  obtain allowed wildcard where m: "originAllowed ?o configured = (allowed, wildcard)" by (rule prod.exhaust)
  have "\<not> allowed" using match_origin_sound [OF m [unfolded originAllowed_def]] assms(2,3) by (auto simp: configured_origins_def)
  with assms m show ?thesis by (simp add: DynamicCORS_def Let_def)
qed

lemma error_status: "wr_sent wr = None \<Longrightarrow> map_option fst (wr_sent (WriteErrorForRequest env r status code message wr)) = Some status"
  by (simp add: WriteErrorForRequest_def WriteError_def WriteJSON_def write_bytes_def WriteHeader_def send_head_def header_set_def Let_def)

text \<open>C39: only configured origins are let in. Whatever the router does, short of writing the header itself, an answer of the server allows an origin
  only if it is the origin of the request and is configured, or if the wildcard is configured; a panic of the router does not escape either. A preflight
  from an origin that is not configured is answered with 403 in the same way for every router: the router is not run.\<close>

theorem foreign_origin_refused:
  assumes "keeps_origin router" "server_handler env (\<lambda>_. configured) router r new_writer w = (panicked, wr', w')"
  shows "panicked = None \<and> answer_sound configured r wr'
    \<and> (if isPreflight r \<and> trim_origin (rq_Header r ''Origin'') \<notin> insert '''' (configured_origins configured) \<and> ''*'' \<notin> configured_origins configured
       then server_handler env (\<lambda>_. configured) other r new_writer w = (panicked, wr', w') \<and> map_option fst (wr_sent wr') = Some 403 else True)"
proof -
  let ?cors = "DynamicCORS env (Some (\<lambda>_. configured))" and ?o = "trim_origin (rq_Header r ''Origin'')"
  obtain i w1 where u: "\<And>h. server_handler env (\<lambda>_. configured) h r new_writer w =
      Recover env (AccessLog env (?cors h)) (r\<lparr>rq_RequestID := i\<rparr>) (entry_writer i) w1"
    using server_handler_unfold [of env "\<lambda>_. configured" r w] by auto
  have "answer_sound configured r (fst (snd (AccessLog env (?cors router) (r\<lparr>rq_RequestID := i\<rparr>) (entry_writer i) w1)))"
    using cors_sound [OF assms(1) entry_writer_frame, of configured "r\<lparr>rq_RequestID := i\<rparr>" env i]
    by (simp add: AccessLog_writer answer_sound_def origin_sound_def)
  from Recover_sound [OF this assms(2) [unfolded u]] have s: "panicked = None \<and> answer_sound configured r wr'" .
  have "server_handler env (\<lambda>_. configured) other r new_writer w = (panicked, wr', w') \<and> map_option fst (wr_sent wr') = Some 403"
    if pre: "isPreflight r" "?o \<notin> insert '''' (configured_origins configured)" "''*'' \<notin> configured_origins configured"
  proof -
    have c: "?cors h (r\<lparr>rq_RequestID := i\<rparr>) x y = (None, WriteErrorForRequest env (r\<lparr>rq_RequestID := i\<rparr>) 403 ''cors_origin_denied''
        ''The request origin is not allowed.'' (header_add ''Vary'' ''Origin'' x), y)" for h x y
      using pre by (intro cors_denies) (simp_all add: isPreflight_def)
    have "map_option fst (wr_sent (WriteErrorForRequest env r' 403 a b (header_add n v (entry_writer i)))) = Some 403" for r' a b n v
      by (intro error_status) (simp add: header_add_frame entry_writer_frame)
    then have e: "\<exists>y. wr_sent (WriteErrorForRequest env r' 403 a b (header_add n v (entry_writer i))) = Some (403, y)" for r' a b n v
      by (auto simp: map_option_eq_Some)
    from assms(2) show ?thesis unfolding u by (auto simp: Recover_def AccessLog_def c e Let_def split: prod.splits)
  qed
  with s show ?thesis by simp
qed

definition sample_env :: "unit HttpEnv" where
  "sample_env = \<lparr>Encode = (\<lambda>_. ''{}''), Random16 = (\<lambda>w. (Some [1, 2], w)), Wall = (\<lambda>w. (0, w)), FormatNano = (\<lambda>_. []),
     LogPanic = (\<lambda>_ _ w. w), LogAccess = (\<lambda>_ w. w)\<rparr>"

definition sample_preflight :: HttpRequest where
  "sample_preflight = \<lparr>Method = ''OPTIONS'', Path = ''/v1/responses'',
     rq_Header = (\<lambda>n. if n = ''Origin'' then ''https://denied.test'' else if n = ''Access-Control-Request-Method'' then ''POST'' else ''''),
     rq_RequestID = ''''\<rparr>"

theorem foreign_origin_refused_witness:
  "map_option fst (wr_sent (fst (snd (server_handler sample_env (\<lambda>_. ''https://allowed.test'') (\<lambda>r wr w. (Some ''reached'', wr, w))
     sample_preflight new_writer ())))) = Some 403"
proof -
  obtain p wr' w' where h: "server_handler sample_env (\<lambda>_. ''https://allowed.test'') (\<lambda>r wr w. (Some ''reached'', wr, w))
     sample_preflight new_writer () = (p, wr', w')" by (rule prod_cases3)
  have "isPreflight sample_preflight" "trim_origin (rq_Header sample_preflight ''Origin'') = ''https://denied.test''"
    "map trim_origin (Split ''https://allowed.test'' (CHR '','')) = [''https://allowed.test'']" by code_simp+
  with foreign_origin_refused [OF _ h] h show ?thesis
    by (simp add: keeps_origin_def configured_origins_def flip: set_map)
qed

end
