(* ===== verification/Account_Probe.thy ===== *)
theory Account_Probe
  imports Account_Pool Quota_Headers Cache_Identity Httpx Tool_Names
begin

text \<open>
  Account probes (\<open>internal/accountprobe/service.go\<close>): a small real request through one selected account, and batches of them.

  \<^item> The account reader, the upstream client and the proxy lookup are functions over the world of the pool. \<open>ps_Wall\<close> is \<open>time.Now\<close>.
  \<^item> \<open>ProbeContext\<close> is what the contexts of a probe do: the outcome of the waits for a reload, and for every read of the event stream whether the
    context is chosen in the select. The stream of a response is the list of its events, which ends when the channel is closed.
  \<^item> The probes of a batch run in workers; the argument \<open>order\<close> is the order in which they run. Their critical sections are those of the pool, whose
    interleavings are the subject of the theory \<open>Pool_Steps\<close>.
\<close>

section \<open>Data\<close>

record ProbeResult =
  pr_AccountID :: string
  pr_Success :: bool
  pr_StatusCode :: int
  pr_DurationMS :: int
  pr_Model :: string
  pr_Message :: string
  pr_CompletedAt :: time
  pr_Account :: "Account option"

definition no_result :: ProbeResult where
  "no_result = \<lparr>pr_AccountID = '''', pr_Success = False, pr_StatusCode = 0, pr_DurationMS = 0, pr_Model = '''', pr_Message = '''',
     pr_CompletedAt = 0, pr_Account = None\<rparr>"

record BatchResult =
  Total :: int
  Succeeded :: int
  Failed :: int
  Items :: "ProbeResult list"

record 'w ProbeService =
  ps_deps :: "'w Deps"
  ps_GetAccount :: "string \<Rightarrow> 'w \<Rightarrow> (error + Account) \<times> 'w"
  ps_Do :: "Request \<Rightarrow> 'w \<Rightarrow> (error + Response option) \<times> 'w"
  ps_ProxyURL :: "(string \<Rightarrow> 'w \<Rightarrow> (error + string) \<times> 'w) option"
  ps_timeout :: duration
  ps_parallelism :: int
  ps_parsers :: TimeParsers
  ps_Marshal :: "json \<Rightarrow> error + string"
  ps_Unmarshal :: "string \<Rightarrow> (string \<times> json) list option"
  ps_Wall :: "'w \<Rightarrow> time \<times> 'w"

record ProbeContext =
  pc_load :: "error option"
  pc_reload :: "error option"
  pc_again :: "error option"
  pc_release :: "error option"
  pc_expired :: "nat \<Rightarrow> error option"

text \<open>An error of a probe; \<open>errors.As\<close> tells the second kind apart.\<close>

datatype probe_error = ProbeError error | ChallengeError int

definition challenge_text :: "int \<Rightarrow> string" where
  "challenge_text code = ''upstream protection challenge returned HTTP '' @ FormatInt code @ ''; check the account proxy and retry''"

definition as_error :: "probe_error \<Rightarrow> error" where
  "as_error e = (case e of ProbeError e \<Rightarrow> e | ChallengeError code \<Rightarrow> ErrText (challenge_text code))"

text \<open>\<open>configured\<close> tells whether the pool, the reader and the client are configured.\<close>

definition NewProbe :: "bool \<Rightarrow> 'w ProbeService \<Rightarrow> error + 'w ProbeService" where
  "NewProbe configured s =
     (if \<not> configured then Inl (ErrText ''account probe requires an account pool, account reader, and upstream client'')
      else Inr (s\<lparr>ps_timeout := (if ps_timeout s \<le> 0 then 45 * Second else ps_timeout s),
                  ps_parallelism := (if ps_parallelism s \<le> 0 then 8 else ps_parallelism s)\<rparr>))"

section \<open>Models, answers and messages\<close>

definition maximumModelLength :: nat where
  "maximumModelLength = 200"

definition probeModel :: "Account \<Rightarrow> string \<Rightarrow> error + string" where
  "probeModel acc requested =
     (let model = TrimSpace requested;
          model = (if model \<noteq> '''' then model
                   else (case Kind acc of CredentialCLIOAuth \<Rightarrow> ''grok-4.5'' | CredentialConsoleSSO \<Rightarrow> ''grok-4.3''
                         | CredentialGrokSSO \<Rightarrow> ''grok-4.20-fast''))
      in if maximumModelLength < length model \<or> CHR 0x0D \<in> set model \<or> CHR 0x0A \<in> set model \<or> CHR 0x00 \<in> set model
         then Inl (ErrText ''probe model is invalid'') else Inr model)"

definition probe_looksLikeHTML :: "header \<Rightarrow> string \<Rightarrow> bool" where
  "probe_looksLikeHTML h body =
     (if Contains (ToLower (h ''Content-Type'')) ''text/html'' then True
      else (let lowerBody = ToLower (TrimSpace body)
            in HasPrefix lowerBody ''<!doctype html'' \<or> HasPrefix lowerBody ''<html''))"

definition probe_challenge :: "Response option \<Rightarrow> string \<Rightarrow> bool" where
  "probe_challenge response body =
     (case response of
        None \<Rightarrow> False
      | Some r \<Rightarrow>
          if resp_StatusCode r \<noteq> 403 then False
          else if match_fold ''challenge'' (TrimSpace (resp_Header r ''CF-Mitigated'')) = Some '''' then True
          else (let lowerBody = ToLower body
                in if Contains lowerBody ''challenges.cloudflare.com'' \<or> Contains lowerBody ''cf-chl-''
                      \<or> Contains lowerBody ''<title>just a moment...</title>'' then True
                   else Contains (ToLower (resp_Header r ''Server'')) ''cloudflare'' \<and> probe_looksLikeHTML (resp_Header r) body))"

definition upstreamResponseError :: "Response \<Rightarrow> probe_error" where
  "upstreamResponseError r =
     (let body = TrimSpace (resp_Body r)
      in if probe_challenge (Some r) body then ChallengeError (resp_StatusCode r)
         else (let detail = StatusText (resp_StatusCode r); prefix = ''upstream returned HTTP '' @ FormatInt (resp_StatusCode r)
               in ProbeError (ErrText (if detail = '''' then prefix else prefix @ '': '' @ detail))))"

definition upstreamRequestFailure :: "error \<Rightarrow> error" where
  "upstreamRequestFailure err =
     ErrText (if errors_is err DeadlineExceeded then ''upstream request timed out''
              else if errors_is err Canceled then ''upstream request was canceled'' else ''upstream request failed'')"

definition counts_as_seen :: "EventKind \<Rightarrow> bool" where
  "counts_as_seen k \<longleftrightarrow> k \<in> {EventTextDelta, EventReasoningDelta, EventToolCall, EventImage, EventVideo, EventUsage, EventDone}"

text \<open>The loop over the events; \<open>n\<close> counts the rounds of the select.\<close>

fun validate_events :: "(nat \<Rightarrow> error option) \<Rightarrow> nat \<Rightarrow> bool \<Rightarrow> Event list \<Rightarrow> error option" where
  "validate_events expired n seen [] =
     (case expired n of
        Some e \<Rightarrow> Some (Wrapped ''upstream response timed out'' e)
      | None \<Rightarrow> if seen then None else Some (ErrText ''upstream returned no parseable response events''))"
| "validate_events expired n seen (ev # events) =
     (case expired n of
        Some e \<Rightarrow> Some (Wrapped ''upstream response timed out'' e)
      | None \<Rightarrow>
          if ev_Kind ev = EventError then Some (ErrText ''upstream returned an error event'')
          else validate_events expired (Suc n) (seen \<or> counts_as_seen (ev_Kind ev)) events)"

definition validateResponse :: "'w ProbeService \<Rightarrow> ProbeContext \<Rightarrow> Response \<Rightarrow> error option" where
  "validateResponse s ctx r =
     (case resp_Events r of
        Some events \<Rightarrow> validate_events (pc_expired ctx) 0 False events
      | None \<Rightarrow>
          (let body = TrimSpace (resp_Body r)
           in if body = '''' then Some (ErrText ''upstream returned an empty response'')
              else (case ps_Unmarshal s body of
                      None \<Rightarrow> Some (ErrText ''upstream returned an invalid JSON response'')
                    | Some payload \<Rightarrow>
                        if jget payload ''error'' \<noteq> JNull then Some (ErrText ''upstream returned an error payload'') else None)))"

definition cleanMessage :: "string \<Rightarrow> string" where
  "cleanMessage v0 =
     (let v = Join (Fields (TrimSpace v0)) '' ''; rs = runes v
      in if 1000 < length rs then concat (take 1000 rs) @ ''...'' else v)"

section \<open>One probe\<close>

text \<open>The selected account, after a reload when the pool does not know it.\<close>

definition probe_lease :: "'w ProbeService \<Rightarrow> ProbeContext \<Rightarrow> string \<Rightarrow> Pool \<Rightarrow> 'w \<Rightarrow> (error + Lease) \<times> Pool \<times> 'w" where
  "probe_lease s ctx aid p w =
     (case AcquireForProbe (ps_deps s) (pc_load ctx) aid p w of
        (Inr lease, p, w) \<Rightarrow> (Inr lease, p, w)
      | (Inl e, p, w) \<Rightarrow>
          if errors_is e ErrNoAccount
          then (case Reload (ps_deps s) (pc_reload ctx) p w of
                  (Some reloadErr, p, w) \<Rightarrow> (Inl reloadErr, p, w)
                | (None, p, w) \<Rightarrow> AcquireForProbe (ps_deps s) (pc_again ctx) aid p w)
          else (Inl e, p, w))"

text \<open>An edge challenge rejects the client, not the credential: it is reported without a status.\<close>

definition probe_feedback :: "TimeParsers \<Rightarrow> int \<Rightarrow> probe_error option \<Rightarrow> header \<Rightarrow> time \<Rightarrow> Feedback" where
  "probe_feedback parsers statusCode probeErr h completedAt =
     HTTPFeedback parsers completedAt
       (case probeErr of Some (ChallengeError _) \<Rightarrow> 0 | _ \<Rightarrow> if statusCode = 0 then 502 else statusCode)
       h (map_option as_error probeErr) completedAt"

definition complete ::
  "'w ProbeService \<Rightarrow> ProbeContext \<Rightarrow> time \<Rightarrow> Lease \<Rightarrow> ProbeResult \<Rightarrow> int \<Rightarrow> probe_error option \<Rightarrow> header \<Rightarrow> Pool \<Rightarrow> 'w
    \<Rightarrow> (ProbeResult \<times> error option) \<times> Pool \<times> 'w" where
  "complete s ctx begun lease result statusCode probeErr h p w =
     (let (ended, w) = ps_Wall s w; (completedAt, w) = ps_Wall s w;
          result = result\<lparr>pr_StatusCode := statusCode, pr_DurationMS := max 0 (time_sub ended begun div 1000000),
            pr_CompletedAt := completedAt, pr_Success := (probeErr = None),
            pr_Message := (case probeErr of None \<Rightarrow> ''Upstream request completed successfully.''
                           | Some e \<Rightarrow> cleanMessage (error_text (as_error e)))\<rparr>
      in case Release (ps_deps s) (pc_release ctx) lease (probe_feedback (ps_parsers s) statusCode probeErr h completedAt) p w of
           (Some e, lease, p, w) \<Rightarrow> ((result, Some (Wrapped ''persist account probe feedback'' e)), p, w)
         | (None, lease, p, w) \<Rightarrow>
             (case ps_GetAccount s (pr_AccountID result) w of
                (Inl e, w) \<Rightarrow> ((result, Some (Wrapped ''reload probed account'' e)), p, w)
              | (Inr acc, w) \<Rightarrow> ((result\<lparr>pr_Account := Some acc\<rparr>, None), p, w)))"

definition probe_payload :: json where
  "probe_payload = JObj [(''input'', JStr ''Reply with OK.''), (''max_output_tokens'', JNumber ''1''), (''stream'', JBool False)]"

definition probe_request :: "Lease \<Rightarrow> string \<Rightarrow> string \<Rightarrow> string \<Rightarrow> Request" where
  "probe_request lease model proxyURL body =
     \<lparr>req_Operation = OperationResponses, req_Model = model, req_UpstreamModel = model, PromptCacheKey = '''',
      req_CredentialKind = Kind (lease_Account lease), req_Credentials = lease_Credentials lease, ProxyURL = proxyURL,
      req_Body = body, req_Headers = (\<lambda>_. ''''), req_Stream = False, VideoID = '''', StatusURL = ''''\<rparr>"

text \<open>The request itself: the status, the error and the headers that \<open>complete\<close> is called with.\<close>

definition probe_call ::
  "'w ProbeService \<Rightarrow> ProbeContext \<Rightarrow> Lease \<Rightarrow> string \<Rightarrow> 'w \<Rightarrow> (int \<times> probe_error option \<times> header) \<times> 'w" where
  "probe_call s ctx lease model w =
     (let plain = (\<lambda>e. (0, Some (ProbeError e), \<lambda>_. ''''));
          (proxy, w) = (case (if ProxyID (lease_Account lease) = '''' then None else ps_ProxyURL s) of
                          None \<Rightarrow> (Inr '''', w) | Some f \<Rightarrow> f (ProxyID (lease_Account lease)) w)
      in case proxy of
           Inl e \<Rightarrow> (plain (ErrText ''resolve account proxy failed''), w)
         | Inr proxyURL \<Rightarrow>
             (case ps_Marshal s probe_payload of
                Inl e \<Rightarrow> (plain e, w)
              | Inr body \<Rightarrow>
                  (case ps_Do s (probe_request lease model proxyURL body) w of
                     (Inl e, w) \<Rightarrow> (plain (upstreamRequestFailure e), w)
                   | (Inr None, w) \<Rightarrow> (plain (ErrText ''upstream returned no response''), w)
                   | (Inr (Some r), w) \<Rightarrow>
                       ((resp_StatusCode r,
                         (if resp_StatusCode r < 200 \<or> 300 \<le> resp_StatusCode r then Some (upstreamResponseError r)
                          else map_option ProbeError (validateResponse s ctx r)),
                         resp_Header r), w))))"

definition Probe ::
  "'w ProbeService \<Rightarrow> ProbeContext \<Rightarrow> string \<Rightarrow> string \<Rightarrow> Pool \<Rightarrow> 'w \<Rightarrow> (ProbeResult \<times> error option) \<times> Pool \<times> 'w" where
  "Probe s ctx aid model p w =
     (let (begun, w) = ps_Wall s w; result = no_result\<lparr>pr_AccountID := TrimSpace aid\<rparr>
      in if pr_AccountID result = '''' then ((result, Some (ErrText ''account ID is required'')), p, w)
         else
           (case ps_GetAccount s (pr_AccountID result) w of
              (Inl e, w) \<Rightarrow> ((result, Some e), p, w)
            | (Inr _, w) \<Rightarrow>
                (case probe_lease s ctx (pr_AccountID result) p w of
                   (Inl e, p, w) \<Rightarrow> ((result, Some e), p, w)
                 | (Inr lease, p, w) \<Rightarrow>
                     (case probeModel (lease_Account lease) model of
                        Inl e \<Rightarrow>
                          (case Release (ps_deps s) None lease \<lparr>StatusCode = 400, RetryAfter = 0, fb_Quota = None, fb_Err = None\<rparr> p w of
                             (_, _, p, w) \<Rightarrow> ((result, Some e), p, w))
                      | Inr m \<Rightarrow>
                          (case probe_call s ctx lease m w of
                             ((statusCode, probeErr, h), w) \<Rightarrow>
                               complete s ctx begun lease (result\<lparr>pr_Model := m\<rparr>) statusCode probeErr h p w)))))"

section \<open>Batches\<close>

definition probe_item ::
  "'w ProbeService \<Rightarrow> ProbeContext \<Rightarrow> string \<Rightarrow> string \<Rightarrow> Pool \<Rightarrow> 'w \<Rightarrow> ProbeResult \<times> Pool \<times> 'w" where
  "probe_item s ctx aid model p w =
     (case Probe s ctx aid model p w of
        ((result, None), p, w) \<Rightarrow> (result, p, w)
      | ((result, Some e), p, w) \<Rightarrow>
          (let (completedAt, w) = ps_Wall s w
           in (result\<lparr>pr_AccountID := aid, pr_Message := cleanMessage (error_text e), pr_CompletedAt := completedAt\<rparr>, p, w)))"

fun probe_jobs ::
  "'w ProbeService \<Rightarrow> (nat \<Rightarrow> ProbeContext) \<Rightarrow> string list \<Rightarrow> string \<Rightarrow> nat list \<Rightarrow> ProbeResult list \<Rightarrow> Pool \<Rightarrow> 'w
    \<Rightarrow> ProbeResult list \<times> Pool \<times> 'w" where
  "probe_jobs s ctxs ids model [] results p w = (results, p, w)"
| "probe_jobs s ctxs ids model (i # order) results p w =
     (case probe_item s (ctxs i) (ids ! i) model p w of
        (result, p, w) \<Rightarrow> probe_jobs s ctxs ids model order (results[i := result]) p w)"

definition ProbeMany ::
  "'w ProbeService \<Rightarrow> (nat \<Rightarrow> ProbeContext) \<Rightarrow> string list \<Rightarrow> string \<Rightarrow> nat list \<Rightarrow> Pool \<Rightarrow> 'w \<Rightarrow> BatchResult \<times> Pool \<times> 'w" where
  "ProbeMany s ctxs ids model order p w =
     (case probe_jobs s ctxs ids model order (map (\<lambda>_. no_result) ids) p w of
        (results, p, w) \<Rightarrow>
          (let succeeded = int (length (filter pr_Success results))
           in (\<lparr>Total = int (length ids), Succeeded = succeeded, Failed = int (length ids) - succeeded, Items = results\<rparr>, p, w)))"

end
