(* ===== verification/Text_Laws.thy ===== *)
theory Text_Laws
  imports Go_Prelude
begin

text \<open>
  Laws of the string functions: what \<open>TrimSpace\<close> removes, and how \<open>ToLower\<close> and \<open>Contains\<close> act on a text with white space around it.
\<close>

section \<open>Prefixes and substrings\<close>

lemma HasPrefix_iff: "HasPrefix s p \<longleftrightarrow> (\<exists>t. s = p @ t)"
  unfolding HasPrefix_def by (metis append_eq_conv_conj append_take_drop_id)

lemma Contains_set: "Contains s p \<Longrightarrow> set p \<subseteq> set s"
proof (induction s p rule: Contains.induct)
  case (2 c s p)
  show ?case
  proof (cases "HasPrefix (c # s) p")
    case True
    then obtain t where "c # s = p @ t" by (auto simp: HasPrefix_iff)
    then have "set p \<subseteq> set (c # s)" by (metis set_append sup_ge1)
    then show ?thesis .
  qed (use 2 in auto)
qed simp

lemma Contains_drop_front: "p \<noteq> [] \<Longrightarrow> hd p \<notin> set x \<Longrightarrow> Contains (x @ u) p = Contains u p"
  by (induction x) (auto simp: HasPrefix_iff neq_Nil_conv)

lemma HasPrefix_drop_back:
  assumes "p \<noteq> []" "last p \<notin> set y"
  shows "HasPrefix (u @ y) p = HasPrefix u p"
proof
  assume "HasPrefix (u @ y) p"
  then obtain t where t: "u @ y = p @ t" by (auto simp: HasPrefix_iff)
  then obtain z where "u = p @ z \<or> (p = u @ z \<and> y = z @ t)" by (auto simp: append_eq_append_conv2)
  moreover have "z = []" if "p = u @ z" "y = z @ t" using assms that by (cases z rule: rev_cases) auto
  ultimately show "HasPrefix u p" by (auto simp: HasPrefix_iff)
qed (auto simp: HasPrefix_iff)

lemma Contains_drop_back: "p \<noteq> [] \<Longrightarrow> last p \<notin> set y \<Longrightarrow> Contains (u @ y) p = Contains u p"
proof (induction u)
  case Nil
  have "last p \<in> set p" using Nil by simp
  then have "\<not> Contains y p" using Nil Contains_set by blast
  with Nil show ?case by simp
next
  case (Cons c u)
  with HasPrefix_drop_back [of p y "c # u"] show ?case by simp
qed

section \<open>White space\<close>

lemma strip_lead_split: "\<exists>es. set es \<subseteq> set encs \<and> s = concat es @ strip_lead encs s"
proof (induction encs s rule: strip_lead.induct)
  case (1 encs s)
  show ?case
  proof (cases "find (\<lambda>e. e \<noteq> [] \<and> take (length e) s = e) encs")
    case None
    then have "strip_lead encs s = s" by (simp add: strip_lead.simps [of encs s])
    then show ?thesis by (intro exI [of _ "[]"]) simp
  next
    case (Some e)
    then have e: "e \<in> set encs" "take (length e) s = e" by (auto simp: find_Some_iff in_set_conv_nth)
    from 1 [OF Some] obtain es where "set es \<subseteq> set encs" "drop (length e) s = concat es @ strip_lead encs (drop (length e) s)" by auto
    moreover have "strip_lead encs s = strip_lead encs (drop (length e) s)" using Some by (simp add: strip_lead.simps [of encs s])
    moreover have "s = e @ drop (length e) s" using e(2) by (metis append_take_drop_id)
    ultimately show ?thesis using e(1) by (intro exI [of _ "e # es"]) auto
  qed
qed

lemma strip_lead_stuck: "find (\<lambda>e. e \<noteq> [] \<and> take (length e) (strip_lead encs s) = e) encs = None"
proof (induction encs s rule: strip_lead.induct)
  case (1 encs s)
  show ?case
  proof (cases "find (\<lambda>e. e \<noteq> [] \<and> take (length e) s = e) encs")
    case None
    then show ?thesis by (simp add: strip_lead.simps [of encs s])
  next
    case (Some e)
    with 1 show ?thesis by (simp add: strip_lead.simps [of encs s])
  qed
qed

lemma TrimSpace_split:
  "\<exists>xs ys. set xs \<subseteq> set space_encodings \<and> set ys \<subseteq> set space_encodings \<and> s = concat xs @ TrimSpace s @ concat ys"
proof -
  let ?u = "strip_lead space_encodings s"
  obtain xs where xs: "set xs \<subseteq> set space_encodings" "s = concat xs @ ?u" using strip_lead_split by blast
  obtain zs where zs: "set zs \<subseteq> set (map rev space_encodings)" "rev ?u = concat zs @ strip_lead (map rev space_encodings) (rev ?u)"
    using strip_lead_split by blast
  have "?u = rev (strip_lead (map rev space_encodings) (rev ?u)) @ rev (concat zs)" using zs(2) by (metis rev_append rev_rev_ident)
  also have "rev (concat zs) = concat (map rev (rev zs))" by (simp add: rev_concat rev_map)
  finally have "?u = TrimSpace s @ concat (map rev (rev zs))" by (simp add: TrimSpace_def)
  moreover have "set (map rev (rev zs)) \<subseteq> set space_encodings" using zs(1) by auto
  ultimately show ?thesis using xs by metis
qed

lemma TrimSpace_idem [simp]: "TrimSpace (TrimSpace s) = TrimSpace s"
proof -
  let ?u = "strip_lead space_encodings s" and ?t = "TrimSpace s"
  have t: "rev ?t = strip_lead (map rev space_encodings) (rev ?u)" by (simp add: TrimSpace_def)
  obtain zs where "rev ?u = concat zs @ rev ?t" using strip_lead_split [of "map rev space_encodings" "rev ?u"] t by auto
  then have u: "?u = ?t @ rev (concat zs)" by (metis rev_append rev_rev_ident)
  have "find (\<lambda>e. e \<noteq> [] \<and> take (length e) ?t = e) space_encodings = None"
  proof (rule ccontr)
    assume "\<not> ?thesis"
    then obtain e where e: "e \<in> set space_encodings" "e \<noteq> []" "take (length e) ?t = e" by (auto simp: find_None_iff)
    then have "take (length e) ?u = e" unfolding u by (metis HasPrefix_def HasPrefix_iff append_assoc)
    with e strip_lead_stuck [of space_encodings s] show False by (auto simp: find_None_iff)
  qed
  then have "strip_lead space_encodings ?t = ?t" by (simp add: strip_lead.simps [of space_encodings ?t])
  moreover have "strip_lead (map rev space_encodings) (rev ?t) = rev ?t"
    using strip_lead_stuck [of "map rev space_encodings" "rev ?u"] unfolding t [symmetric]
    by (simp add: strip_lead.simps [of "map rev space_encodings" "rev ?t"])
  ultimately show ?thesis by (simp add: TrimSpace_def [of ?t])
qed

section \<open>Lower case\<close>

lemma ToLower_space: "e \<in> set space_encodings \<Longrightarrow> ToLower (e @ u) = e @ ToLower u"
  by (auto simp: space_encodings_def lower_char_def)

lemma ToLower_spaces: "set xs \<subseteq> set space_encodings \<Longrightarrow> ToLower (concat xs @ u) = concat xs @ ToLower u"
  by (induction xs) (simp_all add: ToLower_space)

lemma ToLower_append:
  assumes "y = [] \<or> hd y \<notin> {CHR 0xB0, CHR 0x84, CHR 0xAA}"
  shows "ToLower (u @ y) = ToLower u @ ToLower y"
  using assms
proof (induction u rule: ToLower.induct)
  case (2 c s)
  have one: "take 1 (s @ y) = [CHR 0xB0] \<longleftrightarrow> take 1 s = [CHR 0xB0]" using 2(4) by (cases s; cases y) auto
  have two: "take 2 (s @ y) = [CHR 0x84, CHR 0xAA] \<longleftrightarrow> take 2 s = [CHR 0x84, CHR 0xAA]"
    using 2(4) by (cases s; cases "tl s"; cases y) auto
  have drops: "take 1 s = [CHR 0xB0] \<Longrightarrow> drop 1 (s @ y) = drop 1 s @ y" "take 2 s = [CHR 0x84, CHR 0xAA] \<Longrightarrow> drop 2 (s @ y) = drop 2 s @ y"
    by (cases s; cases "tl s"; auto)+
  show ?case
  proof (cases "c = CHR 0xC4 \<and> take 1 s = [CHR 0xB0]")
    case True
    with 2(1) 2(4) one drops(1) show ?thesis by simp
  next
    case False
    show ?thesis
    proof (cases "c = CHR 0xE2 \<and> take 2 s = [CHR 0x84, CHR 0xAA]")
      case True
      with False 2(2) 2(4) one two drops(2) show ?thesis by (simp del: take_append drop_append)
    next
      case f: False
      have "\<not> (c = CHR 0xC4 \<and> take 1 (s @ y) = [CHR 0xB0])" "\<not> (c = CHR 0xE2 \<and> take 2 (s @ y) = [CHR 0x84, CHR 0xAA])"
        using False f one two by blast+
      then have "ToLower ((c # s) @ y) = lower_char c # ToLower (s @ y)" by (simp only: append_Cons ToLower.simps if_False)
      moreover have "ToLower (c # s) = lower_char c # ToLower s" using False f by (simp only: ToLower.simps if_False)
      ultimately show ?thesis using 2(3) [OF False f 2(4)] by simp
    qed
  qed
qed simp

lemma hd_spaces:
  assumes "set ys \<subseteq> set space_encodings" "concat ys \<noteq> []"
  shows "hd (concat ys) \<notin> {CHR 0xB0, CHR 0x84, CHR 0xAA}"
proof -
  have all: "\<forall>e \<in> set space_encodings. e \<noteq> [] \<and> hd e \<notin> {CHR 0xB0, CHR 0x84, CHR 0xAA}" by code_simp
  obtain e es where "ys = e # es" using assms(2) by (cases ys) auto
  with all assms(1) show ?thesis by (auto simp: hd_append)
qed

lemma ToLower_trailing: "set ys \<subseteq> set space_encodings \<Longrightarrow> ToLower (u @ concat ys) = ToLower u @ concat ys"
  using ToLower_append [of "concat ys" u] hd_spaces [of ys] ToLower_spaces [of ys "[]"] by auto

text \<open>A pattern whose first and last byte are no white space is found in a text exactly if it is found in the trimmed text.\<close>

lemma Contains_lower_trimmed:
  assumes "p \<noteq> []" "hd p \<notin> set (concat space_encodings)" "last p \<notin> set (concat space_encodings)"
  shows "Contains (ToLower (TrimSpace s)) p = Contains (ToLower s) p"
proof -
  obtain xs ys where s: "set xs \<subseteq> set space_encodings" "set ys \<subseteq> set space_encodings" "s = concat xs @ TrimSpace s @ concat ys"
    using TrimSpace_split by blast
  then have "ToLower s = concat xs @ ToLower (TrimSpace s) @ concat ys" by (metis ToLower_spaces ToLower_trailing)
  moreover have "hd p \<notin> set (concat xs)" "last p \<notin> set (concat ys)" using assms(2,3) s(1,2) by auto
  ultimately show ?thesis using assms(1) by (simp add: Contains_drop_front Contains_drop_back)
qed

end
