(* ===== verification/Probe_Properties.thy ===== *)
theory Probe_Properties
  imports Account_Probe Gateway_Properties Pool_Steps Text_Laws
begin

text \<open>
  What a probe does to the pool, what counts as success, and that the probe and the gateway recognise the same protection challenges.
\<close>

section \<open>Counters\<close>

lemma reserved_paths:
  assumes "TrimSpace aid \<noteq> ''''" "ensureLoaded d c p w = (None, p1, w1)" "now_fn d w1 = (now, w2)"
    "probe_reserve (TrimSpace aid) now p1 = (Inr acc, p2)" "AcquireForProbe d c aid p w = (r, q, w')"
  shows "(isl r \<and> q = rollbackReservation p2 (ID acc) 0) \<or> (\<exists>l. r = Inr l \<and> lease_Account l = acc \<and> \<not> once_done l \<and> q = p2)"
proof -
  obtain lr w3 where lr: "probe_coordinate d (policy p2) acc w2 = (lr, w3)" by (rule prod.exhaust)
  obtain cr w4 where cr: "store_Credentials (dep_store d) (ID acc) w3 = (cr, w4)" by (rule prod.exhaust)
  have run: "AcquireForProbe d c aid p w =
     (case lr of
        Inl e \<Rightarrow> (Inl e, rollbackReservation p2 (ID acc) 0, w3)
      | Inr cl \<Rightarrow>
          (case cr of
             Inl err \<Rightarrow> (case release_joined d cl err w4 of (e, w) \<Rightarrow> (Inl e, rollbackReservation p2 (ID acc) 0, w))
           | Inr creds \<Rightarrow>
               (Inr \<lparr>lease_Account = acc, lease_Credentials = creds, CacheIdentityApplied = False, AffinityReused = False,
                     CacheAffinityEstablished = False, coordination = cl, affinityModel = [], lease_affinityKey = [],
                     once_done = False, releaseErr = None\<rparr>, p2, w4)))"
    unfolding AcquireForProbe_def Let_def by (simp only: assms(1-4) lr cr if_False prod.case option.case sum.case split: sum.split)
  show ?thesis
  proof (cases lr)
    case (Inl e)
    with run assms(5) show ?thesis by simp
  next
    case lr: (Inr cl)
    show ?thesis
    proof (cases cr)
      case (Inl err)
      with run assms(5) lr show ?thesis by (simp add: case_prod_unfold)
    next
      case (Inr creds)
      with run assms(5) lr show ?thesis by auto
    qed
  qed
qed

lemma probe_lease_fresh:
  assumes "AcquireForProbe d c aid p w = (r, q, w')" "wf_pool p"
  shows "no_leak p q (case r of Inl _ \<Rightarrow> None | Inr l \<Rightarrow> Some l) \<and> (\<forall>l. r = Inr l \<longrightarrow> \<not> once_done l)"
proof -
  obtain e p1 w1 where load: "ensureLoaded d c p w = (e, p1, w1)" by (rule prod_cases3)
  have n1: "no_leak p p1 None" using load assms(2) by (rule ensureLoaded_no_leak)
  then have wf1: "wf_pool p1" by (simp add: no_leak_def)
  obtain now w2 where t: "now_fn d w1 = (now, w2)" by (rule prod.exhaust)
  obtain rv p2 where rv: "probe_reserve (TrimSpace aid) now p1 = (rv, p2)" by (rule prod.exhaust)
  show ?thesis
  proof (cases "TrimSpace aid = '''' \<or> e \<noteq> None \<or> isl rv")
    case True
    then have "q \<in> {p, p1} \<and> isl r"
      using assms(1) load t rv by (auto simp: AcquireForProbe_def Let_def probe_reserve_def split: option.splits if_splits)
    with n1 assms(2) show ?thesis by (cases r) (auto simp: no_leak_def)
  next
    case False
    then obtain acc where acc: "rv = Inr acc" by (cases rv) auto
    note c = probe_reserve_counts [OF rv [unfolded acc] wf1]
    have aid: "ID acc = TrimSpace aid"
      using rv acc wf1 by (auto simp: probe_reserve_def Let_def wf_pool_def dest: wf_states_lookup split: option.splits if_splits)
    have "0 \<le> inflight_of p1 (ID acc)" using wf1 by (intro inflight_of_nonneg) (simp add: wf_pool_def)
    then have undo: "no_leak p1 (rollbackReservation p2 (ID acc) 0) None"
      using rollback_undoes [of p2 p1 "ID acc" 0] c aid by (simp add: no_leak_def wf_pool_rollback)
    have "(isl r \<and> q = rollbackReservation p2 (ID acc) 0) \<or> (\<exists>l. r = Inr l \<and> lease_Account l = acc \<and> \<not> once_done l \<and> q = p2)"
      using False assms(1) load t rv acc by (intro reserved_paths) auto
    then show ?thesis
    proof (elim disjE exE conjE)
      assume "isl r" "q = rollbackReservation p2 (ID acc) 0"
      with no_leak_trans [OF n1 undo] show ?thesis by (cases r) auto
    next
      fix l assume l: "r = Inr l" "lease_Account l = acc" "\<not> once_done l" "q = p2"
      have "no_leak p1 p2 (Some l)" using c(1,2) aid l(2) by (auto simp: no_leak_def)
      with l no_leak_trans [OF n1] show ?thesis by simp
    qed
  qed
qed

lemma Reload_no_leak:
  assumes "Reload d c p w = (e, q, w')" "wf_pool p"
  shows "no_leak p q None"
proof -
  have "q = p \<or> (\<exists>items. q = reload_apply items p)" using assms(1) by (rule Reload_pool)
  moreover have "no_leak p p None" using assms(2) by (simp add: no_leak_def)
  moreover have "no_leak p (reload_apply items p) None" for items
  proof -
    have kept: "inflight_of (reload_apply items p) k = inflight_of p k" if "k \<in> fst ` set (states (reload_apply items p))" for k
      using inflight_of_reload that by metis
    have "inflight_of (reload_apply items p) k \<le> inflight_of p k" for k
      using kept [of k] inflight_of_gone [of k "reload_apply items p"] inflight_of_nonneg [of p k] assms(2)
      by (cases "k \<in> fst ` set (states (reload_apply items p))") (simp_all add: wf_pool_def)
    with assms(2) show ?thesis by (simp add: no_leak_def wf_pool_reload)
  qed
  ultimately show ?thesis by auto
qed

lemma probe_lease_no_leak:
  assumes "probe_lease s ctx aid p w = (r, q, w')" "wf_pool p"
  shows "no_leak p q (case r of Inl _ \<Rightarrow> None | Inr l \<Rightarrow> Some l) \<and> (\<forall>l. r = Inr l \<longrightarrow> \<not> once_done l)"
proof -
  obtain r1 p1 w1 where a: "AcquireForProbe (ps_deps s) (pc_load ctx) aid p w = (r1, p1, w1)" by (rule prod_cases3)
  note f = probe_lease_fresh [OF a assms(2)]
  show ?thesis
  proof (cases "\<exists>e. r1 = Inl e \<and> errors_is e ErrNoAccount")
    case False
    with assms(1) a have "(r, q) = (r1, p1)" by (auto simp: probe_lease_def split: sum.splits if_splits)
    with f show ?thesis by auto
  next
    case True
    then have n1: "no_leak p p1 None" using f by auto
    then have wf1: "wf_pool p1" by (simp add: no_leak_def)
    obtain e p2 w2 where l: "Reload (ps_deps s) (pc_reload ctx) p1 w1 = (e, p2, w2)" by (rule prod_cases3)
    have n2: "no_leak p p2 None" using no_leak_trans [OF n1 Reload_no_leak [OF l wf1]] .
    then have wf2: "wf_pool p2" by (simp add: no_leak_def)
    show ?thesis
    proof (cases e)
      case None
      with True assms(1) a l have "AcquireForProbe (ps_deps s) (pc_again ctx) aid p2 w2 = (r, q, w')"
        by (auto simp: probe_lease_def)
      from probe_lease_fresh [OF this wf2] no_leak_trans [OF n2] show ?thesis by blast
    next
      case (Some e')
      with True assms(1) a l n2 show ?thesis by (auto simp: probe_lease_def)
    qed
  qed
qed

lemma complete_no_leak:
  assumes "complete s ctx begun lease result code e h q w = (r, q', w')" "no_leak p q (Some lease)" "\<not> once_done lease" "wf_pool p"
  shows "no_leak p q' None"
proof -
  obtain t w1 where t: "ps_Wall s w = (t, w1)" by (rule prod.exhaust)
  obtain u w2 where u: "ps_Wall s w1 = (u, w2)" by (rule prod.exhaust)
  obtain re l' q1 w3 where rel: "Release (ps_deps s) (pc_release ctx) lease (probe_feedback (ps_parsers s) code e h u) q w2 = (re, l', q1, w3)"
    by (rule prod_cases4)
  have "q' = q1" using assms(1) t u rel by (auto simp: complete_def Let_def split: prod.splits option.splits sum.splits)
  with Release_no_leak [OF assms(2,3) rel assms(4)] show ?thesis by simp
qed

lemma Probe_no_leak:
  assumes "Probe s ctx aid model p w = (r, q, w')" "wf_pool p"
  shows "no_leak p q None"
proof -
  have id: "no_leak p p None" using assms(2) by (simp add: no_leak_def)
  obtain begun w1 where b: "ps_Wall s w = (begun, w1)" by (rule prod.exhaust)
  obtain g w2 where g: "ps_GetAccount s (TrimSpace aid) w1 = (g, w2)" by (rule prod.exhaust)
  obtain lr p1 w3 where l: "probe_lease s ctx (TrimSpace aid) p w2 = (lr, p1, w3)" by (rule prod_cases3)
  note f = probe_lease_no_leak [OF l assms(2)]
  show ?thesis
  proof (cases "TrimSpace aid = '''' \<or> isl g \<or> isl lr")
    case True
    with assms(1) b g l have "q = p \<or> (q = p1 \<and> isl lr)"
      by (auto simp: Probe_def Let_def no_result_def split: sum.splits if_splits)
    with id f show ?thesis by (cases lr) auto
  next
    case False
    then obtain lease where lease: "lr = Inr lease" by (cases lr) auto
    then have fl: "no_leak p p1 (Some lease)" "\<not> once_done lease" using f by auto
    have run: "Probe s ctx aid model p w =
       (case probeModel (lease_Account lease) model of
          Inl e \<Rightarrow> (case Release (ps_deps s) None lease \<lparr>StatusCode = 400, RetryAfter = 0, fb_Quota = None, fb_Err = None\<rparr> p1 w3 of
             (_, _, p, w) \<Rightarrow> ((no_result\<lparr>pr_AccountID := TrimSpace aid\<rparr>, Some e), p, w))
        | Inr m \<Rightarrow> (case probe_call s ctx lease m w3 of ((statusCode, probeErr, h), w) \<Rightarrow>
             complete s ctx begun lease (no_result\<lparr>pr_AccountID := TrimSpace aid, pr_Model := m\<rparr>) statusCode probeErr h p1 w))"
      using False b g l lease by (auto simp: Probe_def Let_def no_result_def split: sum.splits)
    show ?thesis
    proof (cases "probeModel (lease_Account lease) model")
      case (Inl e)
      with assms(1) run Release_no_leak [OF fl _ assms(2)] show ?thesis by (auto split: prod.splits)
    next
      case (Inr m)
      obtain code e h w4 where c: "probe_call s ctx lease m w3 = ((code, e, h), w4)" by (metis prod_cases3 surj_pair)
      with Inr assms(1) run have "complete s ctx begun lease (no_result\<lparr>pr_AccountID := TrimSpace aid, pr_Model := m\<rparr>) code e h p1 w4 = (r, q, w')"
        by simp
      from complete_no_leak [OF this fl assms(2)] show ?thesis .
    qed
  qed
qed

lemma probe_item_no_leak: "probe_item s ctx aid model p w = (r, q, w') \<Longrightarrow> wf_pool p \<Longrightarrow> no_leak p q None"
  by (auto simp: probe_item_def Let_def split: prod.splits option.splits dest: Probe_no_leak)

lemma probe_jobs_no_leak: "probe_jobs s ctxs ids model order results p w = (rs, q, w') \<Longrightarrow> wf_pool p \<Longrightarrow> no_leak p q None"
proof (induction order arbitrary: results p w)
  case Nil
  then show ?case by (simp add: no_leak_def)
next
  case (Cons i order)
  obtain r p1 w1 where i: "probe_item s (ctxs i) (ids ! i) model p w = (r, p1, w1)" by (rule prod_cases3)
  have n: "no_leak p p1 None" using i Cons.prems(2) by (rule probe_item_no_leak)
  with Cons.prems(1) i Cons.IH [of "results[i := r]" p1 w1] show ?case by (auto simp: no_leak_def intro: order_trans)
qed

section \<open>Batches\<close>

lemma probe_jobs_results:
  assumes "probe_jobs s ctxs ids model order results p w = (rs, q, w')"
  shows "length rs = length results" and "i \<notin> set order \<Longrightarrow> rs ! i = results ! i"
  using assms by (induction order arbitrary: results p w) (auto split: prod.splits)

definition result_of :: "string list \<Rightarrow> nat \<Rightarrow> ProbeResult \<Rightarrow> bool" where
  "result_of ids i r \<longleftrightarrow> pr_AccountID r \<in> {ids ! i, TrimSpace (ids ! i)}"

lemma complete_id:
  "complete s ctx begun lease result code e h p w = ((r, x), q, w') \<Longrightarrow> pr_AccountID r = pr_AccountID result"
  by (auto simp: complete_def Let_def split: prod.splits option.splits sum.splits)

lemma Probe_id: "Probe s ctx aid model p w = ((r, x), q, w') \<Longrightarrow> pr_AccountID r = TrimSpace aid"
  unfolding Probe_def Let_def
  by (auto split: prod.splits sum.splits if_splits dest!: complete_id simp: no_result_def)

lemma probe_item_id: "probe_item s ctx (ids ! i) model p w = (r, q, w') \<Longrightarrow> result_of ids i r"
  by (auto simp: probe_item_def result_of_def Let_def split: prod.splits option.splits dest: Probe_id)

lemma probe_jobs_ids:
  assumes "probe_jobs s ctxs ids model order results p w = (rs, q, w')" "i \<in> set order" "length results = length ids" "i < length ids"
  shows "result_of ids i (rs ! i)"
  using assms
proof (induction order arbitrary: results p w)
  case (Cons j order)
  obtain r p1 w1 where j: "probe_item s (ctxs j) (ids ! j) model p w = (r, p1, w1)" by (rule prod_cases3)
  with Cons.prems(1) have rest: "probe_jobs s ctxs ids model order (results[j := r]) p1 w1 = (rs, q, w')" by simp
  show ?case
  proof (cases "i \<in> set order")
    case True
    from Cons.IH [OF rest True] Cons.prems(3,4) show ?thesis by simp
  next
    case False
    with Cons.prems have "j = i" by simp
    with probe_jobs_results(2) [OF rest False] probe_item_id [OF j] Cons.prems(3,4) show ?thesis by simp
  qed
qed simp

text \<open>C40: a batch of probes leaves nothing behind. For every order in which the workers run the jobs, and whatever the store, the coordinator, the
  proxies and the upstream do, the batch ends with one result per requested account, each at the position of its account, the totals add up, and every
  reservation that a probe took on an account has been given back: no counter of the pool is higher than before.\<close>

theorem probe_batch_releases:
  assumes "wf_pool p" "set order = {..<length ids}" "ProbeMany s ctxs ids model order p w = (batch, q, w')"
  shows "wf_pool q \<and> (\<forall>k. inflight_of q k \<le> inflight_of p k) \<and> length (Items batch) = length ids
    \<and> list_all (\<lambda>i. pr_AccountID (Items batch ! i) \<in> {ids ! i, TrimSpace (ids ! i)}) [0..<length ids]
    \<and> Succeeded batch + Failed batch = Total batch \<and> Succeeded batch = int (length (filter pr_Success (Items batch)))"
proof -
  obtain rs q1 w1 where j: "probe_jobs s ctxs ids model order (map (\<lambda>_. no_result) ids) p w = (rs, q1, w1)" by (rule prod_cases3)
  with assms(3) have b: "batch = \<lparr>Total = int (length ids), Succeeded = int (length (filter pr_Success rs)),
      Failed = int (length ids) - int (length (filter pr_Success rs)), Items = rs\<rparr>" "q = q1"
    by (simp_all add: ProbeMany_def Let_def)
  have "no_leak p q None" using probe_jobs_no_leak [OF j assms(1)] b(2) by simp
  moreover have "list_all (\<lambda>i. pr_AccountID (rs ! i) \<in> {ids ! i, TrimSpace (ids ! i)}) [0..<length ids]"
    using probe_jobs_ids [OF j] assms(2) by (auto simp: list_all_iff result_of_def)
  ultimately show ?thesis using probe_jobs_results(1) [OF j] b by (simp add: no_leak_def)
qed

section \<open>Challenges\<close>

lemma trimmed_patterns:
  assumes "p \<in> {''challenges.cloudflare.com'', ''cf-chl-'', ''<title>just a moment...</title>''}"
  shows "Contains (ToLower (TrimSpace s)) p = Contains (ToLower s) p"
proof -
  have "\<forall>p \<in> set [''challenges.cloudflare.com'', ''cf-chl-'', ''<title>just a moment...</title>''].
      p \<noteq> [] \<and> hd p \<notin> set (concat space_encodings) \<and> last p \<notin> set (concat space_encodings)" by code_simp
  with assms show ?thesis by (intro Contains_lower_trimmed) auto
qed

lemma challenge_detectors: "probe_challenge (Some r) (TrimSpace (resp_Body r)) = isUpstreamProtectionChallenge r"
  by (simp add: probe_challenge_def isUpstreamProtectionChallenge_def probe_looksLikeHTML_def trimmed_patterns Let_def)

text \<open>The probe and the gateway agree on protection challenges. The two packages test a refused answer with two programs, one on the trimmed body and
  one on the body as it came; they recognise the same answers. The feedback of a probe then carries no status, as the gateway's does, and no other refusal is
  reported without one: an account is never disabled because a challenge answered with 403.\<close>

theorem challenge_detectors_agree:
  assumes "resp_StatusCode r < 200 \<or> 300 \<le> resp_StatusCode r" "0 < resp_StatusCode r"
  shows "probe_challenge (Some r) (TrimSpace (resp_Body r)) = isUpstreamProtectionChallenge r
    \<and> StatusCode (probe_feedback tp (resp_StatusCode r) (Some (upstreamResponseError r)) (resp_Header r) t)
        = StatusCode (feedbackFromResponse tp wall (Some r) err)
    \<and> (StatusCode (probe_feedback tp (resp_StatusCode r) (Some (upstreamResponseError r)) (resp_Header r) t) = 0) = isUpstreamProtectionChallenge r
    \<and> (fb_Err (probe_feedback tp (resp_StatusCode r) (Some (upstreamResponseError r)) (resp_Header r) t) \<noteq> None)"
  using assms(2) challenge_detectors [of r]
  by (simp add: upstreamResponseError_def probe_feedback_def feedbackFromResponse_def HTTPFeedback_def Let_def)

section \<open>Witnesses\<close>

definition probe_sample :: "sample_world ProbeService" where
  "probe_sample = \<lparr>ps_deps = sample_deps, ps_GetAccount = (\<lambda>aid w. (Inr (sample_account aid), w)),
     ps_Do = (\<lambda>r w. (Inr (Some \<lparr>resp_StatusCode = 200, resp_Header = (\<lambda>_. ''''), resp_Body = ''{}'', resp_Events = None\<rparr>), w)),
     ps_ProxyURL = None, ps_timeout = 45 * Second, ps_parallelism = 8, ps_parsers = gw_parsers sample_gateway,
     ps_Marshal = (\<lambda>_. Inr ''{}''), ps_Unmarshal = (\<lambda>_. Some []), ps_Wall = (\<lambda>w. (clock w, w))\<rparr>"

definition probe_quiet :: ProbeContext where
  "probe_quiet = \<lparr>pc_load = None, pc_reload = None, pc_again = None, pc_release = None, pc_expired = (\<lambda>_. None)\<rparr>"

theorem probe_batch_releases_witness:
  "\<exists>batch q w'. ProbeMany probe_sample (\<lambda>_. probe_quiet) [''b'', ''a''] '''' [1, 0] sample_loaded sample_world0 = (batch, q, w')
    \<and> length (Items batch) = 2 \<and> Succeeded batch + Failed batch = 2"
proof -
  obtain batch q w' where b: "ProbeMany probe_sample (\<lambda>_. probe_quiet) [''b'', ''a''] '''' [1, 0] sample_loaded sample_world0 = (batch, q, w')"
    by (rule prod_cases3)
  then have "Total batch = 2" by (auto simp: ProbeMany_def Let_def split: prod.splits)
  have "set [1, 0] = {..<length [''b'', ''a'']}" by auto
  from probe_batch_releases [OF sample_loaded_wf this b] b \<open>Total batch = 2\<close> show ?thesis by auto
qed

theorem challenge_detectors_agree_witness:
  "StatusCode (probe_feedback (gw_parsers sample_gateway) 403 (Some (upstreamResponseError sample_challenge)) (resp_Header sample_challenge) 5) = 0"
proof -
  have "resp_StatusCode sample_challenge = 403" "isUpstreamProtectionChallenge sample_challenge" by code_simp+
  with challenge_detectors_agree [of sample_challenge "gw_parsers sample_gateway" 5 5 None] show ?thesis by simp
qed

end
