(* ===== verification/Account_Table.thy ===== *)
theory Account_Table
  imports Admin_Store
begin

text \<open>
  Accounts and proxies in the database (\<open>internal/store/accounts.go\<close>, \<open>internal/store/proxies.go\<close>; the constraints of
  \<open>internal/database/migrations/001_initial.sql\<close>, \<open>004_account_health.sql\<close> and \<open>007_account_credential_fingerprints.sql\<close>).

  As in \<open>Admin_Store\<close>, a table is the list of its rows and each method is the statement it runs. A \<open>NULL\<close> proxy or fingerprint is the empty
  string, as \<open>nullableString\<close> and \<open>nullableBytes\<close> write it and the scan reads it. The connection is \<open>AccountDB\<close>: \<open>ad_fault\<close> is the driver before a
  statement, the begin or the commit of a transaction (it fails or lets it through, and other connections may change the tables there);
  \<open>ad_perm\<close> is the order in which the rows of a table reach a sort, which PostgreSQL leaves open: \<open>ORDER BY\<close> is the stable sort of that order.
  \<open>ad_ilike\<close>, \<open>ad_lower\<close> and \<open>ad_jsontext\<close> are \<open>ILIKE\<close> with a pattern between percent signs, \<open>LOWER\<close> and the text of a JSON array.
  \<open>ad_encode\<close> is the error of the driver for a number that does not fit the four bytes of an \<open>INTEGER\<close>. A transaction is isolated.
\<close>

section \<open>Rows\<close>

record Proxy =
  prx_ID :: string
  prx_Name :: string
  URLCipher :: string
  prx_Enabled :: bool
  Healthy :: bool
  LastCheckedAt :: "time option"
  prx_LastError :: string
  prx_CreatedAt :: time
  prx_UpdatedAt :: time

record AccountTables =
  tb_accounts :: "Account list"
  tb_proxies :: "Proxy list"
  tb_models :: "ModelSpec list"
  tb_keys :: "ClientKey list"
  tb_clock :: time

datatype db_call = Statement | BeginTx | CommitTx

record 'z AccountDB =
  ad_fault :: "db_call \<Rightarrow> 'z AccountTables_scheme \<Rightarrow> error option \<times> 'z AccountTables_scheme"
  ad_random :: "'z AccountTables_scheme random"
  ad_perm :: "'z AccountTables_scheme \<Rightarrow> nat \<Rightarrow> nat list"
  ad_lower :: "string \<Rightarrow> string"
  ad_ilike :: "string \<Rightarrow> string \<Rightarrow> bool"
  ad_jsontext :: "string list \<Rightarrow> string"
  ad_encode :: "int \<Rightarrow> error"
  ad_timeNow :: "'z AccountTables_scheme \<Rightarrow> time"

definition ad_trip :: "'z AccountDB \<Rightarrow> db_call \<Rightarrow> ('z AccountTables_scheme \<Rightarrow> (error + 'a) \<times> 'z AccountTables_scheme) \<Rightarrow> 'z AccountTables_scheme
    \<Rightarrow> (error + 'a) \<times> 'z AccountTables_scheme" where
  "ad_trip db call f w = (case ad_fault db call w of (Some e, w) \<Rightarrow> (Inl e, w) | (None, w) \<Rightarrow> f w)"

text \<open>\<open>errorsNew\<close>.\<close>

definition errorsNew :: "string \<Rightarrow> error" where "errorsNew message = ErrText (''store: '' @ message)"

definition fits_int4 :: "int \<Rightarrow> bool" where "fits_int4 v \<longleftrightarrow> - (2 ^ 31) \<le> v \<and> v < 2 ^ 31"

text \<open>The first of some arguments the driver cannot encode.\<close>

definition encode_int4 :: "'z AccountDB \<Rightarrow> int list \<Rightarrow> error option" where
  "encode_int4 db vs = map_option (ad_encode db) (find (\<lambda>v. \<not> fits_int4 v) vs)"

record Pagination =
  Limit :: int
  Offset :: int

definition normalized :: "Pagination \<Rightarrow> Pagination" where
  "normalized p =
     (let p = (if Limit p \<le> 0 then p\<lparr>Limit := 50\<rparr> else p);
          p = (if 500 < Limit p then p\<lparr>Limit := 500\<rparr> else p)
      in if Offset p < 0 then p\<lparr>Offset := 0\<rparr> else p)"

text \<open>The rows of a table in the order a sort meets them, and one page of the sorted rows.\<close>

definition scanned_rows :: "'z AccountDB \<Rightarrow> 'z AccountTables_scheme \<Rightarrow> 'r list \<Rightarrow> 'r list" where
  "scanned_rows db w rows = map (nth rows) (ad_perm db w (length rows))"

definition page_of :: "Pagination \<Rightarrow> 'r list \<Rightarrow> 'r list" where
  "page_of p rows = take (nat (Limit p)) (drop (nat (Offset p)) rows)"

section \<open>Accounts\<close>

record AccountFilter =
  af_Pagination :: Pagination
  af_Kind :: "CredentialKind option"
  af_Status :: "AccountStatus option"
  af_Tier :: string
  af_ProxyID :: "string option"
  af_Model :: string
  af_Query :: string

text \<open>The constraints a written row has to meet: the checks, the key, the unique index and the reference.\<close>

definition account_conflict :: "'z AccountTables_scheme \<Rightarrow> Account list \<Rightarrow> Account \<Rightarrow> error option" where
  "account_conflict w others row =
     (if ConcurrencyLimit row \<le> 0 then Some (conflict ''accounts_concurrency_check'')
      else if FailureCount row < 0 then Some (conflict ''accounts_failure_count_check'')
      else if HealthScore row < 0 \<or> 1 < HealthScore row then Some (conflict ''accounts_health_score_check'')
      else if list_ex (\<lambda>a. ID a = ID row) others then Some (conflict ''accounts_pkey'')
      else if CredentialFingerprint row \<noteq> ''''
        \<and> list_ex (\<lambda>a. Kind a = Kind row \<and> CredentialFingerprint a = CredentialFingerprint row) others
      then Some (conflict ''accounts_credential_fingerprint_unique'')
      else if ProxyID row \<noteq> '''' \<and> \<not> list_ex (\<lambda>p. prx_ID p = ProxyID row) (tb_proxies w) then Some (conflict ''accounts_proxy_id_fkey'')
      else None)"

text \<open>The defaults, and the row that is written.\<close>

definition default_account :: "Account \<Rightarrow> Account" where
  "default_account acc =
     (let acc = (if ConcurrencyLimit acc \<le> 0 then acc\<lparr>ConcurrencyLimit := 1\<rparr> else acc)
      in if HealthScore acc \<le> 0 then acc\<lparr>HealthScore := 1\<rparr> else acc)"

definition inserted_account :: "string \<Rightarrow> time \<Rightarrow> Account \<Rightarrow> Account" where
  "inserted_account uid now acc =
     acc\<lparr>ID := uid, Name := TrimSpace (Name acc), ProxyID := TrimSpace (ProxyID acc), CredentialExpiresAt := None, CreatedAt := now, UpdatedAt := now\<rparr>"

definition insert_account :: "string \<Rightarrow> Account \<Rightarrow> 'z AccountTables_scheme \<Rightarrow> (error + Account) \<times> 'z AccountTables_scheme" where
  "insert_account uid acc w =
     (let row = inserted_account uid (tb_clock w) acc
      in case account_conflict w (tb_accounts w) row of
           Some e \<Rightarrow> (Inl e, w)
         | None \<Rightarrow> (Inr (acc\<lparr>ID := uid, CreatedAt := tb_clock w, UpdatedAt := tb_clock w\<rparr>), w\<lparr>tb_accounts := tb_accounts w @ [row]\<rparr>))"

definition CreateAccount :: "'z AccountDB \<Rightarrow> Account option \<Rightarrow> 'z AccountTables_scheme \<Rightarrow> (error + Account) \<times> 'z AccountTables_scheme" where
  "CreateAccount db acc w =
     (case acc of
        None \<Rightarrow> (Inl (errorsNew ''account is required''), w)
      | Some acc \<Rightarrow>
          (let acc = default_account acc
           in try_do (newID (ad_random db) (ID acc) w) (\<lambda>uid w.
                case encode_int4 db [Priority acc, ConcurrencyLimit acc, FailureCount acc] of
                  Some e \<Rightarrow> (Inl e, w)
                | None \<Rightarrow> ad_trip db Statement (insert_account uid acc) w)))"

definition GetAccount :: "'z AccountDB \<Rightarrow> string \<Rightarrow> 'z AccountTables_scheme \<Rightarrow> (error + Account) \<times> 'z AccountTables_scheme" where
  "GetAccount db uid = ad_trip db Statement (\<lambda>w. (find_row (\<lambda>a. ID a = uid) (tb_accounts w), w))"

text \<open>\<open>accountFilterSQL\<close>: the condition of the statement.\<close>

definition accountFilterSQL :: "'z AccountDB \<Rightarrow> AccountFilter \<Rightarrow> Account \<Rightarrow> bool" where
  "accountFilterSQL db f a \<longleftrightarrow>
     (case af_Kind f of None \<Rightarrow> True | Some k \<Rightarrow> Kind a = k) \<and>
     (case af_Status f of None \<Rightarrow> True | Some s \<Rightarrow> Status a = s) \<and>
     (let tier = TrimSpace (af_Tier f) in tier = '''' \<or> ad_lower db (Tier a) = ad_lower db tier) \<and>
     (case af_ProxyID f of None \<Rightarrow> True | Some p \<Rightarrow> ProxyID a = TrimSpace p) \<and>
     (let model = TrimSpace (af_Model f) in model = '''' \<or> List.member (Models a) model) \<and>
     (let search = TrimSpace (af_Query f)
      in search = '''' \<or> ad_ilike db (Name a) search \<or> ad_ilike db (Account.Email a) search \<or> ad_ilike db (ad_jsontext db (Tags a)) search)"

text \<open>\<open>ORDER BY priority DESC, created_at ASC\<close>.\<close>

definition account_order :: "Account list \<Rightarrow> Account list" where
  "account_order rows = sort_key (\<lambda>a. - Priority a) (sort_key CreatedAt rows)"

definition store_ListAccounts :: "'z AccountDB \<Rightarrow> AccountFilter \<Rightarrow> 'z AccountTables_scheme \<Rightarrow> (error + Account list) \<times> 'z AccountTables_scheme" where
  "store_ListAccounts db f w =
     on_err (Wrapped ''list accounts'') (ad_trip db Statement (\<lambda>w.
       (Inr (page_of (normalized (af_Pagination f)) (account_order (filter (accountFilterSQL db f) (scanned_rows db w (tb_accounts w))))), w)) w)"

definition CountAccounts :: "'z AccountDB \<Rightarrow> AccountFilter \<Rightarrow> 'z AccountTables_scheme \<Rightarrow> (error + int) \<times> 'z AccountTables_scheme" where
  "CountAccounts db f w =
     on_err (Wrapped ''count accounts'') (ad_trip db Statement (\<lambda>w. (Inr (int (length (filter (accountFilterSQL db f) (tb_accounts w)))), w)) w)"

text \<open>Put a changed row in the place of the row with its ID, if the constraints admit it.\<close>

definition put_account :: "Account \<Rightarrow> 'z AccountTables_scheme \<Rightarrow> (error + Account) \<times> 'z AccountTables_scheme" where
  "put_account row w =
     (case account_conflict w (filter (\<lambda>a. ID a \<noteq> ID row) (tb_accounts w)) row of
        Some e \<Rightarrow> (Inl e, w)
      | None \<Rightarrow> (Inr row, w\<lparr>tb_accounts := map (\<lambda>a. if ID a = ID row then row else a) (tb_accounts w)\<rparr>))"

text \<open>\<open>updateAccount\<close>, every column of the administrator's account; \<open>created_at\<close> stays.\<close>

definition updateAccount :: "'z AccountDB \<Rightarrow> Account option \<Rightarrow> 'z AccountTables_scheme \<Rightarrow> (error + Account) \<times> 'z AccountTables_scheme" where
  "updateAccount db acc w =
     (case acc of
        None \<Rightarrow> (Inl (errorsNew ''account ID is required''), w)
      | Some acc \<Rightarrow>
          if TrimSpace (ID acc) = '''' then (Inl (errorsNew ''account ID is required''), w)
          else (case encode_int4 db [Priority acc, ConcurrencyLimit acc, FailureCount acc] of
                  Some e \<Rightarrow> (Inl e, w)
                | None \<Rightarrow>
                    ad_trip db Statement (\<lambda>w.
                      case find (\<lambda>a. ID a = ID acc) (tb_accounts w) of
                        None \<Rightarrow> (Inl ErrNotFound, w)
                      | Some old \<Rightarrow>
                          try_do (put_account (acc\<lparr>Name := TrimSpace (Name acc), ProxyID := TrimSpace (ProxyID acc), CredentialExpiresAt := None,
                                                   CreatedAt := CreatedAt old, UpdatedAt := tb_clock w\<rparr>) w)
                            (\<lambda>row w. (Inr (acc\<lparr>UpdatedAt := UpdatedAt row\<rparr>), w))) w))"

definition store_UpdateAccount :: "'z AccountDB \<Rightarrow> Account option \<Rightarrow> 'z AccountTables_scheme \<Rightarrow> (error + Account) \<times> 'z AccountTables_scheme" where
  "store_UpdateAccount db acc w = updateAccount db acc w"

subsection \<open>Health feedback\<close>

text \<open>The guards of \<open>UpdateAccountRuntime\<close>: another credential, an account an administrator took out, a cooldown that still runs.\<close>

definition other_credential :: "Account \<Rightarrow> Account \<Rightarrow> bool" where
  "other_credential fb row \<longleftrightarrow> CredentialFingerprint row \<noteq> CredentialFingerprint fb \<or> CredentialCipher row \<noteq> CredentialCipher fb"

definition taken_out :: "Account \<Rightarrow> bool" where
  "taken_out row \<longleftrightarrow> Status row = AccountDisabled \<or> Status row = AccountExpired \<or> Status row = AccountError"

definition held_back :: "time \<Rightarrow> Account \<Rightarrow> Account \<Rightarrow> bool" where
  "held_back now fb row \<longleftrightarrow> Status fb = AccountActive \<and> Status row = AccountCooldown
     \<and> (case CooldownUntil row of None \<Rightarrow> False | Some until \<Rightarrow> now < until)"

definition runtime_cooldown :: "Account \<Rightarrow> Account \<Rightarrow> time option" where
  "runtime_cooldown fb row =
     (if Status fb = AccountCooldown
        \<and> (case (CooldownUntil row, CooldownUntil fb) of (None, _) \<Rightarrow> False | (Some _, None) \<Rightarrow> True | (Some a, Some b) \<Rightarrow> b < a)
      then CooldownUntil row else CooldownUntil fb)"

definition runtime_last_used :: "Account \<Rightarrow> Account \<Rightarrow> time option" where
  "runtime_last_used fb row =
     (case (LastUsedAt fb, LastUsedAt row) of (None, old) \<Rightarrow> old | (Some t, None) \<Rightarrow> Some t | (Some t, Some old) \<Rightarrow> Some (max old t))"

definition runtime_row :: "time \<Rightarrow> Account \<Rightarrow> Account \<Rightarrow> Account" where
  "runtime_row now fb row =
     (let keep = taken_out row \<or> other_credential fb row;
          hold = keep \<or> held_back now fb row
      in row\<lparr>Status := (if hold then Status row else Status fb),
             HealthScore := (if hold then HealthScore row else HealthScore fb),
             FailureCount := (if hold then FailureCount row else FailureCount fb),
             Quota := (if keep then Quota row else Quota fb),
             CooldownUntil := (if hold then CooldownUntil row else runtime_cooldown fb row),
             LastUsedAt := (if other_credential fb row then LastUsedAt row else runtime_last_used fb row),
             LastError := (if hold then LastError row else LastError fb),
             UpdatedAt := (if other_credential fb row then UpdatedAt row else now)\<rparr>)"

definition UpdateAccountRuntime :: "'z AccountDB \<Rightarrow> Account option \<Rightarrow> 'z AccountTables_scheme \<Rightarrow> (error + Account) \<times> 'z AccountTables_scheme" where
  "UpdateAccountRuntime db acc w =
     (case acc of
        None \<Rightarrow> (Inl (errorsNew ''account ID is required''), w)
      | Some acc \<Rightarrow>
          if TrimSpace (ID acc) = '''' then (Inl (errorsNew ''account ID is required''), w)
          else (case encode_int4 db [FailureCount acc] of
                  Some e \<Rightarrow> (Inl e, w)
                | None \<Rightarrow>
                    ad_trip db Statement (\<lambda>w.
                      case find (\<lambda>a. ID a = ID acc) (tb_accounts w) of
                        None \<Rightarrow> (Inl ErrNotFound, w)
                      | Some old \<Rightarrow>
                          try_do (put_account (runtime_row (tb_clock w) acc old) w) (\<lambda>row w. (Inr (acc\<lparr>UpdatedAt := UpdatedAt row\<rparr>), w))) w))"

subsection \<open>Transactions\<close>

text \<open>Put back the tables as they were when the transaction began.\<close>

definition roll_back :: "'z AccountTables_scheme \<Rightarrow> 'z AccountTables_scheme \<Rightarrow> 'z AccountTables_scheme" where
  "roll_back begun w = w\<lparr>tb_accounts := tb_accounts begun, tb_proxies := tb_proxies begun, tb_models := tb_models begun, tb_keys := tb_keys begun\<rparr>"

text \<open>Begin, run, commit; an error anywhere rolls back. \<open>name\<close> is the error of the begin.\<close>

definition in_transaction :: "'z AccountDB \<Rightarrow> string \<Rightarrow> ('z AccountTables_scheme \<Rightarrow> (error + 'a) \<times> 'z AccountTables_scheme) \<Rightarrow> 'z AccountTables_scheme
    \<Rightarrow> (error + 'a) \<times> 'z AccountTables_scheme" where
  "in_transaction db name f w =
     try_do (on_err (Wrapped name) (ad_trip db BeginTx (\<lambda>w. (Inr (), w)) w)) (\<lambda>_ begun.
       case try_do (f begun) (\<lambda>x w. ad_trip db CommitTx (\<lambda>w. (Inr x, w)) w) of
         (Inl e, w) \<Rightarrow> (Inl e, roll_back begun w)
       | (Inr x, w) \<Rightarrow> (Inr x, w))"

fun update_each :: "'z AccountDB \<Rightarrow> Account option list \<Rightarrow> 'z AccountTables_scheme \<Rightarrow> (error + Account list) \<times> 'z AccountTables_scheme" where
  "update_each db [] w = (Inr [], w)"
| "update_each db (a # as) w = try_do (updateAccount db a w) (\<lambda>x w. try_do (update_each db as w) (\<lambda>xs w. (Inr (x # xs), w)))"

definition UpdateAccounts :: "'z AccountDB \<Rightarrow> Account option list \<Rightarrow> 'z AccountTables_scheme \<Rightarrow> (error + Account list) \<times> 'z AccountTables_scheme" where
  "UpdateAccounts db accs w =
     (if accs = [] then (Inl (errorsNew ''at least one account is required''), w)
      else in_transaction db ''begin account update transaction'' (update_each db accs) w)"

definition delete_accounts :: "(Account \<Rightarrow> bool) \<Rightarrow> 'z AccountTables_scheme \<Rightarrow> nat \<times> 'z AccountTables_scheme" where
  "delete_accounts P w = (length (filter P (tb_accounts w)), w\<lparr>tb_accounts := filter (\<lambda>a. \<not> P a) (tb_accounts w)\<rparr>)"

definition store_DeleteAccount :: "'z AccountDB \<Rightarrow> string \<Rightarrow> 'z AccountTables_scheme \<Rightarrow> (error + unit) \<times> 'z AccountTables_scheme" where
  "store_DeleteAccount db uid = ad_trip db Statement (\<lambda>w.
     case delete_accounts (\<lambda>a. ID a = uid) w of (n, w) \<Rightarrow> if n = 0 then (Inl ErrNotFound, w) else (Inr (), w))"

definition store_DeleteAccounts :: "'z AccountDB \<Rightarrow> string list \<Rightarrow> 'z AccountTables_scheme \<Rightarrow> (error + unit) \<times> 'z AccountTables_scheme" where
  "store_DeleteAccounts db ids w =
     (if ids = [] \<or> 500 < length ids then (Inl (errorsNew ''select between 1 and 500 accounts''), w)
      else in_transaction db ''begin account delete transaction'' (ad_trip db Statement (\<lambda>w.
        case delete_accounts (\<lambda>a. List.member ids (ID a)) w of (n, w) \<Rightarrow> if n \<noteq> length ids then (Inl ErrNotFound, w) else (Inr (), w))) w)"

section \<open>Proxies\<close>

definition CreateProxy :: "'z AccountDB \<Rightarrow> Proxy option \<Rightarrow> 'z AccountTables_scheme \<Rightarrow> (error + Proxy) \<times> 'z AccountTables_scheme" where
  "CreateProxy db proxy w =
     (case proxy of
        None \<Rightarrow> (Inl (errorsNew ''proxy is required''), w)
      | Some proxy \<Rightarrow>
          try_do (newID (ad_random db) (prx_ID proxy) w) (\<lambda>uid. ad_trip db Statement (\<lambda>w.
            if list_ex (\<lambda>p. prx_ID p = uid) (tb_proxies w) then (Inl (conflict ''proxies_pkey''), w)
            else (Inr (proxy\<lparr>prx_ID := uid, prx_CreatedAt := tb_clock w, prx_UpdatedAt := tb_clock w\<rparr>),
                  w\<lparr>tb_proxies := tb_proxies w @ [proxy\<lparr>prx_ID := uid, prx_Name := TrimSpace (prx_Name proxy),
                                                       prx_CreatedAt := tb_clock w, prx_UpdatedAt := tb_clock w\<rparr>]\<rparr>))))"

definition GetProxy :: "'z AccountDB \<Rightarrow> string \<Rightarrow> 'z AccountTables_scheme \<Rightarrow> (error + Proxy) \<times> 'z AccountTables_scheme" where
  "GetProxy db uid = ad_trip db Statement (\<lambda>w. (find_row (\<lambda>p. prx_ID p = uid) (tb_proxies w), w))"

text \<open>\<open>ORDER BY name, created_at\<close>; the collation is that of bytes.\<close>

definition ListProxies :: "'z AccountDB \<Rightarrow> Pagination \<Rightarrow> 'z AccountTables_scheme \<Rightarrow> (error + Proxy list) \<times> 'z AccountTables_scheme" where
  "ListProxies db p w =
     on_err (Wrapped ''list proxies'') (ad_trip db Statement (\<lambda>w.
       (Inr (page_of (normalized p) (sort_key prx_Name (sort_key prx_CreatedAt (scanned_rows db w (tb_proxies w))))), w)) w)"

definition CountProxies :: "'z AccountDB \<Rightarrow> 'z AccountTables_scheme \<Rightarrow> (error + int) \<times> 'z AccountTables_scheme" where
  "CountProxies db w = on_err (Wrapped ''count proxies'') (ad_trip db Statement (\<lambda>w. (Inr (int (length (tb_proxies w))), w)) w)"

definition UpdateProxy :: "'z AccountDB \<Rightarrow> Proxy option \<Rightarrow> 'z AccountTables_scheme \<Rightarrow> (error + Proxy) \<times> 'z AccountTables_scheme" where
  "UpdateProxy db proxy w =
     (case proxy of
        None \<Rightarrow> (Inl (errorsNew ''proxy ID is required''), w)
      | Some proxy \<Rightarrow>
          if TrimSpace (prx_ID proxy) = '''' then (Inl (errorsNew ''proxy ID is required''), w)
          else ad_trip db Statement (\<lambda>w.
            if list_ex (\<lambda>p. prx_ID p = prx_ID proxy) (tb_proxies w)
            then (Inr (proxy\<lparr>prx_UpdatedAt := tb_clock w\<rparr>),
                  w\<lparr>tb_proxies := map (\<lambda>p. if prx_ID p = prx_ID proxy
                     then proxy\<lparr>prx_Name := TrimSpace (prx_Name proxy), prx_CreatedAt := prx_CreatedAt p, prx_UpdatedAt := tb_clock w\<rparr> else p) (tb_proxies w)\<rparr>)
            else (Inl ErrNotFound, w)) w)"

text \<open>The reference of \<open>accounts.proxy_id\<close> is \<open>ON DELETE SET NULL\<close>.\<close>

definition DeleteProxy :: "'z AccountDB \<Rightarrow> string \<Rightarrow> 'z AccountTables_scheme \<Rightarrow> (error + unit) \<times> 'z AccountTables_scheme" where
  "DeleteProxy db uid = ad_trip db Statement (\<lambda>w.
     if list_ex (\<lambda>p. prx_ID p = uid) (tb_proxies w)
     then (Inr (), w\<lparr>tb_proxies := filter (\<lambda>p. prx_ID p \<noteq> uid) (tb_proxies w),
                     tb_accounts := map (\<lambda>a. if ProxyID a = uid then a\<lparr>ProxyID := ''''\<rparr> else a) (tb_accounts w)\<rparr>)
     else (Inl ErrNotFound, w))"

end
