(* ===== verification/Key_Table.thy ===== *)
theory Key_Table
  imports Account_Table
begin

text \<open>
  Client keys and models in the database (\<open>internal/store/client_keys.go\<close>, \<open>internal/store/models.go\<close>), in the tables and over the connection of
  \<open>Account_Table\<close>. \<open>SecretAvailable\<close> is not a column.
\<close>

section \<open>Client keys\<close>

definition key_limits_ok :: "ClientKey \<Rightarrow> bool" where
  "key_limits_ok k \<longleftrightarrow> 0 \<le> RPM k \<and> 0 \<le> key_ConcurrencyLimit k \<and> 0 \<le> DailyRequestLimit k \<and> 0 \<le> MonthlyTokenLimit k"

definition CreateClientKey :: "'z AccountDB \<Rightarrow> ClientKey option \<Rightarrow> 'z AccountTables_scheme \<Rightarrow> (error + ClientKey) \<times> 'z AccountTables_scheme" where
  "CreateClientKey db key w =
     (case key of
        None \<Rightarrow> (Inl (errorsNew ''client key and digest are required''), w)
      | Some key \<Rightarrow>
          if Digest key = '''' then (Inl (errorsNew ''client key and digest are required''), w)
          else try_do (newID (ad_random db) (key_ID key) w) (\<lambda>uid w.
            case encode_int4 db [RPM key, key_ConcurrencyLimit key] of
              Some e \<Rightarrow> (Inl e, w)
            | None \<Rightarrow>
                ad_trip db Statement (\<lambda>w.
                  let row = key\<lparr>key_ID := uid, key_Name := TrimSpace (key_Name key), SecretAvailable := False,
                                key_CreatedAt := tb_clock w, key_UpdatedAt := tb_clock w\<rparr>
                  in if \<not> key_limits_ok row then (Inl (conflict ''client_keys_limits_check''), w)
                     else if list_ex (\<lambda>k. key_ID k = uid) (tb_keys w) then (Inl (conflict ''client_keys_pkey''), w)
                     else if list_ex (\<lambda>k. Digest k = Digest key) (tb_keys w) then (Inl (conflict ''client_keys_digest_key''), w)
                     else (Inr (key\<lparr>key_ID := uid, key_CreatedAt := tb_clock w, key_UpdatedAt := tb_clock w\<rparr>),
                           w\<lparr>tb_keys := tb_keys w @ [row]\<rparr>)) w))"

definition GetClientKey :: "'z AccountDB \<Rightarrow> string \<Rightarrow> 'z AccountTables_scheme \<Rightarrow> (error + ClientKey) \<times> 'z AccountTables_scheme" where
  "GetClientKey db uid = ad_trip db Statement (\<lambda>w. (find_row (\<lambda>k. key_ID k = uid) (tb_keys w), w))"

definition GetClientKeyByDigest :: "'z AccountDB \<Rightarrow> string \<Rightarrow> 'z AccountTables_scheme \<Rightarrow> (error + ClientKey) \<times> 'z AccountTables_scheme" where
  "GetClientKeyByDigest db d = ad_trip db Statement (\<lambda>w. (find_row (\<lambda>k. Digest k = d) (tb_keys w), w))"

definition ListClientKeys :: "'z AccountDB \<Rightarrow> Pagination \<Rightarrow> 'z AccountTables_scheme \<Rightarrow> (error + ClientKey list) \<times> 'z AccountTables_scheme" where
  "ListClientKeys db p w =
     on_err (Wrapped ''list client keys'') (ad_trip db Statement (\<lambda>w.
       (Inr (page_of (normalized p) (sort_key (\<lambda>k. - key_CreatedAt k) (scanned_rows db w (tb_keys w)))), w)) w)"

definition CountClientKeys :: "'z AccountDB \<Rightarrow> 'z AccountTables_scheme \<Rightarrow> (error + int) \<times> 'z AccountTables_scheme" where
  "CountClientKeys db w = on_err (Wrapped ''count client keys'') (ad_trip db Statement (\<lambda>w. (Inr (int (length (tb_keys w))), w)) w)"

text \<open>\<open>ensureTime\<close>.\<close>

definition ad_ensureTime :: "'z AccountDB \<Rightarrow> time \<Rightarrow> 'z AccountTables_scheme \<Rightarrow> time" where
  "ad_ensureTime db moment w = (if moment = 0 then ad_timeNow db w else moment)"

definition CountActiveClientKeys :: "'z AccountDB \<Rightarrow> time \<Rightarrow> 'z AccountTables_scheme \<Rightarrow> (error + int) \<times> 'z AccountTables_scheme" where
  "CountActiveClientKeys db now w0 =
     on_err (Wrapped ''count active client keys'') (ad_trip db Statement (\<lambda>w.
       (Inr (int (length (filter (\<lambda>k. key_Enabled k \<and> (case key_ExpiresAt k of None \<Rightarrow> True | Some t \<Rightarrow> ad_ensureTime db now w0 < t)) (tb_keys w)))), w)) w0)"

definition UpdateClientKey :: "'z AccountDB \<Rightarrow> ClientKey option \<Rightarrow> 'z AccountTables_scheme \<Rightarrow> (error + ClientKey) \<times> 'z AccountTables_scheme" where
  "UpdateClientKey db key w =
     (case key of
        None \<Rightarrow> (Inl (errorsNew ''client key ID is required''), w)
      | Some key \<Rightarrow>
          if TrimSpace (key_ID key) = '''' then (Inl (errorsNew ''client key ID is required''), w)
          else (case encode_int4 db [RPM key, key_ConcurrencyLimit key] of
                  Some e \<Rightarrow> (Inl e, w)
                | None \<Rightarrow>
                    ad_trip db Statement (\<lambda>w.
                      if \<not> list_ex (\<lambda>k. key_ID k = key_ID key) (tb_keys w) then (Inl ErrNotFound, w)
                      else if \<not> key_limits_ok key then (Inl (conflict ''client_keys_limits_check''), w)
                      else (Inr (key\<lparr>key_UpdatedAt := tb_clock w\<rparr>),
                            w\<lparr>tb_keys := map (\<lambda>k. if key_ID k = key_ID key
                               then k\<lparr>key_Name := TrimSpace (key_Name key), key_Enabled := key_Enabled key, RPM := RPM key,
                                      key_ConcurrencyLimit := key_ConcurrencyLimit key, DailyRequestLimit := DailyRequestLimit key,
                                      MonthlyTokenLimit := MonthlyTokenLimit key, key_ExpiresAt := key_ExpiresAt key, key_UpdatedAt := tb_clock w\<rparr>
                               else k) (tb_keys w)\<rparr>)) w))"

definition TouchClientKey :: "'z AccountDB \<Rightarrow> string \<Rightarrow> time \<Rightarrow> 'z AccountTables_scheme \<Rightarrow> (error + unit) \<times> 'z AccountTables_scheme" where
  "TouchClientKey db uid usedAt w0 = ad_trip db Statement (\<lambda>w.
     if list_ex (\<lambda>k. key_ID k = uid) (tb_keys w)
     then (Inr (), w\<lparr>tb_keys := map (\<lambda>k. if key_ID k = uid then k\<lparr>key_LastUsedAt := Some (ad_ensureTime db usedAt w0)\<rparr> else k) (tb_keys w)\<rparr>)
     else (Inl ErrNotFound, w)) w0"

definition DeleteClientKey :: "'z AccountDB \<Rightarrow> string \<Rightarrow> 'z AccountTables_scheme \<Rightarrow> (error + unit) \<times> 'z AccountTables_scheme" where
  "DeleteClientKey db uid = ad_trip db Statement (\<lambda>w.
     if list_ex (\<lambda>k. key_ID k = uid) (tb_keys w)
     then (Inr (), w\<lparr>tb_keys := filter (\<lambda>k. key_ID k \<noteq> uid) (tb_keys w)\<rparr>) else (Inl ErrNotFound, w))"

section \<open>Models\<close>

record ModelFilter =
  mf_Pagination :: Pagination
  mf_Capability :: "Capability option"
  mf_Enabled :: "bool option"
  mf_Query :: string

definition CreateModel :: "'z AccountDB \<Rightarrow> ModelSpec option \<Rightarrow> 'z AccountTables_scheme \<Rightarrow> (error + ModelSpec) \<times> 'z AccountTables_scheme" where
  "CreateModel db m w =
     (case m of
        None \<Rightarrow> (Inl (errorsNew ''model ID is required''), w)
      | Some m \<Rightarrow>
          if TrimSpace (model_ID m) = '''' then (Inl (errorsNew ''model ID is required''), w)
          else ad_trip db Statement (\<lambda>w.
            let row = m\<lparr>model_ID := TrimSpace (model_ID m), UpstreamModel := TrimSpace (UpstreamModel m), DisplayName := TrimSpace (DisplayName m),
                        CatalogManaged := False, model_CreatedAt := tb_clock w, model_UpdatedAt := tb_clock w\<rparr>
            in if list_ex (\<lambda>x. model_ID x = model_ID row) (tb_models w) then (Inl (conflict ''models_pkey''), w)
               else (Inr (m\<lparr>CatalogManaged := False, model_CreatedAt := tb_clock w, model_UpdatedAt := tb_clock w\<rparr>),
                     w\<lparr>tb_models := tb_models w @ [row]\<rparr>)) w)"

definition GetModel :: "'z AccountDB \<Rightarrow> string \<Rightarrow> 'z AccountTables_scheme \<Rightarrow> (error + ModelSpec) \<times> 'z AccountTables_scheme" where
  "GetModel db uid = ad_trip db Statement (\<lambda>w. (find_row (\<lambda>m. model_ID m = uid) (tb_models w), w))"

definition modelFilterSQL :: "'z AccountDB \<Rightarrow> ModelFilter \<Rightarrow> ModelSpec \<Rightarrow> bool" where
  "modelFilterSQL db f m \<longleftrightarrow>
     (case mf_Capability f of None \<Rightarrow> True | Some c \<Rightarrow> model_Capability m = c) \<and>
     (case mf_Enabled f of None \<Rightarrow> True | Some b \<Rightarrow> Enabled m = b) \<and>
     (let search = TrimSpace (mf_Query f)
      in search = '''' \<or> ad_ilike db (model_ID m) search \<or> ad_ilike db (DisplayName m) search \<or> ad_ilike db (UpstreamModel m) search
         \<or> ad_ilike db (ad_jsontext db (Aliases m)) search)"

text \<open>\<open>ORDER BY display_name, id\<close>; the collation is that of bytes.\<close>

definition model_order :: "ModelSpec list \<Rightarrow> ModelSpec list" where
  "model_order rows = sort_key DisplayName (sort_key model_ID rows)"

definition store_ListModels :: "'z AccountDB \<Rightarrow> ModelFilter \<Rightarrow> 'z AccountTables_scheme \<Rightarrow> (error + ModelSpec list) \<times> 'z AccountTables_scheme" where
  "store_ListModels db f w =
     on_err (Wrapped ''list models'') (ad_trip db Statement (\<lambda>w.
       (Inr (page_of (normalized (mf_Pagination f)) (model_order (filter (modelFilterSQL db f) (scanned_rows db w (tb_models w))))), w)) w)"

definition CountModels :: "'z AccountDB \<Rightarrow> ModelFilter \<Rightarrow> 'z AccountTables_scheme \<Rightarrow> (error + int) \<times> 'z AccountTables_scheme" where
  "CountModels db f w =
     on_err (Wrapped ''count models'') (ad_trip db Statement (\<lambda>w. (Inr (int (length (filter (modelFilterSQL db f) (tb_models w)))), w)) w)"

definition UpdateModel :: "'z AccountDB \<Rightarrow> ModelSpec option \<Rightarrow> 'z AccountTables_scheme \<Rightarrow> (error + ModelSpec) \<times> 'z AccountTables_scheme" where
  "UpdateModel db m w =
     (case m of
        None \<Rightarrow> (Inl (errorsNew ''model ID is required''), w)
      | Some m \<Rightarrow>
          if TrimSpace (model_ID m) = '''' then (Inl (errorsNew ''model ID is required''), w)
          else ad_trip db Statement (\<lambda>w.
            if list_ex (\<lambda>x. model_ID x = model_ID m) (tb_models w)
            then (Inr (m\<lparr>CatalogManaged := False, model_UpdatedAt := tb_clock w\<rparr>),
                  w\<lparr>tb_models := map (\<lambda>x. if model_ID x = model_ID m
                     then m\<lparr>CatalogManaged := False, model_CreatedAt := model_CreatedAt x, model_UpdatedAt := tb_clock w\<rparr> else x) (tb_models w)\<rparr>)
            else (Inl ErrNotFound, w)) w)"

definition DeleteModel :: "'z AccountDB \<Rightarrow> string \<Rightarrow> 'z AccountTables_scheme \<Rightarrow> (error + unit) \<times> 'z AccountTables_scheme" where
  "DeleteModel db uid = ad_trip db Statement (\<lambda>w.
     if list_ex (\<lambda>m. model_ID m = uid) (tb_models w)
     then (Inr (), w\<lparr>tb_models := filter (\<lambda>m. model_ID m \<noteq> uid) (tb_models w)\<rparr>) else (Inl ErrNotFound, w))"

end
