(* ===== verification/Management.thy ===== *)
theory Management
  imports Key_Table Admin_State Tool_Names
begin

text \<open>
  The administrator's operations on accounts, proxies and client keys (\<open>internal/admin/management.go\<close>) over the repository interfaces of
  \<open>internal/store/interfaces.go\<close>.

  \<^item> A repository is a record of its methods over a world \<open>'w\<close>; \<open>accounts_repository\<close> and the others are the ones of the database.
    The service tests three of them for \<open>nil\<close>: the fields \<open>has_\<close> say whether they were given. A write gives the account or key back
    as the method leaves it.
  \<^item> \<open>json\<close> for credentials, \<open>url.Parse\<close> and \<open>strings.EqualFold\<close> are the fields \<open>mg_Marshal\<close>, \<open>mg_Unmarshal\<close>, \<open>mg_ParseURL\<close>, \<open>mg_URLText\<close> and
    \<open>mg_EqualFold\<close>. The token manager is its pepper.
  \<^item> Credential kinds, states and capabilities are data types, so the tests for other values are constant.
\<close>

section \<open>Repositories\<close>

record 'w AccountRepository =
  rp_CreateAccount :: "Account \<Rightarrow> 'w \<Rightarrow> (error + Account) \<times> 'w"
  rp_GetAccount :: "string \<Rightarrow> 'w \<Rightarrow> (error + Account) \<times> 'w"
  rp_ListAccounts :: "AccountFilter \<Rightarrow> 'w \<Rightarrow> (error + Account list) \<times> 'w"
  rp_CountAccounts :: "AccountFilter \<Rightarrow> 'w \<Rightarrow> (error + int) \<times> 'w"
  rp_UpdateAccount :: "Account \<Rightarrow> 'w \<Rightarrow> (error + Account) \<times> 'w"
  rp_UpdateAccounts :: "Account list \<Rightarrow> 'w \<Rightarrow> (error + Account list) \<times> 'w"
  rp_DeleteAccount :: "string \<Rightarrow> 'w \<Rightarrow> (error + unit) \<times> 'w"
  rp_DeleteAccounts :: "string list \<Rightarrow> 'w \<Rightarrow> (error + unit) \<times> 'w"

record 'w ModelRepository =
  rp_CreateModel :: "ModelSpec option \<Rightarrow> 'w \<Rightarrow> (error + ModelSpec) \<times> 'w"
  rp_GetModel :: "string \<Rightarrow> 'w \<Rightarrow> (error + ModelSpec) \<times> 'w"
  rp_ListModels :: "ModelFilter \<Rightarrow> 'w \<Rightarrow> (error + ModelSpec list) \<times> 'w"
  rp_CountModels :: "ModelFilter \<Rightarrow> 'w \<Rightarrow> (error + int) \<times> 'w"
  rp_UpdateModel :: "ModelSpec option \<Rightarrow> 'w \<Rightarrow> (error + ModelSpec) \<times> 'w"
  rp_DeleteModel :: "string \<Rightarrow> 'w \<Rightarrow> (error + unit) \<times> 'w"

record 'w ProxyRepository =
  rp_CreateProxy :: "Proxy \<Rightarrow> 'w \<Rightarrow> (error + Proxy) \<times> 'w"
  rp_GetProxy :: "string \<Rightarrow> 'w \<Rightarrow> (error + Proxy) \<times> 'w"
  rp_ListProxies :: "Pagination \<Rightarrow> 'w \<Rightarrow> (error + Proxy list) \<times> 'w"
  rp_CountProxies :: "'w \<Rightarrow> (error + int) \<times> 'w"
  rp_UpdateProxy :: "Proxy \<Rightarrow> 'w \<Rightarrow> (error + Proxy) \<times> 'w"
  rp_DeleteProxy :: "string \<Rightarrow> 'w \<Rightarrow> (error + unit) \<times> 'w"

record 'w ClientKeyRepository =
  rp_CreateClientKey :: "ClientKey \<Rightarrow> 'w \<Rightarrow> (error + ClientKey) \<times> 'w"
  rp_GetClientKey :: "string \<Rightarrow> 'w \<Rightarrow> (error + ClientKey) \<times> 'w"
  rp_GetClientKeyByDigest :: "string \<Rightarrow> 'w \<Rightarrow> (error + ClientKey) \<times> 'w"
  rp_ListClientKeys :: "Pagination \<Rightarrow> 'w \<Rightarrow> (error + ClientKey list) \<times> 'w"
  rp_CountClientKeys :: "'w \<Rightarrow> (error + int) \<times> 'w"
  rp_CountActiveClientKeys :: "time \<Rightarrow> 'w \<Rightarrow> (error + int) \<times> 'w"
  rp_UpdateClientKey :: "ClientKey \<Rightarrow> 'w \<Rightarrow> (error + ClientKey) \<times> 'w"
  rp_TouchClientKey :: "string \<Rightarrow> time \<Rightarrow> 'w \<Rightarrow> (error + unit) \<times> 'w"
  rp_DeleteClientKey :: "string \<Rightarrow> 'w \<Rightarrow> (error + unit) \<times> 'w"

definition accounts_repository :: "'z AccountDB \<Rightarrow> 'z AccountTables_scheme AccountRepository" where
  "accounts_repository db =
     \<lparr>rp_CreateAccount = (\<lambda>a. CreateAccount db (Some a)), rp_GetAccount = GetAccount db, rp_ListAccounts = store_ListAccounts db,
      rp_CountAccounts = CountAccounts db, rp_UpdateAccount = (\<lambda>a. store_UpdateAccount db (Some a)),
      rp_UpdateAccounts = (\<lambda>as. UpdateAccounts db (map Some as)), rp_DeleteAccount = store_DeleteAccount db,
      rp_DeleteAccounts = store_DeleteAccounts db\<rparr>"

definition models_repository :: "'z AccountDB \<Rightarrow> 'z AccountTables_scheme ModelRepository" where
  "models_repository db =
     \<lparr>rp_CreateModel = CreateModel db, rp_GetModel = GetModel db, rp_ListModels = store_ListModels db, rp_CountModels = CountModels db,
      rp_UpdateModel = UpdateModel db, rp_DeleteModel = DeleteModel db\<rparr>"

definition proxies_repository :: "'z AccountDB \<Rightarrow> 'z AccountTables_scheme ProxyRepository" where
  "proxies_repository db =
     \<lparr>rp_CreateProxy = (\<lambda>p. CreateProxy db (Some p)), rp_GetProxy = GetProxy db, rp_ListProxies = ListProxies db, rp_CountProxies = CountProxies db,
      rp_UpdateProxy = (\<lambda>p. UpdateProxy db (Some p)), rp_DeleteProxy = DeleteProxy db\<rparr>"

definition keys_repository :: "'z AccountDB \<Rightarrow> 'z AccountTables_scheme ClientKeyRepository" where
  "keys_repository db =
     \<lparr>rp_CreateClientKey = (\<lambda>k. CreateClientKey db (Some k)), rp_GetClientKey = GetClientKey db, rp_GetClientKeyByDigest = GetClientKeyByDigest db,
      rp_ListClientKeys = ListClientKeys db, rp_CountClientKeys = CountClientKeys db, rp_CountActiveClientKeys = CountActiveClientKeys db,
      rp_UpdateClientKey = (\<lambda>k. UpdateClientKey db (Some k)), rp_TouchClientKey = TouchClientKey db, rp_DeleteClientKey = DeleteClientKey db\<rparr>"

section \<open>The service\<close>

record ParsedURL =
  pu_Scheme :: string
  pu_Opaque :: string
  pu_Username :: "string option"
  pu_Host :: string
  pu_Hostname :: string
  pu_Port :: string
  pu_Path :: string
  pu_RawPath :: string
  pu_RawQuery :: string
  pu_ForceQuery :: bool
  pu_Fragment :: string

record 'w ManagementService =
  mg_accounts :: "'w AccountRepository"
  mg_models :: "'w ModelRepository"
  mg_proxies :: "'w ProxyRepository"
  mg_keys :: "'w ClientKeyRepository"
  has_accounts :: bool
  has_proxies :: bool
  has_keys :: bool
  has_tokens :: bool
  mg_cipher :: "AEAD option"
  mg_pepper :: string
  mg_now :: "'w \<Rightarrow> time \<times> 'w"
  mg_random :: "'w random"
  mg_lib :: SecLib
  mg_Marshal :: "Credentials \<Rightarrow> error + string"
  mg_Unmarshal :: "string \<Rightarrow> error + Credentials"
  mg_ParseURL :: "string \<Rightarrow> ParsedURL option"
  mg_URLText :: "ParsedURL \<Rightarrow> string"
  mg_EqualFold :: "string \<Rightarrow> string \<Rightarrow> bool"

text \<open>A result that does not change the world.\<close>

definition yield :: "error + 'a \<Rightarrow> 'w \<Rightarrow> (error + 'a) \<times> 'w" where "yield r w = (r, w)"

definition sealCredentials :: "'w ManagementService \<Rightarrow> string \<Rightarrow> Credentials \<Rightarrow> 'w \<Rightarrow> (error + string) \<times> 'w" where
  "sealCredentials s accountID c w =
     (case mg_Marshal s c of
        Inl e \<Rightarrow> (Inl (Wrapped ''encode credentials'' e), w)
      | Inr payload \<Rightarrow> Seal (mg_random s) (mg_cipher s) payload (''account-credentials:'' @ accountID) w)"

definition openCredentials :: "'w ManagementService \<Rightarrow> string \<Rightarrow> string \<Rightarrow> error + Credentials" where
  "openCredentials s accountID ciphertext =
     (case Open (mg_cipher s) ciphertext (''account-credentials:'' @ accountID) of
        Inl e \<Rightarrow> Inl (Wrapped ''decrypt account credentials'' e)
      | Inr plaintext \<Rightarrow>
          (case mg_Unmarshal s plaintext of Inl e \<Rightarrow> Inl (Wrapped ''decode account credentials'' e) | Inr c \<Rightarrow> Inr c))"

section \<open>Validation\<close>

text \<open>\<open>requireOfficialCredentialURL\<close>: whether it is one of the given hosts with the given path.\<close>

definition requireOfficialCredentialURL :: "'w ManagementService \<Rightarrow> string \<Rightarrow> (string \<times> string) list \<Rightarrow> bool" where
  "requireOfficialCredentialURL s raw allowed =
     (case mg_ParseURL s (TrimSpace raw) of
        None \<Rightarrow> False
      | Some u \<Rightarrow>
          if pu_Opaque u \<noteq> '''' \<or> pu_Username u \<noteq> None \<or> pu_Port u \<noteq> '''' \<or> pu_RawPath u \<noteq> '''' \<or> pu_RawQuery u \<noteq> ''''
             \<or> pu_ForceQuery u \<or> pu_Fragment u \<noteq> '''' then False
          else if \<not> mg_EqualFold s (pu_Scheme u) ''https'' \<or> \<not> mg_EqualFold s (pu_Host u) (pu_Hostname u) then False
          else (case map_of allowed (ToLower (pu_Hostname u)) of
                  None \<Rightarrow> False
                | Some wantPath \<Rightarrow> TrimRight (pu_Path u) (CHR ''/'') = wantPath))"

definition cli_base :: string where "cli_base = ''https://cli-chat-proxy.grok.com/v1''"
definition console_base :: string where "console_base = ''https://console.x.ai/v1''"
definition grok_base :: string where "grok_base = ''https://grok.com''"

text \<open>The base address a kind may have: the one it gets.\<close>

definition normalize_base :: "'w ManagementService \<Rightarrow> CredentialKind \<Rightarrow> string \<Rightarrow> error + string" where
  "normalize_base s kind base =
     (case kind of
        CredentialCLIOAuth \<Rightarrow>
          if base = '''' then Inr cli_base
          else if \<not> requireOfficialCredentialURL s base [(''cli-chat-proxy.grok.com'', ''/v1''), (''api.x.ai'', ''/v1'')]
          then Inl (ErrText ''CLI OAuth base URL must use an official xAI endpoint'')
          else Inr cli_base
      | CredentialConsoleSSO \<Rightarrow>
          if base = '''' then Inr ''''
          else if \<not> requireOfficialCredentialURL s base [(''console.x.ai'', ''/v1'')]
          then Inl (ErrText ''Console SSO base URL must use the official xAI endpoint'')
          else Inr console_base
      | CredentialGrokSSO \<Rightarrow>
          if base = '''' then Inr ''''
          else if \<not> requireOfficialCredentialURL s base [(''grok.com'', '''')]
          then Inl (ErrText ''Grok SSO base URL must use the official Grok endpoint'')
          else Inr grok_base)"

definition normalizeAccountCredentials :: "'w ManagementService \<Rightarrow> CredentialKind \<Rightarrow> Credentials \<Rightarrow> error + Credentials" where
  "normalizeAccountCredentials s kind c =
     (let c = c\<lparr>AccessToken := TrimSpace (AccessToken c), RefreshToken := TrimSpace (RefreshToken c), IDToken := TrimSpace (IDToken c),
                SSO := TrimSpace (TrimPrefix (SSO c) ''sso=''), SSORW := TrimSpace (TrimPrefix (SSORW c) ''sso=''),
                BaseURL := TrimSpace (BaseURL c)\<rparr>
      in if kind = CredentialCLIOAuth \<and> TokenType c \<noteq> '''' \<and> \<not> mg_EqualFold s (TrimSpace (TokenType c)) ''Bearer''
         then Inl (ErrText ''CLI OAuth token type must be Bearer'')
         else (let c = (if kind = CredentialCLIOAuth then c\<lparr>TokenType := ''Bearer''\<rparr> else c)
               in case normalize_base s kind (BaseURL c) of Inl e \<Rightarrow> Inl e | Inr b \<Rightarrow> Inr (c\<lparr>BaseURL := b\<rparr>)))"

definition validateAccountInput :: "string \<Rightarrow> Credentials \<Rightarrow> int \<Rightarrow> error option" where
  "validateAccountInput name c concurrency =
     (if TrimSpace name = '''' then Some (ErrText ''account name is required'')
      else if concurrency < 0 then Some (ErrText ''concurrency limit must be positive'')
      else if TrimSpace (AccessToken c) = '''' \<and> TrimSpace (RefreshToken c) = '''' \<and> TrimSpace (SSO c) = '''' \<and> TrimSpace (SSORW c) = ''''
      then Some (ErrText ''account credentials are empty'')
      else None)"

definition validateAccountProxy :: "'w ManagementService \<Rightarrow> string option \<Rightarrow> 'w \<Rightarrow> (error + unit) \<times> 'w" where
  "validateAccountProxy s proxyID w =
     (case proxyID of
        None \<Rightarrow> (Inr (), w)
      | Some p \<Rightarrow>
          if TrimSpace p = '''' then (Inr (), w)
          else if \<not> has_proxies s then (Inl (ErrText ''proxy management is not configured''), w)
          else try_do (rp_GetProxy (mg_proxies s) (TrimSpace p) w) (\<lambda>_ w. (Inr (), w)))"

text \<open>\<open>cleanStrings\<close>: trimmed, without empty texts and repetitions.\<close>

fun clean_from :: "string list \<Rightarrow> string list \<Rightarrow> string list" where
  "clean_from seen [] = []"
| "clean_from seen (v # vs) =
     (let v = TrimSpace v
      in if v = '''' \<or> List.member seen v then clean_from seen vs else v # clean_from (v # seen) vs)"

definition cleanStrings :: "string list \<Rightarrow> string list" where "cleanStrings vs = clean_from [] vs"

definition secret_markers :: "string list" where
  "secret_markers =
     [''http://'', ''https://'', ''authorization'', ''bearer '', ''access_token'', ''access token'', ''access-token'',
      ''refresh_token'', ''refresh token'', ''refresh-token'', ''id_token'', ''id token'', ''id-token'', ''sso='']"

definition sanitizeAccountError :: "string \<Rightarrow> string" where
  "sanitizeAccountError v =
     (let v = TrimSpace v
      in if v = '''' then ''''
         else if list_ex (Contains (ToLower v)) secret_markers then ''redacted upstream error''
         else if 256 < length (runes v) then concat (take 256 (runes v)) else v)"

definition firstCredential :: "string list \<Rightarrow> string" where
  "firstCredential vs = (case find (\<lambda>v. TrimSpace v \<noteq> '''') vs of None \<Rightarrow> '''' | Some v \<Rightarrow> v)"

definition kind_text :: "CredentialKind \<Rightarrow> string" where
  "kind_text k = (case k of CredentialCLIOAuth \<Rightarrow> ''cli_oauth'' | CredentialConsoleSSO \<Rightarrow> ''console_sso'' | CredentialGrokSSO \<Rightarrow> ''grok_sso'')"

definition AccountCredentialFingerprint :: "'w ManagementService \<Rightarrow> CredentialKind \<Rightarrow> Credentials \<Rightarrow> string" where
  "AccountCredentialFingerprint s kind c =
     (if \<not> has_tokens s then ''''
      else (let secret = (if kind = CredentialCLIOAuth then firstCredential [RefreshToken c, AccessToken c] else firstCredential [SSO c, SSORW c]);
                secret = TrimSpace (TrimPrefix secret ''sso='')
            in if secret = '''' then ''''
               else tok_digest (mg_lib s) (mg_pepper s) (''account-credential:v1:'' @ kind_text kind @ '':'' @ secret)))"

section \<open>Accounts\<close>

definition sanitizedAccount :: "Account \<Rightarrow> Account" where
  "sanitizedAccount a = a\<lparr>CredentialCipher := '''', CredentialFingerprint := ''''\<rparr>"

record CreateAccountInput =
  ca_Name :: string
  ca_Kind :: CredentialKind
  ca_Tier :: string
  ca_Status :: "AccountStatus option"
  ca_Email :: string
  ca_Credentials :: Credentials
  ca_ProxyID :: string
  ca_Models :: "string list"
  ca_Tags :: "string list"
  ca_Priority :: int
  ca_ConcurrencyLimit :: int
  ca_Quota :: QuotaSnapshot
  ca_CooldownUntil :: "time option"
  ca_LastError :: string

definition new_account :: "'w ManagementService \<Rightarrow> CreateAccountInput \<Rightarrow> Credentials \<Rightarrow> string \<Rightarrow> string \<Rightarrow> Account" where
  "new_account s i c uid sealed =
     \<lparr>ID = uid, Name = TrimSpace (ca_Name i), Kind = ca_Kind i, Tier = TrimSpace (ca_Tier i),
      Status = (case ca_Status i of None \<Rightarrow> AccountActive | Some st \<Rightarrow> st), Email = normalizeEmail (ca_Email i), CredentialExpiresAt = None,
      CredentialCipher = sealed, CredentialFingerprint = AccountCredentialFingerprint s (ca_Kind i) c, ProxyID = TrimSpace (ca_ProxyID i),
      Models = cleanStrings (ca_Models i), Tags = cleanStrings (ca_Tags i), Priority = ca_Priority i,
      ConcurrencyLimit = (if ca_ConcurrencyLimit i = 0 then 1 else ca_ConcurrencyLimit i), HealthScore = 1, FailureCount = 0,
      Quota = ca_Quota i, CooldownUntil = ca_CooldownUntil i, LastUsedAt = None, LastError = sanitizeAccountError (ca_LastError i),
      CreatedAt = 0, UpdatedAt = 0\<rparr>"

definition mg_CreateAccount :: "'w ManagementService \<Rightarrow> CreateAccountInput \<Rightarrow> 'w \<Rightarrow> (error + Account) \<times> 'w" where
  "mg_CreateAccount s i w =
     (if \<not> has_accounts s \<or> mg_cipher s = None then (Inl (ErrText ''account management is not configured''), w)
      else try_do (yield (normalizeAccountCredentials s (ca_Kind i) (ca_Credentials i)) w) (\<lambda>c w.
           case validateAccountInput (ca_Name i) c (ca_ConcurrencyLimit i) of
             Some e \<Rightarrow> (Inl e, w)
           | None \<Rightarrow>
               try_do (validateAccountProxy s (Some (TrimSpace (ca_ProxyID i))) w) (\<lambda>_ w.
               try_do (GenerateID (mg_random s) w) (\<lambda>uid w.
               try_do (sealCredentials s uid c w) (\<lambda>sealed w.
               try_do (rp_CreateAccount (mg_accounts s) (new_account s i c uid sealed) w) (\<lambda>a w. (Inr (sanitizedAccount a), w)))))))"

definition mg_GetAccount :: "'w ManagementService \<Rightarrow> string \<Rightarrow> 'w \<Rightarrow> (error + Account) \<times> 'w" where
  "mg_GetAccount s uid w = try_do (rp_GetAccount (mg_accounts s) uid w) (\<lambda>a w. (Inr (sanitizedAccount a), w))"

definition GetAccountCredentials :: "'w ManagementService \<Rightarrow> string \<Rightarrow> 'w \<Rightarrow> (error + Credentials) \<times> 'w" where
  "GetAccountCredentials s uid w =
     try_do (rp_GetAccount (mg_accounts s) uid w) (\<lambda>a w. yield (openCredentials s (ID a) (CredentialCipher a)) w)"

fun list_expiry :: "'w ManagementService \<Rightarrow> bool \<Rightarrow> Account list \<Rightarrow> error + Account list" where
  "list_expiry s expiry [] = Inr []"
| "list_expiry s expiry (a # as) =
     (case (if expiry \<and> Kind a = CredentialCLIOAuth
            then (case openCredentials s (ID a) (CredentialCipher a) of
                    Inl e \<Rightarrow> Inl e
                  | Inr c \<Rightarrow> Inr (if cred_ExpiresAt c = 0 then a else a\<lparr>CredentialExpiresAt := Some (cred_ExpiresAt c)\<rparr>))
            else Inr a) of
        Inl e \<Rightarrow> Inl e
      | Inr a \<Rightarrow> (case list_expiry s expiry as of Inl e \<Rightarrow> Inl e | Inr rest \<Rightarrow> Inr (a\<lparr>CredentialCipher := ''''\<rparr> # rest)))"

definition mg_listAccounts :: "'w ManagementService \<Rightarrow> AccountFilter \<Rightarrow> bool \<Rightarrow> 'w \<Rightarrow> (error + Account list) \<times> 'w" where
  "mg_listAccounts s f expiry w = try_do (rp_ListAccounts (mg_accounts s) f w) (\<lambda>as w. yield (list_expiry s expiry as) w)"

definition mg_ListAccounts :: "'w ManagementService \<Rightarrow> AccountFilter \<Rightarrow> 'w \<Rightarrow> (error + Account list) \<times> 'w" where
  "mg_ListAccounts s f = mg_listAccounts s f False"

definition ListAccountsWithCredentialExpiry :: "'w ManagementService \<Rightarrow> AccountFilter \<Rightarrow> 'w \<Rightarrow> (error + Account list) \<times> 'w" where
  "ListAccountsWithCredentialExpiry s f = mg_listAccounts s f True"

definition mg_CountAccounts :: "'w ManagementService \<Rightarrow> AccountFilter \<Rightarrow> 'w \<Rightarrow> (error + int) \<times> 'w" where
  "mg_CountAccounts s f = rp_CountAccounts (mg_accounts s) f"

record UpdateAccountInput =
  ua_Name :: "string option"
  ua_Kind :: "CredentialKind option"
  ua_Tier :: "string option"
  ua_Status :: "AccountStatus option"
  ua_Email :: "string option"
  ua_Credentials :: "Credentials option"
  ua_ProxyID :: "string option"
  ua_Models :: "string list option"
  ua_Tags :: "string list option"
  ua_Priority :: "int option"
  ua_ConcurrencyLimit :: "int option"
  ua_Quota :: "QuotaSnapshot option"
  ua_CooldownUntil :: "time option option"
  ua_LastError :: "string option"

definition apply_status :: "AccountStatus option \<Rightarrow> Account \<Rightarrow> Account" where
  "apply_status st a =
     (case st of
        None \<Rightarrow> a
      | Some AccountActive \<Rightarrow> a\<lparr>Status := AccountActive, CooldownUntil := None, LastError := '''', HealthScore := 1, FailureCount := 0\<rparr>
      | Some AccountDisabled \<Rightarrow> a\<lparr>Status := AccountDisabled, CooldownUntil := None\<rparr>
      | Some st \<Rightarrow> a\<lparr>Status := st\<rparr>)"

text \<open>\<open>*p\<close> when the pointer is set, the old value otherwise.\<close>

definition given :: "('a \<Rightarrow> 'b) \<Rightarrow> 'a option \<Rightarrow> 'b \<Rightarrow> 'b" where
  "given f p old = (case p of None \<Rightarrow> old | Some v \<Rightarrow> f v)"

definition apply_names :: "UpdateAccountInput \<Rightarrow> Account \<Rightarrow> Account" where
  "apply_names i a =
     a\<lparr>Name := given TrimSpace (ua_Name i) (Name a), Kind := given id (ua_Kind i) (Kind a), Tier := given TrimSpace (ua_Tier i) (Tier a)\<rparr>"

definition apply_labels :: "UpdateAccountInput \<Rightarrow> Account \<Rightarrow> Account" where
  "apply_labels i a =
     a\<lparr>Account.Email := given normalizeEmail (ua_Email i) (Account.Email a), ProxyID := given TrimSpace (ua_ProxyID i) (ProxyID a),
       Models := given cleanStrings (ua_Models i) (Models a), Tags := given cleanStrings (ua_Tags i) (Tags a),
       Priority := given id (ua_Priority i) (Priority a)\<rparr>"

definition apply_limits :: "UpdateAccountInput \<Rightarrow> Account \<Rightarrow> Account" where
  "apply_limits i a =
     a\<lparr>ConcurrencyLimit := given id (ua_ConcurrencyLimit i) (ConcurrencyLimit a), Quota := given id (ua_Quota i) (Quota a),
       CooldownUntil := given id (ua_CooldownUntil i) (CooldownUntil a), LastError := given sanitizeAccountError (ua_LastError i) (LastError a)\<rparr>"

definition apply_fields :: "UpdateAccountInput \<Rightarrow> Account \<Rightarrow> error + Account" where
  "apply_fields i a =
     (if (case ua_ConcurrencyLimit i of None \<Rightarrow> False | Some n \<Rightarrow> n \<le> 0) then Inl (ErrText ''concurrency limit must be positive'')
      else Inr (apply_limits i (apply_labels i (apply_status (ua_Status i) (apply_names i a)))))"

definition prepareAccountUpdate :: "'w ManagementService \<Rightarrow> Account \<Rightarrow> UpdateAccountInput \<Rightarrow> 'w \<Rightarrow> (error + Account) \<times> 'w" where
  "prepareAccountUpdate s a i w =
     try_do (yield (apply_fields i a) w) (\<lambda>a w.
     try_do (yield (openCredentials s (ID a) (CredentialCipher a)) w) (\<lambda>old w.
     try_do (yield (normalizeAccountCredentials s (Kind a) (given id (ua_Credentials i) old)) w) (\<lambda>c w.
     try_do (if ua_Credentials i \<noteq> None \<or> CredentialFingerprint a = '''' then sealCredentials s (ID a) c w else (Inr (CredentialCipher a), w)) (\<lambda>sealed w.
       let a = a\<lparr>CredentialCipher := sealed, CredentialFingerprint := AccountCredentialFingerprint s (Kind a) c\<rparr>
       in case validateAccountInput (Name a) c (ConcurrencyLimit a) of Some e \<Rightarrow> (Inl e, w) | None \<Rightarrow> (Inr a, w)))))"

definition mg_UpdateAccount :: "'w ManagementService \<Rightarrow> string \<Rightarrow> UpdateAccountInput \<Rightarrow> 'w \<Rightarrow> (error + Account) \<times> 'w" where
  "mg_UpdateAccount s uid i w =
     try_do (rp_GetAccount (mg_accounts s) uid w) (\<lambda>a w.
     try_do (validateAccountProxy s (ua_ProxyID i) w) (\<lambda>_ w.
     try_do (prepareAccountUpdate s a i w) (\<lambda>a w.
     try_do (rp_UpdateAccount (mg_accounts s) a w) (\<lambda>a w. (Inr (sanitizedAccount a), w)))))"

record BatchUpdateAccountsInput =
  bu_IDs :: "string list"
  bu_Tier :: "string option"
  bu_Status :: "AccountStatus option"
  bu_ProxyID :: "string option"
  bu_Models :: "string list option"
  bu_Tags :: "string list option"
  bu_Priority :: "int option"
  bu_ConcurrencyLimit :: "int option"

definition batch_patch :: "BatchUpdateAccountsInput \<Rightarrow> UpdateAccountInput" where
  "batch_patch i =
     \<lparr>ua_Name = None, ua_Kind = None, ua_Tier = bu_Tier i, ua_Status = bu_Status i, ua_Email = None, ua_Credentials = None,
      ua_ProxyID = bu_ProxyID i, ua_Models = bu_Models i, ua_Tags = bu_Tags i, ua_Priority = bu_Priority i,
      ua_ConcurrencyLimit = bu_ConcurrencyLimit i, ua_Quota = None, ua_CooldownUntil = None, ua_LastError = None\<rparr>"

text \<open>\<open>for _, x := range xs { y, err := f(x); if err != nil { return err }; ys = append(ys, y) }\<close>.\<close>

fun each_do :: "('a \<Rightarrow> 'w \<Rightarrow> (error + 'b) \<times> 'w) \<Rightarrow> 'a list \<Rightarrow> 'w \<Rightarrow> (error + 'b list) \<times> 'w" where
  "each_do f [] w = (Inr [], w)"
| "each_do f (x # xs) w = try_do (f x w) (\<lambda>y w. try_do (each_do f xs w) (\<lambda>ys w. (Inr (y # ys), w)))"

definition BatchUpdateAccounts :: "'w ManagementService \<Rightarrow> BatchUpdateAccountsInput \<Rightarrow> 'w \<Rightarrow> (error + Account list) \<times> 'w" where
  "BatchUpdateAccounts s i w =
     (let ids = cleanStrings (bu_IDs i)
      in if ids = [] \<or> 500 < length ids then (Inl (ErrText ''select between 1 and 500 accounts''), w)
         else if bu_Status i = None \<and> bu_Tier i = None \<and> bu_ProxyID i = None \<and> bu_Models i = None \<and> bu_Tags i = None \<and> bu_Priority i = None
           \<and> bu_ConcurrencyLimit i = None then (Inl (ErrText ''at least one account field is required''), w)
         else if (case bu_ConcurrencyLimit i of None \<Rightarrow> False | Some n \<Rightarrow> n \<le> 0) then (Inl (ErrText ''concurrency limit must be positive''), w)
         else try_do (validateAccountProxy s (bu_ProxyID i) w) (\<lambda>_ w.
              try_do (each_do (rp_GetAccount (mg_accounts s)) ids w) (\<lambda>as w.
              try_do (each_do (\<lambda>a. prepareAccountUpdate s a (batch_patch i)) as w) (\<lambda>as w.
              try_do (rp_UpdateAccounts (mg_accounts s) as w) (\<lambda>as w. (Inr (map sanitizedAccount as), w))))))"

definition mg_DeleteAccount :: "'w ManagementService \<Rightarrow> string \<Rightarrow> 'w \<Rightarrow> (error + unit) \<times> 'w" where
  "mg_DeleteAccount s uid = rp_DeleteAccount (mg_accounts s) uid"

definition mg_DeleteAccounts :: "'w ManagementService \<Rightarrow> string list \<Rightarrow> 'w \<Rightarrow> (error + int) \<times> 'w" where
  "mg_DeleteAccounts s ids w =
     (let ids = cleanStrings ids
      in if ids = [] \<or> 500 < length ids then (Inl (ErrText ''select between 1 and 500 accounts''), w)
         else try_do (rp_DeleteAccounts (mg_accounts s) ids w) (\<lambda>_ w. (Inr (int (length ids)), w)))"

section \<open>The other operations\<close>

text \<open>
  The administrator's operations on models, proxies and client keys, and the authentication of a client key
  (\<open>internal/admin/management.go\<close>, continued).
\<close>

section \<open>Models\<close>

definition validateModel :: "ModelSpec option \<Rightarrow> error option" where
  "validateModel m =
     (case m of
        None \<Rightarrow> Some (ErrText ''model ID, upstream model, and display name are required'')
      | Some m \<Rightarrow>
          if TrimSpace (model_ID m) = '''' \<or> TrimSpace (UpstreamModel m) = '''' \<or> TrimSpace (DisplayName m) = ''''
          then Some (ErrText ''model ID, upstream model, and display name are required'') else None)"

definition mg_CreateModel :: "'w ManagementService \<Rightarrow> ModelSpec option \<Rightarrow> 'w \<Rightarrow> (error + ModelSpec) \<times> 'w" where
  "mg_CreateModel s m w = (case validateModel m of Some e \<Rightarrow> (Inl e, w) | None \<Rightarrow> rp_CreateModel (mg_models s) m w)"

definition mg_GetModel :: "'w ManagementService \<Rightarrow> string \<Rightarrow> 'w \<Rightarrow> (error + ModelSpec) \<times> 'w" where
  "mg_GetModel s uid = rp_GetModel (mg_models s) uid"

definition mg_ListModels :: "'w ManagementService \<Rightarrow> ModelFilter \<Rightarrow> 'w \<Rightarrow> (error + ModelSpec list) \<times> 'w" where
  "mg_ListModels s f = rp_ListModels (mg_models s) f"

definition mg_CountModels :: "'w ManagementService \<Rightarrow> ModelFilter \<Rightarrow> 'w \<Rightarrow> (error + int) \<times> 'w" where
  "mg_CountModels s f = rp_CountModels (mg_models s) f"

definition mg_UpdateModel :: "'w ManagementService \<Rightarrow> ModelSpec option \<Rightarrow> 'w \<Rightarrow> (error + ModelSpec) \<times> 'w" where
  "mg_UpdateModel s m w = (case validateModel m of Some e \<Rightarrow> (Inl e, w) | None \<Rightarrow> rp_UpdateModel (mg_models s) m w)"

definition mg_DeleteModel :: "'w ManagementService \<Rightarrow> string \<Rightarrow> 'w \<Rightarrow> (error + unit) \<times> 'w" where
  "mg_DeleteModel s uid = rp_DeleteModel (mg_models s) uid"

section \<open>Proxies\<close>

definition validateProxyURL :: "'w ManagementService \<Rightarrow> string \<Rightarrow> error + string" where
  "validateProxyURL s raw =
     (case mg_ParseURL s (TrimSpace raw) of
        None \<Rightarrow> Inl (ErrText ''invalid proxy URL'')
      | Some u \<Rightarrow>
          if pu_Host u = '''' \<or> pu_Username u = Some '''' then Inl (ErrText ''invalid proxy URL'')
          else if ToLower (pu_Scheme u) \<notin> {''http'', ''https'', ''socks5'', ''socks5h''}
          then Inl (ErrText ''proxy URL must use http, https, socks5, or socks5h'')
          else Inr (mg_URLText s u))"

definition sanitizedProxy :: "Proxy \<Rightarrow> Proxy" where "sanitizedProxy p = p\<lparr>URLCipher := ''''\<rparr>"

definition mg_CreateProxy :: "'w ManagementService \<Rightarrow> string \<Rightarrow> string \<Rightarrow> bool \<Rightarrow> 'w \<Rightarrow> (error + Proxy) \<times> 'w" where
  "mg_CreateProxy s name raw enabled w =
     (if TrimSpace name = '''' then (Inl (ErrText ''proxy name is required''), w)
      else try_do (yield (validateProxyURL s raw) w) (\<lambda>url w.
           try_do (GenerateID (mg_random s) w) (\<lambda>uid w.
           try_do (Seal (mg_random s) (mg_cipher s) url (''proxy-url:'' @ uid) w) (\<lambda>sealed w.
           try_do (rp_CreateProxy (mg_proxies s)
                     \<lparr>prx_ID = uid, prx_Name = TrimSpace name, URLCipher = sealed, prx_Enabled = enabled, Healthy = False, LastCheckedAt = None,
                      prx_LastError = '''', prx_CreatedAt = 0, prx_UpdatedAt = 0\<rparr> w) (\<lambda>p w. (Inr (sanitizedProxy p), w))))))"

definition mg_GetProxy :: "'w ManagementService \<Rightarrow> string \<Rightarrow> 'w \<Rightarrow> (error + Proxy) \<times> 'w" where
  "mg_GetProxy s uid w = try_do (rp_GetProxy (mg_proxies s) uid w) (\<lambda>p w. (Inr (sanitizedProxy p), w))"

definition GetProxyURL :: "'w ManagementService \<Rightarrow> string \<Rightarrow> 'w \<Rightarrow> (error + string) \<times> 'w" where
  "GetProxyURL s uid w =
     try_do (rp_GetProxy (mg_proxies s) uid w) (\<lambda>p w. yield (Open (mg_cipher s) (URLCipher p) (''proxy-url:'' @ prx_ID p)) w)"

definition mg_ListProxies :: "'w ManagementService \<Rightarrow> Pagination \<Rightarrow> 'w \<Rightarrow> (error + Proxy list) \<times> 'w" where
  "mg_ListProxies s p w = try_do (rp_ListProxies (mg_proxies s) p w) (\<lambda>ps w. (Inr (map sanitizedProxy ps), w))"

definition mg_CountProxies :: "'w ManagementService \<Rightarrow> 'w \<Rightarrow> (error + int) \<times> 'w" where
  "mg_CountProxies s = rp_CountProxies (mg_proxies s)"

record UpdateProxyInput =
  up_Name :: "string option"
  up_URL :: "string option"
  up_Enabled :: "bool option"
  up_Healthy :: "bool option"
  up_LastCheckedAt :: "time option option"
  up_LastError :: "string option"

definition mg_UpdateProxy :: "'w ManagementService \<Rightarrow> string \<Rightarrow> UpdateProxyInput \<Rightarrow> 'w \<Rightarrow> (error + Proxy) \<times> 'w" where
  "mg_UpdateProxy s uid i w =
     try_do (rp_GetProxy (mg_proxies s) uid w) (\<lambda>p w.
     try_do (case up_URL i of
               None \<Rightarrow> (Inr (URLCipher p), w)
             | Some raw \<Rightarrow> try_do (yield (validateProxyURL s raw) w) (\<lambda>url. Seal (mg_random s) (mg_cipher s) url (''proxy-url:'' @ prx_ID p))) (\<lambda>sealed w.
       let p = p\<lparr>prx_Name := given TrimSpace (up_Name i) (prx_Name p), URLCipher := sealed, prx_Enabled := given id (up_Enabled i) (prx_Enabled p),
                 Healthy := given id (up_Healthy i) (Healthy p), LastCheckedAt := given id (up_LastCheckedAt i) (LastCheckedAt p),
                 prx_LastError := given TrimSpace (up_LastError i) (prx_LastError p)\<rparr>
       in if prx_Name p = '''' then (Inl (ErrText ''proxy name is required''), w)
          else try_do (rp_UpdateProxy (mg_proxies s) p w) (\<lambda>p w. (Inr (sanitizedProxy p), w))))"

definition mg_DeleteProxy :: "'w ManagementService \<Rightarrow> string \<Rightarrow> 'w \<Rightarrow> (error + unit) \<times> 'w" where
  "mg_DeleteProxy s uid = rp_DeleteProxy (mg_proxies s) uid"

section \<open>Client keys\<close>

record CreateClientKeyInput =
  ck_Name :: string
  ck_RPM :: int
  ck_ConcurrencyLimit :: int
  ck_DailyRequestLimit :: int
  ck_MonthlyTokenLimit :: int
  ck_ExpiresAt :: "time option"

record IssuedClientKey =
  ik_Key :: ClientKey
  ik_Plaintext :: string

definition ErrClientKeySecretUnavailable :: error where
  "ErrClientKeySecretUnavailable = ErrText ''client key secret is unavailable''"

definition clientKeyAAD :: "string \<Rightarrow> string" where "clientKeyAAD d = ''grok-go:client-key:'' @ d"

definition new_client_key :: "CreateClientKeyInput \<Rightarrow> TokenMaterial \<Rightarrow> string \<Rightarrow> ClientKey" where
  "new_client_key i m sealed =
     \<lparr>key_ID = '''', key_Name = TrimSpace (ck_Name i), Prefix = tok_Prefix m, Digest = tok_Digest m, SecretCipher = sealed, SecretAvailable = True,
      key_Enabled = True, RPM = ck_RPM i, key_ConcurrencyLimit = ck_ConcurrencyLimit i, DailyRequestLimit = ck_DailyRequestLimit i,
      MonthlyTokenLimit = ck_MonthlyTokenLimit i, key_LastUsedAt = None, key_ExpiresAt = ck_ExpiresAt i, key_CreatedAt = 0, key_UpdatedAt = 0\<rparr>"

definition mg_CreateClientKey :: "'w ManagementService \<Rightarrow> CreateClientKeyInput \<Rightarrow> 'w \<Rightarrow> (error + IssuedClientKey) \<times> 'w" where
  "mg_CreateClientKey s i w =
     (if \<not> has_keys s \<or> \<not> has_tokens s \<or> mg_cipher s = None then (Inl (ErrText ''client key management is not configured''), w)
      else if TrimSpace (ck_Name i) = '''' then (Inl (ErrText ''client key name is required''), w)
      else if ck_RPM i < 0 \<or> ck_ConcurrencyLimit i < 0 \<or> ck_DailyRequestLimit i < 0 \<or> ck_MonthlyTokenLimit i < 0
      then (Inl (ErrText ''client key limits must not be negative''), w)
      else try_do (GenerateClientAPIKey (mg_lib s) (mg_random s) (Some (mg_pepper s)) w) (\<lambda>m w.
           try_do (on_err (Wrapped ''encrypt client key'') (Seal (mg_random s) (mg_cipher s) (Plaintext m) (clientKeyAAD (tok_Digest m)) w)) (\<lambda>sealed w.
           try_do (rp_CreateClientKey (mg_keys s) (new_client_key i m sealed) w) (\<lambda>k w. (Inr \<lparr>ik_Key = k, ik_Plaintext = Plaintext m\<rparr>, w)))))"

definition AuthenticateClientKey :: "'w ManagementService \<Rightarrow> string \<Rightarrow> 'w \<Rightarrow> (error + ClientKey) \<times> 'w" where
  "AuthenticateClientKey s plaintext w =
     (case rp_GetClientKeyByDigest (mg_keys s) (tok_digest (mg_lib s) (mg_pepper s) (TrimSpace plaintext)) w of
        (Inl _, w) \<Rightarrow> (Inl ErrInvalidCredentials, w)
      | (Inr key, w) \<Rightarrow>
          if \<not> key_Enabled key then (Inl ErrInvalidCredentials, w)
          else (let (expired, w) = (case key_ExpiresAt key of None \<Rightarrow> (False, w) | Some t \<Rightarrow> (let (now, w) = mg_now s w in (t \<le> now, w)))
                in if expired then (Inl ErrInvalidCredentials, w)
                   else (let (now, w) = mg_now s w;
                             (_, w) = rp_TouchClientKey (mg_keys s) (key_ID key) now w
                         in (Inr (key\<lparr>Digest := '''', SecretCipher := ''''\<rparr>), w))))"

definition RevealClientKey :: "'w ManagementService \<Rightarrow> string \<Rightarrow> 'w \<Rightarrow> (error + string) \<times> 'w" where
  "RevealClientKey s uid w =
     (if \<not> has_keys s \<or> \<not> has_tokens s \<or> mg_cipher s = None then (Inl (ErrText ''client key management is not configured''), w)
      else try_do (rp_GetClientKey (mg_keys s) (TrimSpace uid) w) (\<lambda>key w.
           if Digest key = '''' \<or> SecretCipher key = '''' then (Inl ErrClientKeySecretUnavailable, w)
           else (case Open (mg_cipher s) (SecretCipher key) (clientKeyAAD (Digest key)) of
                   Inl _ \<Rightarrow> (Inl ErrClientKeySecretUnavailable, w)
                 | Inr plaintext \<Rightarrow>
                     if tok_verify (mg_lib s) (Some (mg_pepper s)) plaintext (Digest key) then (Inr plaintext, w)
                     else (Inl ErrClientKeySecretUnavailable, w))))"

definition shown_key :: "ClientKey \<Rightarrow> ClientKey" where
  "shown_key k = k\<lparr>SecretAvailable := (SecretCipher k \<noteq> ''''), Digest := '''', SecretCipher := ''''\<rparr>"

definition mg_GetClientKey :: "'w ManagementService \<Rightarrow> string \<Rightarrow> 'w \<Rightarrow> (error + ClientKey) \<times> 'w" where
  "mg_GetClientKey s uid w = try_do (rp_GetClientKey (mg_keys s) uid w) (\<lambda>k w. (Inr (shown_key k), w))"

definition mg_ListClientKeys :: "'w ManagementService \<Rightarrow> Pagination \<Rightarrow> 'w \<Rightarrow> (error + ClientKey list) \<times> 'w" where
  "mg_ListClientKeys s p w = try_do (rp_ListClientKeys (mg_keys s) p w) (\<lambda>ks w. (Inr (map shown_key ks), w))"

definition mg_CountClientKeys :: "'w ManagementService \<Rightarrow> 'w \<Rightarrow> (error + int) \<times> 'w" where
  "mg_CountClientKeys s = rp_CountClientKeys (mg_keys s)"

definition mg_CountActiveClientKeys :: "'w ManagementService \<Rightarrow> time \<Rightarrow> 'w \<Rightarrow> (error + int) \<times> 'w" where
  "mg_CountActiveClientKeys s now = rp_CountActiveClientKeys (mg_keys s) now"

definition mg_UpdateClientKey :: "'w ManagementService \<Rightarrow> ClientKey option \<Rightarrow> 'w \<Rightarrow> (error + ClientKey) \<times> 'w" where
  "mg_UpdateClientKey s key w =
     (case key of None \<Rightarrow> (Inl (ErrText ''client key is required''), w) | Some key \<Rightarrow> rp_UpdateClientKey (mg_keys s) (key\<lparr>Digest := ''''\<rparr>) w)"

definition mg_DeleteClientKey :: "'w ManagementService \<Rightarrow> string \<Rightarrow> 'w \<Rightarrow> (error + unit) \<times> 'w" where
  "mg_DeleteClientKey s uid = rp_DeleteClientKey (mg_keys s) uid"

end
