(* ===== verification/Table_Laws.thy ===== *)
theory Table_Laws
  imports Key_Table
begin

text \<open>
  What the constraints of the tables give: a consistent database stays consistent under every statement of \<open>Account_Table\<close> and \<open>Key_Table\<close>,
  and a method that fails leaves no trace. The operations are collected in one data type, so that the laws speak of any history.
\<close>

section \<open>Consistent tables\<close>

definition account_ok :: "Proxy list \<Rightarrow> Account \<Rightarrow> bool" where
  "account_ok proxies a \<longleftrightarrow> 0 < ConcurrencyLimit a \<and> 0 \<le> FailureCount a \<and> 0 \<le> HealthScore a \<and> HealthScore a \<le> 1
     \<and> (ProxyID a = '''' \<or> list_ex (\<lambda>p. prx_ID p = ProxyID a) proxies)"

definition same_credential :: "Account \<Rightarrow> Account \<Rightarrow> bool" where
  "same_credential a b \<longleftrightarrow> CredentialFingerprint a \<noteq> '''' \<and> Kind b = Kind a \<and> CredentialFingerprint b = CredentialFingerprint a"

definition accounts_ok :: "Proxy list \<Rightarrow> Account list \<Rightarrow> bool" where
  "accounts_ok proxies accs \<longleftrightarrow> distinct (map ID accs) \<and> list_all (account_ok proxies) accs
     \<and> list_all (\<lambda>a. list_all (\<lambda>b. same_credential a b \<longrightarrow> ID a = ID b) accs) accs"

definition keys_ok :: "ClientKey list \<Rightarrow> bool" where
  "keys_ok ks \<longleftrightarrow> distinct (map key_ID ks) \<and> distinct (map Digest ks) \<and> list_all key_limits_ok ks"

definition tables_ok :: "'z AccountTables_scheme \<Rightarrow> bool" where
  "tables_ok w \<longleftrightarrow> accounts_ok (tb_proxies w) (tb_accounts w) \<and> distinct (map prx_ID (tb_proxies w)) \<and> keys_ok (tb_keys w)
     \<and> distinct (map model_ID (tb_models w))"

definition tables_of :: "'z AccountTables_scheme \<Rightarrow> Account list \<times> Proxy list \<times> ModelSpec list \<times> ClientKey list" where
  "tables_of w = (tb_accounts w, tb_proxies w, tb_models w, tb_keys w)"

lemma tables_ok_of: "tables_of w = tables_of w' \<Longrightarrow> tables_ok w = tables_ok w'"
  by (simp add: tables_of_def tables_ok_def)

text \<open>A connection nobody interferes with, and one over which the others keep the tables consistent.\<close>

definition db_quiet :: "'z AccountDB \<Rightarrow> bool" where
  "db_quiet db \<longleftrightarrow> (\<forall>call w. tables_of (snd (ad_fault db call w)) = tables_of w \<and> tb_clock w \<le> tb_clock (snd (ad_fault db call w)))
     \<and> (\<forall>n w. tables_of (snd (ad_random db n w)) = tables_of w \<and> tb_clock w \<le> tb_clock (snd (ad_random db n w)))"

definition db_sound :: "'z AccountDB \<Rightarrow> bool" where
  "db_sound db \<longleftrightarrow> (\<forall>call w. tables_ok w \<longrightarrow> tables_ok (snd (ad_fault db call w))) \<and> (\<forall>n w. tables_ok w \<longrightarrow> tables_ok (snd (ad_random db n w)))"

lemma quiet_sound: "db_quiet db \<Longrightarrow> db_sound db"
  unfolding db_quiet_def db_sound_def by (metis tables_ok_of)

section \<open>The operations\<close>

datatype table_op =
    CreateAccountOp "Account option" | UpdateAccountOp "Account option" | RuntimeOp "Account option" | UpdateAccountsOp "Account option list"
  | DeleteAccountOp string | DeleteAccountsOp "string list"
  | CreateProxyOp "Proxy option" | UpdateProxyOp "Proxy option" | DeleteProxyOp string
  | CreateClientKeyOp "ClientKey option" | UpdateClientKeyOp "ClientKey option" | TouchClientKeyOp string time | DeleteClientKeyOp string
  | CreateModelOp "ModelSpec option" | UpdateModelOp "ModelSpec option" | DeleteModelOp string

text \<open>Whether a call succeeded, and the tables after it.\<close>

definition outcome :: "(error + 'a) \<times> 'w \<Rightarrow> bool \<times> 'w" where
  "outcome r = (\<not> isl (fst r), snd r)"

fun table_step :: "'z AccountDB \<Rightarrow> table_op \<Rightarrow> 'z AccountTables_scheme \<Rightarrow> bool \<times> 'z AccountTables_scheme" where
  "table_step db (CreateAccountOp a) w = outcome (CreateAccount db a w)"
| "table_step db (UpdateAccountOp a) w = outcome (store_UpdateAccount db a w)"
| "table_step db (RuntimeOp a) w = outcome (UpdateAccountRuntime db a w)"
| "table_step db (UpdateAccountsOp as) w = outcome (UpdateAccounts db as w)"
| "table_step db (DeleteAccountOp uid) w = outcome (store_DeleteAccount db uid w)"
| "table_step db (DeleteAccountsOp ids) w = outcome (store_DeleteAccounts db ids w)"
| "table_step db (CreateProxyOp p) w = outcome (CreateProxy db p w)"
| "table_step db (UpdateProxyOp p) w = outcome (UpdateProxy db p w)"
| "table_step db (DeleteProxyOp uid) w = outcome (DeleteProxy db uid w)"
| "table_step db (CreateClientKeyOp k) w = outcome (CreateClientKey db k w)"
| "table_step db (UpdateClientKeyOp k) w = outcome (UpdateClientKey db k w)"
| "table_step db (TouchClientKeyOp uid t) w = outcome (TouchClientKey db uid t w)"
| "table_step db (DeleteClientKeyOp uid) w = outcome (DeleteClientKey db uid w)"
| "table_step db (CreateModelOp m) w = outcome (CreateModel db m w)"
| "table_step db (UpdateModelOp m) w = outcome (UpdateModel db m w)"
| "table_step db (DeleteModelOp uid) w = outcome (DeleteModel db uid w)"

definition table_run :: "'z AccountDB \<Rightarrow> table_op list \<Rightarrow> 'z AccountTables_scheme \<Rightarrow> 'z AccountTables_scheme" where
  "table_run db ops w = fold (\<lambda>op w. snd (table_step db op w)) ops w"

section \<open>One statement\<close>

text \<open>
  \<open>keeps I f\<close>: from tables with \<open>I\<close>, the call \<open>f\<close> gives tables with \<open>I\<close>, whether it succeeds or not.
\<close>

definition keeps :: "('w \<Rightarrow> bool) \<Rightarrow> ('w \<Rightarrow> ('e + 'a) \<times> 'w) \<Rightarrow> bool" where
  "keeps I f \<longleftrightarrow> (\<forall>w. I w \<longrightarrow> I (snd (f w)))"

lemma keepsI: "(\<And>w. I w \<Longrightarrow> I (snd (f w))) \<Longrightarrow> keeps I f"
  by (simp add: keeps_def)

lemma keepsD: "keeps I f \<Longrightarrow> I w \<Longrightarrow> I (snd (f w))"
  by (simp add: keeps_def)

lemma keeps_try:
  assumes "keeps I f" "\<And>x. keeps I (g x)"
  shows "keeps I (\<lambda>w. try_do (f w) g)"
proof (rule keepsI)
  fix w
  assume "I w"
  with assms(1) have "I (snd (f w))" by (rule keepsD)
  with assms(2) show "I (snd (try_do (f w) g))"
    by (cases "f w"; cases "fst (f w)") (auto simp: keeps_def)
qed

lemma keeps_return: "keeps I (\<lambda>w. (r, w))"
  by (simp add: keeps_def)

lemma keeps_trip:
  assumes "\<And>call w. I w \<Longrightarrow> I (snd (ad_fault db call w))" "keeps I f"
  shows "keeps I (ad_trip db call f)"
  using assms unfolding keeps_def ad_trip_def by (auto simp: case_prod_beta' split: option.splits)

section \<open>Rows\<close>

lemma accounts_okI:
  assumes "distinct (map ID accs)" "\<And>a. a \<in> set accs \<Longrightarrow> account_ok ps a"
    and "\<And>a b. \<lbrakk>a \<in> set accs; b \<in> set accs; same_credential a b\<rbrakk> \<Longrightarrow> ID a = ID b"
  shows "accounts_ok ps accs"
  using assms by (auto simp: accounts_ok_def list_all_iff)

lemma accounts_okD:
  assumes "accounts_ok ps accs"
  shows "distinct (map ID accs)" "a \<in> set accs \<Longrightarrow> account_ok ps a"
    and "\<lbrakk>a \<in> set accs; b \<in> set accs; same_credential a b\<rbrakk> \<Longrightarrow> ID a = ID b"
  using assms by (auto simp: accounts_ok_def list_all_iff)

lemma distinct_keyed:
  assumes "\<And>x. x \<in> set xs \<Longrightarrow> g (f x) = g x"
  shows "distinct (map g (map f xs)) = distinct (map g xs)"
proof -
  have "map g (map f xs) = map g xs" using assms by simp
  then show ?thesis by (rule arg_cong)
qed

lemma same_credential_sym: "same_credential a b \<Longrightarrow> same_credential b a"
  by (simp add: same_credential_def)

lemma conflict_None:
  assumes "account_conflict w others row = None"
  shows "account_ok (tb_proxies w) row" "b \<in> set others \<Longrightarrow> ID b \<noteq> ID row" "b \<in> set others \<Longrightarrow> \<not> same_credential row b"
  using assms by (auto simp: account_conflict_def account_ok_def same_credential_def list_ex_iff split: if_splits)

lemma accounts_ok_insert:
  assumes "account_conflict w accs row = None" "accounts_ok (tb_proxies w) accs"
  shows "accounts_ok (tb_proxies w) (accs @ [row])"
proof (rule accounts_okI)
  note c = conflict_None [OF assms(1)] and o = accounts_okD [OF assms(2)]
  show "distinct (map ID (accs @ [row]))" using c(2) o(1) by force
  show "account_ok (tb_proxies w) a" if "a \<in> set (accs @ [row])" for a using that c(1) o(2) by auto
  show "ID a = ID b" if "a \<in> set (accs @ [row])" "b \<in> set (accs @ [row])" "same_credential a b" for a b
    using that c(3) o(3) by (auto dest: same_credential_sym)
qed

lemma accounts_ok_put:
  assumes "account_conflict w (filter (\<lambda>a. ID a \<noteq> ID row) accs) row = None" "accounts_ok (tb_proxies w) accs"
  shows "accounts_ok (tb_proxies w) (map (\<lambda>a. if ID a = ID row then row else a) accs)"
proof (rule accounts_okI)
  note c = conflict_None [OF assms(1)] and o = accounts_okD [OF assms(2)]
  show "distinct (map ID (map (\<lambda>a. if ID a = ID row then row else a) accs))" using o(1) by (subst distinct_keyed) auto
  show "account_ok (tb_proxies w) a" if "a \<in> set (map (\<lambda>a. if ID a = ID row then row else a) accs)" for a
    using that c(1) o(2) by auto
  show "ID a = ID b" if "a \<in> set (map (\<lambda>a. if ID a = ID row then row else a) accs)"
    "b \<in> set (map (\<lambda>a. if ID a = ID row then row else a) accs)" "same_credential a b" for a b
    using that c(3) o(3) by (auto dest: same_credential_sym split: if_splits)
qed

lemma accounts_ok_filter: "accounts_ok ps accs \<Longrightarrow> accounts_ok ps (filter P accs)"
  by (auto simp: accounts_ok_def list_all_iff distinct_map_filter)

lemma accounts_ok_proxies:
  assumes "accounts_ok ps accs" "prx_ID ` set ps \<subseteq> prx_ID ` set qs"
  shows "accounts_ok qs accs"
proof -
  have "account_ok ps a \<Longrightarrow> account_ok qs a" for a using assms(2) by (fastforce simp: account_ok_def list_ex_iff)
  with assms(1) show ?thesis by (auto simp: accounts_ok_def list_all_iff)
qed

text \<open>Deleting a proxy clears the reference in its accounts.\<close>

lemma accounts_ok_unlinked:
  assumes "accounts_ok ps accs"
  shows "accounts_ok (filter (\<lambda>p. prx_ID p \<noteq> uid) ps) (map (\<lambda>a. if ProxyID a = uid then a\<lparr>ProxyID := ''''\<rparr> else a) accs)"
proof (rule accounts_okI)
  note o = accounts_okD [OF assms]
  let ?f = "\<lambda>a. if ProxyID a = uid then a\<lparr>ProxyID := ''''\<rparr> else a"
  show "distinct (map ID (map ?f accs))" using o(1) by (subst distinct_keyed) auto
  show "account_ok (filter (\<lambda>p. prx_ID p \<noteq> uid) ps) a" if "a \<in> set (map ?f accs)" for a
    using that o(2) by (fastforce simp: account_ok_def list_ex_iff)
  have s: "same_credential (?f a) (?f b) = same_credential a b" for a b by (simp add: same_credential_def)
  have "ID (?f a) = ID (?f b)" if "a \<in> set accs" "b \<in> set accs" "same_credential (?f a) (?f b)" for a b
    using o(3) [OF that(1,2)] that(3) s by simp
  then show "ID a = ID b" if "a \<in> set (map ?f accs)" "b \<in> set (map ?f accs)" "same_credential a b" for a b
    using that unfolding set_map by blast
qed

lemma keys_ok_filter: "keys_ok ks \<Longrightarrow> keys_ok (filter P ks)"
  by (auto simp: keys_ok_def list_all_iff distinct_map_filter)

lemma keys_ok_map:
  assumes "keys_ok ks" "\<And>k. key_limits_ok k \<Longrightarrow> key_ID (f k) = key_ID k \<and> Digest (f k) = Digest k \<and> key_limits_ok (f k)"
  shows "keys_ok (map f ks)"
proof -
  have f: "key_ID (f k) = key_ID k \<and> Digest (f k) = Digest k \<and> key_limits_ok (f k)" if "k \<in> set ks" for k
    using assms that by (simp add: keys_ok_def list_all_iff)
  have "distinct (map key_ID (map f ks)) = distinct (map key_ID ks)" by (rule distinct_keyed) (simp add: f)
  moreover have "distinct (map Digest (map f ks)) = distinct (map Digest ks)" by (rule distinct_keyed) (simp add: f)
  ultimately show ?thesis using f assms(1) by (auto simp: keys_ok_def list_all_iff simp del: map_map)
qed

section \<open>Methods\<close>

text \<open>
  The contract of a method: consistent tables stay consistent, and over a quiet connection a failed call leaves the tables alone.
\<close>

definition sound_call :: "'z AccountDB \<Rightarrow> ('z AccountTables_scheme \<Rightarrow> (error + 'a) \<times> 'z AccountTables_scheme) \<Rightarrow> bool" where
  "sound_call db f \<longleftrightarrow> (db_sound db \<longrightarrow> keeps tables_ok f)
     \<and> (db_quiet db \<longrightarrow> (\<forall>w. isl (fst (f w)) \<longrightarrow> tables_of (snd (f w)) = tables_of w))"

text \<open>A statement: what it does to the tables it finds.\<close>

definition sound_statement :: "('z AccountTables_scheme \<Rightarrow> (error + 'a) \<times> 'z AccountTables_scheme) \<Rightarrow> bool" where
  "sound_statement f \<longleftrightarrow> (\<forall>w. (tables_ok w \<longrightarrow> tables_ok (snd (f w))) \<and> (isl (fst (f w)) \<longrightarrow> snd (f w) = w))"

lemma sound_statementI:
  assumes "\<And>w x w'. f w = (Inr x, w') \<Longrightarrow> tables_ok w \<Longrightarrow> tables_ok w'" "\<And>w e w'. f w = (Inl e, w') \<Longrightarrow> w' = w"
  shows "sound_statement f"
  unfolding sound_statement_def
proof (intro allI conjI impI)
  fix w
  obtain r w' where f: "f w = (r, w')" by (cases "f w")
  show "tables_ok w \<Longrightarrow> tables_ok (snd (f w))" using assms(1) [of w _ w'] assms(2) [of w _ w'] f by (cases r) auto
  show "isl (fst (f w)) \<Longrightarrow> snd (f w) = w" using assms(2) f by (cases r) auto
qed

lemma sound_trip:
  assumes "sound_statement f"
  shows "sound_call db (ad_trip db call f)"
proof -
  have "keeps tables_ok f" using assms by (simp add: sound_statement_def keeps_def)
  then have "db_sound db \<Longrightarrow> keeps tables_ok (ad_trip db call f)" by (rule keeps_trip [rotated]) (simp add: db_sound_def)
  moreover have "tables_of (snd (ad_trip db call f w)) = tables_of w" if "db_quiet db" "isl (fst (ad_trip db call f w))" for w
  proof -
    obtain e w1 where t: "ad_fault db call w = (e, w1)" by (cases "ad_fault db call w")
    with that(1) have q: "tables_of w1 = tables_of w" unfolding db_quiet_def by (metis snd_conv)
    show ?thesis
    proof (cases e)
      case None
      with that(2) t assms q show ?thesis by (simp add: ad_trip_def sound_statement_def)
    next
      case (Some x)
      with t q show ?thesis by (simp add: ad_trip_def)
    qed
  qed
  ultimately show ?thesis by (simp add: sound_call_def)
qed

lemma sound_error [simp]: "sound_call db (\<lambda>w. (Inl e, w))"
  by (simp add: sound_call_def keeps_def)

lemma sound_if: "\<lbrakk>P \<Longrightarrow> sound_call db f; \<not> P \<Longrightarrow> sound_call db g\<rbrakk> \<Longrightarrow> sound_call db (\<lambda>w. if P then f w else g w)"
  by (cases P) simp_all

lemma sound_option:
  "\<lbrakk>x = None \<Longrightarrow> sound_call db f; \<And>y. x = Some y \<Longrightarrow> sound_call db (g y)\<rbrakk> \<Longrightarrow> sound_call db (\<lambda>w. case x of None \<Rightarrow> f w | Some y \<Rightarrow> g y w)"
  by (cases x) simp_all

text \<open>A method that draws an ID first.\<close>

lemma newID_tables:
  shows "db_sound db \<Longrightarrow> tables_ok w \<Longrightarrow> tables_ok (snd (newID (ad_random db) existing w))"
    and "db_quiet db \<Longrightarrow> tables_of (snd (newID (ad_random db) existing w)) = tables_of w"
proof -
  have "snd (newID (ad_random db) existing w) = w \<or> snd (newID (ad_random db) existing w) = snd (ad_random db 16 w)"
    by (simp add: newID_def GenerateID_def case_prod_beta' Let_def split: sum.split)
  then show "db_sound db \<Longrightarrow> tables_ok w \<Longrightarrow> tables_ok (snd (newID (ad_random db) existing w))"
    and "db_quiet db \<Longrightarrow> tables_of (snd (newID (ad_random db) existing w)) = tables_of w"
    unfolding db_sound_def db_quiet_def by metis+
qed

lemma sound_newID:
  assumes "\<And>uid. sound_call db (f uid)"
  shows "sound_call db (\<lambda>w. try_do (newID (ad_random db) existing w) f)"
proof -
  have c: "(\<exists>e w1. try_do (newID (ad_random db) existing w) f = (Inl e, w1) \<and> w1 = snd (newID (ad_random db) existing w))
    \<or> (\<exists>uid. try_do (newID (ad_random db) existing w) f = f uid (snd (newID (ad_random db) existing w)))" for w
    by (cases "newID (ad_random db) existing w"; cases "fst (newID (ad_random db) existing w)") auto
  have "tables_ok (snd (try_do (newID (ad_random db) existing w) f))" if "db_sound db" "tables_ok w" for w
    using c [of w] newID_tables(1) [OF that] assms that unfolding sound_call_def keeps_def by (metis snd_conv)
  moreover have "tables_of (snd (try_do (newID (ad_random db) existing w) f)) = tables_of w"
    if "db_quiet db" "isl (fst (try_do (newID (ad_random db) existing w) f))" for w
    using c [of w] newID_tables(2) [OF that(1)] assms that unfolding sound_call_def by (metis snd_conv)
  ultimately show ?thesis by (simp add: sound_call_def keeps_def)
qed

lemmas sound_calls = sound_error sound_if sound_option sound_newID

section \<open>Every statement\<close>

lemma put_account_cases:
  assumes "put_account row w = (r, w')"
  shows "(\<exists>e. r = Inl e \<and> w' = w) \<or> (r = Inr row \<and> account_conflict w (filter (\<lambda>a. ID a \<noteq> ID row) (tb_accounts w)) row = None
    \<and> w' = w\<lparr>tb_accounts := map (\<lambda>a. if ID a = ID row then row else a) (tb_accounts w)\<rparr>)"
  using assms by (auto simp: put_account_def split: option.splits)

lemma put_account_ok: "put_account row w = (Inr x, w') \<Longrightarrow> tables_ok w \<Longrightarrow> tables_ok w'"
  using put_account_cases [of row w "Inr x" w'] accounts_ok_put [of w row "tb_accounts w"] by (auto simp: tables_ok_def)

lemma sound_insert: "sound_statement (insert_account uid acc)"
  by (rule sound_statementI) (auto simp: insert_account_def Let_def tables_ok_def intro!: accounts_ok_insert split: option.splits)

lemma sound_CreateAccount: "sound_call db (CreateAccount db acc)"
  unfolding CreateAccount_def [abs_def] Let_def by (intro sound_calls sound_trip sound_insert)

lemma sound_find_put:
  "sound_statement (\<lambda>w. case find (\<lambda>a. ID a = uid) (tb_accounts w) of
      None \<Rightarrow> (Inl ErrNotFound, w) | Some old \<Rightarrow> try_do (put_account (row w old) w) (\<lambda>r w. (Inr (res r), w)))"
proof (rule sound_statementI)
  fix w x w'
  assume a: "(case find (\<lambda>a. ID a = uid) (tb_accounts w) of
      None \<Rightarrow> (Inl ErrNotFound, w) | Some old \<Rightarrow> try_do (put_account (row w old) w) (\<lambda>r w. (Inr (res r), w))) = (Inr x, w')" "tables_ok w"
  then obtain old r where "put_account (row w old) w = (Inr r, w')" by (auto simp: try_do_Inr split: option.splits)
  then show "tables_ok w'" using a(2) by (rule put_account_ok)
next
  fix w e w'
  assume "(case find (\<lambda>a. ID a = uid) (tb_accounts w) of
      None \<Rightarrow> (Inl ErrNotFound, w) | Some old \<Rightarrow> try_do (put_account (row w old) w) (\<lambda>r w. (Inr (res r), w))) = (Inl e, w')"
  then show "w' = w"
    by (auto simp: try_do_def split: option.splits prod.splits sum.splits dest!: put_account_cases)
qed

lemma sound_updateAccount: "sound_call db (updateAccount db acc)"
  unfolding updateAccount_def [abs_def] by (intro sound_calls sound_trip sound_find_put)

lemma sound_UpdateAccountRuntime: "sound_call db (UpdateAccountRuntime db acc)"
  unfolding UpdateAccountRuntime_def [abs_def] by (intro sound_calls sound_trip sound_find_put)

lemma sound_store_DeleteAccount: "sound_call db (store_DeleteAccount db uid)"
  unfolding store_DeleteAccount_def
  by (rule sound_trip, rule sound_statementI)
    (auto simp: delete_accounts_def tables_ok_def accounts_ok_filter filter_empty_conv split: if_splits)

subsection \<open>Transactions\<close>

lemma tables_of_roll_back [simp]: "tables_of (roll_back b w) = tables_of b"
  by (simp add: roll_back_def tables_of_def)

lemma roll_back_ok [simp]: "tables_ok (roll_back b w) = tables_ok b"
  by (rule tables_ok_of) simp

lemma trip_keeps:
  assumes "db_sound db" "keeps tables_ok f"
  shows "keeps tables_ok (ad_trip db call f)"
  using assms by (intro keeps_trip) (auto simp: db_sound_def)

lemma transaction_cases:
  fixes f :: "'z AccountTables_scheme \<Rightarrow> (error + 'a) \<times> 'z AccountTables_scheme"
  assumes "ad_trip db BeginTx (\<lambda>w. (Inr (), w)) w = (r, w1)"
  shows "(\<exists>e. r = Inl e \<and> in_transaction db name f w = (Inl (Wrapped name e), w1))
    \<or> (r = Inr () \<and> (let q = try_do (f w1) (\<lambda>x w. ad_trip db CommitTx (\<lambda>w. (Inr x, w)) w) in
         (\<exists>e. in_transaction db name f w = (Inl e, roll_back w1 (snd q))) \<or> (\<exists>x. in_transaction db name f w = (Inr x, snd q))))"
proof -
  have "in_transaction db name f w = try_do (on_err (Wrapped name) (r, w1)) (\<lambda>_ begun.
       case try_do (f begun) (\<lambda>x w. ad_trip db CommitTx (\<lambda>w. (Inr x, w)) w) of
         (Inl e, w) \<Rightarrow> (Inl e, roll_back begun w)
       | (Inr x, w) \<Rightarrow> (Inr x, w))" by (simp add: in_transaction_def assms)
  then show ?thesis by (cases r) (auto simp: Let_def split: prod.split sum.split)
qed

lemma begin_state: "\<exists>r w1. ad_trip db BeginTx (\<lambda>w. (Inr (), w)) w = (r, w1) \<and> w1 = snd (ad_fault db BeginTx w)"
  by (simp add: ad_trip_def case_prod_beta' split: option.split)

lemma sound_transaction:
  fixes f :: "'z AccountTables_scheme \<Rightarrow> (error + 'a) \<times> 'z AccountTables_scheme"
  assumes "db_sound db \<Longrightarrow> keeps tables_ok f"
  shows "sound_call db (in_transaction db name f)"
proof -
  let ?q = "\<lambda>w. try_do (f w) (\<lambda>x w. ad_trip db CommitTx (\<lambda>w. (Inr x, w)) w)"
  have "keeps tables_ok ?q" if "db_sound db" using that assms by (intro keeps_try trip_keeps keeps_return) auto
  then have q: "tables_ok (snd (?q w))" if "db_sound db" "tables_ok w" for w using that by (simp add: keeps_def)
  have "tables_ok (snd (in_transaction db name f w))" if "db_sound db" "tables_ok w" for w
  proof -
    obtain r w1 where b: "ad_trip db BeginTx (\<lambda>w. (Inr (), w)) w = (r, w1)" "w1 = snd (ad_fault db BeginTx w)" using begin_state by blast
    have "tables_ok w1" using that b(2) by (simp add: db_sound_def)
    moreover have "tables_ok (snd (?q w1))" using q [OF that(1)] \<open>tables_ok w1\<close> by simp
    ultimately show ?thesis using transaction_cases [OF b(1), where f = f and name = name] unfolding Let_def by (metis roll_back_ok snd_conv)
  qed
  moreover have "tables_of (snd (in_transaction db name f w)) = tables_of w"
    if "db_quiet db" "isl (fst (in_transaction db name f w))" for w
  proof -
    obtain r w1 where b: "ad_trip db BeginTx (\<lambda>w. (Inr (), w)) w = (r, w1)" "w1 = snd (ad_fault db BeginTx w)" using begin_state by blast
    have "tables_of w1 = tables_of w" using that b(2) by (simp add: db_quiet_def)
    then show ?thesis using transaction_cases [OF b(1), where f = f and name = name] that(2)
      unfolding Let_def by (metis tables_of_roll_back fst_conv snd_conv isl_def sum.distinct(1))
  qed
  ultimately show ?thesis by (simp add: sound_call_def keeps_def)
qed

lemma keeps_update_each: "db_sound db \<Longrightarrow> keeps tables_ok (update_each db accs)"
proof (induction accs)
  case Nil
  then show ?case by (simp add: keeps_def)
next
  case (Cons a accs)
  have "keeps tables_ok (updateAccount db a)" using sound_updateAccount [of db a] Cons.prems by (simp add: sound_call_def)
  moreover have "keeps tables_ok (update_each db accs)" by (rule Cons.IH [OF Cons.prems])
  ultimately have "keeps tables_ok (\<lambda>w. try_do (updateAccount db a w) (\<lambda>x w. try_do (update_each db accs w) (\<lambda>xs w. (Inr (x # xs), w))))"
    by (intro keeps_try keeps_return)
  then show ?case by simp
qed

lemma sound_UpdateAccounts: "sound_call db (UpdateAccounts db accs)"
  unfolding UpdateAccounts_def [abs_def] by (intro sound_calls sound_transaction keeps_update_each)

lemma sound_store_DeleteAccounts: "sound_call db (store_DeleteAccounts db ids)"
  unfolding store_DeleteAccounts_def [abs_def]
  by (intro sound_calls sound_transaction trip_keeps keepsI)
    (auto simp: delete_accounts_def tables_ok_def accounts_ok_filter split: if_splits)

subsection \<open>Proxies, keys and models\<close>

lemma sound_CreateProxy: "sound_call db (CreateProxy db proxy)"
  unfolding CreateProxy_def [abs_def]
  by (intro sound_calls sound_trip sound_statementI)
    (auto simp: tables_ok_def list_ex_iff intro: accounts_ok_proxies split: if_splits)

lemma accounts_ok_same_proxies: "prx_ID ` set ps = prx_ID ` set qs \<Longrightarrow> accounts_ok qs accs = accounts_ok ps accs"
  using accounts_ok_proxies by (metis order_refl)

lemma replaced_proxies:
  assumes "prx_ID p = uid"
  shows "prx_ID ` set (map (\<lambda>q. if prx_ID q = uid then p\<lparr>prx_Name := n, prx_CreatedAt := prx_CreatedAt q, prx_UpdatedAt := t\<rparr> else q) ps) = prx_ID ` set ps"
    and "distinct (map prx_ID (map (\<lambda>q. if prx_ID q = uid then p\<lparr>prx_Name := n, prx_CreatedAt := prx_CreatedAt q, prx_UpdatedAt := t\<rparr> else q) ps))
      = distinct (map prx_ID ps)"
proof -
  let ?f = "\<lambda>q. if prx_ID q = uid then p\<lparr>prx_Name := n, prx_CreatedAt := prx_CreatedAt q, prx_UpdatedAt := t\<rparr> else q"
  have f: "prx_ID (?f q) = prx_ID q" for q using assms by simp
  then show "prx_ID ` set (map ?f ps) = prx_ID ` set ps" unfolding set_map image_image by simp
  show "distinct (map prx_ID (map ?f ps)) = distinct (map prx_ID ps)" by (rule distinct_keyed) (rule f)
qed

lemma sound_UpdateProxy:
  fixes db :: "'z AccountDB"
  shows "sound_call db (UpdateProxy db proxy)"
proof -
  have "sound_statement (\<lambda>w :: 'z AccountTables_scheme. if list_ex (\<lambda>q. prx_ID q = prx_ID p) (tb_proxies w)
      then (Inr (p\<lparr>prx_UpdatedAt := tb_clock w\<rparr>), w\<lparr>tb_proxies := map (\<lambda>q. if prx_ID q = prx_ID p
        then p\<lparr>prx_Name := TrimSpace (prx_Name p), prx_CreatedAt := prx_CreatedAt q, prx_UpdatedAt := tb_clock w\<rparr> else q) (tb_proxies w)\<rparr>)
      else (Inl ErrNotFound, w))" for p
    unfolding sound_statement_def
  proof (intro allI conjI impI)
    fix w :: "'z AccountTables_scheme"
    note r = replaced_proxies [OF refl, where p = p and n = "TrimSpace (prx_Name p)" and t = "tb_clock w" and ps = "tb_proxies w"]
    note a = accounts_ok_same_proxies [OF r(1), of "tb_accounts w"]
    show "tables_ok w \<Longrightarrow> tables_ok (snd (if list_ex (\<lambda>q. prx_ID q = prx_ID p) (tb_proxies w)
      then (Inr (p\<lparr>prx_UpdatedAt := tb_clock w\<rparr>), w\<lparr>tb_proxies := map (\<lambda>q. if prx_ID q = prx_ID p
        then p\<lparr>prx_Name := TrimSpace (prx_Name p), prx_CreatedAt := prx_CreatedAt q, prx_UpdatedAt := tb_clock w\<rparr> else q) (tb_proxies w)\<rparr>)
      else (Inl ErrNotFound, w)))" using r(2) a by (simp add: tables_ok_def del: map_map)
  qed (auto split: if_splits)
  then show ?thesis unfolding UpdateProxy_def [abs_def] by (intro sound_calls sound_trip)
qed

lemma sound_DeleteProxy: "sound_call db (DeleteProxy db uid)"
  unfolding DeleteProxy_def
  by (intro sound_trip sound_statementI) (auto simp: tables_ok_def accounts_ok_unlinked distinct_map_filter split: if_splits)

lemma sound_CreateClientKey: "sound_call db (CreateClientKey db key)"
  unfolding CreateClientKey_def [abs_def]
  by (intro sound_calls sound_trip sound_statementI)
    (auto simp: Let_def tables_ok_def keys_ok_def key_limits_ok_def list_ex_iff split: if_splits)

lemma limits_touched [simp]: "key_limits_ok (k\<lparr>key_LastUsedAt := t\<rparr>) = key_limits_ok k"
  by (simp add: key_limits_ok_def)

lemma limits_edited [simp]:
  "key_limits_ok (k\<lparr>key_Name := n, key_Enabled := e, RPM := RPM j, key_ConcurrencyLimit := key_ConcurrencyLimit j,
     DailyRequestLimit := DailyRequestLimit j, MonthlyTokenLimit := MonthlyTokenLimit j, key_ExpiresAt := x, key_UpdatedAt := t\<rparr>) = key_limits_ok j"
  by (simp add: key_limits_ok_def)

lemma sound_UpdateClientKey: "sound_call db (UpdateClientKey db key)"
  unfolding UpdateClientKey_def [abs_def]
  by (intro sound_calls sound_trip sound_statementI) (auto simp: tables_ok_def intro!: keys_ok_map split: if_splits)

lemma sound_TouchClientKey: "sound_call db (TouchClientKey db uid t)"
proof -
  have "sound_call db (ad_trip db Statement (\<lambda>w. if list_ex (\<lambda>k. key_ID k = uid) (tb_keys w)
     then (Inr (), w\<lparr>tb_keys := map (\<lambda>k. if key_ID k = uid then k\<lparr>key_LastUsedAt := Some s\<rparr> else k) (tb_keys w)\<rparr>)
     else (Inl ErrNotFound, w)))" for s
    by (intro sound_trip sound_statementI) (auto simp: tables_ok_def intro!: keys_ok_map split: if_splits)
  then show ?thesis unfolding sound_call_def keeps_def TouchClientKey_def by blast
qed

lemma sound_DeleteClientKey: "sound_call db (DeleteClientKey db uid)"
  unfolding DeleteClientKey_def by (intro sound_trip sound_statementI) (auto simp: tables_ok_def keys_ok_filter split: if_splits)

lemma sound_CreateModel: "sound_call db (CreateModel db m)"
  unfolding CreateModel_def [abs_def]
  by (intro sound_calls sound_trip sound_statementI) (auto simp: Let_def tables_ok_def list_ex_iff split: if_splits)

lemma sound_UpdateModel: "sound_call db (UpdateModel db m)"
proof -
  have d: "distinct (map model_ID (map (\<lambda>p. if model_ID p = model_ID x then f p else p) ps)) = distinct (map model_ID ps)"
    if "\<And>p. model_ID (f p) = model_ID x" for f :: "ModelSpec \<Rightarrow> ModelSpec" and ps and x :: ModelSpec
    by (rule distinct_keyed) (simp add: that)
  show ?thesis
    unfolding UpdateModel_def [abs_def]
    by (intro sound_calls sound_trip sound_statementI) (auto simp: tables_ok_def d simp del: map_map split: if_splits)
qed

lemma sound_DeleteModel: "sound_call db (DeleteModel db uid)"
  unfolding DeleteModel_def by (intro sound_trip sound_statementI) (auto simp: tables_ok_def distinct_map_filter split: if_splits)

lemmas sound_methods =
  sound_CreateAccount sound_updateAccount sound_UpdateAccountRuntime sound_UpdateAccounts sound_store_DeleteAccount sound_store_DeleteAccounts
  sound_CreateProxy sound_UpdateProxy sound_DeleteProxy sound_CreateClientKey sound_UpdateClientKey sound_TouchClientKey sound_DeleteClientKey
  sound_CreateModel sound_UpdateModel sound_DeleteModel

lemma outcome_sound:
  assumes "sound_call db f"
  shows "db_sound db \<Longrightarrow> tables_ok w \<Longrightarrow> tables_ok (snd (outcome (f w)))"
    and "db_quiet db \<Longrightarrow> \<not> fst (outcome (f w)) \<Longrightarrow> tables_of (snd (outcome (f w))) = tables_of w"
  using assms by (auto simp: sound_call_def keeps_def outcome_def)

lemmas methods_keep = sound_methods [THEN outcome_sound(1)] and methods_atomic = sound_methods [THEN outcome_sound(2)]

text \<open>The step of any operation.\<close>

lemma step_keeps: "db_sound db \<Longrightarrow> tables_ok w \<Longrightarrow> tables_ok (snd (table_step db op w))"
  by (cases op; simp only: table_step.simps store_UpdateAccount_def; rule methods_keep; assumption)

lemma step_atomic: "db_quiet db \<Longrightarrow> \<not> fst (table_step db op w) \<Longrightarrow> tables_of (snd (table_step db op w)) = tables_of w"
  by (cases op; simp only: table_step.simps store_UpdateAccount_def; rule methods_atomic; assumption)

end
