(* ===== verification/Management_Laws.thy ===== *)
theory Management_Laws
  imports Management Table_Laws Security_Properties Text_Laws
begin

text \<open>
  What the administrator's operations promise about credentials, over the contract of the account repository.

  \<open>account_repository\<close> is that contract: a lookup returns the stored row, a creation and an update that succeed store a row with the
  given credential columns and leave the other rows alone. \<open>quiet_database\<close> is the database over a connection nobody interferes with, which meets it.
\<close>

section \<open>Secrets\<close>

text \<open>An AEAD opens what it sealed, and the codec of the credentials decodes what it encoded.\<close>

definition aead_ok :: "AEAD \<Rightarrow> bool" where
  "aead_ok a \<longleftrightarrow> (\<forall>nonce p ad. length nonce = NonceSize a \<longrightarrow> aead_Open a nonce (aead_Seal a nonce p ad) ad = Some p)
     \<and> (\<forall>nonce p ad. length (aead_Seal a nonce p ad) = length p + Overhead a)"

definition secrets_ok :: "'w ManagementService \<Rightarrow> bool" where
  "secrets_ok s \<longleftrightarrow> (case mg_cipher s of None \<Rightarrow> False | Some a \<Rightarrow> aead_ok a) \<and> reads_fully (mg_random s)
     \<and> (\<forall>c p. mg_Marshal s c = Inr p \<longrightarrow> mg_Unmarshal s p = Inr c)"

lemma seal_open_text:
  assumes "secrets_ok s" "Seal (mg_random s) (mg_cipher s) p ad w = (Inr c, w')"
  shows "Open (mg_cipher s) c ad = Inr p"
proof -
  obtain a where a: "mg_cipher s = Some a" "aead_ok a" using assms(1) by (auto simp: secrets_ok_def split: option.splits)
  show ?thesis unfolding a(1)
    by (rule seal_open [where random = "mg_random s" and w = w and w' = w']) (use a assms in \<open>auto simp: aead_ok_def secrets_ok_def\<close>)
qed

lemma seal_open_credentials:
  assumes "secrets_ok s" "sealCredentials s k c w = (Inr sealed, w')"
  shows "openCredentials s k sealed = Inr c"
proof -
  obtain p where "mg_Marshal s c = Inr p" "Seal (mg_random s) (mg_cipher s) p (''account-credentials:'' @ k) w = (Inr sealed, w')"
    using assms(2) by (auto simp: sealCredentials_def split: sum.splits)
  with seal_open_text [OF assms(1)] assms(1) show ?thesis by (simp add: openCredentials_def secrets_ok_def)
qed

text \<open>An identifier has no white space.\<close>

lemma TrimSpace_spaceless:
  assumes "set s \<inter> set (concat space_encodings) = {}"
  shows "TrimSpace s = s"
proof -
  obtain xs ys where x: "set xs \<subseteq> set space_encodings" "set ys \<subseteq> set space_encodings" "s = concat xs @ TrimSpace s @ concat ys"
    using TrimSpace_split by blast
  then have "set (concat xs) \<subseteq> set s" "set (concat ys) \<subseteq> set s" by (metis set_append Un_upper1, metis set_append Un_upper2 inf_sup_aci(6) le_supI2)
  moreover have "set (concat xs) \<subseteq> set (concat space_encodings)" "set (concat ys) \<subseteq> set (concat space_encodings)" using x(1,2) by auto
  ultimately have "concat xs = []" "concat ys = []" using assms by (metis disjoint_iff subset_iff set_empty equals0I)+
  with x(3) show ?thesis by simp
qed

definition id_chars :: string where "id_chars = ''0123456789abcdef-''"

lemma hex_digit_char: "d < 16 \<Longrightarrow> hex_digit d \<in> set id_chars"
proof -
  assume "d < 16"
  moreover have "\<forall>d \<in> set [0..<16]. hex_digit d \<in> set id_chars" by code_simp
  ultimately show ?thesis by simp
qed

lemma EncodeToString_chars: "set (EncodeToString bs) \<subseteq> set id_chars"
proof -
  have "set (hex_byte c) \<subseteq> set id_chars" for c
  proof -
    have "of_char c < (256 :: nat)" by simp
    then have "of_char c div 16 < (16 :: nat)" by (intro less_mult_imp_div_less) simp
    then show ?thesis by (simp add: hex_byte_def hex_digit_char)
  qed
  then show ?thesis by (auto simp: EncodeToString_def)
qed

lemma GenerateID_text:
  assumes "GenerateID random w = (Inr uid, w')"
  shows "TrimSpace uid = uid" "uid \<noteq> ''''"
proof -
  obtain bs where "uid = uuid_text bs" using assms by (auto simp: GenerateID_def Let_def split: prod.splits sum.splits)
  then obtain e where e: "set e \<subseteq> set id_chars"
    and u: "uid = take 8 e @ ''-'' @ take 4 (drop 8 e) @ ''-'' @ take 4 (drop 12 e) @ ''-'' @ take 4 (drop 16 e) @ ''-'' @ drop 20 e"
    using EncodeToString_chars unfolding uuid_text_def Let_def by blast
  have "CHR ''-'' \<in> set id_chars" by code_simp
  then have "set uid \<subseteq> set id_chars" using e unfolding u by (auto dest: in_set_takeD in_set_dropD)
  moreover have "set id_chars \<inter> set (concat space_encodings) = {}" by code_simp
  ultimately show "TrimSpace uid = uid" by (intro TrimSpace_spaceless) blast
  show "uid \<noteq> ''''" unfolding u by simp
qed

lemma apply_status_frame [simp]:
  "ID (apply_status st a) = ID a" "CredentialCipher (apply_status st a) = CredentialCipher a"
  "CredentialFingerprint (apply_status st a) = CredentialFingerprint a" "Kind (apply_status st a) = Kind a"
  by (simp_all add: apply_status_def split: option.split AccountStatus.split)

lemma applied_status: "Status (apply_limits i (apply_labels i (apply_status st (apply_names i a)))) = Status (apply_status st a)"
  by (simp add: apply_status_def apply_names_def apply_labels_def apply_limits_def split: option.split AccountStatus.split)

lemma apply_names_frame [simp]:
  "ID (apply_names i a) = ID a" "CredentialCipher (apply_names i a) = CredentialCipher a"
  "CredentialFingerprint (apply_names i a) = CredentialFingerprint a" "Status (apply_names i a) = Status a"
  by (simp_all add: apply_names_def)

lemma apply_labels_frame [simp]:
  "ID (apply_labels i a) = ID a" "CredentialCipher (apply_labels i a) = CredentialCipher a"
  "CredentialFingerprint (apply_labels i a) = CredentialFingerprint a" "Kind (apply_labels i a) = Kind a" "Status (apply_labels i a) = Status a"
  by (simp_all add: apply_labels_def)

lemma apply_limits_frame [simp]:
  "ID (apply_limits i a) = ID a" "CredentialCipher (apply_limits i a) = CredentialCipher a"
  "CredentialFingerprint (apply_limits i a) = CredentialFingerprint a" "Kind (apply_limits i a) = Kind a" "Status (apply_limits i a) = Status a"
  by (simp_all add: apply_limits_def)

lemma apply_fields_Inr:
  "apply_fields i a = Inr b \<Longrightarrow> b = apply_limits i (apply_labels i (apply_status (ua_Status i) (apply_names i a)))"
  unfolding apply_fields_def by (simp split: if_split_asm)

lemma apply_fields_frame:
  assumes "apply_fields i a = Inr b"
  shows "ID b = ID a" "CredentialCipher b = CredentialCipher a" "CredentialFingerprint b = CredentialFingerprint a"
  unfolding apply_fields_Inr [OF assms] by simp_all

section \<open>The contract\<close>

definition credential_columns :: "Account \<Rightarrow> CredentialKind \<times> string \<times> string" where
  "credential_columns a = (Kind a, CredentialCipher a, CredentialFingerprint a)"

locale account_repository =
  fixes rp :: "'w AccountRepository" and row :: "'w \<Rightarrow> string \<rightharpoonup> Account"
  assumes get_ok: "rp_GetAccount rp k w = (Inr a, w') \<Longrightarrow> row w k = Some a \<and> row w' = row w \<and> ID a = k"
    and create_ok: "\<lbrakk>rp_CreateAccount rp a w = (Inr a', w'); TrimSpace (ID a) = ID a; ID a \<noteq> ''''\<rbrakk> \<Longrightarrow>
      \<exists>b. row w' = (row w)(ID a \<mapsto> b) \<and> ID a' = ID a \<and> ID b = ID a \<and> credential_columns b = credential_columns a"
    and update_ok: "rp_UpdateAccount rp a w = (Inr a', w') \<Longrightarrow>
      \<exists>b. row w' = (row w)(ID a \<mapsto> b) \<and> ID a' = ID a \<and> ID b = ID a \<and> credential_columns b = credential_columns a \<and> Status b = Status a"
begin

lemma opened:
  assumes "mg_accounts s = rp" "row w k = Some b" "ID b = k" "GetAccountCredentials s k w = (Inr c, w')"
  shows "openCredentials s k (CredentialCipher b) = Inr c"
proof -
  obtain a w1 where a: "rp_GetAccount rp k w = (Inr a, w1)" and c: "openCredentials s (ID a) (CredentialCipher a) = Inr c"
    using assms(1,4) by (auto simp: GetAccountCredentials_def yield_def try_do_Inr)
  from get_ok [OF a] assms(2) c show ?thesis by simp
qed

text \<open>What a creation stored is what it was given, normalized.\<close>

lemma created_row:
  assumes s: "mg_accounts s = rp" "secrets_ok s" and c: "mg_CreateAccount s i w = (Inr a, w')"
  obtains b n where "row w' (ID a) = Some b" "ID b = ID a" "CredentialCipher a = ''''" "CredentialFingerprint a = ''''"
    "openCredentials s (ID a) (CredentialCipher b) = Inr n" "normalizeAccountCredentials s (ca_Kind i) (ca_Credentials i) = Inr n"
proof -
  from c obtain n uid w1 w2 sealed w3 b where n: "normalizeAccountCredentials s (ca_Kind i) (ca_Credentials i) = Inr n"
    and u: "GenerateID (mg_random s) w1 = (Inr uid, w2)" and e: "sealCredentials s uid n w2 = (Inr sealed, w3)"
    and r: "rp_CreateAccount rp (new_account s i n uid sealed) w3 = (Inr b, w')" and a: "a = sanitizedAccount b"
    using s(1) by (auto simp: mg_CreateAccount_def try_do_Inr yield_def split: if_splits option.splits)
  have k: "ID (new_account s i n uid sealed) = uid" "CredentialCipher (new_account s i n uid sealed) = sealed" by (simp_all add: new_account_def)
  obtain d where "row w' = (row w3)(uid \<mapsto> d)" "ID b = uid" "ID d = uid" "credential_columns d = credential_columns (new_account s i n uid sealed)"
    using create_ok [OF r] GenerateID_text [OF u] unfolding k by auto
  with seal_open_credentials [OF s(2) e] n k(2) a that [of d n] show ?thesis by (simp add: sanitizedAccount_def credential_columns_def)
qed

text \<open>The row an update stored: its credentials are the new ones or the old ones, normalized for the account's kind, or the old ones untouched.\<close>

lemma updated_row:
  assumes s: "mg_accounts s = rp" "secrets_ok s" and u: "mg_UpdateAccount s k i w = (Inr a, w')"
  obtains old b c where "row w k = Some old" "row w' k = Some b" "ID b = k" "openCredentials s k (CredentialCipher old) = Inr c"
    "Status b = Status (apply_status (ua_Status i) old)"
    "if ua_Credentials i = None \<and> CredentialFingerprint old \<noteq> '''' then CredentialCipher b = CredentialCipher old
     else \<exists>n. normalizeAccountCredentials s (Kind b) (given id (ua_Credentials i) c) = Inr n \<and> openCredentials s k (CredentialCipher b) = Inr n"
proof -
  from u obtain old w1 w2 p w3 b where get: "rp_GetAccount rp k w = (Inr old, w1)" and pr: "prepareAccountUpdate s old i w2 = (Inr p, w3)"
    and up: "rp_UpdateAccount rp p w3 = (Inr b, w')"
    using s(1) by (auto simp: mg_UpdateAccount_def try_do_Inr)
  note go = get_ok [OF get]
  from pr obtain q c n w4 where q: "apply_fields i old = Inr q" and c: "openCredentials s (ID q) (CredentialCipher q) = Inr c"
    and n: "normalizeAccountCredentials s (Kind q) (given id (ua_Credentials i) c) = Inr n"
    and e: "(if ua_Credentials i \<noteq> None \<or> CredentialFingerprint q = '''' then sealCredentials s (ID q) n w2 else (Inr (CredentialCipher q), w2)) = (Inr (CredentialCipher p), w3)"
    and p: "Kind p = Kind q" "ID p = ID q" "Status p = Status q"
    by (auto simp: prepareAccountUpdate_def try_do_Inr yield_def Let_def split: option.splits)
  have f: "ID q = k" "CredentialCipher q = CredentialCipher old" "CredentialFingerprint q = CredentialFingerprint old"
    using apply_fields_frame [OF q] go by simp_all
  have st: "Status q = Status (apply_status (ua_Status i) old)" unfolding apply_fields_Inr [OF q] by (rule applied_status)
  obtain d where d: "row w' = (row w3)(k \<mapsto> d)" "ID d = k" "credential_columns d = credential_columns p" "Status d = Status p"
    using update_ok [OF up] p(2) f(1) by auto
  show ?thesis
  proof (rule that [of old d c])
    show "row w k = Some old" "row w' k = Some d" "ID d = k" "openCredentials s k (CredentialCipher old) = Inr c"
      "Status d = Status (apply_status (ua_Status i) old)" using go d c f st p(3) by simp_all
    show "if ua_Credentials i = None \<and> CredentialFingerprint old \<noteq> '''' then CredentialCipher d = CredentialCipher old
      else \<exists>n. normalizeAccountCredentials s (Kind d) (given id (ua_Credentials i) c) = Inr n \<and> openCredentials s k (CredentialCipher d) = Inr n"
    proof (cases "ua_Credentials i = None \<and> CredentialFingerprint old \<noteq> ''''")
      case True
      with e f d show ?thesis by (simp add: credential_columns_def)
    next
      case False
      then have "sealCredentials s k n w2 = (Inr (CredentialCipher p), w3)" using e f by (auto split: if_splits)
      then have "openCredentials s k (CredentialCipher p) = Inr n" by (rule seal_open_credentials [OF s(2)])
      with False n p(1) d show ?thesis by (auto simp: credential_columns_def)
    qed
  qed
qed

text \<open>What reading the credentials gives after an update.\<close>

lemma updated_credentials:
  assumes s: "mg_accounts s = rp" "secrets_ok s"
    and u: "mg_UpdateAccount s k i w = (Inr a, w')" and g: "GetAccountCredentials s k w' = (Inr c, w'')"
  obtains old b where "row w k = Some old" "row w' k = Some b"
    "if ua_Credentials i = None \<and> CredentialFingerprint old \<noteq> '''' then CredentialCipher b = CredentialCipher old
     else \<exists>x. normalizeAccountCredentials s (Kind b) x = Inr c \<and> (case ua_Credentials i of None \<Rightarrow> True | Some n \<Rightarrow> x = n)"
proof -
  obtain old b c0 where r: "row w k = Some old" "row w' k = Some b" "ID b = k" and d: "if ua_Credentials i = None \<and> CredentialFingerprint old \<noteq> '''' then CredentialCipher b = CredentialCipher old
     else \<exists>n. normalizeAccountCredentials s (Kind b) (given id (ua_Credentials i) c0) = Inr n \<and> openCredentials s k (CredentialCipher b) = Inr n"
    by (rule updated_row [OF s u])
  have "openCredentials s k (CredentialCipher b) = Inr c" by (rule opened [OF s(1) r(2,3) g])
  with r d that [of old b] show ?thesis by (auto simp: given_def split: if_splits option.splits)
qed

end

section \<open>The database\<close>

locale quiet_database =
  fixes db :: "'z AccountDB"
  assumes quiet: "db_quiet db"
begin

lemma trip_Inr:
  assumes "ad_trip db call f w = (Inr x, w')"
  obtains w1 where "f w1 = (Inr x, w')" "tables_of w1 = tables_of w"
proof -
  obtain e w1 where t: "ad_fault db call w = (e, w1)" by (cases "ad_fault db call w")
  with quiet have "tables_of w1 = tables_of w" unfolding db_quiet_def by (metis snd_conv)
  with assms t that show ?thesis by (cases e) (auto simp: ad_trip_def)
qed

end

definition stored_row :: "'z AccountTables_scheme \<Rightarrow> string \<rightharpoonup> Account" where
  "stored_row w k = find (\<lambda>a. ID a = k) (tb_accounts w)"

lemma stored_row_tables: "tables_of w = tables_of w' \<Longrightarrow> stored_row w = stored_row w'"
  by (simp add: stored_row_def tables_of_def fun_eq_iff)

lemma stored_row_insert:
  assumes "\<not> list_ex (\<lambda>a. ID a = ID row) (tb_accounts w)"
  shows "stored_row (w\<lparr>tb_accounts := tb_accounts w @ [row]\<rparr>) = (stored_row w)(ID row \<mapsto> row)"
proof -
  have "find (\<lambda>a. ID a = k) (xs @ [row]) = (if k = ID row then Some row else find (\<lambda>a. ID a = k) xs)"
    if "\<not> list_ex (\<lambda>a. ID a = ID row) xs" for xs k
    using that by (induction xs) auto
  with assms show ?thesis by (simp add: stored_row_def fun_eq_iff)
qed

lemma stored_row_put:
  assumes "list_ex (\<lambda>a. ID a = ID row) (tb_accounts w)"
  shows "stored_row (w\<lparr>tb_accounts := map (\<lambda>a. if ID a = ID row then row else a) (tb_accounts w)\<rparr>) = (stored_row w)(ID row \<mapsto> row)"
proof -
  have "find (\<lambda>a. ID a = k) (map (\<lambda>a. if ID a = ID row then row else a) xs)
      = (if k = ID row then if list_ex (\<lambda>a. ID a = ID row) xs then Some row else None else find (\<lambda>a. ID a = k) xs)" for xs k
    by (induction xs) auto
  with assms show ?thesis by (simp add: stored_row_def fun_eq_iff)
qed

lemma updateAccount_Inr:
  assumes "quiet_database db" "updateAccount db (Some a) w = (Inr a', w')"
  shows "\<exists>b. stored_row w' = (stored_row w)(ID a \<mapsto> b) \<and> ID a' = ID a \<and> ID b = ID a \<and> credential_columns b = credential_columns a \<and> Status b = Status a"
proof -
  from assms(2) obtain f where t: "ad_trip db Statement f w = (Inr a', w')" and f: "f = (\<lambda>w. case find (\<lambda>b. ID b = ID a) (tb_accounts w) of
      None \<Rightarrow> (Inl ErrNotFound, w)
    | Some old \<Rightarrow> try_do (put_account (a\<lparr>Name := TrimSpace (Name a), ProxyID := TrimSpace (ProxyID a), CredentialExpiresAt := None,
        CreatedAt := CreatedAt old, UpdatedAt := tb_clock w\<rparr>) w) (\<lambda>row w. (Inr (a\<lparr>UpdatedAt := UpdatedAt row\<rparr>), w)))"
    by (auto simp: updateAccount_def split: if_splits option.splits)
  obtain w1 where w1: "f w1 = (Inr a', w')" "tables_of w1 = tables_of w" using quiet_database.trip_Inr [OF assms(1) t] by blast
  then obtain old b where o: "find (\<lambda>b. ID b = ID a) (tb_accounts w1) = Some old" and p: "put_account b w1 = (Inr b, w')" "a' = a\<lparr>UpdatedAt := UpdatedAt b\<rparr>"
    "b = a\<lparr>Name := TrimSpace (Name a), ProxyID := TrimSpace (ProxyID a), CredentialExpiresAt := None, CreatedAt := CreatedAt old, UpdatedAt := tb_clock w1\<rparr>"
    unfolding f by (auto simp: try_do_Inr put_account_def split: option.splits)
  have i: "ID b = ID a" "credential_columns b = credential_columns a" "Status b = Status a" using p(3) by (simp_all add: credential_columns_def)
  have "list_ex (\<lambda>x. ID x = ID b) (tb_accounts w1)" using o p(3) by (auto simp: find_Some_iff list_ex_length)
  with put_account_cases [OF p(1)] have "stored_row w' = (stored_row w1)(ID b \<mapsto> b)" by (auto simp: stored_row_put)
  then have "stored_row w' = (stored_row w)(ID a \<mapsto> b)" using stored_row_tables [OF w1(2)] i(1) by simp
  with i p(2) show ?thesis by (intro exI [of _ b]) simp
qed

sublocale quiet_database \<subseteq> account_repository "accounts_repository db" stored_row
proof unfold_locales
  fix k w a w'
  assume "rp_GetAccount (accounts_repository db) k w = (Inr a, w')"
  then have "ad_trip db Statement (\<lambda>w. (find_row (\<lambda>a. ID a = k) (tb_accounts w), w)) w = (Inr a, w')"
    by (simp add: accounts_repository_def GetAccount_def)
  then obtain w1 where "(find_row (\<lambda>a. ID a = k) (tb_accounts w1), w1) = (Inr a, w')" "tables_of w1 = tables_of w" by (rule trip_Inr)
  then have f: "find (\<lambda>a. ID a = k) (tb_accounts w') = Some a" and t: "tables_of w' = tables_of w"
    by (auto simp: find_row_def split: option.splits)
  have "ID a = k" using f by (auto simp: find_Some_iff)
  moreover have "stored_row w' k = Some a" using f by (simp add: stored_row_def)
  moreover have "stored_row w' = stored_row w" by (rule stored_row_tables [OF t])
  ultimately show "stored_row w k = Some a \<and> stored_row w' = stored_row w \<and> ID a = k" by simp
next
  fix a w a' w'
  assume c: "rp_CreateAccount (accounts_repository db) a w = (Inr a', w')" and i: "TrimSpace (ID a) = ID a" "ID a \<noteq> ''''"
  let ?a = "default_account a"
  have d: "ID ?a = ID a" "credential_columns ?a = credential_columns a" by (simp_all add: default_account_def Let_def credential_columns_def)
  from c i have "ad_trip db Statement (insert_account (ID a) ?a) w = (Inr a', w')"
    by (auto simp: accounts_repository_def CreateAccount_def Let_def newID_def d split: option.splits)
  then obtain w1 where w1: "insert_account (ID a) ?a w1 = (Inr a', w')" "tables_of w1 = tables_of w" by (rule trip_Inr)
  let ?row = "inserted_account (ID a) (tb_clock w1) ?a"
  have r: "ID ?row = ID a" "credential_columns ?row = credential_columns a" using d(2) by (simp_all add: inserted_account_def credential_columns_def)
  from w1(1) have n: "account_conflict w1 (tb_accounts w1) ?row = None" and e: "w' = w1\<lparr>tb_accounts := tb_accounts w1 @ [?row]\<rparr>" "ID a' = ID a"
    by (auto simp: insert_account_def Let_def split: option.splits)
  have "\<not> list_ex (\<lambda>x. ID x = ID ?row) (tb_accounts w1)" using conflict_None(2) [OF n] by (auto simp: list_ex_iff)
  with e r show "\<exists>b. stored_row w' = (stored_row w)(ID a \<mapsto> b) \<and> ID a' = ID a \<and> ID b = ID a \<and> credential_columns b = credential_columns a"
    using stored_row_insert [of ?row w1] stored_row_tables [OF w1(2)] by metis
next
  fix a w a' w'
  assume "rp_UpdateAccount (accounts_repository db) a w = (Inr a', w')"
  then have "updateAccount db (Some a) w = (Inr a', w')" by (simp add: accounts_repository_def store_UpdateAccount_def)
  then show "\<exists>b. stored_row w' = (stored_row w)(ID a \<mapsto> b) \<and> ID a' = ID a \<and> ID b = ID a \<and> credential_columns b = credential_columns a \<and> Status b = Status a"
    by (rule updateAccount_Inr [OF quiet_database_axioms])
qed

context quiet_database begin

lemma repository: "account_repository (accounts_repository db) stored_row"
  by (rule account_repository_axioms)

end

lemma quiet_repository: "db_quiet db \<Longrightarrow> account_repository (accounts_repository db) stored_row"
  by (rule quiet_database.repository) (simp add: quiet_database_def)

end
