(* ===== verification/OAuth.thy ===== *)
theory OAuth
  imports Upstream_Json Security
begin

text \<open>
  The OAuth authorization code flow with PKCE (\<open>OAuthService\<close> of \<open>internal/upstream/oauth.go\<close>).

  \<^item> The state store is a record of its two methods. The token endpoint is \<open>os_send\<close>: it gets the address and the encoded form and answers
    with an error, or a status and a body that can be read or not.
  \<^item> \<open>OAuthLib\<close> is what the standard library does with text: parsing an address into the part before the query and the query, writing it
    with another query, \<open>json.Unmarshal\<close> of the answer, the test of \<open>http.NewRequest\<close> and SHA-256. Encoding a form is written out.
  \<^item> \<open>url.Values\<close> is an association list with distinct keys.
\<close>

type_synonym url_values = "(string \<times> string list) list"

record OAuthConfig =
  AuthorizationURL :: string
  TokenURL :: string
  oc_ClientID :: string
  RedirectURL :: string
  oc_Scope :: string
  ExtraAuth :: url_values
  ExtraToken :: url_values
  StateTTL :: duration

record OAuthSession =
  os_AuthorizationURL :: string
  State :: string
  Verifier :: string
  Challenge :: string

definition ErrOAuthStateInUse :: error where "ErrOAuthStateInUse = ErrText ''OAuth state is already pending''"
definition ErrOAuthStateInvalid :: error where "ErrOAuthStateInvalid = ErrText ''OAuth state is invalid or expired''"

text \<open>An \<open>HTTPError\<close> is told from the other errors by \<open>errors.As\<close>.\<close>

datatype oauth_error = OAuthFailed error | OAuthHTTP int string

record 'w OAuthStateStore =
  oss_SetNX :: "string \<Rightarrow> string \<Rightarrow> duration \<Rightarrow> 'w \<Rightarrow> (error + bool) \<times> 'w"
  oss_GetDelete :: "string \<Rightarrow> 'w \<Rightarrow> (error + string option) \<times> 'w"

text \<open>\<open>expires_in\<close> is an \<open>any\<close>: a number, a text or something else.\<close>

datatype expires_value = NumberValue rat | TextValue string | OtherValue

record TokenPayload =
  tp_AccessToken :: string
  tp_RefreshToken :: string
  tp_IDToken :: string
  tp_TokenType :: string
  tp_Scope :: string
  ExpiresIn :: expires_value

record OAuthLib =
  ol_sec :: SecLib
  ol_SHA256 :: "string \<Rightarrow> string"
  ol_Parse :: "string \<Rightarrow> error + (string \<times> url_values)"
  ol_String :: "string \<Rightarrow> string \<Rightarrow> string"
  ol_Decode :: "string \<Rightarrow> error + TokenPayload"
  ol_NewRequest :: "string \<Rightarrow> error option"

record 'w OAuthService =
  os_config :: OAuthConfig
  os_lib :: OAuthLib
  os_state :: "'w OAuthStateStore option"
  os_now :: "'w \<Rightarrow> time \<times> 'w"
  os_random :: "'w random"
  os_send :: "string \<Rightarrow> string \<Rightarrow> 'w \<Rightarrow> (error + int \<times> (error + string)) \<times> 'w"

section \<open>Forms\<close>

definition vset :: "string \<Rightarrow> string \<Rightarrow> url_values \<Rightarrow> url_values" where "vset k v vs = AList.update k [v] vs"

definition copyValues :: "url_values \<Rightarrow> url_values \<Rightarrow> url_values" where
  "copyValues destination source = fold (\<lambda>(k, v). AList.update k v) source destination"

text \<open>\<open>url.Values.Encode\<close> orders the keys.\<close>

definition Encode :: "SecLib \<Rightarrow> url_values \<Rightarrow> string" where
  "Encode lib vs =
     Join (concat (map (\<lambda>(k, v). map (\<lambda>x. QueryEscape lib k @ ''='' @ QueryEscape lib x) v) (sort_key fst vs))) ''&''"

text \<open>\<open>randomToken\<close> ignores an error of the source; the bytes are zero then.\<close>

definition randomToken :: "'w OAuthService \<Rightarrow> nat \<Rightarrow> 'w \<Rightarrow> string \<times> 'w" where
  "randomToken s n w =
     (let (r, w) = os_random s n w
      in (RawURLEncoding (ol_sec (os_lib s)) (case r of Inl _ \<Rightarrow> replicate n (CHR 0x00) | Inr bs \<Rightarrow> bs), w))"

definition pkce_challenge :: "OAuthLib \<Rightarrow> string \<Rightarrow> string" where
  "pkce_challenge lib verifier = RawURLEncoding (ol_sec lib) (ol_SHA256 lib verifier)"

definition oauthStateKey :: "OAuthLib \<Rightarrow> string \<Rightarrow> string" where
  "oauthStateKey lib st = ''oauth:pkce:'' @ RawURLEncoding (ol_sec lib) (ol_SHA256 lib st)"

section \<open>The authorization\<close>

definition auth_query :: "OAuthConfig \<Rightarrow> string \<Rightarrow> string \<Rightarrow> url_values \<Rightarrow> url_values" where
  "auth_query c st challenge query =
     copyValues (vset ''code_challenge_method'' ''S256'' (vset ''code_challenge'' challenge (vset ''state'' st (vset ''scope'' (oc_Scope c)
       (vset ''redirect_uri'' (RedirectURL c) (vset ''client_id'' (oc_ClientID c) (vset ''response_type'' ''code'' query))))))) (ExtraAuth c)"

definition stateTTL :: "OAuthConfig \<Rightarrow> duration" where
  "stateTTL c = (if StateTTL c \<le> 0 then 10 * Minute else StateTTL c)"

definition BeginContext :: "'w OAuthService \<Rightarrow> string \<Rightarrow> 'w \<Rightarrow> (error + OAuthSession) \<times> 'w" where
  "BeginContext s st w =
     (let c = os_config s; lib = os_lib s
      in if AuthorizationURL c = '''' \<or> oc_ClientID c = '''' \<or> RedirectURL c = ''''
         then (Inl (ErrText ''OAuth authorization configuration is incomplete''), w)
         else (let (st, w) = (if st = '''' then randomToken s 24 w else (st, w));
                   (verifier, w) = randomToken s 64 w;
                   challenge = pkce_challenge lib verifier
               in case ol_Parse lib (AuthorizationURL c) of
                    Inl e \<Rightarrow> (Inl e, w)
                  | Inr (base, query) \<Rightarrow>
                      (let session = \<lparr>os_AuthorizationURL = ol_String lib base (Encode (ol_sec lib) (auth_query c st challenge query)),
                                      State = st, Verifier = '''', Challenge = challenge\<rparr>
                       in case os_state s of
                            None \<Rightarrow> (Inr (session\<lparr>Verifier := verifier\<rparr>), w)
                          | Some store \<Rightarrow>
                              (case oss_SetNX store (oauthStateKey lib st) verifier (stateTTL c) w of
                                 (Inl e, w) \<Rightarrow> (Inl (Wrapped ''store OAuth state'' e), w)
                               | (Inr stored, w) \<Rightarrow> if \<not> stored then (Inl ErrOAuthStateInUse, w) else (Inr session, w)))))"

section \<open>The token endpoint\<close>

text \<open>The conversion \<open>int64(value)\<close> of a \<open>float64\<close> out of range is the least integer on the platforms the service runs on.\<close>

definition number :: "expires_value \<Rightarrow> int" where
  "number v =
     (case v of
        NumberValue r \<Rightarrow> (let n = truncate_rat r in if - (2 ^ 63) \<le> n \<and> n < 2 ^ 63 then n else - (2 ^ 63))
      | TextValue t \<Rightarrow> atoi_lax t
      | OtherValue \<Rightarrow> 0)"

definition keep_text :: "string \<Rightarrow> string \<Rightarrow> string" where "keep_text new old = (if new \<noteq> '''' then new else old)"

text \<open>The credentials after an answer; the clock is read only when the answer has a positive life time.\<close>

definition token_result :: "'w OAuthService \<Rightarrow> TokenPayload \<Rightarrow> Credentials \<Rightarrow> 'w \<Rightarrow> Credentials \<times> 'w" where
  "token_result s p previous w =
     (let r = previous\<lparr>AccessToken := tp_AccessToken p, RefreshToken := keep_text (tp_RefreshToken p) (RefreshToken previous),
                       IDToken := keep_text (tp_IDToken p) (IDToken previous), TokenType := keep_text (tp_TokenType p) (TokenType previous),
                       Scope := keep_text (tp_Scope p) (Scope previous),
                       ClientID := (if ClientID previous = '''' then oc_ClientID (os_config s) else ClientID previous)\<rparr>
      in if 0 < number (ExpiresIn p)
         then (let (now, w) = os_now s w in (r\<lparr>cred_ExpiresAt := now + wrap64 (number (ExpiresIn p) * Second)\<rparr>, w))
         else (r, w))"

text \<open>The largest answer that is read.\<close>

definition token_body_limit :: nat where "token_body_limit = 2097152"

definition tokenRequest :: "'w OAuthService \<Rightarrow> url_values \<Rightarrow> Credentials \<Rightarrow> 'w \<Rightarrow> (oauth_error + Credentials) \<times> 'w" where
  "tokenRequest s vs previous w =
     (let c = os_config s; lib = os_lib s
      in if TokenURL c = '''' then (Inl (OAuthFailed (ErrText ''OAuth token URL is empty'')), w)
         else (case ol_NewRequest lib (TokenURL c) of
                 Some e \<Rightarrow> (Inl (OAuthFailed e), w)
               | None \<Rightarrow>
                   (case os_send s (TokenURL c) (Encode (ol_sec lib) vs) w of
                      (Inl e, w) \<Rightarrow> (Inl (OAuthFailed e), w)
                    | (Inr (status, Inl e), w) \<Rightarrow> (Inl (OAuthFailed e), w)
                    | (Inr (status, Inr body), w) \<Rightarrow>
                        (let body = take token_body_limit body
                         in if status < 200 \<or> 300 \<le> status then (Inl (OAuthHTTP status (TrimSpace body)), w)
                            else (case ol_Decode lib body of
                                    Inl e \<Rightarrow> (Inl (OAuthFailed e), w)
                                  | Inr p \<Rightarrow>
                                      if tp_AccessToken p = '''' then (Inl (OAuthFailed (ErrText ''OAuth response did not contain an access token'')), w)
                                      else (let (r, w) = token_result s p previous w in (Inr r, w)))))))"

definition exchange_form :: "OAuthConfig \<Rightarrow> string \<Rightarrow> string \<Rightarrow> url_values" where
  "exchange_form c code verifier =
     copyValues [(''grant_type'', [''authorization_code'']), (''code'', [code]), (''code_verifier'', [verifier]),
                 (''client_id'', [oc_ClientID c]), (''redirect_uri'', [RedirectURL c])] (ExtraToken c)"

definition Exchange :: "'w OAuthService \<Rightarrow> string \<Rightarrow> string \<Rightarrow> 'w \<Rightarrow> (oauth_error + Credentials) \<times> 'w" where
  "Exchange s code verifier w =
     (if TrimSpace code = '''' \<or> TrimSpace verifier = '''' then (Inl (OAuthFailed (ErrText ''OAuth code and PKCE verifier are required'')), w)
      else tokenRequest s (exchange_form (os_config s) code verifier) zero_credentials w)"

definition ExchangeState :: "'w OAuthService \<Rightarrow> string \<Rightarrow> string \<Rightarrow> 'w \<Rightarrow> (oauth_error + Credentials) \<times> 'w" where
  "ExchangeState s code st w =
     (if TrimSpace code = '''' \<or> TrimSpace st = '''' then (Inl (OAuthFailed (ErrText ''OAuth code and state are required'')), w)
      else (case os_state s of
              None \<Rightarrow> (Inl (OAuthFailed ErrOAuthStateInvalid), w)
            | Some store \<Rightarrow>
                (case oss_GetDelete store (oauthStateKey (os_lib s) st) w of
                   (Inl e, w) \<Rightarrow> (Inl (OAuthFailed (Wrapped ''consume OAuth state'' e)), w)
                 | (Inr None, w) \<Rightarrow> (Inl (OAuthFailed ErrOAuthStateInvalid), w)
                 | (Inr (Some verifier), w) \<Rightarrow>
                     if verifier = '''' then (Inl (OAuthFailed ErrOAuthStateInvalid), w) else Exchange s code verifier w)))"

definition refresh_form :: "OAuthConfig \<Rightarrow> Credentials \<Rightarrow> url_values" where
  "refresh_form c credentials =
     copyValues [(''grant_type'', [''refresh_token'']), (''refresh_token'', [RefreshToken credentials]),
                 (''client_id'', [keep_text (ClientID credentials) (oc_ClientID c)])] (ExtraToken c)"

definition oauth_Refresh :: "'w OAuthService \<Rightarrow> Credentials \<Rightarrow> 'w \<Rightarrow> (oauth_error + Credentials) \<times> 'w" where
  "oauth_Refresh s credentials w =
     (if RefreshToken credentials = '''' then (Inl (OAuthFailed (ErrText ''OAuth refresh token is empty'')), w)
      else tokenRequest s (refresh_form (os_config s) credentials) credentials w)"

end
