(* ===== verification/OAuth_Refresh.thy ===== *)
theory OAuth_Refresh
  imports OAuth
begin

text \<open>
  The refresh of OAuth credentials (\<open>RefreshService\<close> of \<open>internal/upstream/oauth.go\<close>, the loop \<open>refreshOAuth\<close> of \<open>internal/app/run.go\<close>).

  \<^item> The store, the locks and the callback are optional as in the code. \<open>rs_wait\<close> is the \<open>select\<close> between the timer of 50 milliseconds and
    the end of the context, \<open>rs_tick\<close> the one between the ticker and the end of the context, \<open>rs_slot\<close> the one between a free slot and the
    end of the context (\<open>False\<close>): they may change the world, for time passes there. \<open>rs_ctxErr\<close> is \<open>ctx.Err()\<close>.
  \<^item> The loop that waits for the lock may never end, so it is a partial function into an option.
  \<^item> The goroutines of \<open>RefreshDue\<close> run one after another in the order \<open>rs_visit\<close>; the interleavings of the refreshes of one
    account are the step relation of \<open>OAuth_Steps\<close>.
  \<^item> A result is the credentials, whether the account changed, and the error.
\<close>

record OAuthRefreshUpdate =
  ru_Credentials :: "Credentials option"
  ru_Status :: AccountStatus
  ru_CooldownUntil :: "time option"
  ru_LastError :: string

record 'w OAuthCredentialStore =
  ocs_ListAccounts :: "'w \<Rightarrow> (error + Account list) \<times> 'w"
  ocs_Credentials :: "string \<Rightarrow> 'w \<Rightarrow> (error + Credentials) \<times> 'w"
  SaveOAuthRefresh :: "string \<Rightarrow> OAuthRefreshUpdate \<Rightarrow> 'w \<Rightarrow> error option \<times> 'w"

record 'w DistributedLockStore =
  lk_SetNX :: "string \<Rightarrow> string \<Rightarrow> duration \<Rightarrow> 'w \<Rightarrow> (error + bool) \<times> 'w"
  lk_CompareDelete :: "string \<Rightarrow> string \<Rightarrow> 'w \<Rightarrow> (error + bool) \<times> 'w"

record 'w RefreshService =
  rs_OAuth :: "'w OAuthService option"
  rs_Store :: "'w OAuthCredentialStore option"
  rs_Locks :: "'w DistributedLockStore option"
  Before :: duration
  rs_Concurrency :: int
  LockTTL :: duration
  FailureCooldown :: duration
  rs_Now :: "'w \<Rightarrow> time \<times> 'w"
  OnAccountsChanged :: "('w \<Rightarrow> 'w) option"
  rs_random :: "'w \<Rightarrow> string \<times> 'w"
  rs_wait :: "'w \<Rightarrow> error option \<times> 'w"
  rs_slot :: "'w \<Rightarrow> bool \<times> 'w"
  rs_tick :: "'w \<Rightarrow> error option \<times> 'w"
  rs_ctxErr :: "'w \<Rightarrow> error option"
  rs_visit :: "(string \<times> Credentials) list \<Rightarrow> (string \<times> Credentials) list"

type_synonym refresh_result = "Credentials \<times> bool \<times> error option"

section \<open>Failures\<close>

definition oauthRefreshFailureSummary :: "oauth_error \<Rightarrow> string" where
  "oauthRefreshFailureSummary cause =
     (case cause of
        OAuthFailed e \<Rightarrow>
          if errors_is e DeadlineExceeded then ''OAuth credential refresh timed out''
          else if errors_is e Canceled then ''OAuth credential refresh was canceled''
          else ''OAuth credential refresh failed''
      | OAuthHTTP status _ \<Rightarrow>
          if status = 429 then ''OAuth credential refresh was rate limited (HTTP 429)''
          else if 500 \<le> status then ''OAuth credential provider was unavailable (HTTP '' @ FormatInt status @ '')''
          else ''OAuth credential refresh was rejected (HTTP '' @ FormatInt status @ '')'')"

definition failure_update :: "'w RefreshService \<Rightarrow> time \<Rightarrow> Credentials \<Rightarrow> string \<Rightarrow> AccountStatus \<Rightarrow> OAuthRefreshUpdate" where
  "failure_update s now credentials summary successStatus =
     (if successStatus = AccountError
      then \<lparr>ru_Credentials = None, ru_Status = AccountError, ru_CooldownUntil = None, ru_LastError = summary\<rparr>
      else if cred_ExpiresAt credentials \<noteq> 0 \<and> cred_ExpiresAt credentials \<le> now
      then \<lparr>ru_Credentials = None, ru_Status = AccountExpired, ru_CooldownUntil = None, ru_LastError = summary\<rparr>
      else \<lparr>ru_Credentials = None, ru_Status = AccountCooldown,
            ru_CooldownUntil = Some (now + (if FailureCooldown s \<le> 0 then 15 * Minute else FailureCooldown s)), ru_LastError = summary\<rparr>)"

definition recordRefreshFailure :: "'w RefreshService \<Rightarrow> 'w OAuthCredentialStore \<Rightarrow> string \<Rightarrow> Credentials \<Rightarrow> oauth_error \<Rightarrow> AccountStatus \<Rightarrow> 'w
    \<Rightarrow> (bool \<times> error) \<times> 'w" where
  "recordRefreshFailure s st accountID credentials cause successStatus w =
     (let (now, w) = rs_Now s w;
          summary = oauthRefreshFailureSummary cause;
          (e, w) = SaveOAuthRefresh st accountID (failure_update s now credentials summary successStatus) w
      in case e of
           Some e \<Rightarrow> ((False, Joined [ErrText summary, Wrapped ''record OAuth refresh failure'' e]), w)
         | None \<Rightarrow> ((True, ErrText summary), w))"

section \<open>One account\<close>

definition sameOAuthCredentials :: "Credentials \<Rightarrow> Credentials \<Rightarrow> bool" where
  "sameOAuthCredentials a b \<longleftrightarrow>
     AccessToken a = AccessToken b \<and> RefreshToken a = RefreshToken b \<and> IDToken a = IDToken b \<and> TokenType a = TokenType b
     \<and> cred_ExpiresAt a = cred_ExpiresAt b \<and> ClientID a = ClientID b \<and> Scope a = Scope b \<and> SSO a = SSO b \<and> SSORW a = SSORW b
     \<and> UserID a = UserID b \<and> CFClearance a = CFClearance b \<and> UserAgent a = UserAgent b \<and> BaseURL a = BaseURL b
     \<and> cred_Email a = cred_Email b \<and> Subscription a = Subscription b \<and> Entitlement a = Entitlement b"

definition refreshLockKey :: "string \<Rightarrow> string" where "refreshLockKey accountID = ''oauth:refresh:'' @ accountID"

definition refreshLockTTL :: "'w RefreshService \<Rightarrow> duration" where
  "refreshLockTTL s = (if 0 < LockTTL s then LockTTL s else 2 * Minute)"

text \<open>Try to take the lock until it is free, an attempt fails or the context ends.\<close>

partial_function (option) lock_loop :: "'w DistributedLockStore \<Rightarrow> ('w \<Rightarrow> error option \<times> 'w) \<Rightarrow> string \<Rightarrow> string \<Rightarrow> duration \<Rightarrow> 'w \<Rightarrow> (error option \<times> 'w) option" where
  "lock_loop lk wait key owner ttl w =
     (case lk_SetNX lk key owner ttl w of
        (Inl e, w) \<Rightarrow> Some (Some (Wrapped ''acquire refresh lock'' e), w)
      | (Inr acquired, w) \<Rightarrow>
          if acquired then Some (None, w)
          else (case wait w of (Some e, w) \<Rightarrow> Some (Some e, w) | (None, w) \<Rightarrow> lock_loop lk wait key owner ttl w))"

text \<open>The credentials under the lock: \<open>Inl\<close> is a result, \<open>Inr\<close> the credentials to refresh.\<close>

definition refresh_reload :: "'w OAuthCredentialStore \<Rightarrow> string \<Rightarrow> Credentials \<Rightarrow> AccountStatus \<Rightarrow> 'w \<Rightarrow> (refresh_result + Credentials) \<times> 'w" where
  "refresh_reload st accountID initial successStatus w =
     (case ocs_Credentials st accountID w of
        (Inl e, w) \<Rightarrow> (Inl (zero_credentials, False, Some (Wrapped ''reload credentials after locking'' e)), w)
      | (Inr latest, w) \<Rightarrow>
          if sameOAuthCredentials initial latest then (Inr latest, w)
          else if successStatus \<noteq> AccountActive
          then (case SaveOAuthRefresh st accountID \<lparr>ru_Credentials = None, ru_Status = successStatus, ru_CooldownUntil = None, ru_LastError = ''''\<rparr> w of
                  (Some e, w) \<Rightarrow> (Inl (zero_credentials, False, Some (Wrapped ''preserve post-refresh account status'' e)), w)
                | (None, w) \<Rightarrow> (Inl (latest, True, None), w))
          else (Inl (latest, False, None), w))"

definition refresh_current :: "'w RefreshService \<Rightarrow> 'w OAuthService \<Rightarrow> 'w OAuthCredentialStore \<Rightarrow> string \<Rightarrow> Credentials \<Rightarrow> time \<Rightarrow> AccountStatus \<Rightarrow> 'w
    \<Rightarrow> refresh_result \<times> 'w" where
  "refresh_current s oauth st accountID current refreshBefore successStatus w =
     (if refreshBefore \<noteq> 0 \<and> refreshBefore < cred_ExpiresAt current then ((current, False, None), w)
      else (case (if RefreshToken current = '''' then (Inl (OAuthFailed (ErrText ''OAuth refresh token is empty'')), w) else oauth_Refresh oauth current w) of
              (Inl cause, w) \<Rightarrow>
                (let ((changed, e), w) = recordRefreshFailure s st accountID current cause successStatus w
                 in ((zero_credentials, changed, Some e), w))
            | (Inr updated, w) \<Rightarrow>
                (case SaveOAuthRefresh st accountID \<lparr>ru_Credentials = Some updated, ru_Status = successStatus, ru_CooldownUntil = None, ru_LastError = ''''\<rparr> w of
                   (Some e, w) \<Rightarrow> ((zero_credentials, False, Some e), w)
                 | (None, w) \<Rightarrow> ((updated, True, None), w))))"

text \<open>The deferred release of the lock.\<close>

definition refresh_unlock :: "'w DistributedLockStore \<Rightarrow> string \<Rightarrow> string \<Rightarrow> refresh_result \<times> 'w \<Rightarrow> refresh_result \<times> 'w" where
  "refresh_unlock lk key owner r =
     (case r of ((c, changed, err), w) \<Rightarrow>
        (case lk_CompareDelete lk key owner w of
           (Inl e, w) \<Rightarrow> ((c, changed, errors_join err (Some (Wrapped ''release refresh lock'' e))), w)
         | (Inr released, w) \<Rightarrow>
             ((c, changed, if released then err else errors_join err (Some (ErrText ''release refresh lock: lock ownership changed''))), w)))"

definition refresh_held :: "'w RefreshService \<Rightarrow> 'w OAuthService \<Rightarrow> 'w OAuthCredentialStore \<Rightarrow> string \<Rightarrow> Credentials \<Rightarrow> time \<Rightarrow> AccountStatus \<Rightarrow> 'w
    \<Rightarrow> refresh_result \<times> 'w" where
  "refresh_held s oauth st accountID initial refreshBefore successStatus w =
     (case refresh_reload st accountID initial successStatus w of
        (Inl r, w) \<Rightarrow> (r, w)
      | (Inr current, w) \<Rightarrow> refresh_current s oauth st accountID current refreshBefore successStatus w)"

definition refreshAccount :: "'w RefreshService \<Rightarrow> 'w OAuthService \<Rightarrow> 'w OAuthCredentialStore \<Rightarrow> string \<Rightarrow> Credentials \<Rightarrow> time \<Rightarrow> AccountStatus \<Rightarrow> 'w
    \<Rightarrow> (refresh_result \<times> 'w) option" where
  "refreshAccount s oauth st accountID initial refreshBefore successStatus w =
     (case rs_Locks s of
        None \<Rightarrow> Some (refresh_current s oauth st accountID initial refreshBefore successStatus w)
      | Some lk \<Rightarrow>
          (let (owner, w) = rs_random s w; key = refreshLockKey accountID
           in case lock_loop lk (rs_wait s) key owner (refreshLockTTL s) w of
                None \<Rightarrow> None
              | Some (Some e, w) \<Rightarrow> Some ((zero_credentials, False, Some e), w)
              | Some (None, w) \<Rightarrow> Some (refresh_unlock lk key owner (refresh_held s oauth st accountID initial refreshBefore successStatus w))))"

definition accountsChanged :: "'w RefreshService \<Rightarrow> 'w \<Rightarrow> 'w" where
  "accountsChanged s w = (case OnAccountsChanged s of None \<Rightarrow> w | Some f \<Rightarrow> f w)"

definition refreshAccountWithStatus :: "'w RefreshService \<Rightarrow> string \<Rightarrow> AccountStatus \<Rightarrow> bool \<Rightarrow> 'w \<Rightarrow> ((Credentials \<times> error option) \<times> 'w) option" where
  "refreshAccountWithStatus s accountID0 successStatus notify w =
     (case (rs_OAuth s, rs_Store s) of
        (Some oauth, Some st) \<Rightarrow>
          (let accountID = TrimSpace accountID0
           in if accountID = '''' then Some ((zero_credentials, Some (ErrText ''OAuth account ID is required'')), w)
              else (case ocs_Credentials st accountID w of
                      (Inl e, w) \<Rightarrow> Some ((zero_credentials, Some e), w)
                    | (Inr credentials, w) \<Rightarrow>
                        map_option (\<lambda>((c, changed, e), w). ((c, e), if changed \<and> notify then accountsChanged s w else w))
                          (refreshAccount s oauth st accountID credentials 0 successStatus w)))
      | _ \<Rightarrow> Some ((zero_credentials, Some (ErrText ''OAuth refresh service is incomplete'')), w))"

definition RefreshAccount :: "'w RefreshService \<Rightarrow> string \<Rightarrow> 'w \<Rightarrow> ((Credentials \<times> error option) \<times> 'w) option" where
  "RefreshAccount s accountID = refreshAccountWithStatus s accountID AccountActive True"

definition RefreshAccountForProbe :: "'w RefreshService \<Rightarrow> string \<Rightarrow> 'w \<Rightarrow> ((Credentials \<times> error option) \<times> 'w) option" where
  "RefreshAccountForProbe s accountID = refreshAccountWithStatus s accountID AccountError True"

definition RefreshAccountDeferred :: "'w RefreshService \<Rightarrow> string \<Rightarrow> 'w \<Rightarrow> ((Credentials \<times> error option) \<times> 'w) option" where
  "RefreshAccountDeferred s accountID = refreshAccountWithStatus s accountID AccountActive False"

definition RefreshAccountForProbeDeferred :: "'w RefreshService \<Rightarrow> string \<Rightarrow> 'w \<Rightarrow> ((Credentials \<times> error option) \<times> 'w) option" where
  "RefreshAccountForProbeDeferred s accountID = refreshAccountWithStatus s accountID AccountError False"

section \<open>The background pass\<close>

text \<open>What a pass has found so far: the failures, whether an account changed, and the accounts to refresh.\<close>

record due =
  failures :: "error list"
  changed :: bool
  jobs :: "(string \<times> Credentials) list"

definition due_item :: "'w OAuthCredentialStore \<Rightarrow> time \<Rightarrow> time \<Rightarrow> Account \<Rightarrow> due \<Rightarrow> 'w \<Rightarrow> due \<times> 'w" where
  "due_item st now refreshBefore a d w =
     (if Kind a \<noteq> CredentialCLIOAuth \<or> Status a = AccountDisabled \<or> Status a = AccountError
         \<or> (case CooldownUntil a of None \<Rightarrow> False | Some until \<Rightarrow> now < until) then (d, w)
      else (case ocs_Credentials st (ID a) w of
              (Inl e, w) \<Rightarrow> (d\<lparr>failures := failures d @ [Wrapped (ID a) e]\<rparr>, w)
            | (Inr credentials, w) \<Rightarrow>
                if refreshBefore < cred_ExpiresAt credentials
                then (if Status a = AccountCooldown
                      then (case SaveOAuthRefresh st (ID a) \<lparr>ru_Credentials = None, ru_Status = AccountActive, ru_CooldownUntil = None, ru_LastError = ''''\<rparr> w of
                              (Some e, w) \<Rightarrow> (d\<lparr>failures := failures d @ [Wrapped (ID a @ '': clear elapsed refresh cooldown'') e]\<rparr>, w)
                            | (None, w) \<Rightarrow> (d\<lparr>changed := True\<rparr>, w))
                      else (d, w))
                else (d\<lparr>jobs := jobs d @ [(ID a, credentials)]\<rparr>, w)))"

fun due_scan :: "'w OAuthCredentialStore \<Rightarrow> time \<Rightarrow> time \<Rightarrow> Account list \<Rightarrow> due \<Rightarrow> 'w \<Rightarrow> due \<times> 'w" where
  "due_scan st now refreshBefore [] d w = (d, w)"
| "due_scan st now refreshBefore (a # as) d w = (let (d, w) = due_item st now refreshBefore a d w in due_scan st now refreshBefore as d w)"

fun due_jobs :: "'w RefreshService \<Rightarrow> 'w OAuthService \<Rightarrow> 'w OAuthCredentialStore \<Rightarrow> time \<Rightarrow> (string \<times> Credentials) list \<Rightarrow> due \<Rightarrow> 'w \<Rightarrow> (due \<times> 'w) option" where
  "due_jobs s oauth st refreshBefore [] d w = Some (d, w)"
| "due_jobs s oauth st refreshBefore ((accountID, current) # js) d w =
     (let (free, w) = rs_slot s w
      in if \<not> free then due_jobs s oauth st refreshBefore js d w
         else (case refreshAccount s oauth st accountID current refreshBefore AccountActive w of
                 None \<Rightarrow> None
               | Some ((_, accountChanged, e), w) \<Rightarrow>
                   (let d = (if accountChanged then d\<lparr>changed := True\<rparr> else d);
                        d = (case e of None \<Rightarrow> d | Some e \<Rightarrow> d\<lparr>failures := failures d @ [Wrapped accountID e]\<rparr>)
                    in due_jobs s oauth st refreshBefore js d w)))"

definition RefreshDue :: "'w RefreshService \<Rightarrow> 'w \<Rightarrow> (error option \<times> 'w) option" where
  "RefreshDue s w =
     (case (rs_OAuth s, rs_Store s) of
        (Some oauth, Some st) \<Rightarrow>
          (case ocs_ListAccounts st w of
             (Inl e, w) \<Rightarrow> Some (Some e, w)
           | (Inr items, w) \<Rightarrow>
               (let (now, w) = rs_Now s w;
                    refreshBefore = now + (if Before s \<le> 0 then 30 * Minute else Before s);
                    (d, w) = due_scan st now refreshBefore items \<lparr>failures = [], changed = False, jobs = []\<rparr> w
                in case due_jobs s oauth st refreshBefore (rs_visit s (jobs d)) d w of
                     None \<Rightarrow> None
                   | Some (d, w) \<Rightarrow>
                       (let w = (if changed d then accountsChanged s w else w)
                        in Some (if failures d = [] then None else Some (Joined (failures d)), w))))
      | _ \<Rightarrow> Some (Some (ErrText ''OAuth refresh service is incomplete''), w))"

text \<open>\<open>Run\<close> stops at the first failed pass, \<open>refreshOAuth\<close> logs it and goes on.\<close>

partial_function (option) refresh_run :: "'w RefreshService \<Rightarrow> 'w \<Rightarrow> (error option \<times> 'w) option" where
  "refresh_run s w =
     (case RefreshDue s w of
        None \<Rightarrow> None
      | Some (e, w) \<Rightarrow>
          if e \<noteq> None \<and> rs_ctxErr s w = None then Some (e, w)
          else (case rs_tick s w of (Some e, w) \<Rightarrow> Some (Some e, w) | (None, w) \<Rightarrow> refresh_run s w))"

partial_function (option) refreshOAuth :: "'w RefreshService \<Rightarrow> ('w \<Rightarrow> 'w) \<Rightarrow> 'w \<Rightarrow> 'w option" where
  "refreshOAuth s warn w =
     (case RefreshDue s w of
        None \<Rightarrow> None
      | Some (e, w) \<Rightarrow>
          (let w = (if e \<noteq> None \<and> rs_ctxErr s w = None then warn w else w)
           in case rs_tick s w of (Some e, w) \<Rightarrow> Some w | (None, w) \<Rightarrow> refreshOAuth s warn w))"

end
