(* ===== verification/App_Adapters.thy ===== *)
theory App_Adapters
  imports Management OAuth_Refresh Account_Pool
begin

text \<open>
  The adapters that put the database under the pool, the refresh service and the gateway (\<open>internal/app/adapters.go\<close>).

  \<^item> \<open>aa_Runtime\<close> is the method \<open>UpdateAccountRuntime\<close> of the repository, when it has one.
  \<^item> A listing reads pages until one is short. \<open>budget\<close> is the number of queries the context lets through: the next one fails with the
    error of the context.
  \<^item> \<open>adapter_store\<close> is the adapter as the pool's store, \<open>adapter_credentials\<close> the adapter as the store of the refresh service.
\<close>

record 'w AccountStoreAdapter =
  aa_Repository :: "'w AccountRepository option"
  aa_Runtime :: "(Account \<Rightarrow> 'w \<Rightarrow> (error + Account) \<times> 'w) option"
  aa_Management :: "'w ManagementService option"
  OnAccountActivated :: "(string \<Rightarrow> 'w \<Rightarrow> 'w) option"

definition page_size :: int where "page_size = 500"

text \<open>\<open>for offset := 0; ; offset += pageSize\<close> over a listing.\<close>

fun list_pages :: "(Pagination \<Rightarrow> 'w \<Rightarrow> (error + 'a list) \<times> 'w) \<Rightarrow> nat \<Rightarrow> int \<Rightarrow> 'a list \<Rightarrow> 'w \<Rightarrow> (error + 'a list) \<times> 'w" where
  "list_pages query 0 offset result w = (Inl Canceled, w)"
| "list_pages query (Suc budget) offset result w =
     try_do (query \<lparr>Limit = page_size, Offset = offset\<rparr> w) (\<lambda>items w.
       if int (length items) < page_size then (Inr (result @ items), w)
       else list_pages query budget (offset + page_size) (result @ items) w)"

definition any_account :: "Pagination \<Rightarrow> AccountFilter" where
  "any_account p = \<lparr>af_Pagination = p, af_Kind = None, af_Status = None, af_Tier = '''', af_ProxyID = None, af_Model = '''', af_Query = ''''\<rparr>"

definition adapter_ListAccounts :: "nat \<Rightarrow> 'w AccountStoreAdapter \<Rightarrow> 'w \<Rightarrow> (error + Account list) \<times> 'w" where
  "adapter_ListAccounts budget a w =
     (case aa_Repository a of
        None \<Rightarrow> (Inl (ErrText ''account repository is not configured''), w)
      | Some r \<Rightarrow> list_pages (\<lambda>p. rp_ListAccounts r (any_account p)) budget 0 [] w)"

definition adapter_Credentials :: "'w AccountStoreAdapter \<Rightarrow> string \<Rightarrow> 'w \<Rightarrow> (error + Credentials) \<times> 'w" where
  "adapter_Credentials a uid w =
     (case aa_Management a of
        None \<Rightarrow> (Inl (ErrText ''account management is not configured''), w)
      | Some s \<Rightarrow> GetAccountCredentials s uid w)"

text \<open>The updated copy of the account is dropped; the error is the result.\<close>

definition error_of :: "(error + 'a) \<times> 'w \<Rightarrow> error option \<times> 'w" where
  "error_of r = (case r of (Inl e, w) \<Rightarrow> (Some e, w) | (Inr _, w) \<Rightarrow> (None, w))"

definition adapter_UpdateAccount :: "'w AccountStoreAdapter \<Rightarrow> Account \<Rightarrow> 'w \<Rightarrow> error option \<times> 'w" where
  "adapter_UpdateAccount a acc w =
     (case aa_Repository a of
        None \<Rightarrow> (Some (ErrText ''account repository is not configured''), w)
      | Some r \<Rightarrow> (case aa_Runtime a of Some f \<Rightarrow> error_of (f acc w) | None \<Rightarrow> error_of (rp_UpdateAccount r acc w)))"

definition refresh_patch :: "OAuthRefreshUpdate \<Rightarrow> UpdateAccountInput" where
  "refresh_patch u =
     \<lparr>ua_Name = None, ua_Kind = None, ua_Tier = None, ua_Status = Some (ru_Status u), ua_Email = None, ua_Credentials = ru_Credentials u,
      ua_ProxyID = None, ua_Models = None, ua_Tags = None, ua_Priority = None, ua_ConcurrencyLimit = None, ua_Quota = None,
      ua_CooldownUntil = Some (ru_CooldownUntil u), ua_LastError = Some (ru_LastError u)\<rparr>"

definition adapter_SaveOAuthRefresh :: "'w AccountStoreAdapter \<Rightarrow> string \<Rightarrow> OAuthRefreshUpdate \<Rightarrow> 'w \<Rightarrow> error option \<times> 'w" where
  "adapter_SaveOAuthRefresh a uid u w =
     (case aa_Management a of
        None \<Rightarrow> (Some (ErrText ''account management is not configured''), w)
      | Some s \<Rightarrow>
          (let (e, w) = error_of (mg_UpdateAccount s uid (refresh_patch u) w)
           in (e, if e = None \<and> ru_Status u = AccountActive \<and> ru_CooldownUntil u = None
                  then (case OnAccountActivated a of None \<Rightarrow> w | Some f \<Rightarrow> f uid w) else w)))"

definition adapter_store :: "nat \<Rightarrow> 'w AccountStoreAdapter \<Rightarrow> 'w Store" where
  "adapter_store budget a =
     \<lparr>ListAccounts = adapter_ListAccounts budget a, store_Credentials = adapter_Credentials a, UpdateAccount = adapter_UpdateAccount a\<rparr>"

definition adapter_credentials :: "nat \<Rightarrow> 'w AccountStoreAdapter \<Rightarrow> 'w OAuthCredentialStore" where
  "adapter_credentials budget a =
     \<lparr>ocs_ListAccounts = adapter_ListAccounts budget a, ocs_Credentials = adapter_Credentials a, SaveOAuthRefresh = adapter_SaveOAuthRefresh a\<rparr>"

text \<open>The wiring of \<open>Run\<close>: the database is the repository, and it has the method for health feedback. The callback is set once the pool exists.\<close>

definition postgres_adapter :: "'z AccountDB \<Rightarrow> 'z AccountTables_scheme ManagementService \<Rightarrow> 'z AccountTables_scheme AccountStoreAdapter" where
  "postgres_adapter db s =
     \<lparr>aa_Repository = Some (accounts_repository db), aa_Runtime = Some (\<lambda>a. UpdateAccountRuntime db (Some a)), aa_Management = Some s,
      OnAccountActivated = None\<rparr>"

section \<open>Models\<close>

text \<open>\<open>ModelSourceAdapter\<close>; \<open>ErrModelNotFound\<close> is the gateway's.\<close>

definition ErrModelNotFound :: error where "ErrModelNotFound = ErrText ''model not found''"

definition enabled_models :: "Pagination \<Rightarrow> ModelFilter" where
  "enabled_models p = \<lparr>mf_Pagination = p, mf_Capability = None, mf_Enabled = Some True, mf_Query = ''''\<rparr>"

definition source_ListModels :: "nat \<Rightarrow> 'w ModelRepository option \<Rightarrow> 'w \<Rightarrow> (error + ModelSpec list) \<times> 'w" where
  "source_ListModels budget repository w =
     (case repository of
        None \<Rightarrow> (Inl (ErrText ''model repository is not configured''), w)
      | Some r \<Rightarrow> list_pages (\<lambda>p. rp_ListModels r (enabled_models p)) budget 0 [] w)"

definition named_model :: "(string \<Rightarrow> string \<Rightarrow> bool) \<Rightarrow> string \<Rightarrow> ModelSpec \<Rightarrow> bool" where
  "named_model eqf name m \<longleftrightarrow> eqf (model_ID m) name \<or> eqf (UpstreamModel m) name \<or> list_ex (\<lambda>a. eqf a name) (Aliases m)"

definition source_ResolveModel :: "nat \<Rightarrow> (string \<Rightarrow> string \<Rightarrow> bool) \<Rightarrow> 'w ModelRepository \<Rightarrow> string \<Rightarrow> 'w \<Rightarrow> (error + ModelSpec) \<times> 'w" where
  "source_ResolveModel budget eqf r name0 w =
     (let name = TrimSpace name0
      in if name = '''' then (Inl ErrModelNotFound, w)
         else (case rp_GetModel r name w of
                 (Inr m, w) \<Rightarrow> (if Enabled m then Inr m else Inl ErrModelNotFound, w)
               | (Inl _, w) \<Rightarrow>
                   try_do (source_ListModels budget (Some r) w) (\<lambda>ms w.
                     (case find (named_model eqf name) ms of None \<Rightarrow> Inl ErrModelNotFound | Some m \<Rightarrow> Inr m, w))))"

end
