(* ===== verification/Adapter_Laws.thy ===== *)
theory Adapter_Laws
  imports App_Adapters Table_Laws
begin

text \<open>
  What the account pool may do to the database through its adapter: the columns that health feedback may change, the relation between the
  tables before and after, and that every call a release makes keeps it.
\<close>

section \<open>What feedback leaves alone\<close>

text \<open>The columns of the administrator: the row without what feedback may change.\<close>

definition admin_part :: "Account \<Rightarrow> Account" where
  "admin_part a = a\<lparr>Status := AccountActive, HealthScore := 0, FailureCount := 0, Quota := zero_quota, CooldownUntil := None,
                    LastUsedAt := None, LastError := '''', UpdatedAt := 0\<rparr>"

text \<open>A cooldown that still runs.\<close>

definition cooling :: "time \<Rightarrow> Account \<Rightarrow> bool" where
  "cooling now a \<longleftrightarrow> Status a = AccountCooldown \<and> (case CooldownUntil a of None \<Rightarrow> False | Some t \<Rightarrow> now < t)"

definition row_respects :: "time \<Rightarrow> Account \<Rightarrow> Account \<Rightarrow> bool" where
  "row_respects now a b \<longleftrightarrow>
     admin_part b = admin_part a \<and>
     (taken_out a \<longrightarrow> Status b = Status a \<and> CooldownUntil b = CooldownUntil a \<and> LastError b = LastError a) \<and>
     (cooling now a \<longrightarrow> taken_out b \<or> cooling now b \<and> the (CooldownUntil a) \<le> the (CooldownUntil b))"

definition respected :: "'z AccountTables_scheme \<Rightarrow> 'z AccountTables_scheme \<Rightarrow> bool" where
  "respected w w' \<longleftrightarrow> (distinct (map ID (tb_accounts w)) \<longrightarrow>
     tb_clock w \<le> tb_clock w' \<and> tb_proxies w' = tb_proxies w \<and> tb_models w' = tb_models w \<and> tb_keys w' = tb_keys w
     \<and> list_all2 (row_respects (tb_clock w')) (tb_accounts w) (tb_accounts w'))"

lemma row_respects_refl: "row_respects now a a"
  by (auto simp: row_respects_def)

lemma cooling_earlier: "cooling now a \<Longrightarrow> now' \<le> now \<Longrightarrow> cooling now' a"
  by (auto simp: cooling_def split: option.splits)

lemma row_respects_trans:
  assumes "row_respects now a b" "row_respects now' b c" "now \<le> now'"
  shows "row_respects now' a c"
proof -
  have "taken_out c \<or> cooling now' c \<and> the (CooldownUntil a) \<le> the (CooldownUntil c)" if c: "cooling now' a"
  proof -
    have "taken_out b \<or> cooling now b \<and> the (CooldownUntil a) \<le> the (CooldownUntil b)"
      using assms(1) cooling_earlier [OF c assms(3)] by (simp add: row_respects_def)
    then show ?thesis
    proof
      assume "taken_out b"
      with assms(2) show ?thesis by (auto simp: row_respects_def taken_out_def)
    next
      assume b: "cooling now b \<and> the (CooldownUntil a) \<le> the (CooldownUntil b)"
      then have "cooling now' b" using c by (auto simp: cooling_def split: option.splits)
      with b assms(2) show ?thesis by (auto simp: row_respects_def)
    qed
  qed
  moreover have "taken_out a \<Longrightarrow> taken_out b" using assms(1) by (auto simp: row_respects_def taken_out_def)
  ultimately show ?thesis using assms(1,2) by (auto simp: row_respects_def)
qed

lemma admin_part_ID: "ID (admin_part a) = ID a"
  by (simp add: admin_part_def)

lemma row_respects_ID: "row_respects now a b \<Longrightarrow> ID b = ID a"
  using admin_part_ID [of a] admin_part_ID [of b] by (simp add: row_respects_def)

lemma respected_refl: "respected w w"
  by (simp add: respected_def list_all2_refl row_respects_refl)

lemma respected_ids: "list_all2 (row_respects now) xs ys \<Longrightarrow> map ID ys = map ID xs"
  by (induction xs ys rule: list_all2_induct) (auto dest: row_respects_ID)

lemma respects_admin: "list_all2 (row_respects now) xs ys \<Longrightarrow> map admin_part ys = map admin_part xs"
  by (induction xs ys rule: list_all2_induct) (auto simp: row_respects_def)

lemma respected_trans:
  assumes "respected w w1" "respected w1 w2"
  shows "respected w w2"
proof (unfold respected_def, intro impI)
  assume "distinct (map ID (tb_accounts w))"
  with assms(1) have a: "tb_clock w \<le> tb_clock w1" "tb_proxies w1 = tb_proxies w" "tb_models w1 = tb_models w" "tb_keys w1 = tb_keys w"
    "list_all2 (row_respects (tb_clock w1)) (tb_accounts w) (tb_accounts w1)" "distinct (map ID (tb_accounts w1))"
    by (auto simp: respected_def respected_ids)
  with assms(2) have b: "tb_clock w1 \<le> tb_clock w2" "tb_proxies w2 = tb_proxies w1" "tb_models w2 = tb_models w1" "tb_keys w2 = tb_keys w1"
    "list_all2 (row_respects (tb_clock w2)) (tb_accounts w1) (tb_accounts w2)"
    by (auto simp: respected_def)
  have "list_all2 (row_respects (tb_clock w2)) (tb_accounts w) (tb_accounts w2)"
    using row_respects_trans [OF _ _ b(1)] a(5) b(5) by (rule list_all2_trans)
  with a b show "tb_clock w \<le> tb_clock w2 \<and> tb_proxies w2 = tb_proxies w \<and> tb_models w2 = tb_models w \<and> tb_keys w2 = tb_keys w
     \<and> list_all2 (row_respects (tb_clock w2)) (tb_accounts w) (tb_accounts w2)" by simp
qed

lemma respected_quiet: "tables_of w' = tables_of w \<Longrightarrow> tb_clock w \<le> tb_clock w' \<Longrightarrow> respected w w'"
  by (simp add: respected_def tables_of_def list_all2_refl row_respects_refl)

section \<open>Health feedback\<close>

lemma runtime_row_respects: "row_respects now old (runtime_row now fb old)"
proof -
  have "admin_part (runtime_row now fb old) = admin_part old" by (simp add: admin_part_def runtime_row_def Let_def)
  moreover have "taken_out old \<Longrightarrow> Status (runtime_row now fb old) = Status old \<and> CooldownUntil (runtime_row now fb old) = CooldownUntil old
      \<and> LastError (runtime_row now fb old) = LastError old"
    by (simp add: runtime_row_def Let_def)
  moreover have "taken_out (runtime_row now fb old) \<or> cooling now (runtime_row now fb old) \<and> the (CooldownUntil old) \<le> the (CooldownUntil (runtime_row now fb old))"
    if c: "cooling now old"
  proof (cases "other_credential fb old \<or> Status fb = AccountActive")
    case True
    with c have "Status (runtime_row now fb old) = Status old" "CooldownUntil (runtime_row now fb old) = CooldownUntil old"
      by (auto simp: runtime_row_def Let_def cooling_def held_back_def)
    with c show ?thesis by (simp add: cooling_def)
  next
    case False
    then have s: "Status (runtime_row now fb old) = Status fb" "CooldownUntil (runtime_row now fb old) = runtime_cooldown fb old"
      using c by (auto simp: runtime_row_def Let_def cooling_def held_back_def taken_out_def)
    show ?thesis
    proof (cases "Status fb = AccountCooldown")
      case True
      with s c show ?thesis by (auto simp: cooling_def runtime_cooldown_def split: option.splits)
    next
      case f: False
      with False have "Status fb = AccountExpired \<or> Status fb = AccountDisabled \<or> Status fb = AccountError" by (cases "Status fb") auto
      with s show ?thesis by (auto simp: taken_out_def)
    qed
  qed
  ultimately show ?thesis by (simp add: row_respects_def)
qed

text \<open>The one row a put changes.\<close>

lemma find_distinct: "distinct (map ID xs) \<Longrightarrow> find (\<lambda>a. ID a = k) xs = Some old \<Longrightarrow> a \<in> set xs \<Longrightarrow> ID a = k \<Longrightarrow> a = old"
  by (induction xs) (auto split: if_splits simp: find_Some_iff dest: nth_mem)

lemma put_respected:
  assumes "find (\<lambda>a. ID a = ID row) (tb_accounts w) = Some old" "row_respects (tb_clock w) old row" "put_account row w = (r, w')"
  shows "respected w w'"
proof (unfold respected_def, intro impI)
  assume d: "distinct (map ID (tb_accounts w))"
  have "list_all2 (row_respects (tb_clock w)) xs (map (\<lambda>a. if ID a = ID row then row else a) xs)" if "set xs \<subseteq> set (tb_accounts w)" for xs
    using that find_distinct [OF d assms(1)] assms(2) by (induction xs) (auto simp: row_respects_refl)
  with put_account_cases [OF assms(3)] show "tb_clock w \<le> tb_clock w' \<and> tb_proxies w' = tb_proxies w \<and> tb_models w' = tb_models w
      \<and> tb_keys w' = tb_keys w \<and> list_all2 (row_respects (tb_clock w')) (tb_accounts w) (tb_accounts w')"
    by (auto simp: list_all2_refl row_respects_refl)
qed

lemma trip_respected:
  assumes "db_quiet db" "\<And>w. respected w (snd (f w))"
  shows "respected w (snd (ad_trip db call f w))"
proof -
  obtain e w1 where t: "ad_fault db call w = (e, w1)" by (cases "ad_fault db call w")
  then have "respected w w1" using assms(1) unfolding db_quiet_def by (metis respected_quiet snd_conv)
  with t assms(2) show ?thesis by (cases e) (auto simp: ad_trip_def intro: respected_trans)
qed

lemma runtime_statement_respected:
  "respected w (snd (case find (\<lambda>a. ID a = ID acc) (tb_accounts w) of
      None \<Rightarrow> (Inl ErrNotFound, w)
    | Some old \<Rightarrow> try_do (put_account (runtime_row (tb_clock w) acc old) w) (\<lambda>row w. (Inr (acc\<lparr>UpdatedAt := UpdatedAt row\<rparr>), w))))"
proof (cases "find (\<lambda>a. ID a = ID acc) (tb_accounts w)")
  case None
  then show ?thesis by (simp add: respected_refl)
next
  case (Some old)
  have i: "ID old = ID acc" using Some by (auto simp: find_Some_iff)
  obtain r w1 where p: "put_account (runtime_row (tb_clock w) acc old) w = (r, w1)" by (cases "put_account (runtime_row (tb_clock w) acc old) w")
  have "ID (runtime_row (tb_clock w) acc old) = ID acc" using i by (simp add: runtime_row_def Let_def)
  with Some have "respected w w1" by (intro put_respected [OF _ runtime_row_respects p]) simp
  with Some p show ?thesis by (cases r) simp_all
qed

lemma UpdateAccountRuntime_respected: "db_quiet db \<Longrightarrow> respected w (snd (UpdateAccountRuntime db acc w))"
  unfolding UpdateAccountRuntime_def
  by (cases acc) (auto simp: respected_refl split: option.split intro!: trip_respected runtime_statement_respected)

section \<open>The adapter\<close>

lemma list_pages_respected:
  assumes "\<And>p w. respected w (snd (query p w))"
  shows "respected w (snd (list_pages query budget offset result w))"
proof (induction budget arbitrary: offset result w)
  case (Suc budget)
  obtain r w1 where q: "query \<lparr>Limit = page_size, Offset = offset\<rparr> w = (r, w1)" by (cases "query \<lparr>Limit = page_size, Offset = offset\<rparr> w")
  then have "respected w w1" using assms by (metis snd_conv)
  with q Suc show ?case by (cases r) (auto intro: respected_trans)
qed (simp add: respected_refl)

lemma store_ListAccounts_respected: "db_quiet db \<Longrightarrow> respected w (snd (store_ListAccounts db f w))"
  unfolding store_ListAccounts_def by (simp add: trip_respected respected_refl)

lemma error_of_snd [simp]: "snd (error_of r) = snd r"
  by (simp add: error_of_def split: prod.split sum.split)

lemma postgres_store_respected:
  assumes "db_quiet db"
  shows "respected w (snd (ListAccounts (adapter_store budget (postgres_adapter db s)) w))"
    and "respected w (snd (UpdateAccount (adapter_store budget (postgres_adapter db s)) acc w))"
  using assms
  by (auto simp: adapter_store_def adapter_ListAccounts_def adapter_UpdateAccount_def postgres_adapter_def accounts_repository_def
      intro!: list_pages_respected store_ListAccounts_respected UpdateAccountRuntime_respected)

section \<open>What a release does to the world\<close>

text \<open>The calls a release makes besides those on the store.\<close>

definition calls_keep :: "('w \<Rightarrow> 'w \<Rightarrow> bool) \<Rightarrow> 'w Deps \<Rightarrow> bool" where
  "calls_keep R d \<longleftrightarrow>
     (\<forall>w. R w (snd (now_fn d w))) \<and>
     (case notifier d of None \<Rightarrow> True | Some f \<Rightarrow> \<forall>w. R w (snd (f w))) \<and>
     (case coordinator d of
        None \<Rightarrow> True
      | Some c \<Rightarrow> (\<forall>k t w. R w (snd (SetCooldown c k t w))) \<and> (\<forall>m k a w. R w (snd (ClearAffinity c m k a w)))
          \<and> (\<forall>l w. R w (snd (ReleaseLease c l w))))"

definition store_keeps :: "('w \<Rightarrow> 'w \<Rightarrow> bool) \<Rightarrow> 'w Store \<Rightarrow> bool" where
  "store_keeps R st \<longleftrightarrow> (\<forall>w. R w (snd (ListAccounts st w))) \<and> (\<forall>a w. R w (snd (UpdateAccount st a w)))"

definition deps_keep :: "('w \<Rightarrow> 'w \<Rightarrow> bool) \<Rightarrow> 'w Deps \<Rightarrow> bool" where
  "deps_keep R d \<longleftrightarrow> (\<forall>w. R w w) \<and> (\<forall>u v w. R u v \<longrightarrow> R v w \<longrightarrow> R u w) \<and> calls_keep R d \<and> store_keeps R (dep_store d)"

lemma deps_keepD:
  assumes "deps_keep R d"
  shows "R w w" "R u v \<Longrightarrow> R v w \<Longrightarrow> R u w" "calls_keep R d" "store_keeps R (dep_store d)"
  using assms unfolding deps_keep_def by blast+

lemma publish_kept:
  assumes "deps_keep R d"
  shows "R w (snd (publish_unavailable d lease until clear w))"
proof (cases "coordinator d")
  case None
  then show ?thesis by (simp add: publish_unavailable_def deps_keepD(1) [OF assms])
next
  case (Some c)
  have k: "R w (snd (SetCooldown c k t w))" "R w (snd (ClearAffinity c m k a w))" for k t m a w
    using deps_keepD(3) [OF assms] Some by (simp_all add: calls_keep_def)
  show ?thesis
  proof (cases until)
    case None
    with Some k show ?thesis by (simp add: publish_unavailable_def Let_def case_prod_beta' deps_keepD(1) [OF assms])
  next
    case u: (Some t)
    with Some k(1) deps_keepD(2) [OF assms k(1) k(2)] show ?thesis by (simp add: publish_unavailable_def Let_def case_prod_beta')
  qed
qed

lemma coordination_kept: "deps_keep R d \<Longrightarrow> R w (snd (release_coordination d lease r w))"
  using deps_keepD(1,3) [of R d] by (auto simp: release_coordination_def calls_keep_def case_prod_beta' Let_def refl split: option.split)

lemma persist_kept:
  assumes "deps_keep R d"
  shows "R w (snd (snd (persist_account d c acc publish result p w)))"
proof -
  note refl = deps_keepD(1) [OF assms] and trans = deps_keepD(2) [OF assms] and calls = deps_keepD(3) [OF assms] and store = deps_keepD(4) [OF assms]
  obtain ue w1 where u: "UpdateAccount (dep_store d) acc w = (ue, w1)" by (cases "UpdateAccount (dep_store d) acc w")
  then have 1: "R w w1" using store unfolding store_keeps_def by (metis snd_conv)
  obtain re p2 w2 where r: "Reload d c p w1 = (re, p2, w2)" by (rule prod_cases3)
  have "w2 = w1 \<or> w2 = snd (ListAccounts (dep_store d) w1)"
    using r by (auto simp: Reload_def case_prod_beta' Let_def split: option.splits sum.splits)
  then have 2: "R w1 w2" using store refl unfolding store_keeps_def by metis
  have n: "R w2 (snd (f w2))" if "notifier d = Some f" for f using calls that by (simp add: calls_keep_def)
  show ?thesis using 1 trans [OF 1 2] n trans [OF trans [OF 1 2]] u r
    by (auto simp: persist_account_def case_prod_beta' Let_def split: option.split)
qed

lemma release_kept:
  assumes "deps_keep R d" and "release d c lease fb p w = (r, q, w')"
  shows "R w w'"
proof -
  note trans = deps_keepD(2) [OF assms(1)] and calls = deps_keepD(3) [OF assms(1)]
  note publish_kept = publish_kept [OF assms(1)] and coordination_kept = coordination_kept [OF assms(1)] and persist_kept = persist_kept [OF assms(1)]
  obtain now w1 where n: "now_fn d w = (now, w1)" by (cases "now_fn d w")
  then have 1: "R w w1" using calls unfolding calls_keep_def by (metis snd_conv)
  have pc: "R v (snd (release_coordination d lease x (snd (publish_unavailable d lease u b v))))" for v x u b
    using publish_kept coordination_kept by (rule trans)
  have fin: "R v (snd (snd (release_finish d c lease e p v)))" for v e p
  proof -
    let ?a = "publish_unavailable d lease (if eff_cooldownUntil e = 0 then None else Some (eff_cooldownUntil e)) (eff_invalidate e) v"
    let ?b = "persist_account d c (account (eff_state e)) (eff_publish e) (fst ?a) p (snd ?a)"
    have "R v (snd (snd ?b))" using publish_kept persist_kept by (rule trans)
    with coordination_kept have "R v (snd (release_coordination d lease (fst ?b) (snd (snd ?b))))" by (blast intro: trans)
    then show ?thesis using pc by (simp add: release_finish_def Let_def case_prod_beta')
  qed
  have stale: "R v (snd (snd (release_stale d lease t s p v)))" for v t s p
    using pc coordination_kept by (simp add: release_stale_def Let_def case_prod_beta')
  show ?thesis
  proof (cases "map_of (states p) (ID (lease_Account lease))")
    case None
    with assms(2) n have "w' = snd (release_coordination d lease (fst (publish_unavailable d lease None True w1)) (snd (publish_unavailable d lease None True w1)))"
      by (simp add: release_def Let_def case_prod_beta')
    with trans [OF 1 pc] show ?thesis by simp
  next
    case (Some s0)
    show ?thesis
    proof (cases "lease_matches (account (decrement s0)) (lease_Account lease)")
      case True
      with assms(2) n Some show ?thesis using trans [OF 1 fin] by (auto simp: release_def Let_def) (metis snd_conv)+
    next
      case False
      with assms(2) n Some show ?thesis using trans [OF 1 stale] by (auto simp: release_def Let_def) (metis snd_conv)
    qed
  qed
qed

end
