(* ===== verification/Table_Properties.thy ===== *)
theory Table_Properties
  imports Adapter_Laws Memory_Store
begin

text \<open>
  The properties of the account tables: they stay consistent, health feedback of the pool respects what administrators decide, and the pool's
  listing is complete when the order of its pages is determined, and may lose an account when it is not.
\<close>

section \<open>A connection without faults\<close>

definition calm_db :: "unit AccountDB" where
  "calm_db =
     \<lparr>ad_fault = (\<lambda>_ w. (None, w)), ad_random = (\<lambda>n w. (Inr (replicate n (CHR ''r'')), w)), ad_perm = (\<lambda>_ n. [0..<n]), ad_lower = ToLower,
      ad_ilike = Contains, ad_jsontext = concat, ad_encode = (\<lambda>_. ErrText ''out of range''), ad_timeNow = tb_clock\<rparr>"

lemma calm_quiet: "db_quiet calm_db"
  by (simp add: db_quiet_def calm_db_def)

definition table_sample :: "Account list \<Rightarrow> AccountTables" where
  "table_sample accs = \<lparr>tb_accounts = accs, tb_proxies = [], tb_models = [], tb_keys = [], tb_clock = 100\<rparr>"

section \<open>Consistency\<close>

lemma run_keeps: "db_quiet db \<Longrightarrow> tables_ok w \<Longrightarrow> tables_ok (table_run db ops w)"
  unfolding table_run_def by (induction ops arbitrary: w) (simp_all add: step_keeps quiet_sound)

text \<open>C19: The tables of accounts, proxies, models and client keys stay consistent under every history of the repository's operations: IDs, digests
  and credential fingerprints stay unique, limits and health stay in range, and every account's proxy exists. An operation that fails, at any
  point of its transaction, leaves every table as it was.\<close>

theorem table_operations_consistent:
  assumes "db_quiet db" "tables_ok w"
  shows "tables_ok (table_run db ops w) \<and>
    (if fst (table_step db op (table_run db ops w)) then True
     else tables_of (snd (table_step db op (table_run db ops w))) = tables_of (table_run db ops w))"
  using run_keeps [OF assms] step_atomic [OF assms(1)] by simp

section \<open>Feedback and administrators\<close>

text \<open>C20: Whatever feedback a lease is released with, and whatever the pool believes, the release over the database leaves the administrator's
  columns of every account as they are (credentials, proxy, priority, limits, models and tags among them), never brings back an account that is
  disabled, expired or in error, and never ends or shortens a cooldown that still runs.\<close>

theorem release_respects_administrator:
  assumes "db_quiet db" "calls_keep respected d" "dep_store d = adapter_store budget (postgres_adapter db s)"
    and "distinct (map ID (tb_accounts w))" "Release d c lease fb p w = (r, lease', q, w')"
  shows "map admin_part (tb_accounts w') = map admin_part (tb_accounts w) \<and>
         list_all2 (\<lambda>a b. (taken_out a \<longrightarrow> Status b = Status a) \<and>
           (cooling (tb_clock w') a \<longrightarrow> taken_out b \<or> cooling (tb_clock w') b \<and> the (CooldownUntil a) \<le> the (CooldownUntil b)))
         (tb_accounts w) (tb_accounts w')"
proof -
  have "store_keeps respected (dep_store d)"
    unfolding assms(3) store_keeps_def using postgres_store_respected [OF assms(1)] by blast
  with assms(2) have k: "deps_keep respected d" by (auto simp: deps_keep_def respected_refl intro: respected_trans)
  have "respected w w'"
  proof (cases "once_done lease")
    case True
    with assms(5) show ?thesis by (simp add: Release_def respected_refl)
  next
    case False
    with assms(5) have "release d c lease fb p w = (r, q, w')" by (auto simp: Release_def case_prod_beta' Let_def prod_eq_iff)
    then show ?thesis by (rule release_kept [OF k])
  qed
  with assms(4) have l: "list_all2 (row_respects (tb_clock w')) (tb_accounts w) (tb_accounts w')" by (simp add: respected_def)
  then have "map admin_part (tb_accounts w') = map admin_part (tb_accounts w)" by (rule respects_admin)
  moreover have "list_all2 (\<lambda>a b. (taken_out a \<longrightarrow> Status b = Status a) \<and>
           (cooling (tb_clock w') a \<longrightarrow> taken_out b \<or> cooling (tb_clock w') b \<and> the (CooldownUntil a) \<le> the (CooldownUntil b)))
         (tb_accounts w) (tb_accounts w')"
    by (rule list_all2_mono [OF l]) (simp add: row_respects_def)
  ultimately show ?thesis ..
qed

section \<open>Complete listings\<close>

lemma sort_two_keys:
  fixes f :: "'a \<Rightarrow> 'b :: linorder" and g :: "'a \<Rightarrow> 'c :: linorder"
  assumes "mset xs = mset ys" "inj_on (\<lambda>x. (f x, g x)) (set ys)"
  shows "sort_key f (sort_key g xs) = sort_key f (sort_key g ys)"
proof (rule properties_for_sort_key)
  show "mset (sort_key f (sort_key g ys)) = mset (sort_key g xs)" using assms(1) by simp
  show "sorted (map f (sort_key f (sort_key g ys)))" by simp
  fix k
  assume "k \<in> set (sort_key f (sort_key g ys))"
  let ?P = "\<lambda>x. f k = f x"
  have "mset (filter ?P xs) = mset (sort_key g (filter ?P ys))" using assms(1) by simp
  moreover have "inj_on g (set (filter ?P xs))" using assms(2) mset_eq_setD [OF assms(1)] by (auto simp: inj_on_def)
  ultimately have "sort_key g (filter ?P xs) = sort_key g (filter ?P ys)"
    by (intro sort_key_inj_key_eq) simp_all
  then have "filter ?P (sort_key g ys) = filter ?P (sort_key g xs)" by (simp only: filter_sort)
  moreover have "?P = (\<lambda>x. f x = f k)" by auto
  ultimately show "filter ?P (sort_key f (sort_key g ys)) = filter ?P (sort_key g xs)" by (simp only: sort_key_stable)
qed

lemma account_order_determined:
  assumes "mset xs = mset ys" "distinct (map (\<lambda>a. (Priority a, CreatedAt a)) ys)"
  shows "account_order xs = account_order ys"
proof -
  have "inj_on (\<lambda>a. (Priority a, CreatedAt a)) (set ys)" using assms(2) by (simp add: distinct_map)
  then have "inj_on (\<lambda>a. (- Priority a, CreatedAt a)) (set ys)" by (auto simp: inj_on_def)
  with assms(1) show ?thesis unfolding account_order_def by (rule sort_two_keys)
qed

text \<open>A connection whose scans give every row once.\<close>

definition scans_all :: "'z AccountDB \<Rightarrow> bool" where
  "scans_all db \<longleftrightarrow> (\<forall>w n. mset (ad_perm db w n) = mset [0..<n])"

lemma mset_scanned: "scans_all db \<Longrightarrow> mset (scanned_rows db w rows) = mset rows"
proof -
  assume "scans_all db"
  then have "mset (scanned_rows db w rows) = image_mset (nth rows) (mset [0..<length rows])" by (simp add: scans_all_def scanned_rows_def)
  also have "\<dots> = mset (map (nth rows) [0..<length rows])" by simp
  finally show ?thesis by (simp only: map_nth)
qed

text \<open>Reading pages of one list until a page is short.\<close>

lemma list_pages_all:
  assumes "\<And>p v. P v \<Longrightarrow> \<exists>v'. query p v = (Inr (page_of (normalized p) rows), v') \<and> P v'"
    and "P w" "result = take n rows" "offset = int n" "n \<le> length rows" "length rows < n + 500 * budget"
  shows "\<exists>w'. list_pages query budget offset result w = (Inr rows, w') \<and> P w'"
  using assms(2-6)
proof (induction budget arbitrary: n offset result w)
  case 0
  then show ?case by simp
next
  case (Suc budget)
  let ?page = "take 500 (drop n rows)"
  have "page_of (normalized \<lparr>Limit = page_size, Offset = offset\<rparr>) rows = ?page"
    using Suc.prems by (simp add: page_of_def normalized_def page_size_def)
  with assms(1) [OF Suc.prems(1), of "\<lparr>Limit = page_size, Offset = offset\<rparr>"]
  obtain w1 where q: "query \<lparr>Limit = page_size, Offset = offset\<rparr> w = (Inr ?page, w1)" "P w1" by auto
  show ?case
  proof (cases "length ?page < 500")
    case True
    then have "drop n rows = ?page" by simp
    then have "result @ ?page = rows" using Suc.prems(2) by (metis append_take_drop_id)
    moreover have "int (length ?page) < page_size" using True by (simp only: page_size_def)
    ultimately show ?thesis using q by (simp only: list_pages.simps try_do_simps if_True) simp
  next
    case False
    have "result @ ?page = take (n + 500) rows" using Suc.prems(2) by (simp add: take_add)
    moreover have "n + 500 \<le> length rows" using False by simp
    moreover have "offset + page_size = int (n + 500)" using Suc.prems(3) by (simp add: page_size_def)
    ultimately have "\<exists>w'. list_pages query budget (offset + page_size) (result @ ?page) w1 = (Inr rows, w') \<and> P w'"
      using Suc.IH [OF q(2), of "result @ ?page" "n + 500" "offset + page_size"] Suc.prems(5) by simp
    with q False show ?thesis by (auto simp: page_size_def)
  qed
qed

text \<open>A statement over a connection without faults.\<close>

definition db_answers :: "'z AccountDB \<Rightarrow> bool" where
  "db_answers db \<longleftrightarrow> (\<forall>call w. fst (ad_fault db call w) = None)"

lemma trip_answers: "db_answers db \<Longrightarrow> ad_trip db call f w = f (snd (ad_fault db call w))"
  by (simp add: ad_trip_def db_answers_def case_prod_beta')

lemma TrimSpace_empty: "TrimSpace [] = []"
  by code_simp

lemma any_account_filter [simp]: "accountFilterSQL db (any_account p) a"
  by (simp add: accountFilterSQL_def any_account_def TrimSpace_empty)

lemma any_account_page [simp]: "af_Pagination (any_account p) = p"
  by (simp add: any_account_def)

text \<open>C21: When no two accounts share a priority and a creation time, the pool's listing over the database returns every account exactly once, in
  the scheduling order, however the database happens to scan its rows in the queries for the single pages; a context that lets
  through more than one query per 500 accounts is enough.\<close>

theorem adapter_lists_every_account:
  assumes "db_quiet db" "db_answers db" "scans_all db" "distinct (map (\<lambda>a. (Priority a, CreatedAt a)) (tb_accounts w))"
    and "length (tb_accounts w) < 500 * budget"
  shows "fst (adapter_ListAccounts budget (postgres_adapter db s) w) = Inr (account_order (tb_accounts w))"
proof -
  let ?P = "\<lambda>v. tb_accounts v = tb_accounts w" and ?rows = "account_order (tb_accounts w)"
  have "\<exists>v'. store_ListAccounts db (any_account p) v = (Inr (page_of (normalized p) ?rows), v') \<and> ?P v'" if "?P v" for p v
  proof -
    let ?v = "snd (ad_fault db Statement v)"
    have "tables_of ?v = tables_of v" using assms(1) by (simp add: db_quiet_def)
    then have a: "tb_accounts ?v = tb_accounts w" using that by (simp add: tables_of_def)
    have "account_order (scanned_rows db ?v (tb_accounts w)) = ?rows"
      by (rule account_order_determined [OF mset_scanned [OF assms(3)] assms(4)])
    with a show ?thesis by (simp add: store_ListAccounts_def trip_answers [OF assms(2)] any_account_page)
  qed
  from list_pages_all [of ?P "\<lambda>p. store_ListAccounts db (any_account p)" ?rows w "[]" 0 0 budget, OF this] assms(5)
  show ?thesis
    by (auto simp: adapter_ListAccounts_def postgres_adapter_def accounts_repository_def account_order_def)
qed

section \<open>Lost accounts\<close>

text \<open>
  With equal priorities and creation times (accounts of one import share the time of their transaction) the pages of one listing may come
  from different orders: then an account is listed twice and another one not at all.
\<close>

definition tied_accounts :: "nat \<Rightarrow> Account list" where
  "tied_accounts n = map (\<lambda>i. (sample_account ''a'')\<lparr>ID := replicate i (CHR ''x''), CredentialFingerprint := ''''\<rparr>) [0..<n]"

definition turning_db :: "unit AccountDB" where
  "turning_db = calm_db\<lparr>ad_fault := (\<lambda>_ w. (None, w\<lparr>tb_clock := tb_clock w + 1\<rparr>)),
                        ad_perm := (\<lambda>w n. if tb_clock w = 101 then [0..<n] else rev [0..<n])\<rparr>"

lemma sort_key_const: "(\<And>x. x \<in> set xs \<Longrightarrow> f x = c) \<Longrightarrow> sort_key f xs = xs"
  by (rule sort_key_id_if_sorted) (simp add: map_replicate_const cong: map_cong)

lemma turning_trip: "ad_trip turning_db call f w = f (w\<lparr>tb_clock := tb_clock w + 1\<rparr>)"
  by (simp add: ad_trip_def turning_db_def)

lemma turning_scan: "scanned_rows turning_db w rows = (if tb_clock w = 101 then rows else rev rows)"
  by (simp add: scanned_rows_def turning_db_def map_nth) (metis map_nth rev_map)

lemma account_order_tied:
  assumes "set xs \<subseteq> set (tied_accounts n)"
  shows "account_order xs = xs"
proof -
  have "Priority a = 0 \<and> CreatedAt a = 0" if "a \<in> set xs" for a using that assms by (auto simp: tied_accounts_def sample_account_def)
  then show ?thesis unfolding account_order_def
    by (simp add: sort_key_const [of xs CreatedAt 0] sort_key_const [of xs "\<lambda>a. - Priority a" 0])
qed

lemma listing_loses_account:
  fixes s :: "AccountTables ManagementService"
  shows "fst (adapter_ListAccounts 2 (postgres_adapter turning_db s) (table_sample (tied_accounts 501)))
      = Inr (take 500 (tied_accounts 501) @ [hd (tied_accounts 501)])"
    and "last (tied_accounts 501) \<notin> set (take 500 (tied_accounts 501) @ [hd (tied_accounts 501)])"
    and "db_quiet turning_db \<and> scans_all turning_db \<and> tables_ok (table_sample (tied_accounts 501))"
proof -
  let ?rows = "tied_accounts 501"
  have l: "length ?rows = 501" by (simp add: tied_accounts_def)
  have q: "store_ListAccounts turning_db (any_account p) w =
      (Inr (page_of (normalized p) (if tb_clock w = 100 then ?rows else rev ?rows)), w\<lparr>tb_clock := tb_clock w + 1\<rparr>)"
    if "tb_accounts w = ?rows" for p w
    using that account_order_tied [of ?rows 501] account_order_tied [of "rev ?rows" 501]
    by (simp add: store_ListAccounts_def turning_trip turning_scan)
  have n: "normalized \<lparr>Limit = 500, Offset = k\<rparr> = \<lparr>Limit = 500, Offset = k\<rparr>" if "0 \<le> k" for k using that by (simp add: normalized_def)
  have h: "drop 500 (rev ?rows) = [hd ?rows]" using l by (cases ?rows) simp_all
  show "fst (adapter_ListAccounts 2 (postgres_adapter turning_db s) (table_sample ?rows)) = Inr (take 500 ?rows @ [hd ?rows])"
    using l n h
    by (simp add: adapter_ListAccounts_def postgres_adapter_def accounts_repository_def table_sample_def page_size_def page_of_def numeral_2_eq_2 q)
  show "last ?rows \<notin> set (take 500 ?rows @ [hd ?rows])"
    by (auto simp: tied_accounts_def last_map take_map hd_map simp del: upt_conv_Cons dest: arg_cong [where f = "\<lambda>a. length (ID a)"])
  have "inj (\<lambda>i. replicate i (CHR ''x''))" by (simp add: inj_on_def replicate_eq_replicate)
  then have "distinct (map ID ?rows)" by (simp add: tied_accounts_def distinct_map inj_on_def comp_def)
  then show "db_quiet turning_db \<and> scans_all turning_db \<and> tables_ok (table_sample ?rows)"
    by (auto simp: db_quiet_def scans_all_def turning_db_def calm_db_def tables_of_def tables_ok_def accounts_ok_def keys_ok_def table_sample_def
        list_all_iff account_ok_def same_credential_def tied_accounts_def sample_account_def)
qed

section \<open>Witnesses\<close>

definition calm_management :: "AccountTables ManagementService" where
  "calm_management =
     \<lparr>mg_accounts = accounts_repository calm_db, mg_models = models_repository calm_db, mg_proxies = proxies_repository calm_db,
      mg_keys = keys_repository calm_db, has_accounts = True, has_proxies = True, has_keys = True, has_tokens = True, mg_cipher = None,
      mg_pepper = ''pepper'', mg_now = (\<lambda>w. (tb_clock w, w)), mg_random = ad_random calm_db,
      mg_lib = \<lparr>HmacSHA256 = (\<lambda>k m. k @ m), HmacSHA1 = (\<lambda>k m. m), RawURLEncoding = (\<lambda>s. s), RawStdEncode = (\<lambda>s. s), RawStdDecode = Some,
                Base32Encode = (\<lambda>s. s), Base32Decode = Some, url_PathEscape = (\<lambda>s. s), QueryEscape = (\<lambda>s. s), Upper = (\<lambda>s. s),
                Argon2IDKey = (\<lambda>p s a b c d. p), ScanParams = (\<lambda>_. None)\<rparr>,
      mg_Marshal = (\<lambda>c. Inr (AccessToken c)), mg_Unmarshal = (\<lambda>p. Inr (zero_credentials\<lparr>AccessToken := p\<rparr>)), mg_ParseURL = (\<lambda>_. None),
      mg_URLText = (\<lambda>u. ''''), mg_EqualFold = (=)\<rparr>"

definition calm_deps :: "AccountTables Deps" where
  "calm_deps = \<lparr>dep_store = adapter_store 2 (postgres_adapter calm_db calm_management), coordinator = None,
                now_fn = (\<lambda>w. (tb_clock w, w)), notifier = None\<rparr>"

text \<open>An administrator disabled the account and raised its priority while a request was running.\<close>

definition disabled_account :: Account where
  "disabled_account = (sample_account ''a'')\<lparr>Status := AccountDisabled, Priority := 7\<rparr>"

theorem release_respects_administrator_witness:
  "let w' = snd (snd (snd (Release calm_deps None (sample_lease ''a'') (sample_feedback 200) sample_busy (table_sample [disabled_account]))))
   in map Priority (tb_accounts w') = [7] \<and> map Status (tb_accounts w') = [AccountDisabled]"
proof -
  obtain r l q w' where e: "Release calm_deps None (sample_lease ''a'') (sample_feedback 200) sample_busy (table_sample [disabled_account]) = (r, l, q, w')"
    by (rule prod_cases4)
  have c: "calls_keep respected calm_deps" by (simp add: calls_keep_def calm_deps_def respected_refl)
  have d: "dep_store calm_deps = adapter_store 2 (postgres_adapter calm_db calm_management)" by (simp add: calm_deps_def)
  have a: "tb_accounts (table_sample [disabled_account]) = [disabled_account]" by (simp add: table_sample_def)
  then have i: "distinct (map ID (tb_accounts (table_sample [disabled_account])))" by simp
  note t = release_respects_administrator [OF calm_quiet c d i e, THEN conjunct1] release_respects_administrator [OF calm_quiet c d i e, THEN conjunct2]
  have "map admin_part (tb_accounts w') = [admin_part disabled_account]" using t(1) a by simp
  then obtain b where b: "tb_accounts w' = [b]" "admin_part b = admin_part disabled_account" by (auto simp: map_eq_Cons_conv)
  have "Priority b = Priority (admin_part b)" by (simp add: admin_part_def)
  also have "\<dots> = 7" using b(2) by (simp add: admin_part_def disabled_account_def)
  finally have "Priority b = 7" .
  moreover have "Status b = AccountDisabled" using t(2) a b(1) by (simp add: disabled_account_def taken_out_def)
  ultimately show ?thesis using e b(1) by simp
qed

theorem table_operations_consistent_witness:
  "tables_ok (table_run calm_db [CreateAccountOp (Some (sample_account ''a'')), CreateAccountOp (Some (sample_account ''b''))] (table_sample [])) \<and>
   tables_of (snd (table_step calm_db (DeleteAccountsOp [''a'', ''none''])
     (table_run calm_db [CreateAccountOp (Some (sample_account ''a''))] (table_sample [])))) =
   tables_of (table_run calm_db [CreateAccountOp (Some (sample_account ''a''))] (table_sample []))"
proof -
  have o: "tables_ok (table_sample [])" by (simp add: tables_ok_def table_sample_def accounts_ok_def keys_ok_def)
  have "\<not> fst (table_step calm_db (DeleteAccountsOp [''a'', ''none'']) (table_run calm_db [CreateAccountOp (Some (sample_account ''a''))] (table_sample [])))"
    by code_simp
  with table_operations_consistent [OF calm_quiet o, of "[CreateAccountOp (Some (sample_account ''a''))]" "DeleteAccountsOp [''a'', ''none'']"]
    table_operations_consistent [OF calm_quiet o, of "[CreateAccountOp (Some (sample_account ''a'')), CreateAccountOp (Some (sample_account ''b''))]" "DeleteAccountOp ''''"]
  show ?thesis by simp
qed

theorem adapter_lists_every_account_witness:
  "fst (adapter_ListAccounts 1 (postgres_adapter calm_db calm_management) (table_sample [sample_account ''a'', (sample_account ''b'')\<lparr>Priority := 5\<rparr>]))
   = Inr [(sample_account ''b'')\<lparr>Priority := 5\<rparr>, sample_account ''a'']"
proof -
  let ?w = "table_sample [sample_account ''a'', (sample_account ''b'')\<lparr>Priority := 5\<rparr>]"
  have "db_answers calm_db" "scans_all calm_db" by (simp_all add: db_answers_def scans_all_def calm_db_def)
  moreover have "distinct (map (\<lambda>a. (Priority a, CreatedAt a)) (tb_accounts ?w))" by (simp add: table_sample_def sample_account_def)
  moreover have "length (tb_accounts ?w) < 500 * 1" by (simp add: table_sample_def)
  ultimately have "fst (adapter_ListAccounts 1 (postgres_adapter calm_db calm_management) ?w) = Inr (account_order (tb_accounts ?w))"
    by (rule adapter_lists_every_account [OF calm_quiet])
  then show ?thesis by (simp add: table_sample_def account_order_def sample_account_def)
qed

end
