(* ===== verification/Management_Properties.thy ===== *)
theory Management_Properties
  imports Management_Laws Table_Properties
begin

text \<open>
  The properties of the administrator's operations on credentials and client keys over the database: what is stored comes back, and only a key
  that is stored, enabled and not expired authenticates.
\<close>

interpretation calm: quiet_database calm_db
  by unfold_locales (rule calm_quiet)

section \<open>Reading from the database\<close>

text \<open>On a quiet connection that answers, a statement runs on the tables as they are.\<close>

lemma trip_runs:
  assumes "db_quiet db" "db_answers db"
  obtains w1 where "ad_trip db call f w = f w1" "tables_of w1 = tables_of w"
proof
  show "ad_trip db call f w = f (snd (ad_fault db call w))" by (rule trip_answers [OF assms(2)])
  show "tables_of (snd (ad_fault db call w)) = tables_of w" using assms(1) by (simp add: db_quiet_def)
qed

lemma credentials_found:
  assumes "mg_accounts s = accounts_repository db" "db_quiet db" "db_answers db" "stored_row w k = Some b" "ID b = k"
  shows "fst (GetAccountCredentials s k w) = openCredentials s k (CredentialCipher b)"
proof -
  let ?f = "\<lambda>w. (find_row (\<lambda>a. ID a = k) (tb_accounts w), w)"
  obtain w1 where w1: "ad_trip db Statement ?f w = ?f w1" "tables_of w1 = tables_of w" by (rule trip_runs [OF assms(2,3)])
  have "find_row (\<lambda>a. ID a = k) (tb_accounts w1) = Inr b"
    using assms(4) fun_cong [OF stored_row_tables [OF w1(2)], of k] by (simp add: stored_row_def find_row_def)
  with w1(1) assms(1,5) show ?thesis by (simp add: GetAccountCredentials_def accounts_repository_def GetAccount_def yield_def)
qed

text \<open>The credentials a normalization lets through.\<close>

definition official_base :: "CredentialKind \<Rightarrow> string \<Rightarrow> bool" where
  "official_base kind base =
     (case kind of
        CredentialCLIOAuth \<Rightarrow> base = cli_base
      | CredentialConsoleSSO \<Rightarrow> base \<in> {'''', console_base}
      | CredentialGrokSSO \<Rightarrow> base \<in> {'''', grok_base})"

lemma normalize_base_official: "normalize_base s kind base = Inr b \<Longrightarrow> official_base kind b"
  by (cases kind) (auto simp: normalize_base_def official_base_def split: if_splits)

lemma normalized_official: "normalizeAccountCredentials s kind c = Inr n \<Longrightarrow> official_base kind (BaseURL n)"
  by (auto simp: normalizeAccountCredentials_def Let_def split: if_splits sum.splits dest: normalize_base_official)

section \<open>Credentials\<close>

text \<open>C22: After an administrator created an account, the reply carries neither the sealed credentials nor their fingerprint, and reading the account's credentials
  gives back the ones that were entered, normalized for the kind of the account: their base address is empty or the official one of the kind.\<close>

theorem created_credentials_come_back:
  assumes "mg_accounts s = accounts_repository db" "db_quiet db" "db_answers db" "secrets_ok s" "mg_CreateAccount s i w = (Inr a, w')"
  shows "CredentialCipher a = '''' \<and> CredentialFingerprint a = ''''
    \<and> fst (GetAccountCredentials s (ID a) w') = normalizeAccountCredentials s (ca_Kind i) (ca_Credentials i)
    \<and> (case normalizeAccountCredentials s (ca_Kind i) (ca_Credentials i) of Inl _ \<Rightarrow> False | Inr n \<Rightarrow> official_base (ca_Kind i) (BaseURL n))"
proof -
  note q = quiet_repository [OF assms(2)]
  obtain b n where b: "stored_row w' (ID a) = Some b" "ID b = ID a" and a: "CredentialCipher a = ''''" "CredentialFingerprint a = ''''"
    and o: "openCredentials s (ID a) (CredentialCipher b) = Inr n" and n: "normalizeAccountCredentials s (ca_Kind i) (ca_Credentials i) = Inr n"
    using account_repository.created_row [OF q assms(1,4,5)] by metis
  show ?thesis using credentials_found [OF assms(1-3) b] a o n normalized_official [OF n] by simp
qed

text \<open>After an administrator updated an account, reading its credentials gives the new credentials, normalized for the kind the account has then, or, when
  the update had none, the credentials it had before, normalized again when they had no fingerprint yet.\<close>

theorem updated_credentials_come_back:
  assumes "mg_accounts s = accounts_repository db" "db_quiet db" "secrets_ok s" "mg_UpdateAccount s k i w = (Inr a, w')"
    and "stored_row w k = Some old" "GetAccountCredentials s k w' = (Inr c, w'')"
  shows "if ua_Credentials i = None \<and> CredentialFingerprint old \<noteq> '''' then openCredentials s k (CredentialCipher old) = Inr c
    else \<exists>b x. stored_row w' k = Some b \<and> normalizeAccountCredentials s (Kind b) x = Inr c \<and> (case ua_Credentials i of None \<Rightarrow> True | Some n \<Rightarrow> x = n)"
proof -
  note q = quiet_repository [OF assms(2)]
  obtain old' b where o: "stored_row w k = Some old'" and b: "stored_row w' k = Some b"
    and c: "if ua_Credentials i = None \<and> CredentialFingerprint old' \<noteq> '''' then CredentialCipher b = CredentialCipher old'
      else \<exists>x. normalizeAccountCredentials s (Kind b) x = Inr c \<and> (case ua_Credentials i of None \<Rightarrow> True | Some n \<Rightarrow> x = n)"
    using account_repository.updated_credentials [OF q assms(1,3,4,6)] by metis
  have "ID b = k" using b by (auto simp: stored_row_def find_Some_iff)
  have "openCredentials s k (CredentialCipher b) = Inr c" by (rule account_repository.opened [OF q assms(1) b \<open>ID b = k\<close> assms(6)])
  with o b c assms(5) show ?thesis by (auto split: if_splits)
qed

section \<open>Client keys\<close>

text \<open>What the library functions promise about a key: its text has no white space and its digest is not empty.\<close>

definition key_texts_ok :: "'w ManagementService \<Rightarrow> bool" where
  "key_texts_ok s \<longleftrightarrow> (\<forall>bs. set (RawURLEncoding (mg_lib s) bs) \<inter> set (concat space_encodings) = {})
     \<and> (\<forall>p m. HmacSHA256 (mg_lib s) p m \<noteq> '''')"

lemma generated_key:
  assumes "key_texts_ok s" "GenerateClientAPIKey (mg_lib s) (mg_random s) (Some (mg_pepper s)) w = (Inr m, w')"
  shows "TrimSpace (Plaintext m) = Plaintext m" "Plaintext m \<noteq> ''''" "tok_Digest m = tok_digest (mg_lib s) (mg_pepper s) (Plaintext m)" "tok_Digest m \<noteq> ''''"
proof -
  obtain raw where p: "Plaintext m = ''grok_'' @ RawURLEncoding (mg_lib s) raw" and d: "tok_Digest m = tok_digest (mg_lib s) (mg_pepper s) (Plaintext m)"
    using assms(2) by (auto simp: GenerateClientAPIKey_def Generate_def Let_def split: if_splits prod.splits sum.splits)
  have "set ''grok_'' \<inter> set (concat space_encodings) = {}" by code_simp
  then have "set (Plaintext m) \<inter> set (concat space_encodings) = {}" using assms(1) unfolding p key_texts_ok_def by (simp only: set_append Int_Un_distrib2) blast
  then show "TrimSpace (Plaintext m) = Plaintext m" by (rule TrimSpace_spaceless)
  show "Plaintext m \<noteq> ''''" unfolding p by simp
  show "tok_Digest m = tok_digest (mg_lib s) (mg_pepper s) (Plaintext m)" by (rule d)
  show "tok_Digest m \<noteq> ''''" unfolding d using assms(1) by (simp add: key_texts_ok_def tok_digest_def)
qed

text \<open>The keys with an ID or a digest.\<close>

definition stored_key :: "(ClientKey \<Rightarrow> bool) \<Rightarrow> 'z AccountTables_scheme \<Rightarrow> ClientKey option" where
  "stored_key P w = find P (tb_keys w)"

lemma stored_key_tables: "tables_of w = tables_of w' \<Longrightarrow> stored_key P w = stored_key P w'"
  by (simp add: stored_key_def tables_of_def)

lemma find_appended: "\<not> list_ex P xs \<Longrightarrow> P x \<Longrightarrow> find P (xs @ [x]) = Some x"
  by (induction xs) auto

lemma inserted_key:
  assumes "db_quiet db" "CreateClientKey db (Some key) w = (Inr key', w')" "key_ID key = ''''"
  obtains row where "stored_key (\<lambda>k. key_ID k = key_ID key') w' = Some row" "stored_key (\<lambda>k. Digest k = Digest key) w' = Some row"
    "key_ID row = key_ID key'" "TrimSpace (key_ID key') = key_ID key'" "Digest row = Digest key" "SecretCipher row = SecretCipher key"
    "key_Enabled row = key_Enabled key" "key_ExpiresAt row = key_ExpiresAt key" "Digest key' = Digest key"
proof -
  let ?row = "\<lambda>uid w. key\<lparr>key_ID := uid, key_Name := TrimSpace (key_Name key), SecretAvailable := False, key_CreatedAt := tb_clock w, key_UpdatedAt := tb_clock w\<rparr>"
  let ?f = "\<lambda>uid w. if \<not> key_limits_ok (?row uid w) then (Inl (conflict ''client_keys_limits_check''), w)
      else if list_ex (\<lambda>k. key_ID k = uid) (tb_keys w) then (Inl (conflict ''client_keys_pkey''), w)
      else if list_ex (\<lambda>k. Digest k = Digest key) (tb_keys w) then (Inl (conflict ''client_keys_digest_key''), w)
      else (Inr (key\<lparr>key_ID := uid, key_CreatedAt := tb_clock w, key_UpdatedAt := tb_clock w\<rparr>), w\<lparr>tb_keys := tb_keys w @ [?row uid w]\<rparr>)"
  from assms(2) obtain uid w1 where n: "newID (ad_random db) (key_ID key) w = (Inr uid, w1)" and t: "ad_trip db Statement (?f uid) w1 = (Inr key', w')"
    by (auto simp: CreateClientKey_def Let_def try_do_Inr split: if_splits option.splits)
  have u: "TrimSpace uid = uid" using n assms(3) GenerateID_text(1) by (auto simp: newID_def TrimSpace_empty)
  obtain w2 where "?f uid w2 = (Inr key', w')" by (rule quiet_database.trip_Inr [OF _ t]) (use assms(1) in \<open>simp_all add: quiet_database_def\<close>)
  then have k: "\<not> list_ex (\<lambda>k. key_ID k = uid) (tb_keys w2)" "\<not> list_ex (\<lambda>k. Digest k = Digest key) (tb_keys w2)"
    and w': "w' = w2\<lparr>tb_keys := tb_keys w2 @ [?row uid w2]\<rparr>" and key': "key' = key\<lparr>key_ID := uid, key_CreatedAt := tb_clock w2, key_UpdatedAt := tb_clock w2\<rparr>"
    by (auto split: if_splits)
  show ?thesis
  proof (rule that [of "?row uid w2"])
    show "stored_key (\<lambda>k. key_ID k = key_ID key') w' = Some (?row uid w2)" unfolding w' key' stored_key_def using k(1) by (simp add: find_appended)
    show "stored_key (\<lambda>k. Digest k = Digest key) w' = Some (?row uid w2)" unfolding w' stored_key_def using k(2) by (simp add: find_appended)
  qed (simp_all add: key' u)
qed

lemma key_found:
  assumes "mg_keys s = keys_repository db" "db_quiet db" "db_answers db" "stored_key P w = Some row"
  obtains w1 where "ad_trip db Statement (\<lambda>w. (find_row P (tb_keys w), w)) w = (Inr row, w1)" "tables_of w1 = tables_of w"
proof -
  let ?f = "\<lambda>w. (find_row P (tb_keys w), w)"
  obtain w1 where w1: "ad_trip db Statement ?f w = ?f w1" "tables_of w1 = tables_of w" by (rule trip_runs [OF assms(2,3)])
  have "find_row P (tb_keys w1) = Inr row" using stored_key_tables [OF w1(2), of P] assms(4) by (simp add: stored_key_def find_row_def)
  with w1 that show ?thesis by simp
qed

text \<open>C28: A client key that was just issued can be revealed to the administrator, and it authenticates when it is presented, with white space around it
  or without, unless it has expired; the authenticated key carries neither its digest nor its sealed secret.\<close>

theorem issued_key_works:
  assumes "mg_keys s = keys_repository db" "db_quiet db" "db_answers db" "secrets_ok s" "key_texts_ok s"
    and "mg_CreateClientKey s i w = (Inr k, w')" "TrimSpace presented = ik_Plaintext k"
    and "\<forall>v. case ck_ExpiresAt i of None \<Rightarrow> True | Some t \<Rightarrow> fst (mg_now s v) < t"
  shows "fst (RevealClientKey s (key_ID (ik_Key k)) w') = Inr (ik_Plaintext k)
    \<and> (case fst (AuthenticateClientKey s presented w') of Inl _ \<Rightarrow> False
       | Inr key \<Rightarrow> key_ID key = key_ID (ik_Key k) \<and> Digest key = '''' \<and> SecretCipher key = '''')"
proof -
  from assms(1,6) obtain m w1 sealed w2 key where m: "GenerateClientAPIKey (mg_lib s) (mg_random s) (Some (mg_pepper s)) w = (Inr m, w1)"
    and e: "Seal (mg_random s) (mg_cipher s) (Plaintext m) (clientKeyAAD (tok_Digest m)) w1 = (Inr sealed, w2)"
    and c: "CreateClientKey db (Some (new_client_key i m sealed)) w2 = (Inr key, w')" and k: "k = \<lparr>ik_Key = key, ik_Plaintext = Plaintext m\<rparr>"
    and ok: "has_keys s" "has_tokens s" "mg_cipher s \<noteq> None"
    by (auto simp: mg_CreateClientKey_def keys_repository_def try_do_Inr on_err_Inr split: if_splits)
  note g = generated_key [OF assms(5) m]
  have z: "key_ID (new_client_key i m sealed) = ''''" by (simp add: new_client_key_def)
  obtain row where byID: "stored_key (\<lambda>k. key_ID k = key_ID key) w' = Some row"
    and byDigest: "stored_key (\<lambda>k. Digest k = Digest (new_client_key i m sealed)) w' = Some row"
    and row: "key_ID row = key_ID key" "TrimSpace (key_ID key) = key_ID key" "Digest row = Digest (new_client_key i m sealed)"
      "SecretCipher row = SecretCipher (new_client_key i m sealed)" "key_Enabled row = key_Enabled (new_client_key i m sealed)"
      "key_ExpiresAt row = key_ExpiresAt (new_client_key i m sealed)"
    by (rule inserted_key [OF assms(2) c z])
  have r: "Digest row = tok_Digest m" "SecretCipher row = sealed" "key_Enabled row" "key_ExpiresAt row = ck_ExpiresAt i"
    using row(3-6) by (simp_all add: new_client_key_def)
  have op: "Open (mg_cipher s) sealed (clientKeyAAD (tok_Digest m)) = Inr (Plaintext m)" by (rule seal_open_text [OF assms(4) e])
  have s0: "sealed \<noteq> ''''" using e by (auto simp: Seal_def Let_def split: option.splits prod.splits sum.splits)
  obtain v1 where v1: "rp_GetClientKey (mg_keys s) (key_ID key) w' = (Inr row, v1)"
    using key_found [OF assms(1-3) byID] assms(1) by (auto simp: keys_repository_def GetClientKey_def)
  have reveal: "fst (RevealClientKey s (key_ID key) w') = Inr (Plaintext m)"
    using ok v1 row(2) r g op s0 by (simp add: RevealClientKey_def tok_verify_def)
  have d: "Digest (new_client_key i m sealed) = tok_digest (mg_lib s) (mg_pepper s) (TrimSpace presented)"
    using assms(7) g(3) k by (simp add: new_client_key_def)
  obtain v2 where v2: "rp_GetClientKeyByDigest (mg_keys s) (tok_digest (mg_lib s) (mg_pepper s) (TrimSpace presented)) w' = (Inr row, v2)"
    using key_found [OF assms(1-3) byDigest] assms(1) unfolding d [symmetric] by (auto simp: keys_repository_def GetClientKeyByDigest_def)
  have "case ck_ExpiresAt i of None \<Rightarrow> True | Some t \<Rightarrow> fst (mg_now s v2) < t" using assms(8) by (rule spec)
  then have "fst (AuthenticateClientKey s presented w') = Inr (row\<lparr>Digest := '''', SecretCipher := ''''\<rparr>)"
    using v2 r(3,4) by (auto simp: AuthenticateClientKey_def case_prod_beta' Let_def split: option.split)
  with reveal row(1) k show ?thesis by simp
qed

text \<open>Whoever authenticates with a client key presented a text whose keyed digest is stored: the key with this digest is enabled, its expiry has not
  passed at the time of the request, and the stored key is the one that is returned, without its digest and its sealed secret.\<close>

theorem authenticated_key_is_stored:
  assumes "mg_keys s = keys_repository db" "db_quiet db" "mg_now s = (\<lambda>w. (tb_clock w, w))" "AuthenticateClientKey s presented w = (Inr key, w')"
  shows "\<exists>row. stored_key (\<lambda>k. Digest k = tok_digest (mg_lib s) (mg_pepper s) (TrimSpace presented)) w = Some row
    \<and> key = row\<lparr>Digest := '''', SecretCipher := ''''\<rparr> \<and> key_Enabled row \<and> (case key_ExpiresAt row of None \<Rightarrow> True | Some t \<Rightarrow> tb_clock w < t)"
proof -
  let ?d = "tok_digest (mg_lib s) (mg_pepper s) (TrimSpace presented)" and ?f = "\<lambda>w. (find_row (\<lambda>k. Digest k = tok_digest (mg_lib s) (mg_pepper s) (TrimSpace presented)) (tb_keys w), w)"
  obtain row w1 where t: "ad_trip db Statement ?f w = (Inr row, w1)" and e: "key_Enabled row" "key = row\<lparr>Digest := '''', SecretCipher := ''''\<rparr>"
    and x: "case key_ExpiresAt row of None \<Rightarrow> True | Some t \<Rightarrow> tb_clock w1 < t"
    using assms(1,3,4)
    by (auto simp: AuthenticateClientKey_def keys_repository_def GetClientKeyByDigest_def Let_def case_prod_beta' prod_eq_iff not_le
        split: sum.splits if_splits option.splits)
  have c: "tb_clock w \<le> tb_clock w1" "tables_of w1 = tables_of w"
    using t assms(2) by (auto simp: ad_trip_def db_quiet_def case_prod_beta' split: option.splits)
  have "stored_key (\<lambda>k. Digest k = ?d) w1 = Some row" using t
    by (auto simp: ad_trip_def case_prod_beta' stored_key_def find_row_def split: option.splits)
  then have "stored_key (\<lambda>k. Digest k = ?d) w = Some row" using stored_key_tables [OF c(2)] by simp
  with e x c(1) show ?thesis by (auto split: option.splits)
qed

section \<open>Witnesses\<close>

lemma returned: "\<not> isl (fst r) \<Longrightarrow> \<exists>x w. r = (Inr x, w)"
  by (cases r; cases "fst r") auto

definition plain_aead :: AEAD where
  "plain_aead = \<lparr>NonceSize = 12, Overhead = 0, aead_Seal = (\<lambda>nonce p ad. p), aead_Open = (\<lambda>nonce c ad. Some c)\<rparr>"

definition plain_credentials :: "string \<Rightarrow> Credentials" where
  "plain_credentials token = zero_credentials\<lparr>AccessToken := token, TokenType := ''Bearer'', BaseURL := cli_base\<rparr>"

definition plain_management :: "AccountTables ManagementService" where
  "plain_management = calm_management\<lparr>mg_cipher := Some plain_aead,
     mg_lib := (mg_lib calm_management)\<lparr>HmacSHA256 := (\<lambda>k m. CHR ''h'' # k @ m), RawURLEncoding := EncodeToString\<rparr>,
     mg_Marshal := (\<lambda>c. if c = plain_credentials (AccessToken c) then Inr (AccessToken c) else Inl (ErrText ''json'')),
     mg_Unmarshal := (\<lambda>p. Inr (plain_credentials p))\<rparr>"

lemma plain_sides:
  "mg_accounts plain_management = accounts_repository calm_db" "mg_keys plain_management = keys_repository calm_db"
  "db_answers calm_db" "secrets_ok plain_management" "key_texts_ok plain_management" "mg_now plain_management = (\<lambda>w. (tb_clock w, w))"
proof -
  show "mg_accounts plain_management = accounts_repository calm_db" "mg_keys plain_management = keys_repository calm_db"
    "mg_now plain_management = (\<lambda>w. (tb_clock w, w))" by (simp_all add: plain_management_def calm_management_def)
  show "db_answers calm_db" by (simp add: db_answers_def calm_db_def)
  show "secrets_ok plain_management"
    by (auto simp: secrets_ok_def plain_management_def calm_management_def aead_ok_def plain_aead_def reads_fully_def calm_db_def split: if_splits)
  have "set id_chars \<inter> set (concat space_encodings) = {}" by code_simp
  then have "set (EncodeToString bs) \<inter> set (concat space_encodings) = {}" for bs using EncodeToString_chars [of bs] by blast
  then show "key_texts_ok plain_management" by (simp add: key_texts_ok_def plain_management_def)
qed

definition plain_input :: CreateAccountInput where
  "plain_input = \<lparr>ca_Name = ''first'', ca_Kind = CredentialCLIOAuth, ca_Tier = '''', ca_Status = None, ca_Email = '''', ca_Credentials = zero_credentials\<lparr>AccessToken := '' token '', TokenType := ''Bearer''\<rparr>,
     ca_ProxyID = '''', ca_Models = [], ca_Tags = [], ca_Priority = 0, ca_ConcurrencyLimit = 0, ca_Quota = zero_quota, ca_CooldownUntil = None, ca_LastError = ''''\<rparr>"

theorem created_credentials_come_back_witness:
  "case mg_CreateAccount plain_management plain_input (table_sample []) of
     (Inl _, _) \<Rightarrow> False
   | (Inr a, w') \<Rightarrow> CredentialCipher a = '''' \<and> fst (GetAccountCredentials plain_management (ID a) w') = Inr (plain_credentials ''token'')"
proof -
  have "\<not> isl (fst (mg_CreateAccount plain_management plain_input (table_sample [])))" by code_simp
  then obtain a w' where c: "mg_CreateAccount plain_management plain_input (table_sample []) = (Inr a, w')" by (blast dest: returned)
  have "normalizeAccountCredentials plain_management (ca_Kind plain_input) (ca_Credentials plain_input) = Inr (plain_credentials ''token'')" by code_simp
  with created_credentials_come_back [OF plain_sides(1) calm_quiet plain_sides(3,4) c] c show ?thesis by simp
qed

definition stored_account :: Account where
  "stored_account = (sample_account ''a'')\<lparr>CredentialCipher := CHR 0x01 # replicate 12 (CHR ''r'') @ ''old'', CredentialFingerprint := ''print''\<rparr>"

definition rename_input :: "Credentials option \<Rightarrow> UpdateAccountInput" where
  "rename_input c = \<lparr>ua_Name = Some ''renamed'', ua_Kind = Some CredentialCLIOAuth, ua_Tier = None, ua_Status = None, ua_Email = None, ua_Credentials = c,
     ua_ProxyID = None, ua_Models = None, ua_Tags = None, ua_Priority = None, ua_ConcurrencyLimit = Some 2, ua_Quota = None, ua_CooldownUntil = None, ua_LastError = None\<rparr>"

definition new_token :: UpdateAccountInput where
  "new_token = rename_input (Some (zero_credentials\<lparr>AccessToken := ''new''\<rparr>))"

definition renamed_account :: Account where "renamed_account = projr (apply_fields new_token stored_account)"

definition resealed_account :: Account where
  "resealed_account = renamed_account\<lparr>CredentialCipher := CHR 0x01 # replicate 12 (CHR ''r'') @ ''new'',
     CredentialFingerprint := ''hpepperaccount-credential:v1:cli_oauth:new''\<rparr>"

lemma resealed: "prepareAccountUpdate plain_management stored_account new_token (table_sample [stored_account]) = (Inr resealed_account, table_sample [stored_account])"
proof -
  let ?w = "table_sample [stored_account]" and ?c = "zero_credentials\<lparr>AccessToken := ''new''\<rparr>"
  have "apply_fields new_token stored_account = Inr renamed_account" by (simp add: renamed_account_def apply_fields_def new_token_def rename_input_def)
  moreover have "ID renamed_account = ''a''" "Kind renamed_account = CredentialCLIOAuth" "Name renamed_account = ''renamed''"
    "CredentialCipher renamed_account = CredentialCipher stored_account" "ConcurrencyLimit renamed_account = 2" by code_simp+
  moreover have "normalizeAccountCredentials plain_management CredentialCLIOAuth ?c = Inr (plain_credentials ''new'')" by code_simp
  moreover have "openCredentials plain_management ''a'' (CredentialCipher stored_account) = Inr (plain_credentials ''old'')" by code_simp
  moreover have "sealCredentials plain_management ''a'' (plain_credentials ''new'') ?w = (Inr (CHR 0x01 # replicate 12 (CHR ''r'') @ ''new''), ?w)" by code_simp
  moreover have "validateAccountInput ''renamed'' (plain_credentials ''new'') 2 = None" by code_simp
  moreover have "AccountCredentialFingerprint plain_management CredentialCLIOAuth (plain_credentials ''new'') = ''hpepperaccount-credential:v1:cli_oauth:new''"
    by code_simp
  ultimately show ?thesis by (simp add: prepareAccountUpdate_def yield_def resealed_account_def given_def new_token_def rename_input_def)
qed

theorem updated_credentials_come_back_witness:
  "\<exists>b. stored_row (snd (mg_UpdateAccount plain_management ''a'' new_token (table_sample [stored_account]))) ''a'' = Some b \<and>
   normalizeAccountCredentials plain_management (Kind b) (zero_credentials\<lparr>AccessToken := ''new''\<rparr>) = Inr (plain_credentials ''new'')"
proof -
  let ?w = "table_sample [stored_account]"
  let ?s = "store_UpdateAccount calm_db (Some resealed_account) ?w"
  have "\<not> isl (fst ?s)" by code_simp
  then obtain b w' where s: "?s = (Inr b, w')" by (blast dest: returned)
  have "rp_GetAccount (accounts_repository calm_db) ''a'' ?w = (Inr stored_account, ?w)" by code_simp
  moreover have "validateAccountProxy plain_management (ua_ProxyID new_token) ?w = (Inr (), ?w)" by code_simp
  ultimately have u: "mg_UpdateAccount plain_management ''a'' new_token ?w = (Inr (sanitizedAccount b), w')"
    using s by (simp add: mg_UpdateAccount_def plain_sides(1) resealed accounts_repository_def)
  have "fst (GetAccountCredentials plain_management ''a'' (snd ?s)) = Inr (plain_credentials ''new'')" by code_simp
  then obtain w'' where g: "GetAccountCredentials plain_management ''a'' w' = (Inr (plain_credentials ''new''), w'')"
    using s by (cases "GetAccountCredentials plain_management ''a'' w'") auto
  have "stored_row ?w ''a'' = Some stored_account" by (simp add: stored_row_def table_sample_def stored_account_def sample_account_def)
  from updated_credentials_come_back [OF plain_sides(1) calm_quiet plain_sides(4) u this g] u show ?thesis
    by (simp add: new_token_def rename_input_def)
qed

definition key_input :: CreateClientKeyInput where
  "key_input = \<lparr>ck_Name = ''ci'', ck_RPM = 60, ck_ConcurrencyLimit = 2, ck_DailyRequestLimit = 0, ck_MonthlyTokenLimit = 0, ck_ExpiresAt = None\<rparr>"

theorem issued_key_works_witness:
  "case mg_CreateClientKey plain_management key_input (table_sample []) of
     (Inl _, _) \<Rightarrow> False
   | (Inr k, w') \<Rightarrow> fst (RevealClientKey plain_management (key_ID (ik_Key k)) w') = Inr (ik_Plaintext k)
       \<and> isl (fst (AuthenticateClientKey plain_management (ik_Plaintext k) w')) = False"
proof -
  let ?c = "mg_CreateClientKey plain_management key_input (table_sample [])"
  have "case ?c of (Inl _, _) \<Rightarrow> False | (Inr k, _) \<Rightarrow> TrimSpace (ik_Plaintext k) = ik_Plaintext k" by code_simp
  then obtain k w' where c: "?c = (Inr k, w')" and t: "TrimSpace (ik_Plaintext k) = ik_Plaintext k" by (cases ?c) (auto split: sum.splits)
  have "\<forall>v. case ck_ExpiresAt key_input of None \<Rightarrow> True | Some t \<Rightarrow> fst (mg_now plain_management v) < t" by (simp add: key_input_def)
  from issued_key_works [OF plain_sides(2) calm_quiet plain_sides(3-5) c t this] c show ?thesis by (auto split: sum.splits)
qed

definition expiring_key :: ClientKey where
  "expiring_key = \<lparr>key_ID = ''k'', key_Name = ''ci'', Prefix = ''grok_abc'', Digest = ''hpepperabc'', SecretCipher = ''sealed'', SecretAvailable = False,
     key_Enabled = True, RPM = 0, key_ConcurrencyLimit = 0, DailyRequestLimit = 0, MonthlyTokenLimit = 0, key_LastUsedAt = None,
     key_ExpiresAt = Some 101, key_CreatedAt = 0, key_UpdatedAt = 0\<rparr>"

theorem authenticated_key_is_stored_witness:
  "case AuthenticateClientKey plain_management '' abc'' (table_sample []\<lparr>tb_keys := [expiring_key]\<rparr>) of
     (Inl _, _) \<Rightarrow> False
   | (Inr key, _) \<Rightarrow> key = expiring_key\<lparr>Digest := '''', SecretCipher := ''''\<rparr>"
proof -
  let ?w = "table_sample []\<lparr>tb_keys := [expiring_key]\<rparr>"
  let ?a = "AuthenticateClientKey plain_management '' abc'' ?w"
  have "\<not> isl (fst ?a)" by code_simp
  then obtain key w' where a: "?a = (Inr key, w')" by (blast dest: returned)
  from authenticated_key_is_stored [OF plain_sides(2) calm_quiet plain_sides(6) a] a show ?thesis
    by (auto simp: stored_key_def split: if_splits)
qed

end
