(* ===== verification/OAuth_Laws.thy ===== *)
theory OAuth_Laws
  imports OAuth_Refresh Admin_State Redis_Laws
begin

text \<open>
  The state store and the lock of the OAuth services on Redis (\<open>NewOAuthService\<close> and \<open>RefreshService\<close> as \<open>internal/app/run.go\<close> builds them), and
  what they promise.

  \<open>dropping_redis\<close> is a Redis server in a world that holds more, as its place \<open>get\<close> and \<open>put\<close> in it; between two calls keys may expire, and
  a call may fail on the way. \<open>oauth_states\<close> and \<open>refresh_lock\<close> are the contracts of the two clients.
\<close>

definition redis_states :: "('w \<Rightarrow> 'r) \<Rightarrow> ('r \<Rightarrow> 'w \<Rightarrow> 'w) \<Rightarrow> 'r Redis \<Rightarrow> 'w OAuthStateStore" where
  "redis_states get put r =
     \<lparr>oss_SetNX = (\<lambda>k v ttl. lift_state get put (SetNX r k v ttl)), oss_GetDelete = (\<lambda>k. lift_state get put (GetDelete r k))\<rparr>"

definition redis_locks :: "('w \<Rightarrow> 'r) \<Rightarrow> ('r \<Rightarrow> 'w \<Rightarrow> 'w) \<Rightarrow> 'r Redis \<Rightarrow> 'w DistributedLockStore" where
  "redis_locks get put r =
     \<lparr>lk_SetNX = (\<lambda>k v ttl. lift_state get put (SetNX r k v ttl)), lk_CompareDelete = (\<lambda>k v. lift_state get put (CompareDelete r k v))\<rparr>"

section \<open>Pending states\<close>

text \<open>What the service relies on: a stored verifier is there, it is read at most once, and nothing else appears under its key.\<close>

locale oauth_states =
  fixes st :: "'w OAuthStateStore" and pending :: "'w \<Rightarrow> string \<rightharpoonup> string"
  assumes stored: "oss_SetNX st k v ttl w = (Inr True, w') \<Longrightarrow> 0 < ttl \<Longrightarrow> pending w' k = Some v"
    and taken: "oss_GetDelete st k w = (Inr x, w') \<Longrightarrow> pending w' k = None \<and> (case x of None \<Rightarrow> True | Some v \<Rightarrow> pending w k = Some v)"
begin

text \<open>The calls of a service that neither store nor change a verifier.\<close>

definition leaves :: "'w OAuthService \<Rightarrow> bool" where
  "leaves s \<longleftrightarrow> (\<forall>u b w. pending (snd (os_send s u b w)) \<subseteq>\<^sub>m pending w) \<and> (\<forall>w. pending (snd (os_now s w)) \<subseteq>\<^sub>m pending w)"

lemma leaves_send: "leaves s \<Longrightarrow> os_send s u b w = (x, w') \<Longrightarrow> pending w' \<subseteq>\<^sub>m pending w"
  unfolding leaves_def by (metis snd_conv)

lemma leaves_now: "leaves s \<Longrightarrow> os_now s w = (x, w') \<Longrightarrow> pending w' \<subseteq>\<^sub>m pending w"
  unfolding leaves_def by (metis snd_conv)

lemma token_result_leaves: "leaves s \<Longrightarrow> token_result s p prev w = (c, w') \<Longrightarrow> pending w' \<subseteq>\<^sub>m pending w"
  by (auto simp: token_result_def Let_def dest: leaves_now split: if_splits prod.splits)

lemma Exchange_leaves:
  assumes "leaves s" "Exchange s code v w = (r, w')"
  shows "pending w' \<subseteq>\<^sub>m pending w"
proof -
  have "pending w' \<subseteq>\<^sub>m pending w" if "tokenRequest s f c w = (r, w')" for f c
  proof (cases "os_send s (TokenURL (os_config s)) (Encode (ol_sec (os_lib s)) f) w")
    case (Pair x w1)
    have "pending w1 \<subseteq>\<^sub>m pending w" by (rule leaves_send [OF assms(1) Pair])
    moreover have "w' = w \<or> w' = w1 \<or> (\<exists>p d. token_result s p c w1 = (d, w'))"
      using that Pair unfolding tokenRequest_def Let_def by (simp split: if_split_asm option.split_asm sum.split_asm prod.split_asm; blast)
    ultimately show ?thesis by (elim disjE exE) (simp_all add: map_le_trans [OF token_result_leaves [OF assms(1)]])
  qed
  with assms(2) show ?thesis by (auto simp: Exchange_def split: if_splits)
qed

lemma begun:
  assumes "os_state s = Some st" "BeginContext s x w = (Inr sess, w')"
  obtains v where "pending w' (oauthStateKey (os_lib s) (State sess)) = Some v" "Challenge sess = pkce_challenge (os_lib s) v" "Verifier sess = ''''"
proof -
  have ttl: "0 < stateTTL (os_config s)" by (simp add: stateTTL_def)
  from assms show ?thesis
    by (auto simp: BeginContext_def Let_def split: if_splits prod.splits sum.splits dest!: stored [OF _ ttl] intro: that)
qed

lemma exchanged:
  assumes "os_state s = Some st" "leaves s" "ExchangeState s code x w = (Inr c, w')"
  shows "pending w' (oauthStateKey (os_lib s) x) = None"
    and "\<exists>v u. pending w (oauthStateKey (os_lib s) x) = Some v \<and> Exchange s code v u = (Inr c, w')"
proof -
  from assms(1,3) obtain v u where t: "oss_GetDelete st (oauthStateKey (os_lib s) x) w = (Inr (Some v), u)" and e: "Exchange s code v u = (Inr c, w')"
    by (auto simp: ExchangeState_def split: if_splits prod.splits sum.splits option.splits)
  from taken [OF t] show "\<exists>v u. pending w (oauthStateKey (os_lib s) x) = Some v \<and> Exchange s code v u = (Inr c, w')" using e by auto
  from taken [OF t] Exchange_leaves [OF assms(2) e] show "pending w' (oauthStateKey (os_lib s) x) = None"
    by (auto simp: map_le_def dom_def)
qed

text \<open>A state is exchanged at most once, with the verifier whose challenge the authorization sent.\<close>

lemma single_use:
  assumes s: "os_state s = Some st" "leaves s" and b: "BeginContext s x w = (Inr sess, w1)" and l: "pending w2 \<subseteq>\<^sub>m pending w1"
    and e: "ExchangeState s code (State sess) w2 = (Inr c, w3)" and l': "pending w4 \<subseteq>\<^sub>m pending w3"
  shows "\<exists>v u. Challenge sess = pkce_challenge (os_lib s) v \<and> Exchange s code v u = (Inr c, w3)"
    and "isl (fst (ExchangeState s code' (State sess) w4))"
proof -
  let ?k = "oauthStateKey (os_lib s) (State sess)"
  obtain v where v: "pending w1 ?k = Some v" "Challenge sess = pkce_challenge (os_lib s) v" by (rule begun [OF s(1) b])
  obtain v' u where v': "pending w2 ?k = Some v'" "Exchange s code v' u = (Inr c, w3)" using exchanged(2) [OF s e] by blast
  have "v' = v" using l v(1) v'(1) by (auto simp: map_le_def dom_def)
  with v v' show "\<exists>v u. Challenge sess = pkce_challenge (os_lib s) v \<and> Exchange s code v u = (Inr c, w3)" by blast
  have "pending w4 ?k = None" using exchanged(1) [OF s e] l' by (auto simp: map_le_def dom_def) 
  show "isl (fst (ExchangeState s code' (State sess) w4))"
  proof (cases "ExchangeState s code' (State sess) w4")
    case (Pair r w5)
    then show ?thesis using exchanged(2) [OF s, of code' "State sess" w4 _ w5] \<open>pending w4 ?k = None\<close> by (cases r) auto
  qed
qed

end

section \<open>Redis\<close>

locale dropping_redis = redis_server srv clk str zs
  for srv :: "'r RedisServer" and clk :: "'r \<Rightarrow> int" and str :: "'r \<Rightarrow> string \<rightharpoonup> string" and zs :: "'r \<Rightarrow> string \<Rightarrow> (string \<rightharpoonup> int)" +
  fixes get_redis :: "'w \<Rightarrow> 'r" and put_redis :: "'r \<Rightarrow> 'w \<Rightarrow> 'w" and pfx :: string
  assumes place: "get_redis (put_redis r w) = r"
    and drop: "transport srv r = (e, r') \<Longrightarrow> str r' \<subseteq>\<^sub>m str r"
begin

abbreviation "strings w k \<equiv> str (get_redis w) (pfx @ k)"
abbreviation "adapter \<equiv> \<lparr>client = Some srv, prefix = pfx\<rparr>"

lemma dropped: "transport srv r = (e, r') \<Longrightarrow> str r' k = None \<or> str r' k = str r k"
  using drop [of r e r'] by (metis map_le_def domIff)

lemma ms_pos: "0 < ttl \<Longrightarrow> 0 < expiry_ms ttl"
proof (cases "ttl < 1000000")
  case False
  moreover assume "0 < ttl"
  ultimately show ?thesis using zdiv_mono1 [of 1000000 ttl 1000000] by (simp add: expiry_ms_def milliseconds_def)
qed (simp add: expiry_ms_def)

lemma setnx_stored:
  assumes "lift_state get_redis put_redis (SetNX adapter k v ttl) w = (Inr True, w')" "0 < ttl"
  shows "strings w' k = Some v"
proof -
  from assms(1) obtain r r' where t: "transport srv (get_redis w) = (None, r)" and n: "cmd_SETNX srv (pfx @ k) v (expiry_ms ttl) r = (True, r')" and w': "w' = put_redis r' w"
    by (auto simp: lift_state_def SetNX_def with_client_def round_trip_def Key_def Let_def split: prod.splits option.splits)
  from setnx [OF _ n] ms_pos [OF assms(2)] w' show ?thesis by (simp add: place)
qed

lemma getdelete_taken:
  assumes "lift_state get_redis put_redis (GetDelete adapter k) w = (Inr x, w')"
  shows "strings w' k = None \<and> (case x of None \<Rightarrow> True | Some v \<Rightarrow> strings w k = Some v)"
proof -
  from assms obtain r r' where t: "transport srv (get_redis w) = (None, r)" and n: "script_getdel srv (pfx @ k) r = (x, r')" and w': "w' = put_redis r' w"
    by (auto simp: lift_state_def GetDelete_def with_client_def round_trip_def Key_def Let_def split: prod.splits option.splits)
  from n have "str r' (pfx @ k) = None" "x = str r (pfx @ k)" by (auto simp: script_getdel_def get del split: option.splits)
  with dropped [OF t, of "pfx @ k"] w' show ?thesis by (auto simp: place split: option.splits)
qed

end

sublocale dropping_redis \<subseteq> oauth_states "redis_states get_redis put_redis \<lparr>client = Some srv, prefix = pfx\<rparr>" "\<lambda>w k. str (get_redis w) (pfx @ k)"
  by unfold_locales (auto simp: redis_states_def dest: setnx_stored getdelete_taken)

context dropping_redis begin

lemma states_contract:
  "oauth_states (redis_states get_redis put_redis \<lparr>client = Some srv, prefix = pfx\<rparr>) (\<lambda>w k. str (get_redis w) (pfx @ k))"
  by unfold_locales

end

end
