(* ===== verification/OAuth_Steps.thy ===== *)
theory OAuth_Steps
  imports OAuth_Laws
begin

text \<open>
  Refreshes of one account that run at the same time, in one instance or in several (\<open>refreshAccount\<close> of \<open>internal/upstream/oauth.go\<close>).

  A refresher moves through the phases of \<open>refreshAccount\<close>: it has loaded the credentials, holds the lock, has loaded them again, has an answer
  of the token endpoint or was refused, and leaves the lock. Each step is one call of the store, the locks or the endpoint; the steps of
  different refreshers interleave. \<open>rf_idle\<close> is what may happen to the world in between (time, other work), \<open>rf_lapse\<close> the expiry of a lock, which is
  assumed not to happen while its owner still works: the lock lives two minutes, the requests of a refresh at most thirty seconds each.
  \<open>rf_asked\<close> are the refresh tokens that were sent, each with the token that had been received last; \<open>rf_lost\<close> says that an answer could not be saved.
\<close>

section \<open>Phases and steps\<close>

datatype refresher =
  Arrived | Loaded Credentials | Locked Credentials | Ready Credentials | Answered Credentials | Refused Credentials oauth_error | Leaving | Gone

definition working :: "refresher \<Rightarrow> bool" where
  "working p = (case p of Arrived \<Rightarrow> False | Loaded _ \<Rightarrow> False | Gone \<Rightarrow> False | _ \<Rightarrow> True)"

record 'w refreshing =
  rf_world :: 'w
  rf_phase :: "nat \<Rightarrow> refresher"
  rf_asked :: "(string \<times> string) list"
  rf_received :: string
  rf_lost :: bool

record 'w refreshers =
  rf_service :: "'w RefreshService"
  rf_oauth :: "'w OAuthService"
  rf_store :: "'w OAuthCredentialStore"
  rf_locks :: "'w DistributedLockStore"
  rf_account :: string
  rf_owner :: "nat \<Rightarrow> string"
  rf_status :: "nat \<Rightarrow> AccountStatus"
  rf_before :: "nat \<Rightarrow> time"
  rf_idle :: "'w \<Rightarrow> 'w \<Rightarrow> bool"
  rf_lapse :: "'w \<Rightarrow> 'w \<Rightarrow> bool"

definition goto :: "nat \<Rightarrow> refresher \<Rightarrow> 'w \<Rightarrow> 'w refreshing \<Rightarrow> 'w refreshing" where
  "goto i p w c = c\<lparr>rf_world := w, rf_phase := (rf_phase c)(i := p)\<rparr>"

definition still_fresh :: "'w refreshers \<Rightarrow> nat \<Rightarrow> Credentials \<Rightarrow> bool" where
  "still_fresh e i current \<longleftrightarrow> rf_before e i \<noteq> 0 \<and> rf_before e i < cred_ExpiresAt current"

definition ask :: "'w refreshers \<Rightarrow> Credentials \<Rightarrow> 'w \<Rightarrow> (oauth_error + Credentials) \<times> 'w" where
  "ask e current w =
     (if RefreshToken current = '''' then (Inl (OAuthFailed (ErrText ''OAuth refresh token is empty'')), w) else oauth_Refresh (rf_oauth e) current w)"

definition answer :: "Credentials \<Rightarrow> oauth_error + Credentials \<Rightarrow> 'w refreshing \<Rightarrow> 'w refreshing" where
  "answer current r c =
     c\<lparr>rf_asked := (RefreshToken current, rf_received c) # rf_asked c,
       rf_received := (case r of Inl _ \<Rightarrow> rf_received c | Inr updated \<Rightarrow> TrimSpace (RefreshToken updated))\<rparr>"

inductive refresh_step :: "'w refreshers \<Rightarrow> 'w refreshing \<Rightarrow> 'w refreshing \<Rightarrow> bool" for e where
  load: "\<lbrakk>rf_phase c i = Arrived; ocs_Credentials (rf_store e) (rf_account e) (rf_world c) = (r, w')\<rbrakk>
    \<Longrightarrow> refresh_step e c (goto i (case r of Inl _ \<Rightarrow> Gone | Inr credentials \<Rightarrow> Loaded credentials) w' c)"
| lock: "\<lbrakk>rf_phase c i = Loaded credentials;
      lk_SetNX (rf_locks e) (refreshLockKey (rf_account e)) (rf_owner e i) (refreshLockTTL (rf_service e)) (rf_world c) = (r, w')\<rbrakk>
    \<Longrightarrow> refresh_step e c (goto i (case r of Inl _ \<Rightarrow> Gone | Inr acquired \<Rightarrow> if acquired then Locked credentials else Loaded credentials) w' c)"
| give_up: "rf_phase c i = Loaded credentials \<Longrightarrow> refresh_step e c (goto i Gone (rf_world c) c)"
| reload: "\<lbrakk>rf_phase c i = Locked credentials;
      refresh_reload (rf_store e) (rf_account e) credentials (rf_status e i) (rf_world c) = (r, w')\<rbrakk>
    \<Longrightarrow> refresh_step e c (goto i (case r of Inl _ \<Rightarrow> Leaving | Inr current \<Rightarrow> Ready current) w' c)"
| fresh: "\<lbrakk>rf_phase c i = Ready current; still_fresh e i current\<rbrakk> \<Longrightarrow> refresh_step e c (goto i Leaving (rf_world c) c)"
| request: "\<lbrakk>rf_phase c i = Ready current; \<not> still_fresh e i current; ask e current (rf_world c) = (r, w')\<rbrakk>
    \<Longrightarrow> refresh_step e c (answer current r (goto i (case r of Inl cause \<Rightarrow> Refused current cause | Inr updated \<Rightarrow> Answered updated) w' c))"
| save: "\<lbrakk>rf_phase c i = Answered updated;
      SaveOAuthRefresh (rf_store e) (rf_account e)
        \<lparr>ru_Credentials = Some updated, ru_Status = rf_status e i, ru_CooldownUntil = None, ru_LastError = ''''\<rparr> (rf_world c) = (x, w')\<rbrakk>
    \<Longrightarrow> refresh_step e c ((goto i Leaving w' c)\<lparr>rf_lost := rf_lost c \<or> x \<noteq> None\<rparr>)"
| record_failure: "\<lbrakk>rf_phase c i = Refused current cause;
      recordRefreshFailure (rf_service e) (rf_store e) (rf_account e) current cause (rf_status e i) (rf_world c) = (r, w')\<rbrakk>
    \<Longrightarrow> refresh_step e c (goto i Leaving w' c)"
| unlock: "\<lbrakk>rf_phase c i = Leaving; lk_CompareDelete (rf_locks e) (refreshLockKey (rf_account e)) (rf_owner e i) (rf_world c) = (r, w')\<rbrakk>
    \<Longrightarrow> refresh_step e c (goto i Gone w' c)"
| again: "rf_phase c i = Gone \<Longrightarrow> refresh_step e c (goto i Arrived (rf_world c) c)"
| idle: "rf_idle e (rf_world c) w' \<Longrightarrow> refresh_step e c (c\<lparr>rf_world := w'\<rparr>)"
| lapse: "\<lbrakk>rf_lapse e (rf_world c) w'; \<forall>i. \<not> working (rf_phase c i)\<rbrakk> \<Longrightarrow> refresh_step e c (c\<lparr>rf_world := w'\<rparr>)"

abbreviation refresh_steps :: "'w refreshers \<Rightarrow> 'w refreshing \<Rightarrow> 'w refreshing \<Rightarrow> bool" where
  "refresh_steps e \<equiv> (refresh_step e)\<^sup>*\<^sup>*"

text \<open>What a refresher does when it is its turn; a schedule is the order of the turns.\<close>

definition turn :: "'w refreshers \<Rightarrow> nat \<Rightarrow> 'w refreshing \<Rightarrow> 'w refreshing" where
  "turn e i c =
     (case rf_phase c i of
        Arrived \<Rightarrow> (case ocs_Credentials (rf_store e) (rf_account e) (rf_world c) of
            (r, w) \<Rightarrow> goto i (case r of Inl _ \<Rightarrow> Gone | Inr credentials \<Rightarrow> Loaded credentials) w c)
      | Loaded credentials \<Rightarrow> (case lk_SetNX (rf_locks e) (refreshLockKey (rf_account e)) (rf_owner e i) (refreshLockTTL (rf_service e)) (rf_world c) of
            (r, w) \<Rightarrow> goto i (case r of Inl _ \<Rightarrow> Gone | Inr acquired \<Rightarrow> if acquired then Locked credentials else Loaded credentials) w c)
      | Locked credentials \<Rightarrow> (case refresh_reload (rf_store e) (rf_account e) credentials (rf_status e i) (rf_world c) of
            (r, w) \<Rightarrow> goto i (case r of Inl _ \<Rightarrow> Leaving | Inr current \<Rightarrow> Ready current) w c)
      | Ready current \<Rightarrow> if still_fresh e i current then goto i Leaving (rf_world c) c
            else (case ask e current (rf_world c) of
              (r, w) \<Rightarrow> answer current r (goto i (case r of Inl cause \<Rightarrow> Refused current cause | Inr updated \<Rightarrow> Answered updated) w c))
      | Answered updated \<Rightarrow> (case SaveOAuthRefresh (rf_store e) (rf_account e)
              \<lparr>ru_Credentials = Some updated, ru_Status = rf_status e i, ru_CooldownUntil = None, ru_LastError = ''''\<rparr> (rf_world c) of
            (x, w) \<Rightarrow> (goto i Leaving w c)\<lparr>rf_lost := rf_lost c \<or> x \<noteq> None\<rparr>)
      | Refused current cause \<Rightarrow>
            goto i Leaving (snd (recordRefreshFailure (rf_service e) (rf_store e) (rf_account e) current cause (rf_status e i) (rf_world c))) c
      | Leaving \<Rightarrow> goto i Gone (snd (lk_CompareDelete (rf_locks e) (refreshLockKey (rf_account e)) (rf_owner e i) (rf_world c))) c
      | Gone \<Rightarrow> goto i Arrived (rf_world c) c)"

definition schedule :: "'w refreshers \<Rightarrow> nat list \<Rightarrow> 'w refreshing \<Rightarrow> 'w refreshing" where
  "schedule e turns c = fold (turn e) turns c"

lemma turn_step: "refresh_step e c (turn e i c)"
  unfolding turn_def
  by (cases "rf_phase c i") (auto simp del: not_None_eq split: prod.split intro: refresh_step.intros prod.collapse [symmetric])

lemma schedule_steps: "refresh_steps e c (schedule e turns c)"
  unfolding schedule_def
proof (induction turns arbitrary: c)
  case (Cons i turns)
  show ?case using converse_rtranclp_into_rtranclp [of "refresh_step e", OF turn_step Cons.IH] by simp
qed simp

section \<open>The contract\<close>

text \<open>The owner of the lock and the stored refresh token are functions of the world.\<close>

locale serial_refresh =
  fixes e :: "'w refreshers" and holder :: "'w \<Rightarrow> string option" and token :: "'w \<Rightarrow> string"
  assumes owners: "rf_owner e i = rf_owner e j \<Longrightarrow> i = j"
    and loaded: "ocs_Credentials (rf_store e) (rf_account e) w = (r, w') \<Longrightarrow>
      holder w' = holder w \<and> token w' = token w \<and> (case r of Inl _ \<Rightarrow> True | Inr c \<Rightarrow> TrimSpace (RefreshToken c) = token w)"
    and status_saved: "SaveOAuthRefresh (rf_store e) (rf_account e) u w = (x, w') \<Longrightarrow> ru_Credentials u = None \<Longrightarrow> holder w' = holder w \<and> token w' = token w"
    and token_saved: "SaveOAuthRefresh (rf_store e) (rf_account e) u w = (x, w') \<Longrightarrow> ru_Credentials u = Some c \<Longrightarrow>
      holder w' = holder w \<and> (x = None \<longrightarrow> token w' = TrimSpace (RefreshToken c))"
    and acquired: "lk_SetNX (rf_locks e) (refreshLockKey (rf_account e)) v (refreshLockTTL (rf_service e)) w = (b, w') \<Longrightarrow> token w' = token w
      \<and> (holder w \<noteq> None \<longrightarrow> holder w' = holder w \<and> b \<noteq> Inr True) \<and> (b = Inr True \<longrightarrow> holder w' = Some v)"
    and released: "lk_CompareDelete (rf_locks e) (refreshLockKey (rf_account e)) v w = (b, w') \<Longrightarrow> token w' = token w
      \<and> (holder w' = holder w \<or> holder w = Some v)"
    and endpoint: "oauth_Refresh (rf_oauth e) c w = (q, w') \<Longrightarrow> holder w' = holder w \<and> token w' = token w"
    and clock: "rs_Now (rf_service e) w = (t, w') \<Longrightarrow> holder w' = holder w \<and> token w' = token w"
    and idling: "rf_idle e w w' \<Longrightarrow> holder w' = holder w \<and> token w' = token w"
    and lapsing: "rf_lapse e w w' \<Longrightarrow> token w' = token w"
begin

definition owned :: "'w refreshing \<Rightarrow> bool" where
  "owned c \<longleftrightarrow> (\<forall>i. working (rf_phase c i) \<longrightarrow> holder (rf_world c) = Some (rf_owner e i))"

definition current :: "string \<Rightarrow> refresher \<Rightarrow> bool" where
  "current g p = (case p of Ready c \<Rightarrow> TrimSpace (RefreshToken c) = g | Answered c \<Rightarrow> TrimSpace (RefreshToken c) = g | _ \<Rightarrow> True)"

definition unsaved :: "refresher \<Rightarrow> bool" where
  "unsaved p = (case p of Answered _ \<Rightarrow> True | _ \<Rightarrow> False)"

definition in_step :: "'w refreshing \<Rightarrow> bool" where
  "in_step c \<longleftrightarrow> (\<forall>i. current (rf_received c) (rf_phase c i)) \<and> ((\<forall>i. \<not> unsaved (rf_phase c i)) \<longrightarrow> token (rf_world c) = rf_received c)
     \<and> (\<forall>(a, g) \<in> set (rf_asked c). TrimSpace a = g)"

lemma reload_calm:
  assumes "refresh_reload (rf_store e) (rf_account e) cr x w = (r, w')"
  shows "holder w' = holder w" "token w' = token w" "r = Inr cur \<Longrightarrow> TrimSpace (RefreshToken cur) = token w"
proof -
  from assms have "holder w' = holder w \<and> token w' = token w \<and> (\<forall>cur. r = Inr cur \<longrightarrow> TrimSpace (RefreshToken cur) = token w)"
    by (auto simp: refresh_reload_def split: prod.splits sum.splits if_splits option.splits dest!: loaded status_saved)
  then show "holder w' = holder w" "token w' = token w" "r = Inr cur \<Longrightarrow> TrimSpace (RefreshToken cur) = token w" by auto
qed

lemma failure_calm:
  assumes "recordRefreshFailure (rf_service e) (rf_store e) (rf_account e) cur cause x w = (r, w')"
  shows "holder w' = holder w" "token w' = token w"
proof -
  have "ru_Credentials (failure_update s t c m y) = None" for s :: "'w RefreshService" and t c m y by (simp add: failure_update_def)
  with assms have "holder w' = holder w \<and> token w' = token w"
    by (auto simp: recordRefreshFailure_def Let_def split: prod.splits option.splits dest!: clock status_saved)
  then show "holder w' = holder w" "token w' = token w" by auto
qed

lemma ask_calm: "ask e cur w = (r, w') \<Longrightarrow> holder w' = holder w \<and> token w' = token w"
  by (auto simp: ask_def dest: endpoint split: if_splits)

lemma only_worker: "owned c \<Longrightarrow> working (rf_phase c i) \<Longrightarrow> working (rf_phase c j) \<Longrightarrow> i = j"
  unfolding owned_def by (metis option.inject owners)

lemma owned_step:
  assumes "refresh_step e c c'" "owned c"
  shows "owned c'"
  using assms(1)
proof cases
  case (lock i cr r w')
  have l: "(holder (rf_world c) \<noteq> None \<longrightarrow> holder w' = holder (rf_world c) \<and> r \<noteq> Inr True) \<and> (r = Inr True \<longrightarrow> holder w' = Some (rf_owner e i))"
    using acquired [OF lock(3)] by blast
  show ?thesis
  proof (cases "holder (rf_world c)")
    case None
    then have "\<not> working (rf_phase c j)" for j using assms(2) by (auto simp: owned_def)
    then show ?thesis using l by (auto simp: lock(1) owned_def goto_def working_def split: sum.splits if_splits)
  next
    case (Some o')
    then show ?thesis using l assms(2) lock(2) by (auto simp: lock(1) owned_def goto_def working_def split: sum.splits if_splits)
  qed
next
  case (unlock i r w')
  have l: "holder w' = holder (rf_world c) \<or> holder (rf_world c) = Some (rf_owner e i)" using released [OF unlock(3)] by blast
  have "\<not> working (rf_phase c j)" if "j \<noteq> i" for j
    using only_worker [OF assms(2), of i j] unlock(2) that by (auto simp: working_def)
  then show ?thesis by (auto simp: unlock(1) owned_def goto_def working_def)
qed (use assms(2) in \<open>auto simp: owned_def goto_def answer_def working_def split: sum.splits
      dest: loaded reload_calm(1) failure_calm(1) ask_calm status_saved token_saved idling\<close>)

text \<open>A step of a refresher that leaves the stored token alone.\<close>

lemma goto_in_step:
  assumes "in_step c" "token w' = token (rf_world c)" "current (rf_received c) p" "\<not> unsaved p" "\<not> unsaved (rf_phase c i)"
  shows "in_step (goto i p w' c)"
  using assms by (auto simp: in_step_def goto_def)

lemma in_step_lost [simp]: "in_step (c\<lparr>rf_lost := b\<rparr>) = in_step c"
  by (simp add: in_step_def)

lemma idle_refresher: "\<not> working p \<Longrightarrow> current g p \<and> \<not> unsaved p"
  by (cases p) (simp_all add: working_def current_def unsaved_def)

lemma answer_in_step:
  assumes "in_step c" "owned c" "rf_phase c i = Ready cur" "ask e cur (rf_world c) = (r, w')"
  shows "in_step (answer cur r (goto i (case r of Inl cause \<Rightarrow> Refused cur cause | Inr updated \<Rightarrow> Answered updated) w' c))"
proof -
  have w: "token w' = token (rf_world c)" using ask_calm [OF assms(4)] by simp
  have a: "TrimSpace (RefreshToken cur) = rf_received c" using assms(1,3) by (auto simp: in_step_def current_def dest: spec [of _ i])
  have "\<not> working (rf_phase c j)" if "j \<noteq> i" for j
    using only_worker [OF assms(2), of i j] assms(3) that by (auto simp: working_def)
  then have others: "current g (rf_phase c j) \<and> \<not> unsaved (rf_phase c j)" if "j \<noteq> i" for j g using that idle_refresher by blast
  show ?thesis
  proof (cases r)
    case (Inl cause)
    have "in_step (goto i (Refused cur cause) w' c)"
      by (rule goto_in_step [OF assms(1) w]) (simp_all add: assms(3) current_def unsaved_def)
    then show ?thesis using a Inl by (simp add: in_step_def answer_def goto_def)
  next
    case (Inr u)
    have "\<forall>(x, g) \<in> set (rf_asked c). TrimSpace x = g" using assms(1) by (simp add: in_step_def)
    then show ?thesis using a Inr others by (auto simp: in_step_def answer_def goto_def current_def unsaved_def)
  qed
qed

lemma save_in_step:
  assumes "in_step c" "owned c" "rf_phase c i = Answered u" "token w' = TrimSpace (RefreshToken u)"
  shows "in_step (goto i Leaving w' c)"
proof -
  have r: "TrimSpace (RefreshToken u) = rf_received c" using assms(1,3) by (auto simp: in_step_def current_def dest: spec [of _ i])
  show ?thesis using assms(1,4) r by (auto simp: in_step_def goto_def current_def unsaved_def)
qed

lemma in_step_kept:
  assumes "refresh_step e c c'" "owned c" "rf_lost c \<or> in_step c"
  shows "rf_lost c' \<or> in_step c'"
proof (cases "rf_lost c")
  case True
  from assms(1) this show ?thesis by cases (auto simp: goto_def answer_def)
next
  case False
  then have i: "in_step c" using assms(3) by simp
  from assms(1) show ?thesis
  proof cases
    case (load i r w')
    have "token w' = token (rf_world c)" using loaded [OF load(3)] by simp
    from goto_in_step [OF i this] show ?thesis using load by (simp add: current_def unsaved_def split: sum.split)
  next
    case (lock i cr r w')
    have "token w' = token (rf_world c)" using acquired [OF lock(3)] by simp
    from goto_in_step [OF i this] show ?thesis using lock by (simp add: current_def unsaved_def split: sum.split)
  next
    case (reload i cr r w')
    have "\<not> unsaved (rf_phase c j)" for j
      using only_worker [OF assms(2), of i j] reload(2) idle_refresher by (cases "j = i") (auto simp: working_def unsaved_def)
    then have t: "token (rf_world c) = rf_received c" using i by (simp add: in_step_def)
    from goto_in_step [OF i reload_calm(2) [OF reload(3)]] reload_calm(3) [OF reload(3)] t show ?thesis
      using reload by (simp add: current_def unsaved_def split: sum.split)
  next
    case (fresh i cur)
    from goto_in_step [OF i refl] show ?thesis using fresh by (simp add: current_def unsaved_def)
  next
    case (request i cur r w')
    from answer_in_step [OF i assms(2) request(2,4)] show ?thesis using request by simp
  next
    case (save i u x w')
    from save_in_step [OF i assms(2) save(2)] token_saved [OF save(3)] show ?thesis
      using save(1) by (cases x) simp_all
  next
    case (record_failure i cur cause r w')
    from goto_in_step [OF i failure_calm(2) [OF record_failure(3)]] show ?thesis
      using record_failure by (simp add: current_def unsaved_def)
  next
    case (unlock i r w')
    have "token w' = token (rf_world c)" using released [OF unlock(3)] by simp
    from goto_in_step [OF i this] show ?thesis using unlock by (simp add: current_def unsaved_def)
  next
    case (give_up i cr)
    from goto_in_step [OF i refl] show ?thesis using give_up by (simp add: current_def unsaved_def)
  next
    case (again i)
    from goto_in_step [OF i refl] show ?thesis using again by (simp add: current_def unsaved_def)
  qed (use i idling lapsing in \<open>auto simp: in_step_def\<close>)
qed

text \<open>From the start on, one refresher at a time works, and every request carries the token that was received last.\<close>

definition started :: "'w refreshing \<Rightarrow> bool" where
  "started c \<longleftrightarrow> (\<forall>i. rf_phase c i = Arrived) \<and> token (rf_world c) = rf_received c \<and> rf_asked c = []"

lemma serialized:
  assumes "refresh_steps e c c'" "started c"
  shows "owned c' \<and> (rf_lost c' \<or> in_step c')"
  using assms(1)
proof (induction rule: rtranclp_induct)
  case base
  then show ?case using assms(2) by (simp add: started_def owned_def in_step_def working_def current_def unsaved_def)
next
  case (step y z)
  then show ?case using owned_step in_step_kept by blast
qed

end

section \<open>The code takes these steps\<close>

text \<open>The configuration of one refresher after some steps of its own: the others are where they were.\<close>

definition moved :: "'w refreshers \<Rightarrow> nat \<Rightarrow> 'w refreshing \<Rightarrow> (refresher \<Rightarrow> bool) \<Rightarrow> 'w \<Rightarrow> bool" where
  "moved e i c P w \<longleftrightarrow> (\<exists>c'. refresh_steps e c c' \<and> rf_world c' = w \<and> P (rf_phase c' i) \<and> (\<forall>j. j \<noteq> i \<longrightarrow> rf_phase c' j = rf_phase c j))"

lemma moved_self: "P (rf_phase c i) \<Longrightarrow> moved e i c P (rf_world c)"
  unfolding moved_def by blast

lemma moved_step:
  assumes "refresh_step e c c1" "\<And>j. j \<noteq> i \<Longrightarrow> rf_phase c1 j = rf_phase c j" "moved e i c1 P w"
  shows "moved e i c P w"
proof -
  from assms(3) obtain c' where c': "refresh_steps e c1 c'" "rf_world c' = w" "P (rf_phase c' i)" "\<forall>j. j \<noteq> i \<longrightarrow> rf_phase c' j = rf_phase c1 j"
    unfolding moved_def by blast
  have "refresh_steps e c c'" by (rule converse_rtranclp_into_rtranclp [OF assms(1) c'(1)])
  with c'(2-4) assms(2) show ?thesis unfolding moved_def by (intro exI [of _ c']) simp
qed

lemma moved_goto: "refresh_step e c (goto i p w c) \<Longrightarrow> moved e i (goto i p w c) P w' \<Longrightarrow> moved e i c P w'"
  by (erule moved_step) (simp_all add: goto_def)

lemma moved_more: "moved e i c ((=) p) w \<Longrightarrow> (\<And>c'. rf_world c' = w \<Longrightarrow> rf_phase c' i = p \<Longrightarrow> moved e i c' P w') \<Longrightarrow> moved e i c P w'"
  unfolding moved_def by (metis rtranclp_trans)

lemma goto_simps [simp]: "rf_world (goto i p w c) = w" "rf_phase (goto i p w c) i = p"
  by (simp_all add: goto_def)

text \<open>The loop that waits for the lock; the world may move on while it waits.\<close>

lemma lock_loop_steps:
  assumes "lock_loop lk wait key own ttl w = Some (x, w')"
    and "lk = rf_locks e" "key = refreshLockKey (rf_account e)" "own = rf_owner e i" "ttl = refreshLockTTL (rf_service e)"
    and "\<And>v y v'. wait v = (y, v') \<Longrightarrow> rf_idle e v v'"
    and "rf_phase c i = Loaded cr" "rf_world c = w"
  shows "moved e i c ((=) (if x = None then Locked cr else Gone)) w'"
  using assms
proof (induction lk wait key own ttl w "(x, w')" arbitrary: c rule: lock_loop.raw_induct [rotated, consumes 1, case_names step])
  case (step loop lk wait key own ttl w)
  obtain r w1 where r: "lk_SetNX lk key own ttl w = (r, w1)" by (rule prod.exhaust)
  note l = refresh_step.lock [of c i cr e r w1]
  show ?case
  proof (cases "r = Inr False")
    case True
    obtain y w2 where y: "wait w1 = (y, w2)" by (rule prod.exhaust)
    have i: "rf_idle e w1 w2" using step.prems y by simp
    let ?c = "goto i (Loaded cr) w1 c" and ?d = "(goto i (Loaded cr) w1 c)\<lparr>rf_world := w2\<rparr>"
    have s: "refresh_step e c ?c" using l r True step.prems by simp
    have t: "refresh_step e ?c ?d" using i by (intro refresh_step.idle) simp
    have "moved e i ?d ((=) (if x = None then Locked cr else Gone)) w'"
    proof (cases y)
      case None
      have n: "loop lk wait key own ttl w2 = Some (x, w')" using True r y None step(2) by simp
      show ?thesis by (rule step(1) [OF n]) (use step.prems in auto)
    next
      case (Some err)
      have e: "x = Some err" "w' = w2" using True r y Some step(2) by simp_all
      have "refresh_step e ?d (goto i Gone (rf_world ?d) ?d)" by (rule refresh_step.give_up [of _ _ cr]) simp
      then show ?thesis by (rule moved_goto) (simp add: e moved_self [of _ "goto i Gone w2 ?d" i, simplified])
    qed
    then have "moved e i ?c ((=) (if x = None then Locked cr else Gone)) w'" by (rule moved_step [OF t, rotated]) simp
    then show ?thesis by (rule moved_goto [OF s])
  next
    case False
    let ?p = "case r of Inl _ \<Rightarrow> Gone | Inr acquired \<Rightarrow> if acquired then Locked cr else Loaded cr"
    have p: "w' = w1" "(if x = None then Locked cr else Gone) = ?p" using False step(2) r by (auto split: sum.splits)
    have "refresh_step e c (goto i ?p w1 c)" using l r step.prems by simp
    then show ?thesis unfolding p by (rule moved_goto) (use moved_self [of "(=) ?p" "goto i ?p w1 c" i e] in simp)
  qed
qed

lemma moved_last: "refresh_step e c (goto i p w c) \<Longrightarrow> moved e i c ((=) p) w"
  by (erule moved_goto) (use moved_self [of "(=) p" "goto i p w c" i e] in simp)

lemma moved_by:
  assumes "refresh_step e c c1" "rf_phase c1 = (rf_phase c)(i := p)" "rf_world c1 = v" "\<And>c'. rf_world c' = v \<Longrightarrow> rf_phase c' i = p \<Longrightarrow> moved e i c' P w'"
  shows "moved e i c P w'"
  by (rule moved_step [OF assms(1)]) (use assms in auto)

lemma ask_steps:
  fixes e :: "'w refreshers"
  assumes "refresh_current (rf_service e) (rf_oauth e) (rf_store e) (rf_account e) cur (rf_before e i) (rf_status e i) w = (r, w')"
    and "rf_phase c i = Ready cur" "rf_world c = w"
  shows "moved e i c ((=) Leaving) w'"
proof (cases "still_fresh e i cur")
  case True
  then have "w' = w" using assms(1) by (simp add: refresh_current_def still_fresh_def)
  then show ?thesis using refresh_step.fresh [OF assms(2) True] assms(3) by (simp add: moved_last)
next
  case False
  obtain x v where a: "ask e cur w = (x, v)" by (rule prod.exhaust)
  let ?p = "case x of Inl cause \<Rightarrow> Refused cur cause | Inr updated \<Rightarrow> Answered updated"
  have s: "refresh_step e c (answer cur x (goto i ?p v c))" using refresh_step.request [OF assms(2) False] a assms(3) by simp
  show ?thesis
  proof (rule moved_by [OF s])
    show "rf_phase (answer cur x (goto i ?p v c)) = (rf_phase c)(i := ?p)" "rf_world (answer cur x (goto i ?p v c)) = v" by (simp_all add: answer_def goto_def)
    fix c' :: "'w refreshing"
    assume c': "rf_world c' = v" "rf_phase c' i = ?p"
    show "moved e i c' ((=) Leaving) w'"
    proof (cases x)
      case (Inl cause)
      then obtain q where "recordRefreshFailure (rf_service e) (rf_store e) (rf_account e) cur cause (rf_status e i) v = (q, w')"
        using assms(1) False a by (auto simp: refresh_current_def still_fresh_def ask_def split: prod.splits if_splits)
      then show ?thesis using refresh_step.record_failure [of c' i cur cause e q w'] c' Inl by (simp add: moved_last)
    next
      case (Inr u)
      obtain y where y: "SaveOAuthRefresh (rf_store e) (rf_account e) \<lparr>ru_Credentials = Some u, ru_Status = rf_status e i, ru_CooldownUntil = None, ru_LastError = ''''\<rparr> v = (y, w')"
        using assms(1) False a Inr by (auto simp: refresh_current_def still_fresh_def ask_def split: prod.splits if_splits option.splits)
      have "refresh_step e c' ((goto i Leaving w' c')\<lparr>rf_lost := rf_lost c' \<or> y \<noteq> None\<rparr>)"
        by (rule refresh_step.save [of c' i u e]) (use c' Inr y in simp_all)
      then show ?thesis by (rule moved_by [where p = Leaving and v = w']) (auto simp: goto_def intro!: moved_self)
    qed
  qed
qed

lemma held_steps:
  assumes "refresh_held (rf_service e) (rf_oauth e) (rf_store e) (rf_account e) cr (rf_before e i) (rf_status e i) w = (r, w')"
    and "rf_phase c i = Locked cr" "rf_world c = w"
  shows "moved e i c ((=) Leaving) w'"
proof -
  obtain x v where x: "refresh_reload (rf_store e) (rf_account e) cr (rf_status e i) w = (x, v)" by (rule prod.exhaust)
  let ?p = "case x of Inl _ \<Rightarrow> Leaving | Inr current \<Rightarrow> Ready current"
  have s: "refresh_step e c (goto i ?p v c)" using refresh_step.reload [OF assms(2)] x assms(3) by simp
  show ?thesis
  proof (cases x)
    case (Inl q)
    then have "w' = v" using assms(1) x by (simp add: refresh_held_def)
    then show ?thesis using moved_last [OF s] Inl by simp
  next
    case (Inr cur)
    have c: "refresh_current (rf_service e) (rf_oauth e) (rf_store e) (rf_account e) cur (rf_before e i) (rf_status e i) v = (r, w')"
      using assms(1) x Inr by (simp add: refresh_held_def)
    show ?thesis by (rule moved_goto [OF s]) (rule ask_steps [OF c], simp_all add: Inr)
  qed
qed

text \<open>\<open>refreshAccount\<close> of a refresher with the lock is a run of its steps, from the loaded credentials until it is gone.\<close>

lemma refreshAccount_steps:
  fixes e :: "'w refreshers"
  assumes "rs_Locks (rf_service e) = Some (rf_locks e)" "rs_random (rf_service e) w = (rf_owner e i, v)" "rf_idle e w v"
    and wait: "\<And>u y u'. rs_wait (rf_service e) u = (y, u') \<Longrightarrow> rf_idle e u u'"
    and "refreshAccount (rf_service e) (rf_oauth e) (rf_store e) (rf_account e) cr (rf_before e i) (rf_status e i) w = Some (r, w')"
    and "rf_phase c i = Loaded cr" "rf_world c = w"
  shows "moved e i c ((=) Gone) w'"
proof -
  let ?lk = "rf_locks e" and ?key = "refreshLockKey (rf_account e)" and ?d = "c\<lparr>rf_world := v\<rparr>"
  obtain x u where l: "lock_loop ?lk (rs_wait (rf_service e)) ?key (rf_owner e i) (refreshLockTTL (rf_service e)) v = Some (x, u)"
    using assms(1,2,5) by (auto simp: refreshAccount_def Let_def split: option.splits)
  have s: "refresh_step e c ?d" using assms(3,7) by (intro refresh_step.idle) simp
  have a: "moved e i ?d ((=) (if x = None then Locked cr else Gone)) u"
    by (rule lock_loop_steps [OF l refl refl refl refl wait]) (use assms(6) in simp_all)
  have "moved e i ?d ((=) Gone) w'"
  proof (cases x)
    case (Some err)
    then have "w' = u" using assms(1,2,5) l by (simp add: refreshAccount_def)
    with a Some show ?thesis by simp
  next
    case None
    obtain q u' where h: "refresh_held (rf_service e) (rf_oauth e) (rf_store e) (rf_account e) cr (rf_before e i) (rf_status e i) u = (q, u')"
      by (rule prod.exhaust)
    obtain y where d: "lk_CompareDelete ?lk ?key (rf_owner e i) u' = (y, w')"
      using assms(1,2,5) l None h by (auto simp: refreshAccount_def refresh_unlock_def split: prod.splits sum.splits)
    have "moved e i ?d ((=) (Locked cr)) u" using a None by simp
    then show ?thesis
    proof (rule moved_more)
      fix c1 :: "'w refreshing"
      assume "rf_world c1 = u" "rf_phase c1 i = Locked cr"
      from held_steps [OF h this(2,1)] show "moved e i c1 ((=) Gone) w'"
      proof (rule moved_more)
        fix c2 :: "'w refreshing"
        assume "rf_world c2 = u'" "rf_phase c2 i = Leaving"
        then show "moved e i c2 ((=) Gone) w'" using refresh_step.unlock [of c2 i e y w'] d by (simp add: moved_last)
      qed
    qed
  qed
  then show ?thesis by (rule moved_step [OF s, rotated]) simp
qed

end
