(* ===== verification/OAuth_Instance.thy ===== *)
theory OAuth_Instance
  imports OAuth_Steps App_Adapters Management_Laws Memory_Store
begin

text \<open>
  The refresh of OAuth credentials on the program's own parts: the accounts in the database, the lock in Redis, the credentials sealed by
  the administrator's operations. The world is the tables with a Redis server in it.
\<close>

section \<open>The views\<close>

text \<open>The refresh token of an account as it is stored, without the white space around it; and a call that reaches neither the tables nor Redis.\<close>

definition stored_token :: "'z AccountTables_scheme ManagementService \<Rightarrow> string \<Rightarrow> 'z AccountTables_scheme \<Rightarrow> string" where
  "stored_token s k w =
     (case stored_row w k of
        None \<Rightarrow> ''''
      | Some a \<Rightarrow> (case openCredentials s k (CredentialCipher a) of Inl _ \<Rightarrow> '''' | Inr c \<Rightarrow> TrimSpace (RefreshToken c)))"

definition untouched :: "('z AccountTables_scheme \<Rightarrow> 'r) \<Rightarrow> 'z AccountTables_scheme \<Rightarrow> 'z AccountTables_scheme \<Rightarrow> bool" where
  "untouched get_redis w w' \<longleftrightarrow> get_redis w' = get_redis w \<and> tables_of w' = tables_of w"

section \<open>What a call leaves alone\<close>

lemma keeps_yield: "keeps I (yield r)"
  by (simp add: keeps_def yield_def)

lemma snd_try_return: "snd (try_do r (\<lambda>x w. (Inr (h x), w))) = snd r"
  by (cases r; cases "fst r") auto

lemma keeps_if: "\<lbrakk>P \<Longrightarrow> keeps I f; \<not> P \<Longrightarrow> keeps I g\<rbrakk> \<Longrightarrow> keeps I (\<lambda>w. if P then f w else g w)"
  by (simp add: keeps_def)

lemma keeps_Seal: "(\<And>n. keeps I (random n)) \<Longrightarrow> keeps I (Seal random c p ad)"
  by (auto simp: keeps_def Seal_def Let_def split: option.splits prod.splits sum.splits) (metis snd_conv)+

lemma keeps_prepare:
  assumes "\<And>n. keeps I (mg_random s n)"
  shows "keeps I (prepareAccountUpdate s a i)"
proof -
  have seal: "keeps I (sealCredentials s k c)" for k c
    using keeps_Seal [OF assms] by (auto simp: keeps_def sealCredentials_def split: sum.splits)
  show ?thesis unfolding prepareAccountUpdate_def Let_def
    by (intro keeps_try keeps_yield keeps_if seal keeps_return) (simp add: keeps_def split: option.splits)
qed

locale shared_world = redis_server srv clk str zs
  for srv :: "'r RedisServer" and clk :: "'r \<Rightarrow> int" and str :: "'r \<Rightarrow> string \<rightharpoonup> string" and zs :: "'r \<Rightarrow> string \<Rightarrow> (string \<rightharpoonup> int)" +
  fixes get_redis :: "'z AccountTables_scheme \<Rightarrow> 'r" and put_redis :: "'r \<Rightarrow> 'z AccountTables_scheme \<Rightarrow> 'z AccountTables_scheme" and pfx :: string
    and db :: "'z AccountDB" and s :: "'z AccountTables_scheme ManagementService"
  assumes place: "get_redis (put_redis r w) = r"
    and tables_put: "tables_of (put_redis r w) = tables_of w"
    and written: "get_redis (w\<lparr>tb_accounts := accs\<rparr>) = get_redis w"
    and steady: "transport srv r = (x, r') \<Longrightarrow> str r' = str r"
    and quiet_db: "db_quiet db"
    and apart: "get_redis (snd (ad_fault db call w)) = get_redis w"
    and random: "get_redis (snd (mg_random s n w)) = get_redis w" "tables_of (snd (mg_random s n w)) = tables_of w"
    and wired: "mg_accounts s = accounts_repository db" "secrets_ok s"
begin

abbreviation "strings w k \<equiv> str (get_redis w) (pfx @ k)"

lemma random_keeps: "keeps (untouched get_redis w) (mg_random s n)" "keeps (\<lambda>v. get_redis v = g) (mg_random s n)"
  using random by (auto simp: keeps_def untouched_def)

lemma trip_redis:
  assumes "keeps (\<lambda>v. get_redis v = g) f"
  shows "keeps (\<lambda>v. get_redis v = g) (ad_trip db call f)"
  by (rule keeps_trip [OF _ assms]) (simp add: apart)

lemma find_untouched:
  assumes "GetAccount db k w = (r, w')"
  shows "untouched get_redis w w'"
proof -
  have "tables_of (snd (ad_fault db Statement w)) = tables_of w" using quiet_db by (simp add: db_quiet_def)
  then show ?thesis using assms apart [of Statement w]
    by (cases "ad_fault db Statement w") (auto simp: GetAccount_def ad_trip_def untouched_def split: option.splits)
qed

lemma put_redis_kept: "keeps (\<lambda>v. get_redis v = g) (put_account row)"
  by (auto simp: keeps_def put_account_def written split: option.splits)

lemma update_redis:
  assumes "updateAccount db a w = (r, w')"
  shows "get_redis w' = get_redis w"
proof -
  have put: "keeps (\<lambda>v. get_redis v = g) (\<lambda>w. case find P (tb_accounts w) of None \<Rightarrow> (Inl e, w) | Some old \<Rightarrow> try_do (put_account (f old w) w) (\<lambda>row w. (Inr (h row), w)))"
    for g P e f h
    using put_redis_kept [of g] by (simp add: keeps_def snd_try_return split: option.split)
  have "keeps (\<lambda>v. get_redis v = g) (updateAccount db a)" for g
    unfolding updateAccount_def by (auto simp: keeps_def split: option.splits intro!: keepsD [OF trip_redis [OF put]])
  from keepsD [OF this refl, of w] assms show ?thesis by simp
qed

section \<open>The administrator's operations\<close>

lemma credentials_untouched: "GetAccountCredentials s k w = (r, w') \<Longrightarrow> untouched get_redis w w'"
  unfolding GetAccountCredentials_def wired(1) accounts_repository_def
  by (cases "GetAccount db k w"; cases "fst (GetAccount db k w)") (auto simp: yield_def dest: find_untouched)

lemma prepared_untouched: "prepareAccountUpdate s a i w = (r, w') \<Longrightarrow> untouched get_redis w w'"
  using keepsD [OF keeps_prepare [OF random_keeps(1)], of w w a i] by (simp add: untouched_def)

lemma untouched_trans: "untouched get_redis w v \<Longrightarrow> untouched get_redis v u \<Longrightarrow> untouched get_redis w u"
  by (simp add: untouched_def)

text \<open>An update never reaches Redis, and one that fails leaves the tables alone.\<close>

lemma update_shared:
  assumes "mg_UpdateAccount s k i w = (r, w')" "ua_ProxyID i = None"
  shows "get_redis w' = get_redis w" "isl r \<Longrightarrow> tables_of w' = tables_of w"
proof -
  have p: "validateAccountProxy s (ua_ProxyID i) v = (Inr (), v)" for v by (simp add: validateAccountProxy_def assms(2))
  obtain x w1 where g: "GetAccount db k w = (x, w1)" by (rule prod.exhaust)
  have "get_redis w' = get_redis w \<and> (isl r \<longrightarrow> tables_of w' = tables_of w)"
  proof (cases x)
    case (Inl err)
    then show ?thesis using assms(1) g find_untouched [OF g] by (auto simp: mg_UpdateAccount_def wired(1) accounts_repository_def untouched_def)
  next
    case (Inr a)
    obtain y w2 where y: "prepareAccountUpdate s a i w1 = (y, w2)" by (rule prod.exhaust)
    have u: "untouched get_redis w w2" by (rule untouched_trans [OF find_untouched [OF g] prepared_untouched [OF y]])
    show ?thesis
    proof (cases y)
      case (Inl err)
      then show ?thesis using assms(1) g Inr y p u by (auto simp: mg_UpdateAccount_def wired(1) accounts_repository_def untouched_def)
    next
      case (Inr b)
      obtain z w3 where z: "updateAccount db (Some b) w2 = (z, w3)" by (rule prod.exhaust)
      have m: "w' = w3" "isl r = isl z"
        using assms(1) g \<open>x = Inr a\<close> y Inr p z by (cases z; auto simp: mg_UpdateAccount_def wired(1) accounts_repository_def store_UpdateAccount_def)+
      have "isl z \<Longrightarrow> tables_of w3 = tables_of w2" using sound_updateAccount [of db "Some b"] quiet_db z by (metis fst_conv snd_conv sound_call_def)
      then show ?thesis using m u update_redis [OF z] by (auto simp: untouched_def)
    qed
  qed
  then show "get_redis w' = get_redis w" "isl r \<Longrightarrow> tables_of w' = tables_of w" by auto
qed

section \<open>The stored token\<close>

lemma stored_token_tables:
  assumes "tables_of w' = tables_of w"
  shows "stored_token s k w' = stored_token s k w"
  unfolding stored_token_def stored_row_tables [OF assms] by (rule refl)

lemma normalized_token: "normalizeAccountCredentials s kind c = Inr n \<Longrightarrow> RefreshToken n = TrimSpace (RefreshToken c)"
  by (auto simp: normalizeAccountCredentials_def Let_def split: if_splits sum.splits)

lemma repository: "account_repository (accounts_repository db) stored_row"
  by (rule quiet_repository [OF quiet_db])

lemma read_token:
  assumes "GetAccountCredentials s k w = (Inr c, w')"
  shows "TrimSpace (RefreshToken c) = stored_token s k w"
proof -
  obtain a w1 where g: "rp_GetAccount (accounts_repository db) k w = (Inr a, w1)" and o': "openCredentials s (ID a) (CredentialCipher a) = Inr c"
    using assms wired(1) by (auto simp: GetAccountCredentials_def yield_def try_do_Inr)
  from account_repository.get_ok [OF repository g] o' show ?thesis by (simp add: stored_token_def)
qed

lemma update_token:
  assumes "mg_UpdateAccount s k i w = (r, w')" "ua_ProxyID i = None"
  shows "ua_Credentials i = None \<Longrightarrow> stored_token s k w' = stored_token s k w"
    and "ua_Credentials i = Some c \<Longrightarrow> r = Inr a \<Longrightarrow> stored_token s k w' = TrimSpace (RefreshToken c)"
proof -
  have "(ua_Credentials i = None \<longrightarrow> stored_token s k w' = stored_token s k w)
      \<and> (\<forall>c a. ua_Credentials i = Some c \<longrightarrow> r = Inr a \<longrightarrow> stored_token s k w' = TrimSpace (RefreshToken c))"
  proof (cases r)
    case (Inl err)
    then have "stored_token s k w' = stored_token s k w" by (intro stored_token_tables update_shared(2) [OF assms]) simp
    with Inl show ?thesis by simp
  next
    case (Inr a)
    obtain old b c where r: "stored_row w k = Some old" "stored_row w' k = Some b" "openCredentials s k (CredentialCipher old) = Inr c"
      and d: "if ua_Credentials i = None \<and> CredentialFingerprint old \<noteq> '''' then CredentialCipher b = CredentialCipher old
        else \<exists>n. normalizeAccountCredentials s (Kind b) (given id (ua_Credentials i) c) = Inr n \<and> openCredentials s k (CredentialCipher b) = Inr n"
      by (rule account_repository.updated_row [OF repository wired assms(1) [unfolded Inr]])
    then show ?thesis
      by (auto simp: stored_token_def given_def dest: normalized_token split: if_splits option.splits)
  qed
  then show "ua_Credentials i = None \<Longrightarrow> stored_token s k w' = stored_token s k w"
    "ua_Credentials i = Some c \<Longrightarrow> r = Inr a \<Longrightarrow> stored_token s k w' = TrimSpace (RefreshToken c)" by auto
qed

section \<open>The lock\<close>

lemma lock_strings:
  assumes "lift_state get_redis put_redis (SetNX \<lparr>client = Some srv, prefix = pfx\<rparr> k v ttl) w = (b, w')" "0 < ttl"
  shows "tables_of w' = tables_of w" "strings w k \<noteq> None \<Longrightarrow> strings w' k = strings w k \<and> b \<noteq> Inr True" "b = Inr True \<Longrightarrow> strings w' k = Some v"
proof -
  have ms: "0 \<le> expiry_ms ttl"
    using assms(2) by (simp add: expiry_ms_def milliseconds_def pos_imp_zdiv_nonneg_iff)
  obtain x r1 where t: "transport srv (get_redis w) = (x, r1)" by (rule prod.exhaust)
  obtain y r2 where n: "cmd_SETNX srv (pfx @ k) v (expiry_ms ttl) r1 = (y, r2)" by (rule prod.exhaust)
  have "tables_of w' = tables_of w \<and> (strings w k \<noteq> None \<longrightarrow> strings w' k = strings w k \<and> b \<noteq> Inr True) \<and> (b = Inr True \<longrightarrow> strings w' k = Some v)"
    using assms(1) t n setnx [OF ms n] steady [OF t]
    by (auto simp: lift_state_def SetNX_def with_client_def round_trip_def Key_def Let_def place tables_put split: option.splits)
  then show "tables_of w' = tables_of w" "strings w k \<noteq> None \<Longrightarrow> strings w' k = strings w k \<and> b \<noteq> Inr True" "b = Inr True \<Longrightarrow> strings w' k = Some v"
    by auto
qed

lemma unlock_strings:
  assumes "lift_state get_redis put_redis (CompareDelete \<lparr>client = Some srv, prefix = pfx\<rparr> k v) w = (b, w')"
  shows "tables_of w' = tables_of w" "strings w' k = strings w k \<or> strings w k = Some v"
proof -
  obtain x r1 where t: "transport srv (get_redis w) = (x, r1)" by (rule prod.exhaust)
  have "tables_of w' = tables_of w \<and> (strings w' k = strings w k \<or> strings w k = Some v)"
    using assms t steady [OF t]
    by (auto simp: lift_state_def CompareDelete_def script_compare_delete_def with_client_def round_trip_def Key_def Let_def place tables_put get
        split: option.splits prod.splits if_splits)
  then show "tables_of w' = tables_of w" "strings w' k = strings w k \<or> strings w k = Some v" by auto
qed

end

section \<open>The refreshers of one account\<close>

text \<open>Refreshers wired as in \<open>Run\<close>; what the endpoint, the clock and the world in between do reaches neither the tables nor Redis.\<close>

locale shared_refresh = shared_world srv clk str zs get_redis put_redis pfx db s
  for srv :: "'r RedisServer" and clk :: "'r \<Rightarrow> int" and str :: "'r \<Rightarrow> string \<rightharpoonup> string" and zs :: "'r \<Rightarrow> string \<Rightarrow> (string \<rightharpoonup> int)"
    and get_redis :: "'z AccountTables_scheme \<Rightarrow> 'r" and put_redis :: "'r \<Rightarrow> 'z AccountTables_scheme \<Rightarrow> 'z AccountTables_scheme" and pfx :: string
    and db :: "'z AccountDB" and s :: "'z AccountTables_scheme ManagementService" +
  fixes e :: "'z AccountTables_scheme refreshers" and budget :: nat
  assumes store: "rf_store e = adapter_credentials budget (postgres_adapter db s)"
    and locks: "rf_locks e = redis_locks get_redis put_redis \<lparr>client = Some srv, prefix = pfx\<rparr>"
    and distinct_owners: "inj (rf_owner e)"
    and send: "os_send (rf_oauth e) u b w = (r, w') \<Longrightarrow> untouched get_redis w w'"
    and now: "os_now (rf_oauth e) w = (t, w') \<Longrightarrow> untouched get_redis w w'"
    and watch: "rs_Now (rf_service e) w = (t, w') \<Longrightarrow> untouched get_redis w w'"
    and idle: "rf_idle e w w' \<Longrightarrow> tables_of w' = tables_of w \<and> str (get_redis w') = str (get_redis w)"
    and lapse: "rf_lapse e w w' \<Longrightarrow> tables_of w' = tables_of w"
begin

lemma token_untouched:
  assumes "untouched get_redis w w'"
  shows "strings w' x = strings w x \<and> stored_token s k w' = stored_token s k w"
proof -
  have t: "tables_of w' = tables_of w" "get_redis w' = get_redis w" using assms by (simp_all add: untouched_def)
  from stored_token_tables [OF t(1)] t(2) show ?thesis by simp
qed

lemma request_untouched:
  assumes "tokenRequest (rf_oauth e) f c w = (r, w')"
  shows "untouched get_redis w w'"
proof (cases "os_send (rf_oauth e) (TokenURL (os_config (rf_oauth e))) (Encode (ol_sec (os_lib (rf_oauth e))) f) w")
  case (Pair x w1)
  have u: "untouched get_redis w w1" by (rule send [OF Pair])
  have "w' = w \<or> w' = w1 \<or> (\<exists>p d. token_result (rf_oauth e) p c w1 = (d, w'))"
    using assms Pair unfolding tokenRequest_def Let_def by (simp split: if_split_asm option.split_asm sum.split_asm prod.split_asm; blast)
  moreover have "untouched get_redis w1 w'" if "token_result (rf_oauth e) p c w1 = (d, w')" for p d
    using that by (auto simp: token_result_def Let_def untouched_def dest: now [unfolded untouched_def] split: if_splits prod.splits)
  ultimately show ?thesis using u untouched_trans by (auto simp: untouched_def)
qed

end

sublocale shared_refresh \<subseteq> serial_refresh e "\<lambda>w. str (get_redis w) (pfx @ refreshLockKey (rf_account e))" "stored_token s (rf_account e)"
proof unfold_locales
  show "rf_owner e i = rf_owner e j \<Longrightarrow> i = j" for i j using distinct_owners by (simp add: inj_eq)
next
  fix w r w'
  assume "ocs_Credentials (rf_store e) (rf_account e) w = (r, w')"
  then have g: "GetAccountCredentials s (rf_account e) w = (r, w')" by (simp add: store adapter_credentials_def adapter_Credentials_def postgres_adapter_def)
  from token_untouched [OF credentials_untouched [OF g]] read_token [of "rf_account e" w _ w'] g
  show "str (get_redis w') (pfx @ refreshLockKey (rf_account e)) = str (get_redis w) (pfx @ refreshLockKey (rf_account e))
      \<and> stored_token s (rf_account e) w' = stored_token s (rf_account e) w \<and> (case r of Inl _ \<Rightarrow> True | Inr c \<Rightarrow> TrimSpace (RefreshToken c) = stored_token s (rf_account e) w)"
    by (auto split: sum.split)
next
  fix u w x w'
  assume "SaveOAuthRefresh (rf_store e) (rf_account e) u w = (x, w')"
  then obtain r where r: "mg_UpdateAccount s (rf_account e) (refresh_patch u) w = (r, w')" and x: "x = None \<longleftrightarrow> (\<exists>a. r = Inr a)"
    by (auto simp: store adapter_credentials_def adapter_SaveOAuthRefresh_def postgres_adapter_def error_of_def Let_def split: prod.splits sum.splits if_splits)
  have p: "ua_ProxyID (refresh_patch u) = None" "ua_Credentials (refresh_patch u) = ru_Credentials u" by (simp_all add: refresh_patch_def)
  note t = update_shared(1) [OF r p(1)] update_token [OF r p(1), unfolded p(2)]
  show "ru_Credentials u = None \<Longrightarrow> str (get_redis w') (pfx @ refreshLockKey (rf_account e)) = str (get_redis w) (pfx @ refreshLockKey (rf_account e))
      \<and> stored_token s (rf_account e) w' = stored_token s (rf_account e) w" using t by simp
  show "ru_Credentials u = Some c \<Longrightarrow> str (get_redis w') (pfx @ refreshLockKey (rf_account e)) = str (get_redis w) (pfx @ refreshLockKey (rf_account e))
      \<and> (x = None \<longrightarrow> stored_token s (rf_account e) w' = TrimSpace (RefreshToken c))" for c using t x by auto
next
  fix v w b w'
  assume a: "lk_SetNX (rf_locks e) (refreshLockKey (rf_account e)) v (refreshLockTTL (rf_service e)) w = (b, w')"
  have "0 < refreshLockTTL (rf_service e)" by (simp add: refreshLockTTL_def)
  from lock_strings [OF a [unfolded locks redis_locks_def, simplified] this] show "stored_token s (rf_account e) w' = stored_token s (rf_account e) w
      \<and> (str (get_redis w) (pfx @ refreshLockKey (rf_account e)) \<noteq> None \<longrightarrow>
          str (get_redis w') (pfx @ refreshLockKey (rf_account e)) = str (get_redis w) (pfx @ refreshLockKey (rf_account e)) \<and> b \<noteq> Inr True)
      \<and> (b = Inr True \<longrightarrow> str (get_redis w') (pfx @ refreshLockKey (rf_account e)) = Some v)" by (auto intro: stored_token_tables)
next
  fix v w b w'
  assume a: "lk_CompareDelete (rf_locks e) (refreshLockKey (rf_account e)) v w = (b, w')"
  from unlock_strings [OF a [unfolded locks redis_locks_def, simplified]] show "stored_token s (rf_account e) w' = stored_token s (rf_account e) w
      \<and> (str (get_redis w') (pfx @ refreshLockKey (rf_account e)) = str (get_redis w) (pfx @ refreshLockKey (rf_account e))
         \<or> str (get_redis w) (pfx @ refreshLockKey (rf_account e)) = Some v)" by (auto intro: stored_token_tables)
next
  fix c w q w'
  assume "oauth_Refresh (rf_oauth e) c w = (q, w')"
  then have "untouched get_redis w w'" by (auto simp: oauth_Refresh_def untouched_def dest: request_untouched [unfolded untouched_def] split: if_splits)
  then show "str (get_redis w') (pfx @ refreshLockKey (rf_account e)) = str (get_redis w) (pfx @ refreshLockKey (rf_account e))
      \<and> stored_token s (rf_account e) w' = stored_token s (rf_account e) w" using token_untouched by blast
next
  fix w t w'
  assume "rs_Now (rf_service e) w = (t, w')"
  from token_untouched [OF watch [OF this]] show "str (get_redis w') (pfx @ refreshLockKey (rf_account e)) = str (get_redis w) (pfx @ refreshLockKey (rf_account e))
      \<and> stored_token s (rf_account e) w' = stored_token s (rf_account e) w" .
next
  fix w w'
  assume "rf_idle e w w'"
  then have i: "tables_of w' = tables_of w" "str (get_redis w') = str (get_redis w)" using idle by blast+
  from stored_token_tables [OF i(1)] i(2) show "str (get_redis w') (pfx @ refreshLockKey (rf_account e)) = str (get_redis w) (pfx @ refreshLockKey (rf_account e))
      \<and> stored_token s (rf_account e) w' = stored_token s (rf_account e) w" by simp
next
  fix w w'
  assume "rf_lapse e w w'"
  then show "stored_token s (rf_account e) w' = stored_token s (rf_account e) w" by (intro stored_token_tables lapse)
qed

section \<open>An account that is held for a probe\<close>

text \<open>The row is as it was, or its status is \<open>error\<close> now.\<close>

definition held_row :: "string \<Rightarrow> 'z AccountTables_scheme \<Rightarrow> 'z AccountTables_scheme \<Rightarrow> bool" where
  "held_row k w w' \<longleftrightarrow> stored_row w' k = stored_row w k \<or> (stored_row w k \<noteq> None \<and> (\<exists>b. stored_row w' k = Some b \<and> Status b = AccountError))"

lemma held_row_refl [simp]: "held_row k w w"
  by (simp add: held_row_def)

lemma held_row_trans: "held_row k w v \<Longrightarrow> held_row k v u \<Longrightarrow> held_row k w u"
  unfolding held_row_def by metis

lemma held_row_tables:
  assumes "tables_of w' = tables_of w"
  shows "held_row k w w'"
  using stored_row_tables [OF assms] by (simp add: held_row_def)

context shared_refresh begin

lemma refresh_contract: "serial_refresh e (\<lambda>w. str (get_redis w) (pfx @ refreshLockKey (rf_account e))) (stored_token s (rf_account e))"
  by unfold_locales

lemma save_held:
  assumes "SaveOAuthRefresh (rf_store e) (rf_account e) u w = (x, w')" "ru_Status u = AccountError"
  shows "held_row (rf_account e) w w'"
proof -
  obtain r where r: "mg_UpdateAccount s (rf_account e) (refresh_patch u) w = (r, w')"
    using assms(1) by (auto simp: store adapter_credentials_def adapter_SaveOAuthRefresh_def postgres_adapter_def error_of_def Let_def split: prod.splits sum.splits if_splits)
  have p: "ua_ProxyID (refresh_patch u) = None" "ua_Status (refresh_patch u) = Some AccountError" using assms(2) by (simp_all add: refresh_patch_def)
  show ?thesis
  proof (cases r)
    case (Inl err)
    then show ?thesis by (intro held_row_tables update_shared(2) [OF r p(1)]) simp
  next
    case (Inr a)
    obtain old b where b: "stored_row w (rf_account e) = Some old" "stored_row w' (rf_account e) = Some b" "Status b = Status (apply_status (ua_Status (refresh_patch u)) old)"
      by (rule account_repository.updated_row [OF repository wired r [unfolded Inr]])
    have "Status b = AccountError" unfolding b(3) p(2) by (simp add: apply_status_def)
    with b(1,2) show ?thesis by (simp add: held_row_def)
  qed
qed

lemma reload_held:
  assumes "refresh_reload (rf_store e) (rf_account e) cr AccountError w = (r, w')"
  shows "held_row (rf_account e) w w'"
proof -
  obtain q v where q: "ocs_Credentials (rf_store e) (rf_account e) w = (q, v)" by (rule prod.exhaust)
  then have "GetAccountCredentials s (rf_account e) w = (q, v)" by (simp add: store adapter_credentials_def adapter_Credentials_def postgres_adapter_def)
  from credentials_untouched [OF this] have v: "held_row (rf_account e) w v" by (intro held_row_tables) (simp add: untouched_def)
  let ?u = "\<lparr>ru_Credentials = None, ru_Status = AccountError, ru_CooldownUntil = None, ru_LastError = ''''\<rparr>"
  have "w' = v \<or> (\<exists>x. SaveOAuthRefresh (rf_store e) (rf_account e) ?u v = (x, w'))"
    using assms q by (auto simp: refresh_reload_def split: prod.splits sum.splits if_splits option.splits)
  then show ?thesis using v held_row_trans [OF v save_held [of ?u v]] by auto
qed

lemma failure_held:
  assumes "recordRefreshFailure (rf_service e) (rf_store e) (rf_account e) cur cause AccountError w = (r, w')"
  shows "held_row (rf_account e) w w'"
proof -
  obtain t v where t: "rs_Now (rf_service e) w = (t, v)" by (rule prod.exhaust)
  have v: "held_row (rf_account e) w v" by (intro held_row_tables) (use watch [OF t] in \<open>simp add: untouched_def\<close>)
  let ?u = "failure_update (rf_service e) t cur (oauthRefreshFailureSummary cause) AccountError"
  obtain x where "SaveOAuthRefresh (rf_store e) (rf_account e) ?u v = (x, w')"
    using assms t by (auto simp: recordRefreshFailure_def Let_def split: prod.splits option.splits)
  then have "held_row (rf_account e) v w'" by (rule save_held) (simp add: failure_update_def)
  with v show ?thesis by (rule held_row_trans)
qed

lemma step_held:
  assumes "refresh_step e c c'" "\<And>i. rf_status e i = AccountError"
  shows "held_row (rf_account e) (rf_world c) (rf_world c')"
  using assms(1)
proof cases
  case (load i r w')
  then have "GetAccountCredentials s (rf_account e) (rf_world c) = (r, w')" by (simp add: store adapter_credentials_def adapter_Credentials_def postgres_adapter_def)
  from credentials_untouched [OF this] show ?thesis using load(1) by (auto simp: untouched_def intro: held_row_tables)
next
  case (lock i cr r w')
  have "0 < refreshLockTTL (rf_service e)" by (simp add: refreshLockTTL_def)
  from lock_strings(1) [OF lock(3) [unfolded locks redis_locks_def, simplified] this] show ?thesis using lock(1) by (auto intro: held_row_tables)
next
  case (reload i cr r w')
  from reload_held reload assms(2) show ?thesis by simp
next
  case (request i cur r w')
  have "untouched get_redis (rf_world c) w'"
    using request(4) by (auto simp: ask_def oauth_Refresh_def untouched_def dest: request_untouched [unfolded untouched_def] split: if_splits)
  then show ?thesis using request(1) by (auto simp: untouched_def answer_def intro: held_row_tables)
next
  case (save i u x w')
  from save_held [OF save(3)] assms(2) show ?thesis using save(1) by simp
next
  case (record_failure i cur cause r w')
  from failure_held record_failure assms(2) show ?thesis by simp
next
  case (unlock i r w')
  from unlock_strings(1) [OF unlock(3) [unfolded locks redis_locks_def, simplified]] show ?thesis using unlock(1) by (auto intro: held_row_tables)
qed (use idle lapse in \<open>auto intro: held_row_tables\<close>)

lemma steps_held:
  assumes "refresh_steps e c c'" "\<And>i. rf_status e i = AccountError"
  shows "held_row (rf_account e) (rf_world c) (rf_world c')"
  using assms(1)
proof (induction rule: rtranclp_induct)
  case (step y z)
  from step.IH step_held [OF step.hyps(2) assms(2)] show ?case by (rule held_row_trans)
qed simp

end

section \<open>A program state\<close>

text \<open>The tables with the small Redis of \<open>Redis_Laws\<close>; credentials are told by their refresh token, the endpoint answers with the next one.\<close>

record shared_tables = AccountTables +
  sh_redis :: mem_redis

definition shared_db :: "unit shared_tables_ext AccountDB" where
  "shared_db =
     \<lparr>ad_fault = (\<lambda>_ w. (None, w)), ad_random = (\<lambda>n w. (Inr (replicate n (CHR ''r'')), w)), ad_perm = (\<lambda>_ n. [0..<n]), ad_lower = ToLower,
      ad_ilike = Contains, ad_jsontext = concat, ad_encode = (\<lambda>_. ErrText ''out of range''), ad_timeNow = tb_clock\<rparr>"

definition token_credentials :: "string \<Rightarrow> Credentials" where
  "token_credentials token = zero_credentials\<lparr>AccessToken := ''access'', RefreshToken := token\<rparr>"

definition shared_lib :: SecLib where
  "shared_lib = \<lparr>HmacSHA256 = (\<lambda>k m. k @ m), HmacSHA1 = (\<lambda>k m. m), RawURLEncoding = (\<lambda>s. s), RawStdEncode = (\<lambda>s. s), RawStdDecode = Some,
     Base32Encode = (\<lambda>s. s), Base32Decode = Some, url_PathEscape = (\<lambda>s. s), QueryEscape = (\<lambda>s. s), Upper = (\<lambda>s. s),
     Argon2IDKey = (\<lambda>p s a b c d. p), ScanParams = (\<lambda>_. None)\<rparr>"

definition shared_management :: "shared_tables ManagementService" where
  "shared_management =
     \<lparr>mg_accounts = accounts_repository shared_db, mg_models = models_repository shared_db, mg_proxies = proxies_repository shared_db,
      mg_keys = keys_repository shared_db, has_accounts = True, has_proxies = True, has_keys = True, has_tokens = True,
      mg_cipher = Some \<lparr>NonceSize = 12, Overhead = 0, aead_Seal = (\<lambda>nonce p ad. p), aead_Open = (\<lambda>nonce c ad. Some c)\<rparr>,
      mg_pepper = ''pepper'', mg_now = (\<lambda>w. (tb_clock w, w)), mg_random = ad_random shared_db, mg_lib = shared_lib,
      mg_Marshal = (\<lambda>c. if c = token_credentials (RefreshToken c) then Inr (RefreshToken c) else Inl (ErrText ''json'')),
      mg_Unmarshal = (\<lambda>p. Inr (token_credentials p)), mg_ParseURL = (\<lambda>_. None), mg_URLText = (\<lambda>u. ''''), mg_EqualFold = (=)\<rparr>"

definition put_shared :: "mem_redis \<Rightarrow> shared_tables \<Rightarrow> shared_tables" where "put_shared r w = w\<lparr>sh_redis := r\<rparr>"

definition shared_redis :: "mem_redis Redis" where "shared_redis = \<lparr>client = Some mem_server, prefix = ''grok:''\<rparr>"

definition next_token :: "string \<Rightarrow> TokenPayload" where
  "next_token body = \<lparr>tp_AccessToken = ''access'', tp_RefreshToken = ''next'', tp_IDToken = '''', tp_TokenType = '''', tp_Scope = '''', ExpiresIn = OtherValue\<rparr>"

definition shared_oauth :: "shared_tables OAuthService" where
  "shared_oauth =
     \<lparr>os_config = \<lparr>AuthorizationURL = ''https://auth'', TokenURL = ''https://token'', oc_ClientID = '''', RedirectURL = ''https://back'', oc_Scope = '''',
                   ExtraAuth = [], ExtraToken = [], StateTTL = 0\<rparr>,
      os_lib = \<lparr>ol_sec = shared_lib, ol_SHA256 = rev, ol_Parse = (\<lambda>u. Inr (u, [])), ol_String = (\<lambda>b q. b @ q), ol_Decode = (\<lambda>b. Inr (next_token b)),
                ol_NewRequest = (\<lambda>_. None)\<rparr>,
      os_state = Some (redis_states sh_redis put_shared shared_redis), os_now = (\<lambda>w. (tb_clock w, w)),
      os_random = (\<lambda>n w. (Inr (replicate n (CHR ''v'')), w)), os_send = (\<lambda>u form w. (Inr (200, Inr form), w))\<rparr>"

definition shared_service :: "shared_tables RefreshService" where
  "shared_service =
     \<lparr>rs_OAuth = Some shared_oauth, rs_Store = Some (adapter_credentials 2 (postgres_adapter shared_db shared_management)),
      rs_Locks = Some (redis_locks sh_redis put_shared shared_redis), Before = 0, rs_Concurrency = 5, LockTTL = 0, FailureCooldown = 0,
      rs_Now = (\<lambda>w. (tb_clock w, w)), OnAccountsChanged = None, rs_random = (\<lambda>w. ('''', w)), rs_wait = (\<lambda>w. (Some Canceled, w)),
      rs_slot = (\<lambda>w. (True, w)), rs_tick = (\<lambda>w. (Some Canceled, w)), rs_ctxErr = (\<lambda>w. None), rs_visit = (\<lambda>js. js)\<rparr>"

definition sample_refreshers :: "(shared_tables \<Rightarrow> shared_tables \<Rightarrow> bool) \<Rightarrow> AccountStatus \<Rightarrow> shared_tables refreshers" where
  "sample_refreshers rest st =
     \<lparr>rf_service = shared_service, rf_oauth = shared_oauth, rf_store = adapter_credentials 2 (postgres_adapter shared_db shared_management),
      rf_locks = redis_locks sh_redis put_shared shared_redis, rf_account = ''a'', rf_owner = (\<lambda>i. replicate i (CHR ''o'')), rf_status = (\<lambda>_. st),
      rf_before = (\<lambda>_. 0), rf_idle = rest, rf_lapse = rest\<rparr>"

interpretation mem_states: dropping_redis mem_server mem_clock mem_str mem_zs sh_redis put_shared "''grok:''"
  by unfold_locales (simp_all add: put_shared_def mem_server_def)

lemma shared_quiet: "db_quiet shared_db"
  by (simp add: db_quiet_def shared_db_def)

lemma shared_secrets: "secrets_ok shared_management"
  by (auto simp: secrets_ok_def shared_management_def aead_ok_def reads_fully_def shared_db_def split: if_splits)

lemma sample_shared:
  assumes "\<And>w w'. rest w w' \<Longrightarrow> w' = w"
  shows "shared_refresh mem_server mem_clock mem_str mem_zs sh_redis put_shared ''grok:'' shared_db shared_management (sample_refreshers rest st) 2"
proof unfold_locales
  show "db_quiet shared_db" "secrets_ok shared_management" by (rule shared_quiet shared_secrets)+
qed (auto simp: put_shared_def shared_redis_def mem_server_def tables_of_def shared_db_def shared_management_def sample_refreshers_def shared_service_def shared_oauth_def
    untouched_def inj_def replicate_eq_replicate dest!: assms)

interpretation mem_refresh: shared_refresh mem_server mem_clock mem_str mem_zs sh_redis put_shared "''grok:''" shared_db shared_management "sample_refreshers (=) st" 2
  by (rule sample_shared) simp

end
