(* ===== verification/OAuth_Properties.thy ===== *)
theory OAuth_Properties
  imports OAuth_Instance Memory_Store
begin

text \<open>
  The properties of the OAuth services on the database and Redis: a state is exchanged once, refreshes of one account are serialized, a refresh
  for a probe does not bring the account back, and a refresh returns when its context ends.
\<close>

section \<open>The authorization\<close>

text \<open>C26: A pending authorization is exchanged at most once. Its verifier never leaves the server before: the session that is returned has none. When the
  exchange succeeds it sent the verifier whose challenge the authorization carried, and every later exchange of the same state fails,
  whatever keys expire and whatever calls of Redis fail in between.\<close>

theorem pkce_state_single_use:
  assumes "dropping_redis srv clk str zs get_redis put_redis"
    and "os_state s = Some (redis_states get_redis put_redis \<lparr>client = Some srv, prefix = pfx\<rparr>)"
    and "\<forall>u b w k. str (get_redis (snd (os_send s u b w))) (pfx @ k) \<in> {None, str (get_redis w) (pfx @ k)}"
    and "\<forall>w k. str (get_redis (snd (os_now s w))) (pfx @ k) \<in> {None, str (get_redis w) (pfx @ k)}"
    and "BeginContext s x w = (Inr sess, w1)" "\<forall>k. str (get_redis w2) (pfx @ k) \<in> {None, str (get_redis w1) (pfx @ k)}"
    and "ExchangeState s code (State sess) w2 = (Inr c, w3)" "\<forall>k. str (get_redis w4) (pfx @ k) \<in> {None, str (get_redis w3) (pfx @ k)}"
  shows "Verifier sess = '''' \<and> (\<exists>v u. Challenge sess = pkce_challenge (os_lib s) v \<and> Exchange s code v u = (Inr c, w3))
    \<and> isl (fst (ExchangeState s code' (State sess) w4))"
proof -
  let ?p = "\<lambda>w k. str (get_redis w) (pfx @ k)" and ?st = "redis_states get_redis put_redis \<lparr>client = Some srv, prefix = pfx\<rparr>"
  note o = dropping_redis.states_contract [OF assms(1), of pfx]
  have le: "?p v \<subseteq>\<^sub>m ?p u" if "\<forall>k. str (get_redis v) (pfx @ k) \<in> {None, str (get_redis u) (pfx @ k)}" for u v
    using that unfolding map_le_def by (metis domIff insertE singletonD)
  have l: "oauth_states.leaves ?p s" unfolding oauth_states.leaves_def [OF o] using assms(3,4) by (intro conjI allI le) auto
  obtain v where "Verifier sess = ''''" by (rule oauth_states.begun [OF o assms(2,5)])
  with oauth_states.single_use [OF o assms(2) l assms(5) le [OF assms(6)] assms(7) le [OF assms(8)]] show ?thesis by blast
qed

section \<open>Refreshes\<close>


text \<open>C24: \<open>refreshAccount\<close> with a lock is a run of the steps of one refresher: from the credentials it was given, through the lock, the second load, the
  request and the save or the record of the failure, to the release of the lock, while every other refresher stays where it is.\<close>

theorem refresh_takes_steps:
  assumes "rs_Locks (rf_service e) = Some (rf_locks e)" "rs_random (rf_service e) (rf_world c) = (rf_owner e i, v)" "rf_idle e (rf_world c) v"
    and "\<forall>u. rf_idle e u (snd (rs_wait (rf_service e) u))" "rf_phase c i = Loaded cr"
    and "refreshAccount (rf_service e) (rf_oauth e) (rf_store e) (rf_account e) cr (rf_before e i) (rf_status e i) (rf_world c) = Some (r, w')"
  shows "\<exists>c'. refresh_steps e c c' \<and> rf_world c' = w' \<and> rf_phase c' = (rf_phase c)(i := Gone)"
proof -
  have idle: "rf_idle e u u'" if "rs_wait (rf_service e) u = (y, u')" for u y u' using assms(4) that by (metis snd_conv)
  have "moved e i c ((=) Gone) w'" by (rule refreshAccount_steps [OF assms(1-3) _ assms(6,5) refl]) (rule idle)
  then obtain c' where
    "refresh_steps e c c'" "rf_world c' = w'" "rf_phase c' i = Gone" "\<forall>j. j \<noteq> i \<longrightarrow> rf_phase c' j = rf_phase c j" by (auto simp: moved_def)
  then show ?thesis by (intro exI [of _ c']) auto
qed

text \<open>C25: A refresh that holds an account for a probe (\<open>RefreshAccountForProbe\<close> asks for the status \<open>error\<close>) leaves the account's row as it is or leaves it with
  the status \<open>error\<close>: whether the refresh succeeds, fails, finds the credentials already refreshed or waits in vain, it never makes the account
  active and never parks it in a cooldown that ends by itself.\<close>

theorem probe_refresh_holds:
  assumes "shared_refresh srv clk str zs get_redis put_redis pfx db s e budget" "\<forall>i. rf_status e i = AccountError"
    and "rs_Locks (rf_service e) = Some (rf_locks e)" "rs_random (rf_service e) w = (rf_owner e i, v)" "rf_idle e w v"
    and "\<forall>u. rf_idle e u (snd (rs_wait (rf_service e) u))"
    and "refreshAccount (rf_service e) (rf_oauth e) (rf_store e) (rf_account e) cr (rf_before e i) AccountError w = Some (r, w')"
  shows "stored_row w' (rf_account e) = stored_row w (rf_account e)
    \<or> (\<exists>b. stored_row w' (rf_account e) = Some b \<and> Status b = AccountError)"
proof -
  let ?c = "\<lparr>rf_world = w, rf_phase = (\<lambda>_. Loaded cr), rf_asked = [], rf_received = '''', rf_lost = False\<rparr>"
  have idle: "rf_idle e u u'" if "rs_wait (rf_service e) u = (y, u')" for u y u' using assms(6) that by (metis snd_conv)
  have a: "refreshAccount (rf_service e) (rf_oauth e) (rf_store e) (rf_account e) cr (rf_before e i) (rf_status e i) w = Some (r, w')"
    using assms(2,7) by simp
  have "moved e i ?c ((=) Gone) w'" by (rule refreshAccount_steps [OF assms(3-5) _ a]) (auto intro: idle)
  then obtain c' where c': "refresh_steps e ?c c'" "rf_world c' = w'" by (auto simp: moved_def)
  from shared_refresh.steps_held [OF assms(1) c'(1)] assms(2) c'(2) show ?thesis by (auto simp: held_row_def)
qed

lemma lock_loop_returns:
  assumes "\<And>u r u'. lk_SetNX lk key own ttl u = (r, u') \<Longrightarrow> patience u' \<le> patience u"
    and "\<And>u u'. wait u = (None, u') \<Longrightarrow> patience u' < (patience u :: nat)"
  shows "lock_loop lk wait key own ttl w \<noteq> None"
proof (induction "patience w" arbitrary: w rule: less_induct)
  case less
  obtain r w1 where r: "lk_SetNX lk key own ttl w = (r, w1)" by (rule prod.exhaust)
  obtain x w2 where x: "wait w1 = (x, w2)" by (rule prod.exhaust)
  have "patience w2 < patience w" if "x = None" using assms(1) [OF r] assms(2) [of w1 w2] x that by simp
  from less [OF this] show ?case
    by (subst lock_loop.simps) (auto simp: r x split: sum.split option.split)
qed

text \<open>C27: A refresh returns: when the context of the caller ends after at most \<open>patience w\<close> more waits, the loop that waits for the lock comes to an end,
  however long another instance keeps the lock.\<close>

theorem refresh_returns:
  assumes "\<forall>lk key own ttl u. if rs_Locks s = Some lk then patience (snd (lk_SetNX lk key own ttl u)) \<le> patience u else True"
    and "\<forall>u. if fst (rs_wait s u) = None then patience (snd (rs_wait s u)) < (patience u :: nat) else True"
  shows "refreshAccount s oauth st k cr before status w \<noteq> None"
proof (cases "rs_Locks s")
  case None
  then show ?thesis by (simp add: refreshAccount_def)
next
  case (Some lk)
  have "lock_loop lk (rs_wait s) key own ttl u \<noteq> None" for key own ttl u
  proof (rule lock_loop_returns [of lk key own ttl patience])
    show "patience v' \<le> patience v" if "lk_SetNX lk key own ttl v = (r, v')" for v r v' using assms(1) Some that by (metis snd_conv)
    show "patience v' < patience v" if "rs_wait s v = (None, v')" for v v' using assms(2) that by (metis fst_conv snd_conv)
  qed
  then have "\<exists>x u'. lock_loop lk (rs_wait s) key own ttl u = Some (x, u')" for key own ttl u by auto
  from this [of "refreshLockKey k" "fst (rs_random s w)" "refreshLockTTL s" "snd (rs_random s w)"] obtain x u' where
    "lock_loop lk (rs_wait s) (refreshLockKey k) (fst (rs_random s w)) (refreshLockTTL s) (snd (rs_random s w)) = Some (x, u')" by blast
  then show ?thesis using Some by (cases x) (simp_all add: refreshAccount_def case_prod_beta')
qed

section \<open>Witnesses\<close>

definition stored_token_account :: Account where
  "stored_token_account = (sample_account ''a'')\<lparr>CredentialCipher := CHR 0x01 # replicate 12 (CHR ''r'') @ ''first'', CredentialFingerprint := ''print''\<rparr>"

definition empty_redis :: mem_redis where
  "empty_redis = \<lparr>mem_clock = 1000, mem_strings = (\<lambda>_. None), mem_sets = (\<lambda>_. ([], None))\<rparr>"

definition shared_sample :: shared_tables where
  "shared_sample = \<lparr>tb_accounts = [stored_token_account], tb_proxies = [], tb_models = [], tb_keys = [], tb_clock = 100, sh_redis = empty_redis\<rparr>"

definition starting :: "shared_tables refreshing" where
  "starting = \<lparr>rf_world = shared_sample, rf_phase = (\<lambda>_. Arrived), rf_asked = [], rf_received = ''first'', rf_lost = False\<rparr>"

text \<open>Two refreshers load the same credentials; the first one takes the lock and asks.\<close>

definition race :: "shared_tables refreshing" where
  "race = schedule (sample_refreshers (\<lambda>_ _. False) AccountActive) [0, 1, 0, 1, 0, 0] starting"

abbreviation "quiet_refreshers \<equiv> sample_refreshers (\<lambda>_ _. False) AccountActive"
abbreviation "lock_of_a \<equiv> ''grok:'' @ refreshLockKey ''a''"

lemma sample_load:
  assumes "tb_accounts w = [stored_token_account]"
  shows "ocs_Credentials (rf_store quiet_refreshers) ''a'' w = (Inr (token_credentials ''first''), w)"
proof -
  have "openCredentials shared_management ''a'' (CredentialCipher stored_token_account) = Inr (token_credentials ''first'')" by code_simp
  moreover have "ID stored_token_account = ''a''" by (simp add: stored_token_account_def sample_account_def)
  moreover have "mg_accounts shared_management = accounts_repository shared_db" by (simp add: shared_management_def)
  ultimately show ?thesis using assms
    by (simp add: sample_refreshers_def adapter_credentials_def adapter_Credentials_def postgres_adapter_def GetAccountCredentials_def accounts_repository_def
        GetAccount_def ad_trip_def shared_db_def find_row_def yield_def)
qed

lemma sample_lock:
  "lk_SetNX (rf_locks quiet_refreshers) (refreshLockKey ''a'') v (2 * Minute) w =
    (if mem_str (sh_redis w) lock_of_a = None then (Inr True, put_shared (put_str lock_of_a v (Some (mem_clock (sh_redis w) + 120000)) (sh_redis w)) w)
     else (Inr False, put_shared (sh_redis w) w))"
proof -
  have "expiry_ms (2 * Minute) = 120000" by code_simp
  then show ?thesis
    by (simp add: sample_refreshers_def redis_locks_def lift_state_def shared_redis_def SetNX_def with_client_def round_trip_def mem_server_def Key_def
        cong: if_cong)
qed

lemma sample_ask:
  "ask quiet_refreshers (token_credentials ''first'') w = (Inr (token_credentials ''next''), w)"
  by (simp add: ask_def oauth_Refresh_def tokenRequest_def token_result_def sample_refreshers_def shared_oauth_def next_token_def number_def keep_text_def
      token_credentials_def zero_credentials_def Let_def)

lemma turn_arrived:
  assumes "rf_phase c i = Arrived" "tb_accounts (rf_world c) = [stored_token_account]"
  shows "turn quiet_refreshers i c = goto i (Loaded (token_credentials ''first'')) (rf_world c) c"
  using assms(1) sample_load [OF assms(2)] by (simp add: turn_def sample_refreshers_def)

lemma turn_locks:
  assumes "rf_phase c i = Loaded cr"
  shows "turn quiet_refreshers i c =
    (if mem_str (sh_redis (rf_world c)) lock_of_a = None
     then goto i (Locked cr) (put_shared (put_str lock_of_a (replicate i (CHR ''o'')) (Some (mem_clock (sh_redis (rf_world c)) + 120000)) (sh_redis (rf_world c))) (rf_world c)) c
     else goto i (Loaded cr) (put_shared (sh_redis (rf_world c)) (rf_world c)) c)"
  using assms sample_lock [of "replicate i (CHR ''o'')" "rf_world c"]
  by (simp add: turn_def sample_refreshers_def refreshLockTTL_def shared_service_def)

lemma turn_reloads:
  assumes "rf_phase c i = Locked (token_credentials ''first'')" "tb_accounts (rf_world c) = [stored_token_account]"
  shows "turn quiet_refreshers i c = goto i (Ready (token_credentials ''first'')) (rf_world c) c"
  using assms(1) sample_load [OF assms(2)] by (simp add: turn_def sample_refreshers_def refresh_reload_def sameOAuthCredentials_def)

lemma turn_asks:
  assumes "rf_phase c i = Ready (token_credentials ''first'')"
  shows "turn quiet_refreshers i c =
    answer (token_credentials ''first'') (Inr (token_credentials ''next'')) (goto i (Answered (token_credentials ''next'')) (rf_world c) c)"
  using assms sample_ask [of "rf_world c"] by (simp add: turn_def sample_refreshers_def still_fresh_def)

lemma race_run: "rf_asked race = [(''first'', ''first'')]" "working (rf_phase race 0)" "\<not> working (rf_phase race 1)"
  by (simp_all add: race_def schedule_def turn_arrived turn_locks turn_reloads turn_asks goto_def starting_def shared_sample_def empty_redis_def put_shared_def
      put_str_def mem_str_def mem_alive_def working_def answer_def token_credentials_def)


text \<open>A refresh that is granted the next token, seen from the code and from the steps.\<close>

definition all_loaded :: "shared_tables refreshing" where
  "all_loaded = starting\<lparr>rf_phase := (\<lambda>_. Loaded (token_credentials ''first''))\<rparr>"

abbreviation "sample_store \<equiv> adapter_credentials 2 (postgres_adapter shared_db shared_management)"

lemma sample_refresh_ends:
  obtains r w' where "refreshAccount shared_service shared_oauth sample_store ''a'' (token_credentials ''first'') 0 st shared_sample = Some (r, w')"
proof -
  have l: "lk_SetNX (redis_locks sh_redis put_shared shared_redis) (refreshLockKey ''a'') '''' (2 * Minute) shared_sample
      = (Inr True, put_shared (put_str lock_of_a '''' (Some 121000) empty_redis) shared_sample)"
    using sample_lock [of "''''" shared_sample] by (simp add: sample_refreshers_def shared_sample_def empty_redis_def mem_str_def)
  have "lock_loop (redis_locks sh_redis put_shared shared_redis) (rs_wait shared_service) (refreshLockKey ''a'') '''' (2 * Minute) shared_sample
      = Some (None, put_shared (put_str lock_of_a '''' (Some 121000) empty_redis) shared_sample)"
    by (subst lock_loop.simps) (simp only: l prod.case sum.case if_True)
  then have "\<exists>x. refreshAccount shared_service shared_oauth sample_store ''a'' (token_credentials ''first'') 0 st shared_sample = Some x"
    by (simp add: refreshAccount_def shared_service_def refreshLockTTL_def Let_def)
  with that show ?thesis by (metis surj_pair)
qed

lemma sample_refreshers_simps:
  "rf_service (sample_refreshers rest st) = shared_service" "rf_oauth (sample_refreshers rest st) = shared_oauth"
  "rf_store (sample_refreshers rest st) = sample_store" "rf_locks (sample_refreshers rest st) = redis_locks sh_redis put_shared shared_redis"
  "rf_account (sample_refreshers rest st) = ''a''" "rf_before (sample_refreshers rest st) i = 0" "rf_status (sample_refreshers rest st) i = st"
  "rf_owner (sample_refreshers rest st) i = replicate i (CHR ''o'')" "rf_idle (sample_refreshers rest st) = rest"
  "rs_Locks shared_service = Some (redis_locks sh_redis put_shared shared_redis)" "rs_random shared_service w = ('''', w)"
  "rs_wait shared_service w = (Some Canceled, w)"
  by (simp_all add: sample_refreshers_def shared_service_def)

theorem refresh_takes_steps_witness:
  "\<exists>r w' c'. refreshAccount shared_service shared_oauth sample_store ''a'' (token_credentials ''first'') 0 AccountActive shared_sample = Some (r, w')
    \<and> refresh_steps (sample_refreshers (=) AccountActive) all_loaded c' \<and> rf_world c' = w' \<and> rf_phase c' = (rf_phase all_loaded)(0 := Gone)"
proof -
  obtain r w' where r: "refreshAccount shared_service shared_oauth sample_store ''a'' (token_credentials ''first'') 0 AccountActive shared_sample = Some (r, w')"
    by (rule sample_refresh_ends)
  have "\<exists>c'. refresh_steps (sample_refreshers (=) AccountActive) all_loaded c' \<and> rf_world c' = w' \<and> rf_phase c' = (rf_phase all_loaded)(0 := Gone)"
    by (rule refresh_takes_steps [where v = shared_sample and cr = "token_credentials ''first''"])
      (use r in \<open>simp_all add: sample_refreshers_simps all_loaded_def starting_def\<close>)
  with r show ?thesis by blast
qed

theorem probe_refresh_holds_witness:
  "\<exists>r w'. refreshAccount shared_service shared_oauth sample_store ''a'' (token_credentials ''first'') 0 AccountError shared_sample = Some (r, w')
    \<and> (stored_row w' ''a'' = stored_row shared_sample ''a'' \<or> (\<exists>b. stored_row w' ''a'' = Some b \<and> Status b = AccountError))"
proof -
  obtain r w' where r: "refreshAccount shared_service shared_oauth sample_store ''a'' (token_credentials ''first'') 0 AccountError shared_sample = Some (r, w')"
    by (rule sample_refresh_ends)
  from probe_refresh_holds [OF mem_refresh.shared_refresh_axioms [of AccountError], of shared_sample 0 shared_sample "token_credentials ''first''" r w'] r
  have "stored_row w' ''a'' = stored_row shared_sample ''a'' \<or> (\<exists>b. stored_row w' ''a'' = Some b \<and> Status b = AccountError)"
    by (simp add: sample_refreshers_simps)
  with r show ?thesis by blast
qed

text \<open>A context that ends after as many waits as the clock says, while another instance keeps the lock.\<close>

definition patient_service :: "shared_tables RefreshService" where
  "patient_service = shared_service\<lparr>rs_wait := (\<lambda>w. if 0 < tb_clock w then (None, w\<lparr>tb_clock := tb_clock w - 1\<rparr>) else (Some Canceled, w))\<rparr>"

theorem refresh_returns_witness:
  "refreshAccount patient_service shared_oauth sample_store ''a'' (token_credentials ''first'') 0 AccountActive
     (put_shared (put_str lock_of_a ''another'' None empty_redis) shared_sample) \<noteq> None"
proof -
  have w: "rs_Locks patient_service = Some (redis_locks sh_redis put_shared shared_redis)" by (simp add: patient_service_def shared_service_def)
  have "tb_clock (snd (lk_SetNX (redis_locks sh_redis put_shared shared_redis) key own ttl u)) = tb_clock u" for key own ttl u
    by (simp add: redis_locks_def lift_state_def put_shared_def case_prod_beta)
  with w show ?thesis
    by (intro refresh_returns [of _ "\<lambda>w. nat (tb_clock w)"]) (simp_all add: patient_service_def)
qed

text \<open>An authorization with a client of its own.\<close>

definition pkce_oauth :: "shared_tables OAuthService" where
  "pkce_oauth = shared_oauth\<lparr>os_config := (os_config shared_oauth)\<lparr>oc_ClientID := ''client''\<rparr>\<rparr>"

lemma sample_begin:
  obtains sess where "State sess = ''state''"
    "BeginContext pkce_oauth ''state'' shared_sample
      = (Inr sess, put_shared (put_str (''grok:'' @ oauthStateKey (os_lib pkce_oauth) ''state'') (replicate 64 (CHR ''v'')) (Some 601000) empty_redis) shared_sample)"
proof (rule that)
  have "expiry_ms (10 * Minute) = 600000" by code_simp
  then show "BeginContext pkce_oauth ''state'' shared_sample
      = (Inr \<lparr>os_AuthorizationURL = ''https://auth'' @ Encode shared_lib (auth_query (os_config pkce_oauth) ''state'' (pkce_challenge (os_lib pkce_oauth) (replicate 64 (CHR ''v''))) []),
              State = ''state'', Verifier = '''', Challenge = pkce_challenge (os_lib pkce_oauth) (replicate 64 (CHR ''v''))\<rparr>,
         put_shared (put_str (''grok:'' @ oauthStateKey (os_lib pkce_oauth) ''state'') (replicate 64 (CHR ''v'')) (Some 601000) empty_redis) shared_sample)"
    by (simp add: BeginContext_def pkce_oauth_def shared_oauth_def shared_lib_def randomToken_def stateTTL_def redis_states_def lift_state_def shared_redis_def
        SetNX_def with_client_def round_trip_def mem_server_def Key_def shared_sample_def empty_redis_def mem_str_def Let_def cong: if_cong)
qed simp

theorem pkce_state_single_use_witness:
  "\<exists>sess w1 c w3. BeginContext pkce_oauth ''state'' shared_sample = (Inr sess, w1) \<and> ExchangeState pkce_oauth ''code'' (State sess) w1 = (Inr c, w3)
    \<and> Verifier sess = '''' \<and> isl (fst (ExchangeState pkce_oauth ''code'' (State sess) w3))"
proof -
  let ?v = "replicate 64 (CHR ''v'')"
  obtain sess where s: "State sess = ''state''"
    "BeginContext pkce_oauth ''state'' shared_sample
      = (Inr sess, put_shared (put_str (''grok:'' @ oauthStateKey (os_lib pkce_oauth) ''state'') ?v (Some 601000) empty_redis) shared_sample)"
    (is "_ = (_, ?w1)") by (rule sample_begin)
  have "TrimSpace ?v \<noteq> ''''" "TrimSpace ''code'' \<noteq> ''''" "TrimSpace ''state'' \<noteq> ''''" by code_simp+
  then obtain c w3 where e: "ExchangeState pkce_oauth ''code'' (State sess) ?w1 = (Inr c, w3)"
    by (auto simp: s(1) ExchangeState_def Exchange_def tokenRequest_def token_result_def number_def pkce_oauth_def shared_oauth_def next_token_def redis_states_def
        lift_state_def shared_redis_def GetDelete_def with_client_def round_trip_def script_getdel_def mem_server_def Key_def put_shared_def put_str_def mem_str_def
        mem_alive_def empty_redis_def Let_def split: prod.split)
  have "Verifier sess = '''' \<and> (\<exists>v u. Challenge sess = pkce_challenge (os_lib pkce_oauth) v \<and> Exchange pkce_oauth ''code'' v u = (Inr c, w3))
      \<and> isl (fst (ExchangeState pkce_oauth ''code'' (State sess) w3))"
    by (rule pkce_state_single_use [OF mem_states.dropping_redis_axioms _ _ _ s(2) _ e])
      (simp_all add: pkce_oauth_def shared_oauth_def shared_redis_def)
  with s(2) e show ?thesis by blast
qed

end
