(* ===== verification/Spec2Isabelle.thy ===== *)
theory Spec2Isabelle
  imports Selection_Properties Pool_Feedback Pool_Steps Memory_Store Gateway_Properties Coordinator_Properties
    Api_Key_Properties Config_Properties Parser_Properties Stream_Properties Serve_Properties Video_Properties
    Tool_Properties Client_Properties Admin_Properties Grok_Properties Server_Properties Probe_Properties
    Management_Properties OAuth_Properties
begin

text \<open>
  \<^bold>\<open>What this is.\<close> GROK-GO is a gateway written in Go: it offers the interfaces of OpenAI and Anthropic to its clients and answers
  them with the accounts of an upstream service. This library is a model of the gateway in HOL, with the theorems that make it correct. A
  definition has the name of the Go function, method or type it translates (with a suffix or a prefix where the name is taken); each theory
  opens with the files it translates, under \<open>src/internal/\<close>.

  \<^bold>\<open>How the parts interact.\<close> A request passes the middleware (\<open>httpx\<close>, \<open>apikey\<close>, \<open>requestlog\<close>) and reaches the gateway handler. The handler
  checks the payload, derives the cache identity of the tenant, takes an account from the pool (\<open>accounts\<close>), asks the upstream client
  (\<open>upstream\<close>) and streams or collects the events it answers with; the outcome goes back into the pool as feedback when the lease is released. The pool loads
  its accounts from the database through the adapters of \<open>app\<close>, and several instances share leases, affinities and cooldowns through Redis. Administrators
  change accounts, keys, proxies and models (\<open>admin\<close>, \<open>store\<close>); background work refreshes OAuth credentials, probes accounts and follows video jobs;
  answers that contain media are copied into the media library, which hands out signed addresses.

  \<^bold>\<open>How the code is represented.\<close>
  \<^item> A struct is a record, an enumeration or a tagged union a datatype. The state that a mutex guards is a record; a critical section is one function
    on it. What the code calls and does not own (clock, random source, network, contexts) is a field of a record of functions over a world \<open>'w\<close>,
    and every call threads the world, so that anything may happen between two calls. An interface of Go is such a record too, and
    the program's own implementation of it is a value of that record.
  \<^item> An error is a value: \<open>error + 'a\<close> for \<open>(T, error)\<close>, \<open>error option\<close> for \<open>error\<close>. A panic is a result of its own (\<open>Go_Prelude\<close>).
  \<^item> An \<open>int64\<close> is an integer with \<open>wrap64\<close> where the code multiplies or adds without a bound; the time code of one-time codes is a 32-bit word. A
    \<open>float64\<close> is a rational number: rounding is not modelled. A Go map is an association list or a map; where the code iterates over one the order
    is an argument or is shown to be irrelevant.
  \<^item> Goroutines that share state are step relations (\<open>Pool_Steps\<close>, \<open>Server_Properties\<close>, \<open>Client_Properties\<close>, \<open>OAuth_Steps\<close>); goroutines
    that share nothing run in an order that is an argument (uploads, probes, a refresh pass).
  \<^item> Code that is not in the repository (HMAC, Argon2, AES-GCM, JSON, URL parsing, PostgreSQL's text functions) is a parameter, a record such as \<open>SecLib\<close>. What
    a theorem relies on is a named hypothesis; the witnesses instantiate it.

  \<^bold>\<open>The theories.\<close>
  \<^item> \<open>Go_Prelude\<close>, \<open>Text_Laws\<close>, \<open>Domain\<close>: Go's integers, strings, times, errors and maps; \<open>domain/types.go\<close>.
  \<^item> \<open>Account_Policy\<close>, \<open>Account_Select\<close>, \<open>Account_Pool\<close>: \<open>accounts/pool.go\<close> and \<open>probe.go\<close>. \<open>Pool_Reload\<close>, \<open>Pool_Acquire\<close>, \<open>Pool_Release\<close>, \<open>Pool_Feedback\<close>,
    \<open>Selection_Properties\<close> and \<open>Pool_Steps\<close> show that a selected account is eligible and reserved, that \<open>Acquire\<close> ends and gives back what it reserved when it fails,
    that the counters equal the requests in flight under every interleaving, and how feedback moves an account between its states. \<open>Memory_Store\<close>: \<open>accounts/memory_store.go\<close>.
    \<open>Quota_Headers\<close>: the two parsers of rate-limit headers.
  \<^item> \<open>Redis_Commands\<close>, \<open>Redis_Laws\<close>, \<open>Redis_Coordinator\<close>, \<open>Coordinator_Properties\<close>: the adapter with its Lua scripts, the contract of a Redis
    server (a locale), a small server that meets it, the coordinator over it, and the bound on leases.
  \<^item> \<open>Upstream_Types\<close>, \<open>Upstream_Json\<close>, \<open>Event_Parser\<close>, \<open>Payload\<close>, \<open>Tool_Names\<close>, \<open>Http_Client\<close>, \<open>Imagine\<close>, \<open>Grok_Client\<close>, \<open>Grok_Video\<close> and the theories
    \<open>Parser_Properties\<close>, \<open>Tool_Properties\<close>, \<open>Client_Properties\<close>, \<open>Grok_Properties\<close>: the upstream client, the events it delivers, the bodies it sends.
  \<^item> \<open>Gateway_Validation\<close>, \<open>Cache_Identity\<close>, \<open>Gateway_Handler\<close>, \<open>Gateway_Stream\<close>, \<open>Gateway_Response\<close>, \<open>Gateway_Video\<close>, \<open>Gateway_Serve\<close>
    and \<open>Gateway_Properties\<close>, \<open>Stream_Properties\<close>, \<open>Serve_Properties\<close>, \<open>Video_Properties\<close>: the request path. Every attempt gives its lease back, a stream never
    panics and is well formed in each of the three protocols, and a video job reaches a final state.
  \<^item> \<open>Api_Key\<close>, \<open>Httpx\<close>, \<open>Request_Log\<close> with \<open>Api_Key_Properties\<close> and \<open>Server_Properties\<close>: limits of a client key, the chain of middleware, the queue of log entries.
  \<^item> \<open>Runtime_Config\<close>, \<open>Config_Properties\<close>: \<open>runtimecfg/settings.go\<close>.
  \<^item> \<open>Security\<close>, \<open>Security_Properties\<close>; \<open>Admin_Store\<close>, \<open>Admin_State\<close>, \<open>Admin_Auth\<close>, \<open>Admin_Sessions\<close>, \<open>Admin_Backend\<close>, \<open>Admin_Properties\<close>: tokens, passwords,
    one-time codes; administrators, their sessions in the database and in Redis, and when sessions end.
  \<^item> \<open>Account_Table\<close>, \<open>Key_Table\<close>, \<open>Table_Laws\<close>, \<open>Table_Properties\<close>: the tables of accounts, proxies, keys and models as lists of rows; each method is its
    statement with the constraints of the migrations. \<open>App_Adapters\<close>, \<open>Adapter_Laws\<close>: the adapters between the tables and the pool.
  \<^item> \<open>Management\<close>, \<open>Management_Laws\<close>, \<open>Management_Properties\<close>: what administrators do with accounts and keys; credentials are sealed and come back.
  \<^item> \<open>Account_Probe\<close>, \<open>Probe_Properties\<close>: \<open>accountprobe/service.go\<close>.
  \<^item> \<open>OAuth\<close>, \<open>OAuth_Refresh\<close>, \<open>OAuth_Laws\<close>, \<open>OAuth_Steps\<close>, \<open>OAuth_Instance\<close>, \<open>OAuth_Properties\<close>: \<open>upstream/oauth.go\<close>; a state is exchanged once, and the refreshes of
    one account, over one database and one Redis, send no refresh token twice.
  \<^item> \<open>Memory_Store\<close> ends with the deployment the witnesses run on.

  \<^bold>\<open>Interfaces.\<close> The contracts between components are locales, each interpreted on the code's own implementation: a coordinator and a Redis server
  (\<open>redis_commands\<close>, \<open>redis_server\<close>, \<open>redis_database\<close>), the stores of accounts, jobs and sessions, an account repository, the store of OAuth states, the lock
  and the stored token of a refresh (\<open>oauth_states\<close>, \<open>serial_refresh\<close>).

  \<^bold>\<open>Loops.\<close> Loops over data are structural. \<open>acquire_loop\<close> has as fuel the number of accounts and two: every turn that asks again has excluded one
  account more. The loop over attempts of a request runs at most the configured number of times. \<open>poll_loop\<close> has fuel, and it is shown that the
  patience of its context is enough; \<open>list_pages\<close> has the number of queries the context allows, and it is shown that one for every 500 rows and one more
  is enough. The loops that wait for a lock or for a ticker may run for ever; they are partial functions into an option, and the lock loop is shown
  to end when its context does.

  \<^bold>\<open>What is not modelled.\<close> The web interface and its embedded files; the HTTP handlers of the administration (\<open>api\<close>), which decode requests, call the
  services above and encode the answers; process start and shutdown, environment variables, the propagation of change events between instances; TLS and proxy
  transport; database migrations as programs (their constraints are in the tables); the tables of request logs, audit logs, settings and stored media;
  flushing, deadlines and the bytes of connections.

  \<^bold>\<open>Limits of the model.\<close> Times are nanoseconds without leap seconds. A database transaction is atomic and statements of different transactions do not
  interleave within one method, except where a theory says so (\<open>Admin_Auth\<close>, \<open>Adapter_Laws\<close>). A Redis lock does not expire while its owner still
  works (\<open>OAuth_Steps\<close>): it lives two minutes, while the calls made under it are bounded by shorter timeouts.
\<close>

end
